(* ===== verification/Abbey_Prelude.thy ===== *)
theory Abbey_Prelude
  imports Main "HOL-Library.Word" "HOL-Library.Sublist"
begin

text \<open>
  Shared vocabulary of the Abbey development.

  \<^item> Rust's \<open>Result<T, E>\<close> is the sum \<open>'e + 'a\<close> with \<open>Inl\<close> for \<open>Err\<close>; the
    operator \<open>?\<close> is \<open>bindr\<close>, and a \<open>for\<close> loop whose body ends in \<open>?\<close> is
    \<open>for_each\<close>.
  \<^item> A Rust \<open>String\<close> is the list of its UTF-8 bytes (HOL's \<open>char\<close> is a byte), so
    \<open>str::len\<close> is \<open>length\<close>; the \<open>char\<close> predicates of the sources are written over
    the byte sequences that encode the code points concerned.
  \<^item> \<open>u64\<close>, \<open>u16\<close> and \<open>usize\<close> values are naturals and \<open>i64\<close> values integers; the
    checked operations and \<open>try_from\<close> conversions carry the bounds of the widths.
  \<^item> Third-party code (chrono, uuid, serde\_json, sha2) is a field of the record
    \<open>externals\<close>, an argument of every definition that calls it.
\<close>

named_theorems rust_simps \<open>equations of the Rust vocabulary: Result, checked integers\<close>
named_theorems rust_elims \<open>inversions of successful Result computations\<close>
named_theorems codec_simps \<open>encode and decode equations of stored enumerations\<close>

section \<open>Result\<close>

definition bindr :: "'e + 'a \<Rightarrow> ('a \<Rightarrow> 'e + 'b) \<Rightarrow> 'e + 'b" where
  "bindr m f = (case m of Inl e \<Rightarrow> Inl e | Inr a \<Rightarrow> f a)"

definition ensure :: "bool \<Rightarrow> 'e \<Rightarrow> 'e + unit" where
  "ensure b e = (if b then Inr () else Inl e)"

definition ok_or :: "'a option \<Rightarrow> 'e \<Rightarrow> 'e + 'a" where
  "ok_or x e = (case x of None \<Rightarrow> Inl e | Some a \<Rightarrow> Inr a)"

definition map_err :: "('e \<Rightarrow> 'f) \<Rightarrow> 'e + 'a \<Rightarrow> 'f + 'a" where
  "map_err f m = (case m of Inl e \<Rightarrow> Inl (f e) | Inr a \<Rightarrow> Inr a)"

definition is_ok :: "'e + 'a \<Rightarrow> bool" where
  "is_ok m = (case m of Inl _ \<Rightarrow> False | Inr _ \<Rightarrow> True)"

fun for_each :: "('a \<Rightarrow> 'e + unit) \<Rightarrow> 'a list \<Rightarrow> 'e + unit" where
  "for_each f [] = Inr ()"
| "for_each f (x # xs) = bindr (f x) (\<lambda>_. for_each f xs)"

fun collect_results :: "('a \<Rightarrow> 'e + 'b) \<Rightarrow> 'a list \<Rightarrow> 'e + 'b list" where
  "collect_results f [] = Inr []"
| "collect_results f (x # xs) =
     bindr (f x) (\<lambda>y. bindr (collect_results f xs) (\<lambda>ys. Inr (y # ys)))"

lemma bindr_Inl [simp]: "bindr (Inl e) f = Inl e"
  and bindr_Inr [simp]: "bindr (Inr a) f = f a"
  by (simp_all add: bindr_def)

lemma bindr_eq_Inr [rust_simps]: "bindr m f = Inr b \<longleftrightarrow> (\<exists>a. m = Inr a \<and> f a = Inr b)"
  by (cases m) simp_all

lemma bindr_eq_Inl [rust_simps]:
  "bindr m f = Inl e \<longleftrightarrow> m = Inl e \<or> (\<exists>a. m = Inr a \<and> f a = Inl e)"
  by (cases m) simp_all

lemma ensure_eq_Inr [rust_simps]: "ensure b e = Inr u \<longleftrightarrow> b"
  by (simp add: ensure_def)

lemma ensure_eq_Inl [rust_simps]: "ensure b e = Inl e' \<longleftrightarrow> \<not> b \<and> e' = e"
  by (auto simp: ensure_def)

lemma ensure_True [simp]: "ensure True e = Inr ()"
  and ensure_False [simp]: "ensure False e = Inl e"
  by (simp_all add: ensure_def)

lemma ok_or_simps [simp]: "ok_or None e = Inl e" "ok_or (Some a) e = Inr a"
  by (simp_all add: ok_or_def)

lemma ok_or_eq_Inr [rust_simps]: "ok_or x e = Inr a \<longleftrightarrow> x = Some a"
  by (cases x) simp_all

lemma ok_or_eq_Inl [rust_simps]: "ok_or x e = Inl e' \<longleftrightarrow> x = None \<and> e' = e"
  by (cases x) auto

lemma map_err_simps [simp]: "map_err f (Inl e) = Inl (f e)" "map_err f (Inr a) = Inr a"
  by (simp_all add: map_err_def)

lemma map_err_eq_Inr [rust_simps]: "map_err f m = Inr a \<longleftrightarrow> m = Inr a"
  by (cases m) simp_all

lemma map_err_eq_Inl [rust_simps]: "map_err f m = Inl e \<longleftrightarrow> (\<exists>d. m = Inl d \<and> e = f d)"
  by (cases m) auto

lemma is_ok_simps [simp]: "\<not> is_ok (Inl e)" "is_ok (Inr a)"
  by (simp_all add: is_ok_def)

lemma is_ok_iff: "is_ok m \<longleftrightarrow> (\<exists>a. m = Inr a)"
  by (cases m) simp_all

lemma for_each_ok [rust_simps]: "for_each f xs = Inr u \<longleftrightarrow> (\<forall>x\<in>set xs. f x = Inr ())"
  by (induction xs) (auto simp: bindr_eq_Inr)

lemma collect_results_ok:
  "collect_results f xs = Inr ys \<longleftrightarrow> list_all2 (\<lambda>x y. f x = Inr y) xs ys"
  by (induction xs arbitrary: ys) (auto simp: bindr_eq_Inr list_all2_Cons1)

lemma collect_results_map:
  "(\<And>x. x \<in> set xs \<Longrightarrow> f x = Inr (g x)) \<Longrightarrow> collect_results f xs = Inr (map g xs)"
  by (induction xs) simp_all

section \<open>Integers of a fixed width\<close>

definition u64_bound :: nat where
  "u64_bound = 2 ^ 64"

definition i64_bound :: nat where
  "i64_bound = 2 ^ 63"

definition checked_add_u64 :: "nat \<Rightarrow> nat \<Rightarrow> nat option" where
  "checked_add_u64 a b = (if a + b < u64_bound then Some (a + b) else None)"

definition checked_sub_u64 :: "nat \<Rightarrow> nat \<Rightarrow> nat option" where
  "checked_sub_u64 a b = (if b \<le> a then Some (a - b) else None)"

definition i64_try_from :: "nat \<Rightarrow> int option" where
  "i64_try_from n = (if n < i64_bound then Some (int n) else None)"

definition u64_try_from :: "int \<Rightarrow> nat option" where
  "u64_try_from i = (if 0 \<le> i then Some (nat i) else None)"

lemma checked_add_u64_Some [rust_simps]:
  "checked_add_u64 a b = Some c \<longleftrightarrow> c = a + b \<and> a + b < u64_bound"
  by (auto simp: checked_add_u64_def)

lemma checked_add_u64_None [rust_simps]: "checked_add_u64 a b = None \<longleftrightarrow> u64_bound \<le> a + b"
  by (auto simp: checked_add_u64_def)

lemma checked_sub_u64_Some [rust_simps]: "checked_sub_u64 a b = Some c \<longleftrightarrow> b \<le> a \<and> c = a - b"
  by (auto simp: checked_sub_u64_def)

lemma checked_sub_u64_None [rust_simps]: "checked_sub_u64 a b = None \<longleftrightarrow> a < b"
  by (auto simp: checked_sub_u64_def)

lemma i64_try_from_Some [rust_simps]:
  "i64_try_from n = Some i \<longleftrightarrow> n < i64_bound \<and> i = int n"
  by (auto simp: i64_try_from_def)

lemma i64_try_from_None [rust_simps]: "i64_try_from n = None \<longleftrightarrow> i64_bound \<le> n"
  by (auto simp: i64_try_from_def)

lemma u64_try_from_Some [rust_simps]: "u64_try_from i = Some n \<longleftrightarrow> i = int n"
  by (auto simp: u64_try_from_def)

lemma u64_i64_roundtrip: "i64_try_from n = Some i \<Longrightarrow> u64_try_from i = Some n"
  by (simp add: rust_simps)

lemma i64_bound_less_u64_bound: "i64_bound < u64_bound"
  by (simp add: i64_bound_def u64_bound_def)

lemma i64_bound_pos: "1 < i64_bound"
  by (simp add: i64_bound_def)

section \<open>Strings as UTF-8 bytes\<close>

definition byte_of :: "char \<Rightarrow> nat" where
  "byte_of c = of_char c"

definition is_ascii_digit :: "char \<Rightarrow> bool" where
  "is_ascii_digit c \<longleftrightarrow> 48 \<le> byte_of c \<and> byte_of c \<le> 57"

definition is_ascii_alphanumeric :: "char \<Rightarrow> bool" where
  "is_ascii_alphanumeric c \<longleftrightarrow> is_ascii_digit c \<or> 65 \<le> byte_of c \<and> byte_of c \<le> 90
     \<or> 97 \<le> byte_of c \<and> byte_of c \<le> 122"

definition is_lower_hex :: "char \<Rightarrow> bool" where
  "is_lower_hex c \<longleftrightarrow> is_ascii_digit c \<or> 97 \<le> byte_of c \<and> byte_of c \<le> 102"

definition to_ascii_lower :: "char \<Rightarrow> char" where
  "to_ascii_lower c = (if 65 \<le> byte_of c \<and> byte_of c \<le> 90 then char_of (byte_of c + 32) else c)"

text \<open>
  \<open>char::is_control\<close> holds of U+0000 to U+001F and U+007F to U+009F. In UTF-8 the first
  group and U+007F are single bytes, the rest are the byte C2 followed by 80 to 9F. The
  predicate \<open>allowed\<close> lets a caller exempt some of the single-byte controls.
\<close>

fun any_control :: "(char \<Rightarrow> bool) \<Rightarrow> string \<Rightarrow> bool" where
  "any_control allowed [] = False"
| "any_control allowed (c # cs) =
     ((byte_of c < 32 \<or> byte_of c = 127) \<and> \<not> allowed c
      \<or> byte_of c = 194 \<and> cs \<noteq> [] \<and> 128 \<le> byte_of (hd cs) \<and> byte_of (hd cs) < 160
      \<or> any_control allowed cs)"

abbreviation has_control :: "string \<Rightarrow> bool" where
  "has_control \<equiv> any_control (\<lambda>_. False)"

text \<open>
  \<open>char::is_whitespace\<close> holds of U+0009 to U+000D, U+0020, U+0085, U+00A0, U+1680,
  U+2000 to U+200A, U+2028, U+2029, U+202F, U+205F and U+3000: \<open>skip_space\<close> removes
  the encoding of one such code point from the front.
\<close>

definition space1 :: "char \<Rightarrow> bool" where
  "space1 a \<longleftrightarrow> 9 \<le> byte_of a \<and> byte_of a \<le> 13 \<or> byte_of a = 32"

definition space2 :: "char \<Rightarrow> char \<Rightarrow> bool" where
  "space2 a b \<longleftrightarrow> byte_of a = 194 \<and> (byte_of b = 133 \<or> byte_of b = 160)"

definition space3 :: "char \<Rightarrow> char \<Rightarrow> char \<Rightarrow> bool" where
  "space3 a b c \<longleftrightarrow>
     byte_of a = 225 \<and> byte_of b = 154 \<and> byte_of c = 128
   \<or> byte_of a = 226 \<and> byte_of b = 128 \<and>
       (128 \<le> byte_of c \<and> byte_of c \<le> 138 \<or> byte_of c \<in> {168, 169, 175})
   \<or> byte_of a = 226 \<and> byte_of b = 129 \<and> byte_of c = 159
   \<or> byte_of a = 227 \<and> byte_of b = 128 \<and> byte_of c = 128"

fun trim_start :: "string \<Rightarrow> string" where
  "trim_start [] = []"
| "trim_start [a] = (if space1 a then [] else [a])"
| "trim_start [a, b] =
     (if space1 a then trim_start [b] else if space2 a b then [] else [a, b])"
| "trim_start (a # b # c # cs) =
     (if space1 a then trim_start (b # c # cs)
      else if space2 a b then trim_start (c # cs)
      else if space3 a b c then trim_start cs
      else a # b # c # cs)"

fun trim_end :: "string \<Rightarrow> string" where
  "trim_end [] = []"
| "trim_end (c # cs) = (if trim_start (c # cs) = [] then [] else c # trim_end cs)"

definition trim :: "string \<Rightarrow> string" where
  "trim s = trim_end (trim_start s)"

lemma trim_eq_Nil: "trim s = [] \<longleftrightarrow> trim_start s = []"
proof -
  have idem: "trim_start (trim_start s) = trim_start s"
    by (induction s rule: trim_start.induct) simp_all
  show ?thesis
    by (cases "trim_start s") (use idem in \<open>auto simp: trim_def\<close>)
qed

lemma trim_end_length: "length (trim_end s) \<le> length s"
  by (induction s) auto

lemma trim_start_length: "length (trim_start s) \<le> length s"
  by (induction s rule: trim_start.induct) auto

lemma trim_length: "length (trim s) \<le> length s"
  unfolding trim_def using trim_end_length trim_start_length le_trans by blast

text \<open>\<open>str::is_char_boundary\<close>: not inside the encoding of a code point. \<open>floor_boundary\<close>
  is the loop that steps back to such an index.\<close>

definition is_char_boundary :: "string \<Rightarrow> nat \<Rightarrow> bool" where
  "is_char_boundary s i \<longleftrightarrow>
     i = 0 \<or> i = length s \<or> i < length s \<and> (byte_of (s ! i) < 128 \<or> 192 \<le> byte_of (s ! i))"

fun floor_boundary :: "string \<Rightarrow> nat \<Rightarrow> nat" where
  "floor_boundary s 0 = 0"
| "floor_boundary s (Suc i) = (if is_char_boundary s (Suc i) then Suc i else floor_boundary s i)"

lemma floor_boundary_le: "floor_boundary s i \<le> i"
  by (induction i) auto

lemma floor_boundary_ok: "is_char_boundary s (floor_boundary s i)"
  by (induction i) (auto simp: is_char_boundary_def)

lemma floor_boundary_id: "is_char_boundary s i \<Longrightarrow> floor_boundary s i = i"
  by (cases i) simp_all

text \<open>A Rust string does not start inside a code point.\<close>

definition starts_char :: "string \<Rightarrow> bool" where
  "starts_char s \<longleftrightarrow> (case s of [] \<Rightarrow> True | c # _ \<Rightarrow> byte_of c < 128 \<or> 192 \<le> byte_of c)"

lemma boundary_append:
  assumes "starts_char t"
  shows "is_char_boundary (s @ t) (length s + i) \<longleftrightarrow> is_char_boundary t i \<or> s = [] \<and> i = 0"
  using assms
  by (cases t) (auto simp: is_char_boundary_def starts_char_def nth_append nth_Cons split: nat.splits)

lemma floor_boundary_append:
  assumes "starts_char t"
  shows "floor_boundary (s @ t) (length s + i) = length s + floor_boundary t i"
proof (induction i)
  case 0
  have "is_char_boundary (s @ t) (length s)" using boundary_append [OF assms, of s 0]
    by (simp add: is_char_boundary_def)
  then show ?case by (simp add: floor_boundary_id)
next
  case (Suc i)
  with boundary_append [OF assms, of s "Suc i"] show ?case by simp
qed

lemma floor_boundary_prefix:
  "i < length s \<Longrightarrow> floor_boundary (s @ t) i = floor_boundary s i"
proof (induction i)
  case (Suc i)
  have "is_char_boundary (s @ t) (Suc i) = is_char_boundary s (Suc i)"
    using Suc.prems by (auto simp: is_char_boundary_def nth_append)
  with Suc show ?case by simp
qed simp

text \<open>A digest is printed as two lower-case hexadecimal digits per byte.\<close>

definition hex_digit :: "nat \<Rightarrow> char" where
  "hex_digit n = char_of (if n < 10 then 48 + n else 87 + n)"

definition hex_byte :: "char \<Rightarrow> string" where
  "hex_byte c = [hex_digit (byte_of c div 16), hex_digit (byte_of c mod 16)]"

definition hex_string :: "string \<Rightarrow> string" where
  "hex_string bytes = concat (map hex_byte bytes)"

lemma of_char_less: "byte_of c < 256"
  by (simp add: byte_of_def)

lemma hex_digit_lower: "n < 16 \<Longrightarrow> is_lower_hex (hex_digit n)"
  by (auto simp: is_lower_hex_def is_ascii_digit_def hex_digit_def byte_of_def)

lemma hex_byte_lower: "list_all is_lower_hex (hex_byte c)" "length (hex_byte c) = 2"
  using of_char_less [of c] by (simp_all add: hex_byte_def hex_digit_lower)

lemma hex_string_valid: "list_all is_lower_hex (hex_string s)" "length (hex_string s) = 2 * length s"
  by (induction s) (simp_all add: hex_string_def hex_byte_lower)

section \<open>JSON values\<close>

text \<open>
  \<open>serde_json::Value\<close>. A number is one of serde\_json's three representations (\<open>Float\<close>
  carries the bit pattern); an object is a list of entries with distinct keys.
\<close>

datatype json_number = PosInt nat | NegInt int | Float "64 word"

datatype json =
    JNull
  | JBool bool
  | JNumber json_number
  | JString string
  | JArray "json list"
  | JObject "(string \<times> json) list"

definition json_get :: "json \<Rightarrow> string \<Rightarrow> json option" where
  "json_get v k = (case v of JObject kvs \<Rightarrow> map_of kvs k | _ \<Rightarrow> None)"

definition json_as_str :: "json \<Rightarrow> string option" where
  "json_as_str v = (case v of JString s \<Rightarrow> Some s | _ \<Rightarrow> None)"

definition json_get_str :: "json \<Rightarrow> string \<Rightarrow> string option" where
  "json_get_str v k = Option.bind (json_get v k) json_as_str"

section \<open>Third-party code\<close>

text \<open>
  What the sources use of other crates: \<open>Uuid::parse_str(s)\<close> followed by \<open>to_string\<close>,
  \<open>DateTime::parse_from_rfc3339\<close> (an instant, compared as an integer),
  \<open>DateTime::from_timestamp_millis\<close> followed by \<open>to_rfc3339_opts\<close>,
  \<open>serde_json::to_string\<close> and \<open>from_str\<close> on values, and SHA-256 on bytes.
\<close>

record externals =
  uuid_canonical :: "string \<Rightarrow> string option"
  parse_from_rfc3339 :: "string \<Rightarrow> int option"
  rfc3339_millis :: "int \<Rightarrow> string option"
  json_to_string :: "json \<Rightarrow> string"
  json_from_str :: "string \<Rightarrow> json option"
  sha256 :: "string \<Rightarrow> string"

section \<open>Lists\<close>

text \<open>The first element with a property, as a unique-key query reads it.\<close>

lemma find_Some_in: "find P xs = Some x \<Longrightarrow> x \<in> set xs \<and> P x"
  by (induction xs) (auto split: if_splits)

lemma find_None_all: "find P xs = None \<longleftrightarrow> (\<forall>x\<in>set xs. \<not> P x)"
  by (induction xs) auto

lemma find_unique:
  assumes "distinct (map k xs)" and "x \<in> set xs" and "k x = a"
  shows "find (\<lambda>y. k y = a) xs = Some x"
  using assms by (induction xs) force+

lemma find_map_same:
  assumes "\<And>x. x \<in> set xs \<Longrightarrow> k (f x) = k x"
  shows "find (\<lambda>y. k y = a) (map f xs) = map_option f (find (\<lambda>y. k y = a) xs)"
  using assms by (induction xs) auto

lemma find_append: "find P (xs @ ys) = (case find P xs of None \<Rightarrow> find P ys | Some x \<Rightarrow> Some x)"
  by (induction xs) auto

lemma map_key_same: "(\<And>x. x \<in> set xs \<Longrightarrow> k (f x) = k x) \<Longrightarrow> map k (map f xs) = map k xs"
  by simp

lemma key_unique: "distinct (map k xs) \<Longrightarrow> x \<in> set xs \<Longrightarrow> y \<in> set xs \<Longrightarrow> k x = k y \<Longrightarrow> x = y"
  by (auto simp: distinct_map inj_on_def)

lemma filter_eq_single: "distinct xs \<Longrightarrow> x \<in> set xs \<Longrightarrow> filter (\<lambda>y. y = x) xs = [x]"
  by (induction xs) (auto simp: filter_empty_conv)

text \<open>A keyed UPDATE that meets one row.\<close>

lemma update_unique_row:
  assumes dist: "distinct (map k xs)" and x: "x \<in> set xs" "P x"
    and key: "\<And>y. P y \<Longrightarrow> k y = k x"
  shows "filter P xs = [x]"
    and "map (\<lambda>y. if P y then f y else y) xs = map (\<lambda>y. if k y = k x then f x else y) xs"
proof -
  have only: "P y \<longleftrightarrow> y = x" "k y = k x \<longleftrightarrow> y = x" if "y \<in> set xs" for y
    using key_unique [OF dist that x(1)] key [of y] x(2) by blast+
  have "filter P xs = filter (\<lambda>y. y = x) xs"
    using only(1) by (intro filter_cong) blast+
  also have "\<dots> = [x]"
    using dist x(1) by (intro filter_eq_single) (simp_all add: distinct_map)
  finally show "filter P xs = [x]" .
  show "map (\<lambda>y. if P y then f y else y) xs = map (\<lambda>y. if k y = k x then f x else y) xs"
    using only by (intro map_cong) auto
qed

lemma nat_one_plus_int [simp]: "nat (1 + int n) = Suc n"
  by simp

lemma last_upt_Suc: "m \<le> n \<Longrightarrow> last [m..<Suc n] = n"
  by simp

lemma upt_add_Cons: "[n..<Suc (n + k)] = n # [Suc n..<Suc (n + k)]"
  by (simp add: upt_conv_Cons del: upt_Suc)

section \<open>Ledgers of state machines\<close>

text \<open>
  The contract shared by the durable state machines of the runtime (runs, tool approvals,
  tool executions, model operations): keyed entries with a state and an append-only log. A
  step keeps every entry, moves states only along edges, only appends to logs, and leaves
  the log of an entry in a final state (one without edges) alone.
\<close>

locale state_ledger =
  fixes inv :: "'s \<Rightarrow> bool"
    and step :: "'s \<Rightarrow> 's \<Rightarrow> bool"
    and status :: "'s \<Rightarrow> 'k \<Rightarrow> 'st option"
    and log :: "'s \<Rightarrow> 'k \<Rightarrow> 'e list"
    and edge :: "'st \<Rightarrow> 'st \<Rightarrow> bool"
  assumes step_inv: "inv s \<Longrightarrow> step s t \<Longrightarrow> inv t"
    and step_status: "inv s \<Longrightarrow> step s t \<Longrightarrow> status s i = Some a \<Longrightarrow>
          \<exists>b. status t i = Some b \<and> (b = a \<or> edge a b)"
    and step_log: "inv s \<Longrightarrow> step s t \<Longrightarrow> prefix (log s i) (log t i)"
    and step_final: "inv s \<Longrightarrow> step s t \<Longrightarrow> status s i = Some a \<Longrightarrow> (\<And>b. \<not> edge a b) \<Longrightarrow>
          log t i = log s i"
begin

lemma steps_inv: "step\<^sup>*\<^sup>* s t \<Longrightarrow> inv s \<Longrightarrow> inv t"
  by (induction rule: rtranclp_induct) (auto intro: step_inv)

lemma steps_log:
  assumes "step\<^sup>*\<^sup>* s t" and "inv s"
  shows "prefix (log s i) (log t i)"
  using assms
proof (induction rule: rtranclp_induct)
  case (step t u)
  then show ?case using steps_inv step_log prefix_order.trans by blast
qed simp

lemma steps_status:
  assumes "step\<^sup>*\<^sup>* s t" and "inv s" and "status s i = Some a"
  shows "\<exists>b. status t i = Some b \<and> edge\<^sup>*\<^sup>* a b"
  using assms
proof (induction rule: rtranclp_induct)
  case (step t u)
  then obtain b where b: "status t i = Some b" "edge\<^sup>*\<^sup>* a b" by blast
  have "inv t" using step steps_inv by blast
  with step.hyps(2) b(1) obtain c where "status u i = Some c" "c = b \<or> edge b c"
    using step_status by blast
  with b(2) show ?case by auto
qed simp

lemma steps_final:
  assumes "step\<^sup>*\<^sup>* s t" "inv s" "status s i = Some a" and final: "\<And>b. \<not> edge a b"
  shows "status t i = Some a \<and> log t i = log s i"
  using assms(1-3)
proof (induction rule: rtranclp_induct)
  case (step t u)
  then have IH: "status t i = Some a" "log t i = log s i" and "inv t"
    using steps_inv by blast+
  with step.hyps(2) final have "status u i = Some a"
    using step_status [of t u i a] by blast
  with IH \<open>inv t\<close> step final show ?case using step_final [of t u i a] by simp
qed simp

end

end
