(* ===== verification/App_Run.thy ===== *)
theory App_Run
  imports Abbey_Prelude
begin

text \<open>
  The run-lifecycle contracts of \<open>src/app_core/run.rs\<close> and the identifiers of
  \<open>src/app_core/ids.rs\<close>: the lifecycle graph of a run, the request, snapshot, event and
  page types that cross the application boundary, and their validation functions.
\<close>

section \<open>Identifiers and validated text\<close>

type_synonym run_id = string
type_synonym conversation_id = string
type_synonym idempotency_key = string
type_synonym validation_error = string

definition parse_uuid_id :: "externals \<Rightarrow> string \<Rightarrow> unit + string" where
  "parse_uuid_id E value =
     bindr (ok_or (uuid_canonical E value) ()) (\<lambda>parsed.
       if parsed \<noteq> value then Inl () else Inr value)"

definition MAX_INPUT_BYTES :: nat where "MAX_INPUT_BYTES = 32 * 1024"
definition MAX_LABELS :: nat where "MAX_LABELS = 16"
definition MAX_LABEL_BYTES :: nat where "MAX_LABEL_BYTES = 64"
definition MAX_IDEMPOTENCY_KEY_BYTES :: nat where "MAX_IDEMPOTENCY_KEY_BYTES = 128"
definition MAX_FAILURE_CODE_BYTES :: nat where "MAX_FAILURE_CODE_BYTES = 64"
definition MAX_FAILURE_MESSAGE_BYTES :: nat where "MAX_FAILURE_MESSAGE_BYTES = 2048"
definition MAX_CONVERSATION_TITLE_BYTES :: nat where "MAX_CONVERSATION_TITLE_BYTES = 256"
definition MAX_TIMESTAMP_BYTES :: nat where "MAX_TIMESTAMP_BYTES = 64"
definition MAX_RUN_EVENT_PAGE :: nat where "MAX_RUN_EVENT_PAGE = 16"

definition validate_text :: "string \<Rightarrow> nat \<Rightarrow> string \<Rightarrow> validation_error + unit" where
  "validate_text value max_bytes message =
     (if trim value = [] \<or> length value > max_bytes
         \<or> any_control (\<lambda>c. c \<in> {CHR 0x0A, CHR 0x0D, CHR 0x09}) value
      then Inl message else Inr ())"

definition validate_identifier :: "string \<Rightarrow> nat \<Rightarrow> string \<Rightarrow> validation_error + unit" where
  "validate_identifier value max_bytes message =
     (if value = [] \<or> length value > max_bytes
         \<or> \<not> list_all (\<lambda>c. is_ascii_alphanumeric c
               \<or> c \<in> {CHR ''-'', CHR ''_'', CHR ''.'', CHR '':''}) value
      then Inl message else Inr ())"

definition parse_timestamp :: "externals \<Rightarrow> string \<Rightarrow> validation_error + int" where
  "parse_timestamp E value =
     (if value = [] \<or> length value > MAX_TIMESTAMP_BYTES
      then Inl ''invalid RFC 3339 timestamp''
      else ok_or (parse_from_rfc3339 E value) ''invalid RFC 3339 timestamp'')"

definition parse_idempotency_key :: "string \<Rightarrow> validation_error + idempotency_key" where
  "parse_idempotency_key value =
     bindr (validate_identifier value MAX_IDEMPOTENCY_KEY_BYTES ''invalid idempotency key'')
       (\<lambda>_. Inr value)"

section \<open>The lifecycle graph\<close>

datatype run_state =
    Queued | Starting | Running | CancelRequested | Succeeded | Failed | Cancelled | Interrupted

fun is_terminal :: "run_state \<Rightarrow> bool" where
  "is_terminal Succeeded = True"
| "is_terminal Failed = True"
| "is_terminal Cancelled = True"
| "is_terminal Interrupted = True"
| "is_terminal _ = False"

definition validate_transition :: "run_state \<Rightarrow> run_state \<Rightarrow> validation_error + unit" where
  "validate_transition s next =
     (let valid =
        (case s of
           Queued \<Rightarrow> next \<in> {Starting, CancelRequested, Cancelled, Failed, Interrupted}
         | Starting \<Rightarrow> next \<in> {Running, CancelRequested, Cancelled, Failed, Interrupted}
         | Running \<Rightarrow> next \<in> {CancelRequested, Succeeded, Failed, Cancelled, Interrupted}
         | CancelRequested \<Rightarrow> next \<in> {Succeeded, Failed, Cancelled, Interrupted}
         | _ \<Rightarrow> False)
      in if valid then Inr () else Inl ''invalid run state transition'')"

abbreviation can_step :: "run_state \<Rightarrow> run_state \<Rightarrow> bool" where
  "can_step s t \<equiv> validate_transition s t = Inr ()"

section \<open>Requests and queries\<close>

datatype run_mode = Interactive | OneShot | Background | Automation

datatype backend_selection = Cursor | Abi | FoundationModels | Grok

text \<open>The derived \<open>Ord\<close> of an enumeration follows the declaration order.\<close>

fun mode_index :: "run_mode \<Rightarrow> nat" where
  "mode_index Interactive = 0"
| "mode_index OneShot = 1"
| "mode_index Background = 2"
| "mode_index Automation = 3"

fun backend_index :: "backend_selection \<Rightarrow> nat" where
  "backend_index Cursor = 0"
| "backend_index Abi = 1"
| "backend_index FoundationModels = 2"
| "backend_index Grok = 3"

lemma mode_index_inj: "mode_index a = mode_index b \<Longrightarrow> a = b"
  by (cases a; cases b) simp_all

lemma backend_index_inj: "backend_index a = backend_index b \<Longrightarrow> a = b"
  by (cases a; cases b) simp_all

instantiation run_mode :: linorder
begin

definition less_eq_run_mode :: "run_mode \<Rightarrow> run_mode \<Rightarrow> bool" where
  "less_eq_run_mode a b \<longleftrightarrow> mode_index a \<le> mode_index b"

definition less_run_mode :: "run_mode \<Rightarrow> run_mode \<Rightarrow> bool" where
  "less_run_mode a b \<longleftrightarrow> mode_index a < mode_index b"

instance
  by standard (auto simp: less_eq_run_mode_def less_run_mode_def dest: mode_index_inj)

end

instantiation backend_selection :: linorder
begin

definition less_eq_backend_selection :: "backend_selection \<Rightarrow> backend_selection \<Rightarrow> bool" where
  "less_eq_backend_selection a b \<longleftrightarrow> backend_index a \<le> backend_index b"

definition less_backend_selection :: "backend_selection \<Rightarrow> backend_selection \<Rightarrow> bool" where
  "less_backend_selection a b \<longleftrightarrow> backend_index a < backend_index b"

instance
  by standard
    (auto simp: less_eq_backend_selection_def less_backend_selection_def dest: backend_index_inj)

end

text \<open>\<open>xs.windows(2).any(|pair| pair[0] >= pair[1])\<close>.\<close>

fun window_not_increasing :: "'a::linorder list \<Rightarrow> bool" where
  "window_not_increasing (x # y # zs) = (x \<ge> y \<or> window_not_increasing (y # zs))"
| "window_not_increasing _ = False"

record run_request =
  req_idempotency_key :: idempotency_key
  req_conversation_id :: "conversation_id option"
  req_mode :: run_mode
  req_backend :: backend_selection
  req_input :: string
  req_labels :: "string list"

definition run_request_validate :: "run_request \<Rightarrow> validation_error + unit" where
  "run_request_validate r =
     bindr (validate_text (req_input r) MAX_INPUT_BYTES ''invalid run input'') (\<lambda>_.
       if length (req_labels r) > MAX_LABELS then Inl ''run request has too many labels''
       else for_each (\<lambda>label. validate_identifier label MAX_LABEL_BYTES ''invalid run label'')
              (req_labels r))"

record run_query =
  rq_run_id :: run_id

definition run_query_validate :: "run_query \<Rightarrow> validation_error + unit" where
  "run_query_validate q = Inr ()"

record run_events_query =
  eq_run_id :: run_id
  eq_after_sequence :: nat
  eq_through_sequence :: "nat option"
  eq_limit :: nat

definition run_events_query_validate :: "run_events_query \<Rightarrow> validation_error + unit" where
  "run_events_query_validate q =
     (if eq_limit q = 0 \<or> eq_limit q > MAX_RUN_EVENT_PAGE
      then Inl ''run event page limit must be from 1 through 16''
      else if (case eq_through_sequence q of None \<Rightarrow> False
                | Some through \<Rightarrow> eq_after_sequence q > through)
      then Inl ''run event cursor exceeds its snapshot watermark''
      else Inr ())"

record run_route_capability =
  route_backend :: backend_selection
  route_modes :: "run_mode list"

definition run_route_capability_validate :: "run_route_capability \<Rightarrow> validation_error + unit" where
  "run_route_capability_validate r =
     (if route_backend r \<notin> {Abi, FoundationModels}
      then Inl ''run route backend is not supported by protocol v2''
      else if route_modes r = [] \<or> window_not_increasing (route_modes r)
      then Inl ''run route modes must be nonempty, strictly ordered, and duplicate-free''
      else if list_ex (\<lambda>mode. mode \<in> {Interactive, Automation}) (route_modes r)
      then Inl ''run route mode is not supported by protocol v2''
      else Inr ())"

section \<open>Snapshots and events\<close>

record run_failure =
  fail_code :: string
  fail_message :: string
  fail_retryable :: bool

definition run_failure_validate :: "run_failure \<Rightarrow> validation_error + unit" where
  "run_failure_validate f =
     bindr (validate_identifier (fail_code f) MAX_FAILURE_CODE_BYTES ''invalid run failure code'')
       (\<lambda>_. validate_text (fail_message f) MAX_FAILURE_MESSAGE_BYTES
              ''invalid run failure message'')"

record run_snapshot =
  snap_run_id :: run_id
  snap_conversation_id :: "conversation_id option"
  snap_idempotency_key :: idempotency_key
  snap_state :: run_state
  snap_created_at :: string
  snap_updated_at :: string
  snap_failure :: "run_failure option"
  snap_event_count :: nat

definition run_snapshot_validate :: "externals \<Rightarrow> run_snapshot \<Rightarrow> validation_error + unit" where
  "run_snapshot_validate E s =
     bindr (parse_timestamp E (snap_created_at s)) (\<lambda>created.
     bindr (parse_timestamp E (snap_updated_at s)) (\<lambda>updated.
       if updated < created then Inl ''run timestamps are out of order''
       else if snap_event_count s = 0
       then Inl ''run snapshot must contain at least one lifecycle event''
       else bindr (case snap_failure s of None \<Rightarrow> Inr () | Some f \<Rightarrow> run_failure_validate f) (\<lambda>_.
         if (snap_state s = Failed) \<noteq> (snap_failure s \<noteq> None)
         then Inl ''run snapshot fields do not match its state''
         else Inr ())))"

datatype run_cancellation_reason = CancelRequestedReason | CancelManagerShutdown

datatype run_interruption_reason = DaemonRestart | InterruptManagerShutdown

datatype run_lifecycle_event =
    EvQueued
  | EvStarting
  | EvRunning
  | EvCancelRequested
  | EvSucceeded
  | EvFailed run_failure
  | EvCancelled run_cancellation_reason
  | EvInterrupted run_interruption_reason

definition run_lifecycle_event_validate :: "run_lifecycle_event \<Rightarrow> validation_error + unit" where
  "run_lifecycle_event_validate e =
     (case e of EvFailed failure \<Rightarrow> run_failure_validate failure | _ \<Rightarrow> Inr ())"

record run_event_record =
  er_run_id :: run_id
  er_sequence :: nat
  er_recorded_at :: string
  er_event :: run_lifecycle_event

definition run_event_record_validate ::
    "externals \<Rightarrow> run_event_record \<Rightarrow> validation_error + unit" where
  "run_event_record_validate E r =
     (if er_sequence r = 0 then Inl ''run event sequence must start at one''
      else bindr (parse_timestamp E (er_recorded_at r)) (\<lambda>_.
             run_lifecycle_event_validate (er_event r)))"

datatype run_submission_disposition = Enqueued | Existing | QueueFull

record run_submission =
  sub_disposition :: run_submission_disposition
  sub_run :: run_snapshot

definition run_submission_validate :: "externals \<Rightarrow> run_submission \<Rightarrow> validation_error + unit" where
  "run_submission_validate E s =
     bindr (run_snapshot_validate E (sub_run s)) (\<lambda>_.
       if sub_disposition s = QueueFull
          \<and> (snap_state (sub_run s) \<noteq> Failed
             \<or> map_option fail_code (snap_failure (sub_run s)) \<noteq> Some ''queue_full'')
       then Inl ''queue-full submission must contain a failed run''
       else Inr ())"

section \<open>Event pages\<close>

record run_event_page =
  page_run_id :: run_id
  page_events :: "run_event_record list"
  page_after_sequence :: nat
  page_next_after_sequence :: nat
  page_through_sequence :: nat
  page_has_more :: bool

text \<open>The loop of \<open>RunEventPage::validate\<close> over the records, with its running cursor.\<close>

fun page_loop :: "externals \<Rightarrow> run_id \<Rightarrow> nat \<Rightarrow> run_event_record list \<Rightarrow> validation_error + nat" where
  "page_loop E rid expected [] = Inr expected"
| "page_loop E rid expected (r # rs) =
     bindr (run_event_record_validate E r) (\<lambda>_.
       if er_run_id r \<noteq> rid \<or> er_sequence r \<noteq> expected
       then Inl ''run event page is not contiguous for the requested run''
       else bindr (ok_or (checked_add_u64 expected 1) ''run event sequence overflowed'')
              (\<lambda>expected'. page_loop E rid expected' rs))"

definition last_sequence :: "nat \<Rightarrow> run_event_record list \<Rightarrow> nat" where
  "last_sequence after rs = (if rs = [] then after else er_sequence (last rs))"

definition run_event_page_validate :: "externals \<Rightarrow> run_event_page \<Rightarrow> validation_error + unit" where
  "run_event_page_validate E p =
     (if length (page_events p) > MAX_RUN_EVENT_PAGE
      then Inl ''run event page exceeds 16 records''
      else if page_after_sequence p > page_next_after_sequence p
              \<or> page_next_after_sequence p > page_through_sequence p
      then Inl ''run event page cursors are invalid''
      else
        bindr (ok_or (checked_add_u64 (page_after_sequence p) 1) ''run event sequence overflowed'')
          (\<lambda>expected.
        bindr (page_loop E (page_run_id p) expected (page_events p)) (\<lambda>_.
          let expected_next = last_sequence (page_after_sequence p) (page_events p) in
          if page_next_after_sequence p \<noteq> expected_next
             \<or> page_has_more p \<noteq> (page_next_after_sequence p < page_through_sequence p)
             \<or> (page_events p = [] \<and> page_has_more p)
          then Inl ''run event page continuation metadata is inconsistent''
          else Inr ())))"

record conversation_metadata =
  cm_conversation_id :: conversation_id
  cm_title :: "string option"
  cm_created_at :: string
  cm_updated_at :: string
  cm_run_count :: nat

definition conversation_metadata_validate ::
    "externals \<Rightarrow> conversation_metadata \<Rightarrow> validation_error + unit" where
  "conversation_metadata_validate E m =
     bindr (parse_timestamp E (cm_created_at m)) (\<lambda>created.
     bindr (parse_timestamp E (cm_updated_at m)) (\<lambda>updated.
       if updated < created then Inl ''conversation timestamps are out of order''
       else case cm_title m of None \<Rightarrow> Inr ()
            | Some title \<Rightarrow> validate_text title MAX_CONVERSATION_TITLE_BYTES
                              ''invalid conversation title''))"

section \<open>The lifecycle graph is acyclic and ends in the terminal states\<close>

text \<open>
  A rank that every permitted transition increases: a run makes at most four transitions,
  and a terminal state permits none.
\<close>

fun lifecycle_rank :: "run_state \<Rightarrow> nat" where
  "lifecycle_rank Queued = 0"
| "lifecycle_rank Starting = 1"
| "lifecycle_rank Running = 2"
| "lifecycle_rank CancelRequested = 3"
| "lifecycle_rank _ = 4"

lemma can_step_iff:
  "can_step s t \<longleftrightarrow>
     lifecycle_rank s < lifecycle_rank t \<and> \<not> (s \<in> {Queued, Starting} \<and> t = Succeeded)
       \<and> \<not> (s = Queued \<and> t = Running)"
  by (cases s; cases t) (simp_all add: validate_transition_def)

lemma can_step_rank: "can_step s t \<Longrightarrow> lifecycle_rank s < lifecycle_rank t"
  by (simp add: can_step_iff)

lemma validate_transition_cases:
  "validate_transition s t = Inr () \<or> validate_transition s t = Inl ''invalid run state transition''"
  by (simp add: validate_transition_def Let_def)

lemma is_terminal_rank: "is_terminal s \<longleftrightarrow> lifecycle_rank s = 4"
  by (cases s) simp_all

lemma lifecycle_rank_le: "lifecycle_rank s \<le> 4"
  by (cases s) simp_all

lemma terminal_no_step: "is_terminal s \<Longrightarrow> \<not> can_step s t"
  using lifecycle_rank_le [of t] by (auto simp: can_step_iff is_terminal_rank)

text \<open>Runs of the lifecycle graph.\<close>

inductive lifecycle_path :: "run_state \<Rightarrow> run_state list \<Rightarrow> bool" where
  stop: "lifecycle_path s []"
| step: "can_step s t \<Longrightarrow> lifecycle_path t ts \<Longrightarrow> lifecycle_path s (t # ts)"

inductive_cases lifecycle_path_ConsE: "lifecycle_path s (t # ts)"
inductive_simps lifecycle_path_Nil: "lifecycle_path s []"
inductive_simps lifecycle_path_Cons: "lifecycle_path s (t # ts)"

lemma lifecycle_path_length: "lifecycle_path s ts \<Longrightarrow> length ts + lifecycle_rank s \<le> 4"
proof (induction rule: lifecycle_path.induct)
  case (stop s)
  show ?case using lifecycle_rank_le by simp
next
  case (step s t ts)
  then show ?case using can_step_rank [of s t] by simp
qed

lemma lifecycle_path_append:
  "lifecycle_path s (ts @ us) \<longleftrightarrow>
     lifecycle_path s ts \<and> lifecycle_path (last (s # ts)) us"
  by (induction ts arbitrary: s) (auto simp: lifecycle_path_Cons lifecycle_path_Nil)

lemma can_step_path:
  "can_step\<^sup>*\<^sup>* s t \<Longrightarrow> \<exists>ts. lifecycle_path s ts \<and> t = last (s # ts)"
proof (induction rule: rtranclp_induct)
  case base
  then show ?case using lifecycle_path.stop [of s] by force
next
  case (step t u)
  then obtain ts where "lifecycle_path s ts" "t = last (s # ts)" by blast
  with step.hyps(2) have "lifecycle_path s (ts @ [u])"
    by (simp add: lifecycle_path_append lifecycle_path_Cons lifecycle_path_Nil)
  then show ?case by (intro exI [of _ "ts @ [u]"]) simp
qed

lemma can_step_steps_rank:
  "can_step\<^sup>*\<^sup>* s t \<Longrightarrow> s = t \<or> lifecycle_rank s < lifecycle_rank t"
  by (induction rule: rtranclp_induct) (auto dest: can_step_rank)

section \<open>What page validation guarantees\<close>

lemma page_loop_ok:
  assumes "page_loop E rid n rs = Inr m"
  shows "m = n + length rs" and "map er_sequence rs = [n..<n + length rs]"
    and "\<forall>r\<in>set rs. er_run_id r = rid \<and> run_event_record_validate E r = Inr ()"
proof -
  have "m = n + length rs \<and> map er_sequence rs = [n..<n + length rs] \<and>
      (\<forall>r\<in>set rs. er_run_id r = rid \<and> run_event_record_validate E r = Inr ())"
    using assms
  proof (induction rs arbitrary: n)
    case Nil
    then show ?case by simp
  next
    case (Cons r rs)
    from Cons.prems have r: "run_event_record_validate E r = Inr ()" "er_run_id r = rid"
        "er_sequence r = n" and rs: "page_loop E rid (Suc n) rs = Inr m"
      by (auto simp: rust_simps split: if_splits)
    from Cons.IH [OF rs] r show ?case
      by (simp add: upt_add_Cons del: upt_Suc)
  qed
  then show "m = n + length rs" and "map er_sequence rs = [n..<n + length rs]"
    and "\<forall>r\<in>set rs. er_run_id r = rid \<and> run_event_record_validate E r = Inr ()"
    by blast+
qed

lemma page_loop_complete:
  assumes "map er_sequence rs = [n..<n + length rs]" and "n + length rs < u64_bound"
    and "\<forall>r\<in>set rs. er_run_id r = rid \<and> run_event_record_validate E r = Inr ()"
  shows "page_loop E rid n rs = Inr (n + length rs)"
  using assms
proof (induction rs arbitrary: n)
  case Nil
  then show ?case by simp
next
  case (Cons r rs)
  from Cons.prems(1) have "er_sequence r = n" "map er_sequence rs = [Suc n..<Suc n + length rs]"
    by (simp_all add: upt_add_Cons del: upt_Suc)
  with Cons show ?case by (simp add: checked_add_u64_def)
qed

lemma last_sequence_upt:
  assumes "map er_sequence rs = [Suc a..<Suc a + length rs]"
  shows "last_sequence a rs = a + length rs"
proof (cases rs rule: rev_cases)
  case Nil
  then show ?thesis by (simp add: last_sequence_def)
next
  case (snoc xs x)
  with assms show ?thesis by (simp add: last_sequence_def)
qed

definition page_shape :: "run_event_page \<Rightarrow> bool" where
  "page_shape p \<longleftrightarrow>
     length (page_events p) \<le> MAX_RUN_EVENT_PAGE
   \<and> map er_sequence (page_events p) =
       [Suc (page_after_sequence p)..<Suc (page_after_sequence p) + length (page_events p)]
   \<and> page_next_after_sequence p = page_after_sequence p + length (page_events p)
   \<and> page_next_after_sequence p \<le> page_through_sequence p
   \<and> page_has_more p = (page_next_after_sequence p < page_through_sequence p)
   \<and> (page_has_more p \<longrightarrow> page_events p \<noteq> [])
   \<and> (\<forall>r\<in>set (page_events p). er_run_id r = page_run_id p)"

lemma run_event_page_validate_shape:
  assumes "run_event_page_validate E p = Inr ()"
  shows "page_shape p"
proof -
  let ?a = "page_after_sequence p" and ?rs = "page_events p"
  from assms obtain m where loop: "page_loop E (page_run_id p) (Suc ?a) ?rs = Inr m"
    and meta: "page_next_after_sequence p = last_sequence ?a ?rs"
      "page_has_more p = (page_next_after_sequence p < page_through_sequence p)"
      "?rs \<noteq> [] \<or> \<not> page_has_more p"
      "page_next_after_sequence p \<le> page_through_sequence p"
      "length ?rs \<le> MAX_RUN_EVENT_PAGE"
    by (auto simp: run_event_page_validate_def rust_simps Let_def split: if_splits)
  from page_loop_ok [OF loop] have seqs: "map er_sequence ?rs = [Suc ?a..<Suc ?a + length ?rs]"
    and ids: "\<forall>r\<in>set ?rs. er_run_id r = page_run_id p" by auto
  from last_sequence_upt [OF seqs] meta seqs ids show ?thesis
    by (auto simp: page_shape_def)
qed

lemma run_event_page_validate_complete:
  assumes "page_shape p"
    and "\<forall>r\<in>set (page_events p). run_event_record_validate E r = Inr ()"
    and "Suc (page_through_sequence p) < u64_bound"
  shows "run_event_page_validate E p = Inr ()"
proof -
  let ?a = "page_after_sequence p" and ?rs = "page_events p"
  from assms have shape: "length ?rs \<le> MAX_RUN_EVENT_PAGE"
      "map er_sequence ?rs = [Suc ?a..<Suc ?a + length ?rs]"
      "page_next_after_sequence p = ?a + length ?rs"
      "page_next_after_sequence p \<le> page_through_sequence p"
      "page_has_more p = (page_next_after_sequence p < page_through_sequence p)"
      "page_has_more p \<longrightarrow> ?rs \<noteq> []"
      "\<forall>r\<in>set ?rs. er_run_id r = page_run_id p"
    by (simp_all add: page_shape_def)
  have "page_loop E (page_run_id p) (Suc ?a) ?rs = Inr (Suc ?a + length ?rs)"
    by (rule page_loop_complete) (use shape assms in auto)
  then show ?thesis
    using shape assms(3) last_sequence_upt [OF shape(2)]
    by (auto simp: run_event_page_validate_def checked_add_u64_def)
qed

end
