(* ===== verification/Runtime_Db.thy ===== *)
theory Runtime_Db
  imports App_Run
begin

text \<open>
  The tables of \<open>runtime.sqlite\<close> that the modelled store operations read and write, after
  migrations 1, 5, 6, 7 and 10 (\<open>src/runtime/migration_*.sql\<close>). A table is the list of
  its rows in insertion order, and a row keeps the column values as SQLite holds them: TEXT
  as strings (status labels included), INTEGER as integers. The insert and update
  primitives carry the CHECK, UNIQUE, PRIMARY KEY and FOREIGN KEY clauses of the schema; a
  violated clause is a value of \<open>sql_error\<close>. A store operation is a function from the
  database to an error or a result with the next database; an error leaves the database as
  it was, which is the rollback of the enclosing transaction.
\<close>

section \<open>Errors\<close>

text \<open>
  \<open>Panicked\<close> is not a value of the Rust enumeration: it is what a build with overflow checks
  does on an arithmetic overflow inside a store operation.
\<close>

datatype sql_error =
    SqlCheck | SqlUnique | SqlForeignKey | SqlNoRows | SqlConversion string

datatype store_error =
    InvalidInput string
  | InvalidAuditMetadata string
  | IdempotencyConflict
  | RunNotFound string
  | ConversationNotFound string
  | AssistantNotFound
  | AssistantConflict
  | UnexpectedStatus run_state run_state
  | InvalidTransition run_state run_state
  | TerminalRun string
  | ToolApprovalNotFound string
  | ToolApprovalConflict
  | ToolApprovalDigestMismatch
  | ToolExecutionNotFound string
  | ToolExecutionConflict
  | ModelOperationNotFound string
  | ModelOperationConflict
  | ModelOperationCapacity
  | CorruptData string
  | Database sql_error
  | Panicked string

section \<open>Rows\<close>

record conversation_row =
  cw_id :: string
  cw_created_at :: string
  cw_updated_at :: string

record backend_row =
  bw_conversation_id :: string
  bw_backend :: string
  bw_backend_conversation_id :: "string option"
  bw_updated_at :: string

record run_row =
  rw_id :: string
  rw_conversation_id :: "string option"
  rw_idempotency_key :: string
  rw_request_digest :: string
  rw_status :: string
  rw_next_event_sequence :: int
  rw_created_at :: string
  rw_updated_at :: string

record event_row =
  ew_run_id :: string
  ew_sequence :: int
  ew_kind :: string
  ew_payload_json :: string
  ew_created_at :: string

record audit_row =
  aw_id :: int
  aw_run_id :: "string option"
  aw_action :: string
  aw_outcome :: string
  aw_metadata_json :: string
  aw_created_at :: string

record profile_row =
  prw_profile_id :: string
  prw_document_json :: string
  prw_updated_at_ms :: int

record assistant_conversation_row =
  acw_id :: string
  acw_sequence :: int
  acw_title :: string
  acw_archived :: bool
  acw_pinned :: bool
  acw_imported_history :: bool
  acw_deleted :: bool
  acw_created_at_ms :: int
  acw_updated_at_ms :: int

record turn_row =
  tw_run_id :: string
  tw_conversation_id :: string
  tw_user_message_id :: "string option"
  tw_assistant_message_id :: "string option"
  tw_user_sequence :: int
  tw_route_id :: string
  tw_permission_profile_id :: string
  tw_created_at_ms :: int

record message_row =
  mw_id :: string
  mw_conversation_id :: string
  mw_run_id :: string
  mw_role :: string
  mw_sequence :: int
  mw_body :: string
  mw_text_bytes :: int
  mw_text_complete :: bool
  mw_state :: string
  mw_created_at_ms :: int

record content_event_row =
  kw_conversation_id :: string
  kw_sequence :: int
  kw_request_id :: string
  kw_run_id :: string
  kw_kind :: string
  kw_byte_count :: int
  kw_timestamp_ms :: int

record content_payload_row =
  pw_conversation_id :: string
  pw_sequence :: int
  pw_payload_json :: string

record approval_row =
  tap_call_id :: string
  tap_tool_id :: string
  tap_call_digest :: string
  tap_state :: string
  tap_decision_id :: "string option"
  tap_cancellation_id :: "string option"
  tap_created_at_ms :: int
  tap_expires_at_ms :: int
  tap_updated_at_ms :: int

record approval_event_row =
  tae_sequence :: int
  tae_call_id :: string
  tae_state :: string
  tae_decision_id :: "string option"
  tae_cancellation_id :: "string option"
  tae_occurred_at_ms :: int

record execution_row =
  tex_call_id :: string
  tex_execution_id :: string
  tex_state :: string
  tex_result_digest :: "string option"
  tex_started_at_ms :: int
  tex_finished_at_ms :: "int option"

record execution_event_row =
  txe_sequence :: int
  txe_call_id :: string
  txe_execution_id :: string
  txe_state :: string
  txe_result_digest :: "string option"
  txe_occurred_at_ms :: int

record governed_intent_row =
  gi_call_id :: string
  gi_execution_id :: string

record model_operation_row =
  mow_operation_id :: string
  mow_model_id :: string
  mow_revision :: string
  mow_kind :: string
  mow_state :: string
  mow_progress_basis_points :: int
  mow_created_at_ms :: int
  mow_updated_at_ms :: int

record db =
  conversations :: "conversation_row list"
  conversation_backends :: "backend_row list"
  runs :: "run_row list"
  run_events :: "event_row list"
  audit_events :: "audit_row list"
  assistant_permission_profiles :: "profile_row list"
  assistant_conversations :: "assistant_conversation_row list"
  assistant_turns :: "turn_row list"
  assistant_messages :: "message_row list"
  assistant_content_events :: "content_event_row list"
  assistant_content_payloads :: "content_payload_row list"
  tool_approvals :: "approval_row list"
  tool_approval_events :: "approval_event_row list"
  tool_executions :: "execution_row list"
  tool_execution_events :: "execution_event_row list"
  governed_tool_intents :: "governed_intent_row list"
  governed_approval_previews :: "string list"
  model_operations :: "model_operation_row list"

definition empty_db :: db where
  "empty_db =
     \<lparr>conversations = [], conversation_backends = [], runs = [], run_events = [],
      audit_events = [], assistant_permission_profiles = [], assistant_conversations = [], assistant_turns = [], assistant_messages = [],
      assistant_content_events = [], assistant_content_payloads = [], tool_approvals = [],
      tool_approval_events = [], tool_executions = [], tool_execution_events = [],
      governed_tool_intents = [], governed_approval_previews = [], model_operations = []\<rparr>"

section \<open>Statements\<close>

definition run_status_labels :: "string list" where
  "run_status_labels = [''queued'', ''starting'', ''running'', ''cancel_requested'',
     ''succeeded'', ''failed'', ''cancelled'', ''interrupted'']"

definition run_row_check :: "run_row \<Rightarrow> bool" where
  "run_row_check r \<longleftrightarrow>
     rw_status r \<in> set run_status_labels \<and> rw_next_event_sequence r \<ge> 1"

text \<open>\<open>INSERT INTO runs\<close>.\<close>

definition insert_run :: "run_row \<Rightarrow> db \<Rightarrow> sql_error + db" where
  "insert_run r d =
     (if \<not> run_row_check r then Inl SqlCheck
      else if rw_id r \<in> rw_id ` set (runs d)
              \<or> rw_idempotency_key r \<in> rw_idempotency_key ` set (runs d)
      then Inl SqlUnique
      else if (case rw_conversation_id r of None \<Rightarrow> False
                 | Some c \<Rightarrow> c \<notin> cw_id ` set (conversations d))
      then Inl SqlForeignKey
      else Inr (d\<lparr>runs := runs d @ [r]\<rparr>))"

text \<open>\<open>UPDATE runs SET ... WHERE ...\<close>: the number of rows changed and the next database.\<close>

definition update_runs :: "(run_row \<Rightarrow> bool) \<Rightarrow> (run_row \<Rightarrow> run_row) \<Rightarrow> db \<Rightarrow> sql_error + nat \<times> db" where
  "update_runs p f d =
     (let changed = filter p (runs d) in
      if \<not> list_all (\<lambda>r. run_row_check (f r)) changed then Inl SqlCheck
      else Inr (length changed, d\<lparr>runs := map (\<lambda>r. if p r then f r else r) (runs d)\<rparr>))"

text \<open>\<open>INSERT INTO run_events\<close>.\<close>

definition insert_run_event :: "event_row \<Rightarrow> db \<Rightarrow> sql_error + db" where
  "insert_run_event r d =
     (if \<not> ew_sequence r \<ge> 1 then Inl SqlCheck
      else if (ew_run_id r, ew_sequence r) \<in> (\<lambda>e. (ew_run_id e, ew_sequence e)) ` set (run_events d)
      then Inl SqlUnique
      else if ew_run_id r \<notin> rw_id ` set (runs d) then Inl SqlForeignKey
      else Inr (d\<lparr>run_events := run_events d @ [r]\<rparr>))"

text \<open>
  SQLite's \<open>length\<close> of a TEXT value: the number of code points in front of the first NUL.
\<close>

definition sql_length :: "string \<Rightarrow> nat" where
  "sql_length s =
     length (filter (\<lambda>c. byte_of c < 128 \<or> 192 \<le> byte_of c) (takeWhile (\<lambda>c. c \<noteq> CHR 0x00) s))"

lemma sql_length_le: "sql_length s \<le> length s"
  unfolding sql_length_def by (meson le_trans length_filter_le length_takeWhile_le)

text \<open>\<open>INSERT INTO assistant_content_events\<close> and \<open>INSERT OR IGNORE INTO assistant_content_payloads\<close>.\<close>

definition content_kind_labels :: "string list" where
  "content_kind_labels = [''queued'', ''started'', ''output_bounded'', ''completed'',
     ''cancelled'', ''failed'', ''interrupted'']"

definition insert_content_event_row :: "content_event_row \<Rightarrow> db \<Rightarrow> sql_error + db" where
  "insert_content_event_row r d =
     (if \<not> (1 \<le> kw_sequence r \<and> kw_sequence r \<le> 65536
             \<and> 1 \<le> sql_length (kw_request_id r) \<and> sql_length (kw_request_id r) \<le> 128
             \<and> kw_kind r \<in> set content_kind_labels
             \<and> 0 \<le> kw_byte_count r \<and> kw_byte_count r \<le> 32768 \<and> 0 \<le> kw_timestamp_ms r)
      then Inl SqlCheck
      else if (kw_conversation_id r, kw_sequence r)
                \<in> (\<lambda>e. (kw_conversation_id e, kw_sequence e)) ` set (assistant_content_events d)
      then Inl SqlUnique
      else if kw_run_id r \<notin> rw_id ` set (runs d)
              \<or> kw_conversation_id r \<notin> acw_id ` set (assistant_conversations d)
      then Inl SqlForeignKey
      else Inr (d\<lparr>assistant_content_events := assistant_content_events d @ [r]\<rparr>))"

definition insert_content_payload_row :: "content_payload_row \<Rightarrow> db \<Rightarrow> db" where
  "insert_content_payload_row r d =
     (if (pw_conversation_id r, pw_sequence r)
           \<in> (\<lambda>e. (pw_conversation_id e, pw_sequence e)) ` set (assistant_content_payloads d)
         \<or> \<not> (2 \<le> sql_length (pw_payload_json r) \<and> sql_length (pw_payload_json r) \<le> 131072)
      then d else d\<lparr>assistant_content_payloads := assistant_content_payloads d @ [r]\<rparr>)"

text \<open>
  The assistant tables. The clause \<open>json_valid\<close> of a document is not repeated: every document
  written is a constant or the output of serde\_json.
\<close>

definition assistant_conversation_check :: "assistant_conversation_row \<Rightarrow> bool" where
  "assistant_conversation_check r \<longleftrightarrow>
     1 \<le> acw_sequence r \<and> 1 \<le> sql_length (acw_title r) \<and> sql_length (acw_title r) \<le> 256
   \<and> 0 \<le> acw_created_at_ms r \<and> acw_created_at_ms r \<le> acw_updated_at_ms r"

definition insert_assistant_conversation ::
    "assistant_conversation_row \<Rightarrow> db \<Rightarrow> sql_error + db" where
  "insert_assistant_conversation r d =
     (if \<not> assistant_conversation_check r then Inl SqlCheck
      else if acw_id r \<in> acw_id ` set (assistant_conversations d)
              \<or> acw_sequence r \<in> acw_sequence ` set (assistant_conversations d)
      then Inl SqlUnique
      else if acw_id r \<notin> cw_id ` set (conversations d) then Inl SqlForeignKey
      else Inr (d\<lparr>assistant_conversations := assistant_conversations d @ [r]\<rparr>))"

definition update_assistant_conversations ::
    "(assistant_conversation_row \<Rightarrow> bool) \<Rightarrow>
     (assistant_conversation_row \<Rightarrow> assistant_conversation_row) \<Rightarrow> db \<Rightarrow> sql_error + db" where
  "update_assistant_conversations p f d =
     (if \<not> list_all (\<lambda>r. assistant_conversation_check (f r)) (filter p (assistant_conversations d))
      then Inl SqlCheck
      else Inr (d\<lparr>assistant_conversations :=
                    map (\<lambda>r. if p r then f r else r) (assistant_conversations d)\<rparr>))"

definition message_check :: "message_row \<Rightarrow> bool" where
  "message_check r \<longleftrightarrow>
     1 \<le> sql_length (mw_id r) \<and> sql_length (mw_id r) \<le> 128
   \<and> mw_role r \<in> {''user'', ''assistant''} \<and> 1 \<le> mw_sequence r
   \<and> length (mw_body r) \<le> 32768 \<and> 0 \<le> mw_text_bytes r \<and> mw_text_bytes r \<le> 4194304
   \<and> mw_state r \<in> set run_status_labels \<and> 0 \<le> mw_created_at_ms r"

definition insert_message :: "message_row \<Rightarrow> db \<Rightarrow> sql_error + db" where
  "insert_message r d =
     (if \<not> message_check r then Inl SqlCheck
      else if mw_id r \<in> mw_id ` set (assistant_messages d)
              \<or> (mw_conversation_id r, mw_sequence r)
                  \<in> (\<lambda>m. (mw_conversation_id m, mw_sequence m)) ` set (assistant_messages d)
      then Inl SqlUnique
      else if mw_conversation_id r \<notin> acw_id ` set (assistant_conversations d)
              \<or> mw_run_id r \<notin> rw_id ` set (runs d)
      then Inl SqlForeignKey
      else Inr (d\<lparr>assistant_messages := assistant_messages d @ [r]\<rparr>))"

definition update_messages ::
    "(message_row \<Rightarrow> bool) \<Rightarrow> (message_row \<Rightarrow> message_row) \<Rightarrow> db \<Rightarrow> sql_error + db" where
  "update_messages p f d =
     (if \<not> list_all (\<lambda>r. message_check (f r)) (filter p (assistant_messages d)) then Inl SqlCheck
      else Inr (d\<lparr>assistant_messages := map (\<lambda>r. if p r then f r else r) (assistant_messages d)\<rparr>))"

definition turn_check :: "turn_row \<Rightarrow> bool" where
  "turn_check r \<longleftrightarrow>
     1 \<le> tw_user_sequence r \<and> 1 \<le> sql_length (tw_route_id r) \<and> sql_length (tw_route_id r) \<le> 128
   \<and> 0 \<le> tw_created_at_ms r"

text \<open>A UNIQUE or a FOREIGN KEY clause does not concern a NULL.\<close>

definition insert_turn :: "turn_row \<Rightarrow> db \<Rightarrow> sql_error + db" where
  "insert_turn r d =
     (if \<not> turn_check r then Inl SqlCheck
      else if tw_run_id r \<in> tw_run_id ` set (assistant_turns d)
              \<or> tw_user_message_id r \<noteq> None
                \<and> tw_user_message_id r \<in> tw_user_message_id ` set (assistant_turns d)
              \<or> tw_assistant_message_id r \<noteq> None
                \<and> tw_assistant_message_id r \<in> tw_assistant_message_id ` set (assistant_turns d)
      then Inl SqlUnique
      else if tw_run_id r \<notin> rw_id ` set (runs d)
              \<or> tw_conversation_id r \<notin> acw_id ` set (assistant_conversations d)
              \<or> \<not> set_option (tw_user_message_id r) \<subseteq> mw_id ` set (assistant_messages d)
              \<or> \<not> set_option (tw_assistant_message_id r) \<subseteq> mw_id ` set (assistant_messages d)
              \<or> tw_permission_profile_id r
                  \<notin> prw_profile_id ` set (assistant_permission_profiles d)
      then Inl SqlForeignKey
      else Inr (d\<lparr>assistant_turns := assistant_turns d @ [r]\<rparr>))"

definition profile_check :: "profile_row \<Rightarrow> bool" where
  "profile_check r \<longleftrightarrow>
     1 \<le> sql_length (prw_profile_id r) \<and> sql_length (prw_profile_id r) \<le> 128
   \<and> 2 \<le> sql_length (prw_document_json r) \<and> sql_length (prw_document_json r) \<le> 65536
   \<and> 0 \<le> prw_updated_at_ms r"

text \<open>\<open>INSERT OR IGNORE INTO assistant_permission_profiles\<close>.\<close>

definition insert_profile_or_ignore :: "profile_row \<Rightarrow> db \<Rightarrow> db" where
  "insert_profile_or_ignore r d =
     (if \<not> profile_check r \<or> prw_profile_id r \<in> prw_profile_id ` set (assistant_permission_profiles d)
      then d else d\<lparr>assistant_permission_profiles := assistant_permission_profiles d @ [r]\<rparr>)"

text \<open>
  \<open>DELETE FROM assistant_content_events\<close> cascades to the payloads; \<open>DELETE FROM
  assistant_messages\<close> sets the references of the turns to NULL.
\<close>

definition delete_content_events :: "string \<Rightarrow> db \<Rightarrow> db" where
  "delete_content_events cid d =
     d\<lparr>assistant_content_events :=
         filter (\<lambda>e. kw_conversation_id e \<noteq> cid) (assistant_content_events d),
       assistant_content_payloads :=
         filter (\<lambda>p. pw_conversation_id p \<noteq> cid) (assistant_content_payloads d)\<rparr>"

definition delete_messages :: "string \<Rightarrow> db \<Rightarrow> db" where
  "delete_messages cid d =
     (let gone = mw_id ` set (filter (\<lambda>m. mw_conversation_id m = cid) (assistant_messages d));
          unset = (\<lambda>ref. case ref of None \<Rightarrow> None | Some i \<Rightarrow> if i \<in> gone then None else Some i) in
      d\<lparr>assistant_messages := filter (\<lambda>m. mw_conversation_id m \<noteq> cid) (assistant_messages d),
        assistant_turns := map (\<lambda>t. t\<lparr>tw_user_message_id := unset (tw_user_message_id t),
          tw_assistant_message_id := unset (tw_assistant_message_id t)\<rparr>) (assistant_turns d)\<rparr>)"

lemma insert_run_Inr:
  "insert_run r d = Inr d' \<longleftrightarrow>
     run_row_check r \<and> rw_id r \<notin> rw_id ` set (runs d)
   \<and> rw_idempotency_key r \<notin> rw_idempotency_key ` set (runs d)
   \<and> (\<forall>c. rw_conversation_id r = Some c \<longrightarrow> c \<in> cw_id ` set (conversations d))
   \<and> d' = d\<lparr>runs := runs d @ [r]\<rparr>"
  by (auto simp: insert_run_def split: option.splits)

lemma update_runs_Inr:
  "update_runs p f d = Inr (n, d') \<longleftrightarrow>
     (\<forall>r\<in>set (runs d). p r \<longrightarrow> run_row_check (f r)) \<and> n = length (filter p (runs d))
   \<and> d' = d\<lparr>runs := map (\<lambda>r. if p r then f r else r) (runs d)\<rparr>"
  by (auto simp: update_runs_def Let_def list_all_iff)

lemma insert_run_event_Inr:
  "insert_run_event r d = Inr d' \<longleftrightarrow>
     ew_sequence r \<ge> 1
   \<and> (ew_run_id r, ew_sequence r) \<notin> (\<lambda>e. (ew_run_id e, ew_sequence e)) ` set (run_events d)
   \<and> ew_run_id r \<in> rw_id ` set (runs d) \<and> d' = d\<lparr>run_events := run_events d @ [r]\<rparr>"
  by (auto simp: insert_run_event_def)

lemma insert_assistant_conversation_Inr:
  "insert_assistant_conversation r d = Inr d' \<longleftrightarrow>
     assistant_conversation_check r \<and> acw_id r \<notin> acw_id ` set (assistant_conversations d)
   \<and> acw_sequence r \<notin> acw_sequence ` set (assistant_conversations d)
   \<and> acw_id r \<in> cw_id ` set (conversations d)
   \<and> d' = d\<lparr>assistant_conversations := assistant_conversations d @ [r]\<rparr>"
  by (auto simp: insert_assistant_conversation_def)

lemma update_assistant_conversations_Inr:
  "update_assistant_conversations p f d = Inr d' \<longleftrightarrow>
     (\<forall>r\<in>set (assistant_conversations d). p r \<longrightarrow> assistant_conversation_check (f r))
   \<and> d' = d\<lparr>assistant_conversations :=
              map (\<lambda>r. if p r then f r else r) (assistant_conversations d)\<rparr>"
  by (auto simp: update_assistant_conversations_def list_all_iff)

lemma insert_message_Inr:
  "insert_message r d = Inr d' \<longleftrightarrow>
     message_check r \<and> mw_id r \<notin> mw_id ` set (assistant_messages d)
   \<and> (mw_conversation_id r, mw_sequence r)
       \<notin> (\<lambda>m. (mw_conversation_id m, mw_sequence m)) ` set (assistant_messages d)
   \<and> mw_conversation_id r \<in> acw_id ` set (assistant_conversations d)
   \<and> mw_run_id r \<in> rw_id ` set (runs d)
   \<and> d' = d\<lparr>assistant_messages := assistant_messages d @ [r]\<rparr>"
  by (auto simp: insert_message_def)

lemma update_messages_Inr:
  "update_messages p f d = Inr d' \<longleftrightarrow>
     (\<forall>r\<in>set (assistant_messages d). p r \<longrightarrow> message_check (f r))
   \<and> d' = d\<lparr>assistant_messages := map (\<lambda>r. if p r then f r else r) (assistant_messages d)\<rparr>"
  by (auto simp: update_messages_def list_all_iff)

lemma insert_turn_Inr:
  "insert_turn r d = Inr d' \<Longrightarrow>
     turn_check r \<and> tw_run_id r \<notin> tw_run_id ` set (assistant_turns d)
   \<and> tw_run_id r \<in> rw_id ` set (runs d)
   \<and> tw_conversation_id r \<in> acw_id ` set (assistant_conversations d)
   \<and> d' = d\<lparr>assistant_turns := assistant_turns d @ [r]\<rparr>"
  by (auto simp: insert_turn_def split: if_splits)

lemma insert_content_event_row_frame:
  "insert_content_event_row r d = Inr d' \<Longrightarrow>
     d' = d\<lparr>assistant_content_events := assistant_content_events d @ [r]\<rparr>"
  by (auto simp: insert_content_event_row_def split: if_splits)

end
