(* ===== verification/Run_Store.thy ===== *)
theory Run_Store
  imports Runtime_Db "HOL-Library.List_Lexorder" "HOL-Library.Char_ord" "HOL-Library.Product_Lexorder"
begin

text \<open>
  The durable run lifecycle of \<open>src/runtime/store.rs\<close> with its codec (\<open>store/codec.rs\<close>),
  records (\<open>store/records.rs\<close>) and projections (\<open>store/projection.rs\<close>), and the
  message synchronisation of \<open>store/v4_turn.rs\<close> that every transition runs in the same
  transaction. The wall clock is an argument: \<open>now\<close> is the RFC 3339 text of \<open>now()\<close> and
  \<open>now_ms\<close> the epoch milliseconds read by \<open>sync_message_state\<close>; a freshly generated
  identifier is an argument too.
\<close>

section \<open>Records and codec\<close>

record new_run =
  nr_conversation_id :: "conversation_id option"
  nr_idempotency_key :: idempotency_key
  nr_request_digest :: string

record run_record =
  rec_id :: run_id
  rec_conversation_id :: "conversation_id option"
  rec_idempotency_key :: idempotency_key
  rec_request_digest :: string
  rec_status :: run_state
  rec_next_event_sequence :: nat
  rec_created_at :: string
  rec_updated_at :: string

record new_run_event =
  ne_kind :: string
  ne_payload :: json

record run_event =
  ev_run_id :: run_id
  ev_sequence :: nat
  ev_kind :: string
  ev_payload :: json
  ev_created_at :: string

record conversation_backend =
  cb_conversation_id :: conversation_id
  cb_backend :: backend_selection
  cb_backend_conversation_id :: "string option"
  cb_updated_at :: string

fun state_as_str :: "run_state \<Rightarrow> string" where
  "state_as_str Queued = ''queued''"
| "state_as_str Starting = ''starting''"
| "state_as_str Running = ''running''"
| "state_as_str CancelRequested = ''cancel_requested''"
| "state_as_str Succeeded = ''succeeded''"
| "state_as_str Failed = ''failed''"
| "state_as_str Cancelled = ''cancelled''"
| "state_as_str Interrupted = ''interrupted''"

fun backend_as_str :: "backend_selection \<Rightarrow> string" where
  "backend_as_str Cursor = ''cursor''"
| "backend_as_str Abi = ''abi''"
| "backend_as_str FoundationModels = ''foundation_models''"
| "backend_as_str Grok = ''grok''"

definition parse_run_state :: "string \<Rightarrow> store_error + run_state" where
  "parse_run_state value =
     (if value = ''queued'' then Inr Queued
      else if value = ''starting'' then Inr Starting
      else if value = ''running'' then Inr Running
      else if value = ''cancel_requested'' then Inr CancelRequested
      else if value = ''succeeded'' then Inr Succeeded
      else if value = ''failed'' then Inr Failed
      else if value = ''cancelled'' then Inr Cancelled
      else if value = ''interrupted'' then Inr Interrupted
      else Inl (CorruptData ''unknown run status''))"

definition parse_run_id :: "externals \<Rightarrow> string \<Rightarrow> store_error + run_id" where
  "parse_run_id E value = map_err (\<lambda>_. CorruptData ''invalid run UUID'') (parse_uuid_id E value)"

definition parse_conversation_id :: "externals \<Rightarrow> string \<Rightarrow> store_error + conversation_id" where
  "parse_conversation_id E value =
     map_err (\<lambda>_. CorruptData ''invalid conversation UUID'') (parse_uuid_id E value)"

definition sql_sequence :: "nat \<Rightarrow> store_error + int" where
  "sql_sequence sequence =
     ok_or (i64_try_from sequence) (CorruptData ''event sequence exceeds SQLite integer range'')"

text \<open>A decoding failure inside a row mapper surfaces as a conversion error of the database.\<close>

definition to_sql_error :: "store_error \<Rightarrow> store_error" where
  "to_sql_error e = Database (SqlConversion (case e of CorruptData m \<Rightarrow> m | _ \<Rightarrow> ''''))"

definition row_to_run :: "externals \<Rightarrow> run_row \<Rightarrow> store_error + run_record" where
  "row_to_run E row =
     bindr (map_err to_sql_error (parse_run_id E (rw_id row))) (\<lambda>rid.
     bindr (case rw_conversation_id row of None \<Rightarrow> Inr None
              | Some value \<Rightarrow> bindr (map_err to_sql_error (parse_conversation_id E value))
                               (\<lambda>c. Inr (Some c))) (\<lambda>conversation.
     bindr (map_err (\<lambda>_. to_sql_error (CorruptData ''invalid idempotency key''))
             (parse_idempotency_key (rw_idempotency_key row))) (\<lambda>key.
     bindr (map_err to_sql_error (parse_run_state (rw_status row))) (\<lambda>status.
     bindr (ok_or (u64_try_from (rw_next_event_sequence row))
             (to_sql_error (CorruptData ''negative event sequence''))) (\<lambda>sequence.
       Inr \<lparr>rec_id = rid, rec_conversation_id = conversation, rec_idempotency_key = key,
            rec_request_digest = rw_request_digest row, rec_status = status,
            rec_next_event_sequence = sequence, rec_created_at = rw_created_at row,
            rec_updated_at = rw_updated_at row\<rparr>)))))"

definition row_to_event :: "externals \<Rightarrow> event_row \<Rightarrow> store_error + run_event" where
  "row_to_event E row =
     bindr (map_err to_sql_error (parse_run_id E (ew_run_id row))) (\<lambda>rid.
     bindr (ok_or (u64_try_from (ew_sequence row))
             (to_sql_error (CorruptData ''negative event sequence''))) (\<lambda>sequence.
     bindr (ok_or (json_from_str E (ew_payload_json row))
             (Database (SqlConversion ''json''))) (\<lambda>payload.
       Inr \<lparr>ev_run_id = rid, ev_sequence = sequence, ev_kind = ew_kind row,
            ev_payload = payload, ev_created_at = ew_created_at row\<rparr>)))"

section \<open>Validation of inputs\<close>

definition MAX_EVENT_KIND_BYTES :: nat where "MAX_EVENT_KIND_BYTES = 64"
definition MAX_EVENT_PAYLOAD_BYTES :: nat where "MAX_EVENT_PAYLOAD_BYTES = 16 * 1024"

definition validate_new_run :: "new_run \<Rightarrow> store_error + unit" where
  "validate_new_run run =
     (if length (nr_request_digest run) \<noteq> 64 \<or> \<not> list_all is_lower_hex (nr_request_digest run)
      then Inl (InvalidInput ''request digest must be 64 lower-case hexadecimal bytes'')
      else Inr ())"

definition validate_label :: "string \<Rightarrow> string \<Rightarrow> store_error + unit" where
  "validate_label value message =
     (if value = [] \<or> length value > MAX_EVENT_KIND_BYTES \<or> has_control value
      then Inl (InvalidInput message) else Inr ())"

definition validate_event :: "externals \<Rightarrow> new_run_event \<Rightarrow> store_error + unit" where
  "validate_event E event =
     bindr (validate_label (ne_kind event) ''event kind is empty or exceeds 64 bytes'') (\<lambda>_.
       if length (json_to_string E (ne_payload event)) > MAX_EVENT_PAYLOAD_BYTES
       then Inl (InvalidInput ''event payload exceeds 16384 bytes'') else Inr ())"

section \<open>Message synchronisation of a v4 turn\<close>

definition MAX_SEQUENCE :: nat where "MAX_SEQUENCE = 65536"
definition MAX_SAFE_INTEGER :: nat where "MAX_SAFE_INTEGER = 9007199254740991"
definition MAX_V4_DELTA_BYTES :: nat where "MAX_V4_DELTA_BYTES = 16 * 1024"
definition MAX_V4_CONTENT_EVENTS :: nat where "MAX_V4_CONTENT_EVENTS = 65536"

datatype v4_tool_state = ToolStarted | ToolSucceeded | ToolFailed | ToolCancelled

datatype v4_notice_code =
  NoticeTruncated | NoticeReconnecting | NoticeProviderUnavailable | NoticeRecoveryRequired

datatype v4_content_payload =
    TextDelta string
  | ToolPayload string v4_tool_state
  | NoticePayload v4_notice_code
  | UsagePayload nat nat
  | TerminalPayload run_state

definition v4_ensure :: "bool \<Rightarrow> validation_error + unit" where
  "v4_ensure ok = ensure ok ''invalid v4 contract''"

definition v4_text :: "string \<Rightarrow> nat \<Rightarrow> validation_error + unit" where
  "v4_text value limit = v4_ensure (trim value \<noteq> [] \<and> length value \<le> limit \<and> CHR 0x00 \<notin> set value)"

definition v4_label :: "string \<Rightarrow> validation_error + unit" where
  "v4_label value = bindr (v4_text value 256) (\<lambda>_. v4_ensure (\<not> has_control value))"

fun v4_content_payload_validate :: "v4_content_payload \<Rightarrow> validation_error + unit" where
  "v4_content_payload_validate (TextDelta value) =
     v4_ensure (value \<noteq> [] \<and> length value \<le> MAX_V4_DELTA_BYTES \<and> CHR 0x00 \<notin> set value)"
| "v4_content_payload_validate (ToolPayload tool_id _) = v4_label tool_id"
| "v4_content_payload_validate (TerminalPayload state) = v4_ensure (is_terminal state)"
| "v4_content_payload_validate _ = Inr ()"

text \<open>The derived serialisation: \<open>tag = "kind"\<close>, \<open>content = "data"\<close>, snake case names.\<close>

fun tool_state_label :: "v4_tool_state \<Rightarrow> string" where
  "tool_state_label ToolStarted = ''started''"
| "tool_state_label ToolSucceeded = ''succeeded''"
| "tool_state_label ToolFailed = ''failed''"
| "tool_state_label ToolCancelled = ''cancelled''"

fun notice_label :: "v4_notice_code \<Rightarrow> string" where
  "notice_label NoticeTruncated = ''truncated''"
| "notice_label NoticeReconnecting = ''reconnecting''"
| "notice_label NoticeProviderUnavailable = ''provider_unavailable''"
| "notice_label NoticeRecoveryRequired = ''recovery_required''"

fun content_payload_json :: "v4_content_payload \<Rightarrow> json" where
  "content_payload_json (TextDelta text) =
     JObject [(''kind'', JString ''text_delta''), (''data'', JObject [(''text'', JString text)])]"
| "content_payload_json (ToolPayload tool_id state) =
     JObject [(''kind'', JString ''tool''),
       (''data'', JObject [(''tool_id'', JString tool_id),
                           (''state'', JString (tool_state_label state))])]"
| "content_payload_json (NoticePayload code) =
     JObject [(''kind'', JString ''notice''),
       (''data'', JObject [(''code'', JString (notice_label code))])]"
| "content_payload_json (UsagePayload i out) =
     JObject [(''kind'', JString ''usage''),
       (''data'', JObject [(''input_tokens'', JNumber (PosInt i)),
                           (''output_tokens'', JNumber (PosInt out))])]"
| "content_payload_json (TerminalPayload state) =
     JObject [(''kind'', JString ''terminal''),
       (''data'', JObject [(''state'', JString (state_as_str state))])]"

fun is_terminal_payload :: "v4_content_payload \<Rightarrow> bool" where
  "is_terminal_payload (TerminalPayload _) = True"
| "is_terminal_payload _ = False"

fun kind_of :: "v4_content_payload \<Rightarrow> string" where
  "kind_of (TextDelta _) = ''output_bounded''"
| "kind_of (TerminalPayload Cancelled) = ''cancelled''"
| "kind_of (TerminalPayload CancelRequested) = ''cancelled''"
| "kind_of (TerminalPayload Failed) = ''failed''"
| "kind_of (TerminalPayload Interrupted) = ''interrupted''"
| "kind_of (TerminalPayload _) = ''completed''"
| "kind_of (ToolPayload _ ToolStarted) = ''started''"
| "kind_of _ = ''output_bounded''"

record v4_content_event =
  ce_conversation_id :: conversation_id
  ce_run_id :: run_id
  ce_sequence :: nat
  ce_timestamp_ms :: nat
  ce_payload :: v4_content_payload

definition v4_content_event_validate :: "v4_content_event \<Rightarrow> validation_error + unit" where
  "v4_content_event_validate e =
     bindr (v4_ensure (ce_timestamp_ms e \<le> MAX_SAFE_INTEGER)) (\<lambda>_.
     bindr (v4_ensure (ce_sequence e > 0 \<and> ce_sequence e \<le> MAX_V4_CONTENT_EVENTS)) (\<lambda>_.
       v4_content_payload_validate (ce_payload e)))"

definition last_content_sequence :: "db \<Rightarrow> conversation_id \<Rightarrow> int" where
  "last_content_sequence d cid =
     (let sequences = map kw_sequence
            (filter (\<lambda>e. kw_conversation_id e = cid) (assistant_content_events d))
      in if sequences = [] then 0 else Max (set sequences))"

definition v4_ms :: "nat \<Rightarrow> store_error + int" where
  "v4_ms v = ok_or (i64_try_from v) (InvalidInput ''ts range'')"

definition insert_content_event ::
    "externals \<Rightarrow> db \<Rightarrow> conversation_id \<Rightarrow> run_id \<Rightarrow> v4_content_payload \<Rightarrow> nat \<Rightarrow>
     store_error + v4_content_event \<times> db" where
  "insert_content_event E d cid rid payload now_ms =
     bindr (map_err (\<lambda>_. InvalidInput ''content payload invalid'')
             (v4_content_payload_validate payload)) (\<lambda>_.
     bindr (ok_or (u64_try_from (last_content_sequence d cid)) (CorruptData ''neg count''))
       (\<lambda>last.
     bindr (ok_or (case checked_add_u64 last 1 of None \<Rightarrow> None
                     | Some s \<Rightarrow> if s \<le> MAX_SEQUENCE then Some s else None)
             AssistantConflict) (\<lambda>seq.
       if \<not> is_terminal_payload payload \<and> seq = MAX_SEQUENCE then Inl AssistantConflict
       else
         let pjson = json_to_string E (content_payload_json payload);
             byte_count = (case payload of TextDelta text \<Rightarrow> length text | _ \<Rightarrow> length pjson) in
         bindr (sql_sequence seq) (\<lambda>seq_sql.
         bindr (v4_ms now_ms) (\<lambda>at.
         bindr (map_err Database (insert_content_event_row
                  \<lparr>kw_conversation_id = cid, kw_sequence = seq_sql, kw_request_id = rid,
                   kw_run_id = rid, kw_kind = kind_of payload,
                   kw_byte_count = int byte_count, kw_timestamp_ms = at\<rparr> d)) (\<lambda>d1.
           let d2 = insert_content_payload_row
                      \<lparr>pw_conversation_id = cid, pw_sequence = seq_sql, pw_payload_json = pjson\<rparr> d1;
               ev = \<lparr>ce_conversation_id = cid, ce_run_id = rid, ce_sequence = seq,
                     ce_timestamp_ms = now_ms, ce_payload = payload\<rparr> in
           bindr (map_err (\<lambda>_. CorruptData ''content event invalid'')
                   (v4_content_event_validate ev)) (\<lambda>_. Inr (ev, d2))))))))"

definition turn_of :: "db \<Rightarrow> run_id \<Rightarrow> turn_row option" where
  "turn_of d rid = find (\<lambda>t. tw_run_id t = rid) (assistant_turns d)"

definition turn_conversation_id :: "externals \<Rightarrow> db \<Rightarrow> run_id \<Rightarrow> store_error + conversation_id" where
  "turn_conversation_id E d rid =
     bindr (ok_or (turn_of d rid) (Database SqlNoRows)) (\<lambda>t.
       map_err (\<lambda>_. CorruptData ''cid'') (parse_uuid_id E (tw_conversation_id t)))"

definition terminal_kinds :: "string list" where
  "terminal_kinds = [''completed'', ''cancelled'', ''failed'', ''interrupted'']"

definition sync_messages :: "run_id \<Rightarrow> run_state \<Rightarrow> db \<Rightarrow> db" where
  "sync_messages rid next d =
     d\<lparr>assistant_messages := map (\<lambda>m.
         if mw_run_id m = rid
         then m\<lparr>mw_state := state_as_str next,
                mw_text_complete := (int (length (mw_body m)) = mw_text_bytes m)\<rparr>
         else m) (assistant_messages d)\<rparr>"

definition sync_message_state ::
    "externals \<Rightarrow> nat \<Rightarrow> db \<Rightarrow> run_id \<Rightarrow> run_state \<Rightarrow> store_error + db" where
  "sync_message_state E now_ms d rid next =
     (if turn_of d rid = None then Inr d
      else let d1 = sync_messages rid next d in
        if \<not> is_terminal next then Inr d1
        else if list_ex (\<lambda>e. kw_run_id e = rid \<and> kw_kind e \<in> set terminal_kinds)
                  (assistant_content_events d1)
        then Inr d1
        else bindr (turn_conversation_id E d1 rid) (\<lambda>cid.
          case insert_content_event E d1 cid rid (TerminalPayload next) now_ms of
            Inr (_, d2) \<Rightarrow> Inr d2
          | Inl AssistantConflict \<Rightarrow> Inr d1
          | Inl e \<Rightarrow> Inl e))"

section \<open>Conversations\<close>

definition create_conversation :: "string \<Rightarrow> db \<Rightarrow> conversation_id \<Rightarrow> store_error + db" where
  "create_conversation now d cid =
     Inr (if cid \<in> cw_id ` set (conversations d) then d
          else d\<lparr>conversations := conversations d @
                  [\<lparr>cw_id = cid, cw_created_at = now, cw_updated_at = now\<rparr>]\<rparr>)"

definition set_conversation_backend ::
    "string \<Rightarrow> db \<Rightarrow> conversation_id \<Rightarrow> backend_selection \<Rightarrow> string option \<Rightarrow>
     store_error + conversation_backend \<times> db" where
  "set_conversation_backend now d cid backend backend_cid =
     (if (case backend_cid of None \<Rightarrow> False | Some value \<Rightarrow> length value > 512 \<or> has_control value)
      then Inl (InvalidInput ''backend conversation id contains controls or exceeds 512 bytes'')
      else
        let row = \<lparr>bw_conversation_id = cid, bw_backend = backend_as_str backend,
                   bw_backend_conversation_id = backend_cid, bw_updated_at = now\<rparr>;
            same = (\<lambda>r. bw_conversation_id r = cid \<and> bw_backend r = backend_as_str backend) in
        if cid \<notin> cw_id ` set (conversations d) then Inl (ConversationNotFound cid)
        else Inr (\<lparr>cb_conversation_id = cid, cb_backend = backend,
                   cb_backend_conversation_id = backend_cid, cb_updated_at = now\<rparr>,
                  d\<lparr>conversation_backends :=
                      (if list_ex same (conversation_backends d)
                       then map (\<lambda>r. if same r then row else r) (conversation_backends d)
                       else conversation_backends d @ [row])\<rparr>))"

section \<open>Runs\<close>

definition run_by_id :: "externals \<Rightarrow> db \<Rightarrow> run_id \<Rightarrow> store_error + run_record option" where
  "run_by_id E d rid =
     (case find (\<lambda>r. rw_id r = rid) (runs d) of None \<Rightarrow> Inr None
      | Some row \<Rightarrow> bindr (row_to_run E row) (\<lambda>r. Inr (Some r)))"

definition run_by_idempotency_key ::
    "externals \<Rightarrow> db \<Rightarrow> idempotency_key \<Rightarrow> store_error + run_record option" where
  "run_by_idempotency_key E d key =
     (case find (\<lambda>r. rw_idempotency_key r = key) (runs d) of None \<Rightarrow> Inr None
      | Some row \<Rightarrow> bindr (row_to_run E row) (\<lambda>r. Inr (Some r)))"

definition get_run :: "externals \<Rightarrow> db \<Rightarrow> run_id \<Rightarrow> store_error + run_record option" where
  "get_run E d rid = run_by_id E d rid"

text \<open>\<open>RunId::new()\<close> is the argument \<open>fresh\<close>.\<close>

definition create_or_get_run ::
    "externals \<Rightarrow> run_id \<Rightarrow> string \<Rightarrow> db \<Rightarrow> new_run \<Rightarrow> store_error + run_record \<times> db" where
  "create_or_get_run E fresh now d run =
     bindr (validate_new_run run) (\<lambda>_.
     bindr (run_by_idempotency_key E d (nr_idempotency_key run)) (\<lambda>found.
       case found of
         Some existing \<Rightarrow>
           if rec_request_digest existing = nr_request_digest run then Inr (existing, d)
           else Inl IdempotencyConflict
       | None \<Rightarrow>
           bindr (map_err (\<lambda>e. if e = SqlForeignKey
                                then ConversationNotFound
                                       (case nr_conversation_id run of None \<Rightarrow> [] | Some c \<Rightarrow> c)
                                else Database e)
             (insert_run \<lparr>rw_id = fresh, rw_conversation_id = nr_conversation_id run,
                          rw_idempotency_key = nr_idempotency_key run,
                          rw_request_digest = nr_request_digest run, rw_status = ''queued'',
                          rw_next_event_sequence = 2, rw_created_at = now,
                          rw_updated_at = now\<rparr> d)) (\<lambda>d1.
           bindr (map_err Database (insert_run_event
             \<lparr>ew_run_id = fresh, ew_sequence = 1, ew_kind = ''run_queued'',
              ew_payload_json = ''{}'', ew_created_at = now\<rparr> d1)) (\<lambda>d2.
           bindr (run_by_id E d2 fresh) (\<lambda>stored.
           bindr (ok_or stored (CorruptData ''newly inserted run disappeared'')) (\<lambda>record.
             Inr (record, d2)))))))"

definition append_event ::
    "externals \<Rightarrow> string \<Rightarrow> db \<Rightarrow> run_record \<Rightarrow> new_run_event \<Rightarrow> store_error + run_event \<times> db" where
  "append_event E now d run event =
     bindr (sql_sequence (rec_next_event_sequence run)) (\<lambda>sequence.
     bindr (map_err Database (insert_run_event
       \<lparr>ew_run_id = rec_id run, ew_sequence = sequence, ew_kind = ne_kind event,
        ew_payload_json = json_to_string E (ne_payload event), ew_created_at = now\<rparr> d)) (\<lambda>d1.
       Inr (\<lparr>ev_run_id = rec_id run, ev_sequence = rec_next_event_sequence run,
             ev_kind = ne_kind event, ev_payload = ne_payload event, ev_created_at = now\<rparr>, d1)))"

definition update_and_append ::
    "externals \<Rightarrow> string \<Rightarrow> nat \<Rightarrow> db \<Rightarrow> run_record \<Rightarrow> run_state \<Rightarrow> new_run_event \<Rightarrow>
     store_error + run_event \<times> db" where
  "update_and_append E now now_ms d run next event =
     bindr (sql_sequence (rec_next_event_sequence run)) (\<lambda>sequence.
     bindr (sql_sequence (rec_next_event_sequence run + 1)) (\<lambda>next_sequence.
     bindr (map_err Database (update_runs
       (\<lambda>r. rw_id r = rec_id run \<and> rw_status r = state_as_str (rec_status run)
             \<and> rw_next_event_sequence r = sequence)
       (\<lambda>r. r\<lparr>rw_status := state_as_str next, rw_next_event_sequence := next_sequence,
               rw_updated_at := now\<rparr>) d)) (\<lambda>(changed, d1).
       if changed \<noteq> 1
       then bindr (run_by_id E d1 (rec_id run)) (\<lambda>found.
            bindr (ok_or found (RunNotFound (rec_id run))) (\<lambda>current.
              Inl (UnexpectedStatus (rec_status run) (rec_status current))))
       else bindr (append_event E now d1 run event) (\<lambda>(stored, d2).
            bindr (sync_message_state E now_ms d2 (rec_id run) next) (\<lambda>d3.
              Inr (stored, d3))))))"

definition transition_run ::
    "externals \<Rightarrow> string \<Rightarrow> nat \<Rightarrow> db \<Rightarrow> run_id \<Rightarrow> run_state \<Rightarrow> run_state \<Rightarrow> new_run_event \<Rightarrow>
     store_error + run_event \<times> db" where
  "transition_run E now now_ms d rid expected next event =
     bindr (validate_event E event) (\<lambda>_.
     bindr (run_by_id E d rid) (\<lambda>found.
     bindr (ok_or found (RunNotFound rid)) (\<lambda>run.
       if rec_status run \<noteq> expected then Inl (UnexpectedStatus expected (rec_status run))
       else if is_terminal (rec_status run) then Inl (TerminalRun rid)
       else if \<not> can_step (rec_status run) next then Inl (InvalidTransition (rec_status run) next)
       else update_and_append E now now_ms d run next event)))"

definition append_run_event ::
    "externals \<Rightarrow> string \<Rightarrow> db \<Rightarrow> run_id \<Rightarrow> new_run_event \<Rightarrow> store_error + run_event \<times> db" where
  "append_run_event E now d rid event =
     bindr (validate_event E event) (\<lambda>_.
     bindr (run_by_id E d rid) (\<lambda>found.
     bindr (ok_or found (RunNotFound rid)) (\<lambda>run.
       if is_terminal (rec_status run) then Inl (TerminalRun rid)
       else bindr (append_event E now d run event) (\<lambda>(stored, d1).
            bindr (sql_sequence (rec_next_event_sequence run + 1)) (\<lambda>next_sequence.
            bindr (map_err Database (update_runs (\<lambda>r. rw_id r = rid)
                    (\<lambda>r. r\<lparr>rw_next_event_sequence := next_sequence, rw_updated_at := now\<rparr>) d1))
              (\<lambda>(_, d2). Inr (stored, d2)))))))"

definition events_of :: "db \<Rightarrow> run_id \<Rightarrow> event_row list" where
  "events_of d rid = filter (\<lambda>e. ew_run_id e = rid) (run_events d)"

definition run_events_of :: "externals \<Rightarrow> db \<Rightarrow> run_id \<Rightarrow> store_error + run_event list" where
  "run_events_of E d rid = collect_results (row_to_event E) (sort_key ew_sequence (events_of d rid))"

section \<open>Projection\<close>

text \<open>\<open>SELECT COUNT(*), MIN(sequence), MAX(sequence)\<close>; the aggregates of no row are NULL.\<close>

definition min_sequence :: "event_row list \<Rightarrow> int option" where
  "min_sequence es = (if es = [] then None else Some (Min (set (map ew_sequence es))))"

definition max_sequence :: "event_row list \<Rightarrow> int option" where
  "max_sequence es = (if es = [] then None else Some (Max (set (map ew_sequence es))))"

definition validate_event_snapshot :: "db \<Rightarrow> run_id \<Rightarrow> nat \<Rightarrow> store_error + unit" where
  "validate_event_snapshot d rid watermark =
     (let es = events_of d rid in
      bindr (sql_sequence watermark) (\<lambda>expected.
        if int (length es) \<noteq> expected \<or> min_sequence es \<noteq> Some 1 \<or> max_sequence es \<noteq> Some expected
        then Inl (CorruptData ''run event snapshot contains a sequence gap'')
        else Inr ()))"

definition lifecycle_state :: "run_lifecycle_event \<Rightarrow> run_state" where
  "lifecycle_state e =
     (case e of EvQueued \<Rightarrow> Queued | EvStarting \<Rightarrow> Starting | EvRunning \<Rightarrow> Running
      | EvCancelRequested \<Rightarrow> CancelRequested | EvSucceeded \<Rightarrow> Succeeded | EvFailed _ \<Rightarrow> Failed
      | EvCancelled _ \<Rightarrow> Cancelled | EvInterrupted _ \<Rightarrow> Interrupted)"

definition failure_table :: "(string \<times> string \<times> bool) list" where
  "failure_table =
     [(''worker_unavailable'', ''run worker is unavailable'', True),
      (''queue_full'', ''bounded run queue is full'', True),
      (''executor_failed'', ''executor returned a failure'', False),
      (''executor_unsupported'', ''executor does not support this request'', False),
      (''executor_spawn_failed'', ''executor process failed to start'', True),
      (''executor_timed_out'', ''executor exceeded its deadline'', True),
      (''executor_output_limit'', ''executor output exceeded its limit'', False),
      (''executor_provider_exit'', ''executor process exited unsuccessfully'', True),
      (''executor_teardown_failed'', ''executor process teardown failed'', False),
      (''executor_panicked'', ''executor panicked'', False)]"

definition project_failure :: "json \<Rightarrow> store_error + run_failure" where
  "project_failure payload =
     (case json_get_str payload ''code'' of
        None \<Rightarrow> Inl (CorruptData ''run failure code is missing'')
      | Some code \<Rightarrow>
          (case map_of failure_table code of
             None \<Rightarrow> Inl (CorruptData ''run failure code is invalid'')
           | Some (message, retryable) \<Rightarrow>
               if json_get_str payload ''message'' \<noteq> Some message
               then Inl (CorruptData ''run failure message is invalid'')
               else Inr \<lparr>fail_code = code, fail_message = message, fail_retryable = retryable\<rparr>))"

definition project_kind ::
    "string \<Rightarrow> json \<Rightarrow> run_state option \<Rightarrow> store_error + run_lifecycle_event" where
  "project_kind kind payload current_state =
     (if kind = ''run_queued'' then Inr EvQueued
      else if kind = ''run_starting'' then Inr EvStarting
      else if kind = ''run_started'' then Inr EvRunning
      else if kind = ''run_cancel_requested'' then Inr EvCancelRequested
      else if kind = ''run_succeeded'' then Inr EvSucceeded
      else if kind = ''run_failed'' then bindr (project_failure payload) (\<lambda>f. Inr (EvFailed f))
      else if kind = ''run_cancelled'' then
        (case json_get_str payload ''reason'' of
           None \<Rightarrow> Inr (EvCancelled CancelRequestedReason)
         | Some reason \<Rightarrow>
             if reason = ''requested'' then Inr (EvCancelled CancelRequestedReason)
             else if reason = ''manager_shutdown'' then Inr (EvCancelled CancelManagerShutdown)
             else Inl (CorruptData ''run cancellation reason is invalid''))
      else if kind = ''run_manager_stopped'' then
        (case current_state of
           Some Cancelled \<Rightarrow> Inr (EvCancelled CancelManagerShutdown)
         | Some Interrupted \<Rightarrow> Inr (EvInterrupted InterruptManagerShutdown)
         | _ \<Rightarrow> Inl (CorruptData ''manager shutdown event does not match the run state''))
      else if kind = ''run_recovered_interrupted'' then
        (if json_get_str payload ''reason'' \<noteq> Some ''daemon_restart''
         then Inl (CorruptData ''run interruption reason is invalid'')
         else Inr (EvInterrupted DaemonRestart))
      else Inl (CorruptData ''run event kind cannot cross the application boundary''))"

definition project_run_event ::
    "externals \<Rightarrow> run_event \<Rightarrow> run_state option \<Rightarrow> store_error + run_event_record" where
  "project_run_event E event current_state =
     bindr (project_kind (ev_kind event) (ev_payload event) current_state) (\<lambda>projected.
       if (case current_state of None \<Rightarrow> False | Some s \<Rightarrow> lifecycle_state projected \<noteq> s)
       then Inl (CorruptData ''latest run event does not match the run state'')
       else
         let record = \<lparr>er_run_id = ev_run_id event, er_sequence = ev_sequence event,
                       er_recorded_at = ev_created_at event, er_event = projected\<rparr> in
         bindr (map_err (\<lambda>_. CorruptData ''run event projection is invalid'')
                 (run_event_record_validate E record)) (\<lambda>_. Inr record))"

definition event_watermark :: "run_record \<Rightarrow> store_error + nat" where
  "event_watermark run =
     ok_or (case checked_sub_u64 (rec_next_event_sequence run) 1 of None \<Rightarrow> None
              | Some n \<Rightarrow> if n > 0 then Some n else None)
       (CorruptData ''run event watermark is missing'')"

definition project_run_snapshot ::
    "externals \<Rightarrow> db \<Rightarrow> run_record \<Rightarrow> store_error + run_snapshot" where
  "project_run_snapshot E d run =
     bindr (event_watermark run) (\<lambda>event_count.
     bindr (validate_event_snapshot d (rec_id run) event_count) (\<lambda>_.
     bindr (sql_sequence event_count) (\<lambda>sequence.
     bindr (ok_or (find (\<lambda>e. ew_sequence e = sequence) (events_of d (rec_id run)))
             (Database SqlNoRows)) (\<lambda>row.
     bindr (row_to_event E row) (\<lambda>event.
     bindr (project_run_event E event (Some (rec_status run))) (\<lambda>latest.
       let failure = (case er_event latest of EvFailed f \<Rightarrow> Some f | _ \<Rightarrow> None);
           snapshot = \<lparr>snap_run_id = rec_id run, snap_conversation_id = rec_conversation_id run,
                       snap_idempotency_key = rec_idempotency_key run,
                       snap_state = rec_status run, snap_created_at = rec_created_at run,
                       snap_updated_at = rec_updated_at run, snap_failure = failure,
                       snap_event_count = event_count\<rparr> in
       bindr (map_err (\<lambda>_. CorruptData ''run snapshot projection is invalid'')
               (run_snapshot_validate E snapshot)) (\<lambda>_. Inr snapshot)))))))"

definition run_snapshot :: "externals \<Rightarrow> db \<Rightarrow> run_id \<Rightarrow> store_error + run_snapshot option" where
  "run_snapshot E d rid =
     bindr (run_by_id E d rid) (\<lambda>found.
       case found of None \<Rightarrow> Inr None
       | Some run \<Rightarrow> bindr (project_run_snapshot E d run) (\<lambda>s. Inr (Some s)))"

definition page_rows :: "db \<Rightarrow> run_id \<Rightarrow> int \<Rightarrow> int \<Rightarrow> nat \<Rightarrow> event_row list" where
  "page_rows d rid after watermark limit =
     take limit (sort_key ew_sequence
       (filter (\<lambda>e. ew_sequence e > after \<and> ew_sequence e \<le> watermark) (events_of d rid)))"

definition run_events_page ::
    "externals \<Rightarrow> db \<Rightarrow> run_id \<Rightarrow> nat \<Rightarrow> nat option \<Rightarrow> nat \<Rightarrow> store_error + run_event_page" where
  "run_events_page E d rid after_sequence through_sequence limit =
     (if \<not> (1 \<le> limit \<and> limit \<le> MAX_RUN_EVENT_PAGE)
      then Inl (InvalidInput ''run event page limit must be within 1..=16'')
      else if after_sequence > 0 \<and> through_sequence = None
      then Inl (InvalidInput ''run event continuation requires a watermark'')
      else
        bindr (run_by_id E d rid) (\<lambda>found.
        bindr (ok_or found (RunNotFound rid)) (\<lambda>run.
        bindr (event_watermark run) (\<lambda>current_watermark.
        bindr (validate_event_snapshot d rid current_watermark) (\<lambda>_.
          let fixed_watermark = (case through_sequence of None \<Rightarrow> current_watermark | Some w \<Rightarrow> w) in
          if fixed_watermark = 0 \<or> fixed_watermark > current_watermark
          then Inl (InvalidInput ''run event watermark is missing or in the future'')
          else if after_sequence > fixed_watermark
          then Inl (InvalidInput ''run event cursor is missing or beyond the watermark'')
          else
            bindr (sql_sequence after_sequence) (\<lambda>after_sql.
            bindr (sql_sequence fixed_watermark) (\<lambda>watermark_sql.
            bindr (collect_results (row_to_event E)
                    (page_rows d rid after_sql watermark_sql limit)) (\<lambda>raw_events.
            bindr (collect_results (\<lambda>event. project_run_event E event
                     (if ev_sequence event = current_watermark then Some (rec_status run) else None))
                    raw_events) (\<lambda>events.
              let next_after = last_sequence after_sequence events;
                  page = \<lparr>page_run_id = rid, page_events = events,
                          page_after_sequence = after_sequence,
                          page_next_after_sequence = next_after,
                          page_through_sequence = fixed_watermark,
                          page_has_more = (next_after < fixed_watermark)\<rparr> in
              bindr (map_err (\<lambda>_. CorruptData ''run event page projection is invalid'')
                      (run_event_page_validate E page)) (\<lambda>_. Inr page))))))))))"

section \<open>Recovery\<close>

definition recovery_event :: new_run_event where
  "recovery_event = \<lparr>ne_kind = ''run_recovered_interrupted'',
                     ne_payload = JObject [(''reason'', JString ''daemon_restart'')]\<rparr>"

definition recovery_ids :: "db \<Rightarrow> string list" where
  "recovery_ids d =
     map rw_id (sort_key (\<lambda>r. (rw_created_at r, rw_id r))
       (filter (\<lambda>r. rw_status r \<in> {''starting'', ''running'', ''cancel_requested''}) (runs d)))"

fun recover_loop ::
    "externals \<Rightarrow> string \<Rightarrow> nat \<Rightarrow> string list \<Rightarrow> db \<Rightarrow> store_error + db" where
  "recover_loop E now now_ms [] d = Inr d"
| "recover_loop E now now_ms (raw_id # ids) d =
     bindr (parse_run_id E raw_id) (\<lambda>rid.
     bindr (run_by_id E d rid) (\<lambda>found.
     bindr (ok_or found (CorruptData ''recovery selected a missing run'')) (\<lambda>run.
     bindr (update_and_append E now now_ms d run Interrupted recovery_event) (\<lambda>(_, d').
       recover_loop E now now_ms ids d'))))"

definition recover_interrupted_on ::
    "externals \<Rightarrow> string \<Rightarrow> nat \<Rightarrow> db \<Rightarrow> store_error + nat \<times> db" where
  "recover_interrupted_on E now now_ms d =
     (let ids = recovery_ids d in
      bindr (recover_loop E now now_ms ids d) (\<lambda>d'. Inr (length ids, d')))"

end
