(* ===== verification/Tool_Ledger.thy ===== *)
theory Tool_Ledger
  imports Run_Store
begin

text \<open>
  Tool approvals and executions: \<open>src/runtime/store/tool_approval.rs\<close> and
  \<open>src/runtime/store/tool_execution.rs\<close>, over the tables of migrations 5 and 6. An
  approval belongs to one call and one digest; preparing an execution consumes it in the
  same transaction. Statements carry the CHECK, UNIQUE and FOREIGN KEY clauses of the
  schema. The governed tables are read here and written by \<open>governed.rs\<close>, which is not
  modelled.
\<close>

section \<open>Approval data and codec\<close>

definition MAX_TOOL_APPROVAL_TTL_MS :: nat where "MAX_TOOL_APPROVAL_TTL_MS = 15 * 60 * 1000"

datatype tool_approval_state =
  ApPending | ApApproved | ApDenied | ApCancelled | ApExpired | ApConsumed

fun approval_as_str :: "tool_approval_state \<Rightarrow> string" where
  "approval_as_str ApPending = ''pending''"
| "approval_as_str ApApproved = ''approved''"
| "approval_as_str ApDenied = ''denied''"
| "approval_as_str ApCancelled = ''cancelled''"
| "approval_as_str ApExpired = ''expired''"
| "approval_as_str ApConsumed = ''consumed''"

definition approval_parse :: "string \<Rightarrow> store_error + tool_approval_state" where
  "approval_parse value =
     (if value = ''pending'' then Inr ApPending
      else if value = ''approved'' then Inr ApApproved
      else if value = ''denied'' then Inr ApDenied
      else if value = ''cancelled'' then Inr ApCancelled
      else if value = ''expired'' then Inr ApExpired
      else if value = ''consumed'' then Inr ApConsumed
      else Inl (CorruptData ''tool approval state is invalid''))"

record tool_approval_record =
  ta_call_id :: string
  ta_tool_id :: string
  ta_call_digest :: string
  ta_state :: tool_approval_state
  ta_decision_id :: "string option"
  ta_cancellation_id :: "string option"
  ta_created_at_ms :: nat
  ta_expires_at_ms :: nat
  ta_updated_at_ms :: nat

record new_tool_approval =
  na_call_id :: string
  na_tool_id :: string
  na_call_digest :: string
  na_created_at_ms :: nat
  na_expires_at_ms :: nat

datatype tool_approval_decision = Approve | Deny

record tool_approval_event =
  te_sequence :: nat
  te_call_id :: string
  te_state :: tool_approval_state
  te_decision_id :: "string option"
  te_cancellation_id :: "string option"
  te_occurred_at_ms :: nat

definition id_char :: "char \<Rightarrow> bool" where
  "id_char c \<longleftrightarrow> is_ascii_alphanumeric c \<or> c \<in> set ''._:-''"

definition validate_id :: "string \<Rightarrow> string \<Rightarrow> store_error + unit" where
  "validate_id value message =
     (if value = [] \<or> length value > 128 \<or> \<not> list_all id_char value
      then Inl (InvalidInput message) else Inr ())"

definition digest_ok :: "string \<Rightarrow> bool" where
  "digest_ok value \<longleftrightarrow> length value = 64 \<and> list_all is_lower_hex value"

definition validate_digest :: "string \<Rightarrow> store_error + unit" where
  "validate_digest value =
     (if \<not> digest_ok value then Inl (InvalidInput ''tool approval digest is invalid'') else Inr ())"

definition sql_u64 :: "nat \<Rightarrow> store_error + int" where
  "sql_u64 value = ok_or (i64_try_from value) (InvalidInput ''tool approval timestamp exceeds SQLite'')"

definition from_sql_u64 :: "int \<Rightarrow> store_error + nat" where
  "from_sql_u64 value = ok_or (u64_try_from value) (Database (SqlConversion ''integer''))"

definition row_to_approval :: "approval_row \<Rightarrow> store_error + tool_approval_record" where
  "row_to_approval row =
     bindr (map_err to_sql_error (approval_parse (tap_state row))) (\<lambda>state.
     bindr (from_sql_u64 (tap_created_at_ms row)) (\<lambda>created.
     bindr (from_sql_u64 (tap_expires_at_ms row)) (\<lambda>expires.
     bindr (from_sql_u64 (tap_updated_at_ms row)) (\<lambda>updated.
       Inr \<lparr>ta_call_id = tap_call_id row, ta_tool_id = tap_tool_id row,
            ta_call_digest = tap_call_digest row, ta_state = state,
            ta_decision_id = tap_decision_id row, ta_cancellation_id = tap_cancellation_id row,
            ta_created_at_ms = created, ta_expires_at_ms = expires,
            ta_updated_at_ms = updated\<rparr>))))"

definition row_to_approval_event :: "approval_event_row \<Rightarrow> store_error + tool_approval_event" where
  "row_to_approval_event row =
     bindr (from_sql_u64 (tae_sequence row)) (\<lambda>sequence.
     bindr (map_err to_sql_error (approval_parse (tae_state row))) (\<lambda>state.
     bindr (from_sql_u64 (tae_occurred_at_ms row)) (\<lambda>occurred.
       Inr \<lparr>te_sequence = sequence, te_call_id = tae_call_id row, te_state = state,
            te_decision_id = tae_decision_id row, te_cancellation_id = tae_cancellation_id row,
            te_occurred_at_ms = occurred\<rparr>)))"

section \<open>Approval statements\<close>

definition approval_row_check :: "approval_row \<Rightarrow> bool" where
  "approval_row_check r \<longleftrightarrow>
     digest_ok (tap_call_digest r)
   \<and> 0 \<le> tap_created_at_ms r \<and> tap_created_at_ms r < tap_expires_at_ms r
   \<and> tap_created_at_ms r \<le> tap_updated_at_ms r
   \<and> (tap_state r = ''pending'' \<and> tap_decision_id r = None \<and> tap_cancellation_id r = None
      \<or> tap_state r \<in> {''approved'', ''denied'', ''consumed''}
        \<and> tap_decision_id r \<noteq> None \<and> tap_cancellation_id r = None
      \<or> tap_state r = ''cancelled'' \<and> tap_cancellation_id r \<noteq> None
      \<or> tap_state r = ''expired'' \<and> tap_cancellation_id r = None)"

text \<open>A UNIQUE column: distinct values, NULLs apart.\<close>

definition unique_column :: "('r \<Rightarrow> string option) \<Rightarrow> 'r list \<Rightarrow> bool" where
  "unique_column c rows \<longleftrightarrow> distinct (List.map_filter c rows)"

definition update_approvals ::
    "(approval_row \<Rightarrow> bool) \<Rightarrow> (approval_row \<Rightarrow> approval_row) \<Rightarrow> db \<Rightarrow> sql_error + nat \<times> db" where
  "update_approvals p f d =
     (let rows = map (\<lambda>r. if p r then f r else r) (tool_approvals d) in
      if \<not> list_all (\<lambda>r. approval_row_check (f r)) (filter p (tool_approvals d)) then Inl SqlCheck
      else if \<not> unique_column tap_decision_id rows \<or> \<not> unique_column tap_cancellation_id rows
      then Inl SqlUnique
      else Inr (length (filter p (tool_approvals d)), d\<lparr>tool_approvals := rows\<rparr>))"

text \<open>\<open>INSERT OR IGNORE INTO tool_approvals\<close>: a violated CHECK or key ignores the row.\<close>

definition insert_or_ignore_approval :: "approval_row \<Rightarrow> db \<Rightarrow> nat \<times> db" where
  "insert_or_ignore_approval r d =
     (if \<not> approval_row_check r \<or> tap_call_id r \<in> tap_call_id ` set (tool_approvals d)
         \<or> \<not> unique_column tap_decision_id (tool_approvals d @ [r])
         \<or> \<not> unique_column tap_cancellation_id (tool_approvals d @ [r])
      then (0, d) else (1, d\<lparr>tool_approvals := tool_approvals d @ [r]\<rparr>))"

text \<open>The next value of an AUTOINCREMENT key of a table whose rows are never deleted.\<close>

definition next_rowid :: "int list \<Rightarrow> int" where
  "next_rowid keys = (if keys = [] then 1 else Max (set keys) + 1)"

definition insert_approval_event ::
    "db \<Rightarrow> string \<Rightarrow> tool_approval_state \<Rightarrow> string option \<Rightarrow> string option \<Rightarrow> int \<Rightarrow>
     store_error + db" where
  "insert_approval_event d call_id state decision_id cancellation_id occurred_at_ms =
     (if occurred_at_ms < 0 then Inl (Database SqlCheck)
      else if call_id \<notin> tap_call_id ` set (tool_approvals d) then Inl (Database SqlForeignKey)
      else Inr (d\<lparr>tool_approval_events := tool_approval_events d @
             [\<lparr>tae_sequence = next_rowid (map tae_sequence (tool_approval_events d)),
               tae_call_id = call_id, tae_state = approval_as_str state,
               tae_decision_id = decision_id, tae_cancellation_id = cancellation_id,
               tae_occurred_at_ms = occurred_at_ms\<rparr>]\<rparr>))"

definition read_approval :: "db \<Rightarrow> string \<Rightarrow> store_error + tool_approval_record option" where
  "read_approval d call_id =
     (case find (\<lambda>r. tap_call_id r = call_id) (tool_approvals d) of None \<Rightarrow> Inr None
      | Some row \<Rightarrow> bindr (row_to_approval row) (\<lambda>r. Inr (Some r)))"

definition require_approval :: "db \<Rightarrow> string \<Rightarrow> store_error + tool_approval_record" where
  "require_approval d call_id =
     bindr (read_approval d call_id) (\<lambda>found. ok_or found (ToolApprovalNotFound call_id))"

definition resolution_exists :: "db \<Rightarrow> string \<Rightarrow> bool" where
  "resolution_exists d rid \<longleftrightarrow>
     list_ex (\<lambda>r. tap_decision_id r = Some rid \<or> tap_cancellation_id r = Some rid) (tool_approvals d)
   \<or> list_ex (\<lambda>r. tex_execution_id r = rid) (tool_executions d)
   \<or> list_ex (\<lambda>r. gi_execution_id r = rid) (governed_tool_intents d)"

definition require_digest :: "tool_approval_record \<Rightarrow> string \<Rightarrow> store_error + unit" where
  "require_digest record digest =
     (if ta_call_digest record = digest then Inr () else Inl ToolApprovalDigestMismatch)"

section \<open>Approval operations\<close>

definition open_label :: "string \<Rightarrow> bool" where
  "open_label s \<longleftrightarrow> s \<in> {''pending'', ''approved''}"

definition expire_if_needed ::
    "db \<Rightarrow> tool_approval_record \<Rightarrow> int \<Rightarrow> store_error + (tool_approval_record \<times> db) option" where
  "expire_if_needed d current now =
     (if ta_state current \<notin> {ApPending, ApApproved} then Inr None
      else bindr (sql_u64 (ta_expires_at_ms current)) (\<lambda>expires.
        if now < expires then Inr None
        else bindr (map_err Database (update_approvals
               (\<lambda>r. tap_call_id r = ta_call_id current \<and> open_label (tap_state r))
               (\<lambda>r. r\<lparr>tap_state := ''expired'', tap_updated_at_ms := now\<rparr>) d)) (\<lambda>(_, d1).
             bindr (insert_approval_event d1 (ta_call_id current) ApExpired
                     (ta_decision_id current) None now) (\<lambda>d2.
             bindr (require_approval d2 (ta_call_id current)) (\<lambda>record.
               Inr (Some (record, d2)))))))"

definition create_on ::
    "db \<Rightarrow> new_tool_approval \<Rightarrow> store_error + tool_approval_record \<times> db" where
  "create_on d request =
     bindr (validate_id (na_call_id request) ''tool approval call id is invalid'') (\<lambda>_.
     bindr (validate_id (na_tool_id request) ''tool approval tool id is invalid'') (\<lambda>_.
     bindr (validate_digest (na_call_digest request)) (\<lambda>_.
     bindr (ok_or (checked_sub_u64 (na_expires_at_ms request) (na_created_at_ms request))
             (InvalidInput ''tool approval expiry is invalid'')) (\<lambda>ttl.
       if ttl = 0 \<or> ttl > MAX_TOOL_APPROVAL_TTL_MS
       then Inl (InvalidInput ''tool approval expiry exceeds the server bound'')
       else
         bindr (sql_u64 (na_created_at_ms request)) (\<lambda>created_at.
         bindr (sql_u64 (na_expires_at_ms request)) (\<lambda>expires_at.
           if list_ex (\<lambda>g. gi_call_id g = na_call_id request) (governed_tool_intents d)
           then Inl ToolApprovalConflict
           else
             let (inserted, d1) = insert_or_ignore_approval
                   \<lparr>tap_call_id = na_call_id request, tap_tool_id = na_tool_id request,
                    tap_call_digest = na_call_digest request, tap_state = ''pending'',
                    tap_decision_id = None, tap_cancellation_id = None,
                    tap_created_at_ms = created_at, tap_expires_at_ms = expires_at,
                    tap_updated_at_ms = created_at\<rparr> d in
             if inserted = 0 then Inl ToolApprovalConflict
             else
               bindr (insert_approval_event d1 (na_call_id request) ApPending None None created_at)
                 (\<lambda>d2.
               bindr (read_approval d2 (na_call_id request)) (\<lambda>found.
               bindr (ok_or found (CorruptData ''created tool approval is missing'')) (\<lambda>record.
                 Inr (record, d2))))))))))"

definition create_tool_approval ::
    "db \<Rightarrow> new_tool_approval \<Rightarrow> store_error + tool_approval_record \<times> db" where
  "create_tool_approval d request = create_on d request"

fun decision_state :: "tool_approval_decision \<Rightarrow> tool_approval_state" where
  "decision_state Approve = ApApproved"
| "decision_state Deny = ApDenied"

definition decide_tool_approval ::
    "db \<Rightarrow> string \<Rightarrow> string \<Rightarrow> string \<Rightarrow> tool_approval_decision \<Rightarrow> nat \<Rightarrow>
     store_error + tool_approval_record \<times> db" where
  "decide_tool_approval d call_id call_digest decision_id decision now_ms =
     bindr (validate_id call_id ''tool approval call id is invalid'') (\<lambda>_.
     bindr (validate_digest call_digest) (\<lambda>_.
     bindr (validate_id decision_id ''tool approval decision id is invalid'') (\<lambda>_.
     bindr (sql_u64 now_ms) (\<lambda>now.
     bindr (require_approval d call_id) (\<lambda>current.
     bindr (require_digest current call_digest) (\<lambda>_.
     bindr (expire_if_needed d current now) (\<lambda>expired.
       case expired of Some (record, d1) \<Rightarrow> Inr (record, d1)
       | None \<Rightarrow>
           if ta_state current \<noteq> ApPending \<or> resolution_exists d decision_id
           then Inl ToolApprovalConflict
           else let state = decision_state decision in
             bindr (map_err Database (update_approvals
                     (\<lambda>r. tap_call_id r = call_id \<and> tap_state r = ''pending'')
                     (\<lambda>r. r\<lparr>tap_state := approval_as_str state, tap_decision_id := Some decision_id,
                             tap_updated_at_ms := now\<rparr>) d)) (\<lambda>(_, d1).
             bindr (insert_approval_event d1 call_id state (Some decision_id) None now) (\<lambda>d2.
             bindr (require_approval d2 call_id) (\<lambda>record. Inr (record, d2)))))))))))"

definition cancel_tool_approval ::
    "db \<Rightarrow> string \<Rightarrow> string \<Rightarrow> nat \<Rightarrow> store_error + tool_approval_record \<times> db" where
  "cancel_tool_approval d call_id cancellation_id now_ms =
     bindr (validate_id call_id ''tool approval call id is invalid'') (\<lambda>_.
     bindr (validate_id cancellation_id ''tool cancellation id is invalid'') (\<lambda>_.
     bindr (sql_u64 now_ms) (\<lambda>now.
     bindr (require_approval d call_id) (\<lambda>current.
     bindr (expire_if_needed d current now) (\<lambda>expired.
       case expired of Some (record, d1) \<Rightarrow> Inr (record, d1)
       | None \<Rightarrow>
           if ta_state current \<notin> {ApPending, ApApproved} \<or> resolution_exists d cancellation_id
           then Inl ToolApprovalConflict
           else
             bindr (map_err Database (update_approvals
                     (\<lambda>r. tap_call_id r = call_id \<and> open_label (tap_state r))
                     (\<lambda>r. r\<lparr>tap_state := ''cancelled'', tap_cancellation_id := Some cancellation_id,
                             tap_updated_at_ms := now\<rparr>) d)) (\<lambda>(_, d1).
             bindr (insert_approval_event d1 call_id ApCancelled (ta_decision_id current)
                     (Some cancellation_id) now) (\<lambda>d2.
             bindr (require_approval d2 call_id) (\<lambda>record. Inr (record, d2)))))))))"

definition tool_approval ::
    "db \<Rightarrow> string \<Rightarrow> nat \<Rightarrow> store_error + tool_approval_record option \<times> db" where
  "tool_approval d call_id now_ms =
     bindr (validate_id call_id ''tool approval call id is invalid'') (\<lambda>_.
     bindr (sql_u64 now_ms) (\<lambda>now.
     bindr (read_approval d call_id) (\<lambda>found.
       case found of None \<Rightarrow> Inr (None, d)
       | Some current \<Rightarrow>
           bindr (expire_if_needed d current now) (\<lambda>expired.
             case expired of Some (record, d1) \<Rightarrow> Inr (Some record, d1)
             | None \<Rightarrow> Inr (Some current, d)))))"

definition approval_log :: "db \<Rightarrow> string \<Rightarrow> approval_event_row list" where
  "approval_log d call_id = filter (\<lambda>e. tae_call_id e = call_id) (tool_approval_events d)"

definition tool_approval_events_of :: "db \<Rightarrow> string \<Rightarrow> store_error + tool_approval_event list" where
  "tool_approval_events_of d call_id =
     bindr (validate_id call_id ''tool approval call id is invalid'') (\<lambda>_.
       collect_results row_to_approval_event (sort_key tae_sequence (approval_log d call_id)))"

section \<open>Execution data and codec\<close>

datatype tool_execution_state = ExPrepared | ExInterrupted | ExSucceeded | ExFailed

fun execution_as_str :: "tool_execution_state \<Rightarrow> string" where
  "execution_as_str ExPrepared = ''prepared''"
| "execution_as_str ExInterrupted = ''interrupted''"
| "execution_as_str ExSucceeded = ''succeeded''"
| "execution_as_str ExFailed = ''failed''"

definition execution_parse :: "string \<Rightarrow> store_error + tool_execution_state" where
  "execution_parse value =
     (if value = ''prepared'' then Inr ExPrepared
      else if value = ''interrupted'' then Inr ExInterrupted
      else if value = ''succeeded'' then Inr ExSucceeded
      else if value = ''failed'' then Inr ExFailed
      else Inl (CorruptData ''tool execution state is invalid''))"

datatype tool_execution_outcome = OutcomeSucceeded | OutcomeFailed

fun outcome_state :: "tool_execution_outcome \<Rightarrow> tool_execution_state" where
  "outcome_state OutcomeSucceeded = ExSucceeded"
| "outcome_state OutcomeFailed = ExFailed"

record tool_execution_record =
  tx_call_id :: string
  tx_execution_id :: string
  tx_state :: tool_execution_state
  tx_result_digest :: "string option"
  tx_started_at_ms :: nat
  tx_finished_at_ms :: "nat option"

record tool_execution_event =
  xe_sequence :: nat
  xe_call_id :: string
  xe_execution_id :: string
  xe_state :: tool_execution_state
  xe_result_digest :: "string option"
  xe_occurred_at_ms :: nat

datatype tool_execution_preparation =
  Prepared tool_execution_record | ExpiredApproval tool_approval_record

definition row_to_execution :: "execution_row \<Rightarrow> store_error + tool_execution_record" where
  "row_to_execution row =
     bindr (map_err to_sql_error (execution_parse (tex_state row))) (\<lambda>state.
     bindr (from_sql_u64 (tex_started_at_ms row)) (\<lambda>started.
     bindr (case tex_finished_at_ms row of None \<Rightarrow> Inr None
              | Some v \<Rightarrow> bindr (from_sql_u64 v) (\<lambda>n. Inr (Some n))) (\<lambda>finished.
       Inr \<lparr>tx_call_id = tex_call_id row, tx_execution_id = tex_execution_id row,
            tx_state = state, tx_result_digest = tex_result_digest row,
            tx_started_at_ms = started, tx_finished_at_ms = finished\<rparr>)))"

definition row_to_execution_event :: "execution_event_row \<Rightarrow> store_error + tool_execution_event" where
  "row_to_execution_event row =
     bindr (from_sql_u64 (txe_sequence row)) (\<lambda>sequence.
     bindr (map_err to_sql_error (execution_parse (txe_state row))) (\<lambda>state.
     bindr (from_sql_u64 (txe_occurred_at_ms row)) (\<lambda>occurred.
       Inr \<lparr>xe_sequence = sequence, xe_call_id = txe_call_id row,
            xe_execution_id = txe_execution_id row, xe_state = state,
            xe_result_digest = txe_result_digest row, xe_occurred_at_ms = occurred\<rparr>)))"

section \<open>Execution statements\<close>

definition execution_row_check :: "execution_row \<Rightarrow> bool" where
  "execution_row_check r \<longleftrightarrow>
     (case tex_result_digest r of None \<Rightarrow> True | Some g \<Rightarrow> digest_ok g)
   \<and> 0 \<le> tex_started_at_ms r
   \<and> (case tex_finished_at_ms r of None \<Rightarrow> True | Some t \<Rightarrow> tex_started_at_ms r \<le> t)
   \<and> (tex_state r = ''prepared'' \<and> tex_result_digest r = None \<and> tex_finished_at_ms r = None
      \<or> tex_state r = ''interrupted'' \<and> tex_result_digest r = None \<and> tex_finished_at_ms r \<noteq> None
      \<or> tex_state r \<in> {''succeeded'', ''failed''}
        \<and> tex_result_digest r \<noteq> None \<and> tex_finished_at_ms r \<noteq> None)"

definition update_executions ::
    "(execution_row \<Rightarrow> bool) \<Rightarrow> (execution_row \<Rightarrow> execution_row) \<Rightarrow> db \<Rightarrow> sql_error + nat \<times> db" where
  "update_executions p f d =
     (if \<not> list_all (\<lambda>r. execution_row_check (f r)) (filter p (tool_executions d)) then Inl SqlCheck
      else Inr (length (filter p (tool_executions d)),
                d\<lparr>tool_executions := map (\<lambda>r. if p r then f r else r) (tool_executions d)\<rparr>))"

definition insert_execution :: "execution_row \<Rightarrow> db \<Rightarrow> sql_error + db" where
  "insert_execution r d =
     (if \<not> execution_row_check r then Inl SqlCheck
      else if tex_call_id r \<in> tex_call_id ` set (tool_executions d)
              \<or> tex_execution_id r \<in> tex_execution_id ` set (tool_executions d)
      then Inl SqlUnique
      else if tex_call_id r \<notin> tap_call_id ` set (tool_approvals d) then Inl SqlForeignKey
      else Inr (d\<lparr>tool_executions := tool_executions d @ [r]\<rparr>))"

definition insert_execution_event ::
    "db \<Rightarrow> string \<Rightarrow> string \<Rightarrow> tool_execution_state \<Rightarrow> string option \<Rightarrow> int \<Rightarrow> store_error + db" where
  "insert_execution_event d call_id execution_id state result_digest occurred_at_ms =
     (if occurred_at_ms < 0 \<or> (case result_digest of None \<Rightarrow> False | Some g \<Rightarrow> \<not> digest_ok g)
      then Inl (Database SqlCheck)
      else if call_id \<notin> tex_call_id ` set (tool_executions d) then Inl (Database SqlForeignKey)
      else Inr (d\<lparr>tool_execution_events := tool_execution_events d @
             [\<lparr>txe_sequence = next_rowid (map txe_sequence (tool_execution_events d)),
               txe_call_id = call_id, txe_execution_id = execution_id,
               txe_state = execution_as_str state, txe_result_digest = result_digest,
               txe_occurred_at_ms = occurred_at_ms\<rparr>]\<rparr>))"

definition read_execution :: "db \<Rightarrow> string \<Rightarrow> store_error + tool_execution_record option" where
  "read_execution d call_id =
     (case find (\<lambda>r. tex_call_id r = call_id) (tool_executions d) of None \<Rightarrow> Inr None
      | Some row \<Rightarrow> bindr (row_to_execution row) (\<lambda>r. Inr (Some r)))"

definition require_execution :: "db \<Rightarrow> string \<Rightarrow> store_error + tool_execution_record" where
  "require_execution d call_id =
     bindr (read_execution d call_id) (\<lambda>found. ok_or found (ToolExecutionNotFound call_id))"

section \<open>Execution operations\<close>

definition prepare_tool_execution ::
    "db \<Rightarrow> string \<Rightarrow> string \<Rightarrow> string \<Rightarrow> nat \<Rightarrow>
     store_error + tool_execution_preparation \<times> db" where
  "prepare_tool_execution d call_id call_digest execution_id now_ms =
     bindr (validate_id call_id ''tool execution call id is invalid'') (\<lambda>_.
     bindr (validate_digest call_digest) (\<lambda>_.
     bindr (validate_id execution_id ''tool execution id is invalid'') (\<lambda>_.
     bindr (sql_u64 now_ms) (\<lambda>now.
       if list_ex (\<lambda>g. gi_call_id g = call_id \<or> gi_execution_id g = execution_id)
            (governed_tool_intents d)
          \<or> call_id \<in> set (governed_approval_previews d)
       then Inl ToolExecutionConflict
       else
         bindr (require_approval d call_id) (\<lambda>current.
         bindr (require_digest current call_digest) (\<lambda>_.
         bindr (expire_if_needed d current now) (\<lambda>expired.
           case expired of Some (record, d1) \<Rightarrow> Inr (ExpiredApproval record, d1)
           | None \<Rightarrow>
               if ta_state current \<noteq> ApApproved \<or> resolution_exists d execution_id
               then Inl ToolExecutionConflict
               else bindr (read_execution d call_id) (\<lambda>existing.
                 if existing \<noteq> None then Inl ToolExecutionConflict
                 else
                   bindr (map_err Database (update_approvals
                           (\<lambda>r. tap_call_id r = call_id \<and> tap_state r = ''approved'')
                           (\<lambda>r. r\<lparr>tap_state := ''consumed'', tap_updated_at_ms := now\<rparr>) d))
                     (\<lambda>(changed, d1).
                   if changed \<noteq> 1 then Inl ToolExecutionConflict
                   else
                     bindr (insert_approval_event d1 call_id ApConsumed (ta_decision_id current)
                             None now) (\<lambda>d2.
                     bindr (map_err Database (insert_execution
                             \<lparr>tex_call_id = call_id, tex_execution_id = execution_id,
                              tex_state = ''prepared'', tex_result_digest = None,
                              tex_started_at_ms = now, tex_finished_at_ms = None\<rparr> d2)) (\<lambda>d3.
                     bindr (insert_execution_event d3 call_id execution_id ExPrepared None now)
                       (\<lambda>d4.
                     bindr (require_execution d4 call_id) (\<lambda>record.
                       Inr (Prepared record, d4))))))))))))))"

definition complete_tool_execution ::
    "db \<Rightarrow> string \<Rightarrow> string \<Rightarrow> tool_execution_outcome \<Rightarrow> string \<Rightarrow> nat \<Rightarrow>
     store_error + tool_execution_record \<times> db" where
  "complete_tool_execution d call_id execution_id outcome result_digest now_ms =
     bindr (validate_id call_id ''tool execution call id is invalid'') (\<lambda>_.
     bindr (validate_id execution_id ''tool execution id is invalid'') (\<lambda>_.
     bindr (validate_digest result_digest) (\<lambda>_.
     bindr (sql_u64 now_ms) (\<lambda>now.
       if list_ex (\<lambda>g. gi_call_id g = call_id) (governed_tool_intents d)
       then Inl ToolExecutionConflict
       else
         bindr (require_execution d call_id) (\<lambda>current.
           if tx_execution_id current \<noteq> execution_id \<or> tx_state current \<noteq> ExPrepared
              \<or> now_ms < tx_started_at_ms current
           then Inl ToolExecutionConflict
           else let state = outcome_state outcome in
             bindr (map_err Database (update_executions
                     (\<lambda>r. tex_call_id r = call_id \<and> tex_execution_id r = execution_id
                           \<and> tex_state r = ''prepared'')
                     (\<lambda>r. r\<lparr>tex_state := execution_as_str state,
                             tex_result_digest := Some result_digest,
                             tex_finished_at_ms := Some now\<rparr>) d)) (\<lambda>(changed, d1).
               if changed \<noteq> 1 then Inl ToolExecutionConflict
               else
                 bindr (insert_execution_event d1 call_id execution_id state (Some result_digest) now)
                   (\<lambda>d2.
                 bindr (require_execution d2 call_id) (\<lambda>record. Inr (record, d2)))))))))"

definition tool_execution :: "db \<Rightarrow> string \<Rightarrow> store_error + tool_execution_record option" where
  "tool_execution d call_id =
     bindr (validate_id call_id ''tool execution call id is invalid'') (\<lambda>_. read_execution d call_id)"

definition execution_log :: "db \<Rightarrow> string \<Rightarrow> execution_event_row list" where
  "execution_log d call_id = filter (\<lambda>e. txe_call_id e = call_id) (tool_execution_events d)"

definition tool_execution_events_of :: "db \<Rightarrow> string \<Rightarrow> store_error + tool_execution_event list" where
  "tool_execution_events_of d call_id =
     bindr (validate_id call_id ''tool execution call id is invalid'') (\<lambda>_.
       collect_results row_to_execution_event (sort_key txe_sequence (execution_log d call_id)))"

definition prepared_ids :: "db \<Rightarrow> (string \<times> string) list" where
  "prepared_ids d =
     map (\<lambda>r. (tex_call_id r, tex_execution_id r))
       (sort_key (\<lambda>r. (tex_started_at_ms r, tex_call_id r))
         (filter (\<lambda>r. tex_state r = ''prepared'') (tool_executions d)))"

fun recover_prepared_loop :: "int \<Rightarrow> (string \<times> string) list \<Rightarrow> db \<Rightarrow> store_error + db" where
  "recover_prepared_loop now [] d = Inr d"
| "recover_prepared_loop now ((call_id, execution_id) # rest) d =
     bindr (map_err Database (update_executions
             (\<lambda>r. tex_call_id r = call_id \<and> tex_execution_id r = execution_id
                   \<and> tex_state r = ''prepared'')
             (\<lambda>r. r\<lparr>tex_state := ''interrupted'', tex_finished_at_ms := Some now\<rparr>) d))
       (\<lambda>(changed, d1).
       if changed \<noteq> 1 then Inl ToolExecutionConflict
       else bindr (insert_execution_event d1 call_id execution_id ExInterrupted None now)
              (recover_prepared_loop now rest))"

definition recover_prepared_on :: "db \<Rightarrow> nat \<Rightarrow> store_error + nat \<times> db" where
  "recover_prepared_on d now_ms =
     bindr (sql_u64 now_ms) (\<lambda>now.
       let prepared = prepared_ids d in
       bindr (recover_prepared_loop now prepared d) (\<lambda>d'. Inr (length prepared, d')))"

end
