(* ===== verification/Tool_Ledger_Facts.thy ===== *)
theory Tool_Ledger_Facts
  imports Tool_Ledger
begin

text \<open>
  The approval and execution machines. Every operation of \<open>Tool_Ledger\<close> is a sequence of
  four atomic changes (an approval is created, an approval moves, an approval is consumed
  by the execution it prepares, an execution finishes); the invariant and the two state
  ledgers are proved on those changes once.
\<close>

section \<open>Codec\<close>

lemma approval_parse_as_str [codec_simps]: "approval_parse (approval_as_str s) = Inr s"
  by (cases s) (simp_all add: approval_parse_def)

lemma approval_parse_Inr [codec_simps]: "approval_parse v = Inr s \<longleftrightarrow> v = approval_as_str s"
proof
  assume "approval_parse v = Inr s"
  then show "v = approval_as_str s" by (auto simp: approval_parse_def split: if_splits)
qed (simp add: codec_simps)

lemma approval_as_str_inj [codec_simps]: "approval_as_str a = approval_as_str b \<longleftrightarrow> a = b"
  by (metis approval_parse_as_str sum.inject(2))

lemma execution_parse_as_str [codec_simps]: "execution_parse (execution_as_str s) = Inr s"
  by (cases s) (simp_all add: execution_parse_def)

lemma execution_parse_Inr [codec_simps]: "execution_parse v = Inr s \<longleftrightarrow> v = execution_as_str s"
proof
  assume "execution_parse v = Inr s"
  then show "v = execution_as_str s" by (auto simp: execution_parse_def split: if_splits)
qed (simp add: codec_simps)

lemma execution_as_str_inj [codec_simps]: "execution_as_str a = execution_as_str b \<longleftrightarrow> a = b"
  by (metis execution_parse_as_str sum.inject(2))

lemma sql_u64_Inr [rust_simps]: "sql_u64 n = Inr i \<longleftrightarrow> n < i64_bound \<and> i = int n"
  by (simp add: sql_u64_def rust_simps)

lemma from_sql_u64_Inr [rust_simps]: "from_sql_u64 i = Inr n \<longleftrightarrow> i = int n"
  by (simp add: from_sql_u64_def rust_simps)

lemma validate_id_Inr [rust_simps]:
  "validate_id v m = Inr () \<longleftrightarrow> v \<noteq> [] \<and> length v \<le> 128 \<and> list_all id_char v"
  by (auto simp: validate_id_def)

lemma validate_digest_Inr [rust_simps]: "validate_digest v = Inr () \<longleftrightarrow> digest_ok v"
  by (simp add: validate_digest_def)

lemma row_to_approval_fields:
  assumes "row_to_approval row = Inr r"
  shows "ta_call_id r = tap_call_id row" "ta_call_digest r = tap_call_digest row"
    "tap_state row = approval_as_str (ta_state r)" "ta_decision_id r = tap_decision_id row"
    "ta_cancellation_id r = tap_cancellation_id row"
    "tap_created_at_ms row = int (ta_created_at_ms r)" "tap_expires_at_ms row = int (ta_expires_at_ms r)"
    "tap_updated_at_ms row = int (ta_updated_at_ms r)" "ta_tool_id r = tap_tool_id row"
  using assms by (auto simp: row_to_approval_def rust_simps codec_simps)

lemma row_to_execution_fields:
  assumes "row_to_execution row = Inr r"
  shows "tx_call_id r = tex_call_id row" "tx_execution_id r = tex_execution_id row"
    "tex_state row = execution_as_str (tx_state r)" "tx_result_digest r = tex_result_digest row"
    "tex_started_at_ms row = int (tx_started_at_ms r)"
  using assms by (auto simp: row_to_execution_def rust_simps codec_simps)

lemma approval_labels:
  "s \<in> {''pending'', ''approved'', ''denied'', ''cancelled'', ''expired'', ''consumed''} \<Longrightarrow>
   \<exists>a. s = approval_as_str a"
  by (metis approval_as_str.simps insert_iff singletonD)

lemma approval_check_decodes:
  assumes "approval_row_check r"
  shows "\<exists>a. row_to_approval r = Inr a"
proof -
  have "tap_state r \<in> {''pending'', ''approved'', ''denied'', ''cancelled'', ''expired'', ''consumed''}"
    using assms unfolding approval_row_check_def by blast
  then obtain s where "tap_state r = approval_as_str s" using approval_labels by blast
  then show ?thesis
    using assms by (auto simp: row_to_approval_def approval_row_check_def codec_simps
        from_sql_u64_def u64_try_from_def)
qed

lemma execution_check_decodes:
  assumes "execution_row_check r"
  shows "\<exists>a. row_to_execution r = Inr a"
proof -
  have "\<exists>s. tex_state r = execution_as_str s"
    using assms unfolding execution_row_check_def by (metis execution_as_str.simps insert_iff singletonD)
  then show ?thesis
    using assms by (auto simp: row_to_execution_def execution_row_check_def codec_simps
        from_sql_u64_def u64_try_from_def split: option.splits)
qed

section \<open>The two machines\<close>

fun approval_edge :: "tool_approval_state \<Rightarrow> tool_approval_state \<Rightarrow> bool" where
  "approval_edge ApPending t \<longleftrightarrow> t \<in> {ApApproved, ApDenied, ApCancelled, ApExpired}"
| "approval_edge ApApproved t \<longleftrightarrow> t \<in> {ApCancelled, ApExpired, ApConsumed}"
| "approval_edge _ t \<longleftrightarrow> False"

fun execution_edge :: "tool_execution_state \<Rightarrow> tool_execution_state \<Rightarrow> bool" where
  "execution_edge ExPrepared t \<longleftrightarrow> t \<noteq> ExPrepared"
| "execution_edge _ t \<longleftrightarrow> False"

text \<open>A log that records every state of a machine from its initial state to the present one.\<close>

definition history_of ::
    "('a \<Rightarrow> string) \<Rightarrow> ('a \<Rightarrow> 'a \<Rightarrow> bool) \<Rightarrow> 'a \<Rightarrow> string list \<Rightarrow> string \<Rightarrow> bool" where
  "history_of label edge init labels now \<longleftrightarrow>
     (\<exists>ss. labels = map label ss \<and> ss \<noteq> [] \<and> hd ss = init \<and> successively edge ss
         \<and> now = label (last ss))"

lemma history_start: "history_of label edge init [label init] (label init)"
  unfolding history_of_def by (intro exI [of _ "[init]"]) simp

lemma history_extend:
  assumes "history_of label edge init labels (label s)" and "edge s t" and "inj label"
  shows "history_of label edge init (labels @ [label t]) (label t)"
proof -
  from assms(1) obtain ss where ss: "labels = map label ss" "ss \<noteq> []" "hd ss = init"
    "successively edge ss" "label s = label (last ss)" by (auto simp: history_of_def)
  with assms(3) have "last ss = s" by (simp add: inj_eq)
  with ss assms(2) show ?thesis
    unfolding history_of_def
    by (intro exI [of _ "ss @ [t]"]) (auto simp: successively_append_iff)
qed

lemma inj_labels: "inj approval_as_str" "inj execution_as_str"
  by (simp_all add: inj_def codec_simps)

section \<open>The invariant\<close>

definition resolutions :: "approval_row \<Rightarrow> string set" where
  "resolutions r = set_option (tap_decision_id r) \<union> set_option (tap_cancellation_id r)"

definition resolutions_unique :: "db \<Rightarrow> bool" where
  "resolutions_unique d \<longleftrightarrow>
     (\<forall>r\<in>set (tool_approvals d). \<forall>r'\<in>set (tool_approvals d).
        resolutions r \<inter> resolutions r' \<noteq> {} \<longrightarrow> r = r')
   \<and> (\<forall>r\<in>set (tool_approvals d). tap_decision_id r \<noteq> None \<longrightarrow> tap_decision_id r \<noteq> tap_cancellation_id r)
   \<and> (\<forall>r\<in>set (tool_approvals d). \<forall>x\<in>set (tool_executions d). tex_execution_id x \<notin> resolutions r)
   \<and> distinct (map tex_execution_id (tool_executions d))"

definition approvals_wf :: "db \<Rightarrow> bool" where
  "approvals_wf d \<longleftrightarrow>
     distinct (map tap_call_id (tool_approvals d))
   \<and> (\<forall>r\<in>set (tool_approvals d). approval_row_check r
        \<and> history_of approval_as_str approval_edge ApPending
            (map tae_state (approval_log d (tap_call_id r))) (tap_state r))
   \<and> (\<forall>e\<in>set (tool_approval_events d). tae_call_id e \<in> tap_call_id ` set (tool_approvals d))"

definition executions_wf :: "db \<Rightarrow> bool" where
  "executions_wf d \<longleftrightarrow>
     distinct (map tex_call_id (tool_executions d))
   \<and> (\<forall>x\<in>set (tool_executions d). execution_row_check x
        \<and> (\<exists>r\<in>set (tool_approvals d). tap_call_id r = tex_call_id x \<and> tap_state r = ''consumed'')
        \<and> history_of execution_as_str execution_edge ExPrepared
            (map txe_state (execution_log d (tex_call_id x))) (tex_state x))
   \<and> (\<forall>e\<in>set (tool_execution_events d). txe_call_id e \<in> tex_call_id ` set (tool_executions d))"

definition tools_wf :: "db \<Rightarrow> bool" where
  "tools_wf d \<longleftrightarrow> approvals_wf d \<and> executions_wf d \<and> resolutions_unique d"

lemma empty_tools_wf: "tools_wf empty_db"
  by (simp add: tools_wf_def approvals_wf_def executions_wf_def resolutions_unique_def empty_db_def)

section \<open>The atomic changes\<close>

definition replace_row :: "('r \<Rightarrow> string) \<Rightarrow> 'r \<Rightarrow> 'r list \<Rightarrow> 'r list" where
  "replace_row k v rows = map (\<lambda>x. if k x = k v then v else x) rows"

lemma replace_row_keys: "map k (replace_row k v rows) = map k rows"
  by (simp add: replace_row_def)

lemma replace_row_mem:
  "x \<in> set (replace_row k v rows) \<longleftrightarrow>
     x \<in> set rows \<and> k x \<noteq> k v \<or> x = v \<and> k v \<in> k ` set rows"
  unfolding replace_row_def set_map image_iff by metis

abbreviation same_approvals :: "db \<Rightarrow> db \<Rightarrow> bool" where
  "same_approvals d d' \<equiv>
     tool_approvals d' = tool_approvals d \<and> tool_approval_events d' = tool_approval_events d"

abbreviation same_executions :: "db \<Rightarrow> db \<Rightarrow> bool" where
  "same_executions d d' \<equiv>
     tool_executions d' = tool_executions d \<and> tool_execution_events d' = tool_execution_events d"

definition used_ids :: "db \<Rightarrow> string set" where
  "used_ids d = (\<Union>r\<in>set (tool_approvals d). resolutions r) \<union> tex_execution_id ` set (tool_executions d)"

inductive tool_micro :: "db \<Rightarrow> db \<Rightarrow> bool" where
  created:
    "approval_row_check r \<Longrightarrow> tap_state r = approval_as_str ApPending \<Longrightarrow>
     tap_call_id r \<notin> tap_call_id ` set (tool_approvals d) \<Longrightarrow>
     tool_approvals d' = tool_approvals d @ [r] \<Longrightarrow>
     tool_approval_events d' = tool_approval_events d @ [e] \<Longrightarrow>
     tae_call_id e = tap_call_id r \<Longrightarrow> tae_state e = approval_as_str ApPending \<Longrightarrow>
     same_executions d d' \<Longrightarrow> tool_micro d d'"
| moved:
    "r \<in> set (tool_approvals d) \<Longrightarrow> tap_state r = approval_as_str s \<Longrightarrow> approval_edge s t \<Longrightarrow>
     tap_call_id v = tap_call_id r \<Longrightarrow> tap_state v = approval_as_str t \<Longrightarrow> approval_row_check v \<Longrightarrow>
     resolutions v \<inter> used_ids d \<subseteq> resolutions r \<Longrightarrow>
     (tap_decision_id v \<noteq> None \<Longrightarrow> tap_decision_id v \<noteq> tap_cancellation_id v) \<Longrightarrow>
     tool_approvals d' = replace_row tap_call_id v (tool_approvals d) \<Longrightarrow>
     tool_approval_events d' = tool_approval_events d @ [e] \<Longrightarrow>
     tae_call_id e = tap_call_id r \<Longrightarrow> tae_state e = approval_as_str t \<Longrightarrow>
     same_executions d d' \<Longrightarrow> tool_micro d d'"
| admitted:
    "r \<in> set (tool_approvals d) \<Longrightarrow> tap_state r = approval_as_str ApConsumed \<Longrightarrow>
     tex_call_id x = tap_call_id r \<Longrightarrow> tex_call_id x \<notin> tex_call_id ` set (tool_executions d) \<Longrightarrow>
     tex_execution_id x \<notin> used_ids d \<Longrightarrow> execution_row_check x \<Longrightarrow>
     tex_state x = execution_as_str ExPrepared \<Longrightarrow> same_approvals d d' \<Longrightarrow>
     tool_executions d' = tool_executions d @ [x] \<Longrightarrow>
     tool_execution_events d' = tool_execution_events d @ [e] \<Longrightarrow>
     txe_call_id e = tex_call_id x \<Longrightarrow> txe_state e = execution_as_str ExPrepared \<Longrightarrow> tool_micro d d'"
| finished:
    "x \<in> set (tool_executions d) \<Longrightarrow> tex_state x = execution_as_str ExPrepared \<Longrightarrow> t \<noteq> ExPrepared \<Longrightarrow>
     tex_call_id v = tex_call_id x \<Longrightarrow> tex_execution_id v = tex_execution_id x \<Longrightarrow>
     tex_state v = execution_as_str t \<Longrightarrow> execution_row_check v \<Longrightarrow> same_approvals d d' \<Longrightarrow>
     tool_executions d' = replace_row tex_call_id v (tool_executions d) \<Longrightarrow>
     tool_execution_events d' = tool_execution_events d @ [e] \<Longrightarrow>
     txe_call_id e = tex_call_id x \<Longrightarrow> txe_state e = execution_as_str t \<Longrightarrow> tool_micro d d'"

section \<open>The changes keep the invariant\<close>

lemma approval_log_snoc:
  "tool_approval_events d' = tool_approval_events d @ [e] \<Longrightarrow>
   approval_log d' cid = approval_log d cid @ (if tae_call_id e = cid then [e] else [])"
  by (simp add: approval_log_def)

lemma execution_log_snoc:
  "tool_execution_events d' = tool_execution_events d @ [e] \<Longrightarrow>
   execution_log d' cid = execution_log d cid @ (if txe_call_id e = cid then [e] else [])"
  by (simp add: execution_log_def)

lemma logs_same:
  "tool_approval_events d' = tool_approval_events d \<Longrightarrow> approval_log d' = approval_log d"
  "tool_execution_events d' = tool_execution_events d \<Longrightarrow> execution_log d' = execution_log d"
  by (simp_all add: approval_log_def execution_log_def fun_eq_iff)

lemma approval_log_fresh:
  assumes "approvals_wf d" "cid \<notin> tap_call_id ` set (tool_approvals d)"
  shows "approval_log d cid = []"
  using assms by (auto simp: approvals_wf_def approval_log_def filter_empty_conv)

lemma execution_log_fresh:
  assumes "executions_wf d" "cid \<notin> tex_call_id ` set (tool_executions d)"
  shows "execution_log d cid = []"
  using assms by (auto simp: executions_wf_def execution_log_def filter_empty_conv)

lemma created_approvals_wf:
  assumes wf: "approvals_wf d" and r: "approval_row_check r" "tap_state r = approval_as_str ApPending"
    and fresh: "tap_call_id r \<notin> tap_call_id ` set (tool_approvals d)"
    and rows: "tool_approvals d' = tool_approvals d @ [r]"
    and evs: "tool_approval_events d' = tool_approval_events d @ [e]"
    and e: "tae_call_id e = tap_call_id r" "tae_state e = approval_as_str ApPending"
  shows "approvals_wf d'"
proof -
  have "history_of approval_as_str approval_edge ApPending
      (map tae_state (approval_log d' (tap_call_id x))) (tap_state x) \<and> approval_row_check x"
    if "x \<in> set (tool_approvals d')" for x
  proof (cases "x = r")
    case True
    have "history_of approval_as_str approval_edge ApPending [approval_as_str ApPending]
        (approval_as_str ApPending)" by (rule history_start)
    with True r e approval_log_fresh [OF wf fresh] show ?thesis
      by (simp add: approval_log_snoc [OF evs])
  next
    case False
    with that rows have mem: "x \<in> set (tool_approvals d)" by simp
    with fresh have "tap_call_id x \<noteq> tap_call_id r" by (metis imageI)
    with mem wf e show ?thesis by (simp add: approvals_wf_def approval_log_snoc [OF evs])
  qed
  with wf rows evs e fresh show ?thesis by (auto simp: approvals_wf_def)
qed

lemma moved_approvals_wf:
  assumes wf: "approvals_wf d" and r: "r \<in> set (tool_approvals d)" "tap_state r = approval_as_str s"
    and edge: "approval_edge s t" and v: "tap_call_id v = tap_call_id r"
      "tap_state v = approval_as_str t" "approval_row_check v"
    and rows: "tool_approvals d' = replace_row tap_call_id v (tool_approvals d)"
    and evs: "tool_approval_events d' = tool_approval_events d @ [e]"
    and e: "tae_call_id e = tap_call_id r" "tae_state e = approval_as_str t"
  shows "approvals_wf d'"
proof -
  have keys: "map tap_call_id (tool_approvals d') = map tap_call_id (tool_approvals d)"
    by (simp add: rows replace_row_keys)
  then have ids: "tap_call_id ` set (tool_approvals d') = tap_call_id ` set (tool_approvals d)"
    by (metis set_map)
  have "history_of approval_as_str approval_edge ApPending
      (map tae_state (approval_log d' (tap_call_id x))) (tap_state x) \<and> approval_row_check x"
    if "x \<in> set (tool_approvals d')" for x
  proof (cases "tap_call_id x = tap_call_id r")
    case True
    with that rows v have x: "x = v" by (auto simp: replace_row_mem)
    have "history_of approval_as_str approval_edge ApPending
        (map tae_state (approval_log d (tap_call_id r))) (approval_as_str s)"
      using wf r by (auto simp: approvals_wf_def)
    from history_extend [OF this edge inj_labels(1)] v e x show ?thesis
      by (simp add: approval_log_snoc [OF evs])
  next
    case False
    with that rows v have "x \<in> set (tool_approvals d)" by (auto simp: replace_row_mem)
    with False wf e show ?thesis by (auto simp: approvals_wf_def approval_log_snoc [OF evs])
  qed
  moreover have "tae_call_id y \<in> tap_call_id ` set (tool_approvals d')"
    if "y \<in> set (tool_approval_events d')" for y
    unfolding ids using that evs e r wf by (auto simp: approvals_wf_def)
  ultimately show ?thesis using wf keys by (simp add: approvals_wf_def)
qed

lemma admitted_executions_wf:
  assumes wf: "executions_wf d"
    and r: "r \<in> set (tool_approvals d)" "tap_state r = approval_as_str ApConsumed"
    and x: "tex_call_id x = tap_call_id r" "tex_call_id x \<notin> tex_call_id ` set (tool_executions d)"
      "execution_row_check x" "tex_state x = execution_as_str ExPrepared"
    and same: "tool_approvals d' = tool_approvals d"
    and rows: "tool_executions d' = tool_executions d @ [x]"
    and evs: "tool_execution_events d' = tool_execution_events d @ [e]"
    and e: "txe_call_id e = tex_call_id x" "txe_state e = execution_as_str ExPrepared"
  shows "executions_wf d'"
proof -
  have "execution_row_check y
      \<and> (\<exists>r\<in>set (tool_approvals d'). tap_call_id r = tex_call_id y \<and> tap_state r = ''consumed'')
      \<and> history_of execution_as_str execution_edge ExPrepared
          (map txe_state (execution_log d' (tex_call_id y))) (tex_state y)"
    if "y \<in> set (tool_executions d')" for y
  proof (cases "y = x")
    case True
    have "history_of execution_as_str execution_edge ExPrepared [execution_as_str ExPrepared]
        (execution_as_str ExPrepared)" by (rule history_start)
    with True x e execution_log_fresh [OF wf x(2)] r same show ?thesis
      by (auto simp: execution_log_snoc [OF evs])
  next
    case False
    with that rows x have "y \<in> set (tool_executions d)" "tex_call_id y \<noteq> tex_call_id x" by force+
    with wf e same show ?thesis by (simp add: executions_wf_def execution_log_snoc [OF evs])
  qed
  with wf rows evs e x show ?thesis by (auto simp: executions_wf_def)
qed

lemma finished_executions_wf:
  assumes wf: "executions_wf d"
    and x: "x \<in> set (tool_executions d)" "tex_state x = execution_as_str ExPrepared"
    and t: "t \<noteq> ExPrepared" and v: "tex_call_id v = tex_call_id x" "tex_state v = execution_as_str t"
      "execution_row_check v"
    and same: "tool_approvals d' = tool_approvals d"
    and rows: "tool_executions d' = replace_row tex_call_id v (tool_executions d)"
    and evs: "tool_execution_events d' = tool_execution_events d @ [e]"
    and e: "txe_call_id e = tex_call_id x" "txe_state e = execution_as_str t"
  shows "executions_wf d'"
proof -
  have keys: "map tex_call_id (tool_executions d') = map tex_call_id (tool_executions d)"
    by (simp add: rows replace_row_keys)
  then have ids: "tex_call_id ` set (tool_executions d') = tex_call_id ` set (tool_executions d)"
    by (metis set_map)
  have "execution_row_check y
      \<and> (\<exists>r\<in>set (tool_approvals d'). tap_call_id r = tex_call_id y \<and> tap_state r = ''consumed'')
      \<and> history_of execution_as_str execution_edge ExPrepared
          (map txe_state (execution_log d' (tex_call_id y))) (tex_state y)"
    if "y \<in> set (tool_executions d')" for y
  proof (cases "tex_call_id y = tex_call_id x")
    case True
    with that rows v have y: "y = v" by (auto simp: replace_row_mem)
    have "history_of execution_as_str execution_edge ExPrepared
        (map txe_state (execution_log d (tex_call_id x))) (execution_as_str ExPrepared)"
      and app: "\<exists>r\<in>set (tool_approvals d). tap_call_id r = tex_call_id x \<and> tap_state r = ''consumed''"
      using wf x by (auto simp: executions_wf_def)
    from history_extend [OF this(1) _ inj_labels(2), of t] t v e y app same show ?thesis
      by (simp add: execution_log_snoc [OF evs])
  next
    case False
    with that rows v have "y \<in> set (tool_executions d)" by (auto simp: replace_row_mem)
    with False wf e same show ?thesis by (auto simp: executions_wf_def execution_log_snoc [OF evs])
  qed
  moreover have "txe_call_id y \<in> tex_call_id ` set (tool_executions d')"
    if "y \<in> set (tool_execution_events d')" for y
    unfolding ids using that evs e x wf by (auto simp: executions_wf_def)
  ultimately show ?thesis using wf keys by (simp add: executions_wf_def)
qed

lemma pending_no_resolutions:
  "approval_row_check r \<Longrightarrow> tap_state r = approval_as_str ApPending \<Longrightarrow> resolutions r = {}"
  by (auto simp: approval_row_check_def resolutions_def)

lemma executions_wf_approvals:
  assumes wf: "executions_wf d" and same: "same_executions d d'"
    and keep: "\<And>r. r \<in> set (tool_approvals d) \<Longrightarrow> tap_state r = ''consumed'' \<Longrightarrow> r \<in> set (tool_approvals d')"
  shows "executions_wf d'"
proof -
  have "\<exists>r\<in>set (tool_approvals d'). tap_call_id r = tex_call_id x \<and> tap_state r = ''consumed''"
    if "x \<in> set (tool_executions d)" for x
    using wf that keep unfolding executions_wf_def by blast
  with wf same show ?thesis by (simp add: executions_wf_def logs_same(2) [of d' d])
qed

lemma moved_resolutions:
  assumes uniq: "resolutions_unique d" and wf: "approvals_wf d"
    and r: "r \<in> set (tool_approvals d)" and key: "tap_call_id v = tap_call_id r"
    and fresh: "resolutions v \<inter> used_ids d \<subseteq> resolutions r"
    and own: "tap_decision_id v \<noteq> None \<Longrightarrow> tap_decision_id v \<noteq> tap_cancellation_id v"
    and rows: "tool_approvals d' = replace_row tap_call_id v (tool_approvals d)"
    and same: "same_executions d d'"
  shows "resolutions_unique d'"
proof -
  have mem: "x \<in> set (tool_approvals d') \<Longrightarrow> x = v \<or> x \<in> set (tool_approvals d) \<and> x \<noteq> r" for x
    using key by (auto simp: rows replace_row_mem)
  have used: "resolutions x \<subseteq> used_ids d" if "x \<in> set (tool_approvals d)" for x
    using that by (auto simp: used_ids_def)
  have disj: "resolutions v \<inter> resolutions x = {}" if "x \<in> set (tool_approvals d)" "x \<noteq> r" for x
    using uniq r that used [OF that(1)] fresh unfolding resolutions_unique_def by blast
  have exec: "tex_execution_id x \<notin> resolutions v" if "x \<in> set (tool_executions d)" for x
    using uniq r that fresh unfolding resolutions_unique_def used_ids_def by blast
  have "x = y" if "x \<in> set (tool_approvals d')" "y \<in> set (tool_approvals d')"
    "resolutions x \<inter> resolutions y \<noteq> {}" for x y
    using mem [OF that(1)] mem [OF that(2)] that(3) disj uniq
    unfolding resolutions_unique_def by blast
  moreover have "tap_decision_id x \<noteq> None \<longrightarrow> tap_decision_id x \<noteq> tap_cancellation_id x"
    if "x \<in> set (tool_approvals d')" for x
    using mem [OF that] own uniq unfolding resolutions_unique_def by blast
  moreover have "tex_execution_id y \<notin> resolutions x"
    if "x \<in> set (tool_approvals d')" "y \<in> set (tool_executions d)" for x y
    using mem [OF that(1)] that(2) exec uniq unfolding resolutions_unique_def by blast
  moreover have "distinct (map tex_execution_id (tool_executions d))"
    using uniq by (simp add: resolutions_unique_def)
  ultimately show ?thesis unfolding resolutions_unique_def using same by simp
qed

lemma tool_micro_wf:
  assumes "tool_micro d d'" and "tools_wf d"
  shows "tools_wf d'"
proof -
  have wf: "approvals_wf d" "executions_wf d" "resolutions_unique d"
    using assms(2) by (simp_all add: tools_wf_def)
  from assms(1) show ?thesis
  proof cases
    case (created r e)
    have "approvals_wf d'" using created wf(1) created_approvals_wf by blast
    moreover have "executions_wf d'"
      using executions_wf_approvals [OF wf(2), of d'] created by simp
    moreover have "resolutions_unique d'"
      using wf(3) created pending_no_resolutions [of r]
      by (auto simp: resolutions_unique_def resolutions_def)
    ultimately show ?thesis by (simp add: tools_wf_def)
  next
    case (moved r s t v e)
    have "approvals_wf d'" using moved wf(1) moved_approvals_wf by blast
    moreover have "executions_wf d'"
    proof (rule executions_wf_approvals [OF wf(2) moved(13)])
      fix x assume x: "x \<in> set (tool_approvals d)" "tap_state x = ''consumed''"
      have "tap_call_id x \<noteq> tap_call_id v"
      proof
        assume "tap_call_id x = tap_call_id v"
        with moved(1,4) x wf(1) have "x = r"
          by (auto simp: approvals_wf_def dest: key_unique)
        with x moved(2) have "approval_as_str s = approval_as_str ApConsumed" by simp
        then have "s = ApConsumed" by (simp only: codec_simps)
        with moved(3) show False by simp
      qed
      with x moved show "x \<in> set (tool_approvals d')" by (simp add: replace_row_mem)
    qed
    moreover have "resolutions_unique d'"
      using moved_resolutions [OF wf(3,1) moved(1,4,7) _ moved(9,13)] moved(8) by blast
    ultimately show ?thesis by (simp add: tools_wf_def)
  next
    case (admitted r x e)
    have "executions_wf d'"
      using admitted_executions_wf [OF wf(2) admitted(1-4,6,7) _ admitted(9-12)] admitted(8) by blast
    moreover have "approvals_wf d'"
      using wf(1) admitted(8) by (simp add: approvals_wf_def logs_same(1) [of d' d])
    moreover have "resolutions_unique d'"
      using wf(3) admitted(5,8,9) by (auto simp: resolutions_unique_def used_ids_def)
    ultimately show ?thesis by (simp add: tools_wf_def)
  next
    case (finished x t v e)
    have "executions_wf d'"
      using finished_executions_wf [OF wf(2) finished(1-4,6,7) _ finished(9-12)] finished(8) by blast
    moreover have "approvals_wf d'"
      using wf(1) finished(8) by (simp add: approvals_wf_def logs_same(1) [of d' d])
    moreover have "map tex_execution_id (tool_executions d') = map tex_execution_id (tool_executions d)"
    proof -
      have "tex_execution_id y = tex_execution_id v"
        if "y \<in> set (tool_executions d)" "tex_call_id y = tex_call_id v" for y
        using that finished(1,4,5) wf(2) by (auto simp: executions_wf_def dest: key_unique)
      then show ?thesis by (auto simp: finished(9) replace_row_def)
    qed
    then have ids: "map tex_execution_id (tool_executions d') = map tex_execution_id (tool_executions d)" .
    have "tex_execution_id y \<notin> resolutions r"
      if "r \<in> set (tool_approvals d)" "y \<in> set (tool_executions d')" for r y
    proof -
      from that(2) have "tex_execution_id y \<in> tex_execution_id ` set (tool_executions d)"
        using ids by (metis imageI set_map)
      then obtain z where "z \<in> set (tool_executions d)" "tex_execution_id y = tex_execution_id z" by blast
      then show ?thesis using wf(3) that(1) by (simp add: resolutions_unique_def)
    qed
    then have "resolutions_unique d'"
      using wf(3) finished(8) ids by (simp add: resolutions_unique_def)
    ultimately show ?thesis by (simp add: tools_wf_def)
  qed
qed

definition approval_status :: "db \<Rightarrow> string \<Rightarrow> tool_approval_state option" where
  "approval_status d cid =
     (case read_approval d cid of Inr (Some r) \<Rightarrow> Some (ta_state r) | _ \<Rightarrow> None)"

definition execution_status :: "db \<Rightarrow> string \<Rightarrow> tool_execution_state option" where
  "execution_status d cid =
     (case read_execution d cid of Inr (Some r) \<Rightarrow> Some (tx_state r) | _ \<Rightarrow> None)"

lemma read_approval_wf:
  assumes "approvals_wf d"
  shows "read_approval d cid = Inr (Some a) \<longleftrightarrow>
           (\<exists>r\<in>set (tool_approvals d). tap_call_id r = cid \<and> row_to_approval r = Inr a)"
proof (cases "find (\<lambda>r. tap_call_id r = cid) (tool_approvals d)")
  case None
  then have "\<forall>r\<in>set (tool_approvals d). tap_call_id r \<noteq> cid" by (simp add: find_None_all)
  with None show ?thesis by (auto simp: read_approval_def)
next
  case (Some row)
  then have row: "row \<in> set (tool_approvals d) \<and> tap_call_id row = cid" by (rule find_Some_in)
  then have "\<And>r. r \<in> set (tool_approvals d) \<Longrightarrow> tap_call_id r = cid \<Longrightarrow> r = row"
    using assms by (auto simp: approvals_wf_def dest: key_unique)
  with row Some show ?thesis by (auto simp: read_approval_def rust_simps)
qed

lemma read_execution_wf:
  assumes "executions_wf d"
  shows "read_execution d cid = Inr (Some a) \<longleftrightarrow>
           (\<exists>r\<in>set (tool_executions d). tex_call_id r = cid \<and> row_to_execution r = Inr a)"
proof (cases "find (\<lambda>r. tex_call_id r = cid) (tool_executions d)")
  case None
  then have "\<forall>r\<in>set (tool_executions d). tex_call_id r \<noteq> cid" by (simp add: find_None_all)
  with None show ?thesis by (auto simp: read_execution_def)
next
  case (Some row)
  then have row: "row \<in> set (tool_executions d) \<and> tex_call_id row = cid" by (rule find_Some_in)
  then have "\<And>r. r \<in> set (tool_executions d) \<Longrightarrow> tex_call_id r = cid \<Longrightarrow> r = row"
    using assms by (auto simp: executions_wf_def dest: key_unique)
  with row Some show ?thesis by (auto simp: read_execution_def rust_simps)
qed

lemma approval_status_Some:
  assumes wf: "approvals_wf d"
  shows "approval_status d cid = Some s \<longleftrightarrow>
           (\<exists>r\<in>set (tool_approvals d). tap_call_id r = cid \<and> tap_state r = approval_as_str s)"
proof
  assume "approval_status d cid = Some s"
  then obtain a where "read_approval d cid = Inr (Some a)" "ta_state a = s"
    by (auto simp: approval_status_def split: sum.splits option.splits)
  then show "\<exists>r\<in>set (tool_approvals d). tap_call_id r = cid \<and> tap_state r = approval_as_str s"
    using row_to_approval_fields(3) by (auto simp: read_approval_wf [OF wf])
next
  assume "\<exists>r\<in>set (tool_approvals d). tap_call_id r = cid \<and> tap_state r = approval_as_str s"
  then obtain r where r: "r \<in> set (tool_approvals d)" "tap_call_id r = cid"
    "tap_state r = approval_as_str s" by blast
  with wf obtain a where a: "row_to_approval r = Inr a"
    using approval_check_decodes unfolding approvals_wf_def by blast
  then have "ta_state a = s" using row_to_approval_fields(3) [OF a] r(3) by (simp add: codec_simps)
  moreover have "read_approval d cid = Inr (Some a)" using r a by (auto simp: read_approval_wf [OF wf])
  ultimately show "approval_status d cid = Some s" by (simp add: approval_status_def)
qed

lemma execution_status_Some:
  assumes wf: "executions_wf d"
  shows "execution_status d cid = Some s \<longleftrightarrow>
           (\<exists>r\<in>set (tool_executions d). tex_call_id r = cid \<and> tex_state r = execution_as_str s)"
proof
  assume "execution_status d cid = Some s"
  then obtain a where "read_execution d cid = Inr (Some a)" "tx_state a = s"
    by (auto simp: execution_status_def split: sum.splits option.splits)
  then show "\<exists>r\<in>set (tool_executions d). tex_call_id r = cid \<and> tex_state r = execution_as_str s"
    using row_to_execution_fields(3) by (auto simp: read_execution_wf [OF wf])
next
  assume "\<exists>r\<in>set (tool_executions d). tex_call_id r = cid \<and> tex_state r = execution_as_str s"
  then obtain r where r: "r \<in> set (tool_executions d)" "tex_call_id r = cid"
    "tex_state r = execution_as_str s" by blast
  with wf obtain a where a: "row_to_execution r = Inr a"
    using execution_check_decodes unfolding executions_wf_def by blast
  then have "tx_state a = s" using row_to_execution_fields(3) [OF a] r(3) by (simp add: codec_simps)
  moreover have "read_execution d cid = Inr (Some a)" using r a by (auto simp: read_execution_wf [OF wf])
  ultimately show "execution_status d cid = Some s" by (simp add: execution_status_def)
qed

lemma approval_micro_status:
  assumes step: "tool_micro d d'" and wf: "tools_wf d" and st: "approval_status d cid = Some a"
  shows "approval_status d' cid = Some a \<and> approval_log d' cid = approval_log d cid
       \<or> (\<exists>b e. approval_edge a b \<and> approval_status d' cid = Some b \<and> approval_log d' cid = approval_log d cid @ [e])"
proof -
  have wf1: "approvals_wf d" and wf': "approvals_wf d'"
    using wf tool_micro_wf [OF step wf] by (simp_all add: tools_wf_def)
  from st obtain x where x: "x \<in> set (tool_approvals d)" "tap_call_id x = cid" "tap_state x = approval_as_str a"
    by (auto simp: approval_status_Some [OF wf1])
  from step show ?thesis
  proof cases
    case (created r e)
    then have "tap_call_id e' = tap_call_id r \<Longrightarrow> e' \<notin> set (tool_approvals d)" for e' by (metis imageI)
    with x created have "cid \<noteq> tap_call_id r" by metis
    with x created show ?thesis
      by (auto simp: approval_status_Some [OF wf'] approval_log_snoc [OF created(5)])
  next
    case (moved r s t v e)
    show ?thesis
    proof (cases "cid = tap_call_id r")
      case True
      with x moved(1) wf1 have "x = r" by (auto simp: approvals_wf_def dest: key_unique)
      with x moved(2) have "s = a" by (simp add: codec_simps)
      moreover have "v \<in> set (tool_approvals d')"
        using moved(1,4,9) by (metis imageI replace_row_mem)
      ultimately show ?thesis using moved True
        by (auto simp: approval_status_Some [OF wf'] approval_log_snoc [OF moved(10)])
    next
      case False
      with x moved(4,9) have "x \<in> set (tool_approvals d')" by (simp add: replace_row_mem)
      with x False moved show ?thesis
        by (auto simp: approval_status_Some [OF wf'] approval_log_snoc [OF moved(10)])
    qed
  next
    case (admitted r y e)
    with x show ?thesis by (auto simp: approval_status_Some [OF wf'] logs_same(1) [of d' d])
  next
    case (finished y t v e)
    with x show ?thesis by (auto simp: approval_status_Some [OF wf'] logs_same(1) [of d' d])
  qed
qed

lemma execution_micro_status:
  assumes step: "tool_micro d d'" and wf: "tools_wf d" and st: "execution_status d cid = Some a"
  shows "execution_status d' cid = Some a \<and> execution_log d' cid = execution_log d cid
       \<or> (\<exists>b e. execution_edge a b \<and> execution_status d' cid = Some b \<and> execution_log d' cid = execution_log d cid @ [e])"
proof -
  have wf1: "executions_wf d" and wf': "executions_wf d'"
    using wf tool_micro_wf [OF step wf] by (simp_all add: tools_wf_def)
  from st obtain x where x: "x \<in> set (tool_executions d)" "tex_call_id x = cid" "tex_state x = execution_as_str a"
    by (auto simp: execution_status_Some [OF wf1])
  from step show ?thesis
  proof cases
    case (created r e)
    with x show ?thesis by (auto simp: execution_status_Some [OF wf'] logs_same(2) [of d' d])
  next
    case (moved r s t v e)
    with x show ?thesis by (auto simp: execution_status_Some [OF wf'] logs_same(2) [of d' d])
  next
    case (admitted r y e)
    with x have "cid \<noteq> tex_call_id y" by (metis imageI)
    with x admitted show ?thesis
      by (auto simp: execution_status_Some [OF wf'] execution_log_snoc [OF admitted(10)])
  next
    case (finished y t v e)
    show ?thesis
    proof (cases "cid = tex_call_id y")
      case True
      with x finished(1) wf1 have "x = y" by (auto simp: executions_wf_def dest: key_unique)
      with x finished(2) have "a = ExPrepared" by (metis execution_as_str_inj)
      moreover have "v \<in> set (tool_executions d')"
        using finished(1,4,9) by (metis imageI replace_row_mem)
      ultimately show ?thesis using finished True
        by (auto simp: execution_status_Some [OF wf'] execution_log_snoc [OF finished(10)])
    next
      case False
      with x finished(4,9) have "x \<in> set (tool_executions d')" by (simp add: replace_row_mem)
      with x False finished show ?thesis
        by (auto simp: execution_status_Some [OF wf'] execution_log_snoc [OF finished(10)])
    qed
  qed
qed

interpretation approvals: state_ledger tools_wf tool_micro approval_status approval_log approval_edge
proof
  fix d d' cid a
  assume wf: "tools_wf d" and step: "tool_micro d d'"
  show "tools_wf d'" using step wf by (rule tool_micro_wf)
  show "\<exists>b. approval_status d' cid = Some b \<and> (b = a \<or> approval_edge a b)"
    if "approval_status d cid = Some a"
    using approval_micro_status [OF step wf that] by blast
  show "approval_log d' cid = approval_log d cid"
    if "approval_status d cid = Some a" "\<And>b. \<not> approval_edge a b"
    using approval_micro_status [OF step wf that(1)] that(2) by blast
  show "prefix (approval_log d cid) (approval_log d' cid)"
    using step by cases (simp_all add: approval_log_def)
qed

interpretation executions: state_ledger tools_wf tool_micro execution_status execution_log execution_edge
proof
  fix d d' cid a
  assume wf: "tools_wf d" and step: "tool_micro d d'"
  show "tools_wf d'" using step wf by (rule tool_micro_wf)
  show "\<exists>b. execution_status d' cid = Some b \<and> (b = a \<or> execution_edge a b)"
    if "execution_status d cid = Some a"
    using execution_micro_status [OF step wf that] by blast
  show "execution_log d' cid = execution_log d cid"
    if "execution_status d cid = Some a" "\<And>b. \<not> execution_edge a b"
    using execution_micro_status [OF step wf that(1)] that(2) by blast
  show "prefix (execution_log d cid) (execution_log d' cid)"
    using step by cases (simp_all add: execution_log_def)
qed

section \<open>Operations as atomic changes\<close>

lemma update_approvals_row:
  assumes wf: "approvals_wf d" and r: "r \<in> set (tool_approvals d)" "P r"
    and only: "\<And>x. P x \<Longrightarrow> tap_call_id x = tap_call_id r" and key: "tap_call_id (f r) = tap_call_id r"
    and ok: "update_approvals P f d = Inr (n, d1)"
  shows "n = 1" "approval_row_check (f r)"
    "d1 = d\<lparr>tool_approvals := replace_row tap_call_id (f r) (tool_approvals d)\<rparr>"
proof -
  have dist: "distinct (map tap_call_id (tool_approvals d))" using wf by (simp add: approvals_wf_def)
  note u = update_unique_row [where k = tap_call_id and P = P, OF dist r only]
  show "n = 1" "approval_row_check (f r)"
    using ok u(1) by (auto simp: update_approvals_def Let_def split: if_splits)
  show "d1 = d\<lparr>tool_approvals := replace_row tap_call_id (f r) (tool_approvals d)\<rparr>"
    using ok u(2) [of f] key by (auto simp: update_approvals_def Let_def replace_row_def split: if_splits)
qed

lemma require_approval_row:
  assumes wf: "approvals_wf d" and ok: "require_approval d cid = Inr cur"
  obtains r where "r \<in> set (tool_approvals d)" "tap_call_id r = cid" "row_to_approval r = Inr cur"
    "approval_row_check r"
proof -
  from ok have "read_approval d cid = Inr (Some cur)"
    by (auto simp: require_approval_def rust_simps)
  then obtain r where "r \<in> set (tool_approvals d)" "tap_call_id r = cid" "row_to_approval r = Inr cur"
    by (auto simp: read_approval_wf [OF wf])
  with wf that show thesis by (simp add: approvals_wf_def)
qed

text \<open>The shared tail of the approval operations: an update of the row and its event.\<close>

lemma approval_update_micro:
  assumes wf: "tools_wf d" and r: "r \<in> set (tool_approvals d)" "tap_state r = approval_as_str s"
    and edge: "approval_edge s t" and upd: "update_approvals P f d = Inr (n, d1)"
    and P: "P r" "\<And>x. P x \<Longrightarrow> tap_call_id x = tap_call_id r"
    and f: "tap_call_id (f r) = tap_call_id r" "tap_state (f r) = approval_as_str t"
      "resolutions (f r) \<inter> used_ids d \<subseteq> resolutions r"
      "tap_decision_id (f r) \<noteq> None \<Longrightarrow> tap_decision_id (f r) \<noteq> tap_cancellation_id (f r)"
    and ev: "insert_approval_event d1 (tap_call_id r) t did canc now = Inr d2"
  shows "tool_micro d d2" "n = 1" "f r \<in> set (tool_approvals d2)" "same_executions d d2"
    "governed_tool_intents d2 = governed_tool_intents d"
proof -
  have awf: "approvals_wf d" using wf by (simp add: tools_wf_def)
  note u = update_approvals_row [where P = P and f = f, OF awf r(1) P f(1) upd]
  show "n = 1" by (rule u(1))
  from ev u(3) obtain e where d2: "d2 = d\<lparr>tool_approvals := replace_row tap_call_id (f r) (tool_approvals d),
      tool_approval_events := tool_approval_events d @ [e]\<rparr>"
    and e: "tae_call_id e = tap_call_id r" "tae_state e = approval_as_str t"
    by (auto simp: insert_approval_event_def split: if_splits)
  show "tool_micro d d2"
    using tool_micro.moved [OF r edge f(1,2) u(2) f(3,4), of d2 e] d2 e by simp
  show "f r \<in> set (tool_approvals d2)"
    using d2 r(1) f(1) by (auto simp: replace_row_mem)
  show "same_executions d d2" "governed_tool_intents d2 = governed_tool_intents d"
    using d2 by simp_all
qed

lemma not_resolution_used: "\<not> resolution_exists d i \<Longrightarrow> i \<notin> used_ids d"
  by (auto simp: resolution_exists_def used_ids_def resolutions_def list_ex_iff)

lemma require_after:
  assumes "tools_wf d2" and "v \<in> set (tool_approvals d2)" and "tap_call_id v = cid"
    and "require_approval d2 cid = Inr record"
  shows "row_to_approval v = Inr record"
proof -
  have awf: "approvals_wf d2" using assms(1) by (simp add: tools_wf_def)
  obtain r where r: "r \<in> set (tool_approvals d2)" "tap_call_id r = cid" "row_to_approval r = Inr record"
    using awf assms(4) by (rule require_approval_row) blast
  with assms(2,3) awf have "r = v" by (auto simp: approvals_wf_def dest: key_unique)
  with r show ?thesis by simp
qed

lemma own_ids:
  "tools_wf d \<Longrightarrow> r \<in> set (tool_approvals d) \<Longrightarrow> tap_decision_id r \<noteq> None \<Longrightarrow>
   tap_decision_id r \<noteq> tap_cancellation_id r"
  by (simp add: tools_wf_def resolutions_unique_def)

lemma approval_statusI:
  "tools_wf d \<Longrightarrow> v \<in> set (tool_approvals d) \<Longrightarrow> tap_call_id v = cid \<Longrightarrow>
   tap_state v = approval_as_str s \<Longrightarrow> approval_status d cid = Some s"
  by (auto simp: tools_wf_def approval_status_Some)

lemma execution_statusI:
  "tools_wf d \<Longrightarrow> v \<in> set (tool_executions d) \<Longrightarrow> tex_call_id v = cid \<Longrightarrow>
   tex_state v = execution_as_str s \<Longrightarrow> execution_status d cid = Some s"
  by (auto simp: tools_wf_def execution_status_Some)

definition open_state :: "tool_approval_state \<Rightarrow> bool" where
  "open_state s \<longleftrightarrow> s = ApPending \<or> s = ApApproved"

lemma open_label_state: "open_label (approval_as_str s) \<longleftrightarrow> open_state s"
  by (cases s) (simp_all add: open_label_def open_state_def)

text \<open>What an operation reports and changes when it finds the approval past its expiry.\<close>

lemma expire_if_needed_effect:
  assumes wf: "tools_wf d" and cur: "require_approval d cid = Inr cur"
    and ok: "expire_if_needed d cur now = Inr (Some (record, d'))"
  shows "tool_micro d d' \<and> same_executions d d' \<and> open_state (ta_state cur)
       \<and> int (ta_expires_at_ms cur) \<le> now \<and> ta_state record = ApExpired
       \<and> ta_call_id record = cid \<and> approval_status d' cid = Some ApExpired"
proof -
  have awf: "approvals_wf d" using wf by (simp add: tools_wf_def)
  obtain r where r: "r \<in> set (tool_approvals d)" "tap_call_id r = cid" "row_to_approval r = Inr cur"
    using awf cur by (rule require_approval_row) blast
  note fs = row_to_approval_fields [OF r(3)]
  let ?P = "\<lambda>x. tap_call_id x = cid \<and> open_label (tap_state x)"
  let ?f = "\<lambda>x. x\<lparr>tap_state := ''expired'', tap_updated_at_ms := now\<rparr>"
  from ok fs r obtain n d1 where op: "open_state (ta_state cur)" and ex: "int (ta_expires_at_ms cur) \<le> now"
    and upd: "update_approvals ?P ?f d = Inr (n, d1)"
    and ev: "insert_approval_event d1 (tap_call_id r) ApExpired (ta_decision_id cur) None now = Inr d'"
    and req: "require_approval d' cid = Inr record"
    by (auto simp: expire_if_needed_def rust_simps open_state_def split: if_splits)
  have edge: "approval_edge (ta_state cur) ApExpired" using op by (auto simp: open_state_def)
  have P: "?P r" using r fs(3) op by (simp add: open_label_state)
  have "tool_micro d d'" and v: "?f r \<in> set (tool_approvals d')" and same: "same_executions d d'"
    using approval_update_micro [OF wf r(1) fs(3) edge upd, of "ta_decision_id cur" None now d'] P r(2) ev
      own_ids [OF wf r(1)]
    by (simp_all add: resolutions_def)
  have wf': "tools_wf d'" using \<open>tool_micro d d'\<close> wf by (rule tool_micro_wf)
  have rec: "row_to_approval (?f r) = Inr record"
    using require_after [OF wf' v _ req] r(2) by simp
  have "ta_state record = ApExpired" "ta_call_id record = cid"
    using row_to_approval_fields(1,3) [OF rec] r(2) codec_simps(3) [of ApExpired "ta_state record"]
    by simp_all
  moreover have "approval_status d' cid = Some ApExpired"
    using approval_statusI [OF wf' v] r(2) by simp
  ultimately show ?thesis using \<open>tool_micro d d'\<close> same op ex by blast
qed

lemma decide_effect:
  assumes wf: "tools_wf d"
    and ok: "decide_tool_approval d cid digest did decision now_ms = Inr (record, d')"
  shows "tool_micro d d' \<and> same_executions d d' \<and> ta_call_id record = cid
       \<and> approval_status d' cid = Some (ta_state record)
       \<and> (\<exists>cur. require_approval d cid = Inr cur \<and> ta_call_digest cur = digest
            \<and> (ta_state record = ApExpired \<and> open_state (ta_state cur) \<and> ta_expires_at_ms cur \<le> now_ms
               \<or> ta_state record = decision_state decision \<and> ta_state cur = ApPending
                 \<and> now_ms < ta_expires_at_ms cur \<and> ta_decision_id record = Some did
                 \<and> \<not> resolution_exists d did))"
proof -
  have awf: "approvals_wf d" using wf by (simp add: tools_wf_def)
  from ok obtain cur expired where cur: "require_approval d cid = Inr cur"
    and dig: "ta_call_digest cur = digest"
    and exp: "expire_if_needed d cur (int now_ms) = Inr expired"
    by (auto simp: decide_tool_approval_def rust_simps require_digest_def split: if_splits)
  show ?thesis
  proof (cases expired)
    case (Some p)
    with ok cur dig exp have "p = (record, d')"
      by (auto simp: decide_tool_approval_def rust_simps require_digest_def split: if_splits)
    with Some exp have "expire_if_needed d cur (int now_ms) = Inr (Some (record, d'))" by simp
    from expire_if_needed_effect [OF wf cur this] cur dig show ?thesis by auto
  next
    case None
    obtain r where r: "r \<in> set (tool_approvals d)" "tap_call_id r = cid" "row_to_approval r = Inr cur"
      "approval_row_check r" using awf cur by (rule require_approval_row) blast
    note fs = row_to_approval_fields [OF r(3)]
    let ?t = "decision_state decision"
    let ?P = "\<lambda>x. tap_call_id x = cid \<and> tap_state x = ''pending''"
    let ?f = "\<lambda>x. x\<lparr>tap_state := approval_as_str ?t, tap_decision_id := Some did,
                    tap_updated_at_ms := int now_ms\<rparr>"
    from ok cur exp None r(2) obtain n d1 where pend: "ta_state cur = ApPending"
      and fresh: "\<not> resolution_exists d did"
      and upd: "update_approvals ?P ?f d = Inr (n, d1)"
      and ev: "insert_approval_event d1 (tap_call_id r) ?t (Some did) None (int now_ms) = Inr d'"
      and req: "require_approval d' cid = Inr record"
      by (auto simp: decide_tool_approval_def rust_simps Let_def split: if_splits)
    have lt: "now_ms < ta_expires_at_ms cur"
      using exp None pend by (auto simp: expire_if_needed_def rust_simps split: if_splits)
    have st: "tap_state r = approval_as_str ApPending" using fs(3) pend by simp
    have none: "tap_decision_id r = None" "tap_cancellation_id r = None"
      using r(4) st by (auto simp: approval_row_check_def)
    have edge: "approval_edge ApPending ?t" by (cases decision) simp_all
    have P: "?P r" using r(2) st by simp
    have "resolutions (?f r) \<inter> used_ids d \<subseteq> resolutions r"
      using not_resolution_used [OF fresh] none by (auto simp: resolutions_def)
    then have m: "tool_micro d d'" and v: "?f r \<in> set (tool_approvals d')" and same: "same_executions d d'"
      using approval_update_micro [OF wf r(1) st edge upd, of "Some did" None "int now_ms" d'] P r(2) ev none
      by simp_all
    have wf': "tools_wf d'" using m wf by (rule tool_micro_wf)
    have rec: "row_to_approval (?f r) = Inr record"
      using require_after [OF wf' v _ req] r(2) by simp
    then have "ta_state record = ?t" "ta_call_id record = cid" "ta_decision_id record = Some did"
      using row_to_approval_fields [OF rec] r(2) by (simp_all add: codec_simps)
    moreover have "approval_status d' cid = Some ?t"
      using approval_statusI [OF wf' v] r(2) by simp
    ultimately show ?thesis using m same cur dig pend lt fresh by auto
  qed
qed

lemma cancel_effect:
  assumes wf: "tools_wf d" and ok: "cancel_tool_approval d cid canc now_ms = Inr (record, d')"
  shows "tool_micro d d' \<and> same_executions d d' \<and> ta_call_id record = cid
       \<and> approval_status d' cid = Some (ta_state record)
       \<and> (\<exists>cur. require_approval d cid = Inr cur \<and> open_state (ta_state cur)
            \<and> (ta_state record = ApExpired \<and> ta_expires_at_ms cur \<le> now_ms
               \<or> ta_state record = ApCancelled \<and> now_ms < ta_expires_at_ms cur
                 \<and> ta_cancellation_id record = Some canc))"
proof -
  have awf: "approvals_wf d" using wf by (simp add: tools_wf_def)
  from ok obtain cur expired where cur: "require_approval d cid = Inr cur"
    and exp: "expire_if_needed d cur (int now_ms) = Inr expired"
    by (auto simp: cancel_tool_approval_def rust_simps)
  show ?thesis
  proof (cases expired)
    case (Some p)
    with ok cur exp have "p = (record, d')"
      by (auto simp: cancel_tool_approval_def rust_simps split: if_splits)
    with Some exp have "expire_if_needed d cur (int now_ms) = Inr (Some (record, d'))" by simp
    from expire_if_needed_effect [OF wf cur this] cur show ?thesis by auto
  next
    case None
    obtain r where r: "r \<in> set (tool_approvals d)" "tap_call_id r = cid" "row_to_approval r = Inr cur"
      "approval_row_check r" using awf cur by (rule require_approval_row) blast
    note fs = row_to_approval_fields [OF r(3)]
    let ?P = "\<lambda>x. tap_call_id x = cid \<and> open_label (tap_state x)"
    let ?f = "\<lambda>x. x\<lparr>tap_state := ''cancelled'', tap_cancellation_id := Some canc,
                    tap_updated_at_ms := int now_ms\<rparr>"
    from ok cur exp None r(2) obtain n d1 where op: "open_state (ta_state cur)"
      and fresh: "\<not> resolution_exists d canc"
      and upd: "update_approvals ?P ?f d = Inr (n, d1)"
      and ev: "insert_approval_event d1 (tap_call_id r) ApCancelled (ta_decision_id cur) (Some canc) (int now_ms) = Inr d'"
      and req: "require_approval d' cid = Inr record"
      by (auto simp: cancel_tool_approval_def rust_simps open_state_def split: if_splits)
    have lt: "now_ms < ta_expires_at_ms cur"
      using exp None op by (auto simp: expire_if_needed_def rust_simps open_state_def split: if_splits)
    have edge: "approval_edge (ta_state cur) ApCancelled" using op by (auto simp: open_state_def)
    have P: "?P r" using r(2) fs(3) op by (simp add: open_label_state)
    have nu: "canc \<notin> used_ids d" by (rule not_resolution_used [OF fresh])
    then have "tap_decision_id r \<noteq> Some canc" using r(1) by (force simp: used_ids_def resolutions_def)
    moreover have "resolutions (?f r) \<inter> used_ids d \<subseteq> resolutions r"
      using nu by (auto simp: resolutions_def)
    ultimately have m: "tool_micro d d'" and v: "?f r \<in> set (tool_approvals d')" and same: "same_executions d d'"
      using approval_update_micro [OF wf r(1) fs(3) edge upd, of "ta_decision_id cur" "Some canc" "int now_ms" d'] P r(2) ev
      by simp_all
    have wf': "tools_wf d'" using m wf by (rule tool_micro_wf)
    have rec: "row_to_approval (?f r) = Inr record"
      using require_after [OF wf' v _ req] r(2) by simp
    have "ta_state record = ApCancelled" "ta_call_id record = cid" "ta_cancellation_id record = Some canc"
      using row_to_approval_fields [OF rec] r(2) approval_as_str_inj [of ApCancelled "ta_state record"]
      by simp_all
    moreover have "approval_status d' cid = Some ApCancelled"
      using approval_statusI [OF wf' v] r(2) by simp
    ultimately show ?thesis using m same cur op lt by auto
  qed
qed

lemma create_effect:
  assumes wf: "tools_wf d" and ok: "create_tool_approval d req = Inr (record, d')"
  shows "tool_micro d d' \<and> same_executions d d' \<and> approval_status d (na_call_id req) = None
       \<and> approval_status d' (na_call_id req) = Some ApPending \<and> ta_state record = ApPending
       \<and> ta_call_digest record = na_call_digest req \<and> ta_call_id record = na_call_id req
       \<and> na_created_at_ms req < na_expires_at_ms req
       \<and> na_expires_at_ms req \<le> na_created_at_ms req + MAX_TOOL_APPROVAL_TTL_MS"
proof -
  let ?row = "\<lparr>tap_call_id = na_call_id req, tap_tool_id = na_tool_id req,
      tap_call_digest = na_call_digest req, tap_state = ''pending'', tap_decision_id = None,
      tap_cancellation_id = None, tap_created_at_ms = int (na_created_at_ms req),
      tap_expires_at_ms = int (na_expires_at_ms req), tap_updated_at_ms = int (na_created_at_ms req)\<rparr>"
  have awf: "approvals_wf d" using wf by (simp add: tools_wf_def)
  from ok obtain n d1 where ttl: "na_created_at_ms req < na_expires_at_ms req"
      "na_expires_at_ms req \<le> na_created_at_ms req + MAX_TOOL_APPROVAL_TTL_MS"
    and ins: "insert_or_ignore_approval ?row d = (n, d1)" "n \<noteq> 0"
    and ev: "insert_approval_event d1 (na_call_id req) ApPending None None (int (na_created_at_ms req)) = Inr d'"
    and read: "read_approval d' (na_call_id req) = Inr (Some record)"
    by (auto simp: create_tool_approval_def create_on_def rust_simps split: if_splits prod.splits)
  from ins have check: "approval_row_check ?row"
    and free: "na_call_id req \<notin> tap_call_id ` set (tool_approvals d)"
    and d1: "d1 = d\<lparr>tool_approvals := tool_approvals d @ [?row]\<rparr>"
    by (auto simp: insert_or_ignore_approval_def split: if_splits)
  from ev d1 obtain e where d': "d' = d\<lparr>tool_approvals := tool_approvals d @ [?row],
      tool_approval_events := tool_approval_events d @ [e]\<rparr>"
    and e: "tae_call_id e = na_call_id req" "tae_state e = ''pending''"
    by (auto simp: insert_approval_event_def split: if_splits)
  have m: "tool_micro d d'"
    using tool_micro.created [OF check, of d d' e] free d' e by simp
  have wf': "tools_wf d'" using m wf by (rule tool_micro_wf)
  have v: "?row \<in> set (tool_approvals d')" using d' by simp
  have "require_approval d' (na_call_id req) = Inr record" using read by (simp add: require_approval_def)
  from require_after [OF wf' v _ this] have rec: "row_to_approval ?row = Inr record" by simp
  have "ta_state record = ApPending" "ta_call_digest record = na_call_digest req" "ta_call_id record = na_call_id req"
    using row_to_approval_fields [OF rec] approval_as_str_inj [of ApPending "ta_state record"] by simp_all
  moreover have "approval_status d' (na_call_id req) = Some ApPending"
    using approval_statusI [OF wf' v] by simp
  moreover have "approval_status d (na_call_id req) = None"
  proof (rule ccontr)
    assume "approval_status d (na_call_id req) \<noteq> None"
    then obtain s where "approval_status d (na_call_id req) = Some s" by blast
    then obtain r where "r \<in> set (tool_approvals d)" "tap_call_id r = na_call_id req"
      unfolding approval_status_Some [OF awf] by blast
    with free show False by (metis imageI)
  qed
  ultimately show ?thesis using m d' ttl by simp
qed

lemma read_effect:
  assumes wf: "tools_wf d" and ok: "tool_approval d cid now_ms = Inr (found, d')"
  shows "(d' = d \<or> tool_micro d d') \<and> same_executions d d'
       \<and> (\<forall>record. found = Some record \<longrightarrow>
            approval_status d' cid = Some (ta_state record)
          \<and> (open_state (ta_state record) \<longrightarrow> now_ms < ta_expires_at_ms record))"
proof -
  from ok obtain cur where cur: "read_approval d cid = Inr cur"
    by (auto simp: tool_approval_def rust_simps)
  show ?thesis
  proof (cases cur)
    case None
    with ok cur show ?thesis by (auto simp: tool_approval_def rust_simps)
  next
    case (Some a)
    with cur have req: "require_approval d cid = Inr a" by (simp add: require_approval_def)
    from ok cur Some obtain expired where exp: "expire_if_needed d a (int now_ms) = Inr expired"
      and out: "(case expired of Some (record, d1) \<Rightarrow> Inr (Some record, d1)
                 | None \<Rightarrow> Inr (Some a, d)) = (Inr (found, d') :: store_error + _)"
      by (auto simp: tool_approval_def rust_simps)
    show ?thesis
    proof (cases expired)
      case None
      then have "open_state (ta_state a) \<longrightarrow> now_ms < ta_expires_at_ms a"
        using exp by (auto simp: expire_if_needed_def rust_simps open_state_def split: if_splits)
      with None out cur Some show ?thesis by (auto simp: approval_status_def)
    next
      case (Some p)
      with out have "expire_if_needed d a (int now_ms) = Inr (Some (the found, d'))" and "found \<noteq> None"
        using exp by (auto split: prod.splits)
      with expire_if_needed_effect [OF wf req] show ?thesis by (auto simp: open_state_def)
    qed
  qed
qed

lemma prepare_effect:
  assumes wf: "tools_wf d"
    and ok: "prepare_tool_execution d cid digest xid now_ms = Inr (Prepared record, d')"
  shows "\<exists>dm cur. tool_micro d dm \<and> tool_micro dm d' \<and> require_approval d cid = Inr cur
       \<and> ta_state cur = ApApproved \<and> ta_call_digest cur = digest \<and> now_ms < ta_expires_at_ms cur
       \<and> ta_decision_id cur \<noteq> None
       \<and> execution_status d cid = None \<and> approval_status d' cid = Some ApConsumed
       \<and> execution_status d' cid = Some ExPrepared \<and> tx_execution_id record = xid
       \<and> tx_state record = ExPrepared \<and> \<not> resolution_exists d xid"
proof -
  have awf: "approvals_wf d" and xwf: "executions_wf d" using wf by (simp_all add: tools_wf_def)
  let ?P = "\<lambda>x. tap_call_id x = cid \<and> tap_state x = ''approved''"
  let ?f = "\<lambda>x. x\<lparr>tap_state := ''consumed'', tap_updated_at_ms := int now_ms\<rparr>"
  let ?x = "\<lparr>tex_call_id = cid, tex_execution_id = xid, tex_state = ''prepared'',
      tex_result_digest = None, tex_started_at_ms = int now_ms, tex_finished_at_ms = None\<rparr>"
  from ok obtain cur where cur: "require_approval d cid = Inr cur" "ta_call_digest cur = digest"
    and exp: "expire_if_needed d cur (int now_ms) = Inr None"
  proof -
    from ok obtain cur expired where cur: "require_approval d cid = Inr cur" "ta_call_digest cur = digest"
      and exp: "expire_if_needed d cur (int now_ms) = Inr expired"
      by (auto simp: prepare_tool_execution_def rust_simps require_digest_def split: if_splits)
    have "expired = None"
    proof (rule ccontr)
      assume "expired \<noteq> None"
      then obtain q d1 where "expired = Some (q, d1)" by auto
      with ok cur exp show False
        by (auto simp: prepare_tool_execution_def rust_simps split: if_splits)
    qed
    with that cur exp show thesis by simp
  qed
  from ok cur exp obtain n d1 d2 d3 where app: "ta_state cur = ApApproved"
    and fresh: "\<not> resolution_exists d xid" and none: "read_execution d cid = Inr None"
    and upd: "update_approvals ?P ?f d = Inr (n, d1)"
    and ev: "insert_approval_event d1 cid ApConsumed (ta_decision_id cur) None (int now_ms) = Inr d2"
    and ins: "insert_execution ?x d2 = Inr d3"
    and xev: "insert_execution_event d3 cid xid ExPrepared None (int now_ms) = Inr d'"
    and req: "require_execution d' cid = Inr record"
    by (auto simp: prepare_tool_execution_def rust_simps split: if_splits)
  obtain r where r: "r \<in> set (tool_approvals d)" "tap_call_id r = cid" "row_to_approval r = Inr cur"
    "approval_row_check r" using awf cur(1) by (rule require_approval_row) blast
  note fs = row_to_approval_fields [OF r(3)]
  have st: "tap_state r = approval_as_str ApApproved" using fs(3) app by simp
  have did: "ta_decision_id cur \<noteq> None" using r(4) st fs(4) by (auto simp: approval_row_check_def)
  have lt: "now_ms < ta_expires_at_ms cur"
    using exp app by (auto simp: expire_if_needed_def rust_simps split: if_splits)
  have m1: "tool_micro d d2" and v: "?f r \<in> set (tool_approvals d2)" and same: "same_executions d d2"
    using approval_update_micro [OF wf r(1) st _ upd, of ApConsumed "ta_decision_id cur" None "int now_ms" d2]
      r(2) st ev own_ids [OF wf r(1)]
    by (simp_all add: resolutions_def)
  have wf2: "tools_wf d2" using m1 wf by (rule tool_micro_wf)
  from ins have x: "execution_row_check ?x" "cid \<notin> tex_call_id ` set (tool_executions d2)"
      "xid \<notin> tex_execution_id ` set (tool_executions d2)"
    and d3: "d3 = d2\<lparr>tool_executions := tool_executions d2 @ [?x]\<rparr>"
    by (auto simp: insert_execution_def split: if_splits)
  from xev d3 obtain e where d': "d' = d2\<lparr>tool_executions := tool_executions d2 @ [?x],
      tool_execution_events := tool_execution_events d2 @ [e]\<rparr>"
    and e: "txe_call_id e = cid" "txe_state e = ''prepared''"
    by (auto simp: insert_execution_event_def split: if_splits)
  have used: "xid \<notin> used_ids d2"
  proof -
    from upd r st have rows: "tool_approvals d2 = replace_row tap_call_id (?f r) (tool_approvals d)"
      using update_approvals_row(3) [where P = ?P and f = ?f, OF awf r(1) _ _ _ upd] ev
      by (auto simp: insert_approval_event_def split: if_splits)
    have "resolutions y \<subseteq> used_ids d" if "y \<in> set (tool_approvals d2)" for y
      using that r(1) unfolding rows replace_row_mem used_ids_def resolutions_def by fastforce
    moreover have "tool_executions d2 = tool_executions d" using same by simp
    ultimately show ?thesis using not_resolution_used [OF fresh] by (auto simp: used_ids_def)
  qed
  have m2: "tool_micro d2 d'"
    using tool_micro.admitted [OF v _ _ _ _ x(1), of d' e] r(2) x(2) used d' e by simp
  have wf': "tools_wf d'" using m2 wf2 by (rule tool_micro_wf)
  have "approval_status d' cid = Some ApConsumed"
    using approval_statusI [OF wf', of "?f r"] v d' r(2) by simp
  moreover have xmem: "?x \<in> set (tool_executions d')" using d' by simp
  then have "execution_status d' cid = Some ExPrepared"
    using execution_statusI [OF wf', of ?x] by simp
  moreover have "execution_status d cid = None" using none by (simp add: execution_status_def)
  moreover have "tx_execution_id record = xid \<and> tx_state record = ExPrepared"
  proof -
    have "read_execution d' cid = Inr (Some record)"
      using req by (auto simp: require_execution_def rust_simps)
    then obtain y where y: "y \<in> set (tool_executions d')" "tex_call_id y = cid" "row_to_execution y = Inr record"
      using wf' by (auto simp: tools_wf_def read_execution_wf)
    then have "y = ?x" using xmem wf' key_unique [of tex_call_id "tool_executions d'" y ?x]
      by (simp add: tools_wf_def executions_wf_def)
    then have "tx_execution_id record = xid" "execution_as_str (tx_state record) = execution_as_str ExPrepared"
      using row_to_execution_fields(2,3) [OF y(3)] by simp_all
    then show ?thesis by (simp only: execution_as_str_inj)
  qed
  ultimately show ?thesis
    using m1 m2 cur app lt did fresh by (intro exI [of _ d2] exI [of _ cur]) simp
qed

lemma prepare_expired_effect:
  assumes wf: "tools_wf d"
    and ok: "prepare_tool_execution d cid digest xid now_ms = Inr (ExpiredApproval record, d')"
  shows "tool_micro d d' \<and> same_executions d d' \<and> ta_state record = ApExpired"
proof -
  from ok obtain cur expired where cur: "require_approval d cid = Inr cur"
    and exp: "expire_if_needed d cur (int now_ms) = Inr expired"
    by (auto simp: prepare_tool_execution_def rust_simps split: if_splits)
  have "expired = Some (record, d')"
  proof (cases expired)
    case None
    with ok cur exp show ?thesis
      by (auto simp: prepare_tool_execution_def rust_simps split: if_splits)
  next
    case (Some p)
    with ok cur exp show ?thesis
      by (cases p) (auto simp: prepare_tool_execution_def rust_simps split: if_splits)
  qed
  with exp expire_if_needed_effect [OF wf cur] show ?thesis by blast
qed

lemma execution_update_micro:
  assumes wf: "tools_wf d" and x: "x \<in> set (tool_executions d)" "tex_state x = execution_as_str ExPrepared"
    and t: "t \<noteq> ExPrepared" and upd: "update_executions P f d = Inr (n, d1)"
    and P: "P x" "\<And>y. P y \<Longrightarrow> tex_call_id y = tex_call_id x"
    and f: "tex_call_id (f x) = tex_call_id x" "tex_execution_id (f x) = tex_execution_id x"
      "tex_state (f x) = execution_as_str t"
    and ev: "insert_execution_event d1 (tex_call_id x) xid t g now = Inr d2"
  shows "tool_micro d d2" "n = 1" "f x \<in> set (tool_executions d2)" "same_approvals d d2"
    "tool_executions d2 = replace_row tex_call_id (f x) (tool_executions d)"
    "governed_tool_intents d2 = governed_tool_intents d"
proof -
  have dist: "distinct (map tex_call_id (tool_executions d))"
    using wf by (simp add: tools_wf_def executions_wf_def)
  note u = update_unique_row [where k = tex_call_id and P = P, OF dist x(1) P]
  have check: "execution_row_check (f x)" and n: "n = 1"
    using upd u(1) by (auto simp: update_executions_def split: if_splits)
  show "n = 1" by (rule n)
  have "d1 = d\<lparr>tool_executions := map (\<lambda>y. if P y then f y else y) (tool_executions d)\<rparr>"
    using upd by (auto simp: update_executions_def split: if_splits)
  then have d1: "d1 = d\<lparr>tool_executions := replace_row tex_call_id (f x) (tool_executions d)\<rparr>"
    unfolding replace_row_def f(1) by (simp only: u(2) [of f])
  from ev d1 obtain e where d2: "d2 = d\<lparr>tool_executions := replace_row tex_call_id (f x) (tool_executions d),
      tool_execution_events := tool_execution_events d @ [e]\<rparr>"
    and e: "txe_call_id e = tex_call_id x" "txe_state e = execution_as_str t"
    by (auto simp: insert_execution_event_def split: if_splits)
  show "tool_micro d d2"
    using tool_micro.finished [OF x t f check, of d2 e] d2 e by simp
  show "f x \<in> set (tool_executions d2)" using d2 x(1) f(1) by (auto simp: replace_row_mem)
  show "same_approvals d d2" "tool_executions d2 = replace_row tex_call_id (f x) (tool_executions d)"
    "governed_tool_intents d2 = governed_tool_intents d" using d2 by simp_all
qed

lemma complete_effect:
  assumes wf: "tools_wf d"
    and ok: "complete_tool_execution d cid xid outcome digest now_ms = Inr (record, d')"
  shows "tool_micro d d' \<and> execution_status d cid = Some ExPrepared
       \<and> execution_status d' cid = Some (outcome_state outcome)
       \<and> tx_execution_id record = xid \<and> tx_state record = outcome_state outcome
       \<and> tx_result_digest record = Some digest \<and> tx_started_at_ms record \<le> now_ms"
proof -
  have xwf: "executions_wf d" using wf by (simp add: tools_wf_def)
  let ?t = "outcome_state outcome"
  let ?P = "\<lambda>y. tex_call_id y = cid \<and> tex_execution_id y = xid \<and> tex_state y = ''prepared''"
  let ?f = "\<lambda>y. y\<lparr>tex_state := execution_as_str ?t, tex_result_digest := Some digest,
                  tex_finished_at_ms := Some (int now_ms)\<rparr>"
  from ok obtain cur n d1 where cur: "require_execution d cid = Inr cur"
    and guard: "tx_execution_id cur = xid" "tx_state cur = ExPrepared" "tx_started_at_ms cur \<le> now_ms"
    and upd: "update_executions ?P ?f d = Inr (n, d1)"
    and ev: "insert_execution_event d1 cid xid ?t (Some digest) (int now_ms) = Inr d'"
    and req: "require_execution d' cid = Inr record"
    by (auto simp: complete_tool_execution_def rust_simps Let_def split: if_splits)
  from cur have "read_execution d cid = Inr (Some cur)"
    by (auto simp: require_execution_def rust_simps)
  then obtain x where x: "x \<in> set (tool_executions d)" "tex_call_id x = cid" "row_to_execution x = Inr cur"
    by (auto simp: read_execution_wf [OF xwf])
  note fs = row_to_execution_fields [OF x(3)]
  have st: "tex_state x = execution_as_str ExPrepared" using fs(3) guard by simp
  have t: "?t \<noteq> ExPrepared" by (cases outcome) simp_all
  have m: "tool_micro d d'" and v: "?f x \<in> set (tool_executions d')"
    using execution_update_micro [OF wf x(1) st t upd, of xid "Some digest" "int now_ms" d']
      x(2) fs(2) guard(1) st ev by simp_all
  have wf': "tools_wf d'" using m wf by (rule tool_micro_wf)
  have "read_execution d' cid = Inr (Some record)"
    using req by (auto simp: require_execution_def rust_simps)
  then obtain y where y: "y \<in> set (tool_executions d')" "tex_call_id y = cid" "row_to_execution y = Inr record"
    using wf' by (auto simp: tools_wf_def read_execution_wf)
  then have "y = ?f x" using v x(2) wf' key_unique [of tex_call_id "tool_executions d'" y "?f x"]
    by (simp add: tools_wf_def executions_wf_def)
  with row_to_execution_fields [OF y(3)] fs guard
  have "tx_execution_id record = xid \<and> tx_state record = ?t \<and> tx_result_digest record = Some digest
      \<and> tx_started_at_ms record \<le> now_ms"
    by (simp add: execution_as_str_inj)
  moreover have "execution_status d cid = Some ExPrepared"
    using execution_statusI [OF wf x(1,2) st] .
  moreover have "execution_status d' cid = Some ?t"
    using execution_statusI [OF wf' v] x(2) by simp
  ultimately show ?thesis using m by simp
qed

section \<open>Recovery of unfinished executions\<close>

lemma recover_prepared_loop_effect:
  assumes "tools_wf d" and "distinct (map fst ps)"
    and "\<forall>p\<in>set ps. \<exists>x\<in>set (tool_executions d). p = (tex_call_id x, tex_execution_id x)
           \<and> tex_state x = execution_as_str ExPrepared"
    and "recover_prepared_loop now ps d = Inr d'"
  shows "tool_micro\<^sup>*\<^sup>* d d'
       \<and> (\<forall>cid. execution_status d' cid
            = (if cid \<in> fst ` set ps then Some ExInterrupted else execution_status d cid))"
  using assms
proof (induction ps arbitrary: d)
  case Nil
  then show ?case by simp
next
  case (Cons p ps)
  obtain cid xid where p: "p = (cid, xid)" by (cases p)
  let ?P = "\<lambda>y. tex_call_id y = cid \<and> tex_execution_id y = xid \<and> tex_state y = ''prepared''"
  let ?f = "\<lambda>y. y\<lparr>tex_state := ''interrupted'', tex_finished_at_ms := Some now\<rparr>"
  from Cons.prems(4) p obtain n d1 d2 where upd: "update_executions ?P ?f d = Inr (n, d1)"
    and ev: "insert_execution_event d1 cid xid ExInterrupted None now = Inr d2"
    and rest: "recover_prepared_loop now ps d2 = Inr d'"
    by (auto simp: rust_simps split: if_splits)
  from Cons.prems(3) p obtain x where x: "x \<in> set (tool_executions d)" "tex_call_id x = cid"
    "tex_execution_id x = xid" "tex_state x = execution_as_str ExPrepared" by auto
  have m: "tool_micro d d2" and v: "?f x \<in> set (tool_executions d2)"
    and rows: "tool_executions d2 = replace_row tex_call_id (?f x) (tool_executions d)"
    using execution_update_micro [OF Cons.prems(1) x(1,4) _ upd, of ExInterrupted xid None now d2] x ev
    by simp_all
  have wf2: "tools_wf d2" using m Cons.prems(1) by (rule tool_micro_wf)
  have others: "y \<in> set (tool_executions d2) \<longleftrightarrow> y \<in> set (tool_executions d)" if "tex_call_id y \<noteq> cid" for y
    using that x(2) by (auto simp: rows replace_row_mem)
  have st2: "execution_status d2 c = (if c = cid then Some ExInterrupted else execution_status d c)" for c
  proof (cases "c = cid")
    case True
    then show ?thesis using execution_statusI [OF wf2 v] x(2) by simp
  next
    case False
    then have "execution_status d2 c = Some s \<longleftrightarrow> execution_status d c = Some s" for s
      using wf2 Cons.prems(1) others by (auto simp: tools_wf_def execution_status_Some)
    then have "execution_status d2 c = execution_status d c"
      by (metis not_Some_eq)
    with False show ?thesis by simp
  qed
  have "\<forall>q\<in>set ps. \<exists>y\<in>set (tool_executions d2). q = (tex_call_id y, tex_execution_id y)
      \<and> tex_state y = execution_as_str ExPrepared"
  proof
    fix q assume q: "q \<in> set ps"
    with Cons.prems(3) obtain y where y: "y \<in> set (tool_executions d)"
      "q = (tex_call_id y, tex_execution_id y)" "tex_state y = execution_as_str ExPrepared" by auto
    moreover have "fst q \<noteq> cid" using Cons.prems(2) p q by auto
    ultimately show "\<exists>y\<in>set (tool_executions d2). q = (tex_call_id y, tex_execution_id y)
      \<and> tex_state y = execution_as_str ExPrepared" using others [of y] by auto
  qed
  from Cons.IH [OF wf2 _ this rest] Cons.prems(2) have
    ih: "tool_micro\<^sup>*\<^sup>* d2 d'" "\<And>c. execution_status d' c
        = (if c \<in> fst ` set ps then Some ExInterrupted else execution_status d2 c)" by auto
  have "tool_micro\<^sup>*\<^sup>* d d'" using m ih(1) by (rule converse_rtranclp_into_rtranclp)
  with ih(2) st2 p show ?case by auto
qed

lemma prepared_ids_props:
  assumes "tools_wf d"
  shows "distinct (map fst (prepared_ids d))"
    and "\<forall>p\<in>set (prepared_ids d). \<exists>x\<in>set (tool_executions d). p = (tex_call_id x, tex_execution_id x)
           \<and> tex_state x = execution_as_str ExPrepared"
    and "cid \<in> fst ` set (prepared_ids d) \<longleftrightarrow> execution_status d cid = Some ExPrepared"
proof -
  let ?rows = "filter (\<lambda>r. tex_state r = ''prepared'') (tool_executions d)"
  have xwf: "executions_wf d" using assms by (simp add: tools_wf_def)
  have "distinct (map tex_call_id ?rows)" using xwf by (simp add: executions_wf_def distinct_map_filter)
  then have "distinct (sort_key (\<lambda>r. (tex_started_at_ms r, tex_call_id r)) ?rows)"
    and "inj_on tex_call_id (set (sort_key (\<lambda>r. (tex_started_at_ms r, tex_call_id r)) ?rows))"
    by (auto simp: distinct_map)
  then show "distinct (map fst (prepared_ids d))"
    by (simp add: prepared_ids_def o_def distinct_map)
  show "\<forall>p\<in>set (prepared_ids d). \<exists>x\<in>set (tool_executions d). p = (tex_call_id x, tex_execution_id x)
      \<and> tex_state x = execution_as_str ExPrepared"
    by (auto simp: prepared_ids_def)
  show "cid \<in> fst ` set (prepared_ids d) \<longleftrightarrow> execution_status d cid = Some ExPrepared"
    unfolding execution_status_Some [OF xwf] prepared_ids_def by (auto simp: image_iff)
qed

lemma recover_prepared_effect:
  assumes wf: "tools_wf d" and ok: "recover_prepared_on d now_ms = Inr (n, d')"
  shows "tool_micro\<^sup>*\<^sup>* d d'
       \<and> (\<forall>cid. execution_status d' cid = (if execution_status d cid = Some ExPrepared
            then Some ExInterrupted else execution_status d cid))"
proof -
  from ok have "recover_prepared_loop (int now_ms) (prepared_ids d) d = Inr d'"
    by (auto simp: recover_prepared_on_def rust_simps Let_def)
  from recover_prepared_loop_effect [OF wf prepared_ids_props(1,2) [OF wf] this]
  show ?thesis using prepared_ids_props(3) [OF wf] by simp
qed

text \<open>
  Recovery writes the present time as the finishing time, so it succeeds exactly when no
  unfinished execution was started later than that.
\<close>

lemma recover_prepared_loop_iff:
  assumes "tools_wf d" and "distinct (map fst ps)" and "0 \<le> now"
    and "\<forall>p\<in>set ps. \<exists>x\<in>set (tool_executions d). p = (tex_call_id x, tex_execution_id x)
           \<and> tex_state x = execution_as_str ExPrepared"
  shows "is_ok (recover_prepared_loop now ps d) \<longleftrightarrow>
           (\<forall>x\<in>set (tool_executions d). tex_call_id x \<in> fst ` set ps \<longrightarrow> tex_started_at_ms x \<le> now)"
  using assms
proof (induction ps arbitrary: d)
  case Nil
  then show ?case by simp
next
  case (Cons p ps)
  obtain cid xid where p: "p = (cid, xid)" by (cases p)
  let ?P = "\<lambda>y. tex_call_id y = cid \<and> tex_execution_id y = xid \<and> tex_state y = ''prepared''"
  let ?f = "\<lambda>y. y\<lparr>tex_state := ''interrupted'', tex_finished_at_ms := Some now\<rparr>"
  from Cons.prems(4) p obtain x where x: "x \<in> set (tool_executions d)" "tex_call_id x = cid"
    "tex_execution_id x = xid" "tex_state x = execution_as_str ExPrepared" by auto
  have xwf: "executions_wf d" using Cons.prems(1) by (simp add: tools_wf_def)
  then have dist: "distinct (map tex_call_id (tool_executions d))"
    and chk: "execution_row_check x" using x by (auto simp: executions_wf_def)
  have uniq: "y = x" if "y \<in> set (tool_executions d)" "tex_call_id y = cid" for y
    using key_unique [OF dist that(1) x(1)] that x(2) by simp
  have filt: "filter ?P (tool_executions d) = [x]"
    using update_unique_row(1) [where k = tex_call_id and P = ?P, OF dist x(1)] x by simp
  have check: "execution_row_check (?f x) \<longleftrightarrow> tex_started_at_ms x \<le> now"
    using chk x(4) by (auto simp: execution_row_check_def split: option.splits)
  show ?case
  proof (cases "tex_started_at_ms x \<le> now")
    case False
    then have "update_executions ?P ?f d = Inl SqlCheck"
      using filt check by (simp add: update_executions_def)
    with False x p show ?thesis by auto
  next
    case True
    then obtain d1 where upd: "update_executions ?P ?f d = Inr (1, d1)"
      using filt check by (simp add: update_executions_def)
    then have "d1 = d\<lparr>tool_executions := map (\<lambda>y. if ?P y then ?f y else y) (tool_executions d)\<rparr>"
      by (auto simp: update_executions_def split: if_splits)
    then have "map tex_call_id (tool_executions d1) = map tex_call_id (tool_executions d)"
      by (simp add: o_def cong: if_cong)
    then have "tex_call_id ` set (tool_executions d1) = tex_call_id ` set (tool_executions d)"
      by (metis set_map)
    then obtain d2 where ev: "insert_execution_event d1 cid xid ExInterrupted None now = Inr d2"
      using x Cons.prems(3) by (auto simp: insert_execution_event_def)
    have m: "tool_micro d d2"
      and rows: "tool_executions d2 = replace_row tex_call_id (?f x) (tool_executions d)"
      using execution_update_micro [OF Cons.prems(1) x(1,4) _ upd, of ExInterrupted xid None now d2] x ev
      by simp_all
    have wf2: "tools_wf d2" using m Cons.prems(1) by (rule tool_micro_wf)
    have others: "y \<in> set (tool_executions d2) \<longleftrightarrow> y \<in> set (tool_executions d)" if "tex_call_id y \<noteq> cid" for y
      using that x(2) by (auto simp: rows replace_row_mem)
    have notin: "cid \<notin> fst ` set ps" using Cons.prems(2) p by simp
    have "\<forall>q\<in>set ps. \<exists>y\<in>set (tool_executions d2). q = (tex_call_id y, tex_execution_id y)
        \<and> tex_state y = execution_as_str ExPrepared"
    proof
      fix q assume q: "q \<in> set ps"
      with Cons.prems(4) obtain y where y: "y \<in> set (tool_executions d)"
        "q = (tex_call_id y, tex_execution_id y)" "tex_state y = execution_as_str ExPrepared" by auto
      moreover have "fst q \<noteq> cid" using notin q by (metis imageI)
      ultimately show "\<exists>y\<in>set (tool_executions d2). q = (tex_call_id y, tex_execution_id y)
        \<and> tex_state y = execution_as_str ExPrepared" using others [of y] by auto
    qed
    from Cons.IH [OF wf2 _ Cons.prems(3) this] Cons.prems(2)
    have "is_ok (recover_prepared_loop now ps d2) \<longleftrightarrow>
        (\<forall>y\<in>set (tool_executions d2). tex_call_id y \<in> fst ` set ps \<longrightarrow> tex_started_at_ms y \<le> now)"
      by simp
    moreover have "recover_prepared_loop now (p # ps) d = recover_prepared_loop now ps d2"
      using p upd ev by simp
    moreover have "(\<forall>y\<in>set (tool_executions d2). tex_call_id y \<in> fst ` set ps \<longrightarrow> tex_started_at_ms y \<le> now)
        \<longleftrightarrow> (\<forall>y\<in>set (tool_executions d). tex_call_id y \<in> fst ` set (p # ps) \<longrightarrow> tex_started_at_ms y \<le> now)"
      using others notin uniq True p by (metis (no_types, lifting) fst_conv image_insert insert_iff list.simps(15))
    ultimately show ?thesis by simp
  qed
qed

lemma recover_prepared_iff:
  assumes wf: "tools_wf d" and now: "now_ms < i64_bound"
  shows "is_ok (recover_prepared_on d now_ms) \<longleftrightarrow>
           (\<forall>x\<in>set (tool_executions d). tex_state x = ''prepared'' \<longrightarrow> tex_started_at_ms x \<le> int now_ms)"
proof -
  have xwf: "executions_wf d" using wf by (simp add: tools_wf_def)
  have "is_ok (recover_prepared_on d now_ms)
      = is_ok (recover_prepared_loop (int now_ms) (prepared_ids d) d)"
    using now by (cases "recover_prepared_loop (int now_ms) (prepared_ids d) d")
      (simp_all add: recover_prepared_on_def sql_u64_def i64_try_from_def)
  also have "\<dots> \<longleftrightarrow> (\<forall>x\<in>set (tool_executions d). tex_call_id x \<in> fst ` set (prepared_ids d) \<longrightarrow>
      tex_started_at_ms x \<le> int now_ms)"
    by (rule recover_prepared_loop_iff [OF wf prepared_ids_props(1) [OF wf] _ prepared_ids_props(2) [OF wf]]) simp
  also have "\<dots> \<longleftrightarrow> (\<forall>x\<in>set (tool_executions d). tex_state x = ''prepared'' \<longrightarrow> tex_started_at_ms x \<le> int now_ms)"
  proof -
    have "tex_call_id x \<in> fst ` set (prepared_ids d) \<longleftrightarrow> tex_state x = ''prepared''"
      if "x \<in> set (tool_executions d)" for x
    proof -
      have "y = x" if "y \<in> set (tool_executions d)" "tex_call_id y = tex_call_id x" for y
        using that \<open>x \<in> _\<close> xwf by (auto simp: executions_wf_def dest: key_unique)
      then show ?thesis
        unfolding prepared_ids_props(3) [OF wf] execution_status_Some [OF xwf] using that by auto
    qed
    then show ?thesis by auto
  qed
  finally show ?thesis .
qed

section \<open>The steps of the tool ledger\<close>

inductive tool_step :: "db \<Rightarrow> db \<Rightarrow> bool" where
  create: "create_tool_approval d req = Inr (record, d') \<Longrightarrow> tool_step d d'"
| decide: "decide_tool_approval d cid digest did decision now_ms = Inr (record, d') \<Longrightarrow> tool_step d d'"
| cancel: "cancel_tool_approval d cid canc now_ms = Inr (record, d') \<Longrightarrow> tool_step d d'"
| read: "tool_approval d cid now_ms = Inr (found, d') \<Longrightarrow> tool_step d d'"
| prepare: "prepare_tool_execution d cid digest xid now_ms = Inr (p, d') \<Longrightarrow> tool_step d d'"
| complete: "complete_tool_execution d cid xid outcome digest now_ms = Inr (x, d') \<Longrightarrow> tool_step d d'"
| reopen: "recover_prepared_on d now_ms = Inr (n, d') \<Longrightarrow> tool_step d d'"

lemma tool_step_micro:
  assumes "tool_step d d'" and wf: "tools_wf d"
  shows "tool_micro\<^sup>*\<^sup>* d d'"
  using assms(1)
proof cases
  case (prepare cid digest xid now_ms p)
  show ?thesis
  proof (cases p)
    case (Prepared q)
    with prepare obtain dm where "tool_micro d dm" "tool_micro dm d'" using prepare_effect [OF wf] by blast
    then show ?thesis by simp
  next
    case (ExpiredApproval q)
    with prepare show ?thesis using prepare_expired_effect [OF wf] by blast
  qed
next
  case (reopen now_ms n)
  then show ?thesis using recover_prepared_effect [OF wf] by blast
next
  case (create req q)
  then show ?thesis using create_effect [OF wf create] by (blast intro: r_into_rtranclp)
next
  case (decide cid digest did decision now_ms q)
  then show ?thesis using decide_effect [OF wf decide] by (blast intro: r_into_rtranclp)
next
  case (cancel cid canc now_ms q)
  then show ?thesis using cancel_effect [OF wf cancel] by (blast intro: r_into_rtranclp)
next
  case (read cid now_ms found)
  then show ?thesis using read_effect [OF wf read] by (blast intro: r_into_rtranclp)
next
  case (complete cid xid outcome digest now_ms q)
  then show ?thesis using complete_effect [OF wf complete] by (blast intro: r_into_rtranclp)
qed

lemma tool_steps_micro:
  assumes "tool_step\<^sup>*\<^sup>* d d'" and wf: "tools_wf d"
  shows "tool_micro\<^sup>*\<^sup>* d d'"
  using assms(1)
proof (induction rule: rtranclp_induct)
  case (step t u)
  then have "tools_wf t" using approvals.steps_inv wf by blast
  with step show ?case using tool_step_micro by (meson rtranclp_trans)
qed simp

lemma history_unique_start:
  assumes "history_of label edge init labels now" and "inj label" and "\<And>s. \<not> edge s init"
  shows "length (filter (\<lambda>l. l = label init) labels) = 1"
proof -
  from assms(1) obtain ss where ss: "labels = map label ss" "ss \<noteq> []" "hd ss = init" "successively edge ss"
    by (auto simp: history_of_def)
  obtain rest where rest: "ss = init # rest" using ss(2,3) by (cases ss) auto
  have "init \<notin> set rest"
  proof
    assume "init \<in> set rest"
    then obtain us vs where "rest = us @ init # vs" by (meson split_list)
    then have "ss = (butlast (init # us) @ [last (init # us)]) @ init # vs"
      using rest by simp
    with ss(4) have "edge (last (init # us)) init"
      by (metis (no_types) append_is_Nil_conv list.sel(1) list.simps(3) not_Cons_self2 snoc_eq_iff_butlast successively_append_iff)
    with assms(3) show False by blast
  qed
  then have "filter (\<lambda>l. l = label init) (map label rest) = []"
    using assms(2) by (auto simp: filter_empty_conv inj_eq)
  with rest ss(1) show ?thesis by simp
qed

end
