(* ===== verification/Model_Ops.thy ===== *)
theory Model_Ops
  imports Tool_Ledger_Facts
begin

text \<open>
  Model download, load and unload operations: \<open>src/runtime/store/model_operation.rs\<close> over
  the table of migration 7. Creation runs outside a transaction; its read-back cannot fail
  once the insert has succeeded, so the error of the model and the row kept by the code
  never disagree (\<open>create_model_operation_reads_back\<close>).
\<close>

section \<open>Data and codec\<close>

definition MAX_MODEL_OPERATIONS :: int where "MAX_MODEL_OPERATIONS = 4096"

datatype model_operation_kind = OpDownload | OpLoad | OpUnload

datatype model_operation_state = OpQueued | OpRunning | OpSucceeded | OpFailed | OpCancelled

fun op_kind_as_str :: "model_operation_kind \<Rightarrow> string" where
  "op_kind_as_str OpDownload = ''download''"
| "op_kind_as_str OpLoad = ''load''"
| "op_kind_as_str OpUnload = ''unload''"

definition op_kind_parse :: "string \<Rightarrow> store_error + model_operation_kind" where
  "op_kind_parse value =
     (if value = ''download'' then Inr OpDownload
      else if value = ''load'' then Inr OpLoad
      else if value = ''unload'' then Inr OpUnload
      else Inl (CorruptData ''invalid model operation kind''))"

fun op_state_as_str :: "model_operation_state \<Rightarrow> string" where
  "op_state_as_str OpQueued = ''queued''"
| "op_state_as_str OpRunning = ''running''"
| "op_state_as_str OpSucceeded = ''succeeded''"
| "op_state_as_str OpFailed = ''failed''"
| "op_state_as_str OpCancelled = ''cancelled''"

definition op_state_parse :: "string \<Rightarrow> store_error + model_operation_state" where
  "op_state_parse value =
     (if value = ''queued'' then Inr OpQueued
      else if value = ''running'' then Inr OpRunning
      else if value = ''succeeded'' then Inr OpSucceeded
      else if value = ''failed'' then Inr OpFailed
      else if value = ''cancelled'' then Inr OpCancelled
      else Inl (CorruptData ''invalid model operation state''))"

definition op_terminal :: "model_operation_state \<Rightarrow> bool" where
  "op_terminal s \<longleftrightarrow> s \<in> {OpSucceeded, OpFailed, OpCancelled}"

record new_model_operation =
  nmo_operation_id :: string
  nmo_model_id :: string
  nmo_revision :: string
  nmo_kind :: model_operation_kind
  nmo_created_at_ms :: nat

record model_operation_record =
  mo_operation_id :: string
  mo_model_id :: string
  mo_revision :: string
  mo_kind :: model_operation_kind
  mo_state :: model_operation_state
  mo_progress_basis_points :: nat
  mo_created_at_ms :: nat
  mo_updated_at_ms :: nat

definition permitted :: "model_operation_state \<Rightarrow> model_operation_state \<Rightarrow> bool" where
  "permitted from to \<longleftrightarrow>
     (from, to) \<in> {(OpQueued, OpRunning), (OpQueued, OpCancelled), (OpQueued, OpFailed),
       (OpRunning, OpRunning), (OpRunning, OpSucceeded), (OpRunning, OpFailed),
       (OpRunning, OpCancelled)}"

definition validate_op_id :: "string \<Rightarrow> store_error + unit" where
  "validate_op_id value = validate_id value ''invalid model operation identifier''"

definition u16_try_from :: "int \<Rightarrow> nat option" where
  "u16_try_from i = (if 0 \<le> i \<and> i < 65536 then Some (nat i) else None)"

definition op_time :: "nat \<Rightarrow> store_error + int" where
  "op_time t = ok_or (i64_try_from t) (InvalidInput ''model operation time exceeds i64'')"

section \<open>Statements\<close>

definition model_row_check :: "model_operation_row \<Rightarrow> bool" where
  "model_row_check r \<longleftrightarrow>
     mow_kind r \<in> {''download'', ''load'', ''unload''}
   \<and> mow_state r \<in> {''queued'', ''running'', ''succeeded'', ''failed'', ''cancelled''}
   \<and> 0 \<le> mow_progress_basis_points r \<and> mow_progress_basis_points r \<le> 10000
   \<and> 0 \<le> mow_created_at_ms r \<and> mow_created_at_ms r \<le> mow_updated_at_ms r"

definition insert_model_operation :: "model_operation_row \<Rightarrow> db \<Rightarrow> sql_error + db" where
  "insert_model_operation r d =
     (if \<not> model_row_check r then Inl SqlCheck
      else if mow_operation_id r \<in> mow_operation_id ` set (model_operations d) then Inl SqlUnique
      else Inr (d\<lparr>model_operations := model_operations d @ [r]\<rparr>))"

definition update_model_operations ::
    "(model_operation_row \<Rightarrow> bool) \<Rightarrow> (model_operation_row \<Rightarrow> model_operation_row) \<Rightarrow> db \<Rightarrow>
     sql_error + nat \<times> db" where
  "update_model_operations p f d =
     (if \<not> list_all (\<lambda>r. model_row_check (f r)) (filter p (model_operations d)) then Inl SqlCheck
      else Inr (length (filter p (model_operations d)),
                d\<lparr>model_operations := map (\<lambda>r. if p r then f r else r) (model_operations d)\<rparr>))"

definition row_to_op :: "model_operation_row \<Rightarrow> store_error + model_operation_record" where
  "row_to_op row =
     bindr (op_kind_parse (mow_kind row)) (\<lambda>kind.
     bindr (op_state_parse (mow_state row)) (\<lambda>state.
     bindr (ok_or (u16_try_from (mow_progress_basis_points row))
             (CorruptData ''invalid model progress'')) (\<lambda>progress.
     bindr (ok_or (u64_try_from (mow_created_at_ms row))
             (CorruptData ''invalid model creation time'')) (\<lambda>created.
     bindr (ok_or (u64_try_from (mow_updated_at_ms row))
             (CorruptData ''invalid model update time'')) (\<lambda>updated.
       Inr \<lparr>mo_operation_id = mow_operation_id row, mo_model_id = mow_model_id row,
            mo_revision = mow_revision row, mo_kind = kind, mo_state = state,
            mo_progress_basis_points = progress, mo_created_at_ms = created,
            mo_updated_at_ms = updated\<rparr>)))))"

definition op_row_by_id :: "db \<Rightarrow> string \<Rightarrow> store_error + model_operation_record option" where
  "op_row_by_id d oid =
     (case find (\<lambda>r. mow_operation_id r = oid) (model_operations d) of None \<Rightarrow> Inr None
      | Some row \<Rightarrow> bindr (row_to_op row) (\<lambda>r. Inr (Some r)))"

section \<open>Operations\<close>

definition create_model_operation ::
    "db \<Rightarrow> new_model_operation \<Rightarrow> store_error + model_operation_record \<times> db" where
  "create_model_operation d operation =
     bindr (validate_op_id (nmo_operation_id operation)) (\<lambda>_.
     bindr (validate_op_id (nmo_model_id operation)) (\<lambda>_.
     bindr (validate_op_id (nmo_revision operation)) (\<lambda>_.
     bindr (op_time (nmo_created_at_ms operation)) (\<lambda>created.
       if int (length (model_operations d)) \<ge> MAX_MODEL_OPERATIONS
       then Inl ModelOperationCapacity
       else
         bindr (map_err (\<lambda>e. if e = SqlUnique then ModelOperationConflict else Database e)
           (insert_model_operation
              \<lparr>mow_operation_id = nmo_operation_id operation, mow_model_id = nmo_model_id operation,
               mow_revision = nmo_revision operation, mow_kind = op_kind_as_str (nmo_kind operation),
               mow_state = ''queued'', mow_progress_basis_points = 0,
               mow_created_at_ms = created, mow_updated_at_ms = created\<rparr> d)) (\<lambda>d1.
         bindr (op_row_by_id d1 (nmo_operation_id operation)) (\<lambda>found.
         bindr (ok_or found (CorruptData ''new model operation disappeared'')) (\<lambda>row.
           Inr (row, d1))))))))"

definition model_operation :: "db \<Rightarrow> string \<Rightarrow> store_error + model_operation_record option" where
  "model_operation d oid = bindr (validate_op_id oid) (\<lambda>_. op_row_by_id d oid)"

definition transition_model_operation ::
    "db \<Rightarrow> string \<Rightarrow> model_operation_state \<Rightarrow> nat \<Rightarrow> nat \<Rightarrow>
     store_error + model_operation_record \<times> db" where
  "transition_model_operation d oid state progress updated_at_ms =
     bindr (validate_op_id oid) (\<lambda>_.
       if progress > 10000 then Inl (InvalidInput ''model progress exceeds 10000'')
       else
         bindr (op_time updated_at_ms) (\<lambda>updated.
         bindr (op_row_by_id d oid) (\<lambda>found.
         bindr (ok_or found (ModelOperationNotFound oid)) (\<lambda>current.
           if op_terminal (mo_state current) \<or> \<not> permitted (mo_state current) state
           then Inl ModelOperationConflict
           else if progress < mo_progress_basis_points current
                   \<or> updated_at_ms < mo_updated_at_ms current
                   \<or> state = OpSucceeded \<and> progress \<noteq> 10000
           then Inl ModelOperationConflict
           else
             bindr (map_err Database (update_model_operations (\<lambda>r. mow_operation_id r = oid)
                     (\<lambda>r. r\<lparr>mow_state := op_state_as_str state,
                             mow_progress_basis_points := int progress,
                             mow_updated_at_ms := updated\<rparr>) d)) (\<lambda>(_, d1).
             bindr (op_row_by_id d1 oid) (\<lambda>after.
             bindr (ok_or after (CorruptData ''transitioned model operation disappeared'')) (\<lambda>row.
               Inr (row, d1))))))))"

definition recover_incomplete_on :: "db \<Rightarrow> nat \<Rightarrow> store_error + nat \<times> db" where
  "recover_incomplete_on d updated_at_ms =
     bindr (op_time updated_at_ms) (\<lambda>updated.
       map_err Database (update_model_operations
         (\<lambda>r. mow_state r \<in> {''queued'', ''running''})
         (\<lambda>r. r\<lparr>mow_state := ''failed'',
                 mow_updated_at_ms := max (mow_updated_at_ms r) updated\<rparr>) d))"

section \<open>Codec and invariant\<close>

lemma op_state_parse_as_str [codec_simps]: "op_state_parse (op_state_as_str s) = Inr s"
  by (cases s) (simp_all add: op_state_parse_def)

lemma op_state_parse_Inr [codec_simps]: "op_state_parse v = Inr s \<longleftrightarrow> v = op_state_as_str s"
proof
  assume "op_state_parse v = Inr s"
  then show "v = op_state_as_str s" by (auto simp: op_state_parse_def split: if_splits)
qed (simp add: codec_simps)

lemma op_kind_parse_as_str [codec_simps]: "op_kind_parse (op_kind_as_str k) = Inr k"
  by (cases k) (simp_all add: op_kind_parse_def)

lemma op_kind_parse_Inr [codec_simps]: "op_kind_parse v = Inr k \<longleftrightarrow> v = op_kind_as_str k"
proof
  assume "op_kind_parse v = Inr k"
  then show "v = op_kind_as_str k" by (auto simp: op_kind_parse_def split: if_splits)
qed (simp add: codec_simps)

lemma op_state_as_str_inj [codec_simps]: "op_state_as_str a = op_state_as_str b \<longleftrightarrow> a = b"
  by (metis op_state_parse_as_str sum.inject(2))

lemma u16_try_from_Some [rust_simps]: "u16_try_from i = Some n \<longleftrightarrow> i = int n \<and> n < 65536"
  by (auto simp: u16_try_from_def)

lemma op_time_Inr [rust_simps]: "op_time t = Inr i \<longleftrightarrow> t < i64_bound \<and> i = int t"
  by (simp add: op_time_def rust_simps)

lemma row_to_op_Inr:
  assumes "row_to_op row = Inr r"
  shows "mo_operation_id r = mow_operation_id row" "mow_kind row = op_kind_as_str (mo_kind r)"
    "mow_state row = op_state_as_str (mo_state r)"
    "mow_progress_basis_points row = int (mo_progress_basis_points r)"
    "mow_created_at_ms row = int (mo_created_at_ms r)" "mow_updated_at_ms row = int (mo_updated_at_ms r)"
    "mo_model_id r = mow_model_id row" "mo_revision r = mow_revision row"
  using assms by (auto simp: row_to_op_def rust_simps codec_simps)

definition models_wf :: "db \<Rightarrow> bool" where
  "models_wf d \<longleftrightarrow>
     distinct (map mow_operation_id (model_operations d))
   \<and> (\<forall>r\<in>set (model_operations d). model_row_check r)
   \<and> int (length (model_operations d)) \<le> MAX_MODEL_OPERATIONS"

lemma empty_models_wf: "models_wf empty_db"
  by (simp add: models_wf_def empty_db_def MAX_MODEL_OPERATIONS_def)

lemma model_check_decodes:
  assumes "model_row_check r"
  shows "\<exists>a. row_to_op r = Inr a"
proof -
  have "\<exists>k. mow_kind r = op_kind_as_str k"
    using assms unfolding model_row_check_def by (metis op_kind_as_str.simps insert_iff singletonD)
  moreover have "\<exists>s. mow_state r = op_state_as_str s"
    using assms unfolding model_row_check_def by (metis op_state_as_str.simps insert_iff singletonD)
  ultimately show ?thesis
    using assms by (auto simp: row_to_op_def model_row_check_def codec_simps u16_try_from_def u64_try_from_def)
qed

lemma op_row_by_id_wf:
  assumes "models_wf d"
  shows "op_row_by_id d oid = Inr (Some a) \<longleftrightarrow>
           (\<exists>r\<in>set (model_operations d). mow_operation_id r = oid \<and> row_to_op r = Inr a)"
proof (cases "find (\<lambda>r. mow_operation_id r = oid) (model_operations d)")
  case None
  then have "\<forall>r\<in>set (model_operations d). mow_operation_id r \<noteq> oid" by (simp add: find_None_all)
  with None show ?thesis by (auto simp: op_row_by_id_def)
next
  case (Some row)
  then have row: "row \<in> set (model_operations d) \<and> mow_operation_id row = oid" by (rule find_Some_in)
  then have "\<And>r. r \<in> set (model_operations d) \<Longrightarrow> mow_operation_id r = oid \<Longrightarrow> r = row"
    using assms by (auto simp: models_wf_def dest: key_unique)
  with row Some show ?thesis by (auto simp: op_row_by_id_def rust_simps)
qed

section \<open>What the operations do\<close>

text \<open>One operation before and after a step.\<close>

definition op_evolves :: "model_operation_record \<Rightarrow> model_operation_record \<Rightarrow> bool" where
  "op_evolves a b \<longleftrightarrow>
     mo_operation_id b = mo_operation_id a \<and> mo_model_id b = mo_model_id a
   \<and> mo_revision b = mo_revision a \<and> mo_kind b = mo_kind a \<and> mo_created_at_ms b = mo_created_at_ms a
   \<and> mo_progress_basis_points a \<le> mo_progress_basis_points b
   \<and> mo_updated_at_ms a \<le> mo_updated_at_ms b
   \<and> (b = a \<or> permitted (mo_state a) (mo_state b))"

definition model_rows_step :: "db \<Rightarrow> db \<Rightarrow> bool" where
  "model_rows_step d d' \<longleftrightarrow>
     (\<forall>oid a. op_row_by_id d oid = Inr (Some a) \<longrightarrow>
        (\<exists>b. op_row_by_id d' oid = Inr (Some b) \<and> op_evolves a b))"

lemma permitted_terminal: "op_terminal a \<Longrightarrow> \<not> permitted a b"
  by (cases a) (simp_all add: op_terminal_def permitted_def)

lemma row_to_op_moved:
  assumes "row_to_op r = Inr a" and "progress < 65536" and "0 \<le> updated"
  shows "row_to_op (r\<lparr>mow_state := op_state_as_str s, mow_progress_basis_points := int progress,
                       mow_updated_at_ms := updated\<rparr>)
       = Inr (a\<lparr>mo_state := s, mo_progress_basis_points := progress, mo_updated_at_ms := nat updated\<rparr>)"
  using assms
  by (auto simp: row_to_op_def rust_simps codec_simps u16_try_from_def u64_try_from_def
      split: if_splits)

text \<open>A keyed or conditional update that keeps the identity columns and the row checks.\<close>

lemma update_models_step:
  assumes wf: "models_wf d" and upd: "update_model_operations p f d = Inr (n, d')"
    and key: "\<And>r. mow_operation_id (f r) = mow_operation_id r"
    and move: "\<And>r a. r \<in> set (model_operations d) \<Longrightarrow> p r \<Longrightarrow> row_to_op r = Inr a \<Longrightarrow>
                 \<exists>b. row_to_op (f r) = Inr b \<and> op_evolves a b"
  shows "models_wf d'" and "model_rows_step d d'"
proof -
  let ?g = "\<lambda>r. if p r then f r else r"
  from upd have d': "d' = d\<lparr>model_operations := map ?g (model_operations d)\<rparr>"
    and chk: "\<forall>r\<in>set (model_operations d). p r \<longrightarrow> model_row_check (f r)"
    by (auto simp: update_model_operations_def list_all_iff split: if_splits)
  have keys: "map mow_operation_id (map ?g (model_operations d)) = map mow_operation_id (model_operations d)"
    by (simp add: key)
  show wf': "models_wf d'"
    using wf chk keys unfolding models_wf_def d' by (auto simp del: map_map)
  show "model_rows_step d d'"
    unfolding model_rows_step_def
  proof (intro allI impI)
    fix oid a assume "op_row_by_id d oid = Inr (Some a)"
    then obtain r where r: "r \<in> set (model_operations d)" "mow_operation_id r = oid" "row_to_op r = Inr a"
      by (auto simp: op_row_by_id_wf [OF wf])
    then obtain b where b: "row_to_op (?g r) = Inr b" "op_evolves a b"
      using move [OF r(1) _ r(3)] by (cases "p r") (auto simp: op_evolves_def)
    moreover have "?g r \<in> set (model_operations d')" "mow_operation_id (?g r) = oid"
      using r by (auto simp: d' key)
    ultimately show "\<exists>b. op_row_by_id d' oid = Inr (Some b) \<and> op_evolves a b"
      unfolding op_row_by_id_wf [OF wf'] by blast
  qed
qed

lemma create_model_effect:
  assumes wf: "models_wf d" and ok: "create_model_operation d op = Inr (a, d')"
  shows "models_wf d'" "model_rows_step d d'" "op_row_by_id d (nmo_operation_id op) = Inr None"
    "op_row_by_id d' (nmo_operation_id op) = Inr (Some a)" "mo_state a = OpQueued"
    "mo_progress_basis_points a = 0"
proof -
  let ?row = "\<lparr>mow_operation_id = nmo_operation_id op, mow_model_id = nmo_model_id op,
      mow_revision = nmo_revision op, mow_kind = op_kind_as_str (nmo_kind op), mow_state = ''queued'',
      mow_progress_basis_points = 0, mow_created_at_ms = int (nmo_created_at_ms op),
      mow_updated_at_ms = int (nmo_created_at_ms op)\<rparr>"
  from ok have room: "int (length (model_operations d)) < MAX_MODEL_OPERATIONS"
    and ins: "insert_model_operation ?row d = Inr d'"
    and read: "op_row_by_id d' (nmo_operation_id op) = Inr (Some a)"
    by (auto simp: create_model_operation_def rust_simps split: if_splits)
  from ins have chk: "model_row_check ?row"
    and free: "nmo_operation_id op \<notin> mow_operation_id ` set (model_operations d)"
    and d': "d' = d\<lparr>model_operations := model_operations d @ [?row]\<rparr>"
    by (auto simp: insert_model_operation_def split: if_splits)
  show wf': "models_wf d'" using wf chk free room by (auto simp: models_wf_def d')
  show "op_row_by_id d' (nmo_operation_id op) = Inr (Some a)" by (rule read)
  show "op_row_by_id d (nmo_operation_id op) = Inr None"
  proof -
    have "find (\<lambda>r. mow_operation_id r = nmo_operation_id op) (model_operations d) = None"
      using free unfolding find_None_all by (metis imageI)
    then show ?thesis by (simp add: op_row_by_id_def)
  qed
  show "model_rows_step d d'"
    unfolding model_rows_step_def
  proof (intro allI impI exI conjI)
    fix oid a assume "op_row_by_id d oid = Inr (Some a)"
    then obtain r where "r \<in> set (model_operations d')" "mow_operation_id r = oid" "row_to_op r = Inr a"
      by (auto simp: op_row_by_id_wf [OF wf] d')
    then show "op_row_by_id d' oid = Inr (Some a)" by (auto simp: op_row_by_id_wf [OF wf'])
    show "op_evolves a a" by (simp add: op_evolves_def)
  qed
  obtain r where "r \<in> set (model_operations d')" "mow_operation_id r = nmo_operation_id op" "row_to_op r = Inr a"
    using read by (auto simp: op_row_by_id_wf [OF wf'])
  moreover have "?row \<in> set (model_operations d')" by (simp add: d')
  ultimately have "row_to_op ?row = Inr a"
    using wf' key_unique [of mow_operation_id "model_operations d'" r ?row] by (simp add: models_wf_def)
  note row = row_to_op_Inr(3,4) [OF this]
  have "op_state_as_str (mo_state a) = op_state_as_str OpQueued" using row(1) by simp
  then show "mo_state a = OpQueued" by (simp only: op_state_as_str_inj)
  show "mo_progress_basis_points a = 0" using row(2) by simp
qed

lemma transition_model_effect:
  assumes wf: "models_wf d"
    and ok: "transition_model_operation d oid s progress updated = Inr (b, d')"
  shows "models_wf d'" "model_rows_step d d'"
    "\<exists>a. op_row_by_id d oid = Inr (Some a) \<and> permitted (mo_state a) s
       \<and> mo_progress_basis_points a \<le> progress \<and> mo_updated_at_ms a \<le> updated
       \<and> (s = OpSucceeded \<longrightarrow> progress = 10000)
       \<and> b = a\<lparr>mo_state := s, mo_progress_basis_points := progress, mo_updated_at_ms := updated\<rparr>
       \<and> op_row_by_id d' oid = Inr (Some b)"
proof -
  let ?f = "\<lambda>r. r\<lparr>mow_state := op_state_as_str s, mow_progress_basis_points := int progress,
                  mow_updated_at_ms := int updated\<rparr>"
  from ok obtain a n where a: "op_row_by_id d oid = Inr (Some a)"
    and guard: "permitted (mo_state a) s" "mo_progress_basis_points a \<le> progress"
      "mo_updated_at_ms a \<le> updated" "s = OpSucceeded \<longrightarrow> progress = 10000" "progress \<le> 10000"
    and upd: "update_model_operations (\<lambda>r. mow_operation_id r = oid) ?f d = Inr (n, d')"
    and read: "op_row_by_id d' oid = Inr (Some b)"
    by (auto simp: transition_model_operation_def rust_simps split: if_splits)
  obtain r where r: "r \<in> set (model_operations d)" "mow_operation_id r = oid" "row_to_op r = Inr a"
    using a by (auto simp: op_row_by_id_wf [OF wf])
  have uniq: "r' = r" if "r' \<in> set (model_operations d)" "mow_operation_id r' = oid" for r'
    using wf that r by (auto simp: models_wf_def dest: key_unique)
  have moved: "row_to_op (?f r) = Inr (a\<lparr>mo_state := s, mo_progress_basis_points := progress,
      mo_updated_at_ms := updated\<rparr>)"
    using row_to_op_moved [OF r(3), of progress "int updated" s] guard(5) by simp
  have ev: "op_evolves a (a\<lparr>mo_state := s, mo_progress_basis_points := progress, mo_updated_at_ms := updated\<rparr>)"
    using guard by (simp add: op_evolves_def)
  have move: "\<exists>b. row_to_op (?f r') = Inr b \<and> op_evolves a' b"
    if "r' \<in> set (model_operations d)" "mow_operation_id r' = oid" "row_to_op r' = Inr a'" for r' a'
    using uniq [OF that(1,2)] that(3) r(3) moved ev by auto
  have key: "\<And>r. mow_operation_id (?f r) = mow_operation_id r" by simp
  show wf': "models_wf d'" by (rule update_models_step(1) [OF wf upd key move])
  show "model_rows_step d d'" by (rule update_models_step(2) [OF wf upd key move])
  have "?f r \<in> set (model_operations d')"
    using upd r by (auto simp: update_model_operations_def split: if_splits)
  moreover from read obtain q where "q \<in> set (model_operations d')" "mow_operation_id q = oid" "row_to_op q = Inr b"
    by (auto simp: op_row_by_id_wf [OF wf'])
  ultimately have "row_to_op (?f r) = Inr b"
    using wf' key_unique [of mow_operation_id "model_operations d'" q "?f r"] r(2) by (simp add: models_wf_def)
  with moved a guard read show "\<exists>a. op_row_by_id d oid = Inr (Some a) \<and> permitted (mo_state a) s
       \<and> mo_progress_basis_points a \<le> progress \<and> mo_updated_at_ms a \<le> updated
       \<and> (s = OpSucceeded \<longrightarrow> progress = 10000)
       \<and> b = a\<lparr>mo_state := s, mo_progress_basis_points := progress, mo_updated_at_ms := updated\<rparr>
       \<and> op_row_by_id d' oid = Inr (Some b)"
    by auto
qed

lemma recover_incomplete_effect:
  assumes wf: "models_wf d" and now: "t < i64_bound"
  shows "\<exists>n d'. recover_incomplete_on d t = Inr (n, d') \<and> models_wf d' \<and> model_rows_step d d'
           \<and> (\<forall>oid a. op_row_by_id d' oid = Inr (Some a) \<longrightarrow> op_terminal (mo_state a))
           \<and> n = length (filter (\<lambda>r. mow_state r \<in> {''queued'', ''running''}) (model_operations d))"
proof -
  let ?p = "\<lambda>r. mow_state r \<in> {''queued'', ''running''}"
  let ?f = "\<lambda>r. r\<lparr>mow_state := ''failed'', mow_updated_at_ms := max (mow_updated_at_ms r) (int t)\<rparr>"
  have chk: "\<forall>r\<in>set (model_operations d). model_row_check (?f r)"
    using wf by (auto simp: models_wf_def model_row_check_def)
  define d' where "d' = d\<lparr>model_operations := map (\<lambda>r. if ?p r then ?f r else r) (model_operations d)\<rparr>"
  have upd: "update_model_operations ?p ?f d = Inr (length (filter ?p (model_operations d)), d')"
    using chk by (simp add: update_model_operations_def list_all_iff d'_def)
  have move: "\<exists>b. row_to_op (?f r) = Inr b \<and> op_evolves a b"
    if "r \<in> set (model_operations d)" "?p r" "row_to_op r = Inr a" for r a
  proof -
    note fs = row_to_op_Inr [OF that(3)]
    have "mo_state a \<in> {OpQueued, OpRunning}"
      using that(2) fs(3) by (cases "mo_state a") auto
    moreover have "mo_progress_basis_points a < 65536"
      using that(3) by (auto simp: row_to_op_def rust_simps)
    moreover have "?f r = r\<lparr>mow_state := op_state_as_str OpFailed,
        mow_progress_basis_points := int (mo_progress_basis_points a),
        mow_updated_at_ms := max (mow_updated_at_ms r) (int t)\<rparr>"
      using fs(4) by (cases r) simp
    ultimately show ?thesis
      using row_to_op_moved [OF that(3), of "mo_progress_basis_points a" "max (mow_updated_at_ms r) (int t)" OpFailed] fs(6)
      by (auto simp: op_evolves_def permitted_def max_def)
  qed
  have key: "\<And>r. mow_operation_id (?f r) = mow_operation_id r" by simp
  have wf': "models_wf d'" and eff: "model_rows_step d d'"
    using update_models_step [OF wf upd key move] by blast+
  have "op_terminal (mo_state a)" if "op_row_by_id d' oid = Inr (Some a)" for oid a
  proof -
    from that obtain q where q: "q \<in> set (model_operations d')" "row_to_op q = Inr a"
      using op_row_by_id_wf [OF wf', of oid a] by blast
    then have "\<not> ?p q" by (auto simp: d'_def)
    with row_to_op_Inr(3) [OF q(2)] show ?thesis by (cases "mo_state a") (auto simp: op_terminal_def)
  qed
  moreover have "recover_incomplete_on d t = Inr (length (filter ?p (model_operations d)), d')"
    using upd now by (simp add: recover_incomplete_on_def op_time_def i64_try_from_def)
  ultimately show ?thesis
    using wf' eff by (intro exI [of _ "length (filter ?p (model_operations d))"] exI [of _ d']) blast
qed

lemma create_model_operation_reads_back:
  assumes wf: "models_wf d" and ins: "insert_model_operation r d = Inr d'"
  shows "\<exists>a. op_row_by_id d' (mow_operation_id r) = Inr (Some a)"
proof -
  from ins have chk: "model_row_check r" and d': "d' = d\<lparr>model_operations := model_operations d @ [r]\<rparr>"
    and free: "mow_operation_id r \<notin> mow_operation_id ` set (model_operations d)"
    by (auto simp: insert_model_operation_def split: if_splits)
  have "find (\<lambda>x. mow_operation_id x = mow_operation_id r) (model_operations d) = None"
    using free unfolding find_None_all by (metis imageI)
  then have "op_row_by_id d' (mow_operation_id r) = bindr (row_to_op r) (\<lambda>a. Inr (Some a))"
    by (simp add: op_row_by_id_def d' find_append)
  with model_check_decodes [OF chk] show ?thesis by auto
qed

section \<open>The ledger of model operations\<close>

inductive model_step :: "db \<Rightarrow> db \<Rightarrow> bool" where
  create: "create_model_operation d op = Inr (a, d') \<Longrightarrow> model_step d d'"
| transition: "transition_model_operation d oid s progress updated = Inr (a, d') \<Longrightarrow> model_step d d'"
| reopen: "recover_incomplete_on d t = Inr (n, d') \<Longrightarrow> model_step d d'"

lemma model_step_effect:
  assumes "model_step d d'" and wf: "models_wf d"
  shows "models_wf d' \<and> model_rows_step d d'"
  using assms(1)
proof cases
  case (create op a)
  then show ?thesis using create_model_effect [OF wf] by blast
next
  case (transition oid s progress updated a)
  then show ?thesis using transition_model_effect [OF wf] by blast
next
  case (reopen t n)
  then have "t < i64_bound" by (auto simp: recover_incomplete_on_def rust_simps)
  with recover_incomplete_effect [OF wf this] reopen show ?thesis by auto
qed

definition op_status :: "db \<Rightarrow> string \<Rightarrow> model_operation_state option" where
  "op_status d oid = (case op_row_by_id d oid of Inr (Some a) \<Rightarrow> Some (mo_state a) | _ \<Rightarrow> None)"

text \<open>The record of an operation that reached a terminal state.\<close>

definition op_sealed :: "db \<Rightarrow> string \<Rightarrow> model_operation_record list" where
  "op_sealed d oid =
     (case op_row_by_id d oid of Inr (Some a) \<Rightarrow> if op_terminal (mo_state a) then [a] else []
      | _ \<Rightarrow> [])"

lemma op_status_Some:
  "op_status d oid = Some s \<longleftrightarrow> (\<exists>a. op_row_by_id d oid = Inr (Some a) \<and> mo_state a = s)"
  by (auto simp: op_status_def split: sum.splits option.splits)

lemma op_evolves_terminal: "op_evolves a b \<Longrightarrow> op_terminal (mo_state a) \<Longrightarrow> b = a"
  using permitted_terminal by (auto simp: op_evolves_def)

interpretation models: state_ledger models_wf model_step op_status op_sealed permitted
proof
  fix d d' oid s
  assume wf: "models_wf d" and step: "model_step d d'"
  have eff: "models_wf d'" and rows: "model_rows_step d d'"
    using model_step_effect [OF step wf] by simp_all
  show "models_wf d'" by (rule eff)
  show "\<exists>t. op_status d' oid = Some t \<and> (t = s \<or> permitted s t)" if "op_status d oid = Some s"
    using that rows unfolding op_status_Some model_rows_step_def op_evolves_def by metis
  have keep: "op_row_by_id d' oid = Inr (Some a)"
    if "op_row_by_id d oid = Inr (Some a)" "op_terminal (mo_state a)" for a
    using rows that op_evolves_terminal unfolding model_rows_step_def by metis
  show "prefix (op_sealed d oid) (op_sealed d' oid)"
    using keep by (auto simp: op_sealed_def split: sum.splits option.splits)
  show "op_sealed d' oid = op_sealed d oid"
    if "op_status d oid = Some s" and fin: "\<And>t. \<not> permitted s t"
  proof -
    obtain a where a: "op_row_by_id d oid = Inr (Some a)" "mo_state a = s"
      using \<open>op_status d oid = Some s\<close> by (auto simp: op_status_Some)
    have "op_terminal s" using fin [of OpFailed] by (cases s) (simp_all add: permitted_def op_terminal_def)
    with a keep show ?thesis by (simp add: op_sealed_def)
  qed
qed

text \<open>Across any number of steps an operation keeps its identity and never loses progress or time.\<close>

lemma model_steps_evolve:
  assumes "model_step\<^sup>*\<^sup>* d d'" and "models_wf d" and "op_row_by_id d oid = Inr (Some a)"
  shows "\<exists>b. op_row_by_id d' oid = Inr (Some b) \<and> mo_progress_basis_points a \<le> mo_progress_basis_points b
           \<and> mo_updated_at_ms a \<le> mo_updated_at_ms b \<and> mo_created_at_ms b = mo_created_at_ms a
           \<and> mo_kind b = mo_kind a \<and> mo_model_id b = mo_model_id a \<and> mo_revision b = mo_revision a
           \<and> (op_terminal (mo_state a) \<longrightarrow> b = a)"
  using assms
proof (induction rule: rtranclp_induct)
  case base
  then show ?case by blast
next
  case (step t u)
  then obtain b where b: "op_row_by_id t oid = Inr (Some b)" "mo_progress_basis_points a \<le> mo_progress_basis_points b"
    "mo_updated_at_ms a \<le> mo_updated_at_ms b" "mo_created_at_ms b = mo_created_at_ms a"
    "mo_kind b = mo_kind a" "mo_model_id b = mo_model_id a" "mo_revision b = mo_revision a"
    "op_terminal (mo_state a) \<longrightarrow> b = a" by blast
  have "models_wf t" using models.steps_inv step by blast
  then obtain c where c: "op_row_by_id u oid = Inr (Some c)" "op_evolves b c"
    using model_step_effect [OF step.hyps(2)] b(1) unfolding model_rows_step_def by blast
  then have "op_terminal (mo_state a) \<longrightarrow> c = a" using b(8) op_evolves_terminal by metis
  with b c show ?case by (auto simp: op_evolves_def)
qed

end
