(* ===== verification/Audit_Log.thy ===== *)
theory Audit_Log
  imports Run_Store
begin

text \<open>
  Audit events and their metadata: \<open>src/runtime/store/audit.rs\<close> and the audit operations
  of \<open>src/runtime/store.rs\<close>. The sanitiser rewrites the value in place; here it returns
  the rewritten value, or the error that makes the caller drop it. An object is the list of
  its entries in the iteration order of the map.
\<close>

definition MAX_METADATA_BYTES :: nat where "MAX_METADATA_BYTES = 4 * 1024"
definition MAX_STRING_BYTES :: nat where "MAX_STRING_BYTES = 512"
definition MAX_COLLECTION_ITEMS :: nat where "MAX_COLLECTION_ITEMS = 32"
definition MAX_DEPTH :: nat where "MAX_DEPTH = 4"

section \<open>Sanitiser\<close>

definition sensitive_markers :: "string list" where
  "sensitive_markers = [''prompt'', ''credential'', ''password'', ''secret'', ''token'',
     ''authorization'', ''cookie'', ''api_key'']"

definition is_sensitive_key :: "string \<Rightarrow> bool" where
  "is_sensitive_key key =
     (let k = map (\<lambda>c. if c \<in> {CHR ''-'', CHR '' ''} then CHR ''_'' else c)
                (map to_ascii_lower key) in
      list_ex (\<lambda>marker. sublist marker k) sensitive_markers)"

definition looks_secret :: "string \<Rightarrow> bool" where
  "looks_secret value =
     (let lower = map to_ascii_lower value in
      prefix ''bearer '' lower \<or> prefix ''sk-'' lower
      \<or> sublist ''-----begin private key-----'' lower)"

definition REDACTED :: string where "REDACTED = ''[REDACTED]''"

definition metadata_key_bad :: "string \<Rightarrow> bool" where
  "metadata_key_bad key \<longleftrightarrow> key = [] \<or> length key > 64 \<or> has_control key"

function (sequential) sanitize_value :: "nat \<Rightarrow> json \<Rightarrow> store_error + json"
  and sanitize_items :: "nat \<Rightarrow> json list \<Rightarrow> store_error + json list"
  and sanitize_fields :: "nat \<Rightarrow> (string \<times> json) list \<Rightarrow> store_error + (string \<times> json) list" where
  "sanitize_value depth value =
     (if depth > MAX_DEPTH then Inl (InvalidAuditMetadata ''metadata nesting exceeds four levels'')
      else case value of
        JObject entries \<Rightarrow>
          if length entries > MAX_COLLECTION_ITEMS
          then Inl (InvalidAuditMetadata ''metadata object exceeds 32 fields'')
          else bindr (sanitize_fields depth entries) (\<lambda>fs. Inr (JObject fs))
      | JArray items \<Rightarrow>
          if length items > MAX_COLLECTION_ITEMS
          then Inl (InvalidAuditMetadata ''metadata array exceeds 32 items'')
          else bindr (sanitize_items depth items) (\<lambda>xs. Inr (JArray xs))
      | JString text \<Rightarrow>
          if length text > MAX_STRING_BYTES
          then Inl (InvalidAuditMetadata ''metadata string exceeds 512 bytes'')
          else if looks_secret text then Inr (JString REDACTED) else Inr (JString text)
      | v \<Rightarrow> Inr v)"
| "sanitize_items depth [] = Inr []"
| "sanitize_items depth (x # xs) =
     bindr (sanitize_value (depth + 1) x) (\<lambda>y.
     bindr (sanitize_items depth xs) (\<lambda>ys. Inr (y # ys)))"
| "sanitize_fields depth [] = Inr []"
| "sanitize_fields depth ((key, value) # rest) =
     (if metadata_key_bad key then Inl (InvalidAuditMetadata ''metadata key is invalid'')
      else
        bindr (if is_sensitive_key key then Inr (JString REDACTED)
               else sanitize_value (depth + 1) value) (\<lambda>v.
        bindr (sanitize_fields depth rest) (\<lambda>vs. Inr ((key, v) # vs))))"
  by pat_completeness auto
termination
  by (relation "measure (\<lambda>x. case x of Inl (_, v) \<Rightarrow> size v
      | Inr (Inl (_, vs)) \<Rightarrow> size_list size vs
      | Inr (Inr (_, fs)) \<Rightarrow> size_list (size_prod (\<lambda>_. 0) size) fs)") auto

definition audit_metadata_new :: "externals \<Rightarrow> json \<Rightarrow> store_error + json" where
  "audit_metadata_new E value =
     (if (case value of JObject _ \<Rightarrow> False | _ \<Rightarrow> True)
      then Inl (InvalidAuditMetadata ''metadata must be a JSON object'')
      else bindr (sanitize_value 0 value) (\<lambda>v.
        if length (json_to_string E v) > MAX_METADATA_BYTES
        then Inl (InvalidAuditMetadata ''metadata exceeds 4096 bytes'')
        else Inr v))"

section \<open>Audit events\<close>

record new_audit_event =
  nae_run_id :: "run_id option"
  nae_action :: string
  nae_outcome :: string
  nae_metadata :: json

record audit_event =
  ae_id :: int
  ae_run_id :: "run_id option"
  ae_action :: string
  ae_outcome :: string
  ae_metadata :: json
  ae_created_at :: string

definition validate_audit_label :: "string \<Rightarrow> string \<Rightarrow> store_error + unit" where
  "validate_audit_label value message =
     (if value = [] \<or> length value > 64 \<or> has_control value
      then Inl (InvalidInput message) else Inr ())"

definition row_to_audit :: "externals \<Rightarrow> audit_row \<Rightarrow> store_error + audit_event" where
  "row_to_audit E row =
     bindr (case aw_run_id row of None \<Rightarrow> Inr None
              | Some value \<Rightarrow> bindr (map_err to_sql_error (parse_run_id E value))
                               (\<lambda>r. Inr (Some r))) (\<lambda>rid.
     bindr (ok_or (json_from_str E (aw_metadata_json row)) (Database (SqlConversion ''json'')))
       (\<lambda>metadata.
       Inr \<lparr>ae_id = aw_id row, ae_run_id = rid, ae_action = aw_action row,
            ae_outcome = aw_outcome row, ae_metadata = metadata,
            ae_created_at = aw_created_at row\<rparr>))"

definition next_audit_id :: "db \<Rightarrow> int" where
  "next_audit_id d =
     (if audit_events d = [] then 1 else Max (set (map aw_id (audit_events d))) + 1)"

definition record_audit ::
    "externals \<Rightarrow> string \<Rightarrow> db \<Rightarrow> new_audit_event \<Rightarrow> store_error + audit_event \<times> db" where
  "record_audit E now d event =
     bindr (validate_audit_label (nae_action event) ''audit action is empty or exceeds 64 bytes'') (\<lambda>_.
     bindr (validate_audit_label (nae_outcome event) ''audit outcome is empty or exceeds 64 bytes'') (\<lambda>_.
       if (case nae_run_id event of None \<Rightarrow> False | Some r \<Rightarrow> r \<notin> rw_id ` set (runs d))
       then Inl (RunNotFound (case nae_run_id event of None \<Rightarrow> [] | Some r \<Rightarrow> r))
       else
         let rowid = next_audit_id d in
         Inr (\<lparr>ae_id = rowid, ae_run_id = nae_run_id event, ae_action = nae_action event,
               ae_outcome = nae_outcome event, ae_metadata = nae_metadata event,
               ae_created_at = now\<rparr>,
              d\<lparr>audit_events := audit_events d @
                  [\<lparr>aw_id = rowid, aw_run_id = nae_run_id event, aw_action = nae_action event,
                    aw_outcome = nae_outcome event,
                    aw_metadata_json = json_to_string E (nae_metadata event),
                    aw_created_at = now\<rparr>]\<rparr>)))"

text \<open>\<open>run_id=?1 OR (?1 IS NULL AND run_id IS NULL)\<close> is equality of the optional values.\<close>

definition audit_events_for_run ::
    "externals \<Rightarrow> db \<Rightarrow> run_id option \<Rightarrow> store_error + audit_event list" where
  "audit_events_for_run E d rid =
     collect_results (row_to_audit E)
       (sort_key aw_id (filter (\<lambda>r. aw_run_id r = rid) (audit_events d)))"

section \<open>What sanitised metadata contains\<close>

text \<open>Every string, every field and every container of a value, with its depth.\<close>

fun json_strings :: "json \<Rightarrow> string list" where
  "json_strings (JString s) = [s]"
| "json_strings (JArray xs) = concat (map json_strings xs)"
| "json_strings (JObject fs) = concat (map (\<lambda>f. json_strings (snd f)) fs)"
| "json_strings _ = []"

fun json_fields :: "json \<Rightarrow> (string \<times> json) list" where
  "json_fields (JArray xs) = concat (map json_fields xs)"
| "json_fields (JObject fs) = fs @ concat (map (\<lambda>f. json_fields (snd f)) fs)"
| "json_fields _ = []"

fun json_nesting :: "json \<Rightarrow> nat" where
  "json_nesting (JArray xs) = Suc (foldr max (map json_nesting xs) 0)"
| "json_nesting (JObject fs) = Suc (foldr max (map (\<lambda>f. json_nesting (snd f)) fs) 0)"
| "json_nesting _ = 0"

fun json_widths :: "json \<Rightarrow> nat list" where
  "json_widths (JArray xs) = length xs # concat (map json_widths xs)"
| "json_widths (JObject fs) = length fs # concat (map (\<lambda>f. json_widths (snd f)) fs)"
| "json_widths _ = []"

definition json_clean :: "json \<Rightarrow> bool" where
  "json_clean v \<longleftrightarrow>
     list_all (\<lambda>s. length s \<le> MAX_STRING_BYTES \<and> \<not> looks_secret s) (json_strings v)
   \<and> list_all (\<lambda>(k, w). \<not> metadata_key_bad k \<and> (is_sensitive_key k \<longrightarrow> w = JString REDACTED)) (json_fields v)
   \<and> list_all (\<lambda>n. n \<le> MAX_COLLECTION_ITEMS) (json_widths v)"

lemma redacted_not_secret: "\<not> looks_secret REDACTED" and redacted_short: "length REDACTED \<le> MAX_STRING_BYTES"
  by (code_simp, simp add: REDACTED_def MAX_STRING_BYTES_def)

lemma json_clean_redacted [simp]: "json_clean (JString REDACTED)"
  by (simp add: json_clean_def redacted_not_secret redacted_short)

lemma json_clean_array:
  "json_clean (JArray xs) \<longleftrightarrow> length xs \<le> MAX_COLLECTION_ITEMS \<and> (\<forall>x\<in>set xs. json_clean x)"
  by (auto simp: json_clean_def list_all_iff)

lemma json_clean_object:
  "json_clean (JObject fs) \<longleftrightarrow> length fs \<le> MAX_COLLECTION_ITEMS
     \<and> (\<forall>(k, w)\<in>set fs. \<not> metadata_key_bad k \<and> (is_sensitive_key k \<longrightarrow> w = JString REDACTED) \<and> json_clean w)"
  unfolding json_clean_def list_all_iff by fastforce

lemma json_clean_scalar [simp]: "json_clean JNull" "json_clean (JBool b)" "json_clean (JNumber n)"
  by (simp_all add: json_clean_def)

lemma foldr_max_le: "d + foldr max ns 0 \<le> (m::nat) \<longleftrightarrow> d \<le> m \<and> (\<forall>n\<in>set ns. d + n \<le> m)"
  by (induction ns) auto

lemma sanitize_clean:
  "sanitize_value depth v = Inr w \<Longrightarrow> json_clean w \<and> depth + json_nesting w \<le> Suc MAX_DEPTH"
  "sanitize_items depth xs = Inr ys \<Longrightarrow>
     length ys = length xs \<and> (\<forall>y\<in>set ys. json_clean y \<and> Suc depth + json_nesting y \<le> Suc MAX_DEPTH)"
  "sanitize_fields depth fs = Inr gs \<Longrightarrow> depth \<le> MAX_DEPTH \<Longrightarrow>
     length gs = length fs \<and> (\<forall>(k, w)\<in>set gs. \<not> metadata_key_bad k
       \<and> (is_sensitive_key k \<longrightarrow> w = JString REDACTED) \<and> json_clean w
       \<and> Suc depth + json_nesting w \<le> Suc MAX_DEPTH)"
proof (induction depth v and depth xs and depth fs arbitrary: w and ys and gs
    rule: sanitize_value_sanitize_items_sanitize_fields.induct)
  case (1 depth v)
  then have d: "depth \<le> MAX_DEPTH" by (auto split: if_splits)
  show ?case
  proof (cases v)
    case (JString s)
    with 1(3) d show ?thesis
      by (auto simp: json_clean_def redacted_not_secret redacted_short split: if_splits)
  next
    case (JArray xs)
    with 1(3) d obtain ys where ys: "sanitize_items depth xs = Inr ys" "w = JArray ys"
      and len: "length xs \<le> MAX_COLLECTION_ITEMS"
      by (auto simp: rust_simps split: if_splits)
    from 1(1) [of xs] d JArray len ys(1) show ?thesis
      by (auto simp: ys(2) json_clean_array foldr_max_le)
  next
    case (JObject fs)
    with 1(3) d obtain gs where gs: "sanitize_fields depth fs = Inr gs" "w = JObject gs"
      and len: "length fs \<le> MAX_COLLECTION_ITEMS"
      by (auto simp: rust_simps split: if_splits)
    from 1(2) [of fs] d JObject len gs(1)
    have "length gs = length fs \<and> (\<forall>(k, w)\<in>set gs. \<not> metadata_key_bad k
       \<and> (is_sensitive_key k \<longrightarrow> w = JString REDACTED) \<and> json_clean w
       \<and> Suc depth + json_nesting w \<le> Suc MAX_DEPTH)" by simp
    then show ?thesis using len d by (fastforce simp: gs(2) json_clean_object foldr_max_le)
  qed (use 1(3) d in auto)
next
  case (3 depth x xs)
  then show ?case by (auto simp: rust_simps)
next
  case (5 depth key val rest)
  then show ?case
    by (auto simp: rust_simps split: if_splits)
qed auto

text \<open>Sanitising is idempotent.\<close>

lemma sanitize_idem:
  "sanitize_value depth v = Inr w \<Longrightarrow> sanitize_value depth w = Inr w"
  "sanitize_items depth xs = Inr ys \<Longrightarrow> sanitize_items depth ys = Inr ys \<and> length ys = length xs"
  "sanitize_fields depth fs = Inr gs \<Longrightarrow> sanitize_fields depth gs = Inr gs \<and> length gs = length fs"
proof (induction depth v and depth xs and depth fs arbitrary: w and ys and gs
    rule: sanitize_value_sanitize_items_sanitize_fields.induct)
  case (1 depth v)
  then have d: "\<not> depth > MAX_DEPTH" by (auto split: if_splits)
  show ?case
  proof (cases v)
    case (JString s)
    with 1(3) d show ?thesis
      using redacted_not_secret redacted_short by (auto split: if_splits)
  next
    case (JArray xs)
    with 1(3) d obtain ys where ys: "sanitize_items depth xs = Inr ys" "w = JArray ys"
      and len: "\<not> length xs > MAX_COLLECTION_ITEMS"
      by (auto simp: rust_simps split: if_splits)
    from 1(1) [OF d JArray len ys(1)] d len show ?thesis by (simp add: ys(2))
  next
    case (JObject fs)
    with 1(3) d obtain gs where gs: "sanitize_fields depth fs = Inr gs" "w = JObject gs"
      and len: "\<not> length fs > MAX_COLLECTION_ITEMS"
      by (auto simp: rust_simps split: if_splits)
    from 1(2) [OF d JObject len gs(1)] d len show ?thesis by (simp add: gs(2))
  qed (use 1(3) d in auto)
next
  case (3 depth x xs)
  from 3(3) obtain y zs where "sanitize_value (depth + 1) x = Inr y" "sanitize_items depth xs = Inr zs" "ys = y # zs"
    by (auto simp: rust_simps)
  with 3(1) 3(2) show ?case by auto
next
  case (5 depth key val rest)
  from 5(3) have key: "\<not> metadata_key_bad key" by (auto split: if_splits)
  show ?case
  proof (cases "is_sensitive_key key")
    case True
    with 5(3) key obtain vs where "sanitize_fields depth rest = Inr vs" "gs = (key, JString REDACTED) # vs"
      by (auto simp: rust_simps)
    with 5(2) [OF key] True key show ?thesis by auto
  next
    case False
    with 5(3) key obtain w vs where "sanitize_value (depth + 1) val = Inr w"
      "sanitize_fields depth rest = Inr vs" "gs = (key, w) # vs"
      by (auto simp: rust_simps)
    with 5(1) [OF key False] 5(2) [OF key] False key show ?thesis by auto
  qed
qed (auto)

lemma audit_metadata_new_Inr:
  "audit_metadata_new E v = Inr w \<longleftrightarrow>
     (\<exists>fs gs. v = JObject fs \<and> w = JObject gs) \<and> sanitize_value 0 v = Inr w
   \<and> length (json_to_string E w) \<le> MAX_METADATA_BYTES"
proof (cases v)
  case (JObject fs)
  have "\<exists>gs. x = JObject gs" if "sanitize_value 0 v = Inr x" for x
    using that JObject by (auto simp: rust_simps MAX_DEPTH_def split: if_splits)
  then show ?thesis
    by (cases "sanitize_value 0 v")
      (auto simp: audit_metadata_new_def JObject simp del: sanitize_value.simps)
qed (simp_all add: audit_metadata_new_def)

end
