(* ===== verification/Framing.thy ===== *)
theory Framing
  imports Abbey_Prelude
begin

text \<open>
  The frames of the daemon's local socket: \<open>src/daemon/framing.rs\<close>. Bytes are 8-bit words
  and the length prefix is a 32-bit word in big-endian order. A reader is the list of bytes
  still to come, \<open>read_exact\<close> fails when fewer are left; a writer is a growing byte
  vector. Whether the allocator grants a reservation is the argument \<open>grant\<close>.
\<close>

unbundle bit_operations_syntax

type_synonym byte = "8 word"

definition MAX_APP_FRAME_BYTES :: nat where "MAX_APP_FRAME_BYTES = 1024 * 1024"
definition MAX_V4_CONTROL_BYTES :: nat where "MAX_V4_CONTROL_BYTES = 64 * 1024"
definition APP_SCHEMA_V4 :: nat where "APP_SCHEMA_V4 = 3"
definition APP_SCHEMA_V4_CONVERSATIONS :: nat where "APP_SCHEMA_V4_CONVERSATIONS = 2"

definition SCHEMA3_MAGIC :: "byte list" where "SCHEMA3_MAGIC = [65, 66, 83, 51]"

datatype frame_kind = Legacy | Schema3

fun frame_limit :: "frame_kind \<Rightarrow> nat \<Rightarrow> nat" where
  "frame_limit Legacy legacy = min legacy MAX_APP_FRAME_BYTES"
| "frame_limit Schema3 legacy = min legacy MAX_V4_CONTROL_BYTES"

fun frame_schema :: "frame_kind \<Rightarrow> nat" where
  "frame_schema Legacy = APP_SCHEMA_V4_CONVERSATIONS"
| "frame_schema Schema3 = APP_SCHEMA_V4"

datatype frame_failure = EmptyFrame | Oversize | FrameIo

record frame_read_error =
  fre_kind :: frame_kind
  fre_failure :: frame_failure

section \<open>Words\<close>

definition to_be_bytes :: "32 word \<Rightarrow> byte list" where
  "to_be_bytes w = [ucast (drop_bit 24 w), ucast (drop_bit 16 w), ucast (drop_bit 8 w), ucast w]"

fun from_be_bytes :: "byte list \<Rightarrow> 32 word" where
  "from_be_bytes [a, b, c, d] =
     push_bit 24 (ucast a) OR push_bit 16 (ucast b) OR push_bit 8 (ucast c) OR ucast d"
| "from_be_bytes _ = 0"

definition read_exact :: "nat \<Rightarrow> byte list \<Rightarrow> (byte list \<times> byte list) option" where
  "read_exact n input = (if n \<le> length input then Some (take n input, drop n input) else None)"

section \<open>Reading and writing\<close>

definition read_body ::
    "(nat \<Rightarrow> bool) \<Rightarrow> frame_kind \<Rightarrow> byte list \<Rightarrow> byte list \<Rightarrow> nat \<Rightarrow>
     frame_read_error + (frame_kind \<times> byte list) \<times> byte list" where
  "read_body grant kind prefix_bytes rest legacy_max =
     (let len = unat (from_be_bytes prefix_bytes) in
      if len = 0 then Inl \<lparr>fre_kind = kind, fre_failure = EmptyFrame\<rparr>
      else if len > frame_limit kind legacy_max then Inl \<lparr>fre_kind = kind, fre_failure = Oversize\<rparr>
      else if \<not> grant len then Inl \<lparr>fre_kind = kind, fre_failure = Oversize\<rparr>
      else bindr (ok_or (read_exact len rest) \<lparr>fre_kind = kind, fre_failure = FrameIo\<rparr>)
             (\<lambda>(bytes, rest'). Inr ((kind, bytes), rest')))"

definition read_frame ::
    "(nat \<Rightarrow> bool) \<Rightarrow> byte list \<Rightarrow> nat \<Rightarrow> frame_read_error + (frame_kind \<times> byte list) \<times> byte list" where
  "read_frame grant input legacy_max =
     bindr (ok_or (read_exact 4 input) \<lparr>fre_kind = Legacy, fre_failure = FrameIo\<rparr>)
       (\<lambda>(prefix_bytes, rest).
        if prefix_bytes = SCHEMA3_MAGIC
        then bindr (ok_or (read_exact 4 rest) \<lparr>fre_kind = Schema3, fre_failure = FrameIo\<rparr>)
               (\<lambda>(prefix_bytes', rest'). read_body grant Schema3 prefix_bytes' rest' legacy_max)
        else read_body grant Legacy prefix_bytes rest legacy_max)"

datatype io_error = InvalidData string | OutOfMemory string

definition write_frame ::
    "byte list \<Rightarrow> frame_kind \<Rightarrow> byte list \<Rightarrow> nat \<Rightarrow> io_error + byte list" where
  "write_frame out kind bytes legacy_max =
     (if bytes = [] \<or> length bytes > frame_limit kind legacy_max
      then Inl (InvalidData ''invalid control frame length'')
      else if \<not> length bytes < 2 ^ 32 then Inl (InvalidData ''invalid control frame length'')
      else Inr (out @ (if kind = Schema3 then SCHEMA3_MAGIC else [])
                    @ to_be_bytes (of_nat (length bytes)) @ bytes))"

section \<open>Bounded serialisation\<close>

text \<open>
  The writer of \<open>serialize_bounded\<close>: its bytes and the capacity of its vector.
  \<open>serde_json::to_writer\<close> hands it the serialisation as a sequence of chunks.
\<close>

record bounded =
  bd_bytes :: "byte list"
  bd_capacity :: nat

definition bounded_write :: "(nat \<Rightarrow> bool) \<Rightarrow> nat \<Rightarrow> bounded \<Rightarrow> byte list \<Rightarrow> io_error + bounded" where
  "bounded_write grant limit b bytes =
     (let held = length (bd_bytes b); required = held + length bytes in
      if length bytes > limit - held then Inl (InvalidData ''control frame too large'')
      else if required > bd_capacity b
      then let target = min (max required (max (bd_capacity b * 2) 4096)) limit in
           if \<not> grant target then Inl (OutOfMemory ''control frame allocation refused'')
           else Inr \<lparr>bd_bytes = bd_bytes b @ bytes, bd_capacity = target\<rparr>
      else Inr (b\<lparr>bd_bytes := bd_bytes b @ bytes\<rparr>))"

fun bounded_write_all ::
    "(nat \<Rightarrow> bool) \<Rightarrow> nat \<Rightarrow> byte list list \<Rightarrow> bounded \<Rightarrow> io_error + bounded" where
  "bounded_write_all grant limit [] b = Inr b"
| "bounded_write_all grant limit (c # cs) b =
     bindr (bounded_write grant limit b c) (bounded_write_all grant limit cs)"

definition serialize_bounded :: "(nat \<Rightarrow> bool) \<Rightarrow> byte list list \<Rightarrow> nat \<Rightarrow> io_error + byte list" where
  "serialize_bounded grant chunks limit =
     map_err (\<lambda>_. InvalidData ''invalid control frame'')
       (bindr (bounded_write_all grant limit chunks \<lparr>bd_bytes = [], bd_capacity = 0\<rparr>)
         (\<lambda>b. Inr (bd_bytes b)))"

section \<open>Round trip\<close>

lemma from_to_be_bytes [simp]: "from_be_bytes (to_be_bytes w) = w"
  unfolding to_be_bytes_def from_be_bytes.simps
proof (rule bit_word_eqI)
  fix n assume "n < LENGTH(32)"
  then have "n < 32" by simp
  then consider "n < 8" | "8 \<le> n" "n < 16" | "16 \<le> n" "n < 24" | "24 \<le> n" "n < 32"
    by linarith
  then show "bit (push_bit 24 (ucast (ucast (drop_bit 24 w) :: byte) :: 32 word)
      OR push_bit 16 (ucast (ucast (drop_bit 16 w) :: byte))
      OR push_bit 8 (ucast (ucast (drop_bit 8 w) :: byte))
      OR ucast (ucast w :: byte)) n = bit w n"
    by cases (auto simp: bit_simps)
qed

lemma to_be_bytes_length [simp]: "length (to_be_bytes w) = 4"
  by (simp add: to_be_bytes_def)

lemma to_be_bytes_inj: "to_be_bytes v = to_be_bytes w \<Longrightarrow> v = w"
  by (metis from_to_be_bytes)

lemma frame_limit_le: "frame_limit kind m \<le> MAX_APP_FRAME_BYTES"
  by (cases kind) (auto simp: MAX_APP_FRAME_BYTES_def MAX_V4_CONTROL_BYTES_def)

text \<open>
  The magic, read as a legacy length, exceeds every legacy limit: a legacy frame is never
  taken for a schema 3 frame.
\<close>

lemma magic_value: "unat (from_be_bytes SCHEMA3_MAGIC) = 1094865715"
  by (simp add: SCHEMA3_MAGIC_def)

lemma legacy_prefix_not_magic:
  assumes "n \<le> MAX_APP_FRAME_BYTES"
  shows "to_be_bytes (of_nat n) \<noteq> SCHEMA3_MAGIC"
proof
  assume "to_be_bytes (of_nat n) = SCHEMA3_MAGIC"
  then have "(of_nat n :: 32 word) = from_be_bytes SCHEMA3_MAGIC" by (metis from_to_be_bytes)
  then have "unat (of_nat n :: 32 word) = 1094865715" using magic_value by simp
  moreover have "unat (of_nat n :: 32 word) \<le> n"
    by (simp add: unat_of_nat)
  ultimately show False using assms by (simp add: MAX_APP_FRAME_BYTES_def)
qed

lemma unat_length: "n \<le> MAX_APP_FRAME_BYTES \<Longrightarrow> unat (of_nat n :: 32 word) = n"
  by (simp add: unat_of_nat MAX_APP_FRAME_BYTES_def)

lemma read_body_written:
  assumes "bytes \<noteq> []" and "length bytes \<le> frame_limit kind m" and "grant (length bytes)"
  shows "read_body grant kind (to_be_bytes (of_nat (length bytes))) (bytes @ rest) m
       = Inr ((kind, bytes), rest)"
proof -
  have "unat (of_nat (length bytes) :: 32 word) = length bytes"
    using assms(2) frame_limit_le [of kind m] by (intro unat_length) simp
  with assms show ?thesis by (simp add: read_body_def Let_def read_exact_def)
qed

lemma write_frame_Inr:
  "write_frame out kind bytes m = Inr out' \<longleftrightarrow>
     bytes \<noteq> [] \<and> length bytes \<le> frame_limit kind m
   \<and> out' = out @ (if kind = Schema3 then SCHEMA3_MAGIC else []) @ to_be_bytes (of_nat (length bytes)) @ bytes"
proof -
  have "length bytes < 2 ^ 32" if "length bytes \<le> frame_limit kind m"
    using that frame_limit_le [of kind m] by (simp add: MAX_APP_FRAME_BYTES_def)
  then show ?thesis by (auto simp: write_frame_def)
qed

lemma read_written_frame:
  assumes ok: "write_frame [] kind bytes m = Inr out" and grant: "grant (length bytes)"
  shows "read_frame grant (out @ rest) m = Inr ((kind, bytes), rest)"
proof -
  from ok have b: "bytes \<noteq> []" "length bytes \<le> frame_limit kind m"
    and out: "out = (if kind = Schema3 then SCHEMA3_MAGIC else []) @ to_be_bytes (of_nat (length bytes)) @ bytes"
    by (simp_all add: write_frame_Inr)
  note body = read_body_written [where grant = grant, OF b grant, of rest]
  have magic: "length SCHEMA3_MAGIC = 4" by (simp add: SCHEMA3_MAGIC_def)
  show ?thesis
  proof (cases kind)
    case Legacy
    have "to_be_bytes (of_nat (length bytes)) \<noteq> SCHEMA3_MAGIC"
      using b(2) frame_limit_le [of kind m] by (intro legacy_prefix_not_magic) simp
    with body out Legacy show ?thesis by (simp add: read_frame_def read_exact_def)
  next
    case Schema3
    with body out magic show ?thesis by (simp add: read_frame_def read_exact_def)
  qed
qed

text \<open>What a frame that was read is, whatever the peer sent.\<close>

lemma read_frame_Inr:
  assumes "read_frame grant input m = Inr ((kind, bytes), rest)"
  shows "bytes \<noteq> []" "length bytes \<le> frame_limit kind m" "grant (length bytes)"
    "\<exists>pre. input = pre @ bytes @ rest \<and> length pre = (if kind = Schema3 then 8 else 4)"
proof -
  have body: "bytes \<noteq> [] \<and> length bytes \<le> frame_limit kind m \<and> grant (length bytes) \<and> more = bytes @ rest \<and> k = kind"
    if "read_body grant k p more m = Inr ((kind, bytes), rest)" for k p more
    using that by (auto simp: read_body_def Let_def read_exact_def rust_simps split: if_splits)
  from assms consider
      (schema3) p q more where "read_exact 4 input = Some (SCHEMA3_MAGIC, q)" "read_exact 4 q = Some (p, more)"
        "read_body grant Schema3 p more m = Inr ((kind, bytes), rest)"
    | (legacy) p more where "read_exact 4 input = Some (p, more)" "p \<noteq> SCHEMA3_MAGIC"
        "read_body grant Legacy p more m = Inr ((kind, bytes), rest)"
    by (auto simp: read_frame_def rust_simps split: if_splits)
  then have "bytes \<noteq> [] \<and> length bytes \<le> frame_limit kind m \<and> grant (length bytes)
      \<and> (\<exists>pre. input = pre @ bytes @ rest \<and> length pre = (if kind = Schema3 then 8 else 4))"
  proof cases
    case schema3
    from schema3(1,2) have parts: "take 4 input = SCHEMA3_MAGIC" "drop 4 input = q" "take 4 q = p"
        "drop 4 q = more" "length p = 4"
      by (auto simp: read_exact_def split: if_splits)
    have "input = SCHEMA3_MAGIC @ q" and "q = p @ more"
      using parts append_take_drop_id by metis+
    then have "input = (SCHEMA3_MAGIC @ p) @ more" "length (SCHEMA3_MAGIC @ p) = 8"
      using parts(5) by (simp_all add: SCHEMA3_MAGIC_def)
    with body [OF schema3(3)] show ?thesis by metis
  next
    case legacy
    from legacy(1) have "input = p @ more" "length p = 4"
      by (auto simp: read_exact_def split: if_splits)
    with body [OF legacy(3)] show ?thesis by (metis frame_kind.distinct(1))
  qed
  then show "bytes \<noteq> []" "length bytes \<le> frame_limit kind m" "grant (length bytes)"
    "\<exists>pre. input = pre @ bytes @ rest \<and> length pre = (if kind = Schema3 then 8 else 4)" by blast+
qed

section \<open>The bounded writer\<close>

lemma bounded_write_Inr:
  assumes "bounded_write grant limit b c = Inr b'" and "length (bd_bytes b) \<le> limit" and "bd_capacity b \<le> limit"
  shows "bd_bytes b' = bd_bytes b @ c" "length (bd_bytes b') \<le> limit" "bd_capacity b' \<le> limit"
  using assms by (auto simp: bounded_write_def Let_def split: if_splits)

lemma bounded_write_all_Inr:
  assumes "bounded_write_all grant limit cs b = Inr b'" and "length (bd_bytes b) \<le> limit" and "bd_capacity b \<le> limit"
  shows "bd_bytes b' = bd_bytes b @ concat cs \<and> length (bd_bytes b') \<le> limit \<and> bd_capacity b' \<le> limit"
  using assms
proof (induction cs arbitrary: b)
  case (Cons c cs)
  from Cons.prems(1) obtain b1 where b1: "bounded_write grant limit b c = Inr b1"
    and rest: "bounded_write_all grant limit cs b1 = Inr b'" by (auto simp: rust_simps)
  note w = bounded_write_Inr [OF b1 Cons.prems(2,3)]
  from Cons.IH [OF rest w(2,3)] w(1) show ?case by auto
qed simp

lemma bounded_write_all_succeeds:
  assumes "\<And>n. n \<le> limit \<Longrightarrow> grant n" and "length (bd_bytes b) + length (concat cs) \<le> limit"
    and "bd_capacity b \<le> limit"
  shows "\<exists>b'. bounded_write_all grant limit cs b = Inr b'"
  using assms(2,3)
proof (induction cs arbitrary: b)
  case (Cons c cs)
  then have "\<exists>b1. bounded_write grant limit b c = Inr b1"
    using assms(1) by (auto simp: bounded_write_def Let_def)
  then obtain b1 where b1: "bounded_write grant limit b c = Inr b1" by blast
  have "length (bd_bytes b) \<le> limit" using Cons.prems by simp
  note w = bounded_write_Inr [OF b1 this Cons.prems(2)]
  have "length (bd_bytes b1) + length (concat cs) \<le> limit" using Cons.prems(1) w(1) by simp
  from Cons.IH [OF this w(3)] b1 show ?case by simp
qed simp

lemma serialize_bounded_outcome:
  assumes "\<And>n. n \<le> limit \<Longrightarrow> grant n"
  shows "serialize_bounded grant chunks limit =
    (if length (concat chunks) \<le> limit then Inr (concat chunks)
     else Inl (InvalidData ''invalid control frame''))"
proof -
  let ?b = "\<lparr>bd_bytes = [], bd_capacity = 0\<rparr> :: bounded"
  have inr: "bd_bytes b' = concat chunks \<and> length (concat chunks) \<le> limit"
    if "bounded_write_all grant limit chunks ?b = Inr b'" for b'
    using bounded_write_all_Inr [OF that] by auto
  show ?thesis
  proof (cases "bounded_write_all grant limit chunks ?b")
    case (Inr b')
    with inr show ?thesis by (simp add: serialize_bounded_def map_err_def)
  next
    case (Inl e)
    have "\<exists>b'. bounded_write_all grant limit chunks ?b = Inr b'" if "length (concat chunks) \<le> limit"
      by (rule bounded_write_all_succeeds) (use assms that in auto)
    with Inl have "\<not> length (concat chunks) \<le> limit" by auto
    with Inl show ?thesis by (simp add: serialize_bounded_def map_err_def)
  qed
qed

end
