(* ===== verification/Route_Audit.thy ===== *)
theory Route_Audit
  imports App_Run
begin

text \<open>
  The wire contract of the routing audit log, \<open>src/app_core/routes.rs\<close>: the bounded tail
  query, the sanitised entry, the page and the rule that recognises a filesystem path in a
  token.
\<close>

section \<open>Bounds\<close>

definition MAX_ROUTE_AUDIT_PAGE :: nat where "MAX_ROUTE_AUDIT_PAGE = 50"
definition MAX_ROUTE_FIELD_BYTES :: nat where "MAX_ROUTE_FIELD_BYTES = 64"
definition MAX_ROUTE_REASON_BYTES :: nat where "MAX_ROUTE_REASON_BYTES = 240"
definition MAX_ROUTE_TIMESTAMP_BYTES :: nat where "MAX_ROUTE_TIMESTAMP_BYTES = 64"
definition MAX_ROUTE_TOOLS :: nat where "MAX_ROUTE_TOOLS = 8"
definition WORKSPACE_DIGEST_HEX :: nat where "WORKSPACE_DIGEST_HEX = 12"
definition WORKSPACE_PREFIX :: string where "WORKSPACE_PREFIX = ''ws-''"

section \<open>Paths in tokens\<close>

text \<open>
  \<open>str::split_whitespace\<close> over UTF-8 bytes. The accumulator holds the current token in
  reverse; an encoded whitespace code point ends it, and empty tokens are dropped.
\<close>

definition flush_token :: "string \<Rightarrow> string list \<Rightarrow> string list" where
  "flush_token acc ts = (if acc = [] then ts else rev acc # ts)"

fun split_ws :: "string \<Rightarrow> string \<Rightarrow> string list" where
  "split_ws acc [] = flush_token acc []"
| "split_ws acc (a # cs) =
     (if space1 a then flush_token acc (split_ws [] cs)
      else case cs of
        [] \<Rightarrow> split_ws (a # acc) []
      | b # ds \<Rightarrow>
          (if space2 a b then flush_token acc (split_ws [] ds)
           else case ds of
             [] \<Rightarrow> split_ws (a # acc) (b # ds)
           | c # es \<Rightarrow>
               (if space3 a b c then flush_token acc (split_ws [] es)
                else split_ws (a # acc) (b # c # es))))"

definition split_whitespace :: "string \<Rightarrow> string list" where
  "split_whitespace s = split_ws [] s"

text \<open>\<open>str::split(['=', ':'])\<close>: the segments between the delimiters, empty ones included.\<close>

fun split_delims :: "string \<Rightarrow> string list" where
  "split_delims [] = [[]]"
| "split_delims (c # cs) =
     (if c = CHR ''='' \<or> c = CHR '':'' then [] # split_delims cs
      else case split_delims cs of [] \<Rightarrow> [[c]] | seg # segs \<Rightarrow> (c # seg) # segs)"

definition quote_char :: "char \<Rightarrow> bool" where
  "quote_char c \<longleftrightarrow> c \<in> {CHR 0x22, CHR 0x27, CHR ''('', CHR '')'', CHR ''['', CHR '']'',
                         CHR '','', CHR '';''}"

definition trim_matches :: "(char \<Rightarrow> bool) \<Rightarrow> string \<Rightarrow> string" where
  "trim_matches p s = rev (dropWhile p (rev (dropWhile p s)))"

definition is_ascii_alphabetic :: "char \<Rightarrow> bool" where
  "is_ascii_alphabetic c \<longleftrightarrow>
     65 \<le> byte_of c \<and> byte_of c \<le> 90 \<or> 97 \<le> byte_of c \<and> byte_of c \<le> 122"

definition segment_is_path :: "string \<Rightarrow> bool" where
  "segment_is_path segment =
     (let s = trim_matches quote_char segment in
      prefix ''/'' s \<or> prefix ''~'' s \<or> prefix [CHR 0x5C, CHR 0x5C] s
      \<or> (length s \<ge> 3 \<and> is_ascii_alphabetic (s ! 0) \<and> s ! 1 = CHR '':''
          \<and> s ! 2 \<in> {CHR ''/'', CHR 0x5C}))"

definition is_structural_path :: "string \<Rightarrow> bool" where
  "is_structural_path token \<longleftrightarrow>
     segment_is_path token \<or> list_ex segment_is_path (split_delims token)"

section \<open>Validation of queries, entries and pages\<close>

record route_audit_query =
  raq_limit :: nat

definition route_audit_query_validate :: "route_audit_query \<Rightarrow> validation_error + unit" where
  "route_audit_query_validate q =
     (if raq_limit q = 0 \<or> raq_limit q > MAX_ROUTE_AUDIT_PAGE
      then Inl ''route audit limit must be from 1 through 50'' else Inr ())"

definition validate_route_timestamp :: "externals \<Rightarrow> string \<Rightarrow> validation_error + unit" where
  "validate_route_timestamp E value =
     (if value = [] \<or> length value > MAX_ROUTE_TIMESTAMP_BYTES
      then Inl ''invalid route audit timestamp''
      else bindr (ok_or (parse_from_rfc3339 E value) ''invalid route audit timestamp'')
             (\<lambda>_. Inr ()))"

definition validate_workspace :: "string \<Rightarrow> validation_error + unit" where
  "validate_workspace value =
     (if \<not> prefix WORKSPACE_PREFIX value
      then Inl ''route audit workspace is not an opaque digest''
      else let digest = drop (length WORKSPACE_PREFIX) value in
        if length digest \<noteq> WORKSPACE_DIGEST_HEX \<or> \<not> list_all is_lower_hex digest
        then Inl ''route audit workspace is not an opaque digest'' else Inr ())"

definition validate_field :: "string \<Rightarrow> nat \<Rightarrow> validation_error + unit" where
  "validate_field value max_bytes =
     (if value = [] \<or> length value > max_bytes
      then Inl ''route audit field is empty or exceeds its bound''
      else if has_control value
      then Inl ''route audit field cannot contain control characters''
      else if list_ex is_structural_path (split_whitespace value)
      then Inl ''route audit field cannot contain a filesystem path''
      else Inr ())"

record route_audit_entry =
  rae_recorded_at :: string
  rae_workspace :: "string option"
  rae_persona :: string
  rae_role :: string
  rae_model :: string
  rae_confidence_percent :: nat
  rae_reason :: string
  rae_stage :: "string option"
  rae_correlation :: "string option"
  rae_alternate :: "string option"
  rae_fallback :: "string option"
  rae_tools :: "string list"

definition flatten_options :: "'a option list \<Rightarrow> 'a list" where
  "flatten_options xs = concat (map (\<lambda>x. case x of None \<Rightarrow> [] | Some a \<Rightarrow> [a]) xs)"

definition route_audit_entry_validate ::
    "externals \<Rightarrow> route_audit_entry \<Rightarrow> validation_error + unit" where
  "route_audit_entry_validate E e =
     bindr (validate_route_timestamp E (rae_recorded_at e)) (\<lambda>_.
     bindr (case rae_workspace e of None \<Rightarrow> Inr () | Some w \<Rightarrow> validate_workspace w) (\<lambda>_.
     bindr (validate_field (rae_persona e) MAX_ROUTE_FIELD_BYTES) (\<lambda>_.
     bindr (validate_field (rae_role e) MAX_ROUTE_FIELD_BYTES) (\<lambda>_.
     bindr (validate_field (rae_model e) MAX_ROUTE_FIELD_BYTES) (\<lambda>_.
     bindr (validate_field (rae_reason e) MAX_ROUTE_REASON_BYTES) (\<lambda>_.
     bindr (for_each (\<lambda>v. validate_field v MAX_ROUTE_FIELD_BYTES)
             (flatten_options [rae_stage e, rae_correlation e, rae_alternate e, rae_fallback e]))
       (\<lambda>_.
       if rae_confidence_percent e > 100 then Inl ''route audit confidence exceeds 100 percent''
       else if length (rae_tools e) > MAX_ROUTE_TOOLS
       then Inl ''route audit entry has too many tools''
       else for_each (\<lambda>tool. validate_field tool MAX_ROUTE_FIELD_BYTES) (rae_tools e))))))))"

record route_audit_page =
  rap_entries :: "route_audit_entry list"
  rap_returned :: nat
  rap_limit :: nat

definition route_audit_page_validate ::
    "externals \<Rightarrow> route_audit_page \<Rightarrow> validation_error + unit" where
  "route_audit_page_validate E p =
     (if rap_limit p = 0 \<or> rap_limit p > MAX_ROUTE_AUDIT_PAGE
      then Inl ''route audit page limit must be from 1 through 50''
      else if rap_returned p \<noteq> length (rap_entries p) \<or> rap_returned p > rap_limit p
      then Inl ''route audit page count is inconsistent with its limit''
      else for_each (route_audit_entry_validate E) (rap_entries p))"

end
