(* ===== verification/Run_Store_Facts.thy ===== *)
theory Run_Store_Facts
  imports Run_Store
begin

text \<open>
  The invariant of the run tables and the effect of every run operation on them: one
  lemma per operation that says what a successful call did, one that says when it
  succeeds, and the preservation of the invariant.
\<close>

section \<open>Codec\<close>

lemma parse_run_state_as_str [codec_simps]: "parse_run_state (state_as_str s) = Inr s"
  by (cases s) (simp_all add: parse_run_state_def)

lemma parse_run_state_Inr [codec_simps]: "parse_run_state v = Inr s \<longleftrightarrow> v = state_as_str s"
proof
  assume "parse_run_state v = Inr s"
  then show "v = state_as_str s"
    by (auto simp: parse_run_state_def split: if_splits)
qed (simp add: codec_simps)

lemma state_as_str_inj [codec_simps]: "state_as_str a = state_as_str b \<longleftrightarrow> a = b"
  by (metis parse_run_state_as_str sum.inject(2))

lemma state_as_str_label [codec_simps]: "state_as_str s \<in> set run_status_labels"
  by (cases s) (simp_all add: run_status_labels_def)

lemma parse_uuid_id_Inr [rust_simps]: "parse_uuid_id E v = Inr w \<longleftrightarrow> w = v \<and> uuid_canonical E v = Some v"
  by (auto simp: parse_uuid_id_def rust_simps split: if_splits)

lemma parse_run_id_Inr [rust_simps]: "parse_run_id E v = Inr w \<longleftrightarrow> w = v \<and> uuid_canonical E v = Some v"
  by (simp add: parse_run_id_def rust_simps)

lemma parse_conversation_id_Inr [rust_simps]:
  "parse_conversation_id E v = Inr w \<longleftrightarrow> w = v \<and> uuid_canonical E v = Some v"
  by (simp add: parse_conversation_id_def rust_simps)

lemma parse_idempotency_key_Inr [rust_simps]:
  "parse_idempotency_key v = Inr w \<longleftrightarrow>
     w = v \<and> validate_identifier v MAX_IDEMPOTENCY_KEY_BYTES ''invalid idempotency key'' = Inr ()"
  by (auto simp: parse_idempotency_key_def rust_simps)

lemma sql_sequence_Inr [rust_simps]: "sql_sequence n = Inr i \<longleftrightarrow> n < i64_bound \<and> i = int n"
  by (simp add: sql_sequence_def rust_simps)

text \<open>A run row decodes exactly when its identifiers, key, label and counter are well formed.\<close>

lemma row_to_run_Inr:
  "row_to_run E row = Inr r \<longleftrightarrow>
     uuid_canonical E (rw_id row) = Some (rw_id row)
   \<and> (\<forall>c. rw_conversation_id row = Some c \<longrightarrow> uuid_canonical E c = Some c)
   \<and> validate_identifier (rw_idempotency_key row) MAX_IDEMPOTENCY_KEY_BYTES
       ''invalid idempotency key'' = Inr ()
   \<and> rw_status row = state_as_str (rec_status r)
   \<and> rw_next_event_sequence row = int (rec_next_event_sequence r)
   \<and> r = \<lparr>rec_id = rw_id row, rec_conversation_id = rw_conversation_id row,
          rec_idempotency_key = rw_idempotency_key row,
          rec_request_digest = rw_request_digest row, rec_status = rec_status r,
          rec_next_event_sequence = rec_next_event_sequence r,
          rec_created_at = rw_created_at row, rec_updated_at = rw_updated_at row\<rparr>"
  by (cases "rw_conversation_id row")
    (auto simp: row_to_run_def rust_simps codec_simps)

lemma row_to_run_fields:
  assumes "row_to_run E row = Inr r"
  shows "rec_id r = rw_id row" "rec_conversation_id r = rw_conversation_id row"
    "rec_idempotency_key r = rw_idempotency_key row" "rec_request_digest r = rw_request_digest row"
    "rw_status row = state_as_str (rec_status r)"
    "rw_next_event_sequence row = int (rec_next_event_sequence r)"
    "rec_created_at r = rw_created_at row" "rec_updated_at r = rw_updated_at row"
proof -
  have "r = \<lparr>rec_id = rw_id row, rec_conversation_id = rw_conversation_id row,
      rec_idempotency_key = rw_idempotency_key row, rec_request_digest = rw_request_digest row,
      rec_status = rec_status r, rec_next_event_sequence = rec_next_event_sequence r,
      rec_created_at = rw_created_at row, rec_updated_at = rw_updated_at row\<rparr>"
    using assms by (simp only: row_to_run_Inr)
  then show "rec_id r = rw_id row" "rec_conversation_id r = rw_conversation_id row"
    "rec_idempotency_key r = rw_idempotency_key row" "rec_request_digest r = rw_request_digest row"
    "rec_created_at r = rw_created_at row" "rec_updated_at r = rw_updated_at row"
    by (cases r; simp)+
  show "rw_status row = state_as_str (rec_status r)"
    "rw_next_event_sequence row = int (rec_next_event_sequence r)"
    using assms by (simp_all add: row_to_run_Inr)
qed

lemma row_to_event_Inr:
  "row_to_event E row = Inr e \<longleftrightarrow>
     uuid_canonical E (ew_run_id row) = Some (ew_run_id row)
   \<and> ew_sequence row = int (ev_sequence e)
   \<and> json_from_str E (ew_payload_json row) = Some (ev_payload e)
   \<and> e = \<lparr>ev_run_id = ew_run_id row, ev_sequence = ev_sequence e, ev_kind = ew_kind row,
          ev_payload = ev_payload e, ev_created_at = ew_created_at row\<rparr>"
  by (auto simp: row_to_event_def rust_simps)

section \<open>The invariant\<close>

text \<open>
  Run identifiers and idempotency keys are unique, every run row decodes, the events of a
  run carry the sequence numbers 1 up to the counter in insertion order, and every event
  belongs to a run and holds JSON that parses.
\<close>

definition run_row_ok :: "externals \<Rightarrow> db \<Rightarrow> run_row \<Rightarrow> bool" where
  "run_row_ok E d row \<longleftrightarrow>
     is_ok (row_to_run E row)
   \<and> 2 \<le> rw_next_event_sequence row \<and> rw_next_event_sequence row < int i64_bound
   \<and> map ew_sequence (events_of d (rw_id row)) = map int [1..<nat (rw_next_event_sequence row)]"

definition db_wf :: "externals \<Rightarrow> db \<Rightarrow> bool" where
  "db_wf E d \<longleftrightarrow>
     distinct (map rw_id (runs d)) \<and> distinct (map rw_idempotency_key (runs d))
   \<and> (\<forall>row\<in>set (runs d). run_row_ok E d row)
   \<and> (\<forall>e\<in>set (run_events d). ew_run_id e \<in> rw_id ` set (runs d)
         \<and> json_from_str E (ew_payload_json e) \<noteq> None)"

lemma empty_db_wf: "db_wf E empty_db"
  by (simp add: db_wf_def empty_db_def)

lemma db_wf_cong:
  "runs d' = runs d \<Longrightarrow> run_events d' = run_events d \<Longrightarrow> db_wf E d' = db_wf E d"
  by (simp add: db_wf_def run_row_ok_def events_of_def)

lemma row_to_run_ex: "is_ok (row_to_run E row) \<longleftrightarrow> (\<exists>r. row_to_run E row = Inr r)"
  by (simp add: is_ok_iff)

lemma find_run_wf:
  assumes "db_wf E d"
  shows "find (\<lambda>r. rw_id r = rid) (runs d) = Some row \<longleftrightarrow> row \<in> set (runs d) \<and> rw_id row = rid"
proof
  assume "find (\<lambda>r. rw_id r = rid) (runs d) = Some row"
  then show "row \<in> set (runs d) \<and> rw_id row = rid" by (rule find_Some_in)
next
  assume "row \<in> set (runs d) \<and> rw_id row = rid"
  with assms show "find (\<lambda>r. rw_id r = rid) (runs d) = Some row"
    by (auto simp: db_wf_def intro: find_unique)
qed

lemma run_by_id_wf:
  assumes "db_wf E d"
  shows "run_by_id E d rid = Inr (Some r) \<longleftrightarrow>
           (\<exists>row\<in>set (runs d). rw_id row = rid \<and> row_to_run E row = Inr r)"
proof (cases "find (\<lambda>r. rw_id r = rid) (runs d)")
  case None
  then have "\<forall>row\<in>set (runs d). rw_id row \<noteq> rid" by (simp add: find_None_all)
  with None show ?thesis by (auto simp: run_by_id_def)
next
  case (Some row)
  then have "\<And>row'. row' \<in> set (runs d) \<Longrightarrow> rw_id row' = rid \<Longrightarrow> row' = row"
    using find_run_wf [OF assms, of rid] by (metis option.inject)
  moreover have "row \<in> set (runs d) \<and> rw_id row = rid"
    using Some by (rule find_Some_in)
  ultimately show ?thesis using Some by (auto simp: run_by_id_def rust_simps)
qed

lemma run_by_id_None:
  "run_by_id E d rid = Inr None \<longleftrightarrow> rid \<notin> rw_id ` set (runs d)"
  by (auto simp: run_by_id_def rust_simps find_None_all split: option.splits dest: find_Some_in)

lemma run_by_id_total:
  assumes "db_wf E d"
  shows "\<exists>x. run_by_id E d rid = Inr x"
proof (cases "find (\<lambda>r. rw_id r = rid) (runs d)")
  case None
  then show ?thesis by (simp add: run_by_id_def)
next
  case (Some row)
  then have "row \<in> set (runs d)" by (blast dest: find_Some_in)
  with assms obtain r where "row_to_run E row = Inr r"
    by (auto simp: db_wf_def run_row_ok_def is_ok_iff)
  with Some show ?thesis by (simp add: run_by_id_def)
qed

lemma run_by_id_rec_id:
  "run_by_id E d rid = Inr (Some r) \<Longrightarrow> rec_id r = rid"
  by (auto simp: run_by_id_def row_to_run_Inr rust_simps split: option.splits dest!: find_Some_in)
    (metis run_record.select_convs(1))

section \<open>Message synchronisation touches only the assistant tables\<close>

definition same_run_tables :: "db \<Rightarrow> db \<Rightarrow> bool" where
  "same_run_tables d d' \<longleftrightarrow>
     conversations d' = conversations d \<and> conversation_backends d' = conversation_backends d
   \<and> runs d' = runs d \<and> run_events d' = run_events d \<and> audit_events d' = audit_events d
   \<and> assistant_turns d' = assistant_turns d"

lemma same_run_tables_refl [simp]: "same_run_tables d d"
  by (simp add: same_run_tables_def)

lemma same_run_tables_trans:
  "same_run_tables a b \<Longrightarrow> same_run_tables b c \<Longrightarrow> same_run_tables a c"
  by (simp add: same_run_tables_def)

lemma sync_messages_frame: "same_run_tables d (sync_messages rid s d)"
  by (simp add: same_run_tables_def sync_messages_def)

lemma insert_content_event_frame:
  assumes "insert_content_event E d cid rid p ms = Inr (e, d')"
  shows "same_run_tables d d'"
proof -
  from assms obtain r d1 q where "insert_content_event_row r d = Inr d1"
    and "d' = insert_content_payload_row q d1"
    by (auto simp: insert_content_event_def rust_simps Let_def split: if_splits)
  then show ?thesis
    by (auto simp: same_run_tables_def insert_content_payload_row_def
        dest!: insert_content_event_row_frame)
qed

lemma sync_message_state_cases:
  assumes "sync_message_state E ms d rid s = Inr d'"
  shows "d' = d \<or> d' = sync_messages rid s d
       \<or> (\<exists>cid e. insert_content_event E (sync_messages rid s d) cid rid (TerminalPayload s) ms = Inr (e, d'))"
proof (cases "turn_of d rid = None \<or> \<not> is_terminal s
    \<or> list_ex (\<lambda>e. kw_run_id e = rid \<and> kw_kind e \<in> set terminal_kinds)
        (assistant_content_events (sync_messages rid s d))")
  case True
  with assms show ?thesis by (auto simp: sync_message_state_def Let_def split: if_splits)
next
  case False
  with assms obtain cid where
    "(case insert_content_event E (sync_messages rid s d) cid rid (TerminalPayload s) ms of
        Inr (_, d2) \<Rightarrow> Inr d2
      | Inl AssistantConflict \<Rightarrow> Inr (sync_messages rid s d)
      | Inl e \<Rightarrow> Inl e) = Inr d'"
    by (auto simp: sync_message_state_def Let_def bindr_eq_Inr)
  then show ?thesis
    by (cases "insert_content_event E (sync_messages rid s d) cid rid (TerminalPayload s) ms")
      (auto split: store_error.splits)
qed

lemma sync_message_state_frame:
  assumes "sync_message_state E ms d rid s = Inr d'"
  shows "same_run_tables d d'"
  using sync_message_state_cases [OF assms]
  by (meson insert_content_event_frame same_run_tables_refl same_run_tables_trans
      sync_messages_frame)

lemma sync_message_state_legacy: "turn_of d rid = None \<Longrightarrow> sync_message_state E ms d rid s = Inr d"
  by (simp add: sync_message_state_def)


section \<open>The effect of the run operations\<close>

text \<open>The two changes a run operation makes: one run row rewritten, one event row appended.\<close>

definition set_run :: "run_id \<Rightarrow> (run_row \<Rightarrow> run_row) \<Rightarrow> run_row list \<Rightarrow> run_row list" where
  "set_run rid f rows = map (\<lambda>r. if rw_id r = rid then f r else r) rows"

lemma set_run_key:
  "(\<And>r. k (f r) = k r) \<Longrightarrow> map k (set_run rid f rows) = map k rows"
  by (simp add: set_run_def)

lemma set_run_mem:
  "row \<in> set (set_run rid f rows) \<longleftrightarrow>
     row \<in> set rows \<and> rw_id row \<noteq> rid \<or> (\<exists>r\<in>set rows. rw_id r = rid \<and> row = f r)"
  by (auto simp: set_run_def)

definition event_row_of :: "externals \<Rightarrow> run_event \<Rightarrow> event_row" where
  "event_row_of E e =
     \<lparr>ew_run_id = ev_run_id e, ew_sequence = int (ev_sequence e), ew_kind = ev_kind e,
      ew_payload_json = json_to_string E (ev_payload e), ew_created_at = ev_created_at e\<rparr>"

abbreviation next_event :: "string \<Rightarrow> run_record \<Rightarrow> new_run_event \<Rightarrow> run_event" where
  "next_event now run event \<equiv>
     \<lparr>ev_run_id = rec_id run, ev_sequence = rec_next_event_sequence run,
      ev_kind = ne_kind event, ev_payload = ne_payload event, ev_created_at = now\<rparr>"

definition advance :: "run_state \<Rightarrow> nat \<Rightarrow> string \<Rightarrow> run_row \<Rightarrow> run_row" where
  "advance next n now r =
     r\<lparr>rw_status := state_as_str next, rw_next_event_sequence := int n, rw_updated_at := now\<rparr>"

lemma advance_simps [simp]:
  "rw_id (advance next n now r) = rw_id r"
  "rw_conversation_id (advance next n now r) = rw_conversation_id r"
  "rw_idempotency_key (advance next n now r) = rw_idempotency_key r"
  "rw_request_digest (advance next n now r) = rw_request_digest r"
  "rw_status (advance next n now r) = state_as_str next"
  "rw_next_event_sequence (advance next n now r) = int n"
  "rw_created_at (advance next n now r) = rw_created_at r"
  "rw_updated_at (advance next n now r) = now"
  by (simp_all add: advance_def)

lemma append_event_Inr:
  "append_event E now d run event = Inr (ev, d') \<longleftrightarrow>
     rec_next_event_sequence run < i64_bound \<and> ev = next_event now run event
   \<and> insert_run_event (event_row_of E ev) d = Inr d'"
  by (auto simp: append_event_def event_row_of_def rust_simps)

text \<open>A run record read from the database identifies its row.\<close>

lemma run_by_id_row:
  assumes "db_wf E d" and "run_by_id E d rid = Inr (Some run)"
  obtains row where "row \<in> set (runs d)" "rw_id row = rid" "row_to_run E row = Inr run"
    "rw_status row = state_as_str (rec_status run)"
    "rw_next_event_sequence row = int (rec_next_event_sequence run)"
    "2 \<le> rec_next_event_sequence run" "rec_next_event_sequence run < i64_bound"
    "map ew_sequence (events_of d rid) = map int [1..<rec_next_event_sequence run]"
proof -
  from assms obtain row where row: "row \<in> set (runs d)" "rw_id row = rid"
    "row_to_run E row = Inr run" by (auto simp: run_by_id_wf)
  moreover from row(3) have st: "rw_status row = state_as_str (rec_status run)"
    and sq: "rw_next_event_sequence row = int (rec_next_event_sequence run)"
    by (simp_all add: row_to_run_Inr)
  moreover have "run_row_ok E d row" using assms(1) row(1) by (simp add: db_wf_def)
  ultimately show thesis by (intro that [of row]) (simp_all add: run_row_ok_def)
qed

lemma same_id_same_row:
  assumes "db_wf E d" "a \<in> set (runs d)" "b \<in> set (runs d)" "rw_id a = rw_id b"
  shows "a = b"
  using assms by (auto simp: db_wf_def distinct_map inj_on_def)

lemma matching_rows:
  assumes wf: "db_wf E d" and row: "row \<in> set (runs d)" "P row"
    and only: "\<And>r. P r \<Longrightarrow> rw_id r = rw_id row"
  shows "map (\<lambda>r. if P r then f r else r) (runs d) = set_run (rw_id row) f (runs d)"
    and "length (filter P (runs d)) = 1"
proof -
  have dist: "distinct (map rw_id (runs d))" using wf by (simp add: db_wf_def)
  show "length (filter P (runs d)) = 1"
    using update_unique_row(1) [where k = rw_id and P = P, OF dist row only] by simp
  have "map (\<lambda>r. if P r then f r else r) (runs d)
      = map (\<lambda>r. if rw_id r = rw_id row then f row else r) (runs d)"
    by (rule update_unique_row(2) [where k = rw_id and P = P, OF dist row only])
  also have "\<dots> = set_run (rw_id row) f (runs d)"
    unfolding set_run_def
  proof (rule map_cong [OF refl])
    fix r assume "r \<in> set (runs d)"
    with key_unique [OF dist row(1)] have "rw_id r = rw_id row \<longrightarrow> row = r" by metis
    then show "(if rw_id r = rw_id row then f row else r) = (if rw_id r = rw_id row then f r else r)"
      by metis
  qed
  finally show "map (\<lambda>r. if P r then f r else r) (runs d) = set_run (rw_id row) f (runs d)" .
qed

lemma run_events_insert_ok:
  assumes "db_wf E d" and "run_by_id E d rid = Inr (Some run)"
  shows "(rid, int (rec_next_event_sequence run))
           \<notin> (\<lambda>e. (ew_run_id e, ew_sequence e)) ` set (run_events d)"
proof
  assume "(rid, int (rec_next_event_sequence run))
            \<in> (\<lambda>e. (ew_run_id e, ew_sequence e)) ` set (run_events d)"
  then have "int (rec_next_event_sequence run) \<in> ew_sequence ` set (events_of d rid)"
    by (auto simp: events_of_def)
  moreover have "ew_sequence ` set (events_of d rid) = int ` {1..<rec_next_event_sequence run}"
    using run_by_id_row [OF assms] by (metis set_map set_upt)
  ultimately show False by auto
qed

lemma update_and_append_iff:
  assumes wf: "db_wf E d" and run: "run_by_id E d (rec_id run) = Inr (Some run)"
  shows "update_and_append E now ms d run next event = Inr (ev, d') \<longleftrightarrow>
           Suc (rec_next_event_sequence run) < i64_bound \<and> ev = next_event now run event
         \<and> sync_message_state E ms
             (d\<lparr>runs := set_run (rec_id run) (advance next (Suc (rec_next_event_sequence run)) now) (runs d),
                run_events := run_events d @ [event_row_of E ev]\<rparr>) (rec_id run) next = Inr d'"
proof -
  let ?n = "rec_next_event_sequence run"
  let ?P = "\<lambda>r. rw_id r = rec_id run \<and> rw_status r = state_as_str (rec_status run)
                \<and> rw_next_event_sequence r = int ?n"
  let ?d1 = "d\<lparr>runs := set_run (rec_id run) (advance next (Suc ?n) now) (runs d)\<rparr>"
  obtain row where row: "row \<in> set (runs d)" "rw_id row = rec_id run"
    "rw_status row = state_as_str (rec_status run)" "rw_next_event_sequence row = int ?n"
    "2 \<le> ?n" "?n < i64_bound"
    using wf run by (rule run_by_id_row) blast
  have upd: "update_runs ?P (advance next (Suc ?n) now) d = Inr (1, ?d1)"
    using matching_rows(1) [OF wf row(1), where P = ?P and f = "advance next (Suc ?n) now"]
      matching_rows(2) [OF wf row(1), where P = ?P] row
    by (simp add: update_runs_Inr run_row_check_def state_as_str_label)
  have ids: "rw_id ` set (runs ?d1) = rw_id ` set (runs d)"
    using arg_cong [OF set_run_key [of rw_id "advance next (Suc ?n) now"], of set] by simp
  have "insert_run_event (event_row_of E (next_event now run event)) ?d1
          = Inr (?d1\<lparr>run_events := run_events d @ [event_row_of E (next_event now run event)]\<rparr>)"
    using run_events_insert_ok [OF wf run] row ids
    by (simp add: insert_run_event_Inr event_row_of_def) (metis imageI)
  then have "append_event E now ?d1 run event
      = Inr (next_event now run event, ?d1\<lparr>run_events := run_events d @ [event_row_of E (next_event now run event)]\<rparr>)"
    using row by (simp add: append_event_Inr)
  then show ?thesis
    using upd row by (auto simp: update_and_append_def advance_def [abs_def] rust_simps)
qed

text \<open>
  Every successful lifecycle write is one relation between databases: the row of the run
  moves to \<open>next\<close> with its counter raised by one, and the matching event row is appended.
\<close>

definition logged ::
    "externals \<Rightarrow> string \<Rightarrow> db \<Rightarrow> run_record \<Rightarrow> run_state \<Rightarrow> new_run_event \<Rightarrow> db \<Rightarrow> bool" where
  "logged E now d run next event d' \<longleftrightarrow>
     run_by_id E d (rec_id run) = Inr (Some run)
   \<and> Suc (rec_next_event_sequence run) < i64_bound
   \<and> runs d' = set_run (rec_id run) (advance next (Suc (rec_next_event_sequence run)) now) (runs d)
   \<and> run_events d' = run_events d @ [event_row_of E (next_event now run event)]"

abbreviation payload_parses :: "externals \<Rightarrow> new_run_event \<Rightarrow> bool" where
  "payload_parses E event \<equiv>
     json_from_str E (json_to_string E (ne_payload event)) = Some (ne_payload event)"

abbreviation stepped :: "run_record \<Rightarrow> run_state \<Rightarrow> string \<Rightarrow> run_record" where
  "stepped run next now \<equiv>
     run\<lparr>rec_status := next, rec_next_event_sequence := Suc (rec_next_event_sequence run),
         rec_updated_at := now\<rparr>"

lemma row_to_run_advance:
  assumes "row_to_run E row = Inr run"
  shows "row_to_run E (advance next n now row)
       = Inr (run\<lparr>rec_status := next, rec_next_event_sequence := n, rec_updated_at := now\<rparr>)"
proof -
  from assms have "run = \<lparr>rec_id = rw_id row, rec_conversation_id = rw_conversation_id row,
      rec_idempotency_key = rw_idempotency_key row, rec_request_digest = rw_request_digest row,
      rec_status = rec_status run, rec_next_event_sequence = rec_next_event_sequence run,
      rec_created_at = rw_created_at row, rec_updated_at = rw_updated_at row\<rparr>"
    by (simp only: row_to_run_Inr)
  then have "run\<lparr>rec_status := next, rec_next_event_sequence := n, rec_updated_at := now\<rparr>
      = \<lparr>rec_id = rw_id row, rec_conversation_id = rw_conversation_id row,
         rec_idempotency_key = rw_idempotency_key row, rec_request_digest = rw_request_digest row,
         rec_status = next, rec_next_event_sequence = n,
         rec_created_at = rw_created_at row, rec_updated_at = now\<rparr>"
    by (cases run) simp
  with assms show ?thesis by (simp add: row_to_run_Inr)
qed

lemma logged_events:
  assumes "logged E now d run next event d'"
  shows "events_of d' rid = events_of d rid @
           (if rid = rec_id run then [event_row_of E (next_event now run event)] else [])"
  using assms by (simp add: logged_def events_of_def event_row_of_def)

lemma logged_run_by_id:
  assumes log: "logged E now d run next event d'"
  shows "run_by_id E d' rid =
           (if rid = rec_id run then Inr (Some (stepped run next now)) else run_by_id E d rid)"
proof -
  let ?f = "advance next (Suc (rec_next_event_sequence run)) now"
  have runs: "runs d' = map (\<lambda>r. if rw_id r = rec_id run then ?f r else r) (runs d)"
    using log by (simp add: logged_def set_run_def)
  have found: "find (\<lambda>r. rw_id r = rid) (runs d') =
      map_option (\<lambda>r. if rw_id r = rec_id run then ?f r else r)
        (find (\<lambda>r. rw_id r = rid) (runs d))"
    unfolding runs by (rule find_map_same) simp
  show ?thesis
  proof (cases "rid = rec_id run")
    case True
    from log obtain row where "find (\<lambda>r. rw_id r = rid) (runs d) = Some row"
      and "row_to_run E row = Inr run"
      by (auto simp: logged_def run_by_id_def True rust_simps split: option.splits)
    with found True show ?thesis
      by (auto simp: run_by_id_def row_to_run_advance dest: find_Some_in)
  next
    case False
    with found show ?thesis
      by (auto simp: run_by_id_def split: option.splits dest!: find_Some_in)
  qed
qed

lemma logged_wf:
  assumes wf: "db_wf E d" and log: "logged E now d run next event d'"
    and json: "payload_parses E event"
  shows "db_wf E d'"
proof -
  let ?n = "rec_next_event_sequence run"
  let ?f = "advance next (Suc ?n) now"
  have run: "run_by_id E d (rec_id run) = Inr (Some run)" and bound: "Suc ?n < i64_bound"
    and runs: "runs d' = set_run (rec_id run) ?f (runs d)"
    and evs: "run_events d' = run_events d @ [event_row_of E (next_event now run event)]"
    using log by (simp_all add: logged_def)
  have ids: "map rw_id (runs d') = map rw_id (runs d)"
    and keys: "map rw_idempotency_key (runs d') = map rw_idempotency_key (runs d)"
    by (simp_all add: runs set_run_key)
  have "rec_id run \<in> rw_id ` set (runs d)"
    using run_by_id_row [OF wf run] by (metis imageI)
  moreover have "rw_id ` set (runs d') = rw_id ` set (runs d)"
    using arg_cong [OF ids, of set] by simp
  ultimately have events: "\<forall>e\<in>set (run_events d'). ew_run_id e \<in> rw_id ` set (runs d')
      \<and> json_from_str E (ew_payload_json e) \<noteq> None"
    using wf json by (auto simp: evs db_wf_def event_row_of_def)
  have "run_row_ok E d' row" if "row \<in> set (runs d')" for row
  proof (cases "rw_id row = rec_id run")
    case False
    with that have "row \<in> set (runs d)" by (auto simp: runs set_run_mem)
    with wf False show ?thesis
      by (simp add: db_wf_def run_row_ok_def logged_events [OF log])
  next
    case True
    with that obtain r where r: "r \<in> set (runs d)" "rw_id r = rec_id run" "row = ?f r"
      by (auto simp: runs set_run_mem)
    obtain r' where r': "r' \<in> set (runs d)" "rw_id r' = rec_id run" "row_to_run E r' = Inr run"
      "2 \<le> ?n" "map ew_sequence (events_of d (rec_id run)) = map int [1..<?n]"
      using wf run by (rule run_by_id_row) blast
    have "r = r'" using same_id_same_row [OF wf r(1) r'(1)] r r' by simp
    then have "row_to_run E row = Inr (stepped run next now)"
      using row_to_run_advance [OF r'(3)] r by simp
    with True r r' bound show ?thesis
      by (simp add: run_row_ok_def logged_events [OF log] event_row_of_def nat_one_plus_int)
  qed
  with wf ids keys events show ?thesis by (simp add: db_wf_def)
qed

section \<open>Operations as logged writes\<close>

lemma same_run_tables_logged:
  assumes "same_run_tables (d\<lparr>runs := rs, run_events := es\<rparr>) d'"
  shows "runs d' = rs \<and> run_events d' = es \<and> assistant_turns d' = assistant_turns d"
  using assms by (simp add: same_run_tables_def)

lemma update_and_append_logged:
  assumes "db_wf E d" and "run_by_id E d (rec_id run) = Inr (Some run)"
    and "update_and_append E now ms d run next event = Inr (ev, d')"
  shows "logged E now d run next event d' \<and> ev = next_event now run event
       \<and> assistant_turns d' = assistant_turns d"
  using assms(3) unfolding update_and_append_iff [OF assms(1,2)]
  by (auto simp: logged_def assms(2) dest!: sync_message_state_frame same_run_tables_logged)

lemma transition_run_logged:
  assumes wf: "db_wf E d"
    and ok: "transition_run E now ms d rid expected next event = Inr (ev, d')"
  obtains run where "run_by_id E d rid = Inr (Some run)" "rec_id run = rid"
    "rec_status run = expected" "can_step expected next" "validate_event E event = Inr ()"
    "logged E now d run next event d'" "ev = next_event now run event"
    "assistant_turns d' = assistant_turns d"
proof -
  from ok obtain run where run: "run_by_id E d rid = Inr (Some run)"
    and "rec_status run = expected" "can_step expected next" "validate_event E event = Inr ()"
    and upd: "update_and_append E now ms d run next event = Inr (ev, d')"
    by (auto simp: transition_run_def rust_simps split: if_splits)
  moreover have "rec_id run = rid" using run by (rule run_by_id_rec_id)
  moreover from this run upd
  have "logged E now d run next event d' \<and> ev = next_event now run event
      \<and> assistant_turns d' = assistant_turns d"
    using update_and_append_logged [OF wf, of run] by simp
  ultimately show thesis using that by blast
qed

text \<open>A legacy run (one without a v4 turn) steps whenever the guards of the code hold.\<close>

lemma transition_run_succeeds:
  assumes wf: "db_wf E d" and run: "run_by_id E d rid = Inr (Some run)"
    and "validate_event E event = Inr ()" and "can_step (rec_status run) next"
    and "Suc (rec_next_event_sequence run) < i64_bound" and "turn_of d rid = None"
  shows "\<exists>d'. transition_run E now ms d rid (rec_status run) next event
                = Inr (next_event now run event, d')"
proof -
  have rid: "rec_id run = rid" using run by (rule run_by_id_rec_id)
  have "\<not> is_terminal (rec_status run)"
    using assms(4) terminal_no_step by blast
  then show ?thesis
    using assms update_and_append_iff [OF wf, of run now ms "next" event "next_event now run event"]
    by (auto simp: transition_run_def rid sync_message_state_def turn_of_def)
qed

lemma append_run_event_logged:
  assumes wf: "db_wf E d" and ok: "append_run_event E now d rid event = Inr (ev, d')"
  obtains run where "run_by_id E d rid = Inr (Some run)" "rec_id run = rid"
    "\<not> is_terminal (rec_status run)" "validate_event E event = Inr ()"
    "logged E now d run (rec_status run) event d'" "ev = next_event now run event"
    "assistant_turns d' = assistant_turns d"
proof -
  from ok obtain run d1 where run: "run_by_id E d rid = Inr (Some run)"
    and nt: "\<not> is_terminal (rec_status run)" and val: "validate_event E event = Inr ()"
    and app: "append_event E now d run event = Inr (ev, d1)"
    and sq: "Suc (rec_next_event_sequence run) < i64_bound"
    and runs: "d' = d1\<lparr>runs := map (\<lambda>r. if rw_id r = rid
        then r\<lparr>rw_next_event_sequence := int (Suc (rec_next_event_sequence run)),
               rw_updated_at := now\<rparr> else r) (runs d1)\<rparr>"
    by (auto simp: append_run_event_def rust_simps update_runs_Inr split: if_splits prod.splits)
  have rid: "rec_id run = rid" using run by (rule run_by_id_rec_id)
  from app have ev: "ev = next_event now run event"
    and d1: "d1 = d\<lparr>run_events := run_events d @ [event_row_of E ev]\<rparr>"
    by (auto simp: append_event_Inr insert_run_event_Inr)
  have "r\<lparr>rw_next_event_sequence := int (Suc (rec_next_event_sequence run)), rw_updated_at := now\<rparr>
      = advance (rec_status run) (Suc (rec_next_event_sequence run)) now r"
    if "r \<in> set (runs d)" "rw_id r = rid" for r
  proof -
    obtain row where "row \<in> set (runs d)" "rw_id row = rid"
      "rw_status row = state_as_str (rec_status run)"
      using wf run by (rule run_by_id_row) blast
    with that wf have "rw_status r = state_as_str (rec_status run)"
      by (metis same_id_same_row)
    then show ?thesis by (simp add: advance_def)
  qed
  with runs d1 ev run sq have "logged E now d run (rec_status run) event d'"
    by (simp add: logged_def set_run_def rid)
  with that run rid nt val ev runs d1 show thesis by simp
qed

section \<open>Submission\<close>

lemma run_by_key_wf:
  assumes wf: "db_wf E d"
  shows "run_by_idempotency_key E d key = Inr (Some r) \<longleftrightarrow>
           (\<exists>row\<in>set (runs d). rw_idempotency_key row = key \<and> row_to_run E row = Inr r)"
proof (cases "find (\<lambda>r. rw_idempotency_key r = key) (runs d)")
  case None
  then have "\<forall>row\<in>set (runs d). rw_idempotency_key row \<noteq> key" by (simp add: find_None_all)
  with None show ?thesis by (auto simp: run_by_idempotency_key_def)
next
  case (Some row)
  then have "row \<in> set (runs d) \<and> rw_idempotency_key row = key" by (rule find_Some_in)
  moreover have "row' = row" if "row' \<in> set (runs d)" "rw_idempotency_key row' = key" for row'
    using find_unique [of rw_idempotency_key "runs d" row' key] wf that Some
    by (simp add: db_wf_def)
  ultimately show ?thesis using Some by (auto simp: run_by_idempotency_key_def rust_simps)
qed

lemma run_by_key_None:
  "run_by_idempotency_key E d key = Inr None \<longleftrightarrow> key \<notin> rw_idempotency_key ` set (runs d)"
  by (auto simp: run_by_idempotency_key_def rust_simps find_None_all
      split: option.splits dest: find_Some_in)

text \<open>The two outcomes of a successful submission: the stored run again, or a new queued run.\<close>

abbreviation queued_row :: "run_id \<Rightarrow> string \<Rightarrow> new_run \<Rightarrow> run_row" where
  "queued_row fresh now run \<equiv>
     \<lparr>rw_id = fresh, rw_conversation_id = nr_conversation_id run,
      rw_idempotency_key = nr_idempotency_key run, rw_request_digest = nr_request_digest run,
      rw_status = ''queued'', rw_next_event_sequence = 2, rw_created_at = now,
      rw_updated_at = now\<rparr>"

abbreviation queued_event_row :: "run_id \<Rightarrow> string \<Rightarrow> event_row" where
  "queued_event_row fresh now \<equiv>
     \<lparr>ew_run_id = fresh, ew_sequence = 1, ew_kind = ''run_queued'',
      ew_payload_json = ''{}'', ew_created_at = now\<rparr>"

abbreviation queued_record :: "run_id \<Rightarrow> string \<Rightarrow> new_run \<Rightarrow> run_record" where
  "queued_record fresh now run \<equiv>
     \<lparr>rec_id = fresh, rec_conversation_id = nr_conversation_id run,
      rec_idempotency_key = nr_idempotency_key run, rec_request_digest = nr_request_digest run,
      rec_status = Queued, rec_next_event_sequence = 2, rec_created_at = now,
      rec_updated_at = now\<rparr>"

definition created :: "externals \<Rightarrow> run_id \<Rightarrow> string \<Rightarrow> db \<Rightarrow> new_run \<Rightarrow> db \<Rightarrow> bool" where
  "created E fresh now d run d' \<longleftrightarrow>
     fresh \<notin> rw_id ` set (runs d)
   \<and> nr_idempotency_key run \<notin> rw_idempotency_key ` set (runs d)
   \<and> row_to_run E (queued_row fresh now run) = Inr (queued_record fresh now run)
   \<and> d' = d\<lparr>runs := runs d @ [queued_row fresh now run],
             run_events := run_events d @ [queued_event_row fresh now]\<rparr>"

lemma created_run_by_id:
  assumes "created E fresh now d run d'"
  shows "run_by_id E d' rid =
           (if rid = fresh then Inr (Some (queued_record fresh now run)) else run_by_id E d rid)"
proof (cases "rid = fresh")
  case True
  then have "find (\<lambda>r. rw_id r = rid) (runs d) = None"
    using assms by (auto simp: created_def find_None_all)
  with assms True show ?thesis by (simp add: created_def run_by_id_def find_append)
next
  case False
  with assms show ?thesis
    by (simp add: created_def run_by_id_def find_append split: option.splits)
qed

lemma row_to_run_queued:
  assumes "row_to_run E (queued_row fresh now run) = Inr r"
  shows "r = queued_record fresh now run"
proof -
  have "state_as_str (rec_status r) = state_as_str Queued"
    using row_to_run_fields(5) [OF assms] by simp
  then have "rec_status r = Queued" by (simp only: state_as_str_inj)
  with row_to_run_fields [OF assms] show ?thesis by (cases r) simp
qed

lemma create_or_get_run_Inr:
  assumes wf: "db_wf E d" and ok: "create_or_get_run E fresh now d run = Inr (r, d')"
  shows "(\<exists>row\<in>set (runs d). rw_idempotency_key row = nr_idempotency_key run
            \<and> rw_request_digest row = nr_request_digest run \<and> row_to_run E row = Inr r \<and> d' = d)
       \<or> created E fresh now d run d' \<and> r = queued_record fresh now run"
proof -
  from ok obtain found where found: "run_by_idempotency_key E d (nr_idempotency_key run) = Inr found"
    by (auto simp: create_or_get_run_def bindr_eq_Inr)
  show ?thesis
  proof (cases found)
    case (Some existing)
    with ok found have "rec_request_digest existing = nr_request_digest run" "r = existing" "d' = d"
      by (auto simp: create_or_get_run_def bindr_eq_Inr split: if_splits)
    moreover from found Some obtain row where "row \<in> set (runs d)"
      "rw_idempotency_key row = nr_idempotency_key run" "row_to_run E row = Inr existing"
      by (auto simp: run_by_key_wf [OF wf])
    ultimately show ?thesis using row_to_run_fields(4) by metis
  next
    case None
    let ?d2 = "d\<lparr>runs := runs d @ [queued_row fresh now run],
                 run_events := run_events d @ [queued_event_row fresh now]\<rparr>"
    from ok found None have fresh: "fresh \<notin> rw_id ` set (runs d)"
      and key: "nr_idempotency_key run \<notin> rw_idempotency_key ` set (runs d)"
      and d': "d' = ?d2" and r: "run_by_id E ?d2 fresh = Inr (Some r)"
      by (auto simp: create_or_get_run_def rust_simps insert_run_Inr insert_run_event_Inr)
    have "find (\<lambda>r. rw_id r = fresh) (runs d) = None"
      using fresh by (auto simp: find_None_all)
    with r have "row_to_run E (queued_row fresh now run) = Inr r"
      by (auto simp: run_by_id_def find_append rust_simps)
    with row_to_run_queued [OF this] fresh key d' show ?thesis by (simp add: created_def)
  qed
qed

lemma created_events:
  assumes wf: "db_wf E d" and new: "created E fresh now d run d'"
  shows "events_of d' rid =
           (if rid = fresh then [queued_event_row fresh now] else events_of d rid)"
proof -
  have "events_of d fresh = []"
    using wf new by (auto simp: created_def db_wf_def events_of_def filter_empty_conv)
  with new show ?thesis by (auto simp: created_def events_of_def)
qed

lemma created_wf:
  assumes wf: "db_wf E d" and new: "created E fresh now d run d'"
    and json: "json_from_str E ''{}'' \<noteq> None"
  shows "db_wf E d'"
proof -
  have "run_row_ok E d' row" if "row \<in> set (runs d')" for row
  proof (cases "row = queued_row fresh now run")
    case True
    have "[1..<2::nat] = [1]" by (simp add: upt_rec)
    with True new show ?thesis
      by (simp add: run_row_ok_def created_events [OF wf new] i64_bound_def) (simp add: created_def)
  next
    case False
    with that new have "row \<in> set (runs d)" "rw_id row \<noteq> fresh" by (auto simp: created_def)
    with wf show ?thesis by (simp add: db_wf_def run_row_ok_def created_events [OF wf new])
  qed
  with wf new json show ?thesis by (auto simp: db_wf_def created_def)
qed

end
