(* ===== verification/Run_Ledger.thy ===== *)
theory Run_Ledger
  imports Run_Store_Facts
begin

text \<open>
  The contract of the run tables. Startup recovery is characterised run by run, the public
  operations of the store become one step relation, and the abstract ledger (a map from run
  identifiers to a state and an append-only log) is the specification that submission,
  transition, append and recovery refine. The locale \<open>run_ledger\<close> states what a client
  may rely on across any number of steps; it is interpreted on the store.
\<close>

section \<open>Recovery\<close>

abbreviation recovery_row :: "externals \<Rightarrow> string \<Rightarrow> run_record \<Rightarrow> event_row" where
  "recovery_row E now run \<equiv> event_row_of E (next_event now run recovery_event)"

definition active_state :: "run_state \<Rightarrow> bool" where
  "active_state s \<longleftrightarrow> s \<in> {Starting, Running, CancelRequested}"

lemma active_label:
  "state_as_str s \<in> {''starting'', ''running'', ''cancel_requested''} \<longleftrightarrow> active_state s"
  by (cases s) (simp_all add: active_state_def)

lemma recovery_ids_set:
  assumes wf: "db_wf E d"
  shows "rid \<in> set (recovery_ids d) \<longleftrightarrow>
           (\<exists>run. run_by_id E d rid = Inr (Some run) \<and> active_state (rec_status run))"
proof
  assume "rid \<in> set (recovery_ids d)"
  then obtain row where row: "row \<in> set (runs d)" "rw_id row = rid"
    "rw_status row \<in> {''starting'', ''running'', ''cancel_requested''}"
    by (auto simp: recovery_ids_def)
  with wf obtain run where run: "row_to_run E row = Inr run"
    by (auto simp: db_wf_def run_row_ok_def is_ok_iff)
  then have "active_state (rec_status run)"
    using row(3) active_label [of "rec_status run"] row_to_run_fields(5) [OF run] by simp
  with run row wf show "\<exists>run. run_by_id E d rid = Inr (Some run) \<and> active_state (rec_status run)"
    by (auto simp: run_by_id_wf)
next
  assume "\<exists>run. run_by_id E d rid = Inr (Some run) \<and> active_state (rec_status run)"
  then obtain row run where row: "row \<in> set (runs d)" "rw_id row = rid"
    and run: "row_to_run E row = Inr run" "active_state (rec_status run)"
    using wf by (auto simp: run_by_id_wf)
  then have "rw_status row \<in> {''starting'', ''running'', ''cancel_requested''}"
    using active_label [of "rec_status run"] row_to_run_fields(5) [OF run(1)] by simp
  with row show "rid \<in> set (recovery_ids d)" by (auto simp: recovery_ids_def)
qed

lemma recovery_ids_distinct:
  assumes "db_wf E d"
  shows "distinct (recovery_ids d)"
proof -
  let ?rows = "filter (\<lambda>r. rw_status r \<in> {''starting'', ''running'', ''cancel_requested''}) (runs d)"
  have "distinct (map rw_id ?rows)"
    using assms by (simp add: db_wf_def distinct_map_filter)
  then have "distinct (sort_key (\<lambda>r. (rw_created_at r, rw_id r)) ?rows)"
    and "inj_on rw_id (set (sort_key (\<lambda>r. (rw_created_at r, rw_id r)) ?rows))"
    by (auto simp: distinct_map)
  then show ?thesis by (simp add: recovery_ids_def distinct_map)
qed

text \<open>What one pass of the loop leaves behind, for every run.\<close>

lemma recover_loop_effect:
  assumes "db_wf E d" and "distinct ids" and "payload_parses E recovery_event"
    and "recover_loop E now ms ids d = Inr d'"
  shows "db_wf E d'
   \<and> (\<forall>rid. rid \<notin> set ids \<longrightarrow> run_by_id E d' rid = run_by_id E d rid
              \<and> events_of d' rid = events_of d rid)
   \<and> (\<forall>rid\<in>set ids. \<exists>run. run_by_id E d rid = Inr (Some run)
              \<and> run_by_id E d' rid = Inr (Some (stepped run Interrupted now))
              \<and> events_of d' rid = events_of d rid @ [recovery_row E now run])"
  using assms
proof (induction ids arbitrary: d)
  case Nil
  then show ?case by simp
next
  case (Cons i ids)
  from Cons.prems(4) obtain run ev d1 where run: "run_by_id E d i = Inr (Some run)"
    and upd: "update_and_append E now ms d run Interrupted recovery_event = Inr (ev, d1)"
    and rest: "recover_loop E now ms ids d1 = Inr d'"
    by (auto simp: rust_simps)
  have i: "rec_id run = i" using run by (rule run_by_id_rec_id)
  have log: "logged E now d run Interrupted recovery_event d1"
    using update_and_append_logged [OF Cons.prems(1) _ upd] run i by simp
  then have wf1: "db_wf E d1" using Cons.prems(1,3) by (blast intro: logged_wf)
  have ih: "db_wf E d'"
    "\<And>rid. rid \<notin> set ids \<Longrightarrow> run_by_id E d' rid = run_by_id E d1 rid
        \<and> events_of d' rid = events_of d1 rid"
    "\<And>rid. rid \<in> set ids \<Longrightarrow> \<exists>run. run_by_id E d1 rid = Inr (Some run)
        \<and> run_by_id E d' rid = Inr (Some (stepped run Interrupted now))
        \<and> events_of d' rid = events_of d1 rid @ [recovery_row E now run]"
    using Cons.IH [OF wf1 _ Cons.prems(3) rest] Cons.prems(2) by auto
  have r1: "run_by_id E d1 rid =
      (if rid = i then Inr (Some (stepped run Interrupted now)) else run_by_id E d rid)"
    and e1: "events_of d1 rid =
      events_of d rid @ (if rid = i then [recovery_row E now run] else [])" for rid
    using logged_run_by_id [OF log] logged_events [OF log] i by simp_all
  from Cons.prems(2) have "i \<notin> set ids" by simp
  with ih(2) [of i] r1 [of i] e1 [of i] run
  have head: "\<exists>run. run_by_id E d i = Inr (Some run)
      \<and> run_by_id E d' i = Inr (Some (stepped run Interrupted now))
      \<and> events_of d' i = events_of d i @ [recovery_row E now run]"
    by auto
  have tail: "\<exists>run. run_by_id E d rid = Inr (Some run)
      \<and> run_by_id E d' rid = Inr (Some (stepped run Interrupted now))
      \<and> events_of d' rid = events_of d rid @ [recovery_row E now run]"
    if "rid \<in> set ids" for rid
    using ih(3) [OF that] r1 [of rid] e1 [of rid] that \<open>i \<notin> set ids\<close> by (cases "rid = i") auto
  have "rid \<notin> set (i # ids) \<longrightarrow> run_by_id E d' rid = run_by_id E d rid
      \<and> events_of d' rid = events_of d rid" for rid
    using ih(2) [of rid] r1 [of rid] e1 [of rid] by simp
  with ih(1) head tail show ?case by simp
qed

text \<open>Recovery cannot fail on a well-formed database of legacy runs with room for one more event.\<close>

lemma recover_loop_succeeds:
  assumes "db_wf E d" and "distinct ids" and "payload_parses E recovery_event"
    and "\<And>rid. rid \<in> set ids \<Longrightarrow> \<exists>run. run_by_id E d rid = Inr (Some run)
            \<and> Suc (rec_next_event_sequence run) < i64_bound \<and> turn_of d rid = None"
  shows "\<exists>d'. recover_loop E now ms ids d = Inr d'"
  using assms
proof (induction ids arbitrary: d)
  case Nil
  then show ?case by simp
next
  case (Cons i ids)
  from Cons.prems(4) [of i] obtain run where run: "run_by_id E d i = Inr (Some run)"
    and room: "Suc (rec_next_event_sequence run) < i64_bound" and legacy: "turn_of d i = None"
    by auto
  have i: "rec_id run = i" using run by (rule run_by_id_rec_id)
  obtain row where "row_to_run E row = Inr run" "rw_id row = i"
    using Cons.prems(1) run by (rule run_by_id_row) blast
  then have uuid: "parse_run_id E i = Inr i" by (auto simp: row_to_run_Inr rust_simps)
  let ?d1 = "d\<lparr>runs := set_run i (advance Interrupted (Suc (rec_next_event_sequence run)) now) (runs d),
      run_events := run_events d @ [recovery_row E now run]\<rparr>"
  have upd: "update_and_append E now ms d run Interrupted recovery_event
      = Inr (next_event now run recovery_event, ?d1)"
    using update_and_append_iff [OF Cons.prems(1), of run] run room legacy i
    by (simp add: sync_message_state_legacy turn_of_def)
  then have log: "logged E now d run Interrupted recovery_event ?d1"
    using update_and_append_logged [OF Cons.prems(1) _ upd] run i by simp
  then have wf1: "db_wf E ?d1" using Cons.prems(1,3) by (blast intro: logged_wf)
  have "\<exists>run. run_by_id E ?d1 rid = Inr (Some run)
      \<and> Suc (rec_next_event_sequence run) < i64_bound \<and> turn_of ?d1 rid = None"
    if "rid \<in> set ids" for rid
    using Cons.prems(4) [of rid] Cons.prems(2) that logged_run_by_id [OF log, of rid] i
    by (auto simp: turn_of_def)
  then obtain d' where "recover_loop E now ms ids ?d1 = Inr d'"
    using Cons.IH [OF wf1] Cons.prems(2,3) by auto
  with run upd uuid show ?case by simp
qed

section \<open>The contract of a run ledger\<close>

text \<open>
  A run ledger is a state ledger over the lifecycle graph: what every client of the store
  may rely on across any number of steps.
\<close>

locale run_ledger = state_ledger inv step status log can_step
  for inv :: "'s \<Rightarrow> bool"
    and step :: "'s \<Rightarrow> 's \<Rightarrow> bool"
    and status :: "'s \<Rightarrow> string \<Rightarrow> run_state option"
    and log :: "'s \<Rightarrow> string \<Rightarrow> 'e list"
begin

lemma steps_path:
  assumes "step\<^sup>*\<^sup>* s t" and "inv s" and "status s i = Some a"
  shows "\<exists>b path. status t i = Some b \<and> lifecycle_path a path \<and> b = last (a # path)"
  using steps_status [OF assms] can_step_path by blast

lemma steps_rank:
  assumes "step\<^sup>*\<^sup>* s t" "inv s" "status s i = Some a"
  shows "\<exists>b. status t i = Some b \<and> (a = b \<or> lifecycle_rank a < lifecycle_rank b)"
  using steps_status [OF assms] can_step_steps_rank by blast

lemma steps_terminal:
  assumes "step\<^sup>*\<^sup>* s t" "inv s" "status s i = Some a" "is_terminal a"
  shows "status t i = Some a \<and> log t i = log s i"
  using steps_final [OF assms(1-3)] terminal_no_step [OF assms(4)] by blast

end

section \<open>The steps of the store\<close>

text \<open>
  The public operations on runs and conversations, each with its clock readings, fresh
  identifier and arguments free. The payload of a new event is one that serde\_json reads
  back.
\<close>

inductive store_step :: "externals \<Rightarrow> db \<Rightarrow> db \<Rightarrow> bool" for E where
  submit: "create_or_get_run E fresh now d run = Inr (r, d') \<Longrightarrow> store_step E d d'"
| transition: "transition_run E now ms d rid expected next event = Inr (ev, d') \<Longrightarrow>
     payload_parses E event \<Longrightarrow> store_step E d d'"
| append: "append_run_event E now d rid event = Inr (ev, d') \<Longrightarrow>
     payload_parses E event \<Longrightarrow> store_step E d d'"
| recover: "recover_interrupted_on E now ms d = Inr (n, d') \<Longrightarrow> store_step E d d'"
| conversation: "create_conversation now d cid = Inr d' \<Longrightarrow> store_step E d d'"
| backend: "set_conversation_backend now d cid b bc = Inr (c, d') \<Longrightarrow> store_step E d d'"

definition status_of :: "externals \<Rightarrow> db \<Rightarrow> run_id \<Rightarrow> run_state option" where
  "status_of E d rid =
     (case run_by_id E d rid of Inr (Some r) \<Rightarrow> Some (rec_status r) | _ \<Rightarrow> None)"

text \<open>The invariant with what the constant payloads of the code need of serde\_json.\<close>

definition ledger_inv :: "externals \<Rightarrow> db \<Rightarrow> bool" where
  "ledger_inv E d \<longleftrightarrow>
     db_wf E d \<and> json_from_str E ''{}'' \<noteq> None \<and> payload_parses E recovery_event"

lemma status_of_Some:
  "status_of E d rid = Some s \<longleftrightarrow> (\<exists>run. run_by_id E d rid = Inr (Some run) \<and> rec_status run = s)"
  by (auto simp: status_of_def split: sum.splits option.splits)

text \<open>One step, seen from one run.\<close>

definition run_step :: "externals \<Rightarrow> db \<Rightarrow> db \<Rightarrow> run_id \<Rightarrow> bool" where
  "run_step E d d' rid \<longleftrightarrow>
     run_by_id E d' rid = run_by_id E d rid \<and> events_of d' rid = events_of d rid
   \<or> run_by_id E d rid = Inr None
   \<or> (\<exists>run next now row. run_by_id E d rid = Inr (Some run) \<and> \<not> is_terminal (rec_status run)
        \<and> (next = rec_status run \<or> can_step (rec_status run) next)
        \<and> run_by_id E d' rid = Inr (Some (stepped run next now))
        \<and> events_of d' rid = events_of d rid @ [row])"

lemma run_tables_same_step:
  assumes "runs d' = runs d" "run_events d' = run_events d"
  shows "run_step E d d' rid" and "db_wf E d' = db_wf E d"
  using assms by (auto simp: run_step_def run_by_id_def events_of_def db_wf_def run_row_ok_def)

lemma logged_run_step:
  assumes log: "logged E now d run next event d'" and "\<not> is_terminal (rec_status run)"
    and "next = rec_status run \<or> can_step (rec_status run) next"
  shows "run_step E d d' rid"
proof (cases "rid = rec_id run")
  case True
  with assms logged_run_by_id [OF log] logged_events [OF log] show ?thesis
    unfolding run_step_def by (auto simp: logged_def)
next
  case False
  with logged_run_by_id [OF log] logged_events [OF log] show ?thesis
    by (simp add: run_step_def)
qed

lemma recover_effect:
  assumes inv: "ledger_inv E d" and ok: "recover_interrupted_on E now ms d = Inr (n, d')"
  shows "db_wf E d'"
    and "\<not> (\<exists>run. run_by_id E d rid = Inr (Some run) \<and> active_state (rec_status run)) \<Longrightarrow>
           run_by_id E d' rid = run_by_id E d rid \<and> events_of d' rid = events_of d rid"
    and "run_by_id E d rid = Inr (Some run) \<Longrightarrow> active_state (rec_status run) \<Longrightarrow>
           run_by_id E d' rid = Inr (Some (stepped run Interrupted now))
         \<and> events_of d' rid = events_of d rid @ [recovery_row E now run]"
    and "n = card {rid. \<exists>run. run_by_id E d rid = Inr (Some run) \<and> active_state (rec_status run)}"
proof -
  have wf: "db_wf E d" and json: "payload_parses E recovery_event"
    using inv by (simp_all add: ledger_inv_def)
  from ok have loop: "recover_loop E now ms (recovery_ids d) d = Inr d'"
    and n: "n = length (recovery_ids d)"
    by (auto simp: recover_interrupted_on_def Let_def rust_simps)
  note eff = recover_loop_effect [OF wf recovery_ids_distinct [OF wf] json loop]
  show "db_wf E d'" using eff by blast
  show "run_by_id E d' rid = run_by_id E d rid \<and> events_of d' rid = events_of d rid"
    if "\<not> (\<exists>run. run_by_id E d rid = Inr (Some run) \<and> active_state (rec_status run))"
    using eff that recovery_ids_set [OF wf, of rid] by blast
  show "run_by_id E d' rid = Inr (Some (stepped run Interrupted now))
      \<and> events_of d' rid = events_of d rid @ [recovery_row E now run]"
    if run: "run_by_id E d rid = Inr (Some run)" and act: "active_state (rec_status run)"
  proof -
    have "rid \<in> set (recovery_ids d)" using run act recovery_ids_set [OF wf, of rid] by blast
    with eff obtain run' where r': "run_by_id E d rid = Inr (Some run')"
      "run_by_id E d' rid = Inr (Some (stepped run' Interrupted now))"
      "events_of d' rid = events_of d rid @ [recovery_row E now run']" by blast
    with run have "run' = run" by simp
    with r' show ?thesis by simp
  qed
  have "set (recovery_ids d)
      = {rid. \<exists>run. run_by_id E d rid = Inr (Some run) \<and> active_state (rec_status run)}"
    using recovery_ids_set [OF wf] by blast
  then show "n = card {rid. \<exists>run. run_by_id E d rid = Inr (Some run) \<and> active_state (rec_status run)}"
    using distinct_card [OF recovery_ids_distinct [OF wf]] n by simp
qed

lemma nonterminal_steps: "\<not> is_terminal s \<Longrightarrow> \<exists>t. can_step s t"
  by (intro exI [of _ Interrupted], cases s) (simp_all add: can_step_iff)

lemma active_can_interrupt: "active_state s \<Longrightarrow> \<not> is_terminal s \<and> can_step s Interrupted"
  by (cases s) (simp_all add: active_state_def can_step_iff)

lemma store_step_effect:
  assumes "store_step E d d'" and inv: "ledger_inv E d"
  shows "ledger_inv E d' \<and> (\<forall>rid. run_step E d d' rid)"
proof -
  have wf: "db_wf E d" and json: "json_from_str E ''{}'' \<noteq> None" "payload_parses E recovery_event"
    using inv by (simp_all add: ledger_inv_def)
  have "db_wf E d' \<and> (\<forall>rid. run_step E d d' rid)"
    using assms(1)
  proof cases
    case (submit fresh now run r)
    then consider "d' = d" | "created E fresh now d run d'"
      using create_or_get_run_Inr [OF wf] by blast
    then show ?thesis
    proof cases
      case 2
      then have "run_by_id E d fresh = Inr None" by (simp add: created_def run_by_id_None)
      with 2 created_wf [OF wf 2 json(1)] created_run_by_id [OF 2] created_events [OF wf 2]
      show ?thesis by (auto simp: run_step_def)
    qed (simp add: wf run_step_def)
  next
    case (transition now ms rid expected "next" event ev)
    from wf transition(1) obtain run where "rec_status run = expected" "can_step expected next"
      "logged E now d run next event d'" by (rule transition_run_logged) blast
    with transition(2) show ?thesis
      using logged_wf [OF wf] logged_run_step terminal_no_step by blast
  next
    case (append now rid event ev)
    from wf append(1) obtain run where "\<not> is_terminal (rec_status run)"
      "logged E now d run (rec_status run) event d'" by (rule append_run_event_logged) blast
    with append(2) show ?thesis using logged_wf [OF wf] logged_run_step by blast
  next
    case (recover now ms n)
    note eff = recover_effect [OF inv recover]
    have "run_step E d d' rid" for rid
      using eff(2) [of rid] eff(3) [of rid] active_can_interrupt unfolding run_step_def by blast
    with eff(1) show ?thesis by blast
  next
    case (conversation now cid)
    then show ?thesis using run_tables_same_step [of d' d] wf
      by (auto simp: create_conversation_def split: if_splits)
  next
    case (backend now cid b bc c)
    then have "runs d' = runs d" "run_events d' = run_events d"
      by (auto simp: set_conversation_backend_def Let_def split: if_splits)
    then show ?thesis using run_tables_same_step [of d' d] wf by blast
  qed
  with json show ?thesis by (simp add: ledger_inv_def)
qed

lemma run_step_ledger:
  assumes inv: "ledger_inv E s" and rs: "run_step E s t i"
  shows "status_of E s i = Some a \<Longrightarrow> \<exists>b. status_of E t i = Some b \<and> (b = a \<or> can_step a b)"
    and "prefix (events_of s i) (events_of t i)"
    and "status_of E s i = Some a \<Longrightarrow> is_terminal a \<Longrightarrow> events_of t i = events_of s i"
proof -
  show "\<exists>b. status_of E t i = Some b \<and> (b = a \<or> can_step a b)" if "status_of E s i = Some a"
    using that rs unfolding run_step_def status_of_Some by auto
  show "events_of t i = events_of s i" if "status_of E s i = Some a" "is_terminal a"
    using rs that unfolding run_step_def status_of_Some by auto
  have "events_of s i = []" if "run_by_id E s i = Inr None"
    using inv that by (auto simp: ledger_inv_def db_wf_def run_by_id_None events_of_def filter_empty_conv)
  with rs show "prefix (events_of s i) (events_of t i)"
    unfolding run_step_def by auto
qed

interpretation store: run_ledger "ledger_inv E" "store_step E" "status_of E" events_of
  for E
proof
  fix s t i a
  assume inv: "ledger_inv E s" and step: "store_step E s t"
  have rs: "ledger_inv E t" "run_step E s t i" using store_step_effect [OF step inv] by blast+
  show "ledger_inv E t" by (rule rs)
  show "prefix (events_of s i) (events_of t i)" using run_step_ledger(2) [OF inv rs(2)] .
  show "\<exists>b. status_of E t i = Some b \<and> (b = a \<or> can_step a b)" if "status_of E s i = Some a"
    using run_step_ledger(1) [OF inv rs(2) that] .
  show "events_of t i = events_of s i" if "status_of E s i = Some a" "\<And>b. \<not> can_step a b"
    using run_step_ledger(3) [OF inv rs(2) that(1)] nonterminal_steps that(2) by blast
qed

section \<open>The abstract ledger and its refinement\<close>

record ledger_entry =
  le_conversation_id :: "conversation_id option"
  le_idempotency_key :: idempotency_key
  le_request_digest :: string
  le_status :: run_state
  le_created_at :: string
  le_updated_at :: string
  le_log :: "run_event list"

type_synonym ledger = "run_id \<Rightarrow> ledger_entry option"

definition log_of :: "externals \<Rightarrow> db \<Rightarrow> run_id \<Rightarrow> run_event list" where
  "log_of E d rid = List.map_filter
     (\<lambda>row. case row_to_event E row of Inr e \<Rightarrow> Some e | Inl _ \<Rightarrow> None) (events_of d rid)"

definition entry_of :: "externals \<Rightarrow> db \<Rightarrow> run_record \<Rightarrow> ledger_entry" where
  "entry_of E d r =
     \<lparr>le_conversation_id = rec_conversation_id r, le_idempotency_key = rec_idempotency_key r,
      le_request_digest = rec_request_digest r, le_status = rec_status r,
      le_created_at = rec_created_at r, le_updated_at = rec_updated_at r,
      le_log = log_of E d (rec_id r)\<rparr>"

definition ledger_of :: "externals \<Rightarrow> db \<Rightarrow> ledger" where
  "ledger_of E d rid =
     (case run_by_id E d rid of Inr (Some r) \<Rightarrow> Some (entry_of E d r) | _ \<Rightarrow> None)"

definition log_event :: "run_id \<Rightarrow> string \<Rightarrow> ledger_entry \<Rightarrow> new_run_event \<Rightarrow> run_event" where
  "log_event rid now e event =
     \<lparr>ev_run_id = rid, ev_sequence = Suc (length (le_log e)), ev_kind = ne_kind event,
      ev_payload = ne_payload event, ev_created_at = now\<rparr>"

definition entry_step ::
    "run_id \<Rightarrow> string \<Rightarrow> run_state \<Rightarrow> new_run_event \<Rightarrow> ledger_entry \<Rightarrow> ledger_entry" where
  "entry_step rid now next event e =
     e\<lparr>le_status := next, le_updated_at := now, le_log := le_log e @ [log_event rid now e event]\<rparr>"

definition spec_transition ::
    "string \<Rightarrow> ledger \<Rightarrow> run_id \<Rightarrow> run_state \<Rightarrow> run_state \<Rightarrow> new_run_event \<Rightarrow>
     store_error + run_event \<times> ledger" where
  "spec_transition now L rid expected next event =
     (case L rid of
        None \<Rightarrow> Inl (RunNotFound rid)
      | Some e \<Rightarrow>
          if le_status e \<noteq> expected then Inl (UnexpectedStatus expected (le_status e))
          else if is_terminal expected then Inl (TerminalRun rid)
          else if \<not> can_step expected next then Inl (InvalidTransition expected next)
          else Inr (log_event rid now e event, L(rid \<mapsto> entry_step rid now next event e)))"

definition spec_append ::
    "string \<Rightarrow> ledger \<Rightarrow> run_id \<Rightarrow> new_run_event \<Rightarrow> store_error + run_event \<times> ledger" where
  "spec_append now L rid event =
     (case L rid of
        None \<Rightarrow> Inl (RunNotFound rid)
      | Some e \<Rightarrow>
          if is_terminal (le_status e) then Inl (TerminalRun rid)
          else Inr (log_event rid now e event,
                    L(rid \<mapsto> entry_step rid now (le_status e) event e)))"

definition spec_recover :: "string \<Rightarrow> ledger \<Rightarrow> ledger" where
  "spec_recover now L rid =
     map_option (\<lambda>e. if active_state (le_status e)
                     then entry_step rid now Interrupted recovery_event e else e) (L rid)"

definition new_entry :: "run_id \<Rightarrow> string \<Rightarrow> new_run \<Rightarrow> ledger_entry" where
  "new_entry fresh now run =
     \<lparr>le_conversation_id = nr_conversation_id run, le_idempotency_key = nr_idempotency_key run,
      le_request_digest = nr_request_digest run, le_status = Queued, le_created_at = now,
      le_updated_at = now,
      le_log = [\<lparr>ev_run_id = fresh, ev_sequence = 1, ev_kind = ''run_queued'',
                 ev_payload = JObject [], ev_created_at = now\<rparr>]\<rparr>"

inductive spec_submit ::
    "run_id \<Rightarrow> string \<Rightarrow> ledger \<Rightarrow> new_run \<Rightarrow> store_error + run_id \<times> ledger \<Rightarrow> bool"
  for fresh now L run where
  again: "L rid = Some e \<Longrightarrow> le_idempotency_key e = nr_idempotency_key run \<Longrightarrow>
     le_request_digest e = nr_request_digest run \<Longrightarrow> spec_submit fresh now L run (Inr (rid, L))"
| conflict: "L rid = Some e \<Longrightarrow> le_idempotency_key e = nr_idempotency_key run \<Longrightarrow>
     le_request_digest e \<noteq> nr_request_digest run \<Longrightarrow>
     spec_submit fresh now L run (Inl IdempotencyConflict)"
| new: "(\<And>rid e. L rid = Some e \<Longrightarrow> le_idempotency_key e \<noteq> nr_idempotency_key run) \<Longrightarrow>
     L fresh = None \<Longrightarrow>
     spec_submit fresh now L run (Inr (fresh, L(fresh \<mapsto> new_entry fresh now run)))"

lemma map_filter_append:
  "List.map_filter f (xs @ ys) = List.map_filter f xs @ List.map_filter f ys"
  by (simp add: List.map_filter_def)

lemma row_to_event_of:
  "uuid_canonical E (ev_run_id e) = Some (ev_run_id e) \<Longrightarrow>
   json_from_str E (json_to_string E (ev_payload e)) = Some (ev_payload e) \<Longrightarrow>
   row_to_event E (event_row_of E e) = Inr e"
  by (simp add: row_to_event_Inr event_row_of_def)

lemma run_by_id_canonical:
  assumes "db_wf E d" "run_by_id E d rid = Inr (Some run)"
  shows "uuid_canonical E rid = Some rid"
  using assms by (auto simp: run_by_id_wf row_to_run_Inr)

text \<open>Every stored event of a run decodes, in the order of its sequence numbers.\<close>

lemma events_decode:
  assumes wf: "db_wf E d" and run: "run_by_id E d rid = Inr (Some run)"
    and row: "row \<in> set (events_of d rid)"
  shows "\<exists>e. row_to_event E row = Inr e \<and> ev_run_id e = rid \<and> int (ev_sequence e) = ew_sequence row"
proof -
  have id: "ew_run_id row = rid" "row \<in> set (run_events d)" using row by (auto simp: events_of_def)
  then obtain p where p: "json_from_str E (ew_payload_json row) = Some p"
    using wf by (auto simp: db_wf_def)
  have "map ew_sequence (events_of d rid) = map int [1..<rec_next_event_sequence run]"
    using wf run by (rule run_by_id_row) blast
  then have "ew_sequence ` set (events_of d rid) = int ` {1..<rec_next_event_sequence run}"
    by (metis set_map set_upt)
  with row have "ew_sequence row \<in> int ` {1..<rec_next_event_sequence run}" by blast
  then obtain n where "ew_sequence row = int n" by blast
  with id p run_by_id_canonical [OF wf run] show ?thesis
    by (intro exI [of _ "\<lparr>ev_run_id = rid, ev_sequence = n, ev_kind = ew_kind row,
        ev_payload = p, ev_created_at = ew_created_at row\<rparr>"]) (simp add: row_to_event_Inr)
qed

lemma map_filter_length:
  "(\<And>x. x \<in> set xs \<Longrightarrow> f x \<noteq> None) \<Longrightarrow> length (List.map_filter f xs) = length xs"
  by (induction xs) (force simp: List.map_filter_def)+

lemma log_of_length:
  assumes wf: "db_wf E d" and run: "run_by_id E d rid = Inr (Some run)"
  shows "Suc (length (log_of E d rid)) = rec_next_event_sequence run"
proof -
  have "length (log_of E d rid) = length (events_of d rid)"
    unfolding log_of_def using events_decode [OF wf run]
    by (intro map_filter_length) (force split: sum.splits)
  moreover have "map ew_sequence (events_of d rid) = map int [1..<rec_next_event_sequence run]"
    and "2 \<le> rec_next_event_sequence run"
    using run_by_id_row [OF wf run] by blast+
  then have "length (events_of d rid) = rec_next_event_sequence run - 1"
    by (metis length_map length_upt)
  ultimately show ?thesis using \<open>2 \<le> rec_next_event_sequence run\<close> by simp
qed

lemma ledger_of_eq: "run_by_id E d rid = Inr (Some r) \<Longrightarrow> ledger_of E d rid = Some (entry_of E d r)"
  by (simp add: ledger_of_def)

lemma ledger_logged_step:
  assumes wf: "db_wf E d" and log: "logged E now d run next event d'"
    and json: "payload_parses E event"
  shows "ledger_of E d' rid = (if rid = rec_id run
           then Some (entry_step (rec_id run) now next event (entry_of E d run))
           else ledger_of E d rid)"
    and "log_event (rec_id run) now (entry_of E d run) event = next_event now run event"
proof -
  let ?i = "rec_id run"
  have run: "run_by_id E d ?i = Inr (Some run)" using log by (simp add: logged_def)
  have len: "Suc (length (log_of E d ?i)) = rec_next_event_sequence run"
    by (rule log_of_length [OF wf run])
  then show ev: "log_event ?i now (entry_of E d run) event = next_event now run event"
    by (simp add: log_event_def entry_of_def)
  have "row_to_event E (event_row_of E (next_event now run event)) = Inr (next_event now run event)"
    using run_by_id_canonical [OF wf run] json by (intro row_to_event_of) simp_all
  then have "log_of E d' rid = log_of E d rid @ (if rid = ?i then [next_event now run event] else [])"
    for rid
    by (simp add: log_of_def logged_events [OF log] map_filter_append List.map_filter_def)
  then show "ledger_of E d' rid = (if rid = ?i
      then Some (entry_step ?i now next event (entry_of E d run)) else ledger_of E d rid)"
    using logged_run_by_id [OF log, of rid] ev
    by (auto simp: ledger_of_def entry_of_def entry_step_def split: sum.splits option.splits
        dest: run_by_id_rec_id)
qed

abbreviation abs_result ::
    "externals \<Rightarrow> store_error + 'a \<times> db \<Rightarrow> store_error + 'a \<times> ledger" where
  "abs_result E r \<equiv> map_sum id (\<lambda>(x, d'). (x, ledger_of E d')) r"

lemma ledger_of_None:
  assumes "db_wf E d"
  shows "ledger_of E d rid = None \<longleftrightarrow> run_by_id E d rid = Inr None"
  using run_by_id_total [OF assms, of rid]
  by (auto simp: ledger_of_def split: sum.splits option.splits)

lemma ledger_logged_upd:
  assumes "db_wf E d" and "logged E now d run next event d'" and "payload_parses E event"
  shows "ledger_of E d' = (ledger_of E d)(rec_id run \<mapsto>
           entry_step (rec_id run) now next event (entry_of E d run))"
  using ledger_logged_step(1) [OF assms] by (auto simp: fun_eq_iff)

lemma ledger_cases:
  assumes "db_wf E d"
  obtains (absent) "run_by_id E d rid = Inr None" "ledger_of E d rid = None"
  | (present) run where "run_by_id E d rid = Inr (Some run)" "rec_id run = rid"
      "ledger_of E d rid = Some (entry_of E d run)"
      "le_status (entry_of E d run) = rec_status run"
      "length (log_of E d rid) + 1 = rec_next_event_sequence run"
proof (cases "run_by_id E d rid = Inr None")
  case True
  with assms show thesis by (intro absent) (simp_all add: ledger_of_None)
next
  case False
  then obtain run where run: "run_by_id E d rid = Inr (Some run)"
    using run_by_id_total [OF assms, of rid] by fastforce
  with log_of_length [OF assms run] show thesis
    by (intro present [of run]) (auto simp: ledger_of_eq entry_of_def dest: run_by_id_rec_id)
qed

lemma transition_refinement:
  assumes wf: "db_wf E d" and event: "validate_event E event = Inr ()" "payload_parses E event"
    and legacy: "turn_of d rid = None" and room: "length (log_of E d rid) + 2 < i64_bound"
  shows "abs_result E (transition_run E now ms d rid expected next event)
       = spec_transition now (ledger_of E d) rid expected next event"
  using wf
proof (cases rule: ledger_cases [where rid = rid])
  case absent
  with event show ?thesis by (simp add: transition_run_def spec_transition_def)
next
  case (present run)
  show ?thesis
  proof (cases "rec_status run = expected \<and> can_step expected next")
    case False
    with present event show ?thesis by (auto simp: transition_run_def spec_transition_def)
  next
    case True
    then have nt: "\<not> is_terminal expected" using terminal_no_step by blast
    from present room have "Suc (rec_next_event_sequence run) < i64_bound" by simp
    with True wf present event legacy obtain d' where
      ok: "transition_run E now ms d rid expected next event = Inr (next_event now run event, d')"
      using transition_run_succeeds [OF wf present(1) event(1), of "next" now ms] by blast
    then have log: "logged E now d run next event d'"
      using transition_run_logged [OF wf ok] present(1) by (metis option.inject sum.inject(2))
    with ok True nt present show ?thesis
      using ledger_logged_upd [OF wf log event(2)] ledger_logged_step(2) [OF wf log event(2)]
      by (simp add: spec_transition_def)
  qed
qed

lemma append_run_event_succeeds:
  assumes wf: "db_wf E d" and run: "run_by_id E d rid = Inr (Some run)"
    and val: "validate_event E event = Inr ()" and nt: "\<not> is_terminal (rec_status run)"
    and room: "Suc (rec_next_event_sequence run) < i64_bound"
  shows "\<exists>d'. append_run_event E now d rid event = Inr (next_event now run event, d')"
proof -
  have rid: "rec_id run = rid" using run by (rule run_by_id_rec_id)
  obtain row where row: "row \<in> set (runs d)" "rw_id row = rid" "2 \<le> rec_next_event_sequence run"
    using wf run by (rule run_by_id_row) blast
  let ?d1 = "d\<lparr>run_events := run_events d @ [event_row_of E (next_event now run event)]\<rparr>"
  have "insert_run_event (event_row_of E (next_event now run event)) d = Inr ?d1"
    using run_events_insert_ok [OF wf run] row
    by (auto simp: insert_run_event_Inr event_row_of_def rid)
  then have app: "append_event E now d run event = Inr (next_event now run event, ?d1)"
    using room by (simp add: append_event_Inr)
  have "\<forall>r\<in>set (runs ?d1). rw_id r = rid \<longrightarrow>
      run_row_check (r\<lparr>rw_next_event_sequence := int (Suc (rec_next_event_sequence run)),
                       rw_updated_at := now\<rparr>)"
  proof (intro ballI impI)
    fix r assume "r \<in> set (runs ?d1)" and "rw_id r = rid"
    then have "run_row_ok E d r" using wf by (simp add: db_wf_def)
    then obtain s where "rw_status r = state_as_str s"
      using row_to_run_fields(5) by (fastforce simp: run_row_ok_def is_ok_iff)
    then show "run_row_check (r\<lparr>rw_next_event_sequence := int (Suc (rec_next_event_sequence run)),
                                rw_updated_at := now\<rparr>)"
      by (simp add: run_row_check_def state_as_str_label)
  qed
  then show ?thesis
    using run val nt app room by (simp add: append_run_event_def sql_sequence_def
        i64_try_from_def update_runs_def Let_def list_all_iff)
qed

lemma append_refinement:
  assumes wf: "db_wf E d" and event: "validate_event E event = Inr ()" "payload_parses E event"
    and room: "length (log_of E d rid) + 2 < i64_bound"
  shows "abs_result E (append_run_event E now d rid event)
       = spec_append now (ledger_of E d) rid event"
  using wf
proof (cases rule: ledger_cases [where rid = rid])
  case absent
  with event show ?thesis by (simp add: append_run_event_def spec_append_def)
next
  case (present run)
  show ?thesis
  proof (cases "is_terminal (rec_status run)")
    case True
    with present event show ?thesis by (simp add: append_run_event_def spec_append_def)
  next
    case False
    with present room event obtain d' where
      ok: "append_run_event E now d rid event = Inr (next_event now run event, d')"
      using append_run_event_succeeds [OF wf present(1) event(1)] by fastforce
    then have log: "logged E now d run (rec_status run) event d'"
      using append_run_event_logged [OF wf ok] present(1) by (metis option.inject sum.inject(2))
    with ok False present show ?thesis
      using ledger_logged_upd [OF wf log event(2)] ledger_logged_step(2) [OF wf log event(2)]
      by (simp add: spec_append_def)
  qed
qed

lemma log_of_append:
  assumes "events_of d' rid = events_of d rid @ [event_row_of E e]" and "ev_run_id e = rid"
    and "uuid_canonical E rid = Some rid"
    and "json_from_str E (json_to_string E (ev_payload e)) = Some (ev_payload e)"
  shows "log_of E d' rid = log_of E d rid @ [e]"
  using assms row_to_event_of [of E e]
  by (simp add: log_of_def map_filter_append List.map_filter_def)

lemma recover_refinement:
  assumes inv: "ledger_inv E d" and ok: "recover_interrupted_on E now ms d = Inr (n, d')"
  shows "ledger_of E d' = spec_recover now (ledger_of E d)"
proof
  fix rid
  have wf: "db_wf E d" and json: "payload_parses E recovery_event"
    using inv by (simp_all add: ledger_inv_def)
  show "ledger_of E d' rid = spec_recover now (ledger_of E d) rid"
    using wf
  proof (cases rule: ledger_cases [where rid = rid])
    case absent
    then have "run_by_id E d' rid = run_by_id E d rid"
      using recover_effect(2) [OF inv ok, of rid] by simp
    with absent show ?thesis by (simp add: spec_recover_def ledger_of_def)
  next
    case (present run)
    show ?thesis
    proof (cases "active_state (rec_status run)")
      case False
      then have "run_by_id E d' rid = run_by_id E d rid \<and> events_of d' rid = events_of d rid"
        using recover_effect(2) [OF inv ok, of rid] present(1) by simp
      with False present show ?thesis
        by (simp add: spec_recover_def ledger_of_def entry_of_def log_of_def)
    next
      case True
      have eff: "run_by_id E d' rid = Inr (Some (stepped run Interrupted now))"
        "events_of d' rid = events_of d rid @ [recovery_row E now run]"
        using recover_effect(3) [OF inv ok present(1) True] by simp_all
      have "log_of E d' rid = log_of E d rid @ [next_event now run recovery_event]"
        using log_of_append [OF eff(2)] run_by_id_canonical [OF wf present(1)] json present(2)
        by simp
      with eff(1) True present show ?thesis
        by (simp add: spec_recover_def ledger_of_def entry_of_def entry_step_def log_event_def)
    qed
  qed
qed

lemma created_ledger:
  assumes wf: "db_wf E d" and new: "created E fresh now d run d'"
    and json: "json_from_str E ''{}'' = Some (JObject [])"
    and uuid: "uuid_canonical E fresh = Some fresh"
  shows "ledger_of E d' = (ledger_of E d)(fresh \<mapsto> new_entry fresh now run)"
proof
  fix rid
  have "row_to_event E (queued_event_row fresh now) = Inr \<lparr>ev_run_id = fresh, ev_sequence = 1,
      ev_kind = ''run_queued'', ev_payload = JObject [], ev_created_at = now\<rparr>"
    using json uuid by (simp add: row_to_event_Inr)
  then have "log_of E d' rid = (if rid = fresh then le_log (new_entry fresh now run) else log_of E d rid)"
    by (simp add: log_of_def created_events [OF wf new] List.map_filter_def new_entry_def)
  then show "ledger_of E d' rid = ((ledger_of E d)(fresh \<mapsto> new_entry fresh now run)) rid"
    using created_run_by_id [OF new, of rid]
    by (auto simp: ledger_of_def entry_of_def new_entry_def split: sum.splits option.splits
        dest: run_by_id_rec_id)
qed

text \<open>The key of a run, seen through the ledger.\<close>

lemma ledger_key:
  assumes wf: "db_wf E d"
  shows "run_by_idempotency_key E d key = Inr (Some r) \<longleftrightarrow>
           run_by_id E d (rec_id r) = Inr (Some r) \<and> rec_idempotency_key r = key"
  unfolding run_by_key_wf [OF wf] run_by_id_wf [OF wf]
  using row_to_run_fields(1,3) by metis

lemma run_by_key_total:
  assumes wf: "db_wf E d"
  shows "\<exists>x. run_by_idempotency_key E d key = Inr x"
proof (cases "key \<in> rw_idempotency_key ` set (runs d)")
  case True
  then obtain row r where "row \<in> set (runs d)" "rw_idempotency_key row = key" "row_to_run E row = Inr r"
    using wf by (auto simp: db_wf_def run_row_ok_def is_ok_iff)
  then show ?thesis using run_by_key_wf [OF wf, of key r] by blast
next
  case False
  then show ?thesis using run_by_key_None [of E d key] by blast
qed

text \<open>The side conditions under which a submission is stored: what the caller and the schema ensure.\<close>

definition submittable :: "externals \<Rightarrow> db \<Rightarrow> run_id \<Rightarrow> new_run \<Rightarrow> bool" where
  "submittable E d fresh run \<longleftrightarrow>
     validate_new_run run = Inr ()
   \<and> uuid_canonical E fresh = Some fresh \<and> fresh \<notin> rw_id ` set (runs d)
   \<and> is_ok (parse_idempotency_key (nr_idempotency_key run))
   \<and> (case nr_conversation_id run of None \<Rightarrow> True
        | Some c \<Rightarrow> uuid_canonical E c = Some c \<and> c \<in> cw_id ` set (conversations d))"

lemma create_or_get_run_new:
  assumes wf: "db_wf E d" and sub: "submittable E d fresh run"
    and none: "run_by_idempotency_key E d (nr_idempotency_key run) = Inr None"
  shows "\<exists>d'. create_or_get_run E fresh now d run = Inr (queued_record fresh now run, d')
            \<and> created E fresh now d run d'"
proof -
  let ?d1 = "d\<lparr>runs := runs d @ [queued_row fresh now run]\<rparr>"
  let ?d2 = "?d1\<lparr>run_events := run_events d @ [queued_event_row fresh now]\<rparr>"
  have ins: "insert_run (queued_row fresh now run) d = Inr ?d1"
    using sub none by (auto simp: insert_run_Inr submittable_def run_row_check_def
        run_status_labels_def run_by_key_None)
  have row: "row_to_run E (queued_row fresh now run) = Inr (queued_record fresh now run)"
    using sub by (auto simp: row_to_run_Inr submittable_def is_ok_iff rust_simps split: option.splits)
  have none_found: "find (\<lambda>r. rw_id r = fresh) (runs d) = None"
    using sub by (auto simp: submittable_def find_None_all)
  have read: "run_by_id E ?d2 fresh = Inr (Some (queued_record fresh now run))"
    using row none_found by (simp add: run_by_id_def find_append)
  have val: "validate_new_run run = Inr ()" using sub by (simp add: submittable_def)
  have "(fresh, 1) \<notin> (\<lambda>e. (ew_run_id e, ew_sequence e)) ` set (run_events d)"
    using wf sub by (auto simp: db_wf_def submittable_def)
  then have ev: "insert_run_event (queued_event_row fresh now) ?d1 = Inr ?d2"
    by (auto simp: insert_run_event_Inr)
  have "created E fresh now d run ?d2"
    using sub row none by (simp add: created_def submittable_def run_by_key_None)
  moreover have "create_or_get_run E fresh now d run = Inr (queued_record fresh now run, ?d2)"
    by (simp add: create_or_get_run_def val none ins ev read)
  ultimately show ?thesis by blast
qed

lemma submit_refinement:
  assumes wf: "db_wf E d" and sub: "submittable E d fresh run"
    and json: "json_from_str E ''{}'' = Some (JObject [])"
  shows "spec_submit fresh now (ledger_of E d) run
           (map_sum id (\<lambda>(r, d'). (rec_id r, ledger_of E d')) (create_or_get_run E fresh now d run))"
proof -
  obtain found where found: "run_by_idempotency_key E d (nr_idempotency_key run) = Inr found"
    using run_by_key_total [OF wf] by blast
  have val: "validate_new_run run = Inr ()" and uuid: "uuid_canonical E fresh = Some fresh"
    using sub by (simp_all add: submittable_def)
  show ?thesis
  proof (cases found)
    case (Some r)
    then have r: "run_by_id E d (rec_id r) = Inr (Some r)"
      "rec_idempotency_key r = nr_idempotency_key run"
      using found ledger_key [OF wf] by auto
    then have entry: "ledger_of E d (rec_id r) = Some (entry_of E d r)" by (simp add: ledger_of_eq)
    show ?thesis
    proof (cases "rec_request_digest r = nr_request_digest run")
      case True
      with found Some val have "create_or_get_run E fresh now d run = Inr (r, d)"
        by (simp add: create_or_get_run_def)
      with entry r(2) True show ?thesis
        by (auto intro!: spec_submit.again simp: entry_of_def)
    next
      case False
      with found Some val have "create_or_get_run E fresh now d run = Inl IdempotencyConflict"
        by (simp add: create_or_get_run_def)
      with entry r(2) False show ?thesis
        by (auto intro!: spec_submit.conflict simp: entry_of_def)
    qed
  next
    case None
    with found sub obtain d' where
      ok: "create_or_get_run E fresh now d run = Inr (queued_record fresh now run, d')"
      and new: "created E fresh now d run d'"
      using create_or_get_run_new [OF wf sub] by blast
    have free: "le_idempotency_key e \<noteq> nr_idempotency_key run" if "ledger_of E d rid = Some e" for rid e
    proof
      assume key: "le_idempotency_key e = nr_idempotency_key run"
      from that obtain r where r: "run_by_id E d rid = Inr (Some r)" "e = entry_of E d r"
        by (auto simp: ledger_of_def split: sum.splits option.splits)
      then have "run_by_idempotency_key E d (nr_idempotency_key run) = Inr (Some r)"
        using key run_by_id_rec_id [OF r(1)] ledger_key [OF wf] by (simp add: entry_of_def)
      with found None show False by simp
    qed
    have "ledger_of E d fresh = None"
      using sub wf by (simp add: ledger_of_None run_by_id_None submittable_def)
    with ok created_ledger [OF wf new json uuid] free show ?thesis
      using spec_submit.new [of "ledger_of E d" run fresh now] by simp
  qed
qed

end
