(* ===== verification/App_Contracts.thy ===== *)
theory App_Contracts
  imports Route_Audit
begin

text \<open>
  The application boundary of \<open>src/app_core/contracts.rs\<close> and \<open>policy.rs\<close>: commands,
  events, runtime status, ordered capability sets and the standard policy that decides
  which commands a capability set permits.
\<close>

section \<open>Capabilities\<close>

definition APP_PROTOCOL_V1 :: nat where "APP_PROTOCOL_V1 = 1"
definition APP_PROTOCOL_VERSION :: nat where "APP_PROTOCOL_VERSION = 2"
definition MAX_CLAIMS_FILTER_BYTES :: nat where "MAX_CLAIMS_FILTER_BYTES = 256"
definition MAX_APPROVAL_SUMMARY_BYTES :: nat where "MAX_APPROVAL_SUMMARY_BYTES = 1024"

datatype app_capability =
  ReadStatus | ReadClaims | ReadRun | ReadRunEvents | SubmitRunCap | CancelRunCap | ReadRoutesCap

fun capability_index :: "app_capability \<Rightarrow> nat" where
  "capability_index ReadStatus = 0"
| "capability_index ReadClaims = 1"
| "capability_index ReadRun = 2"
| "capability_index ReadRunEvents = 3"
| "capability_index SubmitRunCap = 4"
| "capability_index CancelRunCap = 5"
| "capability_index ReadRoutesCap = 6"

lemma capability_index_inj: "capability_index a = capability_index b \<Longrightarrow> a = b"
  by (cases a; cases b) simp_all

instantiation app_capability :: linorder
begin

definition less_eq_app_capability :: "app_capability \<Rightarrow> app_capability \<Rightarrow> bool" where
  "less_eq_app_capability a b \<longleftrightarrow> capability_index a \<le> capability_index b"

definition less_app_capability :: "app_capability \<Rightarrow> app_capability \<Rightarrow> bool" where
  "less_app_capability a b \<longleftrightarrow> capability_index a < capability_index b"

instance
  by standard
    (auto simp: less_eq_app_capability_def less_app_capability_def dest: capability_index_inj)

end

type_synonym capability_set = "app_capability list"

definition capabilities_standard :: capability_set where
  "capabilities_standard = [ReadStatus, ReadClaims, ReadRoutesCap]"

definition runtime_v2_for_routes :: "bool \<Rightarrow> capability_set" where
  "runtime_v2_for_routes has_routes =
     [ReadStatus, ReadClaims, ReadRun, ReadRunEvents]
       @ (if has_routes then [SubmitRunCap] else [])
       @ [CancelRunCap] @ [ReadRoutesCap]"

definition runtime_v2 :: capability_set where
  "runtime_v2 = runtime_v2_for_routes True"

text \<open>
  \<open>slice::binary_search\<close>: the window \<open>[lo, hi)\<close> is halved until an equal element is
  found or the window is empty. The library guarantees the outcome only for sorted
  slices; the search itself is total.
\<close>

function binary_search_window :: "'a::linorder list \<Rightarrow> 'a \<Rightarrow> nat \<Rightarrow> nat \<Rightarrow> bool" where
  "binary_search_window xs x lo hi =
     (if lo \<ge> hi then False
      else let mid = (lo + hi) div 2 in
        if xs ! mid = x then True
        else if xs ! mid < x then binary_search_window xs x (Suc mid) hi
        else binary_search_window xs x lo mid)"
  by pat_completeness auto
termination
  by (relation "measure (\<lambda>(xs, x, lo, hi). hi - lo)") auto

declare binary_search_window.simps [simp del]

definition capability_contains :: "capability_set \<Rightarrow> app_capability \<Rightarrow> bool" where
  "capability_contains cs c = binary_search_window cs c 0 (length cs)"

definition capability_set_validate :: "capability_set \<Rightarrow> validation_error + unit" where
  "capability_set_validate cs =
     (if window_not_increasing cs
      then Inl ''capabilities must be strictly ordered and duplicate-free'' else Inr ())"

section \<open>Claims and approval prompts\<close>

datatype claim_status =
    ClaimCurrent | ClaimPartial | ClaimProposed | ClaimBlocked | ClaimOutOfScope
  | ClaimFailed | ClaimRevoked | ClaimSuperseded | ClaimExpired

record claims_query =
  cq_status :: "claim_status option"
  cq_contains :: "string option"

definition claims_query_validate :: "claims_query \<Rightarrow> validation_error + unit" where
  "claims_query_validate q =
     (case cq_contains q of None \<Rightarrow> Inr ()
      | Some raw \<Rightarrow>
          let filter = trim raw in
          if filter = [] then Inl ''claims filter cannot be empty''
          else if length filter > MAX_CLAIMS_FILTER_BYTES
          then Inl ''claims filter exceeds 256 bytes''
          else if has_control filter
          then Inl ''claims filter cannot contain control characters''
          else Inr ())"

record claim_record =
  claim_name :: string
  claim_state :: claim_status
  claim_note :: string
  claim_instead :: "string option"

record claims_snapshot =
  cs_claims :: "claim_record list"
  cs_matched :: nat

definition claims_snapshot_validate :: "claims_snapshot \<Rightarrow> validation_error + unit" where
  "claims_snapshot_validate s =
     (if cs_matched s \<noteq> length (cs_claims s)
      then Inl ''claims snapshot matched count is inconsistent'' else Inr ())"

datatype approval_kind =
  FileSystemMutation | NetworkAccess | ProcessExecution | PrivilegeElevation

record approval_request =
  apr_run_id :: run_id
  apr_kind :: approval_kind
  apr_summary :: string

definition approval_request_validate :: "approval_request \<Rightarrow> validation_error + unit" where
  "approval_request_validate r =
     (let summary = trim (apr_summary r) in
      if summary = [] then Inl ''approval summary cannot be empty''
      else if length summary > MAX_APPROVAL_SUMMARY_BYTES
      then Inl ''approval summary exceeds 1024 bytes''
      else if has_control summary
      then Inl ''approval summary cannot contain control characters''
      else Inr ())"

section \<open>Status, commands and events\<close>

datatype edition = Standard | Personal

record runtime_status =
  st_protocol_version :: nat
  st_schema_version :: nat
  st_edition :: edition
  st_version :: string
  st_build_git :: string
  st_build_target :: string
  st_capabilities :: capability_set
  st_run_routes :: "run_route_capability list"

definition runtime_status_validate :: "runtime_status \<Rightarrow> validation_error + unit" where
  "runtime_status_validate s =
     bindr (capability_set_validate (st_capabilities s)) (\<lambda>_.
       if window_not_increasing (map route_backend (st_run_routes s))
       then Inl ''run routes must be strictly ordered and duplicate-free''
       else bindr (for_each run_route_capability_validate (st_run_routes s)) (\<lambda>_.
         if capability_contains (st_capabilities s) SubmitRunCap \<noteq> (st_run_routes s \<noteq> [])
         then Inl ''run submission capability and configured routes are inconsistent''
         else Inr ()))"

datatype app_command =
    CmdStatus
  | CmdClaims claims_query
  | CmdReadRoutes route_audit_query
  | CmdSubmitRun run_request
  | CmdGetRun run_query
  | CmdCancelRun run_query
  | CmdRunEvents run_events_query

fun app_command_validate :: "app_command \<Rightarrow> validation_error + unit" where
  "app_command_validate CmdStatus = Inr ()"
| "app_command_validate (CmdClaims q) = claims_query_validate q"
| "app_command_validate (CmdReadRoutes q) = route_audit_query_validate q"
| "app_command_validate (CmdSubmitRun r) = run_request_validate r"
| "app_command_validate (CmdGetRun q) = run_query_validate q"
| "app_command_validate (CmdCancelRun q) = run_query_validate q"
| "app_command_validate (CmdRunEvents q) = run_events_query_validate q"

fun minimum_protocol_version :: "app_command \<Rightarrow> nat" where
  "minimum_protocol_version CmdStatus = APP_PROTOCOL_V1"
| "minimum_protocol_version (CmdClaims _) = APP_PROTOCOL_V1"
| "minimum_protocol_version (CmdReadRoutes _) = APP_PROTOCOL_V1"
| "minimum_protocol_version _ = APP_PROTOCOL_VERSION"

datatype app_event =
    EvtStatus runtime_status
  | EvtClaims claims_snapshot
  | EvtRouteAudit route_audit_page
  | EvtApprovalRequested approval_request
  | EvtRunSubmitted run_submission
  | EvtRunStatus run_snapshot
  | EvtCancellationAcknowledged run_snapshot
  | EvtRunEvents run_event_page

fun app_event_validate :: "externals \<Rightarrow> app_event \<Rightarrow> validation_error + unit" where
  "app_event_validate E (EvtStatus s) = runtime_status_validate s"
| "app_event_validate E (EvtClaims s) = claims_snapshot_validate s"
| "app_event_validate E (EvtRouteAudit p) = route_audit_page_validate E p"
| "app_event_validate E (EvtApprovalRequested r) = approval_request_validate r"
| "app_event_validate E (EvtRunSubmitted s) = run_submission_validate E s"
| "app_event_validate E (EvtRunStatus s) = run_snapshot_validate E s"
| "app_event_validate E (EvtCancellationAcknowledged s) = run_snapshot_validate E s"
| "app_event_validate E (EvtRunEvents p) = run_event_page_validate E p"

section \<open>Policy\<close>

fun required_capability :: "app_command \<Rightarrow> app_capability" where
  "required_capability CmdStatus = ReadStatus"
| "required_capability (CmdClaims _) = ReadClaims"
| "required_capability (CmdReadRoutes _) = ReadRoutesCap"
| "required_capability (CmdSubmitRun _) = SubmitRunCap"
| "required_capability (CmdGetRun _) = ReadRun"
| "required_capability (CmdCancelRun _) = CancelRunCap"
| "required_capability (CmdRunEvents _) = ReadRunEvents"

definition permits :: "app_command \<Rightarrow> capability_set \<Rightarrow> bool" where
  "permits command capabilities = capability_contains capabilities (required_capability command)"

section \<open>The search is sound on every set and exact on validated ones\<close>

lemma window_not_increasing_iff: "\<not> window_not_increasing xs \<longleftrightarrow> sorted_wrt (<) xs"
  by (induction xs rule: window_not_increasing.induct)
    (auto simp: not_le dest: less_trans)

lemma binary_search_sound:
  "binary_search_window xs x lo hi \<Longrightarrow> hi \<le> length xs \<Longrightarrow> x \<in> set xs"
proof (induction xs x lo hi rule: binary_search_window.induct)
  case (1 xs x lo hi)
  let ?mid = "(lo + hi) div 2"
  from "1.prems"(1) have lt: "lo < hi"
    by (auto simp: binary_search_window.simps [of xs x lo hi] split: if_splits)
  with "1.prems"(2) have mid: "?mid < length xs" by linarith
  show ?case
  proof (cases "xs ! ?mid = x")
    case True
    with mid nth_mem show ?thesis by blast
  next
    case False
    with 1 lt show ?thesis
      by (auto simp: binary_search_window.simps [of xs x lo hi] Let_def split: if_splits)
  qed
qed

lemma binary_search_complete:
  assumes "sorted_wrt (<) xs" and "hi \<le> length xs" and "lo \<le> i" and "i < hi" and "xs ! i = x"
  shows "binary_search_window xs x lo hi"
  using assms
proof (induction xs x lo hi rule: binary_search_window.induct)
  case (1 xs x lo hi)
  let ?mid = "(lo + hi) div 2"
  note p = "1.prems"
  from p have mid: "lo \<le> ?mid" "?mid < hi" "?mid < length xs" "lo < hi" by linarith+
  consider "i = ?mid" | "?mid < i" | "i < ?mid" by linarith
  then show ?case
  proof cases
    case 1
    with p mid show ?thesis by (simp add: binary_search_window.simps [of xs x lo hi] Let_def)
  next
    case 2
    with p mid have lt: "xs ! ?mid < x" by (auto simp: sorted_wrt_iff_nth_less)
    have "binary_search_window xs x (Suc ?mid) hi"
      by (rule "1.IH"(1)) (use 2 p mid lt in auto)
    with lt mid show ?thesis by (simp add: binary_search_window.simps [of xs x lo hi] Let_def)
  next
    case 3
    with p mid have gt: "x < xs ! ?mid" by (auto simp: sorted_wrt_iff_nth_less)
    have "binary_search_window xs x lo ?mid"
      by (rule "1.IH"(2)) (use 3 p mid gt in auto)
    with gt mid show ?thesis
      by (auto simp: binary_search_window.simps [of xs x lo hi] Let_def)
  qed
qed

lemma capability_contains_sound: "capability_contains cs c \<Longrightarrow> c \<in> set cs"
  using binary_search_sound [of cs c 0 "length cs"] by (auto simp: capability_contains_def)

lemma capability_contains_exact:
  assumes "capability_set_validate cs = Inr ()"
  shows "capability_contains cs c \<longleftrightarrow> c \<in> set cs"
proof
  assume "c \<in> set cs"
  then obtain i where "i < length cs" "cs ! i = c" by (auto simp: in_set_conv_nth)
  moreover from assms have "sorted_wrt (<) cs"
    by (auto simp: capability_set_validate_def window_not_increasing_iff [symmetric] split: if_splits)
  ultimately show "capability_contains cs c"
    unfolding capability_contains_def by (intro binary_search_complete [of cs _ 0 i]) auto
qed (rule capability_contains_sound)

end
