(* ===== verification/Run_Control.thy ===== *)
theory Run_Control
  imports App_Contracts
begin

text \<open>
  The run-control grammar and the lifecycle reducer of \<open>src/run_control.rs\<close>. The reducer
  combines validated daemon responses into one view: it binds the view to one run, refuses
  snapshots that regress, and accepts event pages only as a contiguous continuation under
  a fixed watermark whose events follow the lifecycle graph.
\<close>

section \<open>The command grammar\<close>

datatype run_backend_arg = ArgAbi | ArgFoundationModels

fun backend_of_arg :: "run_backend_arg \<Rightarrow> backend_selection" where
  "backend_of_arg ArgAbi = Abi"
| "backend_of_arg ArgFoundationModels = FoundationModels"

datatype run_mode_arg = ArgOneShot | ArgBackground

fun mode_of_arg :: "run_mode_arg \<Rightarrow> run_mode" where
  "mode_of_arg ArgOneShot = OneShot"
| "mode_of_arg ArgBackground = Background"

datatype run_control_cli_command =
    CliSubmit run_backend_arg run_mode_arg "idempotency_key option" "conversation_id option"
      "string list" bool "string list"
  | CliStatus run_id bool
  | CliCancel run_id bool
  | CliEvents run_id nat "nat option" nat bool

fun cli_json :: "run_control_cli_command \<Rightarrow> bool" where
  "cli_json (CliSubmit _ _ _ _ _ json _) = json"
| "cli_json (CliStatus _ json) = json"
| "cli_json (CliCancel _ json) = json"
| "cli_json (CliEvents _ _ _ _ json) = json"

fun join_words :: "string list \<Rightarrow> string" where
  "join_words [] = []"
| "join_words [w] = w"
| "join_words (w # ws) = w @ '' '' @ join_words ws"

text \<open>The generated default idempotency key (\<open>Uuid::new_v4\<close>) is the argument \<open>fresh_key\<close>.\<close>

fun cli_command :: "idempotency_key \<Rightarrow> run_control_cli_command \<Rightarrow> app_command" where
  "cli_command fresh_key (CliSubmit backend mode key conversation labels _ input) =
     CmdSubmitRun
       \<lparr>req_idempotency_key = (case key of None \<Rightarrow> fresh_key | Some k \<Rightarrow> k),
        req_conversation_id = conversation, req_mode = mode_of_arg mode,
        req_backend = backend_of_arg backend, req_input = join_words input,
        req_labels = labels\<rparr>"
| "cli_command fresh_key (CliStatus rid _) = CmdGetRun \<lparr>rq_run_id = rid\<rparr>"
| "cli_command fresh_key (CliCancel rid _) = CmdCancelRun \<lparr>rq_run_id = rid\<rparr>"
| "cli_command fresh_key (CliEvents rid after through limit _) =
     CmdRunEvents \<lparr>eq_run_id = rid, eq_after_sequence = after, eq_through_sequence = through,
                   eq_limit = limit\<rparr>"

definition into_app_command ::
    "idempotency_key \<Rightarrow> run_control_cli_command \<Rightarrow> validation_error + app_command" where
  "into_app_command fresh_key c =
     (let command = cli_command fresh_key c in
      bindr (app_command_validate command) (\<lambda>_. Inr command))"

section \<open>The reducer\<close>

record run_control_view =
  view_snapshot :: "run_snapshot option"
  view_submission :: "run_submission_disposition option"
  view_event_pages :: "run_event_page list"

definition empty_view :: run_control_view where
  "empty_view = \<lparr>view_snapshot = None, view_submission = None, view_event_pages = []\<rparr>"

definition view_run_id :: "run_control_view \<Rightarrow> run_id option" where
  "view_run_id v =
     (case view_snapshot v of
        Some snapshot \<Rightarrow> Some (snap_run_id snapshot)
      | None \<Rightarrow> (case view_event_pages v of [] \<Rightarrow> None | page # _ \<Rightarrow> Some (page_run_id page)))"

datatype run_control_error =
    InvalidCommand | InvalidEvent | MismatchedResponse | MismatchedRun | SnapshotRegression
  | PaginationRegression | LifecycleRegression

fun event_state :: "run_lifecycle_event \<Rightarrow> run_state" where
  "event_state EvQueued = Queued"
| "event_state EvStarting = Starting"
| "event_state EvRunning = Running"
| "event_state EvCancelRequested = CancelRequested"
| "event_state EvSucceeded = Succeeded"
| "event_state (EvFailed _) = Failed"
| "event_state (EvCancelled _) = Cancelled"
| "event_state (EvInterrupted _) = Interrupted"

definition snapshot_state_can_follow :: "run_state \<Rightarrow> run_state \<Rightarrow> bool" where
  "snapshot_state_can_follow previous next =
     (if previous = next then True
      else case previous of
        Queued \<Rightarrow> True
      | Starting \<Rightarrow> next \<noteq> Queued
      | Running \<Rightarrow> next \<notin> {Queued, Starting}
      | CancelRequested \<Rightarrow> is_terminal next
      | _ \<Rightarrow> False)"

definition bind_run :: "run_control_view \<Rightarrow> run_id \<Rightarrow> run_control_error + unit" where
  "bind_run v rid =
     (if (case view_run_id v of None \<Rightarrow> False | Some current \<Rightarrow> current \<noteq> rid)
      then Inl MismatchedRun else Inr ())"

definition snapshot_regresses :: "run_snapshot \<Rightarrow> run_snapshot \<Rightarrow> bool" where
  "snapshot_regresses previous snapshot \<longleftrightarrow>
     snap_event_count snapshot < snap_event_count previous
   \<or> snap_idempotency_key snapshot \<noteq> snap_idempotency_key previous
   \<or> snap_conversation_id snapshot \<noteq> snap_conversation_id previous
   \<or> snap_created_at snapshot \<noteq> snap_created_at previous
   \<or> (snap_state snapshot \<noteq> snap_state previous
      \<and> snap_event_count snapshot = snap_event_count previous)
   \<or> (is_terminal (snap_state previous) \<and> snapshot \<noteq> previous)
   \<or> \<not> snapshot_state_can_follow (snap_state previous) (snap_state snapshot)"

definition merge_snapshot ::
    "run_control_view \<Rightarrow> run_snapshot \<Rightarrow> run_control_error + run_control_view" where
  "merge_snapshot v snapshot =
     bindr (bind_run v (snap_run_id snapshot)) (\<lambda>_.
       if (case view_snapshot v of None \<Rightarrow> False
             | Some previous \<Rightarrow> snapshot_regresses previous snapshot)
       then Inl SnapshotRegression
       else Inr (v\<lparr>view_snapshot := Some snapshot\<rparr>))"

fun event_order_loop :: "run_state option \<Rightarrow> run_event_record list \<Rightarrow> run_control_error + unit" where
  "event_order_loop previous [] = Inr ()"
| "event_order_loop previous (r # rs) =
     (let state = event_state (er_event r) in
      if (case previous of None \<Rightarrow> False | Some p \<Rightarrow> \<not> can_step p state)
      then Inl LifecycleRegression
      else event_order_loop (Some state) rs)"

definition last_event_state :: "run_event_page option \<Rightarrow> run_state option" where
  "last_event_state previous =
     (case previous of None \<Rightarrow> None
      | Some p \<Rightarrow> if page_events p = [] then None
                  else Some (event_state (er_event (last (page_events p)))))"

definition validate_event_order ::
    "run_event_page option \<Rightarrow> run_event_page \<Rightarrow> run_control_error + unit" where
  "validate_event_order previous page =
     (if page_after_sequence page = 0
         \<and> (case page_events page of [] \<Rightarrow> False | r # _ \<Rightarrow> er_event r \<noteq> EvQueued)
      then Inl LifecycleRegression
      else event_order_loop (last_event_state previous) (page_events page))"

definition last_page :: "run_control_view \<Rightarrow> run_event_page option" where
  "last_page v = (if view_event_pages v = [] then None else Some (last (view_event_pages v)))"

definition merge_page ::
    "run_control_view \<Rightarrow> run_events_query \<Rightarrow> run_event_page \<Rightarrow>
     run_control_error + run_control_view" where
  "merge_page v query page =
     (if page_run_id page \<noteq> eq_run_id query
         \<or> page_after_sequence page \<noteq> eq_after_sequence query
         \<or> (case eq_through_sequence query of None \<Rightarrow> False
              | Some through \<Rightarrow> through \<noteq> page_through_sequence page)
         \<or> length (page_events page) > eq_limit query
      then Inl MismatchedResponse
      else bindr (bind_run v (page_run_id page)) (\<lambda>_.
        if (case last_page v of None \<Rightarrow> False
              | Some previous \<Rightarrow>
                  eq_after_sequence query \<noteq> page_next_after_sequence previous
                  \<or> eq_through_sequence query \<noteq> Some (page_through_sequence previous)
                  \<or> page_through_sequence page \<noteq> page_through_sequence previous
                  \<or> \<not> page_has_more previous)
        then Inl PaginationRegression
        else bindr (validate_event_order (last_page v) page) (\<lambda>_.
          Inr (v\<lparr>view_event_pages := view_event_pages v @ [page]\<rparr>))))"

fun apply_matched ::
    "run_control_view \<Rightarrow> app_command \<Rightarrow> app_event \<Rightarrow> run_control_error + run_control_view" where
  "apply_matched v (CmdSubmitRun request) (EvtRunSubmitted submission) =
     (if snap_idempotency_key (sub_run submission) \<noteq> req_idempotency_key request
         \<or> snap_conversation_id (sub_run submission) \<noteq> req_conversation_id request
      then Inl MismatchedResponse
      else bindr (merge_snapshot v (sub_run submission)) (\<lambda>v'.
             Inr (v'\<lparr>view_submission := Some (sub_disposition submission)\<rparr>)))"
| "apply_matched v (CmdGetRun query) (EvtRunStatus snapshot) =
     (if snap_run_id snapshot \<noteq> rq_run_id query then Inl MismatchedResponse
      else merge_snapshot v snapshot)"
| "apply_matched v (CmdCancelRun query) (EvtCancellationAcknowledged snapshot) =
     (if snap_run_id snapshot \<noteq> rq_run_id query then Inl MismatchedResponse
      else merge_snapshot v snapshot)"
| "apply_matched v (CmdRunEvents query) (EvtRunEvents page) = merge_page v query page"
| "apply_matched v _ _ = Inl MismatchedResponse"

definition reducer_apply ::
    "externals \<Rightarrow> run_control_view \<Rightarrow> app_command \<Rightarrow> app_event \<Rightarrow>
     run_control_error + run_control_view" where
  "reducer_apply E v command event =
     bindr (map_err (\<lambda>_. InvalidCommand) (app_command_validate command)) (\<lambda>_.
     bindr (map_err (\<lambda>_. InvalidEvent) (app_event_validate E event)) (\<lambda>_.
       apply_matched v command event))"

definition next_events_command ::
    "run_control_view \<Rightarrow> nat \<Rightarrow> run_control_error + app_command option" where
  "next_events_command v limit =
     (if limit = 0 \<or> limit > MAX_RUN_EVENT_PAGE then Inl InvalidCommand
      else case last_page v of None \<Rightarrow> Inr None
      | Some page \<Rightarrow>
          if \<not> page_has_more page then Inr None
          else Inr (Some (CmdRunEvents
                 \<lparr>eq_run_id = page_run_id page,
                  eq_after_sequence = page_next_after_sequence page,
                  eq_through_sequence = Some (page_through_sequence page),
                  eq_limit = limit\<rparr>)))"

section \<open>Labels of the rendered view\<close>

fun submission_label :: "run_submission_disposition \<Rightarrow> string" where
  "submission_label Enqueued = ''enqueued''"
| "submission_label Existing = ''existing''"
| "submission_label QueueFull = ''queue_full''"

fun state_label :: "run_state \<Rightarrow> string" where
  "state_label Queued = ''queued''"
| "state_label Starting = ''starting''"
| "state_label Running = ''running''"
| "state_label CancelRequested = ''cancel_requested''"
| "state_label Succeeded = ''succeeded''"
| "state_label Failed = ''failed''"
| "state_label Cancelled = ''cancelled''"
| "state_label Interrupted = ''interrupted''"

fun lifecycle_label :: "run_lifecycle_event \<Rightarrow> string" where
  "lifecycle_label EvQueued = ''queued''"
| "lifecycle_label EvStarting = ''starting''"
| "lifecycle_label EvRunning = ''running''"
| "lifecycle_label EvCancelRequested = ''cancel_requested''"
| "lifecycle_label EvSucceeded = ''succeeded''"
| "lifecycle_label (EvFailed _) = ''failed''"
| "lifecycle_label (EvCancelled _) = ''cancelled''"
| "lifecycle_label (EvInterrupted _) = ''interrupted''"

section \<open>The view invariant\<close>

definition all_events :: "run_event_page list \<Rightarrow> run_event_record list" where
  "all_events pages = concat (map page_events pages)"

definition event_states :: "run_event_page list \<Rightarrow> run_state list" where
  "event_states pages = map (\<lambda>r. event_state (er_event r)) (all_events pages)"

text \<open>Consecutive pages: same run and watermark, each page starts where its predecessor ended.\<close>

fun pages_linked :: "run_event_page list \<Rightarrow> bool" where
  "pages_linked (p # q # ps) =
     (page_run_id q = page_run_id p \<and> page_after_sequence q = page_next_after_sequence p
      \<and> page_through_sequence q = page_through_sequence p \<and> page_has_more p
      \<and> pages_linked (q # ps))"
| "pages_linked _ = True"

definition ordered_states :: "run_state list \<Rightarrow> bool" where
  "ordered_states ss = (case ss of [] \<Rightarrow> True | s # ts \<Rightarrow> lifecycle_path s ts)"

definition view_invariant :: "run_control_view \<Rightarrow> bool" where
  "view_invariant v \<longleftrightarrow>
     (\<forall>p\<in>set (view_event_pages v). page_shape p)
   \<and> pages_linked (view_event_pages v)
   \<and> ordered_states (event_states (view_event_pages v))
   \<and> (\<forall>p ps. view_event_pages v = p # ps \<and> page_after_sequence p = 0 \<and> page_events p \<noteq> [] \<longrightarrow>
        er_event (hd (page_events p)) = EvQueued)
   \<and> (\<forall>rid. view_run_id v = Some rid \<longrightarrow>
        (\<forall>p\<in>set (view_event_pages v). page_run_id p = rid))"

lemma empty_view_invariant: "view_invariant empty_view"
  by (simp add: view_invariant_def empty_view_def event_states_def all_events_def
      ordered_states_def view_run_id_def)

lemma pages_linked_snoc:
  "pages_linked (ps @ [p, q]) \<longleftrightarrow> pages_linked (ps @ [p]) \<and>
     page_run_id q = page_run_id p \<and> page_after_sequence q = page_next_after_sequence p
     \<and> page_through_sequence q = page_through_sequence p \<and> page_has_more p"
proof (induction ps)
  case Nil
  show ?case by auto
next
  case (Cons x ps)
  then show ?case by (cases ps) auto
qed

lemma event_order_loop_path:
  "event_order_loop (Some s) rs = Inr () \<longleftrightarrow>
     lifecycle_path s (map (\<lambda>r. event_state (er_event r)) rs)"
  by (induction rs arbitrary: s)
    (auto simp: lifecycle_path_Nil lifecycle_path_Cons Let_def)

lemma event_order_loop_None:
  "event_order_loop None rs = Inr () \<longleftrightarrow>
     ordered_states (map (\<lambda>r. event_state (er_event r)) rs)"
  by (cases rs) (auto simp: ordered_states_def event_order_loop_path Let_def)

lemma ordered_states_append:
  assumes "ordered_states ss" and "ss \<noteq> []" and "lifecycle_path (last ss) ts"
  shows "ordered_states (ss @ ts)"
  using assms by (cases ss) (auto simp: ordered_states_def lifecycle_path_append)

lemma merge_snapshot_pages [simp]:
  "merge_snapshot v s = Inr v' \<Longrightarrow> view_event_pages v' = view_event_pages v"
  by (auto simp: merge_snapshot_def rust_simps split: if_splits)

lemma bind_run_ok: "bind_run v rid = Inr () \<longleftrightarrow> view_run_id v \<in> {None, Some rid}"
  by (cases "view_run_id v") (auto simp: bind_run_def)

lemma view_run_id_Some: "view_run_id (v\<lparr>view_snapshot := Some s\<rparr>) = Some (snap_run_id s)"
  by (simp add: view_run_id_def)

lemma view_run_id_submission [simp]: "view_run_id (v\<lparr>view_submission := d\<rparr>) = view_run_id v"
  by (cases "view_snapshot v"; cases "view_event_pages v") (simp_all add: view_run_id_def)

lemma view_run_id_page:
  "view_run_id (v\<lparr>view_event_pages := view_event_pages v @ [p]\<rparr>) =
     (case view_run_id v of None \<Rightarrow> Some (page_run_id p) | Some r \<Rightarrow> Some r)"
  by (cases "view_snapshot v"; cases "view_event_pages v") (simp_all add: view_run_id_def)

lemma merge_snapshot_run_id:
  assumes "merge_snapshot v s = Inr v'"
  shows "view_run_id v' = Some (snap_run_id s) \<and> view_run_id v \<in> {None, Some (snap_run_id s)}"
proof -
  from assms have "v' = v\<lparr>view_snapshot := Some s\<rparr>" and "bind_run v (snap_run_id s) = Inr ()"
    by (simp_all add: merge_snapshot_def rust_simps split: if_splits)
  then show ?thesis by (simp add: view_run_id_Some bind_run_ok)
qed

lemma view_run_id_None_pages: "view_run_id v = None \<Longrightarrow> view_event_pages v = []"
  by (auto simp: view_run_id_def split: option.splits list.splits)

lemma merge_snapshot_invariant:
  assumes inv: "view_invariant v" and ok: "merge_snapshot v s = Inr v'"
  shows "view_invariant v'"
proof -
  from merge_snapshot_run_id [OF ok]
  have "\<forall>rid. view_run_id v' = Some rid \<longrightarrow> (\<forall>p\<in>set (view_event_pages v). page_run_id p = rid)"
    using inv view_run_id_None_pages [of v] by (auto simp: view_invariant_def)
  with inv merge_snapshot_pages [OF ok] show ?thesis
    by (simp add: view_invariant_def)
qed

lemma submission_update_invariant:
  "view_invariant (v\<lparr>view_submission := d\<rparr>) = view_invariant v"
  by (simp add: view_invariant_def)

lemma event_states_snoc:
  "event_states (ps @ [p]) =
     event_states ps @ map (\<lambda>r. event_state (er_event r)) (page_events p)"
  by (simp add: event_states_def all_events_def)

lemma last_event_states:
  "page_events p \<noteq> [] \<Longrightarrow>
     event_states (ps @ [p]) \<noteq> [] \<and>
     last (event_states (ps @ [p])) = event_state (er_event (last (page_events p)))"
  by (simp add: event_states_snoc last_map)

text \<open>What an accepted page looks like to the reducer.\<close>

lemma merge_page_accepted:
  assumes "merge_page v q page = Inr v'"
  shows "v' = v\<lparr>view_event_pages := view_event_pages v @ [page]\<rparr>"
    and "page_run_id page = eq_run_id q" and "page_after_sequence page = eq_after_sequence q"
    and "bind_run v (page_run_id page) = Inr ()"
    and "validate_event_order (last_page v) page = Inr ()"
    and "\<And>p. last_page v = Some p \<Longrightarrow>
           page_after_sequence page = page_next_after_sequence p
         \<and> page_through_sequence page = page_through_sequence p \<and> page_has_more p"
  using assms by (auto simp: merge_page_def rust_simps split: if_splits option.splits)

lemma merge_page_linked:
  assumes inv: "view_invariant v" and ok: "merge_page v q page = Inr v'"
  shows "pages_linked (view_event_pages v')"
proof (cases "view_event_pages v" rule: rev_cases)
  case Nil
  with merge_page_accepted(1) [OF ok] show ?thesis by simp
next
  case (snoc ps p)
  then have lp: "last_page v = Some p" by (simp add: last_page_def)
  from snoc obtain p0 where p0: "view_run_id v = Some p0"
    using view_run_id_None_pages [of v] by (cases "view_run_id v") auto
  with inv snoc have "page_run_id p = p0" by (auto simp: view_invariant_def)
  moreover from merge_page_accepted(4) [OF ok] p0 have "page_run_id page = p0"
    by (simp add: bind_run_def split: if_splits)
  ultimately show ?thesis
    using merge_page_accepted(1) [OF ok] merge_page_accepted(6) [OF ok lp] inv snoc
    by (simp add: view_invariant_def pages_linked_snoc)
qed

lemma merge_page_ordered:
  assumes inv: "view_invariant v" and ok: "merge_page v q page = Inr v'"
  shows "ordered_states (event_states (view_event_pages v'))"
proof (cases "view_event_pages v" rule: rev_cases)
  case Nil
  with merge_page_accepted(1,5) [OF ok] show ?thesis
    by (simp add: last_page_def validate_event_order_def last_event_state_def
        event_order_loop_None event_states_def all_events_def split: if_splits)
next
  case (snoc ps p)
  then have lp: "last_page v = Some p" by (simp add: last_page_def)
  from inv snoc have "page_shape p" by (simp add: view_invariant_def)
  with merge_page_accepted(6) [OF ok lp] have ne: "page_events p \<noteq> []"
    by (simp add: page_shape_def)
  from merge_page_accepted(5) [OF ok] lp ne
  have path: "lifecycle_path (event_state (er_event (last (page_events p))))
      (map (\<lambda>r. event_state (er_event r)) (page_events page))"
    by (simp add: validate_event_order_def last_event_state_def event_order_loop_path
        split: if_splits)
  from inv snoc have "ordered_states (event_states (ps @ [p]))" by (simp add: view_invariant_def)
  then have "ordered_states (event_states (ps @ [p]) @
      map (\<lambda>r. event_state (er_event r)) (page_events page))"
    by (rule ordered_states_append) (use last_event_states [OF ne, of ps] path in auto)
  moreover from merge_page_accepted(1) [OF ok] snoc
  have "view_event_pages v' = (ps @ [p]) @ [page]" by simp
  ultimately show ?thesis by (simp only: event_states_snoc)
qed

lemma merge_page_invariant:
  assumes inv: "view_invariant v" and ok: "merge_page v q page = Inr v'"
    and shape: "page_shape page"
  shows "view_invariant v'"
proof -
  note acc = merge_page_accepted [OF ok]
  have first: "er_event (hd (page_events p)) = EvQueued"
    if "view_event_pages v' = p # ps" "page_after_sequence p = 0" "page_events p \<noteq> []" for p ps
  proof (cases "view_event_pages v")
    case Nil
    with acc(1) that have "p = page" by simp
    moreover from that(3) obtain r rs where rs: "page_events p = r # rs"
      by (cases "page_events p") simp_all
    ultimately have "\<not> (page_after_sequence p = 0 \<and> er_event r \<noteq> EvQueued)"
      using acc(5) by (auto simp: validate_event_order_def split: if_splits)
    with rs that(2) show ?thesis by simp
  next
    case (Cons p' ps')
    with acc(1) that have "p' = p" by simp
    with inv Cons that show ?thesis by (auto simp: view_invariant_def)
  qed
  have ids: "page_run_id p = rid"
    if "view_run_id v' = Some rid" "p \<in> set (view_event_pages v')" for p rid
  proof (cases "view_run_id v")
    case None
    with view_run_id_page [of v page] acc(1) have "view_run_id v' = Some (page_run_id page)"
      by simp
    with view_run_id_None_pages [OF None] acc(1) that show ?thesis by simp
  next
    case (Some r)
    with acc(1) have "view_run_id v' = Some r"
      by (simp add: view_run_id_page)
    moreover from acc(4) Some have "page_run_id page = r"
      by (simp add: bind_run_def split: if_splits)
    ultimately show ?thesis using inv Some acc(1) that by (auto simp: view_invariant_def)
  qed
  from inv acc(1) shape have "\<forall>p\<in>set (view_event_pages v'). page_shape p"
    by (simp add: view_invariant_def)
  with merge_page_linked [OF inv ok] merge_page_ordered [OF inv ok] first ids show ?thesis
    by (auto simp: view_invariant_def)
qed

lemma apply_matched_invariant:
  assumes "view_invariant v" and "apply_matched v c e = Inr v'" and "app_event_validate E e = Inr ()"
  shows "view_invariant v'"
  using assms
  by (induction v c e rule: apply_matched.induct)
    (auto simp: rust_simps submission_update_invariant split: if_splits
      intro: merge_snapshot_invariant merge_page_invariant run_event_page_validate_shape)

lemma reducer_apply_invariant:
  assumes "view_invariant v" and "reducer_apply E v c e = Inr v'"
  shows "view_invariant v'"
  using assms by (auto simp: reducer_apply_def rust_simps intro: apply_matched_invariant)

text \<open>A session of the reducer: any sequence of commands and responses, rejected ones included.\<close>

fun reducer_run ::
    "externals \<Rightarrow> run_control_view \<Rightarrow> (app_command \<times> app_event) list \<Rightarrow> run_control_view" where
  "reducer_run E v [] = v"
| "reducer_run E v ((c, e) # ces) =
     reducer_run E (case reducer_apply E v c e of Inl _ \<Rightarrow> v | Inr v' \<Rightarrow> v') ces"

lemma reducer_run_invariant: "view_invariant v \<Longrightarrow> view_invariant (reducer_run E v ces)"
proof (induction E v ces rule: reducer_run.induct)
  case (2 E v c e ces)
  have "view_invariant (case reducer_apply E v c e of Inl _ \<Rightarrow> v | Inr v' \<Rightarrow> v')"
    using "2.prems" by (auto dest: reducer_apply_invariant split: sum.split)
  then show ?case using "2.IH" by simp
qed simp

lemma linked_sequences:
  assumes "pages_linked (p # ps)" and "\<forall>q\<in>set (p # ps). page_shape q"
  shows "map er_sequence (all_events (p # ps)) =
           [Suc (page_after_sequence p)..<Suc (page_next_after_sequence (last (p # ps)))]"
    and "page_after_sequence p \<le> page_next_after_sequence (last (p # ps))"
proof -
  have "map er_sequence (all_events (p # ps)) =
          [Suc (page_after_sequence p)..<Suc (page_next_after_sequence (last (p # ps)))] \<and>
        page_after_sequence p \<le> page_next_after_sequence (last (p # ps))"
    using assms
  proof (induction ps arbitrary: p)
    case Nil
    then show ?case by (simp add: all_events_def page_shape_def)
  next
    case (Cons q ps)
    let ?n = "page_next_after_sequence (last (q # ps))"
    from Cons.prems have link: "page_after_sequence q = page_next_after_sequence p"
      and p: "map er_sequence (page_events p) =
        [Suc (page_after_sequence p)..<Suc (page_next_after_sequence p)]"
        "page_after_sequence p \<le> page_next_after_sequence p"
      by (auto simp: page_shape_def)
    from Cons.IH [of q] Cons.prems have IH: "map er_sequence (all_events (q # ps)) =
        [Suc (page_after_sequence q)..<Suc ?n]" "page_after_sequence q \<le> ?n"
      by auto
    have "[Suc (page_after_sequence p)..<Suc (page_next_after_sequence p)] @
        [Suc (page_next_after_sequence p)..<Suc ?n] = [Suc (page_after_sequence p)..<Suc ?n]"
      using p(2) IH(2) link by (metis Suc_le_mono le_add_diff_inverse upt_add_eq_append)
    with p IH link show ?case by (simp add: all_events_def del: upt_Suc)
  qed
  then show "map er_sequence (all_events (p # ps)) =
      [Suc (page_after_sequence p)..<Suc (page_next_after_sequence (last (p # ps)))]"
    and "page_after_sequence p \<le> page_next_after_sequence (last (p # ps))" by blast+
qed

lemma snapshot_follow_rank:
  "snapshot_state_can_follow s t \<Longrightarrow> lifecycle_rank s \<le> lifecycle_rank t"
  by (cases s; cases t) (simp_all add: snapshot_state_can_follow_def)

lemma merge_snapshot_accepts:
  assumes "merge_snapshot v s = Inr v'" and "view_snapshot v = Some old"
  shows "\<not> snapshot_regresses old s" and "snap_run_id s = snap_run_id old"
  using assms
  by (auto simp: merge_snapshot_def bind_run_def view_run_id_def rust_simps split: if_splits)

end
