(* ===== verification/Run_Pages.thy ===== *)
theory Run_Pages
  imports Run_Ledger Run_Control
begin

text \<open>
  Pagination of the event log and its consumer. A page of \<open>run_events_page\<close> is exactly a
  slice of the projected log, whatever the limit and the cursor, and pages that share a
  watermark are not changed by later writes. The reducer of \<open>src/run_control.rs\<close> accepts
  the pages of the store one after the other and ends with the whole log.
\<close>

section \<open>Slices of the log\<close>

lemma sequence_range:
  assumes "map ew_sequence es = map int [m..<n]" and "x \<in> set es"
  shows "int m \<le> ew_sequence x \<and> ew_sequence x < int n"
proof -
  have "ew_sequence x \<in> set (map int [m..<n])"
    unfolding assms(1) [symmetric] using assms(2) by simp
  then show ?thesis by auto
qed

lemma prefix_filter:
  assumes "map ew_sequence es = map int [m..<m + length es]"
  shows "filter (\<lambda>e. ew_sequence e \<le> int w) es = take (Suc w - m) es"
  using assms
proof (induction es arbitrary: m)
  case (Cons e es)
  then have e: "ew_sequence e = int m"
    and es: "map ew_sequence es = map int [Suc m..<Suc m + length es]"
    by (simp_all add: upt_conv_Cons del: upt_Suc)
  show ?case
  proof (cases "m \<le> w")
    case True
    with Cons.IH [OF es] e show ?thesis by (simp add: Suc_diff_le)
  next
    case False
    have "\<forall>y\<in>set es. \<not> ew_sequence y \<le> int w"
      using sequence_range [OF es] False by fastforce
    with False e show ?thesis by (auto simp: filter_empty_conv)
  qed
qed simp

lemma slice_filter:
  assumes "map ew_sequence es = map int [m..<m + length es]" and "m \<le> Suc a"
  shows "filter (\<lambda>e. int a < ew_sequence e \<and> ew_sequence e \<le> int w) es
       = take (w - a) (drop (Suc a - m) es)"
  using assms
proof (induction es arbitrary: m)
  case (Cons e es)
  from Cons.prems(1) have e: "ew_sequence e = int m"
    and es: "map ew_sequence es = map int [Suc m..<Suc m + length es]"
    by (simp_all add: upt_conv_Cons del: upt_Suc)
  show ?case
  proof (cases "m = Suc a")
    case False
    with Cons.IH [OF es] Cons.prems(2) e show ?thesis by (simp add: Suc_diff_le)
  next
    case True
    have "\<forall>x\<in>set es. int a < ew_sequence x"
      using sequence_range [OF es] True by fastforce
    then have "filter (\<lambda>e. int a < ew_sequence e \<and> ew_sequence e \<le> int w) (e # es)
        = filter (\<lambda>e. ew_sequence e \<le> int w) (e # es)"
      using e True by (intro filter_cong) auto
    with prefix_filter [OF Cons.prems(1)] True show ?thesis by simp
  qed
qed simp

lemma sorted_events:
  assumes "map ew_sequence es = map int [m..<n]"
  shows "sort_key ew_sequence (filter P es) = filter P es"
proof -
  have "sorted (map ew_sequence es)" unfolding assms by (simp add: sorted_map sorted_wrt_mono_rel)
  then show ?thesis by (intro sort_key_id_if_sorted) (rule sorted_filter)
qed

lemma page_rows_slice:
  assumes wf: "db_wf E d" and run: "run_by_id E d rid = Inr (Some run)"
  shows "page_rows d rid (int a) (int w) l = take l (take (w - a) (drop a (events_of d rid)))"
proof -
  have seq: "map ew_sequence (events_of d rid) = map int [1..<rec_next_event_sequence run]"
    using wf run by (rule run_by_id_row) blast
  then have "length (events_of d rid) = rec_next_event_sequence run - 1"
    by (metis length_map length_upt)
  with seq have "map ew_sequence (events_of d rid) = map int [1..<1 + length (events_of d rid)]"
    by (cases "rec_next_event_sequence run") simp_all
  from slice_filter [OF this, of a w] show ?thesis
    unfolding page_rows_def by (subst sorted_events [OF seq]) simp
qed

lemma take_upt_min: "take l [m..<n] = [m..<m + min l (n - m)]"
proof (cases "m + l \<le> n")
  case False
  then have "take l [m..<n] = [m..<n]" by simp
  moreover have "m + min l (n - m) = n \<or> n \<le> m" using False by linarith
  ultimately show ?thesis by auto
qed (simp add: take_upt)

section \<open>The projected log\<close>

text \<open>
  The whole log of a run crosses the application boundary as \<open>recs\<close>: the newest event is
  checked against the state of the run, the others stand alone.
\<close>

definition event_projects ::
    "externals \<Rightarrow> run_record \<Rightarrow> event_row \<Rightarrow> run_event_record \<Rightarrow> bool" where
  "event_projects E run row r \<longleftrightarrow>
     (\<exists>e. row_to_event E row = Inr e
        \<and> project_run_event E e
            (if Suc (ev_sequence e) = rec_next_event_sequence run then Some (rec_status run) else None)
          = Inr r)"

definition log_projects ::
    "externals \<Rightarrow> db \<Rightarrow> run_record \<Rightarrow> run_event_record list \<Rightarrow> bool" where
  "log_projects E d run recs \<longleftrightarrow> list_all2 (event_projects E run) (events_of d (rec_id run)) recs"

lemma event_projects_fields:
  assumes "event_projects E run row r"
  shows "er_run_id r = ew_run_id row" "int (er_sequence r) = ew_sequence row"
    "run_event_record_validate E r = Inr ()"
proof -
  from assms obtain e st where e: "row_to_event E row = Inr e"
    and r: "project_run_event E e st = Inr r" unfolding event_projects_def by blast
  from r have "er_run_id r = ev_run_id e" "er_sequence r = ev_sequence e"
    and "run_event_record_validate E r = Inr ()"
    by (auto simp: project_run_event_def Let_def rust_simps split: if_splits)
  moreover from e have "ew_sequence row = int (ev_sequence e)"
    "ev_run_id e = ew_run_id row"
    by (auto simp: row_to_event_def rust_simps)
  ultimately show "er_run_id r = ew_run_id row" "int (er_sequence r) = ew_sequence row"
    "run_event_record_validate E r = Inr ()" by simp_all
qed

lemma list_all2_map_eq: "list_all2 P xs ys \<Longrightarrow> (\<And>x y. P x y \<Longrightarrow> f x = g y) \<Longrightarrow> map f xs = map g ys"
  by (induction rule: list_all2_induct) auto

lemma log_projects_shape:
  assumes wf: "db_wf E d" and run: "run_by_id E d rid = Inr (Some run)"
    and log: "log_projects E d run recs"
  shows "map er_sequence recs = [1..<rec_next_event_sequence run]"
    and "Suc (length recs) = rec_next_event_sequence run"
    and "\<And>r. r \<in> set recs \<Longrightarrow> er_run_id r = rid \<and> run_event_record_validate E r = Inr ()"
proof -
  have rid: "rec_id run = rid" using run by (rule run_by_id_rec_id)
  have l2: "list_all2 (event_projects E run) (events_of d rid) recs"
    using log by (simp add: log_projects_def rid)
  obtain row where seq: "map ew_sequence (events_of d rid) = map int [1..<rec_next_event_sequence run]"
    and ge: "2 \<le> rec_next_event_sequence run"
    using wf run by (rule run_by_id_row) blast
  have "map ew_sequence (events_of d rid) = map (\<lambda>r. int (er_sequence r)) recs"
    using l2 by (rule list_all2_map_eq) (simp add: event_projects_fields)
  then have "map int (map er_sequence recs) = map int [1..<rec_next_event_sequence run]"
    using seq by simp
  then show seqs: "map er_sequence recs = [1..<rec_next_event_sequence run]"
    using inj_map_eq_map [of int] by (metis inj_of_nat)
  show "Suc (length recs) = rec_next_event_sequence run"
    using arg_cong [OF seqs, of length] ge by simp
  show "er_run_id r = rid \<and> run_event_record_validate E r = Inr ()" if "r \<in> set recs" for r
  proof -
    from that l2 obtain row where "row \<in> set (events_of d rid)" "event_projects E run row r"
      by (metis in_set_conv_nth list_all2_conv_all_nth)
    then show ?thesis using event_projects_fields by (fastforce simp: events_of_def)
  qed
qed

lemma collect_projected:
  assumes "list_all2 (event_projects E run) rows recs" and "Suc w = rec_next_event_sequence run"
  shows "bindr (collect_results (row_to_event E) rows) (\<lambda>raw.
           bindr (collect_results (\<lambda>event. project_run_event E event
             (if ev_sequence event = w then Some (rec_status run) else None)) raw) f) = f recs"
proof -
  have "\<exists>raw. collect_results (row_to_event E) rows = Inr raw
      \<and> collect_results (\<lambda>event. project_run_event E event
             (if ev_sequence event = w then Some (rec_status run) else None)) raw = Inr recs"
    using assms(1)
  proof (induction rule: list_all2_induct)
    case (Cons row rows r recs)
    from Cons(1) obtain e where "row_to_event E row = Inr e"
      "project_run_event E e (if ev_sequence e = w then Some (rec_status run) else None) = Inr r"
      unfolding event_projects_def assms(2) [symmetric] by auto
    with Cons(3) show ?case by auto
  qed simp
  then show ?thesis by auto
qed

text \<open>The page the store answers: a slice of the log, validated, with its cursor.\<close>

abbreviation log_page :: "run_id \<Rightarrow> run_event_record list \<Rightarrow> nat \<Rightarrow> nat \<Rightarrow> nat \<Rightarrow> run_event_page" where
  "log_page rid recs a w l \<equiv>
     \<lparr>page_run_id = rid, page_events = take l (drop a (take w recs)), page_after_sequence = a,
      page_next_after_sequence = min (a + l) w, page_through_sequence = w,
      page_has_more = (min (a + l) w < w)\<rparr>"

lemma validate_event_snapshot_ok:
  assumes wf: "db_wf E d" and run: "run_by_id E d rid = Inr (Some run)"
    and w: "Suc w = rec_next_event_sequence run"
  shows "validate_event_snapshot d rid w = Inr ()"
proof -
  obtain row where seq: "map ew_sequence (events_of d rid) = map int [1..<rec_next_event_sequence run]"
    and ge: "2 \<le> rec_next_event_sequence run" "rec_next_event_sequence run < i64_bound"
    using wf run by (rule run_by_id_row) blast
  have len: "length (events_of d rid) = w" using arg_cong [OF seq, of length] w by simp
  have set: "set (map ew_sequence (events_of d rid)) = int ` {1..w}"
    unfolding seq using w by (auto simp: image_iff)
  have "Min (int ` {1..w}) = 1" and "Max (int ` {1..w}) = int w"
    using ge w by (auto intro!: Min_eqI Max_eqI simp: image_iff)
  moreover have "events_of d rid \<noteq> []" using len ge w by auto
  ultimately show ?thesis
    using len ge w set
    by (simp add: validate_event_snapshot_def Let_def min_sequence_def max_sequence_def
        sql_sequence_def i64_try_from_def del: set_map)
qed

lemma run_events_page_slice:
  assumes wf: "db_wf E d" and run: "run_by_id E d rid = Inr (Some run)"
    and log: "log_projects E d run recs"
    and limit: "1 \<le> l" "l \<le> MAX_RUN_EVENT_PAGE" and w: "1 \<le> w" "w \<le> length recs" and a: "a \<le> w"
    and through: "through = Some w \<or> through = None \<and> a = 0 \<and> w = length recs"
  shows "run_events_page E d rid a through l = Inr (log_page rid recs a w l)"
proof -
  note shape = log_projects_shape [OF wf run log]
  have rid: "rec_id run = rid" using run by (rule run_by_id_rec_id)
  obtain row where i64: "rec_next_event_sequence run < i64_bound"
    using wf run by (rule run_by_id_row) blast
  let ?W = "length recs"
  have mark: "event_watermark run = Inr ?W"
    using shape(2) w by (simp add: event_watermark_def checked_sub_u64_def)
  have snap: "validate_event_snapshot d rid ?W = Inr ()"
    by (rule validate_event_snapshot_ok [OF wf run shape(2)])
  have sql: "sql_sequence a = Inr (int a)" "sql_sequence w = Inr (int w)"
    using a w i64 shape(2) by (simp_all add: sql_sequence_def i64_try_from_def)
  define R where "R = take l (drop a (take w recs))"
  have "list_all2 (event_projects E run) (events_of d rid) recs"
    using log by (simp add: log_projects_def rid)
  then have "list_all2 (event_projects E run) (take l (take (w - a) (drop a (events_of d rid))))
      (take l (take (w - a) (drop a recs)))"
    by (intro list_all2_takeI list_all2_dropI)
  then have rows: "list_all2 (event_projects E run) (page_rows d rid (int a) (int w) l) R"
    by (simp add: page_rows_slice [OF wf run] drop_take R_def)
  have len: "length R = min l (w - a)" using w by (simp add: R_def)
  then have cur: "min (a + l) w = a + length R" using a by linarith
  have "map er_sequence R = take l (drop a (take w [1..<rec_next_event_sequence run]))"
    by (simp only: R_def take_map [symmetric] drop_map [symmetric] shape(1) [symmetric])
  also have "\<dots> = [Suc a..<Suc a + length R]"
  proof -
    have "take w [1..<rec_next_event_sequence run] = [1..<Suc w]"
      using w shape(2) by (simp add: take_upt)
    then show ?thesis using len a by (simp add: take_upt_min del: upt_Suc)
  qed
  finally have seqs: "map er_sequence R = [Suc a..<Suc a + length R]" .
  have last: "last_sequence a R = min (a + l) w"
    using last_sequence_upt [OF seqs] cur by simp
  have mem: "er_run_id r = rid" "run_event_record_validate E r = Inr ()" if "r \<in> set R" for r
    using shape(3) that unfolding R_def by (meson in_set_takeD in_set_dropD)+
  have page: "log_page rid recs a w l =
      \<lparr>page_run_id = rid, page_events = R, page_after_sequence = a,
       page_next_after_sequence = a + length R, page_through_sequence = w,
       page_has_more = (a + length R < w)\<rparr>"
    by (simp only: R_def [symmetric] cur)
  have "length R \<le> MAX_RUN_EVENT_PAGE" "a + length R \<le> w" "a + length R < w \<longrightarrow> R \<noteq> []"
    using len limit a by auto
  then have "page_shape (log_page rid recs a w l)"
    unfolding page page_shape_def using seqs mem by simp
  moreover have "Suc w < u64_bound" using i64 shape(2) w i64_bound_less_u64_bound by simp
  ultimately have val: "run_event_page_validate E (log_page rid recs a w l) = Inr ()"
    using mem by (intro run_event_page_validate_complete) (simp_all add: R_def [symmetric])
  have fixed: "(case through of None \<Rightarrow> ?W | Some x \<Rightarrow> x) = w"
    and cont: "\<not> (a > 0 \<and> through = None)" using through by auto
  show ?thesis
    unfolding run_events_page_def run
    using limit cont mark snap a w
    by (simp add: fixed sql Let_def collect_projected [OF rows shape(2)] last R_def [symmetric] val [folded R_def])
qed

section \<open>Readers across later writes\<close>

text \<open>What a run record keeps along the steps of the store.\<close>

definition record_evolves :: "run_record \<Rightarrow> run_record \<Rightarrow> bool" where
  "record_evolves r r' \<longleftrightarrow>
     rec_id r' = rec_id r \<and> rec_conversation_id r' = rec_conversation_id r
   \<and> rec_idempotency_key r' = rec_idempotency_key r \<and> rec_request_digest r' = rec_request_digest r
   \<and> rec_created_at r' = rec_created_at r
   \<and> rec_next_event_sequence r \<le> rec_next_event_sequence r'
   \<and> (rec_next_event_sequence r' = rec_next_event_sequence r \<or> is_terminal (rec_status r) \<longrightarrow> r' = r)
   \<and> (rec_status r' = rec_status r \<or> lifecycle_rank (rec_status r) < lifecycle_rank (rec_status r'))"

lemma record_evolves_refl: "record_evolves r r"
  by (simp add: record_evolves_def)

lemma record_evolves_trans:
  assumes "record_evolves a b" and "record_evolves b c"
  shows "record_evolves a c"
proof (cases "b = a \<or> c = b")
  case True
  with assms show ?thesis by auto
next
  case False
  with assms have "rec_next_event_sequence a < rec_next_event_sequence b"
    "rec_next_event_sequence b < rec_next_event_sequence c" "\<not> is_terminal (rec_status a)"
    by (auto simp: record_evolves_def le_less)
  with assms show ?thesis by (auto simp: record_evolves_def)
qed

lemma store_steps_record:
  assumes "(store_step E)\<^sup>*\<^sup>* d d'" and inv: "ledger_inv E d"
    and run: "run_by_id E d rid = Inr (Some run)"
  shows "\<exists>run'. run_by_id E d' rid = Inr (Some run') \<and> record_evolves run run'
           \<and> (rec_next_event_sequence run' = rec_next_event_sequence run \<longrightarrow>
                events_of d' rid = events_of d rid)"
  using assms(1)
proof (induction rule: rtranclp_induct)
  case base
  show ?case using run record_evolves_refl by blast
next
  case (step t u)
  then obtain r where r: "run_by_id E t rid = Inr (Some r)" "record_evolves run r"
    "rec_next_event_sequence r = rec_next_event_sequence run \<longrightarrow> events_of t rid = events_of d rid"
    by blast
  have "run_step E t u rid"
    using store_step_effect [OF step.hyps(2)] store.steps_inv [OF step.hyps(1) inv] by blast
  then consider "run_by_id E u rid = run_by_id E t rid" "events_of u rid = events_of t rid"
    | nx now where "run_by_id E u rid = Inr (Some (stepped r nx now))"
        "\<not> is_terminal (rec_status r)" "nx = rec_status r \<or> can_step (rec_status r) nx"
    using r(1) unfolding run_step_def by auto
  then show ?case
  proof cases
    case 1
    with r show ?thesis by auto
  next
    case 2
    then have "record_evolves r (stepped r nx now)"
      by (auto simp: record_evolves_def dest: can_step_rank)
    with r(2) have "record_evolves run (stepped r nx now)" by (rule record_evolves_trans)
    moreover have "rec_next_event_sequence run \<le> rec_next_event_sequence r"
      using r(2) by (simp add: record_evolves_def)
    ultimately show ?thesis using 2(1) by auto
  qed
qed

lemma snapshot_follow_iff:
  "snapshot_state_can_follow s t \<longleftrightarrow> s = t \<or> lifecycle_rank s < lifecycle_rank t"
  by (cases s; cases t) (simp_all add: snapshot_state_can_follow_def)

lemma project_run_snapshot_fields:
  assumes "project_run_snapshot E d run = Inr s"
  shows "snap_run_id s = rec_id run" "snap_conversation_id s = rec_conversation_id run"
    "snap_idempotency_key s = rec_idempotency_key run" "snap_state s = rec_status run"
    "snap_created_at s = rec_created_at run" "snap_updated_at s = rec_updated_at run"
    "Suc (snap_event_count s) = rec_next_event_sequence run" "run_snapshot_validate E s = Inr ()"
  using assms
  by (auto simp: project_run_snapshot_def event_watermark_def rust_simps Let_def split: option.splits if_splits)

lemma project_run_snapshot_cong:
  "events_of d' (rec_id run) = events_of d (rec_id run) \<Longrightarrow>
   project_run_snapshot E d' run = project_run_snapshot E d run"
  by (simp add: project_run_snapshot_def validate_event_snapshot_def)

lemma run_snapshot_Some:
  "run_snapshot E d rid = Inr (Some s) \<longleftrightarrow>
     (\<exists>run. run_by_id E d rid = Inr (Some run) \<and> project_run_snapshot E d run = Inr s)"
  by (auto simp: run_snapshot_def rust_simps split: option.splits)

lemma snapshots_do_not_regress:
  assumes steps: "(store_step E)\<^sup>*\<^sup>* d d'" and inv: "ledger_inv E d"
    and s: "run_snapshot E d rid = Inr (Some s)" and s': "run_snapshot E d' rid = Inr (Some s')"
  shows "\<not> snapshot_regresses s s'"
proof -
  from s obtain run where run: "run_by_id E d rid = Inr (Some run)"
    and p: "project_run_snapshot E d run = Inr s" by (auto simp: run_snapshot_Some)
  from store_steps_record [OF steps inv run] s' obtain run' where
    run': "run_by_id E d' rid = Inr (Some run')" and ev: "record_evolves run run'"
    and evs: "rec_next_event_sequence run' = rec_next_event_sequence run \<longrightarrow>
      events_of d' rid = events_of d rid"
    and p': "project_run_snapshot E d' run' = Inr s'"
    by (auto simp: run_snapshot_Some)
  have rid: "rec_id run = rid" using run by (rule run_by_id_rec_id)
  note f = project_run_snapshot_fields [OF p] and f' = project_run_snapshot_fields [OF p']
  have same: "s' = s" if "is_terminal (rec_status run)"
  proof -
    from that ev have "run' = run" by (simp add: record_evolves_def)
    with evs p p' rid show ?thesis using project_run_snapshot_cong [of d' run d E] by simp
  qed
  have "snap_event_count s \<le> snap_event_count s'"
    using ev f(7) f'(7) by (simp add: record_evolves_def)
  moreover have "snap_state s' = snap_state s" if "snap_event_count s' = snap_event_count s"
    using ev f f' that by (simp add: record_evolves_def)
  ultimately show ?thesis
    using ev f f' same by (auto simp: snapshot_regresses_def snapshot_follow_iff record_evolves_def)
qed

text \<open>The projection of an event does not depend on when it is read.\<close>

lemma project_kind_stable:
  assumes "project_kind k p (Some s) = Inr x" and "project_kind k p st = Inr y"
    and "is_terminal s \<Longrightarrow> st = Some s \<or> st = None"
  shows "x = y"
proof (cases "k = ''run_manager_stopped''")
  case True
  with assms(1) have "s = Cancelled \<or> s = Interrupted"
    by (auto simp: project_kind_def split: run_state.splits)
  then have "st = Some s \<or> st = None" using assms(3) by auto
  with assms(1,2) True show ?thesis by (auto simp: project_kind_def)
next
  case False
  with assms(1,2) show ?thesis by (simp add: project_kind_def split: if_splits)
qed

lemma project_run_event_stable:
  assumes "project_run_event E e (Some s) = Inr x" and "project_run_event E e st = Inr y"
    and "is_terminal s \<Longrightarrow> st = Some s \<or> st = None"
  shows "x = y"
proof -
  from assms(1) obtain k where "project_kind (ev_kind e) (ev_payload e) (Some s) = Inr k"
    "x = \<lparr>er_run_id = ev_run_id e, er_sequence = ev_sequence e, er_recorded_at = ev_created_at e,
          er_event = k\<rparr>"
    by (auto simp: project_run_event_def Let_def rust_simps split: if_splits)
  moreover from assms(2) obtain k' where "project_kind (ev_kind e) (ev_payload e) st = Inr k'"
    "y = \<lparr>er_run_id = ev_run_id e, er_sequence = ev_sequence e, er_recorded_at = ev_created_at e,
          er_event = k'\<rparr>"
    by (auto simp: project_run_event_def Let_def rust_simps split: if_splits)
  ultimately show ?thesis using project_kind_stable assms(3) by metis
qed

lemma event_projects_stable:
  assumes ev: "record_evolves run run'"
    and r: "event_projects E run row r" and r': "event_projects E run' row r'"
    and row: "ew_sequence row < int (rec_next_event_sequence run)"
  shows "r' = r"
proof -
  from r obtain e where e: "row_to_event E row = Inr e"
    and p: "project_run_event E e (if Suc (ev_sequence e) = rec_next_event_sequence run
              then Some (rec_status run) else None) = Inr r"
    by (auto simp: event_projects_def)
  from r' e have p': "project_run_event E e (if Suc (ev_sequence e) = rec_next_event_sequence run'
              then Some (rec_status run') else None) = Inr r'"
    by (auto simp: event_projects_def)
  from e row have lt: "Suc (ev_sequence e) \<le> rec_next_event_sequence run"
    by (auto simp: row_to_event_Inr)
  show ?thesis
  proof (cases "Suc (ev_sequence e) = rec_next_event_sequence run")
    case True
    have "is_terminal (rec_status run) \<Longrightarrow> run' = run" using ev by (simp add: record_evolves_def)
    with project_run_event_stable [OF p [unfolded if_P [OF True]] p'] show ?thesis by auto
  next
    case False
    with lt ev have "Suc (ev_sequence e) \<noteq> rec_next_event_sequence run'"
      by (auto simp: record_evolves_def)
    with False p p' show ?thesis by simp
  qed
qed

lemma log_projects_prefix:
  assumes steps: "(store_step E)\<^sup>*\<^sup>* d d'" and inv: "ledger_inv E d"
    and run: "run_by_id E d rid = Inr (Some run)" and run': "run_by_id E d' rid = Inr (Some run')"
    and log: "log_projects E d run recs" and log': "log_projects E d' run' recs'"
  shows "take (length recs) recs' = recs"
proof -
  have wf: "db_wf E d" using inv by (simp add: ledger_inv_def)
  have rid: "rec_id run = rid" "rec_id run' = rid"
    using run run' by (auto dest: run_by_id_rec_id)
  have ev: "record_evolves run run'" using store_steps_record [OF steps inv run] run' by auto
  obtain zs where zs: "events_of d' rid = events_of d rid @ zs"
    using store.steps_log [OF steps inv, of rid] by (auto simp: prefix_def)
  have l2: "list_all2 (event_projects E run) (events_of d rid) recs"
    "list_all2 (event_projects E run') (events_of d rid @ zs) recs'"
    using log log' by (simp_all add: log_projects_def rid zs)
  then have len: "length (events_of d rid) = length recs" "length recs \<le> length recs'"
    by (auto dest!: list_all2_lengthD)
  have l2': "list_all2 (event_projects E run') (events_of d rid) (take (length recs) recs')"
    using list_all2_takeI [OF l2(2), of "length recs"] len by simp
  obtain row where seq: "map ew_sequence (events_of d rid) = map int [1..<rec_next_event_sequence run]"
    using wf run by (rule run_by_id_row) blast
  show ?thesis
  proof (rule nth_equalityI)
    show "length (take (length recs) recs') = length recs" using len by simp
  next
    fix i assume "i < length (take (length recs) recs')"
    then have i: "i < length (events_of d rid)" using len by simp
    have "ew_sequence (events_of d rid ! i) < int (rec_next_event_sequence run)"
      using sequence_range [OF seq nth_mem [OF i]] by simp
    with event_projects_stable [OF ev list_all2_nthD [OF l2(1) i] list_all2_nthD [OF l2' i]]
    show "take (length recs) recs' ! i = recs ! i" .
  qed
qed

section \<open>The reducer reads the whole log\<close>

text \<open>
  A client that keeps asking for the next page. Each request may meet a later database:
  \<open>ds\<close> are the states of the store at the successive requests, and the list running out
  is the client giving up.
\<close>

definition answer :: "externals \<Rightarrow> db \<Rightarrow> run_events_query \<Rightarrow> app_event option" where
  "answer E d q =
     (case run_events_page E d (eq_run_id q) (eq_after_sequence q) (eq_through_sequence q) (eq_limit q)
        of Inr page \<Rightarrow> Some (EvtRunEvents page) | Inl _ \<Rightarrow> None)"

definition ask :: "externals \<Rightarrow> db \<Rightarrow> run_control_view \<Rightarrow> run_events_query \<Rightarrow> run_control_view option" where
  "ask E d v q =
     (case answer E d q of None \<Rightarrow> None
      | Some ev \<Rightarrow> (case reducer_apply E v (CmdRunEvents q) ev of Inl _ \<Rightarrow> None | Inr v' \<Rightarrow> Some v'))"

fun follow ::
    "externals \<Rightarrow> nat \<Rightarrow> db list \<Rightarrow> run_control_view \<Rightarrow> run_control_view option" where
  "follow E l [] v = (if next_events_command v l = Inr None then Some v else None)"
| "follow E l (d # ds) v =
     (case next_events_command v l of
        Inr None \<Rightarrow> Some v
      | Inr (Some (CmdRunEvents q)) \<Rightarrow> Option.bind (ask E d v q) (follow E l ds)
      | _ \<Rightarrow> None)"

definition first_query :: "run_id \<Rightarrow> nat \<Rightarrow> run_events_query" where
  "first_query rid l =
     \<lparr>eq_run_id = rid, eq_after_sequence = 0, eq_through_sequence = None, eq_limit = l\<rparr>"

definition next_query :: "run_id \<Rightarrow> nat \<Rightarrow> nat \<Rightarrow> nat \<Rightarrow> run_events_query" where
  "next_query rid a w l =
     \<lparr>eq_run_id = rid, eq_after_sequence = a, eq_through_sequence = Some w, eq_limit = l\<rparr>"

text \<open>The lifecycle the records describe: it starts queued and moves along permitted transitions.\<close>

definition lifecycle_log :: "run_event_record list \<Rightarrow> bool" where
  "lifecycle_log recs \<longleftrightarrow>
     recs \<noteq> [] \<and> er_event (hd recs) = EvQueued
   \<and> ordered_states (map (\<lambda>r. event_state (er_event r)) recs)"

text \<open>The store at one request: it has grown from \<open>d0\<close> and its log still projects.\<close>

definition serves :: "externals \<Rightarrow> db \<Rightarrow> run_id \<Rightarrow> db \<Rightarrow> bool" where
  "serves E d0 rid d \<longleftrightarrow>
     (store_step E)\<^sup>*\<^sup>* d0 d
   \<and> (\<exists>run recs. run_by_id E d rid = Inr (Some run) \<and> log_projects E d run recs)"

lemma serves_page:
  assumes inv: "ledger_inv E d0" and run: "run_by_id E d0 rid = Inr (Some run)"
    and log: "log_projects E d0 run recs" and s: "serves E d0 rid d"
    and limit: "1 \<le> l" "l \<le> MAX_RUN_EVENT_PAGE" and a: "a \<le> length recs" "recs \<noteq> []"
  shows "run_events_page E d rid a (Some (length recs)) l = Inr (log_page rid recs a (length recs) l)"
proof -
  from s obtain run' recs' where run': "run_by_id E d rid = Inr (Some run')"
    and log': "log_projects E d run' recs'" and steps: "(store_step E)\<^sup>*\<^sup>* d0 d"
    by (auto simp: serves_def)
  have wf: "db_wf E d" using store.steps_inv [OF steps inv] by (simp add: ledger_inv_def)
  have pre: "take (length recs) recs' = recs"
    by (rule log_projects_prefix [OF steps inv run run' log log'])
  then have "length recs \<le> length recs'" by (metis length_take min.cobounded1)
  with run_events_page_slice [OF wf run' log' limit, of "length recs" a "Some (length recs)"] a pre
  show ?thesis by (cases recs) auto
qed

lemma page_validates:
  assumes "run_events_page E d rid a t l = Inr p"
  shows "run_event_page_validate E p = Inr ()"
  using assms by (auto simp: run_events_page_def rust_simps Let_def split: if_splits)

text \<open>The view after some pages: everything up to the cursor \<open>a\<close> of the fixed log.\<close>

definition view_at :: "run_id \<Rightarrow> run_event_record list \<Rightarrow> nat \<Rightarrow> nat \<Rightarrow> run_control_view \<Rightarrow> bool" where
  "view_at rid recs l a v \<longleftrightarrow>
     (\<exists>b. last_page v = Some (log_page rid recs b (length recs) l)
        \<and> b < length recs \<and> a = min (b + l) (length recs))
   \<and> all_events (view_event_pages v) = take a recs \<and> view_run_id v = Some rid"

lemma lifecycle_log_slice:
  assumes log: "lifecycle_log recs" and a: "0 < a" "a \<le> length recs"
  shows "event_order_loop (Some (event_state (er_event (recs ! (a - 1))))) (take l (drop a recs)) = Inr ()"
proof -
  let ?st = "map (\<lambda>r. event_state (er_event r))"
  obtain r rs where recs: "recs = r # rs" using log by (cases recs) (auto simp: lifecycle_log_def)
  have "?st recs = ?st (take a recs) @ ?st (take l (drop a recs)) @ ?st (drop l (drop a recs))"
    by (metis append_take_drop_id map_append)
  moreover from a recs obtain b where "a = Suc b" by (cases a) auto
  ultimately have "?st rs = ?st (take b rs) @ ?st (take l (drop a recs)) @ ?st (drop l (drop a recs))"
    using recs by simp
  moreover have "lifecycle_path (event_state (er_event r)) (?st rs)"
    using log recs by (auto simp: lifecycle_log_def ordered_states_def)
  ultimately have "lifecycle_path (last (event_state (er_event r) # ?st (take b rs))) (?st (take l (drop a recs)))"
    by (simp add: lifecycle_path_append)
  moreover have "last (event_state (er_event r) # ?st (take b rs)) = event_state (er_event (recs ! b))"
  proof (cases b)
    case (Suc c)
    then have "c < length rs" using a recs \<open>a = Suc b\<close> by simp
    then show ?thesis using Suc recs by (simp add: take_Suc_conv_app_nth)
  qed (simp add: recs)
  ultimately show ?thesis using \<open>a = Suc b\<close> by (simp add: event_order_loop_path)
qed

lemma last_take_drop:
  assumes "b < length recs" "1 \<le> l"
  shows "take l (drop b recs) \<noteq> []"
    and "last (take l (drop b recs)) = recs ! (min (b + l) (length recs) - 1)"
proof -
  show ne: "take l (drop b recs) \<noteq> []" using assms by simp
  have "length (take l (drop b recs)) - 1 < l" and len: "b + (length (take l (drop b recs)) - 1) = min (b + l) (length recs) - 1"
    using assms by (auto simp: min_def)
  then show "last (take l (drop b recs)) = recs ! (min (b + l) (length recs) - 1)"
    using ne assms by (simp add: last_conv_nth)
qed

lemma ask_next:
  assumes view: "view_at rid recs l a v" and more: "a < length recs" and log: "lifecycle_log recs"
    and limit: "1 \<le> l" "l \<le> MAX_RUN_EVENT_PAGE"
    and page: "run_events_page E d rid a (Some (length recs)) l = Inr (log_page rid recs a (length recs) l)"
  shows "\<exists>v'. ask E d v (next_query rid a (length recs) l) = Some v'
           \<and> view_at rid recs l (min (a + l) (length recs)) v'"
proof -
  let ?W = "length recs" and ?q = "next_query rid a (length recs) l"
  let ?p = "log_page rid recs a ?W l"
  from view obtain b where b: "last_page v = Some (log_page rid recs b ?W l)"
    "b < ?W" "a = min (b + l) ?W" and evs: "all_events (view_event_pages v) = take a recs"
    and vid: "view_run_id v = Some rid" by (auto simp: view_at_def)
  have ab: "b + l = a" "0 < a" using b more limit by auto
  have cur: "min (b + l) ?W - 1 = a - 1" using ab more by simp
  have "last_event_state (last_page v) = Some (event_state (er_event (recs ! (a - 1))))"
    using last_take_drop [OF b(2) limit(1)] unfolding cur b(1) by (simp add: last_event_state_def)
  then have order: "validate_event_order (last_page v) ?p = Inr ()"
    using lifecycle_log_slice [OF log ab(2) less_imp_le [OF more], of l] ab(2)
    by (simp add: validate_event_order_def)
  have "merge_page v ?q ?p = Inr (v\<lparr>view_event_pages := view_event_pages v @ [?p]\<rparr>)"
    using b(1) ab(1) more order vid
    by (simp add: merge_page_def next_query_def bind_run_def)
  moreover have "run_events_query_validate ?q = Inr ()"
    using limit more by (simp add: run_events_query_validate_def next_query_def)
  moreover have "run_event_page_validate E ?p = Inr ()" using page by (rule page_validates)
  ultimately have "reducer_apply E v (CmdRunEvents ?q) (EvtRunEvents ?p)
      = Inr (v\<lparr>view_event_pages := view_event_pages v @ [?p]\<rparr>)"
    by (simp add: reducer_apply_def)
  then have ask: "ask E d v ?q = Some (v\<lparr>view_event_pages := view_event_pages v @ [?p]\<rparr>)"
    using page by (simp add: ask_def answer_def next_query_def)
  have "all_events (view_event_pages v @ [?p]) = take (min (a + l) ?W) recs"
    using evs by (simp add: all_events_def take_add min_def)
  then have "view_at rid recs l (min (a + l) ?W) (v\<lparr>view_event_pages := view_event_pages v @ [?p]\<rparr>)"
    using more vid by (auto simp: view_at_def last_page_def view_run_id_page)
  with ask show ?thesis by blast
qed

lemma next_command_at:
  assumes "view_at rid recs l a v" and "1 \<le> l" "l \<le> MAX_RUN_EVENT_PAGE"
  shows "next_events_command v l =
           Inr (if a < length recs then Some (CmdRunEvents (next_query rid a (length recs) l)) else None)"
proof -
  from assms(1) obtain b where "last_page v = Some (log_page rid recs b (length recs) l)"
    and "a = min (b + l) (length recs)" by (auto simp: view_at_def)
  with assms(2,3) show ?thesis by (simp add: next_events_command_def next_query_def)
qed

lemma follow_reads_log:
  assumes inv: "ledger_inv E d0" and run: "run_by_id E d0 rid = Inr (Some run)"
    and proj: "log_projects E d0 run recs" and log: "lifecycle_log recs"
    and limit: "1 \<le> l" "l \<le> MAX_RUN_EVENT_PAGE"
  shows "view_at rid recs l a v \<Longrightarrow> \<forall>d\<in>set ds. serves E d0 rid d \<Longrightarrow>
           length recs \<le> a + length ds * l \<Longrightarrow>
           \<exists>v'. follow E l ds v = Some v' \<and> all_events (view_event_pages v') = recs
              \<and> next_events_command v' l = Inr None"
proof (induction ds arbitrary: a v)
  case Nil
  then have "\<not> a < length recs" by simp
  then have "next_events_command v l = Inr None"
    using next_command_at [OF Nil(1) limit] by simp
  with Nil \<open>\<not> a < length recs\<close> show ?case by (auto simp: view_at_def)
next
  case (Cons d ds)
  show ?case
  proof (cases "a < length recs")
    case False
    then have "next_events_command v l = Inr None"
      using next_command_at [OF Cons.prems(1) limit] by simp
    with False Cons.prems(1) show ?thesis by (auto simp: view_at_def)
  next
    case True
    then have cmd: "next_events_command v l = Inr (Some (CmdRunEvents (next_query rid a (length recs) l)))"
      using next_command_at [OF Cons.prems(1) limit] by simp
    have "run_events_page E d rid a (Some (length recs)) l = Inr (log_page rid recs a (length recs) l)"
      using serves_page [OF inv run proj _ limit, of d a] Cons.prems(2) True log
      by (simp add: lifecycle_log_def)
    from ask_next [OF Cons.prems(1) True log limit this] obtain v' where
      ask: "ask E d v (next_query rid a (length recs) l) = Some v'"
      and v': "view_at rid recs l (min (a + l) (length recs)) v'" by blast
    have "length recs \<le> min (a + l) (length recs) + length ds * l"
      using Cons.prems(3) by (simp add: min_def)
    with Cons.IH [OF v'] Cons.prems(2) cmd ask show ?thesis by simp
  qed
qed

lemma first_page_view:
  assumes wf: "db_wf E d" and run: "run_by_id E d rid = Inr (Some run)"
    and proj: "log_projects E d run recs" and log: "lifecycle_log recs"
    and limit: "1 \<le> l" "l \<le> MAX_RUN_EVENT_PAGE"
  shows "\<exists>v. ask E d empty_view (first_query rid l) = Some v \<and> view_at rid recs l (min l (length recs)) v"
proof -
  let ?p = "log_page rid recs 0 (length recs) l"
  have ne: "recs \<noteq> []" and q: "er_event (hd recs) = EvQueued"
    and ord: "ordered_states (map (\<lambda>r. event_state (er_event r)) recs)"
    using log by (auto simp: lifecycle_log_def)
  have page: "run_events_page E d rid 0 None l = Inr ?p"
    using run_events_page_slice [OF wf run proj limit, of "length recs" 0 None] ne
    by (cases recs) auto
  obtain r rs where recs: "recs = r # rs" and er: "er_event r = EvQueued" using ne q by (cases recs) auto
  obtain k where k: "l = Suc k" using limit by (cases l) auto
  have "lifecycle_path (event_state (er_event r)) (map (\<lambda>r. event_state (er_event r)) (take k rs))"
    using ord unfolding recs ordered_states_def
    by (simp add: lifecycle_path_append flip: take_map)
      (metis append_take_drop_id lifecycle_path_append)
  then have order: "validate_event_order None ?p = Inr ()"
    using recs k er
    by (auto simp: validate_event_order_def last_event_state_def event_order_loop_None event_order_loop_path ordered_states_def)
  have "merge_page empty_view (first_query rid l) ?p
      = Inr (empty_view\<lparr>view_event_pages := [?p]\<rparr>)"
    using order by (simp add: merge_page_def first_query_def bind_run_def empty_view_def
        view_run_id_def last_page_def)
  then have "reducer_apply E empty_view (CmdRunEvents (first_query rid l)) (EvtRunEvents ?p)
      = Inr (empty_view\<lparr>view_event_pages := [?p]\<rparr>)"
    using limit page_validates [OF page]
    by (simp add: reducer_apply_def run_events_query_validate_def first_query_def)
  then have "ask E d empty_view (first_query rid l) = Some (empty_view\<lparr>view_event_pages := [?p]\<rparr>)"
    using page by (simp add: ask_def answer_def first_query_def)
  moreover have "view_at rid recs l (min l (length recs)) (empty_view\<lparr>view_event_pages := [?p]\<rparr>)"
    using ne by (auto simp: view_at_def last_page_def all_events_def view_run_id_def empty_view_def min_def)
  ultimately show ?thesis by blast
qed

end
