(* ===== verification/Wire_Codec.thy ===== *)
theory Wire_Codec
  imports App_Run
begin

text \<open>
  Reading a serde data model value. The structs and enumerations of the protocol derive
  \<open>Serialize\<close>; their \<open>Deserialize\<close> reads a derived wire type that denies unknown fields and
  then validates. The combinators below are what the derived code accepts: a struct is an
  object whose keys are known and distinct or an array with one entry per field, an optional
  field may be absent or null, a unit variant is its name or an object with the name and null,
  an adjacently tagged enumeration is an object or an array with the tag and the content.
  The locale \<open>validated_codec\<close> is the contract of a record with a validating reader.
\<close>

section \<open>Readers\<close>

definition wire_struct :: "string list \<Rightarrow> json \<Rightarrow> (string \<Rightarrow> json option) option" where
  "wire_struct names v =
     (case v of
        JObject kvs \<Rightarrow>
          if distinct (map fst kvs) \<and> set (map fst kvs) \<subseteq> set names then Some (map_of kvs) else None
      | JArray vs \<Rightarrow> if length vs = length names then Some (map_of (zip names vs)) else None
      | _ \<Rightarrow> None)"

definition wire_field :: "(string \<Rightarrow> json option) \<Rightarrow> string \<Rightarrow> (json \<Rightarrow> 'a option) \<Rightarrow> 'a option" where
  "wire_field m k f = Option.bind (m k) f"

definition wire_opt_field ::
    "(string \<Rightarrow> json option) \<Rightarrow> string \<Rightarrow> (json \<Rightarrow> 'a option) \<Rightarrow> 'a option option" where
  "wire_opt_field m k f =
     (case m k of None \<Rightarrow> Some None | Some v \<Rightarrow>
        if v = JNull then Some None else map_option Some (f v))"

definition wire_default_field ::
    "(string \<Rightarrow> json option) \<Rightarrow> string \<Rightarrow> (json \<Rightarrow> 'a option) \<Rightarrow> 'a \<Rightarrow> 'a option" where
  "wire_default_field m k f a = (case m k of None \<Rightarrow> Some a | Some v \<Rightarrow> f v)"

definition wire_string :: "json \<Rightarrow> string option" where
  "wire_string v = json_as_str v"

definition wire_bool :: "json \<Rightarrow> bool option" where
  "wire_bool v = (case v of JBool b \<Rightarrow> Some b | _ \<Rightarrow> None)"

definition wire_uint :: "nat \<Rightarrow> json \<Rightarrow> nat option" where
  "wire_uint bits v =
     (case v of JNumber (PosInt n) \<Rightarrow> if n < 2 ^ bits then Some n else None | _ \<Rightarrow> None)"

definition wire_vec :: "(json \<Rightarrow> 'a option) \<Rightarrow> json \<Rightarrow> 'a list option" where
  "wire_vec f v = (case v of JArray vs \<Rightarrow> those (map f vs) | _ \<Rightarrow> None)"

definition wire_variant :: "json \<Rightarrow> string option" where
  "wire_variant v =
     (case v of JString s \<Rightarrow> Some s | JObject [(s, JNull)] \<Rightarrow> Some s | _ \<Rightarrow> None)"

definition wire_enum :: "(string \<times> 'a) list \<Rightarrow> json \<Rightarrow> 'a option" where
  "wire_enum table v = Option.bind (wire_variant v) (map_of table)"

definition wire_tagged :: "string \<Rightarrow> string \<Rightarrow> json \<Rightarrow> (string \<times> json) option" where
  "wire_tagged tag content v =
     Option.bind (wire_struct [tag, content] v) (\<lambda>m.
     Option.bind (wire_field m tag wire_variant) (\<lambda>name.
     Option.bind (m content) (\<lambda>data. Some (name, data))))"

text \<open>Identifiers read a string and parse it.\<close>

definition wire_uuid :: "externals \<Rightarrow> json \<Rightarrow> string option" where
  "wire_uuid E v = Option.bind (json_as_str v) (\<lambda>s. case parse_uuid_id E s of Inr i \<Rightarrow> Some i | Inl _ \<Rightarrow> None)"

definition wire_key :: "json \<Rightarrow> idempotency_key option" where
  "wire_key v =
     Option.bind (json_as_str v) (\<lambda>s. case parse_idempotency_key s of Inr k \<Rightarrow> Some k | Inl _ \<Rightarrow> None)"

definition json_opt :: "('a \<Rightarrow> json) \<Rightarrow> 'a option \<Rightarrow> json" where
  "json_opt f x = (case x of None \<Rightarrow> JNull | Some a \<Rightarrow> f a)"

abbreviation json_nat :: "nat \<Rightarrow> json" where
  "json_nat n \<equiv> JNumber (PosInt n)"

section \<open>Equations\<close>

lemma wire_object [codec_simps]:
  "wire_struct names (JObject kvs) =
     (if distinct (map fst kvs) \<and> set (map fst kvs) \<subseteq> set names then Some (map_of kvs) else None)"
  by (simp add: wire_struct_def)

lemma wire_field_simps [codec_simps]:
  "wire_field m k f = Some a \<longleftrightarrow> (\<exists>v. m k = Some v \<and> f v = Some a)"
  by (cases "m k") (simp_all add: wire_field_def)

lemma wire_leaf_simps [codec_simps]:
  "wire_string (JString s) = Some s" "wire_bool (JBool b) = Some b"
  "wire_uint w (json_nat n) = (if n < 2 ^ w then Some n else None)"
  "wire_variant (JString s) = Some s"
  by (simp_all add: wire_string_def json_as_str_def wire_bool_def wire_uint_def wire_variant_def)

lemma wire_uint_range [codec_simps]: "wire_uint w v = Some n \<longleftrightarrow> v = json_nat n \<and> n < 2 ^ w"
  by (auto simp: wire_uint_def split: json.splits json_number.splits if_splits)

lemma wire_bool_Some: "wire_bool v = Some b \<longleftrightarrow> v = JBool b"
  by (auto simp: wire_bool_def split: json.splits)

lemma wire_uuid_string [codec_simps]:
  "wire_uuid E (JString s) = (if uuid_canonical E s = Some s then Some s else None)"
  by (auto simp: wire_uuid_def json_as_str_def parse_uuid_id_def split: sum.splits option.splits)
    (auto simp: ok_or_def bindr_def split: option.splits if_splits)

lemma wire_uuid_canonical: "wire_uuid E v = Some s \<Longrightarrow> uuid_canonical E s = Some s"
  by (auto simp: wire_uuid_def json_as_str_def parse_uuid_id_def ok_or_def bindr_def
      split: json.splits sum.splits option.splits if_splits)

lemma wire_key_string [codec_simps]:
  "wire_key (JString s) = (if is_ok (parse_idempotency_key s) then Some s else None)"
  by (auto simp: wire_key_def json_as_str_def parse_idempotency_key_def is_ok_def bindr_def
      split: sum.splits)

lemma wire_key_valid: "wire_key v = Some s \<Longrightarrow> is_ok (parse_idempotency_key s)"
  by (auto simp: wire_key_def json_as_str_def parse_idempotency_key_def is_ok_def bindr_def
      split: json.splits sum.splits)

lemma those_map_Some: "those (map f xs) = Some ys \<longleftrightarrow> list_all2 (\<lambda>x y. f x = Some y) xs ys"
  by (induction xs arbitrary: ys) (auto simp: list_all2_Cons1 split: option.splits)

lemma those_map_same: "(\<And>x. x \<in> set xs \<Longrightarrow> f (g x) = Some x) \<Longrightarrow> those (map f (map g xs)) = Some xs"
  by (induction xs) auto

lemma wire_vec_same: "(\<And>x. x \<in> set xs \<Longrightarrow> f (g x) = Some x) \<Longrightarrow> wire_vec f (JArray (map g xs)) = Some xs"
  by (simp add: wire_vec_def those_map_same del: map_map)

lemma wire_vec_members: "wire_vec f v = Some xs \<Longrightarrow> (\<And>v x. f v = Some x \<Longrightarrow> P x) \<Longrightarrow> \<forall>x\<in>set xs. P x"
  by (auto simp: wire_vec_def those_map_Some list_all2_conv_all_nth in_set_conv_nth
      split: json.splits) metis

lemma wire_opt_same:
  assumes "\<And>a. x = Some a \<Longrightarrow> f (g a) = Some a \<and> g a \<noteq> JNull" and "m k = Some (json_opt g x)"
  shows "wire_opt_field m k f = Some x"
  using assms by (cases x) (auto simp: wire_opt_field_def json_opt_def)

lemma wire_opt_members:
  "wire_opt_field m k f = Some x \<Longrightarrow> (\<And>v a. f v = Some a \<Longrightarrow> P a) \<Longrightarrow> \<forall>a\<in>set_option x. P a"
  by (auto simp: wire_opt_field_def split: option.splits if_splits)

section \<open>The contract of a validating reader\<close>

definition CONTRACT :: validation_error where "CONTRACT = ''invalid v4 contract''"

text \<open>The tail every reader shares: the wire value, then its validation.\<close>

definition read_validated ::
    "('a \<Rightarrow> validation_error + unit) \<Rightarrow> 'a option \<Rightarrow> validation_error + 'a" where
  "read_validated check w = bindr (ok_or w CONTRACT) (\<lambda>a. bindr (check a) (\<lambda>_. Inr a))"

definition as_option :: "'e + 'a \<Rightarrow> 'a option" where
  "as_option r = (case r of Inl _ \<Rightarrow> None | Inr a \<Rightarrow> Some a)"

lemma as_option_simps [simp]: "as_option (Inr a) = Some a" "as_option (Inl e) = None"
  by (simp_all add: as_option_def)

lemma as_option_Some [codec_simps]: "as_option r = Some a \<longleftrightarrow> r = Inr a"
  by (cases r) (simp_all add: as_option_def)

text \<open>
  \<open>typed\<close> is what the Rust type of the record guarantees of every value (integers within
  their width, identifiers in canonical form) and \<open>valid\<close> what \<open>validate\<close> checks.
\<close>

locale validated_codec =
  fixes enc :: "'a \<Rightarrow> json"
    and dec :: "json \<Rightarrow> validation_error + 'a"
    and typed :: "'a \<Rightarrow> bool"
    and valid :: "'a \<Rightarrow> bool"
  assumes reads_valid: "dec v = Inr a \<Longrightarrow> typed a \<and> valid a"
    and reads_written: "typed a \<Longrightarrow> valid a \<Longrightarrow> dec (enc a) = Inr a"
    and refuses_invalid: "typed a \<Longrightarrow> \<not> valid a \<Longrightarrow> \<exists>e. dec (enc a) = Inl e"
begin

lemma written_iff: "typed a \<Longrightarrow> dec (enc a) = Inr b \<longleftrightarrow> valid a \<and> b = a"
  using reads_written [of a] refuses_invalid [of a] by (cases "valid a") auto

lemma writes_injective: "typed a \<Longrightarrow> valid a \<Longrightarrow> typed b \<Longrightarrow> valid b \<Longrightarrow> enc a = enc b \<Longrightarrow> a = b"
  using reads_written by (metis sum.inject(2))

lemma normal_form: "dec v = Inr a \<Longrightarrow> dec (enc a) = Inr a"
  using reads_valid reads_written by blast

text \<open>Inside another record, a nested reader contributes its own contract.\<close>

lemma nested_same: "typed a \<Longrightarrow> valid a \<Longrightarrow> as_option (dec (enc a)) = Some a"
  by (simp add: reads_written as_option_def)

lemma nested_vec:
  assumes "list_all typed xs"
  shows "wire_vec (\<lambda>v. as_option (dec v)) (JArray (map enc xs)) = (if list_all valid xs then Some xs else None)"
proof (cases "list_all valid xs")
  case True
  with assms show ?thesis by (auto simp: list_all_iff intro!: wire_vec_same nested_same)
next
  case False
  then obtain x where x: "x \<in> set xs" "\<not> valid x" by (auto simp: list_all_iff)
  have "those (map (\<lambda>v. as_option (dec v)) (map enc xs)) = None"
  proof (rule ccontr)
    assume "\<not> ?thesis"
    then obtain ys where "those (map (\<lambda>v. as_option (dec v)) (map enc xs)) = Some ys" by auto
    then have "\<forall>v\<in>set (map enc xs). \<exists>a. dec v = Inr a"
      unfolding those_map_Some list_all2_conv_all_nth by (metis as_option_Some in_set_conv_nth)
    with x(1) obtain a where "dec (enc x) = Inr a" by auto
    with x refuses_invalid [of x] assms show False by (auto simp: list_all_iff)
  qed
  with False show ?thesis by (simp add: wire_vec_def)
qed

lemma nested_members:
  "wire_vec (\<lambda>v. as_option (dec v)) v = Some xs \<Longrightarrow> list_all typed xs \<and> list_all valid xs"
  using wire_vec_members [of "\<lambda>v. as_option (dec v)" v xs "\<lambda>a. typed a \<and> valid a"] reads_valid
  by (auto simp: list_all_iff as_option_Some)

end

text \<open>How the contract follows from the wire type of a record.\<close>

lemma codec_of_wire:
  assumes "\<And>v a. wire v = Some a \<Longrightarrow> check a = Inr () \<Longrightarrow> typed a \<and> valid a"
    and "\<And>a. typed a \<Longrightarrow> valid a \<Longrightarrow> wire (enc a) = Some a \<and> check a = Inr ()"
    and "\<And>a. typed a \<Longrightarrow> \<not> valid a \<Longrightarrow> wire (enc a) = None \<or> wire (enc a) = Some a \<and> check a \<noteq> Inr ()"
  shows "validated_codec enc (\<lambda>v. read_validated check (wire v)) typed valid"
proof
  fix v a
  assume "read_validated check (wire v) = Inr a"
  then show "typed a \<and> valid a" using assms(1) by (auto simp: read_validated_def rust_simps)
next
  fix a
  assume "typed a" "valid a"
  then show "read_validated check (wire (enc a)) = Inr a"
    using assms(2) [of a] by (simp add: read_validated_def)
next
  fix a
  assume "typed a" "\<not> valid a"
  then consider "wire (enc a) = None" | "wire (enc a) = Some a" "check a \<noteq> Inr ()"
    using assms(3) [of a] by auto
  then show "\<exists>e. read_validated check (wire (enc a)) = Inl e"
  proof cases
    case 2
    then show ?thesis by (cases "check a") (auto simp: read_validated_def)
  qed (simp add: read_validated_def)
qed

text \<open>A record without nested readers needs only the two halves of the round trip.\<close>

lemma codec_of_struct:
  assumes "\<And>v a. wire v = Some a \<Longrightarrow> typed a" and "\<And>a. typed a \<Longrightarrow> wire (enc a) = Some a"
  shows "validated_codec enc (\<lambda>v. read_validated check (wire v)) typed (\<lambda>a. check a = Inr ())"
  by (rule codec_of_wire) (simp_all add: assms)

text \<open>The validation of a page covers its entries.\<close>

lemma codec_of_page:
  assumes "\<And>v a. wire v = Some a \<Longrightarrow> typed a"
    and "\<And>a. typed a \<Longrightarrow> wire (enc a) = (if entries a then Some a else None)"
    and "\<And>a. check a = Inr () \<Longrightarrow> entries a"
  shows "validated_codec enc (\<lambda>v. read_validated check (wire v)) typed (\<lambda>a. check a = Inr ())"
  by (rule codec_of_wire) (auto simp: assms)

end
