(* ===== verification/V4_Contract.thy ===== *)
theory V4_Contract
  imports Run_Store_Facts Wire_Codec
begin

text \<open>
  The conversation records of protocol version 4: the checks of \<open>src/app_core/v4.rs\<close>, the
  conversation, turn, message and route records of \<open>src/app_core/v4/conversation.rs\<close> and the
  transcript queries and pages of \<open>src/app_core/v4_content.rs\<close>, each with its validation, its
  derived serialisation and its validating reader.
\<close>

section \<open>Bounds and checks\<close>

definition MAX_V4_INPUT_BYTES :: nat where "MAX_V4_INPUT_BYTES = 32 * 1024"
definition MAX_V4_PAGE :: nat where "MAX_V4_PAGE = 50"
definition MAX_V4_PAGE_BYTES :: nat where "MAX_V4_PAGE_BYTES = 512 * 1024"
definition MAX_V4_CONTENT_BYTES :: nat where "MAX_V4_CONTENT_BYTES = 4 * 1024 * 1024"
definition MAX_V4_QUERY_BYTES :: nat where "MAX_V4_QUERY_BYTES = 256"

definition v4_route :: "string \<Rightarrow> validation_error + unit" where
  "v4_route value =
     v4_ensure (value \<noteq> [] \<and> length value \<le> 128
       \<and> list_all (\<lambda>c. is_ascii_alphanumeric c \<or> c \<in> {CHR ''.'', CHR ''_'', CHR '':'', CHR ''-''}) value)"

definition v4_timestamp :: "nat \<Rightarrow> validation_error + unit" where
  "v4_timestamp value = v4_ensure (value \<le> MAX_SAFE_INTEGER)"

definition v4_limit :: "nat \<Rightarrow> validation_error + unit" where
  "v4_limit value = v4_ensure (1 \<le> value \<and> value \<le> MAX_V4_PAGE)"

definition page_bytes :: "externals \<Rightarrow> json \<Rightarrow> validation_error + unit" where
  "page_bytes E value = v4_ensure (length (json_to_string E value) \<le> MAX_V4_PAGE_BYTES)"

section \<open>Records\<close>

record v4_conversation =
  vc_conversation_id :: conversation_id
  vc_id :: string
  vc_title :: string
  vc_created_at_ms :: nat
  vc_updated_at_ms :: nat
  vc_archived :: bool
  vc_pinned :: bool
  vc_sequence :: nat
  vc_message_count :: nat

definition v4_conversation_validate :: "v4_conversation \<Rightarrow> validation_error + unit" where
  "v4_conversation_validate c =
     bindr (v4_label (vc_title c)) (\<lambda>_.
     bindr (v4_timestamp (vc_updated_at_ms c)) (\<lambda>_.
     bindr (v4_timestamp (vc_sequence c)) (\<lambda>_.
     bindr (v4_timestamp (vc_message_count c)) (\<lambda>_.
       v4_ensure (vc_sequence c > 0 \<and> vc_created_at_ms c \<le> vc_updated_at_ms c)))))"

record v4_conversation_patch =
  vcp_title :: "string option"
  vcp_archived :: "bool option"
  vcp_pinned :: "bool option"

definition v4_conversation_patch_validate :: "v4_conversation_patch \<Rightarrow> validation_error + unit" where
  "v4_conversation_patch_validate p =
     bindr (case vcp_title p of Some t \<Rightarrow> v4_label t | None \<Rightarrow> Inr ()) (\<lambda>_.
       v4_ensure (vcp_title p \<noteq> None \<or> vcp_archived p \<noteq> None \<or> vcp_pinned p \<noteq> None))"

record v4_conversation_query =
  vcq_search :: "string option"
  vcq_after :: "conversation_id option"
  vcq_limit :: nat
  vcq_archived :: bool

definition v4_conversation_query_validate :: "v4_conversation_query \<Rightarrow> validation_error + unit" where
  "v4_conversation_query_validate q =
     bindr (v4_limit (vcq_limit q)) (\<lambda>_.
       case vcq_search q of Some s \<Rightarrow> v4_text s MAX_V4_QUERY_BYTES | None \<Rightarrow> Inr ())"

record v4_message_query =
  vmq_conversation_id :: conversation_id
  vmq_after :: "nat option"
  vmq_limit :: nat

definition v4_message_query_validate :: "v4_message_query \<Rightarrow> validation_error + unit" where
  "v4_message_query_validate q =
     bindr (v4_limit (vmq_limit q)) (\<lambda>_.
       case vmq_after q of Some s \<Rightarrow> v4_timestamp s | None \<Rightarrow> Inr ())"

record v4_submit_turn =
  vt_conversation_id :: conversation_id
  vt_idempotency_key :: idempotency_key
  vt_route_id :: string
  vt_input :: string

definition v4_submit_turn_validate :: "v4_submit_turn \<Rightarrow> validation_error + unit" where
  "v4_submit_turn_validate t =
     bindr (v4_route (vt_route_id t)) (\<lambda>_. v4_text (vt_input t) MAX_V4_INPUT_BYTES)"

record v4_turn_submission =
  vs_conversation_id :: conversation_id
  vs_run_id :: run_id
  vs_idempotency_key :: idempotency_key
  vs_user_message_sequence :: nat
  vs_state :: run_state
  vs_duplicate :: bool

definition v4_turn_submission_validate :: "v4_turn_submission \<Rightarrow> validation_error + unit" where
  "v4_turn_submission_validate s =
     v4_ensure (vs_user_message_sequence s > 0 \<and> vs_user_message_sequence s \<le> MAX_SAFE_INTEGER)"

definition v4_turn_submission_validate_for ::
    "v4_turn_submission \<Rightarrow> v4_submit_turn \<Rightarrow> validation_error + unit" where
  "v4_turn_submission_validate_for s request =
     bindr (v4_turn_submission_validate s) (\<lambda>_.
     bindr (v4_submit_turn_validate request) (\<lambda>_.
       v4_ensure (vs_conversation_id s = vt_conversation_id request
         \<and> vs_idempotency_key s = vt_idempotency_key request)))"

datatype v4_message_role = RoleUser | RoleAssistant

record v4_message =
  vm_conversation_id :: conversation_id
  vm_run_id :: run_id
  vm_sequence :: nat
  vm_role :: v4_message_role
  vm_state :: run_state
  vm_text :: string
  vm_text_bytes :: nat
  vm_text_complete :: bool
  vm_context_truncated :: bool
  vm_created_at_ms :: nat

definition v4_message_validate :: "v4_message \<Rightarrow> validation_error + unit" where
  "v4_message_validate m =
     bindr (v4_timestamp (vm_created_at_ms m)) (\<lambda>_.
       v4_ensure (vm_sequence m > 0 \<and> vm_sequence m \<le> MAX_SAFE_INTEGER
         \<and> vm_text_bytes m \<le> MAX_V4_CONTENT_BYTES
         \<and> length (vm_text m) \<le> vm_text_bytes m
         \<and> vm_text_complete m = (length (vm_text m) = vm_text_bytes m)
         \<and> length (vm_text m) \<le> (if vm_role m = RoleUser then MAX_V4_INPUT_BYTES else MAX_V4_DELTA_BYTES)
         \<and> (vm_role m \<noteq> RoleUser \<or> vm_text_complete m \<and> \<not> vm_context_truncated m)
         \<and> CHR 0x00 \<notin> set (vm_text m)))"

record v4_route_record =
  vr_route_id :: string
  vr_backend :: string
  vr_model :: string
  vr_label :: string
  vr_available :: bool

definition v4_route_record_validate :: "v4_route_record \<Rightarrow> validation_error + unit" where
  "v4_route_record_validate r =
     bindr (v4_route (vr_route_id r)) (\<lambda>_.
     bindr (v4_route (vr_backend r)) (\<lambda>_.
     bindr (v4_route (vr_model r)) (\<lambda>_. v4_label (vr_label r))))"

record v4_conversation_page =
  vcg_conversations :: "v4_conversation list"
  vcg_next_after :: "conversation_id option"

record v4_message_page =
  vmg_conversation_id :: conversation_id
  vmg_messages :: "v4_message list"
  vmg_next_after :: "nat option"

record v4_content_query =
  kq_conversation_id :: conversation_id
  kq_run_id :: run_id
  kq_after :: nat
  kq_limit :: nat

definition v4_content_query_validate :: "v4_content_query \<Rightarrow> validation_error + unit" where
  "v4_content_query_validate q =
     bindr (v4_limit (kq_limit q)) (\<lambda>_. v4_ensure (kq_after q \<le> MAX_V4_CONTENT_EVENTS))"

record v4_content_page =
  kg_conversation_id :: conversation_id
  kg_run_id :: run_id
  kg_after :: nat
  kg_events :: "v4_content_event list"
  kg_next_after :: "nat option"

definition v4_content_event_validate_after ::
    "v4_content_event \<Rightarrow> conversation_id \<Rightarrow> run_id \<Rightarrow> nat \<Rightarrow> validation_error + unit" where
  "v4_content_event_validate_after e conversation run after =
     bindr (v4_content_event_validate e) (\<lambda>_.
       v4_ensure (ce_conversation_id e = conversation \<and> ce_run_id e = run \<and> ce_sequence e > after))"

section \<open>Serialisation\<close>

definition v4_conversation_json :: "v4_conversation \<Rightarrow> json" where
  "v4_conversation_json c = JObject
     [(''conversation_id'', JString (vc_conversation_id c)), (''id'', JString (vc_id c)),
      (''title'', JString (vc_title c)), (''created_at_ms'', json_nat (vc_created_at_ms c)),
      (''updated_at_ms'', json_nat (vc_updated_at_ms c)), (''archived'', JBool (vc_archived c)),
      (''pinned'', JBool (vc_pinned c)), (''sequence'', json_nat (vc_sequence c)),
      (''message_count'', json_nat (vc_message_count c))]"

definition v4_conversation_patch_json :: "v4_conversation_patch \<Rightarrow> json" where
  "v4_conversation_patch_json p = JObject
     [(''title'', json_opt JString (vcp_title p)), (''archived'', json_opt JBool (vcp_archived p)),
      (''pinned'', json_opt JBool (vcp_pinned p))]"

definition v4_conversation_query_json :: "v4_conversation_query \<Rightarrow> json" where
  "v4_conversation_query_json q = JObject
     [(''search'', json_opt JString (vcq_search q)), (''after'', json_opt JString (vcq_after q)),
      (''limit'', json_nat (vcq_limit q)), (''archived'', JBool (vcq_archived q))]"

definition v4_message_query_json :: "v4_message_query \<Rightarrow> json" where
  "v4_message_query_json q = JObject
     [(''conversation_id'', JString (vmq_conversation_id q)),
      (''after'', json_opt json_nat (vmq_after q)), (''limit'', json_nat (vmq_limit q))]"

definition v4_submit_turn_json :: "v4_submit_turn \<Rightarrow> json" where
  "v4_submit_turn_json t = JObject
     [(''conversation_id'', JString (vt_conversation_id t)),
      (''idempotency_key'', JString (vt_idempotency_key t)),
      (''route_id'', JString (vt_route_id t)), (''input'', JString (vt_input t))]"

definition v4_turn_submission_json :: "v4_turn_submission \<Rightarrow> json" where
  "v4_turn_submission_json s = JObject
     [(''conversation_id'', JString (vs_conversation_id s)), (''run_id'', JString (vs_run_id s)),
      (''idempotency_key'', JString (vs_idempotency_key s)),
      (''user_message_sequence'', json_nat (vs_user_message_sequence s)),
      (''state'', JString (state_as_str (vs_state s))), (''duplicate'', JBool (vs_duplicate s))]"

fun role_label :: "v4_message_role \<Rightarrow> string" where
  "role_label RoleUser = ''user''"
| "role_label RoleAssistant = ''assistant''"

definition v4_message_json :: "v4_message \<Rightarrow> json" where
  "v4_message_json m = JObject
     [(''conversation_id'', JString (vm_conversation_id m)), (''run_id'', JString (vm_run_id m)),
      (''sequence'', json_nat (vm_sequence m)), (''role'', JString (role_label (vm_role m))),
      (''state'', JString (state_as_str (vm_state m))), (''text'', JString (vm_text m)),
      (''text_bytes'', json_nat (vm_text_bytes m)), (''text_complete'', JBool (vm_text_complete m)),
      (''context_truncated'', JBool (vm_context_truncated m)),
      (''created_at_ms'', json_nat (vm_created_at_ms m))]"

definition v4_route_record_json :: "v4_route_record \<Rightarrow> json" where
  "v4_route_record_json r = JObject
     [(''route_id'', JString (vr_route_id r)), (''backend'', JString (vr_backend r)),
      (''model'', JString (vr_model r)), (''label'', JString (vr_label r)),
      (''available'', JBool (vr_available r))]"

definition v4_conversation_page_json :: "v4_conversation_page \<Rightarrow> json" where
  "v4_conversation_page_json p = JObject
     [(''conversations'', JArray (map v4_conversation_json (vcg_conversations p))),
      (''next_after'', json_opt JString (vcg_next_after p))]"

definition v4_message_page_json :: "v4_message_page \<Rightarrow> json" where
  "v4_message_page_json p = JObject
     [(''conversation_id'', JString (vmg_conversation_id p)),
      (''messages'', JArray (map v4_message_json (vmg_messages p))),
      (''next_after'', json_opt json_nat (vmg_next_after p))]"

definition v4_content_event_json :: "v4_content_event \<Rightarrow> json" where
  "v4_content_event_json e = JObject
     [(''conversation_id'', JString (ce_conversation_id e)), (''run_id'', JString (ce_run_id e)),
      (''sequence'', json_nat (ce_sequence e)), (''timestamp_ms'', json_nat (ce_timestamp_ms e)),
      (''payload'', content_payload_json (ce_payload e))]"

definition v4_content_query_json :: "v4_content_query \<Rightarrow> json" where
  "v4_content_query_json q = JObject
     [(''conversation_id'', JString (kq_conversation_id q)), (''run_id'', JString (kq_run_id q)),
      (''after'', json_nat (kq_after q)), (''limit'', json_nat (kq_limit q))]"

definition v4_content_page_json :: "v4_content_page \<Rightarrow> json" where
  "v4_content_page_json p = JObject
     [(''conversation_id'', JString (kg_conversation_id p)), (''run_id'', JString (kg_run_id p)),
      (''after'', json_nat (kg_after p)),
      (''events'', JArray (map v4_content_event_json (kg_events p))),
      (''next_after'', json_opt json_nat (kg_next_after p))]"

section \<open>Validation of pages\<close>

definition v4_conversation_page_validate ::
    "externals \<Rightarrow> v4_conversation_page \<Rightarrow> validation_error + unit" where
  "v4_conversation_page_validate E p =
     bindr (page_bytes E (v4_conversation_page_json p)) (\<lambda>_.
     bindr (v4_ensure (length (vcg_conversations p) \<le> MAX_V4_PAGE)) (\<lambda>_.
     bindr (for_each v4_conversation_validate (vcg_conversations p)) (\<lambda>_.
       v4_ensure (case vcg_next_after p of None \<Rightarrow> True
         | Some i \<Rightarrow> vcg_conversations p \<noteq> [] \<and> vc_conversation_id (last (vcg_conversations p)) = i))))"

text \<open>The loops over a page return the cursor they reach.\<close>

fun message_page_loop ::
    "conversation_id \<Rightarrow> nat \<Rightarrow> v4_message list \<Rightarrow> validation_error + nat" where
  "message_page_loop cid seen [] = Inr seen"
| "message_page_loop cid seen (m # ms) =
     bindr (v4_message_validate m) (\<lambda>_.
     bindr (v4_ensure (vm_conversation_id m = cid \<and> vm_sequence m > seen)) (\<lambda>_.
       message_page_loop cid (vm_sequence m) ms))"

definition v4_message_page_validate :: "externals \<Rightarrow> v4_message_page \<Rightarrow> validation_error + unit" where
  "v4_message_page_validate E p =
     bindr (page_bytes E (v4_message_page_json p)) (\<lambda>_.
     bindr (v4_ensure (length (vmg_messages p) \<le> MAX_V4_PAGE)) (\<lambda>_.
     bindr (message_page_loop (vmg_conversation_id p) 0 (vmg_messages p)) (\<lambda>seen.
       v4_ensure (case vmg_next_after p of None \<Rightarrow> True
         | Some s \<Rightarrow> vmg_messages p \<noteq> [] \<and> s = seen))))"

fun content_page_loop ::
    "conversation_id \<Rightarrow> run_id \<Rightarrow> nat \<Rightarrow> bool \<Rightarrow> nat \<Rightarrow> v4_content_event list \<Rightarrow>
     validation_error + nat \<times> bool \<times> nat" where
  "content_page_loop cid rid seen terminal bytes [] = Inr (seen, terminal, bytes)"
| "content_page_loop cid rid seen terminal bytes (e # es) =
     bindr (v4_ensure (\<not> terminal)) (\<lambda>_.
     bindr (v4_content_event_validate_after e cid rid seen) (\<lambda>_.
       content_page_loop cid rid (ce_sequence e) (is_terminal_payload (ce_payload e))
         (case ce_payload e of TextDelta text \<Rightarrow> bytes + length text | _ \<Rightarrow> bytes) es))"

definition v4_content_page_validate :: "externals \<Rightarrow> v4_content_page \<Rightarrow> validation_error + unit" where
  "v4_content_page_validate E p =
     bindr (page_bytes E (v4_content_page_json p)) (\<lambda>_.
     bindr (v4_ensure (kg_after p \<le> MAX_V4_CONTENT_EVENTS \<and> length (kg_events p) \<le> MAX_V4_PAGE)) (\<lambda>_.
     bindr (content_page_loop (kg_conversation_id p) (kg_run_id p) (kg_after p) False 0 (kg_events p))
       (\<lambda>(seen, terminal, bytes).
       v4_ensure (bytes \<le> MAX_V4_CONTENT_BYTES
         \<and> (case kg_next_after p of None \<Rightarrow> True
              | Some s \<Rightarrow> \<not> terminal \<and> kg_events p \<noteq> [] \<and> s = seen)))))"

end
