(* ===== verification/V4_Wire.thy ===== *)
theory V4_Wire
  imports V4_Contract
begin

text \<open>
  The validating readers of the conversation records (\<open>Deserialize\<close> in
  \<open>src/app_core/v4/conversation.rs\<close> and \<open>src/app_core/v4_content.rs\<close>), and the codec contract
  interpreted for every record: what a reader accepts is valid, and a valid record is read
  back from its own serialisation.
\<close>

section \<open>Readers\<close>

definition run_state_table :: "(string \<times> run_state) list" where
  "run_state_table = map (\<lambda>s. (state_as_str s, s))
     [Queued, Starting, Running, CancelRequested, Succeeded, Failed, Cancelled, Interrupted]"

definition role_table :: "(string \<times> v4_message_role) list" where
  "role_table = map (\<lambda>r. (role_label r, r)) [RoleUser, RoleAssistant]"

definition tool_state_table :: "(string \<times> v4_tool_state) list" where
  "tool_state_table = map (\<lambda>s. (tool_state_label s, s))
     [ToolStarted, ToolSucceeded, ToolFailed, ToolCancelled]"

definition notice_table :: "(string \<times> v4_notice_code) list" where
  "notice_table = map (\<lambda>c. (notice_label c, c))
     [NoticeTruncated, NoticeReconnecting, NoticeProviderUnavailable, NoticeRecoveryRequired]"

definition wire_conversation :: "externals \<Rightarrow> json \<Rightarrow> v4_conversation option" where
  "wire_conversation E v =
     Option.bind (wire_struct [''conversation_id'', ''id'', ''title'', ''created_at_ms'',
       ''updated_at_ms'', ''archived'', ''pinned'', ''sequence'', ''message_count''] v) (\<lambda>m.
     Option.bind (wire_field m ''conversation_id'' (wire_uuid E)) (\<lambda>cid.
     Option.bind (wire_field m ''id'' wire_string) (\<lambda>i.
     Option.bind (wire_field m ''title'' wire_string) (\<lambda>title.
     Option.bind (wire_field m ''created_at_ms'' (wire_uint 64)) (\<lambda>created.
     Option.bind (wire_field m ''updated_at_ms'' (wire_uint 64)) (\<lambda>updated.
     Option.bind (wire_field m ''archived'' wire_bool) (\<lambda>archived.
     Option.bind (wire_field m ''pinned'' wire_bool) (\<lambda>pinned.
     Option.bind (wire_field m ''sequence'' (wire_uint 64)) (\<lambda>sequence.
     Option.bind (wire_field m ''message_count'' (wire_uint 64)) (\<lambda>count.
       if i = cid
       then Some \<lparr>vc_conversation_id = cid, vc_id = i, vc_title = title, vc_created_at_ms = created,
              vc_updated_at_ms = updated, vc_archived = archived, vc_pinned = pinned,
              vc_sequence = sequence, vc_message_count = count\<rparr>
       else None))))))))))"

definition read_conversation :: "externals \<Rightarrow> json \<Rightarrow> validation_error + v4_conversation" where
  "read_conversation E v = read_validated v4_conversation_validate (wire_conversation E v)"

definition wire_conversation_patch :: "json \<Rightarrow> v4_conversation_patch option" where
  "wire_conversation_patch v =
     Option.bind (wire_struct [''title'', ''archived'', ''pinned''] v) (\<lambda>m.
     Option.bind (wire_opt_field m ''title'' wire_string) (\<lambda>title.
     Option.bind (wire_opt_field m ''archived'' wire_bool) (\<lambda>archived.
     Option.bind (wire_opt_field m ''pinned'' wire_bool) (\<lambda>pinned.
       Some \<lparr>vcp_title = title, vcp_archived = archived, vcp_pinned = pinned\<rparr>))))"

definition read_conversation_patch :: "json \<Rightarrow> validation_error + v4_conversation_patch" where
  "read_conversation_patch v =
     read_validated v4_conversation_patch_validate (wire_conversation_patch v)"

definition wire_conversation_query :: "externals \<Rightarrow> json \<Rightarrow> v4_conversation_query option" where
  "wire_conversation_query E v =
     Option.bind (wire_struct [''search'', ''after'', ''limit'', ''archived''] v) (\<lambda>m.
     Option.bind (wire_opt_field m ''search'' wire_string) (\<lambda>search.
     Option.bind (wire_opt_field m ''after'' (wire_uuid E)) (\<lambda>after.
     Option.bind (wire_field m ''limit'' (wire_uint 16)) (\<lambda>limit.
     Option.bind (wire_field m ''archived'' wire_bool) (\<lambda>archived.
       Some \<lparr>vcq_search = search, vcq_after = after, vcq_limit = limit, vcq_archived = archived\<rparr>)))))"

definition read_conversation_query ::
    "externals \<Rightarrow> json \<Rightarrow> validation_error + v4_conversation_query" where
  "read_conversation_query E v =
     read_validated v4_conversation_query_validate (wire_conversation_query E v)"

definition wire_message_query :: "externals \<Rightarrow> json \<Rightarrow> v4_message_query option" where
  "wire_message_query E v =
     Option.bind (wire_struct [''conversation_id'', ''after'', ''limit''] v) (\<lambda>m.
     Option.bind (wire_field m ''conversation_id'' (wire_uuid E)) (\<lambda>cid.
     Option.bind (wire_opt_field m ''after'' (wire_uint 64)) (\<lambda>after.
     Option.bind (wire_field m ''limit'' (wire_uint 16)) (\<lambda>limit.
       Some \<lparr>vmq_conversation_id = cid, vmq_after = after, vmq_limit = limit\<rparr>))))"

definition read_message_query :: "externals \<Rightarrow> json \<Rightarrow> validation_error + v4_message_query" where
  "read_message_query E v = read_validated v4_message_query_validate (wire_message_query E v)"

definition wire_submit_turn :: "externals \<Rightarrow> json \<Rightarrow> v4_submit_turn option" where
  "wire_submit_turn E v =
     Option.bind (wire_struct [''conversation_id'', ''idempotency_key'', ''route_id'', ''input''] v) (\<lambda>m.
     Option.bind (wire_field m ''conversation_id'' (wire_uuid E)) (\<lambda>cid.
     Option.bind (wire_field m ''idempotency_key'' wire_key) (\<lambda>key.
     Option.bind (wire_field m ''route_id'' wire_string) (\<lambda>route.
     Option.bind (wire_field m ''input'' wire_string) (\<lambda>input.
       Some \<lparr>vt_conversation_id = cid, vt_idempotency_key = key, vt_route_id = route,
             vt_input = input\<rparr>)))))"

definition read_submit_turn :: "externals \<Rightarrow> json \<Rightarrow> validation_error + v4_submit_turn" where
  "read_submit_turn E v = read_validated v4_submit_turn_validate (wire_submit_turn E v)"

definition wire_turn_submission :: "externals \<Rightarrow> json \<Rightarrow> v4_turn_submission option" where
  "wire_turn_submission E v =
     Option.bind (wire_struct [''conversation_id'', ''run_id'', ''idempotency_key'',
       ''user_message_sequence'', ''state'', ''duplicate''] v) (\<lambda>m.
     Option.bind (wire_field m ''conversation_id'' (wire_uuid E)) (\<lambda>cid.
     Option.bind (wire_field m ''run_id'' (wire_uuid E)) (\<lambda>rid.
     Option.bind (wire_field m ''idempotency_key'' wire_key) (\<lambda>key.
     Option.bind (wire_field m ''user_message_sequence'' (wire_uint 64)) (\<lambda>sequence.
     Option.bind (wire_field m ''state'' (wire_enum run_state_table)) (\<lambda>state.
     Option.bind (wire_field m ''duplicate'' wire_bool) (\<lambda>duplicate.
       Some \<lparr>vs_conversation_id = cid, vs_run_id = rid, vs_idempotency_key = key,
             vs_user_message_sequence = sequence, vs_state = state, vs_duplicate = duplicate\<rparr>)))))))"

definition read_turn_submission :: "externals \<Rightarrow> json \<Rightarrow> validation_error + v4_turn_submission" where
  "read_turn_submission E v = read_validated v4_turn_submission_validate (wire_turn_submission E v)"

definition wire_message :: "externals \<Rightarrow> json \<Rightarrow> v4_message option" where
  "wire_message E v =
     Option.bind (wire_struct [''conversation_id'', ''run_id'', ''sequence'', ''role'', ''state'',
       ''text'', ''text_bytes'', ''text_complete'', ''context_truncated'', ''created_at_ms''] v) (\<lambda>m.
     Option.bind (wire_field m ''conversation_id'' (wire_uuid E)) (\<lambda>cid.
     Option.bind (wire_field m ''run_id'' (wire_uuid E)) (\<lambda>rid.
     Option.bind (wire_field m ''sequence'' (wire_uint 64)) (\<lambda>sequence.
     Option.bind (wire_field m ''role'' (wire_enum role_table)) (\<lambda>role.
     Option.bind (wire_field m ''state'' (wire_enum run_state_table)) (\<lambda>state.
     Option.bind (wire_field m ''text'' wire_string) (\<lambda>text.
     Option.bind (wire_field m ''text_bytes'' (wire_uint 64)) (\<lambda>bytes.
     Option.bind (wire_field m ''text_complete'' wire_bool) (\<lambda>complete.
     Option.bind (wire_default_field m ''context_truncated'' wire_bool False) (\<lambda>truncated.
     Option.bind (wire_field m ''created_at_ms'' (wire_uint 64)) (\<lambda>created.
       Some \<lparr>vm_conversation_id = cid, vm_run_id = rid, vm_sequence = sequence, vm_role = role,
             vm_state = state, vm_text = text, vm_text_bytes = bytes, vm_text_complete = complete,
             vm_context_truncated = truncated, vm_created_at_ms = created\<rparr>)))))))))))"

definition read_message :: "externals \<Rightarrow> json \<Rightarrow> validation_error + v4_message" where
  "read_message E v = read_validated v4_message_validate (wire_message E v)"

definition wire_route :: "json \<Rightarrow> v4_route_record option" where
  "wire_route v =
     Option.bind (wire_struct [''route_id'', ''backend'', ''model'', ''label'', ''available''] v) (\<lambda>m.
     Option.bind (wire_field m ''route_id'' wire_string) (\<lambda>route.
     Option.bind (wire_field m ''backend'' wire_string) (\<lambda>backend.
     Option.bind (wire_field m ''model'' wire_string) (\<lambda>model.
     Option.bind (wire_field m ''label'' wire_string) (\<lambda>label.
     Option.bind (wire_field m ''available'' wire_bool) (\<lambda>available.
       Some \<lparr>vr_route_id = route, vr_backend = backend, vr_model = model, vr_label = label,
             vr_available = available\<rparr>))))))"

definition read_route :: "json \<Rightarrow> validation_error + v4_route_record" where
  "read_route v = read_validated v4_route_record_validate (wire_route v)"

definition wire_conversation_page :: "externals \<Rightarrow> json \<Rightarrow> v4_conversation_page option" where
  "wire_conversation_page E v =
     Option.bind (wire_struct [''conversations'', ''next_after''] v) (\<lambda>m.
     Option.bind (wire_field m ''conversations'' (wire_vec (\<lambda>v. as_option (read_conversation E v))))
       (\<lambda>cs.
     Option.bind (wire_opt_field m ''next_after'' (wire_uuid E)) (\<lambda>after.
       Some \<lparr>vcg_conversations = cs, vcg_next_after = after\<rparr>)))"

definition read_conversation_page :: "externals \<Rightarrow> json \<Rightarrow> validation_error + v4_conversation_page" where
  "read_conversation_page E v =
     read_validated (v4_conversation_page_validate E) (wire_conversation_page E v)"

definition wire_message_page :: "externals \<Rightarrow> json \<Rightarrow> v4_message_page option" where
  "wire_message_page E v =
     Option.bind (wire_struct [''conversation_id'', ''messages'', ''next_after''] v) (\<lambda>m.
     Option.bind (wire_field m ''conversation_id'' (wire_uuid E)) (\<lambda>cid.
     Option.bind (wire_field m ''messages'' (wire_vec (\<lambda>v. as_option (read_message E v)))) (\<lambda>ms.
     Option.bind (wire_opt_field m ''next_after'' (wire_uint 64)) (\<lambda>after.
       Some \<lparr>vmg_conversation_id = cid, vmg_messages = ms, vmg_next_after = after\<rparr>))))"

definition read_message_page :: "externals \<Rightarrow> json \<Rightarrow> validation_error + v4_message_page" where
  "read_message_page E v = read_validated (v4_message_page_validate E) (wire_message_page E v)"

definition wire_content_payload :: "json \<Rightarrow> v4_content_payload option" where
  "wire_content_payload v =
     Option.bind (wire_tagged ''kind'' ''data'' v) (\<lambda>(kind, data).
       if kind = ''text_delta''
       then Option.bind (wire_struct [''text''] data) (\<lambda>m.
            Option.bind (wire_field m ''text'' wire_string) (\<lambda>text. Some (TextDelta text)))
       else if kind = ''tool''
       then Option.bind (wire_struct [''tool_id'', ''state''] data) (\<lambda>m.
            Option.bind (wire_field m ''tool_id'' wire_string) (\<lambda>tool.
            Option.bind (wire_field m ''state'' (wire_enum tool_state_table)) (\<lambda>state.
              Some (ToolPayload tool state))))
       else if kind = ''notice''
       then Option.bind (wire_struct [''code''] data) (\<lambda>m.
            Option.bind (wire_field m ''code'' (wire_enum notice_table)) (\<lambda>code.
              Some (NoticePayload code)))
       else if kind = ''usage''
       then Option.bind (wire_struct [''input_tokens'', ''output_tokens''] data) (\<lambda>m.
            Option.bind (wire_field m ''input_tokens'' (wire_uint 32)) (\<lambda>i.
            Option.bind (wire_field m ''output_tokens'' (wire_uint 32)) (\<lambda>out.
              Some (UsagePayload i out))))
       else if kind = ''terminal''
       then Option.bind (wire_struct [''state''] data) (\<lambda>m.
            Option.bind (wire_field m ''state'' (wire_enum run_state_table)) (\<lambda>state.
              Some (TerminalPayload state)))
       else None)"

definition read_content_payload :: "json \<Rightarrow> validation_error + v4_content_payload" where
  "read_content_payload v = read_validated v4_content_payload_validate (wire_content_payload v)"

definition wire_content_event :: "externals \<Rightarrow> json \<Rightarrow> v4_content_event option" where
  "wire_content_event E v =
     Option.bind (wire_struct [''conversation_id'', ''run_id'', ''sequence'', ''timestamp_ms'',
       ''payload''] v) (\<lambda>m.
     Option.bind (wire_field m ''conversation_id'' (wire_uuid E)) (\<lambda>cid.
     Option.bind (wire_field m ''run_id'' (wire_uuid E)) (\<lambda>rid.
     Option.bind (wire_field m ''sequence'' (wire_uint 64)) (\<lambda>sequence.
     Option.bind (wire_field m ''timestamp_ms'' (wire_uint 64)) (\<lambda>at.
     Option.bind (wire_field m ''payload'' (\<lambda>v. as_option (read_content_payload v))) (\<lambda>payload.
       Some \<lparr>ce_conversation_id = cid, ce_run_id = rid, ce_sequence = sequence,
             ce_timestamp_ms = at, ce_payload = payload\<rparr>))))))"

definition read_content_event :: "externals \<Rightarrow> json \<Rightarrow> validation_error + v4_content_event" where
  "read_content_event E v = read_validated v4_content_event_validate (wire_content_event E v)"

definition wire_content_query :: "externals \<Rightarrow> json \<Rightarrow> v4_content_query option" where
  "wire_content_query E v =
     Option.bind (wire_struct [''conversation_id'', ''run_id'', ''after'', ''limit''] v) (\<lambda>m.
     Option.bind (wire_field m ''conversation_id'' (wire_uuid E)) (\<lambda>cid.
     Option.bind (wire_field m ''run_id'' (wire_uuid E)) (\<lambda>rid.
     Option.bind (wire_field m ''after'' (wire_uint 64)) (\<lambda>after.
     Option.bind (wire_field m ''limit'' (wire_uint 16)) (\<lambda>limit.
       Some \<lparr>kq_conversation_id = cid, kq_run_id = rid, kq_after = after, kq_limit = limit\<rparr>)))))"

definition read_content_query :: "externals \<Rightarrow> json \<Rightarrow> validation_error + v4_content_query" where
  "read_content_query E v = read_validated v4_content_query_validate (wire_content_query E v)"

definition wire_content_page :: "externals \<Rightarrow> json \<Rightarrow> v4_content_page option" where
  "wire_content_page E v =
     Option.bind (wire_struct [''conversation_id'', ''run_id'', ''after'', ''events'', ''next_after''] v)
       (\<lambda>m.
     Option.bind (wire_field m ''conversation_id'' (wire_uuid E)) (\<lambda>cid.
     Option.bind (wire_field m ''run_id'' (wire_uuid E)) (\<lambda>rid.
     Option.bind (wire_field m ''after'' (wire_uint 64)) (\<lambda>after.
     Option.bind (wire_field m ''events'' (wire_vec (\<lambda>v. as_option (read_content_event E v)))) (\<lambda>es.
     Option.bind (wire_opt_field m ''next_after'' (wire_uint 64)) (\<lambda>following.
       Some \<lparr>kg_conversation_id = cid, kg_run_id = rid, kg_after = after, kg_events = es,
             kg_next_after = following\<rparr>))))))"

definition read_content_page :: "externals \<Rightarrow> json \<Rightarrow> validation_error + v4_content_page" where
  "read_content_page E v = read_validated (v4_content_page_validate E) (wire_content_page E v)"

section \<open>The codec contract\<close>

abbreviation u16 :: "nat \<Rightarrow> bool" where "u16 n \<equiv> n < 2 ^ 16"
abbreviation key_ok :: "string \<Rightarrow> bool" where "key_ok k \<equiv> is_ok (parse_idempotency_key k)"
abbreviation opt_ok :: "('a \<Rightarrow> bool) \<Rightarrow> 'a option \<Rightarrow> bool" where "opt_ok P x \<equiv> \<forall>a\<in>set_option x. P a"
abbreviation u64 :: "nat \<Rightarrow> bool" where "u64 n \<equiv> n < 2 ^ 64"
abbreviation canonical :: "externals \<Rightarrow> string \<Rightarrow> bool" where
  "canonical E i \<equiv> uuid_canonical E i = Some i"

definition conversation_typed :: "externals \<Rightarrow> v4_conversation \<Rightarrow> bool" where
  "conversation_typed E c \<longleftrightarrow> canonical E (vc_conversation_id c)
     \<and> u64 (vc_created_at_ms c) \<and> u64 (vc_updated_at_ms c) \<and> u64 (vc_sequence c)
     \<and> u64 (vc_message_count c)"

definition conversation_valid :: "v4_conversation \<Rightarrow> bool" where
  "conversation_valid c \<longleftrightarrow> vc_id c = vc_conversation_id c \<and> v4_conversation_validate c = Inr ()"

lemma wire_conversation_json:
  "conversation_typed E c \<Longrightarrow> wire_conversation E (v4_conversation_json c) =
     (if vc_id c = vc_conversation_id c then Some c else None)"
  by (cases c) (simp add: wire_conversation_def v4_conversation_json_def codec_simps wire_field_def
      conversation_typed_def)

lemma wire_conversation_typed:
  "wire_conversation E v = Some c \<Longrightarrow> conversation_typed E c \<and> vc_id c = vc_conversation_id c"
  by (auto simp: wire_conversation_def bind_eq_Some_conv codec_simps conversation_typed_def
      dest: wire_uuid_canonical split: if_splits)

interpretation conversation_wire: validated_codec v4_conversation_json "read_conversation E"
    "conversation_typed E" conversation_valid for E
  unfolding read_conversation_def
  by (rule codec_of_wire) (auto simp: wire_conversation_json conversation_valid_def dest: wire_conversation_typed)



definition conversation_query_typed :: "externals \<Rightarrow> v4_conversation_query \<Rightarrow> bool" where
  "conversation_query_typed E q \<longleftrightarrow> opt_ok (canonical E) (vcq_after q) \<and> u16 (vcq_limit q)"

definition message_query_typed :: "externals \<Rightarrow> v4_message_query \<Rightarrow> bool" where
  "message_query_typed E q \<longleftrightarrow>
     canonical E (vmq_conversation_id q) \<and> opt_ok u64 (vmq_after q) \<and> u16 (vmq_limit q)"

definition submit_turn_typed :: "externals \<Rightarrow> v4_submit_turn \<Rightarrow> bool" where
  "submit_turn_typed E t \<longleftrightarrow> canonical E (vt_conversation_id t) \<and> key_ok (vt_idempotency_key t)"

definition turn_submission_typed :: "externals \<Rightarrow> v4_turn_submission \<Rightarrow> bool" where
  "turn_submission_typed E s \<longleftrightarrow> canonical E (vs_conversation_id s) \<and> canonical E (vs_run_id s)
     \<and> key_ok (vs_idempotency_key s) \<and> u64 (vs_user_message_sequence s)"

definition message_typed :: "externals \<Rightarrow> v4_message \<Rightarrow> bool" where
  "message_typed E m \<longleftrightarrow> canonical E (vm_conversation_id m) \<and> canonical E (vm_run_id m)
     \<and> u64 (vm_sequence m) \<and> u64 (vm_text_bytes m) \<and> u64 (vm_created_at_ms m)"

fun payload_typed :: "v4_content_payload \<Rightarrow> bool" where
  "payload_typed (UsagePayload i out) \<longleftrightarrow> i < 2 ^ 32 \<and> out < 2 ^ 32"
| "payload_typed _ \<longleftrightarrow> True"

definition content_event_typed :: "externals \<Rightarrow> v4_content_event \<Rightarrow> bool" where
  "content_event_typed E e \<longleftrightarrow> canonical E (ce_conversation_id e) \<and> canonical E (ce_run_id e)
     \<and> u64 (ce_sequence e) \<and> u64 (ce_timestamp_ms e) \<and> payload_typed (ce_payload e)"

definition content_query_typed :: "externals \<Rightarrow> v4_content_query \<Rightarrow> bool" where
  "content_query_typed E q \<longleftrightarrow> canonical E (kq_conversation_id q) \<and> canonical E (kq_run_id q)
     \<and> u64 (kq_after q) \<and> u16 (kq_limit q)"

definition conversation_page_typed :: "externals \<Rightarrow> v4_conversation_page \<Rightarrow> bool" where
  "conversation_page_typed E p \<longleftrightarrow> list_all (conversation_typed E) (vcg_conversations p)
     \<and> opt_ok (canonical E) (vcg_next_after p)"

definition message_page_typed :: "externals \<Rightarrow> v4_message_page \<Rightarrow> bool" where
  "message_page_typed E p \<longleftrightarrow> canonical E (vmg_conversation_id p)
     \<and> list_all (message_typed E) (vmg_messages p) \<and> opt_ok u64 (vmg_next_after p)"

definition content_page_typed :: "externals \<Rightarrow> v4_content_page \<Rightarrow> bool" where
  "content_page_typed E p \<longleftrightarrow> canonical E (kg_conversation_id p) \<and> canonical E (kg_run_id p)
     \<and> u64 (kg_after p) \<and> list_all (content_event_typed E) (kg_events p) \<and> opt_ok u64 (kg_next_after p)"

text \<open>Labels are read back.\<close>

lemma wire_labels [codec_simps]:
  "wire_enum run_state_table (JString (state_as_str s)) = Some s"
  "wire_enum role_table (JString (role_label r)) = Some r"
  "wire_enum tool_state_table (JString (tool_state_label t)) = Some t"
  "wire_enum notice_table (JString (notice_label c)) = Some c"
  by (cases s, simp_all add: wire_enum_def wire_variant_def run_state_table_def)
    (cases r, simp_all add: wire_enum_def wire_variant_def role_table_def,
     (cases t, simp_all add: wire_enum_def wire_variant_def tool_state_table_def)[1],
     (cases c, simp_all add: wire_enum_def wire_variant_def notice_table_def)[1])

lemma wire_opt_json [codec_simps]:
  "m k = Some (json_opt JString x) \<Longrightarrow> wire_opt_field m k wire_string = Some x"
  "m k = Some (json_opt JBool y) \<Longrightarrow> wire_opt_field m k wire_bool = Some y"
  "m k = Some (json_opt json_nat z) \<Longrightarrow> opt_ok (\<lambda>n. n < 2 ^ w) z \<Longrightarrow> wire_opt_field m k (wire_uint w) = Some z"
  "m k = Some (json_opt JString i) \<Longrightarrow> opt_ok (canonical E) i \<Longrightarrow> wire_opt_field m k (wire_uuid E) = Some i"
  by (rule wire_opt_same; auto simp: codec_simps)+

lemma wire_opt_range:
  "wire_opt_field m k (wire_uint w) = Some z \<Longrightarrow> opt_ok (\<lambda>n. n < 2 ^ w) z"
  "wire_opt_field m k (wire_uuid E) = Some i \<Longrightarrow> opt_ok (canonical E) i"
  by (erule wire_opt_members, simp add: codec_simps, erule wire_opt_members, erule wire_uuid_canonical)

lemmas wire_read = bind_eq_Some_conv wire_uint_range wire_field_simps
lemmas wire_dests = wire_uuid_canonical wire_key_valid wire_opt_range

interpretation patch_wire: validated_codec v4_conversation_patch_json read_conversation_patch
    "\<lambda>_. True" "\<lambda>p. v4_conversation_patch_validate p = Inr ()"
  unfolding read_conversation_patch_def
  by (rule codec_of_struct)
    (simp_all add: wire_conversation_patch_def v4_conversation_patch_json_def codec_simps)

interpretation conversation_query_wire: validated_codec v4_conversation_query_json
    "read_conversation_query E" "conversation_query_typed E"
    "\<lambda>q. v4_conversation_query_validate q = Inr ()" for E
  unfolding read_conversation_query_def
  by (rule codec_of_struct)
    (auto simp: wire_conversation_query_def v4_conversation_query_json_def
      conversation_query_typed_def wire_field_def bind_eq_Some_conv codec_simps dest: wire_dests)

interpretation message_query_wire: validated_codec v4_message_query_json
    "read_message_query E" "message_query_typed E"
    "\<lambda>q. v4_message_query_validate q = Inr ()" for E
  unfolding read_message_query_def
  by (rule codec_of_struct)
    (auto simp: wire_message_query_def v4_message_query_json_def
      message_query_typed_def wire_field_def bind_eq_Some_conv codec_simps dest: wire_dests)

interpretation submit_turn_wire: validated_codec v4_submit_turn_json
    "read_submit_turn E" "submit_turn_typed E" "\<lambda>t. v4_submit_turn_validate t = Inr ()" for E
  unfolding read_submit_turn_def
  by (rule codec_of_struct)
    (auto simp: wire_submit_turn_def v4_submit_turn_json_def
      submit_turn_typed_def wire_field_def bind_eq_Some_conv codec_simps dest: wire_dests)

interpretation turn_submission_wire: validated_codec v4_turn_submission_json
    "read_turn_submission E" "turn_submission_typed E"
    "\<lambda>s. v4_turn_submission_validate s = Inr ()" for E
  unfolding read_turn_submission_def
  by (rule codec_of_struct)
    (auto simp: wire_turn_submission_def v4_turn_submission_json_def
      turn_submission_typed_def wire_field_def bind_eq_Some_conv codec_simps dest: wire_dests)

interpretation message_wire: validated_codec v4_message_json
    "read_message E" "message_typed E" "\<lambda>m. v4_message_validate m = Inr ()" for E
  unfolding read_message_def
  by (rule codec_of_struct)
    (auto simp: wire_message_def v4_message_json_def wire_default_field_def
      message_typed_def wire_field_def bind_eq_Some_conv codec_simps dest: wire_dests)

interpretation route_wire: validated_codec v4_route_record_json read_route
    "\<lambda>_. True" "\<lambda>r. v4_route_record_validate r = Inr ()"
  unfolding read_route_def
  by (rule codec_of_struct) (simp_all add: wire_route_def v4_route_record_json_def wire_field_def codec_simps)

lemma wire_payload_typed: "wire_content_payload v = Some p \<Longrightarrow> payload_typed p"
  by (auto simp: wire_content_payload_def bind_eq_Some_conv wire_field_def codec_simps split: if_splits)

lemma wire_payload_json: "payload_typed p \<Longrightarrow> wire_content_payload (content_payload_json p) = Some p"
  by (cases p) (simp_all add: wire_content_payload_def wire_tagged_def wire_field_def codec_simps)

interpretation payload_wire: validated_codec content_payload_json read_content_payload
    payload_typed "\<lambda>p. v4_content_payload_validate p = Inr ()"
  unfolding read_content_payload_def
  by (rule codec_of_struct) (simp_all add: wire_payload_typed wire_payload_json)

interpretation content_query_wire: validated_codec v4_content_query_json
    "read_content_query E" "content_query_typed E" "\<lambda>q. v4_content_query_validate q = Inr ()" for E
  unfolding read_content_query_def
  by (rule codec_of_struct)
    (auto simp: wire_content_query_def v4_content_query_json_def
      content_query_typed_def wire_field_def bind_eq_Some_conv codec_simps dest: wire_dests)


lemma content_event_payload_valid:
  "v4_content_event_validate e = Inr () \<Longrightarrow> v4_content_payload_validate (ce_payload e) = Inr ()"
  by (simp add: v4_content_event_validate_def rust_simps)

lemma wire_content_event_json:
  assumes "content_event_typed E e"
  shows "wire_content_event E (v4_content_event_json e) =
    (if v4_content_payload_validate (ce_payload e) = Inr () then Some e else None)"
proof (cases "v4_content_payload_validate (ce_payload e) = Inr ()")
  case True
  with assms have "as_option (read_content_payload (content_payload_json (ce_payload e))) = Some (ce_payload e)"
    by (simp add: payload_wire.nested_same content_event_typed_def)
  with True assms show ?thesis
    by (cases e) (simp add: wire_content_event_def v4_content_event_json_def wire_field_def
        codec_simps content_event_typed_def)
next
  case False
  with assms have "as_option (read_content_payload (content_payload_json (ce_payload e))) = None"
    using payload_wire.refuses_invalid [of "ce_payload e"]
    by (auto simp: content_event_typed_def as_option_def)
  with False assms show ?thesis
    by (simp add: wire_content_event_def v4_content_event_json_def wire_field_def
        codec_simps content_event_typed_def)
qed

lemma wire_content_event_typed: "wire_content_event E v = Some e \<Longrightarrow> content_event_typed E e"
  using payload_wire.reads_valid
  by (auto simp: wire_content_event_def wire_field_def bind_eq_Some_conv codec_simps
      content_event_typed_def dest: wire_dests)

interpretation content_event_wire: validated_codec v4_content_event_json
    "read_content_event E" "content_event_typed E" "\<lambda>e. v4_content_event_validate e = Inr ()" for E
  unfolding read_content_event_def
  by (rule codec_of_wire)
    (auto simp: wire_content_event_json dest: wire_content_event_typed content_event_payload_valid)

definition conversation_page_valid :: "externals \<Rightarrow> v4_conversation_page \<Rightarrow> bool" where
  "conversation_page_valid E p \<longleftrightarrow> list_all conversation_valid (vcg_conversations p)
     \<and> v4_conversation_page_validate E p = Inr ()"

interpretation conversation_page_wire: validated_codec v4_conversation_page_json
    "read_conversation_page E" "conversation_page_typed E" "conversation_page_valid E" for E
  unfolding read_conversation_page_def
proof (rule codec_of_wire)
  fix v p
  assume "wire_conversation_page E v = Some p" "v4_conversation_page_validate E p = Inr ()"
  then show "conversation_page_typed E p \<and> conversation_page_valid E p"
    by (auto simp: wire_conversation_page_def bind_eq_Some_conv wire_field_def
        conversation_page_typed_def conversation_page_valid_def
        dest: wire_dests conversation_wire.nested_members)
next
  have eq: "wire_conversation_page E (v4_conversation_page_json p) =
      (if list_all conversation_valid (vcg_conversations p) then Some p else None)"
    if "conversation_page_typed E p" for p
    using that by (cases p) (simp add: wire_conversation_page_def v4_conversation_page_json_def
        wire_field_def codec_simps conversation_wire.nested_vec conversation_page_typed_def)
  then show "wire_conversation_page E (v4_conversation_page_json p) = Some p
      \<and> v4_conversation_page_validate E p = Inr ()"
    if "conversation_page_typed E p" "conversation_page_valid E p" for p
    using that by (simp add: conversation_page_valid_def)
  show "wire_conversation_page E (v4_conversation_page_json p) = None
      \<or> wire_conversation_page E (v4_conversation_page_json p) = Some p
        \<and> v4_conversation_page_validate E p \<noteq> Inr ()"
    if "conversation_page_typed E p" "\<not> conversation_page_valid E p" for p
    using that eq [of p] by (auto simp: conversation_page_valid_def)
qed

text \<open>In the other pages the validation of the page covers its entries.\<close>

lemma message_page_loop_valid:
  "message_page_loop cid seen ms = Inr r \<Longrightarrow> list_all (\<lambda>m. v4_message_validate m = Inr ()) ms"
  by (induction ms arbitrary: seen) (auto simp: rust_simps)

lemma content_page_loop_valid:
  "content_page_loop cid rid seen t b es = Inr r \<Longrightarrow> list_all (\<lambda>e. v4_content_event_validate e = Inr ()) es"
  by (induction es arbitrary: seen t b)
    (auto simp: rust_simps v4_content_event_validate_after_def)

interpretation message_page_wire: validated_codec v4_message_page_json "read_message_page E"
    "message_page_typed E" "\<lambda>p. v4_message_page_validate E p = Inr ()" for E
  unfolding read_message_page_def
proof (rule codec_of_page)
  show "message_page_typed E p" if "wire_message_page E v = Some p" for v p
    using that by (auto simp: wire_message_page_def bind_eq_Some_conv wire_field_def
        message_page_typed_def dest: wire_dests message_wire.nested_members)
  show "wire_message_page E (v4_message_page_json p) =
      (if list_all (\<lambda>m. v4_message_validate m = Inr ()) (vmg_messages p) then Some p else None)"
    if "message_page_typed E p" for p
    using that by (cases p) (simp add: wire_message_page_def v4_message_page_json_def
        wire_field_def codec_simps message_wire.nested_vec message_page_typed_def)
  show "list_all (\<lambda>m. v4_message_validate m = Inr ()) (vmg_messages p)"
    if "v4_message_page_validate E p = Inr ()" for p
    using that by (auto simp: v4_message_page_validate_def bindr_eq_Inr dest: message_page_loop_valid)
qed

interpretation content_page_wire: validated_codec v4_content_page_json "read_content_page E"
    "content_page_typed E" "\<lambda>p. v4_content_page_validate E p = Inr ()" for E
  unfolding read_content_page_def
proof (rule codec_of_page)
  show "content_page_typed E p" if "wire_content_page E v = Some p" for v p
    using that by (auto simp: wire_content_page_def bind_eq_Some_conv wire_field_def codec_simps
        content_page_typed_def dest: wire_dests content_event_wire.nested_members)
  show "wire_content_page E (v4_content_page_json p) =
      (if list_all (\<lambda>e. v4_content_event_validate e = Inr ()) (kg_events p) then Some p else None)"
    if "content_page_typed E p" for p
    using that by (cases p) (simp add: wire_content_page_def v4_content_page_json_def
        wire_field_def codec_simps content_event_wire.nested_vec content_page_typed_def)
  show "list_all (\<lambda>e. v4_content_event_validate e = Inr ()) (kg_events p)"
    if "v4_content_page_validate E p = Inr ()" for p
    using that by (auto simp: v4_content_page_validate_def bindr_eq_Inr dest: content_page_loop_valid)
qed

end
