(* ===== verification/V4_Conversations.thy ===== *)
theory V4_Conversations
  imports V4_Wire
begin

text \<open>
  Durable assistant conversations: \<open>src/runtime/store/v4.rs\<close>, with the queries that
  \<open>v4_turn.rs\<close> shares. Every operation runs in one transaction: an error leaves the database
  as it was. Fresh identifiers and clock readings are arguments.
\<close>

section \<open>Queries shared by the operations\<close>

definition u64_or_zero :: "int \<Rightarrow> nat" where
  "u64_or_zero i = (case u64_try_from i of Some n \<Rightarrow> n | None \<Rightarrow> 0)"

text \<open>\<open>scalar\<close> over \<open>SELECT COALESCE(MAX(...), 0)\<close>.\<close>

definition scalar_max :: "int list \<Rightarrow> store_error + nat" where
  "scalar_max xs =
     ok_or (u64_try_from (if xs = [] then 0 else Max (set xs))) (CorruptData ''neg count'')"

definition stamp :: "externals \<Rightarrow> nat \<Rightarrow> store_error + string" where
  "stamp E v = bindr (v4_ms v) (\<lambda>i. ok_or (rfc3339_millis E i) (InvalidInput ''ts range''))"

definition conversation_row_of :: "db \<Rightarrow> conversation_id \<Rightarrow> store_error + v4_conversation option" where
  "conversation_row_of d cid =
     (case find (\<lambda>r. acw_id r = cid \<and> \<not> acw_deleted r) (assistant_conversations d) of
        None \<Rightarrow> Inr None
      | Some r \<Rightarrow>
          let c = \<lparr>vc_conversation_id = cid, vc_id = cid, vc_title = acw_title r,
                   vc_created_at_ms = u64_or_zero (acw_created_at_ms r),
                   vc_updated_at_ms = u64_or_zero (acw_updated_at_ms r),
                   vc_archived = acw_archived r, vc_pinned = acw_pinned r,
                   vc_sequence = u64_or_zero (acw_sequence r),
                   vc_message_count = length (filter (\<lambda>m. mw_conversation_id m = cid)
                                                (assistant_messages d))\<rparr> in
          bindr (map_err (\<lambda>_. CorruptData ''stored conv invalid'') (v4_conversation_validate c))
            (\<lambda>_. Inr (Some c)))"

definition required_conversation :: "db \<Rightarrow> conversation_id \<Rightarrow> store_error + v4_conversation" where
  "required_conversation d cid =
     bindr (conversation_row_of d cid) (\<lambda>found. ok_or found AssistantNotFound)"

definition touch_conversation :: "db \<Rightarrow> conversation_id \<Rightarrow> store_error + unit" where
  "touch_conversation d cid =
     bindr (conversation_row_of d cid) (\<lambda>found.
       if found = None then Inl AssistantNotFound else Inr ())"

definition active_labels :: "string list" where
  "active_labels = [''queued'', ''starting'', ''running'', ''cancel_requested'']"

definition active_runs :: "db \<Rightarrow> conversation_id \<Rightarrow> nat" where
  "active_runs d cid =
     length (filter (\<lambda>r. rw_conversation_id r = Some cid \<and> rw_status r \<in> set active_labels) (runs d))"

definition next_message_sequence :: "db \<Rightarrow> conversation_id \<Rightarrow> store_error + nat" where
  "next_message_sequence d cid =
     bindr (scalar_max (map mw_sequence (filter (\<lambda>m. mw_conversation_id m = cid) (assistant_messages d))))
       (\<lambda>n. Inr (n + 1))"

section \<open>Conversations\<close>

definition insert_conversation ::
    "externals \<Rightarrow> db \<Rightarrow> conversation_id \<Rightarrow> string \<Rightarrow> bool \<Rightarrow> nat \<Rightarrow> bool \<Rightarrow>
     store_error + v4_conversation \<times> db" where
  "insert_conversation E d cid title imported now_ms require =
     bindr (stamp E now_ms) (\<lambda>at.
     bindr (if require
            then (if cid \<in> cw_id ` set (conversations d) then Inr d else Inl (ConversationNotFound cid))
            else create_conversation at d cid) (\<lambda>d1.
       if cid \<in> acw_id ` set (assistant_conversations d1) then Inl AssistantConflict
       else
         bindr (scalar_max (map acw_sequence (assistant_conversations d1))) (\<lambda>last.
         bindr (sql_sequence (last + 1)) (\<lambda>seq.
         bindr (v4_ms now_ms) (\<lambda>now.
         bindr (map_err Database (insert_assistant_conversation
                  \<lparr>acw_id = cid, acw_sequence = seq, acw_title = title, acw_archived = False,
                   acw_pinned = False, acw_imported_history = imported, acw_deleted = False,
                   acw_created_at_ms = now, acw_updated_at_ms = now\<rparr> d1)) (\<lambda>d2.
         bindr (required_conversation d2 cid) (\<lambda>c. Inr (c, d2))))))))"

definition v4_create_conversation ::
    "externals \<Rightarrow> conversation_id \<Rightarrow> db \<Rightarrow> string \<Rightarrow> nat \<Rightarrow> store_error + v4_conversation \<times> db" where
  "v4_create_conversation E fresh d title now_ms = insert_conversation E d fresh title True now_ms False"

definition v4_note_legacy_shell ::
    "externals \<Rightarrow> db \<Rightarrow> conversation_id \<Rightarrow> string \<Rightarrow> nat \<Rightarrow> store_error + v4_conversation \<times> db" where
  "v4_note_legacy_shell E d cid title now_ms = insert_conversation E d cid title False now_ms True"

definition v4_conversation_by_id :: "db \<Rightarrow> conversation_id \<Rightarrow> store_error + v4_conversation" where
  "v4_conversation_by_id d cid =
     bindr (conversation_row_of d cid) (\<lambda>found. ok_or found AssistantNotFound)"

text \<open>
  SQLite's \<open>LIKE\<close> with the escape character \<open>\\<close>: \<open>%\<close> is any sequence, \<open>_\<close> one code
  point, letters compare without their ASCII case.
\<close>

definition ESCAPE :: char where "ESCAPE = CHR 0x5C"

fun like_match :: "string \<Rightarrow> string \<Rightarrow> bool" where
  "like_match [] t \<longleftrightarrow> t = []"
| "like_match (p # ps) [] \<longleftrightarrow> p = CHR ''%'' \<and> like_match ps []"
| "like_match (p # ps) (c # cs) \<longleftrightarrow>
     (if p = ESCAPE
      then (case ps of [] \<Rightarrow> False | q # qs \<Rightarrow> to_ascii_lower q = to_ascii_lower c \<and> like_match qs cs)
      else if p = CHR ''%'' then like_match ps (c # cs) \<or> like_match (p # ps) cs
      else if p = CHR ''_''
      then like_match ps (dropWhile (\<lambda>b. 128 \<le> byte_of b \<and> byte_of b < 192) cs)
      else to_ascii_lower p = to_ascii_lower c \<and> like_match ps cs)"

definition sql_like :: "string \<Rightarrow> string \<Rightarrow> bool" where
  "sql_like pattern t =
     like_match (takeWhile (\<lambda>c. c \<noteq> CHR 0x00) pattern) (takeWhile (\<lambda>c. c \<noteq> CHR 0x00) t)"

definition like_contains :: "string \<Rightarrow> string" where
  "like_contains v =
     ''%'' @ concat (map (\<lambda>c. if c \<in> {ESCAPE, CHR ''%'', CHR ''_''} then [ESCAPE, c] else [c]) v) @ ''%''"

definition listed :: "v4_conversation_query \<Rightarrow> assistant_conversation_row \<Rightarrow> bool" where
  "listed q r \<longleftrightarrow> \<not> acw_deleted r \<and> acw_archived r = vcq_archived q
     \<and> (case vcq_search q of None \<Rightarrow> True | Some s \<Rightarrow> sql_like (like_contains s) (acw_title r))"

definition list_conversations ::
    "externals \<Rightarrow> db \<Rightarrow> v4_conversation_query \<Rightarrow> store_error + v4_conversation_page" where
  "list_conversations E d q =
     bindr (scalar_max (map acw_sequence (assistant_conversations d))) (\<lambda>_.
     bindr (case vcq_after q of
              None \<Rightarrow> Inr 0
            | Some after \<Rightarrow>
                map_err (\<lambda>_. InvalidInput ''conversation cursor invalid'')
                  (ok_or (map_option acw_sequence
                     (find (\<lambda>r. acw_id r = after \<and> listed q r) (assistant_conversations d))) ())) (\<lambda>after_seq.
       let fetch = min (vcq_limit q + 1) 65535;
           rows = take fetch (sort_key acw_sequence
             (filter (\<lambda>r. listed q r \<and> after_seq < acw_sequence r) (assistant_conversations d))) in
       bindr (collect_results (\<lambda>r.
                bindr (map_err (\<lambda>_. CorruptData ''bad conv id'') (parse_uuid_id E (acw_id r)))
                  (\<lambda>cid. required_conversation d cid)) rows) (\<lambda>convs.
         let shown = take (vcq_limit q) convs;
             page = \<lparr>vcg_conversations = shown,
                     vcg_next_after = (if length convs > vcq_limit q \<and> shown \<noteq> []
                                       then Some (vc_conversation_id (last shown)) else None)\<rparr> in
         bindr (map_err (\<lambda>_. CorruptData ''v4 conv page invalid'')
                 (v4_conversation_page_validate E page)) (\<lambda>_. Inr page))))"

definition v4_list_conversations ::
    "externals \<Rightarrow> db \<Rightarrow> v4_conversation_query \<Rightarrow> store_error + v4_conversation_page" where
  "v4_list_conversations E d q =
     bindr (map_err (\<lambda>_. InvalidInput ''conversation query invalid'')
             (v4_conversation_query_validate q)) (\<lambda>_. list_conversations E d q)"

definition v4_search_conversations ::
    "externals \<Rightarrow> db \<Rightarrow> v4_conversation_query \<Rightarrow> store_error + v4_conversation_page" where
  "v4_search_conversations E d q = v4_list_conversations E d q"

text \<open>One \<open>UPDATE assistant_conversations SET ..., updated_at_ms = now\<close>.\<close>

definition patch_column ::
    "'a option \<Rightarrow> ('a \<Rightarrow> assistant_conversation_row \<Rightarrow> assistant_conversation_row) \<Rightarrow>
     conversation_id \<Rightarrow> nat \<Rightarrow> db \<Rightarrow> store_error + db" where
  "patch_column x f cid now_ms d =
     (case x of None \<Rightarrow> Inr d
      | Some a \<Rightarrow> bindr (v4_ms now_ms) (\<lambda>now.
          map_err Database (update_assistant_conversations (\<lambda>r. acw_id r = cid \<and> \<not> acw_deleted r)
            (\<lambda>r. (f a r)\<lparr>acw_updated_at_ms := now\<rparr>) d)))"

definition v4_patch_conversation ::
    "db \<Rightarrow> conversation_id \<Rightarrow> v4_conversation_patch \<Rightarrow> nat \<Rightarrow> store_error + v4_conversation \<times> db" where
  "v4_patch_conversation d cid patch now_ms =
     bindr (touch_conversation d cid) (\<lambda>_.
     bindr (patch_column (vcp_title patch) (\<lambda>t r. r\<lparr>acw_title := t\<rparr>) cid now_ms d) (\<lambda>d1.
     bindr (patch_column (vcp_archived patch) (\<lambda>a r. r\<lparr>acw_archived := a\<rparr>) cid now_ms d1) (\<lambda>d2.
     bindr (patch_column (vcp_pinned patch) (\<lambda>p r. r\<lparr>acw_pinned := p\<rparr>) cid now_ms d2) (\<lambda>d3.
     bindr (required_conversation d3 cid) (\<lambda>c. Inr (c, d3))))))"

definition v4_rename_conversation ::
    "db \<Rightarrow> conversation_id \<Rightarrow> string \<Rightarrow> nat \<Rightarrow> store_error + v4_conversation \<times> db" where
  "v4_rename_conversation d cid title now_ms =
     v4_patch_conversation d cid \<lparr>vcp_title = Some title, vcp_archived = None, vcp_pinned = None\<rparr> now_ms"

definition v4_archive_conversation ::
    "db \<Rightarrow> conversation_id \<Rightarrow> nat \<Rightarrow> store_error + v4_conversation \<times> db" where
  "v4_archive_conversation d cid now_ms =
     v4_patch_conversation d cid \<lparr>vcp_title = None, vcp_archived = Some True, vcp_pinned = None\<rparr> now_ms"

definition v4_set_pinned ::
    "db \<Rightarrow> conversation_id \<Rightarrow> bool \<Rightarrow> nat \<Rightarrow> store_error + v4_conversation \<times> db" where
  "v4_set_pinned d cid pinned now_ms =
     v4_patch_conversation d cid \<lparr>vcp_title = None, vcp_archived = None, vcp_pinned = Some pinned\<rparr> now_ms"

definition v4_delete_conversation :: "db \<Rightarrow> conversation_id \<Rightarrow> nat \<Rightarrow> store_error + db" where
  "v4_delete_conversation d cid now_ms =
     bindr (touch_conversation d cid) (\<lambda>_.
       if active_runs d cid > 0 then Inl AssistantConflict
       else bindr (v4_ms now_ms) (\<lambda>now.
         map_err Database (update_assistant_conversations (\<lambda>r. acw_id r = cid)
           (\<lambda>r. r\<lparr>acw_deleted := True, acw_updated_at_ms := now\<rparr>)
           (delete_messages cid (delete_content_events cid d)))))"

section \<open>Messages\<close>

definition parse_role :: "string \<Rightarrow> v4_message_role" where
  "parse_role s = (if s = ''assistant'' then RoleAssistant else RoleUser)"

definition state_from_str :: "string \<Rightarrow> run_state" where
  "state_from_str s =
     (if s = ''queued'' then Queued else if s = ''starting'' then Starting
      else if s = ''running'' then Running else if s = ''cancel_requested'' then CancelRequested
      else if s = ''succeeded'' then Succeeded else if s = ''failed'' then Failed
      else if s = ''cancelled'' then Cancelled else if s = ''interrupted'' then Interrupted
      else Queued)"

definition project_message ::
    "externals \<Rightarrow> conversation_id \<Rightarrow> message_row \<Rightarrow> bool \<Rightarrow> store_error + v4_message" where
  "project_message E cid row context_truncated =
     (let role = parse_role (mw_role row);
          cap = (if role = RoleUser then MAX_V4_INPUT_BYTES else MAX_V4_DELTA_BYTES);
          text = (if length (mw_body row) > cap
                  then take (floor_boundary (mw_body row) cap) (mw_body row) else mw_body row);
          bytes = (if role = RoleUser then length text
                   else max (u64_or_zero (mw_text_bytes row)) (length text)) in
      bindr (map_err (\<lambda>_. CorruptData ''stored msg invalid'') (parse_uuid_id E (mw_run_id row))) (\<lambda>rid.
        let message = \<lparr>vm_conversation_id = cid, vm_run_id = rid,
              vm_sequence = u64_or_zero (mw_sequence row), vm_role = role,
              vm_state = state_from_str (mw_state row), vm_text = text, vm_text_bytes = bytes,
              vm_text_complete = (role = RoleUser \<or> length text = bytes),
              vm_context_truncated = context_truncated,
              vm_created_at_ms = u64_or_zero (mw_created_at_ms row)\<rparr> in
        bindr (map_err (\<lambda>_. CorruptData ''stored msg invalid'') (v4_message_validate message))
          (\<lambda>_. Inr message)))"

text \<open>The EXISTS column: the run of an assistant message recorded the truncation notice.\<close>

definition has_truncation_notice :: "externals \<Rightarrow> db \<Rightarrow> message_row \<Rightarrow> bool" where
  "has_truncation_notice E d m =
     (let notice = json_to_string E (content_payload_json (NoticePayload NoticeTruncated)) in
      mw_role m = ''assistant'' \<and>
      list_ex (\<lambda>e. kw_conversation_id e = mw_conversation_id m \<and> kw_run_id e = mw_run_id m
          \<and> kw_request_id e = mw_run_id m \<and> kw_kind e = ''output_bounded''
          \<and> kw_byte_count e = int (length notice)
          \<and> list_ex (\<lambda>p. pw_conversation_id p = kw_conversation_id e \<and> pw_sequence p = kw_sequence e
              \<and> pw_payload_json p = notice) (assistant_content_payloads d))
        (assistant_content_events d))"

definition message_page ::
    "externals \<Rightarrow> db \<Rightarrow> conversation_id \<Rightarrow> nat option \<Rightarrow> nat \<Rightarrow> store_error + v4_message list" where
  "message_page E d cid after limit =
     bindr (sql_sequence (case after of None \<Rightarrow> 0 | Some s \<Rightarrow> s)) (\<lambda>cursor.
       collect_results (\<lambda>m. project_message E cid m (has_truncation_notice E d m))
         (take limit (sort_key mw_sequence
           (filter (\<lambda>m. mw_conversation_id m = cid \<and> cursor < mw_sequence m) (assistant_messages d)))))"

function fit_messages :: "(v4_message list \<Rightarrow> bool) \<Rightarrow> v4_message list \<Rightarrow> bool \<Rightarrow> v4_message list \<times> bool" where
  "fit_messages big ms has_more =
     (if length ms > 1 \<and> big ms then fit_messages big (butlast ms) True else (ms, has_more))"
  by pat_completeness auto
termination by (relation "measure (\<lambda>(_, ms, _). length ms)") auto

definition fit_message_page :: "externals \<Rightarrow> v4_message_page \<Rightarrow> v4_message_page" where
  "fit_message_page E page =
     (let (ms, has_more) = fit_messages
            (\<lambda>ms. length (json_to_string E (v4_message_page_json (page\<lparr>vmg_messages := ms\<rparr>)))
                    > MAX_V4_PAGE_BYTES)
            (vmg_messages page) (vmg_next_after page \<noteq> None) in
      page\<lparr>vmg_messages := ms,
           vmg_next_after := (if has_more \<and> ms \<noteq> [] then Some (vm_sequence (last ms)) else None)\<rparr>)"

definition v4_messages :: "externals \<Rightarrow> db \<Rightarrow> v4_message_query \<Rightarrow> store_error + v4_message_page" where
  "v4_messages E d q =
     bindr (map_err (\<lambda>_. InvalidInput ''message query invalid'') (v4_message_query_validate q)) (\<lambda>_.
     bindr (conversation_row_of d (vmq_conversation_id q)) (\<lambda>found.
       if found = None then Inl AssistantNotFound
       else
         bindr (scalar_max (map mw_sequence (filter (\<lambda>m. mw_conversation_id m = vmq_conversation_id q)
                 (assistant_messages d)))) (\<lambda>_.
         bindr (message_page E d (vmq_conversation_id q) (vmq_after q) (min (vmq_limit q + 1) 65535))
           (\<lambda>messages.
           let shown = take (vmq_limit q) messages;
               page = fit_message_page E
                 \<lparr>vmg_conversation_id = vmq_conversation_id q, vmg_messages = shown,
                  vmg_next_after = (if length messages > vmq_limit q \<and> shown \<noteq> []
                                    then Some (vm_sequence (last shown)) else None)\<rparr> in
           bindr (map_err (\<lambda>_. CorruptData ''v4 message page invalid'')
                   (v4_message_page_validate E page)) (\<lambda>_. Inr page)))))"

end
