(* ===== verification/V4_Turns.thy ===== *)
theory V4_Turns
  imports V4_Conversations
begin

text \<open>
  The turns of a conversation: \<open>src/runtime/store/v4_turn.rs\<close>. Admission writes the run, its
  first event, the user message and the binding of the turn in one transaction; content
  deltas extend the transcript and the preview of the assistant message; a transcript page
  reads the events of one run.
\<close>

section \<open>Receipts\<close>

definition turn_conversation :: "db \<Rightarrow> run_id \<Rightarrow> store_error + string" where
  "turn_conversation d rid =
     bindr (ok_or (turn_of d rid) (Database SqlNoRows)) (\<lambda>t. Inr (tw_conversation_id t))"

definition submit_digest :: "externals \<Rightarrow> v4_submit_turn \<Rightarrow> string" where
  "submit_digest E s =
     hex_string (sha256 E (''abbey:v4-turn-submit:v1'' @ [CHR 0x00] @ json_to_string E (v4_submit_turn_json s)))"

definition duplicate_submission ::
    "externals \<Rightarrow> db \<Rightarrow> run_record \<Rightarrow> v4_submit_turn \<Rightarrow> store_error + v4_turn_submission" where
  "duplicate_submission E d existing submit =
     (if rec_request_digest existing \<noteq> submit_digest E submit
         \<or> rec_conversation_id existing \<noteq> Some (vt_conversation_id submit)
      then Inl IdempotencyConflict
      else
        bindr (ok_or (turn_of d (rec_id existing)) (Database SqlNoRows)) (\<lambda>t.
          let submission = \<lparr>vs_conversation_id = vt_conversation_id submit, vs_run_id = rec_id existing,
                vs_idempotency_key = vt_idempotency_key submit,
                vs_user_message_sequence = u64_or_zero (tw_user_sequence t),
                vs_state = rec_status existing, vs_duplicate = True\<rparr> in
          bindr (map_err (\<lambda>_. CorruptData ''turn sub invalid'') (v4_turn_submission_validate submission))
            (\<lambda>_. Inr submission)))"

definition submission_for :: "externals \<Rightarrow> db \<Rightarrow> run_id \<Rightarrow> store_error + v4_turn_submission" where
  "submission_for E d rid =
     bindr (run_by_id E d rid) (\<lambda>found.
     bindr (ok_or found AssistantNotFound) (\<lambda>run.
     bindr (ok_or (turn_of d (rec_id run)) (Database SqlNoRows)) (\<lambda>t.
     bindr (ok_or (rec_conversation_id run) (CorruptData ''v4 run missing conversation'')) (\<lambda>cid.
     bindr (ok_or (u64_try_from (tw_user_sequence t)) (CorruptData ''seq'')) (\<lambda>seq.
       let submission = \<lparr>vs_conversation_id = cid, vs_run_id = rec_id run,
             vs_idempotency_key = rec_idempotency_key run, vs_user_message_sequence = seq,
             vs_state = rec_status run, vs_duplicate = False\<rparr> in
       bindr (map_err (\<lambda>_. CorruptData ''turn sub invalid'') (v4_turn_submission_validate submission))
         (\<lambda>_. Inr submission))))))"

definition v4_lookup_turn ::
    "externals \<Rightarrow> db \<Rightarrow> conversation_id \<Rightarrow> idempotency_key \<Rightarrow> store_error + v4_turn_submission option" where
  "v4_lookup_turn E d cid key =
     bindr (conversation_row_of d cid) (\<lambda>conversation.
       if conversation = None then Inl AssistantNotFound
       else
         bindr (run_by_idempotency_key E d key) (\<lambda>found.
           case found of None \<Rightarrow> Inr None
           | Some run \<Rightarrow>
               if rec_conversation_id run \<noteq> Some cid then Inl AssistantNotFound
               else if \<not> list_ex (\<lambda>t. tw_run_id t = rec_id run \<and> tw_conversation_id t = cid)
                           (assistant_turns d)
               then Inl AssistantNotFound
               else bindr (submission_for E d (rec_id run)) (\<lambda>s. Inr (Some s))))"

definition v4_require_turn :: "db \<Rightarrow> conversation_id \<Rightarrow> run_id \<Rightarrow> store_error + unit" where
  "v4_require_turn d cid rid =
     (if list_ex (\<lambda>t. tw_conversation_id t = cid \<and> tw_run_id t = rid) (assistant_turns d)
      then Inr () else Inl AssistantNotFound)"

section \<open>Admission\<close>

text \<open>\<open>RunId::new()\<close> is \<open>fresh\<close>, the message's \<open>Uuid::new_v4()\<close> is \<open>msg\<close>.\<close>

definition insert_admitted_turn ::
    "externals \<Rightarrow> run_id \<Rightarrow> string \<Rightarrow> db \<Rightarrow> v4_submit_turn \<Rightarrow> nat \<Rightarrow> store_error + v4_turn_submission \<times> db" where
  "insert_admitted_turn E fresh msg d submit now_ms =
     bindr (stamp E now_ms) (\<lambda>at.
     bindr (map_err Database (insert_run
              \<lparr>rw_id = fresh, rw_conversation_id = Some (vt_conversation_id submit),
               rw_idempotency_key = vt_idempotency_key submit,
               rw_request_digest = submit_digest E submit, rw_status = ''queued'',
               rw_next_event_sequence = 2, rw_created_at = at, rw_updated_at = at\<rparr> d)) (\<lambda>d1.
     bindr (map_err Database (insert_run_event
              \<lparr>ew_run_id = fresh, ew_sequence = 1, ew_kind = ''run_queued'',
               ew_payload_json = ''{}'', ew_created_at = at\<rparr> d1)) (\<lambda>d2.
     bindr (next_message_sequence d2 (vt_conversation_id submit)) (\<lambda>seq.
     bindr (sql_sequence seq) (\<lambda>seq_sql.
     bindr (v4_ms now_ms) (\<lambda>now.
     bindr (map_err Database (insert_message
              \<lparr>mw_id = msg, mw_conversation_id = vt_conversation_id submit, mw_run_id = fresh,
               mw_role = ''user'', mw_sequence = seq_sql, mw_body = vt_input submit,
               mw_text_bytes = int (length (vt_input submit)), mw_text_complete = True,
               mw_state = ''queued'', mw_created_at_ms = now\<rparr> d2)) (\<lambda>d3.
       let d4 = insert_profile_or_ignore
                  \<lparr>prw_profile_id = ''desk.default'', prw_document_json = ''{}'',
                   prw_updated_at_ms = now\<rparr> d3 in
     bindr (map_err Database (insert_turn
              \<lparr>tw_run_id = fresh, tw_conversation_id = vt_conversation_id submit,
               tw_user_message_id = Some msg, tw_assistant_message_id = None,
               tw_user_sequence = seq_sql, tw_route_id = vt_route_id submit,
               tw_permission_profile_id = ''desk.default'', tw_created_at_ms = now\<rparr> d4)) (\<lambda>d5.
     bindr (map_err Database (update_assistant_conversations
              (\<lambda>r. acw_id r = vt_conversation_id submit) (\<lambda>r. r\<lparr>acw_updated_at_ms := now\<rparr>) d5)) (\<lambda>d6.
       let sub = \<lparr>vs_conversation_id = vt_conversation_id submit, vs_run_id = fresh,
             vs_idempotency_key = vt_idempotency_key submit, vs_user_message_sequence = seq,
             vs_state = Queued, vs_duplicate = False\<rparr> in
       bindr (map_err (\<lambda>_. CorruptData ''turn sub invalid'') (v4_turn_submission_validate sub))
         (\<lambda>_. Inr (sub, d6)))))))))))"

definition v4_admit_turn ::
    "externals \<Rightarrow> run_id \<Rightarrow> string \<Rightarrow> db \<Rightarrow> v4_submit_turn \<Rightarrow> nat \<Rightarrow> store_error + v4_turn_submission \<times> db" where
  "v4_admit_turn E fresh msg d submit now_ms =
     bindr (map_err (\<lambda>_. InvalidInput ''turn submit invalid'') (v4_submit_turn_validate submit)) (\<lambda>_.
     bindr (run_by_idempotency_key E d (vt_idempotency_key submit)) (\<lambda>found.
       case found of
         Some existing \<Rightarrow> bindr (duplicate_submission E d existing submit) (\<lambda>dup. Inr (dup, d))
       | None \<Rightarrow>
           bindr (conversation_row_of d (vt_conversation_id submit)) (\<lambda>conversation.
             if conversation = None then Inl AssistantNotFound
             else if active_runs d (vt_conversation_id submit) > 0 then Inl AssistantConflict
             else
               bindr (ok_or (u64_try_from (last_content_sequence d (vt_conversation_id submit)))
                       (CorruptData ''neg count'')) (\<lambda>last_content.
                 if last_content > MAX_SEQUENCE - 2 then Inl AssistantConflict
                 else insert_admitted_turn E fresh msg d submit now_ms))))"

section \<open>Content\<close>

definition PREVIEW_BYTES :: nat where "PREVIEW_BYTES = 16 * 1024"

text \<open>The subtraction of the body's length is that of \<open>usize\<close>.\<close>

definition extend_preview :: "(string \<times> int) option \<Rightarrow> string \<Rightarrow> store_error + string" where
  "extend_preview existing delta =
     (let combined = (case existing of None \<Rightarrow> [] | Some (body, _) \<Rightarrow> body) in
      if (case existing of None \<Rightarrow> True | Some (body, bytes) \<Rightarrow> int (length body) = bytes)
      then (if length combined > PREVIEW_BYTES then Inl (Panicked ''attempt to subtract with overflow'')
            else Inr (combined @ take (floor_boundary delta
                        (min (length delta) (PREVIEW_BYTES - length combined))) delta))
      else Inr combined)"

definition assistant_message_of :: "db \<Rightarrow> run_id \<Rightarrow> message_row option" where
  "assistant_message_of d rid =
     find (\<lambda>m. mw_run_id m = rid \<and> mw_role m = ''assistant'') (assistant_messages d)"

definition update_assistant_preview ::
    "externals \<Rightarrow> string \<Rightarrow> db \<Rightarrow> run_id \<Rightarrow> string \<Rightarrow> nat \<Rightarrow> store_error + db" where
  "update_assistant_preview E msg d rid delta now_ms =
     (let existing = map_option (\<lambda>m. (mw_body m, mw_text_bytes m)) (assistant_message_of d rid);
          total = (case existing of None \<Rightarrow> 0 | Some (_, bytes) \<Rightarrow> bytes) + int (length delta) in
      if \<not> (0 \<le> total \<and> total \<le> int MAX_V4_CONTENT_BYTES) then Inl AssistantConflict
      else
        bindr (extend_preview existing delta) (\<lambda>combined.
          if existing \<noteq> None
          then map_err Database (update_messages (\<lambda>m. mw_run_id m = rid \<and> mw_role m = ''assistant'')
                 (\<lambda>m. m\<lparr>mw_body := combined, mw_text_bytes := total, mw_text_complete := False,
                         mw_state := ''running''\<rparr>) d)
          else
            bindr (turn_conversation d rid) (\<lambda>conv.
            bindr (map_err (\<lambda>_. CorruptData ''bad cid'') (parse_uuid_id E conv)) (\<lambda>cid.
            bindr (next_message_sequence d cid) (\<lambda>seq.
            bindr (sql_sequence seq) (\<lambda>seq_sql.
            bindr (v4_ms now_ms) (\<lambda>now.
              map_err Database (insert_message
                \<lparr>mw_id = msg, mw_conversation_id = conv, mw_run_id = rid, mw_role = ''assistant'',
                 mw_sequence = seq_sql, mw_body = combined, mw_text_bytes = total,
                 mw_text_complete = False, mw_state = ''running'', mw_created_at_ms = now\<rparr> d))))))))"

definition v4_append_content ::
    "externals \<Rightarrow> string \<Rightarrow> db \<Rightarrow> run_id \<Rightarrow> v4_content_payload \<Rightarrow> nat \<Rightarrow>
     store_error + v4_content_event \<times> db" where
  "v4_append_content E msg d rid payload now_ms =
     bindr (run_by_id E d rid) (\<lambda>found.
     bindr (ok_or found AssistantNotFound) (\<lambda>run.
       if is_terminal (rec_status run) then Inl (TerminalRun (rec_id run))
       else
         bindr (turn_conversation d rid) (\<lambda>conv.
         bindr (map_err (\<lambda>_. CorruptData ''bad cid'') (parse_uuid_id E conv)) (\<lambda>cid.
         bindr (insert_content_event E d cid rid payload now_ms) (\<lambda>(ev, d1).
           case ce_payload ev of
             TextDelta text \<Rightarrow>
               if text = [] then Inr (ev, d1)
               else bindr (update_assistant_preview E msg d1 rid text now_ms) (\<lambda>d2. Inr (ev, d2))
           | _ \<Rightarrow> Inr (ev, d1))))))"

text \<open>\<open>_now_ms\<close> is unused.\<close>

definition v4_finalize_turn :: "externals \<Rightarrow> db \<Rightarrow> run_id \<Rightarrow> run_state \<Rightarrow> store_error + db" where
  "v4_finalize_turn E d rid final_state =
     bindr (run_by_id E d rid) (\<lambda>found.
     bindr (ok_or found AssistantNotFound) (\<lambda>run.
       if \<not> is_terminal final_state \<or> rec_status run \<noteq> final_state then Inl AssistantConflict
       else Inr (d\<lparr>assistant_messages := map (\<lambda>m.
              if mw_run_id m = rid \<and> mw_role m = ''assistant''
              then m\<lparr>mw_state := state_as_str final_state,
                     mw_text_complete := (int (length (mw_body m)) = mw_text_bytes m)\<rparr>
              else m) (assistant_messages d)\<rparr>)))"

definition unadopted_event :: new_run_event where
  "unadopted_event = \<lparr>ne_kind = ''run_failed'', ne_payload = JObject
     [(''code'', JString ''executor_unsupported''),
      (''message'', JString ''executor does not support this request'')]\<rparr>"

text \<open>The transition commits on its own, so the result carries the database in every case.\<close>

definition v4_fail_unadopted_turn ::
    "externals \<Rightarrow> string \<Rightarrow> nat \<Rightarrow> db \<Rightarrow> run_id \<Rightarrow> (store_error + v4_turn_submission) \<times> db" where
  "v4_fail_unadopted_turn E now now_ms d rid =
     (case transition_run E now now_ms d rid Queued Failed unadopted_event of
        Inr (_, d1) \<Rightarrow> (submission_for E d1 rid, d1)
      | Inl (UnexpectedStatus _ _) \<Rightarrow> (submission_for E d rid, d)
      | Inl (TerminalRun _) \<Rightarrow> (submission_for E d rid, d)
      | Inl e \<Rightarrow> (Inl e, d))"

section \<open>Transcript pages\<close>

text \<open>A row of the LEFT JOIN: an absent payload is NULL, which is no String.\<close>

definition content_row ::
    "externals \<Rightarrow> db \<Rightarrow> content_event_row \<Rightarrow> store_error + nat \<times> nat \<times> v4_content_payload" where
  "content_row E d e =
     bindr (ok_or (find (\<lambda>p. pw_conversation_id p = kw_conversation_id e \<and> pw_sequence p = kw_sequence e)
                     (assistant_content_payloads d)) (Database (SqlConversion ''payload''))) (\<lambda>p.
     bindr (ok_or (json_from_str E (pw_payload_json p)) (Database (SqlConversion ''payload''))) (\<lambda>v.
     bindr (map_err (\<lambda>_. Database (SqlConversion ''payload'')) (read_content_payload v)) (\<lambda>payload.
       Inr (u64_or_zero (kw_sequence e), u64_or_zero (kw_timestamp_ms e), payload))))"

definition content_page ::
    "externals \<Rightarrow> db \<Rightarrow> conversation_id \<Rightarrow> run_id \<Rightarrow> nat \<Rightarrow> nat \<Rightarrow> store_error + v4_content_event list" where
  "content_page E d cid rid after limit =
     bindr (turn_conversation d rid) (\<lambda>conv.
       if conv \<noteq> cid then Inl AssistantNotFound
       else
         bindr (sql_sequence after) (\<lambda>cursor.
           if after \<noteq> 0 \<and> \<not> list_ex (\<lambda>e. kw_conversation_id e = cid \<and> kw_run_id e = rid
                                \<and> kw_sequence e = cursor) (assistant_content_events d)
           then Inl (InvalidInput ''content cursor invalid'')
           else
             bindr (collect_results (content_row E d)
                     (take limit (sort_key kw_sequence
                       (filter (\<lambda>e. kw_conversation_id e = cid \<and> kw_run_id e = rid \<and> cursor < kw_sequence e)
                         (assistant_content_events d))))) (\<lambda>rows.
               collect_results (\<lambda>(seq, at, payload).
                 let e = \<lparr>ce_conversation_id = cid, ce_run_id = rid, ce_sequence = seq,
                          ce_timestamp_ms = at, ce_payload = payload\<rparr> in
                 bindr (map_err (\<lambda>_. CorruptData ''ev invalid'') (v4_content_event_validate e))
                   (\<lambda>_. Inr e)) rows)))"

definition content_next_after :: "v4_content_event list \<Rightarrow> nat option" where
  "content_next_after es =
     (if es = [] \<or> is_terminal_payload (ce_payload (last es)) then None else Some (ce_sequence (last es)))"

definition candidate_page :: "v4_content_query \<Rightarrow> v4_content_event list \<Rightarrow> v4_content_page" where
  "candidate_page q es =
     \<lparr>kg_conversation_id = kq_conversation_id q, kg_run_id = kq_run_id q, kg_after = kq_after q,
      kg_events = es, kg_next_after = content_next_after es\<rparr>"

function fit_events :: "(v4_content_event list \<Rightarrow> bool) \<Rightarrow> v4_content_event list \<Rightarrow> v4_content_event list" where
  "fit_events fits es = (if es = [] \<or> fits es then es else fit_events fits (butlast es))"
  by pat_completeness auto
termination by (relation "measure (\<lambda>(_, es). length es)") auto

definition v4_content :: "externals \<Rightarrow> db \<Rightarrow> v4_content_query \<Rightarrow> store_error + v4_content_page" where
  "v4_content E d q =
     bindr (map_err (\<lambda>_. InvalidInput ''content query invalid'') (v4_content_query_validate q)) (\<lambda>_.
     bindr (conversation_row_of d (kq_conversation_id q)) (\<lambda>found.
       if found = None then Inl AssistantNotFound
       else
         bindr (content_page E d (kq_conversation_id q) (kq_run_id q) (kq_after q) (kq_limit q)) (\<lambda>events.
           let page = candidate_page q (fit_events
                 (\<lambda>es. length (json_to_string E (v4_content_page_json (candidate_page q es)))
                         \<le> MAX_V4_PAGE_BYTES) events) in
           bindr (map_err (\<lambda>_. CorruptData ''content page invalid'') (v4_content_page_validate E page))
             (\<lambda>_. Inr page))))"

definition v4_content_events :: "externals \<Rightarrow> db \<Rightarrow> v4_content_query \<Rightarrow> store_error + v4_content_page" where
  "v4_content_events E d q = v4_content E d q"

end
