(* ===== verification/Run_Manager.thy ===== *)
theory Run_Manager
  imports Run_Pages V4_Turns
begin

text \<open>
  The single-worker run manager: \<open>src/runtime/manager.rs\<close>, \<open>src/runtime/manager/helpers.rs\<close>
  and the execution seam \<open>src/runtime/executor.rs\<close>. The state shared by the callers of the
  manager and its worker thread is one record; every operation returns its result and the new
  state. Other threads run between two calls of the store: \<open>w_env\<close> is what they do before
  the call with a given number, and every store call is atomic because the store holds its
  lock. The clocks, fresh identifiers and the injected executor are fields of \<open>world\<close>.
\<close>

section \<open>The execution seam\<close>

definition MAX_FAILURE_BYTES :: nat where "MAX_FAILURE_BYTES = 4096"

datatype execution_error_kind =
  ExGeneral | ExUnsupported | ExSpawn | ExTimedOut | ExOutputLimit | ExProviderExit | ExTeardown

record execution_error =
  xe_kind :: execution_error_kind
  xe_message :: string

definition bounded_message :: "string \<Rightarrow> string" where
  "bounded_message message =
     (if length message \<le> MAX_FAILURE_BYTES then message
      else take (floor_boundary message (MAX_FAILURE_BYTES - 3)) message @ ''...'')"

definition with_kind :: "execution_error_kind \<Rightarrow> string \<Rightarrow> execution_error" where
  "with_kind kind message = \<lparr>xe_kind = kind, xe_message = bounded_message message\<rparr>"

datatype execution_attempt =
    AttemptCompleted
  | AttemptFailed execution_error
  | AttemptPanicked execution_error

text \<open>
  What a call of the executor does: it returns, or it unwinds with a payload that carries a
  message (a string slice or a string) or does not.
\<close>

datatype executor_result = ExecOk | ExecErr execution_error | ExecPanic "string option"

definition panic_message :: "string option \<Rightarrow> string" where
  "panic_message payload =
     ''executor panicked: '' @
     (case payload of Some message \<Rightarrow> message
      | None \<Rightarrow> ''executor panicked with a non-string payload'')"

fun execute_catching_panics :: "executor_result \<Rightarrow> execution_attempt" where
  "execute_catching_panics ExecOk = AttemptCompleted"
| "execute_catching_panics (ExecErr e) = AttemptFailed e"
| "execute_catching_panics (ExecPanic payload) =
     AttemptPanicked (with_kind ExGeneral (panic_message payload))"

fun execution_failure_evidence :: "execution_error_kind \<Rightarrow> string \<times> string" where
  "execution_failure_evidence ExGeneral = (''executor_failed'', ''executor returned a failure'')"
| "execution_failure_evidence ExUnsupported =
     (''executor_unsupported'', ''executor does not support this request'')"
| "execution_failure_evidence ExSpawn =
     (''executor_spawn_failed'', ''executor process failed to start'')"
| "execution_failure_evidence ExTimedOut =
     (''executor_timed_out'', ''executor exceeded its deadline'')"
| "execution_failure_evidence ExOutputLimit =
     (''executor_output_limit'', ''executor output exceeded its limit'')"
| "execution_failure_evidence ExProviderExit =
     (''executor_provider_exit'', ''executor process exited unsuccessfully'')"
| "execution_failure_evidence ExTeardown =
     (''executor_teardown_failed'', ''executor process teardown failed'')"

section \<open>The state of the manager\<close>

definition MIN_QUEUE_CAPACITY :: nat where "MIN_QUEUE_CAPACITY = 1"
definition MAX_QUEUE_CAPACITY :: nat where "MAX_QUEUE_CAPACITY = 32"

record run_manager_config = queue_capacity :: nat

definition run_manager_config_default :: run_manager_config where
  "run_manager_config_default = \<lparr>queue_capacity = 8\<rparr>"

definition effective_queue_capacity :: "run_manager_config \<Rightarrow> nat" where
  "effective_queue_capacity c = max MIN_QUEUE_CAPACITY (min MAX_QUEUE_CAPACITY (queue_capacity c))"

datatype submit_disposition = SubmitEnqueued | SubmitExisting | SubmitQueueFull

record submit_result =
  sr_run :: run_record
  sr_disposition :: submit_disposition

datatype manager_error =
  InvalidRequest string | ShuttingDown | StoreFailed store_error | WorkerPanicked

datatype work_payload = LegacyWork run_request | V4Work v4_submit_turn

record work_item =
  wi_run_id :: run_id
  wi_payload :: work_payload

text \<open>
  \<open>Shared\<close> with the channel. A cancellation token is an index into \<open>mg_tokens\<close>, because
  the worker and the callers hold clones of the same flag. The sets are lists without
  duplicates, in an order the code does not fix.
\<close>

record manager =
  mg_db :: db
  mg_admitted :: "run_id list"
  mg_active :: "(run_id \<times> nat) list"
  mg_tokens :: "bool list"
  mg_shutting_down :: bool
  mg_worker_failed :: bool
  mg_generation :: nat
  mg_queue :: "work_item list"
  mg_capacity :: nat
  mg_sender :: bool
  mg_receiver :: bool
  mg_tick :: nat

record world =
  w_ext :: externals
  w_now :: "nat \<Rightarrow> string"
  w_now_ms :: "nat \<Rightarrow> nat"
  w_clock :: "nat \<Rightarrow> nat"
  w_fresh :: "nat \<Rightarrow> run_id"
  w_fresh_message :: "nat \<Rightarrow> string"
  w_env :: "nat \<Rightarrow> manager \<Rightarrow> manager"
  w_execute :: "nat \<Rightarrow> run_id \<Rightarrow> run_request \<Rightarrow> nat \<Rightarrow> manager \<Rightarrow> executor_result \<times> manager"
  w_execute_v4 ::
    "nat \<Rightarrow> run_id \<Rightarrow> v4_submit_turn \<Rightarrow> nat \<Rightarrow> manager \<Rightarrow> executor_result \<times> manager"

definition manager_start :: "run_manager_config \<Rightarrow> db \<Rightarrow> manager" where
  "manager_start config d =
     \<lparr>mg_db = d, mg_admitted = [], mg_active = [], mg_tokens = [], mg_shutting_down = False,
      mg_worker_failed = False, mg_generation = 0, mg_queue = [],
      mg_capacity = effective_queue_capacity config, mg_sender = True, mg_receiver = True,
      mg_tick = 0\<rparr>"

text \<open>Sequencing of fallible operations on the state.\<close>

definition andthen ::
    "('e + 'a) \<times> 's \<Rightarrow> ('a \<Rightarrow> 's \<Rightarrow> ('e + 'b) \<times> 's) \<Rightarrow> ('e + 'b) \<times> 's" where
  "andthen p k = (case p of (Inl e, s) \<Rightarrow> (Inl e, s) | (Inr x, s) \<Rightarrow> k x s)"

lemma andthen_simps [simp]:
  "andthen (Inl e, s) k = (Inl e, s)" "andthen (Inr x, s) k = k x s"
  by (simp_all add: andthen_def)

definition interleave :: "world \<Rightarrow> manager \<Rightarrow> manager" where
  "interleave W m = (w_env W (mg_tick m) m)\<lparr>mg_tick := Suc (mg_tick m)\<rparr>"

text \<open>\<open>store.get_run(id)?.ok_or_else(RunNotFound)\<close> and \<open>store.transition_run\<close>.\<close>

definition store_get :: "world \<Rightarrow> run_id \<Rightarrow> manager \<Rightarrow> (manager_error + run_record) \<times> manager" where
  "store_get W rid m =
     (let m1 = interleave W m in
      case get_run (w_ext W) (mg_db m1) rid of
        Inl e \<Rightarrow> (Inl (StoreFailed e), m1)
      | Inr None \<Rightarrow> (Inl (StoreFailed (RunNotFound rid)), m1)
      | Inr (Some record) \<Rightarrow> (Inr record, m1))"

definition store_transition ::
    "world \<Rightarrow> run_id \<Rightarrow> run_state \<Rightarrow> run_state \<Rightarrow> new_run_event \<Rightarrow> manager \<Rightarrow>
     (store_error + run_event) \<times> manager" where
  "store_transition W rid expected next ev m =
     (let m1 = interleave W m in
      case transition_run (w_ext W) (w_now W (mg_tick m)) (w_now_ms W (mg_tick m)) (mg_db m1)
             rid expected next ev of
        Inl e \<Rightarrow> (Inl e, m1)
      | Inr (stored, d) \<Rightarrow> (Inr stored, m1\<lparr>mg_db := d\<rparr>))"

section \<open>Evidence\<close>

text \<open>
  A \<open>serde_json::Map\<close> keeps its keys in ascending byte order. Every event carries the reading
  of the injected clock.
\<close>

fun str_less :: "string \<Rightarrow> string \<Rightarrow> bool" where
  "str_less _ [] = False"
| "str_less [] (_ # _) = True"
| "str_less (a # as) (b # bs) = (byte_of a < byte_of b \<or> a = b \<and> str_less as bs)"

fun map_insert :: "string \<Rightarrow> json \<Rightarrow> (string \<times> json) list \<Rightarrow> (string \<times> json) list" where
  "map_insert k v [] = [(k, v)]"
| "map_insert k v ((k', v') # es) =
     (if k = k' then (k, v) # es
      else if str_less k k' then (k, v) # (k', v') # es
      else (k', v') # map_insert k v es)"

definition clock_entry :: "nat \<Rightarrow> (string \<times> json) list" where
  "clock_entry ms = map_insert ''manager_clock_ms'' (JNumber (PosInt ms)) []"

definition event :: "nat \<Rightarrow> string \<Rightarrow> (string \<times> string) option \<Rightarrow> new_run_event" where
  "event ms kind detail =
     \<lparr>ne_kind = kind,
      ne_payload = JObject (case detail of None \<Rightarrow> clock_entry ms
                           | Some (key, val) \<Rightarrow> map_insert key (JString val) (clock_entry ms))\<rparr>"

definition failure_event :: "nat \<Rightarrow> string \<Rightarrow> string \<Rightarrow> new_run_event" where
  "failure_event ms code message =
     \<lparr>ne_kind = ''run_failed'',
      ne_payload = JObject (map_insert ''message'' (JString message)
                            (map_insert ''code'' (JString code) (clock_entry ms)))\<rparr>"

datatype cancellation_reason = ReasonRequested | ReasonManagerShutdown

fun reason_as_str :: "cancellation_reason \<Rightarrow> string" where
  "reason_as_str ReasonRequested = ''requested''"
| "reason_as_str ReasonManagerShutdown = ''manager_shutdown''"

definition cancellation_reason_of :: "manager \<Rightarrow> run_state \<Rightarrow> cancellation_reason" where
  "cancellation_reason_of m s =
     (if mg_shutting_down m \<and> s \<noteq> CancelRequested then ReasonManagerShutdown else ReasonRequested)"

definition cancellation_event :: "nat \<Rightarrow> cancellation_reason \<Rightarrow> new_run_event" where
  "cancellation_event ms reason =
     event ms ''run_cancelled'' (Some (''reason'', reason_as_str reason))"

abbreviation clock_now :: "world \<Rightarrow> manager \<Rightarrow> nat" where
  "clock_now W m \<equiv> w_clock W (mg_tick m)"

section \<open>Settling a run\<close>

definition notify :: "manager \<Rightarrow> manager" where
  "notify m = m\<lparr>mg_generation := (mg_generation m + 1) mod u64_bound\<rparr>"

definition finish_admission :: "run_id \<Rightarrow> manager \<Rightarrow> manager" where
  "finish_admission rid m =
     notify (m\<lparr>mg_active := filter (\<lambda>p. fst p \<noteq> rid) (mg_active m),
               mg_admitted := filter (\<lambda>i. i \<noteq> rid) (mg_admitted m)\<rparr>)"

definition token_cancel :: "nat \<Rightarrow> manager \<Rightarrow> manager" where
  "token_cancel t m = m\<lparr>mg_tokens := (mg_tokens m)[t := True]\<rparr>"

definition token_is_cancelled :: "manager \<Rightarrow> nat \<Rightarrow> bool" where
  "token_is_cancelled m t \<longleftrightarrow> t < length (mg_tokens m) \<and> mg_tokens m ! t"

text \<open>The loops of the code run \<open>for _ in 0..8\<close>; the argument counts the attempts left.\<close>

definition MAX_ATTEMPTS :: nat where "MAX_ATTEMPTS = 8"

fun finish_cancelled_loop ::
    "nat \<Rightarrow> world \<Rightarrow> run_id \<Rightarrow> manager \<Rightarrow> (manager_error + unit) \<times> manager" where
  "finish_cancelled_loop 0 W rid m =
     (Inl (StoreFailed (CorruptData ''cancellation transition did not converge'')), m)"
| "finish_cancelled_loop (Suc n) W rid m =
     andthen (store_get W rid m) (\<lambda>record m1.
       if is_terminal (rec_status record) then (Inr (), m1)
       else
         (case store_transition W rid (rec_status record) Cancelled
                 (cancellation_event (clock_now W m1)
                   (cancellation_reason_of m1 (rec_status record))) m1 of
            (Inr _, m2) \<Rightarrow> (Inr (), m2)
          | (Inl (UnexpectedStatus _ _), m2) \<Rightarrow> finish_cancelled_loop n W rid m2
          | (Inl e, m2) \<Rightarrow> (Inl (StoreFailed e), m2)))"

definition finish_cancelled :: "world \<Rightarrow> run_id \<Rightarrow> manager \<Rightarrow> (manager_error + unit) \<times> manager" where
  "finish_cancelled W rid m = finish_cancelled_loop MAX_ATTEMPTS W rid m"

definition settlement ::
    "nat \<Rightarrow> nat \<Rightarrow> execution_attempt \<Rightarrow> run_state \<Rightarrow> manager \<Rightarrow> run_state \<times> new_run_event" where
  "settlement ms token attempt s m =
     (case attempt of
        AttemptFailed e \<Rightarrow>
          (let (code, message) = execution_failure_evidence (xe_kind e)
           in (Failed, failure_event ms code message))
      | AttemptPanicked _ \<Rightarrow> (Failed, failure_event ms ''executor_panicked'' ''executor panicked'')
      | AttemptCompleted \<Rightarrow>
          if token_is_cancelled m token \<or> s = CancelRequested \<or> mg_shutting_down m
          then (Cancelled, cancellation_event ms (cancellation_reason_of m s))
          else (Succeeded, event ms ''run_succeeded'' None))"

fun settle_attempt_loop ::
    "nat \<Rightarrow> world \<Rightarrow> run_id \<Rightarrow> nat \<Rightarrow> execution_attempt \<Rightarrow> manager \<Rightarrow>
     (manager_error + unit) \<times> manager" where
  "settle_attempt_loop 0 W rid token attempt m =
     (Inl (StoreFailed (CorruptData ''terminal run transition did not converge'')), m)"
| "settle_attempt_loop (Suc n) W rid token attempt m =
     andthen (store_get W rid m) (\<lambda>record m1.
       if is_terminal (rec_status record) then (Inr (), m1)
       else
         let (next, terminal_event) =
               settlement (clock_now W m1) token attempt (rec_status record) m1 in
         (case store_transition W rid (rec_status record) next terminal_event m1 of
            (Inr _, m2) \<Rightarrow> (Inr (), m2)
          | (Inl (UnexpectedStatus _ _), m2) \<Rightarrow> settle_attempt_loop n W rid token attempt m2
          | (Inl e, m2) \<Rightarrow> (Inl (StoreFailed e), m2)))"

definition settle_attempt ::
    "world \<Rightarrow> run_id \<Rightarrow> nat \<Rightarrow> execution_attempt \<Rightarrow> manager \<Rightarrow> (manager_error + unit) \<times> manager" where
  "settle_attempt W rid token attempt m = settle_attempt_loop MAX_ATTEMPTS W rid token attempt m"

definition cancel_queued ::
    "world \<Rightarrow> run_id \<Rightarrow> cancellation_reason \<Rightarrow> manager \<Rightarrow> (manager_error + unit) \<times> manager" where
  "cancel_queued W rid reason m =
     (case store_transition W rid Queued Cancelled (cancellation_event (clock_now W m) reason) m of
        (Inr _, m1) \<Rightarrow> (Inr (), finish_admission rid m1)
      | (Inl (TerminalRun _), m1) \<Rightarrow> (Inr (), finish_admission rid m1)
      | (Inl (UnexpectedStatus _ _), m1) \<Rightarrow>
          andthen (finish_cancelled W rid m1) (\<lambda>_ m2. (Inr (), finish_admission rid m2))
      | (Inl e, m1) \<Rightarrow> (Inl (StoreFailed e), m1))"

definition settle_start_conflict ::
    "world \<Rightarrow> run_id \<Rightarrow> manager \<Rightarrow> (manager_error + unit) \<times> manager" where
  "settle_start_conflict W rid m =
     andthen (store_get W rid m) (\<lambda>record m1.
       if is_terminal (rec_status record) then (Inr (), finish_admission rid m1)
       else if rec_status record = CancelRequested
       then andthen (finish_cancelled W rid m1) (\<lambda>_ m2. (Inr (), finish_admission rid m2))
       else (Inl (StoreFailed (UnexpectedStatus Queued (rec_status record))), m1))"

definition transition_with_failure ::
    "world \<Rightarrow> run_id \<Rightarrow> run_state \<Rightarrow> string \<Rightarrow> string \<Rightarrow> manager \<Rightarrow>
     (manager_error + run_record) \<times> manager" where
  "transition_with_failure W rid expected code message m =
     (case store_transition W rid expected Failed (failure_event (clock_now W m) code message) m of
        (Inl e, m1) \<Rightarrow> (Inl (StoreFailed e), m1)
      | (Inr _, m1) \<Rightarrow> store_get W rid m1)"

fun reject_admission_loop ::
    "nat \<Rightarrow> world \<Rightarrow> run_id \<Rightarrow> string \<Rightarrow> string \<Rightarrow> manager \<Rightarrow>
     (manager_error + run_record) \<times> manager" where
  "reject_admission_loop 0 W rid code message m =
     (Inl (StoreFailed (CorruptData ''rejected admission did not converge'')), m)"
| "reject_admission_loop (Suc n) W rid code message m =
     andthen (store_get W rid m) (\<lambda>record m1.
       if is_terminal (rec_status record) then (Inr record, finish_admission rid m1)
       else if rec_status record \<noteq> Queued
       then (Inl (StoreFailed (UnexpectedStatus Queued (rec_status record))), m1)
       else
         (case transition_with_failure W rid Queued code message m1 of
            (Inr terminal, m2) \<Rightarrow> (Inr terminal, finish_admission rid m2)
          | (Inl (StoreFailed (UnexpectedStatus _ _)), m2) \<Rightarrow>
              reject_admission_loop n W rid code message m2
          | (Inl e, m2) \<Rightarrow> (Inl e, m2)))"

definition reject_admission ::
    "world \<Rightarrow> run_id \<Rightarrow> string \<Rightarrow> string \<Rightarrow> manager \<Rightarrow> (manager_error + run_record) \<times> manager" where
  "reject_admission W rid code message m = reject_admission_loop MAX_ATTEMPTS W rid code message m"

section \<open>Operations of the manager\<close>

fun mode_label :: "run_mode \<Rightarrow> string" where
  "mode_label Interactive = ''interactive''"
| "mode_label OneShot = ''one_shot''"
| "mode_label Background = ''background''"
| "mode_label Automation = ''automation''"

text \<open>
  The serialised form of a request lists the fields of the struct in order. The digest is
  printed as two lower-case hexadecimal digits per byte.
\<close>

definition run_request_json :: "run_request \<Rightarrow> json" where
  "run_request_json r =
     JObject
       [(''idempotency_key'', JString (req_idempotency_key r)),
        (''conversation_id'', (case req_conversation_id r of None \<Rightarrow> JNull | Some c \<Rightarrow> JString c)),
        (''mode'', JString (mode_label (req_mode r))),
        (''backend'', JString (backend_as_str (req_backend r))),
        (''input'', JString (req_input r)),
        (''labels'', JArray (map JString (req_labels r)))]"

definition canonical_request_digest :: "externals \<Rightarrow> run_request \<Rightarrow> string" where
  "canonical_request_digest E r = hex_string (sha256 E (json_to_string E (run_request_json r)))"

datatype enqueue_outcome = OutcomeEnqueued | OutcomeQueueFull run_record

definition enqueue :: "world \<Rightarrow> work_item \<Rightarrow> manager \<Rightarrow> (manager_error + enqueue_outcome) \<times> manager" where
  "enqueue W item m =
     (if \<not> mg_sender m \<or> \<not> mg_receiver m
      then andthen (reject_admission W (wi_run_id item) ''worker_unavailable''
                      ''run worker is unavailable'' m) (\<lambda>_ m1. (Inl ShuttingDown, m1))
      else if length (mg_queue m) < mg_capacity m
      then (Inr OutcomeEnqueued, m\<lparr>mg_queue := mg_queue m @ [item]\<rparr>)
      else andthen (reject_admission W (wi_run_id item) ''queue_full''
                      ''bounded run queue is full'' m)
             (\<lambda>failed m1. (Inr (OutcomeQueueFull failed), m1)))"

definition admit_conversation ::
    "world \<Rightarrow> run_request \<Rightarrow> manager \<Rightarrow> (manager_error + unit) \<times> manager" where
  "admit_conversation W request m =
     (case req_conversation_id request of None \<Rightarrow> (Inr (), m)
      | Some cid \<Rightarrow>
          let m1 = interleave W m in
          (case create_conversation (w_now W (mg_tick m)) (mg_db m1) cid of
             Inl e \<Rightarrow> (Inl (StoreFailed e), m1)
           | Inr d \<Rightarrow> (Inr (), m1\<lparr>mg_db := d\<rparr>)))"

definition admit_run ::
    "world \<Rightarrow> run_request \<Rightarrow> manager \<Rightarrow> (manager_error + run_record) \<times> manager" where
  "admit_run W request m =
     (let m1 = interleave W m in
      case create_or_get_run (w_ext W) (w_fresh W (mg_tick m)) (w_now W (mg_tick m)) (mg_db m1)
             \<lparr>nr_conversation_id = req_conversation_id request,
              nr_idempotency_key = req_idempotency_key request,
              nr_request_digest = canonical_request_digest (w_ext W) request\<rparr> of
        Inl e \<Rightarrow> (Inl (StoreFailed e), m1)
      | Inr (run, d) \<Rightarrow> (Inr run, m1\<lparr>mg_db := d\<rparr>))"

definition submit :: "world \<Rightarrow> run_request \<Rightarrow> manager \<Rightarrow> (manager_error + submit_result) \<times> manager" where
  "submit W request m =
     (if mg_shutting_down m then (Inl ShuttingDown, m)
      else case run_request_validate request of
        Inl e \<Rightarrow> (Inl (InvalidRequest e), m)
      | Inr _ \<Rightarrow>
          andthen (admit_conversation W request m) (\<lambda>_ m0.
          andthen (admit_run W request m0) (\<lambda>run m1.
            if rec_status run \<noteq> Queued \<or> rec_id run \<in> set (mg_admitted m1)
            then (Inr \<lparr>sr_run = run, sr_disposition = SubmitExisting\<rparr>, m1)
            else
              andthen (enqueue W \<lparr>wi_run_id = rec_id run, wi_payload = LegacyWork request\<rparr>
                        (m1\<lparr>mg_admitted := mg_admitted m1 @ [rec_id run]\<rparr>)) (\<lambda>outcome m2.
                case outcome of
                  OutcomeEnqueued \<Rightarrow>
                    (Inr \<lparr>sr_run = run, sr_disposition = SubmitEnqueued\<rparr>, m2)
                | OutcomeQueueFull failed \<Rightarrow>
                    (Inr \<lparr>sr_run = failed, sr_disposition = SubmitQueueFull\<rparr>, m2)))))"

text \<open>Submission of a v4 turn: the clock is read before the store admits the turn.\<close>

definition admit_turn ::
    "world \<Rightarrow> v4_submit_turn \<Rightarrow> manager \<Rightarrow> (manager_error + v4_turn_submission) \<times> manager" where
  "admit_turn W request m =
     (let now_ms = clock_now W m; m1 = interleave W m in
      case v4_admit_turn (w_ext W) (w_fresh W (mg_tick m)) (w_fresh_message W (mg_tick m)) (mg_db m1)
             request now_ms of
        Inl e \<Rightarrow> (Inl (StoreFailed e), m1)
      | Inr (admitted, d) \<Rightarrow> (Inr admitted, m1\<lparr>mg_db := d\<rparr>))"

definition fail_unadopted ::
    "world \<Rightarrow> run_id \<Rightarrow> manager \<Rightarrow> (manager_error + v4_turn_submission) \<times> manager" where
  "fail_unadopted W rid m =
     (let m1 = interleave W m in
      case v4_fail_unadopted_turn (w_ext W) (w_now W (mg_tick m)) (w_now_ms W (mg_tick m)) (mg_db m1) rid of
        (Inl e, d) \<Rightarrow> (Inl (StoreFailed e), m1\<lparr>mg_db := d\<rparr>)
      | (Inr receipt, d) \<Rightarrow> (Inr receipt, m1\<lparr>mg_db := d\<rparr>))"

definition submit_v4 ::
    "world \<Rightarrow> v4_submit_turn \<Rightarrow> manager \<Rightarrow> (manager_error + v4_turn_submission) \<times> manager" where
  "submit_v4 W request m =
     (if mg_shutting_down m then (Inl ShuttingDown, m)
      else case v4_submit_turn_validate request of
        Inl e \<Rightarrow> (Inl (InvalidRequest e), m)
      | Inr _ \<Rightarrow>
          andthen (admit_turn W request m) (\<lambda>admitted m1.
            if vs_duplicate admitted \<or> vs_state admitted \<noteq> Queued then (Inr admitted, m1)
            else if vs_run_id admitted \<in> set (mg_admitted m1) then (Inr admitted, m1)
            else
              andthen (enqueue W \<lparr>wi_run_id = vs_run_id admitted, wi_payload = V4Work request\<rparr>
                        (m1\<lparr>mg_admitted := mg_admitted m1 @ [vs_run_id admitted]\<rparr>)) (\<lambda>outcome m2.
                case outcome of
                  OutcomeEnqueued \<Rightarrow> (Inr admitted, m2)
                | OutcomeQueueFull _ \<Rightarrow> fail_unadopted W (vs_run_id admitted) m2)))"

fun cancel_transition :: "nat \<Rightarrow> run_state \<Rightarrow> run_state \<times> new_run_event" where
  "cancel_transition ms Queued = (Cancelled, cancellation_event ms ReasonRequested)"
| "cancel_transition ms s = (CancelRequested, event ms ''run_cancel_requested'' None)"

fun cancel_loop :: "nat \<Rightarrow> world \<Rightarrow> run_id \<Rightarrow> manager \<Rightarrow> (manager_error + run_record) \<times> manager" where
  "cancel_loop 0 W rid m =
     (Inl (StoreFailed (CorruptData ''cancellation transition did not converge'')), m)"
| "cancel_loop (Suc n) W rid m =
     andthen (store_get W rid m) (\<lambda>record m1.
       if is_terminal (rec_status record) then (Inr record, m1)
       else
         let m2 = (case map_of (mg_active m1) rid of None \<Rightarrow> m1 | Some t \<Rightarrow> token_cancel t m1) in
         if rec_status record = CancelRequested then (Inr record, m2)
         else
           let (next, ev) = cancel_transition (clock_now W m2) (rec_status record) in
           (case store_transition W rid (rec_status record) next ev m2 of
              (Inr _, m3) \<Rightarrow> store_get W rid (notify m3)
            | (Inl (UnexpectedStatus _ _), m3) \<Rightarrow> cancel_loop n W rid m3
            | (Inl e, m3) \<Rightarrow> (Inl (StoreFailed e), m3)))"

definition cancel :: "world \<Rightarrow> run_id \<Rightarrow> manager \<Rightarrow> (manager_error + run_record) \<times> manager" where
  "cancel W rid m = cancel_loop MAX_ATTEMPTS W rid m"

section \<open>The worker\<close>

definition finalize_v4_turn ::
    "world \<Rightarrow> run_id \<Rightarrow> run_state \<Rightarrow> manager \<Rightarrow> (manager_error + unit) \<times> manager" where
  "finalize_v4_turn W rid s m =
     (let m1 = interleave W m in
      case v4_finalize_turn (w_ext W) (mg_db m1) rid s of
        Inr d \<Rightarrow> (Inr (), m1\<lparr>mg_db := d\<rparr>)
      | Inl AssistantNotFound \<Rightarrow> (Inr (), m1)
      | Inl e \<Rightarrow> (Inl (StoreFailed e), m1))"

definition is_v4 :: "work_item \<Rightarrow> bool" where
  "is_v4 item \<longleftrightarrow> (case wi_payload item of V4Work _ \<Rightarrow> True | LegacyWork _ \<Rightarrow> False)"

definition run_executor ::
    "world \<Rightarrow> work_item \<Rightarrow> nat \<Rightarrow> manager \<Rightarrow> execution_attempt \<times> manager" where
  "run_executor W item token m =
     (let (result, m1) =
        (case wi_payload item of
           LegacyWork request \<Rightarrow> w_execute W (mg_tick m) (wi_run_id item) request token m
         | V4Work turn \<Rightarrow> w_execute_v4 W (mg_tick m) (wi_run_id item) turn token m)
      in (execute_catching_panics result, m1\<lparr>mg_tick := Suc (mg_tick m1)\<rparr>))"

definition finish_item ::
    "world \<Rightarrow> work_item \<Rightarrow> run_state \<Rightarrow> manager \<Rightarrow> (manager_error + unit) \<times> manager" where
  "finish_item W item s m =
     andthen (if is_v4 item then finalize_v4_turn W (wi_run_id item) s m else (Inr (), m))
       (\<lambda>_ m1. (Inr (), finish_admission (wi_run_id item) m1))"

definition abandon_item ::
    "world \<Rightarrow> work_item \<Rightarrow> nat \<Rightarrow> manager \<Rightarrow> (manager_error + unit) \<times> manager" where
  "abandon_item W item token m =
     andthen (finish_cancelled W (wi_run_id item) (token_cancel token m))
       (\<lambda>_ m1. finish_item W item Cancelled m1)"

definition complete_item ::
    "world \<Rightarrow> work_item \<Rightarrow> nat \<Rightarrow> manager \<Rightarrow> (manager_error + unit) \<times> manager" where
  "complete_item W item token m =
     (let rid = wi_run_id item; (attempt, m1) = run_executor W item token m in
      andthen (settle_attempt W rid token attempt m1) (\<lambda>_ m2.
        if is_v4 item
        then let m3 = interleave W m2 in
          (case get_run (w_ext W) (mg_db m3) rid of
             Inl e \<Rightarrow> (Inl (StoreFailed e), m3)
           | Inr found \<Rightarrow>
               let terminal = (case found of None \<Rightarrow> Failed | Some run \<Rightarrow> rec_status run) in
               if is_terminal terminal then finish_item W item terminal m3
               else (Inr (), finish_admission rid m3))
        else (Inr (), finish_admission rid m2)))"

definition adopt_token :: "run_id \<Rightarrow> manager \<Rightarrow> nat \<times> manager" where
  "adopt_token rid m =
     (let t = length (mg_tokens m) in
      (t, m\<lparr>mg_tokens := mg_tokens m @ [mg_shutting_down m],
            mg_active := (rid, t) # filter (\<lambda>p. fst p \<noteq> rid) (mg_active m)\<rparr>))"

definition execute_item :: "world \<Rightarrow> work_item \<Rightarrow> manager \<Rightarrow> (manager_error + unit) \<times> manager" where
  "execute_item W item m =
     (let rid = wi_run_id item in
      case store_transition W rid Queued Starting (event (clock_now W m) ''run_starting'' None) m of
        (Inl (UnexpectedStatus _ _), m1) \<Rightarrow> settle_start_conflict W rid m1
      | (Inl (TerminalRun _), m1) \<Rightarrow> settle_start_conflict W rid m1
      | (Inl e, m1) \<Rightarrow> (Inl (StoreFailed e), m1)
      | (Inr _, m1) \<Rightarrow>
          let (token, m2) = adopt_token rid m1 in
          andthen (store_get W rid m2) (\<lambda>record m3.
            if rec_status record = CancelRequested \<or> token_is_cancelled m3 token
            then abandon_item W item token m3
            else
              (case store_transition W rid Starting Running
                      (event (clock_now W m3) ''run_started'' None) m3 of
                 (Inr _, m4) \<Rightarrow> complete_item W item token m4
               | (Inl (UnexpectedStatus _ _), m4) \<Rightarrow> abandon_item W item token m4
               | (Inl e, m4) \<Rightarrow> (Inl (StoreFailed e), m4))))"

definition interruption :: "run_state \<Rightarrow> run_state option" where
  "interruption s =
     (case s of Queued \<Rightarrow> Some Cancelled
      | Starting \<Rightarrow> Some Interrupted | Running \<Rightarrow> Some Interrupted | CancelRequested \<Rightarrow> Some Interrupted
      | _ \<Rightarrow> None)"

fun interrupt_loop :: "world \<Rightarrow> run_id list \<Rightarrow> manager \<Rightarrow> (manager_error + unit) \<times> manager" where
  "interrupt_loop W [] m = (Inr (), m)"
| "interrupt_loop W (rid # ids) m =
     (let m1 = interleave W m in
      case get_run (w_ext W) (mg_db m1) rid of
        Inl e \<Rightarrow> (Inl (StoreFailed e), m1)
      | Inr None \<Rightarrow> interrupt_loop W ids m1
      | Inr (Some record) \<Rightarrow>
          (case interruption (rec_status record) of
             None \<Rightarrow> interrupt_loop W ids m1
           | Some next \<Rightarrow>
               (case store_transition W rid (rec_status record) next
                       (event (clock_now W m1) ''run_manager_stopped'' None) m1 of
                  (Inl e, m2) \<Rightarrow> (Inl (StoreFailed e), m2)
                | (Inr _, m2) \<Rightarrow> interrupt_loop W ids m2)))"

definition interrupt_admitted :: "world \<Rightarrow> manager \<Rightarrow> (manager_error + unit) \<times> manager" where
  "interrupt_admitted W m =
     andthen (interrupt_loop W (mg_admitted m) m)
       (\<lambda>_ m1. (Inr (), notify (m1\<lparr>mg_admitted := [], mg_active := []\<rparr>)))"

text \<open>
  \<open>receiver.recv()\<close> waits while the queue is empty and a sender is left, and fails when the
  queue is empty and the sender is gone. The first argument bounds the number of turns,
  waiting ones included; \<open>None\<close> is a worker still running after them.
\<close>

fun worker_loop :: "nat \<Rightarrow> world \<Rightarrow> manager \<Rightarrow> ((manager_error + unit) \<times> manager) option" where
  "worker_loop 0 W m = None"
| "worker_loop (Suc n) W m =
     (let m1 = interleave W m in
      case mg_queue m1 of
        [] \<Rightarrow> if mg_sender m1 then worker_loop n W m1 else Some (Inr (), m1)
      | item # rest \<Rightarrow>
          let m2 = m1\<lparr>mg_queue := rest\<rparr> in
          (case (if mg_shutting_down m2
                 then cancel_queued W (wi_run_id item) ReasonManagerShutdown m2
                 else execute_item W item m2) of
             (Inl e, m3) \<Rightarrow> Some (Inl e, m3)
           | (Inr _, m3) \<Rightarrow> worker_loop n W m3))"

definition worker_entry :: "nat \<Rightarrow> world \<Rightarrow> manager \<Rightarrow> manager option" where
  "worker_entry n W m =
     (case worker_loop n W m of
        None \<Rightarrow> None
      | Some (Inr _, m1) \<Rightarrow> Some (m1\<lparr>mg_receiver := False\<rparr>)
      | Some (Inl _, m1) \<Rightarrow>
          Some ((snd (interrupt_admitted W
                  (m1\<lparr>mg_shutting_down := True, mg_worker_failed := True\<rparr>)))\<lparr>mg_receiver := False\<rparr>))"

text \<open>
  \<open>shutdown\<close> sets the flag, cancels the active tokens and closes the channel the first time,
  joins the worker, and sweeps what is still admitted.
\<close>

definition begin_shutdown :: "manager \<Rightarrow> manager" where
  "begin_shutdown m =
     (if mg_shutting_down m then m
      else m\<lparr>mg_shutting_down := True,
             mg_tokens := fold (\<lambda>t ts. ts[t := True]) (map snd (mg_active m)) (mg_tokens m),
             mg_sender := False\<rparr>)"

definition shutdown :: "nat \<Rightarrow> world \<Rightarrow> manager \<Rightarrow> ((manager_error + unit) \<times> manager) option" where
  "shutdown n W m =
     (let m1 = begin_shutdown m in
      case (if mg_receiver m1 then worker_entry n W m1 else Some m1) of
        None \<Rightarrow> None
      | Some m2 \<Rightarrow>
          Some (andthen (interrupt_admitted W m2) (\<lambda>_ m3.
            if mg_worker_failed m3 then (Inl WorkerPanicked, m3) else (Inr (), m3))))"

end
