(* ===== verification/Run_Manager_Facts.thy ===== *)
theory Run_Manager_Facts
  imports Run_Manager
begin

text \<open>
  The run manager settles what it adopts. Every retry of its loops that sees an unexpected
  status has seen the run climb the lifecycle, so the eight attempts of the code are more than
  enough; an adopted item ends terminal and leaves the admission sets; shutdown drains the
  queue. The interleaved steps of other threads are arbitrary steps of the store, except that
  only the worker moves a run to \<open>Starting\<close> or \<open>Running\<close>.
\<close>

section \<open>Messages and digests\<close>

lemma bounded_message_long:
  assumes "MAX_FAILURE_BYTES < length s"
  obtains k where "bounded_message s = take k s @ ''...''" "k \<le> MAX_FAILURE_BYTES - 3"
    "is_char_boundary s k"
  using assms floor_boundary_le [of s "MAX_FAILURE_BYTES - 3"]
    floor_boundary_ok [of s "MAX_FAILURE_BYTES - 3"]
  by (simp add: bounded_message_def)

lemma bounded_message_length: "length (bounded_message s) \<le> MAX_FAILURE_BYTES"
proof (cases "length s \<le> MAX_FAILURE_BYTES")
  case False
  then obtain k where "bounded_message s = take k s @ ''...''" "k \<le> MAX_FAILURE_BYTES - 3"
    using bounded_message_long [of s] by auto
  then show ?thesis by (simp add: MAX_FAILURE_BYTES_def)
qed (simp add: bounded_message_def)

lemma canonical_request_digest_valid:
  assumes "length (sha256 E (json_to_string E (run_request_json r))) = 32"
  shows "length (canonical_request_digest E r) = 64"
    and "list_all is_lower_hex (canonical_request_digest E r)"
  using assms hex_string_valid by (simp_all add: canonical_request_digest_def)

lemma effective_queue_capacity_bounds:
  "1 \<le> effective_queue_capacity c" "effective_queue_capacity c \<le> 32"
  by (simp_all add: effective_queue_capacity_def MIN_QUEUE_CAPACITY_def MAX_QUEUE_CAPACITY_def)

section \<open>Other threads\<close>

definition foreign_step :: "externals \<Rightarrow> run_id \<Rightarrow> nat \<Rightarrow> db \<Rightarrow> db \<Rightarrow> bool" where
  "foreign_step E rid k d d' \<longleftrightarrow>
     (store_step E)\<^sup>*\<^sup>* d d'
   \<and> length (events_of d' rid) \<le> length (events_of d rid) + k
   \<and> turn_of d' rid = turn_of d rid
   \<and> (status_of E d' rid \<in> {Some Starting, Some Running} \<longrightarrow> status_of E d' rid = status_of E d rid)"

definition polite :: "world \<Rightarrow> run_id \<Rightarrow> nat \<Rightarrow> bool" where
  "polite W rid k \<longleftrightarrow>
     (\<forall>t m. ledger_inv (w_ext W) (mg_db m) \<longrightarrow>
        foreign_step (w_ext W) rid k (mg_db m) (mg_db (w_env W t m)))
   \<and> (\<forall>t request token m. ledger_inv (w_ext W) (mg_db m) \<longrightarrow>
        foreign_step (w_ext W) rid k (mg_db m) (mg_db (snd (w_execute W t rid request token m))))"

text \<open>The evidence the manager can write at one reading of its clock.\<close>

definition evidence :: "nat \<Rightarrow> new_run_event list" where
  "evidence ms =
     [event ms ''run_starting'' None, event ms ''run_started'' None, event ms ''run_succeeded'' None,
      event ms ''run_cancel_requested'' None, event ms ''run_manager_stopped'' None,
      cancellation_event ms ReasonRequested, cancellation_event ms ReasonManagerShutdown]
     @ map (\<lambda>(code, message, _). failure_event ms code message) failure_table"

definition evidence_ok :: "world \<Rightarrow> bool" where
  "evidence_ok W \<longleftrightarrow>
     (\<forall>t. \<forall>ev\<in>set (evidence (w_clock W t)).
        validate_event (w_ext W) ev = Inr () \<and> payload_parses (w_ext W) ev)"

lemma evidence_members:
  "event ms ''run_starting'' None \<in> set (evidence ms)"
  "event ms ''run_started'' None \<in> set (evidence ms)"
  "event ms ''run_succeeded'' None \<in> set (evidence ms)"
  "event ms ''run_cancel_requested'' None \<in> set (evidence ms)"
  "event ms ''run_manager_stopped'' None \<in> set (evidence ms)"
  "cancellation_event ms reason \<in> set (evidence ms)"
  "failure_event ms ''queue_full'' ''bounded run queue is full'' \<in> set (evidence ms)"
  "failure_event ms ''worker_unavailable'' ''run worker is unavailable'' \<in> set (evidence ms)"
  by (cases reason; simp add: evidence_def failure_table_def)+

lemma settlement_evidence:
  assumes "settlement ms token attempt s m = (next, ev)"
  shows "ev \<in> set (evidence ms)"
proof -
  have "failure_event ms (fst (execution_failure_evidence k)) (snd (execution_failure_evidence k))
      \<in> set (evidence ms)" for k
    by (cases k) (simp_all add: evidence_def failure_table_def)
  moreover have "failure_event ms ''executor_panicked'' ''executor panicked'' \<in> set (evidence ms)"
    by (simp add: evidence_def failure_table_def)
  ultimately show ?thesis
    using assms evidence_members
    by (auto simp: settlement_def split: execution_attempt.splits prod.splits if_splits)
      (metis fst_conv snd_conv)
qed

text \<open>What the evidence says when it is projected.\<close>

lemma map_of_map_insert: "map_of (map_insert k v es) j = (if j = k then Some v else map_of es j)"
  by (induction es) auto

lemma event_reason:
  "json_get_str (ne_payload (event ms kind None)) key
     = (if key = ''manager_clock_ms'' then json_as_str (JNumber (PosInt ms)) else None)"
  "json_get_str (ne_payload (event ms kind (Some (key, val)))) key = Some val"
  by (simp_all add: event_def clock_entry_def json_get_str_def json_get_def map_of_map_insert json_as_str_def)

lemma failure_event_fields:
  "json_get_str (ne_payload (failure_event ms code message)) ''code'' = Some code"
  "json_get_str (ne_payload (failure_event ms code message)) ''message'' = Some message"
  by (simp_all add: failure_event_def clock_entry_def json_get_str_def json_get_def map_of_map_insert json_as_str_def)

lemma failure_event_projects:
  assumes "(code, message, retry) \<in> set failure_table"
  shows "\<exists>e. project_kind (ne_kind (failure_event ms code message))
               (ne_payload (failure_event ms code message)) (Some Failed) = Inr e
           \<and> lifecycle_state e = Failed"
proof -
  have "distinct (map fst failure_table)" by (simp add: failure_table_def)
  with assms have "map_of failure_table code = Some (message, retry)" by (simp add: map_of_eq_Some_iff)
  then have "\<exists>f. project_failure (ne_payload (failure_event ms code message)) = Inr f"
    by (simp add: project_failure_def failure_event_fields)
  moreover have "ne_kind (failure_event ms code message) = ''run_failed''"
    by (simp add: failure_event_def)
  ultimately show ?thesis by (auto simp: project_kind_def lifecycle_state_def)
qed

lemma cancellation_event_projects:
  "\<exists>e. project_kind (ne_kind (cancellation_event ms reason)) (ne_payload (cancellation_event ms reason))
         (Some Cancelled) = Inr e \<and> lifecycle_state e = Cancelled"
proof -
  have "ne_kind (cancellation_event ms reason) = ''run_cancelled''"
    by (simp add: cancellation_event_def event_def)
  then show ?thesis
    by (cases reason)
      (simp_all add: project_kind_def cancellation_event_def event_reason lifecycle_state_def)
qed

lemma event_kind [simp]: "ne_kind (event ms kind detail) = kind"
  by (simp add: event_def)

lemma execution_evidence_listed:
  "\<exists>retry. (fst (execution_failure_evidence k), snd (execution_failure_evidence k), retry)
     \<in> set failure_table"
  by (cases k) (simp_all add: failure_table_def, blast+)

lemma settlement_projects:
  assumes "settlement ms token attempt s m = (t, ev)"
  shows "\<exists>e. project_kind (ne_kind ev) (ne_payload ev) (Some t) = Inr e \<and> lifecycle_state e = t"
proof (cases attempt)
  case AttemptCompleted
  with assms consider "t = Cancelled" "ev = cancellation_event ms (cancellation_reason_of m s)"
    | "t = Succeeded" "ev = event ms ''run_succeeded'' None"
    by (auto simp: settlement_def split: if_splits)
  then show ?thesis
  proof cases
    case 1
    then show ?thesis using cancellation_event_projects by simp
  qed (simp add: project_kind_def lifecycle_state_def)
next
  case (AttemptFailed x)
  obtain code message where code: "execution_failure_evidence (xe_kind x) = (code, message)" by fastforce
  obtain retry where "(code, message, retry) \<in> set failure_table"
    using execution_evidence_listed [of "xe_kind x"] code by auto
  moreover have "t = Failed" "ev = failure_event ms code message"
    using assms AttemptFailed code by (simp_all add: settlement_def)
  ultimately show ?thesis using failure_event_projects by simp
next
  case (AttemptPanicked x)
  have "(''executor_panicked'', ''executor panicked'', False) \<in> set failure_table"
    by (simp add: failure_table_def)
  moreover have "t = Failed" "ev = failure_event ms ''executor_panicked'' ''executor panicked''"
    using assms AttemptPanicked by (simp_all add: settlement_def)
  ultimately show ?thesis using failure_event_projects by simp
qed

lemma evidence_projects:
  assumes "(t, ev) \<in> {(Starting, event ms ''run_starting'' None), (Running, event ms ''run_started'' None),
             (Failed, failure_event ms ''queue_full'' ''bounded run queue is full''),
             (Failed, failure_event ms ''worker_unavailable'' ''run worker is unavailable''),
             (Cancelled, cancellation_event ms reason)}
         \<or> settlement ms token attempt s m = (t, ev)
         \<or> cancel_transition ms s = (t, ev)
         \<or> interruption s = Some t \<and> ev = event ms ''run_manager_stopped'' None"
  shows "\<exists>e. project_kind (ne_kind ev) (ne_payload ev) (Some t) = Inr e \<and> lifecycle_state e = t"
  using assms
proof (elim disjE)
  assume "settlement ms token attempt s m = (t, ev)"
  then show ?thesis by (rule settlement_projects)
next
  assume "cancel_transition ms s = (t, ev)"
  then consider "t = Cancelled" "ev = cancellation_event ms ReasonRequested"
    | "t = CancelRequested" "ev = event ms ''run_cancel_requested'' None"
    by (cases s) auto
  then show ?thesis
  proof cases
    case 1
    then show ?thesis using cancellation_event_projects by simp
  qed (simp add: project_kind_def lifecycle_state_def)
next
  assume "interruption s = Some t \<and> ev = event ms ''run_manager_stopped'' None"
  then show ?thesis
    by (cases s) (auto simp: interruption_def project_kind_def lifecycle_state_def)
next
  have full: "(''queue_full'', ''bounded run queue is full'', True) \<in> set failure_table"
    "(''worker_unavailable'', ''run worker is unavailable'', True) \<in> set failure_table"
    by (simp_all add: failure_table_def)
  assume "(t, ev) \<in> {(Starting, event ms ''run_starting'' None), (Running, event ms ''run_started'' None),
      (Failed, failure_event ms ''queue_full'' ''bounded run queue is full''),
      (Failed, failure_event ms ''worker_unavailable'' ''run worker is unavailable''),
      (Cancelled, cancellation_event ms reason)}"
  then consider "t = Starting" "ev = event ms ''run_starting'' None"
    | "t = Running" "ev = event ms ''run_started'' None"
    | "t = Failed" "ev = failure_event ms ''queue_full'' ''bounded run queue is full''"
    | "t = Failed" "ev = failure_event ms ''worker_unavailable'' ''run worker is unavailable''"
    | "t = Cancelled" "ev = cancellation_event ms reason"
    by fastforce
  then show ?thesis
  proof cases
    case 3 then show ?thesis using failure_event_projects [OF full(1)] by simp
  next
    case 4 then show ?thesis using failure_event_projects [OF full(2)] by simp
  next
    case 5 then show ?thesis using cancellation_event_projects by simp
  qed (simp_all add: project_kind_def lifecycle_state_def)
qed

text \<open>A legacy run at a known status, with room for its remaining events.\<close>

definition poised :: "externals \<Rightarrow> run_id \<Rightarrow> run_state \<Rightarrow> nat \<Rightarrow> db \<Rightarrow> bool" where
  "poised E rid s l d \<longleftrightarrow>
     ledger_inv E d \<and> turn_of d rid = None \<and> status_of E d rid = Some s
   \<and> length (events_of d rid) \<le> l"

lemma poised_record:
  assumes "poised E rid s l d"
  obtains run where "run_by_id E d rid = Inr (Some run)" "rec_status run = s" "rec_id run = rid"
    "rec_next_event_sequence run \<le> Suc l" "db_wf E d"
proof -
  from assms obtain run where run: "run_by_id E d rid = Inr (Some run)" "rec_status run = s"
    by (auto simp: poised_def status_of_Some)
  have wf: "db_wf E d" using assms by (simp add: poised_def ledger_inv_def)
  have "map ew_sequence (events_of d rid) = map int [1..<rec_next_event_sequence run]"
    using run_by_id_row [OF wf run(1)] by blast
  then have "length (events_of d rid) = rec_next_event_sequence run - 1"
    by (metis length_map length_upt)
  with assms have "rec_next_event_sequence run \<le> Suc l" by (simp add: poised_def le_diff_conv)
  with run wf run_by_id_rec_id [OF run(1)] show ?thesis by (rule_tac that) simp_all
qed

lemma foreign_poised:
  assumes "poised E rid s l d" and "foreign_step E rid k d d'"
  obtains s' where "poised E rid s' (l + k) d'" "(store_step E)\<^sup>*\<^sup>* d d'"
    "s' = s \<or> lifecycle_rank s < lifecycle_rank s'" "s' \<in> {Starting, Running} \<longrightarrow> s' = s"
proof -
  have steps: "(store_step E)\<^sup>*\<^sup>* d d'" and inv: "ledger_inv E d" and st: "status_of E d rid = Some s"
    using assms by (simp_all add: foreign_step_def poised_def)
  from store.steps_rank [OF steps inv st] obtain s' where
    "status_of E d' rid = Some s'" "s' = s \<or> lifecycle_rank s < lifecycle_rank s'" by blast
  with assms store.steps_inv [OF steps inv] st show ?thesis
    by (intro that [of s']) (auto simp: poised_def foreign_step_def)
qed

lemma interleave_poised:
  assumes "polite W rid k" and "poised (w_ext W) rid s l (mg_db m)"
  obtains s' where "poised (w_ext W) rid s' (l + k) (mg_db (interleave W m))"
    "(store_step (w_ext W))\<^sup>*\<^sup>* (mg_db m) (mg_db (interleave W m))"
    "s' = s \<or> lifecycle_rank s < lifecycle_rank s'" "s' \<in> {Starting, Running} \<longrightarrow> s' = s"
proof -
  have "foreign_step (w_ext W) rid k (mg_db m) (mg_db (interleave W m))"
    using assms by (simp add: polite_def poised_def interleave_def)
  with assms(2) show ?thesis by (rule foreign_poised) (rule that)
qed

section \<open>One call of the store\<close>

lemma store_get_poised:
  assumes "polite W rid k" and "poised (w_ext W) rid s l (mg_db m)"
  obtains s' r m1 where "store_get W rid m = (Inr r, m1)" "rec_status r = s'"
    "rec_id r = rid" "poised (w_ext W) rid s' (l + k) (mg_db m1)"
    "(store_step (w_ext W))\<^sup>*\<^sup>* (mg_db m) (mg_db m1)"
    "s' = s \<or> lifecycle_rank s < lifecycle_rank s'" "s' \<in> {Starting, Running} \<longrightarrow> s' = s"
    "m1 = interleave W m"
proof -
  from assms obtain s' where p: "poised (w_ext W) rid s' (l + k) (mg_db (interleave W m))"
    and steps: "(store_step (w_ext W))\<^sup>*\<^sup>* (mg_db m) (mg_db (interleave W m))"
    and rest: "s' = s \<or> lifecycle_rank s < lifecycle_rank s'" "s' \<in> {Starting, Running} \<longrightarrow> s' = s"
    by (rule interleave_poised)
  from p obtain run where run: "run_by_id (w_ext W) (mg_db (interleave W m)) rid = Inr (Some run)"
    "rec_status run = s'" "rec_id run = rid"
    by (rule poised_record)
  from run(1) have "store_get W rid m = (Inr run, interleave W m)"
    by (simp add: store_get_def get_run_def Let_def)
  from this run(2,3) p steps rest show ?thesis by (rule that) simp
qed

lemma store_transition_poised:
  assumes pol: "polite W rid k" and p: "poised (w_ext W) rid s l (mg_db m)"
    and ev: "evidence_ok W" "ev \<in> set (evidence (w_clock W t))"
    and can: "can_step expected next" and room: "l + k + 2 < i64_bound"
  obtains
    (moved) stored m1 where "store_transition W rid expected next ev m = (Inr stored, m1)"
      "poised (w_ext W) rid next (Suc (l + k)) (mg_db m1)"
      "(store_step (w_ext W))\<^sup>*\<^sup>* (mg_db m) (mg_db m1)" "m1 = (interleave W m)\<lparr>mg_db := mg_db m1\<rparr>"
  | (raced) s' m1 where "store_transition W rid expected next ev m
        = (Inl (UnexpectedStatus expected s'), m1)" "s' \<noteq> expected"
      "poised (w_ext W) rid s' (l + k) (mg_db m1)"
      "(store_step (w_ext W))\<^sup>*\<^sup>* (mg_db m) (mg_db m1)"
      "s' = s \<or> lifecycle_rank s < lifecycle_rank s'" "s' \<in> {Starting, Running} \<longrightarrow> s' = s"
      "m1 = interleave W m"
proof -
  let ?m = "interleave W m" and ?E = "w_ext W"
  from pol p obtain s' where p': "poised ?E rid s' (l + k) (mg_db ?m)"
    and steps: "(store_step ?E)\<^sup>*\<^sup>* (mg_db m) (mg_db ?m)"
    and rest: "s' = s \<or> lifecycle_rank s < lifecycle_rank s'" "s' \<in> {Starting, Running} \<longrightarrow> s' = s"
    by (rule interleave_poised)
  have valid: "validate_event ?E ev = Inr ()" "payload_parses ?E ev"
    using ev by (auto simp: evidence_ok_def)
  from p' obtain run where run: "run_by_id ?E (mg_db ?m) rid = Inr (Some run)"
    "rec_status run = s'" "rec_id run = rid" "rec_next_event_sequence run \<le> Suc (l + k)"
    and wf: "db_wf ?E (mg_db ?m)"
    by (rule poised_record)
  show ?thesis
  proof (cases "s' = expected")
    case False
    with run valid have "store_transition W rid expected next ev m
        = (Inl (UnexpectedStatus expected s'), ?m)"
      by (simp add: store_transition_def Let_def transition_run_def)
    from raced [OF this False p' steps rest] show ?thesis by simp
  next
    case True
    let ?now = "w_now W (mg_tick m)" and ?ms = "w_now_ms W (mg_tick m)"
    have turn: "turn_of (mg_db ?m) rid = None" using p' by (simp add: poised_def)
    obtain d where tr: "transition_run ?E ?now ?ms (mg_db ?m) rid expected next ev
        = Inr (next_event ?now run ev, d)"
      using transition_run_succeeds [OF wf run(1) valid(1), of "next" ?now ?ms]
        can turn True run room by auto
    then have st: "store_step ?E (mg_db ?m) d" using valid(2) by (rule store_step.transition)
    from transition_run_logged [OF wf tr] obtain run' where
      log: "logged ?E ?now (mg_db ?m) run' next ev d" and "rec_id run' = rid"
      and turns: "assistant_turns d = assistant_turns (mg_db ?m)" by blast
    then have "status_of ?E d rid = Some next" "length (events_of d rid) \<le> Suc (l + k)"
      using logged_run_by_id [OF log, of rid] logged_events [OF log, of rid] p'
      by (simp_all add: status_of_def poised_def)
    moreover have "ledger_inv ?E d"
      using store.step_inv [OF _ st] p' by (simp add: poised_def)
    moreover have "turn_of d rid = None" using turn turns by (simp add: turn_of_def)
    ultimately have "poised ?E rid next (Suc (l + k)) d" by (simp add: poised_def)
    moreover have "store_transition W rid expected next ev m
        = (Inr (next_event ?now run ev), ?m\<lparr>mg_db := d\<rparr>)"
      using tr by (simp add: store_transition_def Let_def)
    ultimately show ?thesis
      using steps st moved [of "next_event ?now run ev" "?m\<lparr>mg_db := d\<rparr>"]
      by (simp add: rtranclp.rtrancl_into_rtrancl)
  qed
qed

section \<open>The retry loops converge\<close>

text \<open>
  What a settled run looks like: the manager returned, the database moved by steps of the
  store, and the run is at the status \<open>s'\<close>.
\<close>

definition settled ::
    "world \<Rightarrow> run_id \<Rightarrow> run_state \<Rightarrow> nat \<Rightarrow> manager \<Rightarrow> manager \<Rightarrow> bool" where
  "settled W rid s' l m m' \<longleftrightarrow>
     poised (w_ext W) rid s' l (mg_db m') \<and> (store_step (w_ext W))\<^sup>*\<^sup>* (mg_db m) (mg_db m')"

lemma settled_after:
  assumes "(store_step (w_ext W))\<^sup>*\<^sup>* (mg_db m) (mg_db m1)" and "settled W rid s' l m1 m2" and "l \<le> l'"
  shows "settled W rid s' l' m m2"
  using assms by (auto simp: settled_def poised_def)

lemma nonterminal_cancel: "\<not> is_terminal s \<Longrightarrow> can_step s Cancelled"
  by (cases s) (simp_all add: can_step_iff)

lemma finish_cancelled_loop_settles:
  assumes pol: "polite W rid k" and ev: "evidence_ok W"
  shows "poised (w_ext W) rid s l (mg_db m) \<Longrightarrow> 5 \<le> n + lifecycle_rank s \<Longrightarrow>
    l + 2 * n * k + 2 < i64_bound \<Longrightarrow>
    \<exists>s' m'. finish_cancelled_loop n W rid m = (Inr (), m') \<and> is_terminal s'
      \<and> settled W rid s' (l + 2 * n * k + 1) m m'"
proof (induction n arbitrary: s l m)
  case 0
  then show ?case using lifecycle_rank_le [of s] by simp
next
  case (Suc n)
  from pol Suc.prems(1) obtain s1 r m1 where
    get: "store_get W rid m = (Inr r, m1)" and st: "rec_status r = s1"
    and p1: "poised (w_ext W) rid s1 (l + k) (mg_db m1)"
    and d1: "(store_step (w_ext W))\<^sup>*\<^sup>* (mg_db m) (mg_db m1)"
    and s1: "s1 = s \<or> lifecycle_rank s < lifecycle_rank s1"
    by (rule store_get_poised)
  show ?case
  proof (cases "is_terminal s1")
    case True
    with get st p1 d1 show ?thesis by (auto simp: settled_def poised_def intro!: exI [of _ s1])
  next
    case False
    let ?ev = "cancellation_event (clock_now W m1) (cancellation_reason_of m1 s1)"
    have room: "l + k + k + 2 < i64_bound" using Suc.prems(3) by simp
    have "?ev \<in> set (evidence (clock_now W m1))" by (rule evidence_members)
    from pol p1 ev this nonterminal_cancel [OF False] room show ?thesis
    proof (cases rule: store_transition_poised)
      case (moved stored m2)
      with get st False d1 show ?thesis
        by (auto simp: settled_def poised_def intro!: exI [of _ Cancelled])
    next
      case (raced s2 m2)
      have "5 \<le> n + lifecycle_rank s2" using raced(2,5) s1 Suc.prems(2) by auto
      with Suc.IH [of s2 "l + k + k" m2] raced(3) Suc.prems(3) obtain s' m' where
        "finish_cancelled_loop n W rid m2 = (Inr (), m')" "is_terminal s'"
        "settled W rid s' (l + k + k + 2 * n * k + 1) m2 m'" by (auto simp: algebra_simps)
      with get st False raced(1) d1 raced(4) show ?thesis
        by (auto intro!: exI [of _ s'] intro: settled_after)
    qed
  qed
qed

lemma finish_cancelled_settles:
  assumes "polite W rid k" "evidence_ok W" "poised (w_ext W) rid s l (mg_db m)"
    and "l + 16 * k + 2 < i64_bound"
  obtains s' m' where "finish_cancelled W rid m = (Inr (), m')" "is_terminal s'"
    "settled W rid s' (l + 16 * k + 1) m m'"
  using finish_cancelled_loop_settles [OF assms(1-3), of MAX_ATTEMPTS] assms(4)
  by (auto simp: finish_cancelled_def MAX_ATTEMPTS_def)

lemma settlement_step:
  assumes "settlement ms token attempt s m = (next, ev)" and "2 \<le> lifecycle_rank s" "\<not> is_terminal s"
  shows "can_step s next \<and> is_terminal next"
  using assms
  by (cases s)
    (auto simp: settlement_def can_step_iff split: execution_attempt.splits prod.splits if_splits)

lemma settle_attempt_loop_settles:
  assumes pol: "polite W rid k" and ev: "evidence_ok W"
  shows "poised (w_ext W) rid s l (mg_db m) \<Longrightarrow> 5 \<le> n + lifecycle_rank s \<Longrightarrow>
    2 \<le> lifecycle_rank s \<Longrightarrow> l + 2 * n * k + 2 < i64_bound \<Longrightarrow>
    \<exists>s' m'. settle_attempt_loop n W rid token attempt m = (Inr (), m') \<and> is_terminal s'
      \<and> settled W rid s' (l + 2 * n * k + 1) m m'"
proof (induction n arbitrary: s l m)
  case 0
  then show ?case using lifecycle_rank_le [of s] by simp
next
  case (Suc n)
  from pol Suc.prems(1) obtain s1 r m1 where
    get: "store_get W rid m = (Inr r, m1)" and st: "rec_status r = s1"
    and p1: "poised (w_ext W) rid s1 (l + k) (mg_db m1)"
    and d1: "(store_step (w_ext W))\<^sup>*\<^sup>* (mg_db m) (mg_db m1)"
    and s1: "s1 = s \<or> lifecycle_rank s < lifecycle_rank s1"
    by (rule store_get_poised)
  show ?case
  proof (cases "is_terminal s1")
    case True
    with get st p1 d1 show ?thesis by (auto simp: settled_def poised_def intro!: exI [of _ s1])
  next
    case False
    obtain t tev where set: "settlement (clock_now W m1) token attempt s1 m1 = (t, tev)"
      by fastforce
    have rank: "2 \<le> lifecycle_rank s1" using s1 Suc.prems(3) by auto
    have can: "can_step s1 t" and fin: "is_terminal t" using settlement_step [OF set rank False] by auto
    have room: "l + k + k + 2 < i64_bound" using Suc.prems(4) by simp
    from pol p1 ev settlement_evidence [OF set] can room show ?thesis
    proof (cases rule: store_transition_poised)
      case (moved stored m2)
      with get st False d1 set fin show ?thesis
        by (auto simp: settled_def poised_def intro!: exI [of _ t])
    next
      case (raced s2 m2)
      have "5 \<le> n + lifecycle_rank s2" "2 \<le> lifecycle_rank s2"
        using raced(2,5) s1 rank Suc.prems(2) by auto
      with Suc.IH [of s2 "l + k + k" m2] raced(3) Suc.prems(4) obtain s' m' where
        "settle_attempt_loop n W rid token attempt m2 = (Inr (), m')" "is_terminal s'"
        "settled W rid s' (l + k + k + 2 * n * k + 1) m2 m'" by (auto simp: algebra_simps)
      with get st False raced(1) d1 set raced(4) show ?thesis
        by (auto intro!: exI [of _ s'] intro: settled_after)
    qed
  qed
qed

lemma settle_attempt_settles:
  assumes "polite W rid k" "evidence_ok W" "poised (w_ext W) rid s l (mg_db m)"
    and "2 \<le> lifecycle_rank s" and "l + 16 * k + 2 < i64_bound"
  obtains s' m' where "settle_attempt W rid token attempt m = (Inr (), m')" "is_terminal s'"
    "settled W rid s' (l + 16 * k + 1) m m'"
  using settle_attempt_loop_settles [OF assms(1-3), of MAX_ATTEMPTS token attempt] assms(4,5)
  by (auto simp: settle_attempt_def MAX_ATTEMPTS_def)

section \<open>Cancelling and rejecting\<close>

lemma cancel_transition_step:
  assumes "cancel_transition ms s = (next, ev)" and "\<not> is_terminal s" "s \<noteq> CancelRequested"
  shows "can_step s next \<and> 3 \<le> lifecycle_rank next \<and> ev \<in> set (evidence ms)"
  using assms evidence_members by (cases s) (auto simp: can_step_iff)

lemma cancel_loop_settles:
  assumes pol: "polite W rid k" and ev: "evidence_ok W"
  shows "poised (w_ext W) rid s l (mg_db m) \<Longrightarrow> 5 \<le> n + lifecycle_rank s \<Longrightarrow>
    l + 2 * n * k + 2 < i64_bound \<Longrightarrow>
    \<exists>r m'. cancel_loop n W rid m = (Inr r, m') \<and> rec_id r = rid \<and> 3 \<le> lifecycle_rank (rec_status r)
      \<and> settled W rid (rec_status r) (l + 2 * n * k + k + 1) m m'"
proof (induction n arbitrary: s l m)
  case 0
  then show ?case using lifecycle_rank_le [of s] by simp
next
  case (Suc n)
  from pol Suc.prems(1) obtain s1 r m1 where
    get: "store_get W rid m = (Inr r, m1)" and st: "rec_status r = s1" "rec_id r = rid"
    and p1: "poised (w_ext W) rid s1 (l + k) (mg_db m1)"
    and d1: "(store_step (w_ext W))\<^sup>*\<^sup>* (mg_db m) (mg_db m1)"
    and s1: "s1 = s \<or> lifecycle_rank s < lifecycle_rank s1"
    by (rule store_get_poised)
  define m2 where "m2 = (case map_of (mg_active m1) rid of None \<Rightarrow> m1 | Some t \<Rightarrow> token_cancel t m1)"
  have db2: "mg_db m2 = mg_db m1" by (simp add: m2_def token_cancel_def split: option.splits)
  show ?case
  proof (cases "is_terminal s1 \<or> s1 = CancelRequested")
    case True
    then have "3 \<le> lifecycle_rank s1" by (auto simp: is_terminal_rank)
    with True get st p1 d1 show ?thesis
      by (auto simp: settled_def poised_def m2_def [symmetric] db2 Let_def)
  next
    case False
    obtain t tev where tr: "cancel_transition (clock_now W m2) s1 = (t, tev)" by fastforce
    have can: "can_step s1 t" "3 \<le> lifecycle_rank t" "tev \<in> set (evidence (clock_now W m2))"
      using cancel_transition_step [OF tr] False by auto
    have p2: "poised (w_ext W) rid s1 (l + k) (mg_db m2)" using p1 db2 by simp
    have room: "l + k + k + 2 < i64_bound" using Suc.prems(3) by simp
    from pol p2 ev can(3,1) room show ?thesis
    proof (cases rule: store_transition_poised)
      case (moved stored m3)
      then have "poised (w_ext W) rid t (Suc (l + k + k)) (mg_db (notify m3))"
        by (simp add: notify_def)
      with pol obtain s4 r4 m4 where "store_get W rid (notify m3) = (Inr r4, m4)"
        "rec_status r4 = s4" "rec_id r4 = rid" "poised (w_ext W) rid s4 (Suc (l + k + k) + k) (mg_db m4)"
        "(store_step (w_ext W))\<^sup>*\<^sup>* (mg_db (notify m3)) (mg_db m4)"
        "s4 = t \<or> lifecycle_rank t < lifecycle_rank s4"
        by (rule store_get_poised)
      with get st False d1 tr can(2) moved(1,3) db2 show ?thesis
        by (auto simp: settled_def poised_def notify_def m2_def [symmetric] Let_def)
    next
      case (raced s3 m3)
      have "5 \<le> n + lifecycle_rank s3" using raced(2,5) s1 Suc.prems(2) by auto
      with Suc.IH [of s3 "l + k + k" m3] raced(3) Suc.prems(3) obtain r' m' where
        "cancel_loop n W rid m3 = (Inr r', m')" "rec_id r' = rid" "3 \<le> lifecycle_rank (rec_status r')"
        "settled W rid (rec_status r') (l + k + k + 2 * n * k + k + 1) m3 m'"
        by (auto simp: algebra_simps)
      with get st False raced(1) d1 tr raced(4) db2 show ?thesis
        by (auto simp: m2_def [symmetric] Let_def intro: settled_after)
    qed
  qed
qed

definition released :: "run_id \<Rightarrow> manager \<Rightarrow> bool" where
  "released rid m \<longleftrightarrow> rid \<notin> set (mg_admitted m) \<and> rid \<notin> fst ` set (mg_active m)"

lemma finish_admission_released: "released rid (finish_admission rid m)"
  by (auto simp: released_def finish_admission_def notify_def)

lemma finish_admission_db [simp]: "mg_db (finish_admission rid m) = mg_db m"
  by (simp add: finish_admission_def notify_def)

lemma token_cancel_db [simp]: "mg_db (token_cancel t m) = mg_db m"
  by (simp add: token_cancel_def)

lemma settled_finish: "settled W rid s l m (finish_admission rid' m') = settled W rid s l m m'"
  by (simp add: settled_def)

lemma reject_admission_loop_settles:
  assumes pol: "polite W rid k" and ev: "evidence_ok W"
    and code: "(code, message) \<in> {(''queue_full'', ''bounded run queue is full''),
      (''worker_unavailable'', ''run worker is unavailable'')}"
  shows "poised (w_ext W) rid s l (mg_db m) \<Longrightarrow> s \<notin> {Starting, Running} \<Longrightarrow>
    5 \<le> n + lifecycle_rank s \<Longrightarrow> l + 2 * n * k + 2 < i64_bound \<Longrightarrow>
    (\<exists>r m'. reject_admission_loop n W rid code message m = (Inr r, m') \<and> released rid m'
       \<and> is_terminal (rec_status r) \<and> settled W rid (rec_status r) (l + 2 * n * k + k + 1) m m')
  \<or> (\<exists>m'. reject_admission_loop n W rid code message m
         = (Inl (StoreFailed (UnexpectedStatus Queued CancelRequested)), m')
       \<and> settled W rid CancelRequested (l + 2 * n * k + k + 1) m m')"
proof (induction n arbitrary: s l m)
  case 0
  then show ?case using lifecycle_rank_le [of s] by simp
next
  case (Suc n)
  from pol Suc.prems(1) obtain s1 r m1 where
    get: "store_get W rid m = (Inr r, m1)" and st: "rec_status r = s1"
    and p1: "poised (w_ext W) rid s1 (l + k) (mg_db m1)"
    and d1: "(store_step (w_ext W))\<^sup>*\<^sup>* (mg_db m) (mg_db m1)"
    and s1: "s1 = s \<or> lifecycle_rank s < lifecycle_rank s1" "s1 \<in> {Starting, Running} \<longrightarrow> s1 = s"
    by (rule store_get_poised)
  have s1': "s1 \<notin> {Starting, Running}" using s1(2) Suc.prems(2) by auto
  have here: "settled W rid s1 (l + 2 * Suc n * k + k + 1) m m1"
    using p1 d1 by (simp add: settled_def poised_def)
  consider "is_terminal s1" | "s1 = CancelRequested" | "s1 = Queued" using s1' by (cases s1) auto
  then show ?case
  proof cases
    case 1
    with get st here show ?thesis by (simp add: finish_admission_released settled_finish)
  next
    case 2
    with get st here show ?thesis by simp
  next
    case 3
    let ?ev = "failure_event (clock_now W m1) code message"
    have room: "l + k + k + 2 < i64_bound" using Suc.prems(4) by simp
    have mem: "?ev \<in> set (evidence (clock_now W m1))" using code evidence_members by auto
    have can: "can_step Queued Failed" by (simp add: can_step_iff)
    from pol p1 ev mem can room show ?thesis
    proof (cases rule: store_transition_poised)
      case (moved stored m2)
      from pol moved(2) obtain s3 r3 m3 where g3: "store_get W rid m2 = (Inr r3, m3)"
        "rec_status r3 = s3" "poised (w_ext W) rid s3 (Suc (l + k + k) + k) (mg_db m3)"
        "(store_step (w_ext W))\<^sup>*\<^sup>* (mg_db m2) (mg_db m3)"
        "s3 = Failed \<or> lifecycle_rank Failed < lifecycle_rank s3"
        by (rule store_get_poised)
      then have "s3 = Failed" using lifecycle_rank_le [of s3] by auto
      then have "settled W rid s3 (l + 2 * Suc n * k + k + 1) m m3"
        using g3(3,4) moved(3) d1 by (auto simp: settled_def poised_def)
      with get st 3 moved(1) g3(1,2) \<open>s3 = Failed\<close> show ?thesis
        by (simp add: transition_with_failure_def finish_admission_released settled_finish)
    next
      case (raced s2 m2)
      have "5 \<le> n + lifecycle_rank s2" "s2 \<notin> {Starting, Running}"
        using raced(2,5,6) s1 3 Suc.prems(3) by auto
      from Suc.IH [OF raced(3) this(2,1)] Suc.prems(4)
      have IH: "(\<exists>r m'. reject_admission_loop n W rid code message m2 = (Inr r, m') \<and> released rid m'
          \<and> is_terminal (rec_status r)
          \<and> settled W rid (rec_status r) (l + k + k + 2 * n * k + k + 1) m2 m')
        \<or> (\<exists>m'. reject_admission_loop n W rid code message m2
            = (Inl (StoreFailed (UnexpectedStatus Queued CancelRequested)), m')
          \<and> settled W rid CancelRequested (l + k + k + 2 * n * k + k + 1) m2 m')"
        by (simp add: algebra_simps)
      have loop: "reject_admission_loop (Suc n) W rid code message m
          = reject_admission_loop n W rid code message m2"
        using get st 3 raced(1) by (simp add: transition_with_failure_def)
      have "(store_step (w_ext W))\<^sup>*\<^sup>* (mg_db m) (mg_db m2)" using d1 raced(4) by simp
      note after = settled_after [OF this, of rid _ "l + k + k + 2 * n * k + k + 1" _
          "l + 2 * Suc n * k + k + 1"]
      show ?thesis unfolding loop using IH after by (auto simp: algebra_simps)
    qed
  qed
qed

section \<open>The worker settles what it adopts\<close>

lemma abandon_item_settles:
  assumes "polite W rid k" "evidence_ok W" "poised (w_ext W) rid s l (mg_db m)"
    and "l + 16 * k + 2 < i64_bound" and "wi_run_id item = rid" "\<not> is_v4 item"
  obtains s' m' where "abandon_item W item token m = (Inr (), m')" "is_terminal s'"
    "settled W rid s' (l + 16 * k + 1) m m'" "released rid m'"
proof -
  from assms(3) have "poised (w_ext W) rid s l (mg_db (token_cancel token m))" by simp
  from finish_cancelled_settles [OF assms(1,2) this assms(4)] obtain s' m' where
    "finish_cancelled W rid (token_cancel token m) = (Inr (), m')" "is_terminal s'"
    "settled W rid s' (l + 16 * k + 1) (token_cancel token m) m'" by blast
  with assms(5,6) show ?thesis
    by (intro that [of "finish_admission rid m'" s'])
      (simp_all add: abandon_item_def finish_item_def finish_admission_released settled_def)
qed

lemma complete_item_settles:
  assumes pol: "polite W rid k" and ev: "evidence_ok W" and p: "poised (w_ext W) rid Running l (mg_db m)"
    and "l + 17 * k + 2 < i64_bound" and item: "wi_run_id item = rid" "\<not> is_v4 item"
  obtains s' m' where "complete_item W item token m = (Inr (), m')" "is_terminal s'"
    "settled W rid s' (l + 17 * k + 1) m m'" "released rid m'"
proof -
  from item obtain request where req: "wi_payload item = LegacyWork request"
    by (auto simp: is_v4_def split: work_payload.splits)
  obtain res m1 where ex: "w_execute W (mg_tick m) rid request token m = (res, m1)" by fastforce
  have "foreign_step (w_ext W) rid k (mg_db m) (mg_db m1)"
    using pol p ex unfolding polite_def poised_def by (metis snd_conv)
  from foreign_poised [OF p this] obtain s1 where
    p1: "poised (w_ext W) rid s1 (l + k) (mg_db m1)" "(store_step (w_ext W))\<^sup>*\<^sup>* (mg_db m) (mg_db m1)"
    and s1: "s1 = Running \<or> lifecycle_rank Running < lifecycle_rank s1" by blast
  let ?m = "m1\<lparr>mg_tick := Suc (mg_tick m1)\<rparr>"
  have p2: "poised (w_ext W) rid s1 (l + k) (mg_db ?m)" and rank: "2 \<le> lifecycle_rank s1"
    and room: "l + k + 16 * k + 2 < i64_bound"
    using p1 s1 assms(4) by auto
  obtain s' m' where r: "settle_attempt W rid token (execute_catching_panics res) ?m = (Inr (), m')"
    "is_terminal s'" "settled W rid s' (l + k + 16 * k + 1) ?m m'"
    by (rule settle_attempt_settles [OF pol ev p2 rank room])
  with p1(2) have "settled W rid s' (l + 17 * k + 1) m m'"
    by (auto simp: settled_def algebra_simps)
  with r item req ex show ?thesis
    by (intro that [of "finish_admission rid m'" s'])
      (simp_all add: complete_item_def run_executor_def Let_def finish_admission_released settled_finish)
qed

lemma start_conflict_settles:
  assumes pol: "polite W rid k" and ev: "evidence_ok W" and p: "poised (w_ext W) rid s l (mg_db m)"
    and room: "l + 17 * k + 2 < i64_bound" and s: "s \<notin> {Queued, Starting, Running}"
  obtains s' m' where "settle_start_conflict W rid m = (Inr (), m')" "is_terminal s'"
    "settled W rid s' (l + 17 * k + 1) m m'" "released rid m'"
proof -
  from pol p obtain s1 r m1 where
    get: "store_get W rid m = (Inr r, m1)" "rec_status r = s1"
    and p1: "poised (w_ext W) rid s1 (l + k) (mg_db m1)"
    and d1: "(store_step (w_ext W))\<^sup>*\<^sup>* (mg_db m) (mg_db m1)"
    and s1: "s1 = s \<or> lifecycle_rank s < lifecycle_rank s1" "s1 \<in> {Starting, Running} \<longrightarrow> s1 = s"
    by (rule store_get_poised)
  consider "is_terminal s1" | "s1 = CancelRequested" using s1 s by (cases s1) auto
  then show ?thesis
  proof cases
    case 1
    with get p1 d1 show ?thesis
      by (intro that [of "finish_admission rid m1" s1])
        (simp_all add: settle_start_conflict_def finish_admission_released settled_def poised_def)
  next
    case 2
    have "l + k + 16 * k + 2 < i64_bound" using room by simp
    from finish_cancelled_settles [OF pol ev p1 this] obtain s' m' where
      "finish_cancelled W rid m1 = (Inr (), m')" "is_terminal s'"
      "settled W rid s' (l + k + 16 * k + 1) m1 m'" by blast
    with get 2 d1 show ?thesis
      by (intro that [of "finish_admission rid m'" s'])
        (auto simp: settle_start_conflict_def finish_admission_released settled_def algebra_simps)
  qed
qed

lemma adopt_token_db [simp]: "mg_db (snd (adopt_token rid m)) = mg_db m"
  by (simp add: adopt_token_def Let_def)

lemma execute_item_settles:
  assumes pol: "polite W rid k" and ev: "evidence_ok W" and p: "poised (w_ext W) rid s l (mg_db m)"
    and s: "s \<notin> {Starting, Running}" and room: "l + 20 * k + 5 < i64_bound"
    and item: "wi_run_id item = rid" "\<not> is_v4 item"
  obtains s' m' where "execute_item W item m = (Inr (), m')" "is_terminal s'"
    "settled W rid s' (l + 20 * k + 4) m m'" "released rid m'"
proof -
  have starting: "event (clock_now W m) ''run_starting'' None \<in> set (evidence (clock_now W m))"
    "can_step Queued Starting" "l + k + 2 < i64_bound"
    using evidence_members room by (simp_all add: can_step_iff)
  from pol p ev starting show ?thesis
  proof (cases rule: store_transition_poised)
    case (raced s1 m1)
    have "s1 \<notin> {Queued, Starting, Running}" "l + k + 17 * k + 2 < i64_bound"
      using raced(2,6) s room by auto
    from start_conflict_settles [OF pol ev raced(3) this(2,1)] obtain s' m' where
      "settle_start_conflict W rid m1 = (Inr (), m')" "is_terminal s'"
      "settled W rid s' (l + k + 17 * k + 1) m1 m'" "released rid m'" by blast
    with raced(1,4) item show ?thesis
      by (intro that [of m' s']) (auto simp: execute_item_def intro: settled_after)
  next
    case (moved stored m1)
    obtain token m2 where tok: "adopt_token rid m1 = (token, m2)" by fastforce
    then have db2: "mg_db m2 = mg_db m1" using adopt_token_db [of rid m1] by simp
    with moved(2) have "poised (w_ext W) rid Starting (Suc (l + k)) (mg_db m2)" by simp
    with pol obtain s3 r m3 where get: "store_get W rid m2 = (Inr r, m3)" "rec_status r = s3"
      and p3: "poised (w_ext W) rid s3 (Suc (l + k) + k) (mg_db m3)"
      and d3: "(store_step (w_ext W))\<^sup>*\<^sup>* (mg_db m2) (mg_db m3)"
      by (rule store_get_poised)
    have d: "(store_step (w_ext W))\<^sup>*\<^sup>* (mg_db m) (mg_db m3)" using moved(3) d3 db2 by simp
    show ?thesis
    proof (cases "s3 = CancelRequested \<or> token_is_cancelled m3 token")
      case True
      have "Suc (l + k) + k + 16 * k + 2 < i64_bound" using room by simp
      from abandon_item_settles [OF pol ev p3 this item] obtain s' m' where
        "abandon_item W item token m3 = (Inr (), m')" "is_terminal s'"
        "settled W rid s' (Suc (l + k) + k + 16 * k + 1) m3 m'" "released rid m'" by blast
      with moved(1) item tok get True d show ?thesis
        by (intro that [of m' s']) (auto simp: execute_item_def intro: settled_after)
    next
      case False
      have started: "event (clock_now W m3) ''run_started'' None \<in> set (evidence (clock_now W m3))"
        "can_step Starting Running" "Suc (l + k) + k + k + 2 < i64_bound"
        using evidence_members room by (simp_all add: can_step_iff)
      from pol p3 ev started show ?thesis
      proof (cases rule: store_transition_poised)
        case m4: (moved stored' m4)
        have "Suc (Suc (l + k) + k + k) + 17 * k + 2 < i64_bound" using room by simp
        from complete_item_settles [OF pol ev m4(2) this item] obtain s' m' where
          "complete_item W item token m4 = (Inr (), m')" "is_terminal s'"
          "settled W rid s' (Suc (Suc (l + k) + k + k) + 17 * k + 1) m4 m'" "released rid m'" by blast
        with moved(1) item tok get False m4(1) rtranclp_trans [OF d m4(3)] show ?thesis
          by (intro that [of m' s']) (auto simp: execute_item_def intro: settled_after)
      next
        case r4: (raced s4 m4)
        have "Suc (l + k) + k + k + 16 * k + 2 < i64_bound" using room by simp
        from abandon_item_settles [OF pol ev r4(3) this item] obtain s' m' where
          "abandon_item W item token m4 = (Inr (), m')" "is_terminal s'"
          "settled W rid s' (Suc (l + k) + k + k + 16 * k + 1) m4 m'" "released rid m'" by blast
        with moved(1) item tok get False r4(1) rtranclp_trans [OF d r4(4)] show ?thesis
          by (intro that [of m' s']) (auto simp: execute_item_def intro: settled_after)
      qed
    qed
  qed
qed

section \<open>Shutdown drains the queue\<close>

lemma cancel_queued_settles:
  assumes pol: "polite W rid k" and ev: "evidence_ok W" and p: "poised (w_ext W) rid s l (mg_db m)"
    and room: "l + 17 * k + 2 < i64_bound"
  obtains s' m' where "cancel_queued W rid reason m = (Inr (), m')" "is_terminal s'"
    "settled W rid s' (l + 17 * k + 1) m m'" "released rid m'"
proof -
  have step: "cancellation_event (clock_now W m) reason \<in> set (evidence (clock_now W m))"
    "can_step Queued Cancelled" "l + k + 2 < i64_bound"
    using evidence_members room by (simp_all add: can_step_iff)
  from pol p ev step show ?thesis
  proof (cases rule: store_transition_poised)
    case (moved stored m1)
    then show ?thesis
      by (intro that [of "finish_admission rid m1" Cancelled])
        (auto simp: cancel_queued_def finish_admission_released settled_def poised_def)
  next
    case (raced s1 m1)
    have "l + k + 16 * k + 2 < i64_bound" using room by simp
    from finish_cancelled_settles [OF pol ev raced(3) this] obtain s' m' where
      "finish_cancelled W rid m1 = (Inr (), m')" "is_terminal s'"
      "settled W rid s' (l + k + 16 * k + 1) m1 m'" by blast
    with raced(1,4) show ?thesis
      by (intro that [of "finish_admission rid m'" s'])
        (auto simp: cancel_queued_def finish_admission_released settled_def algebra_simps)
  qed
qed

text \<open>What the calls for one run leave of another: its log grows by a bounded number of events.\<close>

definition kept :: "externals \<Rightarrow> run_id \<Rightarrow> nat \<Rightarrow> db \<Rightarrow> bool" where
  "kept E rid l d \<longleftrightarrow> (\<exists>s. poised E rid s l d)"

lemma kept_mono: "kept E rid l d \<Longrightarrow> l \<le> l' \<Longrightarrow> kept E rid l' d"
  by (auto simp: kept_def poised_def)

lemma interleave_kept:
  assumes "polite W r k" and "kept (w_ext W) r l (mg_db m)"
  shows "kept (w_ext W) r (l + k) (mg_db (interleave W m))"
proof -
  from assms(2) obtain s where "poised (w_ext W) r s l (mg_db m)" by (auto simp: kept_def)
  with assms(1) obtain s' where "poised (w_ext W) r s' (l + k) (mg_db (interleave W m))"
    by (rule interleave_poised)
  then show ?thesis by (auto simp: kept_def)
qed

lemma store_get_kept:
  assumes "polite W r k" and "kept (w_ext W) r l (mg_db m)"
  shows "kept (w_ext W) r (l + k) (mg_db (snd (store_get W rid m)))"
  using interleave_kept [OF assms]
  by (simp add: store_get_def Let_def split: sum.splits option.splits)

lemma store_transition_kept:
  assumes pol: "polite W r k" and k: "kept (w_ext W) r l (mg_db m)"
    and ev: "evidence_ok W" "ev \<in> set (evidence (w_clock W t))"
  shows "kept (w_ext W) r (Suc (l + k)) (mg_db (snd (store_transition W rid expected next ev m)))"
proof -
  let ?m = "interleave W m" and ?E = "w_ext W"
  have ki: "kept ?E r (l + k) (mg_db ?m)" using pol k by (rule interleave_kept)
  show ?thesis
  proof (cases "transition_run ?E (w_now W (mg_tick m)) (w_now_ms W (mg_tick m)) (mg_db ?m)
      rid expected next ev")
    case (Inl e)
    then show ?thesis using kept_mono [OF ki] by (simp add: store_transition_def Let_def)
  next
    case (Inr p)
    then obtain stored d where tr: "transition_run ?E (w_now W (mg_tick m)) (w_now_ms W (mg_tick m))
        (mg_db ?m) rid expected next ev = Inr (stored, d)" by (cases p) simp
    from ki obtain s where p: "poised ?E r s (l + k) (mg_db ?m)" by (auto simp: kept_def)
    then have inv: "ledger_inv ?E (mg_db ?m)" and wf: "db_wf ?E (mg_db ?m)"
      and st: "status_of ?E (mg_db ?m) r = Some s"
      by (simp_all add: poised_def ledger_inv_def)
    have "payload_parses ?E ev" using ev by (auto simp: evidence_ok_def)
    with tr have step: "store_step ?E (mg_db ?m) d" by (rule store_step.transition)
    from transition_run_logged [OF wf tr] obtain run now' where
      log: "logged ?E (w_now W (mg_tick m)) (mg_db ?m) run next ev d"
      and turns: "assistant_turns d = assistant_turns (mg_db ?m)" by blast
    have "\<exists>s'. status_of ?E d r = Some s'" using store.step_status [OF inv step st] by blast
    moreover have "length (events_of d r) \<le> Suc (l + k)"
      using logged_events [OF log, of r] p by (auto simp: poised_def)
    ultimately have "kept ?E r (Suc (l + k)) d"
      using store.step_inv [OF inv step] p turns by (auto simp: kept_def poised_def turn_of_def)
    with tr show ?thesis by (simp add: store_transition_def Let_def)
  qed
qed

text \<open>No thread can touch the channel once the shutdown flag is set.\<close>

definition channel :: "manager \<Rightarrow> work_item list \<times> bool \<times> bool" where
  "channel m = (mg_queue m, mg_sender m, mg_shutting_down m)"

definition sealed :: "world \<Rightarrow> bool" where
  "sealed W \<longleftrightarrow> (\<forall>t m. mg_shutting_down m \<longrightarrow> channel (w_env W t m) = channel m)"

lemma channel_flag: "channel m' = channel m \<Longrightarrow> mg_shutting_down m' = mg_shutting_down m"
  by (simp add: channel_def)

lemma channel_simps [simp]:
  "channel (m\<lparr>mg_db := d\<rparr>) = channel m" "channel (m\<lparr>mg_tick := n\<rparr>) = channel m"
  "channel (finish_admission rid m) = channel m"
  by (simp_all add: channel_def finish_admission_def notify_def)

lemma interleave_channel:
  "sealed W \<Longrightarrow> mg_shutting_down m \<Longrightarrow> channel (interleave W m) = channel m"
  by (simp add: interleave_def sealed_def)

lemma store_call_channel:
  assumes "sealed W" "mg_shutting_down m"
  shows "channel (snd (store_get W rid m)) = channel m"
    and "channel (snd (store_transition W rid expected next ev m)) = channel m"
  using interleave_channel [OF assms]
  by (simp_all add: store_get_def store_transition_def Let_def split: sum.splits option.splits prod.splits)

lemma finish_cancelled_loop_frame:
  assumes "sealed W" and ev: "evidence_ok W" and pol: "\<And>r. r \<in> R \<Longrightarrow> polite W r k"
  shows "mg_shutting_down m \<Longrightarrow> \<forall>r\<in>R. kept (w_ext W) r l (mg_db m) \<Longrightarrow>
    channel (snd (finish_cancelled_loop n W rid m)) = channel m
    \<and> (\<forall>r\<in>R. kept (w_ext W) r (l + n * (2 * k + 1)) (mg_db (snd (finish_cancelled_loop n W rid m))))"
proof (induction n arbitrary: m l)
  case (Suc n)
  obtain x m1 where get: "store_get W rid m = (x, m1)" by fastforce
  have c1: "channel m1 = channel m" using store_call_channel(1) [OF assms(1) Suc.prems(1)] get
    by (metis snd_conv)
  have k1: "\<forall>r\<in>R. kept (w_ext W) r (l + k) (mg_db m1)"
    using store_get_kept [OF pol] Suc.prems(2) get by (metis snd_conv)
  have le: "l + k \<le> l + Suc n * (2 * k + 1)" "Suc (l + k + k) \<le> l + Suc n * (2 * k + 1)"
    by simp_all
  show ?case
  proof (cases "\<exists>r. x = Inr r \<and> \<not> is_terminal (rec_status r)")
    case False
    then have "finish_cancelled_loop (Suc n) W rid m = (map_sum id (\<lambda>_. ()) x, m1)"
      using get by (cases x) auto
    with c1 k1 le show ?thesis using kept_mono by fastforce
  next
    case True
    then obtain r where x: "x = Inr r" "\<not> is_terminal (rec_status r)" by blast
    let ?ev = "cancellation_event (clock_now W m1) (cancellation_reason_of m1 (rec_status r))"
    obtain y m2 where tr: "store_transition W rid (rec_status r) Cancelled ?ev m1 = (y, m2)" by fastforce
    have flag1: "mg_shutting_down m1" using channel_flag [OF c1] Suc.prems(1) by simp
    have c2: "channel m2 = channel m"
      using store_call_channel(2) [OF assms(1) flag1] tr c1 by (metis snd_conv)
    have "?ev \<in> set (evidence (clock_now W m1))" by (rule evidence_members)
    then have k2: "\<forall>r\<in>R. kept (w_ext W) r (Suc (l + k + k)) (mg_db m2)"
      using store_transition_kept [OF pol _ ev] k1 tr by (metis snd_conv)
    show ?thesis
    proof (cases "\<exists>a b. y = Inl (UnexpectedStatus a b)")
      case True
      have flag2: "mg_shutting_down m2" using channel_flag [OF c2] Suc.prems(1) by simp
      have "Suc (l + k + k) + n * (2 * k + 1) = l + Suc n * (2 * k + 1)" by simp
      with Suc.IH [OF flag2 k2] True c2 get x tr show ?thesis by (auto simp: algebra_simps)
    next
      case False
      then have "snd (finish_cancelled_loop (Suc n) W rid m) = m2"
        using get x tr by (auto split: sum.splits store_error.splits)
      with c2 k2 le show ?thesis using kept_mono by fastforce
    qed
  qed
qed simp

lemma cancel_queued_frame:
  assumes "sealed W" "evidence_ok W" "\<And>r. r \<in> R \<Longrightarrow> polite W r k" "mg_shutting_down m"
    and k: "\<forall>r\<in>R. kept (w_ext W) r l (mg_db m)"
  shows "channel (snd (cancel_queued W rid reason m)) = channel m"
    and "\<forall>r\<in>R. kept (w_ext W) r (l + 17 * k + 9) (mg_db (snd (cancel_queued W rid reason m)))"
proof -
  let ?ev = "cancellation_event (clock_now W m) reason"
  obtain y m1 where tr: "store_transition W rid Queued Cancelled ?ev m = (y, m1)" by fastforce
  have c1: "channel m1 = channel m" using store_call_channel(2) [OF assms(1,4)] tr by (metis snd_conv)
  have "?ev \<in> set (evidence (clock_now W m))" by (rule evidence_members)
  then have k1: "\<forall>r\<in>R. kept (w_ext W) r (Suc (l + k)) (mg_db m1)"
    using store_transition_kept [OF assms(3) _ assms(2)] k tr by (metis snd_conv)
  have flag: "mg_shutting_down m1" using channel_flag [OF c1] assms(4) by simp
  note loop = finish_cancelled_loop_frame [OF assms(1-3) flag k1, of MAX_ATTEMPTS rid]
  have sum: "Suc (l + k) + MAX_ATTEMPTS * (2 * k + 1) = l + 17 * k + 9"
    by (simp add: MAX_ATTEMPTS_def)
  from loop have f: "channel (snd (finish_cancelled W rid m1)) = channel m"
    "\<forall>r\<in>R. kept (w_ext W) r (l + 17 * k + 9) (mg_db (snd (finish_cancelled W rid m1)))"
    unfolding sum finish_cancelled_def [symmetric] using c1 by simp_all
  have k9: "\<forall>r\<in>R. kept (w_ext W) r (l + 17 * k + 9) (mg_db m1)" using k1 kept_mono by fastforce
  obtain z m2 where fc: "finish_cancelled W rid m1 = (z, m2)" by fastforce
  show "channel (snd (cancel_queued W rid reason m)) = channel m"
    using tr c1 f(1) fc
    by (cases z) (auto simp: cancel_queued_def split: sum.splits store_error.splits)
  show "\<forall>r\<in>R. kept (w_ext W) r (l + 17 * k + 9) (mg_db (snd (cancel_queued W rid reason m)))"
    using tr k9 f(2) fc
    by (cases z) (auto simp: cancel_queued_def split: sum.splits store_error.splits)
qed

abbreviation terminal_in :: "world \<Rightarrow> run_id \<Rightarrow> manager \<Rightarrow> bool" where
  "terminal_in W rid m \<equiv> \<exists>s. status_of (w_ext W) (mg_db m) rid = Some s \<and> is_terminal s"

lemma terminal_in_steps:
  assumes "terminal_in W rid m" "(store_step (w_ext W))\<^sup>*\<^sup>* (mg_db m) (mg_db m')"
    and "ledger_inv (w_ext W) (mg_db m)"
  shows "terminal_in W rid m'"
  using assms store.steps_terminal by blast

lemma worker_loop_cancel:
  assumes "mg_queue (interleave W m) = item # rest" "mg_shutting_down (interleave W m)"
    and "cancel_queued W (wi_run_id item) ReasonManagerShutdown ((interleave W m)\<lparr>mg_queue := rest\<rparr>)
      = (Inr (), m3)"
  shows "worker_loop (Suc n) W m = worker_loop n W m3"
  using assms by (simp add: Let_def)

lemma worker_loop_drains:
  assumes sealed: "sealed W" and ev: "evidence_ok W"
  shows "mg_queue m = q \<Longrightarrow> mg_shutting_down m \<Longrightarrow> \<not> mg_sender m \<Longrightarrow> ledger_inv (w_ext W) (mg_db m) \<Longrightarrow>
    (\<And>m t. ledger_inv (w_ext W) (mg_db m) \<Longrightarrow> (store_step (w_ext W))\<^sup>*\<^sup>* (mg_db m) (mg_db (w_env W t m))) \<Longrightarrow>
    (\<And>r. r \<in> wi_run_id ` set q \<Longrightarrow> polite W r k) \<Longrightarrow>
    \<forall>r\<in>wi_run_id ` set q. kept (w_ext W) r l (mg_db m) \<Longrightarrow>
    l + length q * (18 * k + 9) + 2 < i64_bound \<Longrightarrow>
    \<exists>m'. worker_loop (Suc (length q)) W m = Some (Inr (), m')
      \<and> (store_step (w_ext W))\<^sup>*\<^sup>* (mg_db m) (mg_db m')
      \<and> (\<forall>r\<in>wi_run_id ` set q. terminal_in W r m')"
proof (induction q arbitrary: m l)
  case Nil
  have "channel (interleave W m) = channel m" using sealed Nil.prems(2) by (rule interleave_channel)
  with Nil.prems have "worker_loop (Suc (length [])) W m = Some (Inr (), interleave W m)"
    by (simp add: channel_def Let_def)
  moreover have "(store_step (w_ext W))\<^sup>*\<^sup>* (mg_db m) (mg_db (interleave W m))"
    using Nil.prems(5) [OF Nil.prems(4)] by (simp add: interleave_def)
  ultimately show ?case by auto
next
  case (Cons item q)
  let ?E = "w_ext W" and ?rid = "wi_run_id item" and ?m1 = "interleave W m"
  let ?m2 = "?m1\<lparr>mg_queue := q\<rparr>"
  have c1: "channel ?m1 = channel m" using sealed Cons.prems(2) by (rule interleave_channel)
  have s1: "(store_step ?E)\<^sup>*\<^sup>* (mg_db m) (mg_db ?m1)"
    using Cons.prems(5) [OF Cons.prems(4)] by (simp add: interleave_def)
  have flag: "mg_shutting_down ?m2" "\<not> mg_sender ?m2"
    using c1 Cons.prems(2,3) by (simp_all add: channel_def)
  have pol: "polite W r k" if "r \<in> wi_run_id ` set (item # q)" for r using Cons.prems(6) that by blast
  have k2: "\<forall>r\<in>wi_run_id ` set (item # q). kept ?E r (l + k) (mg_db ?m2)"
    using interleave_kept [OF pol] Cons.prems(7) by simp
  from k2 obtain s where p2: "poised ?E ?rid s (l + k) (mg_db ?m2)" by (auto simp: kept_def)
  have room: "l + k + 17 * k + 2 < i64_bound" using Cons.prems(8) by simp
  have pol': "polite W ?rid k" using pol by simp
  obtain s3 m3 where cq: "cancel_queued W ?rid ReasonManagerShutdown ?m2 = (Inr (), m3)"
    and t3: "is_terminal s3" "settled W ?rid s3 (l + k + 17 * k + 1) ?m2 m3"
    by (rule cancel_queued_settles [OF pol' ev p2 room])
  note frame = cancel_queued_frame [OF sealed ev pol flag(1) k2, of ?rid ReasonManagerShutdown]
  have c3: "channel m3 = channel ?m2" using frame(1) cq by simp
  have k3: "\<forall>r\<in>wi_run_id ` set q. kept ?E r (l + 18 * k + 9) (mg_db m3)"
    using frame(2) cq by (simp add: algebra_simps)
  have steps3: "(store_step ?E)\<^sup>*\<^sup>* (mg_db m) (mg_db m3)" using s1 t3(2) by (auto simp: settled_def)
  have loop: "worker_loop (Suc (length (item # q))) W m = worker_loop (Suc (length q)) W m3"
    using worker_loop_cancel [OF _ _ cq] c1 Cons.prems(1) flag by (simp add: channel_def)
  have inv3: "ledger_inv ?E (mg_db m3)" and term3: "terminal_in W ?rid m3"
    using t3 by (simp_all add: settled_def poised_def)
  obtain m' where m': "worker_loop (Suc (length q)) W m3 = Some (Inr (), m')"
    "(store_step ?E)\<^sup>*\<^sup>* (mg_db m3) (mg_db m')" "\<forall>r\<in>wi_run_id ` set q. terminal_in W r m'"
    using Cons.IH [of m3 "l + 18 * k + 9"] c3 flag inv3 Cons.prems(5,8) pol k3
    by (auto simp: channel_def)
  have "terminal_in W ?rid m'" using terminal_in_steps [OF term3 m'(2) inv3] .
  with loop m' steps3 show ?case by (simp del: worker_loop.simps)
qed

end
