(* ===== verification/Sample_World.thy ===== *)
theory Sample_World
  imports Model_Ops Audit_Log Framing Route_Audit Run_Manager_Facts "HOL-Library.Code_Target_Nat"
begin

text \<open>
  A concrete instance of the third-party functions and a few concrete states. They make the
  hypotheses of the theorems concrete: identifiers of 36 characters, timestamps read as the
  number their digits spell, a compact JSON printer, a reader for the values that occur, and
  a fixed digest.
\<close>

section \<open>The third-party functions\<close>

definition digit_char :: "nat \<Rightarrow> char" where
  "digit_char n = char_of (48 + n mod 10)"

fun print_digits :: "nat \<Rightarrow> nat \<Rightarrow> string" where
  "print_digits 0 n = []"
| "print_digits (Suc k) n =
     (if n < 10 then [digit_char n] else print_digits k (n div 10) @ [digit_char n])"

fun print_number :: "json_number \<Rightarrow> string" where
  "print_number (PosInt n) = print_digits 20 n"
| "print_number (NegInt i) = CHR ''-'' # print_digits 20 (nat (- i))"
| "print_number (Float w) = ''0.0''"

definition quoted :: "string \<Rightarrow> string" where
  "quoted s = [CHR 0x22] @ s @ [CHR 0x22]"

fun joined :: "string list \<Rightarrow> string" where
  "joined [] = []"
| "joined [s] = s"
| "joined (s # ss) = s @ '','' @ joined ss"

fun print_json :: "json \<Rightarrow> string" where
  "print_json JNull = ''null''"
| "print_json (JBool b) = (if b then ''true'' else ''false'')"
| "print_json (JNumber n) = print_number n"
| "print_json (JString s) = quoted s"
| "print_json (JArray vs) = ''['' @ joined (map print_json vs) @ '']''"
| "print_json (JObject es) = ''{'' @ joined (map (\<lambda>e. quoted (fst e) @ '':'' @ print_json (snd e)) es) @ ''}''"

definition sample_clock :: nat where "sample_clock = 7"

definition known_json :: "json list" where
  "known_json = JObject [] # ne_payload recovery_event # ne_payload unadopted_event
     # map ne_payload (evidence sample_clock)
     @ map content_payload_json [TextDelta ''Hello'', TextDelta '', world'', TerminalPayload Succeeded,
         TerminalPayload Failed, TerminalPayload Cancelled, TerminalPayload Interrupted,
         NoticePayload NoticeTruncated]"

definition read_json :: "string \<Rightarrow> json option" where
  "read_json s = find (\<lambda>v. print_json v = s) known_json"

definition read_time :: "string \<Rightarrow> int option" where
  "read_time s =
     Some (foldl (\<lambda>a c. if is_ascii_digit c then 10 * a + int (byte_of c) - 48 else a) 0 s)"

definition sample_ext :: externals where
  "sample_ext =
     \<lparr>uuid_canonical = (\<lambda>s. if length s = 36 then Some s else None),
      parse_from_rfc3339 = read_time, rfc3339_millis = (\<lambda>i. Some (print_digits 20 (nat i))),
      json_to_string = print_json, json_from_str = read_json,
      sha256 = (\<lambda>_. replicate 32 (CHR ''d''))\<rparr>"

lemma sample_ext_simps [simp]:
  "uuid_canonical sample_ext s = (if length s = 36 then Some s else None)"
  "parse_from_rfc3339 sample_ext = read_time"
  "rfc3339_millis sample_ext i = Some (print_digits 20 (nat i))"
  "json_to_string sample_ext = print_json" "json_from_str sample_ext = read_json"
  "sha256 sample_ext s = replicate 32 (CHR ''d'')"
  by (simp_all add: sample_ext_def)

definition run_a :: run_id where "run_a = ''0f8fad5b-d9cb-469f-a165-70867728950e''"
definition time_1 :: string where "time_1 = ''2026-01-02T03:04:05Z''"
definition time_2 :: string where "time_2 = ''2026-01-02T03:04:06Z''"

lemma read_json_known: "list_all (\<lambda>v. read_json (print_json v) = Some v) known_json"
  by code_simp

lemma sample_recovery: "payload_parses sample_ext recovery_event" "read_json ''{}'' = Some (JObject [])"
  by code_simp+

lemma sample_inv: "ledger_inv sample_ext empty_db"
  using sample_recovery by (simp add: ledger_inv_def empty_db_wf)

lemma sample_evidence:
  "list_all (\<lambda>ev. validate_event sample_ext ev = Inr () \<and> payload_parses sample_ext ev)
     (evidence sample_clock)"
  by code_simp

section \<open>A run and its first states\<close>

definition new_a :: new_run where
  "new_a = \<lparr>nr_conversation_id = None, nr_idempotency_key = ''key-a'',
            nr_request_digest = replicate 64 (CHR ''0'')\<rparr>"

definition starting :: new_run_event where "starting = event sample_clock ''run_starting'' None"
definition started :: new_run_event where "started = event sample_clock ''run_started'' None"
definition cancelled :: new_run_event where
  "cancelled = cancellation_event sample_clock ReasonRequested"

text \<open>The rows after the submission, and after the transitions to starting and to cancelled.\<close>

definition row_a :: "string \<Rightarrow> int \<Rightarrow> string \<Rightarrow> run_row" where
  "row_a status n now =
     \<lparr>rw_id = run_a, rw_conversation_id = None, rw_idempotency_key = ''key-a'',
      rw_request_digest = replicate 64 (CHR ''0''), rw_status = status,
      rw_next_event_sequence = n, rw_created_at = time_1, rw_updated_at = now\<rparr>"

definition event_a :: "int \<Rightarrow> string \<Rightarrow> string \<Rightarrow> string \<Rightarrow> event_row" where
  "event_a n kind payload now =
     \<lparr>ew_run_id = run_a, ew_sequence = n, ew_kind = kind, ew_payload_json = payload, ew_created_at = now\<rparr>"

definition db_queued :: db where
  "db_queued = empty_db\<lparr>runs := [row_a ''queued'' 2 time_1],
     run_events := [event_a 1 ''run_queued'' ''{}'' time_1]\<rparr>"

definition db_starting :: db where
  "db_starting = empty_db\<lparr>runs := [row_a ''starting'' 3 time_2],
     run_events := [event_a 1 ''run_queued'' ''{}'' time_1,
       event_a 2 ''run_starting'' (print_json (ne_payload starting)) time_2]\<rparr>"

definition db_cancelled :: db where
  "db_cancelled = empty_db\<lparr>runs := [row_a ''cancelled'' 3 time_2],
     run_events := [event_a 1 ''run_queued'' ''{}'' time_1,
       event_a 2 ''run_cancelled'' (print_json (ne_payload cancelled)) time_2]\<rparr>"

definition db_later :: db where
  "db_later = db_cancelled\<lparr>conversations :=
     [\<lparr>cw_id = run_a, cw_created_at = time_2, cw_updated_at = time_2\<rparr>]\<rparr>"

definition starting_run :: run_record where
  "starting_run = stepped (queued_record run_a time_1 new_a) Starting time_2"

lemma new_a_submittable: "submittable sample_ext empty_db run_a new_a"
  by code_simp

lemma db_queued_eq:
  "create_or_get_run sample_ext run_a time_1 empty_db new_a
     = Inr (queued_record run_a time_1 new_a, db_queued)"
  by code_simp

lemma db_starting_eq:
  "transition_run sample_ext time_2 9 db_queued run_a Queued Starting starting
     = Inr (next_event time_2 (queued_record run_a time_1 new_a) starting, db_starting)"
  by code_simp

lemma db_cancelled_eq:
  "transition_run sample_ext time_2 9 db_queued run_a Queued Cancelled cancelled
     = Inr (next_event time_2 (queued_record run_a time_1 new_a) cancelled, db_cancelled)"
  by code_simp

lemma sample_events:
  "validate_event sample_ext starting = Inr ()" "payload_parses sample_ext starting"
  "validate_event sample_ext started = Inr ()" "payload_parses sample_ext started"
  "validate_event sample_ext cancelled = Inr ()" "payload_parses sample_ext cancelled"
  using sample_evidence by (simp_all add: evidence_def starting_def started_def cancelled_def)

lemma sample_steps:
  "store_step sample_ext empty_db db_queued" "store_step sample_ext db_queued db_starting"
  "store_step sample_ext db_queued db_cancelled" "store_step sample_ext db_cancelled db_later"
  by (rule store_step.submit [OF db_queued_eq],
      rule store_step.transition [OF db_starting_eq sample_events(2)],
      rule store_step.transition [OF db_cancelled_eq sample_events(6)],
      rule store_step.conversation [of time_2 _ run_a],
      simp add: db_later_def create_conversation_def db_cancelled_def empty_db_def)

lemma sample_invs:
  "ledger_inv sample_ext db_queued" "ledger_inv sample_ext db_starting"
  "ledger_inv sample_ext db_cancelled"
  using sample_inv sample_steps store.step_inv by blast+

lemma sample_wfs:
  "db_wf sample_ext db_queued" "db_wf sample_ext db_starting" "db_wf sample_ext db_cancelled"
  using sample_invs by (simp_all add: ledger_inv_def)

lemma sample_turns: "turn_of db_queued rid = None" "turn_of db_starting rid = None"
  by (simp_all add: turn_of_def db_queued_def db_starting_def empty_db_def)

lemma sample_runs:
  "run_by_id sample_ext db_queued run_a = Inr (Some (queued_record run_a time_1 new_a))"
  "run_by_id sample_ext db_starting run_a = Inr (Some starting_run)"
  "status_of sample_ext db_cancelled run_a = Some Cancelled"
  by code_simp+

lemma sample_only:
  assumes "run_by_id sample_ext db_starting rid = Inr (Some run)"
  shows "rid = run_a \<and> run = starting_run"
proof -
  have "rid = run_a"
    using assms by (auto simp: run_by_id_def db_starting_def empty_db_def row_a_def split: if_splits)
  with assms sample_runs(2) show ?thesis by simp
qed

lemma db_queued_log: "length (log_of sample_ext db_queued run_a) = 1"
  by code_simp

section \<open>What the sample run looks like to a reader\<close>

definition queued_entry :: run_event_record where
  "queued_entry = \<lparr>er_run_id = run_a, er_sequence = 1, er_recorded_at = time_1, er_event = EvQueued\<rparr>"

definition starting_entry :: run_event_record where
  "starting_entry = \<lparr>er_run_id = run_a, er_sequence = 2, er_recorded_at = time_2, er_event = EvStarting\<rparr>"

definition snap_a :: "run_state \<Rightarrow> nat \<Rightarrow> string \<Rightarrow> run_snapshot" where
  "snap_a s n now =
     \<lparr>snap_run_id = run_a, snap_conversation_id = None, snap_idempotency_key = ''key-a'',
      snap_state = s, snap_created_at = time_1, snap_updated_at = now, snap_failure = None,
      snap_event_count = n\<rparr>"

lemma sample_snapshots:
  "run_snapshot sample_ext db_queued run_a = Inr (Some (snap_a Queued 1 time_1))"
  "run_snapshot sample_ext db_starting run_a = Inr (Some (snap_a Starting 2 time_2))"
  by code_simp+

lemma sample_projections:
  "bindr (row_to_event sample_ext (event_a 1 ''run_queued'' ''{}'' time_1))
     (\<lambda>e. project_run_event sample_ext e None) = Inr queued_entry"
  "bindr (row_to_event sample_ext (event_a 2 ''run_starting'' (print_json (ne_payload starting)) time_2))
     (\<lambda>e. project_run_event sample_ext e (Some Starting)) = Inr starting_entry"
  by code_simp+

lemma event_a_sequence:
  "row_to_event E (event_a n kind payload now) = Inr e \<Longrightarrow> int (ev_sequence e) = n"
  by (auto simp: row_to_event_Inr event_a_def)

lemma db_starting_projects: "log_projects sample_ext db_starting starting_run [queued_entry, starting_entry]"
proof -
  have "events_of db_starting run_a = [event_a 1 ''run_queued'' ''{}'' time_1,
      event_a 2 ''run_starting'' (print_json (ne_payload starting)) time_2]"
    by (simp add: events_of_def db_starting_def event_a_def)
  then show ?thesis
    using sample_projections unfolding bindr_eq_Inr
    by (force simp: log_projects_def event_projects_def starting_run_def dest: event_a_sequence)
qed

lemma starting_lifecycle: "lifecycle_log [queued_entry, starting_entry]"
  by (simp add: lifecycle_log_def queued_entry_def starting_entry_def ordered_states_def
      lifecycle_path_Cons lifecycle_path_Nil can_step_iff)

definition sample_page :: run_event_page where
  "sample_page = \<lparr>page_run_id = run_a, page_events = [queued_entry], page_after_sequence = 0,
     page_next_after_sequence = 1, page_through_sequence = 2, page_has_more = True\<rparr>"

definition sample_session :: "(app_command \<times> app_event) list" where
  "sample_session = [(CmdRunEvents (first_query run_a 1), EvtRunEvents sample_page)]"

lemma sample_session_next:
  "next_events_command (reducer_run sample_ext empty_view sample_session) 1
     = Inr (Some (CmdRunEvents (next_query run_a 1 2 1)))"
  by code_simp

section \<open>A tool call and a model operation\<close>

definition digest_a :: string where "digest_a = replicate 64 (CHR ''a'')"

definition approval_a :: new_tool_approval where
  "approval_a = \<lparr>na_call_id = ''call-a'', na_tool_id = ''tool'', na_call_digest = digest_a,
     na_created_at_ms = 100, na_expires_at_ms = 500\<rparr>"

definition created_a :: "store_error + tool_approval_record \<times> db" where
  "created_a = create_tool_approval empty_db approval_a"

definition approved_a :: "store_error + tool_approval_record \<times> db" where
  "approved_a = decide_tool_approval (snd (projr created_a)) ''call-a'' digest_a ''decision-a'' Approve 200"

definition prepared_a :: "store_error + tool_execution_preparation \<times> db" where
  "prepared_a = prepare_tool_execution (snd (projr approved_a)) ''call-a'' digest_a ''execution-a'' 300"

definition db_pending :: db where "db_pending = snd (projr created_a)"
definition db_approved :: db where "db_approved = snd (projr approved_a)"
definition db_prepared :: db where "db_prepared = snd (projr prepared_a)"

definition execution_a :: tool_execution_record where
  "execution_a = \<lparr>tx_call_id = ''call-a'', tx_execution_id = ''execution-a'', tx_state = ExPrepared,
     tx_result_digest = None, tx_started_at_ms = 300, tx_finished_at_ms = None\<rparr>"

lemma sample_calls:
  "create_tool_approval empty_db approval_a = Inr (fst (projr created_a), db_pending)"
  "decide_tool_approval db_pending ''call-a'' digest_a ''decision-a'' Approve 200
     = Inr (fst (projr approved_a), db_approved)"
  "prepare_tool_execution db_approved ''call-a'' digest_a ''execution-a'' 300
     = Inr (Prepared execution_a, db_prepared)"
  by code_simp+

lemma sample_tool_steps:
  "tool_step empty_db db_pending" "tool_step db_pending db_approved" "tool_step db_approved db_prepared"
  using sample_calls by (blast intro: tool_step.intros)+

lemma sample_tools_wf: "tools_wf db_pending" "tools_wf db_approved" "tools_wf db_prepared"
  using empty_tools_wf sample_tool_steps tool_step_micro approvals.steps_inv by metis+

lemma sample_tool_states:
  "approval_status db_approved ''call-a'' = Some ApApproved"
  "approval_status db_prepared ''call-a'' = Some ApConsumed"
  "execution_status db_prepared ''call-a'' = Some ExPrepared"
  by code_simp+

definition op_a :: new_model_operation where
  "op_a = \<lparr>nmo_operation_id = ''op-a'', nmo_model_id = ''model'', nmo_revision = ''r1'',
     nmo_kind = OpLoad, nmo_created_at_ms = 10\<rparr>"

definition op_record :: model_operation_record where
  "op_record = \<lparr>mo_operation_id = ''op-a'', mo_model_id = ''model'', mo_revision = ''r1'',
     mo_kind = OpLoad, mo_state = OpQueued, mo_progress_basis_points = 0, mo_created_at_ms = 10,
     mo_updated_at_ms = 10\<rparr>"

definition op_running :: model_operation_record where
  "op_running = op_record\<lparr>mo_state := OpRunning, mo_progress_basis_points := 50, mo_updated_at_ms := 20\<rparr>"

definition db_op :: db where "db_op = snd (projr (create_model_operation empty_db op_a))"
definition db_op_running :: db where
  "db_op_running = snd (projr (transition_model_operation db_op ''op-a'' OpRunning 50 20))"

lemma sample_ops:
  "create_model_operation empty_db op_a = Inr (op_record, db_op)"
  "transition_model_operation db_op ''op-a'' OpRunning 50 20 = Inr (op_running, db_op_running)"
  "op_row_by_id db_op ''op-a'' = Inr (Some op_record)"
  by code_simp+

lemma sample_op_steps: "model_step empty_db db_op" "model_step db_op db_op_running"
  using sample_ops by (blast intro: model_step.intros)+

lemma sample_models_wf: "models_wf db_op" "models_wf db_op_running"
  using empty_models_wf sample_op_steps models.step_inv by blast+

end
