(* ===== verification/V4_Facts.thy ===== *)
theory V4_Facts
  imports V4_Turns Run_Ledger
begin

text \<open>
  The invariant of conversations, turns and transcripts. It is stated over what it depends
  on: the status and conversation of every run, the bindings of turns, the content events
  and the deleted conversations. One lemma per kind of change says that the change keeps it;
  the operations of the store then only have to be read as such changes.
\<close>

section \<open>Transcripts\<close>

abbreviation content_of :: "content_event_row list \<Rightarrow> run_id \<Rightarrow> content_event_row list" where
  "content_of es rid \<equiv> filter (\<lambda>e. kw_run_id e = rid) es"

abbreviation conversation_content :: "content_event_row list \<Rightarrow> conversation_id \<Rightarrow> content_event_row list" where
  "conversation_content es cid \<equiv> filter (\<lambda>e. kw_conversation_id e = cid) es"

definition is_mark :: "content_event_row \<Rightarrow> bool" where
  "is_mark e \<longleftrightarrow> kw_kind e \<in> set terminal_kinds"

definition live :: "(run_id \<Rightarrow> run_state option) \<Rightarrow> run_id \<Rightarrow> bool" where
  "live st rid \<longleftrightarrow> (\<exists>s. st rid = Some s \<and> \<not> is_terminal s)"

text \<open>A transcript with room for its end, and one that ended in the state \<open>s\<close>.\<close>

definition open_transcript :: "content_event_row list \<Rightarrow> run_id \<Rightarrow> conversation_id \<Rightarrow> bool" where
  "open_transcript es rid cid \<longleftrightarrow>
     (\<forall>e\<in>set es. (kw_run_id e = rid \<longrightarrow> \<not> is_mark e)
        \<and> (kw_conversation_id e = cid \<longrightarrow> kw_sequence e < int MAX_SEQUENCE))"

definition closed_transcript :: "content_event_row list \<Rightarrow> run_id \<Rightarrow> run_state \<Rightarrow> bool" where
  "closed_transcript es rid s \<longleftrightarrow>
     (\<exists>pre m. content_of es rid = pre @ [m] \<and> kw_kind m = kind_of (TerminalPayload s)
        \<and> (\<forall>e\<in>set pre. \<not> is_mark e))"

definition turns_ok ::
    "(run_id \<Rightarrow> run_state option) \<Rightarrow> (run_id \<Rightarrow> conversation_id option) \<Rightarrow>
     (run_id \<times> conversation_id) list \<Rightarrow> content_event_row list \<Rightarrow> (conversation_id \<Rightarrow> bool) \<Rightarrow> bool" where
  "turns_ok st cv ks es gone \<longleftrightarrow>
     distinct (map fst ks)
   \<and> (\<forall>(r, c)\<in>set ks. st r \<noteq> None \<and> cv r = Some c)
   \<and> (\<forall>(r, c)\<in>set ks. \<forall>(r', c')\<in>set ks. live st r \<and> live st r' \<and> c = c' \<longrightarrow> r = r')
   \<and> (\<forall>e\<in>set es. (kw_run_id e, kw_conversation_id e) \<in> set ks
        \<and> 1 \<le> kw_sequence e \<and> kw_sequence e \<le> int MAX_SEQUENCE)
   \<and> (\<forall>c. sorted_wrt (<) (map kw_sequence (conversation_content es c)))
   \<and> (\<forall>(r, c)\<in>set ks. live st r \<longrightarrow> open_transcript es r c)
   \<and> (\<forall>(r, c)\<in>set ks. \<forall>s. st r = Some s \<and> is_terminal s \<longrightarrow>
        closed_transcript es r s \<or> gone c \<and> content_of es r = [])"

lemma turns_okD:
  assumes "turns_ok st cv ks es gone"
  shows "distinct (map fst ks)"
    and "(r, c) \<in> set ks \<Longrightarrow> st r \<noteq> None \<and> cv r = Some c"
    and "(r, c) \<in> set ks \<Longrightarrow> (r', c) \<in> set ks \<Longrightarrow> live st r \<Longrightarrow> live st r' \<Longrightarrow> r = r'"
    and "e \<in> set es \<Longrightarrow> (kw_run_id e, kw_conversation_id e) \<in> set ks"
    and "e \<in> set es \<Longrightarrow> 1 \<le> kw_sequence e \<and> kw_sequence e \<le> int MAX_SEQUENCE"
    and "sorted_wrt (<) (map kw_sequence (conversation_content es c))"
    and "(r, c) \<in> set ks \<Longrightarrow> live st r \<Longrightarrow> open_transcript es r c"
    and "(r, c) \<in> set ks \<Longrightarrow> st r = Some s \<Longrightarrow> is_terminal s \<Longrightarrow>
           closed_transcript es r s \<or> gone c \<and> content_of es r = []"
  using assms unfolding turns_ok_def by blast+

lemma turns_ok_key:
  assumes "turns_ok st cv ks es gone" "(r, c) \<in> set ks" "(r, c') \<in> set ks"
  shows "c = c'"
  using assms turns_okD(2) by (metis option.inject)

lemma turns_okI:
  assumes "distinct (map fst ks)"
    and "\<And>r c. (r, c) \<in> set ks \<Longrightarrow> st r \<noteq> None \<and> cv r = Some c"
    and "\<And>r r' c. (r, c) \<in> set ks \<Longrightarrow> (r', c) \<in> set ks \<Longrightarrow> live st r \<Longrightarrow> live st r' \<Longrightarrow> r = r'"
    and "\<And>e. e \<in> set es \<Longrightarrow> (kw_run_id e, kw_conversation_id e) \<in> set ks
          \<and> 1 \<le> kw_sequence e \<and> kw_sequence e \<le> int MAX_SEQUENCE"
    and "\<And>c. sorted_wrt (<) (map kw_sequence (conversation_content es c))"
    and "\<And>r c. (r, c) \<in> set ks \<Longrightarrow> live st r \<Longrightarrow> open_transcript es r c"
    and "\<And>r c s. (r, c) \<in> set ks \<Longrightarrow> st r = Some s \<Longrightarrow> is_terminal s \<Longrightarrow>
           closed_transcript es r s \<or> gone c \<and> content_of es r = []"
  shows "turns_ok st cv ks es gone"
  using assms unfolding turns_ok_def by blast

text \<open>Changes that keep the bindings and the events.\<close>

lemma turns_ok_move:
  assumes ok: "turns_ok st cv ks es gone"
    and runs: "\<And>r c. (r, c) \<in> set ks \<Longrightarrow> cv' r = cv r \<and> (st' r = st r \<or> live st r \<and> live st' r)"
    and gone: "\<And>c. gone c \<Longrightarrow> gone' c"
  shows "turns_ok st' cv' ks es gone'"
proof (rule turns_okI)
  have live: "live st' r \<longleftrightarrow> live st r" if "(r, c) \<in> set ks" for r c
    using runs [OF that] by (metis live_def)
  show "st' r \<noteq> None \<and> cv' r = Some c" if "(r, c) \<in> set ks" for r c
    using turns_okD(2) [OF ok that] runs [OF that] by (auto simp: live_def)
  show "r = r'" if "(r, c) \<in> set ks" "(r', c) \<in> set ks" "live st' r" "live st' r'" for r c r'
    using that live turns_okD(3) [OF ok] by blast
  show "open_transcript es r c" if "(r, c) \<in> set ks" "live st' r" for r c
    using that live turns_okD(7) [OF ok] by blast
  show "closed_transcript es r s \<or> gone' c \<and> content_of es r = []"
    if "(r, c) \<in> set ks" "st' r = Some s" "is_terminal s" for r c s
  proof -
    have "st r = Some s" using runs [OF that(1)] that(2,3) by (auto simp: live_def)
    with turns_okD(8) [OF ok that(1)] that(3) gone show ?thesis by blast
  qed
qed (use turns_okD(1,4-6) [OF ok] in blast)+

text \<open>Appending one event at the end of its conversation.\<close>

lemma closed_transcript_other:
  "kw_run_id e \<noteq> r \<Longrightarrow> closed_transcript (es @ [e]) r s = closed_transcript es r s"
  by (simp add: closed_transcript_def)

lemma sorted_content_append:
  assumes "sorted_wrt (<) (map kw_sequence (conversation_content es c))"
    and "\<And>e'. e' \<in> set es \<Longrightarrow> kw_conversation_id e' = kw_conversation_id e \<Longrightarrow> kw_sequence e' < kw_sequence e"
  shows "sorted_wrt (<) (map kw_sequence (conversation_content (es @ [e]) c))"
  using assms by (auto simp: sorted_wrt_append)

lemma turns_ok_append:
  assumes ok: "turns_ok st cv ks es gone"
    and key: "(kw_run_id e, kw_conversation_id e) \<in> set ks" and live: "live st (kw_run_id e)"
    and "\<not> is_mark e" and seq: "1 \<le> kw_sequence e" "kw_sequence e < int MAX_SEQUENCE"
    and above: "\<And>e'. e' \<in> set es \<Longrightarrow> kw_conversation_id e' = kw_conversation_id e \<Longrightarrow>
          kw_sequence e' < kw_sequence e"
  shows "turns_ok st cv ks (es @ [e]) gone"
proof (rule turns_okI)
  show "sorted_wrt (<) (map kw_sequence (conversation_content (es @ [e]) c))" for c
    using turns_okD(6) [OF ok] above by (rule sorted_content_append)
  show "open_transcript (es @ [e]) r c" if "(r, c) \<in> set ks" "live st r" for r c
    using turns_okD(7) [OF ok that] assms(4) seq(2) by (auto simp: open_transcript_def)
  show "closed_transcript (es @ [e]) r s \<or> gone c \<and> content_of (es @ [e]) r = []"
    if "(r, c) \<in> set ks" "st r = Some s" "is_terminal s" for r c s
  proof -
    have "kw_run_id e \<noteq> r" using live that by (auto simp: live_def)
    with turns_okD(8) [OF ok that] show ?thesis by (auto simp: closed_transcript_other)
  qed
qed (use turns_okD(1-5) [OF ok] key seq in auto)

text \<open>Ending a turn: the run becomes terminal and the mark is appended.\<close>

lemma turns_ok_finish:
  assumes ok: "turns_ok st cv ks es gone"
    and key: "(r, c) \<in> set ks" and live: "live st r" and s: "is_terminal s"
    and e: "kw_run_id e = r" "kw_conversation_id e = c" "kw_kind e = kind_of (TerminalPayload s)"
    and seq: "1 \<le> kw_sequence e" "kw_sequence e \<le> int MAX_SEQUENCE"
    and above: "\<And>e'. e' \<in> set es \<Longrightarrow> kw_conversation_id e' = c \<Longrightarrow> kw_sequence e' < kw_sequence e"
    and runs: "st' r = Some s" "\<And>r'. r' \<noteq> r \<Longrightarrow> st' r' = st r'" "\<And>r'. cv' r' = cv r'"
  shows "turns_ok st' cv' ks (es @ [e]) gone"
proof (rule turns_okI)
  have others: "live st' r' \<longleftrightarrow> r' \<noteq> r \<and> live st r'" for r'
    using runs s by (cases "r' = r") (auto simp: live_def)
  show "st' r' \<noteq> None \<and> cv' r' = Some c'" if "(r', c') \<in> set ks" for r' c'
    using turns_okD(2) [OF ok that] runs by (cases "r' = r") auto
  show "a = b" if "(a, c') \<in> set ks" "(b, c') \<in> set ks" "live st' a" "live st' b" for a b c'
    using turns_okD(3) [OF ok that(1,2)] that(3,4) others by blast
  show "(kw_run_id x, kw_conversation_id x) \<in> set ks \<and> 1 \<le> kw_sequence x
      \<and> kw_sequence x \<le> int MAX_SEQUENCE" if "x \<in> set (es @ [e])" for x
    using that turns_okD(4,5) [OF ok] key e seq by auto
  show "sorted_wrt (<) (map kw_sequence (conversation_content (es @ [e]) c'))" for c'
    using turns_okD(6) [OF ok] above e by (intro sorted_content_append) auto
  show "open_transcript (es @ [e]) r' c'" if "(r', c') \<in> set ks" "live st' r'" for r' c'
  proof -
    have "r' \<noteq> r" "live st r'" using that(2) others by blast+
    moreover have "c' \<noteq> c" using turns_okD(3) [OF ok that(1)] key live calculation by blast
    ultimately show ?thesis
      using turns_okD(7) [OF ok that(1)] e by (auto simp: open_transcript_def)
  qed
  show "closed_transcript (es @ [e]) r' s' \<or> gone c' \<and> content_of (es @ [e]) r' = []"
    if "(r', c') \<in> set ks" "st' r' = Some s'" "is_terminal s'" for r' c' s'
  proof (cases "r' = r")
    case True
    have "\<forall>x\<in>set (content_of es r). \<not> is_mark x"
      using turns_okD(7) [OF ok key live] by (auto simp: open_transcript_def)
    with True that runs e show ?thesis by (auto simp: closed_transcript_def)
  next
    case False
    with that runs turns_okD(8) [OF ok that(1)] e show ?thesis
      by (auto simp: closed_transcript_other)
  qed
qed (use turns_okD(1) [OF ok] in blast)

text \<open>Admitting a turn into a conversation without a live one.\<close>

lemma turns_ok_admit:
  assumes ok: "turns_ok st cv ks es gone" and new: "r \<notin> fst ` set ks"
    and idle: "\<And>r'. (r', c) \<in> set ks \<Longrightarrow> \<not> live st r'"
    and room: "\<And>e. e \<in> set es \<Longrightarrow> kw_conversation_id e = c \<Longrightarrow> kw_sequence e < int MAX_SEQUENCE"
    and runs: "st' r = Some Queued" "cv' r = Some c"
      "\<And>r'. r' \<noteq> r \<Longrightarrow> st' r' = st r' \<and> cv' r' = cv r'"
  shows "turns_ok st' cv' (ks @ [(r, c)]) es gone"
proof (rule turns_okI)
  have old: "r' \<noteq> r" if "(r', c') \<in> set ks" for r' c' using new that by force
  have same: "live st' r' \<longleftrightarrow> live st r'" if "(r', c') \<in> set ks" for r' c'
    using runs(3) [OF old [OF that]] by (simp add: live_def)
  show "distinct (map fst (ks @ [(r, c)]))" using turns_okD(1) [OF ok] new by simp
  show "st' r' \<noteq> None \<and> cv' r' = Some c'" if "(r', c') \<in> set (ks @ [(r, c)])" for r' c'
    using that turns_okD(2) [OF ok] runs old by auto
  show "a = b" if "(a, c') \<in> set (ks @ [(r, c)])" "(b, c') \<in> set (ks @ [(r, c)])"
    "live st' a" "live st' b" for a b c'
    using that turns_okD(3) [OF ok, of a c' b] idle same by auto
  show "(kw_run_id e, kw_conversation_id e) \<in> set (ks @ [(r, c)]) \<and> 1 \<le> kw_sequence e
      \<and> kw_sequence e \<le> int MAX_SEQUENCE" if "e \<in> set es" for e
    using turns_okD(4,5) [OF ok that] by simp
  show "open_transcript es r' c'" if "(r', c') \<in> set (ks @ [(r, c)])" "live st' r'" for r' c'
  proof (cases "(r', c') \<in> set ks")
    case True
    with that same turns_okD(7) [OF ok] show ?thesis by blast
  next
    case False
    with that have eq: "r' = r" "c' = c" by auto
    have "kw_run_id e \<noteq> r" if "e \<in> set es" for e
      using turns_okD(4) [OF ok that] old by blast
    with eq room show ?thesis by (auto simp: open_transcript_def)
  qed
  show "closed_transcript es r' s \<or> gone c' \<and> content_of es r' = []"
    if "(r', c') \<in> set (ks @ [(r, c)])" "st' r' = Some s" "is_terminal s" for r' c' s
  proof -
    have "(r', c') \<in> set ks" using that runs(1) by auto
    with that runs(3) [OF old] turns_okD(8) [OF ok] show ?thesis by metis
  qed
qed (use turns_okD(6) [OF ok] in blast)

text \<open>Deleting the transcripts of a conversation without a live turn.\<close>

lemma turns_ok_delete:
  assumes ok: "turns_ok st cv ks es gone"
    and idle: "\<And>r. (r, c) \<in> set ks \<Longrightarrow> \<not> live st r"
    and gone: "\<And>c'. gone c' \<Longrightarrow> gone' c'" "gone' c"
  shows "turns_ok st cv ks (filter (\<lambda>e. kw_conversation_id e \<noteq> c) es) gone'"
proof (rule turns_okI)
  let ?es = "filter (\<lambda>e. kw_conversation_id e \<noteq> c) es"
  show "sorted_wrt (<) (map kw_sequence (conversation_content ?es c'))" for c'
  proof -
    have "conversation_content ?es c' = (if c' = c then [] else conversation_content es c')"
      by (auto simp: filter_empty_conv intro: filter_cong)
    with turns_okD(6) [OF ok, of c'] show ?thesis by simp
  qed
  show "open_transcript ?es r c'" if "(r, c') \<in> set ks" "live st r" for r c'
    using turns_okD(7) [OF ok that] by (auto simp: open_transcript_def)
  show "closed_transcript ?es r s \<or> gone' c' \<and> content_of ?es r = []"
    if "(r, c') \<in> set ks" "st r = Some s" "is_terminal s" for r c' s
  proof -
    have "kw_conversation_id e = c'" if "e \<in> set es" "kw_run_id e = r" for e
      using turns_okD(4) [OF ok that(1)] that(2) turns_ok_key [OF ok \<open>(r, c') \<in> set ks\<close>] by simp
    then have "content_of ?es r = (if c' = c then [] else content_of es r)"
      by (auto simp: filter_empty_conv intro: filter_cong)
    with turns_okD(8) [OF ok that] gone show ?thesis
      by (cases "c' = c") (auto simp: closed_transcript_def)
  qed
qed (use turns_okD(1-5) [OF ok] in auto)

section \<open>The invariant of the store\<close>

definition conversation_of :: "externals \<Rightarrow> db \<Rightarrow> run_id \<Rightarrow> conversation_id option" where
  "conversation_of E d rid =
     (case run_by_id E d rid of Inr (Some r) \<Rightarrow> rec_conversation_id r | _ \<Rightarrow> None)"

definition turn_keys :: "db \<Rightarrow> (run_id \<times> conversation_id) list" where
  "turn_keys d = map (\<lambda>t. (tw_run_id t, tw_conversation_id t)) (assistant_turns d)"

definition gone_of :: "db \<Rightarrow> conversation_id \<Rightarrow> bool" where
  "gone_of d cid \<longleftrightarrow> (\<exists>r\<in>set (assistant_conversations d). acw_id r = cid \<and> acw_deleted r)"

definition turn_inv :: "externals \<Rightarrow> db \<Rightarrow> bool" where
  "turn_inv E d \<longleftrightarrow> ledger_inv E d
     \<and> turns_ok (status_of E d) (conversation_of E d) (turn_keys d) (assistant_content_events d) (gone_of d)"

lemma empty_turn_inv:
  "json_from_str E ''{}'' \<noteq> None \<Longrightarrow> payload_parses E recovery_event \<Longrightarrow> turn_inv E empty_db"
  using empty_db_wf [of E]
  by (auto simp: turn_inv_def ledger_inv_def turns_ok_def turn_keys_def empty_db_def)

lemma gone_of_cong: "assistant_conversations d' = assistant_conversations d \<Longrightarrow> gone_of d' = gone_of d"
  by (simp add: gone_of_def fun_eq_iff)

lemma turn_keys_cong: "assistant_turns d' = assistant_turns d \<Longrightarrow> turn_keys d' = turn_keys d"
  by (simp add: turn_keys_def)

lemma turn_invI:
  "ledger_inv E d \<Longrightarrow> turns_ok (status_of E d) (conversation_of E d) ks es gone \<Longrightarrow>
     turn_keys d = ks \<Longrightarrow> assistant_content_events d = es \<Longrightarrow> gone_of d = gone \<Longrightarrow> turn_inv E d"
  by (simp add: turn_inv_def)

lemma turn_inv_wf: "turn_inv E d \<Longrightarrow> db_wf E d"
  by (simp add: turn_inv_def ledger_inv_def)

lemma run_views_same:
  "runs d' = runs d \<Longrightarrow> run_events d' = run_events d \<Longrightarrow>
     ledger_inv E d' = ledger_inv E d \<and> status_of E d' = status_of E d
   \<and> conversation_of E d' = conversation_of E d"
  using db_wf_cong [of d' d E]
  by (auto simp: ledger_inv_def status_of_def conversation_of_def run_by_id_def fun_eq_iff)

text \<open>An operation on other tables keeps the invariant.\<close>

lemma turn_inv_frame:
  assumes "turn_inv E d" and "runs d' = runs d" "run_events d' = run_events d"
    and "turn_keys d' = turn_keys d" "assistant_content_events d' = assistant_content_events d"
    and "\<And>c. gone_of d c \<Longrightarrow> gone_of d' c"
  shows "turn_inv E d'"
  using assms run_views_same [of d' d E] turns_ok_move [of "status_of E d" "conversation_of E d"]
  by (auto simp: turn_inv_def)

lemma active_runs_idle:
  assumes inv: "turn_inv E d" and idle: "active_runs d cid = 0" and key: "(rid, cid) \<in> set (turn_keys d)"
  shows "\<not> live (status_of E d) rid"
proof
  assume "live (status_of E d) rid"
  then obtain run where run: "run_by_id E d rid = Inr (Some run)" "\<not> is_terminal (rec_status run)"
    by (auto simp: live_def status_of_Some)
  have "conversation_of E d rid = Some cid"
    using inv key turns_okD(2) unfolding turn_inv_def by blast
  with run have cv: "rec_conversation_id run = Some cid" by (simp add: conversation_of_def)
  obtain row where row: "row \<in> set (runs d)" "row_to_run E row = Inr run"
    using turn_inv_wf [OF inv] run(1) by (rule run_by_id_row) blast
  have "rw_status row \<in> set active_labels"
    using row_to_run_fields(5) [OF row(2)] run(2) by (cases "rec_status run") (auto simp: active_labels_def)
  moreover have "rw_conversation_id row = Some cid" using row_to_run_fields(2) [OF row(2)] cv by simp
  ultimately show False using idle row(1) by (auto simp: active_runs_def filter_empty_conv)
qed

section \<open>Content events\<close>

lemma kind_of_mark: "kind_of p \<in> set terminal_kinds \<longleftrightarrow> is_terminal_payload p"
proof (cases p)
  case (ToolPayload t s)
  then show ?thesis by (cases s) (simp_all add: terminal_kinds_def)
next
  case (TerminalPayload s)
  then show ?thesis by (cases s) (simp_all add: terminal_kinds_def)
qed (simp_all add: terminal_kinds_def)

lemma last_content_above:
  assumes "e \<in> set (assistant_content_events d)" "kw_conversation_id e = cid"
  shows "kw_sequence e \<le> last_content_sequence d cid"
proof -
  have "kw_sequence e \<in> set (map kw_sequence (conversation_content (assistant_content_events d) cid))"
    using assms by auto
  then show ?thesis unfolding last_content_sequence_def Let_def
    by (auto simp del: set_map intro!: Max_ge)
qed

lemma last_content_in:
  "last_content_sequence d cid = 0
   \<or> (\<exists>e\<in>set (assistant_content_events d). kw_conversation_id e = cid \<and> kw_sequence e = last_content_sequence d cid)"
proof (cases "conversation_content (assistant_content_events d) cid = []")
  case False
  let ?s = "kw_sequence ` set (conversation_content (assistant_content_events d) cid)"
  have "Max ?s \<in> ?s" using False by (intro Max_in) (auto simp: filter_empty_conv)
  with False show ?thesis by (auto simp: last_content_sequence_def Let_def)
qed (simp add: last_content_sequence_def)

definition content_entry ::
    "externals \<Rightarrow> conversation_id \<Rightarrow> run_id \<Rightarrow> v4_content_payload \<Rightarrow> int \<Rightarrow> nat \<Rightarrow> content_event_row" where
  "content_entry E cid rid p seq ms =
     \<lparr>kw_conversation_id = cid, kw_sequence = seq, kw_request_id = rid, kw_run_id = rid,
      kw_kind = kind_of p,
      kw_byte_count = (case p of TextDelta text \<Rightarrow> int (length text)
                       | _ \<Rightarrow> int (length (json_to_string E (content_payload_json p)))),
      kw_timestamp_ms = int ms\<rparr>"

lemma content_entry_simps [simp]:
  "kw_conversation_id (content_entry E cid rid p seq ms) = cid"
  "kw_sequence (content_entry E cid rid p seq ms) = seq"
  "kw_run_id (content_entry E cid rid p seq ms) = rid"
  "kw_kind (content_entry E cid rid p seq ms) = kind_of p"
  "is_mark (content_entry E cid rid p seq ms) = is_terminal_payload p"
  by (simp_all add: content_entry_def is_mark_def kind_of_mark)

lemma insert_content_event_Inr:
  assumes "insert_content_event E d cid rid p ms = Inr (e, d')"
  obtains seq where "int seq = last_content_sequence d cid + 1" "1 \<le> seq" "seq \<le> MAX_SEQUENCE"
    "\<not> is_terminal_payload p \<Longrightarrow> seq < MAX_SEQUENCE"
    "v4_content_payload_validate p = Inr ()" "v4_content_event_validate e = Inr ()"
    "e = \<lparr>ce_conversation_id = cid, ce_run_id = rid, ce_sequence = seq, ce_timestamp_ms = ms, ce_payload = p\<rparr>"
    "rid \<in> rw_id ` set (runs d)" "cid \<in> acw_id ` set (assistant_conversations d)"
    "d' = insert_content_payload_row
       \<lparr>pw_conversation_id = cid, pw_sequence = int seq,
        pw_payload_json = json_to_string E (content_payload_json p)\<rparr>
       (d\<lparr>assistant_content_events :=
            assistant_content_events d @ [content_entry E cid rid p (int seq) ms]\<rparr>)"
proof -
  from assms obtain n d1 where n: "last_content_sequence d cid = int n"
    and bound: "Suc n \<le> MAX_SEQUENCE" "\<not> is_terminal_payload p \<Longrightarrow> Suc n \<noteq> MAX_SEQUENCE"
    and ms: "ms < i64_bound"
    and val: "v4_content_payload_validate p = Inr ()"
    and row: "insert_content_event_row (content_entry E cid rid p (int (Suc n)) ms) d = Inr d1"
    and e: "e = \<lparr>ce_conversation_id = cid, ce_run_id = rid, ce_sequence = Suc n, ce_timestamp_ms = ms, ce_payload = p\<rparr>"
      "v4_content_event_validate e = Inr ()"
    and d': "d' = insert_content_payload_row
       \<lparr>pw_conversation_id = cid, pw_sequence = int (Suc n),
        pw_payload_json = json_to_string E (content_payload_json p)\<rparr> d1"
    by (cases p) (auto simp: insert_content_event_def v4_ms_def content_entry_def rust_simps Let_def
        split: if_splits option.splits)
  from row have "rid \<in> rw_id ` set (runs d)" "cid \<in> acw_id ` set (assistant_conversations d)"
    and d1: "d1 = d\<lparr>assistant_content_events :=
            assistant_content_events d @ [content_entry E cid rid p (int (Suc n)) ms]\<rparr>"
    by (auto simp: insert_content_event_row_def split: if_splits)
  moreover have "Suc n < MAX_SEQUENCE" if "\<not> is_terminal_payload p"
    using bound(1) bound(2) [OF that] by simp
  ultimately show thesis using that [of "Suc n"] n bound(1) val e d' by simp
qed

lemma insert_payload_frame [simp]:
  "runs (insert_content_payload_row r d) = runs d"
  "run_events (insert_content_payload_row r d) = run_events d"
  "assistant_turns (insert_content_payload_row r d) = assistant_turns d"
  "assistant_conversations (insert_content_payload_row r d) = assistant_conversations d"
  "assistant_messages (insert_content_payload_row r d) = assistant_messages d"
  "assistant_content_events (insert_content_payload_row r d) = assistant_content_events d"
  by (simp_all add: insert_content_payload_row_def)

lemma insert_content_conflict:
  assumes "insert_content_event E d cid rid (TerminalPayload s) ms = Inl AssistantConflict"
  shows "int MAX_SEQUENCE \<le> last_content_sequence d cid"
proof -
  have "x \<noteq> Inl AssistantConflict" if "x = map_err Database y" for x :: "store_error + db" and y
    using that by (cases y) auto
  with assms show ?thesis
    by (auto simp: insert_content_event_def rust_simps Let_def v4_ms_def sql_sequence_def
        MAX_SEQUENCE_def u64_bound_def u64_try_from_def split: if_splits option.splits)
qed

end
