(* ===== verification/V4_Steps.thy ===== *)
theory V4_Steps
  imports V4_Facts
begin

text \<open>
  The operations on conversations and turns as steps: each keeps the invariant of transcripts
  and moves runs only along the lifecycle. The contract of a run ledger holds across all of
  them.
\<close>

section \<open>Lifecycle writes\<close>

lemma turn_of_key: "turn_of d rid = Some t \<Longrightarrow> (rid, tw_conversation_id t) \<in> set (turn_keys d)"
  by (auto simp: turn_of_def turn_keys_def dest!: find_Some_in)

lemma turn_of_None: "turn_of d rid = None \<longleftrightarrow> rid \<notin> fst ` set (turn_keys d)"
  by (force simp: turn_of_def turn_keys_def find_None_all)

lemma sync_messages_simps [simp]:
  "runs (sync_messages rid s d) = runs d" "run_events (sync_messages rid s d) = run_events d"
  "assistant_turns (sync_messages rid s d) = assistant_turns d"
  "assistant_conversations (sync_messages rid s d) = assistant_conversations d"
  "assistant_content_events (sync_messages rid s d) = assistant_content_events d"
  "assistant_content_payloads (sync_messages rid s d) = assistant_content_payloads d"
  "last_content_sequence (sync_messages rid s d) c = last_content_sequence d c"
  by (simp_all add: sync_messages_def last_content_sequence_def)

lemma sync_message_state_turn:
  assumes "sync_message_state E ms d rid s = Inr d'"
  obtains
    (legacy) "rid \<notin> fst ` set (turn_keys d)" "d' = d"
  | (running) "\<not> is_terminal s" "d' = sync_messages rid s d"
  | (marked) c m where "(rid, c) \<in> set (turn_keys d)" "m \<in> set (assistant_content_events d)"
      "kw_run_id m = rid" "is_mark m"
  | (closed) c e where "(rid, c) \<in> set (turn_keys d)" "is_terminal s"
      "insert_content_event E (sync_messages rid s d) c rid (TerminalPayload s) ms = Inr (e, d')"
  | (full) c where "(rid, c) \<in> set (turn_keys d)" "int MAX_SEQUENCE \<le> last_content_sequence d c"
proof (cases "turn_of d rid")
  case None
  then have "d' = d" using assms by (simp add: sync_message_state_legacy)
  with None show thesis by (intro legacy) (simp_all add: turn_of_None)
next
  case (Some t)
  then have key: "(rid, tw_conversation_id t) \<in> set (turn_keys d)" by (rule turn_of_key)
  consider "\<not> is_terminal s" | m where "m \<in> set (assistant_content_events d)" "kw_run_id m = rid" "is_mark m"
    | "is_terminal s" "\<not> list_ex (\<lambda>e. kw_run_id e = rid \<and> kw_kind e \<in> set terminal_kinds)
        (assistant_content_events d)"
    unfolding list_ex_iff is_mark_def by blast
  then show thesis
  proof cases
    case 1
    with assms Some have "d' = sync_messages rid s d" by (simp add: sync_message_state_def)
    with 1 show thesis by (rule running)
  next
    case (2 m)
    with marked key show thesis by blast
  next
    case 3
    let ?r = "insert_content_event E (sync_messages rid s d) (tw_conversation_id t) rid (TerminalPayload s) ms"
    have "turn_of (sync_messages rid s d) rid = Some t" using Some by (simp add: turn_of_def)
    with 3 assms Some have "(case ?r of Inr (_, d2) \<Rightarrow> Inr d2
        | Inl AssistantConflict \<Rightarrow> Inr (sync_messages rid s d) | Inl e \<Rightarrow> Inl e) = Inr d'"
      by (auto simp: sync_message_state_def Let_def turn_conversation_id_def bindr_eq_Inr map_err_eq_Inr
          parse_uuid_id_Inr)
    then consider e where "?r = Inr (e, d')" | "?r = Inl AssistantConflict"
      by (auto split: sum.splits store_error.splits)
    then show thesis
    proof cases
      case 1
      with closed key 3 show thesis by blast
    next
      case 2
      with full key insert_content_conflict show thesis by fastforce
    qed
  qed
qed

lemma open_last_content:
  assumes "open_transcript (assistant_content_events d) rid cid"
  shows "last_content_sequence d cid < int MAX_SEQUENCE"
  using last_content_in [of d cid] assms by (auto simp: open_transcript_def MAX_SEQUENCE_def)

text \<open>While the transcript of a turn is open, a lifecycle write leaves it or closes it.\<close>

lemma sync_message_state_live:
  assumes sync: "sync_message_state E ms d rid s = Inr d'"
    and live: "\<forall>c. (rid, c) \<in> set (turn_keys d) \<longrightarrow> open_transcript (assistant_content_events d) rid c"
  obtains
    (legacy) "rid \<notin> fst ` set (turn_keys d)" "d' = d"
  | (running) "\<not> is_terminal s" "d' = sync_messages rid s d"
  | (closed) c e where "(rid, c) \<in> set (turn_keys d)" "is_terminal s"
      "insert_content_event E (sync_messages rid s d) c rid (TerminalPayload s) ms = Inr (e, d')"
  using sync
proof (cases rule: sync_message_state_turn)
  case (marked c m)
  with live show thesis by (auto simp: open_transcript_def)
next
  case (full c)
  with live open_last_content [of d rid c] show thesis by simp
qed (use legacy running closed in blast)+

lemma update_and_append_sync:
  assumes inv: "turn_inv E d" and run: "run_by_id E d (rec_id run) = Inr (Some run)"
    and live: "\<not> is_terminal (rec_status run)"
    and ok: "update_and_append E now ms d run next event = Inr (ev, d')"
  obtains d1 where "assistant_turns d1 = assistant_turns d" "assistant_conversations d1 = assistant_conversations d"
      "assistant_messages d1 = assistant_messages d"
      "assistant_content_events d1 = assistant_content_events d"
      "assistant_content_payloads d1 = assistant_content_payloads d"
      "sync_message_state E ms d1 (rec_id run) next = Inr d'"
      "\<forall>c. (rec_id run, c) \<in> set (turn_keys d1) \<longrightarrow> open_transcript (assistant_content_events d1) (rec_id run) c"
proof
  let ?d1 = "d\<lparr>runs := set_run (rec_id run) (advance next (Suc (rec_next_event_sequence run)) now) (runs d),
      run_events := run_events d @ [event_row_of E (next_event now run event)]\<rparr>"
  show "sync_message_state E ms ?d1 (rec_id run) next = Inr d'"
    using ok unfolding update_and_append_iff [OF turn_inv_wf [OF inv] run]
    by (elim conjE) (hypsubst, assumption)
  have "live (status_of E d) (rec_id run)" using run live by (auto simp: live_def status_of_def)
  with inv show "\<forall>c. (rec_id run, c) \<in> set (turn_keys ?d1) \<longrightarrow>
      open_transcript (assistant_content_events ?d1) (rec_id run) c"
    using turns_okD(7) by (fastforce simp: turn_inv_def turn_keys_def)
qed simp_all

lemma update_and_append_turn_inv:
  assumes inv: "turn_inv E d" and run: "run_by_id E d (rec_id run) = Inr (Some run)"
    and live: "\<not> is_terminal (rec_status run)" and json: "payload_parses E event"
    and ok: "update_and_append E now ms d run next event = Inr (ev, d')"
  shows "turn_inv E d'"
proof -
  let ?rid = "rec_id run"
  have wf: "db_wf E d" using inv by (rule turn_inv_wf)
  have log: "logged E now d run next event d'" using update_and_append_logged [OF wf run ok] by blast
  then have ledger: "ledger_inv E d'"
    using inv logged_wf [OF wf log json] by (simp add: turn_inv_def ledger_inv_def)
  have st: "status_of E d' ?rid = Some next" "\<And>r. r \<noteq> ?rid \<Longrightarrow> status_of E d' r = status_of E d r"
    and cv: "conversation_of E d' r = conversation_of E d r" for r
    using logged_run_by_id [OF log] run by (simp_all add: status_of_def conversation_of_def)
  have ok1: "turns_ok (status_of E d) (conversation_of E d) (turn_keys d) (assistant_content_events d) (gone_of d)"
    using inv by (simp add: turn_inv_def)
  have liv: "live (status_of E d) ?rid" using run live by (auto simp: live_def status_of_def)
  from inv run live ok obtain d1 where same: "assistant_turns d1 = assistant_turns d"
      "assistant_conversations d1 = assistant_conversations d"
      "assistant_content_events d1 = assistant_content_events d"
    and sync: "sync_message_state E ms d1 ?rid next = Inr d'"
    and opened: "\<forall>c. (?rid, c) \<in> set (turn_keys d1) \<longrightarrow> open_transcript (assistant_content_events d1) ?rid c"
    by (rule update_and_append_sync) blast
  have keys: "turn_keys d1 = turn_keys d" "gone_of d1 = gone_of d"
    "last_content_sequence d1 c = last_content_sequence d c" for c
    using same by (simp_all add: turn_keys_def gone_of_def fun_eq_iff last_content_sequence_def)
  from sync opened show ?thesis
  proof (cases rule: sync_message_state_live)
    case legacy
    have "turns_ok (status_of E d') (conversation_of E d') (turn_keys d) (assistant_content_events d) (gone_of d)"
      using ok1
    proof (rule turns_ok_move)
      fix r c
      assume "(r, c) \<in> set (turn_keys d)"
      then have "r \<noteq> ?rid" using legacy(1) keys(1) by force
      then show "conversation_of E d' r = conversation_of E d r \<and>
          (status_of E d' r = status_of E d r \<or> live (status_of E d) r \<and> live (status_of E d') r)"
        by (simp add: cv st(2))
    qed simp
    with ledger show ?thesis
      by (rule turn_invI) (simp_all add: legacy(2) keys same)
  next
    case running
    then have liv': "live (status_of E d') ?rid" using st(1) by (simp add: live_def)
    have "turns_ok (status_of E d') (conversation_of E d') (turn_keys d) (assistant_content_events d) (gone_of d)"
      using ok1
    proof (rule turns_ok_move)
      show "conversation_of E d' r = conversation_of E d r \<and>
          (status_of E d' r = status_of E d r \<or> live (status_of E d) r \<and> live (status_of E d') r)" for r
        using cv st(2) liv liv' by (cases "r = ?rid") simp_all
    qed simp
    with ledger show ?thesis
      by (rule turn_invI) (simp_all add: running(2) same turn_keys_def gone_of_def fun_eq_iff)
  next
    case (closed c e)
    then have key: "(?rid, c) \<in> set (turn_keys d)" by (simp add: keys)
    from closed(3) obtain seq where seq: "int seq = last_content_sequence d c + 1" "1 \<le> seq" "seq \<le> MAX_SEQUENCE"
      and d': "assistant_content_events d' = assistant_content_events d
          @ [content_entry E c ?rid (TerminalPayload next) (int seq) ms]"
        "turn_keys d' = turn_keys d" "gone_of d' = gone_of d"
      by (rule insert_content_event_Inr)
        (simp_all add: same turn_keys_def gone_of_def fun_eq_iff last_content_sequence_def)
    have "turns_ok (status_of E d') (conversation_of E d') (turn_keys d)
        (assistant_content_events d @ [content_entry E c ?rid (TerminalPayload next) (int seq) ms]) (gone_of d)"
      using ok1 key liv closed(2)
    proof (rule turns_ok_finish)
      show "kw_sequence e' < kw_sequence (content_entry E c ?rid (TerminalPayload next) (int seq) ms)"
        if "e' \<in> set (assistant_content_events d)" "kw_conversation_id e' = c" for e'
        using last_content_above [OF that] seq(1) by simp
    qed (use seq(2,3) st cv in simp_all)
    with ledger show ?thesis by (rule turn_invI) (simp_all add: d')
  qed
qed

lemma transition_turn_inv:
  assumes inv: "turn_inv E d" and ok: "transition_run E now ms d rid expected next event = Inr (ev, d')"
    and json: "payload_parses E event"
  shows "turn_inv E d'"
proof -
  from ok obtain run where run: "run_by_id E d rid = Inr (Some run)" "\<not> is_terminal (rec_status run)"
    and upd: "update_and_append E now ms d run next event = Inr (ev, d')"
    by (auto simp: transition_run_def rust_simps split: if_splits)
  have "run_by_id E d (rec_id run) = Inr (Some run)" using run(1) run_by_id_rec_id by blast
  then show ?thesis using update_and_append_turn_inv [OF inv] run(2) json upd by blast
qed

text \<open>One turn of the recovery loop, as every induction over it needs it.\<close>

definition recoverable :: "externals \<Rightarrow> run_id list \<Rightarrow> db \<Rightarrow> bool" where
  "recoverable E ids d \<longleftrightarrow> turn_inv E d \<and> distinct ids
     \<and> (\<forall>i\<in>set ids. \<exists>run. run_by_id E d i = Inr (Some run) \<and> active_state (rec_status run))"

lemma recover_loop_step:
  assumes rec: "recoverable E (i # ids) d" and loop: "recover_loop E now ms (i # ids) d = Inr d'"
  obtains run ev d1 where "run_by_id E d (rec_id run) = Inr (Some run)" "\<not> is_terminal (rec_status run)"
    "update_and_append E now ms d run Interrupted recovery_event = Inr (ev, d1)"
    "recoverable E ids d1" "recover_loop E now ms ids d1 = Inr d'"
proof -
  from loop obtain run ev d1 where run: "run_by_id E d i = Inr (Some run)"
    and upd: "update_and_append E now ms d run Interrupted recovery_event = Inr (ev, d1)"
    and rest: "recover_loop E now ms ids d1 = Inr d'"
    by (auto simp: rust_simps)
  have inv: "turn_inv E d" using rec by (simp add: recoverable_def)
  have i: "rec_id run = i" using run by (rule run_by_id_rec_id)
  have json: "payload_parses E recovery_event" using inv by (simp add: turn_inv_def ledger_inv_def)
  have live: "\<not> is_terminal (rec_status run)"
    using rec run active_can_interrupt by (auto simp: recoverable_def)
  have inv1: "turn_inv E d1"
    using update_and_append_turn_inv [OF inv _ live json upd] run i by blast
  have "logged E now d run Interrupted recovery_event d1"
    using update_and_append_logged [OF turn_inv_wf [OF inv] _ upd] run i by blast
  then have "run_by_id E d1 j = run_by_id E d j" if "j \<in> set ids" for j
    using logged_run_by_id [of E now d run Interrupted recovery_event d1 j] i that rec
    by (auto simp: recoverable_def)
  with inv1 rec have "recoverable E ids d1" by (simp add: recoverable_def)
  with that run i live upd rest show thesis by blast
qed

lemma recover_loop_turn_inv:
  "recoverable E ids d \<Longrightarrow> recover_loop E now ms ids d = Inr d' \<Longrightarrow> turn_inv E d'"
proof (induction ids arbitrary: d)
  case (Cons i ids)
  from Cons.prems show ?case by (rule recover_loop_step) (rule Cons.IH)
qed (simp add: recoverable_def)

lemma recovery_ids_recoverable: "turn_inv E d \<Longrightarrow> recoverable E (recovery_ids d) d"
  using recovery_ids_distinct recovery_ids_set turn_inv_wf unfolding recoverable_def by blast

text \<open>Operations that only add a run, or only touch the run tables.\<close>

lemma created_turn_inv:
  assumes inv: "turn_inv E d" and new: "created E fresh now d run d'"
  shows "turn_inv E d'"
proof (rule turn_invI)
  have wf: "db_wf E d" and json: "json_from_str E ''{}'' \<noteq> None"
    using inv by (simp_all add: turn_inv_def ledger_inv_def)
  show "ledger_inv E d'" using inv created_wf [OF wf new json] by (simp add: turn_inv_def ledger_inv_def)
  have ok: "turns_ok (status_of E d) (conversation_of E d) (turn_keys d) (assistant_content_events d) (gone_of d)"
    using inv by (simp add: turn_inv_def)
  then show "turns_ok (status_of E d') (conversation_of E d') (turn_keys d) (assistant_content_events d) (gone_of d)"
  proof (rule turns_ok_move)
    fix r c
    assume "(r, c) \<in> set (turn_keys d)"
    then have "status_of E d r \<noteq> None" using turns_okD(2) [OF ok] by blast
    moreover have "run_by_id E d fresh = Inr None" using new by (simp add: created_def run_by_id_None)
    ultimately have "r \<noteq> fresh" by (auto simp: status_of_def)
    then show "conversation_of E d' r = conversation_of E d r \<and>
        (status_of E d' r = status_of E d r \<or> live (status_of E d) r \<and> live (status_of E d') r)"
      by (simp add: status_of_def conversation_of_def created_run_by_id [OF new])
  qed simp
  show "turn_keys d' = turn_keys d" "assistant_content_events d' = assistant_content_events d"
    "gone_of d' = gone_of d"
    using new by (simp_all add: created_def turn_keys_def gone_of_def fun_eq_iff)
qed

lemma append_run_event_frame:
  assumes "append_run_event E now d rid event = Inr (ev, d')"
  shows "assistant_turns d' = assistant_turns d" "assistant_conversations d' = assistant_conversations d"
    "assistant_content_events d' = assistant_content_events d"
    "assistant_content_payloads d' = assistant_content_payloads d"
    "assistant_messages d' = assistant_messages d"
  using assms by (auto simp: append_run_event_def append_event_def insert_run_event_Inr update_runs_Inr
      rust_simps split: if_splits)

lemma store_step_turn_inv:
  assumes "store_step E d d'" and inv: "turn_inv E d"
  shows "turn_inv E d'"
  using assms(1)
proof cases
  case (submit fresh now run r)
  have "db_wf E d" using inv by (rule turn_inv_wf)
  from create_or_get_run_Inr [OF this submit] show ?thesis
    using inv created_turn_inv [OF inv] by blast
next
  case (transition now ms rid expected "next" ev e)
  then show ?thesis using transition_turn_inv [OF inv] by blast
next
  case (append now rid event ev)
  have wf: "db_wf E d" using inv by (rule turn_inv_wf)
  from wf append(1) obtain run where run: "run_by_id E d rid = Inr (Some run)" "rec_id run = rid"
    "logged E now d run (rec_status run) event d'" by (rule append_run_event_logged) blast
  have "status_of E d' = status_of E d" "conversation_of E d' = conversation_of E d"
    using logged_run_by_id [OF run(3)] run(1,2)
    by (auto simp: status_of_def conversation_of_def fun_eq_iff)
  moreover have "ledger_inv E d'"
    using inv logged_wf [OF wf run(3) append(2)] by (simp add: turn_inv_def ledger_inv_def)
  ultimately show ?thesis using inv append_run_event_frame [OF append(1)]
    by (simp add: turn_inv_def turn_keys_def gone_of_def [abs_def])
next
  case (recover now ms n)
  then have "recover_loop E now ms (recovery_ids d) d = Inr d'"
    by (auto simp: recover_interrupted_on_def Let_def rust_simps)
  with recovery_ids_recoverable [OF inv] show ?thesis by (rule recover_loop_turn_inv)
next
  case (conversation now cid)
  then show ?thesis
    by (intro turn_inv_frame [OF inv])
      (auto simp: create_conversation_def turn_keys_def gone_of_def split: if_splits)
next
  case (backend now cid b bc c)
  then show ?thesis
    by (intro turn_inv_frame [OF inv])
      (auto simp: set_conversation_backend_def Let_def turn_keys_def gone_of_def split: if_splits)
qed

section \<open>Admission\<close>

abbreviation turn_run :: "externals \<Rightarrow> v4_submit_turn \<Rightarrow> new_run" where
  "turn_run E submit \<equiv>
     \<lparr>nr_conversation_id = Some (vt_conversation_id submit), nr_idempotency_key = vt_idempotency_key submit,
      nr_request_digest = submit_digest E submit\<rparr>"

abbreviation user_message :: "string \<Rightarrow> run_id \<Rightarrow> v4_submit_turn \<Rightarrow> nat \<Rightarrow> nat \<Rightarrow> message_row" where
  "user_message msg fresh submit seq ms \<equiv>
     \<lparr>mw_id = msg, mw_conversation_id = vt_conversation_id submit, mw_run_id = fresh,
      mw_role = ''user'', mw_sequence = int seq, mw_body = vt_input submit,
      mw_text_bytes = int (length (vt_input submit)), mw_text_complete = True,
      mw_state = ''queued'', mw_created_at_ms = int ms\<rparr>"

abbreviation turn_binding :: "string \<Rightarrow> run_id \<Rightarrow> v4_submit_turn \<Rightarrow> nat \<Rightarrow> nat \<Rightarrow> turn_row" where
  "turn_binding msg fresh submit seq ms \<equiv>
     \<lparr>tw_run_id = fresh, tw_conversation_id = vt_conversation_id submit,
      tw_user_message_id = Some msg, tw_assistant_message_id = None, tw_user_sequence = int seq,
      tw_route_id = vt_route_id submit, tw_permission_profile_id = ''desk.default'',
      tw_created_at_ms = int ms\<rparr>"

definition admitted ::
    "externals \<Rightarrow> run_id \<Rightarrow> string \<Rightarrow> db \<Rightarrow> v4_submit_turn \<Rightarrow> nat \<Rightarrow> v4_turn_submission \<Rightarrow> db \<Rightarrow> bool" where
  "admitted E fresh msg d submit ms s d' \<longleftrightarrow>
     (\<exists>at seq. stamp E ms = Inr at
      \<and> next_message_sequence d (vt_conversation_id submit) = Inr seq
      \<and> fresh \<notin> rw_id ` set (runs d) \<and> vt_idempotency_key submit \<notin> rw_idempotency_key ` set (runs d)
      \<and> fresh \<notin> fst ` set (turn_keys d)
      \<and> runs d' = runs d @ [queued_row fresh at (turn_run E submit)]
      \<and> run_events d' = run_events d @ [queued_event_row fresh at]
      \<and> assistant_messages d' = assistant_messages d @ [user_message msg fresh submit seq ms]
      \<and> assistant_turns d' = assistant_turns d @ [turn_binding msg fresh submit seq ms]
      \<and> assistant_content_events d' = assistant_content_events d
      \<and> assistant_content_payloads d' = assistant_content_payloads d
      \<and> assistant_conversations d' = map (\<lambda>r. if acw_id r = vt_conversation_id submit
            then r\<lparr>acw_updated_at_ms := int ms\<rparr> else r) (assistant_conversations d)
      \<and> s = \<lparr>vs_conversation_id = vt_conversation_id submit, vs_run_id = fresh,
             vs_idempotency_key = vt_idempotency_key submit, vs_user_message_sequence = seq,
             vs_state = Queued, vs_duplicate = False\<rparr>)"

lemma next_message_sequence_cong:
  "assistant_messages d' = assistant_messages d \<Longrightarrow> next_message_sequence d' c = next_message_sequence d c"
  by (simp add: next_message_sequence_def)

lemma insert_admitted_turn_Inr:
  assumes "insert_admitted_turn E fresh msg d submit ms = Inr (s, d')"
  shows "admitted E fresh msg d submit ms s d'"
proof -
  from assms obtain at d1 d2 seq i now d3 d5 d6 where
    at: "stamp E ms = Inr at" and now: "v4_ms ms = Inr now"
    and run: "insert_run (queued_row fresh at (turn_run E submit)) d = Inr d1"
    and ev: "insert_run_event (queued_event_row fresh at) d1 = Inr d2"
    and seq: "next_message_sequence d2 (vt_conversation_id submit) = Inr seq" "sql_sequence seq = Inr i"
    and msg: "insert_message (user_message msg fresh submit seq ms\<lparr>mw_sequence := i, mw_created_at_ms := now\<rparr>) d2 = Inr d3"
    and turn: "insert_turn (turn_binding msg fresh submit seq ms\<lparr>tw_user_sequence := i, tw_created_at_ms := now\<rparr>)
        (insert_profile_or_ignore \<lparr>prw_profile_id = ''desk.default'', prw_document_json = ''{}'',
           prw_updated_at_ms = now\<rparr> d3) = Inr d5"
    and upd: "update_assistant_conversations (\<lambda>r. acw_id r = vt_conversation_id submit)
        (\<lambda>r. r\<lparr>acw_updated_at_ms := now\<rparr>) d5 = Inr d6"
    and s: "d' = d6" "s = \<lparr>vs_conversation_id = vt_conversation_id submit, vs_run_id = fresh,
             vs_idempotency_key = vt_idempotency_key submit, vs_user_message_sequence = seq,
             vs_state = Queued, vs_duplicate = False\<rparr>"
    by (auto simp: insert_admitted_turn_def bindr_eq_Inr map_err_eq_Inr Let_def)
  have n: "now = int ms" "i = int seq"
    using now seq(2) by (auto simp: v4_ms_def rust_simps)
  have d2: "d2 = d\<lparr>runs := runs d @ [queued_row fresh at (turn_run E submit)],
      run_events := run_events d @ [queued_event_row fresh at]\<rparr>"
    and fresh: "fresh \<notin> rw_id ` set (runs d)" "vt_idempotency_key submit \<notin> rw_idempotency_key ` set (runs d)"
    using run ev by (auto simp: insert_run_Inr insert_run_event_Inr)
  have d3: "d3 = d2\<lparr>assistant_messages := assistant_messages d2 @ [user_message msg fresh submit seq ms]\<rparr>"
    using msg n by (simp add: insert_message_Inr)
  let ?p = "\<lparr>prw_profile_id = ''desk.default'', prw_document_json = ''{}'', prw_updated_at_ms = now\<rparr>"
  have same: "runs (insert_profile_or_ignore ?p d3) = runs d3"
    "run_events (insert_profile_or_ignore ?p d3) = run_events d3"
    "assistant_messages (insert_profile_or_ignore ?p d3) = assistant_messages d3"
    "assistant_turns (insert_profile_or_ignore ?p d3) = assistant_turns d3"
    "assistant_content_events (insert_profile_or_ignore ?p d3) = assistant_content_events d3"
    "assistant_content_payloads (insert_profile_or_ignore ?p d3) = assistant_content_payloads d3"
    "assistant_conversations (insert_profile_or_ignore ?p d3) = assistant_conversations d3"
    by (simp_all add: insert_profile_or_ignore_def)
  have d5: "d5 = (insert_profile_or_ignore ?p d3)\<lparr>assistant_turns :=
      assistant_turns d3 @ [turn_binding msg fresh submit seq ms]\<rparr>"
    and key: "fresh \<notin> tw_run_id ` set (assistant_turns d3)"
    using insert_turn_Inr [OF turn] n same(4) by auto
  have d6: "d6 = d5\<lparr>assistant_conversations := map (\<lambda>r. if acw_id r = vt_conversation_id submit
            then r\<lparr>acw_updated_at_ms := int ms\<rparr> else r) (assistant_conversations d5)\<rparr>"
    using upd n by (simp add: update_assistant_conversations_Inr)
  have "next_message_sequence d (vt_conversation_id submit) = Inr seq"
    using seq(1) next_message_sequence_cong [of d2 d] d2 by simp
  with at fresh key d6 d5 d3 d2 same s show ?thesis
    unfolding admitted_def by (intro exI [of _ at] exI [of _ seq]) (auto simp: turn_keys_def)
qed

lemma admitted_created:
  assumes "admitted E fresh msg d submit ms s d'" and "submit_turn_typed E submit" "canonical E fresh"
  obtains at d0 where "created E fresh at d (turn_run E submit) d0" "runs d' = runs d0"
    "run_events d' = run_events d0"
proof -
  from assms(1) obtain at where at: "runs d' = runs d @ [queued_row fresh at (turn_run E submit)]"
    "run_events d' = run_events d @ [queued_event_row fresh at]"
    "fresh \<notin> rw_id ` set (runs d)" "vt_idempotency_key submit \<notin> rw_idempotency_key ` set (runs d)"
    unfolding admitted_def by blast
  have "row_to_run E (queued_row fresh at (turn_run E submit)) = Inr (queued_record fresh at (turn_run E submit))"
    using assms(2,3) by (auto simp: row_to_run_Inr submit_turn_typed_def is_ok_iff parse_idempotency_key_Inr)
  with at show thesis
    by (intro that [of at "d\<lparr>runs := runs d', run_events := run_events d'\<rparr>"]) (simp_all add: created_def)
qed

lemma admitted_frame:
  assumes "admitted E fresh msg d submit ms s d'"
  shows "turn_keys d' = turn_keys d @ [(fresh, vt_conversation_id submit)]"
    and "assistant_content_events d' = assistant_content_events d" and "gone_of d' = gone_of d"
proof -
  have touched: "(\<exists>r\<in>set (map (\<lambda>r. if acw_id r = k then r\<lparr>acw_updated_at_ms := n\<rparr> else r) rs).
      acw_id r = c \<and> acw_deleted r) \<longleftrightarrow> (\<exists>r\<in>set rs. acw_id r = c \<and> acw_deleted r)" for k n rs c
    by (induction rs) auto
  from assms show "turn_keys d' = turn_keys d @ [(fresh, vt_conversation_id submit)]"
    "assistant_content_events d' = assistant_content_events d"
    unfolding admitted_def turn_keys_def by (elim exE conjE, simp)+
  from assms show "gone_of d' = gone_of d"
    unfolding admitted_def gone_of_def fun_eq_iff by (elim exE conjE) (simp only: touched simp_thms)
qed

lemma v4_admit_turn_Inr:
  assumes "v4_admit_turn E fresh msg d submit ms = Inr (s, d')"
  obtains
    (duplicate) existing where "run_by_idempotency_key E d (vt_idempotency_key submit) = Inr (Some existing)"
      "duplicate_submission E d existing submit = Inr s" "d' = d"
  | (new) c where "run_by_idempotency_key E d (vt_idempotency_key submit) = Inr None"
      "conversation_row_of d (vt_conversation_id submit) = Inr (Some c)"
      "active_runs d (vt_conversation_id submit) = 0"
      "last_content_sequence d (vt_conversation_id submit) \<le> int (MAX_SEQUENCE - 2)"
      "admitted E fresh msg d submit ms s d'"
proof -
  from assms obtain found where found: "run_by_idempotency_key E d (vt_idempotency_key submit) = Inr found"
    by (auto simp: v4_admit_turn_def bindr_eq_Inr)
  show thesis
  proof (cases found)
    case (Some existing)
    with assms found have "duplicate_submission E d existing submit = Inr s" "d' = d"
      by (auto simp: v4_admit_turn_def bindr_eq_Inr)
    with found Some show thesis by (intro duplicate) simp_all
  next
    case None
    with assms found have "conversation_row_of d (vt_conversation_id submit) \<noteq> Inr None"
      and rest: "\<exists>c. conversation_row_of d (vt_conversation_id submit) = Inr (Some c)"
        "active_runs d (vt_conversation_id submit) = 0"
        "last_content_sequence d (vt_conversation_id submit) \<le> int (MAX_SEQUENCE - 2)"
        "insert_admitted_turn E fresh msg d submit ms = Inr (s, d')"
      by (auto simp: v4_admit_turn_def bindr_eq_Inr ok_or_eq_Inr u64_try_from_Some split: if_splits)
    with found None new insert_admitted_turn_Inr show thesis by blast
  qed
qed

lemma admit_turn_inv:
  assumes inv: "turn_inv E d" and ok: "v4_admit_turn E fresh msg d submit ms = Inr (s, d')"
    and typed: "submit_turn_typed E submit" "canonical E fresh"
  shows "turn_inv E d'"
  using ok
proof (cases rule: v4_admit_turn_Inr)
  case duplicate
  with inv show ?thesis by simp
next
  case (new c)
  from admitted_created [OF new(5) typed] obtain at d0 where
    cr: "created E fresh at d (turn_run E submit) d0" and rows: "runs d' = runs d0" "run_events d' = run_events d0" .
  have ok1: "turns_ok (status_of E d) (conversation_of E d) (turn_keys d) (assistant_content_events d) (gone_of d)"
    using inv by (simp add: turn_inv_def)
  have views: "ledger_inv E d' = ledger_inv E d0" "status_of E d' = status_of E d0"
    "conversation_of E d' = conversation_of E d0"
    using run_views_same [OF rows] by blast+
  have "ledger_inv E d'" using created_turn_inv [OF inv cr] views(1) by (simp add: turn_inv_def)
  moreover have "turns_ok (status_of E d') (conversation_of E d')
      (turn_keys d @ [(fresh, vt_conversation_id submit)]) (assistant_content_events d) (gone_of d)"
    using ok1
  proof (rule turns_ok_admit)
    show "fresh \<notin> fst ` set (turn_keys d)" using new(5) by (auto simp: admitted_def)
    show "\<not> live (status_of E d) r" if "(r, vt_conversation_id submit) \<in> set (turn_keys d)" for r
      using active_runs_idle [OF inv new(3) that] .
    show "kw_sequence e < int MAX_SEQUENCE"
      if "e \<in> set (assistant_content_events d)" "kw_conversation_id e = vt_conversation_id submit" for e
      using last_content_above [OF that] new(4) by (simp add: MAX_SEQUENCE_def)
    show "status_of E d' fresh = Some Queued" "conversation_of E d' fresh = Some (vt_conversation_id submit)"
      by (simp_all add: views status_of_def conversation_of_def created_run_by_id [OF cr])
    show "status_of E d' r = status_of E d r \<and> conversation_of E d' r = conversation_of E d r"
      if "r \<noteq> fresh" for r
      using that by (simp add: views status_of_def conversation_of_def created_run_by_id [OF cr])
  qed
  ultimately show ?thesis using admitted_frame [OF new(5)] by (rule turn_invI)
qed

section \<open>Content\<close>

lemma update_assistant_preview_frame:
  assumes "update_assistant_preview E msg d rid delta ms = Inr d'"
  shows "\<exists>ms. d' = d\<lparr>assistant_messages := ms\<rparr>"
  using assms
  by (auto simp: update_assistant_preview_def Let_def bindr_eq_Inr map_err_eq_Inr update_messages_Inr
      insert_message_Inr split: if_splits)

lemma v4_append_content_Inr:
  assumes "v4_append_content E msg d rid p ms = Inr (e, d')"
  obtains run c d1 where "run_by_id E d rid = Inr (Some run)" "\<not> is_terminal (rec_status run)"
    "(rid, c) \<in> set (turn_keys d)" "turn_conversation d rid = Inr c" "canonical E c"
    "insert_content_event E d c rid p ms = Inr (e, d1)"
    "case p of TextDelta t \<Rightarrow> update_assistant_preview E msg d1 rid t ms = Inr d' | _ \<Rightarrow> d' = d1"
proof -
  from assms obtain run c ev d1 where run: "run_by_id E d rid = Inr (Some run)" "\<not> is_terminal (rec_status run)"
    and c: "turn_conversation d rid = Inr c" "canonical E c"
    and ins': "insert_content_event E d c rid p ms = Inr (ev, d1)"
    and out': "(case ce_payload ev of TextDelta t \<Rightarrow> if t = [] then Inr (ev, d1)
        else bindr (update_assistant_preview E msg d1 rid t ms) (\<lambda>d2. Inr (ev, d2)) | _ \<Rightarrow> Inr (ev, d1)) = Inr (e, d')"
    by (auto simp: v4_append_content_def bindr_eq_Inr map_err_eq_Inr ok_or_eq_Inr parse_uuid_id_Inr split: if_splits)
  have ev: "ev = e" using out' by (cases "ce_payload ev") (auto simp: bindr_eq_Inr split: if_splits)
  from ins' out' have ins: "insert_content_event E d c rid p ms = Inr (e, d1)"
    and out: "(case ce_payload e of TextDelta t \<Rightarrow> if t = [] then Inr (e, d1)
        else bindr (update_assistant_preview E msg d1 rid t ms) (\<lambda>d2. Inr (e, d2)) | _ \<Rightarrow> Inr (e, d1)) = Inr (e, d')"
    unfolding ev .
  from c(1) have key: "(rid, c) \<in> set (turn_keys d)"
    using turn_of_key by (auto simp: turn_conversation_def bindr_eq_Inr ok_or_eq_Inr)
  from ins have "ce_payload e = p" "v4_content_payload_validate p = Inr ()"
    by (rule insert_content_event_Inr, simp)+
  with out have "case p of TextDelta t \<Rightarrow> update_assistant_preview E msg d1 rid t ms = Inr d' | _ \<Rightarrow> d' = d1"
    by (cases p) (auto simp: bindr_eq_Inr v4_ensure_def ensure_eq_Inr)
  with that run key c ins show thesis by blast
qed

lemma append_content_frame:
  assumes "case p of TextDelta t \<Rightarrow> update_assistant_preview E msg d1 rid t ms = Inr d' | _ \<Rightarrow> d' = d1"
  shows "\<exists>ms. d' = d1\<lparr>assistant_messages := ms\<rparr>"
proof (cases p)
  case (TextDelta t)
  with assms show ?thesis using update_assistant_preview_frame by force
qed (use assms in \<open>auto intro: exI [of _ "assistant_messages d1"]\<close>)

lemma append_turn_inv:
  assumes inv: "turn_inv E d" and ok: "v4_append_content E msg d rid p ms = Inr (e, d')"
    and p: "\<not> is_terminal_payload p"
  shows "turn_inv E d' \<and> runs d' = runs d \<and> run_events d' = run_events d"
proof -
  from ok obtain run c d1 where run: "run_by_id E d rid = Inr (Some run)" "\<not> is_terminal (rec_status run)"
    and key: "(rid, c) \<in> set (turn_keys d)"
    and ins: "insert_content_event E d c rid p ms = Inr (e, d1)" and out: "\<exists>ms. d' = d1\<lparr>assistant_messages := ms\<rparr>"
    by (rule v4_append_content_Inr) (use append_content_frame in blast)
  have ok1: "turns_ok (status_of E d) (conversation_of E d) (turn_keys d) (assistant_content_events d) (gone_of d)"
    using inv by (simp add: turn_inv_def)
  from ins obtain seq where seq: "int seq = last_content_sequence d c + 1" "1 \<le> seq" "seq < MAX_SEQUENCE"
    and d1: "runs d1 = runs d" "run_events d1 = run_events d" "turn_keys d1 = turn_keys d" "gone_of d1 = gone_of d"
      "assistant_content_events d1 = assistant_content_events d @ [content_entry E c rid p (int seq) ms]"
    by (rule insert_content_event_Inr) (use p in \<open>simp_all add: turn_keys_def gone_of_def fun_eq_iff\<close>)
  have rows: "runs d' = runs d" "run_events d' = run_events d" and rest: "turn_keys d' = turn_keys d" "gone_of d' = gone_of d"
    "assistant_content_events d' = assistant_content_events d @ [content_entry E c rid p (int seq) ms]"
    using out d1 by (auto simp: turn_keys_def gone_of_def fun_eq_iff)
  have views: "ledger_inv E d' = ledger_inv E d" "status_of E d' = status_of E d"
    "conversation_of E d' = conversation_of E d"
    using run_views_same [OF rows] by blast+
  have "turns_ok (status_of E d) (conversation_of E d) (turn_keys d)
      (assistant_content_events d @ [content_entry E c rid p (int seq) ms]) (gone_of d)"
    using ok1
  proof (rule turns_ok_append)
    show "live (status_of E d) (kw_run_id (content_entry E c rid p (int seq) ms))"
      using run by (auto simp: live_def status_of_def)
    show "kw_sequence x < kw_sequence (content_entry E c rid p (int seq) ms)"
      if "x \<in> set (assistant_content_events d)"
        "kw_conversation_id x = kw_conversation_id (content_entry E c rid p (int seq) ms)" for x
      using last_content_above [of x d c] that seq(1) by simp
  qed (use key p seq in simp_all)
  with inv views rest have "turn_inv E d'" by (simp add: turn_inv_def)
  with rows show ?thesis by blast
qed

section \<open>Conversations\<close>

lemma touch_conversation_Inr:
  assumes "touch_conversation d cid = Inr u"
  obtains r where "r \<in> set (assistant_conversations d)" "acw_id r = cid" "\<not> acw_deleted r"
  using assms
  by (auto simp: touch_conversation_def conversation_row_of_def Let_def bindr_eq_Inr
      split: if_splits option.splits dest!: find_Some_in)

lemma patch_column_Inr:
  assumes "patch_column x f cid ms d = Inr d'"
    and "\<And>a r. acw_id (f a r) = acw_id r \<and> acw_deleted (f a r) = acw_deleted r"
  shows "(\<exists>rs. d' = d\<lparr>assistant_conversations := rs\<rparr>) \<and> gone_of d' = gone_of d"
proof (cases x)
  case None
  with assms(1) show ?thesis by (auto simp: patch_column_def intro: exI [of _ "assistant_conversations d"])
next
  case (Some a)
  with assms(1) obtain now where d': "d' = d\<lparr>assistant_conversations := map (\<lambda>r.
      if acw_id r = cid \<and> \<not> acw_deleted r then (f a r)\<lparr>acw_updated_at_ms := now\<rparr> else r) (assistant_conversations d)\<rparr>"
    by (auto simp: patch_column_def bindr_eq_Inr map_err_eq_Inr update_assistant_conversations_Inr)
  then have "gone_of d' c \<longleftrightarrow> gone_of d c" for c
    using assms(2) by (auto simp: gone_of_def)
  with d' show ?thesis by auto
qed

lemma patch_frame:
  assumes "v4_patch_conversation d cid p ms = Inr (c, d')"
  shows "(\<exists>rs. d' = d\<lparr>assistant_conversations := rs\<rparr>) \<and> gone_of d' = gone_of d"
proof -
  from assms obtain d1 d2 where
    "patch_column (vcp_title p) (\<lambda>t r. r\<lparr>acw_title := t\<rparr>) cid ms d = Inr d1"
    "patch_column (vcp_archived p) (\<lambda>a r. r\<lparr>acw_archived := a\<rparr>) cid ms d1 = Inr d2"
    "patch_column (vcp_pinned p) (\<lambda>a r. r\<lparr>acw_pinned := a\<rparr>) cid ms d2 = Inr d'"
    by (auto simp: v4_patch_conversation_def bindr_eq_Inr)
  from this [THEN patch_column_Inr] show ?thesis by auto
qed

lemma insert_conversation_frame:
  assumes "insert_conversation E d cid title imported ms require = Inr (c, d')"
  obtains row cs where "d' = d\<lparr>conversations := cs, assistant_conversations := assistant_conversations d @ [row]\<rparr>"
    "cid \<notin> acw_id ` set (assistant_conversations d)" "acw_id row = cid"
proof -
  from assms obtain at d1 where d1: "(if require
      then if cid \<in> cw_id ` set (conversations d) then Inr d else Inl (ConversationNotFound cid)
      else create_conversation at d cid) = Inr d1"
    and "\<exists>seq now. insert_assistant_conversation
      \<lparr>acw_id = cid, acw_sequence = seq, acw_title = title, acw_archived = False,
       acw_pinned = False, acw_imported_history = imported, acw_deleted = False,
       acw_created_at_ms = now, acw_updated_at_ms = now\<rparr> d1 = Inr d'"
    unfolding insert_conversation_def bindr_eq_Inr map_err_eq_Inr by (fastforce split: if_splits simp: bindr_eq_Inr map_err_eq_Inr)
  then obtain row where ins: "insert_assistant_conversation row d1 = Inr d'" "acw_id row = cid"
    by (metis assistant_conversation_row.select_convs(1))
  from d1 obtain cs where "d1 = d\<lparr>conversations := cs\<rparr>"
    by (auto simp: create_conversation_def split: if_splits intro: that [of "conversations d"])
  with ins that show thesis by (auto simp: insert_assistant_conversation_Inr)
qed

lemma delete_frame:
  assumes "v4_delete_conversation d cid ms = Inr d'"
  shows "active_runs d cid = 0" and "runs d' = runs d" "run_events d' = run_events d"
    and "turn_keys d' = turn_keys d"
    and "assistant_content_events d' = filter (\<lambda>e. kw_conversation_id e \<noteq> cid) (assistant_content_events d)"
    and "gone_of d c \<Longrightarrow> gone_of d' c" and "gone_of d' cid"
proof -
  from assms obtain now where touch: "touch_conversation d cid = Inr ()" and "active_runs d cid = 0"
    and upd: "update_assistant_conversations (\<lambda>r. acw_id r = cid)
        (\<lambda>r. r\<lparr>acw_deleted := True, acw_updated_at_ms := now\<rparr>)
        (delete_messages cid (delete_content_events cid d)) = Inr d'"
    by (auto simp: v4_delete_conversation_def bindr_eq_Inr map_err_eq_Inr split: if_splits)
  then show "active_runs d cid = 0" by simp
  let ?d1 = "delete_messages cid (delete_content_events cid d)"
  have d': "d' = ?d1\<lparr>assistant_conversations := map (\<lambda>r. if acw_id r = cid
      then r\<lparr>acw_deleted := True, acw_updated_at_ms := now\<rparr> else r) (assistant_conversations d)\<rparr>"
    using upd by (simp add: update_assistant_conversations_Inr delete_messages_def delete_content_events_def Let_def)
  then show "runs d' = runs d" "run_events d' = run_events d"
    "assistant_content_events d' = filter (\<lambda>e. kw_conversation_id e \<noteq> cid) (assistant_content_events d)"
    by (simp_all add: delete_messages_def delete_content_events_def Let_def)
  show "turn_keys d' = turn_keys d"
    using d' by (simp add: delete_messages_def delete_content_events_def turn_keys_def Let_def comp_def)
  let ?f = "\<lambda>r. if acw_id r = cid then r\<lparr>acw_deleted := True, acw_updated_at_ms := now\<rparr> else r"
  have rows: "?f r \<in> set (assistant_conversations d')" if "r \<in> set (assistant_conversations d)" for r
    unfolding d' using that by simp
  show "gone_of d' c" if gone: "gone_of d c"
  proof -
    from gone obtain r where "r \<in> set (assistant_conversations d)" "acw_id r = c" "acw_deleted r"
      by (auto simp: gone_of_def)
    with rows [of r] show ?thesis unfolding gone_of_def by (intro bexI [of _ "?f r"]) auto
  qed
  from touch obtain r where "r \<in> set (assistant_conversations d)" "acw_id r = cid"
    by (rule touch_conversation_Inr) blast
  with rows [of r] show "gone_of d' cid" unfolding gone_of_def by (intro bexI [of _ "?f r"]) auto
qed

lemma delete_turn_inv:
  assumes inv: "turn_inv E d" and ok: "v4_delete_conversation d cid ms = Inr d'"
  shows "turn_inv E d'"
proof -
  note del = delete_frame [OF ok]
  have ok1: "turns_ok (status_of E d) (conversation_of E d) (turn_keys d) (assistant_content_events d) (gone_of d)"
    using inv by (simp add: turn_inv_def)
  have "turns_ok (status_of E d) (conversation_of E d) (turn_keys d)
      (filter (\<lambda>e. kw_conversation_id e \<noteq> cid) (assistant_content_events d)) (gone_of d')"
    using ok1 by (rule turns_ok_delete) (use active_runs_idle [OF inv del(1)] del(6,7) in blast)+
  with inv del(4,5) run_views_same [OF del(2,3), of E] show ?thesis by (simp add: turn_inv_def)
qed

section \<open>The steps of the store with turns\<close>

text \<open>
  The identifiers of an admission are values of their Rust types. The callers of
  \<open>v4_append_content\<close> (the content sink and the prompt builder of the provider) pass text and
  notices, never a terminal payload. \<open>payload_reads\<close> is what the store relies on when it keeps
  a payload as text: the token counts are 32-bit, a delta is a Rust string, serde\_json reads
  back the value it wrote, and the text is within the bounds of the column.
\<close>

definition payload_reads :: "externals \<Rightarrow> v4_content_payload \<Rightarrow> bool" where
  "payload_reads E p \<longleftrightarrow>
     (let t = json_to_string E (content_payload_json p) in
      payload_typed p \<and> (case p of TextDelta text \<Rightarrow> starts_char text | _ \<Rightarrow> True)
      \<and> json_from_str E t = Some (content_payload_json p)
      \<and> 2 \<le> sql_length t \<and> sql_length t \<le> 131072)"

inductive v4_step :: "externals \<Rightarrow> db \<Rightarrow> db \<Rightarrow> bool" for E where
  run: "store_step E d d' \<Longrightarrow> v4_step E d d'"
| create: "v4_create_conversation E fresh d title ms = Inr (c, d') \<Longrightarrow> v4_step E d d'"
| legacy_shell: "v4_note_legacy_shell E d cid title ms = Inr (c, d') \<Longrightarrow> v4_step E d d'"
| patch: "v4_patch_conversation d cid p ms = Inr (c, d') \<Longrightarrow> v4_step E d d'"
| delete: "v4_delete_conversation d cid ms = Inr d' \<Longrightarrow> v4_step E d d'"
| admit: "v4_admit_turn E fresh msg d submit ms = Inr (s, d') \<Longrightarrow>
     submit_turn_typed E submit \<Longrightarrow> canonical E fresh \<Longrightarrow> v4_step E d d'"
| content: "v4_append_content E msg d rid payload ms = Inr (e, d') \<Longrightarrow>
     \<not> is_terminal_payload payload \<Longrightarrow> payload_reads E payload \<Longrightarrow> v4_step E d d'"
| unadopted: "v4_fail_unadopted_turn E now ms d rid = (r, d') \<Longrightarrow>
     payload_parses E unadopted_event \<Longrightarrow> v4_step E d d'"
| finalize: "v4_finalize_turn E d rid s = Inr d' \<Longrightarrow> v4_step E d d'"

lemma unadopted_cases:
  assumes "v4_fail_unadopted_turn E now ms d rid = (r, d')"
  shows "d' = d \<or> (\<exists>ev. transition_run E now ms d rid Queued Failed unadopted_event = Inr (ev, d'))"
  using assms by (auto simp: v4_fail_unadopted_turn_def split: sum.splits prod.splits store_error.splits)

lemma finalize_frame:
  assumes "v4_finalize_turn E d rid s = Inr d'"
  shows "\<exists>ms. d' = d\<lparr>assistant_messages := ms\<rparr>"
  using assms by (auto simp: v4_finalize_turn_def bindr_eq_Inr split: if_splits)

lemma same_runs_step:
  "runs d' = runs d \<Longrightarrow> run_events d' = run_events d \<Longrightarrow> \<forall>rid. run_step E d d' rid"
  using run_tables_same_step by blast

lemma created_run_step:
  assumes "db_wf E d" "created E fresh at d run d0" "runs d' = runs d0" "run_events d' = run_events d0"
  shows "run_step E d d' rid"
proof (cases "rid = fresh")
  case True
  then show ?thesis using assms(2) by (simp add: run_step_def created_def run_by_id_None)
next
  case False
  then have "run_by_id E d0 rid = run_by_id E d rid" "events_of d0 rid = events_of d rid"
    using created_run_by_id [OF assms(2)] created_events [OF assms(1,2)] by simp_all
  with assms(3,4) show ?thesis by (simp add: run_step_def run_by_id_def events_of_def)
qed

lemma v4_step_effect:
  assumes "v4_step E d d'" and inv: "turn_inv E d"
  shows "turn_inv E d' \<and> (\<forall>rid. run_step E d d' rid)"
proof -
  have wf: "db_wf E d" and ledger: "ledger_inv E d"
    using inv by (simp_all add: turn_inv_def ledger_inv_def)
  from assms(1) show ?thesis
  proof cases
    case run
    then show ?thesis using store_step_turn_inv [OF run inv] store_step_effect [OF run ledger] by blast
  next
    case (create fresh title ms c)
    then obtain row cs where "d' = d\<lparr>conversations := cs, assistant_conversations := assistant_conversations d @ [row]\<rparr>"
      unfolding v4_create_conversation_def by (rule insert_conversation_frame)
    then show ?thesis using turn_inv_frame [OF inv, of d'] same_runs_step [of d' d]
      by (auto simp: turn_keys_def gone_of_def)
  next
    case (legacy_shell cid title ms c)
    then obtain row cs where "d' = d\<lparr>conversations := cs, assistant_conversations := assistant_conversations d @ [row]\<rparr>"
      unfolding v4_note_legacy_shell_def by (rule insert_conversation_frame)
    then show ?thesis using turn_inv_frame [OF inv, of d'] same_runs_step [of d' d]
      by (auto simp: turn_keys_def gone_of_def)
  next
    case (patch cid p ms c)
    from patch_frame [OF this] obtain rs where "d' = d\<lparr>assistant_conversations := rs\<rparr>" "gone_of d' = gone_of d"
      by blast
    then show ?thesis using turn_inv_frame [OF inv, of d'] same_runs_step [of d' d]
      by (auto simp: turn_keys_def)
  next
    case (delete cid ms)
    then show ?thesis
      using delete_turn_inv [OF inv delete] same_runs_step delete_frame(2,3) [OF delete] by blast
  next
    case (admit fresh msg submit ms s)
    have "\<forall>rid. run_step E d d' rid"
      using admit(1)
    proof (cases rule: v4_admit_turn_Inr)
      case duplicate
      then show ?thesis by (simp add: run_step_def)
    next
      case (new c)
      from admitted_created [OF new(5) admit(2,3)] obtain at d0 where
        "created E fresh at d (turn_run E submit) d0" "runs d' = runs d0" "run_events d' = run_events d0" .
      then show ?thesis using created_run_step [OF wf] by blast
    qed
    then show ?thesis using admit_turn_inv [OF inv admit] by blast
  next
    case (content msg rid payload ms e)
    then show ?thesis using append_turn_inv [OF inv content(1,2)] same_runs_step by blast
  next
    case (unadopted now ms rid r)
    from unadopted_cases [OF unadopted(1)]
    consider "d' = d" | ev where "transition_run E now ms d rid Queued Failed unadopted_event = Inr (ev, d')" by blast
    then show ?thesis
    proof cases
      case 2
      then have "store_step E d d'" using unadopted(2) by (rule store_step.transition)
      then show ?thesis using store_step_turn_inv inv store_step_effect ledger by blast
    qed (use inv in \<open>simp add: run_step_def\<close>)
  next
    case (finalize rid s)
    from finalize_frame [OF this] obtain ms where "d' = d\<lparr>assistant_messages := ms\<rparr>" ..
    then show ?thesis using turn_inv_frame [OF inv, of d'] same_runs_step [of d' d]
      by (auto simp: turn_keys_def gone_of_def)
  qed
qed

text \<open>The contract of the run ledger, across every operation on runs, conversations and turns.\<close>

interpretation turns: run_ledger "turn_inv E" "v4_step E" "status_of E" events_of
  for E
proof
  fix s t i a
  assume inv: "turn_inv E s" and step: "v4_step E s t"
  have rs: "turn_inv E t" "run_step E s t i" using v4_step_effect [OF step inv] by blast+
  have ledger: "ledger_inv E s" using inv by (simp add: turn_inv_def)
  show "turn_inv E t" by (rule rs)
  show "prefix (events_of s i) (events_of t i)" using run_step_ledger(2) [OF ledger rs(2)] .
  show "\<exists>b. status_of E t i = Some b \<and> (b = a \<or> can_step a b)" if "status_of E s i = Some a"
    using run_step_ledger(1) [OF ledger rs(2) that] .
  show "events_of t i = events_of s i" if "status_of E s i = Some a" "\<And>b. \<not> can_step a b"
    using run_step_ledger(3) [OF ledger rs(2) that(1)] nonterminal_steps that(2) by blast
qed

end
