(* ===== verification/V4_Transcript.thy ===== *)
theory V4_Transcript
  imports V4_Steps
begin

text \<open>
  What the tables hold of a turn's output: the stored events of a run, decoded, are its
  transcript, and the assistant message keeps a preview of its text. Every operation of the
  store leaves them, adds events of live turns one by one, a delta together with its preview,
  or drops a conversation without a live turn.
\<close>

section \<open>Changes of the content tables\<close>

type_synonym preview = "conversation_id \<times> string \<times> int"

definition message_previews :: "message_row list \<Rightarrow> run_id \<Rightarrow> preview list" where
  "message_previews ms rid = map (\<lambda>m. (mw_conversation_id m, mw_body m, mw_text_bytes m))
     (filter (\<lambda>m. mw_run_id m = rid \<and> mw_role m = ''assistant'') ms)"

definition previews :: "db \<Rightarrow> run_id \<Rightarrow> preview list" where
  "previews d = message_previews (assistant_messages d)"

definition shown :: "preview list \<Rightarrow> (string \<times> int) option" where
  "shown ps = (case ps of [] \<Rightarrow> None | (_, body, bytes) # _ \<Rightarrow> Some (body, bytes))"

definition extended :: "conversation_id \<Rightarrow> string \<Rightarrow> int \<Rightarrow> preview list \<Rightarrow> preview list" where
  "extended c body bytes ps =
     (if ps = [] then [(c, body, bytes)] else map (\<lambda>(c', _, _). (c', body, bytes)) ps)"

definition payload_row :: "externals \<Rightarrow> v4_content_event \<Rightarrow> content_payload_row" where
  "payload_row E ev =
     \<lparr>pw_conversation_id = ce_conversation_id ev, pw_sequence = int (ce_sequence ev),
      pw_payload_json = json_to_string E (content_payload_json (ce_payload ev))\<rparr>"

definition content_added :: "externals \<Rightarrow> v4_content_event \<Rightarrow> db \<Rightarrow> db \<Rightarrow> bool" where
  "content_added E ev d d' \<longleftrightarrow>
     v4_content_event_validate ev = Inr () \<and> payload_reads E (ce_payload ev)
   \<and> (\<forall>e\<in>set (assistant_content_events d).
        (kw_conversation_id e = ce_conversation_id ev \<longrightarrow> kw_sequence e < int (ce_sequence ev))
      \<and> (kw_run_id e = ce_run_id ev \<longrightarrow> kw_conversation_id e = ce_conversation_id ev))
   \<and> assistant_content_events d' = assistant_content_events d
       @ [content_entry E (ce_conversation_id ev) (ce_run_id ev) (ce_payload ev)
            (int (ce_sequence ev)) (ce_timestamp_ms ev)]
   \<and> assistant_content_payloads d'
       = assistant_content_payloads (insert_content_payload_row (payload_row E ev) d)"

fun is_delta :: "v4_content_payload \<Rightarrow> bool" where
  "is_delta (TextDelta _) = True"
| "is_delta _ = False"

inductive content_change :: "externals \<Rightarrow> db \<Rightarrow> db \<Rightarrow> bool" for E where
  quiet: "assistant_content_events d' = assistant_content_events d \<Longrightarrow>
     assistant_content_payloads d' = assistant_content_payloads d \<Longrightarrow> previews d' = previews d \<Longrightarrow>
     content_change E d d'"
| entry: "content_added E ev d d' \<Longrightarrow> live (status_of E d) (ce_run_id ev) \<Longrightarrow> \<not> is_delta (ce_payload ev) \<Longrightarrow> previews d' = previews d \<Longrightarrow>
     content_change E d d'"
| delta: "content_added E ev d d' \<Longrightarrow> live (status_of E d) (ce_run_id ev) \<Longrightarrow> ce_payload ev = TextDelta text \<Longrightarrow>
     extend_preview (shown (previews d (ce_run_id ev))) text = Inr body \<Longrightarrow>
     previews d' = (previews d)(ce_run_id ev := extended (ce_conversation_id ev) body
       ((case shown (previews d (ce_run_id ev)) of None \<Rightarrow> 0 | Some (_, n) \<Rightarrow> n) + int (length text))
       (previews d (ce_run_id ev))) \<Longrightarrow>
     content_change E d d'"

definition content_dropped :: "conversation_id \<Rightarrow> db \<Rightarrow> db \<Rightarrow> bool" where
  "content_dropped c d d' \<longleftrightarrow>
     assistant_content_events d' = filter (\<lambda>e. kw_conversation_id e \<noteq> c) (assistant_content_events d)
   \<and> assistant_content_payloads d' = filter (\<lambda>p. pw_conversation_id p \<noteq> c) (assistant_content_payloads d)
   \<and> previews d' = (\<lambda>rid. filter (\<lambda>(c', _, _). c' \<noteq> c) (previews d rid))"

text \<open>Changes that leave every ended run ended.\<close>

definition ended_kept :: "externals \<Rightarrow> db \<Rightarrow> db \<Rightarrow> bool" where
  "ended_kept E d d' \<longleftrightarrow>
     (\<forall>rid s. status_of E d rid = Some s \<and> is_terminal s \<longrightarrow> status_of E d' rid = Some s)"

abbreviation content_step :: "externals \<Rightarrow> db \<Rightarrow> db \<Rightarrow> bool" where
  "content_step E d d' \<equiv> content_change E d d' \<and> ended_kept E d d'"

lemma message_previews_simps [simp]:
  "message_previews [] rid = []"
  "message_previews (m # ms) rid =
     (if mw_run_id m = rid \<and> mw_role m = ''assistant''
      then (mw_conversation_id m, mw_body m, mw_text_bytes m) # message_previews ms rid
      else message_previews ms rid)"
  "message_previews (ms @ ms') rid = message_previews ms rid @ message_previews ms' rid"
  by (simp_all add: message_previews_def)

lemma previews_cong: "assistant_messages d' = assistant_messages d \<Longrightarrow> previews d' = previews d"
  by (simp add: previews_def)

text \<open>Writes that touch the state of messages only.\<close>

lemma message_previews_map:
  assumes "\<And>m. mw_run_id (f m) = mw_run_id m \<and> mw_role (f m) = mw_role m \<and> mw_body (f m) = mw_body m
      \<and> mw_conversation_id (f m) = mw_conversation_id m \<and> mw_text_bytes (f m) = mw_text_bytes m"
  shows "message_previews (map f ms) = message_previews ms"
proof
  show "message_previews (map f ms) rid = message_previews ms rid" for rid
    by (induction ms) (use assms in simp_all)
qed

lemma previews_sync [simp]: "previews (sync_messages rid s d) = previews d"
  unfolding previews_def sync_messages_def by (simp add: message_previews_map)

lemma content_added_cong:
  assumes "assistant_content_events d1 = assistant_content_events d"
    and "assistant_content_payloads d1 = assistant_content_payloads d"
  shows "content_added E ev d1 d' = content_added E ev d d'"
  using assms by (simp add: content_added_def insert_content_payload_row_def)

lemma turn_event_conversation:
  assumes "turn_inv E d" "(rid, c) \<in> set (turn_keys d)" "x \<in> set (assistant_content_events d)" "kw_run_id x = rid"
  shows "kw_conversation_id x = c"
  using assms turns_okD(4) turns_ok_key unfolding turn_inv_def by metis

lemma insert_content_added:
  assumes "insert_content_event E d c rid p ms = Inr (e, d')" and "payload_reads E p"
    and one: "\<And>x. x \<in> set (assistant_content_events d) \<Longrightarrow> kw_run_id x = rid \<Longrightarrow> kw_conversation_id x = c"
  shows "content_added E e d d' \<and> ce_payload e = p \<and> ce_run_id e = rid \<and> ce_conversation_id e = c
       \<and> assistant_messages d' = assistant_messages d"
  using assms(1)
proof (rule insert_content_event_Inr)
  fix seq
  assume seq: "int seq = last_content_sequence d c + 1" and val: "v4_content_event_validate e = Inr ()"
    and e: "e = \<lparr>ce_conversation_id = c, ce_run_id = rid, ce_sequence = seq, ce_timestamp_ms = ms, ce_payload = p\<rparr>"
    and d': "d' = insert_content_payload_row
       \<lparr>pw_conversation_id = c, pw_sequence = int seq, pw_payload_json = json_to_string E (content_payload_json p)\<rparr>
       (d\<lparr>assistant_content_events := assistant_content_events d @ [content_entry E c rid p (int seq) ms]\<rparr>)"
  have "kw_sequence x < int seq"
    if "x \<in> set (assistant_content_events d)" "kw_conversation_id x = c" for x
    using last_content_above [OF that] seq by simp
  moreover have "assistant_content_payloads d'
      = assistant_content_payloads (insert_content_payload_row (payload_row E e) d)"
    unfolding d' e payload_row_def insert_content_payload_row_def by simp
  ultimately show ?thesis
    using val assms(2) d' one by (simp add: content_added_def e)
qed

section \<open>Every operation is such a change\<close>

definition terminals_read :: "externals \<Rightarrow> bool" where
  "terminals_read E \<longleftrightarrow>
     list_all (\<lambda>s. payload_reads E (TerminalPayload s)) [Succeeded, Failed, Cancelled, Interrupted]"

lemma terminals_read_at: "terminals_read E \<Longrightarrow> is_terminal s \<Longrightarrow> payload_reads E (TerminalPayload s)"
  by (cases s) (simp_all add: terminals_read_def)

lemma update_and_append_change:
  assumes inv: "turn_inv E d" and json: "terminals_read E"
    and run: "run_by_id E d (rec_id run) = Inr (Some run)" "\<not> is_terminal (rec_status run)"
    and ok: "update_and_append E now ms d run next event = Inr (ev, d')"
  shows "content_change E d d' \<and> ended_kept E d d'"
proof -
  have "logged E now d run next event d'"
    using update_and_append_logged [OF turn_inv_wf [OF inv] run(1) ok] by blast
  from logged_run_by_id [OF this] have kept: "ended_kept E d d'"
    using run by (auto simp: ended_kept_def status_of_def)
  have liv: "live (status_of E d) (rec_id run)" using run by (auto simp: live_def status_of_def)
  from inv run ok obtain d1 where same: "assistant_turns d1 = assistant_turns d" "assistant_messages d1 = assistant_messages d"
      "assistant_content_events d1 = assistant_content_events d"
      "assistant_content_payloads d1 = assistant_content_payloads d"
    and sync: "sync_message_state E ms d1 (rec_id run) next = Inr d'"
    and opened: "\<forall>c. (rec_id run, c) \<in> set (turn_keys d1) \<longrightarrow>
      open_transcript (assistant_content_events d1) (rec_id run) c"
    by (rule update_and_append_sync) blast
  have pv: "previews d1 = previews d" using same(2) by (rule previews_cong)
  have one: "kw_conversation_id x = c" if "(rec_id run, c) \<in> set (turn_keys d1)"
    "x \<in> set (assistant_content_events (sync_messages (rec_id run) next d1))" "kw_run_id x = rec_id run" for x c
    using turn_event_conversation [OF inv] that same by (simp add: turn_keys_def)
  from sync opened have "content_change E d d'"
  proof (cases rule: sync_message_state_live)
    case (closed c e)
    from insert_content_added [OF closed(3) terminals_read_at [OF json closed(2)] one [OF closed(1)]]
    have "content_added E e d d'" "live (status_of E d) (ce_run_id e)" "\<not> is_delta (ce_payload e)"
      "previews d' = previews d"
      using same pv liv previews_cong [of d' "sync_messages (rec_id run) next d1"]
        content_added_cong [of "sync_messages (rec_id run) next d1" d] by simp_all
    then show ?thesis by (rule content_change.entry)
  qed (use same pv in \<open>simp_all add: content_change.quiet\<close>)
  with kept show ?thesis by blast
qed

lemma transition_change:
  assumes inv: "turn_inv E d" and json: "terminals_read E"
    and ok: "transition_run E now ms d rid expected next event = Inr (ev, d')"
  shows "content_step E d d'"
proof -
  from ok obtain run where run: "run_by_id E d rid = Inr (Some run)" "\<not> is_terminal (rec_status run)"
    and upd: "update_and_append E now ms d run next event = Inr (ev, d')"
    by (auto simp: transition_run_def rust_simps split: if_splits)
  have "run_by_id E d (rec_id run) = Inr (Some run)" using run(1) run_by_id_rec_id by blast
  with run(2) upd show ?thesis using update_and_append_change [OF inv json] by blast
qed

lemma recover_loop_change:
  assumes json: "terminals_read E"
  shows "recoverable E ids d \<Longrightarrow> recover_loop E now ms ids d = Inr d' \<Longrightarrow> (content_step E)\<^sup>*\<^sup>* d d'"
proof (induction ids arbitrary: d)
  case (Cons i ids)
  from Cons.prems(1) have inv: "turn_inv E d" by (simp add: recoverable_def)
  from Cons.prems show ?case
    by (rule recover_loop_step)
      (use update_and_append_change [OF inv json] Cons.IH in \<open>blast intro: converse_rtranclp_into_rtranclp\<close>)
qed simp

lemma run_step_ended:
  assumes "ledger_inv E d" and "\<forall>rid. run_step E d d' rid"
  shows "ended_kept E d d'"
proof -
  have "status_of E d' rid = Some s" if "status_of E d rid = Some s" "is_terminal s" for rid s
    using run_step_ledger(1) [OF assms(1) _ that(1)] assms(2) that(2) terminal_no_step by blast
  then show ?thesis by (simp add: ended_kept_def)
qed

lemma store_step_change:
  assumes "store_step E d d'" and inv: "turn_inv E d" and json: "terminals_read E"
  shows "(content_step E)\<^sup>*\<^sup>* d d'"
proof -
  have kept: "ended_kept E d d'"
    using inv store_step_effect [OF assms(1)] run_step_ended by (auto simp: turn_inv_def)
  from assms(1) show ?thesis
  proof cases
    case (submit fresh now run r)
    from create_or_get_run_Inr [OF turn_inv_wf [OF inv] submit] have "content_change E d d'"
      by (auto simp: created_def previews_def intro!: content_change.quiet)
    with kept show ?thesis by blast
  next
    case (transition now ms rid expected "next" ev e)
    then show ?thesis using transition_change [OF inv json] by blast
  next
    case (append now rid event ev)
    then have "content_change E d d'"
      using append_run_event_frame by (auto intro!: content_change.quiet previews_cong)
    with kept show ?thesis by blast
  next
    case (recover now ms n)
    then have "recover_loop E now ms (recovery_ids d) d = Inr d'"
      by (auto simp: recover_interrupted_on_def Let_def rust_simps)
    with recovery_ids_recoverable [OF inv] show ?thesis by (rule recover_loop_change [OF json])
  next
    case (conversation now cid)
    then have "content_change E d d'"
      by (auto simp: create_conversation_def previews_def intro!: content_change.quiet split: if_splits)
    with kept show ?thesis by blast
  next
    case (backend now cid b bc c)
    then have "content_change E d d'"
      by (auto simp: set_conversation_backend_def Let_def previews_def intro!: content_change.quiet split: if_splits)
    with kept show ?thesis by blast
  qed
qed

text \<open>A delta extends the preview of its run and no other.\<close>

lemma message_previews_shown:
  "map_option (\<lambda>m. (mw_body m, mw_text_bytes m)) (find (\<lambda>m. mw_run_id m = rid \<and> mw_role m = ''assistant'') ms)
     = shown (message_previews ms rid)"
  by (induction ms) (auto simp: shown_def)

lemma shown_None [simp]: "shown ps = None \<longleftrightarrow> ps = []"
  by (auto simp: shown_def split: list.splits)

lemma message_previews_update:
  "message_previews (map (\<lambda>m. if mw_run_id m = rid \<and> mw_role m = ''assistant''
       then m\<lparr>mw_body := body, mw_text_bytes := n, mw_text_complete := False, mw_state := l\<rparr> else m) ms)
     = (message_previews ms)(rid := map (\<lambda>(c, _, _). (c, body, n)) (message_previews ms rid))"
proof
  show "message_previews (map (\<lambda>m. if mw_run_id m = rid \<and> mw_role m = ''assistant''
       then m\<lparr>mw_body := body, mw_text_bytes := n, mw_text_complete := False, mw_state := l\<rparr> else m) ms) r
     = ((message_previews ms)(rid := map (\<lambda>(c, _, _). (c, body, n)) (message_previews ms rid))) r" for r
    by (induction ms) auto
qed

lemma update_assistant_preview_change:
  assumes ok: "update_assistant_preview E msg d rid text ms = Inr d'" and c: "turn_conversation d rid = Inr c"
  obtains body where "extend_preview (shown (previews d rid)) text = Inr body"
    "previews d' = (previews d)(rid := extended c body
       ((case shown (previews d rid) of None \<Rightarrow> 0 | Some (_, n) \<Rightarrow> n) + int (length text)) (previews d rid))"
proof -
  let ?ex = "shown (previews d rid)"
  let ?n = "(case ?ex of None \<Rightarrow> 0 | Some (_, n) \<Rightarrow> n) + int (length text)"
  have ex: "map_option (\<lambda>m. (mw_body m, mw_text_bytes m)) (assistant_message_of d rid) = ?ex"
    by (simp add: assistant_message_of_def previews_def message_previews_shown)
  from ok obtain body where body: "extend_preview ?ex text = Inr body"
    by (auto simp: update_assistant_preview_def ex Let_def bindr_eq_Inr split: if_splits)
  show thesis
  proof (cases "previews d rid = []")
    case True
    with ok body c obtain s i m where "insert_message \<lparr>mw_id = msg, mw_conversation_id = c, mw_run_id = rid,
        mw_role = ''assistant'', mw_sequence = s, mw_body = body, mw_text_bytes = ?n,
        mw_text_complete = False, mw_state = ''running'', mw_created_at_ms = m\<rparr> d = Inr d'"
      by (auto simp: update_assistant_preview_def ex Let_def bindr_eq_Inr map_err_eq_Inr split: if_splits)
    then have "previews d' = (previews d)(rid := extended c body ?n (previews d rid))"
      using True by (auto simp: insert_message_Inr previews_def extended_def fun_eq_iff)
    with body that show thesis by blast
  next
    case False
    with ok body have "update_messages (\<lambda>m. mw_run_id m = rid \<and> mw_role m = ''assistant'')
        (\<lambda>m. m\<lparr>mw_body := body, mw_text_bytes := ?n, mw_text_complete := False, mw_state := ''running''\<rparr>) d = Inr d'"
      by (auto simp: update_assistant_preview_def ex Let_def bindr_eq_Inr map_err_eq_Inr split: if_splits)
    then have "previews d' = (previews d)(rid := extended c body ?n (previews d rid))"
      using False by (simp add: update_messages_Inr previews_def message_previews_update extended_def)
    with body that show thesis by blast
  qed
qed

lemma append_content_change:
  assumes inv: "turn_inv E d" and ok: "v4_append_content E msg d rid p ms = Inr (e, d')"
    and json: "payload_reads E p"
  shows "content_change E d d'"
proof -
  from ok have liv: "live (status_of E d) rid"
    by (rule v4_append_content_Inr) (auto simp: live_def status_of_def)
  from ok obtain c d1 where c: "turn_conversation d rid = Inr c" and key: "(rid, c) \<in> set (turn_keys d)"
    and ins: "insert_content_event E d c rid p ms = Inr (e, d1)"
    and out: "case p of TextDelta t \<Rightarrow> update_assistant_preview E msg d1 rid t ms = Inr d' | _ \<Rightarrow> d' = d1"
    by (rule v4_append_content_Inr) blast
  have add: "content_added E e d d1" and e: "ce_payload e = p" "ce_run_id e = rid" "ce_conversation_id e = c"
    and pv: "previews d1 = previews d"
    using insert_content_added [OF ins json turn_event_conversation [OF inv key]] previews_cong by blast+
  show ?thesis
  proof (cases "is_delta p")
    case False
    with out have "d' = d1" by (cases p) simp_all
    with add e pv liv False show ?thesis by (auto intro: content_change.entry)
  next
    case True
    then obtain t where t: "p = TextDelta t" by (cases p) auto
    with out have upd: "update_assistant_preview E msg d1 rid t ms = Inr d'" by simp
    from ins have "turn_conversation d1 rid = turn_conversation d rid"
      by (rule insert_content_event_Inr) (simp add: turn_conversation_def turn_of_def)
    with c have "turn_conversation d1 rid = Inr c" by simp
    with upd obtain body where body: "extend_preview (shown (previews d rid)) t = Inr body"
      "previews d' = (previews d)(rid := extended c body
         ((case shown (previews d rid) of None \<Rightarrow> 0 | Some (_, n) \<Rightarrow> n) + int (length t)) (previews d rid))"
      unfolding pv [symmetric] by (rule update_assistant_preview_change)
    obtain m where "d' = d1\<lparr>assistant_messages := m\<rparr>" using update_assistant_preview_frame [OF upd] by blast
    with add have "content_added E e d d'" by (simp add: content_added_def)
    then show ?thesis using body e t liv by (auto intro: content_change.delta)
  qed
qed

lemma delete_change:
  assumes "v4_delete_conversation d c ms = Inr d'"
  shows "content_dropped c d d'"
proof -
  have drop: "message_previews (filter (\<lambda>m. mw_conversation_id m \<noteq> c) xs) r
      = filter (\<lambda>(c', _, _). c' \<noteq> c) (message_previews xs r)" for xs r
    by (induction xs) auto
  from assms obtain now where "update_assistant_conversations (\<lambda>r. acw_id r = c)
        (\<lambda>r. r\<lparr>acw_deleted := True, acw_updated_at_ms := now\<rparr>)
        (delete_messages c (delete_content_events c d)) = Inr d'"
    by (auto simp: v4_delete_conversation_def bindr_eq_Inr map_err_eq_Inr split: if_splits)
  then show ?thesis
    by (auto simp: content_dropped_def update_assistant_conversations_Inr delete_messages_def delete_content_events_def Let_def
        previews_def drop)
qed

lemma finalize_change:
  assumes "v4_finalize_turn E d rid s = Inr d'"
  shows "content_change E d d'"
  using assms
  by (intro content_change.quiet)
    (auto simp: v4_finalize_turn_def bindr_eq_Inr previews_def message_previews_map split: if_splits)

lemma admit_change:
  assumes "v4_admit_turn E fresh msg d submit ms = Inr (s, d')"
  shows "content_change E d d'"
  using assms
proof (cases rule: v4_admit_turn_Inr)
  case duplicate
  then show ?thesis by (simp add: content_change.quiet)
next
  case (new c)
  then show ?thesis
    by (intro content_change.quiet) (auto simp: admitted_def previews_def fun_eq_iff)
qed

lemma v4_step_change:
  assumes "v4_step E d d'" and inv: "turn_inv E d" and json: "terminals_read E"
  shows "(content_step E)\<^sup>*\<^sup>* d d' \<or> (\<exists>c. content_dropped c d d' \<and> active_runs d c = 0)"
proof -
  have "ended_kept E d d'"
    using inv v4_step_effect [OF assms(1)] run_step_ended by (auto simp: turn_inv_def)
  then have one: ?thesis if "content_change E d d'" using that by blast
  from assms(1) show ?thesis
  proof cases
    case run
    then show ?thesis using store_step_change inv json by blast
  next
    case (create fresh title ms c)
    then show ?thesis unfolding v4_create_conversation_def
      by (rule insert_conversation_frame) (intro one content_change.quiet, simp_all add: previews_def)
  next
    case (legacy_shell cid title ms c)
    then show ?thesis unfolding v4_note_legacy_shell_def
      by (rule insert_conversation_frame) (intro one content_change.quiet, simp_all add: previews_def)
  next
    case (patch cid p ms c)
    from patch_frame [OF this] obtain rs where "d' = d\<lparr>assistant_conversations := rs\<rparr>" by blast
    then show ?thesis by (intro one content_change.quiet) (simp_all add: previews_def)
  next
    case (unadopted now ms rid r)
    from unadopted_cases [OF unadopted(1)] show ?thesis using transition_change [OF inv json] by blast
  next
    case (delete cid ms)
    then show ?thesis using delete_change delete_frame(1) by blast
  next
    case (admit fresh msg submit ms s)
    from one [OF admit_change [OF admit(1)]] show ?thesis .
  next
    case (content msg rid payload ms e)
    from one [OF append_content_change [OF inv content(1,3)]] show ?thesis .
  next
    case (finalize rid s)
    from one [OF finalize_change [OF finalize]] show ?thesis .
  qed
qed

section \<open>The transcript of a run\<close>

definition stored_event :: "externals \<Rightarrow> db \<Rightarrow> content_event_row \<Rightarrow> v4_content_event option" where
  "stored_event E d e =
     (case content_row E d e of
        Inl _ \<Rightarrow> None
      | Inr (seq, at, p) \<Rightarrow>
          let ev = \<lparr>ce_conversation_id = kw_conversation_id e, ce_run_id = kw_run_id e, ce_sequence = seq,
                    ce_timestamp_ms = at, ce_payload = p\<rparr> in
          if v4_content_event_validate ev = Inr () then Some ev else None)"

definition transcript :: "externals \<Rightarrow> db \<Rightarrow> run_id \<Rightarrow> v4_content_event list" where
  "transcript E d rid =
     List.map_filter (stored_event E d) (content_of (assistant_content_events d) rid)"

text \<open>Every stored event decodes to the event that was written, and no payload is an orphan.\<close>

definition decodes :: "externals \<Rightarrow> db \<Rightarrow> content_event_row \<Rightarrow> bool" where
  "decodes E d e \<longleftrightarrow> (\<exists>ev. stored_event E d e = Some ev \<and> int (ce_sequence ev) = kw_sequence e
      \<and> kind_of (ce_payload ev) = kw_kind e)"

definition payload_inv :: "externals \<Rightarrow> db \<Rightarrow> bool" where
  "payload_inv E d \<longleftrightarrow> (\<forall>e\<in>set (assistant_content_events d). decodes E d e)
     \<and> (\<forall>p\<in>set (assistant_content_payloads d). \<exists>e\<in>set (assistant_content_events d).
          kw_conversation_id e = pw_conversation_id p \<and> kw_sequence e = pw_sequence p)"

lemma map_filter_cong: "(\<And>x. x \<in> set xs \<Longrightarrow> f x = g x) \<Longrightarrow> List.map_filter f xs = List.map_filter g xs"
  by (induction xs) (auto split: option.splits)

lemma stored_event_ids:
  "stored_event E d e = Some ev \<Longrightarrow> ce_conversation_id ev = kw_conversation_id e \<and> ce_run_id ev = kw_run_id e
     \<and> v4_content_event_validate ev = Inr ()"
  by (auto simp: stored_event_def Let_def split: sum.splits if_splits)

lemma stored_event_payloads:
  "stored_event E d e = Some ev \<Longrightarrow>
     \<exists>p\<in>set (assistant_content_payloads d). pw_conversation_id p = kw_conversation_id e \<and> pw_sequence p = kw_sequence e"
  by (auto simp: stored_event_def content_row_def Let_def bindr_eq_Inr ok_or_eq_Inr
      split: sum.splits dest!: find_Some_in)

lemma stored_event_find_cong:
  assumes "find (\<lambda>p. pw_conversation_id p = kw_conversation_id e \<and> pw_sequence p = kw_sequence e) (assistant_content_payloads d')
      = find (\<lambda>p. pw_conversation_id p = kw_conversation_id e \<and> pw_sequence p = kw_sequence e) (assistant_content_payloads d)"
  shows "stored_event E d' e = stored_event E d e"
  unfolding stored_event_def content_row_def assms ..

lemma stored_event_cong:
  "assistant_content_payloads d' = assistant_content_payloads d \<Longrightarrow> stored_event E d' = stored_event E d"
proof
  show "stored_event E d' e = stored_event E d e" if "assistant_content_payloads d' = assistant_content_payloads d" for e
    using that by (intro stored_event_find_cong) simp
qed

lemma u64_or_zero_int [simp]: "n \<le> MAX_SAFE_INTEGER \<Longrightarrow> u64_or_zero (int n) = n"
  by (simp add: u64_or_zero_def u64_try_from_def MAX_SAFE_INTEGER_def u64_bound_def)

lemma content_event_bounds:
  "v4_content_event_validate ev = Inr () \<longleftrightarrow> ce_timestamp_ms ev \<le> MAX_SAFE_INTEGER \<and> 0 < ce_sequence ev
     \<and> ce_sequence ev \<le> MAX_V4_CONTENT_EVENTS \<and> v4_content_payload_validate (ce_payload ev) = Inr ()"
  by (auto simp: v4_content_event_validate_def v4_ensure_def bindr_eq_Inr ensure_eq_Inr)

lemma content_row_written:
  assumes "v4_content_event_validate ev = Inr ()" and "payload_reads E (ce_payload ev)"
    and "find (\<lambda>p. pw_conversation_id p = ce_conversation_id ev \<and> pw_sequence p = int (ce_sequence ev))
           (assistant_content_payloads d) = Some (payload_row E ev)"
  shows "stored_event E d (content_entry E (ce_conversation_id ev) (ce_run_id ev) (ce_payload ev)
           (int (ce_sequence ev)) (ce_timestamp_ms ev)) = Some ev"
proof -
  have small: "ce_sequence ev \<le> MAX_SAFE_INTEGER" "ce_timestamp_ms ev \<le> MAX_SAFE_INTEGER"
    and p: "read_content_payload (content_payload_json (ce_payload ev)) = Inr (ce_payload ev)"
    using assms(1,2) payload_wire.reads_written
    by (auto simp: content_event_bounds MAX_V4_CONTENT_EVENTS_def MAX_SAFE_INTEGER_def payload_reads_def Let_def)
  let ?e = "content_entry E (ce_conversation_id ev) (ce_run_id ev) (ce_payload ev)
           (int (ce_sequence ev)) (ce_timestamp_ms ev)"
  have "kw_timestamp_ms ?e = int (ce_timestamp_ms ev)" by (simp add: content_entry_def)
  then have "content_row E d ?e = Inr (ce_sequence ev, ce_timestamp_ms ev, ce_payload ev)"
    using assms(2,3) small p by (simp add: content_row_def payload_row_def payload_reads_def Let_def)
  with assms(1) show ?thesis by (cases ev) (simp add: stored_event_def)
qed

lemma added_transcript:
  assumes ok: "payload_inv E d" and add: "content_added E ev d d'"
  shows "payload_inv E d'"
    and "transcript E d' rid = transcript E d rid @ (if ce_run_id ev = rid then [ev] else [])"
proof -
  let ?key = "\<lambda>c s. \<lambda>p. pw_conversation_id p = c \<and> pw_sequence p = s"
  let ?e = "content_entry E (ce_conversation_id ev) (ce_run_id ev) (ce_payload ev)
           (int (ce_sequence ev)) (ce_timestamp_ms ev)"
  have new: "\<not> ?key (ce_conversation_id ev) (int (ce_sequence ev)) p"
    if "p \<in> set (assistant_content_payloads d)" for p
    using ok add that unfolding payload_inv_def content_added_def by force
  have events: "assistant_content_events d' = assistant_content_events d @ [?e]"
    and json: "payload_reads E (ce_payload ev)" and val: "v4_content_event_validate ev = Inr ()"
    using add by (simp_all add: content_added_def)
  have "(ce_conversation_id ev, int (ce_sequence ev))
      \<notin> (\<lambda>p. (pw_conversation_id p, pw_sequence p)) ` set (assistant_content_payloads d)"
    using new by force
  with add json have rows: "assistant_content_payloads d' = assistant_content_payloads d @ [payload_row E ev]"
    by (simp add: content_added_def insert_content_payload_row_def payload_row_def payload_reads_def Let_def)
  have "find (?key (ce_conversation_id ev) (int (ce_sequence ev))) (assistant_content_payloads d') = Some (payload_row E ev)"
  proof -
    have "find (?key (ce_conversation_id ev) (int (ce_sequence ev))) (assistant_content_payloads d) = None"
      using new by (simp add: find_None_all)
    then show ?thesis unfolding rows find_append by (simp add: payload_row_def)
  qed
  with val json have last: "stored_event E d' ?e = Some ev" by (rule content_row_written)
  have old: "stored_event E d' e = stored_event E d e" if "e \<in> set (assistant_content_events d)" for e
  proof (rule stored_event_find_cong)
    have "kw_conversation_id e = ce_conversation_id ev \<Longrightarrow> kw_sequence e \<noteq> int (ce_sequence ev)"
      using add that by (force simp: content_added_def)
    then show "find (?key (kw_conversation_id e) (kw_sequence e)) (assistant_content_payloads d')
        = find (?key (kw_conversation_id e) (kw_sequence e)) (assistant_content_payloads d)"
      unfolding rows find_append by (auto simp: payload_row_def split: option.splits)
  qed
  have "decodes E d' e" if "e \<in> set (assistant_content_events d')" for e
    using that old ok last unfolding events by (auto simp: payload_inv_def decodes_def)
  with ok show "payload_inv E d'"
    unfolding payload_inv_def rows events by (auto simp: payload_row_def)
  have "List.map_filter (stored_event E d') (content_of (assistant_content_events d) rid) = transcript E d rid"
    unfolding transcript_def using old by (intro map_filter_cong) auto
  with last show "transcript E d' rid = transcript E d rid @ (if ce_run_id ev = rid then [ev] else [])"
    unfolding transcript_def events by (cases "ce_run_id ev = rid") (auto simp: map_filter_append)
qed

lemma dropped_transcript:
  assumes ok: "payload_inv E d" and drop: "content_dropped c d d'"
  shows "payload_inv E d'"
    and "transcript E d' rid = filter (\<lambda>ev. ce_conversation_id ev \<noteq> c) (transcript E d rid)"
proof -
  have events: "assistant_content_events d' = filter (\<lambda>e. kw_conversation_id e \<noteq> c) (assistant_content_events d)"
    and rows: "assistant_content_payloads d' = filter (\<lambda>p. pw_conversation_id p \<noteq> c) (assistant_content_payloads d)"
    using drop by (simp_all add: content_dropped_def)
  have "find (\<lambda>p. pw_conversation_id p = c' \<and> pw_sequence p = n) (filter (\<lambda>p. pw_conversation_id p \<noteq> c) ps)
      = find (\<lambda>p. pw_conversation_id p = c' \<and> pw_sequence p = n) ps" if "c' \<noteq> c" for c' n ps
    using that by (induction ps) auto
  then have same: "stored_event E d' e = stored_event E d e" if "kw_conversation_id e \<noteq> c" for e
    using that by (intro stored_event_find_cong) (simp add: rows)
  then have "decodes E d' e" if "e \<in> set (assistant_content_events d')" for e
    using that ok by (auto simp: events payload_inv_def decodes_def)
  moreover have "\<exists>e\<in>set (assistant_content_events d'). kw_conversation_id e = pw_conversation_id p \<and> kw_sequence e = pw_sequence p"
    if "p \<in> set (assistant_content_payloads d')" for p
    using that ok unfolding events rows payload_inv_def by fastforce
  ultimately show "payload_inv E d'" by (simp add: payload_inv_def)
  have "List.map_filter (stored_event E d') (filter (\<lambda>e. kw_run_id e = rid) (filter (\<lambda>e. kw_conversation_id e \<noteq> c) xs))
      = filter (\<lambda>ev. ce_conversation_id ev \<noteq> c) (List.map_filter (stored_event E d) (filter (\<lambda>e. kw_run_id e = rid) xs))" for xs
    by (induction xs) (auto simp: same split: option.splits dest: stored_event_ids)
  then show "transcript E d' rid = filter (\<lambda>ev. ce_conversation_id ev \<noteq> c) (transcript E d rid)"
    by (simp add: transcript_def events)
qed

end
