(* ===== verification/V4_Preview.thy ===== *)
theory V4_Preview
  imports V4_Transcript
begin

text \<open>
  The preview of a turn's answer. The store extends it delta by delta and never looks back at
  the transcript; it is shown to be what one pass over the whole text gives: the text itself
  while it fits, and otherwise its longest prefix of at most 16 KiB that ends between two
  characters.
\<close>

section \<open>The reference definition\<close>

definition preview_text :: "string \<Rightarrow> string" where
  "preview_text str =
     (if length str \<le> PREVIEW_BYTES then str else take (floor_boundary str PREVIEW_BYTES) str)"

fun delta_text :: "v4_content_payload \<Rightarrow> string" where
  "delta_text (TextDelta str) = str"
| "delta_text _ = []"

definition events_text :: "v4_content_event list \<Rightarrow> string" where
  "events_text es = concat (map (\<lambda>ev. delta_text (ce_payload ev)) es)"

definition turn_text :: "externals \<Rightarrow> db \<Rightarrow> run_id \<Rightarrow> string" where
  "turn_text E d rid = events_text (transcript E d rid)"

lemma events_text_simps [simp]:
  "events_text [] = []" "events_text (es @ es') = events_text es @ events_text es'"
  "events_text [ev] = delta_text (ce_payload ev)"
  by (simp_all add: events_text_def)

lemma delta_text_not_delta: "\<not> is_delta p \<Longrightarrow> delta_text p = []"
  by (cases p) simp_all

lemma preview_text_length: "length (preview_text str) = length str \<longleftrightarrow> length str \<le> PREVIEW_BYTES"
  using floor_boundary_le [of str PREVIEW_BYTES] by (auto simp: preview_text_def)

lemma preview_text_short: "length (preview_text str) \<le> PREVIEW_BYTES"
  using floor_boundary_le [of str PREVIEW_BYTES] by (auto simp: preview_text_def)

text \<open>Extending the preview by a delta is taking the preview of the longer text.\<close>

lemma preview_text_append:
  assumes delta: "starts_char delta" and fits: "length str \<le> PREVIEW_BYTES"
  shows "preview_text (str @ delta)
       = str @ take (floor_boundary delta (min (length delta) (PREVIEW_BYTES - length str))) delta"
proof (cases "length (str @ delta) \<le> PREVIEW_BYTES")
  case True
  then have "min (length delta) (PREVIEW_BYTES - length str) = length delta" using fits by simp
  moreover have "floor_boundary delta (length delta) = length delta"
    by (rule floor_boundary_id) (simp add: is_char_boundary_def)
  ultimately show ?thesis using True by (simp add: preview_text_def)
next
  case False
  let ?k = "PREVIEW_BYTES - length str"
  have "min (length delta) ?k = ?k" using False fits by simp
  moreover have "floor_boundary (str @ delta) PREVIEW_BYTES = length str + floor_boundary delta ?k"
    using floor_boundary_append [OF delta, of str ?k] fits by simp
  ultimately show ?thesis using False by (simp add: preview_text_def)
qed

lemma preview_text_frozen:
  assumes "PREVIEW_BYTES < length str"
  shows "preview_text (str @ delta) = preview_text str"
  using assms floor_boundary_prefix [OF assms, of delta] floor_boundary_le [of str PREVIEW_BYTES]
  by (simp add: preview_text_def)

lemma extend_preview_correct:
  assumes "starts_char delta"
  shows "extend_preview (if str = [] then None else Some (preview_text str, int (length str))) delta
       = Inr (preview_text (str @ delta))"
proof (cases "length str \<le> PREVIEW_BYTES")
  case True
  then have "preview_text str = str" by (simp add: preview_text_def)
  with True preview_text_append [OF assms True] show ?thesis
    by (auto simp: extend_preview_def Let_def)
next
  case False
  then have "length (preview_text str) \<noteq> length str" by (simp add: preview_text_length)
  moreover have "str \<noteq> []" using False by auto
  ultimately show ?thesis using False preview_text_frozen [of str delta]
    by (simp add: extend_preview_def Let_def)
qed

section \<open>The preview in the store\<close>

definition preview_ok :: "v4_content_event list \<Rightarrow> preview list \<Rightarrow> bool" where
  "preview_ok es ps \<longleftrightarrow>
     (if events_text es = [] then ps = []
      else \<exists>c. ps = [(c, preview_text (events_text es), int (length (events_text es)))]
             \<and> (\<forall>ev\<in>set es. ce_conversation_id ev = c))"

definition preview_inv :: "externals \<Rightarrow> db \<Rightarrow> bool" where
  "preview_inv E d \<longleftrightarrow> payload_inv E d \<and> (\<forall>rid. preview_ok (transcript E d rid) (previews d rid))"

lemma preview_ok_shown:
  "preview_ok es ps \<Longrightarrow> shown ps = (if events_text es = [] then None
     else Some (preview_text (events_text es), int (length (events_text es))))"
  by (auto simp: preview_ok_def shown_def)

lemma preview_ok_entry:
  assumes "preview_ok es ps" "\<not> is_delta (ce_payload ev)"
    and "\<And>x. x \<in> set es \<Longrightarrow> ce_conversation_id x = ce_conversation_id ev"
  shows "preview_ok (es @ [ev]) ps"
proof -
  have "events_text (es @ [ev]) = events_text es" using assms(2) by (simp add: delta_text_not_delta)
  moreover have "es \<noteq> []" if "events_text es \<noteq> []" using that by auto
  ultimately show ?thesis
  proof (cases "events_text es = []")
    case False
    with assms(1) obtain c where c: "ps = [(c, preview_text (events_text es), int (length (events_text es)))]"
      "\<forall>x\<in>set es. ce_conversation_id x = c" by (auto simp: preview_ok_def)
    have "c = ce_conversation_id ev"
      using c(2) assms(3) [of "hd es"] \<open>events_text es \<noteq> [] \<Longrightarrow> es \<noteq> []\<close> [OF False] by simp
    with c False \<open>events_text (es @ [ev]) = events_text es\<close> show ?thesis by (simp add: preview_ok_def)
  qed (use assms(1) in \<open>simp add: preview_ok_def\<close>)
qed

lemma preview_ok_delta:
  assumes ok: "preview_ok es ps" and ev: "ce_payload ev = TextDelta str" "str \<noteq> []" "starts_char str"
    and one: "\<And>x. x \<in> set es \<Longrightarrow> ce_conversation_id x = ce_conversation_id ev"
    and body: "extend_preview (shown ps) str = Inr body"
  shows "preview_ok (es @ [ev]) (extended (ce_conversation_id ev) body
           ((case shown ps of None \<Rightarrow> 0 | Some (_, n) \<Rightarrow> n) + int (length str)) ps)"
proof -
  have "body = preview_text (events_text es @ str)"
    using body extend_preview_correct [OF ev(3), of "events_text es"] preview_ok_shown [OF ok] by simp
  note b = this
  show ?thesis
  proof (cases "events_text es = []")
    case True
    with ok have "ps = []" by (simp add: preview_ok_def)
    with True b ev one show ?thesis by (auto simp: preview_ok_def extended_def shown_def)
  next
    case False
    with ok obtain c where c: "ps = [(c, preview_text (events_text es), int (length (events_text es)))]"
      "\<forall>x\<in>set es. ce_conversation_id x = c" by (auto simp: preview_ok_def)
    have "es \<noteq> []" using False by auto
    then have "c = ce_conversation_id ev" using c(2) one [of "hd es"] by simp
    with c False b ev show ?thesis by (simp add: preview_ok_def extended_def shown_def)
  qed
qed

lemma preview_ok_drop:
  assumes "preview_ok es ps"
  shows "preview_ok (filter (\<lambda>ev. ce_conversation_id ev \<noteq> c) es) (filter (\<lambda>(c', _, _). c' \<noteq> c) ps)"
proof (cases "events_text es = []")
  case True
  then have "events_text (filter (\<lambda>ev. ce_conversation_id ev \<noteq> c) es) = []" by (auto simp: events_text_def)
  with assms True show ?thesis by (simp add: preview_ok_def)
next
  case False
  with assms obtain c' where ps: "ps = [(c', preview_text (events_text es), int (length (events_text es)))]"
    and all: "\<forall>ev\<in>set es. ce_conversation_id ev = c'" by (auto simp: preview_ok_def)
  then have "filter (\<lambda>ev. ce_conversation_id ev \<noteq> c) es = (if c' = c then [] else es)"
    by (auto simp: filter_empty_conv intro: filter_True)
  with ps assms show ?thesis by (auto simp: preview_ok_def)
qed

lemma transcript_conversation:
  assumes "content_added E ev d d'" "x \<in> set (transcript E d (ce_run_id ev))"
  shows "ce_conversation_id x = ce_conversation_id ev"
proof -
  from assms(2) obtain e where "e \<in> set (assistant_content_events d)" "kw_run_id e = ce_run_id ev"
    "stored_event E d e = Some x"
    by (auto simp: transcript_def List.map_filter_def)
  with assms(1) stored_event_ids show ?thesis by (fastforce simp: content_added_def)
qed

lemma added_delta_text:
  assumes "content_added E ev d d'" "ce_payload ev = TextDelta str"
  shows "str \<noteq> []" "starts_char str"
  using assms by (auto simp: content_added_def content_event_bounds v4_ensure_def ensure_eq_Inr
      payload_reads_def Let_def)

lemma content_change_preview:
  assumes "content_change E d d'" and inv: "preview_inv E d"
  shows "preview_inv E d'"
proof -
  have ok: "payload_inv E d" and pv: "preview_ok (transcript E d rid) (previews d rid)" for rid
    using inv by (simp_all add: preview_inv_def)
  from assms(1) show ?thesis
  proof cases
    case quiet
    then have "transcript E d' rid = transcript E d rid" "payload_inv E d' = payload_inv E d" for rid
      using stored_event_cong [of d' d E] by (simp_all add: transcript_def payload_inv_def decodes_def)
    with quiet(3) inv show ?thesis by (simp add: preview_inv_def)
  next
    case (entry ev)
    from added_transcript [OF ok entry(1)] entry pv transcript_conversation [OF entry(1)] show ?thesis
      by (auto simp: preview_inv_def intro!: preview_ok_entry)
  next
    case (delta ev str body)
    note tr = added_transcript [OF ok delta(1)]
    have "preview_ok (transcript E d' rid) (previews d' rid)" for rid
    proof (cases "rid = ce_run_id ev")
      case True
      then show ?thesis unfolding delta(5) tr(2)
        using preview_ok_delta [OF pv delta(3) added_delta_text [OF delta(1,3)]
            transcript_conversation [OF delta(1)] delta(4)] by simp
    next
      case False
      with pv show ?thesis unfolding delta(5) tr(2) by simp
    qed
    with tr(1) show ?thesis by (simp add: preview_inv_def)
  qed
qed

lemma content_dropped_preview:
  assumes "content_dropped c d d'" and "preview_inv E d"
  shows "preview_inv E d'"
  using assms dropped_transcript [of E d c d']
  by (simp add: preview_inv_def content_dropped_def preview_ok_drop)

section \<open>Every reachable store\<close>

definition content_inv :: "externals \<Rightarrow> db \<Rightarrow> bool" where
  "content_inv E d \<longleftrightarrow> turn_inv E d \<and> terminals_read E \<and> preview_inv E d"

lemma empty_content_inv:
  assumes "json_from_str E ''{}'' \<noteq> None" "payload_parses E recovery_event" "terminals_read E"
  shows "content_inv E empty_db"
proof -
  have "turn_inv E empty_db" using assms(1,2) by (rule empty_turn_inv)
  with assms(3) show ?thesis
    by (simp add: content_inv_def preview_inv_def payload_inv_def preview_ok_def transcript_def previews_def
        empty_db_def)
qed

lemma content_steps_preview: "(content_step E)\<^sup>*\<^sup>* d d' \<Longrightarrow> preview_inv E d \<Longrightarrow> preview_inv E d'"
  by (induction rule: rtranclp_induct) (auto intro: content_change_preview)

lemma v4_step_content:
  assumes "v4_step E d d'" and "content_inv E d"
  shows "content_inv E d'"
proof -
  have "preview_inv E d'"
    using v4_step_change [OF assms(1)] assms(2) content_steps_preview content_dropped_preview
    unfolding content_inv_def by blast
  then show ?thesis using assms v4_step_effect by (auto simp: content_inv_def)
qed

lemma v4_steps_content: "(v4_step E)\<^sup>*\<^sup>* d d' \<Longrightarrow> content_inv E d \<Longrightarrow> content_inv E d'"
  by (induction rule: rtranclp_induct) (auto intro: v4_step_content)

text \<open>The subtraction in the extension of the preview never underflows.\<close>

lemma extend_preview_total:
  assumes "preview_inv E d"
  shows "\<exists>body. extend_preview (shown (previews d rid)) delta = Inr body"
proof -
  have "shown (previews d rid) = (if turn_text E d rid = [] then None
      else Some (preview_text (turn_text E d rid), int (length (turn_text E d rid))))"
    using assms preview_ok_shown unfolding preview_inv_def turn_text_def by blast
  then show ?thesis using preview_text_short [of "turn_text E d rid"]
    by (auto simp: extend_preview_def Let_def)
qed

end
