(* ===== verification/V4_Reading.thy ===== *)
theory V4_Reading
  imports V4_Preview
begin

text \<open>
  Reading a transcript page by page. A page is an exact slice of the transcript, cut to the
  size of a response; a reader that follows the cursors while the store moves on sees a prefix
  of the transcript without gaps or repetitions, always gets a further event while there is
  one, and has seen everything when the cursor ends.
\<close>

section \<open>What a transcript looks like\<close>

lemma map_filter_total:
  "(\<And>x. x \<in> set xs \<Longrightarrow> f x \<noteq> None) \<Longrightarrow> List.map_filter f xs = map (\<lambda>x. the (f x)) xs"
  by (induction xs) (auto split: option.splits)

lemma transcript_rows:
  assumes "payload_inv E d"
  shows "transcript E d rid = map (\<lambda>e. the (stored_event E d e)) (content_of (assistant_content_events d) rid)"
proof -
  have "stored_event E d e \<noteq> None" if "e \<in> set (content_of (assistant_content_events d) rid)" for e
    using assms that by (auto simp: payload_inv_def decodes_def)
  then show ?thesis unfolding transcript_def by (rule map_filter_total)
qed

lemma content_inv_payload: "content_inv E d \<Longrightarrow> payload_inv E d"
  by (simp add: content_inv_def preview_inv_def)

lemma content_inv_turns:
  "content_inv E d \<Longrightarrow>
     turns_ok (status_of E d) (conversation_of E d) (turn_keys d) (assistant_content_events d) (gone_of d)"
  by (simp add: content_inv_def turn_inv_def)

lemma stored_row:
  assumes "content_inv E d" "e \<in> set (assistant_content_events d)"
  obtains ev where "stored_event E d e = Some ev" "int (ce_sequence ev) = kw_sequence e"
    "kind_of (ce_payload ev) = kw_kind e" "ce_conversation_id ev = kw_conversation_id e"
    "ce_run_id ev = kw_run_id e" "v4_content_event_validate ev = Inr ()"
  using assms content_inv_payload stored_event_ids unfolding payload_inv_def decodes_def by metis

lemma transcript_member:
  assumes inv: "content_inv E d" and key: "(rid, c) \<in> set (turn_keys d)" and ev: "ev \<in> set (transcript E d rid)"
  shows "ce_conversation_id ev = c \<and> ce_run_id ev = rid \<and> v4_content_event_validate ev = Inr ()"
proof -
  from ev obtain e where e: "e \<in> set (assistant_content_events d)" "kw_run_id e = rid" "stored_event E d e = Some ev"
    by (auto simp: transcript_def List.map_filter_def)
  moreover have "kw_conversation_id e = c"
    using turn_event_conversation [of E, OF _ key e(1,2)] inv by (simp add: content_inv_def)
  ultimately show ?thesis using stored_event_ids by blast
qed

lemma transcript_sequences:
  assumes "content_inv E d"
  shows "map (\<lambda>ev. int (ce_sequence ev)) (transcript E d rid) = map kw_sequence (content_of (assistant_content_events d) rid)"
proof -
  have "int (ce_sequence (the (stored_event E d e))) = kw_sequence e" if "e \<in> set (assistant_content_events d)" for e
    using assms that by (rule stored_row) simp
  then show ?thesis unfolding transcript_rows [OF content_inv_payload [OF assms]] by simp
qed

lemma content_of_sorted:
  assumes inv: "content_inv E d" and key: "(rid, c) \<in> set (turn_keys d)"
  shows "sorted_wrt (<) (map kw_sequence (content_of (assistant_content_events d) rid))"
proof -
  let ?es = "assistant_content_events d"
  have "content_of ?es rid = filter (\<lambda>e. kw_run_id e = rid) (conversation_content ?es c)"
    using turn_event_conversation [of E, OF _ key] inv
    by (auto simp: content_inv_def intro!: filter_cong)
  moreover have "sorted_wrt (\<lambda>a b. kw_sequence a < kw_sequence b) (conversation_content ?es c)"
    using turns_okD(6) [OF content_inv_turns [OF inv]] by (simp add: sorted_wrt_map)
  ultimately show ?thesis unfolding sorted_wrt_map by (metis sorted_wrt_filter)
qed

lemma transcript_sorted:
  assumes "content_inv E d" "(rid, c) \<in> set (turn_keys d)"
  shows "sorted_wrt (<) (map ce_sequence (transcript E d rid))"
proof -
  have "sorted_wrt (<) (map (\<lambda>ev. int (ce_sequence ev)) (transcript E d rid))"
    using content_of_sorted [OF assms] transcript_sequences [OF assms(1)] by simp
  then show ?thesis by (simp add: sorted_wrt_map)
qed

text \<open>Only the last event can be the end of the turn, and it is there exactly when the run ended.\<close>

lemma transcript_marks:
  assumes "content_inv E d"
  shows "map (\<lambda>ev. is_terminal_payload (ce_payload ev)) (transcript E d rid)
       = map is_mark (content_of (assistant_content_events d) rid)"
proof -
  have "is_terminal_payload (ce_payload (the (stored_event E d e))) = is_mark e"
    if "e \<in> set (assistant_content_events d)" for e
    using assms that by (rule stored_row) (metis is_mark_def kind_of_mark option.sel)
  then show ?thesis unfolding transcript_rows [OF content_inv_payload [OF assms]] by simp
qed

lemma transcript_open:
  assumes inv: "content_inv E d" and key: "(rid, c) \<in> set (turn_keys d)" and "live (status_of E d) rid"
  shows "\<forall>ev\<in>set (transcript E d rid). \<not> is_terminal_payload (ce_payload ev)"
proof -
  have "open_transcript (assistant_content_events d) rid c"
    using turns_okD(7) [OF content_inv_turns [OF inv] key assms(3)] .
  then have "True \<notin> set (map is_mark (content_of (assistant_content_events d) rid))"
    by (auto simp: open_transcript_def)
  then show ?thesis unfolding transcript_marks [OF inv, symmetric] by auto
qed

lemma transcript_closed:
  assumes inv: "content_inv E d" and key: "(rid, c) \<in> set (turn_keys d)"
    and st: "status_of E d rid = Some s" "is_terminal s"
  shows "transcript E d rid = [] \<and> gone_of d c
       \<or> (\<exists>es m. transcript E d rid = es @ [m] \<and> kind_of (ce_payload m) = kind_of (TerminalPayload s)
            \<and> is_terminal_payload (ce_payload m) \<and> (\<forall>ev\<in>set es. \<not> is_terminal_payload (ce_payload ev)))"
proof -
  let ?rows = "content_of (assistant_content_events d) rid"
  note tr = transcript_rows [OF content_inv_payload [OF inv], of rid]
  from turns_okD(8) [OF content_inv_turns [OF inv] key st]
  consider "gone_of d c" "?rows = []" | pre m where "?rows = pre @ [m]" "kw_kind m = kind_of (TerminalPayload s)"
      "\<forall>e\<in>set pre. \<not> is_mark e"
    by (auto simp: closed_transcript_def)
  then show ?thesis
  proof cases
    case 1
    then show ?thesis by (simp add: tr)
  next
    case (2 pre m)
    let ?f = "\<lambda>e. the (stored_event E d e)"
    have split: "transcript E d rid = map ?f pre @ [?f m]" using tr 2(1) by simp
    have "m \<in> set ?rows" using 2(1) by simp
    then have "m \<in> set (assistant_content_events d)" by simp
    with inv have "kind_of (ce_payload (?f m)) = kw_kind m" by (rule stored_row) simp
    moreover have "map (\<lambda>ev. is_terminal_payload (ce_payload ev)) (map ?f pre) = map is_mark pre"
      using transcript_marks [OF inv, of rid] unfolding split 2(1) by simp
    then have "\<forall>ev\<in>set (map ?f pre). \<not> is_terminal_payload (ce_payload ev)"
      using 2(3) by (auto simp: map_eq_conv)
    moreover have "is_terminal_payload (ce_payload (?f m))"
      unfolding kind_of_mark [symmetric] \<open>kind_of (ce_payload (?f m)) = kw_kind m\<close> 2(2) by (simp add: kind_of_mark)
    ultimately show ?thesis using split 2(2)
      by (intro disjI2 exI [of _ "map ?f pre"] exI [of _ "?f m"]) simp
  qed
qed

lemma transcript_end_last:
  assumes inv: "content_inv E d" and key: "(rid, c) \<in> set (turn_keys d)"
    and split: "transcript E d rid = es @ m # es'" and mark: "is_terminal_payload (ce_payload m)"
  shows "es' = []"
proof -
  obtain s where s: "status_of E d rid = Some s" using turns_okD(2) [OF content_inv_turns [OF inv] key] by auto
  have "is_terminal s"
    using transcript_open [OF inv key] split mark s by (fastforce simp: live_def)
  from transcript_closed [OF inv key s this] show ?thesis
  proof (elim disjE exE conjE)
    fix es1 m1
    assume "transcript E d rid = es1 @ [m1]" "\<forall>ev\<in>set es1. \<not> is_terminal_payload (ce_payload ev)"
    then have "es @ m # es' = es1 @ [m1]" "m \<notin> set es1" using split mark by auto
    then show ?thesis by (cases es' rule: rev_cases) auto
  qed (use split in simp)
qed

section \<open>A page is a slice\<close>

lemma collect_stored:
  assumes "\<And>e. e \<in> set xs \<Longrightarrow> kw_conversation_id e = c \<and> kw_run_id e = rid \<and> stored_event E d e \<noteq> None"
  shows "bindr (collect_results (content_row E d) xs) (\<lambda>rows.
           collect_results (\<lambda>(seq, at, payload).
             let e = \<lparr>ce_conversation_id = c, ce_run_id = rid, ce_sequence = seq, ce_timestamp_ms = at,
                      ce_payload = payload\<rparr> in
             bindr (map_err (\<lambda>_. CorruptData ''ev invalid'') (v4_content_event_validate e)) (\<lambda>_. Inr e)) rows)
       = Inr (map (\<lambda>e. the (stored_event E d e)) xs)"
  using assms
proof (induction xs)
  case (Cons e xs)
  from Cons.prems [of e] obtain seq at p where row: "content_row E d e = Inr (seq, at, p)"
    and val: "v4_content_event_validate \<lparr>ce_conversation_id = c, ce_run_id = rid, ce_sequence = seq,
        ce_timestamp_ms = at, ce_payload = p\<rparr> = Inr ()"
    by (auto simp: stored_event_def Let_def split: sum.splits prod.splits if_splits)
  have "stored_event E d e = Some \<lparr>ce_conversation_id = c, ce_run_id = rid, ce_sequence = seq,
        ce_timestamp_ms = at, ce_payload = p\<rparr>"
    using row val Cons.prems [of e] by (simp add: stored_event_def)
  moreover from Cons.IH Cons.prems obtain rows where "collect_results (content_row E d) xs = Inr rows"
    by (cases "collect_results (content_row E d) xs") auto
  ultimately show ?case using Cons.IH Cons.prems row val by simp
qed simp

lemma turn_conversation_key:
  assumes "turn_conversation d rid = Inr c"
  shows "(rid, c) \<in> set (turn_keys d)"
  using assms turn_of_key by (auto simp: turn_conversation_def bindr_eq_Inr ok_or_eq_Inr)

lemma key_turn_conversation:
  assumes "turns_ok st cv (turn_keys d) es gone" "(rid, c) \<in> set (turn_keys d)"
  shows "turn_conversation d rid = Inr c"
proof (cases "turn_of d rid")
  case None
  with assms(2) show ?thesis by (force simp: turn_of_None)
next
  case (Some t)
  with turns_ok_key [OF assms turn_of_key [OF Some]] show ?thesis by (simp add: turn_conversation_def)
qed

text \<open>The cursor is the start or an event already seen.\<close>

definition cursor_ok :: "v4_content_event list \<Rightarrow> nat \<Rightarrow> bool" where
  "cursor_ok es after \<longleftrightarrow> after = 0 \<or> after \<in> set (map ce_sequence es)"

lemma run_rows_conversation:
  assumes "content_inv E d" "(rid, c) \<in> set (turn_keys d)" "e \<in> set (assistant_content_events d)" "kw_run_id e = rid"
  shows "kw_conversation_id e = c"
  using turn_event_conversation [of E, OF _ assms(2-4)] assms(1) by (simp add: content_inv_def)

lemma page_rows:
  assumes inv: "content_inv E d" and key: "(rid, c) \<in> set (turn_keys d)"
  shows "sort_key kw_sequence (filter (\<lambda>e. kw_conversation_id e = c \<and> kw_run_id e = rid \<and> n < kw_sequence e)
           (assistant_content_events d))
       = filter (\<lambda>e. n < kw_sequence e) (content_of (assistant_content_events d) rid)"
proof -
  let ?rows = "filter (\<lambda>e. n < kw_sequence e) (content_of (assistant_content_events d) rid)"
  have "sorted_wrt (\<lambda>a b. kw_sequence a < kw_sequence b) ?rows"
    using content_of_sorted [OF assms] unfolding sorted_wrt_map by (rule sorted_wrt_filter)
  then have "sorted_wrt (\<lambda>a b. kw_sequence a \<le> kw_sequence b) ?rows"
    by (rule sorted_wrt_mono_rel [rotated]) simp
  then have "sort_key kw_sequence ?rows = ?rows" by (intro sort_key_id_if_sorted) (simp only: sorted_map)
  moreover have "filter (\<lambda>e. kw_conversation_id e = c \<and> kw_run_id e = rid \<and> n < kw_sequence e)
      (assistant_content_events d) = ?rows"
    using run_rows_conversation [OF assms] by (auto intro!: filter_cong)
  ultimately show ?thesis by simp
qed

lemma cursor_belongs:
  assumes inv: "content_inv E d" and key: "(rid, c) \<in> set (turn_keys d)"
  shows "list_ex (\<lambda>e. kw_conversation_id e = c \<and> kw_run_id e = rid \<and> kw_sequence e = int n) (assistant_content_events d)
       \<longleftrightarrow> n \<in> set (map ce_sequence (transcript E d rid))"
proof -
  have "list_ex (\<lambda>e. kw_conversation_id e = c \<and> kw_run_id e = rid \<and> kw_sequence e = int n) (assistant_content_events d)
      \<longleftrightarrow> int n \<in> set (map kw_sequence (content_of (assistant_content_events d) rid))"
    unfolding list_ex_iff set_map set_filter image_iff
    using run_rows_conversation [OF assms] by (metis (mono_tags, lifting) mem_Collect_eq)
  then show ?thesis unfolding transcript_sequences [OF inv, symmetric] by auto
qed

lemma content_page_slice:
  assumes inv: "content_inv E d" and key: "(rid, c) \<in> set (turn_keys d)" and after: "after \<le> MAX_V4_CONTENT_EVENTS"
  shows "content_page E d c rid after limit =
           (if cursor_ok (transcript E d rid) after
            then Inr (take limit (filter (\<lambda>ev. after < ce_sequence ev) (transcript E d rid)))
            else Inl (InvalidInput ''content cursor invalid''))"
proof -
  let ?es = "assistant_content_events d"
  let ?rows = "filter (\<lambda>e. int after < kw_sequence e) (content_of ?es rid)"
  have conv: "turn_conversation d rid = Inr c"
    using content_inv_turns [OF inv] key by (rule key_turn_conversation)
  have i64: "sql_sequence after = Inr (int after)"
    using after by (simp add: sql_sequence_def i64_try_from_def MAX_V4_CONTENT_EVENTS_def i64_bound_def)
  have stored: "stored_event E d e \<noteq> None \<and> int (ce_sequence (the (stored_event E d e))) = kw_sequence e"
    if "e \<in> set ?es" for e
    using inv that by (rule stored_row) simp
  have "?rows = filter (\<lambda>e. after < ce_sequence (the (stored_event E d e))) (content_of ?es rid)"
  proof (intro filter_cong refl)
    show "int after < kw_sequence e \<longleftrightarrow> after < ce_sequence (the (stored_event E d e))"
      if "e \<in> set (content_of ?es rid)" for e
      using that stored [of e] by auto
  qed
  then have slice: "map (\<lambda>e. the (stored_event E d e)) (take limit ?rows)
      = take limit (filter (\<lambda>ev. after < ce_sequence ev) (transcript E d rid))"
    unfolding transcript_rows [OF content_inv_payload [OF inv]] by (simp add: take_map filter_map comp_def)
  have "kw_conversation_id e = c \<and> kw_run_id e = rid \<and> stored_event E d e \<noteq> None" if "e \<in> set (take limit ?rows)" for e
  proof -
    have "e \<in> set ?es" "kw_run_id e = rid" using set_take_subset [of limit ?rows] that by auto
    with run_rows_conversation [OF inv key] stored show ?thesis by blast
  qed
  note page = collect_stored [of "take limit ?rows", OF this, unfolded slice]
  show ?thesis unfolding content_page_def conv i64 cursor_ok_def
    using page by (cases "after = 0")
      (simp_all add: page_rows [OF inv key] cursor_belongs [OF inv key] del: filter_filter)
qed

section \<open>A page fits a response\<close>

text \<open>
  An upper bound on the text serde\_json writes: numbers of the records are 64-bit, a byte of a
  string becomes at most six. A canonical uuid has 36 characters.
\<close>

fun json_size :: "json \<Rightarrow> nat" where
  "json_size JNull = 4"
| "json_size (JBool _) = 5"
| "json_size (JNumber _) = 32"
| "json_size (JString s) = 6 * length s + 2"
| "json_size (JArray vs) = 2 + sum_list (map (\<lambda>v. json_size v + 1) vs)"
| "json_size (JObject kvs) = 2 + sum_list (map (\<lambda>kv. 6 * length (fst kv) + 4 + json_size (snd kv)) kvs)"

definition wire_bounded :: "externals \<Rightarrow> bool" where
  "wire_bounded E \<longleftrightarrow> (\<forall>v. length (json_to_string E v) \<le> json_size v)
     \<and> (\<forall>s t. uuid_canonical E s = Some t \<longrightarrow> length t = 36)"

lemma canonical_length: "wire_bounded E \<Longrightarrow> canonical E s \<Longrightarrow> length s = 36"
  by (simp add: wire_bounded_def)

lemma payload_json_size:
  assumes "v4_content_payload_validate p = Inr ()"
  shows "json_size (content_payload_json p) \<le> 100000"
proof (cases p)
  case (TextDelta str)
  with assms show ?thesis by (simp add: v4_ensure_def ensure_eq_Inr MAX_V4_DELTA_BYTES_def)
next
  case (ToolPayload tool s)
  then have "length tool \<le> 256" using assms
    by (auto simp: v4_label_def v4_text_def v4_ensure_def ensure_eq_Inr bindr_eq_Inr)
  then show ?thesis using ToolPayload by (cases s) simp_all
next
  case (NoticePayload code)
  then show ?thesis by (cases code) simp_all
next
  case (TerminalPayload s)
  then show ?thesis by (cases s) simp_all
qed simp

abbreviation page_fits :: "externals \<Rightarrow> v4_content_query \<Rightarrow> v4_content_event list \<Rightarrow> bool" where
  "page_fits E q es \<equiv> length (json_to_string E (v4_content_page_json (candidate_page q es))) \<le> MAX_V4_PAGE_BYTES"

lemma short_page_fits:
  assumes bound: "wire_bounded E" and q: "canonical E (kq_conversation_id q)" "canonical E (kq_run_id q)"
    and es: "es = [] \<or> (\<exists>ev. es = [ev] \<and> v4_content_event_validate ev = Inr ()
      \<and> ce_conversation_id ev = kq_conversation_id q \<and> ce_run_id ev = kq_run_id q)"
  shows "page_fits E q es"
proof -
  have ids: "length (kq_conversation_id q) = 36" "length (kq_run_id q) = 36"
    using canonical_length [OF bound] q by blast+
  have "json_size (json_opt json_nat x) \<le> 32" for x
    by (cases x) (simp_all add: json_opt_def)
  note opt = this [of "content_next_after es"]
  have "json_size (JArray (map v4_content_event_json es)) \<le> 110000"
    using es
  proof (elim disjE exE conjE)
    fix ev
    assume ev: "es = [ev]" "v4_content_event_validate ev = Inr ()" "ce_conversation_id ev = kq_conversation_id q"
      "ce_run_id ev = kq_run_id q"
    then have "json_size (content_payload_json (ce_payload ev)) \<le> 100000"
      by (intro payload_json_size) (simp add: content_event_bounds)
    with ev ids show ?thesis by (simp add: v4_content_event_json_def)
  qed simp
  with opt ids have "json_size (v4_content_page_json (candidate_page q es)) \<le> MAX_V4_PAGE_BYTES"
    by (simp add: v4_content_page_json_def candidate_page_def MAX_V4_PAGE_BYTES_def)
  with bound show ?thesis unfolding wire_bounded_def by (meson le_trans)
qed

declare fit_events.simps [simp del]

lemma fit_events_prefix:
  "prefix (fit_events fits es) es \<and> (fit_events fits es = [] \<or> fits (fit_events fits es))
   \<and> (es \<noteq> [] \<and> fits [hd es] \<longrightarrow> fit_events fits es \<noteq> [])"
proof (induction fits es rule: fit_events.induct)
  case (1 fits es)
  show ?case
  proof (cases "es = [] \<or> fits es")
    case False
    then have IH: "prefix (fit_events fits (butlast es)) (butlast es)"
      "fit_events fits (butlast es) = [] \<or> fits (fit_events fits (butlast es))"
      "butlast es \<noteq> [] \<Longrightarrow> fits [hd (butlast es)] \<Longrightarrow> fit_events fits (butlast es) \<noteq> []"
      using 1 by blast+
    have "butlast es \<noteq> [] \<and> hd (butlast es) = hd es" if "fits [hd es]"
      using False that by (cases es rule: rev_cases; cases "butlast es") auto
    moreover have "prefix (fit_events fits (butlast es)) es"
      using IH(1) prefixeq_butlast prefix_order.trans by blast
    moreover have "fit_events fits es = fit_events fits (butlast es)"
      using False by (simp add: fit_events.simps)
    ultimately show ?thesis using IH(2,3) by presburger
  next
    case True
    then have "fit_events fits es = es" by (simp add: fit_events.simps [of fits es])
    with True show ?thesis by auto
  qed
qed

section \<open>The page of a query\<close>

lemma content_page_loop_ok:
  assumes "sorted_wrt (<) (after # map ce_sequence es)"
    and "\<forall>ev\<in>set es. v4_content_event_validate ev = Inr () \<and> ce_conversation_id ev = c \<and> ce_run_id ev = rid"
    and "\<forall>ev\<in>set (butlast es). \<not> is_terminal_payload (ce_payload ev)"
  shows "content_page_loop c rid after False bytes es =
           Inr (last (after # map ce_sequence es), es \<noteq> [] \<and> is_terminal_payload (ce_payload (last es)),
                bytes + length (events_text es))"
  using assms
proof (induction es arbitrary: after bytes)
  case (Cons ev es)
  let ?bytes = "case ce_payload ev of TextDelta str \<Rightarrow> bytes + length str | _ \<Rightarrow> bytes"
  have bytes: "?bytes = bytes + length (delta_text (ce_payload ev))" by (cases "ce_payload ev") simp_all
  have head: "v4_content_event_validate_after ev c rid after = Inr ()"
    using Cons.prems(1,2) by (simp add: v4_content_event_validate_after_def v4_ensure_def)
  show ?case
  proof (cases es)
    case Nil
    with head bytes show ?thesis by (simp add: v4_ensure_def events_text_def)
  next
    case (Cons ev' es')
    with Cons.prems(3) have "\<not> is_terminal_payload (ce_payload ev)" by simp
    moreover have "content_page_loop c rid (ce_sequence ev) False ?bytes es =
        Inr (last (ce_sequence ev # map ce_sequence es), es \<noteq> [] \<and> is_terminal_payload (ce_payload (last es)),
             ?bytes + length (events_text es))"
      using Cons.prems by (intro Cons.IH) (auto simp: Cons)
    ultimately show ?thesis using head bytes Cons by (simp add: v4_ensure_def events_text_def)
  qed
qed simp

lemma events_text_bound:
  assumes "\<forall>ev\<in>set es. v4_content_event_validate ev = Inr ()"
  shows "length (events_text es) \<le> length es * MAX_V4_DELTA_BYTES"
  using assms
proof (induction es)
  case (Cons ev es)
  have "length (delta_text (ce_payload ev)) \<le> MAX_V4_DELTA_BYTES"
    using Cons.prems by (cases "ce_payload ev") (auto simp: content_event_bounds v4_ensure_def ensure_eq_Inr)
  with Cons show ?case by (simp add: events_text_def)
qed simp

lemma candidate_page_valid:
  assumes es: "sorted_wrt (<) (kq_after q # map ce_sequence es)"
      "\<forall>ev\<in>set es. v4_content_event_validate ev = Inr ()
         \<and> ce_conversation_id ev = kq_conversation_id q \<and> ce_run_id ev = kq_run_id q"
      "\<forall>ev\<in>set (butlast es). \<not> is_terminal_payload (ce_payload ev)"
    and size: "length es \<le> MAX_V4_PAGE" "page_fits E q es" "kq_after q \<le> MAX_V4_CONTENT_EVENTS"
  shows "v4_content_page_validate E (candidate_page q es) = Inr ()"
proof -
  have "length (events_text es) \<le> MAX_V4_CONTENT_BYTES"
    using events_text_bound [of es] es(2) size(1)
    by (simp add: MAX_V4_PAGE_def MAX_V4_DELTA_BYTES_def MAX_V4_CONTENT_BYTES_def)
  with content_page_loop_ok [OF es] size show ?thesis
    by (auto simp: v4_content_page_validate_def page_bytes_def v4_ensure_def candidate_page_def
        content_next_after_def last_map split: option.splits)
qed

end
