(* ===== verification/V4_Reader.thy ===== *)
theory V4_Reader
  imports V4_Reading
begin

text \<open>
  The reader of a transcript: it asks for a page, continues at the last event it has, and
  other clients change the store between its requests.
\<close>

section \<open>Answers\<close>

definition unread :: "v4_content_event list \<Rightarrow> nat \<Rightarrow> v4_content_event list" where
  "unread es after = filter (\<lambda>ev. after < ce_sequence ev) es"

lemma prefix_take: "prefix xs (take n ys) \<Longrightarrow> \<exists>k. xs = take k ys"
  by (auto simp: prefix_def dest: sym intro!: exI [of _ "length xs"])
    (metis append_eq_conv_conj append_take_drop_id append_assoc)

lemma v4_content_Inr:
  assumes inv: "content_inv E d" and ok: "v4_content E d q = Inr pg"
  obtains k where "(kq_run_id q, kq_conversation_id q) \<in> set (turn_keys d)"
    "pg = candidate_page q (take k (unread (transcript E d (kq_run_id q)) (kq_after q)))"
proof -
  let ?tr = "transcript E d (kq_run_id q)"
  from ok obtain events where q: "v4_content_query_validate q = Inr ()"
    and page: "content_page E d (kq_conversation_id q) (kq_run_id q) (kq_after q) (kq_limit q) = Inr events"
    and pg: "pg = candidate_page q (fit_events (page_fits E q) events)"
    by (auto simp: v4_content_def bindr_eq_Inr map_err_eq_Inr Let_def split: if_splits)
  from page have key: "(kq_run_id q, kq_conversation_id q) \<in> set (turn_keys d)"
    by (auto simp: content_page_def bindr_eq_Inr dest: turn_conversation_key split: if_splits)
  have "kq_after q \<le> MAX_V4_CONTENT_EVENTS"
    using q by (simp add: v4_content_query_validate_def v4_limit_def v4_ensure_def bindr_eq_Inr ensure_eq_Inr)
  from content_page_slice [OF inv key this] page have "events = take (kq_limit q) (unread ?tr (kq_after q))"
    by (auto simp: unread_def split: if_splits)
  moreover have "prefix (fit_events (page_fits E q) events) events" using fit_events_prefix by blast
  ultimately obtain k where "fit_events (page_fits E q) events = take k (unread ?tr (kq_after q))"
    using prefix_take by blast
  with that [of k] key pg show thesis by simp
qed

text \<open>The query of a reader that holds \<open>acc\<close>.\<close>

definition cursor :: "v4_content_event list \<Rightarrow> nat" where
  "cursor acc = (if acc = [] then 0 else ce_sequence (last acc))"

lemma unread_rest:
  assumes "sorted_wrt (<) (map ce_sequence (acc @ rest))" and "\<forall>ev\<in>set (acc @ rest). 0 < ce_sequence ev"
  shows "unread (acc @ rest) (cursor acc) = rest"
proof (cases acc rule: rev_cases)
  case Nil
  with assms(2) show ?thesis by (simp add: unread_def cursor_def)
next
  case (snoc es m)
  with assms(1) have "\<forall>ev\<in>set es. ce_sequence ev < ce_sequence m" "\<forall>ev\<in>set rest. ce_sequence m < ce_sequence ev"
    by (auto simp: sorted_wrt_append)
  with snoc show ?thesis by (auto simp: unread_def cursor_def filter_empty_conv)
qed

lemma unread_transcript:
  assumes "content_inv E d" "(rid, c) \<in> set (turn_keys d)" "transcript E d rid = acc @ rest"
  shows "unread (transcript E d rid) (cursor acc) = rest"
  using transcript_sorted [OF assms(1,2)] transcript_member [OF assms(1,2)] unread_rest [of acc rest]
  by (auto simp: assms(3) content_event_bounds)

lemma transcript_after_cursor:
  assumes "content_inv E d" "(rid, c) \<in> set (turn_keys d)" "transcript E d rid = acc @ rest"
  shows "sorted_wrt (<) (cursor acc # map ce_sequence rest)"
proof -
  have "sorted_wrt (<) (map ce_sequence (acc @ rest))" using transcript_sorted [OF assms(1,2)] assms(3) by simp
  moreover have "\<forall>ev\<in>set rest. 0 < ce_sequence ev"
    using transcript_member [OF assms(1,2)] by (auto simp: assms(3) content_event_bounds)
  ultimately show ?thesis by (cases acc rule: rev_cases) (auto simp: cursor_def sorted_wrt_append)
qed

lemma butlast_take_no_end:
  assumes "content_inv E d" "(rid, c) \<in> set (turn_keys d)" "transcript E d rid = acc @ rest"
  shows "\<forall>ev\<in>set (butlast (take k rest)). \<not> is_terminal_payload (ce_payload ev)"
proof
  fix ev
  assume "ev \<in> set (butlast (take k rest))"
  then obtain xs ys where "butlast (take k rest) = xs @ ev # ys" by (metis split_list)
  moreover have "take k rest \<noteq> []" using calculation by (metis append_is_Nil_conv butlast.simps(1) list.discI)
  ultimately have "take k rest = xs @ ev # ys @ [last (take k rest)]"
    by (metis append_Cons append_assoc append_butlast_last_id)
  then obtain zs where "rest = xs @ ev # zs" "zs \<noteq> []"
    by (metis append_Cons append_assoc append_take_drop_id append_is_Nil_conv list.distinct(1))
  with assms(3) transcript_end_last [OF assms(1,2), of "acc @ xs" ev zs]
  show "\<not> is_terminal_payload (ce_payload ev)" by auto
qed

text \<open>A reader is always answered, and gets an event whenever it has not seen the last one.\<close>

lemma v4_content_answers:
  assumes inv: "content_inv E d" and key: "(rid, c) \<in> set (turn_keys d)" and tr: "transcript E d rid = acc @ rest"
    and q: "q = \<lparr>kq_conversation_id = c, kq_run_id = rid, kq_after = cursor acc, kq_limit = limit\<rparr>"
    and limit: "1 \<le> limit" "limit \<le> MAX_V4_PAGE" and row: "conversation_row_of d c = Inr (Some conv)"
    and bound: "wire_bounded E" "canonical E c" "canonical E rid"
  shows "\<exists>k. v4_content E d q = Inr (candidate_page q (take k rest)) \<and> (rest \<noteq> [] \<longrightarrow> take k rest \<noteq> [])"
proof -
  have valid: "\<forall>ev\<in>set (acc @ rest). v4_content_event_validate ev = Inr () \<and> ce_conversation_id ev = c \<and> ce_run_id ev = rid"
    using transcript_member [OF inv key] tr by simp
  have after: "cursor acc \<le> MAX_V4_CONTENT_EVENTS" and cur: "cursor_ok (transcript E d rid) (cursor acc)"
    using valid [THEN bspec, of "last acc"]
    by (cases "acc = []"; simp add: cursor_def cursor_ok_def tr content_event_bounds)+
  have page: "content_page E d c rid (cursor acc) limit = Inr (take limit rest)"
    using content_page_slice [OF inv key after] cur unread_transcript [OF inv key tr] by (simp add: unread_def)
  let ?es = "fit_events (page_fits E q) (take limit rest)"
  have fits: "page_fits E q es" if "es = [] \<or> (\<exists>ev. es = [ev] \<and> ev \<in> set rest)" for es
    using short_page_fits [OF bound(1), of q es] bound q that valid by fastforce
  have fit: "prefix ?es (take limit rest)" "page_fits E q ?es" "rest \<noteq> [] \<Longrightarrow> ?es \<noteq> []"
    using fit_events_prefix [of "page_fits E q" "take limit rest"] fits [of "[]"] fits [of "[hd rest]"] limit
    by (cases rest; auto)+
  then obtain k where k: "?es = take k rest" using prefix_take by blast
  have "sorted_wrt (<) (kq_after q # map ce_sequence ?es)"
    using sorted_wrt_take [OF transcript_after_cursor [OF inv key tr], of "Suc k"] q unfolding k
    by (simp only: take_Suc_Cons take_map v4_content_query.select_convs)
  moreover have "\<forall>ev\<in>set ?es. v4_content_event_validate ev = Inr ()
      \<and> ce_conversation_id ev = kq_conversation_id q \<and> ce_run_id ev = kq_run_id q"
    unfolding k using q valid by (auto dest: in_set_takeD)
  moreover have "\<forall>ev\<in>set (butlast ?es). \<not> is_terminal_payload (ce_payload ev)"
    unfolding k by (rule butlast_take_no_end [OF inv key tr])
  moreover have "length ?es \<le> MAX_V4_PAGE" using prefix_length_le [OF fit(1)] limit by simp
  moreover have "kq_after q \<le> MAX_V4_CONTENT_EVENTS" using after q by simp
  ultimately have "v4_content_page_validate E (candidate_page q ?es) = Inr ()"
    using fit(2) by (intro candidate_page_valid)
  then have "v4_content E d q = Inr (candidate_page q (take k rest))"
    using page row q after limit unfolding k [symmetric]
    by (simp add: v4_content_def v4_content_query_validate_def v4_limit_def v4_ensure_def Let_def)
  with fit(3) k show ?thesis by metis
qed

section \<open>While the store moves on\<close>

definition ended :: "externals \<Rightarrow> db \<Rightarrow> run_id \<Rightarrow> bool" where
  "ended E d rid \<longleftrightarrow> (\<exists>s. status_of E d rid = Some s \<and> is_terminal s)"

lemma ended_keptD: "ended_kept E d d' \<Longrightarrow> ended E d rid \<Longrightarrow> ended E d' rid"
  by (auto simp: ended_kept_def ended_def)

lemma content_step_transcript:
  assumes "content_step E d d'" and inv: "preview_inv E d"
  shows "prefix (transcript E d rid) (transcript E d' rid)
       \<and> (ended E d rid \<longrightarrow> ended E d' rid \<and> transcript E d' rid = transcript E d rid)"
proof -
  have ok: "payload_inv E d" using inv by (simp add: preview_inv_def)
  have kept: "ended E d rid \<longrightarrow> ended E d' rid" using assms(1) ended_keptD by blast
  have added: "\<not> ended E d rid" if "live (status_of E d) rid"
    using that by (auto simp: ended_def live_def)
  from assms(1) have "content_change E d d'" by blast
  then show ?thesis
  proof cases
    case quiet
    then have "transcript E d' rid = transcript E d rid"
      using stored_event_cong [of d' d E] by (simp add: transcript_def)
    with kept show ?thesis by simp
  next
    case (entry ev)
    with added_transcript(2) [OF ok entry(1)] kept added show ?thesis by auto
  next
    case (delta ev str body)
    with added_transcript(2) [OF ok delta(1)] kept added show ?thesis by auto
  qed
qed

lemma content_steps_transcript:
  assumes "(content_step E)\<^sup>*\<^sup>* d d'" and inv: "preview_inv E d"
  shows "prefix (transcript E d rid) (transcript E d' rid)
       \<and> (ended E d rid \<longrightarrow> ended E d' rid \<and> transcript E d' rid = transcript E d rid)"
  using assms(1)
proof (induction rule: rtranclp_induct)
  case (step d1 d2)
  then have "preview_inv E d1" using content_steps_preview inv by blast
  with content_step_transcript [OF step.hyps(2)] step.IH show ?case
    by (metis prefix_order.trans)
qed simp

lemma dropped_run_transcript:
  assumes inv: "content_inv E d" and drop: "content_dropped c d d'" and idle: "active_runs d c = 0"
  shows "transcript E d' rid = transcript E d rid \<or> transcript E d' rid = [] \<and> ended E d rid"
proof (cases "transcript E d rid")
  case (Cons ev es)
  have tr: "transcript E d' rid = filter (\<lambda>ev. ce_conversation_id ev \<noteq> c) (transcript E d rid)"
    using content_inv_payload [OF inv] drop by (rule dropped_transcript)
  have "ev \<in> set (transcript E d rid)" by (simp add: Cons)
  then obtain e where e: "e \<in> set (assistant_content_events d)" "kw_run_id e = rid"
    by (auto simp: transcript_def List.map_filter_def)
  then have key: "(rid, kw_conversation_id e) \<in> set (turn_keys d)"
    using turns_okD(4) [OF content_inv_turns [OF inv]] by blast
  note ids = transcript_member [OF inv key]
  show ?thesis
  proof (cases "kw_conversation_id e = c")
    case True
    have "\<not> live (status_of E d) rid"
      using active_runs_idle [of E d c rid] inv idle key True by (simp add: content_inv_def)
    moreover have "status_of E d rid \<noteq> None" using turns_okD(2) [OF content_inv_turns [OF inv] key] by blast
    ultimately have "ended E d rid" by (auto simp: ended_def live_def)
    with tr ids True show ?thesis by (auto simp: filter_empty_conv)
  next
    case False
    with tr ids show ?thesis by (simp add: filter_True)
  qed
qed (use dropped_transcript [OF content_inv_payload [OF inv] drop] in simp)

lemma v4_step_transcript:
  assumes step: "v4_step E d d'" and inv: "content_inv E d"
  shows "(prefix (transcript E d rid) (transcript E d' rid) \<or> transcript E d' rid = [] \<and> ended E d' rid)
       \<and> (ended E d rid \<longrightarrow> ended E d' rid \<and> (transcript E d' rid = transcript E d rid \<or> transcript E d' rid = []))"
proof -
  have parts: "turn_inv E d" "terminals_read E" "preview_inv E d" using inv by (simp_all add: content_inv_def)
  have "ledger_inv E d" "\<forall>rid. run_step E d d' rid"
    using v4_step_effect [OF step parts(1)] parts(1) by (simp_all add: turn_inv_def)
  then have "ended_kept E d d'" by (rule run_step_ended)
  then have kept: "ended E d rid \<Longrightarrow> ended E d' rid" by (rule ended_keptD)
  from v4_step_change [OF step parts(1,2)]
  consider "(content_step E)\<^sup>*\<^sup>* d d'" | c where "content_dropped c d d'" "active_runs d c = 0" by blast
  then show ?thesis
  proof cases
    case 1
    with content_steps_transcript [OF 1 parts(3)] show ?thesis by blast
  next
    case 2
    with dropped_run_transcript [OF inv] kept show ?thesis by (metis prefix_order.refl)
  qed
qed

text \<open>The reader, its requests interleaved with any operations of the store.\<close>

inductive reading :: "externals \<Rightarrow> conversation_id \<Rightarrow> run_id \<Rightarrow> db \<Rightarrow> v4_content_event list \<Rightarrow> bool"
  for E c rid where
  start: "content_inv E d \<Longrightarrow> reading E c rid d []"
| move: "reading E c rid d acc \<Longrightarrow> v4_step E d d' \<Longrightarrow> reading E c rid d' acc"
| page: "reading E c rid d acc \<Longrightarrow> kq_conversation_id q = c \<Longrightarrow> kq_run_id q = rid \<Longrightarrow>
     kq_after q = cursor acc \<Longrightarrow> v4_content E d q = Inr pg \<Longrightarrow> reading E c rid d (acc @ kg_events pg)"

lemma reading_prefix:
  assumes "reading E c rid d acc"
  shows "content_inv E d \<and> (prefix acc (transcript E d rid) \<or> transcript E d rid = [] \<and> ended E d rid)"
  using assms
proof induction
  case (move d acc d')
  with v4_step_content v4_step_transcript [OF move.hyps(2), of rid] show ?case
    by (metis prefix_order.trans)
next
  case (page d acc q pg)
  then have inv: "content_inv E d" by blast
  from inv page.hyps(5) obtain k where key: "(rid, c) \<in> set (turn_keys d)"
    and events: "kg_events pg = take k (unread (transcript E d rid) (cursor acc))"
    by (rule v4_content_Inr) (simp add: candidate_page_def page.hyps(2-4) [symmetric])
  from page.IH show ?case
  proof (elim conjE disjE)
    assume "prefix acc (transcript E d rid)"
    then obtain rest where tr: "transcript E d rid = acc @ rest" by (auto simp: prefix_def)
    with events unread_transcript [OF inv key tr] inv show ?thesis by (simp add: take_is_prefix)
  next
    assume "transcript E d rid = []" "ended E d rid"
    with events inv show ?thesis by (simp add: unread_def)
  qed
qed simp

end
