(* ===== verification/V4_Samples.thy ===== *)
theory V4_Samples
  imports Sample_World V4_Reader
begin

text \<open>
  A concrete conversation: created, one turn admitted, two deltas streamed, and the turn ended
  because no executor took it up.
\<close>

definition conv_a :: conversation_id where "conv_a = ''7c9e6679-7425-40de-944b-e07fc1f90ae7''"

definition turn_a :: v4_submit_turn where
  "turn_a = \<lparr>vt_conversation_id = conv_a, vt_idempotency_key = ''key-t'', vt_route_id = ''route'',
     vt_input = ''Hi''\<rparr>"

text \<open>The rows, as far as they change from state to state.\<close>

definition conv_row :: "int \<Rightarrow> assistant_conversation_row" where
  "conv_row updated = \<lparr>acw_id = conv_a, acw_sequence = 1, acw_title = ''Chat'', acw_archived = False,
     acw_pinned = False, acw_imported_history = True, acw_deleted = False,
     acw_created_at_ms = 1000, acw_updated_at_ms = updated\<rparr>"

definition turn_run_row :: "string \<Rightarrow> int \<Rightarrow> string \<Rightarrow> run_row" where
  "turn_run_row status n updated = \<lparr>rw_id = run_a, rw_conversation_id = Some conv_a,
     rw_idempotency_key = ''key-t'', rw_request_digest = concat (replicate 32 ''64''),
     rw_status = status, rw_next_event_sequence = n, rw_created_at = ''2000'', rw_updated_at = updated\<rparr>"

definition asked :: "string \<Rightarrow> message_row" where
  "asked state = \<lparr>mw_id = ''msg-u'', mw_conversation_id = conv_a, mw_run_id = run_a, mw_role = ''user'',
     mw_sequence = 1, mw_body = ''Hi'', mw_text_bytes = 2, mw_text_complete = True, mw_state = state,
     mw_created_at_ms = 2000\<rparr>"

definition answered :: "string \<Rightarrow> bool \<Rightarrow> string \<Rightarrow> message_row" where
  "answered body complete state = \<lparr>mw_id = ''msg-a'', mw_conversation_id = conv_a, mw_run_id = run_a,
     mw_role = ''assistant'', mw_sequence = 2, mw_body = body, mw_text_bytes = int (length body),
     mw_text_complete = complete, mw_state = state, mw_created_at_ms = 3000\<rparr>"

definition content_entry_a :: "int \<Rightarrow> v4_content_payload \<Rightarrow> int \<Rightarrow> content_event_row" where
  "content_entry_a n p bytes = \<lparr>kw_conversation_id = conv_a, kw_sequence = n, kw_request_id = run_a,
     kw_run_id = run_a, kw_kind = kind_of p, kw_byte_count = bytes, kw_timestamp_ms = 1000 * (n + 2)\<rparr>"

definition payload_a :: "int \<Rightarrow> v4_content_payload \<Rightarrow> content_payload_row" where
  "payload_a n p = \<lparr>pw_conversation_id = conv_a, pw_sequence = n,
     pw_payload_json = print_json (content_payload_json p)\<rparr>"

definition db_conv :: db where
  "db_conv = empty_db\<lparr>conversations := [\<lparr>cw_id = conv_a, cw_created_at = ''1000'', cw_updated_at = ''1000''\<rparr>],
     assistant_conversations := [conv_row 1000]\<rparr>"

definition db_turn :: db where
  "db_turn = db_conv\<lparr>assistant_conversations := [conv_row 2000],
     runs := [turn_run_row ''queued'' 2 ''2000''], run_events := [queued_event_row run_a ''2000''],
     assistant_permission_profiles := [\<lparr>prw_profile_id = ''desk.default'', prw_document_json = ''{}'',
       prw_updated_at_ms = 2000\<rparr>],
     assistant_turns := [\<lparr>tw_run_id = run_a, tw_conversation_id = conv_a,
       tw_user_message_id = Some ''msg-u'', tw_assistant_message_id = None, tw_user_sequence = 1,
       tw_route_id = ''route'', tw_permission_profile_id = ''desk.default'', tw_created_at_ms = 2000\<rparr>],
     assistant_messages := [asked ''queued'']\<rparr>"

definition db_hello :: db where
  "db_hello = db_turn\<lparr>assistant_messages := [asked ''queued'', answered ''Hello'' False ''running''],
     assistant_content_events := [content_entry_a 1 (TextDelta ''Hello'') 5],
     assistant_content_payloads := [payload_a 1 (TextDelta ''Hello'')]\<rparr>"

definition db_world :: db where
  "db_world = db_hello\<lparr>assistant_messages := [asked ''queued'', answered ''Hello, world'' False ''running''],
     assistant_content_events := assistant_content_events db_hello @ [content_entry_a 2 (TextDelta '', world'') 7],
     assistant_content_payloads := assistant_content_payloads db_hello @ [payload_a 2 (TextDelta '', world'')]\<rparr>"

definition time_5 :: string where "time_5 = ''00000000000000005000''"

definition db_failed :: db where
  "db_failed = db_world\<lparr>runs := [turn_run_row ''failed'' 3 time_5],
     run_events := run_events db_world @ [\<lparr>ew_run_id = run_a, ew_sequence = 2, ew_kind = ''run_failed'',
       ew_payload_json = print_json (ne_payload unadopted_event), ew_created_at = time_5\<rparr>],
     assistant_messages := [asked ''failed'', answered ''Hello, world'' True ''failed''],
     assistant_content_events := assistant_content_events db_world @ [content_entry_a 3 (TerminalPayload Failed) 45],
     assistant_content_payloads := assistant_content_payloads db_world @ [payload_a 3 (TerminalPayload Failed)]\<rparr>"

definition receipt_a :: "run_state \<Rightarrow> v4_turn_submission" where
  "receipt_a s = \<lparr>vs_conversation_id = conv_a, vs_run_id = run_a, vs_idempotency_key = ''key-t'',
     vs_user_message_sequence = 1, vs_state = s, vs_duplicate = False\<rparr>"

definition conv_record :: v4_conversation where
  "conv_record = \<lparr>vc_conversation_id = conv_a, vc_id = conv_a, vc_title = ''Chat'', vc_created_at_ms = 1000,
     vc_updated_at_ms = 1000, vc_archived = False, vc_pinned = False, vc_sequence = 1, vc_message_count = 0\<rparr>"

definition hello :: v4_content_event where
  "hello = \<lparr>ce_conversation_id = conv_a, ce_run_id = run_a, ce_sequence = 1, ce_timestamp_ms = 3000,
     ce_payload = TextDelta ''Hello''\<rparr>"

definition world_delta :: v4_content_event where
  "world_delta = \<lparr>ce_conversation_id = conv_a, ce_run_id = run_a, ce_sequence = 2, ce_timestamp_ms = 4000,
     ce_payload = TextDelta '', world''\<rparr>"

definition failure_mark :: v4_content_event where
  "failure_mark = \<lparr>ce_conversation_id = conv_a, ce_run_id = run_a, ce_sequence = 3, ce_timestamp_ms = 5000,
     ce_payload = TerminalPayload Failed\<rparr>"

lemma sample_conv_call:
  "v4_create_conversation sample_ext conv_a empty_db ''Chat'' 1000 = Inr (conv_record, db_conv)"
  by code_simp

lemma sample_admit_call:
  "v4_admit_turn sample_ext run_a ''msg-u'' db_conv turn_a 2000 = Inr (receipt_a Queued, db_turn)"
  by code_simp

lemma sample_hello_call:
  "v4_append_content sample_ext ''msg-a'' db_turn run_a (TextDelta ''Hello'') 3000 = Inr (hello, db_hello)"
  by code_simp

lemma sample_world_call:
  "v4_append_content sample_ext ''msg-b'' db_hello run_a (TextDelta '', world'') 4000 = Inr (world_delta, db_world)"
  by code_simp

lemma sample_failed_call:
  "v4_fail_unadopted_turn sample_ext time_5 5000 db_world run_a = (Inr (receipt_a Failed), db_failed)"
  by code_simp

lemmas sample_v4_calls = sample_conv_call sample_admit_call sample_hello_call sample_world_call sample_failed_call

lemma sample_payloads:
  "payload_reads sample_ext (TextDelta ''Hello'')" "payload_reads sample_ext (TextDelta '', world'')"
  "terminals_read sample_ext" "payload_parses sample_ext unadopted_event"
  by (code_simp)+

lemma sample_content_inv: "content_inv sample_ext empty_db"
  using sample_recovery sample_payloads(3) by (intro empty_content_inv) simp_all

lemma turn_a_typed: "submit_turn_typed sample_ext turn_a" "canonical sample_ext run_a" "canonical sample_ext conv_a"
  by code_simp+

lemma sample_v4_steps:
  "v4_step sample_ext empty_db db_conv" "v4_step sample_ext db_conv db_turn"
  "v4_step sample_ext db_turn db_hello" "v4_step sample_ext db_hello db_world"
  "v4_step sample_ext db_world db_failed"
  by (rule v4_step.create [OF sample_v4_calls(1)],
      rule v4_step.admit [OF sample_v4_calls(2) turn_a_typed(1,2)],
      rule v4_step.content [OF sample_v4_calls(3) _ sample_payloads(1)], simp,
      rule v4_step.content [OF sample_v4_calls(4) _ sample_payloads(2)], simp,
      rule v4_step.unadopted [OF sample_v4_calls(5) sample_payloads(4)])

lemma sample_v4_invs:
  "content_inv sample_ext db_conv" "content_inv sample_ext db_turn" "content_inv sample_ext db_hello"
  "content_inv sample_ext db_world" "content_inv sample_ext db_failed"
  using sample_content_inv sample_v4_steps v4_step_content by blast+

lemma sample_v4_states:
  "turn_keys db_world = [(run_a, conv_a)]" "turn_keys db_failed = [(run_a, conv_a)]"
  "status_of sample_ext db_failed run_a = Some Failed"
  "transcript sample_ext db_world run_a = [hello, world_delta]"
  "transcript sample_ext db_failed run_a = [hello, world_delta, failure_mark]"
  by code_simp+

lemma joined_length: "length (joined ss) \<le> sum_list (map (\<lambda>s. length s + 1) ss)"
  by (induction ss rule: joined.induct) simp_all

lemma print_digits_length: "length (print_digits k n) \<le> k"
  by (induction k n rule: print_digits.induct) auto

lemma print_json_length: "length (print_json v) \<le> json_size v"
proof (induction v rule: print_json.induct)
  case (3 n)
  then show ?case
    using print_digits_length [of 20] by (cases n) (auto intro: order.trans [where b = 20])
next
  case (5 vs)
  have "sum_list (map (\<lambda>s. length s + 1) (map print_json vs)) \<le> sum_list (map (\<lambda>v. json_size v + 1) vs)"
    unfolding map_map comp_def by (rule sum_list_mono) (use 5 in simp)
  with joined_length [of "map print_json vs"] show ?case by simp
next
  case (6 es)
  let ?p = "\<lambda>e. quoted (fst e) @ '':'' @ print_json (snd e)"
  have "sum_list (map (\<lambda>s. length s + 1) (map ?p es))
      \<le> sum_list (map (\<lambda>kv. 6 * length (fst kv) + 4 + json_size (snd kv)) es)"
    unfolding map_map comp_def
  proof (rule sum_list_mono)
    fix e
    assume "e \<in> set es"
    then have "length (print_json (snd e)) \<le> json_size (snd e)" using 6 by simp
    then show "length (?p e) + 1 \<le> 6 * length (fst e) + 4 + json_size (snd e)" by (simp add: quoted_def)
  qed
  with joined_length [of "map ?p es"] show ?case by simp
qed (simp_all add: quoted_def)

lemma sample_bounded: "wire_bounded sample_ext"
  by (simp add: wire_bounded_def print_json_length)

text \<open>The conversation is deleted after its turn ended.\<close>

definition db_deleted :: db where "db_deleted = projr (v4_delete_conversation db_failed conv_a 6000)"

lemma sample_delete_call: "v4_delete_conversation db_failed conv_a 6000 = Inr db_deleted"
  by code_simp

lemma sample_delete_step: "v4_step sample_ext db_failed db_deleted"
  by (rule v4_step.delete [OF sample_delete_call])

lemma sample_turn_invs: "turn_inv sample_ext db_conv" "turn_inv sample_ext db_world" "turn_inv sample_ext db_failed"
  using sample_v4_invs by (simp_all add: content_inv_def)

lemma sample_status: "status_of sample_ext db_world run_a = Some Queued"
  by code_simp

lemma sample_row: "\<exists>c. conversation_row_of db_world conv_a = Inr (Some c)"
proof
  show "conversation_row_of db_world conv_a = Inr (Some (conv_record\<lparr>vc_updated_at_ms := 2000, vc_message_count := 2\<rparr>))"
    by code_simp
qed

definition first_read :: v4_content_query where
  "first_read = \<lparr>kq_conversation_id = conv_a, kq_run_id = run_a, kq_after = 0, kq_limit = 50\<rparr>"

definition second_read :: v4_content_query where
  "second_read = \<lparr>kq_conversation_id = conv_a, kq_run_id = run_a, kq_after = 2, kq_limit = 50\<rparr>"

lemma sample_pages:
  "v4_content sample_ext db_world first_read = Inr (candidate_page first_read [hello, world_delta])"
  "v4_content sample_ext db_failed second_read = Inr (candidate_page second_read [failure_mark])"
  by code_simp+

end
