(* ===== verification/Run_Theorems.thy ===== *)
theory Run_Theorems
  imports V4_Samples
begin

text \<open>
  What the durable run store promises: it refines the abstract ledger, runs only move forward
  and end frozen, submission is idempotent, and what is read back (pages, snapshots) is exact.
\<close>

section \<open>A submitted run stays under its key\<close>

lemma submitted_again:
  assumes inv: "ledger_inv E d" and ok: "create_or_get_run E fresh now d run = Inr (r, d1)"
    and steps: "(store_step E)\<^sup>*\<^sup>* d1 d2"
  shows "validate_new_run run = Inr () \<and>
    (\<exists>r'. run_by_idempotency_key E d2 (nr_idempotency_key run) = Inr (Some r')
        \<and> rec_id r' = rec_id r \<and> rec_request_digest r' = nr_request_digest run)"
proof -
  have wf: "db_wf E d" using inv by (simp add: ledger_inv_def)
  have inv1: "ledger_inv E d1" using inv ok by (blast intro: store.step_inv store_step.submit)
  have r: "run_by_id E d1 (rec_id r) = Inr (Some r) \<and> rec_idempotency_key r = nr_idempotency_key run
      \<and> rec_request_digest r = nr_request_digest run"
    using create_or_get_run_Inr [OF wf ok]
  proof (elim disjE bexE conjE)
    fix row assume "row \<in> set (runs d)" "rw_idempotency_key row = nr_idempotency_key run"
      "rw_request_digest row = nr_request_digest run" "row_to_run E row = Inr r" "d1 = d"
    then show ?thesis using row_to_run_fields run_by_id_wf [OF wf] by metis
  next
    assume "created E fresh now d run d1" "r = queued_record fresh now run"
    then show ?thesis using created_run_by_id by simp
  qed
  then obtain r' where r': "run_by_id E d2 (rec_id r) = Inr (Some r')" "record_evolves r r'"
    using store_steps_record [OF steps inv1] by blast
  have wf2: "db_wf E d2" using store.steps_inv [OF steps inv1] by (simp add: ledger_inv_def)
  from r'(1) obtain row where row: "row \<in> set (runs d2)" "row_to_run E row = Inr r'"
    using run_by_id_wf [OF wf2] by blast
  have "rw_idempotency_key row = nr_idempotency_key run"
    using row_to_run_fields [OF row(2)] r r'(2) by (simp add: record_evolves_def)
  with row have "run_by_idempotency_key E d2 (nr_idempotency_key run) = Inr (Some r')"
    using run_by_key_wf [OF wf2] by blast
  moreover have "validate_new_run run = Inr ()"
    using ok by (auto simp: create_or_get_run_def bindr_eq_Inr)
  ultimately show ?thesis using r r'(2) by (auto simp: record_evolves_def)
qed

lemma digest_one: "validate_new_run (new_a\<lparr>nr_request_digest := replicate 64 (CHR ''1'')\<rparr>) = Inr ()"
  and digest_other: "replicate 64 (CHR ''1'') \<noteq> nr_request_digest new_a"
  by code_simp+

section \<open>Refinement of the abstract ledger\<close>

text \<open>
  C1: A state transition of a run that has no v4 turn refines the abstract ledger: on every
  branch (unknown run, unexpected status, terminal run, forbidden transition, success) the
  detailed operation on the SQL rows returns what the specification returns, and the rows it
  leaves represent the specification's ledger.
\<close>

theorem run_transition_refines:
  assumes "db_wf E d" and "validate_event E ev = Inr ()" and "payload_parses E ev"
    and "turn_of d rid = None" and "length (log_of E d rid) + 2 < i64_bound"
  shows "abs_result E (transition_run E now ms d rid expected next ev)
       = spec_transition now (ledger_of E d) rid expected next ev"
  using assms by (rule transition_refinement)

theorem run_transition_refines_witness:
  "abs_result sample_ext (transition_run sample_ext time_2 9 db_queued run_a Queued Starting starting)
     = spec_transition time_2 (ledger_of sample_ext db_queued) run_a Queued Starting starting"
  using sample_wfs sample_events sample_turns db_queued_log
  by (intro run_transition_refines) (simp_all add: i64_bound_def)

text \<open>
  C2: Appending an event refines the abstract ledger on every branch: the log of the run grows by
  exactly this event with the next sequence number, and a terminal or unknown run is refused.
\<close>

theorem run_append_refines:
  assumes "db_wf E d" and "validate_event E ev = Inr ()" and "payload_parses E ev"
    and "length (log_of E d rid) + 2 < i64_bound"
  shows "abs_result E (append_run_event E now d rid ev) = spec_append now (ledger_of E d) rid ev"
  using assms by (rule append_refinement)

theorem run_append_refines_witness:
  "abs_result sample_ext (append_run_event sample_ext time_2 db_queued run_a started)
     = spec_append time_2 (ledger_of sample_ext db_queued) run_a started"
  using sample_wfs sample_events db_queued_log
  by (intro run_append_refines) (simp_all add: i64_bound_def)

text \<open>
  C3: A submission refines the abstract ledger: an idempotency key that is already stored with the
  same digest returns the stored run and changes nothing, with another digest it is a conflict,
  and a new key creates exactly one queued run whose log holds the queued event.
\<close>

theorem run_submit_refines:
  assumes "db_wf E d" and "submittable E d fresh run"
    and "json_from_str E ''{}'' = Some (JObject [])"
  shows "spec_submit fresh now (ledger_of E d) run
           (map_sum id (\<lambda>(r, d'). (rec_id r, ledger_of E d')) (create_or_get_run E fresh now d run))"
  using assms by (rule submit_refinement)

theorem run_submit_refines_witness:
  "spec_submit run_a time_1 (ledger_of sample_ext empty_db) new_a
     (map_sum id (\<lambda>(r, d'). (rec_id r, ledger_of sample_ext d'))
       (create_or_get_run sample_ext run_a time_1 empty_db new_a))"
  using sample_recovery(2) new_a_submittable
  by (intro run_submit_refines) (simp_all add: empty_db_wf)



section \<open>Forward only\<close>

text \<open>
  C5: Once a run is terminal nothing the store does changes it: over any sequence of operations on
  runs, conversations and turns its status and its event log stay as they are, also when its
  conversation is deleted.
\<close>

theorem run_terminal_frozen:
  assumes "(v4_step E)\<^sup>*\<^sup>* d d'" and "turn_inv E d" and "status_of E d rid = Some s"
    and "is_terminal s"
  shows "status_of E d' rid = Some s \<and> events_of d' rid = events_of d rid"
  using assms by (rule turns.steps_terminal)

theorem run_terminal_frozen_witness:
  "status_of sample_ext db_deleted run_a = Some Failed
     \<and> events_of db_deleted run_a = events_of db_failed run_a"
  using sample_delete_step sample_turn_invs(3) sample_v4_states(3)
  by (intro run_terminal_frozen) auto

text \<open>
  C6: Over any sequence of operations on runs, conversations and turns a run follows the lifecycle graph, in at most four
  transitions altogether, and its event log only grows at the end.
\<close>

theorem run_moves_forward:
  assumes "(v4_step E)\<^sup>*\<^sup>* d d'" and "turn_inv E d" and "status_of E d rid = Some s"
  shows "\<exists>t path. status_of E d' rid = Some t \<and> lifecycle_path s path \<and> t = last (s # path)
           \<and> length path \<le> 4 \<and> prefix (events_of d rid) (events_of d' rid)"
proof -
  from turns.steps_path [OF assms] obtain t path where
    "status_of E d' rid = Some t" "lifecycle_path s path" "t = last (s # path)" by blast
  moreover from this(2) have "length path \<le> 4" using lifecycle_path_length by fastforce
  ultimately show ?thesis using turns.steps_log [OF assms(1,2)] by blast
qed

theorem run_moves_forward_witness:
  "\<exists>t path. status_of sample_ext db_failed run_a = Some t \<and> lifecycle_path Queued path
     \<and> t = last (Queued # path) \<and> length path \<le> 4
     \<and> prefix (events_of db_world run_a) (events_of db_failed run_a)"
  using sample_v4_steps(5) sample_turn_invs(2) sample_status
  by (intro run_moves_forward) auto



section \<open>Reading back\<close>

text \<open>
  C8: A page of events is an exact slice of the log: for every cursor, watermark and page size the
  store answers precisely the records after the cursor up to the watermark, the cursor for the
  next page, and whether more is left; the first page fixes the watermark at the end of the log.
\<close>

theorem run_page_exact:
  assumes "db_wf E d" and "run_by_id E d rid = Inr (Some run)" and "log_projects E d run recs"
    and "1 \<le> l" and "l \<le> MAX_RUN_EVENT_PAGE" and "1 \<le> w" and "w \<le> length recs" and "a \<le> w"
    and "through = Some w \<or> through = None \<and> a = 0 \<and> w = length recs"
  shows "run_events_page E d rid a through l =
    Inr \<lparr>page_run_id = rid, page_events = take l (drop a (take w recs)), page_after_sequence = a,
         page_next_after_sequence = min (a + l) w, page_through_sequence = w,
         page_has_more = (min (a + l) w < w)\<rparr>"
  using assms by (rule run_events_page_slice)

theorem run_page_exact_witness:
  "run_events_page sample_ext db_starting run_a 1 (Some 2) 1 =
     Inr \<lparr>page_run_id = run_a, page_events = [starting_entry], page_after_sequence = 1,
          page_next_after_sequence = 2, page_through_sequence = 2, page_has_more = False\<rparr>"
  using run_page_exact [OF _ _ db_starting_projects, of run_a 1 2 1 "Some 2"] sample_wfs sample_runs
  by (simp add: MAX_RUN_EVENT_PAGE_def)



text \<open>
  Snapshots never go back: of two snapshots of a run taken in the order of the store's steps,
  the reducer never reports the second as a regression of the first.
\<close>

lemma run_snapshots_monotone:
  assumes "(store_step E)\<^sup>*\<^sup>* d d'" and "ledger_inv E d"
    and "run_snapshot E d rid = Inr (Some s)" and "run_snapshot E d' rid = Inr (Some s')"
  shows "\<not> snapshot_regresses s s'"
  using assms by (rule snapshots_do_not_regress)

section \<open>The client's reducer\<close>

text \<open>
  C11: Whatever commands and daemon responses reach the reducer, the view it builds is coherent:
  the events of its pages carry consecutive sequence numbers from the first cursor on, follow the
  lifecycle graph and are at most five, and all belong to the run the view is bound to.
\<close>

theorem reducer_view_coherent:
  "let v = reducer_run E empty_view session; pages = view_event_pages v in
     ordered_states (event_states pages) \<and> length (all_events pages) \<le> 5
   \<and> (pages \<noteq> [] \<longrightarrow> map er_sequence (all_events pages) =
        [Suc (page_after_sequence (hd pages))..<Suc (page_next_after_sequence (last pages))])
   \<and> (\<forall>rid. view_run_id v = Some rid \<longrightarrow> (\<forall>p\<in>set pages. page_run_id p = rid))"
proof -
  define v where "v = reducer_run E empty_view session"
  define pages where "pages = view_event_pages v"
  have inv: "view_invariant v"
    unfolding v_def by (rule reducer_run_invariant) (rule empty_view_invariant)
  then have ord: "ordered_states (event_states pages)" by (simp add: view_invariant_def pages_def)
  have "length (event_states pages) \<le> 5"
    using ord lifecycle_path_length
    by (fastforce simp: ordered_states_def split: list.splits)
  then have "length (all_events pages) \<le> 5" by (simp add: event_states_def)
  moreover have "map er_sequence (all_events pages) =
      [Suc (page_after_sequence (hd pages))..<Suc (page_next_after_sequence (last pages))]"
    if "pages \<noteq> []"
    using that inv linked_sequences(1) [of "hd pages" "tl pages"]
    by (simp add: view_invariant_def pages_def)
  ultimately show ?thesis
    using inv ord by (simp add: view_invariant_def v_def pages_def Let_def)
qed

theorem reducer_view_coherent_witness:
  "ordered_states (event_states (view_event_pages (reducer_run sample_ext empty_view sample_session)))"
  using reducer_view_coherent [of sample_ext sample_session] by (simp add: Let_def)

text \<open>
  The continuation the reducer asks for is always a valid command that continues its view:
  it names the run of the view, starts at the cursor of the last page, and keeps the watermark
  that page was cut at.
\<close>

lemma reducer_continuation_valid:
  assumes "next_events_command (reducer_run E empty_view session) l = Inr (Some c)"
  shows "app_command_validate c = Inr ()
       \<and> (\<exists>p. last_page (reducer_run E empty_view session) = Some p \<and> page_has_more p
            \<and> c = CmdRunEvents \<lparr>eq_run_id = page_run_id p,
                   eq_after_sequence = page_next_after_sequence p,
                   eq_through_sequence = Some (page_through_sequence p), eq_limit = l\<rparr>
            \<and> page_next_after_sequence p < page_through_sequence p)"
proof -
  define v where "v = reducer_run E empty_view session"
  have inv: "view_invariant v"
    unfolding v_def by (rule reducer_run_invariant) (rule empty_view_invariant)
  from assms obtain p where p: "last_page v = Some p" "page_has_more p" "1 \<le> l" "l \<le> MAX_RUN_EVENT_PAGE"
    "c = CmdRunEvents \<lparr>eq_run_id = page_run_id p, eq_after_sequence = page_next_after_sequence p,
       eq_through_sequence = Some (page_through_sequence p), eq_limit = l\<rparr>"
    by (auto simp: next_events_command_def v_def split: if_splits option.splits)
  have "p \<in> set (view_event_pages v)"
    using p(1) by (auto simp: last_page_def split: if_splits)
  with inv have "page_shape p" by (simp add: view_invariant_def)
  with p show ?thesis
    unfolding v_def by (auto simp: page_shape_def run_events_query_validate_def rust_simps)
qed

end
