(* ===== verification/Ledger_Theorems.thy ===== *)
theory Ledger_Theorems
  imports Sample_World
begin

text \<open>
  What the ledgers of tool calls and model operations promise: approvals and executions move
  along their machines and end frozen, an approval authorises exactly one execution of exactly
  the approved call, identifiers are never reused, and model operations only progress.
\<close>

section \<open>Approvals\<close>

text \<open>
  Over any sequence of operations of the tool ledger an approval moves along its machine,
  every state it ever had stays on record in order, and a denied, cancelled, expired or consumed
  approval never changes again.
\<close>

lemma approval_moves_forward:
  assumes "tool_step\<^sup>*\<^sup>* d d'" and "tools_wf d" and "approval_status d cid = Some a"
  shows "\<exists>b. approval_status d' cid = Some b \<and> approval_edge\<^sup>*\<^sup>* a b
           \<and> prefix (approval_log d cid) (approval_log d' cid)
           \<and> (\<not> open_state a \<longrightarrow> b = a \<and> approval_log d' cid = approval_log d cid)"
proof -
  have steps: "tool_micro\<^sup>*\<^sup>* d d'" using assms(1,2) by (rule tool_steps_micro)
  have final: "\<not> open_state a \<Longrightarrow> \<not> approval_edge a b" for b
    by (cases a) (simp_all add: open_state_def)
  show ?thesis
    using approvals.steps_status [OF steps assms(2,3)] approvals.steps_log [OF steps assms(2)]
      approvals.steps_final [OF steps assms(2,3)] final by fastforce
qed

lemma approval_moves_forward_witness:
  "\<exists>b. approval_status db_prepared ''call-a'' = Some b \<and> approval_edge\<^sup>*\<^sup>* ApApproved b
     \<and> prefix (approval_log db_approved ''call-a'') (approval_log db_prepared ''call-a'')
     \<and> (\<not> open_state ApApproved \<longrightarrow>
          b = ApApproved \<and> approval_log db_prepared ''call-a'' = approval_log db_approved ''call-a'')"
  using sample_tool_steps(3) sample_tools_wf(2) sample_tool_states(1)
  by (intro approval_moves_forward) auto

text \<open>
  A tool execution is prepared only against an unexpired approval of exactly this call: the
  approval was decided in favour, carries the digest of the call, its deadline has not passed, the
  execution identifier was never used to resolve anything, and preparing consumes the approval.
\<close>

lemma prepare_requires_approval:
  assumes "tools_wf d" and "prepare_tool_execution d cid digest xid now_ms = Inr (Prepared r, d')"
  shows "\<exists>cur. require_approval d cid = Inr cur \<and> ta_state cur = ApApproved
           \<and> ta_call_digest cur = digest \<and> now_ms < ta_expires_at_ms cur \<and> ta_decision_id cur \<noteq> None
           \<and> \<not> resolution_exists d xid \<and> execution_status d cid = None
           \<and> approval_status d' cid = Some ApConsumed \<and> execution_status d' cid = Some ExPrepared
           \<and> tx_execution_id r = xid"
  using prepare_effect [OF assms] by blast

lemma prepare_requires_approval_witness:
  "\<exists>cur. require_approval db_approved ''call-a'' = Inr cur \<and> ta_state cur = ApApproved
     \<and> ta_call_digest cur = digest_a \<and> 300 < ta_expires_at_ms cur \<and> ta_decision_id cur \<noteq> None
     \<and> \<not> resolution_exists db_approved ''execution-a'' \<and> execution_status db_approved ''call-a'' = None
     \<and> approval_status db_prepared ''call-a'' = Some ApConsumed
     \<and> execution_status db_prepared ''call-a'' = Some ExPrepared
     \<and> tx_execution_id execution_a = ''execution-a''"
  using sample_tools_wf(2) sample_calls(3) by (rule prepare_requires_approval)

text \<open>
  An approval authorises one execution: after a call was prepared, no later sequence of
  operations lets the same call be prepared again, with any digest, identifier or clock.
\<close>

theorem approval_consumed_once:
  assumes "tools_wf d" and "prepare_tool_execution d cid digest xid now_ms = Inr (Prepared r, d1)"
    and "tool_step\<^sup>*\<^sup>* d1 d2"
  shows "prepare_tool_execution d2 cid digest' xid' now_ms' \<noteq> Inr (Prepared r', d3)"
proof
  assume again: "prepare_tool_execution d2 cid digest' xid' now_ms' = Inr (Prepared r', d3)"
  have wf1: "tools_wf d1"
    using tool_step_micro [OF tool_step.prepare [OF assms(2)] assms(1)] assms(1)
      approvals.steps_inv by blast
  have steps: "tool_micro\<^sup>*\<^sup>* d1 d2" using assms(3) wf1 by (rule tool_steps_micro)
  have wf2: "tools_wf d2" using steps wf1 by (rule approvals.steps_inv)
  have "execution_status d1 cid = Some ExPrepared" using prepare_effect [OF assms(1,2)] by blast
  then have "execution_status d2 cid \<noteq> None"
    using executions.steps_status [OF steps wf1] by force
  with prepare_effect [OF wf2 again] show False by auto
qed

theorem approval_consumed_once_witness:
  "prepare_tool_execution db_prepared ''call-a'' digest_a ''execution-b'' 301 \<noteq> Inr (Prepared execution_a, db_prepared)"
  using sample_tools_wf(2) sample_calls(3) by (rule approval_consumed_once) simp

text \<open>
  Decisions, cancellations and executions never share an identifier: in every state reached
  from an empty database each resolution identifier belongs to one approval only, no approval
  carries the same identifier twice, and no execution reuses an identifier.
\<close>

lemma resolution_identifiers_unique:
  assumes "tool_step\<^sup>*\<^sup>* empty_db d"
  shows "resolutions_unique d"
  using approvals.steps_inv [OF tool_steps_micro [OF assms empty_tools_wf] empty_tools_wf]
  by (simp add: tools_wf_def)

lemma resolution_identifiers_unique_witness: "resolutions_unique db_pending"
  by (rule resolution_identifiers_unique) (use sample_tool_steps(1) in blast)

text \<open>
  Nobody acts on an expired approval: a read returns an approval as pending or approved only
  while its deadline is ahead, and what it returns is the stored state.
\<close>

theorem expired_approval_never_open:
  assumes "tools_wf d" and "tool_approval d cid now_ms = Inr (Some r, d')" and "open_state (ta_state r)"
  shows "now_ms < ta_expires_at_ms r \<and> approval_status d' cid = Some (ta_state r)"
  using read_effect [OF assms(1,2)] assms(3) by blast

theorem expired_approval_never_open_witness:
  "\<exists>r. tool_approval db_pending ''call-a'' 400 = Inr (Some r, db_pending)
     \<and> 400 < ta_expires_at_ms r \<and> approval_status db_pending ''call-a'' = Some (ta_state r)"
proof -
  have r: "tool_approval db_pending ''call-a'' 400 = Inr (Some (fst (projr created_a)), db_pending)"
    and "open_state (ta_state (fst (projr created_a)))"
    by code_simp+
  with expired_approval_never_open [OF sample_tools_wf(1)] show ?thesis by blast
qed

section \<open>Executions\<close>

text \<open>
  An execution starts once and ends once: in every state reached from an empty database the
  log of an execution holds exactly one prepared event and follows the execution machine to the
  present state, and the execution belongs to a consumed approval.
\<close>

lemma execution_log_exact:
  assumes "tool_step\<^sup>*\<^sup>* empty_db d" and "x \<in> set (tool_executions d)"
  shows "length (filter (\<lambda>l. l = ''prepared'') (map txe_state (execution_log d (tex_call_id x)))) = 1
       \<and> history_of execution_as_str execution_edge ExPrepared
           (map txe_state (execution_log d (tex_call_id x))) (tex_state x)
       \<and> (\<exists>r\<in>set (tool_approvals d). tap_call_id r = tex_call_id x \<and> tap_state r = ''consumed'')"
proof -
  have "executions_wf d"
    using approvals.steps_inv [OF tool_steps_micro [OF assms(1) empty_tools_wf] empty_tools_wf]
    by (simp add: tools_wf_def)
  with assms(2) have h: "history_of execution_as_str execution_edge ExPrepared
      (map txe_state (execution_log d (tex_call_id x))) (tex_state x)"
    and "\<exists>r\<in>set (tool_approvals d). tap_call_id r = tex_call_id x \<and> tap_state r = ''consumed''"
    by (simp_all add: executions_wf_def)
  moreover have "\<not> execution_edge s ExPrepared" for s by (cases s) simp_all
  then have "length (filter (\<lambda>l. l = ''prepared'')
      (map txe_state (execution_log d (tex_call_id x)))) = 1"
    using history_unique_start [OF h inj_labels(2)] by simp
  ultimately show ?thesis by blast
qed

lemma execution_log_exact_witness:
  "length (filter (\<lambda>l. l = ''prepared'') (map txe_state (execution_log db_prepared ''call-a''))) = 1"
proof -
  have steps: "tool_step\<^sup>*\<^sup>* empty_db db_prepared"
    using sample_tool_steps by (meson rtranclp.rtrancl_into_rtrancl rtranclp.rtrancl_refl)
  obtain x where "x \<in> set (tool_executions db_prepared)" "tex_call_id x = ''call-a''"
  proof
    show "hd (tool_executions db_prepared) \<in> set (tool_executions db_prepared)" by code_simp
    show "tex_call_id (hd (tool_executions db_prepared)) = ''call-a''" by code_simp
  qed
  with execution_log_exact [OF steps] show ?thesis by metis
qed



section \<open>Model operations\<close>

text \<open>
  A model operation only progresses: over any sequence of operations it keeps its identity,
  kind, model and creation time, its progress and its time never decrease, and once it is terminal
  its record never changes.
\<close>

lemma model_operation_progresses:
  assumes "model_step\<^sup>*\<^sup>* d d'" and "models_wf d" and "op_row_by_id d oid = Inr (Some a)"
  shows "\<exists>b. op_row_by_id d' oid = Inr (Some b) \<and> mo_progress_basis_points a \<le> mo_progress_basis_points b
           \<and> mo_updated_at_ms a \<le> mo_updated_at_ms b \<and> mo_created_at_ms b = mo_created_at_ms a
           \<and> mo_kind b = mo_kind a \<and> mo_model_id b = mo_model_id a \<and> mo_revision b = mo_revision a
           \<and> (op_terminal (mo_state a) \<longrightarrow> b = a)"
  using assms by (rule model_steps_evolve)

text \<open>
  Recovery of model operations always succeeds, at any clock reading that fits the column,
  also one before the last update: afterwards every operation is terminal, none lost progress or
  went back in time, and the count is the number of operations that were queued or running.
\<close>

lemma model_recovery_total:
  assumes "models_wf d" and "t < i64_bound"
  shows "\<exists>n d'. recover_incomplete_on d t = Inr (n, d')
           \<and> (\<forall>oid a. op_row_by_id d oid = Inr (Some a) \<longrightarrow>
                (\<exists>b. op_row_by_id d' oid = Inr (Some b) \<and> op_terminal (mo_state b)
                   \<and> mo_progress_basis_points a \<le> mo_progress_basis_points b
                   \<and> mo_updated_at_ms a \<le> mo_updated_at_ms b))
           \<and> n = length (filter (\<lambda>r. mow_state r \<in> {''queued'', ''running''}) (model_operations d))"
  using recover_incomplete_effect [OF assms] unfolding model_rows_step_def op_evolves_def by metis

text \<open>
  The model-operation ledger is bounded: no sequence of operations from an empty database
  stores more than 4096 operations or two under one identifier.
\<close>

lemma model_ledger_bounded:
  assumes "model_step\<^sup>*\<^sup>* empty_db d"
  shows "length (model_operations d) \<le> 4096 \<and> distinct (map mow_operation_id (model_operations d))"
  using models.steps_inv [OF assms empty_models_wf] by (simp add: models_wf_def MAX_MODEL_OPERATIONS_def)

end
