(* ===== verification/Wire_Theorems.thy ===== *)
theory Wire_Theorems
  imports V4_Samples
begin

text \<open>
  What crosses the process boundary: the capability policy, the conversation records, the frames of the local socket, the
  bounded serialisation, and the metadata of audit events.
\<close>

section \<open>Policy\<close>

text \<open>
  For a capability set that passed validation the policy is exact: a command is permitted if
  and only if the set contains the capability that command requires, although the code looks it
  up by binary search.
\<close>

lemma policy_exact:
  assumes "capability_set_validate cs = Inr ()"
  shows "permits c cs \<longleftrightarrow> required_capability c \<in> set cs"
  using capability_contains_exact [OF assms] by (simp add: permits_def)

section \<open>Conversation records\<close>

text \<open>
  C31: The validating readers of turn requests, message pages and transcript pages are exact: a
  well-typed value is read back from its own serialisation if and only if it passes validation,
  and then unchanged; and whatever a reader accepts, from any JSON value, is valid and is read back
  unchanged from the serialisation of what was read.
\<close>

theorem conversation_records_exact:
  assumes "submit_turn_typed E t" and "message_page_typed E m" and "content_page_typed E p"
  shows "(read_submit_turn E (v4_submit_turn_json t) = Inr t' \<longleftrightarrow> v4_submit_turn_validate t = Inr () \<and> t' = t)
       \<and> (read_message_page E (v4_message_page_json m) = Inr m' \<longleftrightarrow> v4_message_page_validate E m = Inr () \<and> m' = m)
       \<and> (read_content_page E (v4_content_page_json p) = Inr p' \<longleftrightarrow> v4_content_page_validate E p = Inr () \<and> p' = p)
       \<and> (read_submit_turn E v = Inr t' \<longrightarrow>
            v4_submit_turn_validate t' = Inr () \<and> read_submit_turn E (v4_submit_turn_json t') = Inr t')
       \<and> (read_message_page E v = Inr m' \<longrightarrow>
            v4_message_page_validate E m' = Inr () \<and> read_message_page E (v4_message_page_json m') = Inr m')
       \<and> (read_content_page E v = Inr p' \<longrightarrow>
            v4_content_page_validate E p' = Inr () \<and> read_content_page E (v4_content_page_json p') = Inr p')"
  using submit_turn_wire.written_iff [OF assms(1)] message_page_wire.written_iff [OF assms(2)]
    content_page_wire.written_iff [OF assms(3)] submit_turn_wire.reads_valid submit_turn_wire.normal_form
    message_page_wire.reads_valid message_page_wire.normal_form
    content_page_wire.reads_valid content_page_wire.normal_form by metis

theorem conversation_records_exact_witness:
  "read_submit_turn sample_ext (v4_submit_turn_json turn_a) = Inr turn_a
     \<and> read_content_page sample_ext (v4_content_page_json (candidate_page first_read [hello, world_delta]))
       = Inr (candidate_page first_read [hello, world_delta])"
proof -
  let ?m = "\<lparr>vmg_conversation_id = conv_a, vmg_messages = [], vmg_next_after = None\<rparr>"
  have "message_page_typed sample_ext ?m" by code_simp
  moreover have "content_page_typed sample_ext (candidate_page first_read [hello, world_delta])" by code_simp
  moreover have "v4_submit_turn_validate turn_a = Inr ()" by code_simp
  moreover have "v4_content_page_validate sample_ext (candidate_page first_read [hello, world_delta]) = Inr ()"
    by code_simp
  ultimately show ?thesis using conversation_records_exact [OF turn_a_typed(1)] by blast
qed

section \<open>Frames\<close>

text \<open>
  C32: A frame that was written is read back exactly: for either kind of frame and any bytes that
  follow it on the stream, the reader returns the kind and the payload and leaves the rest.
\<close>

theorem frame_roundtrip:
  assumes "write_frame [] kind bytes m = Inr out" and "grant (length bytes)"
  shows "read_frame grant (out @ rest) m = Inr ((kind, bytes), rest)"
  using assms by (rule read_written_frame)

theorem frame_roundtrip_witness:
  "read_frame (\<lambda>_. True) ([0, 0, 0, 2, 7, 8] @ [9]) 100 = Inr ((Legacy, [7, 8]), [9])"
  by (rule frame_roundtrip) (code_simp, simp)

text \<open>
  The reader never returns or allocates beyond its limit: a frame it accepts is not empty, is
  within the limit of its kind, was granted by the allocator at exactly its length, and consists
  of the bytes of the stream that follow the prefix.
\<close>

lemma frame_read_bounded:
  assumes "read_frame grant input m = Inr ((kind, bytes), rest)"
  shows "bytes \<noteq> [] \<and> length bytes \<le> frame_limit kind m \<and> grant (length bytes)
       \<and> (\<exists>pre. input = pre @ bytes @ rest \<and> length pre = (if kind = Schema3 then 8 else 4))"
  using read_frame_Inr [OF assms] by blast

text \<open>
  Bounded serialisation is exact: with an allocator that grants up to the limit it returns
  the whole serialisation when that fits the limit and an error when it does not, however the
  serialiser cuts it into chunks.
\<close>

lemma serialize_bounded_exact:
  assumes "\<And>n. n \<le> limit \<Longrightarrow> grant n"
  shows "serialize_bounded grant chunks limit =
    (if length (concat chunks) \<le> limit then Inr (concat chunks)
     else Inl (InvalidData ''invalid control frame''))"
  using assms by (rule serialize_bounded_outcome)

section \<open>Audit metadata\<close>

text \<open>
  C35: Audit metadata is safe to keep: whatever value the caller hands over, metadata that is
  accepted is an object within the byte limit whose strings are short and do not look like
  secrets, whose sensitive keys are redacted, whose keys are well formed and whose collections
  are narrow; and sanitising it again changes nothing.
\<close>

theorem audit_metadata_clean:
  assumes "audit_metadata_new E v = Inr w"
  shows "json_clean w \<and> json_nesting w \<le> Suc MAX_DEPTH \<and> length (json_to_string E w) \<le> 4096
       \<and> audit_metadata_new E w = Inr w"
proof -
  have s: "sanitize_value 0 v = Inr w" and len: "length (json_to_string E w) \<le> MAX_METADATA_BYTES"
    and obj: "\<exists>gs. w = JObject gs"
    using assms by (auto simp: audit_metadata_new_Inr)
  have "json_clean w \<and> json_nesting w \<le> Suc MAX_DEPTH" using sanitize_clean(1) [OF s] by simp
  moreover have "audit_metadata_new E w = Inr w"
    using sanitize_idem(1) [OF s] len obj by (auto simp: audit_metadata_new_Inr)
  ultimately show ?thesis using len by (simp add: MAX_METADATA_BYTES_def)
qed

theorem audit_metadata_clean_witness:
  "json_clean (JObject [(''token'', JString REDACTED)])"
proof -
  have "audit_metadata_new sample_ext (JObject [(''token'', JString ''abc'')])
      = Inr (JObject [(''token'', JString REDACTED)])" by code_simp
  from audit_metadata_clean [OF this] show ?thesis by blast
qed

end
