(* ===== verification/V4_Theorems.thy ===== *)
theory V4_Theorems
  imports V4_Samples
begin

text \<open>
  What the conversations of protocol v4 promise: admission of turns, the end of a transcript,
  the preview of an answer, and the reading of transcripts while the store moves on.
\<close>

section \<open>Turns\<close>

lemma next_message_sequence_above:
  assumes "next_message_sequence d c = Inr seq" and "m \<in> set (assistant_messages d)" "mw_conversation_id m = c"
  shows "mw_sequence m < int seq"
proof -
  let ?s = "map mw_sequence (filter (\<lambda>m. mw_conversation_id m = c) (assistant_messages d))"
  have "mw_sequence m \<in> set ?s" using assms(2,3) by auto
  then have "mw_sequence m \<le> Max (set ?s)" "?s \<noteq> []" by (auto simp del: set_map)
  with assms(1) show ?thesis
    by (auto simp: next_message_sequence_def scalar_max_def bindr_eq_Inr ok_or_eq_Inr u64_try_from_Some)
qed

lemma duplicate_submission_Inr:
  assumes "duplicate_submission E d existing req = Inr s"
  shows "vs_duplicate s \<and> vs_run_id s = rec_id existing \<and> vs_state s = rec_status existing
       \<and> rec_request_digest existing = submit_digest E req
       \<and> rec_conversation_id existing = Some (vt_conversation_id req)"
  using assms by (auto simp: duplicate_submission_def Let_def bindr_eq_Inr split: if_splits)



lemma terminal_kind_inj:
  assumes "kind_of (TerminalPayload a) = kind_of (TerminalPayload b)" "is_terminal a" "is_terminal b"
  shows "a = b"
  using assms by (cases a; cases b) simp_all

text \<open>
  C37: A transcript ends exactly when its run does: in every state the store can reach, the events
  of a turn carry increasing sequence numbers, none of them is an end while the run is live, and
  once the run ended the last event and no other is the end, with the final state of the run,
  unless the conversation was deleted with all its events.
\<close>

theorem transcript_ends_once:
  assumes "(v4_step E)\<^sup>*\<^sup>* d0 d" and "content_inv E d0" and "(rid, c) \<in> set (turn_keys d)"
  shows "sorted_wrt (<) (map ce_sequence (transcript E d rid))
       \<and> (live (status_of E d) rid \<longrightarrow> (\<forall>ev\<in>set (transcript E d rid). \<not> is_terminal_payload (ce_payload ev)))
       \<and> (\<forall>s. status_of E d rid = Some s \<and> is_terminal s \<longrightarrow>
            transcript E d rid = [] \<and> gone_of d c
          \<or> (\<exists>es m. transcript E d rid = es @ [m] \<and> ce_payload m = TerminalPayload s
               \<and> (\<forall>ev\<in>set es. \<not> is_terminal_payload (ce_payload ev))))"
proof -
  have inv: "content_inv E d" using assms(1,2) by (rule v4_steps_content)
  note key = assms(3)
  have exact: "ce_payload m = TerminalPayload s"
    if "m \<in> set (transcript E d rid)" "kind_of (ce_payload m) = kind_of (TerminalPayload s)"
      "is_terminal_payload (ce_payload m)" "is_terminal s" for m s
  proof (cases "ce_payload m")
    case (TerminalPayload a)
    have "is_terminal a" using transcript_member [OF inv key that(1)] TerminalPayload
      by (simp add: content_event_bounds v4_ensure_def ensure_eq_Inr)
    with that(2,4) TerminalPayload terminal_kind_inj show ?thesis by metis
  qed (use that(3) in simp_all)
  show ?thesis
    using transcript_sorted [OF inv key] transcript_open [OF inv key] transcript_closed [OF inv key] exact
    by fastforce
qed

theorem transcript_ends_once_witness:
  "\<exists>es m. transcript sample_ext db_failed run_a = es @ [m] \<and> ce_payload m = TerminalPayload Failed
     \<and> (\<forall>ev\<in>set es. \<not> is_terminal_payload (ce_payload ev))"
  using transcript_ends_once [of sample_ext db_world db_failed run_a conv_a] sample_v4_steps(5) sample_v4_invs(4)
    sample_v4_states by auto

section \<open>Previews\<close>

text \<open>
  C38: The preview of an answer is what one pass over its whole text gives: in every state the
  store can reach, a turn whose deltas hold no text has no answer, and otherwise exactly one, whose
  body is the text of all its deltas, cut at the last character that ends within 16 KiB, and whose
  byte count is that of the whole text; extending it never underflows.
\<close>

theorem preview_is_prefix_of_text:
  assumes "(v4_step E)\<^sup>*\<^sup>* d0 d" and "content_inv E d0"
  shows "map (\<lambda>m. (mw_body m, mw_text_bytes m))
           (filter (\<lambda>m. mw_run_id m = rid \<and> mw_role m = ''assistant'') (assistant_messages d))
         = (if turn_text E d rid = [] then []
            else [(preview_text (turn_text E d rid), int (length (turn_text E d rid)))])
       \<and> (\<exists>body. extend_preview (map_option (\<lambda>m. (mw_body m, mw_text_bytes m)) (assistant_message_of d rid)) delta
            = Inr body)"
proof -
  have inv: "preview_inv E d" using v4_steps_content [OF assms] by (simp add: content_inv_def)
  have shown: "map_option (\<lambda>m. (mw_body m, mw_text_bytes m)) (assistant_message_of d rid) = shown (previews d rid)"
    by (simp add: assistant_message_of_def previews_def message_previews_shown)
  have "preview_ok (transcript E d rid) (previews d rid)" using inv by (simp add: preview_inv_def)
  then have "map snd (previews d rid) = (if turn_text E d rid = [] then []
      else [(preview_text (turn_text E d rid), int (length (turn_text E d rid)))])"
    by (auto simp: preview_ok_def turn_text_def)
  moreover have "map snd (previews d rid) = map (\<lambda>m. (mw_body m, mw_text_bytes m))
      (filter (\<lambda>m. mw_run_id m = rid \<and> mw_role m = ''assistant'') (assistant_messages d))"
    by (simp add: previews_def message_previews_def comp_def)
  ultimately show ?thesis using extend_preview_total [OF inv] shown by simp
qed

theorem preview_is_prefix_of_text_witness:
  "map (\<lambda>m. (mw_body m, mw_text_bytes m))
     (filter (\<lambda>m. mw_run_id m = run_a \<and> mw_role m = ''assistant'') (assistant_messages db_world))
   = [(preview_text ''Hello, world'', 12)]"
proof -
  have "turn_text sample_ext db_world run_a = ''Hello, world''"
    by (simp add: turn_text_def sample_v4_states(4) events_text_def hello_def world_delta_def)
  with preview_is_prefix_of_text [of sample_ext db_hello db_world run_a] sample_v4_steps(4) sample_v4_invs(3)
  show ?thesis by auto
qed

section \<open>Reading transcripts\<close>

text \<open>
  C39: A reader that follows the pages of a transcript while the store moves on never sees a gap, a
  repetition or a reordering: what it has collected is the beginning of the transcript, or the
  turn ended and its conversation was deleted meanwhile; and once the last event it has is an end
  it has the whole transcript.
\<close>

theorem reader_sees_prefix:
  assumes "reading E c rid d acc"
  shows "(prefix acc (transcript E d rid) \<or> transcript E d rid = [] \<and> ended E d rid)
       \<and> ((rid, c) \<in> set (turn_keys d) \<and> prefix acc (transcript E d rid) \<and> acc \<noteq> []
            \<and> is_terminal_payload (ce_payload (last acc)) \<longrightarrow> acc = transcript E d rid)"
proof -
  have inv: "content_inv E d" and pre: "prefix acc (transcript E d rid) \<or> transcript E d rid = [] \<and> ended E d rid"
    using reading_prefix [OF assms] by blast+
  have "acc = transcript E d rid"
    if "(rid, c) \<in> set (turn_keys d)" "prefix acc (transcript E d rid)" "acc \<noteq> []" "is_terminal_payload (ce_payload (last acc))"
  proof -
    from that(2) obtain rest where "transcript E d rid = acc @ rest" by (auto simp: prefix_def)
    moreover have "acc = butlast acc @ [last acc]" using that(3) by simp
    ultimately have "transcript E d rid = butlast acc @ last acc # rest" by (metis append_Cons append_Nil append_assoc)
    with transcript_end_last [OF inv that(1) this that(4)] that(3) show ?thesis by simp
  qed
  with pre show ?thesis by blast
qed

theorem reader_sees_prefix_witness:
  "reading sample_ext conv_a run_a db_failed [hello, world_delta, failure_mark]
     \<and> [hello, world_delta, failure_mark] = transcript sample_ext db_failed run_a"
proof -
  have "reading sample_ext conv_a run_a db_world [hello, world_delta]"
    using reading.page [OF reading.start [OF sample_v4_invs(4)] _ _ _ sample_pages(1)] by (simp add: first_read_def cursor_def candidate_page_def)
  from reading.page [OF reading.move [OF this sample_v4_steps(5)] _ _ _ sample_pages(2)]
  have r: "reading sample_ext conv_a run_a db_failed [hello, world_delta, failure_mark]"
    by (simp add: second_read_def cursor_def candidate_page_def world_delta_def)
  from reader_sees_prefix [OF this] sample_v4_states have "[hello, world_delta, failure_mark] = transcript sample_ext db_failed run_a"
    by (auto simp: failure_mark_def)
  with r show ?thesis by blast
qed

text \<open>
  C40: A reader always gets on: a query of any legal page size at the last event it has is
  answered, the answer continues the transcript, holds at least one event while there is one it
  has not seen, and carries a cursor unless it is empty or ends the turn.
\<close>

theorem reader_makes_progress:
  assumes "content_inv E d" and "(rid, c) \<in> set (turn_keys d)" and "transcript E d rid = acc @ rest"
    and "1 \<le> limit" "limit \<le> MAX_V4_PAGE" and "conversation_row_of d c = Inr (Some conv)"
    and "wire_bounded E" "canonical E c" "canonical E rid"
  shows "\<exists>pg k. v4_content_events E d \<lparr>kq_conversation_id = c, kq_run_id = rid, kq_after = cursor acc, kq_limit = limit\<rparr>
             = Inr pg
           \<and> kg_events pg = take k rest \<and> (rest \<noteq> [] \<longrightarrow> kg_events pg \<noteq> [])
           \<and> (kg_next_after pg = None \<longleftrightarrow> kg_events pg = [] \<or> is_terminal_payload (ce_payload (last (kg_events pg))))"
proof -
  let ?q = "\<lparr>kq_conversation_id = c, kq_run_id = rid, kq_after = cursor acc, kq_limit = limit\<rparr>"
  from v4_content_answers [OF assms(1-3) refl assms(4-9)] obtain k where
    "v4_content E d ?q = Inr (candidate_page ?q (take k rest))" "rest \<noteq> [] \<longrightarrow> take k rest \<noteq> []" by blast
  moreover have "kg_next_after (candidate_page ?q es) = None
      \<longleftrightarrow> es = [] \<or> is_terminal_payload (ce_payload (last es))" for es
    by (simp add: candidate_page_def content_next_after_def)
  moreover have "kg_events (candidate_page ?q es) = es" for es by (simp add: candidate_page_def)
  ultimately show ?thesis unfolding v4_content_events_def by metis
qed

theorem reader_makes_progress_witness:
  "\<exists>pg. v4_content_events sample_ext db_world
      \<lparr>kq_conversation_id = conv_a, kq_run_id = run_a, kq_after = 1, kq_limit = 50\<rparr> = Inr pg \<and> kg_events pg \<noteq> []"
proof -
  obtain cv where "conversation_row_of db_world conv_a = Inr (Some cv)" using sample_row by blast
  from reader_makes_progress [OF sample_v4_invs(4) _ _ _ _ this sample_bounded turn_a_typed(3,2),
      where acc = "[hello]" and rest = "[world_delta]" and limit = 50]
  show ?thesis using sample_v4_states by (auto simp: cursor_def hello_def MAX_V4_PAGE_def)
qed

end
