(* ===== verification/V4_Context.thy ===== *)
theory V4_Context
  imports V4_Reading
begin

text \<open>
  The history that a turn is answered with: \<open>src/runtime/store/v4_context.rs\<close>. The store
  collects the questions and answers of earlier succeeded turns on the same route, newest first
  and within a byte budget, and checks every answer against the transcript it is read from.
\<close>

section \<open>Rows\<close>

record v4_context_pair =
  xp_user :: string
  xp_assistant :: string

record v4_turn_context =
  tc_pairs :: "v4_context_pair list"
  tc_truncated :: bool

definition saturating_add :: "nat \<Rightarrow> nat \<Rightarrow> nat" where
  "saturating_add a b = min (a + b) (u64_bound - 1)"

definition ADMITTED :: string where "ADMITTED = ''[admitted]''"

text \<open>The binding of the current turn, checked against its run and its user message.\<close>

definition current_turn :: "externals \<Rightarrow> db \<Rightarrow> run_id \<Rightarrow> v4_submit_turn \<Rightarrow> turn_row option" where
  "current_turn E d rid request = find (\<lambda>t.
       tw_run_id t = rid \<and> tw_conversation_id t = vt_conversation_id request
     \<and> tw_route_id t = vt_route_id request
     \<and> list_ex (\<lambda>r. rw_id r = tw_run_id t \<and> rw_conversation_id r = Some (vt_conversation_id request)
         \<and> rw_request_digest r = submit_digest E request
         \<and> rw_idempotency_key r = vt_idempotency_key request) (runs d)
     \<and> list_ex (\<lambda>m. tw_user_message_id t = Some (mw_id m)
         \<and> mw_conversation_id m = vt_conversation_id request \<and> mw_run_id m = rid \<and> mw_role m = ''user''
         \<and> mw_sequence m = tw_user_sequence t \<and> mw_body m = vt_input request
         \<and> mw_text_bytes m = int (length (mw_body m))) (assistant_messages d)) (assistant_turns d)"

text \<open>The LEFT JOIN with the assistant messages of a turn's run.\<close>

definition linked_answers :: "db \<Rightarrow> turn_row \<Rightarrow> message_row list" where
  "linked_answers d t = filter (\<lambda>a. mw_run_id a = tw_run_id t \<and> mw_role a = ''assistant''
       \<and> (case tw_assistant_message_id t of None \<Rightarrow> True | Some i \<Rightarrow> i = mw_id a)) (assistant_messages d)"

definition join_answers :: "db \<Rightarrow> turn_row \<Rightarrow> (turn_row \<times> string option) list" where
  "join_answers d t =
     (case linked_answers d t of [] \<Rightarrow> [(t, None)] | as \<Rightarrow> map (\<lambda>a. (t, Some (mw_id a))) as)"

definition prior_turn :: "db \<Rightarrow> v4_submit_turn \<Rightarrow> int \<Rightarrow> turn_row \<Rightarrow> bool" where
  "prior_turn d request before t \<longleftrightarrow>
     tw_conversation_id t = vt_conversation_id request \<and> tw_route_id t = vt_route_id request
   \<and> tw_user_sequence t < before
   \<and> list_ex (\<lambda>r. rw_id r = tw_run_id t \<and> rw_conversation_id r = Some (tw_conversation_id t)
       \<and> rw_status r = ''succeeded'') (runs d)"

definition context_identities ::
    "db \<Rightarrow> v4_submit_turn \<Rightarrow> int \<Rightarrow> store_error + (run_id \<times> string \<times> string option) list" where
  "context_identities d request before =
     collect_results (\<lambda>(t, aid).
         bindr (ok_or (tw_user_message_id t) (Database (SqlConversion ''user_message_id''))) (\<lambda>uid.
           Inr (tw_run_id t, uid, aid)))
       (take 33 (sort_key (\<lambda>(t, _). - tw_user_sequence t)
         (concat (map (join_answers d) (filter (prior_turn d request before) (assistant_turns d))))))"

text \<open>The content events of a run with their payloads, where there is one.\<close>

definition context_events ::
    "db \<Rightarrow> conversation_id \<Rightarrow> run_id \<Rightarrow> nat \<Rightarrow> (content_event_row \<times> string option) list" where
  "context_events d cid rid limit =
     map (\<lambda>e. (e, map_option pw_payload_json
            (find (\<lambda>p. pw_conversation_id p = kw_conversation_id e \<and> pw_sequence p = kw_sequence e)
              (assistant_content_payloads d))))
       (take limit (sort_key kw_sequence
         (filter (\<lambda>e. kw_conversation_id e = cid \<and> kw_run_id e = rid) (assistant_content_events d))))"

section \<open>The pass over a transcript\<close>

record context_scan =
  sc_count :: nat
  sc_terminal :: bool
  sc_parsed_bytes :: nat
  sc_first_text :: bool
  sc_legacy_marker :: bool
  sc_legacy_encoding :: bool
  sc_oversized :: bool
  sc_actual_bytes :: nat
  sc_assistant :: string

definition scan_start :: context_scan where
  "scan_start = \<lparr>sc_count = 0, sc_terminal = False, sc_parsed_bytes = 0, sc_first_text = True,
     sc_legacy_marker = False, sc_legacy_encoding = False, sc_oversized = False, sc_actual_bytes = 0,
     sc_assistant = []\<rparr>"

text \<open>\<open>text[..take]\<close> with \<open>take\<close> stepped back to a boundary; \<open>output_budget\<close> bounds the buffer.\<close>

definition scan_text ::
    "nat \<Rightarrow> content_event_row \<Rightarrow> string \<Rightarrow> string \<Rightarrow> context_scan \<Rightarrow> store_error + context_scan" where
  "scan_text budget e js str s =
     (let s1 = s\<lparr>sc_legacy_encoding := sc_legacy_encoding s \<or> kw_byte_count e = int (length js)\<rparr> in
      if kw_byte_count e \<noteq> int (length str) \<and> kw_byte_count e \<noteq> int (length js)
         \<or> kw_kind e \<noteq> ''output_bounded''
      then Inl (CorruptData ''context text metadata invalid'')
      else if sc_first_text s \<and> sc_count s = 1 \<and> str = ADMITTED \<and> kw_byte_count e = int (length js)
      then Inr (s1\<lparr>sc_first_text := False, sc_legacy_marker := True\<rparr>)
      else
        let actual = saturating_add (sc_actual_bytes s) (length str);
            n = floor_boundary str (min (length str) (budget - length (sc_assistant s))) in
        if actual > MAX_V4_CONTENT_BYTES then Inl (CorruptData ''context text invalid'')
        else Inr (s1\<lparr>sc_first_text := False, sc_actual_bytes := actual,
               sc_oversized := sc_oversized s \<or> actual > budget,
               sc_assistant := sc_assistant s @ take n str\<rparr>))"

definition scan_row ::
    "externals \<Rightarrow> nat \<Rightarrow> content_event_row \<times> string option \<Rightarrow> context_scan \<Rightarrow> store_error + context_scan" where
  "scan_row E budget row s0 =
     (let s = s0\<lparr>sc_count := sc_count s0 + 1\<rparr> in
      bindr (ok_or (snd row) (CorruptData ''context event bound invalid'')) (\<lambda>js.
        if sc_count s > 65536 \<or> sc_terminal s \<or> length js > MAX_V4_DELTA_BYTES * 6 + 1024
        then Inl (CorruptData ''context event bound invalid'')
        else
          let parsed = saturating_add (sc_parsed_bytes s) (length js);
              s1 = s\<lparr>sc_parsed_bytes := parsed\<rparr> in
          if parsed > MAX_V4_CONTENT_BYTES * 6 + 1024
          then Inl (CorruptData ''context aggregate bound invalid'')
          else
            bindr (ok_or (json_from_str E js) (CorruptData ''context payload invalid'')) (\<lambda>v.
            bindr (map_err (\<lambda>_. CorruptData ''context payload invalid'') (read_content_payload v)) (\<lambda>payload.
            bindr (map_err (\<lambda>_. CorruptData ''context payload invalid'')
                    (v4_content_payload_validate payload)) (\<lambda>_.
              case payload of
                TextDelta str \<Rightarrow> scan_text budget (fst row) js str s1
              | TerminalPayload state \<Rightarrow>
                  if state = Succeeded then Inr (s1\<lparr>sc_terminal := True\<rparr>)
                  else Inl (CorruptData ''context terminal invalid'')
              | _ \<Rightarrow> Inr s1)))))"

fun scan_rows ::
    "externals \<Rightarrow> nat \<Rightarrow> (content_event_row \<times> string option) list \<Rightarrow> context_scan \<Rightarrow>
     store_error + context_scan" where
  "scan_rows E budget [] s = Inr s"
| "scan_rows E budget (row # rows) s = bindr (scan_row E budget row s) (scan_rows E budget rows)"

text \<open>\<open>bytes\<close> is the stored count of the answer, \<open>preview\<close> its stored body.\<close>

definition strip_marker :: "string \<Rightarrow> int \<Rightarrow> context_scan \<Rightarrow> bool" where
  "strip_marker preview bytes s \<longleftrightarrow> sc_legacy_marker s \<and> preview \<noteq> [] \<and> prefix preview (sc_assistant s)
     \<and> sc_actual_bytes s \<ge> length preview
     \<and> (int (sc_actual_bytes s) = bytes \<or> bytes = int (length preview))"

definition restore_marker :: "nat \<Rightarrow> string \<Rightarrow> int \<Rightarrow> context_scan \<Rightarrow> context_scan" where
  "restore_marker budget preview bytes s =
     (if sc_legacy_marker s \<and> \<not> strip_marker preview bytes s
      then
        let actual = saturating_add (sc_actual_bytes s) (length ADMITTED);
            n = floor_boundary (sc_assistant s)
                  (min (length (sc_assistant s)) (budget - length ADMITTED)) in
        s\<lparr>sc_actual_bytes := actual, sc_assistant := ADMITTED @ take n (sc_assistant s),
          sc_oversized := sc_oversized s \<or> actual > budget\<rparr>
      else s)"

definition scan_complete :: "string \<Rightarrow> int \<Rightarrow> context_scan \<Rightarrow> bool" where
  "scan_complete preview bytes s \<longleftrightarrow> sc_terminal s
     \<and> (int (sc_actual_bytes s) = bytes
        \<or> sc_legacy_encoding s \<and> bytes = int (length preview) \<and> sc_actual_bytes s \<ge> length preview)
     \<and> prefix preview (sc_assistant s)"

section \<open>The pairs\<close>

definition context_user :: "db \<Rightarrow> conversation_id \<Rightarrow> run_id \<Rightarrow> string \<Rightarrow> message_row option" where
  "context_user d cid rid uid = find (\<lambda>u. mw_id u = uid \<and> mw_conversation_id u = cid \<and> mw_run_id u = rid
     \<and> mw_role u = ''user'') (assistant_messages d)"

definition context_answer :: "db \<Rightarrow> conversation_id \<Rightarrow> run_id \<Rightarrow> string \<Rightarrow> message_row option" where
  "context_answer d cid rid aid = find (\<lambda>a. mw_id a = aid \<and> mw_conversation_id a = cid \<and> mw_run_id a = rid
     \<and> mw_role a = ''assistant'' \<and> mw_state a = ''succeeded'') (assistant_messages d)"

text \<open>One turn of the loop over the identities: \<open>None\<close> is a pair left out for its size.\<close>

definition context_pair ::
    "externals \<Rightarrow> db \<Rightarrow> conversation_id \<Rightarrow> run_id \<Rightarrow> string \<Rightarrow> string \<Rightarrow> nat \<Rightarrow>
     store_error + v4_context_pair option" where
  "context_pair E d cid rid uid aid remaining =
     bindr (ok_or (context_user d cid rid uid) (CorruptData ''context pair invalid'')) (\<lambda>u.
     bindr (ok_or (context_answer d cid rid aid) (CorruptData ''context pair invalid'')) (\<lambda>a.
       let user = mw_body u; preview = mw_body a; bytes = mw_text_bytes a;
           budget = remaining - length user in
       if bytes < 0 \<or> bytes > int MAX_V4_CONTENT_BYTES
       then Inl (CorruptData ''context lengths invalid'')
       else if int (length user) + bytes > int remaining then Inr None
       else if length preview > 16384 then Inl (CorruptData ''context preview invalid'')
       else
         bindr (scan_rows E budget (context_events d cid rid 65537) scan_start) (\<lambda>s0.
           let s = restore_marker budget preview bytes s0 in
           if \<not> scan_complete preview bytes s then Inl (CorruptData ''context output incomplete'')
           else if sc_oversized s then Inr None
           else Inr (Some \<lparr>xp_user = user, xp_assistant = sc_assistant s\<rparr>))))"

text \<open>A succeeded turn without an answer holds at most a marker, a notice and its end.\<close>

fun empty_rows ::
    "externals \<Rightarrow> (content_event_row \<times> string option) list \<Rightarrow> bool \<Rightarrow> bool \<Rightarrow> nat \<Rightarrow> store_error + bool" where
  "empty_rows E [] terminal notice index = Inr terminal"
| "empty_rows E ((e, payload_json) # rows) terminal notice index =
     (if terminal \<or> index \<ge> 3 then Inl (CorruptData ''empty context events invalid'')
      else
        bindr (ok_or (case payload_json of Some js \<Rightarrow> if length js \<le> 1024 then Some js else None | None \<Rightarrow> None)
                (CorruptData ''empty context payload missing'')) (\<lambda>js.
        bindr (ok_or (json_from_str E js) (CorruptData ''empty context payload invalid'')) (\<lambda>v.
        bindr (map_err (\<lambda>_. CorruptData ''empty context payload invalid'') (read_content_payload v)) (\<lambda>payload.
        bindr (map_err (\<lambda>_. CorruptData ''empty context payload invalid'')
                (v4_content_payload_validate payload)) (\<lambda>_.
          if kw_byte_count e \<noteq> int (length js) then Inl (CorruptData ''empty context byte count invalid'')
          else if payload = TerminalPayload Succeeded \<and> kw_kind e = ''completed''
          then empty_rows E rows True notice (index + 1)
          else if payload = NoticePayload NoticeTruncated \<and> \<not> notice \<and> kw_kind e = ''output_bounded''
          then empty_rows E rows terminal True (index + 1)
          else if payload = TextDelta ADMITTED \<and> index = 0 \<and> kw_kind e = ''output_bounded''
          then empty_rows E rows terminal notice (index + 1)
          else Inl (CorruptData ''empty context content invalid''))))))"

definition validate_empty_success ::
    "externals \<Rightarrow> db \<Rightarrow> conversation_id \<Rightarrow> run_id \<Rightarrow> store_error + unit" where
  "validate_empty_success E d cid rid =
     bindr (empty_rows E (context_events d cid rid 4) False False 0) (\<lambda>terminal.
       ensure terminal (CorruptData ''empty context terminal missing''))"

text \<open>The pairs collect newest first.\<close>

fun context_loop ::
    "externals \<Rightarrow> db \<Rightarrow> conversation_id \<Rightarrow> (run_id \<times> string \<times> string option) list \<Rightarrow> nat \<Rightarrow>
     v4_turn_context \<Rightarrow> store_error + v4_turn_context" where
  "context_loop E d cid [] remaining ctx = Inr ctx"
| "context_loop E d cid ((rid, uid, None) # ids) remaining ctx =
     bindr (validate_empty_success E d cid rid) (\<lambda>_. context_loop E d cid ids remaining ctx)"
| "context_loop E d cid ((rid, uid, Some aid) # ids) remaining ctx =
     bindr (context_pair E d cid rid uid aid remaining) (\<lambda>found.
       case found of
         None \<Rightarrow> context_loop E d cid ids remaining (ctx\<lparr>tc_truncated := True\<rparr>)
       | Some p \<Rightarrow> context_loop E d cid ids (remaining - (length (xp_user p) + length (xp_assistant p)))
                     (ctx\<lparr>tc_pairs := tc_pairs ctx @ [p]\<rparr>))"

definition v4_turn_context ::
    "externals \<Rightarrow> db \<Rightarrow> run_id \<Rightarrow> v4_submit_turn \<Rightarrow> nat \<Rightarrow> store_error + v4_turn_context" where
  "v4_turn_context E d rid request max_bytes =
     bindr (map_err (\<lambda>_. InvalidInput ''context request invalid'') (v4_submit_turn_validate request)) (\<lambda>_.
       if max_bytes > 24 * 1024 then Inl (InvalidInput ''context bound invalid'')
       else
         bindr (ok_or (current_turn E d rid request) AssistantConflict) (\<lambda>t.
         bindr (context_identities d request (tw_user_sequence t)) (\<lambda>identities.
         bindr (context_loop E d (vt_conversation_id request) (take 32 identities) max_bytes
                 \<lparr>tc_pairs = [], tc_truncated = length identities > 32\<rparr>) (\<lambda>ctx.
           Inr (ctx\<lparr>tc_pairs := rev (tc_pairs ctx)\<rparr>)))))"

end
