(* ===== verification/Provider.thy ===== *)
theory Provider
  imports Run_Manager V4_Context
begin

text \<open>
  The executor of the daemon: \<open>src/runtime/provider.rs\<close> with the content sink
  (\<open>src/runtime/provider/content_sink.rs\<close>), the prompt of a conversational turn
  (\<open>src/runtime/provider/conversation.rs\<close>) and the framing of its history
  (\<open>src/agent/argv.rs\<close>). Model providers, their events and \<open>run_provider\<close> belong to the crate
  abi-agent-runtime: a provider is an argument, the events it emits and the report it gives.
\<close>

section \<open>Routes\<close>

definition MAX_MODEL_ID_BYTES :: nat where "MAX_MODEL_ID_BYTES = 256"
definition MAX_PROVIDER_ID_BYTES :: nat where "MAX_PROVIDER_ID_BYTES = 128"

datatype provider_config_error =
  EmptyRoutes | DuplicateBackend | InvalidModel | InvalidProvider | UnboundedBudget

text \<open>What the sources use of abi-agent-runtime.\<close>

record run_budget =
  bg_max_events :: "nat option"
  bg_max_output_tokens :: "nat option"
  bg_max_duration :: "nat option"

datatype model_event =
  ModelStarted string | ModelTextDelta string | ModelFinished | ModelToolCall | ModelToolResult | ModelOther

datatype budget_limit = LimitDuration | LimitEvents | LimitOutputTokens

datatype stop_reason = StopCompleted | StopCancelled | StopFailed | StopBudget budget_limit

record provider_report =
  rp_stop :: stop_reason
  rp_truncated :: bool

text \<open>\<open>pv_run\<close> stands for \<open>run_provider\<close> at a moment, on a model, a user text and a budget.\<close>

record model_provider =
  pv_id :: string
  pv_run :: "nat \<Rightarrow> string \<Rightarrow> string \<Rightarrow> run_budget \<Rightarrow> model_event list \<times> provider_report option"

record provider_route =
  pr_backend :: backend_selection
  pr_model :: string
  pr_provider :: model_provider
  pr_budget :: run_budget

definition valid_identifier :: "string \<Rightarrow> nat \<Rightarrow> bool" where
  "valid_identifier value maximum \<longleftrightarrow> value \<noteq> [] \<and> length value \<le> maximum
     \<and> list_all (\<lambda>c. 33 \<le> byte_of c \<and> byte_of c \<le> 126) value"

definition finite_budget :: "run_budget \<Rightarrow> bool" where
  "finite_budget b \<longleftrightarrow>
     (case bg_max_events b of None \<Rightarrow> False | Some v \<Rightarrow> v > 0)
   \<and> (case bg_max_output_tokens b of None \<Rightarrow> False | Some v \<Rightarrow> v > 0)
   \<and> (case bg_max_duration b of None \<Rightarrow> False | Some v \<Rightarrow> v > 0)"

definition provider_route_new ::
    "backend_selection \<Rightarrow> string \<Rightarrow> model_provider \<Rightarrow> run_budget \<Rightarrow> provider_config_error + provider_route" where
  "provider_route_new backend model provider budget =
     (if \<not> valid_identifier model MAX_MODEL_ID_BYTES then Inl InvalidModel
      else if \<not> valid_identifier (pv_id provider) MAX_PROVIDER_ID_BYTES then Inl InvalidProvider
      else if \<not> finite_budget budget then Inl UnboundedBudget
      else Inr \<lparr>pr_backend = backend, pr_model = model, pr_provider = provider, pr_budget = budget\<rparr>)"

text \<open>The \<open>BTreeMap\<close> of routes is the list of its values in the order of their backends.\<close>

type_synonym provider_executor = "provider_route list"

fun insert_routes ::
    "provider_route list \<Rightarrow> provider_executor \<Rightarrow> provider_config_error + provider_executor" where
  "insert_routes [] table = Inr table"
| "insert_routes (route # routes) table =
     (if pr_backend route \<in> pr_backend ` set table then Inl DuplicateBackend
      else insert_routes routes (insort_key pr_backend route table))"

definition deny_all :: provider_executor where "deny_all = []"

definition provider_executor_new :: "provider_route list \<Rightarrow> provider_config_error + provider_executor" where
  "provider_executor_new routes =
     bindr (insert_routes routes []) (\<lambda>table. if table = [] then Inl EmptyRoutes else Inr table)"

fun route_prefix :: "backend_selection \<Rightarrow> string" where
  "route_prefix Abi = ''abi''"
| "route_prefix FoundationModels = ''fm''"
| "route_prefix Cursor = ''cursor''"
| "route_prefix Grok = ''grok''"

definition v4_route_id :: "backend_selection \<Rightarrow> string \<Rightarrow> string" where
  "v4_route_id backend model = route_prefix backend @ ''.'' @ model"

definition route_for_v4 :: "provider_executor \<Rightarrow> string \<Rightarrow> provider_route option" where
  "route_for_v4 table route_id = find (\<lambda>r. v4_route_id (pr_backend r) (pr_model r) = route_id) table"

definition route_of_backend :: "provider_executor \<Rightarrow> backend_selection \<Rightarrow> provider_route option" where
  "route_of_backend table backend = find (\<lambda>r. pr_backend r = backend) table"

definition unsupported :: execution_error where
  "unsupported = with_kind ExUnsupported ''provider route is unsupported''"

definition provider_failed :: execution_error where
  "provider_failed = with_kind ExProviderExit ''provider execution failed''"

definition budget_error :: "budget_limit \<Rightarrow> execution_error" where
  "budget_error limit =
     with_kind (case limit of LimitDuration \<Rightarrow> ExTimedOut | _ \<Rightarrow> ExOutputLimit)
       ''provider execution exhausted its budget''"

section \<open>Sinks\<close>

record sink =
  sk_expected_model :: string
  sk_started :: bool
  sk_terminal :: bool
  sk_invalid :: bool

definition sink_new :: "string \<Rightarrow> sink" where
  "sink_new model = \<lparr>sk_expected_model = model, sk_started = False, sk_terminal = False, sk_invalid = False\<rparr>"

definition sink_validate :: "sink \<Rightarrow> execution_error + unit" where
  "sink_validate s = ensure (sk_started s \<and> sk_terminal s \<and> \<not> sk_invalid s) unsupported"

text \<open>The sink of a one-shot run checks the order of the events and keeps no text.\<close>

fun boundary_emit :: "model_event \<Rightarrow> sink \<Rightarrow> sink" where
  "boundary_emit (ModelStarted model) s =
     (if \<not> sk_started s \<and> \<not> sk_terminal s \<and> model = sk_expected_model s
      then s\<lparr>sk_started := True\<rparr> else s\<lparr>sk_invalid := True\<rparr>)"
| "boundary_emit (ModelTextDelta _) s =
     (if sk_started s \<and> \<not> sk_terminal s then s else s\<lparr>sk_invalid := True\<rparr>)"
| "boundary_emit ModelFinished s =
     (if sk_started s \<and> \<not> sk_terminal s then s\<lparr>sk_terminal := True\<rparr> else s\<lparr>sk_invalid := True\<rparr>)"
| "boundary_emit _ s = s\<lparr>sk_invalid := True\<rparr>"

text \<open>
  \<open>store.v4_append_content(run_id, payload, now_ms())\<close> as a call of the shared store.
\<close>

definition store_append ::
    "world \<Rightarrow> run_id \<Rightarrow> v4_content_payload \<Rightarrow> manager \<Rightarrow> (store_error + v4_content_event) \<times> manager" where
  "store_append W rid payload m =
     (let m1 = interleave W m in
      case v4_append_content (w_ext W) (w_fresh_message W (mg_tick m)) (mg_db m1) rid payload
             (w_now_ms W (mg_tick m)) of
        Inl e \<Rightarrow> (Inl e, m1)
      | Inr (ev, d) \<Rightarrow> (Inr ev, m1\<lparr>mg_db := d\<rparr>))"

lemma store_append_Inr:
  assumes "store_append W rid payload m = (Inr ev, m')"
  shows "\<exists>d. v4_append_content (w_ext W) (w_fresh_message W (mg_tick m)) (mg_db (interleave W m)) rid payload
           (w_now_ms W (mg_tick m)) = Inr (ev, d) \<and> m' = (interleave W m)\<lparr>mg_db := d\<rparr>"
  using assms by (auto simp: store_append_def Let_def split: sum.splits prod.splits)

text \<open>The store refuses an empty delta.\<close>

lemma append_delta_nonempty:
  "v4_append_content E msg d rid (TextDelta str) ms = Inr r \<Longrightarrow> str \<noteq> []"
  by (auto simp: v4_append_content_def insert_content_event_def bindr_eq_Inr map_err_eq_Inr v4_ensure_def
      ensure_eq_Inr split: if_splits)

text \<open>
  The loop of \<open>emit\<close> over the remaining text. The result is whether every piece was stored. A
  cut at the front of the text would be an empty delta, which the store refuses, so every turn
  of the loop shortens the text or ends it.
\<close>

function emit_text :: "world \<Rightarrow> run_id \<Rightarrow> string \<Rightarrow> manager \<Rightarrow> bool \<times> manager" where
  "emit_text W rid remaining m =
     (if remaining = [] then (True, m)
      else
        let n = floor_boundary remaining (min (length remaining) MAX_V4_DELTA_BYTES) in
        (case store_append W rid (TextDelta (take n remaining)) m of
           (Inl _, m1) \<Rightarrow> (False, m1)
         | (Inr _, m1) \<Rightarrow> emit_text W rid (drop n remaining) m1))"
  by pat_completeness auto
termination
proof (relation "measure (\<lambda>(_, _, remaining, _). length remaining)")
  fix W rid and remaining :: string and m n ra m1 ev
  assume "remaining \<noteq> []" and "(ra, m1) = store_append W rid (TextDelta (take n remaining)) m" and "ra = Inr ev"
  then have "take n remaining \<noteq> []"
    using store_append_Inr append_delta_nonempty by metis
  then show "((W, rid, drop n remaining, m1), (W, rid, remaining, m))
      \<in> measure (\<lambda>(_, _, remaining, _). length remaining)" by auto
qed simp

fun content_emit :: "world \<Rightarrow> run_id \<Rightarrow> model_event \<Rightarrow> sink \<times> manager \<Rightarrow> sink \<times> manager" where
  "content_emit W rid (ModelTextDelta str) (s, m) =
     (if sk_started s \<and> \<not> sk_terminal s
      then case emit_text W rid str m of
             (stored, m1) \<Rightarrow> (if stored then s else s\<lparr>sk_invalid := True\<rparr>, m1)
      else (s\<lparr>sk_invalid := True\<rparr>, m))"
| "content_emit W rid ev (s, m) = (boundary_emit ev s, m)"

fun content_emits :: "world \<Rightarrow> run_id \<Rightarrow> model_event list \<Rightarrow> sink \<times> manager \<Rightarrow> sink \<times> manager" where
  "content_emits W rid [] sm = sm"
| "content_emits W rid (ev # evs) sm = content_emits W rid evs (content_emit W rid ev sm)"

section \<open>The prompt of a turn\<close>

definition conversation_context_prefix :: "string \<Rightarrow> string" where
  "conversation_context_prefix history =
     ''Previous conversation (context, oldest first, may be truncated):'' @ [CHR 0x0A] @ history
     @ [CHR 0x0A] @ ''--- end of context; answer the next message ---''"

definition pair_lines :: "v4_context_pair \<Rightarrow> string" where
  "pair_lines p = ''User:'' @ [CHR 0x0A] @ xp_user p @ [CHR 0x0A] @ ''Assistant:'' @ [CHR 0x0A]
     @ xp_assistant p @ [CHR 0x0A]"

definition context_available :: "v4_submit_turn \<Rightarrow> nat" where
  "context_available request = min (MAX_V4_INPUT_BYTES - length (vt_input request) - 2048) (24 * 1024)"

definition note_truncation :: "world \<Rightarrow> run_id \<Rightarrow> bool \<Rightarrow> manager \<Rightarrow> (execution_error + unit) \<times> manager" where
  "note_truncation W rid truncated m =
     (if truncated
      then (case store_append W rid (NoticePayload NoticeTruncated) m of
              (Inl _, m1) \<Rightarrow> (Inl provider_failed, m1) | (Inr _, m1) \<Rightarrow> (Inr (), m1))
      else (Inr (), m))"

definition prompt_for_turn ::
    "world \<Rightarrow> run_id \<Rightarrow> v4_submit_turn \<Rightarrow> manager \<Rightarrow> (execution_error + string) \<times> manager" where
  "prompt_for_turn W rid request m =
     (let m1 = interleave W m in
      case v4_turn_context (w_ext W) (mg_db m1) rid request (context_available request) of
        Inl _ \<Rightarrow> (Inl unsupported, m1)
      | Inr ctx \<Rightarrow>
          andthen (note_truncation W rid (tc_truncated ctx) m1) (\<lambda>_ m2.
            if tc_pairs ctx = [] then (Inr (vt_input request), m2)
            else
              let history = concat (map pair_lines (tc_pairs ctx));
                  prompt = conversation_context_prefix history @ [CHR 0x0A] @ vt_input request in
              if length prompt > MAX_V4_INPUT_BYTES then (Inl unsupported, m2) else (Inr prompt, m2)))"

section \<open>Execution\<close>

text \<open>
  The verdict on a finished provider run. \<open>None\<close> is an error of \<open>run_provider\<close>; \<open>valid\<close> is the
  verdict of the sink, \<open>cancelled\<close> the token when the run has ended.
\<close>

definition provider_verdict ::
    "provider_report option \<Rightarrow> bool \<Rightarrow> execution_error + unit \<Rightarrow> execution_error + unit" where
  "provider_verdict report cancelled valid =
     (case report of
        None \<Rightarrow> Inl provider_failed
      | Some r \<Rightarrow>
          (case rp_stop r of
             StopCancelled \<Rightarrow> if cancelled then Inr () else Inl provider_failed
           | StopBudget limit \<Rightarrow> Inl (budget_error limit)
           | StopFailed \<Rightarrow> Inl provider_failed
           | StopCompleted \<Rightarrow>
               if rp_truncated r then Inl (with_kind ExOutputLimit ''provider exceeded bounded capture'')
               else valid))"

definition executor_result_of :: "execution_error + unit \<Rightarrow> executor_result" where
  "executor_result_of r = (case r of Inr _ \<Rightarrow> ExecOk | Inl e \<Rightarrow> ExecErr e)"

text \<open>The provider runs between two moments; other threads act meanwhile.\<close>

definition provider_execute ::
    "world \<Rightarrow> provider_executor \<Rightarrow> run_request \<Rightarrow> nat \<Rightarrow> manager \<Rightarrow> (execution_error + unit) \<times> manager" where
  "provider_execute W table request token m =
     (if run_request_validate request \<noteq> Inr () then (Inl unsupported, m)
      else if req_mode request \<in> {Interactive, Automation} then (Inl unsupported, m)
      else case route_of_backend table (req_backend request) of
        None \<Rightarrow> (Inl unsupported, m)
      | Some route \<Rightarrow>
          let (events, report) =
                pv_run (pr_provider route) (mg_tick m) (pr_model route) (req_input request) (pr_budget route);
              s = fold boundary_emit events (sink_new (pr_model route));
              m1 = interleave W m in
          (provider_verdict report (token_is_cancelled m1 token) (sink_validate s), m1))"

definition provider_execute_v4 ::
    "world \<Rightarrow> provider_executor \<Rightarrow> run_id \<Rightarrow> v4_submit_turn \<Rightarrow> nat \<Rightarrow> manager \<Rightarrow>
     (execution_error + unit) \<times> manager" where
  "provider_execute_v4 W table rid request token m =
     (if v4_submit_turn_validate request \<noteq> Inr () then (Inl unsupported, m)
      else case route_for_v4 table (vt_route_id request) of
        None \<Rightarrow> (Inl unsupported, m)
      | Some route \<Rightarrow>
          andthen (prompt_for_turn W rid request m) (\<lambda>prompt m1.
            let (events, report) =
                  pv_run (pr_provider route) (mg_tick m1) (pr_model route) prompt (pr_budget route);
                (s, m2) = content_emits W rid events (sink_new (pr_model route), m1);
                m3 = interleave W m2 in
            (provider_verdict report (token_is_cancelled m3 token) (sink_validate s), m3)))"

text \<open>The manager with this executor.\<close>

definition with_providers :: "provider_executor \<Rightarrow> world \<Rightarrow> world" where
  "with_providers table W = W\<lparr>
     w_execute := (\<lambda>_ _ request token m. map_prod executor_result_of id (provider_execute W table request token m)),
     w_execute_v4 := (\<lambda>_ rid request token m.
       map_prod executor_result_of id (provider_execute_v4 W table rid request token m))\<rparr>"

end
