(* ===== verification/V4_Context_Facts.thy ===== *)
theory V4_Context_Facts
  imports V4_Context
begin

text \<open>
  The history of a turn against a reference: walking the earlier succeeded turns of the route
  from the newest, it takes every question with its whole answer that still fits the budget.
  The passes over transcripts, with their provisions for older encodings, compute exactly this
  on every store that the operations can reach.
\<close>

section \<open>A pass rebuilds the text of a turn\<close>

definition decoded :: "externals \<Rightarrow> content_event_row \<times> string option \<Rightarrow> v4_content_event \<Rightarrow> bool" where
  "decoded E row ev \<longleftrightarrow> (\<exists>js v. snd row = Some js \<and> json_from_str E js = Some v
     \<and> read_content_payload v = Inr (ce_payload ev))"

definition scan_ok :: "nat \<Rightarrow> v4_content_event list \<Rightarrow> context_scan \<Rightarrow> bool" where
  "scan_ok budget es s \<longleftrightarrow> sc_count s = length es
     \<and> sc_actual_bytes s + (if sc_legacy_marker s then length ADMITTED else 0) = length (events_text es)
     \<and> sc_actual_bytes s \<le> MAX_V4_CONTENT_BYTES
     \<and> (sc_oversized s \<longleftrightarrow> budget < sc_actual_bytes s)
     \<and> (\<not> sc_oversized s \<longrightarrow>
          (if sc_legacy_marker s then ADMITTED else []) @ sc_assistant s = events_text es)
     \<and> length (sc_assistant s) \<le> budget"

lemma saturating_add_small: "a + b \<le> u64_bound - 1 \<Longrightarrow> saturating_add a b = a + b"
  by (simp add: saturating_add_def)

lemma saturating_add_le: "saturating_add a b \<le> m \<Longrightarrow> m < u64_bound - 1 \<Longrightarrow> saturating_add a b = a + b"
  by (auto simp: saturating_add_def)

lemma floor_boundary_length [simp]: "floor_boundary s (length s) = length s"
  by (rule floor_boundary_id) (simp add: is_char_boundary_def)

lemma scan_start_ok: "scan_ok budget [] scan_start"
  by (simp add: scan_ok_def scan_start_def)

lemma scan_text_ok:
  assumes ok: "scan_ok budget es s0" and s: "s = s0\<lparr>sc_count := sc_count s0 + 1, sc_parsed_bytes := n\<rparr>"
    and ev: "ce_payload ev = TextDelta str" and run: "scan_text budget e js str s = Inr s'"
  shows "scan_ok budget (es @ [ev]) s'"
proof -
  note shape = ok [unfolded scan_ok_def]
  show ?thesis
  proof (cases "sc_first_text s \<and> sc_count s = 1 \<and> str = ADMITTED \<and> kw_byte_count e = int (length js)")
    case True
    then have "es = []" using shape s by simp
    with shape have "sc_actual_bytes s0 = 0" "\<not> sc_legacy_marker s0" "sc_assistant s0 = []"
      by (auto simp: ADMITTED_def split: if_splits)
    with True run s ev shape \<open>es = []\<close> show ?thesis
      by (auto simp: scan_text_def scan_ok_def Let_def split: if_splits)
  next
    case False
    let ?a = "saturating_add (sc_actual_bytes s) (length str)"
    let ?n = "floor_boundary str (min (length str) (budget - length (sc_assistant s)))"
    from run False have a: "?a \<le> MAX_V4_CONTENT_BYTES"
      and s': "s' = s\<lparr>sc_legacy_encoding := sc_legacy_encoding s \<or> kw_byte_count e = int (length js),
          sc_first_text := False, sc_actual_bytes := ?a, sc_oversized := sc_oversized s \<or> ?a > budget,
          sc_assistant := sc_assistant s @ take ?n str\<rparr>"
      by (auto simp: scan_text_def Let_def split: if_splits)
    have sum: "?a = sc_actual_bytes s0 + length str"
      using saturating_add_le [OF a] s by (simp add: MAX_V4_CONTENT_BYTES_def u64_bound_def)
    have n: "?n \<le> budget - length (sc_assistant s)" "?n \<le> length str"
      using floor_boundary_le [of str "min (length str) (budget - length (sc_assistant s))"] by auto
    have "length (sc_assistant s) \<le> budget" using shape s by simp
    with n have len: "length (sc_assistant s') \<le> budget" unfolding s' by simp
    have over: "sc_oversized s' \<longleftrightarrow> budget < sc_actual_bytes s'" using shape s s' sum by auto
    have whole: "(if sc_legacy_marker s' then ADMITTED else []) @ sc_assistant s' = events_text (es @ [ev])"
      if "\<not> sc_oversized s'"
    proof -
      have fit: "\<not> sc_oversized s0" "sc_actual_bytes s0 + length str \<le> budget" using that s s' sum by auto
      with shape have whole0: "(if sc_legacy_marker s0 then ADMITTED else []) @ sc_assistant s0 = events_text es"
        by blast
      have "length (sc_assistant s0) = sc_actual_bytes s0"
        using arg_cong [OF whole0, of length] shape by (cases "sc_legacy_marker s0") simp_all
      then have "?n = length str" using fit(2) s by simp
      with whole0 ev s s' show ?thesis by simp
    qed
    show ?thesis using a shape s s' sum len over whole ev by (simp add: scan_ok_def)
  qed
qed

lemma scan_row_ok:
  assumes ok: "scan_ok budget es s" and dec: "decoded E row ev" and run: "scan_row E budget row s = Inr s'"
  shows "scan_ok budget (es @ [ev]) s'"
proof -
  from dec obtain js v where js: "snd row = Some js" "json_from_str E js = Some v"
    "read_content_payload v = Inr (ce_payload ev)" by (auto simp: decoded_def)
  show ?thesis
  proof (cases "is_delta (ce_payload ev)")
    case True
    then obtain str where "ce_payload ev = TextDelta str" by (cases "ce_payload ev") auto
    with run js show ?thesis
      by (auto simp: scan_row_def Let_def bindr_eq_Inr intro: scan_text_ok [OF ok] split: if_splits)
  next
    case False
    with run js have "s' = s\<lparr>sc_count := sc_count s + 1,
        sc_parsed_bytes := saturating_add (sc_parsed_bytes s) (length js), sc_terminal := sc_terminal s'\<rparr>"
      by (cases "ce_payload ev") (auto simp: scan_row_def Let_def bindr_eq_Inr split: if_splits)
    then obtain n t where "s' = s\<lparr>sc_count := sc_count s + 1, sc_parsed_bytes := n, sc_terminal := t\<rparr>" by blast
    with ok delta_text_not_delta [OF False] show ?thesis by (auto simp: scan_ok_def)
  qed
qed

lemma scan_rows_ok:
  assumes "list_all2 (decoded E) rows evs" and "scan_ok budget es s" and "scan_rows E budget rows s = Inr s'"
  shows "scan_ok budget (es @ evs) s'"
  using assms
proof (induction rows evs arbitrary: es s rule: list_all2_induct)
  case (Cons row rows ev evs)
  from Cons.prems(2) obtain s1 where "scan_row E budget row s = Inr s1" "scan_rows E budget rows s1 = Inr s'"
    by (auto simp: bindr_eq_Inr)
  with Cons.IH [of "es @ [ev]" s1] scan_row_ok [OF Cons.prems(1) Cons.hyps(1)] show ?case by simp
qed simp

section \<open>The answer of one turn\<close>

lemma strictly_below_length:
  fixes xs :: "int list"
  assumes "sorted_wrt (<) xs" and "\<forall>x\<in>set xs. 1 \<le> x \<and> x \<le> int n"
  shows "length xs \<le> n"
proof -
  have "set xs \<subseteq> {1..int n}" using assms(2) by auto
  then have "card (set xs) \<le> n" using card_mono [of "{1..int n}" "set xs"] by simp
  moreover have "distinct xs" using assms(1) by (simp add: strict_sorted_iff)
  ultimately show ?thesis by (simp add: distinct_card)
qed

lemma context_events_transcript:
  assumes inv: "content_inv E d" and key: "(rid, c) \<in> set (turn_keys d)"
  shows "list_all2 (decoded E) (context_events d c rid 65537) (transcript E d rid)"
proof -
  let ?es = "content_of (assistant_content_events d) rid"
  have rows: "filter (\<lambda>e. kw_conversation_id e = c \<and> kw_run_id e = rid) (assistant_content_events d) = ?es"
    using turn_event_conversation [of E, OF _ key] inv by (auto simp: content_inv_def intro!: filter_cong)
  have strict: "sorted_wrt (<) (map kw_sequence ?es)" using inv key by (rule content_of_sorted)
  have "1 \<le> kw_sequence e \<and> kw_sequence e \<le> int 65536" if "e \<in> set (assistant_content_events d)" for e
    using inv that by (rule stored_row) (auto simp: content_event_bounds MAX_V4_CONTENT_EVENTS_def)
  then have "length ?es \<le> 65536" using strictly_below_length [OF strict] by auto
  moreover have "sort_key kw_sequence ?es = ?es"
    using strict by (simp add: sort_key_id_if_sorted strict_sorted_iff)
  ultimately have ev: "context_events d c rid 65537 = map (\<lambda>e. (e, map_option pw_payload_json
      (find (\<lambda>p. pw_conversation_id p = kw_conversation_id e \<and> pw_sequence p = kw_sequence e)
        (assistant_content_payloads d)))) ?es"
    by (simp add: context_events_def rows)
  have "decoded E (e, map_option pw_payload_json
      (find (\<lambda>p. pw_conversation_id p = kw_conversation_id e \<and> pw_sequence p = kw_sequence e)
        (assistant_content_payloads d))) (the (stored_event E d e))" if "e \<in> set ?es" for e
  proof -
    have "e \<in> set (assistant_content_events d)" using that by simp
    with inv obtain x where "stored_event E d e = Some x" by (rule stored_row)
    then show ?thesis
      by (auto simp: decoded_def stored_event_def content_row_def bindr_eq_Inr ok_or_eq_Inr map_err_eq_Inr Let_def
          split: sum.splits if_splits)
  qed
  then show ?thesis unfolding ev transcript_rows [OF content_inv_payload [OF inv]]
    by (simp add: list_all2_map1 list_all2_map2 list_all2_same)
qed

lemma assistant_preview:
  assumes "content_inv E d" and "a \<in> set (assistant_messages d)" "mw_run_id a = rid" "mw_role a = ''assistant''"
  shows "turn_text E d rid \<noteq> [] \<and> mw_body a = preview_text (turn_text E d rid)
       \<and> mw_text_bytes a = int (length (turn_text E d rid))
       \<and> previews d rid = [(mw_conversation_id a, mw_body a, mw_text_bytes a)]"
proof -
  have "preview_ok (transcript E d rid) (previews d rid)"
    using assms(1) by (simp add: content_inv_def preview_inv_def)
  moreover have "(mw_conversation_id a, mw_body a, mw_text_bytes a) \<in> set (previews d rid)"
    using assms(2-4) by (auto simp: previews_def message_previews_def)
  ultimately show ?thesis by (auto simp: preview_ok_def turn_text_def split: if_splits)
qed

lemma restored_text:
  assumes ok: "scan_ok budget es s" and str: "events_text es = str" "str \<noteq> []" "length str \<le> budget"
    and small: "budget \<le> 24 * 1024"
  shows "\<not> sc_oversized (restore_marker budget (preview_text str) (int (length str)) s)
       \<and> sc_assistant (restore_marker budget (preview_text str) (int (length str)) s) = str"
proof (cases "sc_legacy_marker s")
  case True
  note shape = ok [unfolded scan_ok_def, simplified True str(1) if_True]
  then have fits: "\<not> sc_oversized s" and whole: "ADMITTED @ sc_assistant s = str"
    and sum: "sc_actual_bytes s + length ADMITTED = length str" using str(3) by auto
  have "\<not> strip_marker (preview_text str) (int (length str)) s"
    using sum preview_text_length [of str] by (auto simp: strip_marker_def ADMITTED_def)
  moreover have "saturating_add (sc_actual_bytes s) (length ADMITTED) = length str"
    using sum str(3) small by (subst saturating_add_small) (simp_all add: u64_bound_def)
  moreover have "min (length (sc_assistant s)) (budget - length ADMITTED) = length (sc_assistant s)"
    using arg_cong [OF whole, of length] str(3) by simp
  ultimately show ?thesis using True fits whole str(3) by (simp add: restore_marker_def Let_def)
next
  case False
  with ok str show ?thesis by (auto simp: scan_ok_def restore_marker_def)
qed

text \<open>A pair is taken when it fits, whole, and left out otherwise.\<close>

lemma context_pair_exact:
  assumes inv: "content_inv E d" and key: "(rid, c) \<in> set (turn_keys d)"
    and ok: "context_pair E d c rid uid aid remaining = Inr r" and small: "remaining \<le> 24 * 1024"
  obtains u where "context_user d c rid uid = Some u" "turn_text E d rid \<noteq> []"
    "r = (if length (mw_body u) + length (turn_text E d rid) \<le> remaining
          then Some \<lparr>xp_user = mw_body u, xp_assistant = turn_text E d rid\<rparr> else None)"
proof -
  let ?T = "turn_text E d rid"
  from ok obtain u a where u: "context_user d c rid uid = Some u" and a: "context_answer d c rid aid = Some a"
    by (auto simp: context_pair_def bindr_eq_Inr ok_or_eq_Inr)
  from a have "a \<in> set (assistant_messages d)" "mw_run_id a = rid" "mw_role a = ''assistant''"
    unfolding context_answer_def by (auto dest!: find_Some_in)
  from assistant_preview [OF inv this] have T: "?T \<noteq> []" "mw_body a = preview_text ?T"
    "mw_text_bytes a = int (length ?T)" by blast+
  have "r = (if length (mw_body u) + length ?T \<le> remaining
        then Some \<lparr>xp_user = mw_body u, xp_assistant = ?T\<rparr> else None)"
  proof (cases "length (mw_body u) + length ?T \<le> remaining")
    case True
    let ?b = "remaining - length (mw_body u)"
    from True ok u a T obtain s where s: "scan_rows E ?b (context_events d c rid 65537) scan_start = Inr s"
      and r: "r = (if sc_oversized (restore_marker ?b (preview_text ?T) (int (length ?T)) s) then None
        else Some \<lparr>xp_user = mw_body u,
          xp_assistant = sc_assistant (restore_marker ?b (preview_text ?T) (int (length ?T)) s)\<rparr>)"
      by (auto simp: context_pair_def bindr_eq_Inr ok_or_eq_Inr Let_def split: if_splits)
    from scan_rows_ok [OF context_events_transcript [OF inv key] scan_start_ok s]
    have "scan_ok ?b (transcript E d rid) s" by simp
    with T True small r show ?thesis
      using restored_text [of ?b "transcript E d rid" s ?T] by (simp add: turn_text_def)
  next
    case False
    with ok u a T show ?thesis
      by (auto simp: context_pair_def bindr_eq_Inr ok_or_eq_Inr Let_def split: if_splits)
  qed
  with u T(1) that show thesis by blast
qed

section \<open>Turns are not linked to their answers\<close>

text \<open>
  No operation sets the column \<open>assistant_message_id\<close> of a turn, so its answers are the
  assistant messages of its run.
\<close>

definition unlinked :: "db \<Rightarrow> bool" where
  "unlinked d \<longleftrightarrow> list_all (\<lambda>t. tw_assistant_message_id t = None) (assistant_turns d)"

lemma recover_loop_turns:
  "recoverable E ids d \<Longrightarrow> recover_loop E now ms ids d = Inr d' \<Longrightarrow> assistant_turns d' = assistant_turns d"
proof (induction ids arbitrary: d)
  case (Cons i ids)
  from Cons.prems(1) have wf: "db_wf E d" by (simp add: recoverable_def turn_inv_wf)
  from Cons.prems show ?case
    by (rule recover_loop_step) (metis Cons.IH update_and_append_logged [OF wf])
qed simp

lemma transition_turns:
  "db_wf E d \<Longrightarrow> transition_run E now ms d rid expected next event = Inr (ev, d') \<Longrightarrow>
     assistant_turns d' = assistant_turns d"
  by (erule transition_run_logged)

lemma store_step_turns:
  assumes "store_step E d d'" and inv: "turn_inv E d"
  shows "assistant_turns d' = assistant_turns d"
  using assms(1)
proof cases
  case (submit fresh now run r)
  from create_or_get_run_Inr [OF turn_inv_wf [OF inv] submit] show ?thesis by (auto simp: created_def)
next
  case (transition now ms rid expected "next" ev e)
  then show ?thesis using transition_turns [OF turn_inv_wf [OF inv]] by blast
next
  case (append now rid event ev)
  then show ?thesis using append_run_event_frame(1) by blast
next
  case (recover now ms n)
  then have "recover_loop E now ms (recovery_ids d) d = Inr d'"
    by (auto simp: recover_interrupted_on_def Let_def rust_simps)
  with recovery_ids_recoverable [OF inv] show ?thesis by (rule recover_loop_turns)
next
  case (conversation now cid)
  then show ?thesis by (auto simp: create_conversation_def split: if_splits)
next
  case (backend now cid b bc c)
  then show ?thesis by (auto simp: set_conversation_backend_def Let_def split: if_splits)
qed

lemma v4_step_unlinked:
  assumes "v4_step E d d'" and inv: "turn_inv E d" and un: "unlinked d"
  shows "unlinked d'"
proof -
  have same: ?thesis if "assistant_turns d' = assistant_turns d" using that un by (simp add: unlinked_def)
  from assms(1) show ?thesis
  proof cases
    case run
    then show ?thesis using same store_step_turns [OF _ inv] by blast
  next
    case (create fresh title ms c)
    then show ?thesis unfolding v4_create_conversation_def by (rule insert_conversation_frame) (rule same, simp)
  next
    case (legacy_shell cid title ms c)
    then show ?thesis unfolding v4_note_legacy_shell_def by (rule insert_conversation_frame) (rule same, simp)
  next
    case (patch cid p ms c)
    from patch_frame [OF this] have "assistant_turns d' = assistant_turns d" by auto
    then show ?thesis by (rule same)
  next
    case (delete cid ms)
    with un show ?thesis
      by (auto simp: v4_delete_conversation_def update_assistant_conversations_Inr delete_messages_def
          delete_content_events_def unlinked_def list_all_iff Let_def bindr_eq_Inr map_err_eq_Inr split: if_splits)
  next
    case (admit fresh msg submit ms s)
    from admit(1) show ?thesis
    proof (cases rule: v4_admit_turn_Inr)
      case (new c)
      then show ?thesis using un by (auto simp: admitted_def unlinked_def)
    qed (simp add: un)
  next
    case (content msg rid payload ms e)
    then obtain c d1 where ins: "insert_content_event E d c rid payload ms = Inr (e, d1)"
      and out: "case payload of TextDelta t \<Rightarrow> update_assistant_preview E msg d1 rid t ms = Inr d' | _ \<Rightarrow> d' = d1"
      by (auto elim: v4_append_content_Inr)
    have "assistant_turns d1 = assistant_turns d" using ins by (rule insert_content_event_Inr) simp
    moreover have "assistant_turns d' = assistant_turns d1"
      using out update_assistant_preview_frame by (cases payload) fastforce+
    ultimately show ?thesis by (simp add: same)
  next
    case (unadopted now ms rid r)
    from unadopted_cases [OF unadopted(1)] show ?thesis
      using un same transition_turns [OF turn_inv_wf [OF inv]] by blast
  next
    case (finalize rid s)
    from finalize_frame [OF this] have "assistant_turns d' = assistant_turns d" by auto
    then show ?thesis by (rule same)
  qed
qed

definition context_inv :: "externals \<Rightarrow> db \<Rightarrow> bool" where
  "context_inv E d \<longleftrightarrow> content_inv E d \<and> unlinked d"

lemma v4_steps_context: "(v4_step E)\<^sup>*\<^sup>* d d' \<Longrightarrow> context_inv E d \<Longrightarrow> context_inv E d'"
proof (induction rule: rtranclp_induct)
  case (step d1 d2)
  then show ?case using v4_step_content v4_step_unlinked by (auto simp: context_inv_def content_inv_def)
qed

section \<open>The history, by reference\<close>

definition prior_turns :: "externals \<Rightarrow> db \<Rightarrow> v4_submit_turn \<Rightarrow> int \<Rightarrow> turn_row list" where
  "prior_turns E d request before = sort_key (\<lambda>t. - tw_user_sequence t)
     (filter (\<lambda>t. tw_conversation_id t = vt_conversation_id request \<and> tw_route_id t = vt_route_id request
        \<and> tw_user_sequence t < before \<and> status_of E d (tw_run_id t) = Some Succeeded) (assistant_turns d))"

definition question :: "db \<Rightarrow> turn_row \<Rightarrow> string" where
  "question d t =
     (case Option.bind (tw_user_message_id t) (context_user d (tw_conversation_id t) (tw_run_id t)) of
        None \<Rightarrow> [] | Some u \<Rightarrow> mw_body u)"

definition turn_pair :: "externals \<Rightarrow> db \<Rightarrow> turn_row \<Rightarrow> v4_context_pair" where
  "turn_pair E d t = \<lparr>xp_user = question d t, xp_assistant = turn_text E d (tw_run_id t)\<rparr>"

definition pair_bytes :: "v4_context_pair \<Rightarrow> nat" where
  "pair_bytes p = length (xp_user p) + length (xp_assistant p)"

fun recent_pairs :: "v4_context_pair list \<Rightarrow> nat \<Rightarrow> v4_context_pair list \<times> bool" where
  "recent_pairs [] remaining = ([], False)"
| "recent_pairs (p # ps) remaining =
     (if xp_assistant p = [] then recent_pairs ps remaining
      else if pair_bytes p \<le> remaining
      then let (qs, left_out) = recent_pairs ps (remaining - pair_bytes p) in (p # qs, left_out)
      else let (qs, left_out) = recent_pairs ps remaining in (qs, True))"

lemma recent_pairs_bounds:
  "length (fst (recent_pairs ps n)) \<le> length ps \<and> sum_list (map pair_bytes (fst (recent_pairs ps n))) \<le> n"
  by (induction ps n rule: recent_pairs.induct) (force simp: case_prod_beta Let_def)+

lemma recent_pairs_whole:
  "\<not> snd (recent_pairs ps n) \<Longrightarrow> fst (recent_pairs ps n) = filter (\<lambda>p. xp_assistant p \<noteq> []) ps"
  by (induction ps n rule: recent_pairs.induct) (auto split: if_splits prod.splits)

lemma concat_map_one: "(\<And>x. x \<in> set xs \<Longrightarrow> f x = [g x]) \<Longrightarrow> concat (map f xs) = map g xs"
  by (induction xs) simp_all

lemma insort_key_map: "insort_key k (g x) (map g xs) = map g (insort_key (\<lambda>y. k (g y)) x xs)"
  by (induction xs) simp_all

lemma sort_key_map: "sort_key k (map g xs) = map g (sort_key (\<lambda>y. k (g y)) xs)"
  by (induction xs) (simp_all add: insort_key_map)

definition answer_id :: "db \<Rightarrow> turn_row \<Rightarrow> string option" where
  "answer_id d t = map_option mw_id (assistant_message_of d (tw_run_id t))"

lemma linked_answers_unlinked:
  assumes "unlinked d" "t \<in> set (assistant_turns d)"
  shows "linked_answers d t
    = filter (\<lambda>m. mw_run_id m = tw_run_id t \<and> mw_role m = ''assistant'') (assistant_messages d)"
proof -
  have "tw_assistant_message_id t = None" using assms by (simp add: unlinked_def list_all_iff)
  then show ?thesis by (simp add: linked_answers_def)
qed

lemma find_filter: "find P xs = (case filter P xs of [] \<Rightarrow> None | x # _ \<Rightarrow> Some x)"
  by (induction xs) auto

lemma join_answers_one:
  assumes inv: "context_inv E d" and t: "t \<in> set (assistant_turns d)"
  shows "join_answers d t = [(t, answer_id d t)]"
proof -
  let ?as = "filter (\<lambda>m. mw_run_id m = tw_run_id t \<and> mw_role m = ''assistant'') (assistant_messages d)"
  have as: "linked_answers d t = ?as"
    using inv t by (intro linked_answers_unlinked) (simp_all add: context_inv_def)
  show ?thesis
  proof (cases ?as)
    case (Cons a rest)
    then have "a \<in> set ?as" by simp
    then have "length (previews d (tw_run_id t)) = 1"
      using inv assistant_preview [of E d a "tw_run_id t"] by (auto simp: context_inv_def)
    then have "?as = [a]" using Cons by (simp add: previews_def message_previews_def)
    then show ?thesis by (simp add: join_answers_def as answer_id_def assistant_message_of_def find_filter)
  qed (simp add: join_answers_def as answer_id_def assistant_message_of_def find_filter)
qed

lemma prior_turn_status:
  assumes inv: "turn_inv E d" and t: "t \<in> set (assistant_turns d)"
  shows "list_ex (\<lambda>r. rw_id r = tw_run_id t \<and> rw_conversation_id r = Some (tw_conversation_id t)
       \<and> rw_status r = ''succeeded'') (runs d) \<longleftrightarrow> status_of E d (tw_run_id t) = Some Succeeded"
    (is "?row \<longleftrightarrow> ?st")
proof -
  have wf: "db_wf E d" using inv by (rule turn_inv_wf)
  have "(tw_run_id t, tw_conversation_id t) \<in> set (turn_keys d)" using t by (auto simp: turn_keys_def)
  then have "status_of E d (tw_run_id t) \<noteq> None" "conversation_of E d (tw_run_id t) = Some (tw_conversation_id t)"
    using turns_okD(2) inv unfolding turn_inv_def by blast+
  then obtain run where run: "run_by_id E d (tw_run_id t) = Inr (Some run)"
    "rec_conversation_id run = Some (tw_conversation_id t)"
    by (auto simp: status_of_def conversation_of_def split: sum.splits option.splits)
  then obtain row where row: "row \<in> set (runs d)" "rw_id row = tw_run_id t" "row_to_run E row = Inr run"
    unfolding run_by_id_wf [OF wf] by blast
  have "distinct (map rw_id (runs d))" using wf by (simp add: db_wf_def)
  then have only: "r = row" if "r \<in> set (runs d)" "rw_id r = tw_run_id t" for r
    using key_unique that row(1,2) by metis
  have "rw_conversation_id row = Some (tw_conversation_id t)"
    using row_to_run_fields(2) [OF row(3)] run(2) by simp
  then have "?row \<longleftrightarrow> rw_status row = ''succeeded''"
    unfolding list_ex_iff using row(1,2) only by metis
  also have "\<dots> \<longleftrightarrow> rec_status run = Succeeded"
    unfolding row_to_run_fields(5) [OF row(3)] by (cases "rec_status run") simp_all
  finally show ?thesis using run(1) by (simp add: status_of_def)
qed

lemma context_identities_exact:
  assumes inv: "context_inv E d" and ok: "context_identities d request before = Inr ids"
  shows "ids = map (\<lambda>t. (tw_run_id t, the (tw_user_message_id t), answer_id d t))
           (take 33 (prior_turns E d request before))
       \<and> (\<forall>t\<in>set (take 33 (prior_turns E d request before)). tw_user_message_id t \<noteq> None)"
proof -
  have tinv: "turn_inv E d" using inv by (simp add: context_inv_def content_inv_def)
  let ?ts = "filter (prior_turn d request before) (assistant_turns d)"
  have ts: "?ts = filter (\<lambda>t. tw_conversation_id t = vt_conversation_id request \<and> tw_route_id t = vt_route_id request
      \<and> tw_user_sequence t < before \<and> status_of E d (tw_run_id t) = Some Succeeded) (assistant_turns d)"
    using prior_turn_status [OF tinv] by (intro filter_cong) (simp_all add: prior_turn_def)
  have "concat (map (join_answers d) ?ts) = map (\<lambda>t. (t, answer_id d t)) ?ts"
    using join_answers_one [OF inv] by (intro concat_map_one) simp
  then have "sort_key (\<lambda>(t, _). - tw_user_sequence t) (concat (map (join_answers d) ?ts))
      = map (\<lambda>t. (t, answer_id d t)) (prior_turns E d request before)"
    by (simp add: sort_key_map prior_turns_def ts)
  then have "collect_results (\<lambda>(t, aid).
         bindr (ok_or (tw_user_message_id t) (Database (SqlConversion ''user_message_id''))) (\<lambda>uid.
           Inr (tw_run_id t, uid, aid)))
      (map (\<lambda>t. (t, answer_id d t)) (take 33 (prior_turns E d request before))) = Inr ids"
    using ok by (simp add: context_identities_def take_map)
  then show ?thesis
    unfolding collect_results_ok list_all2_map1
    by (induction rule: list_all2_induct) (auto simp: bindr_eq_Inr ok_or_eq_Inr)
qed

lemma context_loop_exact:
  assumes inv: "context_inv E d" and ts: "set ts \<subseteq> set (assistant_turns d)"
    and c: "\<forall>t\<in>set ts. tw_conversation_id t = c \<and> tw_user_message_id t \<noteq> None"
    and ok: "context_loop E d c (map (\<lambda>t. (tw_run_id t, the (tw_user_message_id t), answer_id d t)) ts) n ctx = Inr ctx'"
    and small: "n \<le> 24 * 1024"
  shows "ctx' = \<lparr>tc_pairs = tc_pairs ctx @ fst (recent_pairs (map (turn_pair E d) ts) n),
           tc_truncated = (tc_truncated ctx \<or> snd (recent_pairs (map (turn_pair E d) ts) n))\<rparr>"
  using ts c ok small
proof (induction ts arbitrary: n ctx)
  case (Cons t ts)
  have cinv: "content_inv E d" using inv by (simp add: context_inv_def)
  have t: "t \<in> set (assistant_turns d)" "tw_conversation_id t = c" using Cons.prems(1,2) by simp_all
  then have key: "(tw_run_id t, c) \<in> set (turn_keys d)" by (auto simp: turn_keys_def)
  note rest = Cons.IH [OF _ _ _ Cons.prems(4)]
  show ?case
  proof (cases "answer_id d t")
    case None
    then have "previews d (tw_run_id t) = []"
      by (auto simp: answer_id_def assistant_message_of_def previews_def message_previews_def find_None_all
          filter_empty_conv)
    then have "turn_text E d (tw_run_id t) = []"
      using cinv by (auto simp: content_inv_def preview_inv_def preview_ok_def turn_text_def split: if_splits)
    with None Cons.prems rest show ?thesis by (simp add: bindr_eq_Inr turn_pair_def)
  next
    case (Some aid)
    with Cons.prems(3) obtain r where pair: "context_pair E d c (tw_run_id t) (the (tw_user_message_id t)) aid n = Inr r"
      and loop: "(case r of
         None \<Rightarrow> context_loop E d c (map (\<lambda>t. (tw_run_id t, the (tw_user_message_id t), answer_id d t)) ts) n
                   (ctx\<lparr>tc_truncated := True\<rparr>)
       | Some p \<Rightarrow> context_loop E d c (map (\<lambda>t. (tw_run_id t, the (tw_user_message_id t), answer_id d t)) ts)
                     (n - (length (xp_user p) + length (xp_assistant p)))
                     (ctx\<lparr>tc_pairs := tc_pairs ctx @ [p]\<rparr>)) = Inr ctx'"
      by (auto simp: bindr_eq_Inr)
    from cinv key pair Cons.prems(4) obtain u where
      u: "context_user d c (tw_run_id t) (the (tw_user_message_id t)) = Some u" and T: "turn_text E d (tw_run_id t) \<noteq> []"
      and r: "r = (if length (mw_body u) + length (turn_text E d (tw_run_id t)) \<le> n
          then Some \<lparr>xp_user = mw_body u, xp_assistant = turn_text E d (tw_run_id t)\<rparr> else None)"
      by (rule context_pair_exact)
    have p: "turn_pair E d t = \<lparr>xp_user = mw_body u, xp_assistant = turn_text E d (tw_run_id t)\<rparr>"
      using u Cons.prems(2) t(2) by (auto simp: turn_pair_def question_def)
    show ?thesis
    proof (cases "pair_bytes (turn_pair E d t) \<le> n")
      case True
      with r loop p have "context_loop E d c (map (\<lambda>t. (tw_run_id t, the (tw_user_message_id t), answer_id d t)) ts)
          (n - pair_bytes (turn_pair E d t)) (ctx\<lparr>tc_pairs := tc_pairs ctx @ [turn_pair E d t]\<rparr>) = Inr ctx'"
        by (simp add: pair_bytes_def)
      from Cons.IH [OF _ _ this] Cons.prems True T p show ?thesis
        by (simp add: case_prod_beta)
    next
      case False
      with r loop p have "context_loop E d c (map (\<lambda>t. (tw_run_id t, the (tw_user_message_id t), answer_id d t)) ts)
          n (ctx\<lparr>tc_truncated := True\<rparr>) = Inr ctx'"
        by (simp add: pair_bytes_def)
      from rest [OF _ _ this] Cons.prems False T p show ?thesis
        by (simp add: case_prod_beta)
    qed
  qed
qed simp

end
