(* ===== verification/Provider_Facts.thy ===== *)
theory Provider_Facts
  imports Provider V4_Context_Facts
begin

text \<open>
  What the provider executor does to a turn: a run that it accepts has the shape of one model
  answer, its text is stored piece by piece and whole, and the prompt with its history stays
  within the bound of an input.
\<close>

section \<open>The shape of an accepted run\<close>

fun event_text :: "model_event \<Rightarrow> string" where
  "event_text (ModelTextDelta str) = str"
| "event_text _ = []"

definition streamed_text :: "model_event list \<Rightarrow> string" where
  "streamed_text evs = concat (map event_text evs)"

lemma streamed_text_simps [simp]:
  "streamed_text [] = []" "streamed_text (ev # evs) = event_text ev @ streamed_text evs"
  by (simp_all add: streamed_text_def)

definition answer_events :: "string \<Rightarrow> string list \<Rightarrow> model_event list" where
  "answer_events model texts = ModelStarted model # map ModelTextDelta texts @ [ModelFinished]"

lemma boundary_emit_invalid: "sk_invalid s \<Longrightarrow> sk_invalid (boundary_emit ev s)"
  by (cases ev) simp_all

lemma fold_boundary_invalid: "sk_invalid s \<Longrightarrow> sk_invalid (fold boundary_emit evs s)"
  by (induction evs arbitrary: s) (simp_all add: boundary_emit_invalid)

lemma boundary_closed:
  assumes "sk_terminal s" "\<not> sk_invalid (fold boundary_emit evs s)"
  shows "evs = []"
proof (cases evs)
  case (Cons ev rest)
  have "sk_invalid (boundary_emit ev s)" using assms(1) by (cases ev) simp_all
  with assms(2) Cons show ?thesis using fold_boundary_invalid by simp
qed

lemma boundary_open:
  assumes "sk_started s" "\<not> sk_terminal s" "sk_terminal (fold boundary_emit evs s)"
    "\<not> sk_invalid (fold boundary_emit evs s)"
  shows "\<exists>texts. evs = map ModelTextDelta texts @ [ModelFinished]"
  using assms
proof (induction evs arbitrary: s)
  case (Cons ev evs)
  have ok: "\<not> sk_invalid (boundary_emit ev s)" using Cons.prems(4) fold_boundary_invalid by auto
  show ?case
  proof (cases ev)
    case (ModelTextDelta str)
    with Cons.prems ok Cons.IH [of s] obtain texts where "evs = map ModelTextDelta texts @ [ModelFinished]" by auto
    with ModelTextDelta have "ev # evs = map ModelTextDelta (str # texts) @ [ModelFinished]" by simp
    then show ?thesis by blast
  next
    case ModelFinished
    with Cons.prems boundary_closed [of "s\<lparr>sk_terminal := True\<rparr>" evs]
    have "ev # evs = map ModelTextDelta [] @ [ModelFinished]" by simp
    then show ?thesis by blast
  qed (use Cons.prems ok in auto)
qed simp

lemma boundary_answer:
  "fold boundary_emit (answer_events model texts) (sink_new model)
     = \<lparr>sk_expected_model = model, sk_started = True, sk_terminal = True, sk_invalid = False\<rparr>"
proof -
  have "fold boundary_emit (map ModelTextDelta texts) s = s" if "sk_started s" "\<not> sk_terminal s" for s
    using that by (induction texts) simp_all
  then show ?thesis by (simp add: answer_events_def sink_new_def)
qed

lemma boundary_accepts:
  "sink_validate (fold boundary_emit evs (sink_new model)) = Inr () \<longleftrightarrow> (\<exists>texts. evs = answer_events model texts)"
proof
  assume ok: "sink_validate (fold boundary_emit evs (sink_new model)) = Inr ()"
  show "\<exists>texts. evs = answer_events model texts"
  proof (cases evs)
    case Nil
    with ok show ?thesis by (simp add: sink_validate_def sink_new_def)
  next
    case (Cons ev rest)
    with ok have valid: "\<not> sk_invalid (boundary_emit ev (sink_new model))"
      and final: "sk_terminal (fold boundary_emit rest (boundary_emit ev (sink_new model)))"
        "\<not> sk_invalid (fold boundary_emit rest (boundary_emit ev (sink_new model)))"
      using fold_boundary_invalid by (auto simp: sink_validate_def ensure_eq_Inr)
    from valid have ev: "ev = ModelStarted model" by (cases ev) (auto simp: sink_new_def split: if_splits)
    with final boundary_open [of "boundary_emit ev (sink_new model)" rest] Cons show ?thesis
      by (auto simp: sink_new_def answer_events_def)
  qed
next
  assume "\<exists>texts. evs = answer_events model texts"
  then show "sink_validate (fold boundary_emit evs (sink_new model)) = Inr ()"
    by (auto simp: boundary_answer sink_validate_def)
qed

text \<open>The content sink keeps the same flags, and a failed write as well.\<close>

lemma content_emit_valid:
  assumes "content_emit W rid ev (s, m) = (s', m')" "\<not> sk_invalid s'"
  shows "s' = boundary_emit ev s"
  using assms by (cases ev) (auto split: prod.splits if_splits)

lemma content_emit_invalid:
  assumes "content_emit W rid ev (s, m) = (s', m')" "sk_invalid s"
  shows "sk_invalid s'"
  using assms by (cases ev) (auto split: prod.splits if_splits)

lemma content_emits_invalid: "content_emits W rid evs (s, m) = (s', m') \<Longrightarrow> sk_invalid s \<Longrightarrow> sk_invalid s'"
proof (induction evs arbitrary: s m)
  case (Cons ev evs)
  obtain s1 m1 where "content_emit W rid ev (s, m) = (s1, m1)" by fastforce
  with Cons content_emit_invalid show ?case by auto
qed simp

lemma content_emits_valid:
  "content_emits W rid evs (s, m) = (s', m') \<Longrightarrow> \<not> sk_invalid s' \<Longrightarrow> s' = fold boundary_emit evs s"
proof (induction evs arbitrary: s m)
  case (Cons ev evs)
  obtain s1 m1 where one: "content_emit W rid ev (s, m) = (s1, m1)" by fastforce
  with Cons.prems have "\<not> sk_invalid s1" using content_emits_invalid by auto
  with Cons one show ?case using content_emit_valid [OF one] by auto
qed simp

section \<open>Every piece is stored\<close>

text \<open>
  The pieces of a delta, and what the store relies on for each of them. Other threads take steps
  of the store and leave the text of the turn alone.
\<close>

function delta_pieces :: "string \<Rightarrow> string list" where
  "delta_pieces str =
     (let n = floor_boundary str (min (length str) MAX_V4_DELTA_BYTES) in
      if n = 0 then [] else take n str # delta_pieces (drop n str))"
  by pat_completeness auto
termination
proof (relation "measure length")
  fix str :: string and n
  assume "n = floor_boundary str (min (length str) MAX_V4_DELTA_BYTES)" "n \<noteq> 0"
  then show "(drop n str, str) \<in> measure length"
    using floor_boundary_le [of str "min (length str) MAX_V4_DELTA_BYTES"] by auto
qed simp

declare delta_pieces.simps [simp del] emit_text.simps [simp del]

definition pieces_read :: "externals \<Rightarrow> model_event list \<Rightarrow> bool" where
  "pieces_read E evs \<longleftrightarrow>
     list_all (\<lambda>ev. list_all (\<lambda>p. payload_reads E (TextDelta p)) (delta_pieces (event_text ev))) evs"

definition leaves_text :: "world \<Rightarrow> run_id \<Rightarrow> bool" where
  "leaves_text W rid \<longleftrightarrow> (\<forall>t m. context_inv (w_ext W) (mg_db m) \<longrightarrow>
     (v4_step (w_ext W))\<^sup>*\<^sup>* (mg_db m) (mg_db (w_env W t m))
   \<and> turn_text (w_ext W) (mg_db (w_env W t m)) rid = turn_text (w_ext W) (mg_db m) rid)"

abbreviation stored_text :: "world \<Rightarrow> run_id \<Rightarrow> manager \<Rightarrow> string" where
  "stored_text W rid m \<equiv> turn_text (w_ext W) (mg_db m) rid"

abbreviation steady :: "world \<Rightarrow> manager \<Rightarrow> bool" where
  "steady W m \<equiv> context_inv (w_ext W) (mg_db m)"

lemma interleave_text:
  assumes "leaves_text W rid" "steady W m"
  shows "steady W (interleave W m)" "stored_text W rid (interleave W m) = stored_text W rid m"
proof -
  have "(v4_step (w_ext W))\<^sup>*\<^sup>* (mg_db m) (mg_db (interleave W m))"
    "stored_text W rid (interleave W m) = stored_text W rid m"
    using assms by (simp_all add: leaves_text_def interleave_def)
  then show "steady W (interleave W m)" "stored_text W rid (interleave W m) = stored_text W rid m"
    using assms(2) v4_steps_context by blast+
qed

lemma append_transcript:
  assumes inv: "content_inv E d" and ok: "v4_append_content E msg d rid p ms = Inr (e, d')"
    and json: "payload_reads E p"
  shows "transcript E d' rid = transcript E d rid @ [e] \<and> ce_payload e = p"
proof -
  from ok obtain c d1 where key: "(rid, c) \<in> set (turn_keys d)"
    and ins: "insert_content_event E d c rid p ms = Inr (e, d1)"
    and out: "case p of TextDelta t \<Rightarrow> update_assistant_preview E msg d1 rid t ms = Inr d' | _ \<Rightarrow> d' = d1"
    by (rule v4_append_content_Inr) blast
  have tinv: "turn_inv E d" using inv by (simp add: content_inv_def)
  have add: "content_added E e d d1" and e: "ce_payload e = p" "ce_run_id e = rid"
    using insert_content_added [OF ins json turn_event_conversation [OF tinv key]] by blast+
  have "assistant_content_events d' = assistant_content_events d1
      \<and> assistant_content_payloads d' = assistant_content_payloads d1"
    using out update_assistant_preview_frame by (cases p) fastforce+
  then have "transcript E d' rid = transcript E d1 rid"
    using stored_event_cong [of d' d1 E] by (simp add: transcript_def)
  with added_transcript(2) [OF content_inv_payload [OF inv] add] e show ?thesis by simp
qed

lemma store_append_text:
  assumes env: "leaves_text W rid" and inv: "steady W m" and ok: "store_append W rid p m = (r, m')"
    and json: "payload_reads (w_ext W) p" "\<not> is_terminal_payload p"
  shows "steady W m' \<and> stored_text W rid m' = stored_text W rid m @ (case r of Inl _ \<Rightarrow> [] | Inr _ \<Rightarrow> delta_text p)"
proof -
  note env' = interleave_text [OF env inv]
  show ?thesis
  proof (cases r)
    case (Inl e)
    with ok have "m' = interleave W m" by (auto simp: store_append_def Let_def split: sum.splits prod.splits)
    with env' Inl show ?thesis by simp
  next
    case (Inr e)
    with ok obtain d where app: "v4_append_content (w_ext W) (w_fresh_message W (mg_tick m)) (mg_db (interleave W m)) rid p
           (w_now_ms W (mg_tick m)) = Inr (e, d)" and m': "m' = (interleave W m)\<lparr>mg_db := d\<rparr>"
      using store_append_Inr by blast
    have cinv: "content_inv (w_ext W) (mg_db (interleave W m))" using env'(1) by (simp add: context_inv_def)
    from append_transcript [OF cinv app json(1)] env'(2)
    have "turn_text (w_ext W) d rid = stored_text W rid m @ delta_text p" by (simp add: turn_text_def)
    moreover have "v4_step (w_ext W) (mg_db (interleave W m)) d" using app json(2,1) by (rule v4_step.content)
    then have "context_inv (w_ext W) d" using env'(1) v4_steps_context by blast
    ultimately show ?thesis using Inr m' by simp
  qed
qed

lemma emit_text_stored:
  "leaves_text W rid \<Longrightarrow> steady W m \<Longrightarrow> list_all (\<lambda>p. payload_reads (w_ext W) (TextDelta p)) (delta_pieces str) \<Longrightarrow>
     emit_text W rid str m = (stored, m') \<Longrightarrow>
     steady W m' \<and> (\<exists>got. prefix got str \<and> (stored \<longrightarrow> got = str)
       \<and> stored_text W rid m' = stored_text W rid m @ got)"
proof (induction W rid str m rule: emit_text.induct)
  case (1 W rid str m)
  let ?n = "floor_boundary str (min (length str) MAX_V4_DELTA_BYTES)"
  show ?case
  proof (cases "str = []")
    case True
    with "1.prems" show ?thesis by (simp add: emit_text.simps)
  next
    case False
    obtain r m1 where app: "store_append W rid (TextDelta (take ?n str)) m = (r, m1)" by fastforce
    show ?thesis
    proof (cases "?n = 0")
      case True
      then have "\<nexists>ev. r = Inr ev" using app store_append_Inr append_delta_nonempty by fastforce
      then obtain e where r: "r = Inl e" by (cases r) auto
      with app have m1: "m1 = interleave W m" by (auto simp: store_append_def Let_def split: sum.splits prod.splits)
      from False app r "1.prems"(4) have "\<not> stored \<and> m' = m1"
        by (simp add: emit_text.simps [of W rid str] Let_def)
      then show ?thesis using interleave_text [OF "1.prems"(1,2)] m1 by auto
    next
      case pos: False
      have pieces: "delta_pieces str = take ?n str # delta_pieces (drop ?n str)"
        using pos by (subst delta_pieces.simps) (simp add: Let_def)
      with "1.prems"(3) have json: "payload_reads (w_ext W) (TextDelta (take ?n str))"
        "list_all (\<lambda>p. payload_reads (w_ext W) (TextDelta p)) (delta_pieces (drop ?n str))" by simp_all
      from store_append_text [OF "1.prems"(1,2) app json(1)]
      have step: "steady W m1" "stored_text W rid m1 = stored_text W rid m @ (case r of Inl _ \<Rightarrow> [] | Inr _ \<Rightarrow> take ?n str)"
        by (simp_all split: sum.splits)
      show ?thesis
      proof (cases r)
        case (Inl e)
        with False app "1.prems"(4) have "\<not> stored \<and> m' = m1"
          by (simp add: emit_text.simps [of W rid str] Let_def)
        with step Inl show ?thesis by auto
      next
        case (Inr ev)
        with False app "1.prems"(4) have rest: "emit_text W rid (drop ?n str) m1 = (stored, m')"
          by (simp add: emit_text.simps [of W rid str] Let_def)
        from "1.IH" [OF False refl app [symmetric] Inr "1.prems"(1) step(1) json(2) rest]
        obtain got where got: "steady W m'" "prefix got (drop ?n str)" "stored \<longrightarrow> got = drop ?n str"
          "stored_text W rid m' = stored_text W rid m1 @ got" by blast
        have "prefix (take ?n str @ got) str"
          using got(2) by (metis append_take_drop_id same_prefix_prefix)
        moreover have "stored \<longrightarrow> take ?n str @ got = str" using got(3) by simp
        ultimately show ?thesis using got step(2) Inr by (intro conjI exI [of _ "take ?n str @ got"]) simp_all
      qed
    qed
  qed
qed

lemma content_emit_stored:
  assumes env: "leaves_text W rid" and inv: "steady W m" and json: "pieces_read (w_ext W) [ev]"
    and ok: "content_emit W rid ev (s, m) = (s', m')"
  shows "steady W m' \<and> (\<not> sk_invalid s' \<longrightarrow> stored_text W rid m' = stored_text W rid m @ event_text ev)"
proof (cases "\<exists>str. ev = ModelTextDelta str \<and> sk_started s \<and> \<not> sk_terminal s")
  case True
  then obtain str where str: "ev = ModelTextDelta str" "sk_started s" "\<not> sk_terminal s" by blast
  obtain stored m1 where emit: "emit_text W rid str m = (stored, m1)" by fastforce
  with ok str have "m' = m1" "\<not> sk_invalid s' \<longrightarrow> stored" by (auto split: if_splits)
  with emit_text_stored [OF env inv _ emit] json str show ?thesis by (auto simp: pieces_read_def)
next
  case False
  with ok have "m' = m" "\<not> sk_invalid s' \<longrightarrow> event_text ev = []" by (cases ev; auto split: if_splits)+
  with inv show ?thesis by simp
qed

lemma content_emits_stored:
  assumes env: "leaves_text W rid"
  shows "steady W m \<Longrightarrow> pieces_read (w_ext W) evs \<Longrightarrow> content_emits W rid evs (s, m) = (s', m') \<Longrightarrow>
     steady W m' \<and> (\<not> sk_invalid s' \<longrightarrow> stored_text W rid m' = stored_text W rid m @ streamed_text evs)"
proof (induction evs arbitrary: s m)
  case (Cons ev evs)
  obtain s1 m1 where one: "content_emit W rid ev (s, m) = (s1, m1)" by fastforce
  with Cons.prems(3) have rest: "content_emits W rid evs (s1, m1) = (s', m')" by simp
  have "pieces_read (w_ext W) [ev]" "pieces_read (w_ext W) evs" using Cons.prems(2) by (simp_all add: pieces_read_def)
  with Cons.IH [OF _ _ rest] content_emit_stored [OF env Cons.prems(1) _ one] content_emits_invalid [OF rest]
  show ?case by auto
qed simp

section \<open>The prompt stays within the bound of an input\<close>

lemma recent_pairs_answered: "p \<in> set (fst (recent_pairs ps n)) \<Longrightarrow> xp_assistant p \<noteq> []"
  by (induction ps n rule: recent_pairs.induct) (auto split: if_splits prod.splits)

lemma turn_context_exact:
  assumes inv: "context_inv E d" and ok: "v4_turn_context E d rid request n = Inr ctx"
  obtains t where "t \<in> set (assistant_turns d)" "tw_run_id t = rid" "tw_conversation_id t = vt_conversation_id request"
    "n \<le> 24 * 1024" "length (vt_input request) \<le> MAX_V4_INPUT_BYTES"
    "ctx = (let hist = map (turn_pair E d) (prior_turns E d request (tw_user_sequence t)) in
       \<lparr>tc_pairs = rev (fst (recent_pairs (take 32 hist) n)),
        tc_truncated = (32 < length hist \<or> snd (recent_pairs (take 32 hist) n))\<rparr>)"
proof -
  from ok obtain t ids ctx1 where t: "current_turn E d rid request = Some t" and small: "n \<le> 24 * 1024"
    and input: "v4_submit_turn_validate request = Inr ()"
    and ids: "context_identities d request (tw_user_sequence t) = Inr ids"
    and loop: "context_loop E d (vt_conversation_id request) (take 32 ids) n
       \<lparr>tc_pairs = [], tc_truncated = length ids > 32\<rparr> = Inr ctx1"
    and ctx: "ctx = ctx1\<lparr>tc_pairs := rev (tc_pairs ctx1)\<rparr>"
    by (auto simp: v4_turn_context_def bindr_eq_Inr ok_or_eq_Inr map_err_eq_Inr split: if_splits)
  let ?ts = "prior_turns E d request (tw_user_sequence t)"
  let ?id = "\<lambda>t. (tw_run_id t, the (tw_user_message_id t), answer_id d t)"
  from context_identities_exact [OF inv ids] have ids': "ids = map ?id (take 33 ?ts)"
    and uid: "\<forall>t\<in>set (take 33 ?ts). tw_user_message_id t \<noteq> None" by blast+
  have more: "32 < length ids \<longleftrightarrow> 32 < length ?ts" unfolding ids' by auto
  have mem: "\<forall>t\<in>set ?ts. t \<in> set (assistant_turns d) \<and> tw_conversation_id t = vt_conversation_id request"
    by (simp add: prior_turns_def)
  have "\<forall>t\<in>set (take 32 ?ts). tw_user_message_id t \<noteq> None"
    using uid set_take_subset_set_take [of 32 33 ?ts] by auto
  with mem have sub: "set (take 32 ?ts) \<subseteq> set (assistant_turns d)"
    "\<forall>t\<in>set (take 32 ?ts). tw_conversation_id t = vt_conversation_id request \<and> tw_user_message_id t \<noteq> None"
    using in_set_takeD by fast+
  have "context_loop E d (vt_conversation_id request) (map ?id (take 32 ?ts)) n
      \<lparr>tc_pairs = [], tc_truncated = length ids > 32\<rparr> = Inr ctx1"
    using loop unfolding ids' by (simp add: take_map min_def)
  from context_loop_exact [OF inv sub this small] ctx more
  have ctx': "ctx = (let hist = map (turn_pair E d) ?ts in
       \<lparr>tc_pairs = rev (fst (recent_pairs (take 32 hist) n)),
        tc_truncated = (32 < length hist \<or> snd (recent_pairs (take 32 hist) n))\<rparr>)"
    by (simp add: take_map)
  have "length (vt_input request) \<le> MAX_V4_INPUT_BYTES"
    using input by (simp add: v4_submit_turn_validate_def v4_text_def v4_ensure_def bindr_eq_Inr ensure_eq_Inr)
  moreover from t have "t \<in> set (assistant_turns d)" "tw_run_id t = rid"
    "tw_conversation_id t = vt_conversation_id request"
    unfolding current_turn_def by (auto dest!: find_Some_in)
  ultimately show thesis using that small ctx' by blast
qed

lemma turn_context_bounds:
  assumes "context_inv E d" and "v4_turn_context E d rid request n = Inr ctx"
  shows "length (tc_pairs ctx) \<le> 32 \<and> sum_list (map pair_bytes (tc_pairs ctx)) \<le> n
       \<and> (\<forall>p\<in>set (tc_pairs ctx). xp_assistant p \<noteq> [])"
  using assms
proof (rule turn_context_exact)
  fix t
  let ?ps = "take 32 (map (turn_pair E d) (prior_turns E d request (tw_user_sequence t)))"
  assume ctx: "ctx = (let hist = map (turn_pair E d) (prior_turns E d request (tw_user_sequence t)) in
       \<lparr>tc_pairs = rev (fst (recent_pairs (take 32 hist) n)),
        tc_truncated = (32 < length hist \<or> snd (recent_pairs (take 32 hist) n))\<rparr>)"
  have "sum_list (map pair_bytes (rev (fst (recent_pairs ?ps n)))) = sum_list (map pair_bytes (fst (recent_pairs ?ps n)))"
    by (simp add: rev_map [symmetric])
  then show ?thesis using ctx recent_pairs_bounds [of ?ps n] recent_pairs_answered [of _ ?ps n]
    by (auto simp: Let_def)
qed

lemma pair_lines_length: "length (pair_lines p) = pair_bytes p + 19"
  by (simp add: pair_lines_def pair_bytes_def)

lemma history_length:
  "length (concat (map pair_lines ps)) = sum_list (map pair_bytes ps) + 19 * length ps"
  by (induction ps) (simp_all add: pair_lines_length)

lemma prompt_length:
  assumes inv: "context_inv E d" and ok: "v4_turn_context E d rid request (context_available request) = Inr ctx"
    and some: "tc_pairs ctx \<noteq> []"
  shows "length (conversation_context_prefix (concat (map pair_lines (tc_pairs ctx))) @ [CHR 0x0A] @ vt_input request)
      \<le> MAX_V4_INPUT_BYTES"
proof -
  let ?s = "sum_list (map pair_bytes (tc_pairs ctx))"
  note b = turn_context_bounds [OF inv ok]
  obtain p ps where p: "tc_pairs ctx = p # ps" using some by (cases "tc_pairs ctx") auto
  with b have "0 < ?s" by (cases "xp_assistant p") (auto simp: pair_bytes_def)
  with b have "?s \<le> MAX_V4_INPUT_BYTES - length (vt_input request) - 2048" "0 < ?s"
    by (auto simp: context_available_def)
  moreover have "length (concat (map pair_lines (tc_pairs ctx))) \<le> ?s + 608"
    using b by (simp add: history_length)
  ultimately show ?thesis by (simp add: conversation_context_prefix_def MAX_V4_INPUT_BYTES_def)
qed

end
