(* ===== verification/Provider_Theorems.thy ===== *)
theory Provider_Theorems
  imports Provider_Facts V4_Samples Manager_Theorems
begin

text \<open>
  What the provider executor promises for a conversational turn: the history it is answered
  with, the bound of its prompt, and that an accepted answer is stored whole.
\<close>

section \<open>A conversation with two turns\<close>

definition ask_p :: v4_submit_turn where
  "ask_p = \<lparr>vt_conversation_id = conv_a, vt_idempotency_key = ''key-p'', vt_route_id = ''abi.m'', vt_input = ''Hi''\<rparr>"

definition ask_q :: v4_submit_turn where
  "ask_q = \<lparr>vt_conversation_id = conv_a, vt_idempotency_key = ''key-q'', vt_route_id = ''abi.m'', vt_input = ''Again''\<rparr>"

definition run_b :: run_id where "run_b = ''1f8fad5b-d9cb-469f-a165-70867728950e''"

definition answer_provider :: model_provider where
  "answer_provider = \<lparr>pv_id = ''echo'', pv_run = (\<lambda>_ model _ _.
     (answer_events model [''Hello'', '', world''], Some \<lparr>rp_stop = StopCompleted, rp_truncated = False\<rparr>))\<rparr>"

definition route_m :: provider_route where
  "route_m = \<lparr>pr_backend = Abi, pr_model = ''m'', pr_provider = answer_provider,
     pr_budget = \<lparr>bg_max_events = Some 16, bg_max_output_tokens = Some 32, bg_max_duration = Some 1\<rparr>\<rparr>"

definition succeeded_event :: new_run_event where
  "succeeded_event = event sample_clock ''run_succeeded'' None"

definition db_p :: db where "db_p = snd (projr (v4_admit_turn sample_ext run_a ''msg-p'' db_conv ask_p 2000))"
definition db_p1 :: db where
  "db_p1 = snd (projr (transition_run sample_ext time_5 5000 db_p run_a Queued Starting starting))"
definition db_p2 :: db where
  "db_p2 = snd (projr (transition_run sample_ext time_5 5000 db_p1 run_a Starting Running started))"

definition manager_p :: manager where
  "manager_p = (manager_start run_manager_config_default db_p2)\<lparr>mg_tokens := [False]\<rparr>"

definition manager_p3 :: manager where
  "manager_p3 = snd (provider_execute_v4 sample_world [route_m] run_a ask_p 0 manager_p)"

definition db_p4 :: db where
  "db_p4 = snd (projr (transition_run sample_ext time_5 5000 (mg_db manager_p3) run_a Running Succeeded succeeded_event))"
definition db_q :: db where "db_q = snd (projr (v4_admit_turn sample_ext run_b ''msg-q'' db_p4 ask_q 6000))"

lemma p_admit: "\<exists>s. v4_admit_turn sample_ext run_a ''msg-p'' db_conv ask_p 2000 = Inr (s, db_p)"
  by (rule exI [of _ "fst (projr (v4_admit_turn sample_ext run_a ''msg-p'' db_conv ask_p 2000))"]) code_simp

lemma p_starting: "\<exists>e. transition_run sample_ext time_5 5000 db_p run_a Queued Starting starting = Inr (e, db_p1)"
  by (rule exI [of _ "fst (projr (transition_run sample_ext time_5 5000 db_p run_a Queued Starting starting))"]) code_simp

lemma p_running: "\<exists>e. transition_run sample_ext time_5 5000 db_p1 run_a Starting Running started = Inr (e, db_p2)"
  by (rule exI [of _ "fst (projr (transition_run sample_ext time_5 5000 db_p1 run_a Starting Running started))"]) code_simp

lemma p_execute: "provider_execute_v4 sample_world [route_m] run_a ask_p 0 manager_p = (Inr (), manager_p3)"
  by code_simp

lemma p_succeeded: "\<exists>e. transition_run sample_ext time_5 5000 (mg_db manager_p3) run_a Running Succeeded succeeded_event
    = Inr (e, db_p4)"
  by (rule exI [of _ "fst (projr (transition_run sample_ext time_5 5000 (mg_db manager_p3) run_a Running Succeeded
        succeeded_event))"]) code_simp

lemma q_admit: "\<exists>s. v4_admit_turn sample_ext run_b ''msg-q'' db_p4 ask_q 6000 = Inr (s, db_q)"
  by (rule exI [of _ "fst (projr (v4_admit_turn sample_ext run_b ''msg-q'' db_p4 ask_q 6000))"]) code_simp

lemma p_payloads:
  "payload_reads sample_ext (NoticePayload NoticeTruncated)" "payload_parses sample_ext succeeded_event"
  "pieces_read sample_ext (answer_events ''m'' [''Hello'', '', world''])"
  by code_simp+

lemma p_typed:
  "submit_turn_typed sample_ext ask_p" "submit_turn_typed sample_ext ask_q" "canonical sample_ext run_b"
  by code_simp+

lemma sample_leaves_text: "leaves_text sample_world rid"
  by (simp add: leaves_text_def sample_world_def)

lemma p_steps: "(v4_step sample_ext)\<^sup>*\<^sup>* db_conv db_p2"
proof -
  have "v4_step sample_ext db_conv db_p" using p_admit v4_step.admit p_typed(1) turn_a_typed(2) by blast
  moreover have "v4_step sample_ext db_p db_p1" "v4_step sample_ext db_p1 db_p2"
    using p_starting p_running sample_events(2,4) store_step.transition v4_step.run by blast+
  ultimately show ?thesis by auto
qed

lemma db_conv_context: "context_inv sample_ext db_conv"
  using sample_v4_invs(1) by (simp add: context_inv_def unlinked_def db_conv_def empty_db_def)

lemma manager_p_steady: "steady sample_world manager_p"
  using v4_steps_context [OF p_steps db_conv_context]
  by (simp add: manager_p_def manager_start_def sample_world_def)

section \<open>The prompt\<close>

text \<open>
  C19: The prompt of a turn never outgrows the bound of an input and always ends with the whole input,
  and the length check that guards it never fires: whatever the history holds, building the prompt
  fails only when the history cannot be read or the truncation notice cannot be stored.
\<close>

theorem prompt_within_input:
  assumes "context_inv (w_ext W) (mg_db (interleave W m))" and "prompt_for_turn W rid req m = (r, m')"
  shows "case r of
      Inr p \<Rightarrow> length p \<le> MAX_V4_INPUT_BYTES \<and> suffix (vt_input req) p
    | Inl e \<Rightarrow>
        e = unsupported
          \<and> (\<exists>x. v4_turn_context (w_ext W) (mg_db (interleave W m)) rid req (context_available req) = Inl x)
      \<or> e = provider_failed
          \<and> (\<exists>x. fst (store_append W rid (NoticePayload NoticeTruncated) (interleave W m)) = Inl x)"
proof (cases "v4_turn_context (w_ext W) (mg_db (interleave W m)) rid req (context_available req)")
  case (Inl x)
  with assms(2) show ?thesis by (auto simp: prompt_for_turn_def Let_def)
next
  case (Inr ctx)
  note len = prompt_length [OF assms(1) Inr]
  have input: "length (vt_input req) \<le> MAX_V4_INPUT_BYTES" using assms(1) Inr by (rule turn_context_exact)
  obtain n m2 where noted: "note_truncation W rid (tc_truncated ctx) (interleave W m) = (n, m2)" by fastforce
  show ?thesis
  proof (cases n)
    case (Inl e)
    with noted Inr assms(2) show ?thesis
      by (auto simp: prompt_for_turn_def note_truncation_def Let_def split: if_splits sum.splits prod.splits)
  next
    case (Inr u)
    let ?p = "if tc_pairs ctx = [] then vt_input req
      else conversation_context_prefix (concat (map pair_lines (tc_pairs ctx))) @ [CHR 0x0A] @ vt_input req"
    have "r = Inr ?p"
      using Inr noted \<open>v4_turn_context _ _ _ _ _ = Inr ctx\<close> assms(2) len
      by (auto simp: prompt_for_turn_def Let_def split: if_splits)
    moreover have "length ?p \<le> MAX_V4_INPUT_BYTES" using input len by simp
    moreover have "suffix (vt_input req) ?p"
      by (auto simp: suffix_def)
    ultimately show ?thesis by simp
  qed
qed

theorem prompt_within_input_witness:
  "\<exists>p. fst (prompt_for_turn sample_world run_a ask_p manager_p) = Inr p \<and> suffix ''Hi'' p"
proof -
  obtain r m' where r: "prompt_for_turn sample_world run_a ask_p manager_p = (r, m')" by fastforce
  have "context_inv (w_ext sample_world) (mg_db (interleave sample_world manager_p))"
    using interleave_text(1) [OF sample_leaves_text manager_p_steady] .
  from prompt_within_input [OF this r]
  have "case r of Inr p \<Rightarrow> suffix ''Hi'' p | Inl _ \<Rightarrow> True"
    by (simp add: ask_p_def split: sum.splits)
  moreover have "\<exists>p. fst (prompt_for_turn sample_world run_a ask_p manager_p) = Inr p"
    by (rule exI [of _ "''Hi''"]) code_simp
  ultimately show ?thesis using r by auto
qed

section \<open>The history of a turn\<close>

text \<open>
  C29: A turn is answered with exactly the recent history of its conversation and route: walking the
  earlier succeeded turns from the newest, at most 32 of them, every question with its whole stored
  answer that still fits the budget, oldest first. The budget is never exceeded, and unless the
  result says that it is truncated, no answered turn is missing.
\<close>

theorem history_is_exact:
  assumes "(v4_step E)\<^sup>*\<^sup>* d0 d" and "context_inv E d0" and "v4_turn_context E d rid req n = Inr ctx"
  shows "\<exists>t\<in>set (assistant_turns d). tw_run_id t = rid \<and> tw_conversation_id t = vt_conversation_id req
     \<and> (let hist = map (turn_pair E d) (prior_turns E d req (tw_user_sequence t)) in
          tc_pairs ctx = rev (fst (recent_pairs (take 32 hist) n))
        \<and> tc_truncated ctx = (32 < length hist \<or> snd (recent_pairs (take 32 hist) n))
        \<and> sum_list (map pair_bytes (tc_pairs ctx)) \<le> n
        \<and> (\<not> tc_truncated ctx \<longrightarrow> tc_pairs ctx = rev (filter (\<lambda>p. xp_assistant p \<noteq> []) hist)))"
proof -
  have inv: "context_inv E d" using assms(1,2) by (rule v4_steps_context)
  from inv assms(3) obtain t where t: "t \<in> set (assistant_turns d)" "tw_run_id t = rid"
      "tw_conversation_id t = vt_conversation_id req"
    and ctx: "ctx = (let hist = map (turn_pair E d) (prior_turns E d req (tw_user_sequence t)) in
       \<lparr>tc_pairs = rev (fst (recent_pairs (take 32 hist) n)),
        tc_truncated = (32 < length hist \<or> snd (recent_pairs (take 32 hist) n))\<rparr>)"
    by (rule turn_context_exact) blast
  let ?hist = "map (turn_pair E d) (prior_turns E d req (tw_user_sequence t))"
  have pairs: "tc_pairs ctx = rev (fst (recent_pairs (take 32 ?hist) n))"
    and left: "tc_truncated ctx \<longleftrightarrow> 32 < length ?hist \<or> snd (recent_pairs (take 32 ?hist) n)"
    unfolding ctx Let_def by simp_all
  have "tc_pairs ctx = rev (filter (\<lambda>p. xp_assistant p \<noteq> []) ?hist)" if "\<not> tc_truncated ctx"
  proof -
    have "take 32 ?hist = ?hist" using that left by simp
    moreover have "\<not> snd (recent_pairs (take 32 ?hist) n)" using that left by blast
    ultimately show ?thesis using recent_pairs_whole [of ?hist n] pairs by metis
  qed
  moreover have "sum_list (map pair_bytes (tc_pairs ctx)) \<le> n" using turn_context_bounds [OF inv assms(3)] by blast
  ultimately show ?thesis unfolding Let_def using t pairs left by blast
qed

section \<open>The answer\<close>

lemma prompt_steady:
  assumes env: "leaves_text W rid" and inv: "steady W m" and notice: "payload_reads (w_ext W) (NoticePayload NoticeTruncated)"
    and ok: "prompt_for_turn W rid req m = (r, m')"
  shows "steady W m' \<and> stored_text W rid m' = stored_text W rid m"
proof (cases "v4_turn_context (w_ext W) (mg_db (interleave W m)) rid req (context_available req)")
  case (Inl x)
  with ok interleave_text [OF env inv] show ?thesis by (auto simp: prompt_for_turn_def Let_def)
next
  case (Inr ctx)
  note i = interleave_text [OF env inv]
  obtain n m2 where noted: "note_truncation W rid (tc_truncated ctx) (interleave W m) = (n, m2)" by fastforce
  with Inr ok have "m' = m2"
    by (cases n) (auto simp: prompt_for_turn_def Let_def split: if_splits)
  moreover have "steady W m2 \<and> stored_text W rid m2 = stored_text W rid m"
  proof (cases "tc_truncated ctx")
    case True
    with noted obtain x where "store_append W rid (NoticePayload NoticeTruncated) (interleave W m) = (x, m2)"
      by (auto simp: note_truncation_def split: sum.splits prod.splits)
    from store_append_text [OF env i(1) this notice] i(2) show ?thesis by (auto split: sum.splits)
  qed (use noted i in \<open>simp add: note_truncation_def\<close>)
  ultimately show ?thesis by simp
qed

lemma execute_v4_steps:
  assumes env: "leaves_text W rid" and inv: "steady W m"
    and json: "payload_reads (w_ext W) (NoticePayload NoticeTruncated)"
      "\<forall>route t p. route_for_v4 table (vt_route_id req) = Some route \<longrightarrow>
         pieces_read (w_ext W) (fst (pv_run (pr_provider route) t (pr_model route) p (pr_budget route)))"
    and ok: "provider_execute_v4 W table rid req token m = (r, m')"
  obtains (refused) "steady W m'" "\<exists>e. r = Inl e"
  | (ran) route t p evs report s where "route_for_v4 table (vt_route_id req) = Some route"
      "pv_run (pr_provider route) t (pr_model route) p (pr_budget route) = (evs, report)" "steady W m'"
      "\<not> sk_invalid s \<longrightarrow> s = fold boundary_emit evs (sink_new (pr_model route))
         \<and> stored_text W rid m' = stored_text W rid m @ streamed_text evs"
      "r = provider_verdict report (token_is_cancelled m' token) (sink_validate s)"
proof (cases "\<exists>route p m1. v4_submit_turn_validate req = Inr () \<and> route_for_v4 table (vt_route_id req) = Some route
    \<and> prompt_for_turn W rid req m = (Inr p, m1)")
  case True
  then obtain route p m1 where valid: "v4_submit_turn_validate req = Inr ()"
    and route: "route_for_v4 table (vt_route_id req) = Some route"
    and prompt: "prompt_for_turn W rid req m = (Inr p, m1)" by blast
  obtain evs report where run: "pv_run (pr_provider route) (mg_tick m1) (pr_model route) p (pr_budget route) = (evs, report)"
    by fastforce
  obtain s m2 where emits: "content_emits W rid evs (sink_new (pr_model route), m1) = (s, m2)" by fastforce
  have m': "m' = interleave W m2" "r = provider_verdict report (token_is_cancelled m' token) (sink_validate s)"
    using ok valid route prompt run emits by (auto simp: provider_execute_v4_def Let_def)
  note m1 = prompt_steady [OF env inv json(1) prompt]
  have "pieces_read (w_ext W) evs" using json(2) route run by (metis fst_conv)
  with content_emits_stored [OF env _ _ emits] m1
  have m2: "steady W m2" "\<not> sk_invalid s \<longrightarrow> stored_text W rid m2 = stored_text W rid m @ streamed_text evs" by auto
  from interleave_text [OF env m2(1)] m2(2) m' content_emits_valid [OF emits] show thesis
    by (intro ran [OF route run]) auto
next
  case False
  have "steady W m' \<and> (\<exists>e. r = Inl e)"
  proof (cases "v4_submit_turn_validate req = Inr () \<and> route_for_v4 table (vt_route_id req) \<noteq> None")
    case True
    then obtain route where route: "route_for_v4 table (vt_route_id req) = Some route" by blast
    obtain e m1 where "prompt_for_turn W rid req m = (Inl e, m1)"
      using False True by (cases "prompt_for_turn W rid req m"; cases "fst (prompt_for_turn W rid req m)") auto
    with ok True route prompt_steady [OF env inv json(1)] show ?thesis by (auto simp: provider_execute_v4_def)
  qed (use ok inv in \<open>auto simp: provider_execute_v4_def split: if_splits option.splits\<close>)
  then show thesis using refused by blast
qed

lemma execute_v4_steady:
  assumes "leaves_text W rid" and "steady W m"
    and "payload_reads (w_ext W) (NoticePayload NoticeTruncated)"
      "\<forall>route t p. route_for_v4 table (vt_route_id req) = Some route \<longrightarrow>
         pieces_read (w_ext W) (fst (pv_run (pr_provider route) t (pr_model route) p (pr_budget route)))"
    and "provider_execute_v4 W table rid req token m = (r, m')"
  shows "steady W m'"
  using assms by (rule execute_v4_steps)


lemma route_m_found: "route_for_v4 [route_m] (vt_route_id ask_p) = Some route_m"
  by (simp add: route_for_v4_def v4_route_id_def route_m_def ask_p_def)


lemma manager_p3_context: "context_inv sample_ext (mg_db manager_p3)"
proof -
  have "w_ext sample_world = sample_ext" by (simp add: sample_world_def)
  then show ?thesis
    using execute_v4_steady [OF sample_leaves_text manager_p_steady _ _ p_execute] p_payloads route_m_found
    by (auto simp: route_m_def answer_provider_def)
qed

lemma q_steps: "(v4_step sample_ext)\<^sup>*\<^sup>* (mg_db manager_p3) db_q"
proof -
  have "v4_step sample_ext (mg_db manager_p3) db_p4"
    using p_succeeded p_payloads(2) store_step.transition v4_step.run by blast
  moreover have "v4_step sample_ext db_p4 db_q" using q_admit v4_step.admit p_typed(2,3) by blast
  ultimately show ?thesis by auto
qed

text \<open>The second turn is answered with the first as its history.\<close>

definition history_q :: v4_turn_context where
  "history_q = \<lparr>tc_pairs = [\<lparr>xp_user = ''Hi'', xp_assistant = ''Hello, world''\<rparr>], tc_truncated = False\<rparr>"

lemma q_context: "v4_turn_context sample_ext db_q run_b ask_q 1000 = Inr history_q"
  by code_simp

theorem history_is_exact_witness:
  "v4_turn_context sample_ext db_q run_b ask_q 1000 = Inr history_q
     \<and> sum_list (map pair_bytes (tc_pairs history_q)) \<le> 1000"
  using history_is_exact [OF q_steps manager_p3_context q_context] q_context by (auto simp: Let_def)

end
