(* ===== verification/Automation_Schedule.thy ===== *)
theory Automation_Schedule
  imports Abbey_Prelude
begin

text \<open>
  The scheduling calculations: \<open>src/automation_schedule.rs\<close> and the cron parser
  \<open>src/automation_schedule/cron.rs\<close>. Dates and zones come from the crates chrono and chrono-tz:
  a date is its day number since 1970-01-01, a wall time the number of its minute, an instant
  its milliseconds, and what the sources ask of the crates is a record.
\<close>

section \<open>chrono\<close>

datatype local_result = LocalNone | LocalSingle int | LocalAmbiguous int int

record tz =
  tz_name :: string
  tz_offset :: "int \<Rightarrow> int"
  tz_from_local :: "int \<Rightarrow> local_result"
  tz_label :: "int \<Rightarrow> string"

record chrono =
  ch_min_day :: int
  ch_max_day :: int
  ch_month :: "int \<Rightarrow> nat"
  ch_day :: "int \<Rightarrow> nat"
  ch_weekday :: "int \<Rightarrow> nat"
  ch_tz :: "string \<Rightarrow> tz option"

definition in_calendar :: "chrono \<Rightarrow> int \<Rightarrow> bool" where
  "in_calendar C day \<longleftrightarrow> ch_min_day C \<le> day \<and> day \<le> ch_max_day C"

section \<open>Schedules\<close>

datatype schedule_kind =
    Once nat
  | Hourly nat
  | Daily nat nat
  | Weekly nat nat nat
  | Cron string

record schedule_spec =
  ss_timezone :: string
  ss_kind :: schedule_kind

record occurrence =
  oc_scheduled_at_ms :: nat
  oc_local_label :: string

record missed_window =
  mi_after_ms :: nat
  mi_through_ms :: nat

record catch_up =
  cu_latest_due :: "occurrence option"
  cu_missed_window :: "missed_window option"
  cu_next :: "occurrence option"

datatype schedule_error =
  InvalidSchedule | InvalidTimestamp | InvalidCount | InvalidInterval | TimezoneGap

definition MAX_SAFE_MS :: nat where "MAX_SAFE_MS = 9007199254740991"

section \<open>Cron expressions\<close>

record calendar =
  cal_minutes :: "nat list"
  cal_hours :: "nat list"
  cal_dom :: "nat list"
  cal_months :: "nat list"
  cal_dow :: "nat list"
  cal_dom_any :: bool
  cal_dow_any :: bool

text \<open>\<open>str::split\<close> and \<open>split_ascii_whitespace\<close>.\<close>

fun split_at_char :: "(char \<Rightarrow> bool) \<Rightarrow> string \<Rightarrow> string list" where
  "split_at_char sep [] = [[]]"
| "split_at_char sep (c # cs) =
     (if sep c then [] # split_at_char sep cs
      else case split_at_char sep cs of [] \<Rightarrow> [[c]] | part # parts \<Rightarrow> (c # part) # parts)"

definition is_ascii_whitespace :: "char \<Rightarrow> bool" where
  "is_ascii_whitespace c \<longleftrightarrow> byte_of c \<in> {9, 10, 12, 13, 32}"

definition split_ascii_whitespace :: "string \<Rightarrow> string list" where
  "split_ascii_whitespace s = filter (\<lambda>part. part \<noteq> []) (split_at_char is_ascii_whitespace s)"

definition digits_value :: "string \<Rightarrow> nat" where
  "digits_value s = foldl (\<lambda>n c. 10 * n + (byte_of c - 48)) 0 s"

definition number :: "string \<Rightarrow> schedule_error + nat" where
  "number s =
     (if s = [] \<or> \<not> list_all is_ascii_digit s then Inl InvalidSchedule
      else if digits_value s < 2 ^ 32 then Inr (digits_value s) else Inl InvalidSchedule)"

text \<open>One comma-separated part of a field: its bounds and its step.\<close>

definition part_range :: "string \<Rightarrow> nat \<Rightarrow> nat \<Rightarrow> schedule_error + nat \<times> nat \<times> nat" where
  "part_range part lower upper =
     (case split_at_char (\<lambda>c. c = CHR ''/'') part of
        [] \<Rightarrow> Inl InvalidSchedule
      | base # rest \<Rightarrow>
          bindr (case rest of [] \<Rightarrow> Inr None | s # _ \<Rightarrow> bindr (number s) (\<lambda>n. Inr (Some n))) (\<lambda>step.
            if length rest > 1 \<or> step = Some 0 then Inl InvalidSchedule
            else
              bindr (if base = ''*'' then Inr (lower, upper)
                     else if CHR ''-'' \<in> set base
                     then let a = takeWhile (\<lambda>c. c \<noteq> CHR ''-'') base;
                              b = drop (Suc (length a)) base in
                          bindr (number a) (\<lambda>lo. bindr (number b) (\<lambda>hi. Inr (lo, hi)))
                     else if step \<noteq> None then Inl InvalidSchedule
                     else bindr (number base) (\<lambda>n. Inr (n, n))) (\<lambda>(lo, hi).
                if lo < lower \<or> hi > upper \<or> lo > hi then Inl InvalidSchedule
                else Inr (lo, hi, case step of None \<Rightarrow> 1 | Some n \<Rightarrow> n))))"

definition part_values :: "nat \<times> nat \<times> nat \<Rightarrow> nat list" where
  "part_values r = (case r of (lo, hi, step) \<Rightarrow> filter (\<lambda>n. (n - lo) mod step = 0) [lo..<Suc hi])"

definition cron_field :: "string \<Rightarrow> nat \<Rightarrow> nat \<Rightarrow> schedule_error + nat list" where
  "cron_field s lower upper =
     bindr (collect_results (\<lambda>part. part_range part lower upper) (split_at_char (\<lambda>c. c = CHR '','') s)) (\<lambda>ranges.
       let vs = remdups_adj (sort (concat (map part_values ranges))) in
       if vs = [] then Inl InvalidSchedule else Inr vs)"

definition calendar_matches :: "chrono \<Rightarrow> calendar \<Rightarrow> int \<Rightarrow> bool" where
  "calendar_matches C c day \<longleftrightarrow>
     ch_month C day \<in> set (cal_months c)
   \<and> (let dom = ch_day C day \<in> set (cal_dom c); dow = ch_weekday C day \<in> set (cal_dow c) in
      if cal_dom_any c \<or> cal_dow_any c then dom \<and> dow else dom \<or> dow)"

text \<open>The loop over one Gregorian cycle, from 2000-01-01.\<close>

fun some_day_matches :: "nat \<Rightarrow> chrono \<Rightarrow> calendar \<Rightarrow> int \<Rightarrow> bool" where
  "some_day_matches 0 C c day = False"
| "some_day_matches (Suc n) C c day =
     (calendar_matches C c day \<or> day < ch_max_day C \<and> some_day_matches n C c (day + 1))"

definition calendar_parse :: "chrono \<Rightarrow> string \<Rightarrow> schedule_error + calendar" where
  "calendar_parse C expression =
     (if length expression > 128 then Inl InvalidSchedule
      else case split_ascii_whitespace expression of
        [f0, f1, f2, f3, f4] \<Rightarrow>
          bindr (cron_field f0 0 59) (\<lambda>minutes.
          bindr (cron_field f1 0 23) (\<lambda>hours.
          bindr (cron_field f2 1 31) (\<lambda>dom.
          bindr (cron_field f3 1 12) (\<lambda>months.
          bindr (cron_field f4 0 7) (\<lambda>dow.
            let c = \<lparr>cal_minutes = minutes, cal_hours = hours, cal_dom = dom, cal_months = months,
                     cal_dow = map (\<lambda>v. v mod 7) dow,
                     cal_dom_any = (take 1 f2 = ''*''), cal_dow_any = (take 1 f4 = ''*'')\<rparr> in
            if some_day_matches 146097 C c 10957 then Inr c else Inl InvalidSchedule)))))
      | _ \<Rightarrow> Inl InvalidSchedule)"

section \<open>Compilation\<close>

record compiled_schedule =
  cs_zone :: tz
  cs_once :: "nat option"
  cs_calendar :: calendar

definition schedule_timestamp :: "chrono \<Rightarrow> nat \<Rightarrow> schedule_error + int" where
  "schedule_timestamp C ms =
     (if ms > MAX_SAFE_MS then Inl InvalidTimestamp
      else if in_calendar C (int ms div 86400000) then Inr (int ms) else Inl InvalidTimestamp)"

definition local_ms :: "tz \<Rightarrow> int \<Rightarrow> int" where
  "local_ms z t = t + 1000 * tz_offset z t"

definition local_datetime :: "chrono \<Rightarrow> tz \<Rightarrow> nat \<Rightarrow> schedule_error + int" where
  "local_datetime C z ms =
     bindr (schedule_timestamp C ms) (\<lambda>t.
       if in_calendar C (local_ms z t div 86400000) then Inr (local_ms z t) else Inl InvalidTimestamp)"

fun decimal :: "nat \<Rightarrow> string" where
  "decimal n = (if n < 10 then [char_of (48 + n)] else decimal (n div 10) @ [char_of (48 + n mod 10)])"

definition schedule_expression :: "chrono \<Rightarrow> tz \<Rightarrow> schedule_kind \<Rightarrow> schedule_error + string" where
  "schedule_expression C z kind =
     (case kind of
        Once at_ms \<Rightarrow> bindr (local_datetime C z at_ms) (\<lambda>_. Inr ''* * * * *'')
      | Hourly minute \<Rightarrow>
          if minute < 60 then Inr (decimal minute @ '' * * * *'') else Inl InvalidSchedule
      | Daily hour minute \<Rightarrow>
          if hour < 24 \<and> minute < 60 then Inr (decimal minute @ '' '' @ decimal hour @ '' * * *'')
          else Inl InvalidSchedule
      | Weekly weekday hour minute \<Rightarrow>
          if weekday < 7 \<and> hour < 24 \<and> minute < 60
          then Inr (decimal minute @ '' '' @ decimal hour @ '' * * '' @ decimal weekday)
          else Inl InvalidSchedule
      | Cron expression \<Rightarrow> Inr expression)"

definition compiled_schedule_new :: "chrono \<Rightarrow> schedule_spec \<Rightarrow> schedule_error + compiled_schedule" where
  "compiled_schedule_new C spec =
     (if ss_timezone spec = [] \<or> length (ss_timezone spec) > 64 then Inl InvalidSchedule
      else
        bindr (ok_or (ch_tz C (ss_timezone spec)) InvalidSchedule) (\<lambda>zone.
          if tz_name zone \<noteq> ss_timezone spec then Inl InvalidSchedule
          else
            bindr (schedule_expression C zone (ss_kind spec)) (\<lambda>expression.
            bindr (calendar_parse C expression) (\<lambda>cal.
              Inr \<lparr>cs_zone = zone, cs_once = (case ss_kind spec of Once at_ms \<Rightarrow> Some at_ms | _ \<Rightarrow> None),
                   cs_calendar = cal\<rparr>))))"

section \<open>Search\<close>

definition schedule_occurrence :: "chrono \<Rightarrow> compiled_schedule \<Rightarrow> nat \<Rightarrow> schedule_error + occurrence" where
  "schedule_occurrence C s ms =
     bindr (local_datetime C (cs_zone s) ms) (\<lambda>_.
     bindr (schedule_timestamp C ms) (\<lambda>t.
       Inr \<lparr>oc_scheduled_at_ms = ms, oc_local_label = tz_label (cs_zone s) t\<rparr>))"

definition first_instant :: "tz \<Rightarrow> int \<Rightarrow> int option" where
  "first_instant z wall =
     (case tz_from_local z wall of
        LocalNone \<Rightarrow> None | LocalSingle t \<Rightarrow> Some t | LocalAmbiguous a b \<Rightarrow> Some (min a b))"

text \<open>\<open>0..=48 * 60\<close> is 2881 turns.\<close>

fun resolve_loop :: "nat \<Rightarrow> chrono \<Rightarrow> tz \<Rightarrow> int \<Rightarrow> schedule_error + nat option" where
  "resolve_loop 0 C z wall = Inl TimezoneGap"
| "resolve_loop (Suc n) C z wall =
     (case first_instant z wall of
        Some t \<Rightarrow> Inr (if 0 \<le> t \<and> t \<le> int MAX_SAFE_MS then Some (nat t) else None)
      | None \<Rightarrow>
          if in_calendar C ((wall + 1) div 1440) then resolve_loop n C z (wall + 1) else Inr None)"

definition resolve :: "chrono \<Rightarrow> tz \<Rightarrow> int \<Rightarrow> schedule_error + nat option" where
  "resolve C z wall = resolve_loop 2881 C z wall"

text \<open>The walls of a day in the order of the loops.\<close>

definition day_walls :: "calendar \<Rightarrow> int \<Rightarrow> int list" where
  "day_walls c day =
     concat (map (\<lambda>h. map (\<lambda>m. day * 1440 + int h * 60 + int m) (filter (\<lambda>m. h < 24 \<and> m < 60) (cal_minutes c)))
       (cal_hours c))"

definition eligible :: "bool \<Rightarrow> nat \<Rightarrow> nat \<Rightarrow> bool" where
  "eligible reverse bound ms \<longleftrightarrow> reverse \<and> ms \<le> bound \<or> \<not> reverse \<and> ms > bound"

definition better :: "bool \<Rightarrow> nat option \<Rightarrow> nat \<Rightarrow> nat" where
  "better reverse best ms =
     (case best of None \<Rightarrow> ms | Some old \<Rightarrow> if reverse then max old ms else min old ms)"

fun scan_walls ::
    "chrono \<Rightarrow> tz \<Rightarrow> bool \<Rightarrow> nat \<Rightarrow> int list \<Rightarrow> nat option \<Rightarrow> schedule_error + nat option" where
  "scan_walls C z reverse bound [] best = Inr best"
| "scan_walls C z reverse bound (wall # walls) best =
     bindr (resolve C z wall) (\<lambda>found.
       scan_walls C z reverse bound walls
         (case found of
            Some ms \<Rightarrow> if eligible reverse bound ms then Some (better reverse best ms) else best
          | None \<Rightarrow> best))"

fun find_loop ::
    "nat \<Rightarrow> chrono \<Rightarrow> compiled_schedule \<Rightarrow> bool \<Rightarrow> nat \<Rightarrow> int \<Rightarrow> nat option \<Rightarrow> nat option \<Rightarrow>
     schedule_error + nat option" where
  "find_loop 0 C s reverse bound day best remaining = Inr best"
| "find_loop (Suc n) C s reverse bound day best remaining =
     bindr (if calendar_matches C (cs_calendar s) day
            then scan_walls C (cs_zone s) reverse bound (day_walls (cs_calendar s) day) best
            else Inr best) (\<lambda>found.
       let left = (case remaining of None \<Rightarrow> 2 | Some k \<Rightarrow> k);
           day' = (if reverse then day - 1 else day + 1) in
       if found \<noteq> None \<and> left = 0 then Inr found
       else if \<not> in_calendar C day' then Inr found
       else find_loop n C s reverse bound day' found (if found = None then remaining else Some (left - 1)))"

definition schedule_find ::
    "chrono \<Rightarrow> compiled_schedule \<Rightarrow> nat \<Rightarrow> bool \<Rightarrow> schedule_error + occurrence option" where
  "schedule_find C s bound reverse =
     (case cs_once s of
        Some ms \<Rightarrow>
          if eligible reverse bound ms
          then bindr (schedule_occurrence C s ms) (\<lambda>o'. Inr (Some o')) else Inr None
      | None \<Rightarrow>
          bindr (local_datetime C (cs_zone s) bound) (\<lambda>l.
            let date = l div 86400000;
                day = (if reverse then date else if in_calendar C (date - 2) then date - 2 else date) in
            bindr (find_loop (8 * 366 + 4) C s reverse bound day None None) (\<lambda>best.
              case best of
                None \<Rightarrow> Inr None
              | Some ms \<Rightarrow> bindr (schedule_occurrence C s ms) (\<lambda>o'. Inr (Some o')))))"

definition next_after :: "chrono \<Rightarrow> compiled_schedule \<Rightarrow> nat \<Rightarrow> schedule_error + occurrence option" where
  "next_after C s after_ms =
     bindr (schedule_timestamp C after_ms) (\<lambda>_. schedule_find C s after_ms False)"

fun preview_loop ::
    "nat \<Rightarrow> chrono \<Rightarrow> compiled_schedule \<Rightarrow> nat \<Rightarrow> schedule_error + occurrence list" where
  "preview_loop 0 C s after = Inr []"
| "preview_loop (Suc n) C s after =
     bindr (next_after C s after) (\<lambda>found.
       case found of
         None \<Rightarrow> Inr []
       | Some item \<Rightarrow> bindr (preview_loop n C s (oc_scheduled_at_ms item)) (\<lambda>rest. Inr (item # rest)))"

definition schedule_preview ::
    "chrono \<Rightarrow> compiled_schedule \<Rightarrow> nat \<Rightarrow> nat \<Rightarrow> schedule_error + occurrence list" where
  "schedule_preview C s after_ms count =
     (if \<not> (1 \<le> count \<and> count \<le> 50) then Inl InvalidCount
      else bindr (schedule_timestamp C after_ms) (\<lambda>_. preview_loop count C s after_ms))"

definition past :: "nat \<Rightarrow> occurrence option \<Rightarrow> occurrence option" where
  "past from_ms found =
     (case found of Some o' \<Rightarrow> if oc_scheduled_at_ms o' > from_ms then Some o' else None | None \<Rightarrow> None)"

definition schedule_catch_up ::
    "chrono \<Rightarrow> compiled_schedule \<Rightarrow> nat \<Rightarrow> nat \<Rightarrow> schedule_error + catch_up" where
  "schedule_catch_up C s from_ms now_ms =
     bindr (schedule_timestamp C from_ms) (\<lambda>_.
     bindr (schedule_timestamp C now_ms) (\<lambda>_.
       if from_ms > now_ms then Inl InvalidInterval
       else
         bindr (schedule_find C s now_ms True) (\<lambda>found.
           let latest = past from_ms found in
           bindr (case latest of
                    Some o' \<Rightarrow>
                      if oc_scheduled_at_ms o' > 0
                      then bindr (schedule_find C s (oc_scheduled_at_ms o' - 1) True) (\<lambda>p. Inr (past from_ms p))
                      else Inr None
                  | None \<Rightarrow> Inr None) (\<lambda>previous.
           bindr (next_after C s now_ms) (\<lambda>following.
             Inr \<lparr>cu_latest_due = latest,
                  cu_missed_window = map_option (\<lambda>o'. \<lparr>mi_after_ms = from_ms,
                    mi_through_ms = oc_scheduled_at_ms o'\<rparr>) previous,
                  cu_next = following\<rparr>)))))"

end
