(* ===== verification/Schedule_Facts.thy ===== *)
theory Schedule_Facts
  imports Automation_Schedule
begin

text \<open>
  What the schedule search computes. A schedule denotes a set of instants (\<open>occurs\<close>): the
  instants to which the wall times of its matching days resolve. The lemmas show that resolving
  keeps the order of wall times, that the loops of \<open>find\<close> compute the best element of the days
  they visit, and that the days they do not visit hold nothing better.
\<close>

section \<open>What the search relies on in chrono\<close>

text \<open>
  \<open>zone_ok\<close>: offsets are less than a day (\<open>FixedOffset\<close>), an instant given for a wall time has
  this wall time, and it is the first instant at which the local clock shows this time or a later
  one. \<open>chrono_ok\<close>: the calendar starts well before 1970 (\<open>NaiveDate::MIN\<close>).
\<close>

definition zone_ok :: "tz \<Rightarrow> bool" where
  "zone_ok z \<longleftrightarrow>
     (\<forall>t. \<bar>tz_offset z t\<bar> < 86400)
   \<and> (\<forall>w t. first_instant z w = Some t \<longrightarrow>
        local_ms z t = w * 60000 \<and> (\<forall>t'. w * 60000 \<le> local_ms z t' \<longrightarrow> t \<le> t'))"

definition chrono_ok :: "chrono \<Rightarrow> bool" where
  "chrono_ok C \<longleftrightarrow> ch_min_day C \<le> -3"

text \<open>No fold of the zone takes the local clock back over midnight.\<close>

definition dates_monotone :: "tz \<Rightarrow> bool" where
  "dates_monotone z \<longleftrightarrow> (\<forall>t t'. t \<le> t' \<longrightarrow> local_ms z t div 86400000 \<le> local_ms z t' div 86400000)"

lemma zone_ok_local: "zone_ok z \<Longrightarrow> first_instant z w = Some t \<Longrightarrow> local_ms z t = w * 60000"
  by (simp add: zone_ok_def)

lemma zone_ok_first: "zone_ok z \<Longrightarrow> first_instant z w = Some t \<Longrightarrow> w * 60000 \<le> local_ms z t' \<Longrightarrow> t \<le> t'"
  by (simp add: zone_ok_def)

lemma zone_ok_offset: "zone_ok z \<Longrightarrow> \<bar>tz_offset z t\<bar> < 86400"
  by (simp add: zone_ok_def)

section \<open>The instants of a schedule\<close>

definition occurs_on :: "chrono \<Rightarrow> compiled_schedule \<Rightarrow> int \<Rightarrow> nat \<Rightarrow> bool" where
  "occurs_on C s day t \<longleftrightarrow>
     in_calendar C day \<and> calendar_matches C (cs_calendar s) day
   \<and> (\<exists>wall \<in> set (day_walls (cs_calendar s) day). resolve C (cs_zone s) wall = Inr (Some t))"

definition occurs :: "chrono \<Rightarrow> compiled_schedule \<Rightarrow> nat \<Rightarrow> bool" where
  "occurs C s t \<longleftrightarrow> (case cs_once s of Some ms \<Rightarrow> t = ms | None \<Rightarrow> \<exists>day. occurs_on C s day t)"

lemma day_walls_range:
  assumes "wall \<in> set (day_walls c day)"
  shows "day * 1440 \<le> wall" and "wall < day * 1440 + 1440"
proof -
  from assms obtain h m :: nat where "h < 24" "m < 60" "wall = day * 1440 + int h * 60 + int m"
    by (auto simp: day_walls_def)
  then show "day * 1440 \<le> wall" and "wall < day * 1440 + 1440" by simp_all
qed

lemma resolve_loop_first:
  "resolve_loop n C z wall = Inr (Some t) \<Longrightarrow>
   \<exists>k<n. first_instant z (wall + int k) = Some (int t) \<and> (\<forall>j<k. first_instant z (wall + int j) = None)"
proof (induction n arbitrary: wall)
  case 0
  then show ?case by simp
next
  case (Suc n)
  show ?case
  proof (cases "first_instant z wall")
    case (Some u)
    with Suc.prems have "u = int t" by (auto split: if_splits)
    with Some show ?thesis by (intro exI [of _ 0]) simp
  next
    case None
    with Suc.prems have "resolve_loop n C z (wall + 1) = Inr (Some t)" by (simp split: if_splits)
    from Suc.IH [OF this] obtain k where k: "k < n" "first_instant z (wall + 1 + int k) = Some (int t)"
      "\<forall>j<k. first_instant z (wall + 1 + int j) = None" by blast
    have "first_instant z (wall + int j) = None" if "j < Suc k" for j
      using that None k(3) by (cases j) (auto simp: algebra_simps)
    with k(1,2) show ?thesis by (intro exI [of _ "Suc k"]) (auto simp: algebra_simps)
  qed
qed

lemma resolve_loop_safe: "resolve_loop n C z wall = Inr (Some t) \<Longrightarrow> t \<le> MAX_SAFE_MS"
  by (induction n arbitrary: wall) (auto split: option.splits if_splits)

text \<open>A wall time resolves to the first valid minute that is at most 48 hours later.\<close>

lemma resolve_minute:
  assumes "resolve C z wall = Inr (Some t)"
  obtains w where "wall \<le> w" "w \<le> wall + 2880" "first_instant z w = Some (int t)"
    "\<And>v. wall \<le> v \<Longrightarrow> v < w \<Longrightarrow> first_instant z v = None"
proof -
  from resolve_loop_first [OF assms [unfolded resolve_def]] obtain k
    where k: "k < 2881" "first_instant z (wall + int k) = Some (int t)"
      "\<forall>j<k. first_instant z (wall + int j) = None" by blast
  have "first_instant z v = None" if "wall \<le> v" "v < wall + int k" for v
    using k(3) [rule_format, of "nat (v - wall)"] that by simp
  with k(1,2) show thesis by (intro that [of "wall + int k"]) auto
qed

lemma resolve_mono:
  assumes "zone_ok z" "w1 \<le> w2" and r1: "resolve C z w1 = Inr (Some t1)" and r2: "resolve C z w2 = Inr (Some t2)"
  shows "t1 \<le> t2"
proof -
  from r1 obtain v1 where v1: "w1 \<le> v1" "first_instant z v1 = Some (int t1)"
      "\<And>v. w1 \<le> v \<Longrightarrow> v < v1 \<Longrightarrow> first_instant z v = None" by (rule resolve_minute) blast
  from r2 obtain v2 where v2: "w2 \<le> v2" "first_instant z v2 = Some (int t2)" by (rule resolve_minute) blast
  have "v1 \<le> v2"
  proof (rule ccontr)
    assume "\<not> v1 \<le> v2"
    then have "first_instant z v2 = None" using v1(3) [of v2] v2(1) assms(2) by simp
    then show False using v2(2) by simp
  qed
  moreover have "local_ms z (int t2) = v2 * 60000" using assms(1) v2(2) by (rule zone_ok_local)
  ultimately have "v1 * 60000 \<le> local_ms z (int t2)" by simp
  with assms(1) v1(2) have "int t1 \<le> int t2" by (rule zone_ok_first)
  then show ?thesis by simp
qed

lemma occurs_on_mono:
  assumes "zone_ok (cs_zone s)" "occurs_on C s d1 t1" "occurs_on C s d2 t2" "d1 < d2"
  shows "t1 \<le> t2"
proof -
  from assms(2) obtain w1 where w1: "w1 \<in> set (day_walls (cs_calendar s) d1)" "resolve C (cs_zone s) w1 = Inr (Some t1)"
    by (auto simp: occurs_on_def)
  from assms(3) obtain w2 where w2: "w2 \<in> set (day_walls (cs_calendar s) d2)" "resolve C (cs_zone s) w2 = Inr (Some t2)"
    by (auto simp: occurs_on_def)
  have "w1 \<le> w2" using day_walls_range [OF w1(1)] day_walls_range [OF w2(1)] assms(4) by linarith
  with assms(1) show ?thesis using w1(2) w2(2) by (rule resolve_mono)
qed

text \<open>Three days before the date of an instant everything has occurred.\<close>

lemma early_days_past:
  assumes "zone_ok (cs_zone s)" "occurs_on C s day t" "day < local_ms (cs_zone s) (int bound) div 86400000 - 2"
  shows "t \<le> bound"
proof -
  let ?z = "cs_zone s" and ?l = "local_ms (cs_zone s) (int bound)"
  from assms(2) obtain wall where wall: "wall \<in> set (day_walls (cs_calendar s) day)" "resolve C ?z wall = Inr (Some t)"
    by (auto simp: occurs_on_def)
  from wall(2) obtain w where w: "w \<le> wall + 2880" "first_instant ?z w = Some (int t)" by (rule resolve_minute) blast
  have "?l div 86400000 * 86400000 \<le> ?l" by simp
  then have "w * 60000 \<le> ?l" using day_walls_range [OF wall(1)] w(1) assms(3) by linarith
  with assms(1) w(2) have "int t \<le> int bound" by (rule zone_ok_first)
  then show ?thesis by simp
qed

text \<open>The days after the date of an instant are in the future, when no fold crosses midnight.\<close>

lemma later_days_future:
  assumes "zone_ok (cs_zone s)" "dates_monotone (cs_zone s)" "occurs_on C s day t"
    "local_ms (cs_zone s) (int bound) div 86400000 < day"
  shows "bound < t"
proof (rule ccontr)
  let ?z = "cs_zone s"
  assume "\<not> bound < t"
  then have m: "local_ms ?z (int t) div 86400000 \<le> local_ms ?z (int bound) div 86400000"
    using assms(2) by (simp add: dates_monotone_def)
  from assms(3) obtain wall where wall: "wall \<in> set (day_walls (cs_calendar s) day)" "resolve C ?z wall = Inr (Some t)"
    by (auto simp: occurs_on_def)
  from wall(2) obtain w where w: "wall \<le> w" "first_instant ?z w = Some (int t)" by (rule resolve_minute) blast
  have "local_ms ?z (int t) = w * 60000" using assms(1) w(2) by (rule zone_ok_local)
  with day_walls_range [OF wall(1)] w(1) m assms(4) show False by linarith
qed

section \<open>The loops compute the best element\<close>

definition no_worse :: "bool \<Rightarrow> nat \<Rightarrow> nat \<Rightarrow> bool" where
  "no_worse reverse m t \<longleftrightarrow> (if reverse then t \<le> m else m \<le> t)"

lemma no_worse_refl [simp]: "no_worse reverse m m"
  by (simp add: no_worse_def)

lemma no_worse_trans: "no_worse reverse a b \<Longrightarrow> no_worse reverse b c \<Longrightarrow> no_worse reverse a c"
  by (auto simp: no_worse_def split: if_splits)

lemma better_no_worse:
  "no_worse reverse (better reverse best ms) ms" "best = Some m \<Longrightarrow> no_worse reverse (better reverse best ms) m"
  "better reverse best ms = ms \<or> Some (better reverse best ms) = best"
  by (auto simp: no_worse_def better_def max_def min_def split: option.splits)

definition best_of :: "bool \<Rightarrow> nat set \<Rightarrow> nat option \<Rightarrow> bool" where
  "best_of reverse S r \<longleftrightarrow>
     (case r of None \<Rightarrow> S = {} | Some m \<Rightarrow> m \<in> S \<and> (\<forall>t \<in> S. no_worse reverse m t))"

lemma best_of_insert:
  assumes "best_of reverse S best"
  shows "best_of reverse (insert ms S) (Some (better reverse best ms))"
proof (cases best)
  case None
  with assms show ?thesis by (simp add: best_of_def better_def)
next
  case (Some m)
  with assms have "m \<in> S" "\<forall>t \<in> S. no_worse reverse m t" by (auto simp: best_of_def)
  moreover have "no_worse reverse (better reverse best ms) m" using Some by (rule better_no_worse)
  ultimately show ?thesis
    using better_no_worse(1,3) [of reverse best ms] Some by (auto simp: best_of_def intro: no_worse_trans)
qed

definition wall_hits :: "chrono \<Rightarrow> tz \<Rightarrow> bool \<Rightarrow> nat \<Rightarrow> int list \<Rightarrow> nat set" where
  "wall_hits C z reverse bound walls =
     {t. eligible reverse bound t \<and> (\<exists>w \<in> set walls. resolve C z w = Inr (Some t))}"

lemma scan_walls_best:
  "scan_walls C z reverse bound walls best = Inr r \<Longrightarrow> best_of reverse S best \<Longrightarrow>
   best_of reverse (S \<union> wall_hits C z reverse bound walls) r"
proof (induction walls arbitrary: best S)
  case Nil
  then show ?case by (simp add: wall_hits_def)
next
  case (Cons wall walls)
  from Cons.prems(1) obtain found where found: "resolve C z wall = Inr found"
    by (auto simp: bindr_eq_Inr)
  let ?best = "case found of Some ms \<Rightarrow> if eligible reverse bound ms then Some (better reverse best ms) else best
                | None \<Rightarrow> best"
  let ?S = "S \<union> {t. found = Some t \<and> eligible reverse bound t}"
  have "best_of reverse ?S ?best"
  proof (cases "\<exists>ms. found = Some ms \<and> eligible reverse bound ms")
    case True
    then obtain ms where "found = Some ms" "eligible reverse bound ms" by blast
    moreover from this have "?S = insert ms S" by auto
    ultimately show ?thesis using best_of_insert [OF Cons.prems(2)] by simp
  next
    case False
    then have "?S = S" "?best = best" by (auto split: option.splits)
    with Cons.prems(2) show ?thesis by simp
  qed
  moreover have "scan_walls C z reverse bound walls ?best = Inr r" using Cons.prems(1) found by simp
  ultimately have "best_of reverse (?S \<union> wall_hits C z reverse bound walls) r" by (rule Cons.IH [rotated])
  moreover have "?S \<union> wall_hits C z reverse bound walls = S \<union> wall_hits C z reverse bound (wall # walls)"
    using found by (auto simp: wall_hits_def)
  ultimately show ?case by simp
qed

definition day_hits :: "chrono \<Rightarrow> compiled_schedule \<Rightarrow> bool \<Rightarrow> nat \<Rightarrow> int \<Rightarrow> nat set" where
  "day_hits C s reverse bound day = {t. eligible reverse bound t \<and> occurs_on C s day t}"

lemma day_step_best:
  assumes "(if calendar_matches C (cs_calendar s) day
            then scan_walls C (cs_zone s) reverse bound (day_walls (cs_calendar s) day) best
            else Inr best) = Inr r"
    and "in_calendar C day" "best_of reverse S best"
  shows "best_of reverse (S \<union> day_hits C s reverse bound day) r"
proof (cases "calendar_matches C (cs_calendar s) day")
  case True
  then have "day_hits C s reverse bound day = wall_hits C (cs_zone s) reverse bound (day_walls (cs_calendar s) day)"
    using assms(2) by (auto simp: day_hits_def wall_hits_def occurs_on_def)
  with True assms show ?thesis by (auto intro: scan_walls_best)
next
  case False
  with assms show ?thesis by (simp add: day_hits_def occurs_on_def)
qed

section \<open>The search over days\<close>

definition direction :: "bool \<Rightarrow> int" where
  "direction reverse = (if reverse then - 1 else 1)"

text \<open>Nothing on a day from here on is better.\<close>

definition settled :: "chrono \<Rightarrow> compiled_schedule \<Rightarrow> bool \<Rightarrow> nat \<Rightarrow> int \<Rightarrow> nat \<Rightarrow> bool" where
  "settled C s reverse bound day m \<longleftrightarrow>
     (\<forall>k. \<forall>t \<in> day_hits C s reverse bound (day + direction reverse * int k). no_worse reverse m t)"

lemma day_hits_calendar: "t \<in> day_hits C s reverse bound day \<Longrightarrow> in_calendar C day"
  by (simp add: day_hits_def occurs_on_def)

lemma settled_here: "settled C s reverse bound day m \<Longrightarrow> t \<in> day_hits C s reverse bound day \<Longrightarrow> no_worse reverse m t"
  by (auto simp: settled_def dest: spec [of _ 0])

lemma settled_step: "settled C s reverse bound day m \<Longrightarrow> settled C s reverse bound (day + direction reverse) m"
  unfolding settled_def
proof (intro allI)
  fix k
  assume "\<forall>k. \<forall>t \<in> day_hits C s reverse bound (day + direction reverse * int k). no_worse reverse m t"
  from spec [OF this, of "Suc k"]
  show "\<forall>t \<in> day_hits C s reverse bound (day + direction reverse + direction reverse * int k). no_worse reverse m t"
    by (simp add: algebra_simps)
qed

lemma settled_found:
  assumes "zone_ok (cs_zone s)" "m \<in> day_hits C s reverse bound day"
    "\<forall>t \<in> day_hits C s reverse bound day. no_worse reverse m t"
  shows "settled C s reverse bound day m"
  unfolding settled_def
proof (intro allI ballI)
  fix k t
  assume t: "t \<in> day_hits C s reverse bound (day + direction reverse * int k)"
  show "no_worse reverse m t"
  proof (cases k)
    case 0
    with t assms(3) show ?thesis by simp
  next
    case (Suc j)
    have "occurs_on C s day m" "occurs_on C s (day + direction reverse * int k) t"
      using assms(2) t by (simp_all add: day_hits_def)
    with assms(1) Suc show ?thesis
      by (cases reverse) (auto simp: no_worse_def direction_def intro: occurs_on_mono)
  qed
qed

lemma no_worse_antisym: "no_worse reverse a b \<Longrightarrow> no_worse reverse b a \<Longrightarrow> a = b"
  by (auto simp: no_worse_def split: if_splits)

lemma day_step_settled:
  assumes step: "(if calendar_matches C (cs_calendar s) day
            then scan_walls C (cs_zone s) reverse bound (day_walls (cs_calendar s) day) (Some m)
            else Inr (Some m)) = Inr r"
    and "in_calendar C day" "settled C s reverse bound day m"
  shows "r = Some m"
proof -
  have "best_of reverse {m} (Some m)" by (simp add: best_of_def)
  from day_step_best [OF step assms(2) this] obtain m' where m': "r = Some m'"
    "m' \<in> insert m (day_hits C s reverse bound day)" "no_worse reverse m' m"
    by (auto simp: best_of_def split: option.splits)
  have "no_worse reverse m m'" using m'(2) settled_here [OF assms(3)] by auto
  with m'(1,3) show ?thesis by (auto dest: no_worse_antisym)
qed

lemma find_loop_settled:
  "find_loop n C s reverse bound day (Some m) remaining = Inr r \<Longrightarrow> in_calendar C day \<Longrightarrow>
   settled C s reverse bound day m \<Longrightarrow> r = Some m"
proof (induction n arbitrary: day remaining)
  case 0
  then show ?case by simp
next
  case (Suc n)
  from Suc.prems(1) obtain found where step: "(if calendar_matches C (cs_calendar s) day
      then scan_walls C (cs_zone s) reverse bound (day_walls (cs_calendar s) day) (Some m) else Inr (Some m)) = Inr found"
    by (auto simp: bindr_eq_Inr)
  have "found = Some m" by (rule day_step_settled [OF step Suc.prems(2,3)])
  then have "r = Some m \<or> in_calendar C (day + direction reverse)
      \<and> (\<exists>left. find_loop n C s reverse bound (day + direction reverse) (Some m) left = Inr r)"
    using Suc.prems(1) step by (auto simp: Let_def direction_def split: if_splits)
  then show ?case using Suc.IH settled_step [OF Suc.prems(3)] by blast
qed

lemma beyond_calendar:
  assumes "\<not> in_calendar C (day + direction reverse)" "day_hits C s reverse bound day = {}" "in_calendar C day"
  shows "day_hits C s reverse bound (day + direction reverse * int k) = {}"
proof (cases k)
  case 0
  with assms(2) show ?thesis by simp
next
  case (Suc j)
  then have "\<not> in_calendar C (day + direction reverse * int k)"
    using assms(1,3) by (cases reverse) (auto simp: in_calendar_def direction_def)
  then show ?thesis by (auto dest: day_hits_calendar)
qed

lemma find_loop_fresh:
  "find_loop n C s reverse bound day None remaining = Inr r \<Longrightarrow> in_calendar C day \<Longrightarrow> zone_ok (cs_zone s) \<Longrightarrow>
   (case r of
      None \<Rightarrow> \<forall>k<n. day_hits C s reverse bound (day + direction reverse * int k) = {}
    | Some m \<Rightarrow> (\<exists>k<n. m \<in> day_hits C s reverse bound (day + direction reverse * int k))
        \<and> settled C s reverse bound day m)"
proof (induction n arbitrary: day remaining)
  case 0
  then show ?case by simp
next
  case (Suc n)
  let ?H = "day_hits C s reverse bound"
  from Suc.prems(1) obtain found where step: "(if calendar_matches C (cs_calendar s) day
      then scan_walls C (cs_zone s) reverse bound (day_walls (cs_calendar s) day) None else Inr None) = Inr found"
    by (auto simp: bindr_eq_Inr)
  have "best_of reverse {} None" by (simp add: best_of_def)
  from day_step_best [OF step Suc.prems(2) this] have best: "best_of reverse (?H day) found" by simp
  show ?case
  proof (cases found)
    case (Some m)
    with best have m: "m \<in> ?H day" "\<forall>t \<in> ?H day. no_worse reverse m t" by (auto simp: best_of_def)
    have set: "settled C s reverse bound day m" by (rule settled_found [OF Suc.prems(3) m])
    have "r = Some m \<or> in_calendar C (day + direction reverse)
        \<and> (\<exists>left. find_loop n C s reverse bound (day + direction reverse) (Some m) left = Inr r)"
      using Suc.prems(1) step Some by (auto simp: Let_def direction_def split: if_splits)
    then have "r = Some m" using find_loop_settled settled_step [OF set] by blast
    moreover have "\<exists>k<Suc n. m \<in> ?H (day + direction reverse * int k)" using m(1) by (intro exI [of _ 0]) simp
    ultimately show ?thesis using set by simp
  next
    case None
    with best have none: "?H day = {}" by (simp add: best_of_def)
    have shift: "day + direction reverse * int (Suc k) = day + direction reverse + direction reverse * int k" for k
      by (simp add: algebra_simps)
    show ?thesis
    proof (cases "in_calendar C (day + direction reverse)")
      case False
      have "?H (day + direction reverse * int k) = {}" for k
        using False none Suc.prems(2) by (rule beyond_calendar)
      moreover have "r = None"
        using Suc.prems(1) step None False by (auto simp: Let_def direction_def split: if_splits)
      ultimately show ?thesis by simp
    next
      case True
      have "find_loop n C s reverse bound (day + direction reverse) None remaining = Inr r"
        using Suc.prems(1) step None True by (auto simp: Let_def direction_def split: if_splits)
      note ih = Suc.IH [OF this True Suc.prems(3)]
      show ?thesis
      proof (cases r)
        case None
        with ih have "\<forall>k<n. ?H (day + direction reverse * int (Suc k)) = {}" by (simp only: shift option.case)
        with none None show ?thesis by (auto simp: less_Suc_eq_0_disj)
      next
        case (Some m)
        with ih obtain j where j: "j < n" "m \<in> ?H (day + direction reverse * int (Suc j))"
          and later: "settled C s reverse bound (day + direction reverse) m" by (auto simp only: shift option.case)
        have "no_worse reverse m t" if "t \<in> ?H (day + direction reverse * int k)" for k t
          using that none later by (cases k) (auto simp: settled_def algebra_simps)
        then have "settled C s reverse bound day m" by (simp add: settled_def)
        moreover have "\<exists>k<Suc n. m \<in> ?H (day + direction reverse * int k)"
          using j by (intro exI [of _ "Suc j"]) simp
        ultimately show ?thesis using Some by simp
      qed
    qed
  qed
qed

section \<open>What \<open>find\<close> returns\<close>

lemma local_datetime_ok:
  "local_datetime C z ms = Inr l \<Longrightarrow> l = local_ms z (int ms) \<and> in_calendar C (l div 86400000)"
  by (auto simp: local_datetime_def schedule_timestamp_def bindr_eq_Inr split: if_splits)

lemma schedule_occurrence_at: "schedule_occurrence C s ms = Inr oc \<Longrightarrow> oc_scheduled_at_ms oc = ms"
  by (auto simp: schedule_occurrence_def bindr_eq_Inr)

lemma start_in_calendar:
  assumes "zone_ok z" "chrono_ok C" "in_calendar C (local_ms z (int ms) div 86400000)"
  shows "in_calendar C (local_ms z (int ms) div 86400000 - 2)"
proof -
  have "- 86400000 < local_ms z (int ms)" using zone_ok_offset [OF assms(1), of "int ms"] by (simp add: local_ms_def)
  then have "- 1 \<le> local_ms z (int ms) div 86400000" by linarith
  with assms(2,3) show ?thesis by (auto simp: in_calendar_def chrono_ok_def)
qed

text \<open>The days a search visits.\<close>

definition in_window :: "compiled_schedule \<Rightarrow> nat \<Rightarrow> bool \<Rightarrow> int \<Rightarrow> bool" where
  "in_window s bound reverse day \<longleftrightarrow>
     (let date = local_ms (cs_zone s) (int bound) div 86400000 in
      if reverse then date - 2932 < day \<and> day \<le> date else date - 2 \<le> day \<and> day < date + 2930)"

definition search_start :: "compiled_schedule \<Rightarrow> nat \<Rightarrow> bool \<Rightarrow> int" where
  "search_start s bound reverse =
     local_ms (cs_zone s) (int bound) div 86400000 - (if reverse then 0 else 2)"

lemma schedule_find_loop:
  assumes "schedule_find C s bound reverse = Inr found" "cs_once s = None" "zone_ok (cs_zone s)" "chrono_ok C"
  obtains "found = None" "in_calendar C (search_start s bound reverse)"
      "find_loop 2932 C s reverse bound (search_start s bound reverse) None None = Inr None"
    | oc where "found = Some oc" "in_calendar C (search_start s bound reverse)"
      "find_loop 2932 C s reverse bound (search_start s bound reverse) None None = Inr (Some (oc_scheduled_at_ms oc))"
proof -
  let ?date = "local_ms (cs_zone s) (int bound) div 86400000"
  from assms(1,2) have ld: "local_datetime C (cs_zone s) bound = Inr (local_ms (cs_zone s) (int bound))"
    by (auto simp: schedule_find_def bindr_eq_Inr dest: local_datetime_ok)
  then have cal: "in_calendar C ?date" by (auto dest: local_datetime_ok)
  note cal2 = start_in_calendar [OF assms(3,4) cal]
  then have start: "(if reverse then ?date else if in_calendar C (?date - 2) then ?date - 2 else ?date)
      = search_start s bound reverse" by (simp add: search_start_def)
  from cal cal2 have ok: "in_calendar C (search_start s bound reverse)" by (simp add: search_start_def)
  from assms(1,2) ld obtain best
    where "find_loop 2932 C s reverse bound (search_start s bound reverse) None None = Inr best"
      "(case best of None \<Rightarrow> Inr None | Some ms \<Rightarrow> bindr (schedule_occurrence C s ms) (\<lambda>o'. Inr (Some o'))) = Inr found"
    by (auto simp: schedule_find_def bindr_eq_Inr Let_def start)
  with ok that show thesis
    by (cases best) (auto simp: bindr_eq_Inr dest: schedule_occurrence_at)
qed

text \<open>\<open>find\<close> forward: the least instant of the schedule after the bound.\<close>

lemma schedule_find_forward:
  assumes find: "schedule_find C s bound False = Inr found" and once: "cs_once s = None"
    and z: "zone_ok (cs_zone s)" and c: "chrono_ok C"
  shows "case found of
      Some oc \<Rightarrow> occurs C s (oc_scheduled_at_ms oc) \<and> bound < oc_scheduled_at_ms oc
        \<and> (\<forall>t. occurs C s t \<and> bound < t \<longrightarrow> oc_scheduled_at_ms oc \<le> t)
    | None \<Rightarrow> \<forall>day t. occurs_on C s day t \<and> in_window s bound False day \<longrightarrow> t \<le> bound"
proof -
  let ?start = "search_start s bound False"
  have away: "t \<le> bound \<or> (\<exists>k. t \<in> day_hits C s False bound (?start + int k) \<and> day = ?start + int k)"
    if "occurs_on C s day t" for day t
  proof (cases "day < ?start")
    case True
    then have "t \<le> bound" using early_days_past [OF z that] by (simp add: search_start_def)
    then show ?thesis ..
  next
    case False
    then obtain k where "day = ?start + int k" by (metis linorder_not_less zle_iff_zadd)
    with that show ?thesis by (auto simp: day_hits_def eligible_def)
  qed
  from find once z c show ?thesis
  proof (cases rule: schedule_find_loop)
    case 1
    have none: "\<forall>k<2932. day_hits C s False bound (?start + int k) = {}"
      using find_loop_fresh [OF 1(3,2) z] by (simp add: direction_def)
    have "t \<le> bound" if "occurs_on C s day t" "in_window s bound False day" for day t
      using away [OF that(1)] none that(2) by (auto simp: in_window_def search_start_def Let_def)
    with 1(1) show ?thesis by auto
  next
    case (2 oc)
    from find_loop_fresh [OF 2(3,2) z] obtain k
      where k: "oc_scheduled_at_ms oc \<in> day_hits C s False bound (?start + int k)"
        and best: "settled C s False bound ?start (oc_scheduled_at_ms oc)" by (auto simp: direction_def)
    have "oc_scheduled_at_ms oc \<le> t" if "occurs C s t" "bound < t" for t
      using that once best away by (force simp: occurs_def settled_def direction_def no_worse_def)
    with k once 2(1) show ?thesis by (auto simp: day_hits_def eligible_def occurs_def)
  qed
qed

text \<open>\<open>find\<close> in reverse: the greatest instant up to the bound.\<close>

lemma schedule_find_reverse:
  assumes find: "schedule_find C s bound True = Inr found" and once: "cs_once s = None"
    and z: "zone_ok (cs_zone s)" and c: "chrono_ok C" and dates: "dates_monotone (cs_zone s)"
  shows "case found of
      Some oc \<Rightarrow> occurs C s (oc_scheduled_at_ms oc) \<and> oc_scheduled_at_ms oc \<le> bound
        \<and> (\<forall>t. occurs C s t \<and> t \<le> bound \<longrightarrow> t \<le> oc_scheduled_at_ms oc)
    | None \<Rightarrow> \<forall>day t. occurs_on C s day t \<and> in_window s bound True day \<longrightarrow> bound < t"
proof -
  let ?start = "search_start s bound True"
  have away: "bound < t \<or> (\<exists>k. t \<in> day_hits C s True bound (?start - int k) \<and> day = ?start - int k)"
    if "occurs_on C s day t" for day t
  proof (cases "?start < day")
    case True
    then have "bound < t" using later_days_future [OF z dates that] by (simp add: search_start_def)
    then show ?thesis ..
  next
    case False
    then obtain k where "day = ?start - int k" by (metis diff_diff_eq2 add_diff_cancel_left' linorder_not_less zle_iff_zadd)
    with that show ?thesis by (auto simp: day_hits_def eligible_def)
  qed
  from find once z c show ?thesis
  proof (cases rule: schedule_find_loop)
    case 1
    have none: "\<forall>k<2932. day_hits C s True bound (?start - int k) = {}"
      using find_loop_fresh [OF 1(3,2) z] by (simp add: direction_def)
    have "bound < t" if "occurs_on C s day t" "in_window s bound True day" for day t
      using away [OF that(1)] none that(2) by (auto simp: in_window_def search_start_def Let_def)
    with 1(1) show ?thesis by auto
  next
    case (2 oc)
    from find_loop_fresh [OF 2(3,2) z] obtain k
      where k: "oc_scheduled_at_ms oc \<in> day_hits C s True bound (?start - int k)"
        and best: "settled C s True bound ?start (oc_scheduled_at_ms oc)" by (auto simp: direction_def)
    have "t \<le> oc_scheduled_at_ms oc" if "occurs C s t" "t \<le> bound" for t
      using that once best away by (force simp: occurs_def settled_def direction_def no_worse_def)
    with k once 2(1) show ?thesis by (auto simp: day_hits_def eligible_def occurs_def)
  qed
qed

section \<open>The search returns\<close>

text \<open>A zone whose gaps last at most 48 hours.\<close>

definition gaps_short :: "tz \<Rightarrow> bool" where
  "gaps_short z \<longleftrightarrow> (\<forall>w. \<exists>k\<le>2880. first_instant z (w + int k) \<noteq> None)"

lemma resolve_loop_returns:
  "k < n \<Longrightarrow> first_instant z (wall + int k) \<noteq> None \<Longrightarrow> \<exists>r. resolve_loop n C z wall = Inr r"
proof (induction n arbitrary: wall k)
  case 0
  then show ?case by simp
next
  case (Suc n)
  show ?case
  proof (cases "first_instant z wall")
    case None
    with Suc.prems obtain j where "j < n" "first_instant z (wall + 1 + int j) \<noteq> None"
      by (cases k) (auto simp: algebra_simps)
    with Suc.IH None show ?thesis by auto
  qed auto
qed

lemma resolve_returns: "gaps_short z \<Longrightarrow> \<exists>r. resolve C z wall = Inr r"
  unfolding gaps_short_def resolve_def
  by (metis le_imp_less_Suc resolve_loop_returns eval_nat_numeral(3) numeral_eq_Suc pred_numeral_simps)

lemma scan_walls_returns: "gaps_short z \<Longrightarrow> \<exists>r. scan_walls C z reverse bound walls best = Inr r"
proof (induction walls arbitrary: best)
  case (Cons wall walls)
  obtain found where "resolve C z wall = Inr found" using resolve_returns [OF Cons.prems] by blast
  then show ?case using Cons.IH [OF Cons.prems] by simp
qed simp

lemma find_loop_returns:
  "gaps_short (cs_zone s) \<Longrightarrow> \<exists>r. find_loop n C s reverse bound day best remaining = Inr r"
proof (induction n arbitrary: day best remaining)
  case (Suc n)
  obtain found where "(if calendar_matches C (cs_calendar s) day
      then scan_walls C (cs_zone s) reverse bound (day_walls (cs_calendar s) day) best else Inr best) = Inr found"
    using scan_walls_returns [OF Suc.prems, of C reverse bound "day_walls (cs_calendar s) day" best]
    by (cases "calendar_matches C (cs_calendar s) day") auto
  then show ?case using Suc.IH [OF Suc.prems] by (auto simp: Let_def)
qed simp

text \<open>An instant of a day is at most three days later, local time.\<close>

lemma occurs_on_date:
  assumes "zone_ok (cs_zone s)" "occurs_on C s day t"
  shows "day * 86400000 \<le> local_ms (cs_zone s) (int t)" "local_ms (cs_zone s) (int t) < day * 86400000 + 259200000"
    and "t \<le> MAX_SAFE_MS"
proof -
  from assms(2) obtain wall where wall: "wall \<in> set (day_walls (cs_calendar s) day)"
      "resolve C (cs_zone s) wall = Inr (Some t)" by (auto simp: occurs_on_def)
  from wall(2) obtain w where w: "wall \<le> w" "w \<le> wall + 2880" "first_instant (cs_zone s) w = Some (int t)"
    by (rule resolve_minute) blast
  have "local_ms (cs_zone s) (int t) = w * 60000" using assms(1) w(3) by (rule zone_ok_local)
  with day_walls_range [OF wall(1)] w(1,2)
  show "day * 86400000 \<le> local_ms (cs_zone s) (int t)" "local_ms (cs_zone s) (int t) < day * 86400000 + 259200000"
    by simp_all
  show "t \<le> MAX_SAFE_MS" using wall(2) resolve_loop_safe unfolding resolve_def by blast
qed

lemma schedule_occurrence_returns:
  assumes "zone_ok (cs_zone s)" "chrono_ok C" "occurs_on C s day t" "in_calendar C (day + 3)"
  shows "\<exists>oc. schedule_occurrence C s t = Inr oc \<and> oc_scheduled_at_ms oc = t"
proof -
  let ?l = "local_ms (cs_zone s) (int t)"
  have l: "day * 86400000 \<le> ?l" "?l < day * 86400000 + 259200000" "t \<le> MAX_SAFE_MS"
    using occurs_on_date [OF assms(1,3)] by auto
  have off: "?l - 86400000 < int t" "int t < ?l + 86400000"
    using zone_ok_offset [OF assms(1), of "int t"] by (auto simp: local_ms_def)
  have day: "in_calendar C day" using assms(3) by (simp add: occurs_on_def)
  have "day \<le> ?l div 86400000" "?l div 86400000 \<le> day + 3" using l(1,2) by linarith+
  then have "in_calendar C (?l div 86400000)" using day assms(4) by (auto simp: in_calendar_def)
  moreover have "0 \<le> int t div 86400000" "int t div 86400000 \<le> day + 3" using l off by linarith+
  then have "in_calendar C (int t div 86400000)" using assms(2,4) by (auto simp: in_calendar_def chrono_ok_def)
  ultimately show ?thesis
    using l(3) by (auto simp: schedule_occurrence_def local_datetime_def schedule_timestamp_def)
qed

text \<open>
  The search returns, with an occurrence or without one, whenever the calendar reaches
  a little further than eight years beyond the bound.
\<close>

lemma schedule_find_returns:
  assumes z: "zone_ok (cs_zone s)" and c: "chrono_ok C" and g: "gaps_short (cs_zone s)" and once: "cs_once s = None"
    and ld: "local_datetime C (cs_zone s) bound = Inr l" and room: "in_calendar C (l div 86400000 + 2933)"
  shows "\<exists>found. schedule_find C s bound reverse = Inr found"
proof -
  let ?start = "search_start s bound reverse"
  have l: "l = local_ms (cs_zone s) (int bound)" "in_calendar C (l div 86400000)"
    using local_datetime_ok [OF ld] by auto
  have two: "in_calendar C (l div 86400000 - 2)" using start_in_calendar [OF z c l(2) [unfolded l(1)]] l(1) by simp
  have start: "?start = l div 86400000 - (if reverse then 0 else 2)" "in_calendar C ?start"
    using two l by (simp_all add: search_start_def)
  obtain best where best: "find_loop 2932 C s reverse bound ?start None None = Inr best"
    using find_loop_returns [OF g] by blast
  show ?thesis
  proof (cases best)
    case None
    with best ld once two start show ?thesis by (simp add: schedule_find_def Let_def split: if_splits)
  next
    case (Some m)
    obtain k where k: "m \<in> day_hits C s reverse bound (?start + direction reverse * int k)" "k < 2932"
      using find_loop_fresh [OF best [unfolded Some] start(2) z] by auto
    then have on: "occurs_on C s (?start + direction reverse * int k) m" by (simp add: day_hits_def)
    then have "in_calendar C (?start + direction reverse * int k)" by (simp add: occurs_on_def)
    then have "in_calendar C (?start + direction reverse * int k + 3)"
      using k(2) room start(1) by (cases reverse) (auto simp: in_calendar_def direction_def)
    with on obtain oc where "schedule_occurrence C s m = Inr oc"
      using schedule_occurrence_returns [OF z c] by blast
    with best ld once two start Some show ?thesis by (simp add: schedule_find_def Let_def split: if_splits)
  qed
qed

section \<open>Both kinds of schedule\<close>

text \<open>Nothing is left in the search window of a bound.\<close>

definition none_left :: "chrono \<Rightarrow> compiled_schedule \<Rightarrow> nat \<Rightarrow> bool \<Rightarrow> bool" where
  "none_left C s bound reverse \<longleftrightarrow>
     (case cs_once s of
        Some ms \<Rightarrow> \<not> eligible reverse bound ms
      | None \<Rightarrow> \<forall>day t. occurs_on C s day t \<and> in_window s bound reverse day \<longrightarrow> \<not> eligible reverse bound t)"

definition best_occurrence :: "chrono \<Rightarrow> compiled_schedule \<Rightarrow> nat \<Rightarrow> bool \<Rightarrow> occurrence option \<Rightarrow> bool" where
  "best_occurrence C s bound reverse found \<longleftrightarrow>
     (case found of
        Some oc \<Rightarrow>
          let m = oc_scheduled_at_ms oc in
          occurs C s m \<and> eligible reverse bound m \<and> (\<forall>t. occurs C s t \<and> eligible reverse bound t \<longrightarrow> no_worse reverse m t)
      | None \<Rightarrow> none_left C s bound reverse)"

lemma schedule_find_best:
  assumes find: "schedule_find C s bound reverse = Inr found" and z: "zone_ok (cs_zone s)" "chrono_ok C"
    and dates: "reverse \<longrightarrow> dates_monotone (cs_zone s)"
  shows "best_occurrence C s bound reverse found"
proof (cases "cs_once s")
  case (Some ms)
  with find show ?thesis
    by (auto simp: schedule_find_def best_occurrence_def none_left_def occurs_def bindr_eq_Inr
        dest!: schedule_occurrence_at split: if_splits)
next
  case None
  show ?thesis
  proof (cases reverse)
    case True
    with find dates have "schedule_find C s bound True = Inr found" "dates_monotone (cs_zone s)" by simp_all
    from schedule_find_reverse [OF this(1) None z this(2)] True None show ?thesis
      by (auto simp: best_occurrence_def none_left_def eligible_def no_worse_def Let_def not_less [symmetric]
          split: option.splits)
  next
    case False
    with find have "schedule_find C s bound False = Inr found" by simp
    from schedule_find_forward [OF this None z] False None show ?thesis
      by (auto simp: best_occurrence_def none_left_def eligible_def no_worse_def Let_def not_less split: option.splits)
  qed
qed

lemma next_after_best:
  assumes "next_after C s after = Inr found" "zone_ok (cs_zone s)" "chrono_ok C"
  shows "best_occurrence C s after False found"
  using assms by (auto simp: next_after_def bindr_eq_Inr intro: schedule_find_best)

lemma best_forward_Some:
  "best_occurrence C s after False (Some oc) \<longleftrightarrow>
     occurs C s (oc_scheduled_at_ms oc) \<and> after < oc_scheduled_at_ms oc
   \<and> (\<forall>t. occurs C s t \<and> after < t \<longrightarrow> oc_scheduled_at_ms oc \<le> t)"
  by (simp add: best_occurrence_def eligible_def no_worse_def Let_def)

lemma best_reverse_Some:
  "best_occurrence C s bound True (Some oc) \<longleftrightarrow>
     occurs C s (oc_scheduled_at_ms oc) \<and> oc_scheduled_at_ms oc \<le> bound
   \<and> (\<forall>t. occurs C s t \<and> t \<le> bound \<longrightarrow> t \<le> oc_scheduled_at_ms oc)"
  by (simp add: best_occurrence_def eligible_def no_worse_def Let_def)

lemma best_None: "best_occurrence C s bound reverse None \<longleftrightarrow> none_left C s bound reverse"
  by (simp add: best_occurrence_def)

text \<open>A compiled schedule for one instant was compiled from an instant of the calendar.\<close>

lemma compiled_once:
  assumes "compiled_schedule_new C spec = Inr s" "cs_once s = Some ms"
  shows "\<exists>l. local_datetime C (cs_zone s) ms = Inr l"
  using assms
  by (auto simp: compiled_schedule_new_def bindr_eq_Inr schedule_expression_def split: if_splits schedule_kind.splits)

lemma compiled_find_returns:
  assumes s: "compiled_schedule_new C spec = Inr s" and z: "zone_ok (cs_zone s)" "chrono_ok C" "gaps_short (cs_zone s)"
    and ld: "local_datetime C (cs_zone s) bound = Inr l" and room: "in_calendar C (l div 86400000 + 2933)"
  shows "\<exists>found. schedule_find C s bound reverse = Inr found"
proof (cases "cs_once s")
  case (Some ms)
  with compiled_once [OF s] show ?thesis
    by (auto simp: schedule_find_def schedule_occurrence_def local_datetime_def bindr_eq_Inr)
next
  case None
  show ?thesis by (rule schedule_find_returns [OF z None ld room])
qed

lemma next_after_returns:
  assumes s: "compiled_schedule_new C spec = Inr s" and z: "zone_ok (cs_zone s)" "chrono_ok C" "gaps_short (cs_zone s)"
    and ld: "local_datetime C (cs_zone s) after = Inr l" and room: "in_calendar C (l div 86400000 + 2933)"
  shows "\<exists>found. next_after C s after = Inr found"
  using compiled_find_returns [OF assms] ld by (auto simp: next_after_def local_datetime_def bindr_eq_Inr)

section \<open>Previews\<close>

lemma preview_loop_exact:
  assumes "zone_ok (cs_zone s)" "chrono_ok C"
  shows "preview_loop n C s after = Inr items \<Longrightarrow>
    let times = map oc_scheduled_at_ms items; stop = last (after # times) in
      length items \<le> n \<and> sorted_wrt (<) times \<and> set times = {t. occurs C s t \<and> after < t \<and> t \<le> stop}
    \<and> (length items < n \<longrightarrow> none_left C s stop False)"
proof (induction n arbitrary: after items)
  case 0
  then show ?case by simp
next
  case (Suc n)
  from Suc.prems obtain found where found: "next_after C s after = Inr found"
    by (auto simp: bindr_eq_Inr)
  note best = next_after_best [OF found assms]
  show ?case
  proof (cases found)
    case None
    with Suc.prems found best show ?thesis by (simp add: best_None)
  next
    case (Some item)
    with Suc.prems found obtain rest where rest: "preview_loop n C s (oc_scheduled_at_ms item) = Inr rest"
      and items: "items = item # rest" by (auto simp: bindr_eq_Inr)
    let ?m = "oc_scheduled_at_ms item" and ?times = "map oc_scheduled_at_ms rest"
    from best Some have m: "occurs C s ?m" "after < ?m" "\<And>t. occurs C s t \<Longrightarrow> after < t \<Longrightarrow> ?m \<le> t"
      by (auto simp: best_forward_Some)
    note ih = Suc.IH [OF rest, unfolded Let_def]
    have "?m \<le> last (?m # ?times)"
    proof (cases "rest = []")
      case False
      then have "last ?times \<in> set ?times" by (intro last_in_set) simp
      with ih False show ?thesis by (auto simp del: set_map)
    qed simp
    then have "insert ?m {t. occurs C s t \<and> ?m < t \<and> t \<le> last (?m # ?times)}
        = {t. occurs C s t \<and> after < t \<and> t \<le> last (?m # ?times)}"
      using m by (auto simp: order.order_iff_strict)
    with ih show ?thesis unfolding items by (auto simp: Let_def)
  qed
qed

section \<open>Catching up\<close>

lemma past_some: "past from_ms found = Some d \<Longrightarrow> found = Some d \<and> from_ms < oc_scheduled_at_ms d"
  by (auto simp: past_def split: option.splits if_splits)

lemma past_none:
  assumes "past from_ms found = None" "best_occurrence C s bound True found"
  shows "none_left C s bound True \<or> (\<forall>t. occurs C s t \<and> t \<le> bound \<longrightarrow> t \<le> from_ms)"
proof (cases found)
  case None
  with assms(2) show ?thesis by (simp add: best_None)
next
  case (Some oc)
  with assms(1) have "oc_scheduled_at_ms oc \<le> from_ms" by (auto simp: past_def split: if_splits)
  with assms(2) Some show ?thesis by (auto simp: best_reverse_Some)
qed

lemma catch_up_parts:
  assumes "schedule_catch_up C s from_ms now_ms = Inr cu"
  obtains found p :: "occurrence option" where "from_ms \<le> now_ms" "schedule_find C s now_ms True = Inr found"
      "cu_latest_due cu = past from_ms found" "next_after C s now_ms = Inr (cu_next cu)"
      "cu_missed_window cu = map_option (\<lambda>o'. \<lparr>mi_after_ms = from_ms, mi_through_ms = oc_scheduled_at_ms o'\<rparr>) p"
      "past from_ms found = None \<longrightarrow> p = None"
      "\<forall>due. past from_ms found = Some due \<longrightarrow>
         (\<exists>q. schedule_find C s (oc_scheduled_at_ms due - 1) True = Inr q \<and> p = past from_ms q)"
proof -
  from assms obtain found p where f: "from_ms \<le> now_ms" "schedule_find C s now_ms True = Inr found"
      "cu_latest_due cu = past from_ms found" "next_after C s now_ms = Inr (cu_next cu)"
      "cu_missed_window cu = map_option (\<lambda>o'. \<lparr>mi_after_ms = from_ms, mi_through_ms = oc_scheduled_at_ms o'\<rparr>) p"
      "(case past from_ms found of
          Some o' \<Rightarrow> if oc_scheduled_at_ms o' > 0
            then bindr (schedule_find C s (oc_scheduled_at_ms o' - 1) True) (\<lambda>p. Inr (past from_ms p)) else Inr None
        | None \<Rightarrow> Inr None) = Inr p"
    by (auto simp: schedule_catch_up_def bindr_eq_Inr Let_def split: if_splits)
  have "\<exists>q. schedule_find C s (oc_scheduled_at_ms due - 1) True = Inr q \<and> p = past from_ms q"
    if "past from_ms found = Some due" for due
    using f(6) past_some [OF that] that by (auto simp: bindr_eq_Inr split: if_splits)
  moreover have "past from_ms found = None \<longrightarrow> p = None" using f(6) by (auto split: option.splits)
  ultimately show thesis using f(1-5) by (intro that) auto
qed

end
