(* ===== verification/Cron_Facts.thy ===== *)
theory Cron_Facts
  imports Automation_Schedule
begin

text \<open>
  What the cron parser accepts: the fields of an accepted calendar are strictly ascending and
  within their bounds, and the expressions that the named kinds of schedule are printed to are
  read back as the calendar they stand for.
\<close>

section \<open>Fields\<close>

lemma part_range_bounds:
  assumes "part_range part lower upper = Inr (lo, hi, step)"
  shows "lower \<le> lo" "lo \<le> hi" "hi \<le> upper"
  using assms by (auto simp: part_range_def bindr_eq_Inr Let_def split: list.splits if_splits)

lemma part_values_bounds:
  "part_range part lower upper = Inr r \<Longrightarrow> v \<in> set (part_values r) \<Longrightarrow> lower \<le> v \<and> v \<le> upper"
  by (cases r) (auto simp: part_values_def dest: part_range_bounds)

lemma strict_sorted_dedup: "sorted (xs :: nat list) \<Longrightarrow> sorted_wrt (<) (remdups_adj xs)"
  by (induction xs rule: remdups_adj.induct) (auto simp: order.strict_iff_order)

lemma cron_field_bounds:
  assumes "cron_field f lower upper = Inr vs"
  shows "vs \<noteq> []" "sorted_wrt (<) vs" "\<forall>v \<in> set vs. lower \<le> v \<and> v \<le> upper"
proof -
  from assms obtain ranges
    where r: "collect_results (\<lambda>part. part_range part lower upper) (split_at_char (\<lambda>c. c = CHR '','') f) = Inr ranges"
      and vs: "vs = remdups_adj (sort (concat (map part_values ranges)))" and "vs \<noteq> []"
    by (auto simp: cron_field_def bindr_eq_Inr Let_def split: if_splits)
  show "vs \<noteq> []" by fact
  show "sorted_wrt (<) vs" unfolding vs
    by (rule strict_sorted_dedup) simp
  have "\<exists>part. part_range part lower upper = Inr r" if "r \<in> set ranges" for r
    using r [unfolded collect_results_ok] that by (auto simp: list_all2_conv_all_nth in_set_conv_nth)
  then show "\<forall>v \<in> set vs. lower \<le> v \<and> v \<le> upper"
    unfolding vs using part_values_bounds by fastforce
qed

section \<open>Calendars\<close>

text \<open>The well-formedness of an accepted calendar.\<close>

definition calendar_ok :: "chrono \<Rightarrow> calendar \<Rightarrow> bool" where
  "calendar_ok C c \<longleftrightarrow>
     cal_minutes c \<noteq> [] \<and> sorted_wrt (<) (cal_minutes c) \<and> (\<forall>m \<in> set (cal_minutes c). m < 60)
   \<and> cal_hours c \<noteq> [] \<and> sorted_wrt (<) (cal_hours c) \<and> (\<forall>h \<in> set (cal_hours c). h < 24)
   \<and> sorted_wrt (<) (cal_dom c) \<and> set (cal_dom c) \<subseteq> {1..31}
   \<and> sorted_wrt (<) (cal_months c) \<and> set (cal_months c) \<subseteq> {1..12}
   \<and> set (cal_dow c) \<subseteq> {0..6}
   \<and> (\<exists>day. 10957 \<le> day \<and> day < 10957 + 146097 \<and> calendar_matches C c day)"

lemma some_day_matches_iff:
  "some_day_matches n C c day \<Longrightarrow> \<exists>k<n. calendar_matches C c (day + int k)"
proof (induction n arbitrary: day)
  case (Suc n)
  then consider "calendar_matches C c day" | "some_day_matches n C c (day + 1)" by auto
  then show ?case
  proof cases
    case 2
    with Suc.IH obtain k where "k < n" "calendar_matches C c (day + 1 + int k)" by blast
    then show ?thesis by (intro exI [of _ "Suc k"]) (simp add: algebra_simps)
  qed (auto intro: exI [of _ 0])
qed simp

lemma some_day_matchesI:
  "calendar_matches C c (day + int k) \<Longrightarrow> k < n \<Longrightarrow> day + int k \<le> ch_max_day C \<Longrightarrow> some_day_matches n C c day"
proof (induction n arbitrary: day k)
  case (Suc n)
  show ?case
  proof (cases k)
    case (Suc j)
    with Suc.prems Suc.IH [of "day + 1" j] show ?thesis by (auto simp: algebra_simps)
  qed (use Suc.prems in auto)
qed simp

lemma calendar_parse_ok:
  assumes "calendar_parse C e = Inr c"
  shows "calendar_ok C c"
proof -
  from assms obtain f0 f1 f2 f3 f4 dow where f: "cron_field f0 0 59 = Inr (cal_minutes c)"
      "cron_field f1 0 23 = Inr (cal_hours c)" "cron_field f2 1 31 = Inr (cal_dom c)"
      "cron_field f3 1 12 = Inr (cal_months c)" "cron_field f4 0 7 = Inr dow"
      "cal_dow c = map (\<lambda>v. v mod 7) dow" and some: "some_day_matches 146097 C c 10957"
    by (auto simp: calendar_parse_def bindr_eq_Inr Let_def split: if_splits list.splits)
  from some_day_matches_iff [OF some] obtain k where "k < 146097" "calendar_matches C c (10957 + int k)" by blast
  then have "\<exists>day. 10957 \<le> day \<and> day < 10957 + 146097 \<and> calendar_matches C c day"
    by (intro exI [of _ "10957 + int k"]) simp
  moreover have "set (cal_dow c) \<subseteq> {0..6}" unfolding f(6) by (auto simp: less_Suc_eq_le [symmetric])
  ultimately show ?thesis
    unfolding calendar_ok_def
    using cron_field_bounds [OF f(1)] cron_field_bounds [OF f(2)] cron_field_bounds [OF f(3)] cron_field_bounds [OF f(4)]
    by (auto simp: less_Suc_eq_le [symmetric])
qed

text \<open>The walls of a day are ascending, at most one for each of its minutes.\<close>

lemma sorted_wrt_concat_map:
  assumes "\<forall>x \<in> set xs. sorted_wrt R (f x)" "sorted_wrt P xs"
    and "\<forall>x \<in> set xs. \<forall>y \<in> set xs. P x y \<longrightarrow> (\<forall>a \<in> set (f x). \<forall>b \<in> set (f y). R a b)"
  shows "sorted_wrt R (concat (map f xs))"
  using assms by (induction xs) (auto simp: sorted_wrt_append)

lemma day_walls_sorted:
  assumes "calendar_ok C c"
  shows "sorted_wrt (<) (day_walls c day)"
  unfolding day_walls_def
proof (rule sorted_wrt_concat_map [where P = "(<)"])
  show "sorted_wrt (<) (cal_hours c)" using assms by (simp add: calendar_ok_def)
  have "sorted_wrt (<) (filter (\<lambda>m. (h::nat) < 24 \<and> m < 60) (cal_minutes c))" for h
    using assms by (auto simp: calendar_ok_def intro: sorted_wrt_filter)
  then show "\<forall>h \<in> set (cal_hours c). sorted_wrt (<)
      (map (\<lambda>m. day * 1440 + int h * 60 + int m) (filter (\<lambda>m. h < 24 \<and> m < 60) (cal_minutes c)))"
    by (simp add: sorted_wrt_map)
qed auto

lemma strict_list_bound:
  assumes "sorted_wrt (<) (xs :: int list)" "\<forall>x \<in> set xs. a \<le> x \<and> x < a + int n"
  shows "length xs \<le> n"
proof -
  have "length xs = card (set xs)" using assms(1) by (simp add: strict_sorted_iff distinct_card)
  also have "\<dots> \<le> card {a..<a + int n}" using assms(2) by (intro card_mono) auto
  finally show ?thesis by simp
qed

section \<open>Named schedules\<close>

lemma split_at_char_plain: "\<forall>c \<in> set s. \<not> sep c \<Longrightarrow> split_at_char sep s = [s]"
  by (induction s) auto

lemma split_at_char_sep: "\<forall>c \<in> set a. \<not> sep c \<Longrightarrow> sep c \<Longrightarrow> split_at_char sep (a @ c # b) = a # split_at_char sep b"
  by (induction a) auto

lemma digit_char: "n < 10 \<Longrightarrow> byte_of (char_of (48 + n)) = 48 + n"
  by (simp add: byte_of_def)

lemma decimal_digits: "list_all is_ascii_digit (decimal n)"
proof (induction n rule: decimal.induct)
  case (1 n)
  have "n mod 10 < 10" by simp
  then have "is_ascii_digit (char_of (48 + n mod 10))" by (simp only: is_ascii_digit_def digit_char) linarith
  with 1 show ?case by (subst decimal.simps) (auto simp del: decimal.simps)
qed

declare decimal.simps [simp del]

lemma decimal_nonempty: "decimal n \<noteq> []"
  by (subst decimal.simps) simp

lemma digits_value_snoc: "digits_value (xs @ [c]) = 10 * digits_value xs + (byte_of c - 48)"
  by (simp add: digits_value_def)

lemma digits_value_decimal: "digits_value (decimal n) = n"
proof (induction n rule: decimal.induct)
  case (1 n)
  have "n mod 10 < 10" by simp
  moreover have "digits_value [c] = byte_of c - 48" for c by (simp add: digits_value_def)
  ultimately show ?case using 1 by (subst decimal.simps) (auto simp: digits_value_snoc digit_char)
qed

lemma number_decimal: "n < 2 ^ 32 \<Longrightarrow> number (decimal n) = Inr n"
  by (simp add: number_def decimal_digits decimal_nonempty digits_value_decimal)

lemma length_decimal: "n < 100 \<Longrightarrow> length (decimal n) \<le> 2"
  by (subst decimal.simps) (simp add: decimal.simps [of "n div 10"])

lemma decimal_plain:
  assumes "c \<in> set (decimal n)"
  shows "c \<noteq> CHR '',''" "c \<noteq> CHR ''/''" "c \<noteq> CHR ''-''" "c \<noteq> CHR ''*''" "\<not> is_ascii_whitespace c"
proof -
  have "is_ascii_digit c" using assms decimal_digits by (auto simp: list_all_iff)
  then show "c \<noteq> CHR '',''" "c \<noteq> CHR ''/''" "c \<noteq> CHR ''-''" "c \<noteq> CHR ''*''" "\<not> is_ascii_whitespace c"
    by (auto simp: is_ascii_digit_def is_ascii_whitespace_def byte_of_def)
qed

lemma decimal_not_star: "take 1 (decimal n) \<noteq> ''*''"
  using decimal_plain(4) [of "hd (decimal n)" n] decimal_nonempty [of n] by (cases "decimal n") auto

lemma cron_field_decimal:
  assumes "lower \<le> n" "n \<le> upper" "n < 2 ^ 32"
  shows "cron_field (decimal n) lower upper = Inr [n]"
proof -
  have "split_at_char (\<lambda>c. c = CHR '','') (decimal n) = [decimal n]"
    "split_at_char (\<lambda>c. c = CHR ''/'') (decimal n) = [decimal n]"
    by (auto intro!: split_at_char_plain dest: decimal_plain)
  moreover have "CHR ''-'' \<notin> set (decimal n)" "decimal n \<noteq> ''*''"
    using decimal_plain(3) decimal_not_star [of n] by auto
  ultimately have "collect_results (\<lambda>part. part_range part lower upper) (split_at_char (\<lambda>c. c = CHR '','') (decimal n))
      = Inr [(n, n, 1)]"
    using assms by (simp add: part_range_def number_decimal)
  then show ?thesis by (simp add: cron_field_def part_values_def)
qed

lemma cron_field_star:
  assumes "lower \<le> upper"
  shows "cron_field ''*'' lower upper = Inr [lower..<Suc upper]"
proof -
  have "part_range ''*'' lower upper = Inr (lower, upper, 1)" using assms by (simp add: part_range_def)
  moreover have "part_values (lower, upper, 1) = [lower..<Suc upper]" by (simp add: part_values_def)
  ultimately show ?thesis using assms by (simp add: cron_field_def remdups_adj_distinct del: upt_Suc)
qed

text \<open>What the sources rely on in chrono's dates.\<close>

definition gregorian :: "chrono \<Rightarrow> bool" where
  "gregorian C \<longleftrightarrow>
     (\<forall>d. in_calendar C d \<longrightarrow> ch_month C d \<in> {1..12} \<and> ch_day C d \<in> {1..31} \<and> ch_weekday C d < 7)
   \<and> (\<forall>d. in_calendar C d \<and> in_calendar C (d + 1) \<longrightarrow> ch_weekday C (d + 1) = (ch_weekday C d + 1) mod 7)
   \<and> in_calendar C 10957 \<and> in_calendar C 10963"

lemma week_covers:
  assumes "gregorian C" "w < 7"
  shows "\<exists>k<7. ch_weekday C (10957 + int k) = w"
proof -
  have cal: "in_calendar C (10957 + int k)" if "k < 7" for k
    using assms(1) that by (auto simp: gregorian_def in_calendar_def)
  have day: "ch_weekday C (10957 + int k) = (ch_weekday C 10957 + k) mod 7" if "k < 7" for k
    using that
  proof (induction k)
    case 0
    then show ?case using assms(1) cal [of 0] by (simp add: gregorian_def)
  next
    case (Suc k)
    have "ch_weekday C (10957 + int k + 1) = (ch_weekday C (10957 + int k) + 1) mod 7"
      using assms(1) cal [of k] cal [of "Suc k"] Suc.prems by (auto simp: gregorian_def algebra_simps)
    with Suc show ?case by (simp add: algebra_simps mod_Suc_eq)
  qed
  let ?w0 = "ch_weekday C 10957"
  have "?w0 < 7" using assms(1) cal [of 0] by (simp add: gregorian_def)
  then have "(?w0 + (w + 7 - ?w0) mod 7) mod 7 = w" using assms(2) by (simp add: mod_add_right_eq)
  then show ?thesis using day [of "(w + 7 - ?w0) mod 7"] by (intro exI [of _ "(w + 7 - ?w0) mod 7"]) simp
qed

text \<open>The calendar of the fields \<open>minutes hours * * dow\<close>.\<close>

definition plain_calendar :: "nat list \<Rightarrow> nat list \<Rightarrow> nat list \<Rightarrow> bool \<Rightarrow> calendar" where
  "plain_calendar minutes hours dow any =
     \<lparr>cal_minutes = minutes, cal_hours = hours, cal_dom = [1..<32], cal_months = [1..<13], cal_dow = dow,
      cal_dom_any = True, cal_dow_any = any\<rparr>"

lemma plain_calendar_matches:
  assumes "gregorian C" "in_calendar C day"
  shows "calendar_matches C (plain_calendar minutes hours dow any) day \<longleftrightarrow> ch_weekday C day \<in> set dow"
proof -
  have "ch_month C day \<in> set [1..<13]" "ch_day C day \<in> set [1..<32]"
    using assms by (auto simp: gregorian_def less_Suc_eq_le [symmetric])
  then show ?thesis unfolding calendar_matches_def plain_calendar_def by (simp del: upt.simps set_upt)
qed

lemma plain_calendar_satisfiable:
  assumes "gregorian C" "w \<in> set dow" "w < 7"
  shows "some_day_matches 146097 C (plain_calendar minutes hours dow any) 10957"
proof -
  obtain k where k: "k < 7" "ch_weekday C (10957 + int k) = w" using week_covers [OF assms(1,3)] by blast
  then have "in_calendar C (10957 + int k)" using assms(1) by (auto simp: gregorian_def in_calendar_def)
  with k assms plain_calendar_matches [OF assms(1)]
  show ?thesis by (intro some_day_matchesI [of C _ _ k]) (auto simp: in_calendar_def)
qed

lemma whitespace_space [simp]: "is_ascii_whitespace (CHR '' '')" "\<not> is_ascii_whitespace (CHR ''*'')"
  by (simp_all add: is_ascii_whitespace_def byte_of_def)

lemma split_fields:
  assumes "a \<noteq> []" "b \<noteq> []" "d \<noteq> []" "\<forall>c \<in> set a \<union> set b \<union> set d. \<not> is_ascii_whitespace c"
  shows "split_ascii_whitespace (a @ '' '' @ b @ '' * * '' @ d) = [a, b, ''*'', ''*'', d]"
  using assms by (simp add: split_ascii_whitespace_def split_at_char_sep split_at_char_plain)

lemma calendar_parse_fields:
  assumes "gregorian C" "length (a @ '' '' @ b @ '' * * '' @ d) \<le> 128" "a \<noteq> []" "b \<noteq> []" "d \<noteq> []"
    and "\<forall>c \<in> set a \<union> set b \<union> set d. \<not> is_ascii_whitespace c"
    and "cron_field a 0 59 = Inr minutes" "cron_field b 0 23 = Inr hours" "cron_field d 0 7 = Inr dow"
    and "w \<in> set (map (\<lambda>v. v mod 7) dow)" "w < 7"
  shows "calendar_parse C (a @ '' '' @ b @ '' * * '' @ d)
    = Inr (plain_calendar minutes hours (map (\<lambda>v. v mod 7) dow) (take 1 d = ''*''))"
proof -
  have star: "cron_field ''*'' 1 31 = Inr [1..<32]" "cron_field ''*'' 1 12 = Inr [1..<13]"
    using cron_field_star [of 1 31] cron_field_star [of 1 12] by (simp_all del: upt_Suc upt_rec_numeral add: numeral_eq_Suc)
  note some = plain_calendar_satisfiable [OF assms(1,10,11), of minutes hours "take 1 d = ''*''"]
  show ?thesis
    using assms(2) some unfolding calendar_parse_def split_fields [OF assms(3-6)] assms(7-9) star
    by (simp add: plain_calendar_def Let_def assms(7-9) star [unfolded One_nat_def]
        del: upt.simps upt_rec_numeral some_day_matches.simps)
qed

text \<open>The wall times a named schedule stands for.\<close>

fun named_in_range :: "schedule_kind \<Rightarrow> bool" where
  "named_in_range (Hourly m) \<longleftrightarrow> m < 60"
| "named_in_range (Daily h m) \<longleftrightarrow> h < 24 \<and> m < 60"
| "named_in_range (Weekly w h m) \<longleftrightarrow> w < 7 \<and> h < 24 \<and> m < 60"
| "named_in_range k \<longleftrightarrow> False"

fun named_wall :: "chrono \<Rightarrow> schedule_kind \<Rightarrow> int \<Rightarrow> bool" where
  "named_wall C (Hourly m) wall \<longleftrightarrow> wall mod 60 = int m"
| "named_wall C (Daily h m) wall \<longleftrightarrow> wall mod 1440 = int h * 60 + int m"
| "named_wall C (Weekly w h m) wall \<longleftrightarrow>
     ch_weekday C (wall div 1440) = w \<and> wall mod 1440 = int h * 60 + int m"
| "named_wall C k wall \<longleftrightarrow> False"

fun named_calendar :: "schedule_kind \<Rightarrow> calendar" where
  "named_calendar (Hourly m) = plain_calendar [m] [0..<24] (map (\<lambda>v. v mod 7) [0..<8]) True"
| "named_calendar (Daily h m) = plain_calendar [m] [h] (map (\<lambda>v. v mod 7) [0..<8]) True"
| "named_calendar (Weekly w h m) = plain_calendar [m] [h] [w] False"
| "named_calendar k = plain_calendar [] [] [] False"

lemma cron_field_minutes: "m < 60 \<Longrightarrow> cron_field (decimal m) 0 59 = Inr [m]"
  and cron_field_hours: "h < 24 \<Longrightarrow> cron_field (decimal h) 0 23 = Inr [h]"
  and cron_field_weekday: "w < 7 \<Longrightarrow> cron_field (decimal w) 0 7 = Inr [w]"
  by (simp_all add: cron_field_decimal)

lemma cron_field_any: "cron_field ''*'' 0 23 = Inr [0..<24]" "cron_field ''*'' 0 7 = Inr [0..<8]"
  using cron_field_star [of 0 23] cron_field_star [of 0 7]
  by (simp_all del: upt_Suc upt_rec_numeral add: numeral_eq_Suc)

lemma decimal_no_space: "\<forall>c \<in> set (decimal n). \<not> is_ascii_whitespace c"
  by (auto dest: decimal_plain)

lemma any_weekday: "w < 7 \<Longrightarrow> w \<in> set (map (\<lambda>v. v mod 7) [0..<8])"
  by (auto simp: image_iff intro!: bexI [of _ w])

lemma named_parse:
  assumes "gregorian C" "named_in_range kind"
  shows "bindr (schedule_expression C z kind) (calendar_parse C) = Inr (named_calendar kind)"
proof -
  have len: "length (decimal n) \<le> 2" if "n < 60" for n using that by (intro length_decimal) simp
  have any: "0 \<in> set (map (\<lambda>v. v mod 7) [0..<8])" by (rule any_weekday) simp
  note simps = decimal_nonempty decimal_no_space cron_field_minutes cron_field_hours cron_field_weekday cron_field_any
    decimal_not_star
  show ?thesis
  proof (cases kind)
    case (Hourly m)
    with assms(2) have m: "m < 60" by simp
    have "calendar_parse C (decimal m @ '' '' @ ''*'' @ '' * * '' @ ''*'')
        = Inr (plain_calendar [m] [0..<24] (map (\<lambda>v. v mod 7) [0..<8]) (take 1 ''*'' = ''*''))"
      by (rule calendar_parse_fields [where w = 0])
        (use assms(1) m len [of m] any in \<open>simp_all add: simps del: upt_rec_numeral\<close>)
    with Hourly m show ?thesis by (simp add: schedule_expression_def)
  next
    case (Daily h m)
    with assms(2) have r: "h < 24" "m < 60" by auto
    have "calendar_parse C (decimal m @ '' '' @ decimal h @ '' * * '' @ ''*'')
        = Inr (plain_calendar [m] [h] (map (\<lambda>v. v mod 7) [0..<8]) (take 1 ''*'' = ''*''))"
      by (rule calendar_parse_fields [where w = 0])
        (use assms(1) r len [of m] len [of h] any in \<open>simp_all add: simps ball_Un del: upt_rec_numeral\<close>)
    with Daily r show ?thesis by (simp add: schedule_expression_def)
  next
    case (Weekly w h m)
    with assms(2) have r: "w < 7" "h < 24" "m < 60" by auto
    have "calendar_parse C (decimal m @ '' '' @ decimal h @ '' * * '' @ decimal w)
        = Inr (plain_calendar [m] [h] (map (\<lambda>v. v mod 7) [w]) (take 1 (decimal w) = ''*''))"
      by (rule calendar_parse_fields [where w = w])
        (use assms(1) r len [of m] len [of h] len [of w] in \<open>simp_all add: simps ball_Un\<close>)
    with Weekly r decimal_not_star [of w] show ?thesis by (simp add: schedule_expression_def)
  qed (use assms(2) in auto)
qed

lemma wall_of_minute:
  fixes wall day k :: int
  assumes "0 \<le> k" "k < 1440"
  shows "wall = day * 1440 + k \<longleftrightarrow> wall div 1440 = day \<and> wall mod 1440 = k"
proof
  assume "wall div 1440 = day \<and> wall mod 1440 = k"
  then show "wall = day * 1440 + k" using div_mult_mod_eq [of wall 1440] by simp
qed (use assms in auto)

lemma wall_of_hour:
  assumes "n < 60"
  shows "(\<exists>h<24. wall = day * 1440 + int h * 60 + int n) \<longleftrightarrow> wall div 1440 = day \<and> wall mod 60 = int n"
proof
  assume "wall div 1440 = day \<and> wall mod 60 = int n"
  moreover have "wall = wall div 1440 * 1440 + wall mod 1440" by simp
  moreover have "wall mod 1440 = wall mod 1440 div 60 * 60 + wall mod 1440 mod 60" by simp
  moreover have "wall mod 1440 mod 60 = wall mod 60" by (rule mod_mod_cancel) simp
  moreover have "wall mod 1440 div 60 < 24" using pos_mod_bound [of 1440 wall] by linarith
  moreover have "0 \<le> wall mod 1440 div 60" by (simp add: pos_imp_zdiv_nonneg_iff)
  then obtain h where "wall mod 1440 div 60 = int h" by (rule nonneg_int_cases)
  ultimately have "h < 24" "wall = day * 1440 + int h * 60 + int n" by linarith+
  then show "\<exists>h<24. wall = day * 1440 + int h * 60 + int n" by blast
next
  assume "\<exists>h<24. wall = day * 1440 + int h * 60 + int n"
  then obtain h where h: "h < 24" "wall = int n + (day * 24 + int h) * 60" by auto
  then have "wall mod 60 = int n" using assms by (simp only: mod_mult_self1) simp
  moreover have "wall div 1440 = day" using h assms by simp
  ultimately show "wall div 1440 = day \<and> wall mod 60 = int n" by simp
qed

lemma named_walls:
  assumes "gregorian C" "named_in_range kind" "in_calendar C day"
  shows "calendar_matches C (named_calendar kind) day \<and> wall \<in> set (day_walls (named_calendar kind) day)
    \<longleftrightarrow> wall div 1440 = day \<and> named_wall C kind wall"
proof -
  have wd: "ch_weekday C day \<in> set (map (\<lambda>v. v mod 7) [0..<8])"
    using assms(1,3) by (intro any_weekday) (simp add: gregorian_def)
  note m = plain_calendar_matches [OF assms(1,3)]
  show ?thesis
  proof (cases kind)
    case (Hourly n)
    with assms(2) have "n < 60" by simp
    note wall_of_hour [OF this, of wall day]
    with Hourly wd show ?thesis
      by (simp only: named_calendar.simps m) (auto simp: day_walls_def plain_calendar_def)
  next
    case (Daily h n)
    have "wall = day * 1440 + int h * 60 + int n \<longleftrightarrow> wall div 1440 = day \<and> wall mod 1440 = int h * 60 + int n"
      if "h < 24" "n < 60" using that wall_of_minute [of "int h * 60 + int n" wall day] by (simp add: add.assoc)
    with Daily assms(2) wd show ?thesis
      by (simp only: named_calendar.simps m) (auto simp: day_walls_def plain_calendar_def)
  next
    case (Weekly w h n)
    have "wall = day * 1440 + int h * 60 + int n \<longleftrightarrow> wall div 1440 = day \<and> wall mod 1440 = int h * 60 + int n"
      if "h < 24" "n < 60" using that wall_of_minute [of "int h * 60 + int n" wall day] by (simp add: add.assoc)
    with Weekly assms(2) show ?thesis
      by (simp only: named_calendar.simps m) (auto simp: day_walls_def plain_calendar_def)
  qed (use assms(2) in auto)
qed
end
