(* ===== verification/Schedule_Theorems.thy ===== *)
theory Schedule_Theorems
  imports Schedule_Facts Cron_Facts
begin

text \<open>
  The theorems about schedules: what the named kinds and cron expressions compile to, that the
  next occurrence is the least one, that a preview enumerates the schedule, and what catching up
  after a pause reports.
\<close>

section \<open>A sample calendar\<close>

text \<open>A zone without offsets and a calendar of 31-day months, for the witnesses.\<close>

definition utc :: tz where
  "utc = \<lparr>tz_name = ''UTC'', tz_offset = (\<lambda>_. 0), tz_from_local = (\<lambda>w. LocalSingle (w * 60000)),
          tz_label = (\<lambda>_. ''UTC'')\<rparr>"

definition sample_chrono :: chrono where
  "sample_chrono = \<lparr>ch_min_day = -1000, ch_max_day = 1000000, ch_month = (\<lambda>d. nat (d div 31 mod 12) + 1),
     ch_day = (\<lambda>d. nat (d mod 31) + 1), ch_weekday = (\<lambda>d. nat ((d + 4) mod 7)),
     ch_tz = (\<lambda>name. if name = ''UTC'' then Some utc else None)\<rparr>"

lemma utc_ok: "zone_ok utc" "dates_monotone utc" "gaps_short utc"
proof -
  show "zone_ok utc" by (auto simp: zone_ok_def utc_def first_instant_def local_ms_def)
  show "dates_monotone utc" by (auto simp: dates_monotone_def utc_def local_ms_def intro: zdiv_mono1)
  show "gaps_short utc" by (auto simp: gaps_short_def utc_def first_instant_def)
qed

lemma sample_chrono_ok: "chrono_ok sample_chrono" "gregorian sample_chrono"
proof -
  show "chrono_ok sample_chrono" by (simp add: chrono_ok_def sample_chrono_def)
  have "nat ((d + 5) mod 7) = Suc (nat ((d + 4) mod 7)) mod 7" for d :: int
  proof -
    have "(d + 5) mod 7 = ((d + 4) mod 7 + 1) mod 7" by (simp add: mod_simps add.commute)
    then show ?thesis by (simp add: nat_mod_distrib nat_add_distrib)
  qed
  then show "gregorian sample_chrono"
    by (auto simp: gregorian_def sample_chrono_def in_calendar_def add.commute [of 5])
qed

section \<open>What schedules compile to\<close>

text \<open>
  The named kinds of schedule mean what they say. With a known zone a schedule by the hour,
  day or week compiles exactly when its numbers are in range; the calendar it is compiled to, by
  printing a cron expression and parsing it again, holds on every date exactly the wall times of
  the kind: every hour at its minute, every day at its time, every week on its day at its time.
\<close>

lemma named_schedules_compile:
  assumes "gregorian C" "ch_tz C name = Some z" "tz_name z = name" "name \<noteq> []" "length name \<le> 64"
    and "\<nexists>ms. kind = Once ms" "\<nexists>e. kind = Cron e"
  shows "if named_in_range kind
    then \<exists>s. compiled_schedule_new C \<lparr>ss_timezone = name, ss_kind = kind\<rparr> = Inr s \<and> cs_zone s = z \<and> cs_once s = None
      \<and> (\<forall>day wall. in_calendar C day \<longrightarrow>
          (calendar_matches C (cs_calendar s) day \<and> wall \<in> set (day_walls (cs_calendar s) day)
           \<longleftrightarrow> wall div 1440 = day \<and> named_wall C kind wall))
    else compiled_schedule_new C \<lparr>ss_timezone = name, ss_kind = kind\<rparr> = Inl InvalidSchedule"
proof (cases "named_in_range kind")
  case True
  from named_parse [OF assms(1) True, of z] obtain e
    where "schedule_expression C z kind = Inr e" "calendar_parse C e = Inr (named_calendar kind)"
    by (auto simp: bindr_eq_Inr)
  then have "compiled_schedule_new C \<lparr>ss_timezone = name, ss_kind = kind\<rparr>
      = Inr \<lparr>cs_zone = z, cs_once = None, cs_calendar = named_calendar kind\<rparr>"
    using assms by (auto simp: compiled_schedule_new_def ok_or_def split: schedule_kind.splits)
  then show ?thesis using True named_walls [OF assms(1) True] by simp
next
  case False
  then have "schedule_expression C z kind = Inl InvalidSchedule"
    using assms(6,7) by (cases kind) (auto simp: schedule_expression_def)
  with False assms(2-5) show ?thesis by (auto simp: compiled_schedule_new_def ok_or_def)
qed

lemma named_schedules_compile_witness:
  "\<exists>s. compiled_schedule_new sample_chrono \<lparr>ss_timezone = ''UTC'', ss_kind = Weekly 1 8 30\<rparr> = Inr s
     \<and> cs_zone s = utc \<and> (510 + 4 * 1440) \<in> set (day_walls (cs_calendar s) 4)"
proof -
  have "ch_tz sample_chrono ''UTC'' = Some utc" "tz_name utc = ''UTC''"
    by (simp_all add: sample_chrono_def utc_def)
  from named_schedules_compile [OF sample_chrono_ok(2) this, of "Weekly 1 8 30"]
  obtain s where s: "compiled_schedule_new sample_chrono \<lparr>ss_timezone = ''UTC'', ss_kind = Weekly 1 8 30\<rparr> = Inr s"
      "cs_zone s = utc"
    and walls: "\<forall>day wall. in_calendar sample_chrono day \<longrightarrow>
          (calendar_matches sample_chrono (cs_calendar s) day \<and> wall \<in> set (day_walls (cs_calendar s) day)
           \<longleftrightarrow> wall div 1440 = day \<and> named_wall sample_chrono (Weekly 1 8 30) wall)" by auto
  have "in_calendar sample_chrono 4" by (simp add: in_calendar_def sample_chrono_def)
  moreover have "named_wall sample_chrono (Weekly 1 8 30) (510 + 4 * 1440)" by (simp add: sample_chrono_def)
  moreover have "(510 + 4 * 1440) div 1440 = (4 :: int)" by simp
  ultimately have "(510 + 4 * 1440) \<in> set (day_walls (cs_calendar s) 4)" using walls by blast
  with s show ?thesis by blast
qed



section \<open>The next occurrence\<close>

text \<open>
  C12: The next occurrence of a compiled schedule is the least one. For a zone whose gaps last at
  most 48 hours, and as long as the calendar reaches eight years and a few days further, the search
  returns; an occurrence it returns belongs to the schedule, lies after the given instant, and every
  other one after this instant is later; when it returns none, the schedule has none on any
  date of the search window.
\<close>

theorem next_after_least:
  assumes "compiled_schedule_new C spec = Inr s" "zone_ok (cs_zone s)" "chrono_ok C" "gaps_short (cs_zone s)"
    and "local_datetime C (cs_zone s) after = Inr l" "in_calendar C (l div 86400000 + 2933)"
  shows "\<exists>found. next_after C s after = Inr found
    \<and> (case found of
         Some oc \<Rightarrow> occurs C s (oc_scheduled_at_ms oc) \<and> after < oc_scheduled_at_ms oc
           \<and> (\<forall>t. occurs C s t \<and> after < t \<longrightarrow> oc_scheduled_at_ms oc \<le> t)
       | None \<Rightarrow> none_left C s after False)"
proof -
  obtain found where found: "next_after C s after = Inr found" using next_after_returns [OF assms] by blast
  from next_after_best [OF this assms(2,3)] found show ?thesis
    by (cases found) (auto simp: best_forward_Some best_None)
qed

lemma sample_schedule:
  obtains s where "compiled_schedule_new sample_chrono \<lparr>ss_timezone = ''UTC'', ss_kind = Daily 8 30\<rparr> = Inr s"
    "cs_zone s = utc" "cs_once s = None" "cs_calendar s = named_calendar (Daily 8 30)"
proof -
  have named: "named_in_range (Daily 8 30)" by simp
  from named_parse [OF sample_chrono_ok(2) named, of utc] obtain e
    where e: "schedule_expression sample_chrono utc (Daily 8 30) = Inr e"
      "calendar_parse sample_chrono e = Inr (named_calendar (Daily 8 30))" by (auto simp: bindr_eq_Inr)
  have "ch_tz sample_chrono ''UTC'' = Some utc" "tz_name utc = ''UTC''"
    by (simp_all add: sample_chrono_def utc_def)
  with e have "compiled_schedule_new sample_chrono \<lparr>ss_timezone = ''UTC'', ss_kind = Daily 8 30\<rparr>
      = Inr \<lparr>cs_zone = utc, cs_once = None, cs_calendar = named_calendar (Daily 8 30)\<rparr>"
    by (simp add: compiled_schedule_new_def ok_or_def del: named_calendar.simps)
  then show thesis by (rule that) simp_all
qed

lemma sample_local: "ms \<le> 86400000 \<Longrightarrow> local_datetime sample_chrono utc ms = Inr (int ms)"
  by (auto simp: local_datetime_def schedule_timestamp_def local_ms_def utc_def sample_chrono_def in_calendar_def
      MAX_SAFE_MS_def)

lemma sample_room: "ms \<le> 86400000 \<Longrightarrow> in_calendar sample_chrono (int ms div 86400000 + 2933)"
  by (auto simp: sample_chrono_def in_calendar_def)

lemma sample_find:
  assumes "compiled_schedule_new sample_chrono spec = Inr s" "cs_zone s = utc" "ms \<le> 86400000"
  shows "\<exists>found. schedule_find sample_chrono s ms reverse = Inr found"
  by (rule compiled_find_returns [OF assms(1)])
    (use assms(2,3) utc_ok sample_chrono_ok(1) sample_local sample_room in auto)

lemma sample_occurs:
  assumes "cs_zone s = utc" "cs_once s = None" "cs_calendar s = named_calendar (Daily 8 30)"
  shows "occurs_on sample_chrono s 0 30600000"
proof -
  have cal: "in_calendar sample_chrono 0" by (simp add: sample_chrono_def in_calendar_def)
  have "calendar_matches sample_chrono (cs_calendar s) 0 \<and> 510 \<in> set (day_walls (cs_calendar s) 0)"
    unfolding assms(3) by (subst named_walls [OF sample_chrono_ok(2) _ cal]) simp_all
  moreover have "resolve sample_chrono (cs_zone s) 510 = Inr (Some 30600000)"
    unfolding resolve_def assms(1)
    by (subst numeral_eq_Suc, subst resolve_loop.simps) (simp add: utc_def first_instant_def MAX_SAFE_MS_def)
  ultimately show ?thesis using cal by (auto simp: occurs_on_def)
qed

theorem next_after_least_witness:
  "\<exists>s oc. compiled_schedule_new sample_chrono \<lparr>ss_timezone = ''UTC'', ss_kind = Daily 8 30\<rparr> = Inr s
     \<and> next_after sample_chrono s 0 = Inr (Some oc) \<and> 0 < oc_scheduled_at_ms oc \<and> oc_scheduled_at_ms oc \<le> 30600000"
proof -
  obtain s where s: "compiled_schedule_new sample_chrono \<lparr>ss_timezone = ''UTC'', ss_kind = Daily 8 30\<rparr> = Inr s"
    "cs_zone s = utc" "cs_once s = None" "cs_calendar s = named_calendar (Daily 8 30)" by (rule sample_schedule)
  have on: "occurs_on sample_chrono s 0 30600000" by (rule sample_occurs [OF s(2-4)])
  then have occ: "occurs sample_chrono s 30600000" using s(3) by (auto simp: occurs_def)
  have "in_window s 0 False 0" "eligible False 0 30600000"
    using s(2) by (simp_all add: in_window_def local_ms_def utc_def eligible_def)
  with on s(3) have "\<not> none_left sample_chrono s 0 False" unfolding none_left_def by auto
  then obtain oc where "next_after sample_chrono s 0 = Inr (Some oc)" "0 < oc_scheduled_at_ms oc"
      "\<forall>t. occurs sample_chrono s t \<longrightarrow> t = 0 \<or> oc_scheduled_at_ms oc \<le> t"
    using next_after_least [OF s(1), of 0 0] s utc_ok sample_chrono_ok(1) sample_local [of 0] sample_room [of 0]
    by (auto split: option.splits)
  with occ s(1) show ?thesis by auto
qed

section \<open>Previews and catching up\<close>

text \<open>
  C17: A preview enumerates the schedule. It holds at most as many occurrences as asked for, which
  is between 1 and 50, in strictly ascending order, and they are all the occurrences between the
  given instant and the last of them, without a gap; when they are fewer than asked for, the
  schedule has no further one on any date of the search window.
\<close>

theorem preview_enumerates:
  assumes "schedule_preview C s after count = Inr items" "zone_ok (cs_zone s)" "chrono_ok C"
  shows "let times = map oc_scheduled_at_ms items; stop = last (after # times) in
      1 \<le> count \<and> count \<le> 50 \<and> length items \<le> count \<and> sorted_wrt (<) times
    \<and> set times = {t. occurs C s t \<and> after < t \<and> t \<le> stop}
    \<and> (length items < count \<longrightarrow> none_left C s stop False)"
proof -
  have "1 \<le> count \<and> count \<le> 50" "preview_loop count C s after = Inr items"
    using assms(1) by (auto simp: schedule_preview_def bindr_eq_Inr split: if_splits)
  with preview_loop_exact [OF assms(2,3)] show ?thesis unfolding Let_def by blast
qed

lemma sample_next: "ms \<le> 86400000 \<Longrightarrow> next_after sample_chrono s ms = schedule_find sample_chrono s ms False"
  by (auto simp: next_after_def schedule_timestamp_def MAX_SAFE_MS_def sample_chrono_def in_calendar_def)

theorem preview_enumerates_witness:
  "\<exists>s items. compiled_schedule_new sample_chrono \<lparr>ss_timezone = ''UTC'', ss_kind = Daily 8 30\<rparr> = Inr s
     \<and> schedule_preview sample_chrono s 0 1 = Inr items \<and> length items \<le> 1
     \<and> set (map oc_scheduled_at_ms items) \<subseteq> {t. occurs sample_chrono s t}"
proof -
  obtain s where s: "compiled_schedule_new sample_chrono \<lparr>ss_timezone = ''UTC'', ss_kind = Daily 8 30\<rparr> = Inr s"
    "cs_zone s = utc" by (rule sample_schedule)
  obtain found where "next_after sample_chrono s 0 = Inr found"
    using sample_find [OF s, of 0 False] by (auto simp: sample_next)
  then obtain items where items: "schedule_preview sample_chrono s 0 1 = Inr items"
    by (cases found) (auto simp: schedule_preview_def schedule_timestamp_def sample_chrono_def in_calendar_def)
  from preview_enumerates [OF this utc_ok(1) [folded s(2)] sample_chrono_ok(1)]
  have "length items \<le> 1" "set (map oc_scheduled_at_ms items) \<subseteq> {t. occurs sample_chrono s t}"
    by (auto simp: Let_def)
  with s items show ?thesis by blast
qed

text \<open>
  C30: Catching up after a pause reports what was missed. For a zone no fold of which crosses
  midnight, the occurrence due is the latest one of the interval, the missed window is there exactly
  when an earlier one of the interval precedes it and ends with the latest of these, and the next
  occurrence is the least after the interval; where nothing is reported, the schedule has none on
  any date of the search window.
\<close>

theorem catch_up_exact:
  assumes "schedule_catch_up C s from_ms now_ms = Inr cu"
    and "zone_ok (cs_zone s)" "chrono_ok C" "dates_monotone (cs_zone s)"
  shows "from_ms \<le> now_ms
    \<and> (case cu_latest_due cu of
         Some due \<Rightarrow> from_ms < oc_scheduled_at_ms due \<and> best_occurrence C s now_ms True (Some due)
           \<and> (case cu_missed_window cu of
                Some w \<Rightarrow> mi_after_ms w = from_ms \<and> from_ms < mi_through_ms w \<and> mi_through_ms w < oc_scheduled_at_ms due
                  \<and> occurs C s (mi_through_ms w)
                  \<and> (\<forall>t. occurs C s t \<and> t < oc_scheduled_at_ms due \<longrightarrow> t \<le> mi_through_ms w)
              | None \<Rightarrow> none_left C s (oc_scheduled_at_ms due - 1) True
                  \<or> (\<forall>t. occurs C s t \<and> t < oc_scheduled_at_ms due \<longrightarrow> t \<le> from_ms))
       | None \<Rightarrow> cu_missed_window cu = None
           \<and> (none_left C s now_ms True \<or> (\<forall>t. occurs C s t \<and> t \<le> now_ms \<longrightarrow> t \<le> from_ms)))
    \<and> best_occurrence C s now_ms False (cu_next cu)"
proof -
  note rev = schedule_find_best [OF _ assms(2,3), where reverse = True]
  from assms(1) obtain found p :: "occurrence option" where parts: "from_ms \<le> now_ms" "schedule_find C s now_ms True = Inr found"
      "cu_latest_due cu = past from_ms found" "next_after C s now_ms = Inr (cu_next cu)"
      "cu_missed_window cu = map_option (\<lambda>o'. \<lparr>mi_after_ms = from_ms, mi_through_ms = oc_scheduled_at_ms o'\<rparr>) p"
      "past from_ms found = None \<longrightarrow> p = None"
      "\<forall>due. past from_ms found = Some due \<longrightarrow>
         (\<exists>q. schedule_find C s (oc_scheduled_at_ms due - 1) True = Inr q \<and> p = past from_ms q)"
    by (rule catch_up_parts) (rule that)
  note due = rev [OF parts(2)] and following = next_after_best [OF parts(4) assms(2,3)]
  show ?thesis
  proof (cases "past from_ms found")
    case None
    then have "none_left C s now_ms True \<or> (\<forall>t. occurs C s t \<and> t \<le> now_ms \<longrightarrow> t \<le> from_ms)"
      using due assms(4) by (intro past_none) auto
    with None parts following show ?thesis by simp
  next
    case (Some d)
    from parts(7) [rule_format, OF this] obtain q where q: "schedule_find C s (oc_scheduled_at_ms d - 1) True = Inr q"
      "p = past from_ms q" by blast
    have d: "found = Some d" "from_ms < oc_scheduled_at_ms d" using Some by (auto dest: past_some)
    note earlier = rev [OF q(1), rule_format, OF assms(4)]
    have sub: "t \<le> oc_scheduled_at_ms d - 1 \<longleftrightarrow> t < oc_scheduled_at_ms d" for t using d(2) by auto
    show ?thesis
    proof (cases p)
      case None
      with q(2) have "past from_ms q = None" by simp
      from past_none [OF this earlier, unfolded sub] None parts(1,3,5) Some d due assms(4) following
      show ?thesis by simp
    next
      case (Some e)
      then have e: "q = Some e" "from_ms < oc_scheduled_at_ms e" using q(2) past_some [of from_ms q e] by auto
      from earlier [unfolded e(1) best_reverse_Some sub] e Some parts(1,3,5) \<open>past from_ms found = Some d\<close> d due assms(4) following
      show ?thesis by simp
    qed
  qed
qed

theorem catch_up_exact_witness:
  "\<exists>s cu. compiled_schedule_new sample_chrono \<lparr>ss_timezone = ''UTC'', ss_kind = Daily 8 30\<rparr> = Inr s
     \<and> schedule_catch_up sample_chrono s 0 86400000 = Inr cu
     \<and> best_occurrence sample_chrono s 86400000 False (cu_next cu)"
proof -
  obtain s where s: "compiled_schedule_new sample_chrono \<lparr>ss_timezone = ''UTC'', ss_kind = Daily 8 30\<rparr> = Inr s"
    "cs_zone s = utc" by (rule sample_schedule)
  obtain found where found: "schedule_find sample_chrono s 86400000 True = Inr found"
    using sample_find [OF s, of 86400000 True] by auto
  obtain following where following: "next_after sample_chrono s 86400000 = Inr following"
    using sample_find [OF s, of 86400000 False] by (auto simp: sample_next)
  have "\<exists>q. schedule_find sample_chrono s (oc_scheduled_at_ms d - 1) True = Inr q" if "past 0 found = Some d" for d
  proof -
    have "best_occurrence sample_chrono s 86400000 True found"
      using schedule_find_best [OF found] s(2) utc_ok sample_chrono_ok(1) by simp
    then have "oc_scheduled_at_ms d \<le> 86400000" using past_some [OF that] by (simp add: best_reverse_Some)
    then show ?thesis using sample_find [OF s, of "oc_scheduled_at_ms d - 1" True] by simp
  qed
  then obtain cu where cu: "schedule_catch_up sample_chrono s 0 86400000 = Inr cu"
    using found following
    by (cases "past 0 found") (force simp: schedule_catch_up_def schedule_timestamp_def sample_chrono_def in_calendar_def
        MAX_SAFE_MS_def Let_def)+
  from catch_up_exact [OF this] s utc_ok sample_chrono_ok(1) cu show ?thesis by auto
qed

section \<open>Folds that cross midnight\<close>

text \<open>
  Without the hypothesis on folds the report is not exact. In a zone whose clocks went back from
  00:01 to 23:01 (as those of St. John's did until 2011), for the hour after the fold the reverse
  search starts at the earlier date and passes over the occurrence at midnight.
\<close>

definition fold_zone :: tz where
  "fold_zone = \<lparr>tz_name = ''Fold'', tz_offset = (\<lambda>t. if t < 864060000 then 0 else - 3600),
     tz_from_local = (\<lambda>w. if w \<le> 14340 then LocalSingle (w * 60000)
                          else if w \<le> 14400 then LocalAmbiguous (w * 60000) ((w + 60) * 60000)
                          else LocalSingle ((w + 60) * 60000)),
     tz_label = (\<lambda>_. ''Fold'')\<rparr>"

definition fold_schedule :: compiled_schedule where
  "fold_schedule = \<lparr>cs_zone = fold_zone, cs_once = None, cs_calendar = named_calendar (Daily 0 0)\<rparr>"

lemma fold_zone_ok: "zone_ok fold_zone" "gaps_short fold_zone"
  by (auto simp: zone_ok_def gaps_short_def fold_zone_def first_instant_def local_ms_def split: if_splits)

lemma fold_resolve:
  "resolve sample_chrono fold_zone wall =
     Inr (let t = (if wall \<le> 14400 then wall else wall + 60) * 60000 in
          if 0 \<le> t \<and> t \<le> int MAX_SAFE_MS then Some (nat t) else None)"
proof -
  have "first_instant fold_zone wall = Some ((if wall \<le> 14400 then wall else wall + 60) * 60000)"
    by (simp add: first_instant_def fold_zone_def)
  then show ?thesis unfolding resolve_def
    by (subst numeral_eq_Suc, subst resolve_loop.simps) (simp add: Let_def del: resolve_loop.simps)
qed

lemma fold_occurs:
  assumes "- 1000 \<le> day" "day \<le> 10"
  shows "occurs_on sample_chrono fold_schedule day t \<longleftrightarrow> 0 \<le> day \<and> int t = day * 86400000"
proof -
  have cal: "in_calendar sample_chrono day" using assms by (simp add: sample_chrono_def in_calendar_def)
  have "calendar_matches sample_chrono (cs_calendar fold_schedule) day \<and> wall \<in> set (day_walls (cs_calendar fold_schedule) day)
      \<longleftrightarrow> wall = day * 1440" for wall
    using named_walls [OF sample_chrono_ok(2) _ cal, of "Daily 0 0" wall] wall_of_minute [of 0 wall day]
    by (simp add: fold_schedule_def)
  then have "occurs_on sample_chrono fold_schedule day t \<longleftrightarrow> resolve sample_chrono fold_zone (day * 1440) = Inr (Some t)"
    using cal by (auto simp: occurs_on_def fold_schedule_def)
  also have "\<dots> \<longleftrightarrow> 0 \<le> day \<and> int t = day * 86400000"
    using assms by (auto simp: fold_resolve Let_def MAX_SAFE_MS_def)
  finally show ?thesis .
qed

theorem reverse_search_misses_fold:
  "\<exists>oc. schedule_find sample_chrono fold_schedule 864060000 True = Inr (Some oc)
     \<and> oc_scheduled_at_ms oc < 864000000 \<and> occurs sample_chrono fold_schedule 864000000"
proof -
  have ld: "local_datetime sample_chrono fold_zone 864060000 = Inr 860460000"
    by (simp add: local_datetime_def schedule_timestamp_def local_ms_def fold_zone_def sample_chrono_def in_calendar_def
        MAX_SAFE_MS_def)
  have s: "cs_zone fold_schedule = fold_zone" "cs_once fold_schedule = None" by (simp_all add: fold_schedule_def)
  have room: "in_calendar sample_chrono (860460000 div 86400000 + 2933)"
    by (simp add: sample_chrono_def in_calendar_def)
  have start: "search_start fold_schedule 864060000 True = 9"
    by (simp add: search_start_def s local_ms_def fold_zone_def)
  note z = fold_zone_ok [folded s(1)]
  obtain found where found: "schedule_find sample_chrono fold_schedule 864060000 True = Inr found"
    using schedule_find_returns [OF z(1) sample_chrono_ok(1) z(2) s(2) ld [folded s(1)] room] by blast
  have hit: "777600000 \<in> day_hits sample_chrono fold_schedule True 864060000 (9 + direction True * int 0)"
    by (simp add: day_hits_def eligible_def fold_occurs)
  from found s(2) z(1) sample_chrono_ok(1)
  have "\<exists>oc. found = Some oc \<and> oc_scheduled_at_ms oc < 864000000"
  proof (cases rule: schedule_find_loop)
    case 1
    from find_loop_fresh [OF 1(3,2) z(1)] have "day_hits sample_chrono fold_schedule True 864060000 (9 + direction True * int 0) = {}"
      unfolding start by (auto simp only: option.case)
    with hit show ?thesis by blast
  next
    case (2 oc)
    from find_loop_fresh [OF 2(3,2) z(1)] obtain k
      where "occurs_on sample_chrono fold_schedule (9 - int k) (oc_scheduled_at_ms oc)"
      unfolding start by (auto simp: day_hits_def direction_def)
    moreover from this have "- 1000 \<le> 9 - int k" by (simp add: occurs_on_def in_calendar_def sample_chrono_def)
    ultimately show ?thesis using 2(1) by (auto simp: fold_occurs)
  qed
  moreover have "occurs sample_chrono fold_schedule 864000000"
    using fold_occurs [of 10 864000000] s(2) by (auto simp: occurs_def)
  ultimately show ?thesis using found by blast
qed

end
