(* ===== verification/V4_Admin.thy ===== *)
theory V4_Admin
  imports V4_Contract Automation_Schedule
begin

text \<open>
  The administrative records of protocol version 4: permission profiles
  (\<open>src/app_core/v4_permission.rs\<close>), page and resource queries, profile revisions and artifact
  references (\<open>v4/admin.rs\<close>), actions and decisions (\<open>v4/action.rs\<close>), tasks and attempts
  (\<open>v4/task.rs\<close>) and automations (\<open>v4/automation.rs\<close>), with their validation. The derived
  serialisation is there for the records whose pages are bounded in bytes.
\<close>

section \<open>Shared checks\<close>

definition v4_positive :: "nat \<Rightarrow> validation_error + unit" where
  "v4_positive value = bindr (v4_timestamp value) (\<lambda>_. v4_ensure (value > 0))"

definition v4_digest :: "string \<Rightarrow> validation_error + unit" where
  "v4_digest value = v4_ensure (length value = 64 \<and> list_all is_lower_hex value)"

definition v4_budget :: "nat \<Rightarrow> validation_error + unit" where
  "v4_budget value = v4_ensure (1 \<le> value \<and> value \<le> 100000)"

definition v4_page :: "nat \<Rightarrow> nat \<Rightarrow> nat \<Rightarrow> validation_error + unit" where
  "v4_page after through count =
     bindr (v4_timestamp after) (\<lambda>_.
     bindr (v4_timestamp through) (\<lambda>_.
       v4_ensure (after \<le> through \<and> count \<le> MAX_V4_PAGE)))"

definition admin_bytes :: "externals \<Rightarrow> json \<Rightarrow> validation_error + unit" where
  "admin_bytes E value = v4_ensure (length (json_to_string E value) \<le> 48 * 1024)"

definition opt_validate :: "('a \<Rightarrow> validation_error + unit) \<Rightarrow> 'a option \<Rightarrow> validation_error + unit" where
  "opt_validate f x = (case x of Some a \<Rightarrow> f a | None \<Rightarrow> Inr ())"

section \<open>Permission profiles\<close>

definition MAX_V4_ITEMS :: nat where "MAX_V4_ITEMS = 64"
definition MAX_V4_ROOT :: nat where "MAX_V4_ROOT = 512"
definition MAX_V4_DOMAIN :: nat where "MAX_V4_DOMAIN = 253"
definition MAX_V4_RUNTIME_MS :: nat where "MAX_V4_RUNTIME_MS = 3600000"
definition MAX_V4_OUTPUT_BYTES :: nat where "MAX_V4_OUTPUT_BYTES = 1048576"

record v4_permission_profile =
  pf_profile_id :: string
  pf_tool_ids :: "string list"
  pf_application_ids :: "string list"
  pf_filesystem_roots :: "string list"
  pf_browser_domains :: "string list"
  pf_max_runtime_ms :: nat
  pf_max_output_bytes :: nat

definition positive_at_most :: "nat \<Rightarrow> nat \<Rightarrow> string \<Rightarrow> validation_error + unit" where
  "positive_at_most value limit message = ensure (\<not> (value = 0 \<or> value > limit)) message"

definition validate_id_list :: "string list \<Rightarrow> validation_error + unit" where
  "validate_id_list values =
     (if length values > MAX_V4_ITEMS then Inl ''invalid v4 permission profile''
      else for_each v4_route values)"

definition is_ascii_alphabetic :: "char \<Rightarrow> bool" where
  "is_ascii_alphabetic c \<longleftrightarrow> is_ascii_alphanumeric c \<and> \<not> is_ascii_digit c"

definition absolute_root :: "string \<Rightarrow> bool" where
  "absolute_root value \<longleftrightarrow>
     take 1 value = ''/''
   \<or> length value \<ge> 3 \<and> is_ascii_alphabetic (value ! 0) \<and> value ! 1 = CHR '':''
     \<and> (value ! 2 = CHR ''/'' \<or> value ! 2 = CHR 0x5C)"

definition validate_roots :: "string list \<Rightarrow> validation_error + unit" where
  "validate_roots values =
     (if length values > MAX_V4_ITEMS then Inl ''invalid v4 permission profile''
      else for_each (\<lambda>value. ensure (\<not> (value = [] \<or> length value > MAX_V4_ROOT \<or> has_control value
             \<or> \<not> absolute_root value)) ''invalid v4 filesystem root'') values)"

definition validate_domains :: "string list \<Rightarrow> validation_error + unit" where
  "validate_domains values =
     (if length values > MAX_V4_ITEMS then Inl ''invalid v4 permission profile''
      else for_each (\<lambda>value. ensure (\<not> (value = [] \<or> length value > MAX_V4_DOMAIN
             \<or> \<not> list_all (\<lambda>c. is_ascii_alphanumeric c \<or> c = CHR ''.'' \<or> c = CHR ''-'') value))
             ''invalid v4 browser domain'') values)"

definition v4_permission_profile_validate :: "v4_permission_profile \<Rightarrow> validation_error + unit" where
  "v4_permission_profile_validate p =
     bindr (v4_route (pf_profile_id p)) (\<lambda>_.
     bindr (validate_id_list (pf_tool_ids p)) (\<lambda>_.
     bindr (validate_id_list (pf_application_ids p)) (\<lambda>_.
     bindr (validate_roots (pf_filesystem_roots p)) (\<lambda>_.
     bindr (validate_domains (pf_browser_domains p)) (\<lambda>_.
     bindr (positive_at_most (pf_max_runtime_ms p) MAX_V4_RUNTIME_MS ''invalid v4 runtime limit'') (\<lambda>_.
       positive_at_most (pf_max_output_bytes p) MAX_V4_OUTPUT_BYTES ''invalid v4 output limit''))))))"

section \<open>Queries, revisions, artifacts\<close>

record v4_page_query =
  pq_after :: nat
  pq_through :: "nat option"
  pq_limit :: nat

definition v4_page_query_validate :: "v4_page_query \<Rightarrow> validation_error + unit" where
  "v4_page_query_validate q =
     bindr (v4_timestamp (pq_after q)) (\<lambda>_.
     bindr (v4_limit (pq_limit q)) (\<lambda>_.
       opt_validate (\<lambda>t. bindr (v4_timestamp t) (\<lambda>_. v4_ensure (t \<ge> pq_after q))) (pq_through q)))"

record v4_search_query =
  sq_query :: string
  sq_page :: v4_page_query

definition v4_search_query_validate :: "v4_search_query \<Rightarrow> validation_error + unit" where
  "v4_search_query_validate q =
     bindr (v4_text (sq_query q) MAX_V4_QUERY_BYTES) (\<lambda>_. v4_page_query_validate (sq_page q))"

record v4_resource_query =
  rq_resource_id :: string

definition v4_resource_query_validate :: "v4_resource_query \<Rightarrow> validation_error + unit" where
  "v4_resource_query_validate q = v4_route (rq_resource_id q)"

record v4_profile_revision =
  pv_profile :: v4_permission_profile
  pv_revision :: nat
  pv_digest :: string
  pv_revocation_epoch :: nat

definition v4_profile_revision_validate :: "v4_profile_revision \<Rightarrow> validation_error + unit" where
  "v4_profile_revision_validate r =
     bindr (v4_permission_profile_validate (pv_profile r)) (\<lambda>_.
     bindr (v4_positive (pv_revision r)) (\<lambda>_.
     bindr (v4_digest (pv_digest r)) (\<lambda>_. v4_timestamp (pv_revocation_epoch r))))"

record v4_profile_put =
  pp_operation_id :: idempotency_key
  pp_expected_revision :: "nat option"
  pp_profile :: v4_permission_profile

definition v4_profile_put_validate :: "v4_profile_put \<Rightarrow> validation_error + unit" where
  "v4_profile_put_validate p =
     bindr (v4_permission_profile_validate (pp_profile p)) (\<lambda>_.
       opt_validate v4_positive (pp_expected_revision p))"

record v4_artifact_reference =
  af_artifact_id :: string
  af_sha256 :: string
  af_byte_length :: nat
  af_media_type :: string

definition v4_artifact_reference_validate :: "v4_artifact_reference \<Rightarrow> validation_error + unit" where
  "v4_artifact_reference_validate a =
     bindr (v4_route (af_artifact_id a)) (\<lambda>_.
     bindr (v4_digest (af_sha256 a)) (\<lambda>_.
     bindr (v4_timestamp (af_byte_length a)) (\<lambda>_.
       v4_ensure (length (af_media_type a) \<le> 128 \<and> CHR ''/'' \<in> set (af_media_type a)
         \<and> list_all (\<lambda>c. is_ascii_alphanumeric c \<or> c \<in> {CHR ''/'', CHR ''.'', CHR ''-'', CHR ''+''})
             (af_media_type a)))))"

section \<open>Actions\<close>

record v4_action_query =
  aq_task_id :: string
  aq_attempt_id :: string
  aq_action_id :: string

definition v4_action_query_validate :: "v4_action_query \<Rightarrow> validation_error + unit" where
  "v4_action_query_validate q =
     bindr (v4_route (aq_task_id q)) (\<lambda>_.
     bindr (v4_route (aq_attempt_id q)) (\<lambda>_. v4_route (aq_action_id q)))"

datatype v4_action_decision_kind = DecisionApprove | DecisionDeny

datatype v4_action_state =
    ActionAwaitingApproval | ActionApproved | ActionDenied | ActionRunning
  | ActionSucceeded | ActionFailed | ActionInterrupted | ActionUncertain

record v4_action =
  ac_action_id :: string
  ac_task_id :: string
  ac_attempt_id :: string
  ac_run_id :: run_id
  ac_revision :: nat
  ac_operation_id :: string
  ac_resource_label :: string
  ac_preview_digest :: string
  ac_input_digest :: string
  ac_target_digest :: string
  ac_binding_digest :: string
  ac_expires_at_ms :: nat
  ac_state :: v4_action_state

definition v4_action_validate :: "v4_action \<Rightarrow> validation_error + unit" where
  "v4_action_validate a =
     bindr (v4_route (ac_action_id a)) (\<lambda>_.
     bindr (v4_route (ac_task_id a)) (\<lambda>_.
     bindr (v4_route (ac_attempt_id a)) (\<lambda>_.
     bindr (v4_positive (ac_revision a)) (\<lambda>_.
     bindr (v4_route (ac_operation_id a)) (\<lambda>_.
     bindr (v4_label (ac_resource_label a)) (\<lambda>_.
     bindr (v4_digest (ac_preview_digest a)) (\<lambda>_.
     bindr (v4_digest (ac_input_digest a)) (\<lambda>_.
     bindr (v4_digest (ac_target_digest a)) (\<lambda>_.
     bindr (v4_digest (ac_binding_digest a)) (\<lambda>_.
       v4_timestamp (ac_expires_at_ms a)))))))))))"

record v4_action_decision =
  ad_action_id :: string
  ad_task_id :: string
  ad_attempt_id :: string
  ad_expected_revision :: nat
  ad_preview_digest :: string
  ad_decision_id :: idempotency_key
  ad_kind :: v4_action_decision_kind

definition v4_action_decision_validate :: "v4_action_decision \<Rightarrow> validation_error + unit" where
  "v4_action_decision_validate a =
     bindr (v4_route (ad_action_id a)) (\<lambda>_.
     bindr (v4_route (ad_task_id a)) (\<lambda>_.
     bindr (v4_route (ad_attempt_id a)) (\<lambda>_.
     bindr (v4_positive (ad_expected_revision a)) (\<lambda>_. v4_digest (ad_preview_digest a)))))"

record v4_action_decision_receipt =
  ar_decision :: v4_action_decision
  ar_applied_revision :: nat

definition v4_action_decision_receipt_validate :: "v4_action_decision_receipt \<Rightarrow> validation_error + unit" where
  "v4_action_decision_receipt_validate r =
     bindr (v4_action_decision_validate (ar_decision r)) (\<lambda>_.
     bindr (v4_positive (ar_applied_revision r)) (\<lambda>_.
       v4_ensure (ar_applied_revision r > ad_expected_revision (ar_decision r))))"

end
