(* ===== verification/V4_Tasks.thy ===== *)
theory V4_Tasks
  imports V4_Admin
begin

text \<open>
  Tasks, attempts and their event pages (\<open>src/app_core/v4/task.rs\<close>), automations, their
  occurrences and schedules (\<open>src/app_core/v4/automation.rs\<close>).
\<close>

section \<open>Tasks\<close>

datatype v4_task_execution_kind = TaskReadOnly | TaskGoverned

datatype v4_task_state =
    TaskQueued | TaskStarting | TaskRunning | TaskAwaitingApproval | TaskPaused | TaskSucceeded
  | TaskFailed | TaskCancelled | TaskCancelRequested | TaskInterrupted

fun matches_run :: "v4_task_state \<Rightarrow> run_state \<Rightarrow> bool" where
  "matches_run TaskQueued run \<longleftrightarrow> run = Queued"
| "matches_run TaskStarting run \<longleftrightarrow> run = Starting"
| "matches_run TaskRunning run \<longleftrightarrow> run = Running"
| "matches_run TaskAwaitingApproval run \<longleftrightarrow> run = Running"
| "matches_run TaskPaused run \<longleftrightarrow> run = Running"
| "matches_run TaskSucceeded run \<longleftrightarrow> run = Succeeded"
| "matches_run TaskFailed run \<longleftrightarrow> run = Failed"
| "matches_run TaskCancelled run \<longleftrightarrow> run = Cancelled"
| "matches_run TaskCancelRequested run \<longleftrightarrow> run = CancelRequested"
| "matches_run TaskInterrupted run \<longleftrightarrow> run = Interrupted"

record v4_task_create =
  tc_operation_id :: idempotency_key
  tc_conversation_id :: conversation_id
  tc_goal :: string
  tc_workspace_id :: string
  tc_route_id :: string
  tc_permission_profile_id :: string
  tc_profile_revision :: nat
  tc_budget_tokens :: nat
  tc_execution_kind :: v4_task_execution_kind

definition v4_task_create_validate :: "v4_task_create \<Rightarrow> validation_error + unit" where
  "v4_task_create_validate t =
     bindr (v4_text (tc_goal t) 1024) (\<lambda>_.
     bindr (v4_route (tc_workspace_id t)) (\<lambda>_.
     bindr (v4_route (tc_route_id t)) (\<lambda>_.
     bindr (v4_route (tc_permission_profile_id t)) (\<lambda>_.
     bindr (v4_positive (tc_profile_revision t)) (\<lambda>_. v4_budget (tc_budget_tokens t))))))"

record v4_task_attempt =
  ta_attempt_id :: string
  ta_run_id :: run_id
  ta_ordinal :: nat
  ta_state :: run_state
  ta_admitted_at_ms :: nat
  ta_finished_at_ms :: "nat option"

definition v4_task_attempt_validate :: "v4_task_attempt \<Rightarrow> validation_error + unit" where
  "v4_task_attempt_validate a =
     bindr (v4_route (ta_attempt_id a)) (\<lambda>_.
     bindr (v4_ensure (ta_ordinal a > 0)) (\<lambda>_.
     bindr (v4_timestamp (ta_admitted_at_ms a)) (\<lambda>_.
     bindr (v4_ensure (is_terminal (ta_state a) = (ta_finished_at_ms a \<noteq> None))) (\<lambda>_.
       opt_validate (\<lambda>t. bindr (v4_timestamp t) (\<lambda>_. v4_ensure (t \<ge> ta_admitted_at_ms a)))
         (ta_finished_at_ms a)))))"

record v4_task =
  tk_task_id :: string
  tk_revision :: nat
  tk_sequence :: nat
  tk_conversation_id :: conversation_id
  tk_goal :: string
  tk_workspace_id :: string
  tk_route_id :: string
  tk_permission_profile_id :: string
  tk_profile_revision :: nat
  tk_budget_tokens :: nat
  tk_execution_kind :: v4_task_execution_kind
  tk_state :: v4_task_state
  tk_current_attempt :: v4_task_attempt
  tk_created_at_ms :: nat
  tk_updated_at_ms :: nat

definition v4_task_validate :: "v4_task \<Rightarrow> validation_error + unit" where
  "v4_task_validate t =
     bindr (v4_route (tk_task_id t)) (\<lambda>_.
     bindr (v4_positive (tk_revision t)) (\<lambda>_.
     bindr (v4_positive (tk_sequence t)) (\<lambda>_.
     bindr (v4_text (tk_goal t) 1024) (\<lambda>_.
     bindr (v4_route (tk_workspace_id t)) (\<lambda>_.
     bindr (v4_route (tk_route_id t)) (\<lambda>_.
     bindr (v4_route (tk_permission_profile_id t)) (\<lambda>_.
     bindr (v4_positive (tk_profile_revision t)) (\<lambda>_.
     bindr (v4_budget (tk_budget_tokens t)) (\<lambda>_.
     bindr (v4_task_attempt_validate (tk_current_attempt t)) (\<lambda>_.
     bindr (v4_timestamp (tk_created_at_ms t)) (\<lambda>_.
     bindr (v4_timestamp (tk_updated_at_ms t)) (\<lambda>_.
     bindr (v4_ensure (tk_updated_at_ms t \<ge> tk_created_at_ms t
         \<and> ta_admitted_at_ms (tk_current_attempt t) \<ge> tk_created_at_ms t
         \<and> ta_admitted_at_ms (tk_current_attempt t) \<le> tk_updated_at_ms t
         \<and> (case ta_finished_at_ms (tk_current_attempt t) of None \<Rightarrow> True | Some f \<Rightarrow> f \<le> tk_updated_at_ms t))) (\<lambda>_.
       v4_ensure (matches_run (tk_state t) (ta_state (tk_current_attempt t))))))))))))))))"

record v4_task_mutation =
  tm_task_id :: string
  tm_expected_revision :: nat
  tm_operation_id :: idempotency_key

definition v4_task_mutation_validate :: "v4_task_mutation \<Rightarrow> validation_error + unit" where
  "v4_task_mutation_validate m =
     bindr (v4_route (tm_task_id m)) (\<lambda>_. v4_positive (tm_expected_revision m))"

record v4_task_retry =
  tr_task_id :: string
  tr_expected_revision :: nat
  tr_expected_attempt_id :: string
  tr_operation_id :: idempotency_key

definition v4_task_retry_validate :: "v4_task_retry \<Rightarrow> validation_error + unit" where
  "v4_task_retry_validate r =
     bindr (v4_route (tr_task_id r)) (\<lambda>_.
     bindr (v4_route (tr_expected_attempt_id r)) (\<lambda>_. v4_positive (tr_expected_revision r)))"

record v4_task_event_query =
  teq_task_id :: string
  teq_page :: v4_page_query

definition v4_task_event_query_validate :: "v4_task_event_query \<Rightarrow> validation_error + unit" where
  "v4_task_event_query_validate q =
     bindr (v4_route (teq_task_id q)) (\<lambda>_. v4_page_query_validate (teq_page q))"

datatype v4_task_event_kind =
    StateChanged v4_task_state
  | ActionChanged string v4_action_state
  | ArtifactAvailable v4_artifact_reference

fun v4_task_event_kind_validate :: "v4_task_event_kind \<Rightarrow> validation_error + unit" where
  "v4_task_event_kind_validate (StateChanged _) = Inr ()"
| "v4_task_event_kind_validate (ActionChanged action_id _) = v4_route action_id"
| "v4_task_event_kind_validate (ArtifactAvailable artifact) = v4_artifact_reference_validate artifact"

record v4_task_event =
  te_task_id :: string
  te_revision :: nat
  te_sequence :: nat
  te_attempt_id :: string
  te_run_id :: run_id
  te_timestamp_ms :: nat
  te_kind :: v4_task_event_kind

definition v4_task_event_validate :: "v4_task_event \<Rightarrow> validation_error + unit" where
  "v4_task_event_validate e =
     bindr (v4_route (te_task_id e)) (\<lambda>_.
     bindr (v4_route (te_attempt_id e)) (\<lambda>_.
     bindr (v4_positive (te_revision e)) (\<lambda>_.
     bindr (v4_positive (te_sequence e)) (\<lambda>_.
     bindr (v4_timestamp (te_timestamp_ms e)) (\<lambda>_.
       v4_task_event_kind_validate (te_kind e))))))"

section \<open>Serialisation of tasks and task events\<close>

fun execution_kind_label :: "v4_task_execution_kind \<Rightarrow> string" where
  "execution_kind_label TaskReadOnly = ''read_only''"
| "execution_kind_label TaskGoverned = ''governed''"

fun task_state_label :: "v4_task_state \<Rightarrow> string" where
  "task_state_label TaskQueued = ''queued''"
| "task_state_label TaskStarting = ''starting''"
| "task_state_label TaskRunning = ''running''"
| "task_state_label TaskAwaitingApproval = ''awaiting_approval''"
| "task_state_label TaskPaused = ''paused''"
| "task_state_label TaskSucceeded = ''succeeded''"
| "task_state_label TaskFailed = ''failed''"
| "task_state_label TaskCancelled = ''cancelled''"
| "task_state_label TaskCancelRequested = ''cancel_requested''"
| "task_state_label TaskInterrupted = ''interrupted''"

fun action_state_label :: "v4_action_state \<Rightarrow> string" where
  "action_state_label ActionAwaitingApproval = ''awaiting_approval''"
| "action_state_label ActionApproved = ''approved''"
| "action_state_label ActionDenied = ''denied''"
| "action_state_label ActionRunning = ''running''"
| "action_state_label ActionSucceeded = ''succeeded''"
| "action_state_label ActionFailed = ''failed''"
| "action_state_label ActionInterrupted = ''interrupted''"
| "action_state_label ActionUncertain = ''uncertain''"

definition v4_task_attempt_json :: "v4_task_attempt \<Rightarrow> json" where
  "v4_task_attempt_json a = JObject
     [(''attempt_id'', JString (ta_attempt_id a)), (''run_id'', JString (ta_run_id a)),
      (''ordinal'', json_nat (ta_ordinal a)), (''state'', JString (state_as_str (ta_state a))),
      (''admitted_at_ms'', json_nat (ta_admitted_at_ms a)),
      (''finished_at_ms'', json_opt json_nat (ta_finished_at_ms a))]"

definition v4_task_json :: "v4_task \<Rightarrow> json" where
  "v4_task_json t = JObject
     [(''task_id'', JString (tk_task_id t)), (''revision'', json_nat (tk_revision t)),
      (''sequence'', json_nat (tk_sequence t)), (''conversation_id'', JString (tk_conversation_id t)),
      (''goal'', JString (tk_goal t)), (''workspace_id'', JString (tk_workspace_id t)),
      (''route_id'', JString (tk_route_id t)),
      (''permission_profile_id'', JString (tk_permission_profile_id t)),
      (''profile_revision'', json_nat (tk_profile_revision t)),
      (''budget_tokens'', json_nat (tk_budget_tokens t)),
      (''execution_kind'', JString (execution_kind_label (tk_execution_kind t))),
      (''state'', JString (task_state_label (tk_state t))),
      (''current_attempt'', v4_task_attempt_json (tk_current_attempt t)),
      (''created_at_ms'', json_nat (tk_created_at_ms t)), (''updated_at_ms'', json_nat (tk_updated_at_ms t))]"

definition v4_artifact_reference_json :: "v4_artifact_reference \<Rightarrow> json" where
  "v4_artifact_reference_json a = JObject
     [(''artifact_id'', JString (af_artifact_id a)), (''sha256'', JString (af_sha256 a)),
      (''byte_length'', json_nat (af_byte_length a)), (''media_type'', JString (af_media_type a))]"

definition tagged_json :: "string \<Rightarrow> (string \<times> json) list \<Rightarrow> json" where
  "tagged_json kind kvs = JObject [(''kind'', JString kind), (''data'', JObject kvs)]"

fun v4_task_event_kind_json :: "v4_task_event_kind \<Rightarrow> json" where
  "v4_task_event_kind_json (StateChanged s) =
     tagged_json ''state_changed'' [(''state'', JString (task_state_label s))]"
| "v4_task_event_kind_json (ActionChanged i s) =
     tagged_json ''action_changed'' [(''action_id'', JString i), (''state'', JString (action_state_label s))]"
| "v4_task_event_kind_json (ArtifactAvailable a) =
     tagged_json ''artifact_available'' [(''artifact'', v4_artifact_reference_json a)]"

definition v4_task_event_json :: "v4_task_event \<Rightarrow> json" where
  "v4_task_event_json e = JObject
     [(''task_id'', JString (te_task_id e)), (''revision'', json_nat (te_revision e)),
      (''sequence'', json_nat (te_sequence e)), (''attempt_id'', JString (te_attempt_id e)),
      (''run_id'', JString (te_run_id e)), (''timestamp_ms'', json_nat (te_timestamp_ms e)),
      (''kind'', v4_task_event_kind_json (te_kind e))]"

section \<open>Pages of tasks and events\<close>

record v4_task_page =
  tp_after :: nat
  tp_through :: nat
  tp_tasks :: "v4_task list"

fun task_page_loop :: "nat \<Rightarrow> nat \<Rightarrow> string list \<Rightarrow> v4_task list \<Rightarrow> validation_error + unit" where
  "task_page_loop seen through ids [] = Inr ()"
| "task_page_loop seen through ids (t # ts) =
     bindr (v4_task_validate t) (\<lambda>_.
     bindr (v4_ensure (tk_sequence t > seen \<and> tk_sequence t \<le> through \<and> tk_task_id t \<notin> set ids)) (\<lambda>_.
       task_page_loop (tk_sequence t) through (tk_task_id t # ids) ts))"

definition v4_task_page_json :: "v4_task_page \<Rightarrow> json" where
  "v4_task_page_json p = JObject
     [(''after'', json_nat (tp_after p)), (''through'', json_nat (tp_through p)),
      (''tasks'', JArray (map v4_task_json (tp_tasks p)))]"

definition v4_task_page_validate :: "externals \<Rightarrow> v4_task_page \<Rightarrow> validation_error + unit" where
  "v4_task_page_validate E p =
     bindr (v4_page (tp_after p) (tp_through p) (length (tp_tasks p))) (\<lambda>_.
     bindr (task_page_loop (tp_after p) (tp_through p) [] (tp_tasks p)) (\<lambda>_.
       admin_bytes E (v4_task_page_json p)))"

record v4_task_event_page =
  tep_task_id :: string
  tep_after :: nat
  tep_through :: nat
  tep_events :: "v4_task_event list"

fun task_event_page_loop :: "string \<Rightarrow> nat \<Rightarrow> nat \<Rightarrow> v4_task_event list \<Rightarrow> validation_error + unit" where
  "task_event_page_loop task seen through [] = Inr ()"
| "task_event_page_loop task seen through (e # es) =
     bindr (v4_task_event_validate e) (\<lambda>_.
     bindr (v4_ensure (te_task_id e = task \<and> te_sequence e > seen \<and> te_sequence e \<le> through)) (\<lambda>_.
       task_event_page_loop task (te_sequence e) through es))"

definition v4_task_event_page_json :: "v4_task_event_page \<Rightarrow> json" where
  "v4_task_event_page_json p = JObject
     [(''task_id'', JString (tep_task_id p)), (''after'', json_nat (tep_after p)),
      (''through'', json_nat (tep_through p)), (''events'', JArray (map v4_task_event_json (tep_events p)))]"

definition v4_task_event_page_validate :: "externals \<Rightarrow> v4_task_event_page \<Rightarrow> validation_error + unit" where
  "v4_task_event_page_validate E p =
     bindr (v4_route (tep_task_id p)) (\<lambda>_.
     bindr (v4_page (tep_after p) (tep_through p) (length (tep_events p))) (\<lambda>_.
     bindr (task_event_page_loop (tep_task_id p) (tep_after p) (tep_through p) (tep_events p)) (\<lambda>_.
       admin_bytes E (v4_task_event_page_json p))))"

section \<open>Automations\<close>

datatype v4_schedule_kind =
    V4Once nat
  | V4Hourly nat
  | V4Daily nat nat
  | V4Weekly nat nat nat
  | V4Cron string

definition v4_schedule_kind_validate :: "chrono \<Rightarrow> v4_schedule_kind \<Rightarrow> string \<Rightarrow> validation_error + unit" where
  "v4_schedule_kind_validate C k timezone =
     bindr (case k of
        V4Once at_ms \<Rightarrow> bindr (v4_timestamp at_ms) (\<lambda>_. Inr (Once at_ms))
      | V4Hourly minute \<Rightarrow> Inr (Hourly minute)
      | V4Daily hour minute \<Rightarrow> Inr (Daily hour minute)
      | V4Weekly weekday hour minute \<Rightarrow> Inr (Weekly weekday hour minute)
      | V4Cron expression \<Rightarrow> bindr (v4_text expression 128) (\<lambda>_. Inr (Cron expression))) (\<lambda>kind.
     case compiled_schedule_new C \<lparr>ss_timezone = timezone, ss_kind = kind\<rparr> of
       Inl _ \<Rightarrow> Inl ''invalid v4 schedule''
     | Inr _ \<Rightarrow> Inr ())"

datatype v4_occurrence_state =
    OccurrenceReserved | OccurrenceRunning | OccurrenceSucceeded | OccurrenceFailed
  | OccurrenceCancelled | OccurrenceInterrupted | OccurrenceReconciliationRequired

datatype v4_occurrence_source = ScheduledOccurrence nat | ManualOccurrence idempotency_key

fun v4_occurrence_source_validate :: "v4_occurrence_source \<Rightarrow> validation_error + unit" where
  "v4_occurrence_source_validate (ScheduledOccurrence scheduled_at_ms) = v4_timestamp scheduled_at_ms"
| "v4_occurrence_source_validate (ManualOccurrence _) = Inr ()"

record v4_automation_upsert =
  au_operation_id :: idempotency_key
  au_automation_id :: string
  au_expected_revision :: "nat option"
  au_instruction :: string
  au_schedule :: v4_schedule_kind
  au_timezone :: string
  au_workspace_id :: string
  au_route_id :: string
  au_permission_profile_id :: string
  au_profile_revision :: nat
  au_budget_tokens :: nat
  au_enabled :: bool

definition v4_automation_upsert_validate :: "chrono \<Rightarrow> v4_automation_upsert \<Rightarrow> validation_error + unit" where
  "v4_automation_upsert_validate C a =
     bindr (v4_route (au_automation_id a)) (\<lambda>_.
     bindr (opt_validate v4_positive (au_expected_revision a)) (\<lambda>_.
     bindr (v4_text (au_instruction a) 1024) (\<lambda>_.
     bindr (v4_route (au_workspace_id a)) (\<lambda>_.
     bindr (v4_route (au_route_id a)) (\<lambda>_.
     bindr (v4_route (au_permission_profile_id a)) (\<lambda>_.
     bindr (v4_positive (au_profile_revision a)) (\<lambda>_.
     bindr (v4_budget (au_budget_tokens a)) (\<lambda>_.
       v4_schedule_kind_validate C (au_schedule a) (au_timezone a)))))))))"

record v4_automation =
  am_revision :: nat
  am_sequence :: nat
  am_spec :: v4_automation_upsert
  am_created_at_ms :: nat
  am_updated_at_ms :: nat
  am_next_run_at_ms :: "nat option"

definition v4_automation_validate :: "chrono \<Rightarrow> v4_automation \<Rightarrow> validation_error + unit" where
  "v4_automation_validate C a =
     bindr (v4_positive (am_revision a)) (\<lambda>_.
     bindr (v4_positive (am_sequence a)) (\<lambda>_.
     bindr (v4_automation_upsert_validate C (am_spec a)) (\<lambda>_.
     bindr (v4_timestamp (am_created_at_ms a)) (\<lambda>_.
     bindr (v4_timestamp (am_updated_at_ms a)) (\<lambda>_.
     bindr (v4_ensure (am_updated_at_ms a \<ge> am_created_at_ms a)) (\<lambda>_.
       opt_validate v4_timestamp (am_next_run_at_ms a)))))))"

record v4_automation_toggle =
  at_automation_id :: string
  at_expected_revision :: nat
  at_operation_id :: idempotency_key
  at_enabled :: bool

definition v4_automation_toggle_validate :: "v4_automation_toggle \<Rightarrow> validation_error + unit" where
  "v4_automation_toggle_validate t =
     bindr (v4_route (at_automation_id t)) (\<lambda>_. v4_positive (at_expected_revision t))"

record v4_automation_run =
  an_automation_id :: string
  an_expected_revision :: nat
  an_operation_id :: idempotency_key

definition v4_automation_run_validate :: "v4_automation_run \<Rightarrow> validation_error + unit" where
  "v4_automation_run_validate r =
     bindr (v4_route (an_automation_id r)) (\<lambda>_. v4_positive (an_expected_revision r))"

record v4_automation_occurrence =
  ao_automation_id :: string
  ao_revision :: nat
  ao_occurrence_id :: string
  ao_source :: v4_occurrence_source
  ao_task_id :: string
  ao_attempt_id :: string
  ao_run_id :: run_id
  ao_state :: v4_occurrence_state

definition v4_automation_occurrence_validate :: "v4_automation_occurrence \<Rightarrow> validation_error + unit" where
  "v4_automation_occurrence_validate a =
     bindr (v4_route (ao_automation_id a)) (\<lambda>_.
     bindr (v4_positive (ao_revision a)) (\<lambda>_.
     bindr (v4_route (ao_occurrence_id a)) (\<lambda>_.
     bindr (v4_occurrence_source_validate (ao_source a)) (\<lambda>_.
     bindr (v4_route (ao_task_id a)) (\<lambda>_. v4_route (ao_attempt_id a))))))"

fun v4_schedule_kind_json :: "v4_schedule_kind \<Rightarrow> json" where
  "v4_schedule_kind_json (V4Once t) = tagged_json ''once'' [(''at_ms'', json_nat t)]"
| "v4_schedule_kind_json (V4Hourly m) = tagged_json ''hourly'' [(''minute'', json_nat m)]"
| "v4_schedule_kind_json (V4Daily h m) =
     tagged_json ''daily'' [(''hour'', json_nat h), (''minute'', json_nat m)]"
| "v4_schedule_kind_json (V4Weekly w h m) =
     tagged_json ''weekly'' [(''weekday'', json_nat w), (''hour'', json_nat h), (''minute'', json_nat m)]"
| "v4_schedule_kind_json (V4Cron e) = tagged_json ''cron'' [(''expression'', JString e)]"

definition v4_automation_upsert_json :: "v4_automation_upsert \<Rightarrow> json" where
  "v4_automation_upsert_json a = JObject
     [(''operation_id'', JString (au_operation_id a)), (''automation_id'', JString (au_automation_id a)),
      (''expected_revision'', json_opt json_nat (au_expected_revision a)),
      (''instruction'', JString (au_instruction a)), (''schedule'', v4_schedule_kind_json (au_schedule a)),
      (''timezone'', JString (au_timezone a)), (''workspace_id'', JString (au_workspace_id a)),
      (''route_id'', JString (au_route_id a)),
      (''permission_profile_id'', JString (au_permission_profile_id a)),
      (''profile_revision'', json_nat (au_profile_revision a)),
      (''budget_tokens'', json_nat (au_budget_tokens a)), (''enabled'', JBool (au_enabled a))]"

definition v4_automation_json :: "v4_automation \<Rightarrow> json" where
  "v4_automation_json a = JObject
     [(''revision'', json_nat (am_revision a)), (''sequence'', json_nat (am_sequence a)),
      (''spec'', v4_automation_upsert_json (am_spec a)), (''created_at_ms'', json_nat (am_created_at_ms a)),
      (''updated_at_ms'', json_nat (am_updated_at_ms a)),
      (''next_run_at_ms'', json_opt json_nat (am_next_run_at_ms a))]"

record v4_automation_page =
  ap_after :: nat
  ap_through :: nat
  ap_automations :: "v4_automation list"

fun automation_page_loop ::
    "chrono \<Rightarrow> nat \<Rightarrow> nat \<Rightarrow> string list \<Rightarrow> v4_automation list \<Rightarrow> validation_error + unit" where
  "automation_page_loop C seen through ids [] = Inr ()"
| "automation_page_loop C seen through ids (a # as) =
     bindr (v4_automation_validate C a) (\<lambda>_.
     bindr (v4_ensure (am_sequence a > seen \<and> am_sequence a \<le> through
         \<and> au_automation_id (am_spec a) \<notin> set ids)) (\<lambda>_.
       automation_page_loop C (am_sequence a) through (au_automation_id (am_spec a) # ids) as))"

definition v4_automation_page_json :: "v4_automation_page \<Rightarrow> json" where
  "v4_automation_page_json p = JObject
     [(''after'', json_nat (ap_after p)), (''through'', json_nat (ap_through p)),
      (''automations'', JArray (map v4_automation_json (ap_automations p)))]"

definition v4_automation_page_validate :: "externals \<Rightarrow> chrono \<Rightarrow> v4_automation_page \<Rightarrow> validation_error + unit" where
  "v4_automation_page_validate E C p =
     bindr (v4_page (ap_after p) (ap_through p) (length (ap_automations p))) (\<lambda>_.
     bindr (automation_page_loop C (ap_after p) (ap_through p) [] (ap_automations p)) (\<lambda>_.
       admin_bytes E (v4_automation_page_json p)))"

end
