(* ===== verification/V4_Protocol.thy ===== *)
theory V4_Protocol
  imports V4_Tasks Framing App_Contracts
begin

text \<open>
  Commands and events of protocol version 4 (\<open>src/app_core/v4_protocol.rs\<close>), the capabilities and
  grants of \<open>src/app_core/v4.rs\<close>, the pairing of commands and events (\<open>v4/correlation.rs\<close>) and the
  envelopes with what their decoders check (\<open>v4/envelope.rs\<close>, \<open>v4/envelope_decode.rs\<close>).
\<close>

section \<open>Capabilities\<close>

definition APP_PROTOCOL_V4 :: nat where "APP_PROTOCOL_V4 = 4"

datatype v4_capability =
    CapReadConversations | CapWriteConversations | CapSubmitTurns | CapReadTurns | CapCancelTurns
  | CapReadRoutes | CapReadTasks | CapWriteTasks | CapReadAutomations | CapWriteAutomations
  | CapReadPermissions | CapWritePermissions | CapDecideActions

fun v4_capability_index :: "v4_capability \<Rightarrow> nat" where
  "v4_capability_index CapReadConversations = 0"
| "v4_capability_index CapWriteConversations = 1"
| "v4_capability_index CapSubmitTurns = 2"
| "v4_capability_index CapReadTurns = 3"
| "v4_capability_index CapCancelTurns = 4"
| "v4_capability_index CapReadRoutes = 5"
| "v4_capability_index CapReadTasks = 6"
| "v4_capability_index CapWriteTasks = 7"
| "v4_capability_index CapReadAutomations = 8"
| "v4_capability_index CapWriteAutomations = 9"
| "v4_capability_index CapReadPermissions = 10"
| "v4_capability_index CapWritePermissions = 11"
| "v4_capability_index CapDecideActions = 12"

lemma v4_capability_index_inj: "v4_capability_index a = v4_capability_index b \<Longrightarrow> a = b"
  by (cases a; cases b) simp_all

instantiation v4_capability :: linorder
begin

definition less_eq_v4_capability :: "v4_capability \<Rightarrow> v4_capability \<Rightarrow> bool" where
  "less_eq_v4_capability a b \<longleftrightarrow> v4_capability_index a \<le> v4_capability_index b"

definition less_v4_capability :: "v4_capability \<Rightarrow> v4_capability \<Rightarrow> bool" where
  "less_v4_capability a b \<longleftrightarrow> v4_capability_index a < v4_capability_index b"

instance
  by standard
    (auto simp: less_eq_v4_capability_def less_v4_capability_def dest: v4_capability_index_inj)

end

definition is_conversation :: "v4_capability \<Rightarrow> bool" where
  "is_conversation c \<longleftrightarrow>
     c \<in> {CapReadConversations, CapWriteConversations, CapSubmitTurns, CapReadTurns, CapCancelTurns, CapReadRoutes}"

record v4_capability_set =
  vk_capabilities :: "v4_capability list"

definition v4_capability_set_validate :: "v4_capability_set \<Rightarrow> validation_error + unit" where
  "v4_capability_set_validate s = v4_ensure (\<not> window_not_increasing (vk_capabilities s))"

definition v4_from_sorted :: "v4_capability list \<Rightarrow> validation_error + v4_capability_set" where
  "v4_from_sorted cs =
     (let s = \<lparr>vk_capabilities = cs\<rparr> in bindr (v4_capability_set_validate s) (\<lambda>_. Inr s))"

definition v4_deny_all :: v4_capability_set where
  "v4_deny_all = \<lparr>vk_capabilities = []\<rparr>"

definition v4_contains :: "v4_capability_set \<Rightarrow> v4_capability \<Rightarrow> bool" where
  "v4_contains s c = binary_search_window (vk_capabilities s) c 0 (length (vk_capabilities s))"

datatype v4_error_code =
    V4InvalidRequest | V4Unauthorized | V4NotFound | V4Conflict | V4Unavailable | V4LimitExceeded
  | V4Internal | V4InvalidCommand | V4UnsupportedVersion | V4CapabilityDenied | V4Cancelled
  | V4DeadlineExceeded | V4BudgetExceeded | V4RateLimited | V4ResponseTooLarge

record v4_error =
  ve_code :: v4_error_code
  ve_message :: string

definition v4_error_validate :: "v4_error \<Rightarrow> validation_error + unit" where
  "v4_error_validate e =
     v4_ensure (ve_message e \<noteq> [] \<and> length (ve_message e) \<le> 256 \<and> \<not> has_control (ve_message e))"

record v4_grant_negotiation =
  gn_protocol_version :: nat
  gn_schema_version :: nat
  gn_granted :: v4_capability_set

record v4_grant_request =
  gr_supported_versions :: "nat list"
  gr_requested :: v4_capability_set

record v4_conversation_rename =
  vcr_conversation_id :: string
  vcr_title :: string

section \<open>Commands\<close>

datatype v4_command =
    V4Negotiate v4_grant_request
  | V4ListConversations v4_conversation_query
  | V4CreateConversation string
  | V4ReadConversation conversation_id
  | V4ExportConversation v4_resource_query
  | V4ArchiveConversation v4_resource_query
  | V4RenameConversation v4_conversation_rename
  | V4UpdateConversation conversation_id v4_conversation_patch
  | V4ReadMessages v4_message_query
  | V4SubmitTurn v4_submit_turn
  | V4ReadContent v4_content_query
  | V4CancelTurn conversation_id run_id
  | V4LookupTurn conversation_id idempotency_key
  | V4ReadTaskEvents v4_task_event_query
  | V4ReadAction v4_action_query
  | V4ListRoutes
  | V4SearchConversations v4_search_query
  | V4DeleteConversation v4_resource_query
  | V4ListMessages v4_message_query
  | V4ListContentEvents v4_content_query
  | V4ListTasks v4_page_query
  | V4CreateTask v4_task_create
  | V4ListAutomations v4_page_query
  | V4UpsertAutomation v4_automation_upsert
  | V4ReadPermissionProfile v4_resource_query
  | V4PutPermissionProfile v4_profile_put
  | V4DecideAction v4_action_decision
  | V4ReadTask v4_resource_query
  | V4CancelTask v4_task_mutation
  | V4RetryTask v4_task_retry
  | V4PauseTask v4_task_mutation
  | V4ResumeTask v4_task_mutation
  | V4SetAutomationEnabled v4_automation_toggle
  | V4RunAutomationNow v4_automation_run

fun v4_command_validate :: "externals \<Rightarrow> chrono \<Rightarrow> v4_command \<Rightarrow> validation_error + unit" where
  "v4_command_validate E C (V4Negotiate req) =
     bindr (v4_ensure (APP_PROTOCOL_V4 \<in> set (gr_supported_versions req))) (\<lambda>_.
       v4_capability_set_validate (gr_requested req))"
| "v4_command_validate E C (V4CreateConversation title) = v4_label title"
| "v4_command_validate E C (V4ListConversations q) = v4_conversation_query_validate q"
| "v4_command_validate E C (V4ReadMessages q) = v4_message_query_validate q"
| "v4_command_validate E C (V4UpdateConversation _ patch) = v4_conversation_patch_validate patch"
| "v4_command_validate E C (V4SubmitTurn request) = v4_submit_turn_validate request"
| "v4_command_validate E C (V4PutPermissionProfile p) = v4_profile_put_validate p"
| "v4_command_validate E C (V4ReadContent q) = v4_content_query_validate q"
| "v4_command_validate E C (V4ListTasks q) = v4_page_query_validate q"
| "v4_command_validate E C (V4ListAutomations q) = v4_page_query_validate q"
| "v4_command_validate E C (V4CreateTask t) = v4_task_create_validate t"
| "v4_command_validate E C (V4UpsertAutomation a) = v4_automation_upsert_validate C a"
| "v4_command_validate E C (V4DecideAction d) = v4_action_decision_validate d"
| "v4_command_validate E C (V4ReadTask q) = v4_resource_query_validate q"
| "v4_command_validate E C (V4ReadPermissionProfile q) = v4_resource_query_validate q"
| "v4_command_validate E C (V4CancelTask q) = v4_task_mutation_validate q"
| "v4_command_validate E C (V4PauseTask q) = v4_task_mutation_validate q"
| "v4_command_validate E C (V4ResumeTask q) = v4_task_mutation_validate q"
| "v4_command_validate E C (V4RetryTask q) = v4_task_retry_validate q"
| "v4_command_validate E C (V4SetAutomationEnabled q) = v4_automation_toggle_validate q"
| "v4_command_validate E C (V4RunAutomationNow q) = v4_automation_run_validate q"
| "v4_command_validate E C (V4ReadTaskEvents q) = v4_task_event_query_validate q"
| "v4_command_validate E C (V4ReadAction q) = v4_action_query_validate q"
| "v4_command_validate E C (V4ExportConversation q) = v4_resource_query_validate q"
| "v4_command_validate E C (V4ArchiveConversation q) = v4_resource_query_validate q"
| "v4_command_validate E C (V4DeleteConversation q) = v4_resource_query_validate q"
| "v4_command_validate E C (V4RenameConversation q) =
     bindr (map_err (\<lambda>_. ''invalid v4 contract'') (parse_uuid_id E (vcr_conversation_id q))) (\<lambda>_.
       v4_label (vcr_title q))"
| "v4_command_validate E C (V4SearchConversations q) = v4_search_query_validate q"
| "v4_command_validate E C (V4ListMessages q) = v4_message_query_validate q"
| "v4_command_validate E C (V4ListContentEvents q) = v4_content_query_validate q"
| "v4_command_validate E C (V4ReadConversation _) = Inr ()"
| "v4_command_validate E C (V4CancelTurn _ _) = Inr ()"
| "v4_command_validate E C (V4LookupTurn _ _) = Inr ()"
| "v4_command_validate E C V4ListRoutes = Inr ()"

fun v4_required_capability :: "v4_command \<Rightarrow> v4_capability option" where
  "v4_required_capability (V4Negotiate _) = None"
| "v4_required_capability (V4ListConversations _) = Some CapReadConversations"
| "v4_required_capability (V4ReadConversation _) = Some CapReadConversations"
| "v4_required_capability (V4ExportConversation _) = Some CapReadConversations"
| "v4_required_capability (V4SearchConversations _) = Some CapReadConversations"
| "v4_required_capability (V4ListMessages _) = Some CapReadConversations"
| "v4_required_capability (V4ReadMessages _) = Some CapReadConversations"
| "v4_required_capability (V4CreateConversation _) = Some CapWriteConversations"
| "v4_required_capability (V4UpdateConversation _ _) = Some CapWriteConversations"
| "v4_required_capability (V4DeleteConversation _) = Some CapWriteConversations"
| "v4_required_capability (V4ArchiveConversation _) = Some CapWriteConversations"
| "v4_required_capability (V4RenameConversation _) = Some CapWriteConversations"
| "v4_required_capability (V4SubmitTurn _) = Some CapSubmitTurns"
| "v4_required_capability (V4ReadContent _) = Some CapReadTurns"
| "v4_required_capability (V4ListContentEvents _) = Some CapReadTurns"
| "v4_required_capability (V4LookupTurn _ _) = Some CapReadTurns"
| "v4_required_capability (V4CancelTurn _ _) = Some CapCancelTurns"
| "v4_required_capability V4ListRoutes = Some CapReadRoutes"
| "v4_required_capability (V4ReadTaskEvents _) = Some CapReadTasks"
| "v4_required_capability (V4ReadAction _) = Some CapReadTasks"
| "v4_required_capability (V4ListTasks _) = Some CapReadTasks"
| "v4_required_capability (V4ReadTask _) = Some CapReadTasks"
| "v4_required_capability (V4CreateTask _) = Some CapWriteTasks"
| "v4_required_capability (V4CancelTask _) = Some CapWriteTasks"
| "v4_required_capability (V4RetryTask _) = Some CapWriteTasks"
| "v4_required_capability (V4PauseTask _) = Some CapWriteTasks"
| "v4_required_capability (V4ResumeTask _) = Some CapWriteTasks"
| "v4_required_capability (V4ListAutomations _) = Some CapReadAutomations"
| "v4_required_capability (V4UpsertAutomation _) = Some CapWriteAutomations"
| "v4_required_capability (V4SetAutomationEnabled _) = Some CapWriteAutomations"
| "v4_required_capability (V4RunAutomationNow _) = Some CapWriteAutomations"
| "v4_required_capability (V4ReadPermissionProfile _) = Some CapReadPermissions"
| "v4_required_capability (V4PutPermissionProfile _) = Some CapWritePermissions"
| "v4_required_capability (V4DecideAction _) = Some CapDecideActions"

definition v4_permits :: "v4_capability_set \<Rightarrow> v4_command \<Rightarrow> bool" where
  "v4_permits s command =
     (case v4_required_capability command of None \<Rightarrow> True | Some c \<Rightarrow> v4_contains s c)"

definition v4_known_schema :: "nat \<Rightarrow> bool" where
  "v4_known_schema schema \<longleftrightarrow> schema = APP_SCHEMA_V4_CONVERSATIONS \<or> schema = APP_SCHEMA_V4"

definition v4_command_validate_for_schema ::
    "externals \<Rightarrow> chrono \<Rightarrow> v4_command \<Rightarrow> nat \<Rightarrow> validation_error + unit" where
  "v4_command_validate_for_schema E C command schema =
     bindr (v4_ensure (v4_known_schema schema)) (\<lambda>_.
     bindr (v4_command_validate E C command) (\<lambda>_.
       if schema = APP_SCHEMA_V4_CONVERSATIONS
       then bindr (v4_ensure (case v4_required_capability command of None \<Rightarrow> True | Some c \<Rightarrow> is_conversation c)) (\<lambda>_.
         case command of
           V4Negotiate r \<Rightarrow> v4_ensure (list_all is_conversation (vk_capabilities (gr_requested r)))
         | _ \<Rightarrow> Inr ())
       else Inr ()))"

section \<open>Events\<close>

datatype v4_event =
    EvNegotiated v4_grant_negotiation
  | EvConversations v4_conversation_page
  | EvConversation v4_conversation
  | EvMessages v4_message_page
  | EvTurnSubmitted v4_turn_submission
  | EvContent v4_content_page
  | EvTurnCancelled conversation_id run_id run_state
  | EvTurnLookup conversation_id idempotency_key "v4_turn_submission option"
  | EvRoutes "v4_route_record list"
  | EvDeleted v4_resource_query
  | EvTurnAccepted v4_turn_submission
  | EvContentEvents v4_content_page
  | EvTasks v4_task_page
  | EvTask v4_task
  | EvAutomations v4_automation_page
  | EvAutomation v4_automation
  | EvAutomationRun v4_automation_occurrence
  | EvTaskEvents v4_task_event_page
  | EvAction v4_action
  | EvPermissionProfile v4_profile_revision
  | EvActionDecision v4_action_decision_receipt
  | EvError v4_error

fun v4_event_validate :: "externals \<Rightarrow> chrono \<Rightarrow> v4_event \<Rightarrow> validation_error + unit" where
  "v4_event_validate E C (EvNegotiated n) =
     bindr (v4_ensure (gn_protocol_version n = APP_PROTOCOL_V4 \<and> v4_known_schema (gn_schema_version n))) (\<lambda>_.
       v4_capability_set_validate (gn_granted n))"
| "v4_event_validate E C (EvConversations page) = v4_conversation_page_validate E page"
| "v4_event_validate E C (EvConversation c) = v4_conversation_validate c"
| "v4_event_validate E C (EvMessages page) = v4_message_page_validate E page"
| "v4_event_validate E C (EvTurnSubmitted s) = v4_turn_submission_validate s"
| "v4_event_validate E C (EvContent page) = v4_content_page_validate E page"
| "v4_event_validate E C (EvTurnLookup conversation key submission) =
     opt_validate (\<lambda>s. bindr (v4_turn_submission_validate s) (\<lambda>_.
       v4_ensure (vs_conversation_id s = conversation \<and> vs_idempotency_key s = key))) submission"
| "v4_event_validate E C (EvTurnCancelled _ _ state) = v4_ensure (state = CancelRequested \<or> is_terminal state)"
| "v4_event_validate E C (EvRoutes routes) =
     bindr (v4_ensure (length routes \<le> MAX_V4_PAGE)) (\<lambda>_.
     bindr (for_each v4_route_record_validate routes) (\<lambda>_.
       v4_ensure (distinct (map vr_route_id routes))))"
| "v4_event_validate E C (EvTasks p) = v4_task_page_validate E p"
| "v4_event_validate E C (EvTask t) = v4_task_validate t"
| "v4_event_validate E C (EvAutomations p) = v4_automation_page_validate E C p"
| "v4_event_validate E C (EvAutomation a) = v4_automation_validate C a"
| "v4_event_validate E C (EvAutomationRun r) = v4_automation_occurrence_validate r"
| "v4_event_validate E C (EvPermissionProfile r) = v4_profile_revision_validate r"
| "v4_event_validate E C (EvActionDecision r) = v4_action_decision_receipt_validate r"
| "v4_event_validate E C (EvTaskEvents p) = v4_task_event_page_validate E p"
| "v4_event_validate E C (EvAction a) = v4_action_validate a"
| "v4_event_validate E C (EvDeleted _) = Inr ()"
| "v4_event_validate E C (EvTurnAccepted _) = Inr ()"
| "v4_event_validate E C (EvContentEvents _) = Inr ()"
| "v4_event_validate E C (EvError e) = v4_error_validate e"

fun administrative_event :: "v4_event \<Rightarrow> bool" where
  "administrative_event (EvTasks _) = True"
| "administrative_event (EvTask _) = True"
| "administrative_event (EvTaskEvents _) = True"
| "administrative_event (EvAction _) = True"
| "administrative_event (EvAutomations _) = True"
| "administrative_event (EvAutomation _) = True"
| "administrative_event (EvAutomationRun _) = True"
| "administrative_event (EvPermissionProfile _) = True"
| "administrative_event (EvActionDecision _) = True"
| "administrative_event _ = False"

definition v4_event_validate_for_schema ::
    "externals \<Rightarrow> chrono \<Rightarrow> v4_event \<Rightarrow> nat \<Rightarrow> validation_error + unit" where
  "v4_event_validate_for_schema E C ev schema =
     bindr (v4_ensure (v4_known_schema schema)) (\<lambda>_.
     bindr (v4_event_validate E C ev) (\<lambda>_.
     bindr (case ev of EvNegotiated n \<Rightarrow> v4_ensure (gn_schema_version n = schema) | _ \<Rightarrow> Inr ()) (\<lambda>_.
       if schema = APP_SCHEMA_V4_CONVERSATIONS
       then bindr (v4_ensure (\<not> administrative_event ev)) (\<lambda>_.
         case ev of
           EvNegotiated n \<Rightarrow> v4_ensure (list_all is_conversation (vk_capabilities (gn_granted n)))
         | _ \<Rightarrow> Inr ())
       else Inr ())))"

section \<open>Correlation\<close>

definition opt_is :: "('a \<Rightarrow> bool) \<Rightarrow> 'a option \<Rightarrow> bool" where
  "opt_is p x = (case x of None \<Rightarrow> True | Some a \<Rightarrow> p a)"

definition message_pairs :: "v4_message_query \<Rightarrow> v4_event \<Rightarrow> bool" where
  "message_pairs q ev =
     (case ev of
        EvMessages p \<Rightarrow>
          vmq_conversation_id q = vmg_conversation_id p \<and> length (vmg_messages p) \<le> vmq_limit q
        \<and> (vmg_messages p = [] \<or> vm_sequence (hd (vmg_messages p)) > case_option 0 id (vmq_after q))
      | _ \<Rightarrow> False)"

definition content_pairs :: "v4_content_query \<Rightarrow> v4_event \<Rightarrow> bool" where
  "content_pairs q ev =
     (let fits = \<lambda>p. kq_conversation_id q = kg_conversation_id p \<and> kq_run_id q = kg_run_id p
          \<and> kq_after q = kg_after p \<and> length (kg_events p) \<le> kq_limit q in
      case ev of EvContent p \<Rightarrow> fits p | EvContentEvents p \<Rightarrow> fits p | _ \<Rightarrow> False)"

text \<open>The pairs of tasks, actions, permissions and automations.\<close>

definition task_pairs :: "v4_command \<Rightarrow> v4_task \<Rightarrow> bool" where
  "task_pairs command t =
     (case command of
        V4ReadTask q \<Rightarrow> rq_resource_id q = tk_task_id t
      | V4CreateTask q \<Rightarrow>
          tc_conversation_id q = tk_conversation_id t \<and> tc_goal q = tk_goal t
        \<and> tc_workspace_id q = tk_workspace_id t \<and> tc_route_id q = tk_route_id t
        \<and> tc_permission_profile_id q = tk_permission_profile_id t
        \<and> tc_profile_revision q = tk_profile_revision t \<and> tc_budget_tokens q = tk_budget_tokens t
        \<and> tc_execution_kind q = tk_execution_kind t
      | V4CancelTask q \<Rightarrow>
          tm_task_id q = tk_task_id t \<and> tk_revision t \<ge> tm_expected_revision q
        \<and> tk_state t \<in> {TaskCancelRequested, TaskCancelled, TaskSucceeded, TaskFailed, TaskInterrupted}
      | V4RetryTask q \<Rightarrow>
          tr_task_id q = tk_task_id t \<and> tk_revision t > tr_expected_revision q
        \<and> ta_attempt_id (tk_current_attempt t) \<noteq> tr_expected_attempt_id q
      | V4PauseTask q \<Rightarrow>
          tm_task_id q = tk_task_id t \<and> tk_revision t \<ge> tm_expected_revision q \<and> tk_state t = TaskPaused
      | V4ResumeTask q \<Rightarrow>
          tm_task_id q = tk_task_id t \<and> tk_revision t \<ge> tm_expected_revision q
        \<and> tk_state t \<in> {TaskQueued, TaskStarting, TaskRunning}
      | _ \<Rightarrow> False)"

definition admin_pairs :: "v4_command \<Rightarrow> v4_event \<Rightarrow> bool" where
  "admin_pairs command ev =
     (case ev of
        EvTask t \<Rightarrow> task_pairs command t
      | EvTasks p \<Rightarrow> (case command of V4ListTasks q \<Rightarrow>
            pq_after q = tp_after p \<and> opt_is (\<lambda>v. v = tp_through p) (pq_through q)
          \<and> length (tp_tasks p) \<le> pq_limit q | _ \<Rightarrow> False)
      | EvTaskEvents p \<Rightarrow> (case command of V4ReadTaskEvents q \<Rightarrow>
            teq_task_id q = tep_task_id p \<and> pq_after (teq_page q) = tep_after p
          \<and> opt_is (\<lambda>v. v = tep_through p) (pq_through (teq_page q))
          \<and> length (tep_events p) \<le> pq_limit (teq_page q) | _ \<Rightarrow> False)
      | EvAction a \<Rightarrow> (case command of V4ReadAction q \<Rightarrow>
            aq_action_id q = ac_action_id a \<and> aq_task_id q = ac_task_id a \<and> aq_attempt_id q = ac_attempt_id a
          | _ \<Rightarrow> False)
      | EvActionDecision d \<Rightarrow> (case command of V4DecideAction q \<Rightarrow> q = ar_decision d | _ \<Rightarrow> False)
      | EvPermissionProfile p \<Rightarrow> (case command of
            V4ReadPermissionProfile q \<Rightarrow> rq_resource_id q = pf_profile_id (pv_profile p)
          | V4PutPermissionProfile q \<Rightarrow>
              pp_profile q = pv_profile p \<and> opt_is (\<lambda>r. pv_revision p > r) (pp_expected_revision q)
          | _ \<Rightarrow> False)
      | EvAutomations p \<Rightarrow> (case command of V4ListAutomations q \<Rightarrow>
            pq_after q = ap_after p \<and> opt_is (\<lambda>v. v = ap_through p) (pq_through q)
          \<and> length (ap_automations p) \<le> pq_limit q | _ \<Rightarrow> False)
      | EvAutomation a \<Rightarrow> (case command of
            V4UpsertAutomation q \<Rightarrow> q = am_spec a \<and> opt_is (\<lambda>r. am_revision a > r) (au_expected_revision q)
          | V4SetAutomationEnabled q \<Rightarrow>
              at_automation_id q = au_automation_id (am_spec a) \<and> at_enabled q = au_enabled (am_spec a)
            \<and> am_revision a \<ge> at_expected_revision q
          | _ \<Rightarrow> False)
      | EvAutomationRun a \<Rightarrow> (case command of V4RunAutomationNow q \<Rightarrow>
            an_automation_id q = ao_automation_id a \<and> an_expected_revision q = ao_revision a
          \<and> ao_source a = ManualOccurrence (an_operation_id q) | _ \<Rightarrow> False)
      | _ \<Rightarrow> False)"

definition v4_pairs :: "v4_command \<Rightarrow> v4_event \<Rightarrow> bool" where
  "v4_pairs command ev =
     (case command of
        V4Negotiate req \<Rightarrow> (case ev of EvNegotiated n \<Rightarrow>
            gn_protocol_version n = APP_PROTOCOL_V4 \<and> APP_PROTOCOL_V4 \<in> set (gr_supported_versions req)
          \<and> list_all (v4_contains (gr_requested req)) (vk_capabilities (gn_granted n)) | _ \<Rightarrow> False)
      | V4ListConversations q \<Rightarrow> (case ev of EvConversations p \<Rightarrow>
            length (vcg_conversations p) \<le> vcq_limit q | _ \<Rightarrow> False)
      | V4SearchConversations q \<Rightarrow> (case ev of EvConversations p \<Rightarrow>
            length (vcg_conversations p) \<le> pq_limit (sq_page q) | _ \<Rightarrow> False)
      | V4CreateConversation title \<Rightarrow> (case ev of EvConversation c \<Rightarrow> vc_title c = title | _ \<Rightarrow> False)
      | V4ReadConversation i \<Rightarrow> (case ev of EvConversation c \<Rightarrow> i = vc_conversation_id c | _ \<Rightarrow> False)
      | V4UpdateConversation i p \<Rightarrow> (case ev of EvConversation c \<Rightarrow>
            i = vc_conversation_id c \<and> opt_is (\<lambda>t. t = vc_title c) (vcp_title p)
          \<and> opt_is (\<lambda>v. v = vc_archived c) (vcp_archived p) \<and> opt_is (\<lambda>v. v = vc_pinned c) (vcp_pinned p)
          | _ \<Rightarrow> False)
      | V4ExportConversation q \<Rightarrow> (case ev of EvConversation c \<Rightarrow> rq_resource_id q = vc_id c | _ \<Rightarrow> False)
      | V4ArchiveConversation q \<Rightarrow> (case ev of EvConversation c \<Rightarrow>
            rq_resource_id q = vc_id c \<and> vc_archived c | _ \<Rightarrow> False)
      | V4RenameConversation q \<Rightarrow> (case ev of EvConversation c \<Rightarrow>
            vcr_conversation_id q = vc_id c \<and> vcr_title q = vc_title c | _ \<Rightarrow> False)
      | V4DeleteConversation q \<Rightarrow> (case ev of EvDeleted r \<Rightarrow> q = r | _ \<Rightarrow> False)
      | V4ReadMessages q \<Rightarrow> message_pairs q ev
      | V4ListMessages q \<Rightarrow> message_pairs q ev
      | V4SubmitTurn q \<Rightarrow> (case ev of
            EvTurnSubmitted r \<Rightarrow> vt_conversation_id q = vs_conversation_id r \<and> vt_idempotency_key q = vs_idempotency_key r
          | EvTurnAccepted r \<Rightarrow> vt_conversation_id q = vs_conversation_id r \<and> vt_idempotency_key q = vs_idempotency_key r
          | _ \<Rightarrow> False)
      | V4LookupTurn c k \<Rightarrow> (case ev of EvTurnLookup rc rk _ \<Rightarrow> c = rc \<and> k = rk | _ \<Rightarrow> False)
      | V4CancelTurn c r \<Rightarrow> (case ev of EvTurnCancelled rc rr _ \<Rightarrow> c = rc \<and> r = rr | _ \<Rightarrow> False)
      | V4ReadContent q \<Rightarrow> content_pairs q ev
      | V4ListContentEvents q \<Rightarrow> content_pairs q ev
      | V4ListRoutes \<Rightarrow> (case ev of EvRoutes _ \<Rightarrow> True | _ \<Rightarrow> False)
      | _ \<Rightarrow> admin_pairs command ev)"

definition matches_event :: "externals \<Rightarrow> chrono \<Rightarrow> v4_command \<Rightarrow> v4_event \<Rightarrow> bool" where
  "matches_event E C command ev \<longleftrightarrow> is_ok (v4_event_validate E C ev) \<and> v4_pairs command ev"

section \<open>Envelopes\<close>

record v4_request_envelope =
  qe_version :: nat
  qe_schema_version :: nat
  qe_request_id :: string
  qe_bearer :: string
  qe_grants :: v4_capability_set
  qe_command :: v4_command

datatype v4_response_payload = PayloadOk v4_event | PayloadError v4_error

record v4_response_envelope =
  se_version :: nat
  se_schema_version :: nat
  se_request_id :: string
  se_payload :: v4_response_payload

text \<open>What the decoders check once the fields are read.\<close>

definition request_envelope_ok :: "externals \<Rightarrow> chrono \<Rightarrow> v4_request_envelope \<Rightarrow> bool" where
  "request_envelope_ok E C w \<longleftrightarrow>
     \<not> (qe_version w \<noteq> APP_PROTOCOL_V4
       \<or> \<not> is_ok (v4_route (qe_request_id w))
       \<or> length (qe_bearer w) > 4096
       \<or> has_control (qe_bearer w)
       \<or> \<not> is_ok (v4_command_validate_for_schema E C (qe_command w) (qe_schema_version w))
       \<or> qe_schema_version w = APP_SCHEMA_V4_CONVERSATIONS
         \<and> list_ex (\<lambda>c. \<not> is_conversation c) (vk_capabilities (qe_grants w)))"

definition response_envelope_ok :: "externals \<Rightarrow> chrono \<Rightarrow> v4_response_envelope \<Rightarrow> bool" where
  "response_envelope_ok E C w \<longleftrightarrow>
     se_version w = APP_PROTOCOL_V4 \<and> v4_known_schema (se_schema_version w)
   \<and> \<not> (se_request_id w \<noteq> [] \<and> \<not> is_ok (v4_route (se_request_id w))
        \<or> se_request_id w = [] \<and> (case se_payload w of PayloadOk _ \<Rightarrow> True | PayloadError _ \<Rightarrow> False))
   \<and> (case se_payload w of
        PayloadOk ev \<Rightarrow> is_ok (v4_event_validate_for_schema E C ev (se_schema_version w))
      | PayloadError e \<Rightarrow> is_ok (v4_error_validate e))"

end
