(* ===== verification/V4_Dispatch.thy ===== *)
theory V4_Dispatch
  imports V4_Protocol Run_Manager V4_Turns
begin

text \<open>
  From an authenticated request to a response: the store-backed commands of
  \<open>src/daemon/runtime_v4.rs\<close>, the handler of \<open>src/daemon/runtime_handler.rs\<close> for both protocols it
  serves through the run manager, the dispatcher \<open>src/daemon/server/v4.rs\<close> and the trimming of a
  response that does not fit its frame (\<open>server/v4_pages.rs\<close>, the loop of \<open>server/unix.rs\<close>).
\<close>

section \<open>Failures\<close>

record handler_failure =
  hf_code :: string
  hf_message :: string

abbreviation failure :: "string \<Rightarrow> string \<Rightarrow> handler_failure" where
  "failure code message \<equiv> \<lparr>hf_code = code, hf_message = message\<rparr>"

definition invalid_failure :: handler_failure where
  "invalid_failure = failure ''invalid_command'' ''command payload is invalid''"

definition internal_failure :: handler_failure where
  "internal_failure = failure ''runtime_unavailable'' ''runtime operation is unavailable''"

definition not_found_failure :: handler_failure where
  "not_found_failure = failure ''run_not_found'' ''run was not found''"

definition unserved_failure :: handler_failure where
  "unserved_failure = failure ''invalid_command'' ''command is not served by this daemon''"

text \<open>
  Both mappings of store errors. No operation of this theory returns \<open>Panicked\<close>, which has no
  counterpart in the sources.
\<close>

fun map_store :: "store_error \<Rightarrow> handler_failure" where
  "map_store AssistantNotFound = failure ''not_found'' ''resource was not found''"
| "map_store (ConversationNotFound _) = failure ''not_found'' ''resource was not found''"
| "map_store (RunNotFound _) = failure ''not_found'' ''resource was not found''"
| "map_store AssistantConflict = failure ''conflict'' ''resource conflicts with stored state''"
| "map_store (TerminalRun _) = failure ''conflict'' ''resource conflicts with stored state''"
| "map_store IdempotencyConflict =
     failure ''idempotency_conflict'' ''idempotency key belongs to a different request''"
| "map_store (InvalidInput _) = invalid_failure"
| "map_store _ = internal_failure"

fun map_store_error :: "store_error \<Rightarrow> handler_failure" where
  "map_store_error (RunNotFound _) = not_found_failure"
| "map_store_error IdempotencyConflict =
     failure ''idempotency_conflict'' ''idempotency key belongs to a different request''"
| "map_store_error (InvalidInput _) = invalid_failure"
| "map_store_error (InvalidAuditMetadata _) = invalid_failure"
| "map_store_error (ConversationNotFound _) = invalid_failure"
| "map_store_error (UnexpectedStatus _ _) = invalid_failure"
| "map_store_error (InvalidTransition _ _) = invalid_failure"
| "map_store_error (TerminalRun _) = invalid_failure"
| "map_store_error ToolApprovalConflict = invalid_failure"
| "map_store_error ToolApprovalDigestMismatch = invalid_failure"
| "map_store_error ToolExecutionConflict = invalid_failure"
| "map_store_error ModelOperationConflict = invalid_failure"
| "map_store_error ModelOperationCapacity = invalid_failure"
| "map_store_error (ToolApprovalNotFound _) = not_found_failure"
| "map_store_error (ToolExecutionNotFound _) = not_found_failure"
| "map_store_error (ModelOperationNotFound _) = not_found_failure"
| "map_store_error AssistantNotFound = failure ''not_found'' ''resource was not found''"
| "map_store_error AssistantConflict = failure ''conflict'' ''resource conflicts with stored state''"
| "map_store_error (CorruptData _) = internal_failure"
| "map_store_error (Database _) = internal_failure"
| "map_store_error (Panicked _) = internal_failure"

fun map_manager_error :: "manager_error \<Rightarrow> handler_failure" where
  "map_manager_error (InvalidRequest _) = invalid_failure"
| "map_manager_error ShuttingDown = internal_failure"
| "map_manager_error WorkerPanicked = internal_failure"
| "map_manager_error (StoreFailed e) = map_store_error e"

section \<open>Commands served from the store\<close>

definition SERVED :: "v4_capability list" where
  "SERVED = [CapReadConversations, CapWriteConversations, CapSubmitTurns, CapReadTurns, CapReadRoutes]"

definition authorizes :: "v4_capability_set \<Rightarrow> v4_command \<Rightarrow> bool" where
  "authorizes grants command \<longleftrightarrow>
     is_ok (v4_capability_set_validate grants)
   \<and> list_all (\<lambda>c. c \<in> set SERVED \<or> c = CapCancelTurns) (vk_capabilities grants)
   \<and> v4_permits grants command"

definition negotiate :: "v4_grant_request \<Rightarrow> bool \<Rightarrow> handler_failure + v4_event" where
  "negotiate req cancel_turns =
     (if APP_PROTOCOL_V4 \<notin> set (gr_supported_versions req) then Inl invalid_failure
      else
        bindr (map_err (\<lambda>_. internal_failure)
                (v4_from_sorted (filter (\<lambda>c. c \<in> set SERVED \<or> cancel_turns \<and> c = CapCancelTurns)
                  (vk_capabilities (gr_requested req))))) (\<lambda>granted.
          Inr (EvNegotiated \<lparr>gn_protocol_version = APP_PROTOCOL_V4, gn_schema_version = APP_SCHEMA_V4,
                            gn_granted = granted\<rparr>)))"

text \<open>
  What the store supplies to a command: fresh identifiers and the result of an operation, either a
  value read or a value with the next state. \<open>reads\<close> and \<open>writes\<close> apply \<open>map_err(map_store)?\<close>.
\<close>

record fresh_ids =
  fi_conversation :: conversation_id
  fi_run :: run_id
  fi_message :: string

definition reads :: "db \<Rightarrow> ('a \<Rightarrow> v4_event) \<Rightarrow> store_error + 'a \<Rightarrow> handler_failure + v4_event \<times> db" where
  "reads d f r = bindr (map_err map_store r) (\<lambda>a. Inr (f a, d))"

definition writes :: "('a \<Rightarrow> v4_event) \<Rightarrow> store_error + 'a \<times> db \<Rightarrow> handler_failure + v4_event \<times> db" where
  "writes f r = bindr (map_err map_store r) (\<lambda>(a, d'). Inr (f a, d'))"

definition conversation_id_of :: "externals \<Rightarrow> string \<Rightarrow> handler_failure + conversation_id" where
  "conversation_id_of E s = map_err (\<lambda>_. invalid_failure) (parse_uuid_id E s)"

definition handle_store ::
    "externals \<Rightarrow> fresh_ids \<Rightarrow> db \<Rightarrow> v4_command \<Rightarrow> nat \<Rightarrow> handler_failure + v4_event \<times> db" where
  "handle_store E ids d command now_ms =
     (case command of
        V4Negotiate req \<Rightarrow> bindr (negotiate req False) (\<lambda>ev. Inr (ev, d))
      | V4CreateConversation title \<Rightarrow>
          writes EvConversation (v4_create_conversation E (fi_conversation ids) d title now_ms)
      | V4ListConversations q \<Rightarrow> reads d EvConversations (v4_list_conversations E d q)
      | V4SearchConversations q \<Rightarrow>
          reads d EvConversations (v4_search_conversations E d
            \<lparr>vcq_search = Some (sq_query q), vcq_after = None, vcq_limit = pq_limit (sq_page q), vcq_archived = False\<rparr>)
      | V4ReadConversation cid \<Rightarrow> reads d EvConversation (v4_conversation_by_id d cid)
      | V4ExportConversation q \<Rightarrow>
          bindr (conversation_id_of E (rq_resource_id q)) (\<lambda>cid. reads d EvConversation (v4_conversation_by_id d cid))
      | V4UpdateConversation cid patch \<Rightarrow> writes EvConversation (v4_patch_conversation d cid patch now_ms)
      | V4ArchiveConversation q \<Rightarrow>
          bindr (conversation_id_of E (rq_resource_id q)) (\<lambda>cid.
            writes EvConversation (v4_archive_conversation d cid now_ms))
      | V4RenameConversation rename \<Rightarrow>
          bindr (conversation_id_of E (vcr_conversation_id rename)) (\<lambda>cid.
            writes EvConversation (v4_rename_conversation d cid (vcr_title rename) now_ms))
      | V4ReadMessages q \<Rightarrow> reads d EvMessages (v4_messages E d q)
      | V4SubmitTurn request \<Rightarrow>
          writes EvTurnSubmitted (v4_admit_turn E (fi_run ids) (fi_message ids) d request now_ms)
      | V4LookupTurn conversation key \<Rightarrow>
          reads d (EvTurnLookup conversation key) (v4_lookup_turn E d conversation key)
      | V4ListMessages q \<Rightarrow> reads d EvMessages (v4_messages E d q)
      | V4ListContentEvents q \<Rightarrow> reads d EvContent (v4_content E d q)
      | V4DeleteConversation q \<Rightarrow>
          bindr (conversation_id_of E (rq_resource_id q)) (\<lambda>cid.
            bindr (map_err map_store (v4_delete_conversation d cid now_ms)) (\<lambda>d'. Inr (EvDeleted q, d')))
      | V4ReadContent q \<Rightarrow> reads d EvContent (v4_content E d q)
      | V4ListRoutes \<Rightarrow> Inr (EvRoutes [], d)
      | _ \<Rightarrow> Inl unserved_failure)"

text \<open>
  \<open>handle\<close>: the event is checked after the operation committed, so a failure here would keep its
  effect. Negotiation returns before the check.
\<close>

definition handle ::
    "externals \<Rightarrow> chrono \<Rightarrow> fresh_ids \<Rightarrow> db \<Rightarrow> v4_command \<Rightarrow> nat \<Rightarrow> (handler_failure + v4_event) \<times> db" where
  "handle E C ids d command now_ms =
     (case handle_store E ids d command now_ms of
        Inl f \<Rightarrow> (Inl f, d)
      | Inr (ev, d') \<Rightarrow>
          (case command of
             V4Negotiate _ \<Rightarrow> (Inr ev, d')
           | _ \<Rightarrow> (bindr (map_err (\<lambda>_. internal_failure) (v4_event_validate E C ev)) (\<lambda>_. Inr ev), d')))"

section \<open>The runtime handler\<close>

text \<open>
  The application service (\<open>src/app_core/service.rs\<close>): the claims registry and the audit file it
  reads are its inputs.
\<close>

record app_service =
  as_status :: runtime_status
  as_claims :: "claims_query \<Rightarrow> claims_snapshot"
  as_routes :: "route_audit_query \<Rightarrow> route_audit_page"

datatype app_service_error = ServiceInvalidCommand validation_error | ServiceNotPermitted

definition app_service_handle :: "app_service \<Rightarrow> app_command \<Rightarrow> app_service_error + app_event" where
  "app_service_handle S command =
     bindr (map_err ServiceInvalidCommand (app_command_validate command)) (\<lambda>_.
       if \<not> permits command (st_capabilities (as_status S)) then Inl ServiceNotPermitted
       else case command of
         CmdStatus \<Rightarrow> Inr (EvtStatus (as_status S))
       | CmdClaims query \<Rightarrow> Inr (EvtClaims (as_claims S query))
       | CmdReadRoutes query \<Rightarrow> Inr (EvtRouteAudit (as_routes S query))
       | _ \<Rightarrow> Inl ServiceNotPermitted)"

record runtime_handler =
  rh_routes :: "run_route_capability list"
  rh_v4_routes :: "v4_route_record list"
  rh_system_ms :: "nat \<Rightarrow> nat option"
  rh_fresh :: "nat \<Rightarrow> fresh_ids"
  rh_runtime_v2 :: app_service

definition check_event ::
    "externals \<Rightarrow> chrono \<Rightarrow> v4_event \<Rightarrow> manager \<Rightarrow> (handler_failure + v4_event) \<times> manager" where
  "check_event E C ev m = (bindr (map_err (\<lambda>_. internal_failure) (v4_event_validate E C ev)) (\<lambda>_. Inr ev), m)"

definition handler_result :: "(manager_error + 'a) \<times> manager \<Rightarrow> (handler_failure + 'a) \<times> manager" where
  "handler_result r = (case r of (x, m) \<Rightarrow> (map_err map_manager_error x, m))"

definition handle_v4 ::
    "world \<Rightarrow> chrono \<Rightarrow> runtime_handler \<Rightarrow> v4_command \<Rightarrow> manager \<Rightarrow> (handler_failure + v4_event) \<times> manager" where
  "handle_v4 W C H command m =
     (case command of
        V4Negotiate request \<Rightarrow> (negotiate request True, m)
      | V4CancelTurn cid rid \<Rightarrow>
          (let m1 = interleave W m in
           case v4_require_turn (mg_db m1) cid rid of
             Inl e \<Rightarrow> (Inl (map_store_error e), m1)
           | Inr _ \<Rightarrow>
               andthen (handler_result (cancel W rid m1)) (\<lambda>run m2.
                 check_event (w_ext W) C (EvTurnCancelled cid rid (rec_status run)) m2))
      | V4SubmitTurn request \<Rightarrow>
          andthen (handler_result (submit_v4 W request m)) (\<lambda>submission m1.
            check_event (w_ext W) C (EvTurnSubmitted submission) m1)
      | V4ListRoutes \<Rightarrow> check_event (w_ext W) C (EvRoutes (rh_v4_routes H)) m
      | other \<Rightarrow>
          (case rh_system_ms H (mg_tick m) of
             None \<Rightarrow> (Inl internal_failure, m)
           | Some now_ms \<Rightarrow>
               let m1 = interleave W m;
                   (r, d') = handle (w_ext W) C (rh_fresh H (mg_tick m)) (mg_db m1) other now_ms in
               (r, m1\<lparr>mg_db := d'\<rparr>)))"

text \<open>The commands of protocol version 2.\<close>

definition route_permits :: "run_route_capability list \<Rightarrow> backend_selection \<Rightarrow> run_mode \<Rightarrow> bool" where
  "route_permits routes backend mode =
     list_ex (\<lambda>route. route_backend route = backend
       \<and> binary_search_window (route_modes route) mode 0 (length (route_modes route))) routes"

definition snapshot_of :: "world \<Rightarrow> run_id \<Rightarrow> manager \<Rightarrow> (handler_failure + run_snapshot) \<times> manager" where
  "snapshot_of W rid m =
     (let m1 = interleave W m in
      (bindr (map_err map_store_error (Run_Store.run_snapshot (w_ext W) (mg_db m1) rid)) (\<lambda>found.
         ok_or found not_found_failure), m1))"

fun submission_disposition :: "submit_disposition \<Rightarrow> run_submission_disposition" where
  "submission_disposition SubmitEnqueued = Enqueued"
| "submission_disposition SubmitExisting = Existing"
| "submission_disposition SubmitQueueFull = QueueFull"

definition handle_runtime ::
    "world \<Rightarrow> runtime_handler \<Rightarrow> app_command \<Rightarrow> manager \<Rightarrow> (handler_failure + app_event) \<times> manager" where
  "handle_runtime W H command m =
     (case app_command_validate command of
        Inl _ \<Rightarrow> (Inl invalid_failure, m)
      | Inr _ \<Rightarrow>
          (case command of
             CmdSubmitRun request \<Rightarrow>
               if \<not> route_permits (rh_routes H) (req_backend request) (req_mode request)
               then (Inl (failure ''unsupported_route'' ''requested runtime route is unavailable''), m)
               else
                 andthen (handler_result (submit W request m)) (\<lambda>submitted m1.
                 andthen (snapshot_of W (rec_id (sr_run submitted)) m1) (\<lambda>snapshot m2.
                   let ev = \<lparr>sub_disposition = submission_disposition (sr_disposition submitted), sub_run = snapshot\<rparr> in
                   (bindr (map_err (\<lambda>_. internal_failure) (run_submission_validate (w_ext W) ev))
                      (\<lambda>_. Inr (EvtRunSubmitted ev)), m2)))
           | CmdGetRun query \<Rightarrow>
               andthen (snapshot_of W (rq_run_id query) m) (\<lambda>s m1. (Inr (EvtRunStatus s), m1))
           | CmdCancelRun query \<Rightarrow>
               andthen (handler_result (cancel W (rq_run_id query) m)) (\<lambda>_ m1.
               andthen (snapshot_of W (rq_run_id query) m1) (\<lambda>s m2. (Inr (EvtCancellationAcknowledged s), m2)))
           | CmdRunEvents query \<Rightarrow>
               (let m1 = interleave W m in
                (bindr (map_err map_store_error (run_events_page (w_ext W) (mg_db m1) (eq_run_id query)
                    (eq_after_sequence query) (eq_through_sequence query) (eq_limit query)))
                  (\<lambda>page. Inr (EvtRunEvents page)), m1))
           | _ \<Rightarrow> (map_err (\<lambda>_. internal_failure) (app_service_handle (rh_runtime_v2 H) command), m)))"

section \<open>Dispatch\<close>

text \<open>The part of the trait \<open>DaemonHandler\<close> that protocol version 4 uses.\<close>

record 's v4_service =
  sv_supports :: bool
  sv_authorizes :: "v4_capability_set \<Rightarrow> v4_command \<Rightarrow> bool"
  sv_handle :: "v4_command \<Rightarrow> 's \<Rightarrow> (handler_failure + v4_event) \<times> 's"

definition runtime_service :: "world \<Rightarrow> chrono \<Rightarrow> runtime_handler \<Rightarrow> manager v4_service" where
  "runtime_service W C H = \<lparr>sv_supports = True, sv_authorizes = authorizes, sv_handle = handle_v4 W C H\<rparr>"

definition MAX_REQUEST_ID_LEN :: nat where "MAX_REQUEST_ID_LEN = 128"

definition valid_request_id :: "string \<Rightarrow> bool" where
  "valid_request_id request_id \<longleftrightarrow>
     request_id \<noteq> [] \<and> length request_id \<le> MAX_REQUEST_ID_LEN
   \<and> list_all (\<lambda>c. is_ascii_alphanumeric c \<or> c \<in> {CHR ''.'', CHR ''_'', CHR '':'', CHR ''-''}) request_id"

definition response_ok :: "string \<Rightarrow> v4_event \<Rightarrow> v4_response_envelope" where
  "response_ok request_id ev =
     \<lparr>se_version = APP_PROTOCOL_V4, se_schema_version = APP_SCHEMA_V4, se_request_id = request_id,
      se_payload = PayloadOk ev\<rparr>"

definition response_error :: "string \<Rightarrow> v4_error_code \<Rightarrow> string \<Rightarrow> v4_response_envelope" where
  "response_error request_id code message =
     \<lparr>se_version = APP_PROTOCOL_V4, se_schema_version = APP_SCHEMA_V4, se_request_id = request_id,
      se_payload = PayloadError \<lparr>ve_code = code, ve_message = message\<rparr>\<rparr>"

definition error_code :: "handler_failure \<Rightarrow> v4_error_code" where
  "error_code f =
     (if hf_code f = ''capability_denied'' then V4CapabilityDenied
      else if hf_code f = ''invalid_command'' then V4InvalidCommand
      else if hf_code f = ''run_not_found'' \<or> hf_code f = ''not_found'' then V4NotFound
      else if hf_code f = ''idempotency_conflict'' \<or> hf_code f = ''conflict'' then V4Conflict
      else if hf_code f = ''cancelled'' then V4Cancelled
      else if hf_code f = ''deadline_exceeded'' then V4DeadlineExceeded
      else if hf_code f = ''budget_exceeded'' then V4BudgetExceeded
      else if hf_code f = ''rate_limited'' then V4RateLimited
      else if hf_code f = ''unauthorized'' then V4Unauthorized
      else V4Internal)"

definition safe_message :: "string \<Rightarrow> string" where
  "safe_message message =
     (if is_ok (v4_error_validate \<lparr>ve_code = V4Internal, ve_message = message\<rparr>) then message
      else ''protocol-v4 request failed'')"

fun is_negotiate :: "v4_command \<Rightarrow> bool" where
  "is_negotiate (V4Negotiate _) = True"
| "is_negotiate _ = False"

definition dispatch_inner ::
    "externals \<Rightarrow> chrono \<Rightarrow> 's v4_service \<Rightarrow> frame_kind \<Rightarrow> v4_request_envelope \<Rightarrow> 's \<Rightarrow> v4_response_envelope \<times> 's" where
  "dispatch_inner E C S kind request s =
     (let refuse = \<lambda>code message. (response_error (qe_request_id request) code message, s);
          grants = qe_grants request; command = qe_command request in
      if \<not> valid_request_id (qe_request_id request)
      then (response_error [] V4InvalidCommand ''request_id is invalid'', s)
      else if qe_version request \<noteq> APP_PROTOCOL_V4 \<or> qe_schema_version request \<noteq> frame_schema kind
              \<or> \<not> sv_supports S
      then refuse V4UnsupportedVersion ''protocol version is unsupported''
      else if kind = Legacy \<and> list_ex (\<lambda>c. \<not> is_conversation c) (vk_capabilities grants)
              \<or> \<not> is_ok (v4_capability_set_validate grants)
              \<or> is_negotiate command \<and> vk_capabilities grants \<noteq> []
      then refuse V4InvalidCommand ''grant declaration is invalid''
      else if \<not> v4_permits grants command
      then refuse V4CapabilityDenied ''command lacks its advertised capability grant''
      else if \<not> is_negotiate command \<and> \<not> sv_authorizes S grants command
      then refuse V4CapabilityDenied ''advertised grants exceed daemon authority''
      else if \<not> is_ok (v4_command_validate_for_schema E C command (qe_schema_version request))
      then refuse V4InvalidCommand ''command payload is invalid''
      else
        case sv_handle S command s of
          (Inr ev, s') \<Rightarrow>
            if matches_event E C command ev then (response_ok (qe_request_id request) ev, s')
            else (response_error (qe_request_id request) V4Internal ''handler returned an invalid event'', s')
        | (Inl f, s') \<Rightarrow>
            (response_error (qe_request_id request) (error_code f) (safe_message (hf_message f)), s'))"

definition bind_v4_schema :: "frame_kind \<Rightarrow> v4_response_envelope \<Rightarrow> v4_response_envelope" where
  "bind_v4_schema kind r =
     r\<lparr>se_schema_version := frame_schema kind,
       se_payload := (case se_payload r of
          PayloadOk (EvNegotiated n) \<Rightarrow> PayloadOk (EvNegotiated (n\<lparr>gn_schema_version := frame_schema kind\<rparr>))
        | p \<Rightarrow> p)\<rparr>"

definition dispatch_authenticated_v4_framed ::
    "externals \<Rightarrow> chrono \<Rightarrow> 's v4_service \<Rightarrow> v4_request_envelope \<Rightarrow> frame_kind \<Rightarrow> 's \<Rightarrow> v4_response_envelope \<times> 's" where
  "dispatch_authenticated_v4_framed E C S request kind s =
     (let (response, s') = dispatch_inner E C S kind request s in (bind_v4_schema kind response, s'))"

section \<open>Responses that do not fit\<close>

definition trim_tail :: "externals \<Rightarrow> chrono \<Rightarrow> v4_response_envelope \<Rightarrow> v4_response_envelope option" where
  "trim_tail E C r =
     (case se_payload r of
        PayloadError _ \<Rightarrow> None
      | PayloadOk ev \<Rightarrow>
          if \<not> is_ok (v4_event_validate E C ev) then None
          else
            map_option (\<lambda>ev'. r\<lparr>se_payload := PayloadOk ev'\<rparr>)
              (case ev of
                 EvConversations page \<Rightarrow>
                   if length (vcg_conversations page) > 1
                   then let cs = butlast (vcg_conversations page) in
                     Some (EvConversations (page\<lparr>vcg_conversations := cs,
                       vcg_next_after := (if cs = [] then None else Some (vc_conversation_id (last cs)))\<rparr>))
                   else None
               | EvMessages page \<Rightarrow>
                   if length (vmg_messages page) > 1
                   then let ms = butlast (vmg_messages page) in
                     Some (EvMessages (page\<lparr>vmg_messages := ms,
                       vmg_next_after := (if ms = [] then None else Some (vm_sequence (last ms)))\<rparr>))
                   else None
               | EvContent page \<Rightarrow>
                   if length (kg_events page) > 1
                   then let es = butlast (kg_events page) in
                     Some (EvContent (page\<lparr>kg_events := es,
                       kg_next_after := (if es = [] then None else Some (ce_sequence (last es)))\<rparr>))
                   else None
               | EvContentEvents page \<Rightarrow>
                   if length (kg_events page) > 1
                   then let es = butlast (kg_events page) in
                     Some (EvContentEvents (page\<lparr>kg_events := es,
                       kg_next_after := (if es = [] then None else Some (ce_sequence (last es)))\<rparr>))
                   else None
               | _ \<Rightarrow> None))"

fun event_items :: "v4_event \<Rightarrow> nat" where
  "event_items (EvConversations page) = length (vcg_conversations page)"
| "event_items (EvMessages page) = length (vmg_messages page)"
| "event_items (EvContent page) = length (kg_events page)"
| "event_items (EvContentEvents page) = length (kg_events page)"
| "event_items _ = 0"

definition response_items :: "v4_response_envelope \<Rightarrow> nat" where
  "response_items r = (case se_payload r of PayloadOk ev \<Rightarrow> event_items ev | PayloadError _ \<Rightarrow> 0)"

lemma trim_tail_items: "trim_tail E C r = Some r' \<Longrightarrow> response_items r' < response_items r"
  by (cases "se_payload r"; cases "case se_payload r of PayloadOk ev \<Rightarrow> ev | PayloadError e \<Rightarrow> EvError e")
    (auto simp: trim_tail_def response_items_def Let_def split: if_splits)

definition response_too_large :: "v4_response_envelope \<Rightarrow> v4_response_envelope" where
  "response_too_large r =
     response_error (se_request_id r) V4ResponseTooLarge ''handler response exceeds configured limit''"

text \<open>The loop of \<open>write_wire_response_framed\<close>; \<open>ser\<close> gives the chunks serde writes for an envelope.\<close>

function fit_response ::
    "externals \<Rightarrow> chrono \<Rightarrow> (nat \<Rightarrow> bool) \<Rightarrow> (v4_response_envelope \<Rightarrow> byte list list) \<Rightarrow> frame_kind \<Rightarrow> nat \<Rightarrow>
     v4_response_envelope \<Rightarrow> io_error + v4_response_envelope \<times> byte list" where
  "fit_response E C alloc ser kind limit r =
     (case serialize_bounded alloc (ser r) limit of
        Inr bytes \<Rightarrow> Inr (r, bytes)
      | Inl _ \<Rightarrow>
          (case (if kind = Schema3 then trim_tail E C r else None) of
             Some r' \<Rightarrow> fit_response E C alloc ser kind limit r'
           | None \<Rightarrow>
               let fallback = bind_v4_schema kind (response_too_large r) in
               bindr (serialize_bounded alloc (ser fallback) limit) (\<lambda>bytes. Inr (fallback, bytes))))"
  by pat_completeness auto
termination
  by (relation "measure (\<lambda>(_, _, _, _, _, _, r). response_items r)") (auto dest: trim_tail_items split: if_splits)

declare fit_response.simps [simp del]

definition write_v4_response ::
    "externals \<Rightarrow> chrono \<Rightarrow> (nat \<Rightarrow> bool) \<Rightarrow> (v4_response_envelope \<Rightarrow> byte list list) \<Rightarrow> frame_kind \<Rightarrow> nat \<Rightarrow>
     byte list \<Rightarrow> v4_response_envelope \<Rightarrow> io_error + byte list" where
  "write_v4_response E C alloc ser kind legacy_max out r =
     bindr (fit_response E C alloc ser kind (frame_limit kind legacy_max) (bind_v4_schema kind r)) (\<lambda>(_, bytes).
       write_frame out kind bytes legacy_max)"

end
