(* ===== verification/Dispatch_Facts.thy ===== *)
theory Dispatch_Facts
  imports V4_Dispatch
begin

text \<open>
  Facts about the dispatcher: what a request must satisfy before a handler sees it, that a granted
  capability set is what was asked for and is served, and that every response passes the check of
  the client's decoder.
\<close>

section \<open>Capabilities\<close>

lemma v4_ensure_ok [simp]: "is_ok (v4_ensure b) \<longleftrightarrow> b"
  by (simp add: v4_ensure_def ensure_def)

lemma v4_ensure_Inr: "v4_ensure b = Inr u \<longleftrightarrow> b"
  by (simp add: v4_ensure_def ensure_def)

lemma is_ok_bindr: "is_ok (bindr m f) \<longleftrightarrow> (\<exists>a. m = Inr a \<and> is_ok (f a))"
  by (cases m) auto

lemma v4_contains_exact:
  assumes "is_ok (v4_capability_set_validate s)"
  shows "v4_contains s c \<longleftrightarrow> c \<in> set (vk_capabilities s)"
proof
  assume "c \<in> set (vk_capabilities s)"
  then obtain i where "i < length (vk_capabilities s)" "vk_capabilities s ! i = c" by (auto simp: in_set_conv_nth)
  moreover have "sorted_wrt (<) (vk_capabilities s)"
    using assms by (simp add: v4_capability_set_validate_def window_not_increasing_iff)
  ultimately show "v4_contains s c"
    unfolding v4_contains_def by (intro binary_search_complete [of _ _ 0 i]) auto
next
  assume "v4_contains s c"
  then show "c \<in> set (vk_capabilities s)" unfolding v4_contains_def using binary_search_sound by blast
qed

lemma v4_contains_sound: "v4_contains s c \<Longrightarrow> c \<in> set (vk_capabilities s)"
  unfolding v4_contains_def using binary_search_sound by blast

lemma v4_permits_exact:
  assumes "is_ok (v4_capability_set_validate s)"
  shows "v4_permits s command \<longleftrightarrow> (\<forall>c. v4_required_capability command = Some c \<longrightarrow> c \<in> set (vk_capabilities s))"
  using v4_contains_exact [OF assms] by (simp add: v4_permits_def split: option.splits)

lemma authorizes_exact:
  "authorizes grants command \<longleftrightarrow>
     is_ok (v4_capability_set_validate grants)
   \<and> set (vk_capabilities grants) \<subseteq> insert CapCancelTurns (set SERVED)
   \<and> (\<forall>c. v4_required_capability command = Some c \<longrightarrow> c \<in> set (vk_capabilities grants))"
  using v4_permits_exact by (auto simp: authorizes_def list_all_iff)

text \<open>Negotiation: what is granted is what was requested and is served, in order.\<close>

lemma negotiate_exact:
  assumes "is_ok (v4_capability_set_validate (gr_requested req))"
  shows "negotiate req cancel_turns =
    (if APP_PROTOCOL_V4 \<in> set (gr_supported_versions req)
     then Inr (EvNegotiated \<lparr>gn_protocol_version = APP_PROTOCOL_V4, gn_schema_version = APP_SCHEMA_V4,
       gn_granted = \<lparr>vk_capabilities = filter (\<lambda>c. c \<in> set SERVED \<or> cancel_turns \<and> c = CapCancelTurns)
         (vk_capabilities (gr_requested req))\<rparr>\<rparr>)
     else Inl invalid_failure)"
proof -
  have "sorted_wrt (<) (vk_capabilities (gr_requested req))"
    using assms by (simp add: v4_capability_set_validate_def window_not_increasing_iff)
  then have "\<not> window_not_increasing (filter (\<lambda>c. c \<in> set SERVED \<or> cancel_turns \<and> c = CapCancelTurns)
      (vk_capabilities (gr_requested req)))"
    by (simp add: window_not_increasing_iff sorted_wrt_filter)
  then show ?thesis
    by (simp add: negotiate_def v4_from_sorted_def v4_capability_set_validate_def v4_ensure_def ensure_def Let_def)
qed

section \<open>Pairs of the conversation schema\<close>

lemma administrative_pairs:
  "v4_pairs command ev \<Longrightarrow> administrative_event ev \<Longrightarrow>
   \<exists>c. v4_required_capability command = Some c \<and> \<not> is_conversation c"
  by (cases ev; cases command) (simp_all add: v4_pairs_def admin_pairs_def task_pairs_def message_pairs_def
      content_pairs_def is_conversation_def)

section \<open>Messages\<close>

lemma fixed_messages_clean:
  "is_ok (v4_error_validate \<lparr>ve_code = code, ve_message = ''request_id is invalid''\<rparr>)"
  "is_ok (v4_error_validate \<lparr>ve_code = code, ve_message = ''protocol version is unsupported''\<rparr>)"
  "is_ok (v4_error_validate \<lparr>ve_code = code, ve_message = ''grant declaration is invalid''\<rparr>)"
  "is_ok (v4_error_validate \<lparr>ve_code = code, ve_message = ''command lacks its advertised capability grant''\<rparr>)"
  "is_ok (v4_error_validate \<lparr>ve_code = code, ve_message = ''advertised grants exceed daemon authority''\<rparr>)"
  "is_ok (v4_error_validate \<lparr>ve_code = code, ve_message = ''command payload is invalid''\<rparr>)"
  "is_ok (v4_error_validate \<lparr>ve_code = code, ve_message = ''handler returned an invalid event''\<rparr>)"
  "is_ok (v4_error_validate \<lparr>ve_code = code, ve_message = ''protocol-v4 request failed''\<rparr>)"
  "is_ok (v4_error_validate \<lparr>ve_code = code, ve_message = ''handler response exceeds configured limit''\<rparr>)"
  by (simp_all add: v4_error_validate_def byte_of_def)

lemma safe_message_clean: "is_ok (v4_error_validate \<lparr>ve_code = code, ve_message = safe_message message\<rparr>)"
  using fixed_messages_clean(8) by (auto simp: safe_message_def v4_error_validate_def)

lemma request_id_route: "valid_request_id r \<longleftrightarrow> is_ok (v4_route r)"
  by (simp add: valid_request_id_def v4_route_def MAX_REQUEST_ID_LEN_def)

section \<open>Admission of a request\<close>

text \<open>What a request must satisfy before the handler is called.\<close>

definition request_admissible :: "externals \<Rightarrow> chrono \<Rightarrow> 's v4_service \<Rightarrow> frame_kind \<Rightarrow> v4_request_envelope \<Rightarrow> bool" where
  "request_admissible E C S kind request \<longleftrightarrow>
     is_ok (v4_route (qe_request_id request))
   \<and> qe_version request = APP_PROTOCOL_V4 \<and> qe_schema_version request = frame_schema kind \<and> sv_supports S
   \<and> is_ok (v4_capability_set_validate (qe_grants request))
   \<and> (kind = Schema3 \<or> list_all is_conversation (vk_capabilities (qe_grants request)))
   \<and> (case v4_required_capability (qe_command request) of
        None \<Rightarrow> vk_capabilities (qe_grants request) = []
      | Some c \<Rightarrow> c \<in> set (vk_capabilities (qe_grants request)) \<and> sv_authorizes S (qe_grants request) (qe_command request))
   \<and> is_ok (v4_command_validate_for_schema E C (qe_command request) (frame_schema kind))"

lemma negotiate_no_capability: "v4_required_capability command = None \<longleftrightarrow> is_negotiate command"
  by (cases command) simp_all

lemma dispatch_admitted:
  assumes "request_admissible E C S kind request"
  shows "dispatch_inner E C S kind request s =
    (case sv_handle S (qe_command request) s of
       (Inr ev, s') \<Rightarrow>
         if matches_event E C (qe_command request) ev then (response_ok (qe_request_id request) ev, s')
         else (response_error (qe_request_id request) V4Internal ''handler returned an invalid event'', s')
     | (Inl f, s') \<Rightarrow>
         (response_error (qe_request_id request) (error_code f) (safe_message (hf_message f)), s'))"
proof -
  let ?g = "qe_grants request" and ?c = "qe_command request"
  note a = assms [unfolded request_admissible_def]
  have "v4_permits ?g ?c" using a v4_permits_exact [of ?g ?c] by (auto split: option.splits)
  moreover have "is_negotiate ?c \<longrightarrow> vk_capabilities ?g = []" "\<not> is_negotiate ?c \<longrightarrow> sv_authorizes S ?g ?c"
    using a negotiate_no_capability [of ?c] by (auto split: option.splits)
  moreover have "\<not> (kind = Legacy \<and> list_ex (\<lambda>c. \<not> is_conversation c) (vk_capabilities ?g))"
    using a by (auto simp: list_ex_iff list_all_iff)
  ultimately show ?thesis using a unfolding dispatch_inner_def Let_def by (auto simp: request_id_route)
qed

lemma dispatch_refused:
  assumes "\<not> request_admissible E C S kind request"
  shows "\<exists>rid code message. dispatch_inner E C S kind request s = (response_error rid code message, s)
    \<and> (rid = [] \<or> is_ok (v4_route rid)) \<and> is_ok (v4_error_validate \<lparr>ve_code = code, ve_message = message\<rparr>)"
proof -
  let ?g = "qe_grants request" and ?c = "qe_command request"
  have kind: "kind = Schema3 \<or> kind = Legacy" by (cases kind) simp_all
  let ?version = "qe_version request \<noteq> APP_PROTOCOL_V4 \<or> qe_schema_version request \<noteq> frame_schema kind \<or> \<not> sv_supports S"
  let ?grants = "kind = Legacy \<and> list_ex (\<lambda>c. \<not> is_conversation c) (vk_capabilities ?g)
    \<or> \<not> is_ok (v4_capability_set_validate ?g) \<or> is_negotiate ?c \<and> vk_capabilities ?g \<noteq> []"
  let ?authority = "\<not> is_negotiate ?c \<and> \<not> sv_authorizes S ?g ?c"
  let ?payload = "\<not> is_ok (v4_command_validate_for_schema E C ?c (qe_schema_version request))"
  have "\<not> valid_request_id (qe_request_id request) \<or> ?version \<or> ?grants \<or> \<not> v4_permits ?g ?c \<or> ?authority \<or> ?payload"
    using assms kind v4_permits_exact [of ?g ?c] negotiate_no_capability [of ?c]
    unfolding request_admissible_def
    by (auto simp: request_id_route list_ex_iff list_all_iff split: option.splits)
  then consider "\<not> valid_request_id (qe_request_id request)"
    | "valid_request_id (qe_request_id request)" "?version"
    | "valid_request_id (qe_request_id request)" "\<not> ?version" "?grants"
    | "valid_request_id (qe_request_id request)" "\<not> ?version" "\<not> ?grants" "\<not> v4_permits ?g ?c"
    | "valid_request_id (qe_request_id request)" "\<not> ?version" "\<not> ?grants" "v4_permits ?g ?c" "?authority"
    | "valid_request_id (qe_request_id request)" "\<not> ?version" "\<not> ?grants" "v4_permits ?g ?c" "\<not> ?authority" "?payload"
    by argo
  then show ?thesis
  proof cases
    case 1
    then have "dispatch_inner E C S kind request s = (response_error [] V4InvalidCommand ''request_id is invalid'', s)"
      unfolding dispatch_inner_def Let_def by simp
    with fixed_messages_clean(1) show ?thesis by blast
  next
    case 2
    then have "dispatch_inner E C S kind request s
        = (response_error (qe_request_id request) V4UnsupportedVersion ''protocol version is unsupported'', s)"
      unfolding dispatch_inner_def Let_def by (simp only: not_not not_True_eq_False not_False_eq_True if_True if_False simp_thms)
    with fixed_messages_clean(2) 2(1) show ?thesis unfolding request_id_route by blast
  next
    case 3
    then have "dispatch_inner E C S kind request s
        = (response_error (qe_request_id request) V4InvalidCommand ''grant declaration is invalid'', s)"
      unfolding dispatch_inner_def Let_def by (simp only: not_not not_True_eq_False not_False_eq_True if_True if_False simp_thms)
    with fixed_messages_clean(3) 3(1) show ?thesis unfolding request_id_route by blast
  next
    case 4
    then have "dispatch_inner E C S kind request s
        = (response_error (qe_request_id request) V4CapabilityDenied ''command lacks its advertised capability grant'', s)"
      unfolding dispatch_inner_def Let_def by (simp only: not_not not_True_eq_False not_False_eq_True if_True if_False simp_thms)
    with fixed_messages_clean(4) 4(1) show ?thesis unfolding request_id_route by blast
  next
    case 5
    then have "dispatch_inner E C S kind request s
        = (response_error (qe_request_id request) V4CapabilityDenied ''advertised grants exceed daemon authority'', s)"
      unfolding dispatch_inner_def Let_def by (simp only: not_not not_True_eq_False not_False_eq_True if_True if_False simp_thms)
    with fixed_messages_clean(5) 5(1) show ?thesis unfolding request_id_route by blast
  next
    case 6
    then have "dispatch_inner E C S kind request s
        = (response_error (qe_request_id request) V4InvalidCommand ''command payload is invalid'', s)"
      unfolding dispatch_inner_def Let_def by (simp only: not_not not_True_eq_False not_False_eq_True if_True if_False simp_thms)
    with fixed_messages_clean(6) 6(1) show ?thesis unfolding request_id_route by blast
  qed
qed

section \<open>Responses decode\<close>

lemma frame_schema_known: "v4_known_schema (frame_schema kind)"
  by (cases kind) (simp_all add: v4_known_schema_def)

lemma error_response_decodes:
  assumes "rid = [] \<or> is_ok (v4_route rid)" "is_ok (v4_error_validate \<lparr>ve_code = code, ve_message = message\<rparr>)"
  shows "response_envelope_ok E C (bind_v4_schema kind (response_error rid code message))"
  using assms frame_schema_known by (auto simp: response_envelope_ok_def bind_v4_schema_def response_error_def)

lemma ok_response_decodes:
  assumes match: "matches_event E C command ev" and cmd: "is_ok (v4_command_validate_for_schema E C command (frame_schema kind))"
    and rid: "is_ok (v4_route rid)"
  shows "response_envelope_ok E C (bind_v4_schema kind (response_ok rid ev))"
proof -
  have ne: "rid \<noteq> []" using rid by (auto simp: v4_route_def)
  have valid: "is_ok (v4_event_validate E C ev)" and pairs: "v4_pairs command ev"
    using match by (simp_all add: matches_event_def)
  have conversational: "\<not> administrative_event ev" if "frame_schema kind = APP_SCHEMA_V4_CONVERSATIONS"
    using cmd that administrative_pairs [OF pairs]
    by (auto simp: v4_command_validate_for_schema_def is_ok_bindr v4_ensure_Inr split: option.splits)
  show ?thesis
  proof (cases ev)
    case (EvNegotiated n)
    then obtain req where req: "command = V4Negotiate req" and granted:
      "list_all (v4_contains (gr_requested req)) (vk_capabilities (gn_granted n))"
      using pairs by (cases command) (auto simp: v4_pairs_def admin_pairs_def message_pairs_def content_pairs_def)
    have "list_all is_conversation (vk_capabilities (gn_granted n))"
      if "frame_schema kind = APP_SCHEMA_V4_CONVERSATIONS"
      using cmd that req granted v4_contains_sound
      by (auto simp: v4_command_validate_for_schema_def is_ok_bindr list_all_iff)
    then show ?thesis
      using EvNegotiated valid rid ne frame_schema_known [of kind]
      by (auto simp: response_envelope_ok_def bind_v4_schema_def response_ok_def v4_event_validate_for_schema_def
          is_ok_iff bindr_eq_Inr v4_ensure_Inr)
  qed (use valid rid ne conversational frame_schema_known [of kind] in
      \<open>auto simp: response_envelope_ok_def bind_v4_schema_def response_ok_def v4_event_validate_for_schema_def
          is_ok_iff bindr_eq_Inr v4_ensure_Inr\<close>)
qed

section \<open>Trimming\<close>

text \<open>The page with its first \<open>k\<close> items, which continues after the last of them.\<close>

fun first_items :: "nat \<Rightarrow> v4_event \<Rightarrow> v4_event" where
  "first_items k (EvConversations page) =
     EvConversations (page\<lparr>vcg_conversations := take k (vcg_conversations page),
       vcg_next_after := Some (vc_conversation_id (vcg_conversations page ! (k - 1)))\<rparr>)"
| "first_items k (EvMessages page) =
     EvMessages (page\<lparr>vmg_messages := take k (vmg_messages page),
       vmg_next_after := Some (vm_sequence (vmg_messages page ! (k - 1)))\<rparr>)"
| "first_items k (EvContent page) =
     EvContent (page\<lparr>kg_events := take k (kg_events page),
       kg_next_after := Some (ce_sequence (kg_events page ! (k - 1)))\<rparr>)"
| "first_items k (EvContentEvents page) =
     EvContentEvents (page\<lparr>kg_events := take k (kg_events page),
       kg_next_after := Some (ce_sequence (kg_events page ! (k - 1)))\<rparr>)"
| "first_items k ev = ev"

lemma last_take: "0 < k \<Longrightarrow> k \<le> length xs \<Longrightarrow> last (take k xs) = xs ! (k - 1)"
  by (cases "take k xs = []") (auto simp: last_conv_nth)

lemma trim_tail_first:
  assumes "trim_tail E C r = Some r'"
  shows "\<exists>ev. se_payload r = PayloadOk ev \<and> 1 < event_items ev
    \<and> r' = r\<lparr>se_payload := PayloadOk (first_items (event_items ev - 1) ev)\<rparr>"
proof -
  obtain ev where ev: "se_payload r = PayloadOk ev" using assms by (cases "se_payload r") (auto simp: trim_tail_def)
  have "butlast xs \<noteq> []" "last (butlast xs) = xs ! (length xs - 1 - 1)" if "1 < length xs" for xs :: "'x list"
    using that last_take [of "length xs - 1" xs] by (auto simp: butlast_conv_take)
  with ev assms show ?thesis
    by (cases ev) (auto simp: trim_tail_def Let_def butlast_conv_take last_take split: if_splits)
qed

lemma first_items_nested:
  assumes "0 < j" "j < k" "k < event_items ev"
  shows "first_items j (first_items k ev) = first_items j ev" "event_items (first_items k ev) = k"
  using assms by (cases ev; simp add: min_def)+

lemma first_items_pairs:
  assumes "v4_pairs command ev" "0 < k" "k < event_items ev"
  shows "v4_pairs command (first_items k ev)"
proof -
  have hd_take: "xs = [] \<or> P (hd xs) \<Longrightarrow> take k xs = [] \<or> P (hd (take k xs))" for xs :: "'x list" and P
    using assms(2) by (auto simp: hd_take)
  show ?thesis
    using assms hd_take
    by (cases ev; cases command)
      (auto simp: v4_pairs_def admin_pairs_def message_pairs_def content_pairs_def min_def hd_take)
qed

text \<open>The response that is written: the response itself, a page shortened at its end, or the refusal.\<close>

definition fitted :: "frame_kind \<Rightarrow> v4_response_envelope \<Rightarrow> v4_response_envelope \<Rightarrow> bool" where
  "fitted kind r r' \<longleftrightarrow>
     r' = r
   \<or> kind = Schema3 \<and> (\<exists>ev k. se_payload r = PayloadOk ev \<and> 0 < k \<and> k < event_items ev
        \<and> r' = r\<lparr>se_payload := PayloadOk (first_items k ev)\<rparr>)
   \<or> r' = bind_v4_schema kind (response_too_large r)"

lemma fitted_trim:
  assumes "trim_tail E C r = Some r1" "kind = Schema3" "fitted kind r1 r'"
  shows "fitted kind r r'"
proof -
  from trim_tail_first [OF assms(1)] obtain ev where ev: "se_payload r = PayloadOk ev" "1 < event_items ev"
    "r1 = r\<lparr>se_payload := PayloadOk (first_items (event_items ev - 1) ev)\<rparr>" by blast
  let ?n = "event_items ev - 1"
  have n: "0 < ?n" "?n < event_items ev" using ev(2) by auto
  have same: "response_too_large r1 = response_too_large r" by (simp add: ev(3) response_too_large_def)
  from assms(3) consider "r' = r1"
    | k where "0 < k" "k < event_items (first_items ?n ev)"
        "r' = r1\<lparr>se_payload := PayloadOk (first_items k (first_items ?n ev))\<rparr>"
    | "r' = bind_v4_schema kind (response_too_large r1)"
    by (auto simp: fitted_def ev(3))
  then show ?thesis
  proof cases
    case 1
    with ev n assms(2) show ?thesis unfolding fitted_def by blast
  next
    case 2
    then have k: "0 < k" "k < ?n"
      by (cases ev; simp)+
    then have "first_items k (first_items ?n ev) = first_items k ev" using first_items_nested(1) n(2) by blast
    with 2 k n ev assms(2) show ?thesis unfolding fitted_def by (intro disjI2 disjI1) auto
  next
    case 3
    with same show ?thesis by (simp add: fitted_def)
  qed
qed

lemma fit_response_fitted:
  assumes "\<And>n. n \<le> limit \<Longrightarrow> alloc n" "length (concat (ser (bind_v4_schema kind (response_too_large r)))) \<le> limit"
  shows "\<exists>r'. fit_response E C alloc ser kind limit r = Inr (r', concat (ser r'))
    \<and> length (concat (ser r')) \<le> limit \<and> fitted kind r r'
    \<and> (length (concat (ser r)) \<le> limit \<longrightarrow> r' = r)"
  using assms
proof (induction "response_items r" arbitrary: r rule: less_induct)
  case less
  note out = serialize_bounded_outcome [OF less.prems(1)]
  let ?big = "bind_v4_schema kind (response_too_large r)"
  show ?case
  proof (cases "length (concat (ser r)) \<le> limit")
    case True
    then have "fit_response E C alloc ser kind limit r = Inr (r, concat (ser r))"
      by (subst fit_response.simps) (simp add: out)
    with True show ?thesis by (auto simp: fitted_def)
  next
    case False
    show ?thesis
    proof (cases "if kind = Schema3 then trim_tail E C r else None")
      case None
      then have "fit_response E C alloc ser kind limit r = Inr (?big, concat (ser ?big))"
        using False less.prems(2) by (subst fit_response.simps) (simp add: out Let_def)
      with False less.prems(2) show ?thesis by (auto simp: fitted_def)
    next
      case (Some r1)
      then have t: "kind = Schema3" "trim_tail E C r = Some r1" by (auto split: if_splits)
      have same: "response_too_large r1 = response_too_large r"
        using trim_tail_first [OF t(2)] by (auto simp: response_too_large_def)
      have "\<exists>r'. fit_response E C alloc ser kind limit r1 = Inr (r', concat (ser r'))
          \<and> length (concat (ser r')) \<le> limit \<and> fitted kind r1 r' \<and> (length (concat (ser r1)) \<le> limit \<longrightarrow> r' = r1)"
        by (rule less.hyps [OF trim_tail_items [OF t(2)]]) (use less.prems same in auto)
      moreover have "fit_response E C alloc ser kind limit r = fit_response E C alloc ser kind limit r1"
        using False Some by (subst fit_response.simps) (simp add: out)
      ultimately show ?thesis using False fitted_trim [OF t(2,1)] by auto
    qed
  qed
qed

end
