(* ===== verification/Dispatch_Store.thy ===== *)
theory Dispatch_Store
  imports Dispatch_Facts V4_Reading
begin

text \<open>
  What the store answers to a command passes the check of the handler and pairs with the command:
  so the check after the commit never fires, and a failed command leaves the store as it was.
\<close>

section \<open>Conversations\<close>

lemma conversation_row_found:
  assumes "conversation_row_of d cid = Inr (Some c)"
  obtains r where "find (\<lambda>r. acw_id r = cid \<and> \<not> acw_deleted r) (assistant_conversations d) = Some r"
    "vc_title c = acw_title r" "vc_archived c = acw_archived r" "vc_pinned c = acw_pinned r"
    "vc_conversation_id c = cid" "vc_id c = cid" "is_ok (v4_conversation_validate c)"
  using assms by (auto simp: conversation_row_of_def Let_def bindr_eq_Inr map_err_eq_Inr is_ok_iff split: option.splits)

lemma required_conversation_found:
  assumes "required_conversation d cid = Inr c"
  shows "conversation_row_of d cid = Inr (Some c)"
  using assms by (auto simp: required_conversation_def bindr_eq_Inr ok_or_eq_Inr)

lemma read_conversation_found:
  assumes "v4_conversation_by_id d cid = Inr c"
  shows "conversation_row_of d cid = Inr (Some c)"
  using assms by (auto simp: v4_conversation_by_id_def bindr_eq_Inr ok_or_eq_Inr)

lemma created_title:
  assumes "insert_conversation E d cid title imported ms require = Inr (c, d')"
  shows "conversation_row_of d' cid = Inr (Some c)" "vc_title c = title"
proof -
  from assms obtain d1 seq now where new: "cid \<notin> acw_id ` set (assistant_conversations d1)"
      "insert_assistant_conversation
        \<lparr>acw_id = cid, acw_sequence = seq, acw_title = title, acw_archived = False, acw_pinned = False,
         acw_imported_history = imported, acw_deleted = False, acw_created_at_ms = now, acw_updated_at_ms = now\<rparr> d1
        = Inr d'" "required_conversation d' cid = Inr c"
    unfolding insert_conversation_def by (fastforce simp: bindr_eq_Inr map_err_eq_Inr split: if_splits)
  show row: "conversation_row_of d' cid = Inr (Some c)" using new(3) by (rule required_conversation_found)
  have "find (\<lambda>r. acw_id r = cid \<and> \<not> acw_deleted r) (assistant_conversations d1) = None"
    using new(1) by (auto simp: find_None_iff)
  then have "find (\<lambda>r. acw_id r = cid \<and> \<not> acw_deleted r) (assistant_conversations d')
      = Some \<lparr>acw_id = cid, acw_sequence = seq, acw_title = title, acw_archived = False, acw_pinned = False,
         acw_imported_history = imported, acw_deleted = False, acw_created_at_ms = now, acw_updated_at_ms = now\<rparr>"
    using new(2) by (auto simp: insert_assistant_conversation_Inr find_append)
  with row show "vc_title c = title" by (auto elim: conversation_row_found)
qed

section \<open>Patches\<close>

abbreviation open_row :: "db \<Rightarrow> conversation_id \<Rightarrow> assistant_conversation_row option" where
  "open_row d cid \<equiv> find (\<lambda>r. acw_id r = cid \<and> \<not> acw_deleted r) (assistant_conversations d)"

lemma find_map_kept:
  assumes "\<And>x. p (f x) = p x"
  shows "find p (map f xs) = map_option f (find p xs)"
  using assms by (induction xs) auto

lemma patch_column_open:
  assumes "patch_column x f cid ms d = Inr d'" "open_row d cid = Some r"
    and "\<And>a r. acw_id (f a r) = acw_id r \<and> acw_deleted (f a r) = acw_deleted r"
  obtains now where "open_row d' cid = Some (case x of None \<Rightarrow> r | Some a \<Rightarrow> (f a r)\<lparr>acw_updated_at_ms := now\<rparr>)"
proof (cases x)
  case None
  with assms(1,2) that show thesis by (simp add: patch_column_def)
next
  case (Some a)
  with assms(1) obtain now where "d' = d\<lparr>assistant_conversations := map (\<lambda>r.
      if acw_id r = cid \<and> \<not> acw_deleted r then (f a r)\<lparr>acw_updated_at_ms := now\<rparr> else r) (assistant_conversations d)\<rparr>"
    by (auto simp: patch_column_def bindr_eq_Inr map_err_eq_Inr update_assistant_conversations_Inr)
  then have d': "assistant_conversations d' = map (\<lambda>r.
      if acw_id r = cid \<and> \<not> acw_deleted r then (f a r)\<lparr>acw_updated_at_ms := now\<rparr> else r) (assistant_conversations d)"
    by simp
  have "acw_id r = cid \<and> \<not> acw_deleted r" using assms(2) by (auto dest: find_Some_in)
  then have "open_row d' cid = Some ((f a r)\<lparr>acw_updated_at_ms := now\<rparr>)"
    unfolding d' using assms(2,3) by (subst find_map_kept) auto
  with that Some show thesis by simp
qed

lemma patched_fields:
  assumes "v4_patch_conversation d cid p ms = Inr (c, d')"
  shows "conversation_row_of d' cid = Inr (Some c)" "opt_is (\<lambda>t. t = vc_title c) (vcp_title p)"
    "opt_is (\<lambda>v. v = vc_archived c) (vcp_archived p)" "opt_is (\<lambda>v. v = vc_pinned c) (vcp_pinned p)"
proof -
  from assms obtain d1 d2 u where steps: "touch_conversation d cid = Inr u"
    "patch_column (vcp_title p) (\<lambda>t r. r\<lparr>acw_title := t\<rparr>) cid ms d = Inr d1"
    "patch_column (vcp_archived p) (\<lambda>a r. r\<lparr>acw_archived := a\<rparr>) cid ms d1 = Inr d2"
    "patch_column (vcp_pinned p) (\<lambda>a r. r\<lparr>acw_pinned := a\<rparr>) cid ms d2 = Inr d'"
    "required_conversation d' cid = Inr c"
    by (auto simp: v4_patch_conversation_def bindr_eq_Inr)
  from steps(1) obtain r where r: "open_row d cid = Some r"
    by (auto simp: touch_conversation_def conversation_row_of_def bindr_eq_Inr split: option.splits if_splits)
  obtain n1 where r1: "open_row d1 cid = Some (case vcp_title p of None \<Rightarrow> r
      | Some a \<Rightarrow> r\<lparr>acw_title := a, acw_updated_at_ms := n1\<rparr>)"
    using steps(2) r by (rule patch_column_open) auto
  then obtain q1 where q1: "open_row d1 cid = Some q1" "opt_is (\<lambda>t. t = acw_title q1) (vcp_title p)"
    by (auto simp: opt_is_def split: option.splits)
  obtain n2 where r2: "open_row d2 cid = Some (case vcp_archived p of None \<Rightarrow> q1
      | Some b \<Rightarrow> q1\<lparr>acw_archived := b, acw_updated_at_ms := n2\<rparr>)"
    using steps(3) q1(1) by (rule patch_column_open) auto
  then obtain q2 where q2: "open_row d2 cid = Some q2" "opt_is (\<lambda>t. t = acw_title q2) (vcp_title p)"
    "opt_is (\<lambda>a. a = acw_archived q2) (vcp_archived p)"
    using q1(2) by (auto simp: opt_is_def split: option.splits)
  obtain n3 where r3: "open_row d' cid = Some (case vcp_pinned p of None \<Rightarrow> q2
      | Some b \<Rightarrow> q2\<lparr>acw_pinned := b, acw_updated_at_ms := n3\<rparr>)"
    using steps(4) q2(1) by (rule patch_column_open) auto
  show row: "conversation_row_of d' cid = Inr (Some c)" using steps(5) by (rule required_conversation_found)
  from row obtain r' where "open_row d' cid = Some r'" "vc_title c = acw_title r'" "vc_archived c = acw_archived r'"
    "vc_pinned c = acw_pinned r'" by (rule conversation_row_found)
  with q2 r3 show "opt_is (\<lambda>t. t = vc_title c) (vcp_title p)"
    "opt_is (\<lambda>v. v = vc_archived c) (vcp_archived p)" "opt_is (\<lambda>v. v = vc_pinned c) (vcp_pinned p)"
    by (auto simp: opt_is_def split: option.splits)
qed

section \<open>Pages\<close>

lemma collect_results_from:
  assumes "collect_results f xs = Inr ys" "y \<in> set ys"
  shows "\<exists>x\<in>set xs. f x = Inr y"
  using assms by (induction xs arbitrary: ys) (auto simp: bindr_eq_Inr)

lemma collect_results_length: "collect_results f xs = Inr ys \<Longrightarrow> length ys = length xs"
  by (simp add: collect_results_ok list_all2_lengthD)

lemma listed_page:
  assumes "v4_list_conversations E d q = Inr p"
  shows "is_ok (v4_conversation_page_validate E p)" "length (vcg_conversations p) \<le> vcq_limit q"
  using assms by (auto simp: v4_list_conversations_def list_conversations_def Let_def bindr_eq_Inr map_err_eq_Inr is_ok_iff)

declare fit_messages.simps [simp del] fit_events.simps [simp del]

lemma fit_messages_prefix: "prefix (fst (fit_messages big ms b)) ms \<and> (ms \<noteq> [] \<longrightarrow> fst (fit_messages big ms b) \<noteq> [])"
proof (induction big ms b rule: fit_messages.induct)
  case (1 big ms b)
  show ?case
  proof (cases "length ms > 1 \<and> big ms")
    case True
    then have "fit_messages big ms b = fit_messages big (butlast ms) True" by (subst fit_messages.simps) simp
    moreover have "butlast ms \<noteq> []" using True by (cases ms rule: rev_cases) auto
    ultimately show ?thesis using 1 [OF True] prefixeq_butlast prefix_order.trans by metis
  next
    case False
    then have "fit_messages big ms b = (ms, b)" unfolding fit_messages.simps [of big ms b] by (rule if_not_P)
    then show ?thesis by simp
  qed
qed

lemma page_message_after:
  assumes "message_page E d cid after limit = Inr ms" "m \<in> set ms"
  shows "case_option 0 id after < vm_sequence m"
proof -
  from assms(1) obtain c where c: "sql_sequence (case after of None \<Rightarrow> 0 | Some s \<Rightarrow> s) = Inr c"
    and rows: "collect_results (\<lambda>m. project_message E cid m (has_truncation_notice E d m))
      (take limit (sort_key mw_sequence (filter (\<lambda>m. mw_conversation_id m = cid \<and> c < mw_sequence m)
         (assistant_messages d)))) = Inr ms"
    by (auto simp: message_page_def bindr_eq_Inr)
  from rows assms(2) obtain row b where row: "c < mw_sequence row" "project_message E cid row b = Inr m"
    using collect_results_from [OF rows assms(2)] by (auto dest!: in_set_takeD)
  have "vm_sequence m = u64_or_zero (mw_sequence row)"
    using row(2) by (auto simp: project_message_def Let_def bindr_eq_Inr map_err_eq_Inr)
  moreover have "c = int (case_option 0 id after)" using c by (cases after) (simp_all add: rust_simps)
  moreover have "u64_or_zero (mw_sequence row) > 0"
    using row(2) by (auto simp: project_message_def Let_def bindr_eq_Inr map_err_eq_Inr v4_message_validate_def v4_ensure_Inr)
  ultimately show ?thesis using row(1) by (auto simp: u64_or_zero_def u64_try_from_Some split: option.splits)
qed

lemma fit_message_page_shown:
  "\<exists>big b. vmg_messages (fit_message_page E pg) = fst (fit_messages big (vmg_messages pg) b)"
  "vmg_conversation_id (fit_message_page E pg) = vmg_conversation_id pg"
  by (auto simp: fit_message_page_def Let_def split_beta)

lemma messages_pair:
  assumes "v4_messages E d q = Inr p"
  shows "is_ok (v4_message_page_validate E p)" "message_pairs q (EvMessages p)"
proof -
  let ?c = "vmq_conversation_id q"
  from assms obtain ms more where ms: "message_page E d ?c (vmq_after q) (min (vmq_limit q + 1) 65535) = Inr ms"
    and p: "p = fit_message_page E \<lparr>vmg_conversation_id = ?c, vmg_messages = take (vmq_limit q) ms,
              vmg_next_after = more\<rparr>"
    and ok: "v4_message_page_validate E p = Inr ()"
    by (auto simp: v4_messages_def Let_def bindr_eq_Inr map_err_eq_Inr split: if_splits)
  show "is_ok (v4_message_page_validate E p)" using ok by simp
  have cid: "vmg_conversation_id p = ?c" by (simp add: p fit_message_page_shown(2))
  obtain big b where shown: "vmg_messages p = fst (fit_messages big (take (vmq_limit q) ms) b)"
    using fit_message_page_shown(1) [of E "\<lparr>vmg_conversation_id = ?c, vmg_messages = take (vmq_limit q) ms,
              vmg_next_after = more\<rparr>"] by (auto simp: p)
  from shown fit_messages_prefix [of big "take (vmq_limit q) ms" b]
  have pre: "prefix (vmg_messages p) (take (vmq_limit q) ms)" by simp
  have "length (vmg_messages p) \<le> vmq_limit q" using prefix_length_le [OF pre] by simp
  moreover have "case_option 0 id (vmq_after q) < vm_sequence m" if "m \<in> set (vmg_messages p)" for m
    using page_message_after [OF ms] that set_mono_prefix [OF pre] by (blast dest: in_set_takeD)
  ultimately show "message_pairs q (EvMessages p)" using cid hd_in_set by (fastforce simp: message_pairs_def)
qed

lemma content_pair:
  assumes "v4_content E d q = Inr p"
  shows "is_ok (v4_content_page_validate E p)" "content_pairs q (EvContent p)"
proof -
  from assms obtain es where es: "content_page E d (kq_conversation_id q) (kq_run_id q) (kq_after q) (kq_limit q) = Inr es"
    and p: "p = candidate_page q (fit_events (page_fits E q) es)"
    by (auto simp: v4_content_def bindr_eq_Inr map_err_eq_Inr Let_def split: if_splits)
  have "v4_content_page_validate E p = Inr ()"
    using assms by (auto simp: v4_content_def bindr_eq_Inr map_err_eq_Inr Let_def split: if_splits)
  then show "is_ok (v4_content_page_validate E p)" by simp
  have "length es \<le> kq_limit q"
    using es unfolding content_page_def by (auto simp: bindr_eq_Inr split: if_splits dest!: collect_results_length)
  moreover have "length (fit_events (page_fits E q) es) \<le> length es" using fit_events_prefix [of "page_fits E q" es] by (blast intro: prefix_length_le)
  ultimately show "content_pairs q (EvContent p)" by (simp add: p content_pairs_def candidate_page_def)
qed

section \<open>Turns\<close>

lemma admitted_pair:
  assumes "v4_admit_turn E fresh msg d request ms = Inr (s, d')"
  shows "is_ok (v4_turn_submission_validate s)" "vs_conversation_id s = vt_conversation_id request"
    "vs_idempotency_key s = vt_idempotency_key request"
proof -
  have "is_ok (v4_turn_submission_validate s) \<and> vs_conversation_id s = vt_conversation_id request
      \<and> vs_idempotency_key s = vt_idempotency_key request"
    using assms
    by (auto simp: v4_admit_turn_def insert_admitted_turn_def duplicate_submission_def Let_def bindr_eq_Inr
        map_err_eq_Inr is_ok_iff split: option.splits if_splits)
  then show "is_ok (v4_turn_submission_validate s)" "vs_conversation_id s = vt_conversation_id request"
    "vs_idempotency_key s = vt_idempotency_key request" by simp_all
qed

lemma looked_up_pair:
  assumes wf: "db_wf E d" and "v4_lookup_turn E d cid key = Inr (Some s)"
  shows "is_ok (v4_turn_submission_validate s)" "vs_conversation_id s = cid" "vs_idempotency_key s = key"
proof -
  from assms(2) obtain run where run: "run_by_idempotency_key E d key = Inr (Some run)"
    "rec_conversation_id run = Some cid" "submission_for E d (rec_id run) = Inr s"
    by (auto simp: v4_lookup_turn_def bindr_eq_Inr split: option.splits if_splits)
  have same: "run_by_id E d (rec_id run) = Inr (Some run)" "rec_idempotency_key run = key"
    using run(1) ledger_key [OF wf] by simp_all
  from run(3) same(1) have "is_ok (v4_turn_submission_validate s) \<and> rec_conversation_id run = Some (vs_conversation_id s)
      \<and> vs_idempotency_key s = rec_idempotency_key run"
    by (auto simp: submission_for_def Let_def bindr_eq_Inr map_err_eq_Inr ok_or_eq_Inr)
  with run(2) same(2) show "is_ok (v4_turn_submission_validate s)" "vs_conversation_id s = cid" "vs_idempotency_key s = key"
    by simp_all
qed

section \<open>Answers\<close>

lemma reads_Inr: "reads d f r = Inr (ev, d') \<longleftrightarrow> d' = d \<and> (\<exists>a. r = Inr a \<and> ev = f a)"
  by (auto simp: reads_def bindr_eq_Inr map_err_eq_Inr)

lemma writes_Inr: "writes f r = Inr (ev, d') \<longleftrightarrow> (\<exists>a. r = Inr (a, d') \<and> ev = f a)"
  by (auto simp: writes_def bindr_eq_Inr map_err_eq_Inr)

lemma conversation_id_of_Inr: "conversation_id_of E s = Inr cid \<Longrightarrow> cid = s"
  by (auto simp: conversation_id_of_def map_err_eq_Inr parse_uuid_id_Inr)

lemma conversation_answer:
  assumes "conversation_row_of d cid = Inr (Some c)"
  shows "is_ok (v4_conversation_validate c)" "vc_conversation_id c = cid" "vc_id c = cid"
  using assms by (auto elim: conversation_row_found)

lemma negotiated_pairs:
  assumes "is_ok (v4_command_validate E C (V4Negotiate req))" "negotiate req cancel_turns = Inr ev"
  shows "matches_event E C (V4Negotiate req) ev"
proof -
  have ok: "is_ok (v4_capability_set_validate (gr_requested req))"
    using assms(1) by (auto simp: is_ok_bindr)
  let ?granted = "filter (\<lambda>c. c \<in> set SERVED \<or> cancel_turns \<and> c = CapCancelTurns) (vk_capabilities (gr_requested req))"
  from assms(2) have ev: "ev = EvNegotiated \<lparr>gn_protocol_version = APP_PROTOCOL_V4, gn_schema_version = APP_SCHEMA_V4,
      gn_granted = \<lparr>vk_capabilities = ?granted\<rparr>\<rparr>" and v: "APP_PROTOCOL_V4 \<in> set (gr_supported_versions req)"
    by (auto simp: negotiate_exact [OF ok] split: if_splits)
  have "sorted_wrt (<) ?granted"
    using ok by (simp add: v4_capability_set_validate_def window_not_increasing_iff sorted_wrt_filter)
  then show ?thesis
    using v by (simp add: ev matches_event_def v4_pairs_def v4_known_schema_def v4_contains_exact [OF ok] list_all_iff
        v4_capability_set_validate_def window_not_increasing_iff v4_ensure_def ensure_def)
qed

text \<open>A command carries what the readers of its fields accept.\<close>

fun command_typed :: "externals \<Rightarrow> v4_command \<Rightarrow> bool" where
  "command_typed E (V4SubmitTurn request) = submit_turn_typed E request"
| "command_typed E _ = True"

definition writing_capability :: "v4_command \<Rightarrow> bool" where
  "writing_capability command \<longleftrightarrow>
     v4_required_capability command \<in> {Some CapWriteConversations, Some CapSubmitTurns}"

lemma patched_answer:
  assumes "v4_patch_conversation d cid p ms = Inr (c, d')"
  shows "is_ok (v4_conversation_validate c)" "vc_conversation_id c = cid" "vc_id c = cid"
  using conversation_answer [OF patched_fields(1) [OF assms]] by blast+

lemma store_reads_pair:
  assumes "db_wf E d" "\<not> writing_capability command" "\<not> is_negotiate command"
    and "handle_store E ids d command ms = Inr (ev, d')"
  shows "matches_event E C command ev" "d' = d"
proof -
  have "matches_event E C command ev \<and> d' = d"
    using assms(2,3,4)
  proof (cases command)
    case (V4LookupTurn cid key)
    with assms(4) obtain s where "v4_lookup_turn E d cid key = Inr s" "ev = EvTurnLookup cid key s" "d' = d"
      by (auto simp: handle_store_def reads_Inr)
    with V4LookupTurn looked_up_pair [OF assms(1)] show ?thesis
      by (cases s) (simp_all add: matches_event_def v4_pairs_def is_ok_bindr opt_validate_def is_ok_iff v4_ensure_def ensure_def)
  next
    case (V4ExportConversation q)
    with assms(4) show ?thesis
      by (auto simp: handle_store_def reads_Inr matches_event_def v4_pairs_def bindr_eq_Inr
          dest!: conversation_id_of_Inr read_conversation_found dest: conversation_answer)
  next
    case (V4ReadConversation cid)
    with assms(4) show ?thesis
      by (auto simp: handle_store_def reads_Inr matches_event_def v4_pairs_def
          dest!: read_conversation_found dest: conversation_answer)
  next
    case (V4ListConversations q)
    with assms(4) show ?thesis by (auto simp: handle_store_def reads_Inr matches_event_def v4_pairs_def dest: listed_page)
  next
    case (V4SearchConversations q)
    with assms(4) show ?thesis
      by (auto simp: handle_store_def reads_Inr matches_event_def v4_pairs_def v4_search_conversations_def dest: listed_page)
  next
    case (V4ReadMessages q)
    with assms(4) show ?thesis by (auto simp: handle_store_def reads_Inr matches_event_def v4_pairs_def dest: messages_pair)
  next
    case (V4ListMessages q)
    with assms(4) show ?thesis by (auto simp: handle_store_def reads_Inr matches_event_def v4_pairs_def dest: messages_pair)
  next
    case (V4ReadContent q)
    with assms(4) show ?thesis by (auto simp: handle_store_def reads_Inr matches_event_def v4_pairs_def dest: content_pair)
  next
    case (V4ListContentEvents q)
    with assms(4) show ?thesis by (auto simp: handle_store_def reads_Inr matches_event_def v4_pairs_def dest: content_pair)
  qed (auto simp: handle_store_def writing_capability_def matches_event_def v4_pairs_def v4_ensure_def ensure_def)
  then show "matches_event E C command ev" "d' = d" by blast+
qed

lemma store_writes_pair:
  assumes "writing_capability command" "command_typed E command" "canonical E (fi_run ids)"
    and "handle_store E ids d command ms = Inr (ev, d')"
  shows "matches_event E C command ev" "v4_step E d d'"
proof -
  note ans = handle_store_def writes_Inr matches_event_def v4_pairs_def
  have "matches_event E C command ev \<and> v4_step E d d'"
    using assms(1,4)
  proof (cases command)
    case (V4CreateConversation title)
    with assms(4) obtain c where c: "v4_create_conversation E (fi_conversation ids) d title ms = Inr (c, d')" "ev = EvConversation c"
      by (auto simp: handle_store_def writes_Inr)
    with V4CreateConversation show ?thesis
      using created_title [of E d "fi_conversation ids" title True ms False c d'] conversation_answer
      by (auto simp: matches_event_def v4_pairs_def v4_create_conversation_def [symmetric] intro: v4_step.create)
  next
    case (V4UpdateConversation cid patch)
    with assms(4) show ?thesis
      using patched_fields patched_answer by (auto simp: ans intro: v4_step.patch)
  next
    case (V4ArchiveConversation q)
    with assms(4) show ?thesis
      using patched_fields(3) patched_answer
      by (fastforce simp: ans bindr_eq_Inr v4_archive_conversation_def opt_is_def
          dest: conversation_id_of_Inr intro: v4_step.patch)
  next
    case (V4RenameConversation q)
    with assms(4) show ?thesis
      using patched_fields(2) patched_answer
      by (fastforce simp: ans bindr_eq_Inr v4_rename_conversation_def opt_is_def
          dest: conversation_id_of_Inr intro: v4_step.patch)
  next
    case (V4DeleteConversation q)
    with assms(4) show ?thesis
      by (auto simp: ans bindr_eq_Inr map_err_eq_Inr intro: v4_step.delete)
  next
    case (V4SubmitTurn request)
    with assms show ?thesis
      using admitted_pair by (fastforce simp: ans intro: v4_step.admit)
  qed (simp_all add: writing_capability_def)
  then show "matches_event E C command ev" "v4_step E d d'" by blast+
qed

lemma handle_answers:
  assumes "db_wf E d" "is_ok (v4_command_validate E C command)" "command_typed E command" "canonical E (fi_run ids)"
  shows "case handle E C ids d command ms of
      (Inr ev, d') \<Rightarrow> matches_event E C command ev \<and> (if writing_capability command then v4_step E d d' else d' = d)
    | (Inl f, d') \<Rightarrow> d' = d \<and> handle_store E ids d command ms = Inl f"
proof (cases "handle_store E ids d command ms")
  case (Inl f)
  then show ?thesis by (simp add: handle_def)
next
  case (Inr r)
  obtain ev d' where r: "r = (ev, d')" by (cases r)
  show ?thesis
  proof (cases "is_negotiate command")
    case True
    then obtain req where req: "command = V4Negotiate req" by (cases command) simp_all
    with Inr r have "negotiate req False = Inr ev" "d' = d" by (auto simp: handle_store_def bindr_eq_Inr)
    moreover have "matches_event E C command ev" using assms(2) calculation(1) req negotiated_pairs by blast
    ultimately show ?thesis using Inr r req by (simp add: handle_def writing_capability_def)
  next
    case False
    have ok: "matches_event E C command ev \<and> (if writing_capability command then v4_step E d d' else d' = d)"
      using store_reads_pair [OF assms(1) _ False] store_writes_pair [OF _ assms(3,4)] Inr r by simp
    then have "v4_event_validate E C ev = Inr ()" by (simp add: matches_event_def is_ok_iff)
    then have "handle E C ids d command ms = (Inr ev, d')"
      using False Inr r by (cases command) (simp_all add: handle_def)
    with ok show ?thesis by simp
  qed
qed

end
