(* ===== verification/V3_Protocol.thy ===== *)
theory V3_Protocol
  imports App_Contracts Framing Run_Store
begin

text \<open>
  Protocol version 3: the capabilities, commands and events of \<open>src/app_core/v3.rs\<close>, the tool
  contracts of \<open>v3_tool.rs\<close> and the model contracts of \<open>v3_model.rs\<close>, each with its validation and
  the digests that bind a request to an approval or a result.
\<close>

section \<open>Bounds and fields\<close>

definition APP_PROTOCOL_V3 :: nat where "APP_PROTOCOL_V3 = 3"
definition APP_SCHEMA_V3 :: nat where "APP_SCHEMA_V3 = 4"
definition MAX_V3_PAGE :: nat where "MAX_V3_PAGE = 32"
definition V3_MAX_ID_BYTES :: nat where "V3_MAX_ID_BYTES = 128"
definition V3_MAX_LABEL_BYTES :: nat where "V3_MAX_LABEL_BYTES = 256"
definition V3_MAX_QUERY_BYTES :: nat where "V3_MAX_QUERY_BYTES = 4 * 1024"
definition MAX_ERROR_MESSAGE_BYTES :: nat where "MAX_ERROR_MESSAGE_BYTES = 2 * 1024"

definition v3_validate_id :: "string \<Rightarrow> validation_error + unit" where
  "v3_validate_id v =
     (if v = [] \<or> length v > V3_MAX_ID_BYTES
         \<or> \<not> list_all (\<lambda>c. is_ascii_alphanumeric c \<or> c \<in> {CHR ''.'', CHR ''_'', CHR '':'', CHR ''-''}) v
      then Inl ''invalid v3 identifier'' else Inr ())"

definition v3_validate_digest :: "string \<Rightarrow> validation_error + unit" where
  "v3_validate_digest v =
     (if length v \<noteq> 64 \<or> \<not> list_all is_lower_hex v then Inl ''invalid v3 sha256 digest'' else Inr ())"

definition v3_validate_text :: "string \<Rightarrow> nat \<Rightarrow> string \<Rightarrow> validation_error + unit" where
  "v3_validate_text v max_bytes message =
     (if trim v = [] \<or> length v > max_bytes \<or> has_control v then Inl message else Inr ())"

text \<open>\<open>validate_id\<close> on each of several fields in turn.\<close>

definition v3_validate_ids :: "string list \<Rightarrow> validation_error + unit" where
  "v3_validate_ids vs = for_each v3_validate_id vs"

section \<open>Capabilities\<close>

datatype v3_capability =
    ListToolsCap | InvokeToolsCap | DecideToolApprovalsCap | CancelToolsCap | ReadMemoryCap
  | ReadModelsCap | DownloadModelsCap | ManageModelsCap | ReadTrainingCap | ManageTrainingCap
  | ReadWorkersCap | CancelJobsCap | ReadClaimsByIdCap | PollEventsCap | InferModelsCap

fun v3_capability_index :: "v3_capability \<Rightarrow> nat" where
  "v3_capability_index ListToolsCap = 0"
| "v3_capability_index InvokeToolsCap = 1"
| "v3_capability_index DecideToolApprovalsCap = 2"
| "v3_capability_index CancelToolsCap = 3"
| "v3_capability_index ReadMemoryCap = 4"
| "v3_capability_index ReadModelsCap = 5"
| "v3_capability_index DownloadModelsCap = 6"
| "v3_capability_index ManageModelsCap = 7"
| "v3_capability_index ReadTrainingCap = 8"
| "v3_capability_index ManageTrainingCap = 9"
| "v3_capability_index ReadWorkersCap = 10"
| "v3_capability_index CancelJobsCap = 11"
| "v3_capability_index ReadClaimsByIdCap = 12"
| "v3_capability_index PollEventsCap = 13"
| "v3_capability_index InferModelsCap = 14"

lemma v3_capability_index_inj: "v3_capability_index a = v3_capability_index b \<Longrightarrow> a = b"
  by (cases a; cases b) simp_all

instantiation v3_capability :: linorder
begin

definition less_eq_v3_capability :: "v3_capability \<Rightarrow> v3_capability \<Rightarrow> bool" where
  "less_eq_v3_capability a b \<longleftrightarrow> v3_capability_index a \<le> v3_capability_index b"

definition less_v3_capability :: "v3_capability \<Rightarrow> v3_capability \<Rightarrow> bool" where
  "less_v3_capability a b \<longleftrightarrow> v3_capability_index a < v3_capability_index b"

instance
  by standard
    (auto simp: less_eq_v3_capability_def less_v3_capability_def dest: v3_capability_index_inj)

end

record v3_capability_set =
  v3k_capabilities :: "v3_capability list"

definition v3_capability_set_validate :: "v3_capability_set \<Rightarrow> validation_error + unit" where
  "v3_capability_set_validate s =
     (if window_not_increasing (v3k_capabilities s)
      then Inl ''v3 capabilities must be strictly ordered and duplicate-free'' else Inr ())"

definition v3_from_sorted :: "v3_capability list \<Rightarrow> validation_error + v3_capability_set" where
  "v3_from_sorted cs =
     (let s = \<lparr>v3k_capabilities = cs\<rparr> in bindr (v3_capability_set_validate s) (\<lambda>_. Inr s))"

definition v3_deny_all :: v3_capability_set where
  "v3_deny_all = \<lparr>v3k_capabilities = []\<rparr>"

definition v3_contains :: "v3_capability_set \<Rightarrow> v3_capability \<Rightarrow> bool" where
  "v3_contains s c = binary_search_window (v3k_capabilities s) c 0 (length (v3k_capabilities s))"

record v3_grant_request =
  v3g_supported_versions :: "nat list"
  v3g_requested :: v3_capability_set

definition v3_grant_request_validate :: "v3_grant_request \<Rightarrow> validation_error + unit" where
  "v3_grant_request_validate r =
     (let vs = v3g_supported_versions r in
      if vs = [] \<or> length vs > 8 \<or> window_not_increasing vs \<or> APP_PROTOCOL_V3 \<notin> set vs
      then Inl ''supported versions must be ordered, unique, bounded, and include v3''
      else v3_capability_set_validate (v3g_requested r))"

record v3_grant_negotiation =
  v3n_protocol_version :: nat
  v3n_schema_version :: nat
  v3n_granted :: v3_capability_set

definition v3_grant_negotiation_validate :: "v3_grant_negotiation \<Rightarrow> validation_error + unit" where
  "v3_grant_negotiation_validate n =
     (if v3n_protocol_version n \<noteq> APP_PROTOCOL_V3 \<or> v3n_schema_version n \<noteq> APP_SCHEMA_V3
      then Inl ''invalid v3 negotiation versions'' else v3_capability_set_validate (v3n_granted n))"

definition v3_grant_negotiation_validate_for ::
    "v3_grant_negotiation \<Rightarrow> v3_grant_request \<Rightarrow> validation_error + unit" where
  "v3_grant_negotiation_validate_for n r =
     bindr (v3_grant_request_validate r) (\<lambda>_.
     bindr (v3_grant_negotiation_validate n) (\<lambda>_.
       if list_ex (\<lambda>g. \<not> v3_contains (v3g_requested r) g) (v3k_capabilities (v3n_granted n))
       then Inl ''v3 negotiation granted an unrequested capability'' else Inr ()))"

section \<open>Requests\<close>

record v3_page_query =
  v3q_after :: nat
  v3q_through :: "nat option"
  v3q_limit :: nat

definition v3_page_query_validate :: "v3_page_query \<Rightarrow> validation_error + unit" where
  "v3_page_query_validate q =
     (if v3q_limit q = 0 \<or> v3q_limit q > MAX_V3_PAGE then Inl ''invalid v3 page limit''
      else if (case v3q_through q of None \<Rightarrow> False | Some through \<Rightarrow> v3q_after q > through)
      then Inl ''v3 cursor exceeds watermark'' else Inr ())"

record v3_action =
  v3a_resource_id :: string
  v3a_operation_id :: string

definition v3_action_validate :: "v3_action \<Rightarrow> validation_error + unit" where
  "v3_action_validate a = v3_validate_ids [v3a_resource_id a, v3a_operation_id a]"

record v3_resource_query =
  v3r_resource_id :: string

definition v3_resource_query_validate :: "v3_resource_query \<Rightarrow> validation_error + unit" where
  "v3_resource_query_validate q = v3_validate_id (v3r_resource_id q)"

record v3_search_request =
  v3s_space_id :: string
  v3s_query :: string
  v3s_page :: v3_page_query

definition v3_search_request_validate :: "v3_search_request \<Rightarrow> validation_error + unit" where
  "v3_search_request_validate s =
     bindr (v3_validate_id (v3s_space_id s)) (\<lambda>_.
     bindr (v3_validate_text (v3s_query s) V3_MAX_QUERY_BYTES ''invalid v3 search query'') (\<lambda>_.
       v3_page_query_validate (v3s_page s)))"

record v3_metric_query =
  v3mq_operation_id :: string
  v3mq_page :: v3_page_query

definition v3_metric_query_validate :: "v3_metric_query \<Rightarrow> validation_error + unit" where
  "v3_metric_query_validate q =
     bindr (v3_validate_id (v3mq_operation_id q)) (\<lambda>_. v3_page_query_validate (v3mq_page q))"

record v3_model_action =
  v3m_model_id :: string
  v3m_revision :: string
  v3m_operation_id :: string

definition v3_model_action_validate :: "v3_model_action \<Rightarrow> validation_error + unit" where
  "v3_model_action_validate a = v3_validate_ids [v3m_model_id a, v3m_revision a, v3m_operation_id a]"

record v3_training_start =
  v3t_dataset_id :: string
  v3t_base_model_id :: string
  v3t_base_revision :: string
  v3t_operation_id :: string
  v3t_seed :: nat

definition v3_training_start_validate :: "v3_training_start \<Rightarrow> validation_error + unit" where
  "v3_training_start_validate t =
     v3_validate_ids [v3t_dataset_id t, v3t_base_model_id t, v3t_base_revision t, v3t_operation_id t]"

section \<open>Tools\<close>

definition MAX_TOOL_DESCRIPTION_BYTES :: nat where "MAX_TOOL_DESCRIPTION_BYTES = 1024"
definition MAX_TOOL_JSON_BYTES :: nat where "MAX_TOOL_JSON_BYTES = 32 * 1024"
definition MAX_TOOL_JSON_DEPTH :: nat where "MAX_TOOL_JSON_DEPTH = 16"
definition TOOL_CALL_DIGEST_DOMAIN :: string where "TOOL_CALL_DIGEST_DOMAIN = ''abbey:v3-tool-call:v1''"

fun json_depth :: "json \<Rightarrow> nat" where
  "json_depth (JArray vs) = 1 + foldr max (map json_depth vs) 0"
| "json_depth (JObject fs) = 1 + foldr max (map (\<lambda>f. json_depth (snd f)) fs) 0"
| "json_depth _ = 0"

definition validate_json_value :: "externals \<Rightarrow> json \<Rightarrow> string \<Rightarrow> validation_error + unit" where
  "validate_json_value E v message =
     (if length (json_to_string E v) > MAX_TOOL_JSON_BYTES \<or> json_depth v > MAX_TOOL_JSON_DEPTH
      then Inl message else Inr ())"

fun json_is_object :: "json \<Rightarrow> bool" where
  "json_is_object (JObject _) = True"
| "json_is_object _ = False"

definition validate_json_object :: "externals \<Rightarrow> json \<Rightarrow> string \<Rightarrow> validation_error + unit" where
  "validate_json_object E v message =
     (if \<not> json_is_object v then Inl message else validate_json_value E v message)"

text \<open>Keys of an object are distinct, so inserting them in order sorts the entries.\<close>

fun canonical_json :: "json \<Rightarrow> json" where
  "canonical_json (JArray vs) = JArray (map canonical_json vs)"
| "canonical_json (JObject fs) = JObject (sort_key fst (map (\<lambda>f. (fst f, canonical_json (snd f))) fs))"
| "canonical_json v = v"

text \<open>The big-endian bytes of a number of \<open>n\<close> bytes.\<close>

definition be_bytes :: "nat \<Rightarrow> nat \<Rightarrow> string" where
  "be_bytes n v = map (\<lambda>i. char_of (v div 256 ^ (n - 1 - i) mod 256)) [0..<n]"

definition digest_field :: "string \<Rightarrow> string" where
  "digest_field v = be_bytes 8 (min (length v) (u64_bound - 1)) @ v"

datatype v3_tool_effect = EffectReadOnly | EffectMutating | EffectDestructive

record v3_tool_descriptor =
  td_tool_id :: string
  td_description :: string
  td_effect :: v3_tool_effect
  td_input_schema :: json

definition v3_tool_descriptor_validate :: "externals \<Rightarrow> v3_tool_descriptor \<Rightarrow> validation_error + unit" where
  "v3_tool_descriptor_validate E t =
     bindr (v3_validate_id (td_tool_id t)) (\<lambda>_.
     bindr (v3_validate_text (td_description t) MAX_TOOL_DESCRIPTION_BYTES ''invalid v3 tool description'') (\<lambda>_.
       validate_json_object E (td_input_schema t) ''invalid or oversized v3 tool schema''))"

record v3_tool_page =
  v3tp_after :: nat
  v3tp_through :: nat
  v3tp_tools :: "v3_tool_descriptor list"

definition v3_tool_page_validate :: "externals \<Rightarrow> v3_tool_page \<Rightarrow> validation_error + unit" where
  "v3_tool_page_validate E p =
     (if v3tp_after p > v3tp_through p \<or> length (v3tp_tools p) > MAX_V3_PAGE then Inl ''invalid v3 tool page''
      else for_each (v3_tool_descriptor_validate E) (v3tp_tools p))"

record v3_tool_call =
  v3tc_tool_id :: string
  v3tc_call_id :: string
  v3tc_input :: json

definition v3_tool_call_validate :: "externals \<Rightarrow> v3_tool_call \<Rightarrow> validation_error + unit" where
  "v3_tool_call_validate E c =
     bindr (v3_validate_id (v3tc_tool_id c)) (\<lambda>_.
     bindr (v3_validate_id (v3tc_call_id c)) (\<lambda>_.
       validate_json_object E (v3tc_input c) ''invalid or oversized v3 tool input''))"

definition approval_digest :: "externals \<Rightarrow> v3_tool_call \<Rightarrow> validation_error + string" where
  "approval_digest E c =
     bindr (v3_tool_call_validate E c) (\<lambda>_.
       Inr (hex_string (sha256 E (TOOL_CALL_DIGEST_DOMAIN @ digest_field (v3tc_call_id c)
         @ digest_field (v3tc_tool_id c) @ digest_field (json_to_string E (canonical_json (v3tc_input c)))))))"

datatype v3_operation_state =
    V3Available | V3Queued | V3Running | V3InputRequired | V3Succeeded | V3Failed | V3Denied
  | V3Cancelled | V3NotDownloaded

record v3_tool_result =
  v3tr_tool_id :: string
  v3tr_call_id :: string
  v3tr_state :: v3_operation_state
  v3tr_output :: json

definition v3_tool_result_validate :: "externals \<Rightarrow> v3_tool_result \<Rightarrow> validation_error + unit" where
  "v3_tool_result_validate E r =
     bindr (v3_validate_id (v3tr_tool_id r)) (\<lambda>_.
     bindr (v3_validate_id (v3tr_call_id r)) (\<lambda>_.
       if v3tr_state r \<notin> {V3Succeeded, V3Failed} then Inl ''v3 tool result must be terminal''
       else validate_json_value E (v3tr_output r) ''invalid or oversized v3 tool output''))"

datatype v3_tool_approval_state =
  V3ApPending | V3ApApproved | V3ApDenied | V3ApCancelled | V3ApExpired | V3ApConsumed

record v3_tool_approval_status =
  v3ta_tool_id :: string
  v3ta_call_id :: string
  v3ta_call_digest :: string
  v3ta_state :: v3_tool_approval_state
  v3ta_expires_at_ms :: nat

definition v3_tool_approval_status_validate :: "v3_tool_approval_status \<Rightarrow> validation_error + unit" where
  "v3_tool_approval_status_validate s =
     bindr (v3_validate_id (v3ta_tool_id s)) (\<lambda>_.
     bindr (v3_validate_id (v3ta_call_id s)) (\<lambda>_.
     bindr (v3_validate_digest (v3ta_call_digest s)) (\<lambda>_.
       if v3ta_expires_at_ms s = 0 then Inl ''invalid v3 tool approval expiry'' else Inr ())))"

record v3_tool_decision =
  v3td_call_id :: string
  v3td_call_digest :: string
  v3td_decision_id :: string

definition v3_tool_decision_validate :: "v3_tool_decision \<Rightarrow> validation_error + unit" where
  "v3_tool_decision_validate d =
     bindr (v3_validate_id (v3td_call_id d)) (\<lambda>_.
     bindr (v3_validate_digest (v3td_call_digest d)) (\<lambda>_. v3_validate_id (v3td_decision_id d)))"

section \<open>Models\<close>

definition MAX_V3_MODEL_PROMPT_BYTES :: nat where "MAX_V3_MODEL_PROMPT_BYTES = MAX_APP_FRAME_BYTES"
definition MAX_V3_MODEL_OUTPUT_BYTES :: nat where "MAX_V3_MODEL_OUTPUT_BYTES = 32 * 1024"
definition MAX_V3_MODEL_OUTPUT_TOKENS :: nat where "MAX_V3_MODEL_OUTPUT_TOKENS = 256"
definition REQUEST_DIGEST_DOMAIN :: string where
  "REQUEST_DIGEST_DOMAIN = ''abbey.protocol-v3.exact-model-inference.request.v1'' @ [CHR 0x00]"
definition OUTPUT_DIGEST_DOMAIN :: string where
  "OUTPUT_DIGEST_DOMAIN = ''abbey.protocol-v3.exact-model-inference.output.v1'' @ [CHR 0x00]"

datatype v3_model_device = DeviceCpu | DeviceMetal | DeviceCuda

record v3_model_inference_request =
  v3i_model_id :: string
  v3i_revision :: string
  v3i_prompt :: string
  v3i_max_output_tokens :: nat
  v3i_request_digest :: string

definition computed_digest :: "externals \<Rightarrow> v3_model_inference_request \<Rightarrow> string" where
  "computed_digest E r =
     hex_string (sha256 E (REQUEST_DIGEST_DOMAIN @ digest_field (v3i_model_id r) @ digest_field (v3i_revision r)
       @ digest_field (v3i_prompt r) @ be_bytes 2 (v3i_max_output_tokens r)))"

definition v3_model_inference_request_json :: "v3_model_inference_request \<Rightarrow> json" where
  "v3_model_inference_request_json r =
     JObject [(''model_id'', JString (v3i_model_id r)), (''revision'', JString (v3i_revision r)),
       (''prompt'', JString (v3i_prompt r)), (''max_output_tokens'', JNumber (PosInt (v3i_max_output_tokens r))),
       (''request_digest'', JString (v3i_request_digest r))]"

definition v3_model_inference_request_validate ::
    "externals \<Rightarrow> v3_model_inference_request \<Rightarrow> validation_error + unit" where
  "v3_model_inference_request_validate E r =
     bindr (v3_validate_id (v3i_model_id r)) (\<lambda>_.
     bindr (v3_validate_id (v3i_revision r)) (\<lambda>_.
       if trim (v3i_prompt r) = [] \<or> length (v3i_prompt r) > MAX_V3_MODEL_PROMPT_BYTES
          \<or> any_control (\<lambda>c. byte_of c \<in> {9, 10, 13}) (v3i_prompt r)
       then Inl ''invalid v3 model prompt''
       else if v3i_max_output_tokens r = 0 \<or> v3i_max_output_tokens r > MAX_V3_MODEL_OUTPUT_TOKENS
       then Inl ''invalid v3 model output-token limit''
       else bindr (v3_validate_digest (v3i_request_digest r)) (\<lambda>_.
         if v3i_request_digest r \<noteq> computed_digest E r then Inl ''v3 model request digest mismatch''
         else if length (json_to_string E (v3_model_inference_request_json r)) > MAX_APP_FRAME_BYTES
         then Inl ''v3 model request exceeds frame limit'' else Inr ())))"

definition v3_model_inference_request_new ::
    "externals \<Rightarrow> string \<Rightarrow> string \<Rightarrow> string \<Rightarrow> nat \<Rightarrow> validation_error + v3_model_inference_request" where
  "v3_model_inference_request_new E model_id revision prompt max_output_tokens =
     (let r = \<lparr>v3i_model_id = model_id, v3i_revision = revision, v3i_prompt = prompt,
               v3i_max_output_tokens = max_output_tokens, v3i_request_digest = []\<rparr>;
          r' = r\<lparr>v3i_request_digest := computed_digest E r\<rparr> in
      bindr (v3_model_inference_request_validate E r') (\<lambda>_. Inr r'))"

record v3_model_inference_result =
  v3o_model_id :: string
  v3o_revision :: string
  v3o_request_digest :: string
  v3o_output_digest :: string
  v3o_output :: string
  v3o_requested_output_tokens :: nat
  v3o_prompt_tokens :: nat
  v3o_output_tokens :: nat
  v3o_requested_device :: v3_model_device
  v3o_executed_device :: v3_model_device
  v3o_native_operations :: nat
  v3o_fallback_used :: bool
  v3o_mixed_execution :: bool

definition output_digest :: "externals \<Rightarrow> string \<Rightarrow> string \<Rightarrow> string \<Rightarrow> string \<Rightarrow> string" where
  "output_digest E model_id revision request_digest output =
     hex_string (sha256 E (OUTPUT_DIGEST_DOMAIN @ digest_field model_id @ digest_field revision
       @ digest_field request_digest @ digest_field output))"

definition v3_model_inference_result_validate ::
    "externals \<Rightarrow> v3_model_inference_result \<Rightarrow> validation_error + unit" where
  "v3_model_inference_result_validate E r =
     bindr (v3_validate_id (v3o_model_id r)) (\<lambda>_.
     bindr (v3_validate_id (v3o_revision r)) (\<lambda>_.
     bindr (v3_validate_digest (v3o_request_digest r)) (\<lambda>_.
     bindr (v3_validate_digest (v3o_output_digest r)) (\<lambda>_.
       if length (v3o_output r) > MAX_V3_MODEL_OUTPUT_BYTES
          \<or> v3o_requested_output_tokens r = 0
          \<or> v3o_requested_output_tokens r > MAX_V3_MODEL_OUTPUT_TOKENS
          \<or> v3o_prompt_tokens r = 0
          \<or> v3o_output_tokens r > v3o_requested_output_tokens r
          \<or> v3o_native_operations r = 0
          \<or> v3o_requested_device r \<noteq> v3o_executed_device r
          \<or> v3o_fallback_used r
          \<or> v3o_mixed_execution r
          \<or> v3o_output_digest r
              \<noteq> output_digest E (v3o_model_id r) (v3o_revision r) (v3o_request_digest r) (v3o_output r)
       then Inl ''invalid v3 model inference result'' else Inr ()))))"

definition v3_model_inference_result_validate_for ::
    "externals \<Rightarrow> v3_model_inference_result \<Rightarrow> v3_model_inference_request \<Rightarrow> validation_error + unit" where
  "v3_model_inference_result_validate_for E r request =
     bindr (v3_model_inference_request_validate E request) (\<lambda>_.
     bindr (v3_model_inference_result_validate E r) (\<lambda>_.
       if v3o_model_id r \<noteq> v3i_model_id request \<or> v3o_revision r \<noteq> v3i_revision request
          \<or> v3o_request_digest r \<noteq> v3i_request_digest request
          \<or> v3o_requested_output_tokens r \<noteq> v3i_max_output_tokens request
       then Inl ''v3 model inference correlation mismatch'' else Inr ()))"

record v3_model_details =
  v3d_model_id :: string
  v3d_revision :: string
  v3d_architecture :: string
  v3d_configured_device :: v3_model_device
  v3d_license_sha256 :: string
  v3d_license_accepted :: bool
  v3d_loaded :: bool

definition v3_model_details_validate :: "v3_model_details \<Rightarrow> validation_error + unit" where
  "v3_model_details_validate m =
     bindr (v3_validate_ids [v3d_model_id m, v3d_revision m, v3d_architecture m]) (\<lambda>_.
       v3_validate_digest (v3d_license_sha256 m))"

section \<open>Commands\<close>

datatype v3_command =
    V3Negotiate v3_grant_request
  | V3ListTools v3_page_query
  | V3InvokeTool v3_tool_call
  | V3ApproveTool v3_tool_decision
  | V3DenyTool v3_tool_decision
  | V3CancelTool v3_action
  | V3ListMemorySpaces v3_page_query
  | V3SearchMemory v3_search_request
  | V3ReadMemoryMetadata v3_resource_query
  | V3ListModels v3_page_query
  | V3ModelDetails v3_resource_query
  | V3DownloadModel v3_model_action
  | V3ModelDownloadStatus v3_resource_query
  | V3LoadModel v3_model_action
  | V3UnloadModel v3_model_action
  | V3CancelModel v3_action
  | V3InferenceStatus v3_resource_query
  | V3InferModel v3_model_inference_request
  | V3TrainingDatasetStatus v3_resource_query
  | V3StartTraining v3_training_start
  | V3TrainingStatus v3_resource_query
  | V3CancelTraining v3_action
  | V3TrainingMetrics v3_metric_query
  | V3PromoteAdapter v3_action
  | V3RollbackAdapter v3_action
  | V3ListClusters v3_page_query
  | V3ListWorkers v3_page_query
  | V3WorkerHealth v3_resource_query
  | V3JobStatus v3_resource_query
  | V3CancelJob v3_action
  | V3ClaimById v3_resource_query
  | V3PollEvents v3_page_query

fun v3_required_capability :: "v3_command \<Rightarrow> v3_capability option" where
  "v3_required_capability (V3Negotiate _) = None"
| "v3_required_capability (V3ListTools _) = Some ListToolsCap"
| "v3_required_capability (V3InvokeTool _) = Some InvokeToolsCap"
| "v3_required_capability (V3ApproveTool _) = Some DecideToolApprovalsCap"
| "v3_required_capability (V3DenyTool _) = Some DecideToolApprovalsCap"
| "v3_required_capability (V3CancelTool _) = Some CancelToolsCap"
| "v3_required_capability (V3ListMemorySpaces _) = Some ReadMemoryCap"
| "v3_required_capability (V3SearchMemory _) = Some ReadMemoryCap"
| "v3_required_capability (V3ReadMemoryMetadata _) = Some ReadMemoryCap"
| "v3_required_capability (V3ListModels _) = Some ReadModelsCap"
| "v3_required_capability (V3ModelDetails _) = Some ReadModelsCap"
| "v3_required_capability (V3ModelDownloadStatus _) = Some ReadModelsCap"
| "v3_required_capability (V3InferenceStatus _) = Some ReadModelsCap"
| "v3_required_capability (V3DownloadModel _) = Some DownloadModelsCap"
| "v3_required_capability (V3LoadModel _) = Some ManageModelsCap"
| "v3_required_capability (V3UnloadModel _) = Some ManageModelsCap"
| "v3_required_capability (V3CancelModel _) = Some ManageModelsCap"
| "v3_required_capability (V3InferModel _) = Some InferModelsCap"
| "v3_required_capability (V3TrainingDatasetStatus _) = Some ReadTrainingCap"
| "v3_required_capability (V3TrainingStatus _) = Some ReadTrainingCap"
| "v3_required_capability (V3TrainingMetrics _) = Some ReadTrainingCap"
| "v3_required_capability (V3StartTraining _) = Some ManageTrainingCap"
| "v3_required_capability (V3CancelTraining _) = Some ManageTrainingCap"
| "v3_required_capability (V3PromoteAdapter _) = Some ManageTrainingCap"
| "v3_required_capability (V3RollbackAdapter _) = Some ManageTrainingCap"
| "v3_required_capability (V3ListClusters _) = Some ReadWorkersCap"
| "v3_required_capability (V3ListWorkers _) = Some ReadWorkersCap"
| "v3_required_capability (V3WorkerHealth _) = Some ReadWorkersCap"
| "v3_required_capability (V3JobStatus _) = Some ReadWorkersCap"
| "v3_required_capability (V3CancelJob _) = Some CancelJobsCap"
| "v3_required_capability (V3ClaimById _) = Some ReadClaimsByIdCap"
| "v3_required_capability (V3PollEvents _) = Some PollEventsCap"

fun v3_command_validate :: "externals \<Rightarrow> v3_command \<Rightarrow> validation_error + unit" where
  "v3_command_validate E (V3Negotiate r) = v3_grant_request_validate r"
| "v3_command_validate E (V3ListTools p) = v3_page_query_validate p"
| "v3_command_validate E (V3ListMemorySpaces p) = v3_page_query_validate p"
| "v3_command_validate E (V3ListModels p) = v3_page_query_validate p"
| "v3_command_validate E (V3ListClusters p) = v3_page_query_validate p"
| "v3_command_validate E (V3ListWorkers p) = v3_page_query_validate p"
| "v3_command_validate E (V3PollEvents p) = v3_page_query_validate p"
| "v3_command_validate E (V3InvokeTool c) = v3_tool_call_validate E c"
| "v3_command_validate E (V3SearchMemory s) = v3_search_request_validate s"
| "v3_command_validate E (V3ApproveTool d) = v3_tool_decision_validate d"
| "v3_command_validate E (V3DenyTool d) = v3_tool_decision_validate d"
| "v3_command_validate E (V3DownloadModel a) = v3_model_action_validate a"
| "v3_command_validate E (V3LoadModel a) = v3_model_action_validate a"
| "v3_command_validate E (V3UnloadModel a) = v3_model_action_validate a"
| "v3_command_validate E (V3CancelModel a) = v3_action_validate a"
| "v3_command_validate E (V3StartTraining t) = v3_training_start_validate t"
| "v3_command_validate E (V3InferModel r) = v3_model_inference_request_validate E r"
| "v3_command_validate E (V3ReadMemoryMetadata q) = v3_resource_query_validate q"
| "v3_command_validate E (V3ModelDetails q) = v3_resource_query_validate q"
| "v3_command_validate E (V3ModelDownloadStatus q) = v3_resource_query_validate q"
| "v3_command_validate E (V3InferenceStatus q) = v3_resource_query_validate q"
| "v3_command_validate E (V3TrainingDatasetStatus q) = v3_resource_query_validate q"
| "v3_command_validate E (V3TrainingStatus q) = v3_resource_query_validate q"
| "v3_command_validate E (V3WorkerHealth q) = v3_resource_query_validate q"
| "v3_command_validate E (V3JobStatus q) = v3_resource_query_validate q"
| "v3_command_validate E (V3ClaimById q) = v3_resource_query_validate q"
| "v3_command_validate E (V3TrainingMetrics q) = v3_metric_query_validate q"
| "v3_command_validate E (V3CancelTool a) = v3_action_validate a"
| "v3_command_validate E (V3CancelTraining a) = v3_action_validate a"
| "v3_command_validate E (V3PromoteAdapter a) = v3_action_validate a"
| "v3_command_validate E (V3RollbackAdapter a) = v3_action_validate a"
| "v3_command_validate E (V3CancelJob a) = v3_action_validate a"

definition v3_permits :: "v3_capability_set \<Rightarrow> v3_command \<Rightarrow> bool" where
  "v3_permits s command =
     (case v3_required_capability command of None \<Rightarrow> True | Some c \<Rightarrow> v3_contains s c)"

section \<open>Events\<close>

record v3_entity_record =
  v3e_id :: string
  v3e_label :: string
  v3e_state :: v3_operation_state

definition v3_entity_record_validate :: "v3_entity_record \<Rightarrow> validation_error + unit" where
  "v3_entity_record_validate r =
     bindr (v3_validate_id (v3e_id r)) (\<lambda>_.
       v3_validate_text (v3e_label r) V3_MAX_LABEL_BYTES ''invalid v3 entity label'')"

record v3_entity_page =
  v3ep_after :: nat
  v3ep_through :: nat
  v3ep_records :: "v3_entity_record list"

definition v3_entity_page_validate :: "v3_entity_page \<Rightarrow> validation_error + unit" where
  "v3_entity_page_validate p =
     (if v3ep_after p > v3ep_through p \<or> length (v3ep_records p) > MAX_V3_PAGE
      then Inl ''invalid v3 entity page'' else for_each v3_entity_record_validate (v3ep_records p))"

record v3_operation_status =
  v3os_operation_id :: string
  v3os_resource_id :: string
  v3os_state :: v3_operation_state
  v3os_progress_basis_points :: nat

definition v3_operation_status_validate :: "v3_operation_status \<Rightarrow> validation_error + unit" where
  "v3_operation_status_validate s =
     bindr (v3_validate_id (v3os_operation_id s)) (\<lambda>_.
     bindr (v3_validate_id (v3os_resource_id s)) (\<lambda>_.
       if v3os_progress_basis_points s > 10000 then Inl ''invalid v3 operation progress'' else Inr ()))"

text \<open>\<open>f64::is_finite\<close>: the exponent of the bit pattern is not all ones.\<close>

definition f64_is_finite :: "64 word \<Rightarrow> bool" where
  "f64_is_finite w \<longleftrightarrow> unat w div 2 ^ 52 mod 2 ^ 11 \<noteq> 2047"

record v3_metric =
  v3me_name :: string
  v3me_step :: nat
  v3me_value :: "64 word"

definition v3_metric_validate :: "v3_metric \<Rightarrow> validation_error + unit" where
  "v3_metric_validate m =
     bindr (v3_validate_id (v3me_name m)) (\<lambda>_.
       if \<not> f64_is_finite (v3me_value m) then Inl ''v3 metric must be finite'' else Inr ())"

record v3_metric_page =
  v3mp_operation_id :: string
  v3mp_after :: nat
  v3mp_through :: nat
  v3mp_metrics :: "v3_metric list"

fun window_decreasing :: "nat list \<Rightarrow> bool" where
  "window_decreasing (x # y # zs) = (x > y \<or> window_decreasing (y # zs))"
| "window_decreasing _ = False"

definition v3_metric_page_validate :: "v3_metric_page \<Rightarrow> validation_error + unit" where
  "v3_metric_page_validate p =
     bindr (v3_validate_id (v3mp_operation_id p)) (\<lambda>_.
       let steps = map v3me_step (v3mp_metrics p) in
       if length (v3mp_metrics p) > MAX_V3_PAGE \<or> v3mp_after p > v3mp_through p \<or> window_decreasing steps
          \<or> steps \<noteq> [] \<and> last steps > v3mp_through p \<or> steps \<noteq> [] \<and> hd steps \<le> v3mp_after p
       then Inl ''invalid v3 metric page'' else for_each v3_metric_validate (v3mp_metrics p))"

record v3_event_record =
  v3er_sequence :: nat
  v3er_operation :: v3_operation_status

record v3_event_page =
  v3vp_after :: nat
  v3vp_through :: nat
  v3vp_events :: "v3_event_record list"

definition v3_event_page_validate :: "v3_event_page \<Rightarrow> validation_error + unit" where
  "v3_event_page_validate p =
     (let seqs = map v3er_sequence (v3vp_events p) in
      if v3vp_after p > v3vp_through p \<or> length (v3vp_events p) > MAX_V3_PAGE \<or> window_not_increasing seqs
         \<or> seqs \<noteq> [] \<and> hd seqs \<le> v3vp_after p \<or> seqs \<noteq> [] \<and> last seqs > v3vp_through p
      then Inl ''invalid v3 event page''
      else for_each (\<lambda>e. v3_operation_status_validate (v3er_operation e)) (v3vp_events p))"

datatype v3_error_code =
    V3UnsupportedVersion | V3Unauthorized | V3CapabilityDenied | V3InvalidCommand | V3NotFound
  | V3Conflict | V3CancelledCode | V3DeadlineExceeded | V3BudgetExceeded | V3RateLimited
  | V3ResponseTooLarge | V3Internal

record v3_error =
  v3x_code :: v3_error_code
  v3x_message :: string

definition v3_error_validate :: "v3_error \<Rightarrow> validation_error + unit" where
  "v3_error_validate e = v3_validate_text (v3x_message e) MAX_ERROR_MESSAGE_BYTES ''invalid v3 error message''"

record v3_stable_claim =
  v3c_id :: string
  v3c_name :: string
  v3c_status :: claim_status
  v3c_note :: string

definition v3_stable_claim_validate :: "v3_stable_claim \<Rightarrow> validation_error + unit" where
  "v3_stable_claim_validate c =
     bindr (v3_validate_id (v3c_id c)) (\<lambda>_.
     bindr (v3_validate_text (v3c_name c) V3_MAX_LABEL_BYTES ''invalid v3 claim name'') (\<lambda>_.
       v3_validate_text (v3c_note c) MAX_ERROR_MESSAGE_BYTES ''invalid v3 claim note''))"

datatype v3_event =
    V3Negotiated v3_grant_negotiation
  | V3Tools v3_tool_page
  | V3ToolResultEv v3_tool_result
  | V3ToolStatus v3_operation_status
  | V3ToolApprovalStatus v3_tool_approval_status
  | V3MemorySpaces v3_entity_page
  | V3MemorySearchResults v3_entity_page
  | V3MemoryMetadata v3_entity_record
  | V3Models v3_entity_page
  | V3ModelDetailsEv v3_model_details
  | V3ModelStatus v3_operation_status
  | V3ModelInference v3_model_inference_result
  | V3TrainingDatasetStatusEv v3_entity_record
  | V3TrainingStatusEv v3_operation_status
  | V3TrainingMetricsEv v3_metric_page
  | V3AdapterStatus v3_operation_status
  | V3Clusters v3_entity_page
  | V3Workers v3_entity_page
  | V3WorkerHealthEv v3_entity_record
  | V3JobStatusEv v3_operation_status
  | V3ClaimEv v3_stable_claim
  | V3Events v3_event_page
  | V3ErrorEv v3_error

fun v3_event_validate :: "externals \<Rightarrow> v3_event \<Rightarrow> validation_error + unit" where
  "v3_event_validate E (V3Negotiated n) = v3_grant_negotiation_validate n"
| "v3_event_validate E (V3Tools p) = v3_tool_page_validate E p"
| "v3_event_validate E (V3ToolResultEv r) = v3_tool_result_validate E r"
| "v3_event_validate E (V3MemorySpaces p) = v3_entity_page_validate p"
| "v3_event_validate E (V3MemorySearchResults p) = v3_entity_page_validate p"
| "v3_event_validate E (V3Models p) = v3_entity_page_validate p"
| "v3_event_validate E (V3Clusters p) = v3_entity_page_validate p"
| "v3_event_validate E (V3Workers p) = v3_entity_page_validate p"
| "v3_event_validate E (V3ToolStatus s) = v3_operation_status_validate s"
| "v3_event_validate E (V3ModelStatus s) = v3_operation_status_validate s"
| "v3_event_validate E (V3TrainingStatusEv s) = v3_operation_status_validate s"
| "v3_event_validate E (V3AdapterStatus s) = v3_operation_status_validate s"
| "v3_event_validate E (V3JobStatusEv s) = v3_operation_status_validate s"
| "v3_event_validate E (V3ToolApprovalStatus s) = v3_tool_approval_status_validate s"
| "v3_event_validate E (V3ModelInference r) = v3_model_inference_result_validate E r"
| "v3_event_validate E (V3ModelDetailsEv m) = v3_model_details_validate m"
| "v3_event_validate E (V3MemoryMetadata r) = v3_entity_record_validate r"
| "v3_event_validate E (V3TrainingDatasetStatusEv r) = v3_entity_record_validate r"
| "v3_event_validate E (V3WorkerHealthEv r) = v3_entity_record_validate r"
| "v3_event_validate E (V3ClaimEv c) = v3_stable_claim_validate c"
| "v3_event_validate E (V3TrainingMetricsEv p) = v3_metric_page_validate p"
| "v3_event_validate E (V3Events p) = v3_event_page_validate p"
| "v3_event_validate E (V3ErrorEv e) = v3_error_validate e"

end
