(* ===== verification/Safe_Tools.thy ===== *)
theory Safe_Tools
  imports V3_Protocol V4_Dispatch
begin

text \<open>
  The registry of read-only tools (\<open>src/mcp_host/tools.rs\<close>), the status vocabulary of the claims
  that its schema advertises (\<open>src/claims.rs\<close>), the executor that serves it to protocol 3 and the
  catalog the daemon binds at startup (\<open>src/daemon/runtime_v3/tool_catalog.rs\<close>). The types
  \<open>ToolSpec\<close>, \<open>ToolCall\<close>, \<open>ToolOutput\<close> and \<open>PolicyDecision\<close> belong to the crates
  \<open>abi-agent-runtime\<close> and \<open>abi-agent-host\<close>: the fields and values below are those the sources use.
\<close>

section \<open>Claim statuses\<close>

definition every_status :: "claim_status list" where
  "every_status = [ClaimCurrent, ClaimPartial, ClaimProposed, ClaimBlocked, ClaimOutOfScope]
     @ [ClaimFailed, ClaimRevoked, ClaimSuperseded, ClaimExpired]"

fun status_key :: "claim_status \<Rightarrow> string" where
  "status_key ClaimCurrent = ''current''"
| "status_key ClaimPartial = ''partial''"
| "status_key ClaimProposed = ''proposed''"
| "status_key ClaimBlocked = ''blocked''"
| "status_key ClaimOutOfScope = ''out_of_scope''"
| "status_key ClaimFailed = ''failed''"
| "status_key ClaimRevoked = ''revoked''"
| "status_key ClaimSuperseded = ''superseded''"
| "status_key ClaimExpired = ''expired''"

fun filter_aliases :: "claim_status \<Rightarrow> string list" where
  "filter_aliases ClaimCurrent = [''current'', ''shipped'']"
| "filter_aliases ClaimPartial = [''partial'', ''part'']"
| "filter_aliases ClaimProposed = [''proposed'', ''prop'', ''roadmap'']"
| "filter_aliases ClaimBlocked = [''blocked'', ''block'']"
| "filter_aliases ClaimOutOfScope = [''oos'', ''out'', ''out-of-scope'', ''deferred'']"
| "filter_aliases ClaimFailed = [''failed'', ''fail'']"
| "filter_aliases ClaimRevoked = [''revoked'', ''revoke'']"
| "filter_aliases ClaimSuperseded = [''superseded'', ''supersede'']"
| "filter_aliases ClaimExpired = [''expired'', ''expire'']"

definition from_filter :: "string \<Rightarrow> claim_status option" where
  "from_filter token = find (\<lambda>s. token \<in> set (filter_aliases s)) every_status"

fun join_with :: "string \<Rightarrow> string list \<Rightarrow> string" where
  "join_with sep [] = []"
| "join_with sep [s] = s"
| "join_with sep (s # ss) = s @ sep @ join_with sep ss"

text \<open>The error text quotes the token between backticks; the dash it prints is U+2014.\<close>

definition parse_claim_status :: "string \<Rightarrow> string + claim_status" where
  "parse_claim_status raw =
     (let token = map to_ascii_lower (trim raw);
          status = (case find (\<lambda>s. status_key s = token) every_status of Some s \<Rightarrow> Some s
                    | None \<Rightarrow> from_filter token) in
      case status of Some s \<Rightarrow> Inr s
      | None \<Rightarrow> Inl (''unknown claim status `'' @ token @ ''` '' @ [CHR 0xE2, CHR 0x80, CHR 0x94]
                  @ '' expected '' @ join_with ''|'' (map status_key every_status)))"

section \<open>Schemas\<close>

definition object_schema :: "(string \<times> json) list \<Rightarrow> json list \<Rightarrow> json" where
  "object_schema properties required =
     JObject [(''$schema'', JString ''https://json-schema.org/draft/2020-12/schema''),
       (''type'', JString ''object''), (''properties'', JObject properties),
       (''required'', JArray required), (''additionalProperties'', JBool False)]"

definition status_schema :: json where
  "status_schema = object_schema [] []"

definition claims_schema :: json where
  "claims_schema = object_schema
     [(''status'', JObject [(''type'', JString ''string''),
        (''description'', JString ''Restrict to one ledger status.''),
        (''enum'', JArray (map (\<lambda>s. JString (status_key s)) every_status))]),
      (''contains'', JObject [(''type'', JString ''string''),
        (''description'', JString ''Case-insensitive substring over claim name, note, and substitute.''),
        (''minLength'', JNumber (PosInt 1)), (''maxLength'', JNumber (PosInt 256))])] []"

definition platform_schema :: json where
  "platform_schema = object_schema [] []"

section \<open>Handlers\<close>

text \<open>
  What the handlers read: the application service, the serialisation of its payloads, and the
  description of the host: \<open>std::env::consts\<close>, \<open>available_parallelism\<close>, and the value of
  \<open>ABBEY_SUBAGENT_JOBS\<close> where it parses as a number. A tool error is the text it carries.
\<close>

record tool_host =
  th_service :: app_service
  th_status_json :: "runtime_status \<Rightarrow> json"
  th_claims_json :: "claims_snapshot \<Rightarrow> json"
  th_approval_json :: "approval_request \<Rightarrow> json"
  th_service_error :: "app_service_error \<Rightarrow> string"
  th_os :: string
  th_arch :: string
  th_family :: string
  th_parallelism :: "nat option"
  th_jobs_variable :: "nat option"

definition reject_unknown_keys :: "json \<Rightarrow> string list \<Rightarrow> string + unit" where
  "reject_unknown_keys arguments allowed =
     (case arguments of
        JObject fs \<Rightarrow>
          (case find (\<lambda>k. k \<notin> set allowed) (map fst fs) of None \<Rightarrow> Inr ()
           | Some k \<Rightarrow> Inl (''unknown argument `'' @ k @ ''`''))
      | _ \<Rightarrow> Inl ''arguments must be a JSON object'')"

definition app_payload :: "tool_host \<Rightarrow> app_command \<Rightarrow> string + json" where
  "app_payload H command =
     bindr (map_err (th_service_error H) (app_service_handle (th_service H) command)) (\<lambda>ev.
       case ev of
         EvtStatus s \<Rightarrow> Inr (th_status_json H s)
       | EvtClaims s \<Rightarrow> Inr (th_claims_json H s)
       | EvtApprovalRequested r \<Rightarrow> Inr (th_approval_json H r)
       | EvtRouteAudit _ \<Rightarrow> Inl ''the route audit is not exposed over MCP; use `abbey daemon routes`''
       | _ \<Rightarrow> Inl ''application service returned an execution event to a read-only MCP tool'')"

definition status_handler :: "tool_host \<Rightarrow> json \<Rightarrow> string + json" where
  "status_handler H arguments =
     bindr (reject_unknown_keys arguments []) (\<lambda>_. app_payload H CmdStatus)"

definition claims_handler :: "tool_host \<Rightarrow> json \<Rightarrow> string + json" where
  "claims_handler H arguments =
     bindr (reject_unknown_keys arguments [''status'', ''contains'']) (\<lambda>_.
     bindr (case json_get arguments ''status'' of None \<Rightarrow> Inr None | Some JNull \<Rightarrow> Inr None
            | Some (JString raw) \<Rightarrow> bindr (parse_claim_status raw) (\<lambda>s. Inr (Some s))
            | Some _ \<Rightarrow> Inl ''`status` must be a string'') (\<lambda>status.
     bindr (case json_get arguments ''contains'' of None \<Rightarrow> Inr None | Some JNull \<Rightarrow> Inr None
            | Some (JString raw) \<Rightarrow> Inr (Some raw)
            | Some _ \<Rightarrow> Inl ''`contains` must be a string'') (\<lambda>contains.
       app_payload H (CmdClaims \<lparr>cq_status = status, cq_contains = contains\<rparr>))))"

text \<open>The surfaces and the thread counts of \<open>src/platform.rs\<close>; \<open>em_dash\<close> is U+2014 in UTF-8.\<close>

record surface_support =
  su_name :: string
  su_linux :: bool
  su_macos :: bool
  su_windows :: bool
  su_note :: string

definition em_dash :: string where
  "em_dash = [CHR 0xE2, CHR 0x80, CHR 0x94]"

definition surface_matrix :: "surface_support list" where
  "surface_matrix =
     [\<lparr>su_name = ''CLI core (run/print/doctor/memory/sqlite)'', su_linux = True, su_macos = True, su_windows = True,
       su_note = ''primary portable surface''\<rparr>,
      \<lparr>su_name = ''TUI (ratatui)'', su_linux = True, su_macos = True, su_windows = True,
       su_note = ''crossterm; needs a real terminal''\<rparr>,
      \<lparr>su_name = ''WDBX memory + cross-process lock'', su_linux = True, su_macos = True, su_windows = True,
       su_note = ''fs4 advisory lock (Unix flock / Win LockFileEx); --features wdbx''\<rparr>,
      \<lparr>su_name = ''multi-thread subagents (--jobs)'', su_linux = True, su_macos = True, su_windows = True,
       su_note = ''std::thread fan-out '' @ em_dash @ '' not GPU kernels''\<rparr>,
      \<lparr>su_name = ''OS allowlist control'', su_linux = True, su_macos = True, su_windows = True,
       su_note = ''real executables only; execute --confirm''\<rparr>,
      \<lparr>su_name = ''learn review/stats + PATH peers'', su_linux = True, su_macos = True, su_windows = True,
       su_note = ''PATHEXT-aware which_bin on Windows''\<rparr>,
      \<lparr>su_name = ''syntax highlight + claims/oos honesty'', su_linux = True, su_macos = True, su_windows = True,
       su_note = ''syntect ANSI when TTY''\<rparr>,
      \<lparr>su_name = ''voice I/O (say/Speech; whisper/espeak/piper/SAPI when present)'', su_linux = True,
       su_macos = True, su_windows = True,
       su_note = ''macOS say+Speech Current; portable tools when on PATH; no bundled weights''\<rparr>,
      \<lparr>su_name = ''on-device fm backend'', su_linux = False, su_macos = True, su_windows = False,
       su_note = ''Apple Foundation Models CLI, macOS 26+''\<rparr>,
      \<lparr>su_name = ''GPU/NPU/TPU inference or training in Abbey'', su_linux = False, su_macos = False,
       su_windows = False, su_note = ''Proposed '' @ em_dash @ '' detect-only via `abbey platform` today''\<rparr>]"

definition surface_on_this_host :: "tool_host \<Rightarrow> surface_support \<Rightarrow> bool" where
  "surface_on_this_host H s =
     (if th_os H = ''linux'' then su_linux s
      else if th_os H = ''macos'' then su_macos s
      else if th_os H = ''windows'' then su_windows s
      else if th_family H = ''unix'' then su_linux s else False)"

definition thread_budget :: "tool_host \<Rightarrow> nat" where
  "thread_budget H = (case th_parallelism H of Some n \<Rightarrow> n | None \<Rightarrow> 1)"

definition default_subagent_jobs :: "tool_host \<Rightarrow> nat" where
  "default_subagent_jobs H =
     (case th_jobs_variable H of
        Some n \<Rightarrow> if n > 0 then n else min 8 (max 1 (thread_budget H))
      | None \<Rightarrow> min 8 (max 1 (thread_budget H)))"

definition max_prompt_bytes :: "tool_host \<Rightarrow> nat" where
  "max_prompt_bytes H = (if th_family H = ''windows'' then 24 * 1024 else 32 * 1024)"

definition surface_json :: "tool_host \<Rightarrow> surface_support \<Rightarrow> json" where
  "surface_json H s =
     JObject [(''name'', JString (su_name s)), (''linux'', JBool (su_linux s)), (''macos'', JBool (su_macos s)),
       (''windows'', JBool (su_windows s)), (''supported_here'', JBool (surface_on_this_host H s)),
       (''note'', JString (su_note s))]"

definition platform_handler :: "tool_host \<Rightarrow> json \<Rightarrow> string + json" where
  "platform_handler H arguments =
     bindr (reject_unknown_keys arguments []) (\<lambda>_. Inr (JObject
       [(''os'', JString (th_os H)), (''arch'', JString (th_arch H)), (''family'', JString (th_family H)),
        (''threads'', JNumber (PosInt (thread_budget H))),
        (''default_subagent_jobs'', JNumber (PosInt (default_subagent_jobs H))),
        (''argv_prompt_clamp_bytes'', JNumber (PosInt (max_prompt_bytes H))),
        (''surfaces'', JArray (map (surface_json H) surface_matrix)),
        (''accelerator_detection'', JString ''excluded from this tool: it spawns vendor binaries (nvidia-smi/rocm-smi). Use the local CLI `abbey platform compute`.'')]))"

section \<open>The registry\<close>

datatype effect_class = ClassReadOnly

record safe_tool =
  sf_name :: string
  sf_title :: string
  sf_description :: string
  sf_effect :: effect_class
  sf_schema :: json
  sf_handler :: "tool_host \<Rightarrow> json \<Rightarrow> string + json"

definition SAFE_TOOLS :: "safe_tool list" where
  "SAFE_TOOLS =
     [\<lparr>sf_name = ''abbey_status'', sf_title = ''Abbey runtime status'',
       sf_description = ''Read Abbey's versioned runtime status: protocol/schema versions, edition, build stamp, and the read-only capability set. Pure in-memory read.'',
       sf_effect = ClassReadOnly, sf_schema = status_schema, sf_handler = status_handler\<rparr>,
      \<lparr>sf_name = ''abbey_claims'', sf_title = ''Abbey capability claims'',
       sf_description = ''Query Abbey's canonical honesty ledger (Current / Partial / Proposed / Blocked / Out of scope) by status and substring. Reads a compiled-in table; touches no files.'',
       sf_effect = ClassReadOnly, sf_schema = claims_schema, sf_handler = claims_handler\<rparr>,
      \<lparr>sf_name = ''abbey_platform'', sf_title = ''Abbey host surface matrix'',
       sf_description = ''Report host OS/arch/family, thread budget, default subagent jobs, argv clamp, and which Abbey surfaces are portable to this host. Accelerator detection is deliberately excluded because it spawns vendor binaries.'',
       sf_effect = ClassReadOnly, sf_schema = platform_schema, sf_handler = platform_handler\<rparr>]"

definition tool_names :: "string list" where
  "tool_names = map sf_name SAFE_TOOLS"

definition tool_descriptor :: "safe_tool \<Rightarrow> json" where
  "tool_descriptor t =
     JObject [(''name'', JString (sf_name t)), (''title'', JString (sf_title t)),
       (''description'', JString (sf_description t)), (''inputSchema'', sf_schema t),
       (''annotations'', JObject [(''readOnlyHint'', JBool (sf_effect t = ClassReadOnly)),
          (''destructiveHint'', JBool False), (''idempotentHint'', JBool True), (''openWorldHint'', JBool False)])]"

definition list_payload :: "safe_tool list \<Rightarrow> json" where
  "list_payload tools = JObject [(''tools'', JArray (map tool_descriptor tools))]"

definition v3_descriptor_of :: "safe_tool \<Rightarrow> v3_tool_descriptor" where
  "v3_descriptor_of t = \<lparr>td_tool_id = sf_name t, td_description = sf_description t,
     td_effect = EffectReadOnly, td_input_schema = sf_schema t\<rparr>"

definition v3_descriptors :: "externals \<Rightarrow> validation_error + v3_tool_descriptor list" where
  "v3_descriptors E = collect_results (\<lambda>t.
     let d = v3_descriptor_of t in
     bindr (v3_tool_descriptor_validate E d) (\<lambda>_. Inr d)) SAFE_TOOLS"

datatype tool_effect = ToolReadOnly | ToolMutating

record tool_spec =
  ts_name :: string
  ts_description :: string
  ts_input_schema :: string
  ts_effect :: tool_effect

definition v3_specs :: "externals \<Rightarrow> tool_spec list" where
  "v3_specs E = map (\<lambda>t. \<lparr>ts_name = sf_name t, ts_description = sf_description t,
     ts_input_schema = json_to_string E (sf_schema t), ts_effect = ToolReadOnly\<rparr>) SAFE_TOOLS"

section \<open>Executor\<close>

record abi_tool_call =
  ac_id :: string
  ac_name :: string
  ac_input :: string

datatype tool_status = ToolOk | ToolErr | ToolDenied

record tool_output =
  to_status :: tool_status
  to_payload :: string

definition safe_execute ::
    "externals \<Rightarrow> tool_host \<Rightarrow> bool \<Rightarrow> abi_tool_call \<Rightarrow> tool_spec \<Rightarrow> string + tool_output" where
  "safe_execute E H should_stop call spec =
     (if should_stop then Inl ''safe tool deadline expired''
      else if ts_effect spec \<noteq> ToolReadOnly \<or> ts_name spec \<noteq> ac_name call
      then Inl ''safe tool specification does not match the call''
      else
        bindr (ok_or (find (\<lambda>t. sf_name t = ac_name call) SAFE_TOOLS) ''safe tool is not registered'') (\<lambda>tool.
          if sf_effect tool \<noteq> ClassReadOnly then Inl ''safe tool effect is not read-only''
          else
            bindr (ok_or (json_from_str E (ac_input call)) ''validated safe tool input was malformed'') (\<lambda>input.
              case sf_handler tool H input of
                Inr output \<Rightarrow> Inr \<lparr>to_status = ToolOk, to_payload = json_to_string E output\<rparr>
              | Inl message \<Rightarrow>
                  Inr \<lparr>to_status = ToolErr,
                       to_payload = json_to_string E (JObject [(''message'', JString message)])\<rparr>)))"

section \<open>The catalog\<close>

definition MEMORY_MARK_OBSOLETE_TOOL_ID :: string where
  "MEMORY_MARK_OBSOLETE_TOOL_ID = ''abbey_memory_mark_obsolete''"

datatype tool_route = DirectReadOnly | ApprovalRequired

record bound_tool =
  bt_descriptor :: v3_tool_descriptor
  bt_spec :: tool_spec
  bt_validator :: "json \<Rightarrow> bool"
  bt_route :: tool_route

text \<open>\<open>validator_for\<close> stands for \<open>jsonschema::validator_for\<close>.\<close>

type_synonym schema_compiler = "json \<Rightarrow> (json \<Rightarrow> bool) option"

fun effect_matches_route :: "tool_route \<Rightarrow> v3_tool_effect \<Rightarrow> tool_effect \<Rightarrow> bool" where
  "effect_matches_route DirectReadOnly EffectReadOnly ToolReadOnly = True"
| "effect_matches_route ApprovalRequired EffectMutating ToolMutating = True"
| "effect_matches_route _ _ _ = False"

definition bind_tool ::
    "schema_compiler \<Rightarrow> v3_tool_descriptor \<Rightarrow> tool_spec \<Rightarrow> tool_route \<Rightarrow> unit + bound_tool" where
  "bind_tool validator_for descriptor spec route =
     (if td_tool_id descriptor \<noteq> ts_name spec then Inl ()
      else if \<not> effect_matches_route route (td_effect descriptor) (ts_effect spec) then Inl ()
      else bindr (ok_or (validator_for (td_input_schema descriptor)) ()) (\<lambda>validator.
        Inr \<lparr>bt_descriptor = descriptor, bt_spec = spec, bt_validator = validator, bt_route = route\<rparr>))"

datatype build_edition = SafeEdition | PersonalEdition

definition obsolete_schema :: json where
  "obsolete_schema =
     JObject [(''$schema'', JString ''https://json-schema.org/draft/2020-12/schema''),
       (''type'', JString ''object''),
       (''properties'', JObject [(''record_id'', JObject [(''type'', JString ''string''),
          (''minLength'', JNumber (PosInt 1)), (''maxLength'', JNumber (PosInt 128)),
          (''pattern'', JString ''^[A-Za-z0-9._:-]+$'')])]),
       (''required'', JArray [JString ''record_id'']), (''additionalProperties'', JBool False)]"

definition obsolete_description :: string where
  "obsolete_description = ''Mark one Abbey memory record obsolete without deleting its provenance. The exact call requires a durable safe-edition approval and an identical explicit resubmission before execution.''"

definition obsolete_descriptor :: v3_tool_descriptor where
  "obsolete_descriptor = \<lparr>td_tool_id = MEMORY_MARK_OBSOLETE_TOOL_ID,
     td_description = obsolete_description, td_effect = EffectMutating, td_input_schema = obsolete_schema\<rparr>"

definition catalog_build :: "externals \<Rightarrow> schema_compiler \<Rightarrow> build_edition \<Rightarrow> unit + bound_tool list" where
  "catalog_build E validator_for active =
     bindr (map_err (\<lambda>_. ()) (v3_descriptors E)) (\<lambda>descriptors.
       let specs = v3_specs E in
       if length descriptors \<noteq> length specs then Inl ()
       else
         bindr (collect_results (\<lambda>(d, s). bind_tool validator_for d s DirectReadOnly)
                 (zip descriptors specs)) (\<lambda>tools.
           if active = SafeEdition then
             bindr (map_err (\<lambda>_. ()) (v3_tool_descriptor_validate E obsolete_descriptor)) (\<lambda>_.
             bindr (bind_tool validator_for obsolete_descriptor
                     \<lparr>ts_name = MEMORY_MARK_OBSOLETE_TOOL_ID, ts_description = obsolete_description,
                      ts_input_schema = json_to_string E obsolete_schema, ts_effect = ToolMutating\<rparr>
                     ApprovalRequired) (\<lambda>tool. Inr (tools @ [tool])))
           else Inr tools))"

end
