(* ===== verification/V3_Memory.thy ===== *)
theory V3_Memory
  imports Safe_Tools
begin

text \<open>
  Memory reads of protocol 3: \<open>src/daemon/runtime_v3/memory_reads.rs\<close>. One space of summaries is
  exposed; a search fixes its result in a bounded cache and later pages are read from there. The
  backend is the trait object \<open>Box<dyn MemoryStore>\<close> with the three operations used here.
\<close>

section \<open>The backend\<close>

record memory_record =
  mr_id :: string
  mr_source_type :: string
  mr_source_ref :: string
  mr_project :: string
  mr_timestamp :: string
  mr_origin :: string
  mr_payload :: string
  mr_summary :: string
  mr_tags :: "string list"
  mr_embedding_ref :: "string option"
  mr_confidence :: "32 word"
  mr_provenance :: string
  mr_retention :: string
  mr_supersedes :: "string option"
  mr_classification :: string
  mr_obsolete :: bool

text \<open>
  \<open>mb_open\<close> says whether \<open>open_backend_exact\<close> succeeds on the stored data, \<open>mb_filter\<close> is
  \<open>filter_with\<close> on the default filter, \<open>mb_invalidate\<close> reports success and the data it leaves.
  \<open>mb_lowercase\<close> is \<open>str::to_lowercase\<close>, which follows the Unicode tables.
\<close>

record 'm memory_backend =
  mb_open :: "'m \<Rightarrow> bool"
  mb_filter :: "'m \<Rightarrow> nat \<Rightarrow> memory_record list option"
  mb_invalidate :: "'m \<Rightarrow> string \<Rightarrow> bool \<times> 'm"
  mb_lowercase :: "string \<Rightarrow> string"

definition memory_not_found_failure :: handler_failure where
  "memory_not_found_failure = failure ''not_found'' ''memory record was not found''"

definition SUMMARY_SPACE_ID :: string where "SUMMARY_SPACE_ID = ''memory-v1-summary''"
definition SUMMARY_SPACE_LABEL :: string where "SUMMARY_SPACE_LABEL = ''Sanitized memory summaries''"
definition MAX_MEMORY_RECORDS :: nat where "MAX_MEMORY_RECORDS = 1024"
definition MAX_SNAPSHOTS :: nat where "MAX_SNAPSHOTS = 16"
definition MAX_MEMORY_LABEL_BYTES :: nat where "MAX_MEMORY_LABEL_BYTES = 256"
definition SNAPSHOT_TOKEN_START :: nat where "SNAPSHOT_TOKEN_START = 2 ^ 63"
definition RECORD_ID_DOMAIN :: string where
  "RECORD_ID_DOMAIN = ''abbey:v3-memory-record:v1'' @ [CHR 0x00]"
definition QUERY_DOMAIN :: string where
  "QUERY_DOMAIN = ''abbey:v3-memory-query:v1'' @ [CHR 0x00]"

section \<open>Summaries\<close>

text \<open>
  \<open>str::split_whitespace\<close>: the number of bytes of white space in front, and the maximal runs
  between white space.
\<close>

fun space_len :: "string \<Rightarrow> nat" where
  "space_len [] = 0"
| "space_len [a] = (if space1 a then 1 else 0)"
| "space_len [a, b] = (if space1 a then 1 else if space2 a b then 2 else 0)"
| "space_len (a # b # c # cs) =
     (if space1 a then 1 else if space2 a b then 2 else if space3 a b c then 3 else 0)"

function words_from :: "string \<Rightarrow> string \<Rightarrow> string list" where
  "words_from acc [] = (if acc = [] then [] else [acc])"
| "words_from acc (c # cs) =
     (if space_len (c # cs) = 0 then words_from (acc @ [c]) cs
      else (if acc = [] then [] else [acc]) @ words_from [] (drop (space_len (c # cs)) (c # cs)))"
  by pat_completeness auto
termination
  by (relation "measure (\<lambda>(acc, s). length s)") auto

definition split_words :: "string \<Rightarrow> string list" where
  "split_words s = words_from [] s"

text \<open>\<open>str::split\<close> on one character: always at least one part.\<close>

fun split_char :: "char \<Rightarrow> string \<Rightarrow> string list" where
  "split_char d [] = [[]]"
| "split_char d (c # cs) =
     (if c = d then [] # split_char d cs
      else (c # hd (split_char d cs)) # tl (split_char d cs))"

definition is_ascii_letter :: "char \<Rightarrow> bool" where
  "is_ascii_letter c \<longleftrightarrow> 65 \<le> byte_of c \<and> byte_of c \<le> 90 \<or> 97 \<le> byte_of c \<and> byte_of c \<le> 122"

definition path_segment :: "string \<Rightarrow> bool" where
  "path_segment part \<longleftrightarrow>
     prefix [CHR 0x2F] part \<or> prefix [CHR 0x7E] part \<or> prefix [CHR 0x5C, CHR 0x5C] part
   \<or> length part \<ge> 3 \<and> is_ascii_letter (part ! 0) \<and> part ! 1 = CHR 0x3A
     \<and> part ! 2 \<in> {CHR 0x2F, CHR 0x5C}"

definition is_path :: "string \<Rightarrow> bool" where
  "is_path token \<longleftrightarrow>
     path_segment token \<or> list_ex path_segment (split_char (CHR 0x3D) token)
   \<or> list_ex path_segment (split_char (CHR 0x3A) token)"

text \<open>The characters that are not control characters.\<close>

fun strip_control :: "string \<Rightarrow> string" where
  "strip_control [] = []"
| "strip_control [a] = (if byte_of a < 32 \<or> byte_of a = 127 then [] else [a])"
| "strip_control (a # b # cs) =
     (if byte_of a < 32 \<or> byte_of a = 127 then strip_control (b # cs)
      else if byte_of a = 194 \<and> 128 \<le> byte_of b \<and> byte_of b < 160 then strip_control cs
      else a # strip_control (b # cs))"

definition clean_token :: "string \<Rightarrow> string" where
  "clean_token token = (if is_path token then ''[path]'' else strip_control token)"

fun sanitize_loop :: "string \<Rightarrow> string list \<Rightarrow> string" where
  "sanitize_loop output [] = output"
| "sanitize_loop output (token # rest) =
     (let cleaned = clean_token token in
      if cleaned = [] then sanitize_loop output rest
      else sanitize_loop ((if output = [] then [] else output @ [CHR 0x20]) @ cleaned) rest)"

definition truncate_bytes :: "string \<Rightarrow> nat \<Rightarrow> string" where
  "truncate_bytes s max_bytes =
     (if length s \<le> max_bytes then s else take (floor_boundary s max_bytes) s)"

definition sanitize_summary :: "string \<Rightarrow> string" where
  "sanitize_summary raw =
     (let output = sanitize_loop [] (split_words raw) in
      truncate_bytes (if output = [] then ''Memory record'' else output) MAX_MEMORY_LABEL_BYTES)"

definition domain_digest :: "externals \<Rightarrow> string \<Rightarrow> string \<Rightarrow> string" where
  "domain_digest E domain v = sha256 E (domain @ v)"

definition opaque_record_id :: "externals \<Rightarrow> string \<Rightarrow> string" where
  "opaque_record_id E rid = ''memory-'' @ hex_string (domain_digest E RECORD_ID_DOMAIN rid)"

definition project_record :: "externals \<Rightarrow> memory_record \<Rightarrow> v3_entity_record" where
  "project_record E r = \<lparr>v3e_id = opaque_record_id E (mr_id r),
     v3e_label = sanitize_summary (mr_summary r), v3e_state = V3Available\<rparr>"

section \<open>The snapshot cache\<close>

record snapshot =
  sn_token :: nat
  sn_query_digest :: string
  sn_records :: "v3_entity_record list"

record snapshot_cache =
  sc_next_token :: nat
  sc_entries :: "snapshot list"

definition cache_new :: snapshot_cache where
  "cache_new = \<lparr>sc_next_token = SNAPSHOT_TOKEN_START, sc_entries = []\<rparr>"

definition cache_insert ::
    "snapshot_cache \<Rightarrow> string \<Rightarrow> v3_entity_record list \<Rightarrow> nat \<times> snapshot_cache" where
  "cache_insert c query_digest records =
     (let token = sc_next_token c;
          next_token = (case checked_add_u64 token 1 of None \<Rightarrow> SNAPSHOT_TOKEN_START | Some t \<Rightarrow> t);
          entries = (if length (sc_entries c) = MAX_SNAPSHOTS then tl (sc_entries c) else sc_entries c) in
      (token, \<lparr>sc_next_token = next_token, sc_entries = entries
                 @ [\<lparr>sn_token = token, sn_query_digest = query_digest, sn_records = records\<rparr>]\<rparr>))"

definition cache_find :: "snapshot_cache \<Rightarrow> nat \<Rightarrow> string \<Rightarrow> v3_entity_record list option" where
  "cache_find c token query_digest =
     map_option sn_records
       (find (\<lambda>s. sn_token s = token \<and> sn_query_digest s = query_digest) (sc_entries c))"

section \<open>Reads\<close>

record 'm memory_authority =
  ma_backend :: "'m memory_backend"
  ma_readable :: bool

definition memory_authority_new :: "'m memory_backend \<Rightarrow> 'm \<Rightarrow> 'm memory_authority" where
  "memory_authority_new B m = \<lparr>ma_backend = B, ma_readable = mb_open B m\<rparr>"

definition memory_invalidate :: "'m memory_authority \<Rightarrow> 'm \<Rightarrow> string \<Rightarrow> bool \<times> 'm" where
  "memory_invalidate A m rid =
     (if \<not> mb_open (ma_backend A) m then (False, m) else mb_invalidate (ma_backend A) m rid)"

definition page_of ::
    "v3_entity_record list \<Rightarrow> v3_page_query \<Rightarrow> handler_failure + v3_entity_record list" where
  "page_of snap query =
     (if v3q_after query > length snap then Inl invalid_failure
      else Inr (take (v3q_limit query) (drop (v3q_after query) snap)))"

definition list_spaces :: "v3_page_query \<Rightarrow> handler_failure + v3_event" where
  "list_spaces page =
     (if v3q_after page > 1 \<or> (case v3q_through page of None \<Rightarrow> False | Some through \<Rightarrow> through \<noteq> 1)
      then Inl invalid_failure
      else Inr (V3MemorySpaces \<lparr>v3ep_after = v3q_after page, v3ep_through = 1,
             v3ep_records = (if v3q_after page = 0
               then [\<lparr>v3e_id = SUMMARY_SPACE_ID, v3e_label = SUMMARY_SPACE_LABEL, v3e_state = V3Available\<rparr>]
               else [])\<rparr>))"

definition open_memory :: "'m memory_authority \<Rightarrow> 'm \<Rightarrow> handler_failure + unit" where
  "open_memory A m =
     (if \<not> ma_readable A then Inl internal_failure
      else if \<not> mb_open (ma_backend A) m then Inl internal_failure else Inr ())"

definition search_snapshot ::
    "externals \<Rightarrow> 'm memory_authority \<Rightarrow> 'm \<Rightarrow> string \<Rightarrow> handler_failure + v3_entity_record list" where
  "search_snapshot E A m query =
     (let lower = mb_lowercase (ma_backend A); needle = lower query in
      bindr (open_memory A m) (\<lambda>_.
      bindr (ok_or (mb_filter (ma_backend A) m MAX_MEMORY_RECORDS) internal_failure) (\<lambda>records.
        Inr (sort_key v3e_id
          (map (project_record E)
            (filter (\<lambda>r. sublist needle (lower (sanitize_summary (mr_summary r)))) records))))))"

definition memory_search ::
    "externals \<Rightarrow> 'm memory_authority \<Rightarrow> 'm \<Rightarrow> snapshot_cache \<Rightarrow> v3_search_request \<Rightarrow>
     (handler_failure + v3_event) \<times> snapshot_cache" where
  "memory_search E A m c request =
     (if v3s_space_id request \<noteq> SUMMARY_SPACE_ID then (Inl memory_not_found_failure, c)
      else
        let query_digest = domain_digest E QUERY_DOMAIN (v3s_query request);
            answer = (\<lambda>through snap. bindr (page_of snap (v3s_page request)) (\<lambda>records.
              Inr (V3MemorySearchResults \<lparr>v3ep_after = v3q_after (v3s_page request),
                     v3ep_through = through, v3ep_records = records\<rparr>))) in
        case v3q_through (v3s_page request) of
          Some through \<Rightarrow>
            (bindr (ok_or (cache_find c through query_digest) invalid_failure) (answer through), c)
        | None \<Rightarrow>
            (case search_snapshot E A m (v3s_query request) of
               Inl e \<Rightarrow> (Inl e, c)
             | Inr records \<Rightarrow>
                 let (through, c1) = cache_insert c query_digest records in
                 (bindr (ok_or (cache_find c1 through query_digest) internal_failure) (answer through), c1)))"

definition memory_metadata ::
    "externals \<Rightarrow> 'm memory_authority \<Rightarrow> 'm \<Rightarrow> v3_resource_query \<Rightarrow> handler_failure + v3_event" where
  "memory_metadata E A m query =
     bindr (open_memory A m) (\<lambda>_.
     bindr (ok_or (mb_filter (ma_backend A) m MAX_MEMORY_RECORDS) internal_failure) (\<lambda>records.
     bindr (ok_or (find (\<lambda>r. opaque_record_id E (mr_id r) = v3r_resource_id query) records)
             memory_not_found_failure) (\<lambda>r.
       Inr (V3MemoryMetadata (project_record E r)))))"

end
