(* ===== verification/V3_Runtime.thy ===== *)
theory V3_Runtime
  imports V3_Memory Tool_Ledger Audit_Log Provider
begin

text \<open>
  The authority of protocol 3: \<open>src/daemon/runtime_v3.rs\<close>, for a daemon without a local-model
  worker, which is the configuration where \<open>model_lifecycle\<close> is \<open>None\<close>. The server handles one
  connection at a time, so a command runs without interleaving. A command reads clocks, draws
  identifiers and calls the memory backend: the world records the number of observations made and,
  as a trace, every call that may change the memory. The process may end at either failpoint.
\<close>

section \<open>Environment and world\<close>

datatype policy_decision = PolicyAllow | PolicyRequireConfirmation | PolicyDeny

text \<open>
  Observations are numbered: \<open>ve_system_ms\<close> is the wall clock (\<open>None\<close> before the epoch), \<open>ve_instant\<close>
  the monotonic clock in milliseconds, \<open>ve_uuid\<close> the simple form of a fresh uuid, \<open>ve_stamp\<close> the
  text of the present time. \<open>ve_should_stop\<close>, \<open>ve_authorize\<close> and \<open>ve_policy_as_str\<close> are
  \<open>ToolExecutionContext::should_stop\<close>, \<open>EffectScopedPolicy::authorize\<close> and
  \<open>PolicyDecision::as_str\<close> of the abi crates.
\<close>

record v3_env =
  ve_ext :: externals
  ve_system_ms :: "nat \<Rightarrow> nat option"
  ve_instant :: "nat \<Rightarrow> nat"
  ve_uuid :: "nat \<Rightarrow> string"
  ve_stamp :: "nat \<Rightarrow> string"
  ve_should_stop :: "nat \<Rightarrow> nat \<Rightarrow> bool"
  ve_authorize :: "abi_tool_call \<Rightarrow> tool_spec \<Rightarrow> policy_decision"
  ve_policy_as_str :: "policy_decision \<Rightarrow> string"
  ve_host :: tool_host
  ve_claims :: "v3_stable_claim list"
  ve_failpoint :: "string option"

record memory_effect =
  me_call :: v3_tool_call
  me_call_digest :: string
  me_record_id :: string

record 'm v3_world =
  vw_db :: db
  vw_memory :: 'm
  vw_used :: "string list"
  vw_cache :: snapshot_cache
  vw_tick :: nat
  vw_effects :: "memory_effect list"

record 'm v3_authority =
  va_grants :: v3_capability_set
  va_tools :: "bound_tool list"
  va_models :: "v3_entity_record list"
  va_memory :: "'m memory_authority"

text \<open>A command ends with a failure, or the process exits at a failpoint.\<close>

datatype v3_stop = Exits | Fails handler_failure

type_synonym ('a, 'm) v3_result = "(v3_stop + 'a) \<times> 'm v3_world"

section \<open>Failures\<close>

definition capability_denied_failure :: handler_failure where
  "capability_denied_failure = failure ''capability_denied'' ''protocol-v3 capability was not granted''"

definition conflict_failure :: handler_failure where
  "conflict_failure = failure ''conflict'' ''tool call id was already used''"

definition approval_conflict_failure :: handler_failure where
  "approval_conflict_failure =
     failure ''conflict'' ''tool approval decision conflicts with durable state''"

definition approval_not_found_failure :: handler_failure where
  "approval_not_found_failure = failure ''not_found'' ''tool approval was not found''"

definition tool_not_found_failure :: handler_failure where
  "tool_not_found_failure = failure ''not_found'' ''tool id was not found''"

definition deadline_failure :: handler_failure where
  "deadline_failure = failure ''deadline_exceeded'' ''safe tool deadline was exceeded''"

definition response_too_large_failure :: handler_failure where
  "response_too_large_failure = failure ''response_too_large'' ''safe tool result exceeded its bound''"

definition claim_not_found_failure :: handler_failure where
  "claim_not_found_failure = failure ''not_found'' ''claim id was not found''"

fun map_approval_store_error :: "store_error \<Rightarrow> handler_failure" where
  "map_approval_store_error (ToolApprovalNotFound _) = approval_not_found_failure"
| "map_approval_store_error ToolApprovalConflict = approval_conflict_failure"
| "map_approval_store_error ToolApprovalDigestMismatch = approval_conflict_failure"
| "map_approval_store_error (InvalidInput _) = invalid_failure"
| "map_approval_store_error _ = internal_failure"

fun map_execution_store_error :: "store_error \<Rightarrow> handler_failure" where
  "map_execution_store_error (ToolApprovalNotFound _) = approval_not_found_failure"
| "map_execution_store_error (ToolExecutionNotFound _) = approval_not_found_failure"
| "map_execution_store_error ToolApprovalConflict = approval_conflict_failure"
| "map_execution_store_error ToolApprovalDigestMismatch = approval_conflict_failure"
| "map_execution_store_error ToolExecutionConflict = approval_conflict_failure"
| "map_execution_store_error (InvalidInput _) = invalid_failure"
| "map_execution_store_error _ = internal_failure"

fun approval_state_of :: "tool_approval_state \<Rightarrow> v3_tool_approval_state" where
  "approval_state_of ApPending = V3ApPending"
| "approval_state_of ApApproved = V3ApApproved"
| "approval_state_of ApDenied = V3ApDenied"
| "approval_state_of ApCancelled = V3ApCancelled"
| "approval_state_of ApExpired = V3ApExpired"
| "approval_state_of ApConsumed = V3ApConsumed"

definition approval_status_of :: "tool_approval_record \<Rightarrow> v3_tool_approval_status" where
  "approval_status_of r = \<lparr>v3ta_tool_id = ta_tool_id r, v3ta_call_id = ta_call_id r,
     v3ta_call_digest = ta_call_digest r, v3ta_state = approval_state_of (ta_state r),
     v3ta_expires_at_ms = ta_expires_at_ms r\<rparr>"

section \<open>Steps of a command\<close>

text \<open>
  \<open>guarded\<close> turns a pure result into a step, \<open>stored\<close> runs a store operation on the database of the
  world: a failing transaction leaves it as it was.
\<close>

definition guarded :: "handler_failure + 'a \<Rightarrow> 'm v3_world \<Rightarrow> ('a, 'm) v3_result" where
  "guarded r w = (map_err Fails r, w)"

definition stored ::
    "(store_error \<Rightarrow> handler_failure) \<Rightarrow> (db \<Rightarrow> store_error + 'a \<times> db) \<Rightarrow> 'm v3_world \<Rightarrow>
     ('a, 'm) v3_result" where
  "stored f operation w =
     (case operation (vw_db w) of Inl e \<Rightarrow> (Inl (Fails (f e)), w)
      | Inr (a, d') \<Rightarrow> (Inr a, w\<lparr>vw_db := d'\<rparr>))"

definition observe :: "(nat \<Rightarrow> 'a) \<Rightarrow> 'm v3_world \<Rightarrow> ('a, 'm) v3_result" where
  "observe f w = (Inr (f (vw_tick w)), w\<lparr>vw_tick := Suc (vw_tick w)\<rparr>)"

definition now_ms_of :: "v3_env \<Rightarrow> nat \<Rightarrow> handler_failure + nat" where
  "now_ms_of V i =
     (case ve_system_ms V i of None \<Rightarrow> Inl internal_failure
      | Some n \<Rightarrow> if n < u64_bound then Inr n else Inl internal_failure)"

definition read_clock :: "v3_env \<Rightarrow> 'm v3_world \<Rightarrow> (nat, 'm) v3_result" where
  "read_clock V w = andthen (observe (now_ms_of V) w) (\<lambda>r. guarded r)"

definition maybe_tool_execution_failpoint :: "v3_env \<Rightarrow> string \<Rightarrow> 'm v3_world \<Rightarrow> (unit, 'm) v3_result" where
  "maybe_tool_execution_failpoint V name w =
     (if ve_failpoint V = Some name then (Inl Exits, w) else (Inr (), w))"

definition reserve_call :: "string \<Rightarrow> 'm v3_world \<Rightarrow> (unit, 'm) v3_result" where
  "reserve_call call_id w =
     (if call_id \<in> set (vw_used w) then (Inl (Fails conflict_failure), w)
      else (Inr (), w\<lparr>vw_used := call_id # vw_used w\<rparr>))"

definition forget_tool_call :: "string \<Rightarrow> 'm v3_world \<Rightarrow> 'm v3_world" where
  "forget_tool_call call_id w = w\<lparr>vw_used := removeAll call_id (vw_used w)\<rparr>"

section \<open>Audit\<close>

definition tool_audit_metadata ::
    "string \<Rightarrow> string \<Rightarrow> string \<Rightarrow> string \<Rightarrow> string \<Rightarrow> (string \<times> nat) option \<Rightarrow> json" where
  "tool_audit_metadata call_id tool_id input_digest effect policy output =
     JObject ([(''call_id'', JString call_id), (''tool_id'', JString tool_id),
        (''input_digest'', JString input_digest), (''effect'', JString effect), (''policy'', JString policy)]
      @ (case output of None \<Rightarrow> []
         | Some (digest, bytes) \<Rightarrow>
             [(''output_digest'', JString digest), (''output_bytes'', JNumber (PosInt bytes))]))"

definition audit_with ::
    "v3_env \<Rightarrow> string \<Rightarrow> string \<Rightarrow> json \<Rightarrow> 'm v3_world \<Rightarrow> (unit, 'm) v3_result" where
  "audit_with V action outcome metadata w =
     andthen (observe (ve_stamp V) w) (\<lambda>now.
       stored (\<lambda>_. internal_failure) (\<lambda>d.
         bindr (audit_metadata_new (ve_ext V) metadata) (\<lambda>m.
         bindr (record_audit (ve_ext V) now d
                 \<lparr>nae_run_id = None, nae_action = action, nae_outcome = outcome, nae_metadata = m\<rparr>)
           (\<lambda>(_, d'). Inr ((), d')))))"

definition record_tool_audit ::
    "v3_env \<Rightarrow> string \<Rightarrow> string \<Rightarrow> string \<Rightarrow> string \<Rightarrow> string \<Rightarrow> (string \<times> nat) option \<Rightarrow> 'm v3_world \<Rightarrow>
     (unit, 'm) v3_result" where
  "record_tool_audit V action outcome call_id tool_id input_digest output =
     audit_with V action outcome
       (tool_audit_metadata call_id tool_id input_digest ''read_only'' ''effect-scoped'' output)"

definition record_mutating_tool_audit ::
    "v3_env \<Rightarrow> string \<Rightarrow> string \<Rightarrow> string \<Rightarrow> string \<Rightarrow> string \<Rightarrow> (string \<times> nat) option \<Rightarrow> 'm v3_world \<Rightarrow>
     (unit, 'm) v3_result" where
  "record_mutating_tool_audit V action outcome call_id tool_id input_digest output =
     audit_with V action outcome
       (tool_audit_metadata call_id tool_id input_digest ''mutating'' ''exact-call-approval'' output)"

section \<open>The approved memory effect\<close>

definition perform_invalidate ::
    "'m v3_authority \<Rightarrow> v3_tool_call \<Rightarrow> string \<Rightarrow> string \<Rightarrow> 'm v3_world \<Rightarrow> (bool, 'm) v3_result" where
  "perform_invalidate A call call_digest rid w =
     (let (ok, m) = memory_invalidate (va_memory A) (vw_memory w) rid in
      (Inr ok, w\<lparr>vw_memory := m, vw_effects := vw_effects w
         @ [\<lparr>me_call = call, me_call_digest = call_digest, me_record_id = rid\<rparr>]\<rparr>))"

definition request_approval ::
    "v3_tool_call \<Rightarrow> string \<Rightarrow> nat \<Rightarrow> 'm v3_world \<Rightarrow> (v3_event, 'm) v3_result" where
  "request_approval call call_digest now w =
     andthen (reserve_call (v3tc_call_id call) w) (\<lambda>_ w1.
     andthen (guarded (ok_or (checked_add_u64 now MAX_TOOL_APPROVAL_TTL_MS) internal_failure) w1)
       (\<lambda>expires_at_ms w2.
       case create_tool_approval (vw_db w2)
              \<lparr>na_call_id = v3tc_call_id call, na_tool_id = v3tc_tool_id call,
               na_call_digest = call_digest, na_created_at_ms = now, na_expires_at_ms = expires_at_ms\<rparr> of
         Inl e \<Rightarrow>
           if e \<noteq> ToolApprovalConflict
           then (Inl (Fails internal_failure), forget_tool_call (v3tc_call_id call) w2)
           else (Inl (Fails conflict_failure), w2)
       | Inr (_, d') \<Rightarrow>
           (Inr (V3ToolApprovalStatus \<lparr>v3ta_tool_id = v3tc_tool_id call, v3ta_call_id = v3tc_call_id call,
                  v3ta_call_digest = call_digest, v3ta_state = V3ApPending,
                  v3ta_expires_at_ms = expires_at_ms\<rparr>), w2\<lparr>vw_db := d'\<rparr>)))"

fun operation_label :: "v3_operation_state \<Rightarrow> string" where
  "operation_label V3Available = ''available''"
| "operation_label V3Queued = ''queued''"
| "operation_label V3Running = ''running''"
| "operation_label V3InputRequired = ''input_required''"
| "operation_label V3Succeeded = ''succeeded''"
| "operation_label V3Failed = ''failed''"
| "operation_label V3Denied = ''denied''"
| "operation_label V3Cancelled = ''cancelled''"
| "operation_label V3NotDownloaded = ''not_downloaded''"

definition tool_result_json :: "v3_tool_result \<Rightarrow> json" where
  "tool_result_json r = JObject [(''tool_id'', JString (v3tr_tool_id r)), (''call_id'', JString (v3tr_call_id r)),
     (''state'', JString (operation_label (v3tr_state r))), (''output'', v3tr_output r)]"

definition effect_result :: "v3_tool_call \<Rightarrow> string \<Rightarrow> bool \<Rightarrow> v3_tool_result" where
  "effect_result call rid ok =
     \<lparr>v3tr_tool_id = v3tc_tool_id call, v3tr_call_id = v3tc_call_id call,
      v3tr_state = (if ok then V3Succeeded else V3Failed),
      v3tr_output = (if ok then JObject [(''obsolete'', JBool True), (''record_id'', JString rid)]
                     else JObject [(''code'', JString ''memory_unavailable'')])\<rparr>"

text \<open>From the effect to the answer.\<close>

definition settle_effect ::
    "v3_env \<Rightarrow> v3_tool_call \<Rightarrow> string \<Rightarrow> string \<Rightarrow> string \<Rightarrow> bool \<Rightarrow> 'm v3_world \<Rightarrow>
     (v3_event, 'm) v3_result" where
  "settle_effect V call input_digest execution_id rid ok w =
     andthen (maybe_tool_execution_failpoint V ''after_effect'' w) (\<lambda>_ w1.
       let result = effect_result call rid ok;
           result_bytes = json_to_string (ve_ext V) (tool_result_json result);
           result_digest = hex_string (sha256 (ve_ext V) result_bytes);
           outcome = (if ok then OutcomeSucceeded else OutcomeFailed) in
       andthen (guarded (map_err (\<lambda>_. response_too_large_failure)
                 (v3_tool_result_validate (ve_ext V) result)) w1) (\<lambda>_ w2.
       andthen (read_clock V w2) (\<lambda>now w3.
       andthen (stored map_execution_store_error (\<lambda>d. complete_tool_execution d (v3tr_call_id result)
                 execution_id outcome result_digest now) w3) (\<lambda>_ w4.
       andthen (record_mutating_tool_audit V ''v3_tool_execution''
                 (if v3tr_state result = V3Succeeded then ''succeeded'' else ''failed'')
                 (v3tr_call_id result) (v3tr_tool_id result) input_digest
                 (Some (result_digest, length result_bytes)) w4) (\<lambda>_ w5.
         (Inr (V3ToolResultEv result), w5))))))"

text \<open>From the successful preparation to the answer.\<close>

definition execute_prepared ::
    "v3_env \<Rightarrow> 'm v3_authority \<Rightarrow> v3_tool_call \<Rightarrow> string \<Rightarrow> string \<Rightarrow> string \<Rightarrow> 'm v3_world \<Rightarrow>
     (v3_event, 'm) v3_result" where
  "execute_prepared V A call call_digest input_digest execution_id w =
     andthen (maybe_tool_execution_failpoint V ''after_prepare'' w) (\<lambda>_ w1.
     andthen (record_mutating_tool_audit V ''v3_tool_authorization'' ''approved'' (v3tc_call_id call)
               (v3tc_tool_id call) input_digest None w1) (\<lambda>_ w2.
     andthen (guarded (ok_or (json_get_str (v3tc_input call) ''record_id'') invalid_failure) w2) (\<lambda>rid w3.
     andthen (perform_invalidate A call call_digest rid w3) (\<lambda>ok w4.
       settle_effect V call input_digest execution_id rid ok w4))))"

definition invoke_approved_memory_effect ::
    "v3_env \<Rightarrow> 'm v3_authority \<Rightarrow> v3_tool_call \<Rightarrow> string \<Rightarrow> 'm v3_world \<Rightarrow> (v3_event, 'm) v3_result" where
  "invoke_approved_memory_effect V A call input_digest w =
     andthen (guarded (map_err (\<lambda>_. invalid_failure) (approval_digest (ve_ext V) call)) w) (\<lambda>call_digest w1.
     andthen (read_clock V w1) (\<lambda>now w2.
     andthen (stored map_approval_store_error (\<lambda>d. tool_approval d (v3tc_call_id call) now) w2)
       (\<lambda>found w3.
       case found of None \<Rightarrow> request_approval call call_digest now w3
       | Some approval \<Rightarrow>
           if ta_tool_id approval \<noteq> v3tc_tool_id call \<or> ta_call_digest approval \<noteq> call_digest
           then (Inl (Fails approval_conflict_failure), w3)
           else if ta_state approval \<noteq> ApApproved then (Inl (Fails approval_conflict_failure), w3)
           else
             andthen (observe (\<lambda>i. ''execution-'' @ ve_uuid V i) w3) (\<lambda>execution_id w4.
             andthen (stored map_execution_store_error (\<lambda>d. prepare_tool_execution d (v3tc_call_id call)
                       call_digest execution_id now) w4) (\<lambda>prepared w5.
               case prepared of
                 ExpiredApproval _ \<Rightarrow> (Inl (Fails approval_conflict_failure), w5)
               | Prepared _ \<Rightarrow> execute_prepared V A call call_digest input_digest execution_id w5)))))"

section \<open>Invoking a tool\<close>

definition fail_with_audit ::
    "v3_env \<Rightarrow> string \<Rightarrow> v3_tool_call \<Rightarrow> string \<Rightarrow> handler_failure \<Rightarrow> 'm v3_world \<Rightarrow> ('a, 'm) v3_result" where
  "fail_with_audit V outcome call input_digest f w =
     andthen (record_tool_audit V ''v3_tool_execution'' outcome (v3tc_call_id call) (v3tc_tool_id call)
               input_digest None w) (\<lambda>_ w1. (Inl (Fails f), w1))"

fun tool_status_state :: "tool_status \<Rightarrow> v3_operation_state" where
  "tool_status_state ToolOk = V3Succeeded"
| "tool_status_state ToolErr = V3Failed"
| "tool_status_state ToolDenied = V3Failed"

text \<open>From the recorded authorization of a read-only call to the answer.\<close>

definition run_safe_tool ::
    "v3_env \<Rightarrow> v3_tool_call \<Rightarrow> abi_tool_call \<Rightarrow> tool_spec \<Rightarrow> string \<Rightarrow> 'm v3_world \<Rightarrow>
     (v3_event, 'm) v3_result" where
  "run_safe_tool V call abi_call spec input_digest w =
     andthen (observe (ve_instant V) w) (\<lambda>started w1.
       let deadline = started + 1000 in
       andthen (observe (ve_should_stop V deadline) w1) (\<lambda>stop w2.
         case safe_execute (ve_ext V) (ve_host V) stop abi_call spec of
           Inl _ \<Rightarrow> fail_with_audit V ''failed'' call input_digest internal_failure w2
         | Inr output \<Rightarrow>
             andthen (observe (ve_instant V) w2) (\<lambda>ended w3.
               if ended \<ge> deadline
               then fail_with_audit V ''deadline_exceeded'' call input_digest deadline_failure w3
               else case json_from_str (ve_ext V) (to_payload output) of
                 None \<Rightarrow> fail_with_audit V ''failed'' call input_digest internal_failure w3
               | Some output_json \<Rightarrow>
                   let state = tool_status_state (to_status output);
                       result = \<lparr>v3tr_tool_id = v3tc_tool_id call, v3tr_call_id = v3tc_call_id call,
                                 v3tr_state = state, v3tr_output = output_json\<rparr> in
                   if \<not> is_ok (v3_tool_result_validate (ve_ext V) result)
                   then fail_with_audit V ''response_too_large'' call input_digest
                          response_too_large_failure w3
                   else
                     let output_bytes = json_to_string (ve_ext V) (v3tr_output result) in
                     andthen (record_tool_audit V ''v3_tool_execution''
                               (if state = V3Succeeded then ''succeeded'' else ''failed'')
                               (v3tr_call_id result) (v3tr_tool_id result) input_digest
                               (Some (hex_string (sha256 (ve_ext V) output_bytes), length output_bytes)) w3)
                       (\<lambda>_ w4. (Inr (V3ToolResultEv result), w4)))))"

definition invoke_tool ::
    "v3_env \<Rightarrow> 'm v3_authority \<Rightarrow> v3_tool_call \<Rightarrow> 'm v3_world \<Rightarrow> (v3_event, 'm) v3_result" where
  "invoke_tool V A call w =
     andthen (guarded (map_err (\<lambda>_. invalid_failure) (v3_tool_call_validate (ve_ext V) call)) w) (\<lambda>_ w1.
     andthen (guarded (ok_or (find (\<lambda>t. td_tool_id (bt_descriptor t) = v3tc_tool_id call) (va_tools A))
               tool_not_found_failure) w1) (\<lambda>tool w2.
       if \<not> bt_validator tool (v3tc_input call) then (Inl (Fails invalid_failure), w2)
       else
         let input = json_to_string (ve_ext V) (v3tc_input call);
             abi_call = \<lparr>ac_id = v3tc_call_id call, ac_name = v3tc_tool_id call, ac_input = input\<rparr>;
             input_digest = hex_string (sha256 (ve_ext V) input);
             decision = ve_authorize V abi_call (bt_spec tool) in
         if bt_route tool = ApprovalRequired then
           if decision \<noteq> PolicyRequireConfirmation then (Inl (Fails capability_denied_failure), w2)
           else invoke_approved_memory_effect V A call input_digest w2
         else
           andthen (reserve_call (v3tc_call_id call) w2) (\<lambda>_ w3.
             if decision \<noteq> PolicyAllow then (Inl (Fails capability_denied_failure), w3)
             else
               case record_tool_audit V ''v3_tool_authorization'' (ve_policy_as_str V decision)
                      (v3tc_call_id call) (v3tc_tool_id call) input_digest None w3 of
                 (Inl _, w4) \<Rightarrow> (Inl (Fails internal_failure), forget_tool_call (v3tc_call_id call) w4)
               | (Inr _, w4) \<Rightarrow> run_safe_tool V call abi_call (bt_spec tool) input_digest w4)))"

section \<open>Decisions and dispatch\<close>

definition v3_decide_tool_approval ::
    "v3_env \<Rightarrow> v3_tool_decision \<Rightarrow> tool_approval_decision \<Rightarrow> 'm v3_world \<Rightarrow> (v3_event, 'm) v3_result" where
  "v3_decide_tool_approval V decision outcome w =
     andthen (guarded (map_err (\<lambda>_. invalid_failure) (v3_tool_decision_validate decision)) w) (\<lambda>_ w1.
     andthen (read_clock V w1) (\<lambda>now w2.
     andthen (stored map_approval_store_error (\<lambda>d. decide_tool_approval d (v3td_call_id decision)
               (v3td_call_digest decision) (v3td_decision_id decision) outcome now) w2) (\<lambda>r w3.
       (Inr (V3ToolApprovalStatus (approval_status_of r)), w3))))"

definition v3_cancel_tool_approval ::
    "v3_env \<Rightarrow> v3_action \<Rightarrow> 'm v3_world \<Rightarrow> (v3_event, 'm) v3_result" where
  "v3_cancel_tool_approval V action w =
     andthen (guarded (map_err (\<lambda>_. invalid_failure) (v3_action_validate action)) w) (\<lambda>_ w1.
     andthen (read_clock V w1) (\<lambda>now w2.
     andthen (stored map_approval_store_error (\<lambda>d. cancel_tool_approval d (v3a_resource_id action)
               (v3a_operation_id action) now) w2) (\<lambda>r w3.
       (Inr (V3ToolApprovalStatus (approval_status_of r)), w3))))"

text \<open>The watermark and the slice of a page over a fixed list.\<close>

definition fixed_page :: "'a list \<Rightarrow> v3_page_query \<Rightarrow> handler_failure + nat \<times> 'a list" where
  "fixed_page items page =
     (let count = length items;
          through = (case v3q_through page of None \<Rightarrow> count | Some t \<Rightarrow> t) in
      if through > count \<or> v3q_after page > through then Inl invalid_failure
      else Inr (through, take (min (through - v3q_after page) (v3q_limit page))
                  (drop (v3q_after page) items)))"

definition v3_negotiate :: "'m v3_authority \<Rightarrow> v3_grant_request \<Rightarrow> handler_failure + v3_event" where
  "v3_negotiate A request =
     bindr (map_err (\<lambda>_. internal_failure) (v3_from_sorted
             (filter (v3_contains (v3g_requested request)) (v3k_capabilities (va_grants A))))) (\<lambda>granted.
       Inr (V3Negotiated \<lparr>v3n_protocol_version = APP_PROTOCOL_V3, v3n_schema_version = APP_SCHEMA_V3,
              v3n_granted = granted\<rparr>))"

definition claim_by_id :: "v3_env \<Rightarrow> string \<Rightarrow> handler_failure + v3_event" where
  "claim_by_id V cid =
     bindr (ok_or (find (\<lambda>c. v3c_id c = cid) (ve_claims V)) claim_not_found_failure) (\<lambda>claim.
     bindr (map_err (\<lambda>_. internal_failure) (v3_stable_claim_validate claim)) (\<lambda>_. Inr (V3ClaimEv claim)))"

definition v3_handle ::
    "v3_env \<Rightarrow> 'm v3_authority \<Rightarrow> v3_command \<Rightarrow> 'm v3_world \<Rightarrow> (v3_event, 'm) v3_result" where
  "v3_handle V A command w =
     (case command of V3Negotiate request \<Rightarrow> guarded (v3_negotiate A request) w
      | _ \<Rightarrow>
        if \<not> v3_permits (va_grants A) command then (Inl (Fails capability_denied_failure), w)
        else (case command of
          V3ListTools page \<Rightarrow>
            guarded (bindr (fixed_page (va_tools A) page) (\<lambda>(through, ts).
              Inr (V3Tools \<lparr>v3tp_after = v3q_after page, v3tp_through = through,
                            v3tp_tools = map bt_descriptor ts\<rparr>))) w
        | V3InvokeTool call \<Rightarrow> invoke_tool V A call w
        | V3ApproveTool decision \<Rightarrow> v3_decide_tool_approval V decision Approve w
        | V3DenyTool decision \<Rightarrow> v3_decide_tool_approval V decision Deny w
        | V3CancelTool action \<Rightarrow> v3_cancel_tool_approval V action w
        | V3ListMemorySpaces page \<Rightarrow> guarded (list_spaces page) w
        | V3SearchMemory request \<Rightarrow>
            (let (r, c) = memory_search (ve_ext V) (va_memory A) (vw_memory w) (vw_cache w) request in
             guarded r (w\<lparr>vw_cache := c\<rparr>))
        | V3ReadMemoryMetadata query \<Rightarrow>
            guarded (memory_metadata (ve_ext V) (va_memory A) (vw_memory w) query) w
        | V3ListModels page \<Rightarrow>
            guarded (bindr (fixed_page (va_models A) page) (\<lambda>(through, rs).
              Inr (V3Models \<lparr>v3ep_after = v3q_after page, v3ep_through = through, v3ep_records = rs\<rparr>))) w
        | V3ClaimById query \<Rightarrow> guarded (claim_by_id V (v3r_resource_id query)) w
        | _ \<Rightarrow> (Inl (Fails capability_denied_failure), w)))"

definition v3_authorizes :: "'m v3_authority \<Rightarrow> v3_capability_set \<Rightarrow> v3_command \<Rightarrow> bool" where
  "v3_authorizes A grants command \<longleftrightarrow>
     list_all (v3_contains (va_grants A)) (v3k_capabilities grants) \<and> v3_permits grants command"

section \<open>Startup\<close>

fun retain_first :: "string list \<Rightarrow> v3_entity_record list \<Rightarrow> v3_entity_record list" where
  "retain_first seen [] = []"
| "retain_first seen (r # rs) =
     (if v3e_id r \<in> set seen then retain_first seen rs else r # retain_first (v3e_id r # seen) rs)"

definition route_models :: "provider_route list \<Rightarrow> v3_entity_record list" where
  "route_models routes = map (\<lambda>r. \<lparr>v3e_id = ''abi-local:'' @ pr_model r,
       v3e_label = ''ABI local model '' @ pr_model r, v3e_state = V3Available\<rparr>)
     (filter (\<lambda>r. pr_backend r = Abi) routes)"

definition used_call_ids :: "externals \<Rightarrow> db \<Rightarrow> store_error + string list" where
  "used_call_ids E d =
     bindr (audit_events_for_run E d None) (\<lambda>events.
       Inr (List.map_filter (\<lambda>e. json_get_str (ae_metadata e) ''call_id'')
              (filter (\<lambda>e. ae_action e = ''v3_tool_authorization'') events)))"

definition available_grants :: "bound_tool list \<Rightarrow> bool \<Rightarrow> v3_entity_record list \<Rightarrow> v3_capability list" where
  "available_grants tools readable models =
     (if tools \<noteq> [] then [ListToolsCap, InvokeToolsCap] else [])
     @ (if list_ex (\<lambda>t. bt_route t = ApprovalRequired) tools
        then [DecideToolApprovalsCap, CancelToolsCap] else [])
     @ (if readable then [ReadMemoryCap] else [])
     @ (if models \<noteq> [] then [ReadModelsCap] else [])
     @ [ReadClaimsByIdCap]"

definition from_provider_routes ::
    "v3_env \<Rightarrow> schema_compiler \<Rightarrow> build_edition \<Rightarrow> 'm memory_backend \<Rightarrow> provider_route list \<Rightarrow>
     v3_entity_record list \<Rightarrow> db \<Rightarrow> 'm \<Rightarrow> handler_failure + 'm v3_authority \<times> string list" where
  "from_provider_routes V validator_for active B routes manifest_models d m =
     (let models = retain_first [] (route_models routes @ manifest_models) in
      bindr (map_err (\<lambda>_. internal_failure) (catalog_build (ve_ext V) validator_for active)) (\<lambda>tools.
      bindr (map_err (\<lambda>_. internal_failure) (used_call_ids (ve_ext V) d)) (\<lambda>used.
        let memory = memory_authority_new B m in
        bindr (map_err (\<lambda>_. internal_failure)
                (v3_from_sorted (available_grants tools (ma_readable memory) models))) (\<lambda>grants.
          Inr (\<lparr>va_grants = grants, va_tools = tools, va_models = models, va_memory = memory\<rparr>, used)))))"

end
