(* ===== verification/V3_Runtime_Facts.thy ===== *)
theory V3_Runtime_Facts
  imports V3_Runtime Tool_Ledger_Facts
begin

text \<open>
  Every step of the protocol-3 authority except the call to the memory backend is calm: it only
  moves the tool ledger forward and leaves the trace of effects alone. The invariant ties every
  effect on the trace to the consumed approval of exactly that call.
\<close>

section \<open>Postconditions of a step\<close>

text \<open>\<open>leads R Q p\<close>: if the step stops, \<open>R\<close> holds of the world; if it returns, \<open>Q\<close> does.\<close>

definition leads :: "('s \<Rightarrow> bool) \<Rightarrow> ('a \<Rightarrow> 's \<Rightarrow> bool) \<Rightarrow> ('e + 'a) \<times> 's \<Rightarrow> bool" where
  "leads R Q p = (case p of (Inl _, s) \<Rightarrow> R s | (Inr x, s) \<Rightarrow> Q x s)"

lemma leads_simps [simp]: "leads R Q (Inl e, s) = R s" "leads R Q (Inr x, s) = Q x s"
  by (simp_all add: leads_def)

lemma leads_andthen [simp]: "leads R Q (andthen p k) = leads R (\<lambda>x s. leads R Q (k x s)) p"
  by (auto simp: leads_def andthen_def split: prod.splits sum.splits)

lemma leads_mono:
  "leads R Q p \<Longrightarrow> (\<And>s. R s \<Longrightarrow> R' s) \<Longrightarrow> (\<And>x s. Q x s \<Longrightarrow> Q' x s) \<Longrightarrow> leads R' Q' p"
  by (auto simp: leads_def split: prod.splits sum.splits)

lemma leads_snd: "leads P (\<lambda>_. P) p \<longleftrightarrow> P (snd p)"
  by (auto simp: leads_def split: prod.splits sum.splits)

lemma leads_guarded [simp]:
  "leads R Q (guarded r w) = (case r of Inl _ \<Rightarrow> R w | Inr x \<Rightarrow> Q x w)"
  by (simp add: guarded_def map_err_def split: sum.splits)

section \<open>The ledger moves forward\<close>

definition consumed_row :: "approval_row \<Rightarrow> bool" where
  "consumed_row r \<longleftrightarrow> tap_state r = ''consumed''"

definition prepared_calls :: "db \<Rightarrow> string set" where
  "prepared_calls d = tex_call_id ` set (tool_executions d)"

text \<open>What later states of the ledger keep: consumed approvals with their logs, and executions.\<close>

definition ledger_le :: "db \<Rightarrow> db \<Rightarrow> bool" where
  "ledger_le d d' \<longleftrightarrow> (tools_wf d \<longrightarrow> tools_wf d'
     \<and> (\<forall>r\<in>set (tool_approvals d). consumed_row r \<longrightarrow> r \<in> set (tool_approvals d'))
     \<and> prepared_calls d \<subseteq> prepared_calls d')"

lemma ledger_le_refl [simp]: "ledger_le d d"
  by (simp add: ledger_le_def)

lemma ledger_le_trans: "ledger_le d d' \<Longrightarrow> ledger_le d' d'' \<Longrightarrow> ledger_le d d''"
  unfolding ledger_le_def by blast

lemma tools_wf_tables:
  assumes "same_approvals d d'" and "same_executions d d'"
  shows "tools_wf d' = tools_wf d"
proof -
  from assms have "approval_log d' = approval_log d" "execution_log d' = execution_log d"
    using logs_same by blast+
  with assms show ?thesis
    by (simp only: tools_wf_def approvals_wf_def executions_wf_def resolutions_unique_def)
qed

lemma ledger_le_tables: "same_approvals d d' \<Longrightarrow> same_executions d d' \<Longrightarrow> ledger_le d d'"
  using tools_wf_tables [of d d'] by (simp add: ledger_le_def prepared_calls_def)

lemma micro_keeps_consumed:
  assumes "tool_micro d d'" and wf: "tools_wf d" and r: "r \<in> set (tool_approvals d)" "consumed_row r"
  shows "r \<in> set (tool_approvals d')"
  using assms(1)
proof cases
  case (moved r0 s t v e)
  have "tap_call_id r \<noteq> tap_call_id v"
  proof
    assume "tap_call_id r = tap_call_id v"
    with moved r wf have "r = r0"
      by (intro key_unique [of tap_call_id "tool_approvals d"]) (auto simp: tools_wf_def approvals_wf_def)
    with moved(2) r(2) have "s = ApConsumed" by (cases s) (auto simp: consumed_row_def)
    with moved(3) show False by simp
  qed
  with moved r show ?thesis by (simp add: replace_row_mem)
qed (use r in auto)

lemma micro_keeps_executions: "tool_micro d d' \<Longrightarrow> prepared_calls d \<subseteq> prepared_calls d'"
  unfolding prepared_calls_def
proof (induction rule: tool_micro.induct)
  case (finished x d t v d' e)
  have "map tex_call_id (tool_executions d') = map tex_call_id (tool_executions d)"
    using finished by (simp add: replace_row_keys)
  then show ?case by (metis list.set_map order_refl)
qed auto

lemma ledger_le_micro: "tool_micro d d' \<Longrightarrow> ledger_le d d'"
  using tool_micro_wf micro_keeps_consumed micro_keeps_executions unfolding ledger_le_def by blast

lemma ledger_le_micros: "tool_micro\<^sup>*\<^sup>* d d' \<Longrightarrow> ledger_le d d'"
  by (induction rule: rtranclp_induct) (auto intro: ledger_le_trans ledger_le_micro)

lemma ledger_le_step: "tool_step d d' \<Longrightarrow> ledger_le d d'"
  using tool_step_micro ledger_le_micros unfolding ledger_le_def by blast

section \<open>What a call has been prepared with\<close>

lemma read_then_stored:
  assumes wf: "tools_wf d" and ok: "tool_approval d cid now = Inr (Some a, d')"
    and open_a: "ta_state a = ApApproved"
  shows "d' = d \<and> require_approval d cid = Inr a"
proof -
  from ok obtain cur where cur: "read_approval d cid = Inr (Some cur)"
    by (auto simp: tool_approval_def rust_simps split: option.splits)
  then have req: "require_approval d cid = Inr cur" by (simp add: require_approval_def)
  from ok cur obtain expired where exp: "expire_if_needed d cur (int now) = Inr expired"
    and out: "(case expired of Some (record, d1) \<Rightarrow> Inr (Some record, d1)
               | None \<Rightarrow> Inr (Some cur, d)) = (Inr (Some a, d') :: store_error + _)"
    by (auto simp: tool_approval_def rust_simps)
  show ?thesis
  proof (cases expired)
    case None
    with out req show ?thesis by simp
  next
    case (Some p)
    with out exp have "expire_if_needed d cur (int now) = Inr (Some (a, d'))" by (auto split: prod.splits)
    from expire_if_needed_effect [OF wf req this] open_a show ?thesis by simp
  qed
qed

lemma prepare_consumes_row:
  assumes wf: "tools_wf d"
    and ok: "prepare_tool_execution d cid digest xid now_ms = Inr (Prepared record, d')"
    and cur: "require_approval d cid = Inr cur"
  shows "\<exists>r\<in>set (tool_approvals d'). consumed_row r \<and> tap_call_id r = cid \<and> tap_call_digest r = digest
           \<and> tap_tool_id r = ta_tool_id cur \<and> tap_decision_id r \<noteq> None"
    and "ledger_le d d'" "cid \<in> prepared_calls d'" "cid \<notin> prepared_calls d"
proof -
  have awf: "approvals_wf d" using wf by (simp add: tools_wf_def)
  from prepare_effect [OF wf ok] cur obtain dm where
    m: "tool_micro d dm" "tool_micro dm d'" and st: "ta_state cur = ApApproved"
    and dig: "ta_call_digest cur = digest" and did: "ta_decision_id cur \<noteq> None"
    and none: "execution_status d cid = None" and some: "execution_status d' cid = Some ExPrepared"
    by auto
  show le: "ledger_le d d'" using m by (blast intro: ledger_le_trans ledger_le_micro)
  with wf have wf': "tools_wf d'" by (simp add: ledger_le_def)
  show "cid \<in> prepared_calls d'"
    using some wf' by (auto simp: prepared_calls_def tools_wf_def execution_status_Some)
  show "cid \<notin> prepared_calls d"
  proof
    assume "cid \<in> prepared_calls d"
    then obtain x where x: "x \<in> set (tool_executions d)" "tex_call_id x = cid"
      by (auto simp: prepared_calls_def)
    with wf have "execution_row_check x" by (simp add: tools_wf_def executions_wf_def)
    then obtain y where "row_to_execution x = Inr y" using execution_check_decodes by blast
    with x wf have "read_execution d cid = Inr (Some y)" by (auto simp: tools_wf_def read_execution_wf)
    with none show False by (simp add: execution_status_def)
  qed
  obtain r where r: "r \<in> set (tool_approvals d)" "tap_call_id r = cid" "row_to_approval r = Inr cur"
    "approval_row_check r" using awf cur by (rule require_approval_row) blast
  note fs = row_to_approval_fields [OF r(3)]
  let ?P = "\<lambda>x. tap_call_id x = cid \<and> tap_state x = ''approved''"
  let ?f = "\<lambda>x. x\<lparr>tap_state := ''consumed'', tap_updated_at_ms := int now_ms\<rparr>"
  from ok cur obtain n d1 d2 d3 where upd: "update_approvals ?P ?f d = Inr (n, d1)"
    and ev: "insert_approval_event d1 cid ApConsumed (ta_decision_id cur) None (int now_ms) = Inr d2"
    and ins: "insert_execution \<lparr>tex_call_id = cid, tex_execution_id = xid, tex_state = ''prepared'',
      tex_result_digest = None, tex_started_at_ms = int now_ms, tex_finished_at_ms = None\<rparr> d2 = Inr d3"
    and xev: "insert_execution_event d3 cid xid ExPrepared None (int now_ms) = Inr d'"
    by (auto simp: prepare_tool_execution_def rust_simps split: if_splits option.splits)
  have "?f r \<in> set (tool_approvals d2)"
    using approval_update_micro(3) [OF wf r(1) _ _ upd, of ApApproved ApConsumed] fs(3) st r(2) ev
      own_ids [OF wf r(1)]
    by (simp add: resolutions_def)
  moreover have "tool_approvals d' = tool_approvals d2"
    using ins xev by (auto simp: insert_execution_def insert_execution_event_def split: if_splits)
  ultimately have mem: "?f r \<in> set (tool_approvals d')" by simp
  show "\<exists>r\<in>set (tool_approvals d'). consumed_row r \<and> tap_call_id r = cid \<and> tap_call_digest r = digest
      \<and> tap_tool_id r = ta_tool_id cur \<and> tap_decision_id r \<noteq> None"
    using r(2) fs dig did by (intro bexI [OF _ mem]) (simp add: consumed_row_def)
qed

text \<open>The log of a consumed approval has exactly one form.\<close>

lemma consumed_log:
  assumes wf: "tools_wf d" and r: "r \<in> set (tool_approvals d)" "consumed_row r"
  shows "map tae_state (approval_log d (tap_call_id r)) = [''pending'', ''approved'', ''consumed'']"
proof -
  from wf r obtain ss where ss: "map tae_state (approval_log d (tap_call_id r)) = map approval_as_str ss"
    "ss \<noteq> []" "hd ss = ApPending" "successively approval_edge ss" "tap_state r = approval_as_str (last ss)"
    by (auto simp: tools_wf_def approvals_wf_def history_of_def)
  have final: "last ss = ApConsumed"
    using ss(5) r(2) approval_as_str_inj [of ApConsumed "last ss"] by (simp add: consumed_row_def)
  have "ss = [ApPending, ApApproved, ApConsumed]"
  proof -
    obtain a rest where a: "ss = a # rest" using ss(2) by (cases ss) auto
    with ss(3) have [simp]: "a = ApPending" by simp
    have "rest \<noteq> []" using a final by auto
    then obtain b rest' where b: "rest = b # rest'" by (cases rest) auto
    with a ss(4) have bb: "b \<in> {ApApproved, ApDenied, ApCancelled, ApExpired}" by simp
    have "rest' \<noteq> []" using a b final bb by auto
    then obtain c rest'' where c: "rest' = c # rest''" by (cases rest') auto
    with a b ss(4) have bc: "approval_edge b c" by simp
    with bb have [simp]: "b = ApApproved" by auto
    from bc have cc: "c \<in> {ApCancelled, ApExpired, ApConsumed}" by simp
    have "rest'' = []"
    proof (cases rest'')
      case (Cons x xs)
      with a b c ss(4) have "approval_edge c x" by simp
      with cc show ?thesis by auto
    qed simp
    with a b c final show ?thesis by simp
  qed
  with ss(1) show ?thesis by simp
qed

section \<open>Calm steps\<close>

definition calm :: "'m v3_world \<Rightarrow> 'm v3_world \<Rightarrow> bool" where
  "calm w w' \<longleftrightarrow> ledger_le (vw_db w) (vw_db w') \<and> vw_effects w' = vw_effects w"

lemma calm_refl [simp]: "calm w w"
  by (simp add: calm_def)

lemma calm_trans: "calm w w' \<Longrightarrow> calm w' w'' \<Longrightarrow> calm w w''"
  unfolding calm_def using ledger_le_trans by auto

lemma calm_updates [simp]:
  "calm w (w'\<lparr>vw_used := u\<rparr>) = calm w w'" "calm w (w'\<lparr>vw_cache := c\<rparr>) = calm w w'"
  "calm w (w'\<lparr>vw_tick := n\<rparr>) = calm w w'" "calm w (w\<lparr>vw_db := d\<rparr>) = ledger_le (vw_db w) d"
  by (simp_all add: calm_def)

definition calm_step :: "('a, 'm) v3_result \<Rightarrow> 'm v3_world \<Rightarrow> bool" where
  "calm_step p w \<longleftrightarrow> calm w (snd p)"

lemma calm_andthen:
  assumes "calm_step p w" and "\<And>x w1. p = (Inr x, w1) \<Longrightarrow> calm_step (k x w1) w1"
  shows "calm_step (andthen p k) w"
proof (cases p)
  case (Pair r w1)
  with assms show ?thesis
    by (cases r) (auto simp: calm_step_def intro: calm_trans)
qed

lemma calm_cases:
  "calm_step p w \<Longrightarrow> calm_step q w \<Longrightarrow> calm_step (if c then p else q) w"
  "(\<And>e. calm_step (f e) w) \<Longrightarrow> (\<And>x. calm_step (g x) w) \<Longrightarrow> calm_step (case r of Inl e \<Rightarrow> f e | Inr x \<Rightarrow> g x) w"
  "calm_step p w \<Longrightarrow> (\<And>x. calm_step (h x) w) \<Longrightarrow> calm_step (case z of None \<Rightarrow> p | Some x \<Rightarrow> h x) w"
  by (simp_all split: sum.split option.split)

lemma calm_basic [simp]:
  "calm_step (Inl e, w) w" "calm_step (Inr x, w) w" "calm_step (guarded r w) w" "calm_step (observe f w) w"
  "calm_step (maybe_tool_execution_failpoint V name w) w" "calm_step (reserve_call cid w) w"
  by (simp_all add: calm_step_def guarded_def observe_def maybe_tool_execution_failpoint_def reserve_call_def)

lemma calm_read_clock [simp]: "calm_step (read_clock V w) w"
  unfolding read_clock_def by (rule calm_andthen) simp_all

lemma calm_stored:
  "(\<And>a d'. operation (vw_db w) = Inr (a, d') \<Longrightarrow> ledger_le (vw_db w) d') \<Longrightarrow>
   calm_step (stored f operation w) w"
  by (auto simp: calm_step_def stored_def split: sum.splits prod.splits)

lemma calm_tool_step:
  "(\<And>a d'. operation (vw_db w) = Inr (a, d') \<Longrightarrow> tool_step (vw_db w) d') \<Longrightarrow>
   calm_step (stored f operation w) w"
  by (rule calm_stored) (blast intro: ledger_le_step)

lemma calm_audit_with [simp]: "calm_step (audit_with V action outcome metadata w) w"
  unfolding audit_with_def
proof (rule calm_andthen)
  fix now w1
  show "calm_step (stored (\<lambda>_. internal_failure) (\<lambda>d.
      bindr (audit_metadata_new (ve_ext V) metadata) (\<lambda>m.
      bindr (record_audit (ve_ext V) now d
              \<lparr>nae_run_id = None, nae_action = action, nae_outcome = outcome, nae_metadata = m\<rparr>)
        (\<lambda>(_, d'). Inr ((), d')))) w1) w1"
    by (rule calm_stored)
      (auto simp: rust_simps record_audit_def Let_def intro!: ledger_le_tables)
qed simp

lemma calm_audits [simp]:
  "calm_step (record_tool_audit V action outcome cid tid dg out w) w"
  "calm_step (record_mutating_tool_audit V action outcome cid tid dg out w) w"
  by (simp_all add: record_tool_audit_def record_mutating_tool_audit_def)

lemma calm_fail_with_audit [simp]: "calm_step (fail_with_audit V outcome call dg f w) w"
  unfolding fail_with_audit_def by (rule calm_andthen) simp_all

lemma calm_run_safe_tool [simp]: "calm_step (run_safe_tool V call abi_call spec dg w) w"
  unfolding run_safe_tool_def Let_def
  by (intro calm_andthen calm_basic calm_audits calm_fail_with_audit calm_cases)

lemma calm_request_approval [simp]: "calm_step (request_approval call dg now w) w"
  unfolding request_approval_def
proof (intro calm_andthen calm_basic)
  fix x w1 expires w2
  show "calm_step (case create_tool_approval (vw_db w2)
      \<lparr>na_call_id = v3tc_call_id call, na_tool_id = v3tc_tool_id call, na_call_digest = dg,
       na_created_at_ms = now, na_expires_at_ms = expires\<rparr> of
      Inl e \<Rightarrow> if e \<noteq> ToolApprovalConflict
        then (Inl (Fails internal_failure), forget_tool_call (v3tc_call_id call) w2)
        else (Inl (Fails conflict_failure), w2)
    | Inr (_, d') \<Rightarrow>
        (Inr (V3ToolApprovalStatus \<lparr>v3ta_tool_id = v3tc_tool_id call, v3ta_call_id = v3tc_call_id call,
               v3ta_call_digest = dg, v3ta_state = V3ApPending, v3ta_expires_at_ms = expires\<rparr>),
         w2\<lparr>vw_db := d'\<rparr>)) w2"
    by (auto simp: calm_step_def forget_tool_call_def split: sum.split
        intro!: ledger_le_step intro: tool_step.create)
qed

lemma calm_decide [simp]: "calm_step (v3_decide_tool_approval V decision outcome w) w"
  unfolding v3_decide_tool_approval_def
  by (intro calm_andthen calm_basic calm_read_clock calm_tool_step) (blast intro: tool_step.decide)

lemma calm_cancel [simp]: "calm_step (v3_cancel_tool_approval V action w) w"
  unfolding v3_cancel_tool_approval_def
  by (intro calm_andthen calm_basic calm_read_clock calm_tool_step) (blast intro: tool_step.cancel)

section \<open>The effects are backed\<close>

definition effect_call :: "memory_effect \<Rightarrow> string" where
  "effect_call e = v3tc_call_id (me_call e)"

text \<open>The consumed approval of exactly this call, and the execution prepared for it.\<close>

definition call_backed :: "externals \<Rightarrow> db \<Rightarrow> v3_tool_call \<Rightarrow> string \<Rightarrow> bool" where
  "call_backed E d call dg \<longleftrightarrow>
     approval_digest E call = Inr dg \<and> v3tc_call_id call \<in> prepared_calls d
   \<and> (\<exists>r\<in>set (tool_approvals d). consumed_row r \<and> tap_call_id r = v3tc_call_id call
        \<and> tap_tool_id r = v3tc_tool_id call \<and> tap_call_digest r = dg \<and> tap_decision_id r \<noteq> None)"

definition effect_backed :: "externals \<Rightarrow> db \<Rightarrow> memory_effect \<Rightarrow> bool" where
  "effect_backed E d e \<longleftrightarrow> call_backed E d (me_call e) (me_call_digest e)
     \<and> json_get_str (v3tc_input (me_call e)) ''record_id'' = Some (me_record_id e)"

definition effects_inv :: "externals \<Rightarrow> 'm v3_world \<Rightarrow> bool" where
  "effects_inv E w \<longleftrightarrow> tools_wf (vw_db w) \<and> distinct (map effect_call (vw_effects w))
     \<and> (\<forall>e\<in>set (vw_effects w). effect_backed E (vw_db w) e)"

definition call_ready :: "externals \<Rightarrow> v3_tool_call \<Rightarrow> string \<Rightarrow> 'm v3_world \<Rightarrow> bool" where
  "call_ready E call dg w \<longleftrightarrow> effects_inv E w \<and> call_backed E (vw_db w) call dg
     \<and> v3tc_call_id call \<notin> effect_call ` set (vw_effects w)"

lemma call_backed_le: "tools_wf d \<Longrightarrow> ledger_le d d' \<Longrightarrow> call_backed E d call dg \<Longrightarrow> call_backed E d' call dg"
  unfolding call_backed_def ledger_le_def by blast

lemma effects_inv_calm: "calm w w' \<Longrightarrow> effects_inv E w \<Longrightarrow> effects_inv E w'"
  unfolding effects_inv_def effect_backed_def calm_def
  by (metis call_backed_le ledger_le_def)

lemma effects_inv_db:
  "ledger_le (vw_db w) d' \<Longrightarrow> effects_inv E w \<Longrightarrow> effects_inv E (w\<lparr>vw_db := d'\<rparr>)"
  by (rule effects_inv_calm [of w]) simp_all

lemma call_ready_calm: "calm w w' \<Longrightarrow> call_ready E call dg w \<Longrightarrow> call_ready E call dg w'"
  unfolding call_ready_def using effects_inv_calm call_backed_le
  by (metis calm_def effects_inv_def)

lemma calm_inv: "calm_step p w \<Longrightarrow> effects_inv E w \<Longrightarrow> effects_inv E (snd p)"
  unfolding calm_step_def by (rule effects_inv_calm)

lemma ready_leads:
  assumes "calm_step p w" and "call_ready E call dg w"
    and "\<And>x w'. call_ready E call dg w' \<Longrightarrow> Q x w'"
  shows "leads (effects_inv E) Q p"
proof -
  have "call_ready E call dg (snd p)" using assms(1,2) call_ready_calm by (auto simp: calm_step_def)
  with assms(3) show ?thesis
    by (auto simp: leads_def call_ready_def split: prod.splits sum.splits)
qed

lemma inv_leads:
  assumes "calm_step p w" and "effects_inv E w" and "\<And>x w'. effects_inv E w' \<Longrightarrow> Q x w'"
  shows "leads (effects_inv E) Q p"
  using calm_inv [OF assms(1,2)] assms(3) by (auto simp: leads_def split: prod.splits sum.splits)

lemma perform_leads:
  assumes "call_ready E call dg w" and "json_get_str (v3tc_input call) ''record_id'' = Some rid"
    and "\<And>x w'. effects_inv E w' \<Longrightarrow> Q x w'"
  shows "leads (effects_inv E) Q (perform_invalidate A call dg rid w)"
proof -
  have "effects_inv E (snd (perform_invalidate A call dg rid w))"
    using assms(1,2)
    by (auto simp: perform_invalidate_def effects_inv_def call_ready_def effect_backed_def effect_call_def
        split: prod.splits)
  moreover have "\<exists>x. fst (perform_invalidate A call dg rid w) = Inr x"
    by (simp add: perform_invalidate_def split: prod.splits)
  ultimately show ?thesis using assms(3) by (auto simp: leads_def split: prod.splits)
qed

lemma calm_settle_effect: "calm_step (settle_effect V call idg xid rid ok w) w"
  unfolding settle_effect_def Let_def
  by (intro calm_andthen calm_basic calm_read_clock calm_audits calm_tool_step) (blast intro: tool_step.complete)

lemma execute_prepared_inv:
  assumes "call_ready E call dg w"
  shows "effects_inv E (snd (execute_prepared V A call dg idg xid w))"
  unfolding leads_snd [symmetric] execute_prepared_def leads_andthen
proof (rule ready_leads [OF calm_basic(5) assms], rule ready_leads [OF calm_audits(2)], assumption)
  fix w2 :: "'a v3_world"
  assume ready: "call_ready E call dg w2"
  show "leads (effects_inv E) (\<lambda>rid s. leads (effects_inv E) (\<lambda>ok s. leads (effects_inv E) (\<lambda>_. effects_inv E)
        (settle_effect V call idg xid rid ok s)) (perform_invalidate A call dg rid s))
      (guarded (ok_or (json_get_str (v3tc_input call) ''record_id'') invalid_failure) w2)"
  proof (cases "json_get_str (v3tc_input call) ''record_id''")
    case None
    with ready show ?thesis by (simp add: ok_or_def call_ready_def)
  next
    case (Some rid)
    have "leads (effects_inv E) (\<lambda>ok s. leads (effects_inv E) (\<lambda>_. effects_inv E)
        (settle_effect V call idg xid rid ok s)) (perform_invalidate A call dg rid w2)"
      by (rule perform_leads [OF ready Some]) (rule inv_leads [OF calm_settle_effect])
    with Some show ?thesis by (simp add: ok_or_def)
  qed
qed

text \<open>From the stored approval to a call that may run.\<close>

lemma prepare_ready:
  assumes inv: "effects_inv E w" and dg: "approval_digest E call = Inr dg"
    and ok: "prepare_tool_execution (vw_db w) (v3tc_call_id call) dg xid now = Inr (Prepared record, d')"
    and cur: "require_approval (vw_db w) (v3tc_call_id call) = Inr cur" "ta_tool_id cur = v3tc_tool_id call"
  shows "call_ready E call dg (w\<lparr>vw_db := d'\<rparr>)"
proof -
  have wf: "tools_wf (vw_db w)" using inv by (simp add: effects_inv_def)
  note p = prepare_consumes_row [OF wf ok cur(1)]
  have "effects_inv E (w\<lparr>vw_db := d'\<rparr>)" using p(2) inv by (rule effects_inv_db)
  moreover have "call_backed E d' call dg" using dg p(1,3) cur(2) by (auto simp: call_backed_def)
  moreover have "v3tc_call_id call \<notin> effect_call ` set (vw_effects w)"
    using inv p(4) by (auto simp: effects_inv_def effect_backed_def call_backed_def effect_call_def)
  ultimately show ?thesis by (simp add: call_ready_def)
qed

lemma prepare_step_inv:
  assumes inv: "effects_inv E w" and dg: "approval_digest E call = Inr dg"
    and cur: "require_approval (vw_db w) (v3tc_call_id call) = Inr cur" "ta_tool_id cur = v3tc_tool_id call"
  shows "effects_inv E (snd (andthen (stored map_execution_store_error
           (\<lambda>d. prepare_tool_execution d (v3tc_call_id call) dg xid now) w) (\<lambda>prepared w5.
             case prepared of
               ExpiredApproval _ \<Rightarrow> (Inl (Fails approval_conflict_failure), w5)
             | Prepared _ \<Rightarrow> execute_prepared V A call dg idg xid w5)))"
proof (cases "prepare_tool_execution (vw_db w) (v3tc_call_id call) dg xid now")
  case (Inl e)
  with inv show ?thesis by (simp add: stored_def)
next
  case (Inr q)
  obtain prepared d' where q: "q = (prepared, d')" by (cases q)
  with Inr have ok: "prepare_tool_execution (vw_db w) (v3tc_call_id call) dg xid now = Inr (prepared, d')"
    by simp
  then have "ledger_le (vw_db w) d'" by (blast intro: ledger_le_step tool_step.prepare)
  then have inv': "effects_inv E (w\<lparr>vw_db := d'\<rparr>)" using inv by (rule effects_inv_db)
  show ?thesis
  proof (cases prepared)
    case (Prepared q0)
    with ok have "call_ready E call dg (w\<lparr>vw_db := d'\<rparr>)"
      using prepare_ready [OF inv dg _ cur] by simp
    with Prepared ok show ?thesis by (simp add: stored_def execute_prepared_inv)
  next
    case (ExpiredApproval r)
    with ok inv' show ?thesis by (simp add: stored_def)
  qed
qed

lemma invoke_approved_inv:
  assumes inv: "effects_inv (ve_ext V) w"
  shows "effects_inv (ve_ext V) (snd (invoke_approved_memory_effect V A call idg w))"
proof (cases "approval_digest (ve_ext V) call")
  case (Inl e)
  with inv show ?thesis by (simp add: invoke_approved_memory_effect_def guarded_def)
next
  case (Inr dg)
  show ?thesis
    unfolding leads_snd [symmetric] invoke_approved_memory_effect_def leads_andthen
    unfolding Inr guarded_def map_err_def sum.case leads_simps
  proof (rule inv_leads [OF calm_read_clock inv])
    fix now and w2 :: "'a v3_world"
    assume inv2: "effects_inv (ve_ext V) w2"
    let ?cid = "v3tc_call_id call"
    show "leads (effects_inv (ve_ext V)) (\<lambda>found w3. leads (effects_inv (ve_ext V)) (\<lambda>_. effects_inv (ve_ext V))
        (case found of None \<Rightarrow> request_approval call dg now w3
         | Some approval \<Rightarrow>
             if ta_tool_id approval \<noteq> v3tc_tool_id call \<or> ta_call_digest approval \<noteq> dg
             then (Inl (Fails approval_conflict_failure), w3)
             else if ta_state approval \<noteq> ApApproved then (Inl (Fails approval_conflict_failure), w3)
             else andthen (observe (\<lambda>i. ''execution-'' @ ve_uuid V i) w3) (\<lambda>xid w4.
               andthen (stored map_execution_store_error
                   (\<lambda>d. prepare_tool_execution d ?cid dg xid now) w4) (\<lambda>prepared w5.
                 case prepared of
                   Prepared _ \<Rightarrow> execute_prepared V A call dg idg xid w5
                 | ExpiredApproval _ \<Rightarrow> (Inl (Fails approval_conflict_failure), w5)))))
      (stored map_approval_store_error (\<lambda>d. tool_approval d ?cid now) w2)"
    proof (cases "tool_approval (vw_db w2) ?cid now")
      case (Inl e)
      with inv2 show ?thesis by (simp add: stored_def)
    next
      case (Inr q)
      obtain found d' where q: "q = (found, d')" by (cases q)
      with Inr have ok: "tool_approval (vw_db w2) ?cid now = Inr (found, d')" by simp
      have wf: "tools_wf (vw_db w2)" using inv2 by (simp add: effects_inv_def)
      have "ledger_le (vw_db w2) d'" using ok by (blast intro: ledger_le_step tool_step.read)
      then have inv3: "effects_inv (ve_ext V) (w2\<lparr>vw_db := d'\<rparr>)" using inv2 by (rule effects_inv_db)
      show ?thesis
      proof (cases found)
        case None
        with ok calm_inv [OF calm_request_approval inv3] show ?thesis by (simp add: stored_def leads_snd)
      next
        case (Some a)
        show ?thesis
        proof (cases "ta_tool_id a = v3tc_tool_id call \<and> ta_call_digest a = dg \<and> ta_state a = ApApproved")
          case False
          with ok Some inv3 show ?thesis by (auto simp: stored_def)
        next
          case True
          with read_then_stored [OF wf] ok Some have "d' = vw_db w2" "require_approval (vw_db w2) ?cid = Inr a"
            by auto
          moreover have "effects_inv (ve_ext V) (w2\<lparr>vw_tick := n\<rparr>)" for n
            using inv2 by (simp add: effects_inv_def)
          moreover have "w2\<lparr>vw_db := vw_db w2\<rparr> = w2" by (cases w2) simp
          ultimately show ?thesis
            using ok Some True \<open>approval_digest (ve_ext V) call = Inr dg\<close>
              prepare_step_inv [of "ve_ext V" "w2\<lparr>vw_tick := Suc (vw_tick w2)\<rparr>" call dg a
                "''execution-'' @ ve_uuid V (vw_tick w2)" now V A idg]
            by (simp add: stored_def observe_def leads_snd del: append.simps)
        qed
      qed
    qed
  qed
qed

lemma invoke_tool_inv:
  assumes inv: "effects_inv (ve_ext V) w"
  shows "effects_inv (ve_ext V) (snd (invoke_tool V A call w))"
proof -
  let ?run = "\<lambda>tool idg abi w3. if ve_authorize V abi (bt_spec tool) \<noteq> PolicyAllow
      then (Inl (Fails capability_denied_failure), w3)
      else case record_tool_audit V ''v3_tool_authorization'' (ve_policy_as_str V (ve_authorize V abi (bt_spec tool)))
             (v3tc_call_id call) (v3tc_tool_id call) idg None w3 of
        (Inl _, w4) \<Rightarrow> (Inl (Fails internal_failure), forget_tool_call (v3tc_call_id call) w4)
      | (Inr _, w4) \<Rightarrow> run_safe_tool V call abi (bt_spec tool) idg w4"
  have safe: "calm_step (?run tool idg abi w3) w3" for tool idg abi and w3 :: "'a v3_world"
  proof -
    obtain r w4 where p: "record_tool_audit V ''v3_tool_authorization''
        (ve_policy_as_str V (ve_authorize V abi (bt_spec tool))) (v3tc_call_id call) (v3tc_tool_id call) idg None w3
        = (r, w4)" by (metis surj_pair)
    then have "calm w3 w4" using calm_audits(1) unfolding calm_step_def by (metis snd_conv)
    moreover have "calm w4 (snd (run_safe_tool V call abi (bt_spec tool) idg w4))"
      using calm_run_safe_tool unfolding calm_step_def .
    ultimately show ?thesis
      unfolding p by (cases r) (auto simp: calm_step_def forget_tool_call_def intro: calm_trans)
  qed
  have direct: "effects_inv (ve_ext V) (snd (andthen (reserve_call cid w) (\<lambda>_ w3. ?run tool idg abi w3)))"
    for cid tool idg abi
    by (rule calm_inv [OF calm_andthen inv]) (simp, rule safe)
  have denied: "effects_inv (ve_ext V) (snd (andthen (reserve_call cid w) (\<lambda>_. Pair (Inl e))))" for cid e
    by (rule calm_inv [OF calm_andthen inv]) simp_all
  show ?thesis
    using inv invoke_approved_inv [OF inv] direct denied
    by (auto simp: invoke_tool_def guarded_def map_err_def ok_or_def Let_def split: sum.splits option.splits)
qed

lemma handle_inv:
  assumes inv: "effects_inv (ve_ext V) w"
  shows "effects_inv (ve_ext V) (snd (v3_handle V A command w))"
proof -
  have search: "calm_step (case memory_search E M m k request of (r, c) \<Rightarrow> guarded r (w\<lparr>vw_cache := c\<rparr>)) w"
    for E M m k request
    by (simp add: calm_step_def guarded_def split: prod.split)
  note calms = calm_inv [OF calm_basic(1) inv] calm_inv [OF calm_basic(3) inv] calm_inv [OF calm_decide inv]
    calm_inv [OF calm_cancel inv] calm_inv [OF search inv] invoke_tool_inv [OF inv]
  show ?thesis
    by (cases command) (simp_all add: v3_handle_def calms del: snd_conv split: if_split)
qed

section \<open>The steps of the daemon\<close>

text \<open>
  Any command under any authority, a restart (which recovers prepared executions and rebuilds the
  authority), and whatever the rest of the daemon does to other tables and to the memory.
\<close>

inductive v3_step :: "externals \<Rightarrow> 'm v3_world \<Rightarrow> 'm v3_world \<Rightarrow> bool" for E where
  command: "ve_ext V = E \<Longrightarrow> snd (v3_handle V A c w) = w' \<Longrightarrow> v3_step E w w'"
| restart: "recover_prepared_on (vw_db w) now_ms = Inr (n, d) \<Longrightarrow> ve_ext V = E \<Longrightarrow>
     from_provider_routes V validator_for active B routes manifest d (vw_memory w) = Inr (A, used) \<Longrightarrow>
     w' = w\<lparr>vw_db := d, vw_used := used, vw_cache := cache_new\<rparr> \<Longrightarrow> v3_step E w w'"
| elsewhere: "same_approvals (vw_db w) d \<Longrightarrow> same_executions (vw_db w) d \<Longrightarrow>
     w' = w\<lparr>vw_db := d, vw_memory := m\<rparr> \<Longrightarrow> v3_step E w w'"

lemma v3_step_inv:
  assumes "v3_step E w w'" and inv: "effects_inv E w"
  shows "effects_inv E w'"
  using assms(1)
proof cases
  case (command V A c)
  with handle_inv [of V w A c] inv show ?thesis by simp
next
  case (restart now_ms n d V validator_for active B routes manifest A used)
  have "ledger_le (vw_db w) d" using restart(1) by (blast intro: ledger_le_step tool_step.reopen)
  with restart(4) effects_inv_calm [of w w' E] inv show ?thesis by (simp add: calm_def)
next
  case (elsewhere d m)
  have "ledger_le (vw_db w) d" using elsewhere(1,2) by (rule ledger_le_tables)
  with elsewhere(3) effects_inv_calm [of w w' E] inv show ?thesis by (simp add: calm_def)
qed

lemma v3_steps_inv: "(v3_step E)\<^sup>*\<^sup>* w w' \<Longrightarrow> effects_inv E w \<Longrightarrow> effects_inv E w'"
  by (induction rule: rtranclp_induct) (auto intro: v3_step_inv)

lemma empty_effects_inv: "vw_db w = empty_db \<Longrightarrow> vw_effects w = [] \<Longrightarrow> effects_inv E w"
  by (simp add: effects_inv_def empty_tools_wf)

end
