(* ===== verification/V3_Memory_Facts.thy ===== *)
theory V3_Memory_Facts
  imports V3_Memory
begin

text \<open>
  The snapshot cache holds the last sixteen searches under distinct tokens, so a page token stays
  bound to its snapshot while fewer than sixteen newer searches were made; and a sanitised summary
  holds no path as long as no word of the summary holds a control character.
\<close>

section \<open>Tokens\<close>

text \<open>Tokens run through the upper half of the unsigned 64-bit range and start over.\<close>

definition token_of :: "nat \<Rightarrow> nat" where
  "token_of k = SNAPSHOT_TOKEN_START + k mod SNAPSHOT_TOKEN_START"

lemma token_next:
  "(case checked_add_u64 (token_of k) 1 of None \<Rightarrow> SNAPSHOT_TOKEN_START | Some t \<Rightarrow> t) = token_of (Suc k)"
proof -
  have u: "u64_bound = 2 * SNAPSHOT_TOKEN_START" by (simp add: u64_bound_def SNAPSHOT_TOKEN_START_def)
  have pos: "0 < SNAPSHOT_TOKEN_START" by (simp add: SNAPSHOT_TOKEN_START_def)
  then have lt: "k mod SNAPSHOT_TOKEN_START < SNAPSHOT_TOKEN_START" by simp
  show ?thesis
  proof (cases "Suc (k mod SNAPSHOT_TOKEN_START) = SNAPSHOT_TOKEN_START")
    case True
    then show ?thesis by (simp add: token_of_def checked_add_u64_def u mod_Suc)
  next
    case False
    with lt show ?thesis by (simp add: token_of_def checked_add_u64_def u mod_Suc)
  qed
qed

lemma token_window:
  assumes n: "n \<le> MAX_SNAPSHOTS"
  shows "distinct (map token_of [k - n..<k])"
proof -
  have "i = j" if ij: "i \<in> {k - n..<k}" "j \<in> {k - n..<k}" and eq: "token_of i = token_of j" for i j
  proof (rule ccontr)
    assume "i \<noteq> j"
    then obtain a b where ab: "a < b" "a \<in> {k - n..<k}" "b \<in> {k - n..<k}"
      "a mod SNAPSHOT_TOKEN_START = b mod SNAPSHOT_TOKEN_START"
      using ij eq by (metis add_left_cancel nat_neq_iff token_of_def)
    then have "SNAPSHOT_TOKEN_START dvd b - a" using mod_eq_dvd_iff_nat [of a b SNAPSHOT_TOKEN_START] by simp
    moreover have "0 < b - a" "b - a < 16" using ab n by (auto simp: MAX_SNAPSHOTS_def)
    ultimately show False by (auto simp: SNAPSHOT_TOKEN_START_def dest: dvd_imp_le)
  qed
  then show ?thesis by (auto simp: distinct_map inj_on_def)
qed

section \<open>The cache\<close>

definition cache_at :: "nat \<Rightarrow> snapshot_cache \<Rightarrow> bool" where
  "cache_at k c \<longleftrightarrow> sc_next_token c = token_of k \<and> length (sc_entries c) \<le> MAX_SNAPSHOTS
     \<and> length (sc_entries c) \<le> k \<and> map sn_token (sc_entries c) = map token_of [k - length (sc_entries c)..<k]"

lemma cache_at_new: "cache_at 0 cache_new"
  by (simp add: cache_at_def cache_new_def token_of_def)

lemma cache_at_insert:
  assumes "cache_at k c"
  shows "cache_at (Suc k) (snd (cache_insert c q rs))"
    and "fst (cache_insert c q rs) = token_of k"
    and "sc_entries (snd (cache_insert c q rs)) = drop (Suc (length (sc_entries c)) - MAX_SNAPSHOTS) (sc_entries c)
           @ [\<lparr>sn_token = token_of k, sn_query_digest = q, sn_records = rs\<rparr>]"
proof -
  let ?n = "length (sc_entries c)"
  have len: "?n \<le> MAX_SNAPSHOTS" "?n \<le> k" and tok: "map sn_token (sc_entries c) = map token_of [k - ?n..<k]"
    and nt: "sc_next_token c = token_of k" using assms by (auto simp: cache_at_def)
  show t: "fst (cache_insert c q rs) = token_of k" by (simp add: cache_insert_def nt Let_def)
  have "Suc ?n - MAX_SNAPSHOTS = (if ?n = MAX_SNAPSHOTS then 1 else 0)" using len by (auto simp: MAX_SNAPSHOTS_def)
  then show e: "sc_entries (snd (cache_insert c q rs)) = drop (Suc ?n - MAX_SNAPSHOTS) (sc_entries c)
      @ [\<lparr>sn_token = token_of k, sn_query_digest = q, sn_records = rs\<rparr>]"
    by (simp add: cache_insert_def nt Let_def drop_Suc)
  have "map sn_token (drop j (sc_entries c)) = map token_of [k - (?n - j)..<k]" if "j \<le> ?n" for j
    using arg_cong [OF tok, of "drop j"] that len(2) by (simp add: drop_map drop_upt)
  moreover have "Suc ?n - MAX_SNAPSHOTS \<le> ?n" using len by (simp add: MAX_SNAPSHOTS_def)
  moreover have "sc_next_token (snd (cache_insert c q rs)) = token_of (Suc k)"
    using token_next [of k] by (simp add: cache_insert_def nt Let_def)
  ultimately show "cache_at (Suc k) (snd (cache_insert c q rs))"
    unfolding cache_at_def e using len by (auto simp: MAX_SNAPSHOTS_def Suc_diff_le)
qed

lemma cache_find_member:
  assumes "cache_at k c" and "s \<in> set (sc_entries c)"
  shows "cache_find c (sn_token s) q = (if q = sn_query_digest s then Some (sn_records s) else None)"
proof -
  have dist: "distinct (map sn_token (sc_entries c))"
    using assms(1) token_window by (simp add: cache_at_def)
  have uniq: "x = s" if "x \<in> set (sc_entries c)" "sn_token x = sn_token s" for x
    using dist that assms(2) by (auto simp: distinct_map inj_on_def)
  show ?thesis
  proof (cases "q = sn_query_digest s")
    case True
    obtain y where y: "find (\<lambda>x. sn_token x = sn_token s \<and> sn_query_digest x = q) (sc_entries c) = Some y"
      using assms(2) True by (cases "find (\<lambda>x. sn_token x = sn_token s \<and> sn_query_digest x = q) (sc_entries c)")
        (auto simp: find_None_all)
    then have "y = s" using find_Some_in [OF y] uniq by blast
    with True y show ?thesis by (simp add: cache_find_def)
  next
    case False
    then have "find (\<lambda>x. sn_token x = sn_token s \<and> sn_query_digest x = q) (sc_entries c) = None"
      using uniq by (auto simp: find_None_all)
    with False show ?thesis by (simp add: cache_find_def)
  qed
qed

section \<open>Sequences of searches\<close>

fun search_run ::
    "externals \<Rightarrow> 'm memory_authority \<Rightarrow> snapshot_cache \<Rightarrow> ('m \<times> v3_search_request) list \<Rightarrow> snapshot_cache" where
  "search_run E A c [] = c"
| "search_run E A c ((m, request) # rest) = search_run E A (snd (memory_search E A m c request)) rest"

lemma search_inserts:
  "snd (memory_search E A m c request) = c
   \<or> (\<exists>q rs. snd (memory_search E A m c request) = snd (cache_insert c q rs))"
  by (auto simp: memory_search_def Let_def split: option.splits sum.splits prod.splits) (metis snd_conv)

lemma search_run_at: "cache_at k c \<Longrightarrow> \<exists>k'. cache_at k' (search_run E A c rs)"
proof (induction E A c rs arbitrary: k rule: search_run.induct)
  case (2 E A c m request rest)
  show ?case using search_inserts [of E A m c request] 2 cache_at_insert(1) by fastforce
qed auto

text \<open>An entry survives as long as fewer newer ones follow it than the cache holds.\<close>

lemma search_run_keeps:
  assumes "cache_at k c" and "sc_entries c = xs @ s # ys" and "length ys + length rs < MAX_SNAPSHOTS"
  shows "s \<in> set (sc_entries (search_run E A c rs))"
  using assms
proof (induction E A c rs arbitrary: k xs ys rule: search_run.induct)
  case (2 E A c m request rest)
  let ?c = "snd (memory_search E A m c request)"
  from search_inserts [of E A m c request] show ?case
  proof
    assume "?c = c"
    with 2 show ?thesis by simp
  next
    assume "\<exists>q rs. ?c = snd (cache_insert c q rs)"
    then obtain q rs where c: "?c = snd (cache_insert c q rs)" by blast
    note ins = cache_at_insert [OF "2.prems"(1), of q rs]
    let ?j = "Suc (length (sc_entries c)) - MAX_SNAPSHOTS"
    have "length (sc_entries c) \<le> MAX_SNAPSHOTS" using "2.prems"(1) by (simp add: cache_at_def)
    then have j: "?j \<le> length xs" using "2.prems"(2,3) by simp
    have "sc_entries ?c = drop ?j xs @ s # (ys @ [\<lparr>sn_token = token_of k, sn_query_digest = q, sn_records = rs\<rparr>])"
      unfolding c ins(3) using "2.prems"(2) j by simp
    with 2 ins(1) c show ?thesis by simp
  qed
qed auto

section \<open>Words without white space\<close>

text \<open>No white space starts anywhere in a word.\<close>

fun solid :: "string \<Rightarrow> bool" where
  "solid [] = True"
| "solid (c # cs) = (space_len (c # cs) = 0 \<and> solid cs)"

lemma space_len_take: "space_len s = 0 \<Longrightarrow> space_len (take n s) = 0"
  by (cases s rule: space_len.cases; cases n; cases "n - 1"; cases "n - 2") (auto split: if_splits)

lemma solid_take: "solid s \<Longrightarrow> solid (take n s)"
proof (induction s arbitrary: n)
  case (Cons c cs)
  then show ?case using space_len_take [of "c # cs" n] by (cases n) simp_all
qed simp

lemma blank_ends_word:
  "space_len (c # cs) = 0 \<Longrightarrow> space_len (c # cs @ CHR 0x20 # rest) = 0"
proof -
  have "\<not> space2 a (CHR 0x20)" "\<not> space3 a (CHR 0x20) b" "\<not> space3 a b (CHR 0x20)" for a b
    by (auto simp: space2_def space3_def byte_of_def)
  then show "space_len (c # cs) = 0 \<Longrightarrow> ?thesis"
    by (cases "c # cs" rule: space_len.cases; cases rest) (auto split: if_splits)
qed

lemma words_solid:
  "solid w \<Longrightarrow> words_from acc w = (if acc @ w = [] then [] else [acc @ w])"
  "solid w \<Longrightarrow> acc @ w \<noteq> [] \<Longrightarrow> words_from acc (w @ CHR 0x20 # rest) = (acc @ w) # words_from [] rest"
proof (induction w arbitrary: acc)
  case Nil
  have blank: "space_len (CHR 0x20 # rest) = 1"
    by (cases "CHR 0x20 # rest" rule: space_len.cases) (auto simp: space1_def byte_of_def)
  { case 1 show ?case by simp }
  { case 2 with blank show ?case by simp }
next
  case (Cons c cs)
  { case 1 with Cons.IH(1) [of "acc @ [c]"] show ?case by simp }
  { case 2 with Cons.IH(2) [of "acc @ [c]"] blank_ends_word [of c cs rest] show ?case by simp }
qed

definition blank_join :: "string list \<Rightarrow> string" where
  "blank_join ws = (case ws of [] \<Rightarrow> [] | w # rest \<Rightarrow> w @ concat (map (\<lambda>v. CHR 0x20 # v) rest))"

lemma blank_join_Cons: "blank_join (w # v # vs) = w @ CHR 0x20 # blank_join (v # vs)"
  by (simp add: blank_join_def)

text \<open>The words of a cut joined text are words of it, the last one perhaps cut.\<close>

lemma words_cut_join:
  assumes "\<forall>w\<in>set ws. solid w \<and> w \<noteq> []" and "u \<in> set (split_words (take n (blank_join ws)))"
  shows "\<exists>w\<in>set ws. \<exists>k. u = take k w"
  using assms
proof (induction ws arbitrary: n rule: induct_list012)
  case 1
  then show ?case by (simp add: blank_join_def split_words_def)
next
  case (2 w)
  then have "solid (take n w)" using solid_take by auto
  with 2 show ?case by (auto simp: blank_join_def split_words_def words_solid(1) split: if_splits)
next
  case (3 w v vs)
  show ?case
  proof (cases "n \<le> length w")
    case True
    then have "u \<in> set (split_words (take n w))" using 3(4) by (simp add: blank_join_Cons)
    moreover have "solid (take n w)" using 3(3) solid_take by auto
    ultimately show ?thesis by (auto simp: split_words_def words_solid(1) split: if_splits)
  next
    case False
    then obtain k where n: "n = Suc (length w + k)" by (metis add_Suc_right less_imp_Suc_add not_le)
    then have "take n (blank_join (w # v # vs)) = w @ CHR 0x20 # take k (blank_join (v # vs))"
      by (simp add: blank_join_Cons)
    then have "u = w \<or> u \<in> set (split_words (take k (blank_join (v # vs))))"
      using 3(3,4) by (simp add: split_words_def words_solid(2))
    then show ?thesis
    proof
      assume "u = w"
      then show ?thesis by (intro bexI [of _ w] exI [of _ "length w"]) simp_all
    next
      assume "u \<in> set (split_words (take k (blank_join (v # vs))))"
      with 3(2) 3(3) show ?thesis by (meson list.set_intros(2))
    qed
  qed
qed

section \<open>Paths\<close>

lemma path_segment_mono: "path_segment p \<Longrightarrow> prefix p q \<Longrightarrow> path_segment q"
  by (auto simp: path_segment_def prefix_def nth_append)

lemma split_char_not_Nil [simp]: "split_char d s \<noteq> []"
  by (cases s) simp_all

lemma split_char_take: "p \<in> set (split_char d (take n s)) \<Longrightarrow> \<exists>q\<in>set (split_char d s). prefix p q"
proof -
  have "list_all2 prefix (split_char d (take n s)) (take (length (split_char d (take n s))) (split_char d s))"
  proof (induction s arbitrary: n)
    case (Cons c cs)
    show ?case
    proof (cases n)
      case 0
      obtain y ys where "split_char d (c # cs) = y # ys" by (meson list.exhaust split_char_not_Nil)
      with 0 show ?thesis by simp
    next
      case (Suc m)
      obtain x xs y ys where "split_char d (take m cs) = x # xs" "split_char d cs = y # ys"
        by (meson list.exhaust split_char_not_Nil)
      with Suc Cons.IH [of m] show ?thesis by simp
    qed
  qed simp
  then have "\<exists>q\<in>set (take (length (split_char d (take n s))) (split_char d s)). prefix p q"
    if "p \<in> set (split_char d (take n s))" using that
    by (induction rule: list_all2_induct) auto
  then show "p \<in> set (split_char d (take n s)) \<Longrightarrow> ?thesis"
    by (meson in_set_takeD)
qed

lemma is_path_take: "is_path (take n w) \<Longrightarrow> is_path w"
  unfolding is_path_def list_ex_iff
  using path_segment_mono split_char_take take_is_prefix by metis

section \<open>Summaries\<close>

lemma sanitize_loop_join:
  "sanitize_loop out ts =
     (let cs = filter (\<lambda>c. c \<noteq> []) (map clean_token ts) in
      if out = [] then blank_join cs else out @ concat (map (\<lambda>c. CHR 0x20 # c) cs))"
  by (induction ts arbitrary: out) (auto simp: Let_def blank_join_def)

lemma solid_iff: "solid u \<longleftrightarrow> (\<forall>i<length u. space_len (drop i u) = 0)"
proof (induction u)
  case (Cons c cs)
  then show ?case by (auto simp: less_Suc_eq_0_disj)
qed simp

lemma words_from_solid:
  "\<forall>i<length acc. space_len (drop i (acc @ s)) = 0 \<Longrightarrow> u \<in> set (words_from acc s) \<Longrightarrow> solid u \<and> u \<noteq> []"
proof (induction acc s rule: words_from.induct)
  case (1 acc)
  then show ?case by (auto simp: solid_iff split: if_splits)
next
  case (2 acc c cs)
  have acc: "solid acc"
    unfolding solid_iff
  proof (intro allI impI)
    fix i assume "i < length acc"
    moreover from this have "drop i acc = take (length acc - i) (drop i (acc @ c # cs))" by simp
    ultimately show "space_len (drop i acc) = 0" using "2.prems"(1) space_len_take by metis
  qed
  show ?case
  proof (cases "space_len (c # cs) = 0")
    case True
    have "\<forall>i<length (acc @ [c]). space_len (drop i ((acc @ [c]) @ cs)) = 0"
      using "2.prems"(1) True by (auto simp: less_Suc_eq)
    with 2 True show ?thesis by simp
  next
    case False
    with 2 acc show ?thesis by (auto split: if_splits)
  qed
qed

lemma split_words_solid: "u \<in> set (split_words s) \<Longrightarrow> solid u \<and> u \<noteq> []"
  unfolding split_words_def by (rule words_from_solid [where acc = "[]"]) simp_all

lemma clean_token_plain:
  assumes "solid t" and "strip_control t = t"
  shows "solid (clean_token t) \<and> \<not> is_path (clean_token t)"
proof -
  have "solid ''[path]'' \<and> \<not> is_path ''[path]''" by code_simp
  with assms show ?thesis by (simp add: clean_token_def)
qed

lemma truncate_is_take: "\<exists>n. truncate_bytes s k = take n s \<and> n \<le> max k (length s)"
  unfolding truncate_bytes_def
  using floor_boundary_le [of s k] by (auto intro: exI [of _ "length s"] max.coboundedI1)

lemma truncate_bytes_le: "length (truncate_bytes s k) \<le> k"
  using floor_boundary_le [of s k] by (simp add: truncate_bytes_def)

lemma summary_words_plain:
  assumes plain: "\<forall>w\<in>set (split_words raw). strip_control w = w"
    and u: "u \<in> set (split_words (sanitize_summary raw))"
  shows "\<not> is_path u"
proof -
  let ?cs = "filter (\<lambda>c. c \<noteq> []) (map clean_token (split_words raw))"
  define ws where "ws = (if blank_join ?cs = [] then [''Memory'', ''record''] else ?cs)"
  have cs: "\<forall>c\<in>set ?cs. solid c \<and> c \<noteq> [] \<and> \<not> is_path c"
  proof
    fix c assume "c \<in> set ?cs"
    then obtain t where t: "t \<in> set (split_words raw)" "c = clean_token t" "c \<noteq> []" by auto
    with plain split_words_solid have "solid t" "strip_control t = t" by auto
    with t clean_token_plain show "solid c \<and> c \<noteq> [] \<and> \<not> is_path c" by simp
  qed
  have "solid ''Memory'' \<and> \<not> is_path ''Memory'' \<and> solid ''record'' \<and> \<not> is_path ''record''" by code_simp
  with cs have ws: "\<forall>w\<in>set ws. solid w \<and> w \<noteq> [] \<and> \<not> is_path w" unfolding ws_def by simp
  have "sanitize_summary raw = truncate_bytes (blank_join ws) MAX_MEMORY_LABEL_BYTES"
    unfolding ws_def by (simp add: sanitize_summary_def sanitize_loop_join Let_def blank_join_def)
  then obtain n where "sanitize_summary raw = take n (blank_join ws)"
    using truncate_is_take by metis
  with u have "u \<in> set (split_words (take n (blank_join ws)))" by simp
  with words_cut_join ws obtain w k where "w \<in> set ws" "u = take k w" by meson
  with ws is_path_take show ?thesis by blast
qed

end
