(* ===== verification/V3_Theorems.thy ===== *)
theory V3_Theorems
  imports V3_Runtime_Facts V3_Memory_Facts Sample_World
begin

text \<open>
  Protocol 3: what the daemon may do to the memory, how pages of a search relate to the snapshot
  they were taken from, and what a summary shows.
\<close>

section \<open>The approved effect\<close>

text \<open>
  C20: A memory record is marked obsolete only by an approved call, once. Whatever commands arrive,
  under whatever authority, whenever the process ends at a failpoint and starts again, and whatever
  else happens to the other tables and to the memory: every effect on the memory was made for a call
  whose digest is the digest of the approval stored for it, for the same tool and with a decision,
  the log of that approval reads pending, approved, consumed, the record named in the call is the
  record that was touched, and no call is carried out twice.
\<close>

theorem approved_effects_exact:
  assumes "(v3_step E)\<^sup>*\<^sup>* w\<^sub>0 w" and "vw_db w\<^sub>0 = empty_db" and "vw_effects w\<^sub>0 = []"
  shows "distinct (map (\<lambda>e. v3tc_call_id (me_call e)) (vw_effects w))
    \<and> (\<forall>e\<in>set (vw_effects w).
         approval_digest E (me_call e) = Inr (me_call_digest e)
       \<and> json_get_str (v3tc_input (me_call e)) ''record_id'' = Some (me_record_id e)
       \<and> map tae_state (approval_log (vw_db w) (v3tc_call_id (me_call e))) = [''pending'', ''approved'', ''consumed'']
       \<and> (\<exists>r\<in>set (tool_approvals (vw_db w)). tap_call_id r = v3tc_call_id (me_call e)
            \<and> tap_tool_id r = v3tc_tool_id (me_call e) \<and> tap_call_digest r = me_call_digest e
            \<and> tap_decision_id r \<noteq> None))"
proof -
  have inv: "effects_inv E w" using assms empty_effects_inv v3_steps_inv by blast
  then have wf: "tools_wf (vw_db w)" by (simp add: effects_inv_def)
  have "distinct (map (\<lambda>e. v3tc_call_id (me_call e)) (vw_effects w))"
    using inv by (simp add: effects_inv_def effect_call_def [abs_def])
  moreover have "\<exists>r\<in>set (tool_approvals (vw_db w)). tap_call_id r = v3tc_call_id (me_call e)
      \<and> tap_tool_id r = v3tc_tool_id (me_call e) \<and> tap_call_digest r = me_call_digest e
      \<and> tap_decision_id r \<noteq> None
      \<and> map tae_state (approval_log (vw_db w) (v3tc_call_id (me_call e))) = [''pending'', ''approved'', ''consumed'']"
    if "e \<in> set (vw_effects w)" for e
    using inv that consumed_log [OF wf]
    unfolding effects_inv_def effect_backed_def call_backed_def by metis
  ultimately show ?thesis
    using inv unfolding effects_inv_def effect_backed_def call_backed_def by blast
qed

definition sample_service :: app_service where
  "sample_service = \<lparr>as_status = \<lparr>st_protocol_version = 1, st_schema_version = 1, st_edition = Standard,
       st_version = ''1'', st_build_git = ''g'', st_build_target = ''t'', st_capabilities = [],
       st_run_routes = []\<rparr>,
     as_claims = (\<lambda>_. \<lparr>cs_claims = [], cs_matched = 0\<rparr>),
     as_routes = (\<lambda>_. \<lparr>rap_entries = [], rap_returned = 0, rap_limit = 1\<rparr>)\<rparr>"

definition sample_v3_env :: v3_env where
  "sample_v3_env =
     \<lparr>ve_ext = sample_ext, ve_system_ms = (\<lambda>i. Some (1000 + i)), ve_instant = (\<lambda>i. i),
      ve_uuid = (\<lambda>i. print_digits 20 i), ve_stamp = (\<lambda>i. time_1), ve_should_stop = (\<lambda>d i. d \<le> i),
      ve_authorize = (\<lambda>c s. if ts_effect s = ToolReadOnly then PolicyAllow else PolicyRequireConfirmation),
      ve_policy_as_str = (\<lambda>_. ''allow''),
      ve_host = \<lparr>th_service = sample_service, th_status_json = (\<lambda>_. JNull), th_claims_json = (\<lambda>_. JNull),
        th_approval_json = (\<lambda>_. JNull), th_service_error = (\<lambda>_. []), th_os = ''linux'', th_arch = ''x86_64'',
        th_family = ''unix'', th_parallelism = Some 4, th_jobs_variable = None\<rparr>,
      ve_claims = [], ve_failpoint = None\<rparr>"

definition sample_backend :: "string list memory_backend" where
  "sample_backend = \<lparr>mb_open = (\<lambda>_. True), mb_filter = (\<lambda>_ _. Some []),
     mb_invalidate = (\<lambda>m rid. (True, rid # m)), mb_lowercase = (\<lambda>s. s)\<rparr>"

definition sample_authority :: "string list v3_authority" where
  "sample_authority =
     \<lparr>va_grants = \<lparr>v3k_capabilities = [InvokeToolsCap, DecideToolApprovalsCap]\<rparr>,
      va_tools = [\<lparr>bt_descriptor = obsolete_descriptor,
        bt_spec = \<lparr>ts_name = MEMORY_MARK_OBSOLETE_TOOL_ID, ts_description = obsolete_description,
          ts_input_schema = [], ts_effect = ToolMutating\<rparr>,
        bt_validator = (\<lambda>_. True), bt_route = ApprovalRequired\<rparr>],
      va_models = [], va_memory = memory_authority_new sample_backend []\<rparr>"

definition sample_call :: v3_tool_call where
  "sample_call = \<lparr>v3tc_tool_id = MEMORY_MARK_OBSOLETE_TOOL_ID, v3tc_call_id = ''call-1'',
     v3tc_input = JObject [(''record_id'', JString ''rec-1'')]\<rparr>"

definition sample_digest :: string where
  "sample_digest = concat (replicate 32 ''64'')"

definition v3_sample_world :: "string list v3_world" where
  "v3_sample_world = \<lparr>vw_db = empty_db, vw_memory = [], vw_used = [], vw_cache = cache_new, vw_tick = 0,
     vw_effects = []\<rparr>"

definition asked_world :: "string list v3_world" where
  "asked_world = v3_sample_world\<lparr>vw_used := [''call-1''], vw_tick := 1,
     vw_db := empty_db\<lparr>tool_approvals := [\<lparr>tap_call_id = ''call-1'', tap_tool_id = MEMORY_MARK_OBSOLETE_TOOL_ID,
         tap_call_digest = sample_digest, tap_state = ''pending'', tap_decision_id = None,
         tap_cancellation_id = None, tap_created_at_ms = 1000, tap_expires_at_ms = 901000,
         tap_updated_at_ms = 1000\<rparr>],
       tool_approval_events := [\<lparr>tae_sequence = 1, tae_call_id = ''call-1'', tae_state = ''pending'',
         tae_decision_id = None, tae_cancellation_id = None, tae_occurred_at_ms = 1000\<rparr>]\<rparr>\<rparr>"

definition decided_world :: "string list v3_world" where
  "decided_world = v3_sample_world\<lparr>vw_used := [''call-1''], vw_tick := 2,
     vw_db := empty_db\<lparr>tool_approvals := [\<lparr>tap_call_id = ''call-1'', tap_tool_id = MEMORY_MARK_OBSOLETE_TOOL_ID,
         tap_call_digest = sample_digest, tap_state = ''approved'', tap_decision_id = Some ''decision-1'',
         tap_cancellation_id = None, tap_created_at_ms = 1000, tap_expires_at_ms = 901000,
         tap_updated_at_ms = 1001\<rparr>],
       tool_approval_events := [\<lparr>tae_sequence = 1, tae_call_id = ''call-1'', tae_state = ''pending'',
         tae_decision_id = None, tae_cancellation_id = None, tae_occurred_at_ms = 1000\<rparr>,
         \<lparr>tae_sequence = 2, tae_call_id = ''call-1'', tae_state = ''approved'',
         tae_decision_id = Some ''decision-1'', tae_cancellation_id = None, tae_occurred_at_ms = 1001\<rparr>]\<rparr>\<rparr>"

lemma sample_asked: "snd (v3_handle sample_v3_env sample_authority (V3InvokeTool sample_call) v3_sample_world) = asked_world"
  by code_simp

lemma sample_decided:
  "snd (v3_handle sample_v3_env sample_authority (V3ApproveTool \<lparr>v3td_call_id = ''call-1'',
     v3td_call_digest = sample_digest, v3td_decision_id = ''decision-1''\<rparr>) asked_world) = decided_world"
  by code_simp

lemma sample_done:
  "vw_effects (snd (v3_handle sample_v3_env sample_authority (V3InvokeTool sample_call) decided_world))
     = [\<lparr>me_call = sample_call, me_call_digest = sample_digest, me_record_id = ''rec-1''\<rparr>]"
  by code_simp

theorem approved_effects_exact_witness:
  "\<exists>w. (v3_step sample_ext)\<^sup>*\<^sup>* v3_sample_world w
     \<and> vw_effects w = [\<lparr>me_call = sample_call, me_call_digest = sample_digest, me_record_id = ''rec-1''\<rparr>]
     \<and> map tae_state (approval_log (vw_db w) ''call-1'') = [''pending'', ''approved'', ''consumed'']"
proof -
  let ?w = "snd (v3_handle sample_v3_env sample_authority (V3InvokeTool sample_call) decided_world)"
  have E: "ve_ext sample_v3_env = sample_ext" by (simp add: sample_v3_env_def)
  have "(v3_step sample_ext)\<^sup>*\<^sup>* v3_sample_world asked_world" by (rule r_into_rtranclp) (rule v3_step.command [OF E sample_asked])
  also have "v3_step sample_ext asked_world decided_world" by (rule v3_step.command [OF E sample_decided])
  also have "v3_step sample_ext decided_world ?w" by (rule v3_step.command [OF E refl])
  finally have run: "(v3_step sample_ext)\<^sup>*\<^sup>* v3_sample_world ?w" .
  have "map tae_state (approval_log (vw_db ?w) (v3tc_call_id sample_call)) = [''pending'', ''approved'', ''consumed'']"
    using approved_effects_exact [OF run] by (simp add: sample_done v3_sample_world_def)
  with run sample_done show ?thesis by (intro exI [of _ ?w]) (simp add: sample_call_def)
qed

section \<open>Pages of a search\<close>

text \<open>
  C21: The pages of a search are slices of one snapshot. Once a search without a watermark was
  answered, its watermark names the records the search found then: for as long as fewer than sixteen
  further searches were made, with whatever memory and queries, every later page of the same search
  is the exact slice of those records at its cursor, whatever the memory holds by now, and the same
  watermark with a query of another digest is refused.
\<close>

theorem search_pages_fixed:
  assumes first: "memory_search E A m (search_run E A cache_new before) request
      = (Inr (V3MemorySearchResults page), c)"
    and fresh: "v3q_through (v3s_page request) = None" and later: "length later < MAX_SNAPSHOTS"
  shows "\<exists>snap. search_snapshot E A m (v3s_query request) = Inr snap
    \<and> v3ep_records page = take (v3q_limit (v3s_page request)) (drop (v3q_after (v3s_page request)) snap)
    \<and> (\<forall>n limit m'. n \<le> length snap \<longrightarrow>
         memory_search E A m' (search_run E A c later)
           (request\<lparr>v3s_page := \<lparr>v3q_after = n, v3q_through = Some (v3ep_through page), v3q_limit = limit\<rparr>\<rparr>)
         = (Inr (V3MemorySearchResults \<lparr>v3ep_after = n, v3ep_through = v3ep_through page,
                  v3ep_records = take limit (drop n snap)\<rparr>), search_run E A c later))
    \<and> (\<forall>q n limit m'. domain_digest E QUERY_DOMAIN q \<noteq> domain_digest E QUERY_DOMAIN (v3s_query request) \<longrightarrow>
         fst (memory_search E A m' (search_run E A c later)
           \<lparr>v3s_space_id = SUMMARY_SPACE_ID, v3s_query = q,
            v3s_page = \<lparr>v3q_after = n, v3q_through = Some (v3ep_through page), v3q_limit = limit\<rparr>\<rparr>)
         = Inl invalid_failure)"
proof -
  let ?c0 = "search_run E A cache_new before"
  let ?q = "domain_digest E QUERY_DOMAIN (v3s_query request)"
  obtain k where k: "cache_at k ?c0" using search_run_at [OF cache_at_new] by blast
  have space: "v3s_space_id request = SUMMARY_SPACE_ID"
    using first by (auto simp: memory_search_def split: if_splits)
  obtain snap where snap: "search_snapshot E A m (v3s_query request) = Inr snap"
    using first fresh space by (auto simp: memory_search_def Let_def split: sum.splits)
  note ins = cache_at_insert [OF k, of ?q snap]
  let ?s = "\<lparr>sn_token = token_of k, sn_query_digest = ?q, sn_records = snap\<rparr>"
  let ?c1 = "snd (cache_insert ?c0 ?q snap)"
  have pair: "cache_insert ?c0 ?q snap = (token_of k, ?c1)" using ins(2) by (metis prod.collapse)
  have found1: "cache_find ?c1 (token_of k) ?q = Some snap"
    using cache_find_member [OF ins(1), of ?s ?q] ins(3) by simp
  have c: "c = ?c1" and through: "v3ep_through page = token_of k"
    and recs: "v3ep_records page = take (v3q_limit (v3s_page request)) (drop (v3q_after (v3s_page request)) snap)"
    using first fresh space snap pair found1
    by (auto simp: memory_search_def Let_def ok_or_def page_of_def rust_simps split: if_splits prod.splits)
  have mem: "?s \<in> set (sc_entries (search_run E A c later))"
    unfolding c using search_run_keeps [OF ins(1,3)] later by simp
  obtain k' where k': "cache_at k' (search_run E A c later)"
    using search_run_at [OF ins(1)] unfolding c by blast
  have find: "cache_find (search_run E A c later) (token_of k) q = (if q = ?q then Some snap else None)" for q
    using cache_find_member [OF k' mem, of q] by simp
  show ?thesis
    using snap recs space by (intro exI [of _ snap])
      (auto simp: memory_search_def through Let_def find ok_or_def page_of_def)
qed

definition sample_record :: memory_record where
  "sample_record = \<lparr>mr_id = ''r1'', mr_source_type = [], mr_source_ref = [], mr_project = [], mr_timestamp = [],
     mr_origin = [], mr_payload = [], mr_summary = ''note'', mr_tags = [], mr_embedding_ref = None,
     mr_confidence = 0, mr_provenance = [], mr_retention = [], mr_supersedes = None,
     mr_classification = [], mr_obsolete = False\<rparr>"

definition sample_memory :: "memory_record list memory_authority" where
  "sample_memory = \<lparr>ma_backend = \<lparr>mb_open = (\<lambda>_. True), mb_filter = (\<lambda>rs n. Some (take n rs)),
       mb_invalidate = (\<lambda>rs rid. (True, rs)), mb_lowercase = map to_ascii_lower\<rparr>, ma_readable = True\<rparr>"

definition sample_search :: v3_search_request where
  "sample_search = \<lparr>v3s_space_id = SUMMARY_SPACE_ID, v3s_query = ''note'',
     v3s_page = \<lparr>v3q_after = 0, v3q_through = None, v3q_limit = 1\<rparr>\<rparr>"

definition memory_sample_page :: v3_entity_page where
  "memory_sample_page = \<lparr>v3ep_after = 0, v3ep_through = SNAPSHOT_TOKEN_START,
     v3ep_records = [project_record sample_ext sample_record]\<rparr>"

definition sample_cache :: snapshot_cache where
  "sample_cache = \<lparr>sc_next_token = SNAPSHOT_TOKEN_START + 1, sc_entries = [\<lparr>sn_token = SNAPSHOT_TOKEN_START,
     sn_query_digest = replicate 32 (CHR ''d''),
     sn_records = [project_record sample_ext sample_record, project_record sample_ext sample_record]\<rparr>]\<rparr>"

lemma sample_first_page:
  "memory_search sample_ext sample_memory [sample_record, sample_record] cache_new sample_search
     = (Inr (V3MemorySearchResults memory_sample_page), sample_cache)"
  by code_simp

text \<open>The second page is read after the memory was emptied and another search was made.\<close>

theorem search_pages_fixed_witness:
  "fst (memory_search sample_ext sample_memory [] (search_run sample_ext sample_memory sample_cache
       [([], sample_search)])
     (sample_search\<lparr>v3s_page := \<lparr>v3q_after = 1, v3q_through = Some SNAPSHOT_TOKEN_START, v3q_limit = 1\<rparr>\<rparr>))
   = Inr (V3MemorySearchResults \<lparr>v3ep_after = 1, v3ep_through = SNAPSHOT_TOKEN_START,
       v3ep_records = [project_record sample_ext sample_record]\<rparr>)"
proof -
  have snap: "search_snapshot sample_ext sample_memory [sample_record, sample_record] ''note''
      = Inr [project_record sample_ext sample_record, project_record sample_ext sample_record]"
    by code_simp
  have q: "v3s_query sample_search = ''note''" "v3q_through (v3s_page sample_search) = None"
    "v3ep_through memory_sample_page = SNAPSHOT_TOKEN_START"
    by (simp_all add: sample_search_def memory_sample_page_def)
  have "memory_search sample_ext sample_memory [sample_record, sample_record]
      (search_run sample_ext sample_memory cache_new []) sample_search
      = (Inr (V3MemorySearchResults memory_sample_page), sample_cache)" using sample_first_page by simp
  from search_pages_fixed [OF this q(2), of "[([], sample_search)]"]
  show ?thesis by (simp add: snap q MAX_SNAPSHOTS_def)
qed

section \<open>Summaries\<close>

text \<open>
  C25: What a summary shows. A label never exceeds 256 bytes, and when no word of the stored summary
  holds a control character, no word of the label is a path. The second condition is needed: paths
  are looked for before control characters are removed, so one control character in front of a path
  is enough to have the path shown.
\<close>

theorem summary_hides_paths:
  "length (sanitize_summary raw) \<le> MAX_MEMORY_LABEL_BYTES
   \<and> ((\<forall>w\<in>set (split_words raw). strip_control w = w) \<longrightarrow>
        (\<forall>w\<in>set (split_words (sanitize_summary raw)). \<not> is_path w))
   \<and> sanitize_summary (CHR 0x01 # ''/etc/passwd'') = ''/etc/passwd'' \<and> is_path ''/etc/passwd''"
proof -
  have "length (sanitize_summary raw) \<le> MAX_MEMORY_LABEL_BYTES"
    by (simp add: sanitize_summary_def Let_def truncate_bytes_le)
  moreover have "sanitize_summary (CHR 0x01 # ''/etc/passwd'') = ''/etc/passwd''" by code_simp
  moreover have "is_path ''/etc/passwd''" by code_simp
  ultimately show ?thesis using summary_words_plain by blast
qed

theorem summary_hides_paths_witness:
  "sanitize_summary ''see root=/etc/hosts now'' = ''see [path] now''
   \<and> list_all (\<lambda>w. \<not> is_path w) (split_words (sanitize_summary ''see root=/etc/hosts now''))"
proof -
  have "\<forall>w\<in>set (split_words ''see root=/etc/hosts now''). strip_control w = w" by code_simp
  moreover have "sanitize_summary ''see root=/etc/hosts now'' = ''see [path] now''" by code_simp
  ultimately show ?thesis using summary_hides_paths [of "''see root=/etc/hosts now''"]
    unfolding list_all_iff by blast
qed

end
