(* ===== verification/Federation.thy ===== *)
theory Federation
  imports V3_Protocol V4_Dispatch
begin

text \<open>
  The federation surface \<open>abbey.v1\<close>: envelopes and service of \<open>src/daemon/federation.rs\<close>, request
  validation of \<open>federation/validate.rs\<close> and the capability catalog of \<open>federation/catalog.rs\<close>. The
  catalog's \<open>canonical_json\<close> is the one of protocol 3.
\<close>

section \<open>Envelopes\<close>

definition FED_SERVICE :: string where "FED_SERVICE = ''abbey.v1''"
definition CONTRACT_MAJOR :: nat where "CONTRACT_MAJOR = 2"
definition CONTRACT_REVISION :: nat where "CONTRACT_REVISION = 2"
definition CORPUS_DIGEST :: string where
  "CORPUS_DIGEST = ''sha256:3ffd487bdc497b7ce54b8c29978a3686dcbffdb66a85957a0ee4f99ba576cdfd''"
definition MAX_JSON_CONTAINER_DEPTH :: nat where "MAX_JSON_CONTAINER_DEPTH = 32"
definition MAX_IDENTIFIER_BYTES :: nat where "MAX_IDENTIFIER_BYTES = 64"
definition FED_MAX_COLLECTION_ITEMS :: nat where "FED_MAX_COLLECTION_ITEMS = 2048"
definition MAX_PARAMETER_PROPERTIES :: nat where "MAX_PARAMETER_PROPERTIES = 32"

datatype federation_method =
    FedHello | FedGetStatus | FedAuthorize | FedCognize | FedProposeChange | FedApproveChange
  | FedExecuteChange | FedCompensateChange | FedRetrieveEpisodes | FedProposeEpisodeWrite
  | FedListCapabilities | FedDescribeCapability | FedPreviewManifest | FedApplyManifest
  | FedOpenConsentEpoch | FedAttestConsent | FedCloseConsentEpoch | FedResumeConsentEpoch | FedWatchEvents

definition is_authority_bearing :: "federation_method \<Rightarrow> bool" where
  "is_authority_bearing m \<longleftrightarrow> m \<notin> {FedHello, FedGetStatus, FedListCapabilities, FedDescribeCapability,
     FedPreviewManifest, FedWatchEvents}"

fun method_name :: "federation_method \<Rightarrow> string" where
  "method_name FedHello = ''Hello''"
| "method_name FedGetStatus = ''GetStatus''"
| "method_name FedAuthorize = ''Authorize''"
| "method_name FedCognize = ''Cognize''"
| "method_name FedProposeChange = ''ProposeChange''"
| "method_name FedApproveChange = ''ApproveChange''"
| "method_name FedExecuteChange = ''ExecuteChange''"
| "method_name FedCompensateChange = ''CompensateChange''"
| "method_name FedRetrieveEpisodes = ''RetrieveEpisodes''"
| "method_name FedProposeEpisodeWrite = ''ProposeEpisodeWrite''"
| "method_name FedListCapabilities = ''ListCapabilities''"
| "method_name FedDescribeCapability = ''DescribeCapability''"
| "method_name FedPreviewManifest = ''PreviewManifest''"
| "method_name FedApplyManifest = ''ApplyManifest''"
| "method_name FedOpenConsentEpoch = ''OpenConsentEpoch''"
| "method_name FedAttestConsent = ''AttestConsent''"
| "method_name FedCloseConsentEpoch = ''CloseConsentEpoch''"
| "method_name FedResumeConsentEpoch = ''ResumeConsentEpoch''"
| "method_name FedWatchEvents = ''WatchEvents''"

record federation_request =
  fr_service :: string
  fr_contract_major :: nat
  fr_contract_revision :: nat
  fr_corpus_digest :: string
  fr_capability_manifest_digest :: string
  fr_request_id :: string
  fr_method :: federation_method
  fr_parameters_digest :: string
  fr_parameters :: json

datatype federation_error_code =
    FedMalformedRequest | FedLimitExceeded | FedContractMismatch | FedCapabilityManifestMismatch
  | FedParametersDigestMismatch | FedInvalidRequestId | FedInvalidParameters | FedRateLimited
  | FedCapabilityDisabled | FedInternal

record federation_error =
  fe_code :: federation_error_code
  fe_message :: string

datatype federation_payload = FedOk json | FedError federation_error

record federation_response =
  fp_service :: string
  fp_contract_major :: nat
  fp_contract_revision :: nat
  fp_request_id :: string
  fp_payload :: federation_payload

section \<open>Validation\<close>

definition is_ascii_lowercase :: "char \<Rightarrow> bool" where
  "is_ascii_lowercase c \<longleftrightarrow> 97 \<le> byte_of c \<and> byte_of c \<le> 122"

definition fed_valid_identifier :: "string \<Rightarrow> bool" where
  "fed_valid_identifier v \<longleftrightarrow>
     v \<noteq> [] \<and> length v \<le> MAX_IDENTIFIER_BYTES \<and> is_ascii_lowercase (hd v)
   \<and> list_all (\<lambda>c. is_ascii_lowercase c \<or> is_ascii_digit c \<or> c \<in> {CHR ''_'', CHR ''-''}) v"

definition response_request_id :: "string \<Rightarrow> string" where
  "response_request_id v = (if fed_valid_identifier v then v else [])"

definition fed_error :: "federation_error_code \<Rightarrow> string \<Rightarrow> federation_error" where
  "fed_error code message = \<lparr>fe_code = code, fe_message = message\<rparr>"

definition fed_response :: "string \<Rightarrow> federation_payload \<Rightarrow> federation_response" where
  "fed_response request_id payload =
     \<lparr>fp_service = FED_SERVICE, fp_contract_major = CONTRACT_MAJOR, fp_contract_revision = CONTRACT_REVISION,
      fp_request_id = response_request_id request_id, fp_payload = payload\<rparr>"

definition fed_response_ok :: "string \<Rightarrow> json \<Rightarrow> federation_response" where
  "fed_response_ok request_id result = fed_response request_id (FedOk result)"

definition fed_response_error :: "string \<Rightarrow> federation_error_code \<Rightarrow> string \<Rightarrow> federation_response" where
  "fed_response_error request_id code message = fed_response request_id (FedError (fed_error code message))"

fun value_within_limits :: "json \<Rightarrow> nat \<Rightarrow> bool" where
  "value_within_limits (JArray items) depth =
     (depth \<le> MAX_JSON_CONTAINER_DEPTH \<and> length items \<le> FED_MAX_COLLECTION_ITEMS
      \<and> list_all (\<lambda>item. value_within_limits item (depth + 1)) items)"
| "value_within_limits (JObject entries) depth =
     (depth \<le> MAX_JSON_CONTAINER_DEPTH \<and> length entries \<le> FED_MAX_COLLECTION_ITEMS
      \<and> list_all (\<lambda>e. value_within_limits (snd e) (depth + 1)) entries)"
| "value_within_limits v depth = (depth \<le> MAX_JSON_CONTAINER_DEPTH)"

section \<open>Catalog\<close>

definition digest_value :: "externals \<Rightarrow> json \<Rightarrow> string" where
  "digest_value E v = ''sha256:'' @ hex_string (sha256 E (json_to_string E (canonical_json v)))"

definition parameters_digest :: "externals \<Rightarrow> json \<Rightarrow> string" where
  "parameters_digest E parameters = digest_value E parameters"

definition catalog_entry :: "string \<Rightarrow> federation_method list \<Rightarrow> string \<Rightarrow> bool \<Rightarrow> (string \<times> json) list \<Rightarrow> json" where
  "catalog_entry cid methods effect enabled rest =
     JObject ([(''id'', JString cid), (''methods'', JArray (map (\<lambda>m. JString (method_name m)) methods)),
       (''effect'', JString effect), (''enabled'', JBool enabled)] @ rest)"

definition manifest_capabilities :: "json list" where
  "manifest_capabilities =
     [catalog_entry ''federation.metadata.read'' [FedHello, FedGetStatus] ''read_only'' True [],
      catalog_entry ''federation.capabilities.read''
        [FedListCapabilities, FedDescribeCapability, FedPreviewManifest] ''read_only'' True [],
      catalog_entry ''federation.events.read'' [FedWatchEvents] ''read_only'' True
        [(''live_subscription'', JBool False)],
      catalog_entry ''federation.authorization'' [FedAuthorize] ''authority'' False [],
      catalog_entry ''federation.cognition'' [FedCognize] ''cognition'' False [],
      catalog_entry ''federation.changes''
        [FedProposeChange, FedApproveChange, FedExecuteChange, FedCompensateChange] ''platform_effect'' False
        [(''best_effort_executors_registered'', JBool False)],
      catalog_entry ''federation.episodes'' [FedRetrieveEpisodes, FedProposeEpisodeWrite] ''durable_write'' False [],
      catalog_entry ''federation.manifests.apply'' [FedApplyManifest] ''local_effect'' False [],
      catalog_entry ''federation.consent''
        [FedOpenConsentEpoch, FedAttestConsent, FedCloseConsentEpoch, FedResumeConsentEpoch]
        ''consent_state'' False []]"

definition capability_manifest :: json where
  "capability_manifest =
     JObject [(''schema_version'', JNumber (PosInt 1)), (''service'', JString FED_SERVICE),
       (''contract_major'', JNumber (PosInt CONTRACT_MAJOR)),
       (''contract_revision'', JNumber (PosInt CONTRACT_REVISION)),
       (''capabilities'', JArray manifest_capabilities)]"

definition capability_manifest_digest :: "externals \<Rightarrow> string" where
  "capability_manifest_digest E = digest_value E capability_manifest"

definition fed_hello :: "externals \<Rightarrow> json" where
  "fed_hello E =
     JObject [(''service'', JString FED_SERVICE),
       (''supported_contract_majors'', JArray [JNumber (PosInt CONTRACT_MAJOR)]),
       (''contract_revision'', JNumber (PosInt CONTRACT_REVISION)),
       (''corpus_digest'', JString CORPUS_DIGEST),
       (''capability_manifest_digest'', JString (capability_manifest_digest E)),
       (''deployment_profile'', JString ''developer'')]"

definition describe_capability :: "json \<Rightarrow> federation_error + json" where
  "describe_capability parameters =
     bindr (ok_or (case parameters of
               JObject [(k, JString cid)] \<Rightarrow>
                 if k = ''capability_id'' \<and> length cid \<le> 128 then Some cid else None
             | _ \<Rightarrow> None) (fed_error FedInvalidParameters ''capability_id is required'')) (\<lambda>cid.
       ok_or (find (\<lambda>item. json_get item ''id'' = Some (JString cid)) manifest_capabilities)
         (fed_error FedCapabilityDisabled ''capability is not declared''))"

definition validate_request :: "externals \<Rightarrow> federation_request \<Rightarrow> federation_error + unit" where
  "validate_request E r =
     (if fr_service r \<noteq> FED_SERVICE \<or> fr_contract_major r \<noteq> CONTRACT_MAJOR
         \<or> fr_contract_revision r \<noteq> CONTRACT_REVISION \<or> fr_corpus_digest r \<noteq> CORPUS_DIGEST
      then Inl (fed_error FedContractMismatch ''contract identity does not match this daemon'')
      else if fr_capability_manifest_digest r \<noteq> capability_manifest_digest E
      then Inl (fed_error FedCapabilityManifestMismatch ''capability manifest digest does not match this daemon'')
      else if \<not> fed_valid_identifier (fr_request_id r)
      then Inl (fed_error FedInvalidRequestId ''request_id is invalid'')
      else if (case fr_parameters r of JObject ps \<Rightarrow> length ps > MAX_PARAMETER_PROPERTIES | _ \<Rightarrow> True)
              \<or> \<not> value_within_limits (fr_parameters r) 1
      then Inl (fed_error FedInvalidParameters ''parameters exceed their structural limits'')
      else if fr_parameters_digest r \<noteq> parameters_digest E (fr_parameters r)
      then Inl (fed_error FedParametersDigestMismatch ''parameters digest does not match the request body'')
      else Inr ())"

section \<open>Service\<close>

definition federation_handle :: "externals \<Rightarrow> federation_request \<Rightarrow> federation_error + json" where
  "federation_handle E r =
     bindr (validate_request E r) (\<lambda>_.
       case fr_method r of
         FedHello \<Rightarrow> Inr (fed_hello E)
       | FedGetStatus \<Rightarrow> Inr (JObject [(''daemon'', JString ''ready''),
           (''deployment_profile'', JString ''developer''), (''effects_enabled'', JBool False),
           (''best_effort_executors_registered'', JBool False), (''contract_digest'', JString CORPUS_DIGEST),
           (''capability_manifest_digest'', JString (capability_manifest_digest E))])
       | FedListCapabilities \<Rightarrow> Inr capability_manifest
       | FedDescribeCapability \<Rightarrow> describe_capability (fr_parameters r)
       | FedPreviewManifest \<Rightarrow> Inr (JObject [(''manifest'', capability_manifest),
           (''digest'', JString (capability_manifest_digest E)),
           (''apply_requires_separate_authorization'', JBool True)])
       | FedWatchEvents \<Rightarrow> Inr (JObject [(''events'', JArray []), (''next_cursor'', JNull),
           (''live_subscription'', JBool False)])
       | FedAuthorize \<Rightarrow> Inl (fed_error FedCapabilityDisabled
           ''Authorize authority path prepared (stub); durable replay, consent, and execution not yet integrated'')
       | m \<Rightarrow> Inl (fed_error FedCapabilityDisabled
           (method_name m @ '' is not registered in this deployment profile'')))"

definition runtime_handle_federation :: "externals \<Rightarrow> federation_request \<Rightarrow> federation_response" where
  "runtime_handle_federation E r =
     (case federation_handle E r of
        Inr result \<Rightarrow> fed_response_ok (fr_request_id r) result
      | Inl e \<Rightarrow> fed_response_error (fr_request_id r) (fe_code e) (fe_message e))"

text \<open>No method that bears authority does anything, whatever its parameters.\<close>

lemma authority_disabled:
  "is_authority_bearing (fr_method r) \<Longrightarrow> validate_request E r = Inr () \<Longrightarrow>
   \<exists>e. federation_handle E r = Inl e \<and> fe_code e = FedCapabilityDisabled"
  by (cases "fr_method r") (simp_all add: federation_handle_def is_authority_bearing_def fed_error_def)

end
