(* ===== verification/Daemon_Server.thy ===== *)
theory Daemon_Server
  imports Federation V3_Protocol V4_Dispatch "HOL-Library.Word"
begin

text \<open>
  One connection of the daemon, from the frame that was read to the response: bearer and rate limit of
  \<open>src/daemon/config.rs\<close>, the dispatchers of protocols 1 to 3 and the limiter of \<open>src/daemon/server.rs\<close>,
  authentication and \<open>handle_connection\<close> of \<open>src/daemon/server/unix.rs\<close>, the envelopes of
  \<open>src/daemon/protocol.rs\<close>. The decoders that serde derives are a parameter; the handler is the
  trait object the dispatchers call.
\<close>

unbundle bit_operations_syntax

section \<open>Bearer and rate limit\<close>

definition MIN_BEARER_LEN :: nat where "MIN_BEARER_LEN = 32"
definition MAX_BEARER_LEN :: nat where "MAX_BEARER_LEN = 4096"
definition MAX_AUTHENTICATED_REQUESTS :: nat where "MAX_AUTHENTICATED_REQUESTS = 1024"
definition MIN_RATE_WINDOW_MS :: nat where "MIN_RATE_WINDOW_MS = 10"
definition MAX_RATE_WINDOW_MS :: nat where "MAX_RATE_WINDOW_MS = 60000"

datatype config_error = BearerLength | BearerNotUtf8 | BearerControlCharacter | InvalidRateLimit

definition strip_last :: "char \<Rightarrow> string \<Rightarrow> string" where
  "strip_last c s = (if s \<noteq> [] \<and> last s = c then butlast s else s)"

definition trim_line_ending :: "string \<Rightarrow> string" where
  "trim_line_ending s = strip_last (CHR 0x0D) (strip_last (CHR 0x0A) s)"

text \<open>\<open>utf8\<close> stands for \<open>str::from_utf8\<close> being \<open>Ok\<close>.\<close>

definition bearer_parse :: "(string \<Rightarrow> bool) \<Rightarrow> string \<Rightarrow> config_error + string" where
  "bearer_parse utf8 raw =
     (let v = trim_line_ending raw in
      if length v < MIN_BEARER_LEN \<or> length v > MAX_BEARER_LEN then Inl BearerLength
      else if \<not> utf8 v then Inl BearerNotUtf8
      else if has_control v then Inl BearerControlCharacter
      else Inr v)"

definition word_of_char :: "char \<Rightarrow> 8 word" where
  "word_of_char c = of_nat (byte_of c)"

definition bearer_matches :: "string \<Rightarrow> string \<Rightarrow> bool" where
  "bearer_matches secret candidate \<longleftrightarrow>
     length secret = length candidate
   \<and> foldl (\<lambda>difference (l, r). difference OR (word_of_char l XOR word_of_char r)) 0
       (zip secret candidate) = 0"

record rate_limit =
  rl_requests :: nat
  rl_window_ms :: nat

definition rate_limit_new :: "nat \<Rightarrow> nat \<Rightarrow> config_error + rate_limit" where
  "rate_limit_new requests window =
     (if requests = 0 \<or> requests > MAX_AUTHENTICATED_REQUESTS
         \<or> window < MIN_RATE_WINDOW_MS \<or> window > MAX_RATE_WINDOW_MS
      then Inl InvalidRateLimit else Inr \<lparr>rl_requests = requests, rl_window_ms = window\<rparr>)"

definition rate_limit_default :: rate_limit where
  "rate_limit_default = \<lparr>rl_requests = 64, rl_window_ms = 1000\<rparr>"

record rate_limiter =
  lm_window_started :: nat
  lm_accepted :: nat

definition limiter_new :: "nat \<Rightarrow> rate_limiter" where
  "limiter_new now = \<lparr>lm_window_started = now, lm_accepted = 0\<rparr>"

text \<open>
  The clock is read twice: once for the time elapsed, and once more when a window starts. The
  monotonic clock never lies before the start of the window.
\<close>

definition admit :: "rate_limit \<Rightarrow> nat \<times> nat \<Rightarrow> rate_limiter \<Rightarrow> bool \<times> rate_limiter" where
  "admit limit reading l =
     (let l1 = (if fst reading - lm_window_started l \<ge> rl_window_ms limit
                then \<lparr>lm_window_started = snd reading, lm_accepted = 0\<rparr> else l) in
      if lm_accepted l1 \<ge> rl_requests limit then (False, l1)
      else (True, l1\<lparr>lm_accepted := lm_accepted l1 + 1\<rparr>))"

section \<open>Envelopes\<close>

definition PROTOCOL_VERSION :: nat where "PROTOCOL_VERSION = APP_PROTOCOL_V1"
definition CURRENT_PROTOCOL_VERSION :: nat where "CURRENT_PROTOCOL_VERSION = APP_PROTOCOL_VERSION"
definition SUPPORTED_PROTOCOL_VERSIONS :: "nat list" where
  "SUPPORTED_PROTOCOL_VERSIONS = [PROTOCOL_VERSION, CURRENT_PROTOCOL_VERSION, APP_PROTOCOL_V3]"
definition APP_SCHEMA_V1 :: nat where "APP_SCHEMA_V1 = 2"

record request_envelope =
  re_version :: nat
  re_schema_version :: "nat option"
  re_request_id :: string
  re_bearer :: string
  re_command :: app_command

definition schema_for :: "nat \<Rightarrow> nat option" where
  "schema_for version = (if version = APP_PROTOCOL_V1 then Some APP_SCHEMA_V1 else None)"

datatype response_payload = LegacyOk app_event | LegacyError string string

record response_envelope =
  ren_version :: nat
  ren_request_id :: string
  ren_payload :: response_payload

definition legacy_ok_for :: "nat \<Rightarrow> string \<Rightarrow> app_event \<Rightarrow> response_envelope" where
  "legacy_ok_for version request_id ev =
     \<lparr>ren_version = version, ren_request_id = request_id, ren_payload = LegacyOk ev\<rparr>"

definition legacy_error_for :: "nat \<Rightarrow> string \<Rightarrow> string \<Rightarrow> string \<Rightarrow> response_envelope" where
  "legacy_error_for version request_id code message =
     \<lparr>ren_version = version, ren_request_id = request_id, ren_payload = LegacyError code message\<rparr>"

definition legacy_error :: "string \<Rightarrow> string \<Rightarrow> string \<Rightarrow> response_envelope" where
  "legacy_error request_id code message = legacy_error_for PROTOCOL_VERSION request_id code message"

record v3_request_envelope =
  q3_version :: nat
  q3_schema_version :: nat
  q3_request_id :: string
  q3_bearer :: string
  q3_grants :: v3_capability_set
  q3_command :: v3_command

datatype v3_response_payload = V3PayloadOk v3_event | V3PayloadError v3_error

record v3_response_envelope =
  s3_version :: nat
  s3_schema_version :: nat
  s3_request_id :: string
  s3_payload :: v3_response_payload

definition v3_response_ok :: "string \<Rightarrow> v3_event \<Rightarrow> v3_response_envelope" where
  "v3_response_ok request_id ev =
     \<lparr>s3_version = APP_PROTOCOL_V3, s3_schema_version = APP_SCHEMA_V3, s3_request_id = request_id,
      s3_payload = V3PayloadOk ev\<rparr>"

definition v3_response_error :: "string \<Rightarrow> v3_error_code \<Rightarrow> string \<Rightarrow> v3_response_envelope" where
  "v3_response_error request_id code message =
     \<lparr>s3_version = APP_PROTOCOL_V3, s3_schema_version = APP_SCHEMA_V3, s3_request_id = request_id,
      s3_payload = V3PayloadError \<lparr>v3x_code = code, v3x_message = message\<rparr>\<rparr>"

section \<open>Dispatchers\<close>

record 's daemon_handler =
  dh_supports_version :: "nat \<Rightarrow> bool"
  dh_handle_versioned :: "nat \<Rightarrow> app_command \<Rightarrow> 's \<Rightarrow> (handler_failure + app_event) \<times> 's"
  dh_supports_v3 :: bool
  dh_authorizes_v3 :: "v3_capability_set \<Rightarrow> v3_command \<Rightarrow> bool"
  dh_handle_v3 :: "v3_command \<Rightarrow> 's \<Rightarrow> (handler_failure + v3_event) \<times> 's"
  dh_v4 :: "'s v4_service"
  dh_supports_federation :: bool
  dh_handle_federation :: "federation_request \<Rightarrow> 's \<Rightarrow> federation_response \<times> 's"

definition dispatch_authenticated ::
    "externals \<Rightarrow> 's daemon_handler \<Rightarrow> request_envelope \<Rightarrow> 's \<Rightarrow> response_envelope \<times> 's" where
  "dispatch_authenticated E H request s =
     (let rid = re_request_id request; version = re_version request; command = re_command request in
      if \<not> valid_request_id rid then (legacy_error [] ''invalid_request_id'' ''request_id is invalid'', s)
      else if version \<notin> set SUPPORTED_PROTOCOL_VERSIONS \<or> \<not> dh_supports_version H version
      then (legacy_error_for CURRENT_PROTOCOL_VERSION rid ''unsupported_version''
              ''protocol version is unsupported'', s)
      else if re_schema_version request \<noteq> schema_for version
      then (legacy_error_for version rid ''unsupported_version'' ''application schema is unsupported'', s)
      else if minimum_protocol_version command > version
      then (legacy_error_for version rid ''unsupported_command''
              ''command is unavailable in this protocol version'', s)
      else if \<not> is_ok (app_command_validate command)
      then (legacy_error_for version rid ''invalid_command'' ''command payload is invalid'', s)
      else case dh_handle_versioned H version command s of
        (Inr ev, s') \<Rightarrow> (legacy_ok_for version rid ev, s')
      | (Inl f, s') \<Rightarrow> (legacy_error_for version rid (hf_code f) (hf_message f), s'))"

definition v3_error_code_of :: "string \<Rightarrow> v3_error_code" where
  "v3_error_code_of code =
     (if code = ''capability_denied'' then V3CapabilityDenied
      else if code = ''invalid_command'' then V3InvalidCommand
      else if code = ''not_found'' then V3NotFound
      else if code = ''conflict'' then V3Conflict
      else if code = ''cancelled'' then V3CancelledCode
      else if code = ''deadline_exceeded'' then V3DeadlineExceeded
      else if code = ''budget_exceeded'' then V3BudgetExceeded
      else if code = ''response_too_large'' then V3ResponseTooLarge
      else V3Internal)"

fun is_v3_negotiate :: "v3_command \<Rightarrow> bool" where
  "is_v3_negotiate (V3Negotiate _) = True"
| "is_v3_negotiate _ = False"

definition dispatch_authenticated_v3 ::
    "externals \<Rightarrow> 's daemon_handler \<Rightarrow> v3_request_envelope \<Rightarrow> 's \<Rightarrow> v3_response_envelope \<times> 's" where
  "dispatch_authenticated_v3 E H request s =
     (let rid = q3_request_id request; grants = q3_grants request; command = q3_command request;
          refuse = (\<lambda>code message. (v3_response_error rid code message, s)) in
      if \<not> valid_request_id rid then (v3_response_error [] V3InvalidCommand ''request_id is invalid'', s)
      else if q3_version request \<noteq> APP_PROTOCOL_V3 \<or> q3_schema_version request \<noteq> APP_SCHEMA_V3
              \<or> \<not> dh_supports_v3 H
      then refuse V3UnsupportedVersion ''protocol version is unsupported''
      else if \<not> is_ok (v3_capability_set_validate grants)
              \<or> is_v3_negotiate command \<and> v3k_capabilities grants \<noteq> []
      then refuse V3InvalidCommand ''grant declaration is invalid''
      else if \<not> v3_permits grants command
      then refuse V3CapabilityDenied ''command lacks its advertised capability grant''
      else if \<not> is_v3_negotiate command \<and> \<not> dh_authorizes_v3 H grants command
      then refuse V3CapabilityDenied ''advertised grants exceed daemon authority''
      else if \<not> is_ok (v3_command_validate E command)
      then refuse V3InvalidCommand ''command payload is invalid''
      else case dh_handle_v3 H command s of
        (Inr ev, s') \<Rightarrow>
          if is_ok (v3_event_validate E ev) then (v3_response_ok rid ev, s')
          else (v3_response_error rid V3Internal ''handler returned an invalid event'', s')
      | (Inl f, s') \<Rightarrow> (v3_response_error rid (v3_error_code_of (hf_code f)) (hf_message f), s'))"

definition dispatch_federation ::
    "externals \<Rightarrow> 's daemon_handler \<Rightarrow> federation_request \<Rightarrow> 's \<Rightarrow> federation_response \<times> 's" where
  "dispatch_federation E H request s =
     (case validate_request E request of
        Inl e \<Rightarrow> (fed_response_error (fr_request_id request) (fe_code e) (fe_message e), s)
      | Inr _ \<Rightarrow>
          if \<not> dh_supports_federation H
          then (fed_response_error (fr_request_id request) FedCapabilityDisabled
                  ''abbey.v1 federation is unavailable'', s)
          else dh_handle_federation H request s)"

section \<open>Authentication\<close>

text \<open>\<open>serde_json::from_slice\<close> at the types that are read here.\<close>

record decoders =
  dec_value :: "byte list \<Rightarrow> json option"
  dec_legacy :: "byte list \<Rightarrow> request_envelope option"
  dec_v3 :: "byte list \<Rightarrow> v3_request_envelope option"
  dec_v4 :: "byte list \<Rightarrow> v4_request_envelope option"
  dec_federation :: "byte list \<Rightarrow> federation_request option"

definition json_as_u16 :: "json \<Rightarrow> nat option" where
  "json_as_u16 v = (case v of JNumber (PosInt n) \<Rightarrow> if n < 2 ^ 16 then Some n else None | _ \<Rightarrow> None)"

datatype frame_authentication = Authenticated nat string | Unauthorized nat string | Malformed

definition authenticate_frame :: "decoders \<Rightarrow> string \<Rightarrow> byte list \<Rightarrow> frame_authentication" where
  "authenticate_frame D secret bytes =
     (case dec_value D bytes of None \<Rightarrow> Malformed
      | Some v \<Rightarrow>
          let candidate = (case json_get_str v ''bearer'' of None \<Rightarrow> [] | Some b \<Rightarrow> b);
              version = (case Option.bind (json_get v ''version'') json_as_u16 of
                           None \<Rightarrow> PROTOCOL_VERSION | Some n \<Rightarrow> n);
              rid = (case json_get_str v ''request_id'' of None \<Rightarrow> []
                     | Some r \<Rightarrow> if valid_request_id r then r else []) in
          if bearer_matches secret candidate
          then Authenticated (if version \<in> set SUPPORTED_PROTOCOL_VERSIONS \<or> version = APP_PROTOCOL_V4
                              then version else CURRENT_PROTOCOL_VERSION) rid
          else Unauthorized version rid)"

definition is_federation_candidate :: "decoders \<Rightarrow> byte list \<Rightarrow> bool" where
  "is_federation_candidate D bytes =
     (case dec_value D bytes of Some (JObject fs) \<Rightarrow> ''service'' \<in> fst ` set fs | _ \<Rightarrow> False)"

definition federation_request_id :: "decoders \<Rightarrow> byte list \<Rightarrow> string" where
  "federation_request_id D bytes =
     (case Option.bind (dec_value D bytes) (\<lambda>v. json_get_str v ''request_id'') of None \<Rightarrow> []
      | Some r \<Rightarrow> if length r \<le> MAX_IDENTIFIER_BYTES then r else [])"

section \<open>The connection\<close>

datatype wire_response =
    WireLegacy response_envelope
  | WireV3 v3_response_envelope
  | WireV4 v4_response_envelope
  | WireFederation federation_response

definition wire_refusal :: "nat \<Rightarrow> string \<Rightarrow> v4_error_code \<Rightarrow> v3_error_code \<Rightarrow> string \<Rightarrow> string \<Rightarrow> wire_response" where
  "wire_refusal version request_id code4 code3 code message =
     (if version = APP_PROTOCOL_V4 then WireV4 (response_error request_id code4 message)
      else if version = APP_PROTOCOL_V3 then WireV3 (v3_response_error request_id code3 message)
      else WireLegacy (legacy_error_for version request_id code message))"

definition wire_unauthorized :: "nat \<Rightarrow> string \<Rightarrow> wire_response" where
  "wire_unauthorized version request_id =
     wire_refusal version request_id V4Unauthorized V3Unauthorized ''unauthorized'' ''authentication failed''"

definition wire_rate_limited :: "nat \<Rightarrow> string \<Rightarrow> wire_response" where
  "wire_rate_limited version request_id =
     wire_refusal version request_id V4RateLimited V3RateLimited ''rate_limited''
       ''authenticated request rate limit exceeded''"

record daemon_config =
  dc_bearer :: string
  dc_rate_limit :: rate_limit

record 's connection_state =
  cn_limiter :: rate_limiter
  cn_state :: 's

definition answer_with ::
    "('r \<Rightarrow> wire_response) \<Rightarrow> ('s \<Rightarrow> 'r \<times> 's) \<Rightarrow> 's connection_state \<Rightarrow> wire_response \<times> 's connection_state" where
  "answer_with wrap f c = (let (r, s') = f (cn_state c) in (wrap r, c\<lparr>cn_state := s'\<rparr>))"

definition federation_connection ::
    "externals \<Rightarrow> decoders \<Rightarrow> daemon_config \<Rightarrow> 's daemon_handler \<Rightarrow> nat \<times> nat \<Rightarrow> byte list \<Rightarrow>
     's connection_state \<Rightarrow> wire_response \<times> 's connection_state" where
  "federation_connection E D cfg H reading bytes c =
     (let rid = federation_request_id D bytes;
          refuse = (\<lambda>code message c'. (WireFederation (fed_response_error rid code message), c')) in
      case dec_value D bytes of
        None \<Rightarrow> refuse FedMalformedRequest ''request is not valid JSON'' c
      | Some v \<Rightarrow>
          if \<not> value_within_limits v 1
          then refuse FedLimitExceeded
                 ''JSON container depth or collection count exceeds the abbey.v1 limit'' c
          else
            let (admitted, l) = admit (dc_rate_limit cfg) reading (cn_limiter c); c1 = c\<lparr>cn_limiter := l\<rparr> in
            if \<not> admitted then refuse FedRateLimited ''local request rate limit exceeded'' c1
            else case dec_federation D bytes of
              Some request \<Rightarrow> answer_with WireFederation (dispatch_federation E H request) c1
            | None \<Rightarrow> refuse FedMalformedRequest ''request is not valid abbey.v1 JSON'' c1)"

definition authenticated_connection ::
    "externals \<Rightarrow> chrono \<Rightarrow> decoders \<Rightarrow> daemon_config \<Rightarrow> 's daemon_handler \<Rightarrow> nat \<times> nat \<Rightarrow> frame_kind \<Rightarrow>
     nat \<Rightarrow> string \<Rightarrow> byte list \<Rightarrow> 's connection_state \<Rightarrow> wire_response \<times> 's connection_state" where
  "authenticated_connection E C D cfg H reading kind version rid bytes c =
     (if kind = Schema3 \<and> version \<noteq> APP_PROTOCOL_V4
      then (WireV4 (response_error rid V4UnsupportedVersion ''framing requires protocol-v4 schema3''), c)
      else
        let (admitted, l) = admit (dc_rate_limit cfg) reading (cn_limiter c); c1 = c\<lparr>cn_limiter := l\<rparr> in
        if \<not> admitted then (wire_rate_limited version rid, c1)
        else if version = APP_PROTOCOL_V4 then
          (case dec_v4 D bytes of
             Some request \<Rightarrow>
               answer_with WireV4 (dispatch_authenticated_v4_framed E C (dh_v4 H) request kind) c1
           | None \<Rightarrow> (WireV4 (response_error [] V4InvalidCommand ''request is not valid protocol-v4 JSON''), c1))
        else if version = APP_PROTOCOL_V3 then
          (case dec_v3 D bytes of
             Some request \<Rightarrow> answer_with WireV3 (dispatch_authenticated_v3 E H request) c1
           | None \<Rightarrow> (WireV3 (v3_response_error [] V3InvalidCommand ''request is not valid protocol-v3 JSON''), c1))
        else
          (case dec_legacy D bytes of
             Some request \<Rightarrow> answer_with WireLegacy (dispatch_authenticated E H request) c1
           | None \<Rightarrow> (WireLegacy (legacy_error [] ''malformed_request'' ''request is not valid JSON''), c1)))"

definition frame_error_response :: "frame_kind \<Rightarrow> frame_failure \<Rightarrow> wire_response option" where
  "frame_error_response kind f =
     (case f of
        Oversize \<Rightarrow>
          Some (if kind = Schema3
                then WireV4 (response_error [] V4LimitExceeded ''control frame exceeds its limit'')
                else WireLegacy (legacy_error [] ''frame_too_large'' ''frame exceeds configured limit''))
      | EmptyFrame \<Rightarrow>
          Some (if kind = Schema3
                then WireV4 (response_error [] V4InvalidCommand ''control frame is empty'')
                else WireLegacy (legacy_error [] ''malformed_request'' ''frame must not be empty''))
      | FrameIo \<Rightarrow> None)"

definition handle_connection ::
    "externals \<Rightarrow> chrono \<Rightarrow> decoders \<Rightarrow> daemon_config \<Rightarrow> 's daemon_handler \<Rightarrow> nat \<times> nat \<Rightarrow>
     frame_read_error + frame_kind \<times> byte list \<Rightarrow> 's connection_state \<Rightarrow>
     wire_response option \<times> 's connection_state" where
  "handle_connection E C D cfg H reading frame c =
     (case frame of
        Inl e \<Rightarrow> (frame_error_response (fre_kind e) (fre_failure e), c)
      | Inr (kind, bytes) \<Rightarrow>
          let (r, c') =
            (if kind = Legacy \<and> is_federation_candidate D bytes
             then federation_connection E D cfg H reading bytes c
             else case authenticate_frame D (dc_bearer cfg) bytes of
               Authenticated version rid \<Rightarrow>
                 authenticated_connection E C D cfg H reading kind version rid bytes c
             | Unauthorized version rid \<Rightarrow> (wire_unauthorized version rid, c)
             | Malformed \<Rightarrow>
                 (WireLegacy (legacy_error [] ''malformed_request'' ''request is not valid JSON''), c)) in
          (Some r, c'))"

end
