(* ===== verification/Daemon_Theorems.thy ===== *)
theory Daemon_Theorems
  imports Daemon_Server Sample_World
begin

text \<open>
  The connection of the daemon: who reaches the handler, and how many requests the limiter lets
  through.
\<close>

unbundle bit_operations_syntax

section \<open>The bearer\<close>

lemma word_of_char_inj: "word_of_char a = word_of_char b \<Longrightarrow> a = b"
proof -
  assume "word_of_char a = word_of_char b"
  then have "unat (word_of_char a) = unat (word_of_char b)" by simp
  then have "byte_of a = byte_of b"
    using of_char_less [of a] of_char_less [of b] by (simp add: word_of_char_def unat_of_nat)
  then show "a = b" by (simp add: byte_of_def)
qed

lemma xor_zero: "(a :: 8 word) XOR b = 0 \<longleftrightarrow> a = b"
  by (metis xor.assoc xor.left_neutral xor_self_eq)

lemma or_fold_zero:
  "foldl (\<lambda>difference (l, r). difference OR (word_of_char l XOR word_of_char r)) d ps = 0 \<longleftrightarrow>
     d = 0 \<and> (\<forall>(l, r)\<in>set ps. l = r)"
proof (induction ps arbitrary: d)
  case (Cons p ps)
  obtain l r where p: "p = (l, r)" by (cases p)
  have "d OR (word_of_char l XOR word_of_char r) = 0 \<longleftrightarrow> d = 0 \<and> l = r"
    using word_of_char_inj xor_zero by (auto simp: or_eq_0_iff)
  with Cons p show ?case by auto
qed simp

text \<open>The comparison that never stops early is equality.\<close>

lemma bearer_matches_iff: "bearer_matches secret candidate \<longleftrightarrow> candidate = secret"
proof
  assume m: "bearer_matches secret candidate"
  then have len: "length secret = length candidate" unfolding bearer_matches_def by (rule conjunct1)
  from m have same: "\<forall>(l, r)\<in>set (zip secret candidate). l = r"
    unfolding bearer_matches_def or_fold_zero by (rule conjunct2 [OF conjunct2])
  have "secret ! i = candidate ! i" if "i < length secret" for i
  proof -
    have "i < length (zip secret candidate)" using that len by (metis length_zip min.idem)
    then have "zip secret candidate ! i \<in> set (zip secret candidate)" by (rule nth_mem)
    moreover have "zip secret candidate ! i = (secret ! i, candidate ! i)"
      using that len by (metis nth_zip)
    ultimately show ?thesis using same by (metis case_prodD)
  qed
  with len show "candidate = secret" by (simp add: list_eq_iff_nth_eq)
next
  assume "candidate = secret"
  moreover have "\<forall>(l, r)\<in>set (zip secret secret). l = r" by (auto simp: set_zip)
  ultimately show "bearer_matches secret candidate"
    unfolding bearer_matches_def or_fold_zero by simp
qed

section \<open>Reaching the handler\<close>


definition sample_secret :: string where "sample_secret = replicate 32 (CHR ''s'')"

definition sample_decoders :: decoders where
  "sample_decoders = \<lparr>dec_value = (\<lambda>bytes. if bytes = [1] then Some (JObject [(''bearer'', JString sample_secret)])
       else if bytes = [2] then Some (JObject [(''service'', JString ''x'')]) else Some (JObject [])),
     dec_legacy = (\<lambda>_. Some \<lparr>re_version = 1, re_schema_version = Some 2, re_request_id = ''r1'',
       re_bearer = sample_secret, re_command = CmdStatus\<rparr>),
     dec_v3 = (\<lambda>_. None), dec_v4 = (\<lambda>_. None), dec_federation = (\<lambda>_. None)\<rparr>"

definition sample_handler :: "nat daemon_handler" where
  "sample_handler = \<lparr>dh_supports_version = (\<lambda>v. v \<in> {1, 2}),
     dh_handle_versioned = (\<lambda>v command n. (Inl internal_failure, Suc n)), dh_supports_v3 = False,
     dh_authorizes_v3 = (\<lambda>_ _. False), dh_handle_v3 = (\<lambda>_ n. (Inl internal_failure, n)),
     dh_v4 = \<lparr>sv_supports = False, sv_authorizes = (\<lambda>_ _. False), sv_handle = (\<lambda>_ n. (Inl internal_failure, n))\<rparr>,
     dh_supports_federation = False,
     dh_handle_federation = (\<lambda>q n. (fed_response_error [] FedInternal ''x'', n))\<rparr>"

definition sample_config :: daemon_config where
  "sample_config = \<lparr>dc_bearer = sample_secret, dc_rate_limit = rate_limit_default\<rparr>"

definition sample_calendar :: chrono where
  "sample_calendar = \<lparr>ch_min_day = 0, ch_max_day = 0, ch_month = (\<lambda>_. 1), ch_day = (\<lambda>_. 1),
     ch_weekday = (\<lambda>_. 0), ch_tz = (\<lambda>_. None)\<rparr>"

definition sample_connection :: "nat connection_state" where
  "sample_connection = \<lparr>cn_limiter = limiter_new 0, cn_state = 0\<rparr>"


section \<open>The limiter\<close>

fun limiter_run :: "rate_limit \<Rightarrow> rate_limiter \<Rightarrow> (nat \<times> nat) list \<Rightarrow> bool list" where
  "limiter_run limit l [] = []"
| "limiter_run limit l (reading # rest) =
     fst (admit limit reading l) # limiter_run limit (snd (admit limit reading l)) rest"

text \<open>Readings of a monotonic clock.\<close>

fun monotonic :: "nat \<Rightarrow> (nat \<times> nat) list \<Rightarrow> bool" where
  "monotonic now [] = True"
| "monotonic now ((t, t') # rest) = (now \<le> t \<and> t \<le> t' \<and> monotonic t' rest)"

definition accepted_between :: "rate_limit \<Rightarrow> rate_limiter \<Rightarrow> (nat \<times> nat) list \<Rightarrow> nat \<Rightarrow> nat \<Rightarrow> nat" where
  "accepted_between limit l ts from until =
     length (filter (\<lambda>((t, _), ok). ok \<and> from \<le> t \<and> t < until) (zip ts (limiter_run limit l ts)))"

lemma accepted_between_simps [simp]:
  "accepted_between limit l [] from until = 0"
  "accepted_between limit l ((t, t') # rest) from until =
     (if fst (admit limit (t, t') l) \<and> from \<le> t \<and> t < until then 1 else 0)
     + accepted_between limit (snd (admit limit (t, t') l)) rest from until"
  by (simp_all add: accepted_between_def)

lemma monotonic_mono: "monotonic now ts \<Longrightarrow> now' \<le> now \<Longrightarrow> monotonic now' ts"
  by (cases ts) auto

lemma none_after: "monotonic now ts \<Longrightarrow> until \<le> now \<Longrightarrow> accepted_between limit l ts from until = 0"
proof (induction ts arbitrary: now l)
  case (Cons p ts)
  obtain t t' where p: "p = (t, t')" by (cases p)
  with Cons.prems have "until \<le> t'" "monotonic t' ts" by auto
  with Cons.IH [of t'] Cons.prems p show ?case by simp
qed simp

text \<open>Within the window of the limiter no more than what is left of it is accepted.\<close>

lemma rest_of_window:
  "until \<le> lm_window_started l + rl_window_ms limit \<Longrightarrow> monotonic now ts \<Longrightarrow> 0 < rl_window_ms limit \<Longrightarrow>
   accepted_between limit l ts from until \<le> rl_requests limit - lm_accepted l"
proof (induction ts arbitrary: now l)
  case (Cons p ts)
  obtain t t' where p: "p = (t, t')" by (cases p)
  then have mono: "monotonic t' ts" "t \<le> t'" using Cons.prems by auto
  show ?case
  proof (cases "t < until")
    case False
    then have "accepted_between limit (snd (admit limit (t, t') l)) ts from until = 0"
      using mono by (intro none_after [of t']) auto
    with False p show ?thesis by simp
  next
    case True
    then have "t - lm_window_started l < rl_window_ms limit" using Cons.prems(1,3) by linarith
    then have adm: "admit limit (t, t') l = (if lm_accepted l \<ge> rl_requests limit then (False, l)
        else (True, l\<lparr>lm_accepted := lm_accepted l + 1\<rparr>))"
      by (simp add: admit_def Let_def)
    show ?thesis
    proof (cases "lm_accepted l \<ge> rl_requests limit")
      case True
      with adm p Cons.IH [OF Cons.prems(1) mono(1) Cons.prems(3)] show ?thesis by simp
    next
      case False
      have "until \<le> lm_window_started (l\<lparr>lm_accepted := lm_accepted l + 1\<rparr>) + rl_window_ms limit"
        using Cons.prems(1) by simp
      from Cons.IH [OF this mono(1) Cons.prems(3)] adm p False show ?thesis by auto
    qed
  qed
qed simp

lemma interval_from_start:
  "monotonic from ts \<Longrightarrow> 0 < rl_window_ms limit \<Longrightarrow>
   accepted_between limit l ts from (from + rl_window_ms limit) \<le> (rl_requests limit - lm_accepted l) + rl_requests limit"
proof (induction ts arbitrary: l)
  case (Cons p ts)
  obtain t t' where p: "p = (t, t')" by (cases p)
  then have mono: "monotonic t' ts" "t \<le> t'" "from \<le> t" using Cons.prems by auto
  then have rest: "monotonic from ts" by (auto intro: monotonic_mono)
  show ?case
  proof (cases "t - lm_window_started l \<ge> rl_window_ms limit")
    case True
    let ?l = "\<lparr>lm_window_started = t', lm_accepted = 0\<rparr>"
    have adm: "admit limit (t, t') l = (if rl_requests limit = 0 then (False, ?l) else (True, ?l\<lparr>lm_accepted := 1\<rparr>))"
      using True by (simp add: admit_def Let_def)
    have "accepted_between limit (snd (admit limit (t, t') l)) ts from (from + rl_window_ms limit)
        \<le> rl_requests limit - lm_accepted (snd (admit limit (t, t') l))"
      using mono Cons.prems(2) by (intro rest_of_window [of _ _ _ t']) (auto simp: adm)
    with adm p show ?thesis by auto
  next
    case False
    have adm: "admit limit (t, t') l = (if lm_accepted l \<ge> rl_requests limit then (False, l)
        else (True, l\<lparr>lm_accepted := lm_accepted l + 1\<rparr>))"
      using False by (simp add: admit_def Let_def)
    show ?thesis
    proof (cases "lm_accepted l \<ge> rl_requests limit")
      case True
      with adm p Cons.IH [OF rest Cons.prems(2), of l] show ?thesis by simp
    next
      case False
      with adm p Cons.IH [OF rest Cons.prems(2), of "l\<lparr>lm_accepted := lm_accepted l + 1\<rparr>"] show ?thesis by auto
    qed
  qed
qed simp

text \<open>
  C28: The limiter bounds every interval, not only its own windows: whatever the history of the
  limiter and whenever requests arrive, in no interval as long as the window are more than twice the
  configured number of requests let through; and in the interval that starts with the window of a
  fresh limiter, no more than the configured number.
\<close>

theorem rate_limit_bounds_every_interval:
  assumes config: "rate_limit_new requests window = Inr limit" and mono: "monotonic now ts"
  shows "accepted_between limit l ts from (from + rl_window_ms limit) \<le> 2 * rl_requests limit
       \<and> accepted_between limit (limiter_new now) ts now (now + rl_window_ms limit) \<le> rl_requests limit"
proof
  have pos: "0 < rl_window_ms limit"
    using config by (auto simp: rate_limit_new_def MIN_RATE_WINDOW_MS_def split: if_splits)
  show "accepted_between limit l ts from (from + rl_window_ms limit) \<le> 2 * rl_requests limit"
    using mono
  proof (induction ts arbitrary: now l)
    case (Cons p ts)
    obtain t t' where p: "p = (t, t')" by (cases p)
    with Cons.prems have mono: "monotonic t' ts" "t \<le> t'" by auto
    show ?case
    proof (cases "from \<le> t")
      case True
      with Cons.prems p have "monotonic from (p # ts)" by simp
      from interval_from_start [OF this pos, of l] show ?thesis by linarith
    next
      case False
      with p Cons.IH [OF mono(1)] show ?thesis by simp
    qed
  qed simp
  show "accepted_between limit (limiter_new now) ts now (now + rl_window_ms limit) \<le> rl_requests limit"
    using rest_of_window [of "now + rl_window_ms limit" "limiter_new now" limit now ts now] mono pos
    by (simp add: limiter_new_def)
qed

text \<open>Three requests against a limit of one, the last in a window of its own.\<close>

theorem rate_limit_bounds_every_interval_witness:
  "accepted_between \<lparr>rl_requests = 1, rl_window_ms = 10\<rparr> (limiter_new 0) [(9, 9), (9, 9), (10, 10)] 9 19 = 2
   \<and> accepted_between \<lparr>rl_requests = 1, rl_window_ms = 10\<rparr> (limiter_new 0) [(9, 9), (9, 9), (10, 10)] 9 19 \<le> 2 * 1"
proof -
  have mono: "monotonic 0 [(9, 9), (9, 9), (10, 10)]" by simp
  have limit: "rate_limit_new 1 10 = Inr \<lparr>rl_requests = 1, rl_window_ms = 10\<rparr>"
    by (simp add: rate_limit_new_def MAX_AUTHENTICATED_REQUESTS_def MIN_RATE_WINDOW_MS_def MAX_RATE_WINDOW_MS_def)
  have "accepted_between \<lparr>rl_requests = 1, rl_window_ms = 10\<rparr> (limiter_new 0) [(9, 9), (9, 9), (10, 10)] 9 19 = 2"
    by (simp add: admit_def limiter_new_def)
  then show ?thesis
    using rate_limit_bounds_every_interval [OF limit mono, of "limiter_new 0" 9] by simp
qed

end
