(* ===== verification/Guild_Intelligence.thy ===== *)
theory Guild_Intelligence
  imports Abbey_Prelude "HOL-Library.List_Lexorder" "HOL-Library.Char_ord" "HOL-Library.Product_Lexorder"
begin

text \<open>
  Guild intelligence (\<open>src/app_core/guild_intelligence.rs\<close> with \<open>validation.rs\<close> and \<open>plan.rs\<close>): a
  recording of a guild's roles, channels and permission overwrites is read, validated and brought
  into a normal form; a replay computes what the bot may do in every channel, reports findings, offers
  alternatives and, for the alternative selected, a plan of desired permission states with the
  conditions before and after and a preview of the rollback. Permissions are 64-bit masks.
  \<open>serde_json::from_str\<close> at the type of recordings is an argument; writing these records as JSON
  never fails, so the errors of serialisation have no branch here.
\<close>

unbundle bit_operations_syntax

section \<open>Recordings\<close>

definition RECORDING_SCHEMA_VERSION :: nat where "RECORDING_SCHEMA_VERSION = 1"
definition GUILD_SCHEMA_VERSION :: nat where "GUILD_SCHEMA_VERSION = 2"
definition MAX_RECORDING_BYTES :: nat where "MAX_RECORDING_BYTES = 4 * 1024 * 1024"
definition MAX_OBJECTS :: nat where "MAX_OBJECTS = 2048"
definition MAX_REF_LEN :: nat where "MAX_REF_LEN = 96"
definition ADMINISTRATOR :: "64 word" where "ADMINISTRATOR = push_bit 3 1"
definition VIEW_CHANNEL :: "64 word" where "VIEW_CHANNEL = push_bit 10 1"
definition SEND_MESSAGES :: "64 word" where "SEND_MESSAGES = push_bit 11 1"

datatype guild_error =
    InvalidRecording string
  | NonSyntheticRecording
  | GuildUnauthorized
  | UnknownSelection
  | Serialization string

datatype operator_authority = OwnerAuthority | AdministratorAuthority | ManagerAuthority | MemberAuthority

record role_record =
  ro_ref_id :: string
  ro_position :: int
  ro_permissions :: "64 word"
  ro_managed :: bool

datatype channel_kind = KindCategory | KindText | KindVoice | KindForum | KindThread

datatype overwrite_target = OnEveryone string | OnRole string | OnMember string | OnUnrecognized string

record permission_overwrite =
  po_target :: overwrite_target
  po_allow :: "64 word"
  po_deny :: "64 word"

record channel_record =
  gc_ref_id :: string
  gc_parent_ref :: "string option"
  gc_kind :: channel_kind
  gc_overwrites :: "permission_overwrite list"

record thread_record =
  gt_ref_id :: string
  gt_parent_ref :: string

record bot_self_record =
  bs_ref_id :: string
  bs_role_refs :: "string list"

datatype audit_coverage = AuditObserved | UnavailableByPolicy | UnavailableByCapability

record recording_coverage =
  rv_guild :: bool
  rv_roles :: bool
  rv_channels :: bool
  rv_active_threads :: bool
  rv_audit_log :: audit_coverage

record guild_recording =
  gr_schema_version :: nat
  gr_synthetic :: bool
  gr_observed_at_unix :: nat
  gr_guild_ref :: string
  gr_operator_ref :: string
  gr_operator_authority :: operator_authority
  gr_owner_ref :: string
  gr_roles :: "role_record list"
  gr_channels :: "channel_record list"
  gr_active_threads :: "thread_record list"
  gr_bot_self :: bot_self_record
  gr_coverage :: recording_coverage

section \<open>Targets\<close>

fun target_reference :: "overwrite_target \<Rightarrow> string" where
  "target_reference (OnEveryone r) = r"
| "target_reference (OnRole r) = r"
| "target_reference (OnMember r) = r"
| "target_reference (OnUnrecognized r) = r"

fun target_rank :: "overwrite_target \<Rightarrow> nat" where
  "target_rank (OnEveryone _) = 0"
| "target_rank (OnRole _) = 1"
| "target_rank (OnMember _) = 2"
| "target_rank (OnUnrecognized _) = 3"

definition target_sort_key :: "overwrite_target \<Rightarrow> nat \<times> string" where
  "target_sort_key t = (target_rank t, target_reference t)"

fun is_everyone :: "string \<Rightarrow> overwrite_target \<Rightarrow> bool" where
  "is_everyone everyone (OnEveryone r) = (r = everyone)"
| "is_everyone everyone (OnRole r) = (r = everyone)"
| "is_everyone everyone _ = False"

section \<open>Validation\<close>

definition invalid_recording :: "string \<Rightarrow> guild_error + 'a" where
  "invalid_recording message = Inl (InvalidRecording message)"

text \<open>
  The walk towards the root: \<open>parents\<close> maps a channel to its parent, \<open>resolved\<close> holds what earlier
  walks have passed, \<open>path\<close> what this one has. A parent that is no channel ends the walk.
\<close>

type_synonym parent_table = "(string \<times> string option) list"

definition parent_in :: "parent_table \<Rightarrow> string \<Rightarrow> string option" where
  "parent_in parents reference = (case map_of parents reference of None \<Rightarrow> None | Some p \<Rightarrow> p)"

lemma parent_in_None: "reference \<notin> fst ` set parents \<Longrightarrow> parent_in parents reference = None"
  by (simp add: parent_in_def map_of_eq_None_iff [THEN iffD2])

function walk_parents ::
    "parent_table \<Rightarrow> string list \<Rightarrow> string list \<Rightarrow> string option \<Rightarrow> guild_error + string list" where
  "walk_parents parents resolved path None = Inr path"
| "walk_parents parents resolved path (Some reference) =
     (if reference \<in> set resolved then Inr path
      else if reference \<in> set path then invalid_recording ''cyclic channel parent relationship''
      else walk_parents parents resolved (reference # path) (parent_in parents reference))"
  by pat_completeness auto

termination
proof (relation "measure (\<lambda>(parents, resolved, path, cursor).
    case cursor of None \<Rightarrow> 0 | Some _ \<Rightarrow> Suc (card (fst ` set parents - set path)))", goal_cases)
  case (2 parents resolved path reference)
  show ?case
  proof (cases "reference \<in> fst ` set parents")
    case True
    with 2 have "fst ` set parents - set (reference # path) \<subset> fst ` set parents - set path" by auto
    then have "card (fst ` set parents - set (reference # path)) < card (fst ` set parents - set path)"
      by (simp add: psubset_card_mono)
    then show ?thesis by (simp split: option.splits)
  next
    case False
    then show ?thesis by (simp add: parent_in_None)
  qed
qed simp

fun resolve_parents :: "parent_table \<Rightarrow> string list \<Rightarrow> string list \<Rightarrow> guild_error + unit" where
  "resolve_parents parents resolved [] = Inr ()"
| "resolve_parents parents resolved (start # rest) =
     bindr (walk_parents parents resolved [] (Some start)) (\<lambda>path.
       resolve_parents parents (path @ resolved) rest)"

definition parent_table_of :: "channel_record list \<Rightarrow> parent_table" where
  "parent_table_of channels = map (\<lambda>c. (gc_ref_id c, gc_parent_ref c)) channels"

definition valid_reference :: "string \<Rightarrow> bool" where
  "valid_reference r \<longleftrightarrow> r \<noteq> [] \<and> length r \<le> MAX_REF_LEN \<and> \<not> any_control (\<lambda>_. False) r"

definition target_key :: "string \<Rightarrow> overwrite_target \<Rightarrow> nat \<times> string" where
  "target_key everyone t = (if is_everyone everyone t then (0, everyone) else target_sort_key t)"

fun validate_overwrites ::
    "string \<Rightarrow> string list \<Rightarrow> string \<Rightarrow> (nat \<times> string) list \<Rightarrow> permission_overwrite list \<Rightarrow>
     guild_error + unit" where
  "validate_overwrites everyone role_refs self targets [] = Inr ()"
| "validate_overwrites everyone role_refs self targets (ow # rest) =
     (if target_key everyone (po_target ow) \<in> set targets
      then invalid_recording ''duplicate channel overwrite target''
      else bindr (case po_target ow of
          OnEveryone r \<Rightarrow>
            if r \<noteq> everyone then invalid_recording ''everyone overwrite reference is invalid'' else Inr ()
        | OnRole r \<Rightarrow>
            if r \<notin> set role_refs then invalid_recording ''overwrite role reference is missing'' else Inr ()
        | OnMember r \<Rightarrow>
            if r \<noteq> self then invalid_recording ''only the recorded bot member overwrite is accepted''
            else Inr ()
        | OnUnrecognized r \<Rightarrow> invalid_recording ''unrecognized overwrite target'') (\<lambda>_.
        validate_overwrites everyone role_refs self (target_key everyone (po_target ow) # targets) rest))"

definition validate_channel ::
    "string \<Rightarrow> string list \<Rightarrow> string \<Rightarrow> string list \<Rightarrow> channel_record \<Rightarrow> guild_error + unit" where
  "validate_channel everyone role_refs self channel_refs c =
     (if (case gc_parent_ref c of None \<Rightarrow> False | Some p \<Rightarrow> p \<notin> set channel_refs)
      then invalid_recording ''channel parent reference is missing''
      else validate_overwrites everyone role_refs self [] (gc_overwrites c))"

definition object_refs :: "guild_recording \<Rightarrow> string list" where
  "object_refs r = map ro_ref_id (gr_roles r) @ map gc_ref_id (gr_channels r)
     @ map gt_ref_id (gr_active_threads r)"

definition everyone_roles :: "guild_recording \<Rightarrow> role_record list" where
  "everyone_roles r = filter (\<lambda>role. ro_position role = 0) (gr_roles r)"

definition validate_recording :: "guild_recording \<Rightarrow> guild_error + unit" where
  "validate_recording r =
     (if gr_schema_version r \<noteq> RECORDING_SCHEMA_VERSION then invalid_recording ''unsupported schema version''
      else if gr_operator_authority r = OwnerAuthority \<and> gr_operator_ref r \<noteq> gr_owner_ref r
      then invalid_recording ''recorded owner authority does not match the recorded owner''
      else if length (gr_roles r) > MAX_OBJECTS \<or> length (gr_channels r) > MAX_OBJECTS
              \<or> length (gr_active_threads r) > MAX_OBJECTS
      then invalid_recording ''object limit exceeded''
      else if list_ex (\<lambda>x. \<not> valid_reference x)
                ([gr_guild_ref r, gr_operator_ref r, gr_owner_ref r, bs_ref_id (gr_bot_self r)] @ object_refs r)
      then invalid_recording ''invalid opaque reference''
      else if \<not> distinct (object_refs r) then invalid_recording ''duplicate metadata object reference''
      else if length (everyone_roles r) \<noteq> 1
      then invalid_recording ''exactly one everyone role is required''
      else
        let everyone = ro_ref_id (hd (everyone_roles r));
            role_refs = map ro_ref_id (gr_roles r);
            channel_refs = map gc_ref_id (gr_channels r);
            self = gr_bot_self r in
        if \<not> distinct (bs_role_refs self) then invalid_recording ''duplicate bot role reference''
        else if list_ex (\<lambda>x. x \<notin> set role_refs) (bs_role_refs self)
        then invalid_recording ''bot role reference is missing''
        else
          bindr (resolve_parents (parent_table_of (gr_channels r)) [] (sort channel_refs)) (\<lambda>_.
          bindr (for_each (validate_channel everyone role_refs (bs_ref_id self) channel_refs) (gr_channels r)) (\<lambda>_.
            if list_ex (\<lambda>t. gt_parent_ref t \<notin> set channel_refs) (gr_active_threads r)
            then invalid_recording ''active thread parent reference is missing''
            else if sum_list (map (\<lambda>c. length (gc_overwrites c)) (gr_channels r)) > MAX_OBJECTS
            then invalid_recording ''overwrite limit exceeded''
            else if \<not> (rv_guild (gr_coverage r) \<and> rv_roles (gr_coverage r) \<and> rv_channels (gr_coverage r)
                       \<and> rv_active_threads (gr_coverage r))
            then invalid_recording ''required recording surface is incomplete''
            else Inr ())))"

definition normalize_channel :: "channel_record \<Rightarrow> channel_record" where
  "normalize_channel c = c\<lparr>gc_overwrites := sort_key (\<lambda>ow. target_sort_key (po_target ow)) (gc_overwrites c)\<rparr>"

definition normalize :: "guild_recording \<Rightarrow> guild_recording" where
  "normalize r = r\<lparr>gr_roles := sort_key ro_ref_id (gr_roles r),
     gr_channels := map normalize_channel (sort_key gc_ref_id (gr_channels r)),
     gr_active_threads := sort_key gt_ref_id (gr_active_threads r),
     gr_bot_self := (gr_bot_self r)\<lparr>bs_role_refs := sort (bs_role_refs (gr_bot_self r))\<rparr>\<rparr>"

section \<open>Serialisation\<close>

definition bits_json :: "64 word \<Rightarrow> json" where
  "bits_json w = JNumber (PosInt (unat w))"

definition nat_json :: "nat \<Rightarrow> json" where
  "nat_json n = JNumber (PosInt n)"

definition int_json :: "int \<Rightarrow> json" where
  "int_json i = JNumber (if i \<ge> 0 then PosInt (nat i) else NegInt i)"

fun authority_label :: "operator_authority \<Rightarrow> string" where
  "authority_label OwnerAuthority = ''owner''"
| "authority_label AdministratorAuthority = ''administrator''"
| "authority_label ManagerAuthority = ''manager''"
| "authority_label MemberAuthority = ''member''"

fun kind_label :: "channel_kind \<Rightarrow> string" where
  "kind_label KindCategory = ''category''"
| "kind_label KindText = ''text''"
| "kind_label KindVoice = ''voice''"
| "kind_label KindForum = ''forum''"
| "kind_label KindThread = ''thread''"

fun audit_label :: "audit_coverage \<Rightarrow> string" where
  "audit_label AuditObserved = ''observed''"
| "audit_label UnavailableByPolicy = ''unavailable_by_policy''"
| "audit_label UnavailableByCapability = ''unavailable_by_capability''"

fun target_label :: "overwrite_target \<Rightarrow> string" where
  "target_label (OnEveryone _) = ''everyone''"
| "target_label (OnRole _) = ''role''"
| "target_label (OnMember _) = ''member''"
| "target_label (OnUnrecognized _) = ''unrecognized''"

definition target_json :: "overwrite_target \<Rightarrow> json" where
  "target_json t = JObject [(''kind'', JString (target_label t)), (''ref_id'', JString (target_reference t))]"

definition role_json :: "role_record \<Rightarrow> json" where
  "role_json r = JObject [(''ref_id'', JString (ro_ref_id r)), (''position'', int_json (ro_position r)),
     (''permissions'', bits_json (ro_permissions r)), (''managed'', JBool (ro_managed r))]"

definition overwrite_json :: "permission_overwrite \<Rightarrow> json" where
  "overwrite_json ow = JObject [(''target'', target_json (po_target ow)), (''allow'', bits_json (po_allow ow)),
     (''deny'', bits_json (po_deny ow))]"

definition optional_json :: "('a \<Rightarrow> json) \<Rightarrow> 'a option \<Rightarrow> json" where
  "optional_json f x = (case x of None \<Rightarrow> JNull | Some a \<Rightarrow> f a)"

definition channel_json :: "channel_record \<Rightarrow> json" where
  "channel_json c = JObject [(''ref_id'', JString (gc_ref_id c)),
     (''parent_ref'', optional_json JString (gc_parent_ref c)), (''kind'', JString (kind_label (gc_kind c))),
     (''overwrites'', JArray (map overwrite_json (gc_overwrites c)))]"

definition thread_json :: "thread_record \<Rightarrow> json" where
  "thread_json t = JObject [(''ref_id'', JString (gt_ref_id t)), (''parent_ref'', JString (gt_parent_ref t))]"

definition bot_json :: "bot_self_record \<Rightarrow> json" where
  "bot_json b = JObject [(''ref_id'', JString (bs_ref_id b)),
     (''role_refs'', JArray (map JString (bs_role_refs b)))]"

definition recording_coverage_json :: "recording_coverage \<Rightarrow> json" where
  "recording_coverage_json v = JObject [(''guild'', JBool (rv_guild v)), (''roles'', JBool (rv_roles v)),
     (''channels'', JBool (rv_channels v)), (''active_threads'', JBool (rv_active_threads v)),
     (''audit_log'', JString (audit_label (rv_audit_log v)))]"

definition recording_json :: "guild_recording \<Rightarrow> json" where
  "recording_json r = JObject
     [(''schema_version'', nat_json (gr_schema_version r)), (''synthetic'', JBool (gr_synthetic r)),
      (''observed_at_unix'', nat_json (gr_observed_at_unix r)), (''guild_ref'', JString (gr_guild_ref r)),
      (''operator_ref'', JString (gr_operator_ref r)),
      (''operator_authority'', JString (authority_label (gr_operator_authority r))),
      (''owner_ref'', JString (gr_owner_ref r)), (''roles'', JArray (map role_json (gr_roles r))),
      (''channels'', JArray (map channel_json (gr_channels r))),
      (''active_threads'', JArray (map thread_json (gr_active_threads r))),
      (''bot_self'', bot_json (gr_bot_self r)), (''coverage'', recording_coverage_json (gr_coverage r))]"

definition guild_digest :: "externals \<Rightarrow> json \<Rightarrow> string" where
  "guild_digest E v = hex_string (sha256 E (json_to_string E v))"

section \<open>Effective permissions\<close>

definition everyone_role :: "guild_recording \<Rightarrow> role_record option" where
  "everyone_role r = find (\<lambda>role. ro_position role = 0) (gr_roles r)"

definition everyone_ref :: "guild_recording \<Rightarrow> string" where
  "everyone_ref r = (case everyone_role r of None \<Rightarrow> [] | Some role \<Rightarrow> ro_ref_id role)"

definition base_permissions :: "guild_recording \<Rightarrow> 64 word" where
  "base_permissions r =
     fold (\<lambda>role base. if ro_ref_id role \<in> set (bs_role_refs (gr_bot_self r))
                       then base OR ro_permissions role else base)
       (gr_roles r) (case everyone_role r of None \<Rightarrow> 0 | Some role \<Rightarrow> ro_permissions role)"

definition apply_overwrite :: "permission_overwrite \<Rightarrow> 64 word \<Rightarrow> 64 word" where
  "apply_overwrite ow permissions = (permissions AND NOT (po_deny ow)) OR po_allow ow"

definition is_role_in :: "string list \<Rightarrow> overwrite_target \<Rightarrow> bool" where
  "is_role_in refs t = (case t of OnRole r \<Rightarrow> r \<in> set refs | _ \<Rightarrow> False)"

definition is_member :: "string \<Rightarrow> overwrite_target \<Rightarrow> bool" where
  "is_member self t = (case t of OnMember r \<Rightarrow> r = self | _ \<Rightarrow> False)"

definition channel_permissions :: "guild_recording \<Rightarrow> channel_record \<Rightarrow> 64 word" where
  "channel_permissions r c =
     (let base = base_permissions r;
          self = gr_bot_self r;
          permissions = (if bs_ref_id self = gr_owner_ref r \<or> base AND ADMINISTRATOR \<noteq> 0 then - 1 else base) in
      if permissions = - 1 then permissions
      else
        let p1 = fold apply_overwrite
                   (filter (\<lambda>ow. is_everyone (everyone_ref r) (po_target ow)) (gc_overwrites c)) permissions;
            mine = filter (\<lambda>ow. is_role_in (bs_role_refs self) (po_target ow)) (gc_overwrites c);
            deny = fold (\<lambda>ow acc. acc OR po_deny ow) mine 0;
            allow = fold (\<lambda>ow acc. acc OR po_allow ow) mine 0;
            p2 = (p1 AND NOT deny) OR allow in
        fold apply_overwrite (filter (\<lambda>ow. is_member (bs_ref_id self) (po_target ow)) (gc_overwrites c)) p2)"

text \<open>\<open>BTreeMap\<close>: the entries in the order of their keys, the last value of a key.\<close>

fun btree_insert :: "'k::linorder \<times> 'v \<Rightarrow> ('k \<times> 'v) list \<Rightarrow> ('k \<times> 'v) list" where
  "btree_insert (k, v) [] = [(k, v)]"
| "btree_insert (k, v) ((k', v') # rest) =
     (if k < k' then (k, v) # (k', v') # rest
      else if k = k' then (k, v) # rest
      else (k', v') # btree_insert (k, v) rest)"

definition effective_permissions :: "guild_recording \<Rightarrow> (string \<times> 64 word) list" where
  "effective_permissions r =
     fold btree_insert (map (\<lambda>c. (gc_ref_id c, channel_permissions r c)) (gr_channels r)) []"

section \<open>Watermarks, findings and alternatives\<close>

record object_watermark =
  ow_object_kind :: string
  ow_object_ref :: string
  ow_observed_at_unix :: nat
  ow_schema_version :: nat
  ow_digest :: string

definition watermark :: "externals \<Rightarrow> string \<Rightarrow> string \<Rightarrow> nat \<Rightarrow> json \<Rightarrow> object_watermark" where
  "watermark E kind reference observed_at v =
     \<lparr>ow_object_kind = kind, ow_object_ref = reference, ow_observed_at_unix = observed_at,
      ow_schema_version = GUILD_SCHEMA_VERSION, ow_digest = guild_digest E v\<rparr>"

definition watermarks :: "externals \<Rightarrow> guild_recording \<Rightarrow> object_watermark list" where
  "watermarks E r =
     (let at = gr_observed_at_unix r in
      sort_key (\<lambda>w. (ow_object_kind w, ow_object_ref w))
        ([watermark E ''guild'' (gr_guild_ref r) at (recording_json r)]
         @ map (\<lambda>role. watermark E ''role'' (ro_ref_id role) at (role_json role)) (gr_roles r)
         @ map (\<lambda>c. watermark E ''channel'' (gc_ref_id c) at (channel_json c)) (gr_channels r)
         @ map (\<lambda>t. watermark E ''active_thread'' (gt_ref_id t) at (thread_json t)) (gr_active_threads r)))"

datatype finding_code = EveryoneCanSend | BotChannelVisibilityRestored | CoverageLimited

fun finding_rank :: "finding_code \<Rightarrow> nat" where
  "finding_rank EveryoneCanSend = 0"
| "finding_rank BotChannelVisibilityRestored = 1"
| "finding_rank CoverageLimited = 2"

record guild_finding =
  fd_code :: finding_code
  fd_severity :: string
  fd_affected_refs :: "string list"
  fd_evidence_digests :: "string list"

definition evidence_for :: "object_watermark list \<Rightarrow> string \<Rightarrow> guild_error + string list" where
  "evidence_for ws reference =
     (case find (\<lambda>w. ow_object_ref w = reference) ws of
        Some w \<Rightarrow> Inr [ow_digest w]
      | None \<Rightarrow> invalid_recording ''validated metadata object is missing its watermark'')"

definition authority_digest :: "externals \<Rightarrow> guild_recording \<Rightarrow> string" where
  "authority_digest E r = guild_digest E (JArray [JString ''bot-authority-v2'', bot_json (gr_bot_self r),
     JString (gr_owner_ref r), JArray (map role_json (gr_roles r))])"

definition visibility_restored :: "guild_recording \<Rightarrow> (string \<times> 64 word) list \<Rightarrow> channel_record \<Rightarrow> bool" where
  "visibility_restored r effective c \<longleftrightarrow>
     (case map_of effective (gc_ref_id c) of None \<Rightarrow> False | Some bits \<Rightarrow> bits AND VIEW_CHANNEL \<noteq> 0)
   \<and> list_ex (\<lambda>ow. is_everyone (everyone_ref r) (po_target ow) \<and> po_deny ow AND VIEW_CHANNEL \<noteq> 0)
       (gc_overwrites c)"

definition everyone_findings :: "guild_recording \<Rightarrow> object_watermark list \<Rightarrow> guild_error + guild_finding list" where
  "everyone_findings r ws =
     (case find (\<lambda>role. ro_position role = 0 \<and> ro_permissions role AND SEND_MESSAGES \<noteq> 0) (gr_roles r) of
        None \<Rightarrow> Inr []
      | Some role \<Rightarrow> bindr (evidence_for ws (ro_ref_id role)) (\<lambda>digests.
          Inr [\<lparr>fd_code = EveryoneCanSend, fd_severity = ''medium'', fd_affected_refs = [ro_ref_id role],
                fd_evidence_digests = digests\<rparr>]))"

definition channel_findings ::
    "externals \<Rightarrow> guild_recording \<Rightarrow> object_watermark list \<Rightarrow> (string \<times> 64 word) list \<Rightarrow>
     guild_error + guild_finding list" where
  "channel_findings E r ws effective =
     collect_results (\<lambda>c. bindr (evidence_for ws (gc_ref_id c)) (\<lambda>digests.
         Inr \<lparr>fd_code = BotChannelVisibilityRestored, fd_severity = ''informational'',
              fd_affected_refs = [gc_ref_id c], fd_evidence_digests = digests @ [authority_digest E r]\<rparr>))
       (filter (visibility_restored r effective) (gr_channels r))"

definition findings ::
    "externals \<Rightarrow> guild_recording \<Rightarrow> object_watermark list \<Rightarrow> (string \<times> 64 word) list \<Rightarrow>
     guild_error + guild_finding list" where
  "findings E r ws effective =
     bindr (everyone_findings r ws) (\<lambda>first.
     bindr (channel_findings E r ws effective) (\<lambda>restored.
       let limited = (if rv_audit_log (gr_coverage r) \<noteq> AuditObserved
             then [\<lparr>fd_code = CoverageLimited, fd_severity = ''informational'', fd_affected_refs = [],
                    fd_evidence_digests = [guild_digest E (recording_coverage_json (gr_coverage r))]\<rparr>]
             else []) in
       Inr (sort_key (\<lambda>f. finding_rank (fd_code f)) (first @ restored @ limited))))"

record alternative =
  al_id :: string
  al_strategy :: string
  al_affected_findings :: "finding_code list"
  al_reversible :: bool

definition alternatives :: "guild_finding list \<Rightarrow> bool \<Rightarrow> alternative list" where
  "alternatives fs has_channels =
     (let addressed = filter (\<lambda>code. code = EveryoneCanSend) (map fd_code fs) in
      filter (\<lambda>a. al_id a = ''do-nothing''
              \<or> al_affected_findings a \<noteq> [] \<and> (al_id a \<noteq> ''focused-overwrite'' \<or> has_channels))
        [\<lparr>al_id = ''least-privilege'', al_strategy = ''reduce_broad_permission'',
          al_affected_findings = addressed, al_reversible = True\<rparr>,
         \<lparr>al_id = ''focused-overwrite'', al_strategy = ''normalize_scoped_overwrite'',
          al_affected_findings = addressed, al_reversible = True\<rparr>,
         \<lparr>al_id = ''do-nothing'', al_strategy = ''retain_observed_state'',
          al_affected_findings = [], al_reversible = True\<rparr>])"

section \<open>Plans\<close>

record permission_condition =
  pc_source_observation_digest :: string
  pc_scope_ref :: string
  pc_subject_ref :: string
  pc_present :: bool
  pc_allow :: "64 word"
  pc_deny :: "64 word"

record desired_permission_state =
  ds_scope_ref :: string
  ds_subject_ref :: string
  ds_allow :: "64 word"
  ds_deny :: "64 word"

record rollback_permission_state =
  rb_scope_ref :: string
  rb_subject_ref :: string
  rb_present :: bool
  rb_allow :: "64 word"
  rb_deny :: "64 word"

record desired_state_plan =
  pl_plan_digest :: string
  pl_source_observation_digest :: string
  pl_selected_option_id :: string
  pl_preconditions :: "permission_condition list"
  pl_desired_states :: "desired_permission_state list"
  pl_postconditions :: "permission_condition list"
  pl_rollback_preview :: "rollback_permission_state list"

definition overwrite_needs_change :: "string \<Rightarrow> channel_record \<Rightarrow> bool" where
  "overwrite_needs_change everyone c \<longleftrightarrow>
     \<not> list_ex (\<lambda>ow. is_everyone everyone (po_target ow) \<and> po_allow ow AND SEND_MESSAGES = 0
                    \<and> po_deny ow AND SEND_MESSAGES \<noteq> 0) (gc_overwrites c)"

text \<open>One change: the states before and after in a scope.\<close>

record permission_change =
  ch_scope_ref :: string
  ch_present :: bool
  ch_allow :: "64 word"
  ch_deny :: "64 word"
  ch_desired_allow :: "64 word"
  ch_desired_deny :: "64 word"

definition role_change :: "guild_recording \<Rightarrow> role_record \<Rightarrow> permission_change" where
  "role_change r role = \<lparr>ch_scope_ref = gr_guild_ref r, ch_present = True, ch_allow = ro_permissions role,
     ch_deny = 0, ch_desired_allow = ro_permissions role AND NOT SEND_MESSAGES, ch_desired_deny = 0\<rparr>"

definition channel_change :: "string \<Rightarrow> channel_record \<Rightarrow> permission_change" where
  "channel_change everyone c =
     (let prior = find (\<lambda>ow. is_everyone everyone (po_target ow)) (gc_overwrites c);
          observed_allow = (case prior of None \<Rightarrow> 0 | Some ow \<Rightarrow> po_allow ow);
          observed_deny = (case prior of None \<Rightarrow> 0 | Some ow \<Rightarrow> po_deny ow) in
      \<lparr>ch_scope_ref = gc_ref_id c, ch_present = (prior \<noteq> None), ch_allow = observed_allow,
       ch_deny = observed_deny, ch_desired_allow = observed_allow AND NOT SEND_MESSAGES,
       ch_desired_deny = observed_deny OR SEND_MESSAGES\<rparr>)"

definition plan_changes :: "guild_recording \<Rightarrow> role_record \<Rightarrow> string \<Rightarrow> guild_error + permission_change list" where
  "plan_changes r role option_id =
     (if option_id = ''do-nothing'' then Inr []
      else if option_id = ''least-privilege'' \<and> ro_permissions role AND SEND_MESSAGES \<noteq> 0
      then Inr [role_change r role]
      else if option_id = ''focused-overwrite'' \<and> ro_permissions role AND SEND_MESSAGES \<noteq> 0
      then Inr (map (channel_change (ro_ref_id role))
                  (filter (overwrite_needs_change (ro_ref_id role)) (gr_channels r)))
      else Inl UnknownSelection)"

definition condition_before :: "string \<Rightarrow> string \<Rightarrow> permission_change \<Rightarrow> permission_condition" where
  "condition_before observation subject ch =
     \<lparr>pc_source_observation_digest = observation, pc_scope_ref = ch_scope_ref ch, pc_subject_ref = subject,
      pc_present = ch_present ch, pc_allow = ch_allow ch, pc_deny = ch_deny ch\<rparr>"

definition desired_state :: "string \<Rightarrow> permission_change \<Rightarrow> desired_permission_state" where
  "desired_state subject ch = \<lparr>ds_scope_ref = ch_scope_ref ch, ds_subject_ref = subject,
     ds_allow = ch_desired_allow ch, ds_deny = ch_desired_deny ch\<rparr>"

definition condition_after :: "string \<Rightarrow> string \<Rightarrow> permission_change \<Rightarrow> permission_condition" where
  "condition_after observation subject ch =
     \<lparr>pc_source_observation_digest = observation, pc_scope_ref = ch_scope_ref ch, pc_subject_ref = subject,
      pc_present = True, pc_allow = ch_desired_allow ch, pc_deny = ch_desired_deny ch\<rparr>"

definition rollback_state :: "string \<Rightarrow> permission_change \<Rightarrow> rollback_permission_state" where
  "rollback_state subject ch = \<lparr>rb_scope_ref = ch_scope_ref ch, rb_subject_ref = subject,
     rb_present = ch_present ch, rb_allow = ch_allow ch, rb_deny = ch_deny ch\<rparr>"

definition condition_json :: "permission_condition \<Rightarrow> json" where
  "condition_json c = JObject [(''source_observation_digest'', JString (pc_source_observation_digest c)),
     (''scope_ref'', JString (pc_scope_ref c)), (''subject_ref'', JString (pc_subject_ref c)),
     (''present'', JBool (pc_present c)), (''allow'', bits_json (pc_allow c)), (''deny'', bits_json (pc_deny c))]"

definition desired_json :: "desired_permission_state \<Rightarrow> json" where
  "desired_json s = JObject [(''scope_ref'', JString (ds_scope_ref s)),
     (''subject_ref'', JString (ds_subject_ref s)), (''allow'', bits_json (ds_allow s)),
     (''deny'', bits_json (ds_deny s))]"

definition rollback_json :: "rollback_permission_state \<Rightarrow> json" where
  "rollback_json s = JObject [(''scope_ref'', JString (rb_scope_ref s)),
     (''subject_ref'', JString (rb_subject_ref s)), (''present'', JBool (rb_present s)),
     (''allow'', bits_json (rb_allow s)), (''deny'', bits_json (rb_deny s))]"

definition make_plan ::
    "externals \<Rightarrow> guild_recording \<Rightarrow> string \<Rightarrow> alternative list \<Rightarrow> string \<Rightarrow> guild_error + desired_state_plan" where
  "make_plan E r observation options option_id =
     (if \<not> list_ex (\<lambda>a. al_id a = option_id) options then Inl UnknownSelection
      else
        bindr (ok_or (everyone_role r) (InvalidRecording ''everyone role missing'')) (\<lambda>role.
        bindr (plan_changes r role option_id) (\<lambda>changes.
          let subject = ro_ref_id role;
              before = map (condition_before observation subject) changes;
              desired = map (desired_state subject) changes;
              after = map (condition_after observation subject) changes;
              rollback = map (rollback_state subject) changes in
          Inr \<lparr>pl_plan_digest = guild_digest E (JArray [JString observation, JString option_id,
                 JArray (map condition_json before), JArray (map desired_json desired),
                 JArray (map condition_json after), JArray (map rollback_json rollback)]),
               pl_source_observation_digest = observation, pl_selected_option_id = option_id,
               pl_preconditions = before, pl_desired_states = desired, pl_postconditions = after,
               pl_rollback_preview = rollback\<rparr>)))"

section \<open>Replay\<close>

datatype view_kind = StructureView | AuthorityView | WorkflowView | GoalView | HealthView

fun view_number :: "view_kind \<Rightarrow> nat" where
  "view_number StructureView = 0"
| "view_number AuthorityView = 1"
| "view_number WorkflowView = 2"
| "view_number GoalView = 3"
| "view_number HealthView = 4"

record assertion_metadata =
  am_source :: string
  am_observed_at_unix :: nat
  am_confidence_basis_points :: nat
  am_stale :: bool
  am_contradiction :: bool
  am_privacy_class :: string
  am_schema_version :: nat
  am_digest :: string

record twin_view =
  vi_kind :: view_kind
  vi_assertion_count :: nat
  vi_metadata :: assertion_metadata

record guild_coverage =
  cg_role_count :: nat
  cg_channel_count :: nat
  cg_active_thread_count :: nat
  cg_audit_log :: audit_coverage
  cg_content_excluded :: bool
  cg_member_enumeration_excluded :: bool

record guild_twin =
  tw_schema_version :: nat
  tw_observation_digest :: string
  tw_views :: "twin_view list"
  tw_coverage :: guild_coverage
  tw_watermarks :: "object_watermark list"
  tw_effective_channel_permissions :: "(string \<times> 64 word) list"

datatype evidence_level = C2ClosedSyntheticReplay

record redacted_guild_status =
  rg_schema_version :: nat
  rg_evidence_level :: evidence_level
  rg_source_kind :: string
  rg_authorization_basis :: string
  rg_read_only :: bool
  rg_fresh :: bool
  rg_role_count :: nat
  rg_channel_count :: nat
  rg_finding_count :: nat
  rg_alternative_count :: nat
  rg_selection_present :: bool
  rg_plan_present :: bool
  rg_excluded_surfaces :: "string list"

record replay_artifact =
  ra_twin :: guild_twin
  ra_findings :: "guild_finding list"
  ra_alternatives :: "alternative list"
  ra_plan :: "desired_state_plan option"
  ra_status :: redacted_guild_status

definition as_u32 :: "nat \<Rightarrow> nat" where
  "as_u32 n = n mod 2 ^ 32"

definition guild_coverage_of :: "guild_recording \<Rightarrow> guild_coverage" where
  "guild_coverage_of r = \<lparr>cg_role_count = as_u32 (length (gr_roles r)),
     cg_channel_count = as_u32 (length (gr_channels r)),
     cg_active_thread_count = as_u32 (length (gr_active_threads r)),
     cg_audit_log = rv_audit_log (gr_coverage r), cg_content_excluded = True,
     cg_member_enumeration_excluded = True\<rparr>"

definition view_of :: "externals \<Rightarrow> guild_recording \<Rightarrow> string \<Rightarrow> view_kind \<Rightarrow> nat \<Rightarrow> twin_view" where
  "view_of E r observation kind n = \<lparr>vi_kind = kind, vi_assertion_count = n, vi_metadata =
     \<lparr>am_source = ''synthetic_recording'', am_observed_at_unix = gr_observed_at_unix r,
      am_confidence_basis_points = 10000, am_stale = True, am_contradiction = False,
      am_privacy_class = ''structural_metadata'', am_schema_version = GUILD_SCHEMA_VERSION,
      am_digest = guild_digest E (JArray [JString observation, nat_json (view_number kind), nat_json n])\<rparr>\<rparr>"

text \<open>The counts are at most 2048 each in a valid recording, so their sums stay within 32 bits.\<close>

definition guild_views ::
    "externals \<Rightarrow> guild_recording \<Rightarrow> string \<Rightarrow> guild_coverage \<Rightarrow> nat \<Rightarrow> nat \<Rightarrow> bool \<Rightarrow> twin_view list" where
  "guild_views E r observation coverage effective_count finding_count selected =
     [view_of E r observation StructureView
        (cg_role_count coverage + cg_channel_count coverage + cg_active_thread_count coverage),
      view_of E r observation AuthorityView (as_u32 effective_count + 2),
      view_of E r observation WorkflowView 1,
      view_of E r observation GoalView (if selected then 1 else 0),
      view_of E r observation HealthView (as_u32 finding_count + 1)]"

definition analyze :: "externals \<Rightarrow> guild_recording \<Rightarrow> string option \<Rightarrow> guild_error + replay_artifact" where
  "analyze E r selection =
     (if gr_operator_authority r \<notin> {OwnerAuthority, AdministratorAuthority} then Inl GuildUnauthorized
      else
        let observation = guild_digest E (recording_json r);
            ws = watermarks E r;
            effective = effective_permissions r in
        bindr (findings E r ws effective) (\<lambda>fs.
          let scoped_change = list_ex (overwrite_needs_change (everyone_ref r)) (gr_channels r);
              options = alternatives fs scoped_change;
              coverage = guild_coverage_of r;
              views = guild_views E r observation coverage (length effective) (length fs) (selection \<noteq> None);
              twin = \<lparr>tw_schema_version = GUILD_SCHEMA_VERSION, tw_observation_digest = observation,
                tw_views = views, tw_coverage = coverage, tw_watermarks = ws,
                tw_effective_channel_permissions = effective\<rparr> in
          bindr (case selection of None \<Rightarrow> Inr None
                 | Some option_id \<Rightarrow> bindr (make_plan E r observation options option_id) (\<lambda>p. Inr (Some p))) (\<lambda>plan.
            Inr \<lparr>ra_twin = twin, ra_findings = fs, ra_alternatives = options, ra_plan = plan,
              ra_status = \<lparr>rg_schema_version = GUILD_SCHEMA_VERSION, rg_evidence_level = C2ClosedSyntheticReplay,
                rg_source_kind = ''synthetic_recording'', rg_authorization_basis = ''synthetic_fixture_claim'',
                rg_read_only = True, rg_fresh = False, rg_role_count = cg_role_count coverage,
                rg_channel_count = cg_channel_count coverage, rg_finding_count = as_u32 (length fs),
                rg_alternative_count = as_u32 (length options), rg_selection_present = (selection \<noteq> None),
                rg_plan_present = (plan \<noteq> None),
                rg_excluded_surfaces = [''discord_transport'', ''durable_state'', ''member_enumeration'',
                  ''private_content'', ''effects'']\<rparr>\<rparr>)))"

section \<open>The recording source\<close>

datatype read_operation = ReadSyntheticObservation

record guild_source =
  gs_recording :: guild_recording
  gs_operations :: "read_operation list"

definition from_json :: "(string \<Rightarrow> string + guild_recording) \<Rightarrow> string \<Rightarrow> guild_error + guild_source" where
  "from_json reader input =
     (if length input > MAX_RECORDING_BYTES
      then invalid_recording ''recording exceeds the 4194304-byte limit''
      else bindr (map_err InvalidRecording (reader input)) (\<lambda>r.
        if \<not> gr_synthetic r then Inl NonSyntheticRecording
        else bindr (validate_recording r) (\<lambda>_. Inr \<lparr>gs_recording = normalize r, gs_operations = []\<rparr>)))"

definition replay ::
    "externals \<Rightarrow> string option \<Rightarrow> guild_source \<Rightarrow> (guild_error + replay_artifact) \<times> guild_source" where
  "replay E selection s =
     (analyze E (gs_recording s) selection,
      s\<lparr>gs_operations := gs_operations s @ [ReadSyntheticObservation]\<rparr>)"

end
