(* ===== verification/Guild_Facts.thy ===== *)
theory Guild_Facts
  imports Guild_Intelligence "HOL-Library.Multiset"
begin

text \<open>
  Facts about guild recordings: the walk over the parents of channels finds exactly the cycles, what
  an accepted recording guarantees, the permissions bit by bit, and the meaning of a plan as a change
  of the recording.
\<close>

section \<open>Parents\<close>

definition parent_rel :: "parent_table \<Rightarrow> (string \<times> string) set" where
  "parent_rel parents = {(c, p). parent_in parents c = Some p}"

abbreviation grounded :: "parent_table \<Rightarrow> string set" where
  "grounded parents \<equiv> Wellfounded.acc ((parent_rel parents)\<inverse>)"

lemma grounded_step:
  "(\<And>p. parent_in parents c = Some p \<Longrightarrow> p \<in> grounded parents) \<Longrightarrow> c \<in> grounded parents"
  by (rule accI) (auto simp: parent_rel_def)

lemma walk_grounded:
  assumes "walk_parents parents resolved path cursor = Inr path'"
    and "set resolved \<subseteq> grounded parents"
    and "(\<And>c. cursor = Some c \<Longrightarrow> c \<in> grounded parents) \<Longrightarrow> set path \<subseteq> grounded parents"
  shows "set path' \<subseteq> grounded parents \<and> set path \<subseteq> set path'
       \<and> (\<forall>c. cursor = Some c \<longrightarrow> c \<in> set resolved \<union> set path')"
  using assms
proof (induction parents resolved path cursor rule: walk_parents.induct)
  case (2 parents resolved path c)
  show ?case
  proof (cases "c \<in> set resolved \<or> c \<in> set path")
    case True
    with 2(2,3,4) show ?thesis by (auto simp: invalid_recording_def split: if_splits)
  next
    case False
    then have run: "walk_parents parents resolved (c # path) (parent_in parents c) = Inr path'"
      using 2(2) by simp
    have "set (c # path) \<subseteq> grounded parents"
      if "\<And>p. parent_in parents c = Some p \<Longrightarrow> p \<in> grounded parents"
      using grounded_step [OF that] 2(4) by auto
    with False 2(1) [OF _ _ run 2(3)] show ?thesis by auto
  qed
qed auto

lemma walk_cycle:
  assumes "walk_parents parents resolved path cursor = Inl e"
    and "\<And>x c. x \<in> set path \<Longrightarrow> cursor = Some c \<Longrightarrow> (x, c) \<in> (parent_rel parents)\<^sup>+"
  shows "\<not> acyclic (parent_rel parents)"
  using assms
proof (induction parents resolved path cursor rule: walk_parents.induct)
  case (2 parents resolved path c)
  show ?case
  proof (cases "c \<in> set path")
    case True
    with 2(3) show ?thesis by (auto simp: acyclic_def)
  next
    case False
    with 2(2) have r: "c \<notin> set resolved"
      and run: "walk_parents parents resolved (c # path) (parent_in parents c) = Inl e"
      by (auto split: if_splits)
    show ?thesis
    proof (rule 2(1) [OF r False run])
      fix x p assume x: "x \<in> set (c # path)" and p: "parent_in parents c = Some p"
      then have "(c, p) \<in> parent_rel parents" by (simp add: parent_rel_def)
      with x 2(3) show "(x, p) \<in> (parent_rel parents)\<^sup>+" by (auto intro: trancl_into_trancl)
    qed
  qed
qed auto

lemma resolve_grounded:
  "resolve_parents parents resolved starts = Inr () \<Longrightarrow> set resolved \<subseteq> grounded parents \<Longrightarrow>
   set starts \<subseteq> grounded parents"
proof (induction starts arbitrary: resolved)
  case (Cons c starts)
  then obtain path where w: "walk_parents parents resolved [] (Some c) = Inr path"
    and rest: "resolve_parents parents (path @ resolved) starts = Inr ()"
    by (auto simp del: walk_parents.simps simp: rust_simps)
  from walk_grounded [OF w Cons.prems(2)]
  have "set path \<subseteq> grounded parents" "c \<in> set resolved \<union> set path" by auto
  with Cons.IH [OF rest] Cons.prems(2) show ?case by auto
qed simp

lemma resolve_cycle:
  "resolve_parents parents resolved starts = Inl e \<Longrightarrow> \<not> acyclic (parent_rel parents)"
proof (induction starts arbitrary: resolved)
  case (Cons c starts)
  show ?case
  proof (cases "walk_parents parents resolved [] (Some c)")
    case (Inl e')
    then show ?thesis by (rule walk_cycle) simp
  next
    case (Inr path)
    with Cons show ?thesis by (auto simp del: walk_parents.simps)
  qed
qed simp

lemma resolve_iff_acyclic:
  assumes "set starts = fst ` set parents"
  shows "resolve_parents parents [] starts = Inr () \<longleftrightarrow> acyclic (parent_rel parents)"
proof
  assume "resolve_parents parents [] starts = Inr ()"
  then have keys: "fst ` set parents \<subseteq> grounded parents" using resolve_grounded [of parents "[]" starts] assms by simp
  have "c \<in> grounded parents" for c
  proof (cases "c \<in> fst ` set parents")
    case False
    then have "parent_in parents c = None" by (rule parent_in_None)
    then show ?thesis using grounded_step [of parents c] by simp
  qed (use keys in auto)
  then have "\<forall>c. c \<in> grounded parents" by (rule allI)
  then have "wf ((parent_rel parents)\<inverse>)" by (rule acc_wfI)
  from wf_acyclic [OF this] show "acyclic (parent_rel parents)" by (simp only: acyclic_converse)
next
  assume "acyclic (parent_rel parents)"
  then show "resolve_parents parents [] starts = Inr ()"
    using resolve_cycle [of parents "[]" starts] by (cases "resolve_parents parents [] starts") auto
qed

section \<open>Accepted recordings\<close>

definition one_everyone :: "string \<Rightarrow> channel_record \<Rightarrow> bool" where
  "one_everyone everyone c \<longleftrightarrow> length (filter (\<lambda>ow. is_everyone everyone (po_target ow)) (gc_overwrites c)) \<le> 1"

lemma overwrites_distinct:
  "validate_overwrites everyone roles self targets ows = Inr () \<Longrightarrow>
   distinct (map (\<lambda>ow. target_key everyone (po_target ow)) ows)
   \<and> set targets \<inter> set (map (\<lambda>ow. target_key everyone (po_target ow)) ows) = {}"
proof (induction ows arbitrary: targets)
  case (Cons ow ows)
  let ?k = "target_key everyone (po_target ow)"
  have "?k \<notin> set targets" "validate_overwrites everyone roles self (?k # targets) ows = Inr ()"
    using Cons.prems by (auto simp: invalid_recording_def rust_simps split: if_splits)
  with Cons.IH [of "?k # targets"] show ?case by auto
qed simp

lemma distinct_map_filter_le:
  "distinct (map k xs) \<Longrightarrow> (\<And>x. x \<in> set xs \<Longrightarrow> P x \<Longrightarrow> k x = a) \<Longrightarrow> length (filter P xs) \<le> 1"
proof (induction xs)
  case (Cons x xs)
  show ?case
  proof (cases "P x")
    case True
    with Cons.prems have "filter P xs = []" by (auto simp: filter_empty_conv image_iff)
    with True show ?thesis by simp
  next
    case False
    with Cons show ?thesis by auto
  qed
qed simp

lemma valid_channel_one_everyone:
  assumes "validate_channel everyone roles self refs c = Inr ()"
  shows "one_everyone everyone c"
proof -
  from assms have "validate_overwrites everyone roles self [] (gc_overwrites c) = Inr ()"
    by (auto simp: validate_channel_def invalid_recording_def split: if_splits)
  from overwrites_distinct [OF this] show ?thesis
    unfolding one_everyone_def
    by (intro distinct_map_filter_le [where k = "\<lambda>ow. target_key everyone (po_target ow)" and a = "(0, everyone)"])
      (auto simp: target_key_def)
qed

text \<open>What validation guarantees, in the terms of the analysis.\<close>

lemma find_hd_filter: "filter P xs \<noteq> [] \<Longrightarrow> find P xs = Some (hd (filter P xs))"
  by (induction xs) auto

lemma everyone_role_hd:
  "everyone_roles r \<noteq> [] \<Longrightarrow> everyone_role r = Some (hd (everyone_roles r))"
  by (simp add: everyone_role_def everyone_roles_def find_hd_filter)

lemma valid_recording:
  assumes "validate_recording r = Inr ()"
  shows "distinct (map gc_ref_id (gr_channels r))" "distinct (map ro_ref_id (gr_roles r))"
    "\<exists>role. everyone_role r = Some role \<and> role \<in> set (gr_roles r) \<and> ro_position role = 0"
    "\<forall>c\<in>set (gr_channels r). validate_channel (everyone_ref r) (map ro_ref_id (gr_roles r))
       (bs_ref_id (gr_bot_self r)) (map gc_ref_id (gr_channels r)) c = Inr ()"
    "acyclic (parent_rel (parent_table_of (gr_channels r)))"
proof -
  note v = assms [unfolded validate_recording_def Let_def invalid_recording_def]
  from v have "distinct (object_refs r)" and one: "length (everyone_roles r) = 1" by (auto split: if_splits)
  then show "distinct (map gc_ref_id (gr_channels r))" "distinct (map ro_ref_id (gr_roles r))"
    by (simp_all add: object_refs_def)
  from one have hd: "everyone_role r = Some (hd (everyone_roles r))" by (intro everyone_role_hd) auto
  with one show "\<exists>role. everyone_role r = Some role \<and> role \<in> set (gr_roles r) \<and> ro_position role = 0"
    unfolding everyone_role_def by (auto dest: find_Some_in)
  from v have "resolve_parents (parent_table_of (gr_channels r)) [] (sort (map gc_ref_id (gr_channels r))) = Inr ()"
    by (auto simp: rust_simps split: if_splits)
  moreover have "set (sort (map gc_ref_id (gr_channels r))) = fst ` set (parent_table_of (gr_channels r))"
    by (auto simp: parent_table_of_def image_iff)
  ultimately show "acyclic (parent_rel (parent_table_of (gr_channels r)))" by (simp add: resolve_iff_acyclic)
  from v hd show "\<forall>c\<in>set (gr_channels r). validate_channel (everyone_ref r) (map ro_ref_id (gr_roles r))
       (bs_ref_id (gr_bot_self r)) (map gc_ref_id (gr_channels r)) c = Inr ()"
    by (auto simp: rust_simps everyone_ref_def split: if_splits)
qed

section \<open>Permissions, bit by bit\<close>

lemma bit_fold_or:
  "bit (fold (\<lambda>x acc. acc OR f x) xs (a :: 64 word)) n \<longleftrightarrow> bit a n \<or> (\<exists>x\<in>set xs. bit (f x) n)"
  by (induction xs arbitrary: a) (auto simp: bit_or_iff)

lemma bit_fold_or_if:
  "bit (fold (\<lambda>x acc. if P x then acc OR f x else acc) xs (a :: 64 word)) n
   \<longleftrightarrow> bit a n \<or> (\<exists>x\<in>set xs. P x \<and> bit (f x) n)"
  by (induction xs arbitrary: a) (auto simp: bit_or_iff)

lemma bit_apply_overwrite:
  "n < 64 \<Longrightarrow> bit (apply_overwrite ow p) n \<longleftrightarrow> bit (po_allow ow) n \<or> \<not> bit (po_deny ow) n \<and> bit p n"
  by (auto simp: apply_overwrite_def bit_or_iff bit_and_iff bit_not_iff)

lemma bit_fold_overwrite:
  assumes "length ows \<le> 1" and "n < 64"
  shows "bit (fold apply_overwrite ows p) n \<longleftrightarrow>
    (\<exists>ow\<in>set ows. bit (po_allow ow) n) \<or> \<not> (\<exists>ow\<in>set ows. bit (po_deny ow) n) \<and> bit p n"
proof (cases ows)
  case (Cons ow rest)
  with assms have "ows = [ow]" by simp
  then show ?thesis using assms(2) by (simp add: bit_apply_overwrite)
qed simp

lemma base_bit:
  assumes "everyone_role r = Some role"
  shows "bit (base_permissions r) n \<longleftrightarrow> bit (ro_permissions role) n
    \<or> (\<exists>ro\<in>set (gr_roles r). ro_ref_id ro \<in> set (bs_role_refs (gr_bot_self r)) \<and> bit (ro_permissions ro) n)"
  by (simp add: base_permissions_def assms bit_fold_or_if)

definition bits_of :: "(overwrite_target \<Rightarrow> bool) \<Rightarrow> (permission_overwrite \<Rightarrow> 64 word) \<Rightarrow> channel_record \<Rightarrow> nat \<Rightarrow> bool" where
  "bits_of who side c n \<longleftrightarrow> (\<exists>ow\<in>set (gc_overwrites c). who (po_target ow) \<and> bit (side ow) n)"

lemma mask_bits:
  "p AND ADMINISTRATOR \<noteq> 0 \<longleftrightarrow> bit p 3" "p AND VIEW_CHANNEL \<noteq> 0 \<longleftrightarrow> bit p 10"
  "p AND SEND_MESSAGES \<noteq> 0 \<longleftrightarrow> bit p 11" "p AND SEND_MESSAGES = 0 \<longleftrightarrow> \<not> bit p 11"
  for p :: "64 word"
  by (simp_all only: ADMINISTRATOR_def VIEW_CHANNEL_def SEND_MESSAGES_def bit_iff_and_push_bit_not_eq_0 not_not)

lemma channel_bit:
  assumes ev: "one_everyone (everyone_ref r) c"
    and me: "length (filter (\<lambda>ow. is_member (bs_ref_id (gr_bot_self r)) (po_target ow)) (gc_overwrites c)) \<le> 1"
    and n: "n < 64" and usual: "bs_ref_id (gr_bot_self r) \<noteq> gr_owner_ref r" "\<not> bit (base_permissions r) 3"
  shows "bit (channel_permissions r c) n \<longleftrightarrow>
     (let member = is_member (bs_ref_id (gr_bot_self r)); mine = is_role_in (bs_role_refs (gr_bot_self r));
          everyone = is_everyone (everyone_ref r) in
      bits_of member po_allow c n \<or> \<not> bits_of member po_deny c n \<and>
      (bits_of mine po_allow c n \<or> \<not> bits_of mine po_deny c n \<and>
       (bits_of everyone po_allow c n \<or> \<not> bits_of everyone po_deny c n \<and> bit (base_permissions r) n)))"
proof -
  have "base_permissions r \<noteq> - 1" using usual(2) by (auto simp: bit_minus_1_iff)
  then show ?thesis
    using usual n
    by (simp add: channel_permissions_def Let_def mask_bits bit_fold_overwrite [OF me n] bits_of_def
        bit_fold_overwrite [OF ev [unfolded one_everyone_def] n] bit_or_iff bit_and_iff bit_not_iff bit_fold_or) blast
qed

section \<open>The meaning of a plan\<close>

text \<open>
  A plan has no execution of its own. What its states say: a desired state sets the permissions of
  the role in the guild, or the overwrite of everyone in a channel, adding it where there is none; a
  rollback sets them back, or removes the overwrite it says was absent.
\<close>

definition set_everyone :: "string \<Rightarrow> 64 word \<Rightarrow> 64 word \<Rightarrow> channel_record \<Rightarrow> channel_record" where
  "set_everyone subject allow deny c =
     (if list_ex (\<lambda>ow. is_everyone subject (po_target ow)) (gc_overwrites c)
      then c\<lparr>gc_overwrites := map (\<lambda>ow. if is_everyone subject (po_target ow)
             then ow\<lparr>po_allow := allow, po_deny := deny\<rparr> else ow) (gc_overwrites c)\<rparr>
      else c\<lparr>gc_overwrites := gc_overwrites c
             @ [\<lparr>po_target = OnEveryone subject, po_allow = allow, po_deny = deny\<rparr>]\<rparr>)"

definition clear_everyone :: "string \<Rightarrow> channel_record \<Rightarrow> channel_record" where
  "clear_everyone subject c =
     c\<lparr>gc_overwrites := filter (\<lambda>ow. \<not> is_everyone subject (po_target ow)) (gc_overwrites c)\<rparr>"

definition at_scope :: "string \<Rightarrow> (channel_record \<Rightarrow> channel_record) \<Rightarrow> channel_record list \<Rightarrow> channel_record list" where
  "at_scope scope f cs = map (\<lambda>c. if gc_ref_id c = scope then f c else c) cs"

definition set_role :: "string \<Rightarrow> 64 word \<Rightarrow> role_record list \<Rightarrow> role_record list" where
  "set_role subject permissions roles =
     map (\<lambda>ro. if ro_ref_id ro = subject then ro\<lparr>ro_permissions := permissions\<rparr> else ro) roles"

definition apply_desired :: "desired_permission_state \<Rightarrow> guild_recording \<Rightarrow> guild_recording" where
  "apply_desired s r =
     (if ds_scope_ref s = gr_guild_ref r
      then r\<lparr>gr_roles := set_role (ds_subject_ref s) (ds_allow s) (gr_roles r)\<rparr>
      else r\<lparr>gr_channels := at_scope (ds_scope_ref s)
             (set_everyone (ds_subject_ref s) (ds_allow s) (ds_deny s)) (gr_channels r)\<rparr>)"

definition apply_rollback :: "rollback_permission_state \<Rightarrow> guild_recording \<Rightarrow> guild_recording" where
  "apply_rollback s r =
     (if rb_scope_ref s = gr_guild_ref r
      then r\<lparr>gr_roles := set_role (rb_subject_ref s) (rb_allow s) (gr_roles r)\<rparr>
      else r\<lparr>gr_channels := at_scope (rb_scope_ref s)
             (if rb_present s then set_everyone (rb_subject_ref s) (rb_allow s) (rb_deny s)
              else clear_everyone (rb_subject_ref s)) (gr_channels r)\<rparr>)"

definition overwrite_state :: "string \<Rightarrow> channel_record \<Rightarrow> bool \<times> 64 word \<times> 64 word" where
  "overwrite_state subject c =
     (case find (\<lambda>ow. is_everyone subject (po_target ow)) (gc_overwrites c) of None \<Rightarrow> (False, 0, 0)
      | Some ow \<Rightarrow> (True, po_allow ow, po_deny ow))"

definition observed_state :: "guild_recording \<Rightarrow> string \<Rightarrow> string \<Rightarrow> bool \<times> 64 word \<times> 64 word" where
  "observed_state r scope subject =
     (if scope = gr_guild_ref r
      then (case find (\<lambda>ro. ro_ref_id ro = subject) (gr_roles r) of None \<Rightarrow> (False, 0, 0)
            | Some ro \<Rightarrow> (True, ro_permissions ro, 0))
      else (case find (\<lambda>c. gc_ref_id c = scope) (gr_channels r) of None \<Rightarrow> (False, 0, 0)
            | Some c \<Rightarrow> overwrite_state subject c))"

definition condition_holds :: "guild_recording \<Rightarrow> permission_condition \<Rightarrow> bool" where
  "condition_holds r p \<longleftrightarrow>
     observed_state r (pc_scope_ref p) (pc_subject_ref p) = (pc_present p, pc_allow p, pc_deny p)"

text \<open>What a member without a role of its own may do in a channel.\<close>

definition everyone_permissions :: "guild_recording \<Rightarrow> channel_record \<Rightarrow> 64 word" where
  "everyone_permissions r c =
     fold apply_overwrite (filter (\<lambda>ow. is_everyone (everyone_ref r) (po_target ow)) (gc_overwrites c))
       (case everyone_role r of None \<Rightarrow> 0 | Some role \<Rightarrow> ro_permissions role)"

lemma set_everyone_ref [simp]: "gc_ref_id (set_everyone e a d c) = gc_ref_id c"
  by (simp add: set_everyone_def)

lemma clear_everyone_ref [simp]: "gc_ref_id (clear_everyone e c) = gc_ref_id c"
  by (simp add: clear_everyone_def)

lemma everyone_unique:
  assumes "one_everyone e c" "x \<in> set (gc_overwrites c)" "is_everyone e (po_target x)"
    "y \<in> set (gc_overwrites c)" "is_everyone e (po_target y)"
  shows "x = y"
proof -
  let ?f = "filter (\<lambda>ow. is_everyone e (po_target ow)) (gc_overwrites c)"
  from assms have "x \<in> set ?f" "y \<in> set ?f" "length ?f \<le> 1" by (simp_all add: one_everyone_def)
  then show ?thesis by (cases ?f) auto
qed

lemma find_updated:
  "list_ex P xs \<Longrightarrow> (\<And>x. P x \<Longrightarrow> P (g x)) \<Longrightarrow>
   find P (map (\<lambda>x. if P x then g x else x) xs) = Some (g (the (find P xs)))"
  by (induction xs) auto

lemma ex_updated:
  "(\<And>x. P x \<Longrightarrow> P (g x)) \<Longrightarrow> list_ex P (map (\<lambda>x. if P x then g x else x) xs) = list_ex P xs"
  by (induction xs) auto

lemma find_no_ex: "find P xs = None \<longleftrightarrow> \<not> list_ex P xs"
  by (simp add: find_None_all list_ex_iff)

lemma set_everyone_state: "overwrite_state e (set_everyone e a d c) = (True, a, d)"
proof (cases "list_ex (\<lambda>ow. is_everyone e (po_target ow)) (gc_overwrites c)")
  case True
  then show ?thesis
    by (simp add: overwrite_state_def set_everyone_def
        find_updated [where g = "\<lambda>ow. ow\<lparr>po_allow := a, po_deny := d\<rparr>"])
next
  case False
  then show ?thesis by (simp add: overwrite_state_def set_everyone_def find_append find_no_ex [THEN iffD2])
qed

lemma change_simps [simp]:
  "ch_scope_ref (channel_change e c) = gc_ref_id c"
  "(ch_present (channel_change e c), ch_allow (channel_change e c), ch_deny (channel_change e c)) = overwrite_state e c"
  by (simp_all add: channel_change_def overwrite_state_def Let_def split: option.splits)

lemma rollback_undoes:
  assumes "one_everyone e c" and "overwrite_state e c = (present, allow, deny)"
  shows "(if present then set_everyone e allow deny else clear_everyone e) (set_everyone e a d c) = c"
proof (cases "find (\<lambda>ow. is_everyone e (po_target ow)) (gc_overwrites c)")
  case None
  then have "filter (\<lambda>ow. \<not> is_everyone e (po_target ow)) (gc_overwrites c) = gc_overwrites c"
    by (simp add: find_None_all filter_id_conv)
  moreover have "\<not> present" using None assms(2) by (simp add: overwrite_state_def)
  moreover have "\<not> list_ex (\<lambda>ow. is_everyone e (po_target ow)) (gc_overwrites c)" using None by (simp add: find_no_ex)
  ultimately show ?thesis by (simp add: clear_everyone_def set_everyone_def)
next
  case (Some ow)
  let ?set = "\<lambda>a d x. if is_everyone e (po_target x) then x\<lparr>po_allow := a, po_deny := d\<rparr> else x"
  from find_Some_in [OF Some] have ow: "ow \<in> set (gc_overwrites c)" "is_everyone e (po_target ow)" by auto
  have st: "present" "allow = po_allow ow" "deny = po_deny ow"
    using Some assms(2) by (simp_all add: overwrite_state_def)
  have ex: "list_ex (\<lambda>ow. is_everyone e (po_target ow)) (gc_overwrites c)"
    using ow by (auto simp: list_ex_iff)
  then have "list_ex (\<lambda>ow. is_everyone e (po_target ow)) (map (?set a d) (gc_overwrites c))"
    by (subst ex_updated [where g = "\<lambda>ow. ow\<lparr>po_allow := a, po_deny := d\<rparr>"]) simp_all
  moreover have "map (?set allow deny \<circ> ?set a d) (gc_overwrites c) = gc_overwrites c"
    using everyone_unique [OF assms(1) _ _ ow] st by (intro map_idI) simp
  ultimately show ?thesis using ex st(1) by (simp add: set_everyone_def)
qed

section \<open>Many scopes\<close>

lemma fold_at_scope:
  assumes "distinct (map k xs)" and "\<And>x c. gc_ref_id (f x c) = gc_ref_id c"
  shows "fold (\<lambda>x. at_scope (k x) (f x)) xs cs =
    map (\<lambda>c. case find (\<lambda>x. k x = gc_ref_id c) xs of None \<Rightarrow> c | Some x \<Rightarrow> f x c) cs"
  using assms(1)
proof (induction xs arbitrary: cs)
  case (Cons x xs)
  have "find (\<lambda>y. k y = k x) xs = None" using Cons.prems by (auto simp: find_None_all) (metis image_eqI)
  then show ?case
    using Cons by (auto simp: at_scope_def assms(2) split: option.splits)
qed simp

lemma find_change:
  assumes "distinct (map gc_ref_id cs)" "c \<in> set cs"
  shows "find (\<lambda>ch. ch_scope_ref ch = gc_ref_id c) (map (channel_change e) (filter P cs))
    = (if P c then Some (channel_change e c) else None)"
  using assms
proof (induction cs)
  case (Cons x cs)
  show ?case
  proof (cases "c = x")
    case True
    then have "find (\<lambda>ch. ch_scope_ref ch = gc_ref_id c) (map (channel_change e) (filter P cs)) = None"
      using Cons.prems by (auto simp: find_None_all) (metis image_eqI)
    with True show ?thesis by simp
  next
    case False
    with Cons.prems have "gc_ref_id x \<noteq> gc_ref_id c" "c \<in> set cs" by (auto simp: image_iff)
    with Cons show ?thesis by simp
  qed
qed simp

lemma desired_channels:
  "\<forall>ch\<in>set chs. ch_scope_ref ch \<noteq> gr_guild_ref r \<Longrightarrow>
   fold apply_desired (map (desired_state e) chs) r = r\<lparr>gr_channels :=
     fold (\<lambda>ch. at_scope (ch_scope_ref ch) (set_everyone e (ch_desired_allow ch) (ch_desired_deny ch)))
       chs (gr_channels r)\<rparr>"
  by (induction chs arbitrary: r) (simp_all add: apply_desired_def desired_state_def)

lemma rollback_channels:
  "\<forall>ch\<in>set chs. ch_scope_ref ch \<noteq> gr_guild_ref r \<Longrightarrow>
   fold apply_rollback (map (rollback_state e) chs) r = r\<lparr>gr_channels :=
     fold (\<lambda>ch. at_scope (ch_scope_ref ch)
         (if ch_present ch then set_everyone e (ch_allow ch) (ch_deny ch) else clear_everyone e))
       chs (gr_channels r)\<rparr>"
  by (induction chs arbitrary: r) (simp_all add: apply_rollback_def rollback_state_def)

definition muted :: "string \<Rightarrow> channel_record \<Rightarrow> channel_record" where
  "muted e c = (if overwrite_needs_change e c
     then set_everyone e (ch_desired_allow (channel_change e c)) (ch_desired_deny (channel_change e c)) c else c)"

lemma muted_ref [simp]: "gc_ref_id (muted e c) = gc_ref_id c"
  by (simp add: muted_def)

definition focused_changes :: "string \<Rightarrow> guild_recording \<Rightarrow> permission_change list" where
  "focused_changes e r = map (channel_change e) (filter (overwrite_needs_change e) (gr_channels r))"

lemma focused_scopes:
  assumes "distinct (map gc_ref_id (gr_channels r))" "gr_guild_ref r \<notin> set (map gc_ref_id (gr_channels r))"
  shows "distinct (map ch_scope_ref (focused_changes e r))"
    "\<forall>ch\<in>set (focused_changes e r). ch_scope_ref ch \<noteq> gr_guild_ref r"
proof -
  show "distinct (map ch_scope_ref (focused_changes e r))"
    using assms(1) by (simp add: focused_changes_def comp_def distinct_map_filter)
  show "\<forall>ch\<in>set (focused_changes e r). ch_scope_ref ch \<noteq> gr_guild_ref r"
    using assms(2) by (auto simp: focused_changes_def) (metis image_eqI)
qed

lemma focused_applied:
  assumes "distinct (map gc_ref_id (gr_channels r))" "gr_guild_ref r \<notin> set (map gc_ref_id (gr_channels r))"
  shows "fold apply_desired (map (desired_state e) (focused_changes e r)) r
    = r\<lparr>gr_channels := map (muted e) (gr_channels r)\<rparr>"
proof -
  have "fold (\<lambda>ch. at_scope (ch_scope_ref ch) (set_everyone e (ch_desired_allow ch) (ch_desired_deny ch)))
      (focused_changes e r) (gr_channels r) = map (muted e) (gr_channels r)"
    unfolding fold_at_scope [OF focused_scopes(1) [OF assms] set_everyone_ref]
    by (rule map_cong) (simp_all add: focused_changes_def find_change assms(1) muted_def)
  then show ?thesis by (simp add: desired_channels focused_scopes(2) [OF assms])
qed

lemma focused_undone:
  assumes "distinct (map gc_ref_id (gr_channels r))" "gr_guild_ref r \<notin> set (map gc_ref_id (gr_channels r))"
    and one: "\<forall>c\<in>set (gr_channels r). one_everyone e c"
  shows "fold apply_rollback (map (rollback_state e) (focused_changes e r))
      (r\<lparr>gr_channels := map (muted e) (gr_channels r)\<rparr>) = r"
proof -
  let ?f = "\<lambda>ch. if ch_present ch then set_everyone e (ch_allow ch) (ch_deny ch) else clear_everyone e"
  have ref: "gc_ref_id (?f ch c) = gc_ref_id c" for ch c by simp
  have "?f (channel_change e c) (muted e c) = c" if "c \<in> set (gr_channels r)" "overwrite_needs_change e c" for c
    using rollback_undoes [OF one [rule_format, OF that(1)] change_simps(2) [symmetric]] that(2)
    by (simp add: muted_def)
  then have "fold (\<lambda>ch. at_scope (ch_scope_ref ch) (?f ch)) (focused_changes e r) (map (muted e) (gr_channels r))
      = gr_channels r"
    unfolding fold_at_scope [OF focused_scopes(1) [OF assms(1,2)] ref] map_map
    by (intro map_idI) (auto simp: focused_changes_def find_change assms(1) muted_def)
  then show ?thesis by (simp add: rollback_channels focused_scopes(2) [OF assms(1,2)])
qed

section \<open>Normal form\<close>

lemma normal_roles:
  "gr_roles (normalize r) = sort_key ro_ref_id (gr_roles r)" "gr_guild_ref (normalize r) = gr_guild_ref r"
  "gr_channels (normalize r) = map normalize_channel (sort_key gc_ref_id (gr_channels r))"
  "gr_coverage (normalize r) = gr_coverage r" "gr_owner_ref (normalize r) = gr_owner_ref r"
  by (simp_all add: normalize_def)

lemma normal_everyone:
  assumes "validate_recording r = Inr ()"
  shows "everyone_role (normalize r) = everyone_role r"
proof -
  from assms have one: "length (everyone_roles r) = 1"
    by (auto simp: validate_recording_def invalid_recording_def split: if_splits)
  then obtain role where role: "filter (\<lambda>role. ro_position role = 0) (gr_roles r) = [role]"
    by (auto simp: everyone_roles_def length_Suc_conv)
  then have "filter (\<lambda>role. ro_position role = 0) (sort_key ro_ref_id (gr_roles r)) = [role]"
    by (simp add: filter_sort)
  with role show ?thesis by (simp add: everyone_role_def normal_roles find_hd_filter)
qed

lemma normal_channel [simp]:
  "gc_ref_id (normalize_channel c) = gc_ref_id c"
  "set (gc_overwrites (normalize_channel c)) = set (gc_overwrites c)"
  "one_everyone e (normalize_channel c) = one_everyone e c"
  by (simp_all add: normalize_channel_def one_everyone_def filter_sort)

lemma normal_recording:
  assumes "validate_recording r = Inr ()"
  shows "distinct (map gc_ref_id (gr_channels (normalize r)))" "distinct (map ro_ref_id (gr_roles (normalize r)))"
    "\<exists>role. everyone_role (normalize r) = Some role \<and> role \<in> set (gr_roles (normalize r)) \<and> ro_position role = 0"
    "\<forall>c\<in>set (gr_channels (normalize r)). one_everyone (everyone_ref (normalize r)) c"
proof -
  note v = valid_recording [OF assms]
  from v(1,2) show "distinct (map gc_ref_id (gr_channels (normalize r)))"
    "distinct (map ro_ref_id (gr_roles (normalize r)))"
    by (simp_all add: normal_roles comp_def distinct_map)
  from v(3) show "\<exists>role. everyone_role (normalize r) = Some role \<and> role \<in> set (gr_roles (normalize r)) \<and> ro_position role = 0"
    by (simp add: normal_everyone [OF assms] normal_roles)
  from v(4) valid_channel_one_everyone
  show "\<forall>c\<in>set (gr_channels (normalize r)). one_everyone (everyone_ref (normalize r)) c"
    by (fastforce simp: normal_roles everyone_ref_def normal_everyone [OF assms])
qed

section \<open>What a plan says\<close>

lemma channel_state:
  assumes "distinct (map gc_ref_id (gr_channels r))" "gr_guild_ref r \<notin> set (map gc_ref_id (gr_channels r))"
    and c: "c \<in> set (gr_channels r)"
  shows "observed_state r (gc_ref_id c) e = overwrite_state e c"
proof -
  have "find (\<lambda>x. gc_ref_id x = gc_ref_id c) (gr_channels r) = Some c"
    using assms(1) c by (intro find_unique) (auto dest: key_unique)
  moreover have "gc_ref_id c \<noteq> gr_guild_ref r" using assms(2) c by auto (metis image_eqI)
  ultimately show ?thesis by (simp add: observed_state_def)
qed

lemma length_filter_updated:
  "(\<And>x. P x \<Longrightarrow> P (g x)) \<Longrightarrow> length (filter P (map (\<lambda>x. if P x then g x else x) xs)) = length (filter P xs)"
  by (induction xs) auto

lemma set_everyone_one:
  assumes "one_everyone e c"
  shows "one_everyone e (set_everyone e a d c)"
proof (cases "list_ex (\<lambda>ow. is_everyone e (po_target ow)) (gc_overwrites c)")
  case True
  have "length (filter (\<lambda>ow. is_everyone e (po_target ow)) (map (\<lambda>ow. if is_everyone e (po_target ow)
      then ow\<lparr>po_allow := a, po_deny := d\<rparr> else ow) (gc_overwrites c))) \<le> 1"
    using assms by (subst length_filter_updated) (simp_all add: one_everyone_def)
  with True show ?thesis by (simp add: set_everyone_def one_everyone_def)
next
  case False
  then have "filter (\<lambda>ow. is_everyone e (po_target ow)) (gc_overwrites c) = []"
    by (auto simp: filter_empty_conv list_ex_iff)
  with False show ?thesis by (simp add: set_everyone_def one_everyone_def)
qed

lemma overwrite_state_True:
  "overwrite_state e c = (True, a, d) \<Longrightarrow>
   \<exists>ow\<in>set (gc_overwrites c). is_everyone e (po_target ow) \<and> po_allow ow = a \<and> po_deny ow = d"
  by (auto simp: overwrite_state_def split: option.splits dest: find_Some_in)

lemma send_bits: "\<not> bit (w AND NOT SEND_MESSAGES) 11" "bit (w OR SEND_MESSAGES) 11" for w :: "64 word"
  by (simp_all add: SEND_MESSAGES_def bit_and_iff bit_or_iff bit_not_iff bit_push_bit_iff bit_1_iff
      del: push_bit_of_1)

lemma muted_denies:
  assumes "one_everyone e c"
  shows "\<exists>ow\<in>set (gc_overwrites (muted e c)). is_everyone e (po_target ow)
    \<and> \<not> bit (po_allow ow) 11 \<and> bit (po_deny ow) 11"
proof (cases "overwrite_needs_change e c")
  case True
  let ?ch = "channel_change e c"
  from overwrite_state_True [OF set_everyone_state [of e "ch_desired_allow ?ch" "ch_desired_deny ?ch" c]] True
  obtain ow where ow: "ow \<in> set (gc_overwrites (muted e c))" "is_everyone e (po_target ow)"
    "po_allow ow = ch_desired_allow ?ch" "po_deny ow = ch_desired_deny ?ch" by (auto simp: muted_def)
  moreover have "\<not> bit (ch_desired_allow ?ch) 11" "bit (ch_desired_deny ?ch) 11"
    by (simp_all add: channel_change_def Let_def send_bits)
  ultimately show ?thesis by auto
next
  case False
  then show ?thesis by (auto simp: muted_def overwrite_needs_change_def list_ex_iff mask_bits)
qed

lemma muted_silent:
  assumes "one_everyone e c"
  shows "\<not> bit (fold apply_overwrite (filter (\<lambda>ow. is_everyone e (po_target ow)) (gc_overwrites (muted e c))) p) 11"
proof -
  have one: "one_everyone e (muted e c)" using assms by (simp add: muted_def set_everyone_one)
  obtain ow where ow: "ow \<in> set (gc_overwrites (muted e c))" "is_everyone e (po_target ow)"
    "\<not> bit (po_allow ow) 11" "bit (po_deny ow) 11" using muted_denies [OF assms] by auto
  let ?f = "filter (\<lambda>ow. is_everyone e (po_target ow)) (gc_overwrites (muted e c))"
  have len: "length ?f \<le> 1" using one by (simp add: one_everyone_def)
  have "ow \<in> set ?f" using ow(1,2) by simp
  moreover have "x = ow" if "x \<in> set ?f" for x using everyone_unique [OF one _ _ ow(1,2)] that by simp
  moreover have eleven: "(11::nat) < 64" by simp
  ultimately show ?thesis using ow(3,4) unfolding bit_fold_overwrite [OF len eleven, of p] by blast
qed

end
