(* ===== verification/Guild_Theorems.thy ===== *)
theory Guild_Theorems
  imports Guild_Facts "HOL-Library.Code_Target_Nat"
begin

text \<open>Properties of guild intelligence: the check of channel parents, and the plans of a replay.\<close>

section \<open>Parents\<close>

lemma walk_error:
  "walk_parents parents resolved path cursor = Inl e \<Longrightarrow>
   e = InvalidRecording ''cyclic channel parent relationship''"
  by (induction parents resolved path cursor rule: walk_parents.induct)
    (auto simp: invalid_recording_def split: if_splits)

lemma resolve_error:
  "resolve_parents parents resolved starts = Inl e \<Longrightarrow>
   e = InvalidRecording ''cyclic channel parent relationship''"
  by (induction starts arbitrary: resolved)
    (auto simp del: walk_parents.simps simp: rust_simps dest: walk_error)

text \<open>
  C24: The check of channel parents is exact. The walks that skip what earlier walks have passed end
  for every table of parents, report a cycle whenever some channel is its own ancestor, and report
  nothing when no channel is, however the channels are ordered and even when a parent is missing.
\<close>

theorem parent_check_exact:
  "resolve_parents (parent_table_of channels) [] (sort (map gc_ref_id channels)) =
     (if acyclic (parent_rel (parent_table_of channels)) then Inr ()
      else Inl (InvalidRecording ''cyclic channel parent relationship''))"
proof -
  have "set (sort (map gc_ref_id channels)) = fst ` set (parent_table_of channels)"
    by (auto simp: parent_table_of_def image_iff)
  from resolve_iff_acyclic [OF this] show ?thesis
    using resolve_error [of "parent_table_of channels" "[]" "sort (map gc_ref_id channels)"]
    by (cases "resolve_parents (parent_table_of channels) [] (sort (map gc_ref_id channels))") auto
qed

section \<open>Plans\<close>

lemma plan_parts:
  assumes "analyze E r (Some option_id) = Inr artifact"
  shows "\<exists>plan role changes observation. ra_plan artifact = Some plan \<and> everyone_role r = Some role
    \<and> plan_changes r role option_id = Inr changes
    \<and> pl_preconditions plan = map (condition_before observation (ro_ref_id role)) changes
    \<and> pl_desired_states plan = map (desired_state (ro_ref_id role)) changes
    \<and> pl_postconditions plan = map (condition_after observation (ro_ref_id role)) changes
    \<and> pl_rollback_preview plan = map (rollback_state (ro_ref_id role)) changes"
  using assms by (auto simp: analyze_def make_plan_def Let_def rust_simps split: if_splits)

lemma find_map_keeps: "(\<And>x. P (f x) = P x) \<Longrightarrow> find P (map f xs) = map_option f (find P xs)"
  by (induction xs) auto

lemma set_role_twice:
  assumes "distinct (map ro_ref_id roles)" "role \<in> set roles"
  shows "set_role (ro_ref_id role) (ro_permissions role) (set_role (ro_ref_id role) p roles) = roles"
proof -
  have "x\<lparr>ro_permissions := ro_permissions role\<rparr> = x" if "x \<in> set roles" "ro_ref_id x = ro_ref_id role" for x
    using key_unique [OF assms(1) that(1) assms(2) that(2)] by simp
  then show ?thesis unfolding set_role_def map_map by (intro map_idI) auto
qed

lemma role_state:
  assumes "distinct (map ro_ref_id (gr_roles r))" "role \<in> set (gr_roles r)"
  shows "observed_state r (gr_guild_ref r) (ro_ref_id role) = (True, ro_permissions role, 0)"
    "observed_state (r\<lparr>gr_roles := set_role (ro_ref_id role) p (gr_roles r)\<rparr>) (gr_guild_ref r) (ro_ref_id role)
      = (True, p, 0)"
proof -
  have found: "find (\<lambda>ro. ro_ref_id ro = ro_ref_id role) (gr_roles r) = Some role"
    using assms by (intro find_unique) (auto dest: key_unique [where k = ro_ref_id])
  then show "observed_state r (gr_guild_ref r) (ro_ref_id role) = (True, ro_permissions role, 0)"
    by (simp add: observed_state_def)
  from found show "observed_state (r\<lparr>gr_roles := set_role (ro_ref_id role) p (gr_roles r)\<rparr>) (gr_guild_ref r)
      (ro_ref_id role) = (True, p, 0)"
    by (simp add: observed_state_def set_role_def find_map_keeps)
qed

lemma focused_states:
  assumes "distinct (map gc_ref_id (gr_channels r))" "gr_guild_ref r \<notin> set (map gc_ref_id (gr_channels r))"
    and ch: "ch \<in> set (focused_changes e r)"
  shows "condition_holds r (condition_before observation e ch)"
    "condition_holds (r\<lparr>gr_channels := map (muted e) (gr_channels r)\<rparr>) (condition_after observation e ch)"
proof -
  from ch obtain c where c: "c \<in> set (gr_channels r)" "overwrite_needs_change e c" "ch = channel_change e c"
    by (auto simp: focused_changes_def)
  show "condition_holds r (condition_before observation e ch)"
    using channel_state [OF assms(1,2) c(1)] c(3)
    by (simp add: condition_holds_def condition_before_def)
  have "observed_state (r\<lparr>gr_channels := map (muted e) (gr_channels r)\<rparr>) (gc_ref_id (muted e c)) e
      = overwrite_state e (muted e c)"
    using assms(1,2) c(1) by (intro channel_state) (auto simp: comp_def image_image)
  then show "condition_holds (r\<lparr>gr_channels := map (muted e) (gr_channels r)\<rparr>) (condition_after observation e ch)"
    using c by (simp add: condition_holds_def condition_after_def muted_def set_everyone_state)
qed

text \<open>
  C22: Plans are exact and reversible. Whatever recording is accepted, if a selected alternative is
  answered then with a plan whose preconditions hold in the recording; after its desired states are
  applied the postconditions hold, and applying the rollback preview gives back the recording, with
  the absent overwrites absent again. The focused plan leaves no channel where everyone can send; the
  least-privilege plan takes just this permission from the role of everyone and leaves the channels
  alone. The scopes of a plan are references, so this asks that no channel carries the reference of
  the guild.
\<close>

theorem plan_reversible:
  assumes accepted: "from_json reader input = Inr s"
    and answered: "replay E (Some option_id) s = (Inr artifact, s')"
    and apart: "gr_guild_ref (gs_recording s) \<notin> set (map gc_ref_id (gr_channels (gs_recording s)))"
  shows "\<exists>plan role. ra_plan artifact = Some plan \<and> everyone_role (gs_recording s) = Some role \<and>
    (let r = gs_recording s; r' = fold apply_desired (pl_desired_states plan) r in
       list_all (condition_holds r) (pl_preconditions plan)
     \<and> list_all (condition_holds r') (pl_postconditions plan)
     \<and> fold apply_rollback (pl_rollback_preview plan) r' = r
     \<and> (option_id = ''focused-overwrite'' \<longrightarrow>
          list_all (\<lambda>c. everyone_permissions r' c AND SEND_MESSAGES = 0) (gr_channels r'))
     \<and> (option_id = ''least-privilege'' \<longrightarrow> gr_channels r' = gr_channels r \<and> everyone_role r' =
          Some (role\<lparr>ro_permissions := ro_permissions role AND NOT SEND_MESSAGES\<rparr>)))"
proof -
  define r where "r = gs_recording s"
  obtain r0 where r0: "validate_recording r0 = Inr ()" "r = normalize r0"
    using accepted by (auto simp: from_json_def r_def invalid_recording_def rust_simps split: if_splits)
  note n = normal_recording [OF r0(1), folded r0(2)]
  have "analyze E r (Some option_id) = Inr artifact" using answered by (simp add: replay_def r_def)
  from plan_parts [OF this] obtain plan role changes observation where
    plan: "ra_plan artifact = Some plan" "everyone_role r = Some role"
    and changes: "plan_changes r role option_id = Inr changes"
    and parts: "pl_preconditions plan = map (condition_before observation (ro_ref_id role)) changes"
      "pl_desired_states plan = map (desired_state (ro_ref_id role)) changes"
      "pl_postconditions plan = map (condition_after observation (ro_ref_id role)) changes"
      "pl_rollback_preview plan = map (rollback_state (ro_ref_id role)) changes" by blast
  have role: "role \<in> set (gr_roles r)" and e: "everyone_ref r = ro_ref_id role"
    using n(3) plan(2) by (auto simp: everyone_ref_def)
  let ?after = "fold apply_desired (pl_desired_states plan) r"
  consider "changes = []" "option_id = ''do-nothing''"
    | "changes = [role_change r role]" "option_id = ''least-privilege''"
    | "changes = focused_changes (ro_ref_id role) r" "option_id = ''focused-overwrite''"
    using changes by (auto simp: plan_changes_def focused_changes_def split: if_splits)
  then have "list_all (condition_holds r) (pl_preconditions plan)
     \<and> list_all (condition_holds ?after) (pl_postconditions plan)
     \<and> fold apply_rollback (pl_rollback_preview plan) ?after = r
     \<and> (option_id = ''focused-overwrite'' \<longrightarrow>
          list_all (\<lambda>c. everyone_permissions ?after c AND SEND_MESSAGES = 0) (gr_channels ?after))
     \<and> (option_id = ''least-privilege'' \<longrightarrow> gr_channels ?after = gr_channels r \<and> everyone_role ?after =
          Some (role\<lparr>ro_permissions := ro_permissions role AND NOT SEND_MESSAGES\<rparr>))"
  proof cases
    case 1
    then show ?thesis by (simp add: parts)
  next
    case 2
    let ?p = "ro_permissions role AND NOT SEND_MESSAGES"
    have after: "?after = r\<lparr>gr_roles := set_role (ro_ref_id role) ?p (gr_roles r)\<rparr>"
      by (simp add: parts 2 desired_state_def role_change_def apply_desired_def)
    have "everyone_role ?after = Some (role\<lparr>ro_permissions := ?p\<rparr>)"
      using plan(2) by (simp add: after everyone_role_def set_role_def find_map_keeps)
    then show ?thesis
      using role_state [OF n(2) role] set_role_twice [OF n(2) role]
      by (simp add: after) (simp add: parts 2 condition_holds_def condition_before_def condition_after_def
          rollback_state_def role_change_def apply_rollback_def)
  next
    case 3
    note apart' = apart [folded r_def]
    have after: "?after = r\<lparr>gr_channels := map (muted (ro_ref_id role)) (gr_channels r)\<rparr>"
      unfolding parts 3 by (rule focused_applied [OF n(1) apart'])
    have one: "\<forall>c\<in>set (gr_channels r). one_everyone (ro_ref_id role) c" using n(4) e by simp
    have "everyone_ref ?after = ro_ref_id role" using e by (simp add: after everyone_ref_def everyone_role_def)
    then have "everyone_permissions ?after (muted (ro_ref_id role) c) AND SEND_MESSAGES = 0"
      if "c \<in> set (gr_channels r)" for c
      using muted_silent [OF one [rule_format, OF that]] unfolding mask_bits everyone_permissions_def by simp
    then have "list_all (\<lambda>c. everyone_permissions ?after c AND SEND_MESSAGES = 0) (gr_channels ?after)"
      by (simp add: after list_all_iff)
    moreover have "fold apply_rollback (pl_rollback_preview plan) ?after = r"
      unfolding after unfolding parts 3 by (rule focused_undone [OF n(1) apart' one])
    moreover have "list_all (condition_holds r) (pl_preconditions plan)"
      "list_all (condition_holds ?after) (pl_postconditions plan)"
      unfolding after unfolding parts 3 using focused_states [OF n(1) apart'] by (auto simp: list_all_iff)
    ultimately show ?thesis using 3(2) by simp
  qed
  with plan show ?thesis unfolding r_def Let_def by blast
qed

text \<open>A guild with two channels, where an overwrite of one restores what the other leaves open.\<close>

definition guild_ext :: externals where
  "guild_ext = \<lparr>uuid_canonical = (\<lambda>_. None), parse_from_rfc3339 = (\<lambda>_. None), rfc3339_millis = (\<lambda>_. None),
     json_to_string = (\<lambda>_. []), json_from_str = (\<lambda>_. None), sha256 = (\<lambda>_. [])\<rparr>"

definition open_channel :: channel_record where
  "open_channel = \<lparr>gc_ref_id = ''b'', gc_parent_ref = Some ''c'', gc_kind = KindText, gc_overwrites = []\<rparr>"

definition loud_channel :: channel_record where
  "loud_channel = \<lparr>gc_ref_id = ''c'', gc_parent_ref = None, gc_kind = KindCategory,
     gc_overwrites = [\<lparr>po_target = OnRole ''a'', po_allow = 2048, po_deny = 1024\<rparr>]\<rparr>"

definition sample_guild :: guild_recording where
  "sample_guild = \<lparr>gr_schema_version = 1, gr_synthetic = True, gr_observed_at_unix = 0, gr_guild_ref = ''g'',
     gr_operator_ref = ''o'', gr_operator_authority = OwnerAuthority, gr_owner_ref = ''o'',
     gr_roles = [\<lparr>ro_ref_id = ''a'', ro_position = 0, ro_permissions = 3072, ro_managed = False\<rparr>],
     gr_channels = [loud_channel, open_channel], gr_active_threads = [],
     gr_bot_self = \<lparr>bs_ref_id = ''m'', bs_role_refs = []\<rparr>,
     gr_coverage = \<lparr>rv_guild = True, rv_roles = True, rv_channels = True, rv_active_threads = True,
       rv_audit_log = AuditObserved\<rparr>\<rparr>"

definition guild_s :: guild_source where
  "guild_s = \<lparr>gs_recording = normalize sample_guild, gs_operations = []\<rparr>"

definition guild_artifact :: replay_artifact where
  "guild_artifact = projr (fst (replay guild_ext (Some ''focused-overwrite'') guild_s))"

theorem plan_reversible_witness:
  "\<exists>plan. ra_plan guild_artifact = Some plan
   \<and> map ds_scope_ref (pl_desired_states plan) = [''b'', ''c'']
   \<and> fold apply_rollback (pl_rollback_preview plan)
       (fold apply_desired (pl_desired_states plan) (normalize sample_guild)) = normalize sample_guild"
proof -
  have s: "from_json (\<lambda>_. Inr sample_guild) [] = Inr guild_s" by code_simp
  have "is_ok (fst (replay guild_ext (Some ''focused-overwrite'') guild_s))" by code_simp
  then have a: "replay guild_ext (Some ''focused-overwrite'') guild_s
      = (Inr guild_artifact, snd (replay guild_ext (Some ''focused-overwrite'') guild_s))"
    unfolding guild_artifact_def by (auto simp: is_ok_iff prod_eq_iff)
  have g: "gr_guild_ref (gs_recording guild_s) \<notin> set (map gc_ref_id (gr_channels (gs_recording guild_s)))"
    by code_simp
  have d: "map_option (\<lambda>p. map ds_scope_ref (pl_desired_states p)) (ra_plan guild_artifact) = Some [''b'', ''c'']"
    by code_simp
  have r: "gs_recording guild_s = normalize sample_guild" by (simp add: guild_s_def)
  from plan_reversible [OF s a g] d show ?thesis unfolding Let_def r by auto
qed

end
