(* ===== verification/Spec2Isabelle.thy ===== *)
theory Spec2Isabelle
  imports Run_Theorems Manager_Theorems Ledger_Theorems Wire_Theorems V4_Theorems Provider_Theorems Schedule_Theorems Dispatch_Theorems
    V3_Theorems Daemon_Theorems Guild_Theorems
begin

text \<open>
  \<^bold>\<open>Abbey's durable runtime, modelled and verified.\<close>

  Abbey is a local assistant: a daemon accepts commands over a socket, records every run,
  tool call and model operation in a SQLite store, and executes accepted runs on one worker.
  This development models the part that carries the guarantees: the application contracts
  (\<open>src/src/app_core\<close>), the runtime store (\<open>src/src/runtime/store*\<close>), the run manager and the
  provider executor (\<open>src/src/runtime/manager*\<close>, \<open>provider*\<close>), the client's reducer
  (\<open>src/src/run_control.rs\<close>), the schedules of automations (\<open>src/src/automation_schedule*\<close>), the
  daemon between a frame and the store (\<open>src/src/daemon\<close>), and the offline analysis of guild recordings
  (\<open>src/src/app_core/guild_intelligence*\<close>), which stands apart from the runtime.

  \<^bold>\<open>How the code is represented.\<close> A struct is a \<open>record\<close>, an enum a \<open>datatype\<close>, a
  \<open>Result\<close> a sum with the error on the left, and every \<open>?\<close>, early return and error is a
  branch. Strings are lists of UTF-8 bytes. \<open>u64\<close> values are naturals with their bounds
  written where the code converts or adds with a check, \<open>i64\<close> columns are integers, frame
  prefixes are 32-bit words. A database is a record of tables, a table a list of rows with
  the raw column values; a statement checks the constraints of the schema, and a transaction
  that fails leaves the database as it was. What the code takes from third-party crates (the
  uuid, RFC 3339 and JSON parsers, SHA-256) is a field of \<open>externals\<close>, calendars and time zones
  are fields of \<open>chrono\<close>; clocks, fresh identifiers, the executor and the steps of other threads
  are fields of \<open>world\<close>.

  \<^bold>\<open>Theories.\<close>
  \<^item> \<open>Abbey_Prelude\<close>: results, bounded integers, bytes, JSON, list lemmas, and the locale
    \<open>state_ledger\<close>, the contract of a store whose entries move along a machine and whose
    logs only grow.
  \<^item> \<open>App_Run\<close>, \<open>App_Contracts\<close>, \<open>Route_Audit\<close>: the contracts and their validation.
  \<^item> \<open>Run_Control\<close>: the command grammar and the reducer that merges daemon responses.
  \<^item> \<open>Runtime_Db\<close>, \<open>Run_Store\<close>: tables, statements and the operations on runs;
    \<open>Run_Store_Facts\<close>: codecs, the well-formedness invariant, and each operation's effect.
  \<^item> \<open>Run_Ledger\<close>: the steps of the store, the locale \<open>run_ledger\<close> with its interpretation on
    them, the abstract ledger and the refinement of every operation.
  \<^item> \<open>Run_Pages\<close>: pages and snapshots as views of the log, and the reader that follows pages
    while the store moves on.
  \<^item> \<open>Run_Manager\<close>, \<open>Run_Manager_Facts\<close>: the manager, its worker, and convergence of its
    retry loops under interference.
  \<^item> \<open>Tool_Ledger\<close>, \<open>Tool_Ledger_Facts\<close>: approvals and executions of tool calls.
  \<^item> \<open>Model_Ops\<close>: model operations. \<open>Audit_Log\<close>: audit events and their sanitiser.
    \<open>Framing\<close>: frames and bounded serialisation.
  \<^item> \<open>Wire_Codec\<close>: readers of JSON objects with the locale \<open>codec\<close> of a writer and its reader.
    \<open>V4_Contract\<close>, \<open>V4_Wire\<close>: the records of conversations, messages, turns and transcripts
    (\<open>app_core/v4/conversation.rs\<close>, \<open>v4_content.rs\<close>), their validation and their readers.
  \<^item> \<open>V4_Conversations\<close>, \<open>V4_Turns\<close>: every operation of \<open>store/v4.rs\<close> and \<open>store/v4_turn.rs\<close>;
    \<open>V4_Facts\<close>, \<open>V4_Steps\<close>, \<open>V4_Transcript\<close>, \<open>V4_Preview\<close>: the steps of the store with turns, the
    invariant that a transcript ends exactly when its run does, and the preview of an answer;
    \<open>V4_Reading\<close>, \<open>V4_Reader\<close>: pages of a transcript and the reader that follows them.
  \<^item> \<open>V4_Context\<close>, \<open>V4_Context_Facts\<close>: the history a turn is given (\<open>store/v4_context.rs\<close>);
    \<open>Provider\<close>, \<open>Provider_Facts\<close>: prompts, sinks and the executor of a turn.
  \<^item> \<open>Automation_Schedule\<close>, \<open>Cron_Facts\<close>, \<open>Schedule_Facts\<close>: cron expressions, the search for the next
    occurrence over a time zone with gaps and folds, previews and catching up.
  \<^item> \<open>V4_Admin\<close>, \<open>V4_Tasks\<close>, \<open>V4_Protocol\<close>: permission profiles, actions, tasks, automations, the
    commands and events of protocol version 4, their capabilities and the pairing of a command with
    its answer; \<open>V4_Dispatch\<close>, \<open>Dispatch_Facts\<close>, \<open>Dispatch_Store\<close>: the handler of the daemon, the
    dispatcher and the trimming of responses.
  \<^item> \<open>V3_Protocol\<close>: the commands and events of protocol version 3 (\<open>app_core/v3*.rs\<close>), their
    validation and the digest that binds a tool call to its approval; \<open>Safe_Tools\<close>: the registry of
    read-only tools (\<open>mcp_host/tools.rs\<close>) and the catalog of the daemon; \<open>V3_Memory\<close>,
    \<open>V3_Memory_Facts\<close>: memory reads over cached snapshots and the labels that hide paths
    (\<open>daemon/runtime_v3/memory_reads.rs\<close>); \<open>V3_Runtime\<close>, \<open>V3_Runtime_Facts\<close>: the authority of protocol 3
    (\<open>daemon/runtime_v3.rs\<close>) with the trace of its effects on the memory, and the invariant that every
    effect was approved.
  \<^item> \<open>Federation\<close>: the federation contract (\<open>daemon/federation*\<close>). \<open>Daemon_Server\<close>: bearer, rate
    limit, envelopes, dispatchers and one connection (\<open>daemon/config.rs\<close>, \<open>server.rs\<close>,
    \<open>server/unix.rs\<close>), over any handler.
  \<^item> \<open>Guild_Intelligence\<close>, \<open>Guild_Facts\<close>: recordings of a guild's roles and channels
    (\<open>app_core/guild_intelligence*\<close>), their validation, the permissions of the bot bit by bit, findings
    and plans, and what the states of a plan mean.
  \<^item> \<open>Sample_World\<close>, \<open>V4_Samples\<close>: concrete externals and states that make the hypotheses concrete.
  \<^item> \<open>Run_Theorems\<close>, \<open>Manager_Theorems\<close>, \<open>Ledger_Theorems\<close>, \<open>Wire_Theorems\<close>, \<open>V4_Theorems\<close>,
    \<open>Provider_Theorems\<close>, \<open>Schedule_Theorems\<close>, \<open>Dispatch_Theorems\<close>, \<open>V3_Theorems\<close>,
    \<open>Daemon_Theorems\<close>, \<open>Guild_Theorems\<close>: the properties.

  \<^bold>\<open>Bounds and fuel.\<close> The retry loops of the manager run eight times in the code and in the
  model; they are shown to need at most five, because every failed attempt has seen the run
  climb the lifecycle, whose rank is at most four. The worker's loop takes a bound on its turns
  because it waits while the channel is open; after shutdown one turn per queued item and one
  more are shown to be enough. The theorems about the manager ask for room in the event
  counter of the run, which is a 63-bit number in the code. The search for an occurrence walks the
  2932 days of the code, and a wall time in a gap is moved by at most 2881 minutes; the theorems ask
  that gaps of the zone are shorter. Pages are shortened until they fit: each round drops one item.
  Page sizes are bounded through \<open>wire_bounded\<close>, an upper bound of the printed length of a value by
  its structure, which the JSON printer satisfies.

  \<^bold>\<open>Not modelled.\<close> Opening the database file, PRAGMAs and migrations; the condition variable
  on which callers wait; the readers of administrative records and commands from JSON; the local
  models of protocol version 3, whose worker belongs to external crates; governed tools, whose plans
  and leases are types of an external crate; conversation identity, legacy import, child processes,
  sockets and the configuration read from files, the terminal interface, the agents and the learning
  crate.
\<close>

end
